(* ===== verification/Prelude.thy ===== *)
theory Prelude
  imports Main "HOL-Library.DAList" "HOL-Library.Sublist" "HOL-Library.Multiset"
begin

text \<open>
  What the components share: text as lists of characters with the Rust string operations
  the program uses, the saturating integer operations, hash maps, and
  the collections \<open>hmap_simps\<close> and \<open>text_simps\<close> the component proofs rewrite with.

  A Rust \<open>String\<close> is a sequence of Unicode scalar values; here it is a \<open>string\<close> over an
  alphabet of 256 characters: the scalar values below 256 (Latin-1), except that the codes 144,
  151 and 166 stand for the arrow (U+2192), the em dash (U+2014) and the ellipsis (U+2026), which
  the program writes itself. On such text the operations below
  agree with the ones of the standard library: \<open>trim\<close> and \<open>split_whitespace\<close>
  use the \<open>White_Space\<close> property, \<open>to_lowercase\<close> the Unicode lower-case
  mapping, the \<open>ascii\<close> variants touch A-Z and a-z only.
\<close>

named_theorems hmap_simps
named_theorems text_simps
named_theorems state_simps
named_theorems step_defs

section \<open>Text\<close>

definition code_point :: "char \<Rightarrow> nat" where
  "code_point c = of_char c"

definition is_whitespace :: "char \<Rightarrow> bool" where
  "is_whitespace c \<longleftrightarrow>
     (9 \<le> code_point c \<and> code_point c \<le> 13) \<or> code_point c = 32
     \<or> code_point c = 133 \<or> code_point c = 160"

definition trim_start :: "string \<Rightarrow> string" where
  "trim_start s = dropWhile is_whitespace s"

definition trim_end :: "string \<Rightarrow> string" where
  "trim_end s = rev (dropWhile is_whitespace (rev s))"

definition trim :: "string \<Rightarrow> string" where
  "trim s = trim_end (trim_start s)"

definition ascii_lower :: "char \<Rightarrow> char" where
  "ascii_lower c =
     (if 65 \<le> code_point c \<and> code_point c \<le> 90 then char_of (code_point c + 32) else c)"

definition ascii_upper :: "char \<Rightarrow> char" where
  "ascii_upper c =
     (if 97 \<le> code_point c \<and> code_point c \<le> 122 then char_of (code_point c - 32) else c)"

definition to_ascii_lowercase :: "string \<Rightarrow> string" where
  "to_ascii_lowercase s = map ascii_lower s"

definition to_ascii_uppercase :: "string \<Rightarrow> string" where
  "to_ascii_uppercase s = map ascii_upper s"

definition to_lowercase :: "string \<Rightarrow> string" where
  "to_lowercase s =
     map (\<lambda>c. if (65 \<le> code_point c \<and> code_point c \<le> 90)
               \<or> (192 \<le> code_point c \<and> code_point c \<le> 222 \<and> code_point c \<noteq> 215)
             then char_of (code_point c + 32) else c) s"

definition eq_ignore_ascii_case :: "string \<Rightarrow> string \<Rightarrow> bool" where
  "eq_ignore_ascii_case a b \<longleftrightarrow> to_ascii_lowercase a = to_ascii_lowercase b"

definition is_ascii_digit :: "char \<Rightarrow> bool" where
  "is_ascii_digit c \<longleftrightarrow> 48 \<le> code_point c \<and> code_point c \<le> 57"

definition is_ascii_alphabetic :: "char \<Rightarrow> bool" where
  "is_ascii_alphabetic c \<longleftrightarrow>
     (65 \<le> code_point c \<and> code_point c \<le> 90) \<or> (97 \<le> code_point c \<and> code_point c \<le> 122)"

text \<open>\<open>contains\<close> on a substring, and the first occurrence of a substring cut out.\<close>

fun contains_str :: "string \<Rightarrow> string \<Rightarrow> bool" where
  "contains_str pat [] \<longleftrightarrow> pat = []"
| "contains_str pat (c # cs) \<longleftrightarrow> prefix pat (c # cs) \<or> contains_str pat cs"

definition strip_prefix :: "string \<Rightarrow> string \<Rightarrow> string option" where
  "strip_prefix p s = (if prefix p s then Some (drop (length p) s) else None)"

definition split_once :: "char \<Rightarrow> string \<Rightarrow> (string \<times> string) option" where
  "split_once c s =
     (if c \<in> set s then Some (takeWhile (\<lambda>x. x \<noteq> c) s, tl (dropWhile (\<lambda>x. x \<noteq> c) s))
      else None)"

text \<open>
  \<open>split_whitespace\<close>: the maximal runs of non-white characters. The accumulator holds the
  current run in reverse.
\<close>

fun split_ws_acc :: "string \<Rightarrow> string \<Rightarrow> string list" where
  "split_ws_acc [] acc = (if acc = [] then [] else [rev acc])"
| "split_ws_acc (c # cs) acc =
     (if is_whitespace c then (if acc = [] then [] else [rev acc]) @ split_ws_acc cs []
      else split_ws_acc cs (c # acc))"

definition split_whitespace :: "string \<Rightarrow> string list" where
  "split_whitespace s = split_ws_acc s []"

fun join_with :: "string \<Rightarrow> string list \<Rightarrow> string" where
  "join_with sep [] = []"
| "join_with sep [x] = x"
| "join_with sep (x # y # zs) = x @ sep @ join_with sep (y # zs)"

text \<open>Decimal rendering of an unsigned integer (\<open>Display\<close> of \<open>u32\<close>, \<open>u64\<close>).\<close>

fun nat_digits :: "nat \<Rightarrow> string" where
  "nat_digits n =
     (if n < 10 then [char_of (48 + n)] else nat_digits (n div 10) @ [char_of (48 + n mod 10)])"

declare nat_digits.simps [simp del]

definition right_arrow :: char where
  "right_arrow = char_of (144 :: nat)"

definition em_dash :: char where
  "em_dash = char_of (151 :: nat)"

definition ellipsis :: char where
  "ellipsis = char_of (166 :: nat)"

definition newline :: string where
  "newline = [char_of (10 :: nat)]"

definition int_digits :: "int \<Rightarrow> string" where
  "int_digits i = (if i < 0 then ''-'' @ nat_digits (nat (- i)) else nat_digits (nat i))"

text \<open>The \<open>{:?}\<close> form of a string: quotes, escapes, and \<open>\\u{..}\<close> for what cannot be printed.\<close>

definition hex_digit :: "nat \<Rightarrow> char" where
  "hex_digit n = char_of (if n < 10 then 48 + n else 87 + n)"

definition hex_code :: "nat \<Rightarrow> string" where
  "hex_code n = (if n < 16 then [hex_digit n] else [hex_digit (n div 16), hex_digit (n mod 16)])"

definition debug_char :: "char \<Rightarrow> string" where
  "debug_char c =
     (let n = code_point c
      in if n = 0x22 \<or> n = 0x5C then [CHR 0x5C, c]
         else if n = 0 then [CHR 0x5C, CHR ''0'']
         else if n = 9 then [CHR 0x5C, CHR ''t'']
         else if n = 10 then [CHR 0x5C, CHR ''n'']
         else if n = 13 then [CHR 0x5C, CHR ''r'']
         else if n < 32 \<or> (127 \<le> n \<and> n \<le> 160 \<and> n \<notin> {144, 151}) \<or> n = 173
         then [CHR 0x5C] @ ''u{'' @ hex_code n @ ''}''
         else [c])"

definition debug_string :: "string \<Rightarrow> string" where
  "debug_string s = [CHR 0x22] @ concat (map debug_char s) @ [CHR 0x22]"

text \<open>\<open>parse::<u64>\<close> and its kin: an optional plus sign, then at least one ASCII digit.\<close>

definition digits_value :: "string \<Rightarrow> nat" where
  "digits_value s = foldl (\<lambda>acc c. acc * 10 + (code_point c - 48)) 0 s"

definition parse_unsigned :: "nat \<Rightarrow> string \<Rightarrow> nat option" where
  "parse_unsigned max_value s =
     (let d = (case s of [] \<Rightarrow> [] | c # cs \<Rightarrow> if c = CHR ''+'' then cs else s)
      in if d \<noteq> [] \<and> (\<forall>c \<in> set d. is_ascii_digit c) \<and> digits_value d \<le> max_value
         then Some (digits_value d) else None)"

subsection \<open>Facts about text\<close>

lemma dropWhile_hd_not: "dropWhile P xs \<noteq> [] \<Longrightarrow> \<not> P (hd (dropWhile P xs))"
  by (induction xs) auto

lemma dropWhile_id: "xs = [] \<or> \<not> P (hd xs) \<Longrightarrow> dropWhile P xs = xs"
  by (cases xs) auto

lemma trim_end_hd:
  assumes "trim_end s \<noteq> []"
  shows "hd (trim_end s) = hd s"
proof -
  have "s = trim_end s @ rev (takeWhile is_whitespace (rev s))"
    unfolding trim_end_def by (metis rev_append rev_rev_ident takeWhile_dropWhile_id)
  then show ?thesis using assms by (metis hd_append2)
qed

lemma trim_end_idem [text_simps]: "trim_end (trim_end s) = trim_end s"
proof -
  have "dropWhile is_whitespace (dropWhile is_whitespace (rev s)) = dropWhile is_whitespace (rev s)"
    using dropWhile_hd_not [of is_whitespace "rev s"] by (intro dropWhile_id) blast
  then show ?thesis by (simp add: trim_end_def)
qed

lemma trim_hd: "trim s \<noteq> [] \<Longrightarrow> \<not> is_whitespace (hd (trim s))"
proof -
  assume ne: "trim s \<noteq> []"
  then have "hd (trim s) = hd (trim_start s)"
    unfolding trim_def by (rule trim_end_hd)
  moreover have "trim_start s \<noteq> []"
    using ne by (auto simp: trim_def trim_end_def)
  ultimately show ?thesis
    by (metis dropWhile_hd_not trim_start_def)
qed

lemma trim_idem [text_simps]: "trim (trim s) = trim s"
proof -
  have start: "trim_start (trim s) = trim s"
    using trim_hd [of s] by (cases "trim s = []") (simp_all add: trim_start_def dropWhile_id)
  have "trim (trim s) = trim_end (trim s)"
    by (simp add: trim_def [of "trim s"] start)
  also have "\<dots> = trim s"
    by (simp add: trim_def trim_end_idem)
  finally show ?thesis .
qed

lemma ascii_lower_idem [text_simps]: "ascii_lower (ascii_lower c) = ascii_lower c"
  by (auto simp: ascii_lower_def code_point_def)

lemma to_ascii_lowercase_idem [text_simps]:
  "to_ascii_lowercase (to_ascii_lowercase s) = to_ascii_lowercase s"
  by (simp add: to_ascii_lowercase_def comp_def ascii_lower_idem)

lemma to_ascii_lowercase_Nil [text_simps]: "to_ascii_lowercase s = [] \<longleftrightarrow> s = []"
  by (simp add: to_ascii_lowercase_def)

lemma ascii_lower_whitespace [text_simps]: "is_whitespace (ascii_lower c) = is_whitespace c"
  by (auto simp: is_whitespace_def ascii_lower_def code_point_def)

lemma contains_str_append: "contains_str pat (a @ pat @ b)"
proof (induction a)
  case Nil
  have "prefix pat (pat @ b)" by simp
  then show ?case by (cases "pat @ b") auto
qed simp

lemma contains_str_sublist: "contains_str pat s \<longleftrightarrow> (\<exists>a b. s = a @ pat @ b)"
proof
  show "contains_str pat s \<Longrightarrow> \<exists>a b. s = a @ pat @ b"
  proof (induction s)
    case (Cons c cs)
    then consider b where "c # cs = pat @ b" | a b where "cs = a @ pat @ b"
      by (auto simp: prefix_def)
    then show ?case
    proof cases
      case 1
      then show ?thesis by (intro exI [of _ "[]"] exI [of _ b]) simp
    next
      case 2
      then show ?thesis by (intro exI [of _ "c # a"] exI [of _ b]) simp
    qed
  qed simp
qed (auto intro: contains_str_append)

text \<open>Printing a number and reading it back.\<close>

lemma code_point_char_of: "n < 256 \<Longrightarrow> code_point (char_of n) = n"
  by (simp add: code_point_def)

lemma digits_value_append: "digits_value (s @ [c]) = digits_value s * 10 + (code_point c - 48)"
  by (simp add: digits_value_def)

lemma digits_value_nat_digits [simp]: "digits_value (nat_digits n) = n"
proof (induction n rule: nat_digits.induct)
  case (1 n)
  show ?case
  proof (cases "n < 10")
    case True
    then show ?thesis
      by (subst nat_digits.simps) (simp add: digits_value_def code_point_char_of)
  next
    case False
    then show ?thesis
      using 1 by (subst nat_digits.simps) (simp add: digits_value_append code_point_char_of)
  qed
qed

lemma nat_digits_inj: "nat_digits m = nat_digits n \<Longrightarrow> m = n"
  by (metis digits_value_nat_digits)

lemma nat_digits_not_Nil [simp]: "nat_digits n \<noteq> []"
  by (subst nat_digits.simps) simp

lemma nat_digits_digits: "c \<in> set (nat_digits n) \<Longrightarrow> is_ascii_digit c"
proof (induction n rule: nat_digits.induct)
  case (1 n)
  have digit: "is_ascii_digit (char_of (48 + k))" if "k < 10" for k :: nat
    using that by (simp add: is_ascii_digit_def code_point_char_of)
  from "1.prems" have "c \<in> set (if n < 10 then [char_of (48 + n)]
                      else nat_digits (n div 10) @ [char_of (48 + n mod 10)])"
    by (subst (asm) nat_digits.simps)
  then consider "n < 10" "c = char_of (48 + n)" | "\<not> n < 10" "c \<in> set (nat_digits (n div 10))"
    | "c = char_of (48 + n mod 10)"
    by (cases "n < 10") (simp_all only: if_True if_False set_append Un_iff list.set insert_iff empty_iff, blast+)
  then show ?case
  proof cases
    case 1
    then show ?thesis using digit by simp
  next
    case 2
    then show ?thesis using "1.IH" by simp
  next
    case 3
    then show ?thesis using digit [of "n mod 10"] by simp
  qed
qed

section \<open>Machine integers\<close>

text \<open>
  The unsigned counters are \<open>nat\<close> with their width written out where the source
  saturates; signed millisecond values are \<open>int\<close>.
\<close>

definition u32_max :: nat where
  "u32_max = 4294967295"

definition u64_max :: nat where
  "u64_max = 18446744073709551615"

definition i64_max :: int where
  "i64_max = 9223372036854775807"

definition i64_min :: int where
  "i64_min = - 9223372036854775808"

definition sat_add_u32 :: "nat \<Rightarrow> nat \<Rightarrow> nat" where
  "sat_add_u32 a b = min (a + b) u32_max"

definition sat_add_u64 :: "nat \<Rightarrow> nat \<Rightarrow> nat" where
  "sat_add_u64 a b = min (a + b) u64_max"

definition sat_mul_u64 :: "nat \<Rightarrow> nat \<Rightarrow> nat" where
  "sat_mul_u64 a b = min (a * b) u64_max"

definition clamp_i64 :: "int \<Rightarrow> int" where
  "clamp_i64 x = max i64_min (min i64_max x)"

definition sat_sub_i64 :: "int \<Rightarrow> int \<Rightarrow> int" where
  "sat_sub_i64 a b = clamp_i64 (a - b)"

definition sat_mul_i64 :: "int \<Rightarrow> int \<Rightarrow> int" where
  "sat_mul_i64 a b = clamp_i64 (a * b)"

text \<open>The counters that stick at the largest value of their type.\<close>

locale saturating_counter =
  fixes add :: "nat \<Rightarrow> nat \<Rightarrow> nat" and top :: nat
  assumes add_eq: "add a b = min (a + b) top"
begin

lemma add_le_top: "add a b \<le> top"
  by (simp add: add_eq)

lemma add_grows: "a \<le> top \<Longrightarrow> a \<le> add a b"
  by (simp add: add_eq)

lemma add_zero: "a \<le> top \<Longrightarrow> add a 0 = a"
  by (simp add: add_eq)

lemma add_add: "add (add a b) c = add a (b + c)"
  by (simp add: add_eq)

lemma add_mono: "a \<le> a' \<Longrightarrow> add a b \<le> add a' b"
  by (simp add: add_eq)

lemma fold_add: "a \<le> top \<Longrightarrow> fold (\<lambda>b a. add a b) bs a = min (a + sum_list bs) top"
proof (induction bs arbitrary: a)
  case (Cons b bs)
  have "fold (\<lambda>b a. add a b) bs (add a b) = min (add a b + sum_list bs) top"
    by (rule Cons.IH) (rule add_le_top)
  then show ?case by (simp add: add_eq)
qed simp

end

interpretation u32: saturating_counter sat_add_u32 u32_max
  by unfold_locales (simp add: sat_add_u32_def)

interpretation u64: saturating_counter sat_add_u64 u64_max
  by unfold_locales (simp add: sat_add_u64_def)

lemma sat_add_u64_bound [simp]: "sat_add_u64 a b \<le> u64_max"
  by (rule u64.add_le_top)

section \<open>Hash maps\<close>

text \<open>
  A \<open>HashMap\<close> is an association list with distinct keys. Lookups do not depend on the
  order of the list; where the code iterates over a map, the model goes through the list.
  The order of a Rust hash map is unspecified: the theorems hold of every map, so of every
  order of the entries.
\<close>

type_synonym ('k, 'v) hmap = "('k, 'v) DAList.alist"

definition hempty :: "('k, 'v) hmap" where
  "hempty = DAList.empty"

definition hget :: "('k, 'v) hmap \<Rightarrow> 'k \<Rightarrow> 'v option" where
  "hget m k = DAList.lookup m k"

definition hput :: "'k \<Rightarrow> 'v \<Rightarrow> ('k, 'v) hmap \<Rightarrow> ('k, 'v) hmap" where
  "hput k v m = DAList.update k v m"

definition hdel :: "'k \<Rightarrow> ('k, 'v) hmap \<Rightarrow> ('k, 'v) hmap" where
  "hdel k m = DAList.delete k m"

definition hitems :: "('k, 'v) hmap \<Rightarrow> ('k \<times> 'v) list" where
  "hitems m = DAList.impl_of m"

definition hkeys :: "('k, 'v) hmap \<Rightarrow> 'k list" where
  "hkeys m = map fst (hitems m)"

definition hvals :: "('k, 'v) hmap \<Rightarrow> 'v list" where
  "hvals m = map snd (hitems m)"

definition hlen :: "('k, 'v) hmap \<Rightarrow> nat" where
  "hlen m = length (hitems m)"

definition hretain :: "('k \<Rightarrow> 'v \<Rightarrow> bool) \<Rightarrow> ('k, 'v) hmap \<Rightarrow> ('k, 'v) hmap" where
  "hretain P m = DAList.filter (\<lambda>(k, v). P k v) m"

definition hmember :: "('k, 'v) hmap \<Rightarrow> 'k \<Rightarrow> bool" where
  "hmember m k \<longleftrightarrow> hget m k \<noteq> None"

text \<open>\<open>get_mut\<close> with an update of the value found.\<close>

definition hmodify :: "'k \<Rightarrow> ('v \<Rightarrow> 'v) \<Rightarrow> ('k, 'v) hmap \<Rightarrow> ('k, 'v) hmap" where
  "hmodify k f m = (case hget m k of None \<Rightarrow> m | Some v \<Rightarrow> hput k (f v) m)"

text \<open>The laws a client of a hash map relies on, and what follows from them alone.\<close>

locale hash_map =
  fixes empty_map :: "'m"
    and get :: "'m \<Rightarrow> 'k \<Rightarrow> 'v option"
    and put :: "'k \<Rightarrow> 'v \<Rightarrow> 'm \<Rightarrow> 'm"
    and del :: "'k \<Rightarrow> 'm \<Rightarrow> 'm"
    and keys :: "'m \<Rightarrow> 'k list"
  assumes get_empty: "get empty_map k = None"
    and get_put: "get (put k v m) = (get m)(k \<mapsto> v)"
    and get_del: "get (del k m) = (get m)(k := None)"
    and keys_get: "set (keys m) = dom (get m)"
    and keys_distinct: "distinct (keys m)"
begin

lemma size_is_card: "length (keys m) = card (dom (get m))"
  by (metis distinct_card keys_distinct keys_get)

lemma finite_dom: "finite (dom (get m))"
  by (metis keys_get List.finite_set)

lemma size_empty: "length (keys empty_map) = 0"
  by (simp add: size_is_card dom_def get_empty)

lemma size_put: "length (keys (put k v m)) = (if get m k = None then Suc (length (keys m)) else length (keys m))"
  by (auto simp: size_is_card get_put card_insert_if finite_dom insert_absorb)

lemma size_del: "length (keys (del k m)) = (if get m k = None then length (keys m) else length (keys m) - 1)"
proof (cases "get m k")
  case None
  then have "dom (get m) - {k} = dom (get m)" by auto
  then show ?thesis using None by (simp add: size_is_card get_del)
next
  case (Some v)
  then have "k \<in> dom (get m)" by auto
  then show ?thesis using Some by (simp add: size_is_card get_del finite_dom card_Diff_singleton)
qed

lemma get_put_other: "k \<noteq> k' \<Longrightarrow> get (put k v m) k' = get m k'"
  by (simp add: get_put)

lemma del_put_same: "get (del k (put k v m)) = get (del k m)"
  by (simp add: get_put get_del)

lemma put_del_commute: "k \<noteq> k' \<Longrightarrow> get (del k (put k' v m)) = get (put k' v (del k m))"
  by (auto simp: get_put get_del)

end

lemma hget_empty [simp]: "hget hempty k = None"
  by (simp add: hget_def hempty_def DAList.lookup_empty)

lemma hget_put [simp]: "hget (hput k v m) k' = (if k' = k then Some v else hget m k')"
  by (simp add: hget_def hput_def)

lemma hget_del [simp]: "hget (hdel k m) k' = (if k' = k then None else hget m k')"
  by (simp add: hget_def hdel_def)

lemma hget_map_of: "hget m = map_of (hitems m)"
  by (simp add: fun_eq_iff hget_def hitems_def DAList.lookup.rep_eq)

lemma distinct_hkeys [simp]: "distinct (hkeys m)"
  by (simp add: hkeys_def hitems_def)

interpretation hm: hash_map hempty hget hput hdel hkeys
proof unfold_locales
  show "hget hempty k = None" for k by simp
  show "hget (hput k v m) = (hget m)(k \<mapsto> v)" for k v m by (simp add: fun_eq_iff)
  show "hget (hdel k m) = (hget m)(k := None)" for k m by (simp add: fun_eq_iff)
  show "set (hkeys m) = dom (hget m)" for m
    by (simp add: hkeys_def hget_map_of dom_map_of_conv_image_fst)
  show "distinct (hkeys m)" for m by simp
qed

lemma hkeys_iff [hmap_simps]: "k \<in> set (hkeys m) \<longleftrightarrow> hget m k \<noteq> None"
  by (simp add: hm.keys_get dom_def)

lemma hitems_iff: "(k, v) \<in> set (hitems m) \<longleftrightarrow> hget m k = Some v"
  by (metis distinct_hkeys hget_map_of hkeys_def map_of_eq_Some_iff)

lemma hvals_iff: "v \<in> set (hvals m) \<longleftrightarrow> (\<exists>k. hget m k = Some v)"
  by (force simp: hvals_def simp flip: hitems_iff)

lemma hlen_keys: "hlen m = length (hkeys m)"
  by (simp add: hlen_def hkeys_def)

lemma hlen_card: "hlen m = card (dom (hget m))"
  by (simp add: hlen_keys hm.size_is_card)

lemma hlen_empty [simp]: "hlen hempty = 0"
  by (simp add: hlen_keys hm.size_empty)

lemma hlen_put [hmap_simps]:
  "hlen (hput k v m) = (if hget m k = None then Suc (hlen m) else hlen m)"
  by (simp add: hlen_keys hm.size_put)

lemma hlen_del [hmap_simps]:
  "hlen (hdel k m) = (if hget m k = None then hlen m else hlen m - 1)"
  by (simp add: hlen_keys hm.size_del)

lemma hlen_del_le: "hlen (hdel k m) \<le> hlen m"
  by (simp add: hlen_del)

lemma hlen_pos: "hget m k = Some v \<Longrightarrow> 0 < hlen m"
  by (metis hlen_keys hkeys_iff length_pos_if_in_set option.distinct(1))

lemma hget_retain [simp]:
  "hget (hretain P m) k = (case hget m k of Some v \<Rightarrow> if P k v then Some v else None | None \<Rightarrow> None)"
proof -
  have "map_of (filter (\<lambda>(k, v). P k v) xs) k
          = (case map_of xs k of Some v \<Rightarrow> if P k v then Some v else None | None \<Rightarrow> None)"
    if "distinct (map fst xs)" for xs
    using that by (induction xs) (auto simp: map_of_eq_None_iff split: option.splits)
  from this [of "hitems m"] show ?thesis
    by (simp add: hretain_def hget_map_of hitems_def DAList.filter.rep_eq)
qed

lemma hget_modify [simp]:
  "hget (hmodify k f m) k' = (if k' = k then map_option f (hget m k) else hget m k')"
  by (auto simp: hmodify_def split: option.splits)

lemma hlen_modify [simp]: "hlen (hmodify k f m) = hlen m"
  by (auto simp: hmodify_def hlen_put split: option.splits)

end
