(* ===== verification/Json.thy ===== *)
theory Json
  imports Prelude "HOL-Library.List_Lexorder" "HOL-Library.Char_ord"
begin

text \<open>
  JSON values as \<open>serde_json::Value\<close> has them. A number is a \<open>u64\<close>, a negative
  \<open>i64\<close> or a float (kept as its text). An object is a \<open>BTreeMap\<close>, an association
  list in ascending key order. Parsing and printing JSON text belong to \<open>serde_json\<close> and are
  parameters where they are used.
\<close>

datatype json_number = PosInt nat | NegInt int | Float string

datatype json =
    JNull
  | JBool bool
  | JNumber json_number
  | JString string
  | JArray "json list"
  | JObject "(string \<times> json) list"

fun json_get :: "json \<Rightarrow> string \<Rightarrow> json option" where
  "json_get (JObject m) key = map_of m key"
| "json_get _ key = None"

fun as_str :: "json \<Rightarrow> string option" where
  "as_str (JString s) = Some s"
| "as_str _ = None"

fun as_array :: "json \<Rightarrow> json list option" where
  "as_array (JArray xs) = Some xs"
| "as_array _ = None"

fun as_object :: "json \<Rightarrow> (string \<times> json) list option" where
  "as_object (JObject m) = Some m"
| "as_object _ = None"

fun as_u64 :: "json_number \<Rightarrow> nat option" where
  "as_u64 (PosInt n) = Some n"
| "as_u64 _ = None"

text \<open>\<open>Map::insert\<close> keeps the keys in ascending order and replaces an equal key.\<close>

fun obj_insert :: "string \<Rightarrow> json \<Rightarrow> (string \<times> json) list \<Rightarrow> (string \<times> json) list" where
  "obj_insert k v [] = [(k, v)]"
| "obj_insert k v ((k', v') # m) =
     (if k < k' then (k, v) # (k', v') # m
      else if k = k' then (k, v) # m
      else (k', v') # obj_insert k v m)"

fun value_at_path :: "json \<Rightarrow> string list \<Rightarrow> json option" where
  "value_at_path v [] = Some v"
| "value_at_path v (key # keys) =
     (case json_get v key of None \<Rightarrow> None | Some v' \<Rightarrow> value_at_path v' keys)"

text \<open>\<open>integer_like\<close>: a non-negative integer, or a string that parses as one.\<close>

fun integer_like :: "json \<Rightarrow> nat option" where
  "integer_like (JNumber n) = as_u64 n"
| "integer_like (JString s) = parse_unsigned u64_max (trim s)"
| "integer_like _ = None"

lemma map_of_obj_insert [simp]: "map_of (obj_insert k v m) = (map_of m)(k \<mapsto> v)"
  by (induction k v m rule: obj_insert.induct) (auto simp: fun_eq_iff)

lemma set_keys_obj_insert: "fst ` set (obj_insert k v m) = insert k (fst ` set m)"
  by (induction k v m rule: obj_insert.induct) auto

lemma sorted_obj_insert:
  "sorted (map fst m) \<Longrightarrow> distinct (map fst m)
     \<Longrightarrow> sorted (map fst (obj_insert k v m)) \<and> distinct (map fst (obj_insert k v m))"
proof (induction k v m rule: obj_insert.induct)
  case (2 k v k' v' m)
  have "fst ` set (obj_insert k v m) = insert k (fst ` set m)" by (rule set_keys_obj_insert)
  with 2 show ?case by (force simp: less_imp_le)
qed simp

lemma value_at_path_append:
  "value_at_path v (p @ q) = (case value_at_path v p of None \<Rightarrow> None | Some w \<Rightarrow> value_at_path w q)"
  by (induction v p rule: value_at_path.induct) (auto split: option.splits)

end
