(* ===== verification/Domain.thy ===== *)
theory Domain
  imports Prelude Json
begin

text \<open>
  The data of \<open>src/domain.rs\<close> and \<open>src/error.rs\<close> that the components share: errors,
  issues, the runtime configuration, run attempts and retry entries. A timestamp
  (\<open>DateTime<Utc>\<close>) is the \<open>int\<close> of nanoseconds since the epoch, a duration the
  difference of two timestamps.
\<close>

section \<open>Errors\<close>

datatype (plugins only: code size) symphony_error =
    MissingWorkflowFile string string
  | WorkflowParseError string
  | WorkflowFrontMatterNotAMap
  | InvalidWorkflowConfig string
  | TemplateParseError string
  | TemplateRenderError string
  | MissingTrackerKind
  | UnsupportedTrackerKind string
  | MissingLinearApiToken
  | MissingLinearProjectSlug
  | MissingGithubApiToken
  | LinearApiRequest string
  | LinearApiStatus nat
  | LinearGraphqlErrors string
  | LinearUnknownPayload
  | LinearMissingEndCursor
  | GithubApiRequest string
  | GithubApiStatus nat string
  | GithubProjectsV2Error string
  | WorkspaceOutsideRoot string string
  | WorkspaceHookFailed string int
  | WorkspaceHookTimeout string nat
  | WorkspaceError string
  | CodexNotFound
  | InvalidWorkspaceCwd string
  | ResponseTimeout
  | TurnTimeout
  | PortExit int
  | ResponseError string
  | ErrTurnFailed string
  | ErrTurnCancelled string
  | ErrTurnInputRequired
  | PiAgentError string
  | TriageError string
  | ReviewCycleReopened string
  | ReviewPublicationConflict string
  | StorageError string
  | SshLaunchFailed string
  | DockerNotAvailable
  | DockerContainerFailed string
  | DockerImageBuildFailed string
  | DockerAuthError string
  | Io string
  | Other string

primrec error_to_string :: "symphony_error \<Rightarrow> string" where
  "error_to_string (MissingWorkflowFile path reason) =
     ''missing workflow file: '' @ path @ '' ('' @ reason @ '')''"
| "error_to_string (WorkflowParseError e) = ''workflow parse error: '' @ e"
| "error_to_string WorkflowFrontMatterNotAMap = ''workflow front matter is not a map''"
| "error_to_string (InvalidWorkflowConfig e) = ''invalid workflow config: '' @ e"
| "error_to_string (TemplateParseError e) = ''template parse error: '' @ e"
| "error_to_string (TemplateRenderError e) = ''template render error: '' @ e"
| "error_to_string MissingTrackerKind = ''missing tracker kind''"
| "error_to_string (UnsupportedTrackerKind e) = ''unsupported tracker kind: '' @ e"
| "error_to_string MissingLinearApiToken = ''missing Linear API token''"
| "error_to_string MissingLinearProjectSlug = ''missing Linear project slug''"
| "error_to_string MissingGithubApiToken = ''missing GitHub API token''"
| "error_to_string (LinearApiRequest e) = ''Linear API request error: '' @ e"
| "error_to_string (LinearApiStatus n) = ''Linear API status error: '' @ nat_digits n"
| "error_to_string (LinearGraphqlErrors e) = ''Linear GraphQL errors: '' @ e"
| "error_to_string LinearUnknownPayload = ''Linear unknown payload''"
| "error_to_string LinearMissingEndCursor = ''Linear missing end cursor''"
| "error_to_string (GithubApiRequest e) = ''GitHub API request error: '' @ e"
| "error_to_string (GithubApiStatus n m) =
     ''GitHub API status error: '' @ nat_digits n @ '' ('' @ m @ '')''"
| "error_to_string (GithubProjectsV2Error e) = ''GitHub Projects v2 error: '' @ e"
| "error_to_string (WorkspaceOutsideRoot w r) =
     ''workspace path outside root: '' @ w @ '' not under '' @ r"
| "error_to_string (WorkspaceHookFailed h st) =
     ''workspace hook failed: '' @ h @ '' (status '' @ int_digits st @ '')''"
| "error_to_string (WorkspaceHookTimeout h ms) =
     ''workspace hook timeout: '' @ h @ '' ('' @ nat_digits ms @ ''ms)''"
| "error_to_string (WorkspaceError e) = ''workspace error: '' @ e"
| "error_to_string CodexNotFound = ''codex not found''"
| "error_to_string (InvalidWorkspaceCwd e) = ''invalid workspace cwd: '' @ e"
| "error_to_string ResponseTimeout = ''codex response timeout''"
| "error_to_string TurnTimeout = ''codex turn timeout''"
| "error_to_string (PortExit n) = ''codex port exit: '' @ int_digits n"
| "error_to_string (ResponseError e) = ''codex response error: '' @ e"
| "error_to_string (ErrTurnFailed e) = ''codex turn failed: '' @ e"
| "error_to_string (ErrTurnCancelled e) = ''codex turn cancelled: '' @ e"
| "error_to_string ErrTurnInputRequired = ''codex turn input required''"
| "error_to_string (PiAgentError e) = ''pi-agent error: '' @ e"
| "error_to_string (TriageError e) = ''triage error: '' @ e"
| "error_to_string (ReviewCycleReopened e) = ''review cycle reopened: '' @ e"
| "error_to_string (ReviewPublicationConflict e) = ''review publication conflict: '' @ e"
| "error_to_string (StorageError e) = ''storage error: '' @ e"
| "error_to_string (SshLaunchFailed e) = ''ssh launch failed: '' @ e"
| "error_to_string DockerNotAvailable = ''docker daemon is not available''"
| "error_to_string (DockerContainerFailed e) = ''docker container failed: '' @ e"
| "error_to_string (DockerImageBuildFailed e) = ''docker image build failed: '' @ e"
| "error_to_string (DockerAuthError e) = ''docker auth error: '' @ e"
| "error_to_string (Io e) = ''io error: '' @ e"
| "error_to_string (Other e) = e"

type_synonym 'a outcome = "symphony_error + 'a"

section \<open>Time\<close>

type_synonym timestamp = int
type_synonym duration = int

definition timestamp_millis :: "timestamp \<Rightarrow> int" where
  "timestamp_millis t = t div 1000000"

definition timestamp_micros :: "timestamp \<Rightarrow> int" where
  "timestamp_micros t = t div 1000"

text \<open>\<open>num_seconds\<close> and \<open>num_milliseconds\<close> truncate towards zero.\<close>

definition trunc_div :: "int \<Rightarrow> int \<Rightarrow> int" where
  "trunc_div a b = (if a < 0 then - ((- a) div b) else a div b)"

definition num_seconds :: "duration \<Rightarrow> int" where
  "num_seconds d = trunc_div d 1000000000"

definition num_milliseconds :: "duration \<Rightarrow> int" where
  "num_milliseconds d = trunc_div d 1000000"

section \<open>Issues\<close>

record blocker_ref =
  br_id :: "string option"
  br_identifier :: "string option"
  br_state :: "string option"

record issue =
  i_id :: string
  i_identifier :: string
  i_title :: string
  i_description :: "string option"
  i_priority :: "int option"
  i_state :: string
  i_branch_name :: "string option"
  i_url :: "string option"
  i_assignee_id :: "string option"
  i_labels :: "string list"
  i_blocked_by :: "blocker_ref list"
  i_assigned_to_worker :: bool
  i_created_at :: "timestamp option"
  i_updated_at :: "timestamp option"
  i_children_count :: nat
  i_parent_identifier :: "string option"

record blocked_issue_entry =
  bi_issue_id :: string
  bi_identifier :: string
  bi_title :: string
  bi_state :: string
  bi_blocker_identifiers :: "string list"

text \<open>The Kata phase vocabulary and the metadata parsed from titles and bodies.\<close>

definition KATA_PHASE_NAMES :: "string list" where
  "KATA_PHASE_NAMES = [''Backlog'', ''Todo'', ''In Progress'', ''Agent Review'',
     ''Human Review'', ''Merging'', ''Rework'', ''Done'']"

definition normalize_kata_phase_key :: "string \<Rightarrow> string" where
  "normalize_kata_phase_key v =
     join_with '' '' (split_whitespace
       (map (\<lambda>c. if c = CHR ''_'' \<or> c = CHR ''-'' then CHR '' '' else c)
         (to_ascii_lowercase (trim v))))"

definition canonical_kata_phase_name :: "string \<Rightarrow> string option" where
  "canonical_kata_phase_name state_name =
     (let normalized = normalize_kata_phase_key state_name
      in find (\<lambda>phase. normalize_kata_phase_key phase = normalized) KATA_PHASE_NAMES)"

definition parse_kata_identifier :: "string \<Rightarrow> string option" where
  "parse_kata_identifier title =
     (case strip_prefix ''['' (trim_start title) of
        None \<Rightarrow> None
      | Some bracketed \<Rightarrow>
         (case split_once (CHR '']'') bracketed of
            None \<Rightarrow> None
          | Some (token, _) \<Rightarrow>
             (case token of
                [] \<Rightarrow> None
              | c # digits \<Rightarrow>
                 (let p = ascii_upper c
                  in if p \<notin> {CHR ''M'', CHR ''S'', CHR ''T''} then None
                     else if digits = [] \<or> \<not> (\<forall>d \<in> set digits. is_ascii_digit d) then None
                     else Some (''['' @ [p] @ digits @ '']'')))))"

fun extract_first_issue_reference :: "string \<Rightarrow> string option" where
  "extract_first_issue_reference [] = None"
| "extract_first_issue_reference (c # cs) =
     (if c \<noteq> CHR ''#'' then extract_first_issue_reference cs
      else let digits = takeWhile is_ascii_digit cs
           in if digits \<noteq> [] then Some (''#'' @ digits) else extract_first_issue_reference cs)"

text \<open>\<open>str::lines\<close>: the segments ended by a newline, without a trailing carriage return.\<close>

definition strip_cr :: "string \<Rightarrow> string" where
  "strip_cr s = (if s \<noteq> [] \<and> last s = char_of (13 :: nat) then butlast s else s)"

fun text_lines_acc :: "string \<Rightarrow> string \<Rightarrow> string list" where
  "text_lines_acc [] acc = (if acc = [] then [] else [rev acc])"
| "text_lines_acc (c # cs) acc =
     (if code_point c = 10 then strip_cr (rev acc) # text_lines_acc cs []
      else text_lines_acc cs (c # acc))"

definition text_lines :: "string \<Rightarrow> string list" where
  "text_lines s = text_lines_acc s []"

fun parent_reference_of_lines :: "string list \<Rightarrow> string option" where
  "parent_reference_of_lines [] = None"
| "parent_reference_of_lines (line # rest) =
     (let normalized = filter (\<lambda>c. c \<noteq> CHR ''*'') (trim line);
          lower = to_ascii_lowercase normalized
      in if \<not> (prefix ''parent:'' lower \<or> prefix ''part of:'' lower)
         then parent_reference_of_lines rest
         else case extract_first_issue_reference normalized of
                Some r \<Rightarrow> Some r
              | None \<Rightarrow> parent_reference_of_lines rest)"

definition parse_parent_issue_reference :: "string \<Rightarrow> string option" where
  "parse_parent_issue_reference body = parent_reference_of_lines (text_lines body)"

section \<open>Runtime configuration\<close>

text \<open>
  The sections of \<open>ServiceConfig\<close> that the modelled components read. Sections that are
  only handed on to a worker process or a coordinator have no field.
\<close>

datatype agent_backend = KataCli | Codex

datatype workspace_isolation = IsolationLocal | IsolationDocker

datatype github_project_owner_type = OwnerUser | OwnerOrg

record tracker_config =
  tc_kind :: "string option"
  tc_endpoint :: string
  tc_project_slug :: "string option"
  tc_workspace_slug :: "string option"
  tc_repo_owner :: "string option"
  tc_repo_name :: "string option"
  tc_github_project_owner_type :: "github_project_owner_type option"
  tc_github_project_number :: "nat option"
  tc_active_states :: "string list"
  tc_terminal_states :: "string list"
  tc_exclude_labels :: "string list"

record workspace_config =
  wc_root :: string
  wc_isolation :: workspace_isolation
  wc_branch_prefix :: string
  wc_base_branch :: "string option"
  wc_cleanup_on_done :: bool

record worker_config =
  wk_ssh_hosts :: "string list"
  wk_max_concurrent_agents_per_host :: "nat option"

record agent_config =
  ag_max_concurrent_agents :: nat
  ag_max_turns :: nat
  ag_max_retry_backoff_ms :: nat
  ag_escalation_timeout_ms :: nat

record pi_agent_config =
  pa_model :: "string option"
  pa_model_by_label :: "(string, string) hmap"
  pa_model_by_state :: "(string, string) hmap"
  pa_stall_timeout_ms :: nat

record slack_config =
  sl_webhook_url :: string
  sl_events :: "string list"

record service_config =
  sc_tracker :: tracker_config
  sc_polling_interval_ms :: nat
  sc_workspace :: workspace_config
  sc_worker :: worker_config
  sc_agent :: agent_config
  sc_codex_stall_timeout_ms :: nat
  sc_pi_agent :: pi_agent_config
  sc_agent_backend :: agent_backend
  sc_server_port :: "nat option"
  sc_slack :: "slack_config option"
  sc_shared_context_ttl_ms :: nat
  sc_shared_context_max_entries :: nat

definition default_tracker_config :: tracker_config where
  "default_tracker_config =
     \<lparr> tc_kind = None, tc_endpoint = ''https://api.linear.app/graphql'',
       tc_project_slug = None, tc_workspace_slug = None, tc_repo_owner = None,
       tc_repo_name = None, tc_github_project_owner_type = None,
       tc_github_project_number = None,
       tc_active_states = [''Todo'', ''In Progress''],
       tc_terminal_states = [''Closed'', ''Cancelled'', ''Canceled'', ''Duplicate'', ''Done''],
       tc_exclude_labels = [] \<rparr>"

definition default_agent_config :: agent_config where
  "default_agent_config =
     \<lparr> ag_max_concurrent_agents = 10, ag_max_turns = 20, ag_max_retry_backoff_ms = 300000,
       ag_escalation_timeout_ms = 300000 \<rparr>"

definition default_pi_agent_config :: pi_agent_config where
  "default_pi_agent_config =
     \<lparr> pa_model = None, pa_model_by_label = hempty, pa_model_by_state = hempty,
       pa_stall_timeout_ms = 300000 \<rparr>"

definition default_workspace_config :: "string \<Rightarrow> workspace_config" where
  "default_workspace_config default_root =
     \<lparr> wc_root = default_root, wc_isolation = IsolationLocal, wc_branch_prefix = ''symphony'',
       wc_base_branch = Some ''main'', wc_cleanup_on_done = False \<rparr>"

definition parse_github_project_owner_type :: "string \<Rightarrow> github_project_owner_type option" where
  "parse_github_project_owner_type v =
     (let t = to_ascii_lowercase (trim v)
      in if t = ''user'' then Some OwnerUser
         else if t = ''org'' \<or> t = ''organization'' then Some OwnerOrg else None)"

fun owner_url_segment :: "github_project_owner_type \<Rightarrow> string" where
  "owner_url_segment OwnerUser = ''users''"
| "owner_url_segment OwnerOrg = ''orgs''"

definition build_linear_url :: "tracker_config \<Rightarrow> string option" where
  "build_linear_url tc =
     (case tc_project_slug tc of
        None \<Rightarrow> None
      | Some slug \<Rightarrow>
         (let project_slug = trim slug;
              workspace_slug = trim (case tc_workspace_slug tc of Some w \<Rightarrow> w | None \<Rightarrow> ''kata-sh'')
          in if project_slug = [] then None
             else if workspace_slug = [] then None
             else Some (''https://linear.app/'' @ workspace_slug @ ''/project/'' @ project_slug)))"

definition tracker_project_url :: "tracker_config \<Rightarrow> string option" where
  "tracker_project_url tc =
     (case tc_kind tc of
        Some k \<Rightarrow>
          if trim k \<noteq> [] \<and> eq_ignore_ascii_case (trim k) ''github'' then
            (case (tc_repo_owner tc, tc_github_project_owner_type tc, tc_github_project_number tc) of
               (Some owner, Some owner_type, Some n) \<Rightarrow>
                 if trim owner = [] then None
                 else Some (''https://github.com/'' @ owner_url_segment owner_type @ ''/'' @ trim owner
                        @ ''/projects/'' @ nat_digits n)
             | _ \<Rightarrow> None)
          else build_linear_url tc
      | None \<Rightarrow> build_linear_url tc)"

definition model_for_state :: "pi_agent_config \<Rightarrow> string \<Rightarrow> string option" where
  "model_for_state pa issue_state =
     (case hget (pa_model_by_state pa) (to_lowercase (trim issue_state)) of
        Some m \<Rightarrow> Some m
      | None \<Rightarrow> pa_model pa)"

section \<open>Runs, sessions and retries\<close>

record run_attempt =
  ra_issue_id :: string
  ra_issue_identifier :: string
  ra_issue_title :: "string option"
  ra_attempt :: "nat option"
  ra_workspace_path :: string
  ra_started_at :: timestamp
  ra_status :: string
  ra_error :: "string option"
  ra_worker_host :: "string option"
  ra_model :: "string option"
  ra_tracker_state :: "string option"
  ra_issue_url :: "string option"

record session_token_usage =
  tu_input_tokens :: nat
  tu_output_tokens :: nat
  tu_total_tokens :: nat

record worker_session_info =
  si_turn_count :: nat
  si_max_turns :: nat
  si_stall_timeout_ms :: int
  si_last_activity_ms :: "int option"
  si_session_tokens :: session_token_usage
  si_current_tool_name :: "string option"
  si_current_tool_args_preview :: "string option"
  si_last_error :: "string option"

record retry_entry =
  re_issue_id :: string
  re_identifier :: string
  re_attempt :: nat
  re_due_at_ms :: int
  re_timer_handle :: "string option"
  re_error :: "string option"
  re_worker_host :: "string option"
  re_workspace_path :: "string option"

record codex_totals =
  ct_input_tokens :: nat
  ct_output_tokens :: nat
  ct_total_tokens :: nat
  ct_event_count :: nat

record completed_entry =
  ce_issue_id :: string
  ce_identifier :: string
  ce_title :: string
  ce_completed_at :: "timestamp option"

section \<open>Escalations\<close>

record escalation_request =
  er_id :: string
  er_issue_id :: string
  er_issue_identifier :: string
  er_method :: string
  er_payload :: json
  er_created_at :: timestamp
  er_timeout_ms :: nat

record escalation_response =
  es_request_id :: string
  es_response :: json
  es_responder_id :: "string option"
  es_responded_at :: timestamp

record pending_escalation =
  pe_request_id :: string
  pe_issue_id :: string
  pe_issue_identifier :: string
  pe_method :: string
  pe_preview :: string
  pe_created_at :: timestamp
  pe_timeout_ms :: nat

section \<open>Worker events\<close>

datatype (plugins only: code size) agent_event =
    SessionStarted timestamp "string option" string
  | StartupFailed timestamp "string option" string
  | TurnCompleted timestamp "string option" string "string option" nat nat nat "json option"
  | TurnFailed timestamp "string option" string string
  | TurnCancelled timestamp "string option" string
  | TurnEndedWithError timestamp "string option" string string
  | TurnInputRequired timestamp "string option" string "string option"
  | ApprovalAutoApproved timestamp "string option" string
  | ApprovalRequired timestamp "string option" string json
  | ToolCallCompleted timestamp "string option" string
  | ToolCallFailed timestamp "string option" "string option"
  | ToolInputAutoAnswered timestamp "string option"
  | UnsupportedToolCall timestamp "string option" string
  | EscalationCreated timestamp string string escalation_request
  | EscalationResponded timestamp string string string "string option" nat
  | EscalationTimedOut timestamp string string string nat
  | EscalationCancelled timestamp string string string string
  | Notification timestamp "string option" string
  | OtherMessage timestamp "string option" json
  | Malformed timestamp "string option" string string

end
