(* ===== verification/Ssh.thy ===== *)
theory Ssh
  imports Prelude Domain
begin

text \<open>
  \<open>src/ssh.rs\<close>: parsing a worker host, quoting a remote command, building the argument
  vector of \<open>ssh\<close>, and choosing a host of the pool. The environment variable
  \<open>SYMPHONY_SSH_CONFIG\<close> is an argument of \<open>ssh_args\<close>. Launching the process is not modelled.
\<close>

datatype worker_host_selection = SelLocal | SelRemote string | SelNoneAvailable

definition valid_port_destination :: "string \<Rightarrow> bool" where
  "valid_port_destination destination =
     (if destination = [] then False
      else if CHR '':'' \<in> set destination
      then CHR ''['' \<in> set destination \<and> CHR '']'' \<in> set destination
      else True)"

text \<open>\<open>rfind\<close> of a character: the text before and after its last occurrence.\<close>

definition rsplit_once :: "char \<Rightarrow> string \<Rightarrow> (string \<times> string) option" where
  "rsplit_once c s =
     (case split_once c (rev s) of
        None \<Rightarrow> None
      | Some (after, before) \<Rightarrow> Some (rev before, rev after))"

definition parse_target :: "string \<Rightarrow> string \<times> nat" where
  "parse_target target =
     (let trimmed = trim target
      in case rsplit_once (CHR '':'') trimmed of
           None \<Rightarrow> (trimmed, 22)
         | Some (destination, candidate_port) \<Rightarrow>
             (case parse_unsigned 65535 candidate_port of
                None \<Rightarrow> (trimmed, 22)
              | Some port \<Rightarrow>
                  if valid_port_destination destination then (destination, port)
                  else (trimmed, 22)))"

definition shell_escape :: "string \<Rightarrow> string" where
  "shell_escape s =
     [CHR 0x27]
     @ concat (map (\<lambda>c. if c = CHR 0x27
                        then [CHR 0x27, CHR 0x22, CHR 0x27, CHR 0x22, CHR 0x27] else [c]) s)
     @ [CHR 0x27]"

definition ssh_args :: "string option \<Rightarrow> string \<Rightarrow> string \<Rightarrow> string list" where
  "ssh_args config_var host command =
     (let (destination, port) = parse_target host;
          config = (case config_var of
                      Some config_path \<Rightarrow> if config_path \<noteq> [] then [''-F'', config_path] else []
                    | None \<Rightarrow> [])
      in config @ [''-T'', ''-p'', nat_digits port, destination, ''bash'', ''-lc'', shell_escape command])"

definition validate_remote_workspace_cwd :: "string \<Rightarrow> string outcome" where
  "validate_remote_workspace_cwd workspace =
     (if workspace = [] \<or> \<not> prefix ''/'' workspace
      then Inl (InvalidWorkspaceCwd (''remote workspace must be an absolute path, got: ''
                   @ debug_string workspace))
      else Inr workspace)"

section \<open>Choosing a host\<close>

definition host_load :: "(string, nat) hmap \<Rightarrow> string \<Rightarrow> nat" where
  "host_load load h = (case hget load h of Some n \<Rightarrow> n | None \<Rightarrow> 0)"

text \<open>\<open>min_by_key\<close> over the eligible hosts with the key (load, index).\<close>

fun min_by_load :: "(string, nat) hmap \<Rightarrow> (nat \<times> string) \<Rightarrow> (nat \<times> string) list \<Rightarrow> nat \<times> string" where
  "min_by_load load best [] = best"
| "min_by_load load best ((i, h) # rest) =
     (if host_load load h < host_load load (snd best)
         \<or> (host_load load h = host_load load (snd best) \<and> i < fst best)
      then min_by_load load (i, h) rest
      else min_by_load load best rest)"

definition eligible_hosts :: "string list \<Rightarrow> (string, nat) hmap \<Rightarrow> nat \<Rightarrow> (nat \<times> string) list" where
  "eligible_hosts ssh_hosts load cap =
     filter (\<lambda>(i, h). host_load load h < cap) (zip [0..<length ssh_hosts] ssh_hosts)"

definition select_worker_host ::
  "string list \<Rightarrow> (string, nat) hmap \<Rightarrow> nat \<Rightarrow> string option \<Rightarrow> worker_host_selection" where
  "select_worker_host ssh_hosts load cap preferred =
     (if ssh_hosts = [] then SelLocal
      else case eligible_hosts ssh_hosts load cap of
             [] \<Rightarrow> SelNoneAvailable
           | first # rest \<Rightarrow>
               (case preferred of
                  Some pref \<Rightarrow>
                    if pref \<in> snd ` set (first # rest) then SelRemote pref
                    else SelRemote (snd (min_by_load load first rest))
                | None \<Rightarrow> SelRemote (snd (min_by_load load first rest))))"

section \<open>Facts\<close>

lemma min_by_load_in: "min_by_load load best xs \<in> set (best # xs)"
  by (induction load best xs rule: min_by_load.induct) auto

lemma min_by_load_le:
  "x \<in> set (best # xs)
     \<Longrightarrow> host_load load (snd (min_by_load load best xs)) \<le> host_load load (snd x)"
proof (induction load best xs arbitrary: x rule: min_by_load.induct)
  case (2 load best i h rest)
  show ?case
  proof (cases "host_load load h < host_load load (snd best)
      \<or> (host_load load h = host_load load (snd best) \<and> i < fst best)")
    case True
    have "host_load load (snd (min_by_load load (i, h) rest)) \<le> host_load load (snd y)"
      if "y \<in> set ((i, h) # rest)" for y
      using "2.IH"(1) [OF True that] .
    from this [of x] this [of "(i, h)"] "2.prems" True show ?thesis by auto
  next
    case False
    have "host_load load (snd (min_by_load load best rest)) \<le> host_load load (snd y)"
      if "y \<in> set (best # rest)" for y
      using "2.IH"(2) [OF False that] .
    from this [of x] this [of best] "2.prems" False show ?thesis by auto
  qed
qed simp

lemma min_by_load_first:
  "x \<in> set (best # xs) \<Longrightarrow> host_load load (snd x) = host_load load (snd (min_by_load load best xs))
     \<Longrightarrow> fst (min_by_load load best xs) \<le> fst x"
proof (induction load best xs arbitrary: x rule: min_by_load.induct)
  case (2 load best i h rest)
  show ?case
  proof (cases "host_load load h < host_load load (snd best)
      \<or> (host_load load h = host_load load (snd best) \<and> i < fst best)")
    case True
    have ih: "fst (min_by_load load (i, h) rest) \<le> fst y"
      if "y \<in> set ((i, h) # rest)" "host_load load (snd y) = host_load load (snd (min_by_load load (i, h) rest))" for y
      using "2.IH"(1) [OF True that] .
    have le: "host_load load (snd (min_by_load load (i, h) rest)) \<le> host_load load h"
      using min_by_load_le [of "(i, h)" "(i, h)" rest] by simp
    show ?thesis
      using ih [of x] ih [of "(i, h)"] le "2.prems" True by auto
  next
    case False
    have ih: "fst (min_by_load load best rest) \<le> fst y"
      if "y \<in> set (best # rest)" "host_load load (snd y) = host_load load (snd (min_by_load load best rest))" for y
      using "2.IH"(2) [OF False that] .
    have le: "host_load load (snd (min_by_load load best rest)) \<le> host_load load (snd best)"
      using min_by_load_le [of best best rest] by simp
    show ?thesis
      using ih [of x] ih [of best] le "2.prems" False by auto
  qed
qed simp

lemma eligible_hosts_iff:
  "(i, h) \<in> set (eligible_hosts hosts load cap)
     \<longleftrightarrow> i < length hosts \<and> hosts ! i = h \<and> host_load load h < cap"
  by (force simp: eligible_hosts_def set_zip)

lemma eligible_hosts_image:
  "snd ` set (eligible_hosts hosts load cap) = {h \<in> set hosts. host_load load h < cap}"
proof (intro set_eqI iffI)
  fix h assume "h \<in> {h \<in> set hosts. host_load load h < cap}"
  then obtain i where "i < length hosts" "hosts ! i = h" "host_load load h < cap"
    by (auto simp: in_set_conv_nth)
  then have "(i, h) \<in> set (eligible_hosts hosts load cap)"
    by (simp add: eligible_hosts_iff)
  then show "h \<in> snd ` set (eligible_hosts hosts load cap)" by force
qed (auto simp: eligible_hosts_iff)

lemma eligible_hosts_Nil:
  "eligible_hosts hosts load cap = [] \<longleftrightarrow> (\<forall>h \<in> set hosts. cap \<le> host_load load h)"
proof -
  have "eligible_hosts hosts load cap = [] \<longleftrightarrow> {h \<in> set hosts. host_load load h < cap} = {}"
    by (metis eligible_hosts_image image_is_empty set_empty2)
  then show ?thesis by (auto simp: not_less)
qed

lemma select_worker_host_remote:
  assumes "select_worker_host hosts load cap preferred = SelRemote h"
  shows "h \<in> set hosts \<and> host_load load h < cap"
proof -
  from assms have ne: "eligible_hosts hosts load cap \<noteq> []"
    by (auto simp: select_worker_host_def split: if_splits list.splits)
  then obtain e es where es: "eligible_hosts hosts load cap = e # es"
    by (meson neq_Nil_conv)
  have "h \<in> snd ` set (e # es)"
    using assms es min_by_load_in [of load e es]
    by (auto simp: select_worker_host_def split: if_splits option.splits)
  then show ?thesis
    using eligible_hosts_image [of hosts load cap] es by auto
qed

section \<open>Quoting\<close>

text \<open>
  How a POSIX shell reads a word that is made of quoted parts only: between single quotes
  everything is literal, between double quotes everything but dollar, backquote and
  backslash. A word with unquoted text, or with one of these three, is not read here.
\<close>

datatype quoting = Unquoted | SingleQuoted | DoubleQuoted

fun shell_word :: "quoting \<Rightarrow> string \<Rightarrow> string option" where
  "shell_word Unquoted [] = Some []"
| "shell_word Unquoted (c # cs) =
     (if c = CHR 0x27 then shell_word SingleQuoted cs
      else if c = CHR 0x22 then shell_word DoubleQuoted cs else None)"
| "shell_word SingleQuoted [] = None"
| "shell_word SingleQuoted (c # cs) =
     (if c = CHR 0x27 then shell_word Unquoted cs
      else map_option ((#) c) (shell_word SingleQuoted cs))"
| "shell_word DoubleQuoted [] = None"
| "shell_word DoubleQuoted (c # cs) =
     (if c = CHR 0x22 then shell_word Unquoted cs
      else if c = CHR 0x24 \<or> c = CHR 0x60 \<or> c = CHR 0x5C then None
      else map_option ((#) c) (shell_word DoubleQuoted cs))"

lemma shell_word_quoted:
  "shell_word SingleQuoted
     (concat (map (\<lambda>c. if c = CHR 0x27
                       then [CHR 0x27, CHR 0x22, CHR 0x27, CHR 0x22, CHR 0x27] else [c]) s) @ [CHR 0x27])
   = Some s"
  by (induction s) simp_all

lemma rsplit_once_last:
  assumes "c \<notin> set after"
  shows "rsplit_once c (before @ c # after) = Some (before, after)"
proof -
  have "takeWhile (\<lambda>x. x \<noteq> c) (rev after @ c # rev before) = rev after"
    "dropWhile (\<lambda>x. x \<noteq> c) (rev after @ c # rev before) = c # rev before"
    using assms by (subst takeWhile_append2, auto, subst dropWhile_append2, auto)
  then show ?thesis by (simp add: rsplit_once_def split_once_def)
qed

lemma trim_untouched:
  assumes "s \<noteq> []" "\<not> is_whitespace (hd s)" "\<not> is_whitespace (last s)"
  shows "trim s = s"
proof -
  have "trim_start s = s" using assms(1,2) by (simp add: trim_start_def dropWhile_id)
  moreover have "trim_end s = s"
    using assms(1,3) by (simp add: trim_end_def dropWhile_id hd_rev)
  ultimately show ?thesis by (simp add: trim_def)
qed

lemma digit_not_space: "is_ascii_digit c \<Longrightarrow> \<not> is_whitespace c \<and> c \<noteq> CHR '':''"
  by (auto simp: is_ascii_digit_def is_whitespace_def code_point_def)

section \<open>Targets\<close>

lemma parse_target_roundtrip:
  assumes "h \<noteq> []" "trim h = h" "CHR '':'' \<notin> set h" "port \<le> 65535"
  shows "parse_target (h @ '':'' @ nat_digits port) = (h, port)"
proof -
  let ?s = "h @ '':'' @ nat_digits port"
  have digits: "c \<noteq> CHR '':'' \<and> \<not> is_whitespace c" if "c \<in> set (nat_digits port)" for c
    using nat_digits_digits [OF that] digit_not_space by blast
  have "last ?s \<in> set (nat_digits port)" by simp
  then have "\<not> is_whitespace (last ?s)" using digits by blast
  moreover have "\<not> is_whitespace (hd ?s)" using trim_hd [of h] assms(1,2) by simp
  ultimately have "trim ?s = ?s" by (intro trim_untouched) simp_all
  moreover have "rsplit_once (CHR '':'') ?s = Some (h, nat_digits port)"
    using digits rsplit_once_last [of "CHR '':''" "nat_digits port" h] by fastforce
  moreover have "parse_unsigned 65535 (nat_digits port) = Some port"
  proof -
    obtain c cs where d: "nat_digits port = c # cs" using nat_digits_not_Nil by (meson neq_Nil_conv)
    then have "c \<noteq> CHR ''+''"
      using nat_digits_digits [of c port] by (auto simp: is_ascii_digit_def code_point_def)
    then show ?thesis
      using d nat_digits_digits [of _ port] digits_value_nat_digits [of port] assms(4)
      by (simp add: parse_unsigned_def Let_def)
  qed
  ultimately show ?thesis
    using assms(1,3) by (simp add: parse_target_def Let_def valid_port_destination_def)
qed

end
