(* ===== verification/PathSafety.thy ===== *)
theory PathSafety
  imports Prelude Domain
begin

text \<open>
  \<open>src/path_safety.rs\<close>: sanitising an identifier into one path segment, and resolving the
  symbolic links of a path. A path is its list of components on a Unix system (no drive
  prefix). The file system is an argument: what \<open>lstat\<close> (and \<open>readlink\<close>) report for the
  path made of the given segments below the root.
\<close>

section \<open>Sanitising\<close>

definition safe_char :: "char \<Rightarrow> bool" where
  "safe_char c \<longleftrightarrow> is_ascii_alphabetic c \<or> is_ascii_digit c \<or> c \<in> {CHR ''.'', CHR ''_'', CHR ''-''}"

definition sanitize_identifier :: "string \<Rightarrow> string" where
  "sanitize_identifier ident =
     (let trimmed = trim ident
      in if trimmed = [] then ''issue''
         else map (\<lambda>c. if safe_char c then c else CHR ''_'') trimmed)"

section \<open>Canonicalising\<close>

datatype path_component = RootDir | CurDir | ParentDir | Normal string

type_synonym path = "path_component list"

datatype fs_entry = FsSymlink "string + path" | FsOther | FsNotFound | FsError string

type_synonym file_system = "string list \<Rightarrow> fs_entry"

definition MAX_SYMLINK_HOPS :: nat where
  "MAX_SYMLINK_HOPS = 40"

definition path_is_absolute :: "path \<Rightarrow> bool" where
  "path_is_absolute p \<longleftrightarrow> (case p of RootDir # _ \<Rightarrow> True | _ \<Rightarrow> False)"

text \<open>\<open>Path::join\<close>: an absolute argument replaces the base.\<close>

definition path_join :: "path \<Rightarrow> path \<Rightarrow> path" where
  "path_join base p = (if path_is_absolute p then p else base @ p)"

definition segments_path :: "string list \<Rightarrow> path" where
  "segments_path segs = RootDir # map Normal segs"

fun fold_components :: "path_component list \<Rightarrow> string list \<Rightarrow> string list" where
  "fold_components [] segments = segments"
| "fold_components (Normal s # cs) segments = fold_components cs (segments @ [s])"
| "fold_components (ParentDir # cs) segments = fold_components cs (butlast segments)"
| "fold_components (CurDir # cs) segments = fold_components cs segments"
| "fold_components (RootDir # cs) segments = fold_components cs segments"

fun component_text :: "path_component \<Rightarrow> string" where
  "component_text RootDir = []"
| "component_text CurDir = ''.''"
| "component_text ParentDir = ''..''"
| "component_text (Normal s) = s"

definition display_path :: "path \<Rightarrow> string" where
  "display_path p = (if p = [RootDir] then ''/'' else join_with ''/'' (map component_text p))"

definition split_and_normalize :: "path \<Rightarrow> string list outcome" where
  "split_and_normalize p =
     (case p of
        RootDir # components \<Rightarrow> Inr (fold_components components [])
      | _ \<Rightarrow> Inl (Other (''path_canonicalize_failed: not absolute: '' @ display_path p)))"

text \<open>
  \<open>resolve_segments\<close>: every call either moves one segment to the resolved prefix or spends a
  hop, so (hops, remaining segments) decreases lexicographically.
\<close>

function resolve_segments ::
  "file_system \<Rightarrow> string list \<Rightarrow> string list \<Rightarrow> nat \<Rightarrow> string list outcome" where
  "resolve_segments fs resolved [] hops = Inr resolved"
| "resolve_segments fs resolved (segment # rest) hops =
     (case fs (resolved @ [segment]) of
        FsSymlink link \<Rightarrow>
          if hops = 0 then Inl (Other (''symlink_loop: too many symlink hops resolving ''
                      @ display_path (segments_path (resolved @ [segment]))))
          else (case link of
                  Inl e \<Rightarrow> Inl (Io e)
                | Inr target \<Rightarrow>
                    (case split_and_normalize (path_join (segments_path resolved) target) of
                       Inl e \<Rightarrow> Inl e
                     | Inr target_segments \<Rightarrow>
                         resolve_segments fs [] (target_segments @ rest) (hops - 1)))
      | FsOther \<Rightarrow> resolve_segments fs (resolved @ [segment]) rest hops
      | FsNotFound \<Rightarrow> Inr (resolved @ [segment] @ rest)
      | FsError e \<Rightarrow> Inl (Io e))"
  by pat_completeness auto
termination
  by (relation "measures [\<lambda>(fs, resolved, remaining, hops). hops,
                          \<lambda>(fs, resolved, remaining, hops). length remaining]") auto

declare resolve_segments.simps(2) [simp del]

definition canonicalize :: "file_system \<Rightarrow> path outcome \<Rightarrow> path \<Rightarrow> string list outcome" where
  "canonicalize fs current_dir p =
     (case (if path_is_absolute p then Inr p else map_sum id (\<lambda>cwd. path_join cwd p) current_dir) of
        Inl e \<Rightarrow> Inl e
      | Inr expanded \<Rightarrow>
          (case split_and_normalize expanded of
             Inl e \<Rightarrow> Inl e
           | Inr segments \<Rightarrow> resolve_segments fs [] segments MAX_SYMLINK_HOPS))"

section \<open>Facts\<close>

definition is_symlink :: "fs_entry \<Rightarrow> bool" where
  "is_symlink e \<longleftrightarrow> (case e of FsSymlink _ \<Rightarrow> True | _ \<Rightarrow> False)"

text \<open>The existing part of a path goes through no symbolic link.\<close>

definition link_free :: "file_system \<Rightarrow> string list \<Rightarrow> bool" where
  "link_free fs segs \<longleftrightarrow>
     (\<forall>n \<in> {1..length segs}. (\<forall>m \<in> {1..<n}. fs (take m segs) = FsOther) \<longrightarrow>
        \<not> is_symlink (fs (take n segs)))"

definition plain_prefix :: "file_system \<Rightarrow> string list \<Rightarrow> bool" where
  "plain_prefix fs segs \<longleftrightarrow> (\<forall>n \<in> {1..length segs}. fs (take n segs) = FsOther)"

lemma plain_prefix_Nil [simp]: "plain_prefix fs []"
  by (simp add: plain_prefix_def)

lemma plain_prefix_snoc:
  "plain_prefix fs (segs @ [s]) \<longleftrightarrow> plain_prefix fs segs \<and> fs (segs @ [s]) = FsOther"
proof -
  have "{1..length (segs @ [s])} = insert (Suc (length segs)) {1..length segs}"
    by (auto simp: le_Suc_eq Suc_le_eq)
  moreover have "take n (segs @ [s]) = take n segs" if "n \<in> {1..length segs}" for n
    using that by simp
  ultimately show ?thesis by (simp add: plain_prefix_def conj_commute del: take_append)
qed

lemma resolve_plain:
  "plain_prefix fs resolved \<Longrightarrow> (\<forall>n \<in> {1..length (resolved @ remaining)}.
       (\<forall>m \<in> {1..<n}. fs (take m (resolved @ remaining)) = FsOther) \<longrightarrow>
       fs (take n (resolved @ remaining)) \<in> {FsOther, FsNotFound})
     \<Longrightarrow> resolve_segments fs resolved remaining hops = Inr (resolved @ remaining)"
proof (induction remaining arbitrary: resolved)
  case (Cons s rest)
  let ?all = "resolved @ s # rest"
  have pre: "fs (take m ?all) = FsOther" if "m \<in> {1..<Suc (length resolved)}" for m
    using Cons.prems(1) that by (auto simp: plain_prefix_def)
  have "fs (take (Suc (length resolved)) ?all) \<in> {FsOther, FsNotFound}"
    using Cons.prems(2) pre by (metis atLeastAtMost_iff length_append length_Cons le_add1 add_Suc_right
        Suc_le_mono le_numeral_extra(4) One_nat_def le0)
  then have "fs (resolved @ [s]) \<in> {FsOther, FsNotFound}" by simp
  then show ?case
  proof
    assume "fs (resolved @ [s]) = FsOther"
    moreover from this Cons.prems(1) have "plain_prefix fs (resolved @ [s])"
      by (simp add: plain_prefix_snoc)
    ultimately show ?thesis
      using Cons.IH [of "resolved @ [s]"] Cons.prems(2) by (simp add: resolve_segments.simps(2))
  next
    assume "fs (resolved @ [s]) \<in> {FsNotFound}"
    then show ?thesis by (simp add: resolve_segments.simps(2))
  qed
qed simp

text \<open>
  The segments a resolution ends with: up to the first one that does not exist, all exist
  and none is a link. Such a path resolves to itself.
\<close>

definition settled :: "file_system \<Rightarrow> string list \<Rightarrow> bool" where
  "settled fs segs \<longleftrightarrow>
     (\<forall>n \<in> {1..length segs}. (\<forall>m \<in> {1..<n}. fs (take m segs) = FsOther) \<longrightarrow>
        fs (take n segs) \<in> {FsOther, FsNotFound})"

lemma settled_link_free: "settled fs segs \<Longrightarrow> link_free fs segs"
  unfolding settled_def link_free_def
proof (intro ballI impI)
  fix n
  assume ok: "\<forall>n \<in> {1..length segs}. (\<forall>m \<in> {1..<n}. fs (take m segs) = FsOther) \<longrightarrow>
      fs (take n segs) \<in> {FsOther, FsNotFound}"
    and n: "n \<in> {1..length segs}" "\<forall>m \<in> {1..<n}. fs (take m segs) = FsOther"
  then have "fs (take n segs) \<in> {FsOther, FsNotFound}" by blast
  then show "\<not> is_symlink (fs (take n segs))" by (auto simp: is_symlink_def)
qed

lemma plain_settled: "plain_prefix fs segs \<Longrightarrow> settled fs segs"
  by (auto simp: plain_prefix_def settled_def)

lemma not_found_settled:
  assumes "plain_prefix fs segs" "fs (segs @ [s]) = FsNotFound"
  shows "settled fs (segs @ s # rest)"
  unfolding settled_def
proof (intro ballI impI)
  fix n assume n: "n \<in> {1..length (segs @ s # rest)}"
    and prev: "\<forall>m \<in> {1..<n}. fs (take m (segs @ s # rest)) = FsOther"
  consider "n \<le> length segs" | "n = Suc (length segs)" | "Suc (length segs) < n" by linarith
  then show "fs (take n (segs @ s # rest)) \<in> {FsOther, FsNotFound}"
  proof cases
    case 1
    then show ?thesis using assms(1) n by (auto simp: plain_prefix_def)
  next
    case 2
    then show ?thesis using assms(2) by simp
  next
    case 3
    then have "Suc (length segs) \<in> {1..<n}" by simp
    with prev have "fs (take (Suc (length segs)) (segs @ s # rest)) = FsOther" by blast
    then show ?thesis using assms(2) by simp
  qed
qed

lemma resolve_segments_settled:
  "resolve_segments fs resolved remaining hops = Inr out \<Longrightarrow> plain_prefix fs resolved
     \<Longrightarrow> settled fs out"
proof (induction fs resolved remaining hops rule: resolve_segments.induct)
  case (1 fs resolved hops)
  then show ?case by (simp add: plain_settled)
next
  case (2 fs resolved segment rest hops)
  show ?case
  proof (cases "fs (resolved @ [segment])")
    case (FsSymlink link)
    with "2.prems" obtain target segs where
      link: "hops \<noteq> 0" "link = Inr target"
        "split_and_normalize (path_join (segments_path resolved) target) = Inr segs"
      and r: "resolve_segments fs [] (segs @ rest) (hops - 1) = Inr out"
      by (auto simp: resolve_segments.simps(2) split: if_splits sum.splits)
    show ?thesis by (rule "2.IH"(1) [OF FsSymlink link r]) simp
  next
    case FsOther
    with "2.prems" show ?thesis
      by (intro "2.IH"(2)) (auto simp: resolve_segments.simps(2) plain_prefix_snoc)
  next
    case FsNotFound
    with "2.prems" have "out = resolved @ segment # rest"
      by (simp add: resolve_segments.simps(2))
    with FsNotFound "2.prems"(2) show ?thesis by (simp add: not_found_settled)
  next
    case (FsError e)
    with "2.prems" show ?thesis by (simp add: resolve_segments.simps(2))
  qed
qed

lemma settled_resolves: "settled fs segs \<Longrightarrow> resolve_segments fs [] segs hops = Inr segs"
  using resolve_plain [of fs "[]" segs hops] by (simp add: settled_def)

lemma split_segments_path: "split_and_normalize (segments_path segs) = Inr segs"
proof -
  have "fold_components (map Normal segs) acc = acc @ segs" for acc
    by (induction segs arbitrary: acc) simp_all
  then show ?thesis by (simp add: split_and_normalize_def segments_path_def)
qed

end
