(* ===== verification/SharedContext.thy ===== *)
theory SharedContext
  imports Prelude Domain "HOL-Library.Product_Lexorder"
begin

text \<open>
  \<open>src/shared_context.rs\<close>: the bounded store of notes workers leave for each other, with a
  time to live per entry. The two locks of the store are taken one after the other; here the
  store is one record and each operation takes it and returns it. The clock reading and the
  fresh UUID an operation draws are arguments.
\<close>

datatype context_scope = ScopeProject | ScopeMilestone string | ScopeLabel string

record context_entry =
  cx_id :: string
  cx_author_issue :: string
  cx_scope :: context_scope
  cx_content :: string
  cx_created_at :: timestamp
  cx_ttl_ms :: nat

record shared_context_store =
  ss_entries :: "context_entry list"
  ss_default_ttl_ms :: nat
  ss_max_entries :: nat

record context_entry_draft =
  dr_author_issue :: string
  dr_scope :: context_scope
  dr_content :: string
  dr_ttl_ms :: "nat option"

definition MAX_SHARED_CONTEXT_CONTENT_CHARS :: nat where
  "MAX_SHARED_CONTEXT_CONTENT_CHARS = 500"

section \<open>Scopes\<close>

definition parse_scope :: "string \<Rightarrow> context_scope option" where
  "parse_scope v =
     (let normalized = trim v
      in if eq_ignore_ascii_case normalized ''project'' then Some ScopeProject
         else case split_once (CHR '':'') normalized of
                None \<Rightarrow> None
              | Some (raw_kind, raw_value) \<Rightarrow>
                 (let kind = to_ascii_lowercase (trim raw_kind); val = trim raw_value
                  in if val = [] then None
                     else if kind = ''milestone'' then Some (ScopeMilestone val)
                     else if kind = ''label'' then Some (ScopeLabel (to_ascii_lowercase val))
                     else None))"

fun as_scope_key :: "context_scope \<Rightarrow> string" where
  "as_scope_key ScopeProject = ''project''"
| "as_scope_key (ScopeMilestone m) = ''milestone:'' @ m"
| "as_scope_key (ScopeLabel l) = ''label:'' @ l"

fun normalize_scope :: "context_scope \<Rightarrow> context_scope" where
  "normalize_scope ScopeProject = ScopeProject"
| "normalize_scope (ScopeMilestone m) = ScopeMilestone (trim m)"
| "normalize_scope (ScopeLabel l) = ScopeLabel (to_ascii_lowercase (trim l))"

section \<open>Operations\<close>

definition truncate_chars :: "string \<Rightarrow> nat \<Rightarrow> string" where
  "truncate_chars v max_chars = take max_chars v"

definition is_expired :: "context_entry \<Rightarrow> timestamp \<Rightarrow> bool" where
  "is_expired e now \<longleftrightarrow> int (cx_ttl_ms e) < max 0 (num_milliseconds (now - cx_created_at e))"

text \<open>Entries are ordered by age, oldest first, and by id where two are equally old.\<close>

definition age_key :: "context_entry \<Rightarrow> timestamp \<times> string" where
  "age_key e = (cx_created_at e, cx_id e)"

definition enforce_max_entries :: "context_entry list \<Rightarrow> nat \<Rightarrow> context_entry list" where
  "enforce_max_entries entries max_entries =
     (let limit = max max_entries 1
      in if length entries \<le> limit then entries
         else drop (length entries - limit) (sort_key age_key entries))"

definition new_store :: "nat \<Rightarrow> nat \<Rightarrow> shared_context_store" where
  "new_store default_ttl_ms max_entries =
     \<lparr> ss_entries = [], ss_default_ttl_ms = default_ttl_ms, ss_max_entries = max max_entries 1 \<rparr>"

definition update_settings :: "nat \<Rightarrow> nat \<Rightarrow> shared_context_store \<Rightarrow> shared_context_store" where
  "update_settings default_ttl_ms max_entries st =
     (let limit = max max_entries 1
      in st\<lparr> ss_default_ttl_ms := default_ttl_ms, ss_max_entries := limit,
             ss_entries := enforce_max_entries (ss_entries st) limit \<rparr>)"

definition write_entry ::
  "string \<Rightarrow> timestamp \<Rightarrow> context_entry_draft \<Rightarrow> shared_context_store
     \<Rightarrow> context_entry \<times> shared_context_store" where
  "write_entry uuid now draft st =
     (let ttl_ms = max (case dr_ttl_ms draft of Some t \<Rightarrow> t | None \<Rightarrow> ss_default_ttl_ms st) 1;
          author = trim (dr_author_issue draft);
          entry = \<lparr> cx_id = uuid,
                    cx_author_issue = (if author = [] then ''unknown'' else author),
                    cx_scope = normalize_scope (dr_scope draft),
                    cx_content = truncate_chars (dr_content draft) MAX_SHARED_CONTEXT_CONTENT_CHARS,
                    cx_created_at = now, cx_ttl_ms = ttl_ms \<rparr>
      in (entry, st\<lparr> ss_entries := enforce_max_entries (ss_entries st @ [entry]) (ss_max_entries st) \<rparr>))"

definition prune_expired_entries_at ::
  "timestamp \<Rightarrow> shared_context_store \<Rightarrow> context_entry list \<times> shared_context_store" where
  "prune_expired_entries_at now st =
     (filter (\<lambda>e. is_expired e now) (ss_entries st),
      st\<lparr> ss_entries := filter (\<lambda>e. \<not> is_expired e now) (ss_entries st) \<rparr>)"

definition read_entries ::
  "timestamp \<Rightarrow> context_scope list \<Rightarrow> shared_context_store
     \<Rightarrow> context_entry list \<times> shared_context_store" where
  "read_entries now scope_filter st =
     (let st' = snd (prune_expired_entries_at now st);
          filters = normalize_scope ` set scope_filter;
          kept = filter (\<lambda>e. filters = {} \<or> normalize_scope (cx_scope e) \<in> filters) (ss_entries st')
      in (rev (sort_key age_key (rev kept)), st'))"

definition clear_entries ::
  "context_scope list option \<Rightarrow> shared_context_store \<Rightarrow> nat \<times> shared_context_store" where
  "clear_entries scope_filter st =
     (let before = length (ss_entries st);
          entries =
            (case scope_filter of
               Some filters \<Rightarrow>
                 if filters \<noteq> [] then
                   filter (\<lambda>e. normalize_scope (cx_scope e) \<notin> normalize_scope ` set filters) (ss_entries st)
                 else []
             | None \<Rightarrow> [])
      in (before - length entries, st\<lparr> ss_entries := entries \<rparr>))"

fun remove_first :: "string \<Rightarrow> context_entry list \<Rightarrow> context_entry option \<times> context_entry list" where
  "remove_first eid [] = (None, [])"
| "remove_first eid (e # es) =
     (if cx_id e = eid then (Some e, es)
      else let (r, es') = remove_first eid es in (r, e # es'))"

definition remove_entry ::
  "string \<Rightarrow> shared_context_store \<Rightarrow> context_entry option \<times> shared_context_store" where
  "remove_entry entry_id st =
     (let (removed, entries) = remove_first entry_id (ss_entries st)
      in (removed, st\<lparr> ss_entries := entries \<rparr>))"

definition total_entries :: "shared_context_store \<Rightarrow> nat" where
  "total_entries st = length (ss_entries st)"

record shared_context_summary =
  su_total_entries :: nat
  su_entries_by_scope :: "(string \<times> nat) list"
  su_oldest_entry_at :: "timestamp option"
  su_newest_entry_at :: "timestamp option"

text \<open>\<open>BTreeMap\<close> counters: ascending keys, a missing key counts from zero.\<close>

fun count_scope :: "string \<Rightarrow> (string \<times> nat) list \<Rightarrow> (string \<times> nat) list" where
  "count_scope k [] = [(k, 1)]"
| "count_scope k ((k', n) # m) =
     (if k < k' then (k, 1) # (k', n) # m
      else if k = k' then (k, n + 1) # m
      else (k', n) # count_scope k m)"

definition summarize_entry ::
  "context_entry \<Rightarrow> shared_context_summary \<Rightarrow> shared_context_summary" where
  "summarize_entry e acc =
     acc\<lparr> su_entries_by_scope := count_scope (as_scope_key (cx_scope e)) (su_entries_by_scope acc),
         su_oldest_entry_at :=
           (case su_oldest_entry_at acc of
              Some current \<Rightarrow> if current \<le> cx_created_at e then Some current else Some (cx_created_at e)
            | None \<Rightarrow> Some (cx_created_at e)),
         su_newest_entry_at :=
           (case su_newest_entry_at acc of
              Some current \<Rightarrow> if cx_created_at e \<le> current then Some current else Some (cx_created_at e)
            | None \<Rightarrow> Some (cx_created_at e)) \<rparr>"

definition store_summary ::
  "timestamp \<Rightarrow> shared_context_store \<Rightarrow> shared_context_summary \<times> shared_context_store" where
  "store_summary now st =
     (let st' = snd (prune_expired_entries_at now st)
      in (fold summarize_entry (ss_entries st')
            \<lparr> su_total_entries = length (ss_entries st'), su_entries_by_scope = [],
              su_oldest_entry_at = None, su_newest_entry_at = None \<rparr>, st'))"

section \<open>Facts\<close>

definition store_ok :: "shared_context_store \<Rightarrow> bool" where
  "store_ok st \<longleftrightarrow> 1 \<le> ss_max_entries st \<and> length (ss_entries st) \<le> ss_max_entries st
     \<and> (\<forall>e \<in> set (ss_entries st). 1 \<le> cx_ttl_ms e
          \<and> length (cx_content e) \<le> MAX_SHARED_CONTEXT_CONTENT_CHARS
          \<and> cx_author_issue e \<noteq> [] \<and> normalize_scope (cx_scope e) = cx_scope e)"

lemma trim_lower_commute: "trim (to_ascii_lowercase s) = to_ascii_lowercase (trim s)"
proof -
  have dw: "dropWhile is_whitespace (map ascii_lower xs) = map ascii_lower (dropWhile is_whitespace xs)" for xs
    by (induction xs) (auto simp: text_simps)
  show ?thesis
    by (simp add: trim_def trim_start_def trim_end_def to_ascii_lowercase_def dw rev_map)
qed

lemma normalize_scope_idem [simp]: "normalize_scope (normalize_scope s) = normalize_scope s"
  by (cases s) (simp_all add: text_simps trim_lower_commute)

lemma length_enforce: "length (enforce_max_entries es n) = min (length es) (max n 1)"
  by (simp add: enforce_max_entries_def Let_def min_def)

lemma set_enforce: "set (enforce_max_entries es n) \<subseteq> set es"
  by (auto simp: enforce_max_entries_def Let_def dest: in_set_dropD)

lemma enforce_keeps_newest:
  assumes "e \<in> set (enforce_max_entries es n)" "d \<in> set es" "d \<notin> set (enforce_max_entries es n)"
  shows "age_key d \<le> age_key e"
proof -
  let ?xs = "sort_key age_key es" and ?k = "length es - max n 1"
  from assms(2,3) have gt: "\<not> length es \<le> max n 1"
    by (auto simp: enforce_max_entries_def)
  then have e: "e \<in> set (drop ?k ?xs)" and d: "d \<in> set (take ?k ?xs)"
    using assms by (auto simp: enforce_max_entries_def Let_def)
      (metis Un_iff append_take_drop_id set_append set_sort)
  have "sorted (map age_key (take ?k ?xs @ drop ?k ?xs))"
    by simp
  then show ?thesis
    using e d unfolding map_append sorted_append by force
qed

lemma store_ok_subset:
  "store_ok st \<Longrightarrow> set es \<subseteq> set (ss_entries st) \<Longrightarrow> length es \<le> length (ss_entries st)
     \<Longrightarrow> store_ok (st\<lparr> ss_entries := es \<rparr>)"
  by (auto simp: store_ok_def)

lemma remove_first_sub:
  "set (snd (remove_first eid es)) \<subseteq> set es \<and> length (snd (remove_first eid es)) \<le> length es"
  by (induction es) (auto split: prod.splits)

lemma store_ok_write:
  assumes "store_ok st"
  shows "store_ok (snd (write_entry uuid now draft st))"
proof -
  let ?e = "fst (write_entry uuid now draft st)"
  have new: "1 \<le> cx_ttl_ms ?e \<and> length (cx_content ?e) \<le> MAX_SHARED_CONTEXT_CONTENT_CHARS
      \<and> cx_author_issue ?e \<noteq> [] \<and> normalize_scope (cx_scope ?e) = cx_scope ?e"
    by (simp add: write_entry_def Let_def truncate_chars_def)
  have st': "snd (write_entry uuid now draft st)
      = st\<lparr> ss_entries := enforce_max_entries (ss_entries st @ [?e]) (ss_max_entries st) \<rparr>"
    by (simp add: write_entry_def Let_def)
  have "set (enforce_max_entries (ss_entries st @ [?e]) (ss_max_entries st)) \<subseteq> insert ?e (set (ss_entries st))"
    using set_enforce [of "ss_entries st @ [?e]"] by auto
  moreover have "length (enforce_max_entries (ss_entries st @ [?e]) (ss_max_entries st)) \<le> ss_max_entries st"
    using assms by (simp add: length_enforce store_ok_def max_def)
  ultimately show ?thesis
    using assms new unfolding st' store_ok_def by (auto dest!: subsetD)
qed

lemma store_ok_settings: "store_ok st \<Longrightarrow> store_ok (update_settings ttl n st)"
  using set_enforce [of "ss_entries st" "max n 1"]
  by (auto simp: update_settings_def Let_def store_ok_def length_enforce)

lemma store_ok_new: "store_ok (new_store ttl n)"
  by (simp add: new_store_def store_ok_def)

lemma store_ok_prune: "store_ok st \<Longrightarrow> store_ok (snd (prune_expired_entries_at now st))"
  by (auto simp: prune_expired_entries_at_def intro!: store_ok_subset)

lemma store_ok_read: "store_ok st \<Longrightarrow> store_ok (snd (read_entries now fs st))"
  by (simp add: read_entries_def Let_def store_ok_prune)

lemma store_ok_remove: "store_ok st \<Longrightarrow> store_ok (snd (remove_entry eid st))"
  using remove_first_sub [of eid "ss_entries st"]
  by (auto simp: remove_entry_def split: prod.splits intro!: store_ok_subset)

lemma store_ok_clear: "store_ok st \<Longrightarrow> store_ok (snd (clear_entries fs st))"
  by (auto simp: clear_entries_def Let_def split: option.splits intro!: store_ok_subset)

lemmas store_ok_intros = store_ok_new store_ok_settings store_ok_write store_ok_prune
  store_ok_read store_ok_remove store_ok_clear

end
