(* ===== verification/Escalation.thy ===== *)
theory Escalation
  imports Prelude Domain
begin

text \<open>
  The escalation registry of \<open>src/orchestrator.rs\<close>: questions of workers that wait for a
  human answer, and a bounded memory of the ids already answered. A waiting question holds
  the sending half of a one-shot channel, here the number of the channel; whether a send
  reaches a live receiver is a parameter of \<open>resolve\<close>. The registry is a mutex around its
  state, so each locked section is one step; \<open>resolve\<close> has two of them.
\<close>

record escalation_entry =
  ee_request :: escalation_request
  ee_response_tx :: nat

record resolved_cache =
  rc_ids :: "string set"
  rc_order :: "string list"

record registry_state =
  rg_pending :: "(string, escalation_entry) hmap"
  rg_resolved :: resolved_cache

datatype resolve_result = Resolved | NotFound | AlreadyResolved

definition ESCALATION_RESOLVED_CACHE_CAPACITY :: nat where
  "ESCALATION_RESOLVED_CACHE_CAPACITY = 1024"

section \<open>The cache of answered ids\<close>

definition empty_cache :: resolved_cache where
  "empty_cache = \<lparr> rc_ids = {}, rc_order = [] \<rparr>"

definition cache_contains :: "resolved_cache \<Rightarrow> string \<Rightarrow> bool" where
  "cache_contains c request_id \<longleftrightarrow> request_id \<in> rc_ids c"

text \<open>The eviction loop: while the queue is too long, its front leaves both structures.\<close>

fun cache_evict :: "string list \<Rightarrow> string set \<Rightarrow> resolved_cache" where
  "cache_evict [] ids = \<lparr> rc_ids = ids, rc_order = [] \<rparr>"
| "cache_evict (evicted # order) ids =
     (if ESCALATION_RESOLVED_CACHE_CAPACITY < length (evicted # order)
      then cache_evict order (ids - {evicted})
      else \<lparr> rc_ids = ids, rc_order = evicted # order \<rparr>)"

definition cache_insert :: "string \<Rightarrow> resolved_cache \<Rightarrow> resolved_cache" where
  "cache_insert request_id c =
     (if request_id \<in> rc_ids c then c
      else cache_evict (rc_order c @ [request_id]) (insert request_id (rc_ids c)))"

definition cache_remove :: "string \<Rightarrow> resolved_cache \<Rightarrow> resolved_cache" where
  "cache_remove request_id c =
     (if request_id \<notin> rc_ids c then c
      else \<lparr> rc_ids = rc_ids c - {request_id}, rc_order = remove1 request_id (rc_order c) \<rparr>)"

section \<open>The registry\<close>

definition empty_registry :: registry_state where
  "empty_registry = \<lparr> rg_pending = hempty, rg_resolved = empty_cache \<rparr>"

definition register :: "escalation_request \<Rightarrow> nat \<Rightarrow> registry_state \<Rightarrow> registry_state" where
  "register request response_tx st =
     st\<lparr> rg_resolved := cache_remove (er_id request) (rg_resolved st),
         rg_pending := hput (er_id request)
                         \<lparr> ee_request = request, ee_response_tx = response_tx \<rparr> (rg_pending st) \<rparr>"

text \<open>The first locked section of \<open>resolve\<close>: the entry leaves the pending map.\<close>

definition resolve_take ::
  "string \<Rightarrow> registry_state \<Rightarrow> (resolve_result + escalation_entry) \<times> registry_state" where
  "resolve_take request_id st =
     (case hget (rg_pending st) request_id of
        Some entry \<Rightarrow> (Inr entry, st\<lparr> rg_pending := hdel request_id (rg_pending st) \<rparr>)
      | None \<Rightarrow>
          if cache_contains (rg_resolved st) request_id then (Inl AlreadyResolved, st)
          else (Inl NotFound, st))"

text \<open>The second one, taken only when the receiver accepted the response.\<close>

definition resolve_record :: "string \<Rightarrow> registry_state \<Rightarrow> registry_state" where
  "resolve_record request_id st = st\<lparr> rg_resolved := cache_insert request_id (rg_resolved st) \<rparr>"

definition resolve ::
  "(nat \<Rightarrow> escalation_response \<Rightarrow> bool) \<Rightarrow> string \<Rightarrow> escalation_response \<Rightarrow> registry_state
     \<Rightarrow> resolve_result \<times> registry_state" where
  "resolve send request_id response st =
     (case resolve_take request_id st of
        (Inl r, st') \<Rightarrow> (r, st')
      | (Inr entry, st') \<Rightarrow>
          if send (ee_response_tx entry) response then (Resolved, resolve_record request_id st')
          else (NotFound, st'))"

definition registry_remove :: "string \<Rightarrow> registry_state \<Rightarrow> bool \<times> registry_state" where
  "registry_remove request_id st =
     (hmember (rg_pending st) request_id, st\<lparr> rg_pending := hdel request_id (rg_pending st) \<rparr>)"

fun cancel_ids ::
  "string list \<Rightarrow> (string, escalation_entry) hmap
     \<Rightarrow> escalation_request list \<times> (string, escalation_entry) hmap" where
  "cancel_ids [] pending = ([], pending)"
| "cancel_ids (request_id # ids) pending =
     (case hget pending request_id of
        Some entry \<Rightarrow>
          (let (cancelled, pending') = cancel_ids ids (hdel request_id pending)
           in (ee_request entry # cancelled, pending'))
      | None \<Rightarrow> cancel_ids ids pending)"

definition cancel_for_issue ::
  "string \<Rightarrow> registry_state \<Rightarrow> escalation_request list \<times> registry_state" where
  "cancel_for_issue issue_id st =
     (let ids_to_remove = map fst (filter (\<lambda>(request_id, entry). er_issue_id (ee_request entry) = issue_id)
                                     (hitems (rg_pending st)));
          (cancelled, pending) = cancel_ids ids_to_remove (rg_pending st)
      in (cancelled, st\<lparr> rg_pending := pending \<rparr>))"

section \<open>Facts about the cache\<close>

definition cache_ok :: "resolved_cache \<Rightarrow> bool" where
  "cache_ok c \<longleftrightarrow> rc_ids c = set (rc_order c) \<and> distinct (rc_order c)
     \<and> length (rc_order c) \<le> ESCALATION_RESOLVED_CACHE_CAPACITY"

lemma cache_evict_eq:
  "distinct order \<Longrightarrow> cache_evict order (set order)
     = (let kept = drop (length order - ESCALATION_RESOLVED_CACHE_CAPACITY) order
        in \<lparr> rc_ids = set kept, rc_order = kept \<rparr>)"
proof (induction order)
  case (Cons x xs)
  show ?case
  proof (cases "ESCALATION_RESOLVED_CACHE_CAPACITY < length (x # xs)")
    case True
    then have "length (x # xs) - ESCALATION_RESOLVED_CACHE_CAPACITY
        = Suc (length xs - ESCALATION_RESOLVED_CACHE_CAPACITY)" by auto
    moreover have "insert x (set xs) - {x} = set xs" using Cons.prems by auto
    ultimately show ?thesis using Cons True by (simp add: Let_def)
  next
    case False
    then show ?thesis by (simp add: Let_def)
  qed
qed (simp add: Let_def)

lemma cache_ok_empty: "cache_ok empty_cache"
  by (simp add: cache_ok_def empty_cache_def)

lemma cache_insert_eq:
  assumes "cache_ok c" "request_id \<notin> rc_ids c"
  shows "cache_insert request_id c
    = (let order = rc_order c @ [request_id];
           kept = drop (length order - ESCALATION_RESOLVED_CACHE_CAPACITY) order
       in \<lparr> rc_ids = set kept, rc_order = kept \<rparr>)"
proof -
  have "distinct (rc_order c @ [request_id])" "insert request_id (rc_ids c) = set (rc_order c @ [request_id])"
    using assms by (auto simp: cache_ok_def)
  then show ?thesis
    using assms(2) by (simp only: cache_insert_def if_False cache_evict_eq Let_def)
qed

lemma cache_ok_insert: "cache_ok c \<Longrightarrow> cache_ok (cache_insert request_id c)"
proof (cases "request_id \<in> rc_ids c")
  case False
  assume "cache_ok c"
  then have "distinct (rc_order c @ [request_id])"
    using False by (auto simp: cache_ok_def)
  with False \<open>cache_ok c\<close> show ?thesis
    by (simp add: cache_insert_eq Let_def cache_ok_def distinct_drop del: drop_append)
qed (simp add: cache_insert_def)

lemma cache_ok_remove: "cache_ok c \<Longrightarrow> cache_ok (cache_remove request_id c)"
  by (auto simp: cache_remove_def cache_ok_def length_remove1)

lemma cache_insert_contains: "cache_ok c \<Longrightarrow> cache_contains (cache_insert request_id c) request_id"
proof (cases "request_id \<in> rc_ids c")
  case False
  assume ok: "cache_ok c"
  have "0 < ESCALATION_RESOLVED_CACHE_CAPACITY"
    by (simp add: ESCALATION_RESOLVED_CACHE_CAPACITY_def)
  then have "length (rc_order c @ [request_id]) - ESCALATION_RESOLVED_CACHE_CAPACITY \<le> length (rc_order c)"
    by simp
  then show ?thesis
    using ok False by (simp add: cache_insert_eq cache_contains_def Let_def)
qed (simp add: cache_insert_def cache_contains_def)

section \<open>Facts about the registry\<close>

definition registry_ok :: "registry_state \<Rightarrow> bool" where
  "registry_ok st \<longleftrightarrow> cache_ok (rg_resolved st)
     \<and> (\<forall>request_id entry. hget (rg_pending st) request_id = Some entry \<longrightarrow>
          er_id (ee_request entry) = request_id)"

lemma cancel_ids_spec:
  "distinct ids \<Longrightarrow>
     fst (cancel_ids ids m) = map (\<lambda>i. ee_request (the (hget m i))) (filter (\<lambda>i. hget m i \<noteq> None) ids)
     \<and> hget (snd (cancel_ids ids m)) = (\<lambda>k. if k \<in> set ids then None else hget m k)"
proof (induction ids m rule: cancel_ids.induct)
  case (2 i ids m)
  show ?case
  proof (cases "hget m i")
    case None
    with 2 show ?thesis by (auto simp: fun_eq_iff)
  next
    case (Some entry)
    have "filter (\<lambda>j. hget (hdel i m) j \<noteq> None) ids = filter (\<lambda>j. hget m j \<noteq> None) ids"
      using 2(3) by (auto intro: filter_cong)
    moreover have "map (\<lambda>j. ee_request (the (hget (hdel i m) j))) (filter (\<lambda>j. hget m j \<noteq> None) ids)
        = map (\<lambda>j. ee_request (the (hget m j))) (filter (\<lambda>j. hget m j \<noteq> None) ids)"
      using 2(3) by auto
    ultimately show ?thesis
      using 2(2) [OF Some] 2(3) Some by (auto simp: fun_eq_iff split: prod.splits)
  qed
qed (simp add: fun_eq_iff)

lemma distinct_map_fst_filter: "distinct (map fst xs) \<Longrightarrow> distinct (map fst (filter P xs))"
  by (induction xs) auto

lemma cancel_for_issue_pending:
  "hget (rg_pending (snd (cancel_for_issue issue_id st))) request_id
     = (case hget (rg_pending st) request_id of
          Some e \<Rightarrow> if er_issue_id (ee_request e) = issue_id then None else Some e
        | None \<Rightarrow> None)"
proof -
  let ?ids = "map fst (filter (\<lambda>(r, e). er_issue_id (ee_request e) = issue_id) (hitems (rg_pending st)))"
  have d: "distinct ?ids"
    using distinct_hkeys [of "rg_pending st"] by (auto simp: hkeys_def intro: distinct_map_fst_filter)
  have in_ids: "r \<in> set ?ids \<longleftrightarrow> (\<exists>e. hget (rg_pending st) r = Some e \<and> er_issue_id (ee_request e) = issue_id)" for r
    by (force simp flip: hitems_iff)
  have "hget (snd (cancel_ids ?ids (rg_pending st))) request_id
      = (if request_id \<in> set ?ids then None else hget (rg_pending st) request_id)"
    using cancel_ids_spec [OF d, of "rg_pending st"] by (simp only:)
  then show ?thesis
    unfolding in_ids by (auto simp: cancel_for_issue_def Let_def split: prod.splits option.splits)
qed

lemma cancel_for_issue_resolved [simp]:
  "rg_resolved (snd (cancel_for_issue issue_id st)) = rg_resolved st"
  by (simp add: cancel_for_issue_def Let_def split: prod.splits)

lemma registry_ok_empty: "registry_ok empty_registry"
  by (simp add: registry_ok_def empty_registry_def cache_ok_empty)

lemma registry_ok_register: "registry_ok st \<Longrightarrow> registry_ok (register request tx st)"
  by (auto simp: registry_ok_def register_def cache_ok_remove)

lemma registry_ok_take: "registry_ok st \<Longrightarrow> registry_ok (snd (resolve_take request_id st))"
  by (auto simp: registry_ok_def resolve_take_def split: option.splits)

lemma registry_ok_record: "registry_ok st \<Longrightarrow> registry_ok (resolve_record request_id st)"
  by (auto simp: registry_ok_def resolve_record_def cache_ok_insert)

lemma registry_ok_resolve: "registry_ok st \<Longrightarrow> registry_ok (snd (resolve send request_id response st))"
  using registry_ok_take [of st request_id]
  by (auto simp: resolve_def registry_ok_record split: prod.splits sum.splits)

lemma registry_ok_remove: "registry_ok st \<Longrightarrow> registry_ok (snd (registry_remove request_id st))"
  by (auto simp: registry_ok_def registry_remove_def split: if_splits)

lemma registry_ok_cancel: "registry_ok st \<Longrightarrow> registry_ok (snd (cancel_for_issue issue_id st))"
  by (auto simp: registry_ok_def cancel_for_issue_pending split: option.splits if_splits)

lemmas registry_ok_intros = registry_ok_empty registry_ok_register registry_ok_take
  registry_ok_record registry_ok_resolve registry_ok_remove registry_ok_cancel

end
