(* ===== verification/TokenAccounting.thy ===== *)
theory TokenAccounting
  imports Prelude Json
begin

text \<open>
  \<open>src/codex/token_accounting.rs\<close>: reading absolute token totals out of an event payload,
  the increment over the totals reported before, and the rate-limit map of a payload.
  Token counts are \<open>u64\<close> values; \<open>saturating_sub\<close> is the truncated difference of
  \<open>nat\<close>.
\<close>

record token_state =
  ts_last_input :: nat
  ts_last_output :: nat
  ts_last_total :: nat

record token_delta =
  td_input_tokens :: nat
  td_output_tokens :: nat
  td_total_tokens :: nat
  td_input_reported :: nat
  td_output_reported :: nat
  td_total_reported :: nat

definition token_fields :: "string list" where
  "token_fields = [''input_tokens'', ''output_tokens'', ''total_tokens'', ''prompt_tokens'',
     ''completion_tokens'', ''inputTokens'', ''outputTokens'', ''totalTokens'',
     ''promptTokens'', ''completionTokens'']"

definition field_u64 :: "json \<Rightarrow> string \<Rightarrow> nat option" where
  "field_u64 v f = Option.bind (json_get v f) integer_like"

definition is_integer_token_map :: "json \<Rightarrow> bool" where
  "is_integer_token_map v =
     (case as_object v of
        None \<Rightarrow> False
      | Some _ \<Rightarrow> list_ex (\<lambda>f. field_u64 v f \<noteq> None) token_fields)"

fun find_map :: "('a \<Rightarrow> 'b option) \<Rightarrow> 'a list \<Rightarrow> 'b option" where
  "find_map f [] = None"
| "find_map f (x # xs) = (case f x of Some y \<Rightarrow> Some y | None \<Rightarrow> find_map f xs)"

definition get_token_usage_input :: "json \<Rightarrow> nat option" where
  "get_token_usage_input usage =
     find_map (field_u64 usage) [''input_tokens'', ''prompt_tokens'', ''inputTokens'', ''promptTokens'']"

definition get_token_usage_output :: "json \<Rightarrow> nat option" where
  "get_token_usage_output usage =
     find_map (field_u64 usage)
       [''output_tokens'', ''completion_tokens'', ''outputTokens'', ''completionTokens'']"

definition get_token_usage_total :: "json \<Rightarrow> nat option" where
  "get_token_usage_total usage =
     find_map (field_u64 usage) [''total_tokens'', ''total'', ''totalTokens'']"

section \<open>Finding the usage map\<close>

definition usage_paths :: "string list list" where
  "usage_paths =
     [[''params'', ''msg'', ''payload'', ''info'', ''total_token_usage''],
      [''params'', ''msg'', ''info'', ''total_token_usage''],
      [''params'', ''tokenUsage'', ''total''],
      [''tokenUsage'', ''total'']]"

definition token_map_at :: "json option \<Rightarrow> json option" where
  "token_map_at v = (case v of Some u \<Rightarrow> if is_integer_token_map u then Some u else None | None \<Rightarrow> None)"

definition turn_completed_usage :: "json \<Rightarrow> json option" where
  "turn_completed_usage payload =
     (if Option.bind (json_get payload ''method'') as_str = Some ''turn/completed''
      then find_map token_map_at
             [json_get payload ''usage'',
              Option.bind (json_get payload ''params'') (\<lambda>p. json_get p ''usage'')]
      else None)"

definition extract_token_usage :: "json \<Rightarrow> json" where
  "extract_token_usage payload =
     (case find_map (\<lambda>path. token_map_at (value_at_path payload path)) usage_paths of
        Some v \<Rightarrow> v
      | None \<Rightarrow>
         (case turn_completed_usage payload of
            Some u \<Rightarrow> u
          | None \<Rightarrow>
             if is_integer_token_map payload then payload
             else case token_map_at (json_get payload ''usage'') of
                    Some u \<Rightarrow> u
                  | None \<Rightarrow> JObject []))"

section \<open>Increments\<close>

definition compute_delta :: "nat option \<Rightarrow> nat \<Rightarrow> nat \<times> nat" where
  "compute_delta next_total prev_reported =
     (case next_total of None \<Rightarrow> (0, prev_reported) | Some n \<Rightarrow> (n - prev_reported, n))"

definition extract_token_delta :: "token_state \<Rightarrow> json \<Rightarrow> token_delta" where
  "extract_token_delta last_state payload =
     (let usage = extract_token_usage payload;
          (input_delta, input_reported) =
             compute_delta (get_token_usage_input usage) (ts_last_input last_state);
          (output_delta, output_reported) =
             compute_delta (get_token_usage_output usage) (ts_last_output last_state);
          (total_delta, total_reported) =
             compute_delta (get_token_usage_total usage) (ts_last_total last_state)
      in \<lparr> td_input_tokens = input_delta, td_output_tokens = output_delta,
           td_total_tokens = total_delta, td_input_reported = input_reported,
           td_output_reported = output_reported, td_total_reported = total_reported \<rparr>)"

section \<open>Rate limits\<close>

definition is_rate_limits_map :: "json \<Rightarrow> bool" where
  "is_rate_limits_map v =
     (case as_object v of
        None \<Rightarrow> False
      | Some obj \<Rightarrow>
          (map_of obj ''limit_id'' \<noteq> None \<or> map_of obj ''limit_name'' \<noteq> None)
          \<and> (map_of obj ''primary'' \<noteq> None \<or> map_of obj ''secondary'' \<noteq> None
              \<or> map_of obj ''credits'' \<noteq> None))"

fun rate_limits_from_payload :: "json \<Rightarrow> json option"
and rate_limits_from_values :: "(string \<times> json) list \<Rightarrow> json option"
and rate_limits_from_items :: "json list \<Rightarrow> json option" where
  "rate_limits_from_payload (JObject m) =
     (case map_of m ''rate_limits'' of
        Some rl \<Rightarrow>
          if is_rate_limits_map rl then Some rl
          else if is_rate_limits_map (JObject m) then Some (JObject m)
          else rate_limits_from_values m
      | None \<Rightarrow>
          if is_rate_limits_map (JObject m) then Some (JObject m)
          else rate_limits_from_values m)"
| "rate_limits_from_payload (JArray arr) = rate_limits_from_items arr"
| "rate_limits_from_payload _ = None"
| "rate_limits_from_values [] = None"
| "rate_limits_from_values ((k, v) # m) =
     (case rate_limits_from_payload v of Some found \<Rightarrow> Some found | None \<Rightarrow> rate_limits_from_values m)"
| "rate_limits_from_items [] = None"
| "rate_limits_from_items (v # vs) =
     (case rate_limits_from_payload v of Some found \<Rightarrow> Some found | None \<Rightarrow> rate_limits_from_items vs)"

definition extract_rate_limits :: "json \<Rightarrow> json option" where
  "extract_rate_limits payload = rate_limits_from_payload payload"

section \<open>Facts\<close>

text \<open>The values inside a payload, the payload included.\<close>

inductive inside :: "json \<Rightarrow> json \<Rightarrow> bool" where
  here: "inside v v"
| field: "(k, w) \<in> set m \<Longrightarrow> inside v w \<Longrightarrow> inside v (JObject m)"
| item: "w \<in> set ws \<Longrightarrow> inside v w \<Longrightarrow> inside v (JArray ws)"

inductive_cases inside_object: "inside v (JObject m)"
inductive_cases inside_array: "inside v (JArray ws)"

inductive_simps inside_scalar:
  "inside v JNull" "inside v (JBool b)" "inside v (JNumber n)" "inside v (JString s)"

lemma not_rate_limits_scalar [simp]:
  "\<not> is_rate_limits_map JNull" "\<not> is_rate_limits_map (JBool b)" "\<not> is_rate_limits_map (JNumber n)"
  "\<not> is_rate_limits_map (JString s)" "\<not> is_rate_limits_map (JArray ws)"
  by (simp_all add: is_rate_limits_map_def)

lemma rate_limits_sound:
  "rate_limits_from_payload p = Some r \<Longrightarrow> is_rate_limits_map r \<and> inside r p"
  "rate_limits_from_values m = Some r \<Longrightarrow> is_rate_limits_map r \<and> (\<exists>(k, v) \<in> set m. inside r v)"
  "rate_limits_from_items ws = Some r \<Longrightarrow> is_rate_limits_map r \<and> (\<exists>v \<in> set ws. inside r v)"
proof (induction p and m and ws arbitrary: r and r and r
    rule: rate_limits_from_payload_rate_limits_from_values_rate_limits_from_items.induct)
  case (1 m)
  have rl: "inside rl (JObject m)" if "map_of m ''rate_limits'' = Some rl" for rl
    using that by (meson inside.field inside.here map_of_SomeD)
  show ?case
    using 1 rl by (auto split: option.splits if_splits intro: inside.intros)
next
  case (2 arr)
  then show ?case by (auto intro: inside.intros)
qed (auto split: option.splits)

lemma rate_limits_complete:
  "inside r p \<Longrightarrow> is_rate_limits_map r \<Longrightarrow> rate_limits_from_payload p \<noteq> None"
proof (induction r p rule: inside.induct)
  case (here v)
  then show ?case by (cases v) (auto split: option.splits)
next
  case (field k w m v)
  have "rate_limits_from_values xs \<noteq> None" if "(k, w) \<in> set xs" for xs
    using that field by (induction xs) (auto split: option.splits)
  with field.hyps show ?case by (auto split: option.splits)
next
  case (item w ws v)
  have "rate_limits_from_items xs \<noteq> None" if "w \<in> set xs" for xs
    using that item by (induction xs) (auto split: option.splits)
  with item.hyps show ?case by simp
qed

text \<open>The state a caller keeps between two payloads, and the increments it adds up.\<close>

definition next_token_state :: "token_delta \<Rightarrow> token_state" where
  "next_token_state d =
     \<lparr> ts_last_input = td_input_reported d, ts_last_output = td_output_reported d,
       ts_last_total = td_total_reported d \<rparr>"

fun total_deltas :: "token_state \<Rightarrow> json list \<Rightarrow> nat \<times> token_state" where
  "total_deltas st [] = (0, st)"
| "total_deltas st (p # ps) =
     (let d = extract_token_delta st p;
          (rest, st') = total_deltas (next_token_state d) ps
      in (td_total_tokens d + rest, st'))"

lemma extract_token_delta_total:
  "td_total_tokens (extract_token_delta st p) = fst (compute_delta (get_token_usage_total (extract_token_usage p)) (ts_last_total st))"
  "td_total_reported (extract_token_delta st p) = snd (compute_delta (get_token_usage_total (extract_token_usage p)) (ts_last_total st))"
  by (simp_all add: extract_token_delta_def Let_def split: prod.splits)

text \<open>The totals a list of payloads reports, in order.\<close>

definition reported_total :: "json \<Rightarrow> nat option" where
  "reported_total p = get_token_usage_total (extract_token_usage p)"

lemma total_deltas_step:
  "fst (total_deltas st (p # ps)) =
     (case reported_total p of None \<Rightarrow> 0 | Some n \<Rightarrow> n - ts_last_total st)
       + fst (total_deltas (next_token_state (extract_token_delta st p)) ps)"
  "ts_last_total (next_token_state (extract_token_delta st p))
     = (case reported_total p of None \<Rightarrow> ts_last_total st | Some n \<Rightarrow> n)"
  by (simp_all add: Let_def case_prod_unfold extract_token_delta_total compute_delta_def
      reported_total_def next_token_state_def split: option.splits)

lemma total_deltas_telescope:
  "sorted (ts_last_total st # List.map_filter reported_total ps) \<Longrightarrow>
     fst (total_deltas st ps) + ts_last_total st = last (ts_last_total st # List.map_filter reported_total ps)"
proof (induction ps arbitrary: st)
  case (Cons p ps)
  let ?st = "next_token_state (extract_token_delta st p)"
  show ?case
  proof (cases "reported_total p")
    case None
    then have "ts_last_total ?st = ts_last_total st" by (simp add: total_deltas_step(2))
    then show ?thesis
      using Cons.IH [of ?st] Cons.prems None
      by (simp add: total_deltas_step(1) map_filter_simps del: total_deltas.simps)
  next
    case (Some n)
    then have "ts_last_total ?st = n" by (simp add: total_deltas_step(2))
    then show ?thesis
      using Cons.IH [of ?st] Cons.prems Some
      by (simp add: total_deltas_step(1) map_filter_simps del: total_deltas.simps)
  qed
qed (simp add: map_filter_simps)

end
