(* ===== verification/WorkerEvents.thy ===== *)
theory WorkerEvents
  imports Prelude Domain TokenAccounting
begin

text \<open>
  How the orchestrator reads a worker event: its time, name, kind and one-line summary, the
  tool it starts or ends, and the retry window a rate-limit message announces
  (\<open>src/orchestrator.rs\<close>, the functions after the \<open>impl\<close>, and
  \<open>src/session_summary.rs\<close>). The text of JSON is parsed and printed by \<open>serde_json\<close>:
  \<open>parse\<close> and \<open>render\<close> are arguments.
\<close>

section \<open>One-line text\<close>

definition compact_session_id :: "string \<Rightarrow> string" where
  "compact_session_id session_id = take 8 session_id"

definition normalize_whitespace :: "string \<Rightarrow> string" where
  "normalize_whitespace v = join_with '' '' (split_whitespace v)"

definition truncate_for_display :: "string \<Rightarrow> nat \<Rightarrow> string" where
  "truncate_for_display v max_chars =
     (if max_chars = 0 then []
      else let normalized = normalize_whitespace v
           in if length normalized \<le> max_chars then normalized
              else take (max_chars - 1) normalized @ [ellipsis])"

lemma truncate_for_display_length: "length (truncate_for_display v n) \<le> n"
  by (auto simp: truncate_for_display_def Let_def)

section \<open>Projections of an event\<close>

fun event_timestamp :: "agent_event \<Rightarrow> timestamp" where
  "event_timestamp (SessionStarted t _ _) = t"
| "event_timestamp (StartupFailed t _ _) = t"
| "event_timestamp (TurnCompleted t _ _ _ _ _ _ _) = t"
| "event_timestamp (TurnFailed t _ _ _) = t"
| "event_timestamp (TurnCancelled t _ _) = t"
| "event_timestamp (TurnEndedWithError t _ _ _) = t"
| "event_timestamp (TurnInputRequired t _ _ _) = t"
| "event_timestamp (ApprovalAutoApproved t _ _) = t"
| "event_timestamp (ApprovalRequired t _ _ _) = t"
| "event_timestamp (ToolCallCompleted t _ _) = t"
| "event_timestamp (ToolCallFailed t _ _) = t"
| "event_timestamp (ToolInputAutoAnswered t _) = t"
| "event_timestamp (UnsupportedToolCall t _ _) = t"
| "event_timestamp (EscalationCreated t _ _ _) = t"
| "event_timestamp (EscalationResponded t _ _ _ _ _) = t"
| "event_timestamp (EscalationTimedOut t _ _ _ _) = t"
| "event_timestamp (EscalationCancelled t _ _ _ _) = t"
| "event_timestamp (Notification t _ _) = t"
| "event_timestamp (OtherMessage t _ _) = t"
| "event_timestamp (Malformed t _ _ _) = t"

definition event_timestamp_ms :: "agent_event \<Rightarrow> int" where
  "event_timestamp_ms e = timestamp_millis (event_timestamp e)"

fun event_session_id :: "agent_event \<Rightarrow> string option" where
  "event_session_id (SessionStarted _ _ session_id) = Some session_id"
| "event_session_id _ = None"

fun event_name :: "agent_event \<Rightarrow> string" where
  "event_name (SessionStarted _ _ _) = ''session_started''"
| "event_name (StartupFailed _ _ _) = ''startup_failed''"
| "event_name (TurnCompleted _ _ _ _ _ _ _ _) = ''turn_completed''"
| "event_name (TurnFailed _ _ _ _) = ''turn_failed''"
| "event_name (TurnCancelled _ _ _) = ''turn_cancelled''"
| "event_name (TurnEndedWithError _ _ _ _) = ''turn_ended_with_error''"
| "event_name (TurnInputRequired _ _ _ _) = ''turn_input_required''"
| "event_name (ApprovalAutoApproved _ _ _) = ''approval_auto_approved''"
| "event_name (ApprovalRequired _ _ _ _) = ''approval_required''"
| "event_name (ToolCallCompleted _ _ _) = ''tool_call_completed''"
| "event_name (ToolCallFailed _ _ _) = ''tool_call_failed''"
| "event_name (ToolInputAutoAnswered _ _) = ''tool_input_auto_answered''"
| "event_name (UnsupportedToolCall _ _ _) = ''unsupported_tool_call''"
| "event_name (EscalationCreated _ _ _ _) = ''escalation_created''"
| "event_name (EscalationResponded _ _ _ _ _ _) = ''escalation_responded''"
| "event_name (EscalationTimedOut _ _ _ _ _) = ''escalation_timed_out''"
| "event_name (EscalationCancelled _ _ _ _ _) = ''escalation_cancelled''"
| "event_name (Notification _ _ _) = ''notification''"
| "event_name (OtherMessage _ _ _) = ''other_message''"
| "event_name (Malformed _ _ _ _) = ''malformed''"

section \<open>Tool notifications\<close>

record tool_notification =
  tn_event_name :: string
  tn_summary :: "string option"
  tn_tool_name :: "string option"
  tn_args_preview :: "string option"

datatype tool_activity = ToolStarted string "string option" | ToolEnded | ToolNone

definition TOOL_ARGS_PREVIEW_MAX_LEN :: nat where
  "TOOL_ARGS_PREVIEW_MAX_LEN = 120"

definition is_control :: "char \<Rightarrow> bool" where
  "is_control c \<longleftrightarrow> code_point c < 32 \<or> (127 \<le> code_point c \<and> code_point c \<le> 159)"

definition build_tool_args_preview :: "(string \<Rightarrow> json option) \<Rightarrow> string \<Rightarrow> string" where
  "build_tool_args_preview parse args_json =
     (case parse args_json of
        None \<Rightarrow> filter (\<lambda>c. \<not> is_control c) args_json
      | Some parsed \<Rightarrow>
         (case as_object parsed of
            None \<Rightarrow> args_json
          | Some obj \<Rightarrow>
             (case find_map (\<lambda>key. Option.bind (map_of obj key) as_str)
                     [''command'', ''path'', ''url'', ''query''] of
                Some text \<Rightarrow> text
              | None \<Rightarrow> if map fst obj = [] then ''{}'' else join_with '', '' (map fst obj))))"

definition non_empty :: "string \<Rightarrow> string option" where
  "non_empty s = (if s = [] then None else Some s)"

definition parse_tool_notification ::
  "(string \<Rightarrow> json option) \<Rightarrow> string \<Rightarrow> tool_notification option" where
  "parse_tool_notification parse message =
     find_map
       (\<lambda>(pre, name).
          case strip_prefix pre message of
            None \<Rightarrow> None
          | Some rest0 \<Rightarrow>
              (let rest = trim_start rest0;
                   summary = non_empty (normalize_whitespace rest)
               in if name = ''tool_start'' then
                    (let first = takeWhile (\<lambda>c. \<not> is_whitespace c) rest;
                         after = dropWhile (\<lambda>c. \<not> is_whitespace c) rest;
                         args = (case after of [] \<Rightarrow> None | _ # cs \<Rightarrow> non_empty (trim cs))
                     in Some \<lparr> tn_event_name = name, tn_summary = summary,
                               tn_tool_name = non_empty (trim first),
                               tn_args_preview =
                                 map_option (\<lambda>a. truncate_for_display (build_tool_args_preview parse a)
                                               TOOL_ARGS_PREVIEW_MAX_LEN) args \<rparr>)
                  else Some \<lparr> tn_event_name = name, tn_summary = summary,
                              tn_tool_name = summary, tn_args_preview = None \<rparr>))
       [(''tool_start:'', ''tool_start''), (''tool_end:'', ''tool_end''),
        (''tool_error:'', ''tool_error'')]"

definition tool_activity_from_notification :: "tool_notification \<Rightarrow> tool_activity" where
  "tool_activity_from_notification n =
     (if tn_event_name n = ''tool_start'' then
        (case tn_tool_name n of Some name \<Rightarrow> ToolStarted name (tn_args_preview n) | None \<Rightarrow> ToolNone)
      else if tn_event_name n = ''tool_end'' \<or> tn_event_name n = ''tool_error'' then ToolEnded
      else ToolNone)"

definition extract_tool_activity :: "(string \<Rightarrow> json option) \<Rightarrow> agent_event \<Rightarrow> tool_activity" where
  "extract_tool_activity parse event =
     (case event of
        ToolCallCompleted _ _ _ \<Rightarrow> ToolEnded
      | ToolCallFailed _ _ _ \<Rightarrow> ToolEnded
      | UnsupportedToolCall _ _ _ \<Rightarrow> ToolEnded
      | TurnCompleted _ _ _ _ _ _ _ _ \<Rightarrow> ToolEnded
      | TurnFailed _ _ _ _ \<Rightarrow> ToolEnded
      | TurnCancelled _ _ _ \<Rightarrow> ToolEnded
      | TurnEndedWithError _ _ _ _ \<Rightarrow> ToolEnded
      | Notification _ _ message \<Rightarrow>
          (case parse_tool_notification parse message of
             None \<Rightarrow> ToolNone
           | Some n \<Rightarrow> tool_activity_from_notification n)
      | _ \<Rightarrow> ToolNone)"

section \<open>Summaries\<close>

text \<open>The first text found under the preferred keys, then under any key, at most five levels down.\<close>

fun find_preferred_text_with_depth :: "nat \<Rightarrow> json \<Rightarrow> string option" where
  "find_preferred_text_with_depth 0 v = None"
| "find_preferred_text_with_depth (Suc depth) v =
     (case v of
        JString text \<Rightarrow> non_empty (normalize_whitespace text)
      | JObject m \<Rightarrow>
          (case find_map (\<lambda>key. Option.bind (map_of m key) (find_preferred_text_with_depth depth))
                  [''summary'', ''message'', ''text'', ''title'', ''command'', ''tool_name'',
                   ''toolName'', ''name''] of
             Some found \<Rightarrow> Some found
           | None \<Rightarrow> find_map (\<lambda>(k, w). find_preferred_text_with_depth depth w) m)
      | JArray items \<Rightarrow> find_map (find_preferred_text_with_depth depth) items
      | _ \<Rightarrow> None)"

definition find_preferred_text :: "json \<Rightarrow> string option" where
  "find_preferred_text v = find_preferred_text_with_depth 5 v"

definition first_u64_at_paths :: "json \<Rightarrow> string list list \<Rightarrow> nat option" where
  "first_u64_at_paths v paths = find_map (\<lambda>p. Option.bind (value_at_path v p) integer_like) paths"

definition token_count_paths :: "string \<Rightarrow> string \<Rightarrow> string list list" where
  "token_count_paths snake camel =
     [[''params'', ''tokenUsage'', ''total'', snake],
      [''params'', ''tokenUsage'', ''total'', camel],
      [''params'', ''msg'', ''payload'', ''info'', ''total_token_usage'', snake]]"

definition summarize_notification_payload :: "string \<Rightarrow> json \<Rightarrow> string option" where
  "summarize_notification_payload name payload =
     (let piece = (\<lambda>tag snake camel.
            case first_u64_at_paths payload (token_count_paths snake camel) of
              Some n \<Rightarrow> [tag @ nat_digits n] | None \<Rightarrow> []);
          pieces =
            (if contains_str ''token_count'' name then
               piece ''in '' ''input_tokens'' ''inputTokens''
               @ piece ''out '' ''output_tokens'' ''outputTokens''
               @ piece ''total '' ''total_tokens'' ''totalTokens''
             else [])
      in if pieces \<noteq> [] then Some (''tokens '' @ join_with '' / '' pieces)
         else case Option.bind (json_get payload ''params'') find_preferred_text of
                Some t \<Rightarrow> Some t
              | None \<Rightarrow> find_preferred_text payload)"

definition notification_event_summary ::
  "(string \<Rightarrow> json option) \<Rightarrow> (json \<Rightarrow> string) \<Rightarrow> string \<Rightarrow> string \<times> string option" where
  "notification_event_summary parse render message =
     (case parse message of
        None \<Rightarrow> (''notification'', non_empty (normalize_whitespace message))
      | Some parsed \<Rightarrow>
         (let name = (case Option.bind (json_get parsed ''method'') as_str of
                        Some m \<Rightarrow> m | None \<Rightarrow> ''notification'')
          in (name,
              (case summarize_notification_payload name parsed of
                 Some t \<Rightarrow> Some t
               | None \<Rightarrow> map_option (\<lambda>p. normalize_whitespace (render p)) (json_get parsed ''params'')))))"

definition other_message_summary :: "json \<Rightarrow> string \<times> string option" where
  "other_message_summary raw =
     ((case Option.bind (json_get raw ''method'') as_str of Some m \<Rightarrow> m | None \<Rightarrow> ''other_message''),
      (case Option.bind (json_get raw ''params'') find_preferred_text of
         Some t \<Rightarrow> Some t
       | None \<Rightarrow> find_preferred_text raw))"

definition raw_event_summary ::
  "(string \<Rightarrow> json option) \<Rightarrow> (json \<Rightarrow> string) \<Rightarrow> agent_event \<Rightarrow> string \<times> string option" where
  "raw_event_summary parse render event =
     (let name = event_name event in
      case event of
        SessionStarted _ _ session_id \<Rightarrow> (name, Some (''session '' @ compact_session_id session_id))
      | StartupFailed _ _ err \<Rightarrow> (name, Some err)
      | TurnCompleted _ _ _ message _ _ _ _ \<Rightarrow>
          (name, Some (case message of Some m \<Rightarrow> m | None \<Rightarrow> ''turn completed''))
      | TurnFailed _ _ _ err \<Rightarrow> (name, Some err)
      | TurnCancelled _ _ _ \<Rightarrow> (name, Some ''turn cancelled'')
      | TurnEndedWithError _ _ _ err \<Rightarrow> (name, Some err)
      | TurnInputRequired _ _ _ prompt \<Rightarrow>
          (name, (case prompt of Some p \<Rightarrow> Some p | None \<Rightarrow> Some ''input required''))
      | ApprovalAutoApproved _ _ tool_call \<Rightarrow> (name, Some (''auto-approved '' @ tool_call))
      | ApprovalRequired _ _ method _ \<Rightarrow> (name, Some (''approval required: '' @ method))
      | ToolCallCompleted _ _ tool_name \<Rightarrow> (name, Some (''completed '' @ tool_name))
      | ToolCallFailed _ _ tool_name \<Rightarrow>
          (name, Some (case tool_name of Some n \<Rightarrow> ''tool '' @ n @ '' failed'' | None \<Rightarrow> ''tool call failed''))
      | ToolInputAutoAnswered _ _ \<Rightarrow> (name, Some ''tool input auto-answered'')
      | UnsupportedToolCall _ _ tool_name \<Rightarrow> (name, Some (''unsupported tool '' @ tool_name))
      | EscalationCreated _ _ _ request \<Rightarrow>
          (name, Some (er_issue_identifier request @ '' needs input: ''
                        @ truncate_for_display (er_method request) 80))
      | EscalationResponded _ _ _ request_id responder_id latency_ms \<Rightarrow>
          (name, Some (''request '' @ request_id @ '' responded by ''
                        @ (case responder_id of Some r \<Rightarrow> r | None \<Rightarrow> ''operator'')
                        @ '' in '' @ nat_digits latency_ms @ ''ms''))
      | EscalationTimedOut _ _ _ request_id timeout_ms \<Rightarrow>
          (name, Some (''request '' @ request_id @ '' timed out after '' @ nat_digits timeout_ms @ ''ms''))
      | EscalationCancelled _ _ _ request_id reason \<Rightarrow>
          (name, Some (''request '' @ request_id @ '' cancelled: '' @ reason))
      | Notification _ _ message \<Rightarrow>
          (case parse_tool_notification parse message of
             Some n \<Rightarrow> (tn_event_name n, tn_summary n)
           | None \<Rightarrow> notification_event_summary parse render message)
      | OtherMessage _ _ raw \<Rightarrow> other_message_summary raw
      | Malformed _ _ raw_text parse_error \<Rightarrow>
          (name, Some (''malformed event: '' @ parse_error @ ''; '' @ normalize_whitespace raw_text)))"

definition event_summary ::
  "(string \<Rightarrow> json option) \<Rightarrow> (json \<Rightarrow> string) \<Rightarrow> agent_event \<Rightarrow> string \<times> string option" where
  "event_summary parse render event =
     (let (name, message) = raw_event_summary parse render event
      in (name, Option.bind message (\<lambda>m. non_empty (truncate_for_display m 160))))"

lemma event_summary_length:
  "snd (event_summary parse render event) = Some m \<Longrightarrow> m \<noteq> [] \<and> length m \<le> 160"
  using truncate_for_display_length
  by (auto simp: event_summary_def non_empty_def split: prod.splits option.splits if_splits
      Option.bind_splits)

section \<open>Rate-limit windows\<close>

text \<open>
  The regular expression of \<open>RATE_LIMIT_WINDOW_RE\<close>: digits, optional white space, a time
  unit, ignoring case. The alternatives are tried in the order they are written. Digits are
  matched greedily; a shorter run cannot be followed by a unit, so a failed match at a digit
  fails for the rest of its run too.
\<close>

definition window_units :: "string list" where
  "window_units = [''hours'', ''hour'', ''hrs'', ''hr'', ''h'', ''minutes'', ''minute'', ''mins'',
     ''min'', ''m'', ''seconds'', ''second'', ''secs'', ''sec'', ''s'']"

definition match_window :: "string \<Rightarrow> (string \<times> string \<times> string) option" where
  "match_window s =
     (let digits = takeWhile is_ascii_digit s;
          rest = trim_start (dropWhile is_ascii_digit s)
      in if digits = [] then None
         else case find (\<lambda>u. prefix u (to_ascii_lowercase rest)) window_units of
                None \<Rightarrow> None
              | Some u \<Rightarrow> Some (digits, u, drop (length u) rest))"

lemma length_dropWhile_le': "length (dropWhile P xs) \<le> length xs"
  by (rule length_dropWhile_le)

lemma match_window_shorter: "match_window s = Some (d, u, rest) \<Longrightarrow> length rest < length s"
proof -
  assume m: "match_window s = Some (d, u, rest)"
  then have d: "takeWhile is_ascii_digit s \<noteq> []"
    and r: "rest = drop (length u) (trim_start (dropWhile is_ascii_digit s))"
    by (auto simp: match_window_def Let_def split: if_splits option.splits)
  have "length rest \<le> length (dropWhile is_ascii_digit s)"
    unfolding r trim_start_def using length_dropWhile_le' [of is_whitespace "dropWhile is_ascii_digit s"]
    by simp
  also have "\<dots> < length s"
    using d by (cases s) (auto intro: le_imp_less_Suc length_dropWhile_le' split: if_splits)
  finally show ?thesis .
qed

function windows :: "string \<Rightarrow> (string \<times> string \<times> string) list" where
  "windows [] = []"
| "windows (c # cs) =
     (case match_window (c # cs) of
        Some (digits, u, rest) \<Rightarrow> (digits, u, rest) # windows rest
      | None \<Rightarrow> windows cs)"
  by pat_completeness auto
termination
  by (relation "measure length") (auto dest: match_window_shorter)

declare windows.simps(2) [simp del]

definition window_seconds :: "string \<times> string \<times> string \<Rightarrow> nat option" where
  "window_seconds w =
     (case w of (digits, u, rest) \<Rightarrow>
        (case parse_unsigned u64_max digits of
           None \<Rightarrow> None
         | Some amount \<Rightarrow>
             if rest \<noteq> [] \<and> is_ascii_alphabetic (hd rest) then None
             else if prefix ''h'' u then Some (sat_mul_u64 amount 3600)
             else if prefix ''m'' u then Some (sat_mul_u64 amount 60)
             else Some amount))"

definition extract_retry_window_minutes :: "string \<Rightarrow> nat option" where
  "extract_retry_window_minutes message =
     (let seconds = List.map_filter window_seconds (windows message)
      in if seconds = [] then None
         else Some (max (sat_add_u64 (foldl sat_add_u64 0 seconds) 59 div 60) 1))"

definition WORKER_LAST_ERROR_MAX_CHARS :: nat where
  "WORKER_LAST_ERROR_MAX_CHARS = 200"

definition format_rate_limit_error :: "string \<Rightarrow> string" where
  "format_rate_limit_error err =
     (let normalized = to_ascii_lowercase err
      in if \<not> (contains_str ''rate limit'' normalized \<or> contains_str ''usage limit'' normalized)
         then truncate_for_display err WORKER_LAST_ERROR_MAX_CHARS
         else case extract_retry_window_minutes err of
                Some minutes \<Rightarrow> ''rate limit: retry in ~'' @ nat_digits minutes @ '' min''
              | None \<Rightarrow> truncate_for_display (''rate limit: '' @ err) WORKER_LAST_ERROR_MAX_CHARS)"

end
