(* ===== verification/Orchestrator.thy ===== *)
theory Orchestrator
  imports Prelude Domain Ssh PathSafety SharedContext Escalation WorkerEvents
begin

text \<open>
  The runtime authority of \<open>src/orchestrator.rs\<close>: its state, its view of the outside, and
  the operations on single issues (retry queue, session bookkeeping, event ingestion,
  completion, terminal and release transitions). The passes over many issues build on
  this theory.

  The state \<open>'w orchestrator\<close> has the fields of the struct \<open>Orchestrator\<close> (those of
  its \<open>OrchestratorState\<close> included); channel ends and shared handles that only publish
  are left out. What lies outside the process is a record \<open>'w env\<close> of operations on a
  world \<open>'w\<close>, which the state carries: the tracker behind \<open>OrchestratorPort\<close>, the
  clock, the workspaces on disk, commands, the dispatch guards of the factory store, Slack.
  A call may change the world and may answer differently each time.
\<close>

section \<open>Data\<close>

datatype retry_kind = Continuation | Failure

datatype refresh_policy = Strict | AllowStale

datatype (plugins only: code size) runtime_event =
    EvStartupCleanup
  | EvReconcile
  | EvValidate
  | EvDispatch
  | EvValidationSkippedDispatch
  | EvRetryScheduled string nat int string retry_kind
  | EvRetryIgnoredStale string string
  | EvWorkerCompleted string string "string option"
  | EvWorkerFailed string string "string option" string
  | EvWorkspacePrepareFailed string string string
  | EvWorkerStalled string string "string option" int
  | EvSteerReceived string string
  | EvSteerDelivered string string
  | EvSteerFailed string string
  | EvRefreshRequested
  | EvRefreshCoalesced

datatype worker_completion = Completed bool | Failed string

record turn_metrics =
  tm_input_tokens :: nat
  tm_output_tokens :: nat
  tm_total_tokens :: nat
  tm_rate_limits :: "json option"

record retry_context =
  rx_worker_host :: "string option"
  rx_workspace_path :: "string option"
  rx_session_id :: "string option"

record running_session_stats =
  rs_turn_count :: nat
  rs_last_activity_at :: "timestamp option"
  rs_total_tokens :: nat
  rs_last_event :: "string option"
  rs_last_event_message :: "string option"
  rs_session_id :: "string option"
  rs_current_tool_name :: "string option"
  rs_current_tool_args_preview :: "string option"

record completion_comment_summary =
  cs_turn_count :: nat
  cs_total_tokens :: nat
  cs_duration :: duration
  cs_worker_host :: "string option"

record pending_terminal_cleanup =
  pt_issue :: issue
  pt_workspace_path :: string

record command_outcome =
  co_success :: bool
  co_stdout :: string
  co_stderr :: string

record pull_request_view =
  pv_url :: string
  pv_state :: string
  pv_head_ref_name :: string
  pv_base_ref_name :: string

record dispatch_guard =
  dg_forge_host :: string
  dg_repository :: string
  dg_issue_id :: string

text \<open>How a follow-up sent to a running worker can end.\<close>

datatype follow_up =
    FollowUpAccepted
  | FollowUpRefused string
  | FollowUpClosed
  | FollowUpDropped
  | FollowUpTimedOut

record worker_launch =
  wl_issue :: issue
  wl_attempt :: "nat option"
  wl_worker_host :: "string option"
  wl_pi_model_override :: "string option"
  wl_prompt_template :: string
  wl_shared_context :: string
  wl_refresh_policy :: refresh_policy
  wl_steer_rx :: "nat option"
  wl_config :: service_config

record 'w env =
  e_startup_terminal_issues :: "string list \<Rightarrow> 'w \<Rightarrow> issue list outcome \<times> 'w"
  e_reconcile_running_issues :: "string list \<Rightarrow> 'w \<Rightarrow> issue list outcome \<times> 'w"
  e_validate_dispatch_preflight :: "service_config \<Rightarrow> 'w \<Rightarrow> unit outcome \<times> 'w"
  e_fetch_candidate_issues :: "'w \<Rightarrow> issue list outcome \<times> 'w"
  e_refresh_issue :: "string \<Rightarrow> 'w \<Rightarrow> issue option outcome \<times> 'w"
  e_create_issue_comment :: "string \<Rightarrow> string \<Rightarrow> 'w \<Rightarrow> unit outcome \<times> 'w"
  e_update_issue_state :: "string \<Rightarrow> string \<Rightarrow> 'w \<Rightarrow> unit outcome \<times> 'w"
  e_now :: "'w \<Rightarrow> timestamp \<times> 'w"
  e_effective_config :: "'w \<Rightarrow> (string \<times> service_config) option"
  e_config_validate :: "service_config \<Rightarrow> unit outcome"
  e_ensure_workspace ::
    "issue \<Rightarrow> workspace_config \<Rightarrow> refresh_policy \<Rightarrow> 'w \<Rightarrow> (string \<times> string option) outcome \<times> 'w"
  e_workspace_exists :: "string \<Rightarrow> 'w \<Rightarrow> bool"
  e_remove_workspace :: "string \<Rightarrow> workspace_config \<Rightarrow> issue \<Rightarrow> 'w \<Rightarrow> unit outcome \<times> 'w"
  e_scan_workspace_root :: "string \<Rightarrow> string \<Rightarrow> 'w \<Rightarrow> (string, string) hmap"
  e_run_command :: "string \<Rightarrow> string list \<Rightarrow> string \<Rightarrow> 'w \<Rightarrow> (string + command_outcome) \<times> 'w"
  e_parse_pull_request :: "string \<Rightarrow> string + pull_request_view"
  e_pending_guards :: "'w \<Rightarrow> dispatch_guard list outcome option"
  e_url_host :: "string \<Rightarrow> string option"
  e_slack :: "slack_config \<Rightarrow> string \<Rightarrow> string \<Rightarrow> string \<Rightarrow> string \<Rightarrow> string option \<Rightarrow> 'w \<Rightarrow> 'w"
  e_state_prompt :: "service_config \<Rightarrow> string \<Rightarrow> 'w \<Rightarrow> string option"
  e_triage_poll :: "service_config \<Rightarrow> 'w \<Rightarrow> 'w"
  e_new_channel :: "'w \<Rightarrow> nat \<times> 'w"
  e_start_worker :: "worker_launch \<Rightarrow> 'w \<Rightarrow> 'w"
  e_send_follow_up :: "nat \<Rightarrow> string \<Rightarrow> 'w \<Rightarrow> follow_up \<times> 'w"
  e_json_parse :: "string \<Rightarrow> json option"
  e_json_render :: "json \<Rightarrow> string"

record 'w orchestrator =
  o_config :: service_config
  o_server_port_override :: "nat option"
  o_poll_interval_ms :: nat
  o_max_concurrent_agents :: nat
  o_running :: "(string, run_attempt) hmap"
  o_claimed :: "string set"
  o_retry_attempts :: "(string, retry_entry) hmap"
  o_completed :: "(string, completed_entry) hmap"
  o_codex_totals :: codex_totals
  o_codex_rate_limits :: "json option"
  o_events :: "runtime_event list"
  o_retry_tokens :: "(string, string) hmap"
  o_worker_last_activity_ms :: "(string, int) hmap"
  o_worker_session_info :: "(string, worker_session_info) hmap"
  o_worker_session_ids :: "(string, string) hmap"
  o_worker_steer_tx :: "(string, nat) hmap"
  o_running_session_stats :: "(string, running_session_stats) hmap"
  o_completion_comment_summaries :: "(string, completion_comment_summary) hmap"
  o_blocked_issues :: "blocked_issue_entry list"
  o_pending_terminal_cleanup :: "(string, pending_terminal_cleanup) hmap"
  o_running_issue_states :: "(string, string) hmap"
  o_running_parent_identifiers :: "(string, string option) hmap"
  o_next_retry_token :: nat
  o_poll_count :: nat
  o_last_poll_at :: "timestamp option"
  o_escalation_registry :: registry_state
  o_shared_context_store :: shared_context_store
  o_prompt_template :: string
  o_world :: 'w

definition CONTINUATION_RETRY_DELAY_MS :: int where
  "CONTINUATION_RETRY_DELAY_MS = 1000"

definition FAILURE_RETRY_BASE_MS :: int where
  "FAILURE_RETRY_BASE_MS = 10000"

definition STALL_FAILURE_MARKER :: string where
  "STALL_FAILURE_MARKER = ''without agent activity''"

text \<open>A call into the world.\<close>

definition call :: "('w \<Rightarrow> 'a \<times> 'w) \<Rightarrow> 'w orchestrator \<Rightarrow> 'a \<times> 'w orchestrator" where
  "call f s = (let (r, w) = f (o_world s) in (r, s\<lparr> o_world := w \<rparr>))"

text \<open>\<open>from_runtime_config\<close>: the state a new orchestrator starts in.\<close>

definition new_orchestrator :: "service_config \<Rightarrow> string \<Rightarrow> nat option \<Rightarrow> 'w \<Rightarrow> 'w orchestrator" where
  "new_orchestrator config prompt_template port_override w =
     \<lparr> o_config = config, o_server_port_override = port_override,
       o_poll_interval_ms = sc_polling_interval_ms config,
       o_max_concurrent_agents = ag_max_concurrent_agents (sc_agent config),
       o_running = hempty, o_claimed = {}, o_retry_attempts = hempty, o_completed = hempty,
       o_codex_totals = \<lparr> ct_input_tokens = 0, ct_output_tokens = 0, ct_total_tokens = 0,
                          ct_event_count = 0 \<rparr>,
       o_codex_rate_limits = None, o_events = [], o_retry_tokens = hempty,
       o_worker_last_activity_ms = hempty, o_worker_session_info = hempty,
       o_worker_session_ids = hempty, o_worker_steer_tx = hempty,
       o_running_session_stats = hempty, o_completion_comment_summaries = hempty,
       o_blocked_issues = [], o_pending_terminal_cleanup = hempty,
       o_running_issue_states = hempty, o_running_parent_identifiers = hempty,
       o_next_retry_token = 0, o_poll_count = 0, o_last_poll_at = None,
       o_escalation_registry = empty_registry,
       o_shared_context_store =
         new_store (sc_shared_context_ttl_ms config) (sc_shared_context_max_entries config),
       o_prompt_template = prompt_template, o_world = w \<rparr>"

definition refresh_runtime_config :: "'w env \<Rightarrow> 'w orchestrator \<Rightarrow> 'w orchestrator" where
  "refresh_runtime_config env s0 =
     (let s1 = (case e_effective_config env (o_world s0) of
                  Some (template, config) \<Rightarrow> s0\<lparr> o_config := config, o_prompt_template := template \<rparr>
                | None \<Rightarrow> s0);
          s2 = (case o_server_port_override s1 of
                  Some port \<Rightarrow> s1\<lparr> o_config := (o_config s1)\<lparr> sc_server_port := Some port \<rparr> \<rparr>
                | None \<Rightarrow> s1);
          c = o_config s2;
          s3 = (if 0 < sc_shared_context_ttl_ms c \<and> 0 < sc_shared_context_max_entries c
                then s2\<lparr> o_shared_context_store :=
                           update_settings (sc_shared_context_ttl_ms c) (sc_shared_context_max_entries c)
                             (o_shared_context_store s2) \<rparr>
                else s2)
      in s3\<lparr> o_max_concurrent_agents := ag_max_concurrent_agents (sc_agent c),
             o_poll_interval_ms := sc_polling_interval_ms c \<rparr>)"

section \<open>Issue states\<close>

definition normalize_issue_state :: "string \<Rightarrow> string" where
  "normalize_issue_state state_name = to_ascii_lowercase (trim state_name)"

definition is_terminal_state :: "string \<Rightarrow> tracker_config \<Rightarrow> bool" where
  "is_terminal_state state_name tc =
     list_ex (\<lambda>st. normalize_issue_state st = normalize_issue_state state_name) (tc_terminal_states tc)"

definition is_active_state :: "string \<Rightarrow> tracker_config \<Rightarrow> bool" where
  "is_active_state state_name tc =
     list_ex (\<lambda>st. normalize_issue_state st = normalize_issue_state state_name) (tc_active_states tc)"

definition active_state_set :: "'w orchestrator \<Rightarrow> string set" where
  "active_state_set s =
     set (filter (\<lambda>st. st \<noteq> []) (map normalize_issue_state (tc_active_states (sc_tracker (o_config s)))))"

definition terminal_state_set :: "'w orchestrator \<Rightarrow> string set" where
  "terminal_state_set s =
     set (filter (\<lambda>st. st \<noteq> []) (map normalize_issue_state (tc_terminal_states (sc_tracker (o_config s)))))"

text \<open>Whether a session goes on with the issue it was dispatched for, after a turn.\<close>

definition should_continue_issue_in_session :: "issue \<Rightarrow> tracker_config \<Rightarrow> string \<Rightarrow> bool" where
  "should_continue_issue_in_session i tc dispatched_state \<longleftrightarrow>
     i_assigned_to_worker i
     \<and> is_active_state (i_state i) tc
     \<and> \<not> is_terminal_state (i_state i) tc
     \<and> normalize_issue_state (i_state i) = normalize_issue_state dispatched_state"

datatype issue_check = CheckContinue issue | CheckDone issue | CheckError symphony_error

definition check_issue_still_active ::
  "issue \<Rightarrow> issue list outcome \<Rightarrow> tracker_config \<Rightarrow> string \<Rightarrow> issue_check" where
  "check_issue_still_active i fetched tc dispatched_state =
     (case fetched of
        Inl err \<Rightarrow> CheckError err
      | Inr [] \<Rightarrow> CheckDone i
      | Inr (refreshed # _) \<Rightarrow>
          if should_continue_issue_in_session refreshed tc dispatched_state
          then CheckContinue refreshed else CheckDone refreshed)"

definition accumulate_turn_metrics ::
  "turn_metrics option \<Rightarrow> nat \<Rightarrow> nat \<Rightarrow> nat \<Rightarrow> json option \<Rightarrow> turn_metrics option" where
  "accumulate_turn_metrics metrics input_tokens output_tokens total_tokens rate_limits =
     (case metrics of
        Some t \<Rightarrow>
          Some (t\<lparr> tm_input_tokens := sat_add_u64 (tm_input_tokens t) input_tokens,
                  tm_output_tokens := sat_add_u64 (tm_output_tokens t) output_tokens,
                  tm_total_tokens := sat_add_u64 (tm_total_tokens t) total_tokens,
                  tm_rate_limits := (case rate_limits of Some r \<Rightarrow> Some r | None \<Rightarrow> tm_rate_limits t) \<rparr>)
      | None \<Rightarrow>
          Some \<lparr> tm_input_tokens = input_tokens, tm_output_tokens = output_tokens,
                 tm_total_tokens = total_tokens, tm_rate_limits = rate_limits \<rparr>)"

definition backend_stall_timeout_ms :: "service_config \<Rightarrow> agent_backend \<Rightarrow> int" where
  "backend_stall_timeout_ms c backend =
     (let timeout = (case backend of
                       KataCli \<Rightarrow> pa_stall_timeout_ms (sc_pi_agent c)
                     | Codex \<Rightarrow> sc_codex_stall_timeout_ms c)
      in min (int timeout) i64_max)"

fun model_for_labels :: "pi_agent_config \<Rightarrow> string list \<Rightarrow> string option" where
  "model_for_labels pa [] = None"
| "model_for_labels pa (label # labels) =
     (let normalized_label = to_lowercase (trim label)
      in if normalized_label = [] then model_for_labels pa labels
         else case hget (pa_model_by_label pa) normalized_label of
                Some m \<Rightarrow> Some m
              | None \<Rightarrow> model_for_labels pa labels)"

definition effective_pi_model_for_issue :: "service_config \<Rightarrow> issue \<Rightarrow> string option" where
  "effective_pi_model_for_issue c i =
     (case model_for_labels (sc_pi_agent c) (i_labels i) of
        Some m \<Rightarrow> Some m
      | None \<Rightarrow> model_for_state (sc_pi_agent c) (i_state i))"

section \<open>Events and notifications\<close>

definition emit_runtime_event :: "runtime_event \<Rightarrow> 'w orchestrator \<Rightarrow> 'w orchestrator" where
  "emit_runtime_event ev s = s\<lparr> o_events := o_events s @ [ev] \<rparr>"

definition normalize_event_type :: "string \<Rightarrow> string" where
  "normalize_event_type event_type = to_ascii_lowercase (trim event_type)"

definition should_notify :: "slack_config \<Rightarrow> string \<Rightarrow> bool" where
  "should_notify c event_type =
     (let normalized = normalize_event_type event_type
      in normalized \<noteq> []
         \<and> list_ex (\<lambda>e. e = ''all'' \<or> e = normalized) (map normalize_event_type (sl_events c)))"

definition queue_slack_notification ::
  "'w env \<Rightarrow> string \<Rightarrow> string \<Rightarrow> string \<Rightarrow> string \<Rightarrow> string option \<Rightarrow> 'w orchestrator \<Rightarrow> 'w orchestrator" where
  "queue_slack_notification env event_type identifier title message url s =
     (case sc_slack (o_config s) of
        None \<Rightarrow> s
      | Some slack \<Rightarrow>
          if \<not> should_notify slack event_type then s
          else s\<lparr> o_world := e_slack env slack event_type identifier title message url (o_world s) \<rparr>)"

section \<open>The retry queue\<close>

definition retry_delay_ms :: "'w orchestrator \<Rightarrow> retry_kind \<Rightarrow> nat \<Rightarrow> int" where
  "retry_delay_ms s kind attempt =
     (case kind of
        Continuation \<Rightarrow> CONTINUATION_RETRY_DELAY_MS
      | Failure \<Rightarrow>
          (let max_backoff_ms = min (int (ag_max_retry_backoff_ms (sc_agent (o_config s)))) i64_max;
               safe_attempt = max attempt 1;
               power = min (safe_attempt - 1) 10;
               exponential = sat_mul_i64 FAILURE_RETRY_BASE_MS (2 ^ power)
           in min exponential max_backoff_ms))"

definition retry_token :: "nat \<Rightarrow> string" where
  "retry_token n = ''retry-'' @ nat_digits n"

definition schedule_retry_with_context ::
  "string \<Rightarrow> string \<Rightarrow> nat \<Rightarrow> retry_kind \<Rightarrow> int \<Rightarrow> string option \<Rightarrow> retry_context
     \<Rightarrow> 'w orchestrator \<Rightarrow> string \<times> 'w orchestrator" where
  "schedule_retry_with_context issue_id identifier attempt kind now_ms err ctx s0 =
     (let s1 = s0\<lparr> o_next_retry_token := o_next_retry_token s0 + 1 \<rparr>;
          token = retry_token (o_next_retry_token s1);
          due_at_ms = now_ms + retry_delay_ms s1 kind attempt;
          s2 = s1\<lparr> o_retry_tokens := hput issue_id token (o_retry_tokens s1),
                   o_retry_attempts :=
                     hput issue_id
                       \<lparr> re_issue_id = issue_id, re_identifier = identifier, re_attempt = attempt,
                         re_due_at_ms = due_at_ms, re_timer_handle = Some token, re_error = err,
                         re_worker_host = rx_worker_host ctx,
                         re_workspace_path = rx_workspace_path ctx \<rparr> (o_retry_attempts s1) \<rparr>;
          s3 = (case rx_session_id ctx of
                  Some session_id \<Rightarrow>
                    s2\<lparr> o_worker_session_ids := hput issue_id session_id (o_worker_session_ids s2) \<rparr>
                | None \<Rightarrow> s2)
      in (token, emit_runtime_event (EvRetryScheduled issue_id attempt due_at_ms token kind) s3))"

definition fire_retry :: "string \<Rightarrow> string \<Rightarrow> 'w orchestrator \<Rightarrow> bool \<times> 'w orchestrator" where
  "fire_retry issue_id token s =
     (case hget (o_retry_tokens s) issue_id of
        None \<Rightarrow> (False, s)
      | Some current_token \<Rightarrow>
          if current_token \<noteq> token
          then (False, emit_runtime_event (EvRetryIgnoredStale issue_id token) s)
          else (hmember (o_retry_attempts s) issue_id,
                s\<lparr> o_retry_tokens := hdel issue_id (o_retry_tokens s),
                   o_retry_attempts := hdel issue_id (o_retry_attempts s) \<rparr>))"

section \<open>Session bookkeeping\<close>

definition record_worker_activity :: "string \<Rightarrow> int \<Rightarrow> 'w orchestrator \<Rightarrow> 'w orchestrator" where
  "record_worker_activity issue_id timestamp_ms s =
     s\<lparr> o_worker_last_activity_ms := hput issue_id timestamp_ms (o_worker_last_activity_ms s),
        o_worker_session_info :=
          hmodify issue_id (\<lambda>info. info\<lparr> si_last_activity_ms := Some timestamp_ms \<rparr>)
            (o_worker_session_info s) \<rparr>"

definition zero_usage :: session_token_usage where
  "zero_usage = \<lparr> tu_input_tokens = 0, tu_output_tokens = 0, tu_total_tokens = 0 \<rparr>"

text \<open>\<open>entry().or_insert()\<close> and the repairs of a stored entry with unset fields.\<close>

definition repaired_session_info ::
  "nat \<Rightarrow> int \<Rightarrow> int option \<Rightarrow> worker_session_info option \<Rightarrow> worker_session_info" where
  "repaired_session_info max_turns stall_timeout_ms last_activity_ms stored =
     (let info = (case stored of
                    Some info \<Rightarrow> info
                  | None \<Rightarrow> \<lparr> si_turn_count = 1, si_max_turns = max_turns,
                              si_stall_timeout_ms = stall_timeout_ms,
                              si_last_activity_ms = last_activity_ms,
                              si_session_tokens = zero_usage, si_current_tool_name = None,
                              si_current_tool_args_preview = None, si_last_error = None \<rparr>)
      in info\<lparr> si_max_turns := (if si_max_turns info = 0 then max_turns else si_max_turns info),
               si_stall_timeout_ms :=
                 (if si_stall_timeout_ms info \<le> 0 then stall_timeout_ms else si_stall_timeout_ms info),
               si_turn_count := (if si_turn_count info = 0 then 1 else si_turn_count info),
               si_last_activity_ms :=
                 (case si_last_activity_ms info of None \<Rightarrow> last_activity_ms | Some t \<Rightarrow> Some t) \<rparr>)"

definition ensure_worker_session_info :: "string \<Rightarrow> 'w orchestrator \<Rightarrow> 'w orchestrator" where
  "ensure_worker_session_info issue_id s =
     (let max_turns = max (ag_max_turns (sc_agent (o_config s))) 1;
          stall = backend_stall_timeout_ms (o_config s) (sc_agent_backend (o_config s));
          last_activity_ms = hget (o_worker_last_activity_ms s) issue_id
      in s\<lparr> o_worker_session_info :=
              hput issue_id
                (repaired_session_info max_turns stall last_activity_ms
                   (hget (o_worker_session_info s) issue_id)) (o_worker_session_info s) \<rparr>)"

definition advance_turn_counter :: "string \<Rightarrow> 'w orchestrator \<Rightarrow> 'w orchestrator" where
  "advance_turn_counter issue_id s =
     (let s1 = ensure_worker_session_info issue_id s
      in s1\<lparr> o_worker_session_info :=
               hmodify issue_id
                 (\<lambda>info. info\<lparr> si_turn_count :=
                            min (sat_add_u32 (max (si_turn_count info) 1) 1) (max (si_max_turns info) 1) \<rparr>)
                 (o_worker_session_info s1) \<rparr>)"

definition apply_turn_metrics :: "turn_metrics \<Rightarrow> 'w orchestrator \<Rightarrow> 'w orchestrator" where
  "apply_turn_metrics m s =
     (let t = o_codex_totals s
      in s\<lparr> o_codex_totals :=
              t\<lparr> ct_input_tokens := sat_add_u64 (ct_input_tokens t) (tm_input_tokens m),
                 ct_output_tokens := sat_add_u64 (ct_output_tokens t) (tm_output_tokens m),
                 ct_total_tokens := sat_add_u64 (ct_total_tokens t) (tm_total_tokens m) \<rparr>,
            o_codex_rate_limits :=
              (case tm_rate_limits m of Some data \<Rightarrow> Some data | None \<Rightarrow> o_codex_rate_limits s) \<rparr>)"

end
