(* ===== verification/WorkerLifecycle.thy ===== *)
theory WorkerLifecycle
  imports Orchestrator
begin

text \<open>
  What happens to one running issue: a worker event is ingested, a worker ends, an issue
  reaches a terminal state or is released, stalled workers are found
  (\<open>src/orchestrator.rs\<close>).
\<close>

section \<open>Ingesting a worker event\<close>

definition escalation_closed :: "agent_event \<Rightarrow> string option" where
  "escalation_closed event =
     (case event of
        EscalationResponded _ _ _ request_id _ _ \<Rightarrow> Some request_id
      | EscalationTimedOut _ _ _ request_id _ \<Rightarrow> Some request_id
      | EscalationCancelled _ _ _ request_id _ \<Rightarrow> Some request_id
      | _ \<Rightarrow> None)"

definition default_session_stats :: running_session_stats where
  "default_session_stats =
     \<lparr> rs_turn_count = 0, rs_last_activity_at = None, rs_total_tokens = 0, rs_last_event = None,
       rs_last_event_message = None, rs_session_id = None, rs_current_tool_name = None,
       rs_current_tool_args_preview = None \<rparr>"

definition modify_stats ::
  "string \<Rightarrow> (running_session_stats \<Rightarrow> running_session_stats) \<Rightarrow> 'w orchestrator \<Rightarrow> 'w orchestrator" where
  "modify_stats issue_id f s =
     s\<lparr> o_running_session_stats :=
          hput issue_id
            (f (case hget (o_running_session_stats s) issue_id of
                  Some st \<Rightarrow> st | None \<Rightarrow> default_session_stats))
            (o_running_session_stats s) \<rparr>"

definition modify_info ::
  "string \<Rightarrow> (worker_session_info \<Rightarrow> worker_session_info) \<Rightarrow> 'w orchestrator \<Rightarrow> 'w orchestrator" where
  "modify_info issue_id f s =
     s\<lparr> o_worker_session_info := hmodify issue_id f (o_worker_session_info s) \<rparr>"

definition ingest_summary :: "'w env \<Rightarrow> string \<Rightarrow> agent_event \<Rightarrow> 'w orchestrator \<Rightarrow> 'w orchestrator" where
  "ingest_summary env issue_id event s =
     (let (last_event, last_event_message) = event_summary (e_json_parse env) (e_json_render env) event
      in modify_stats issue_id
           (\<lambda>st. st\<lparr> rs_last_activity_at := Some (event_timestamp event),
                     rs_last_event := Some last_event,
                     rs_last_event_message := last_event_message,
                     rs_session_id := hget (o_worker_session_ids s) issue_id \<rparr>) s)"

definition ingest_tool_activity :: "'w env \<Rightarrow> string \<Rightarrow> agent_event \<Rightarrow> 'w orchestrator \<Rightarrow> 'w orchestrator" where
  "ingest_tool_activity env issue_id event s =
     (case extract_tool_activity (e_json_parse env) event of
        ToolStarted name args_preview \<Rightarrow>
          modify_info issue_id
            (\<lambda>info. info\<lparr> si_current_tool_name := Some name, si_current_tool_args_preview := args_preview \<rparr>)
            (modify_stats issue_id
              (\<lambda>st. st\<lparr> rs_current_tool_name := Some name, rs_current_tool_args_preview := args_preview \<rparr>) s)
      | ToolEnded \<Rightarrow>
          modify_info issue_id
            (\<lambda>info. info\<lparr> si_current_tool_name := None, si_current_tool_args_preview := None \<rparr>)
            (modify_stats issue_id
              (\<lambda>st. st\<lparr> rs_current_tool_name := None, rs_current_tool_args_preview := None \<rparr>) s)
      | ToolNone \<Rightarrow> s)"

definition attempt_after_event :: "agent_event \<Rightarrow> run_attempt \<Rightarrow> run_attempt" where
  "attempt_after_event event a =
     (case event of
        TurnFailed _ _ _ err \<Rightarrow> a\<lparr> ra_status := ''failed'', ra_error := Some err \<rparr>
      | StartupFailed _ _ err \<Rightarrow> a\<lparr> ra_status := ''failed'', ra_error := Some err \<rparr>
      | TurnCancelled _ _ _ \<Rightarrow> a\<lparr> ra_status := ''cancelled'' \<rparr>
      | _ \<Rightarrow> a)"

definition surfaced_error :: "agent_event \<Rightarrow> string option" where
  "surfaced_error event =
     (case event of
        TurnFailed _ _ _ err \<Rightarrow> Some err
      | StartupFailed _ _ err \<Rightarrow> Some err
      | TurnEndedWithError _ _ _ err \<Rightarrow> Some err
      | _ \<Rightarrow> None)"

definition ingest_error :: "string \<Rightarrow> agent_event \<Rightarrow> 'w orchestrator \<Rightarrow> 'w orchestrator" where
  "ingest_error issue_id event s =
     (case surfaced_error event of
        Some err \<Rightarrow> modify_info issue_id (\<lambda>info. info\<lparr> si_last_error := Some (format_rate_limit_error err) \<rparr>) s
      | None \<Rightarrow> s)"

definition add_usage :: "session_token_usage \<Rightarrow> nat \<Rightarrow> nat \<Rightarrow> nat \<Rightarrow> session_token_usage" where
  "add_usage u input_tokens output_tokens total_tokens =
     \<lparr> tu_input_tokens = sat_add_u64 (tu_input_tokens u) input_tokens,
       tu_output_tokens = sat_add_u64 (tu_output_tokens u) output_tokens,
       tu_total_tokens = sat_add_u64 (tu_total_tokens u) total_tokens \<rparr>"

definition ingest_turn_completed :: "string \<Rightarrow> agent_event \<Rightarrow> 'w orchestrator \<Rightarrow> 'w orchestrator" where
  "ingest_turn_completed issue_id event s =
     (case event of
        TurnCompleted _ _ _ _ input_tokens output_tokens total_tokens rate_limits \<Rightarrow>
          (let s1 = modify_stats issue_id
                      (\<lambda>st. st\<lparr> rs_turn_count := sat_add_u32 (rs_turn_count st) 1,
                                rs_total_tokens := sat_add_u64 (rs_total_tokens st) total_tokens \<rparr>) s;
               s2 = modify_info issue_id
                      (\<lambda>info. info\<lparr> si_session_tokens :=
                                      add_usage (si_session_tokens info) input_tokens output_tokens total_tokens,
                                    si_last_error := None \<rparr>) s1;
               s3 = advance_turn_counter issue_id s2
           in apply_turn_metrics
                \<lparr> tm_input_tokens = input_tokens, tm_output_tokens = output_tokens,
                  tm_total_tokens = total_tokens, tm_rate_limits = rate_limits \<rparr> s3)
      | _ \<Rightarrow> s)"

definition close_escalation :: "agent_event \<Rightarrow> 'w orchestrator \<Rightarrow> 'w orchestrator" where
  "close_escalation event s =
     (case escalation_closed event of
        Some request_id \<Rightarrow>
          s\<lparr> o_escalation_registry := snd (registry_remove request_id (o_escalation_registry s)) \<rparr>
      | None \<Rightarrow> s)"

definition ingest_agent_event :: "'w env \<Rightarrow> string \<Rightarrow> agent_event \<Rightarrow> 'w orchestrator \<Rightarrow> 'w orchestrator" where
  "ingest_agent_event env issue_id event s0 =
     (let s1 = close_escalation event s0
      in if \<not> hmember (o_running s1) issue_id then s1
         else
           (let t = o_codex_totals s1;
                s2 = s1\<lparr> o_codex_totals := t\<lparr> ct_event_count := sat_add_u64 (ct_event_count t) 1 \<rparr> \<rparr>;
                s3 = ensure_worker_session_info issue_id s2;
                s4 = record_worker_activity issue_id (event_timestamp_ms event) s3;
                s5 = (case event_session_id event of
                        Some session_id \<Rightarrow>
                          s4\<lparr> o_worker_session_ids := hput issue_id session_id (o_worker_session_ids s4) \<rparr>
                      | None \<Rightarrow> s4);
                s6 = ingest_summary env issue_id event s5;
                s7 = ingest_tool_activity env issue_id event s6;
                s8 = s7\<lparr> o_running := hmodify issue_id (attempt_after_event event) (o_running s7) \<rparr>;
                s9 = ingest_error issue_id event s8
            in ingest_turn_completed issue_id event s9))"

section \<open>Ending a worker\<close>

fun cancel_each :: "'w env \<Rightarrow> string \<Rightarrow> string \<Rightarrow> escalation_request list \<Rightarrow> 'w orchestrator \<Rightarrow> 'w orchestrator" where
  "cancel_each env issue_id reason [] s = s"
| "cancel_each env issue_id reason (request # requests) s =
     (let (now, s1) = call (e_now env) s;
          event = EscalationCancelled now (er_issue_id request) (er_issue_identifier request)
                    (er_id request) reason
      in cancel_each env issue_id reason requests (ingest_agent_event env issue_id event s1))"

definition cancel_pending_escalations_for_issue ::
  "'w env \<Rightarrow> string \<Rightarrow> string \<Rightarrow> 'w orchestrator \<Rightarrow> 'w orchestrator" where
  "cancel_pending_escalations_for_issue env issue_id reason s =
     (let (cancelled, reg) = cancel_for_issue issue_id (o_escalation_registry s);
          s1 = s\<lparr> o_escalation_registry := reg \<rparr>
      in if cancelled = [] then s1
         else if hmember (o_running s1) issue_id then cancel_each env issue_id reason cancelled s1
         else s1)"

definition cleanup_workspace :: "'w env \<Rightarrow> issue \<Rightarrow> string \<Rightarrow> 'w orchestrator \<Rightarrow> 'w orchestrator" where
  "cleanup_workspace env i workspace_path s =
     (if \<not> e_workspace_exists env workspace_path (o_world s) then s
      else snd (call (e_remove_workspace env workspace_path (sc_workspace (o_config s)) i) s))"

text \<open>A late result of a worker the orchestrator no longer runs.\<close>

definition complete_released_worker :: "'w env \<Rightarrow> string \<Rightarrow> 'w orchestrator \<Rightarrow> 'w orchestrator" where
  "complete_released_worker env issue_id s =
     (let s1 = cancel_pending_escalations_for_issue env issue_id ''worker_already_released'' s
      in if wc_cleanup_on_done (sc_workspace (o_config s1)) then
           (case hget (o_pending_terminal_cleanup s1) issue_id of
              Some pending \<Rightarrow>
                cleanup_workspace env (pt_issue pending) (pt_workspace_path pending)
                  (s1\<lparr> o_pending_terminal_cleanup := hdel issue_id (o_pending_terminal_cleanup s1) \<rparr>)
            | None \<Rightarrow> s1)
         else s1\<lparr> o_pending_terminal_cleanup := hdel issue_id (o_pending_terminal_cleanup s1) \<rparr>)"

definition completed_turn_count :: "string \<Rightarrow> 'w orchestrator \<Rightarrow> nat" where
  "completed_turn_count issue_id s =
     (case hget (o_running_session_stats s) issue_id of
        Some st \<Rightarrow> rs_turn_count st
      | None \<Rightarrow> (case hget (o_worker_session_info s) issue_id of
                   Some info \<Rightarrow> si_turn_count info - 1
                 | None \<Rightarrow> 0))"

definition completed_total_tokens :: "string \<Rightarrow> 'w orchestrator \<Rightarrow> nat" where
  "completed_total_tokens issue_id s =
     (case hget (o_running_session_stats s) issue_id of
        Some st \<Rightarrow> rs_total_tokens st
      | None \<Rightarrow> (case hget (o_worker_session_info s) issue_id of
                   Some info \<Rightarrow> tu_total_tokens (si_session_tokens info)
                 | None \<Rightarrow> 0))"

definition finish_completed ::
  "'w env \<Rightarrow> string \<Rightarrow> bool \<Rightarrow> run_attempt \<Rightarrow> retry_context \<Rightarrow> int \<Rightarrow> 'w orchestrator
     \<Rightarrow> string option \<times> 'w orchestrator" where
  "finish_completed env issue_id schedule_continuation a ctx now_ms s =
     (let s1 = (if schedule_continuation then s
                else let (now, s') = call (e_now env) s
                     in s'\<lparr> o_completed :=
                              hput issue_id
                                \<lparr> ce_issue_id = issue_id, ce_identifier = ra_issue_identifier a,
                                  ce_title = (case ra_issue_title a of Some t \<Rightarrow> t | None \<Rightarrow> []),
                                  ce_completed_at = Some now \<rparr> (o_completed s') \<rparr>);
          s2 = emit_runtime_event
                 (EvWorkerCompleted issue_id (ra_issue_identifier a) (rx_session_id ctx)) s1
      in if schedule_continuation then
           (let (token, s3) = schedule_retry_with_context issue_id (ra_issue_identifier a) 1 Continuation
                                now_ms None ctx s2
            in (Some token, s3))
         else (None, s2\<lparr> o_retry_attempts := hdel issue_id (o_retry_attempts s2) \<rparr>))"

definition failure_attempt :: "run_attempt \<Rightarrow> nat" where
  "failure_attempt a =
     max (sat_add_u32 (case ra_attempt a of Some n \<Rightarrow> n | None \<Rightarrow> 0) 1) 1"

definition finish_failed ::
  "'w env \<Rightarrow> string \<Rightarrow> string \<Rightarrow> run_attempt \<Rightarrow> retry_context \<Rightarrow> int \<Rightarrow> 'w orchestrator
     \<Rightarrow> string option \<times> 'w orchestrator" where
  "finish_failed env issue_id err a ctx now_ms s =
     (let s1 = s\<lparr> o_completed := hdel issue_id (o_completed s) \<rparr>;
          s2 = emit_runtime_event
                 (EvWorkerFailed issue_id (ra_issue_identifier a) (rx_session_id ctx) err) s1;
          title = (case ra_issue_title a of Some t \<Rightarrow> t | None \<Rightarrow> ra_issue_identifier a);
          s3 = (if contains_str STALL_FAILURE_MARKER err then s2
                else queue_slack_notification env ''failed'' (ra_issue_identifier a) title
                       ''Agent failed during execution.'' (ra_issue_url a) s2);
          (token, s4) = schedule_retry_with_context issue_id (ra_issue_identifier a)
                          (failure_attempt a) Failure now_ms (Some err) ctx s3
      in (Some token, s4))"

text \<open>
  What \<open>handle_worker_completion\<close> clears before it looks at the outcome. The normalised
  state of the issue stays until the next reconciliation.
\<close>

definition retire_worker :: "'w env \<Rightarrow> string \<Rightarrow> run_attempt \<Rightarrow> 'w orchestrator \<Rightarrow> 'w orchestrator" where
  "retire_worker env issue_id a s =
     (let s1 = s\<lparr> o_running := hdel issue_id (o_running s),
                  o_claimed := o_claimed s - {issue_id},
                  o_worker_last_activity_ms := hdel issue_id (o_worker_last_activity_ms s) \<rparr>;
          (now, s2) = call (e_now env) s1
      in s2\<lparr> o_completion_comment_summaries :=
               hput issue_id
                 \<lparr> cs_turn_count = completed_turn_count issue_id s1,
                   cs_total_tokens = completed_total_tokens issue_id s1,
                   cs_duration = now - ra_started_at a,
                   cs_worker_host = ra_worker_host a \<rparr> (o_completion_comment_summaries s2),
             o_running_session_stats := hdel issue_id (o_running_session_stats s2),
             o_worker_session_info := hdel issue_id (o_worker_session_info s2),
             o_running_parent_identifiers := hdel issue_id (o_running_parent_identifiers s2),
             o_worker_session_ids := hdel issue_id (o_worker_session_ids s2),
             o_worker_steer_tx := hdel issue_id (o_worker_steer_tx s2) \<rparr>)"

definition handle_worker_completion ::
  "'w env \<Rightarrow> string \<Rightarrow> worker_completion \<Rightarrow> int \<Rightarrow> 'w orchestrator \<Rightarrow> string option \<times> 'w orchestrator" where
  "handle_worker_completion env issue_id completion now_ms s0 =
     (if \<not> hmember (o_running s0) issue_id then (None, complete_released_worker env issue_id s0)
      else
        (let s1 = cancel_pending_escalations_for_issue env issue_id ''worker_exited'' s0
         in case hget (o_running s1) issue_id of
              None \<Rightarrow> (None, s1)
            | Some a \<Rightarrow>
                (let ctx = \<lparr> rx_worker_host = ra_worker_host a,
                             rx_workspace_path = Some (ra_workspace_path a),
                             rx_session_id = hget (o_worker_session_ids s1) issue_id \<rparr>;
                     s2 = retire_worker env issue_id a s1
                 in case completion of
                      Completed schedule_continuation \<Rightarrow>
                        finish_completed env issue_id schedule_continuation a ctx now_ms s2
                    | Failed err \<Rightarrow> finish_failed env issue_id err a ctx now_ms s2)))"

section \<open>Stalled workers\<close>

definition stall_timeout_for :: "string \<Rightarrow> int \<Rightarrow> 'w orchestrator \<Rightarrow> int" where
  "stall_timeout_for issue_id stall_timeout_ms s =
     (case hget (o_worker_session_info s) issue_id of
        Some info \<Rightarrow> if 0 < si_stall_timeout_ms info then si_stall_timeout_ms info else stall_timeout_ms
      | None \<Rightarrow> stall_timeout_ms)"

definition last_activity_for :: "string \<Rightarrow> run_attempt \<Rightarrow> 'w orchestrator \<Rightarrow> int" where
  "last_activity_for issue_id a s =
     (case hget (o_worker_last_activity_ms s) issue_id of
        Some t \<Rightarrow> t | None \<Rightarrow> timestamp_millis (ra_started_at a))"

definition stalled_for :: "string \<Rightarrow> int \<Rightarrow> int \<Rightarrow> 'w orchestrator \<Rightarrow> int option" where
  "stalled_for issue_id now_ms stall_timeout_ms s =
     (case hget (o_running s) issue_id of
        None \<Rightarrow> None
      | Some a \<Rightarrow>
          (let timeout = stall_timeout_for issue_id stall_timeout_ms s;
               elapsed_ms = sat_sub_i64 now_ms (last_activity_for issue_id a s)
           in if timeout \<le> 0 then None
              else if elapsed_ms \<le> timeout then None
              else Some elapsed_ms))"

definition check_stalled_worker :: "'w env \<Rightarrow> int \<Rightarrow> int \<Rightarrow> string \<Rightarrow> 'w orchestrator \<Rightarrow> 'w orchestrator" where
  "check_stalled_worker env now_ms stall_timeout_ms issue_id s =
     (case (hget (o_running s) issue_id, stalled_for issue_id now_ms stall_timeout_ms s) of
        (Some a, Some elapsed_ms) \<Rightarrow>
          (let s1 = emit_runtime_event
                      (EvWorkerStalled issue_id (ra_issue_identifier a)
                         (hget (o_worker_session_ids s) issue_id) elapsed_ms) s;
               title = (case ra_issue_title a of Some t \<Rightarrow> t | None \<Rightarrow> ra_issue_identifier a);
               s2 = queue_slack_notification env ''stalled'' (ra_issue_identifier a) title
                      (''No activity for '' @ int_digits (trunc_div elapsed_ms 1000) @ '' seconds.'')
                      (ra_issue_url a) s1
           in snd (handle_worker_completion env issue_id
                     (Failed (''stalled for '' @ int_digits elapsed_ms @ ''ms '' @ STALL_FAILURE_MARKER))
                     now_ms s2))
      | _ \<Rightarrow> s)"

definition detect_stalled_workers :: "'w env \<Rightarrow> int \<Rightarrow> int \<Rightarrow> 'w orchestrator \<Rightarrow> 'w orchestrator" where
  "detect_stalled_workers env now_ms stall_timeout_ms s =
     fold (check_stalled_worker env now_ms stall_timeout_ms) (hkeys (o_running s)) s"

section \<open>Terminal issues\<close>

definition format_elapsed_duration :: "duration \<Rightarrow> string" where
  "format_elapsed_duration d =
     (let total_seconds = nat (max (num_seconds d) 0);
          hours = total_seconds div 3600;
          minutes = (total_seconds mod 3600) div 60;
          seconds = total_seconds mod 60
      in if 0 < hours then nat_digits hours @ ''h '' @ nat_digits minutes @ ''m '' @ nat_digits seconds @ ''s''
         else if 0 < minutes then nat_digits minutes @ ''m '' @ nat_digits seconds @ ''s''
         else nat_digits seconds @ ''s'')"

definition build_completion_comment ::
  "string \<Rightarrow> string \<Rightarrow> nat \<Rightarrow> nat \<Rightarrow> duration \<Rightarrow> string option \<Rightarrow> string" where
  "build_completion_comment issue_identifier terminal_state turn_count total_tokens d worker_host =
     ''## Symphony Execution Summary'' @ newline @ newline
     @ ''**Issue:** '' @ issue_identifier @ newline
     @ ''**Status:** '' @ terminal_state @ newline
     @ ''**Turns:** '' @ nat_digits turn_count @ newline
     @ ''**Tokens:** '' @ nat_digits total_tokens @ newline
     @ ''**Duration:** '' @ format_elapsed_duration d @ newline
     @ ''**Worker:** '' @ (case worker_host of Some h \<Rightarrow> h | None \<Rightarrow> ''local'')"

definition completion_comments_enabled :: "tracker_config \<Rightarrow> bool" where
  "completion_comments_enabled tc =
     (case tc_kind tc of Some k \<Rightarrow> eq_ignore_ascii_case k ''github'' | None \<Rightarrow> False)"

definition completion_comment_for_issue :: "issue \<Rightarrow> timestamp \<Rightarrow> 'w orchestrator \<Rightarrow> string" where
  "completion_comment_for_issue i now s =
     (let run_attempt = hget (o_running s) (i_id i);
          stats = hget (o_running_session_stats s) (i_id i);
          info = hget (o_worker_session_info s) (i_id i);
          summary = hget (o_completion_comment_summaries s) (i_id i);
          turn_count = (case stats of Some st \<Rightarrow> rs_turn_count st | None \<Rightarrow>
                         (case info of Some si \<Rightarrow> si_turn_count si - 1 | None \<Rightarrow>
                           (case summary of Some c \<Rightarrow> cs_turn_count c | None \<Rightarrow> 0)));
          total_tokens = (case stats of Some st \<Rightarrow> rs_total_tokens st | None \<Rightarrow>
                           (case info of Some si \<Rightarrow> tu_total_tokens (si_session_tokens si) | None \<Rightarrow>
                             (case summary of Some c \<Rightarrow> cs_total_tokens c | None \<Rightarrow> 0)));
          d = (case run_attempt of Some a \<Rightarrow> now - ra_started_at a | None \<Rightarrow>
                 (case summary of Some c \<Rightarrow> cs_duration c | None \<Rightarrow> 0));
          worker_host = (case Option.bind run_attempt ra_worker_host of Some h \<Rightarrow> Some h | None \<Rightarrow>
                           Option.bind summary cs_worker_host)
      in build_completion_comment (i_identifier i) (i_state i) turn_count total_tokens d worker_host)"

definition maybe_write_completion_comment :: "'w env \<Rightarrow> issue \<Rightarrow> 'w orchestrator \<Rightarrow> 'w orchestrator" where
  "maybe_write_completion_comment env i s =
     (if \<not> completion_comments_enabled (sc_tracker (o_config s)) then s
      else let (now, s1) = call (e_now env) s
           in snd (call (e_create_issue_comment env (i_id i) (completion_comment_for_issue i now s1)) s1))"

definition terminal_workspace_path :: "issue \<Rightarrow> string option \<Rightarrow> 'w orchestrator \<Rightarrow> string option" where
  "terminal_workspace_path i hint s =
     (case hget (o_running s) (i_id i) of
        Some a \<Rightarrow> Some (ra_workspace_path a)
      | None \<Rightarrow>
         (case Option.bind (hget (o_retry_attempts s) (i_id i)) re_workspace_path of
            Some p \<Rightarrow> Some p
          | None \<Rightarrow> hint))"

definition terminal_cleanup :: "'w env \<Rightarrow> issue \<Rightarrow> string option \<Rightarrow> 'w orchestrator \<Rightarrow> 'w orchestrator" where
  "terminal_cleanup env i hint s =
     (if \<not> wc_cleanup_on_done (sc_workspace (o_config s)) then s
      else case terminal_workspace_path i hint s of
             None \<Rightarrow> s
           | Some workspace_path \<Rightarrow>
               if hmember (o_worker_session_ids s) (i_id i)
               then s\<lparr> o_pending_terminal_cleanup :=
                         hput (i_id i) \<lparr> pt_issue = i, pt_workspace_path = workspace_path \<rparr>
                           (o_pending_terminal_cleanup s) \<rparr>
               else cleanup_workspace env i workspace_path
                      (s\<lparr> o_pending_terminal_cleanup := hdel (i_id i) (o_pending_terminal_cleanup s) \<rparr>))"

definition mark_issue_terminal ::
  "'w env \<Rightarrow> issue \<Rightarrow> string option \<Rightarrow> bool \<Rightarrow> 'w orchestrator \<Rightarrow> 'w orchestrator" where
  "mark_issue_terminal env i hint include_in_completed s0 =
     (let issue_id = i_id i;
          s1 = cancel_pending_escalations_for_issue env issue_id ''issue_terminal'' s0;
          s = terminal_cleanup env i hint s1
      in s\<lparr> o_completed :=
              (if include_in_completed
               then hput issue_id
                      \<lparr> ce_issue_id = issue_id, ce_identifier = i_identifier i, ce_title = i_title i,
                        ce_completed_at = None \<rparr> (o_completed s)
               else hdel issue_id (o_completed s)),
            o_running := hdel issue_id (o_running s),
            o_claimed := o_claimed s - {issue_id},
            o_retry_attempts := hdel issue_id (o_retry_attempts s),
            o_running_issue_states := hdel issue_id (o_running_issue_states s),
            o_running_parent_identifiers := hdel issue_id (o_running_parent_identifiers s),
            o_retry_tokens := hdel issue_id (o_retry_tokens s),
            o_worker_last_activity_ms := hdel issue_id (o_worker_last_activity_ms s),
            o_worker_session_info := hdel issue_id (o_worker_session_info s),
            o_worker_session_ids := hdel issue_id (o_worker_session_ids s),
            o_worker_steer_tx := hdel issue_id (o_worker_steer_tx s),
            o_running_session_stats := hdel issue_id (o_running_session_stats s),
            o_completion_comment_summaries := hdel issue_id (o_completion_comment_summaries s) \<rparr>)"

definition release_issue :: "'w env \<Rightarrow> string \<Rightarrow> 'w orchestrator \<Rightarrow> 'w orchestrator" where
  "release_issue env issue_id s0 =
     (let s = cancel_pending_escalations_for_issue env issue_id ''issue_released'' s0
      in s\<lparr> o_running := hdel issue_id (o_running s),
            o_claimed := o_claimed s - {issue_id},
            o_retry_attempts := hdel issue_id (o_retry_attempts s),
            o_running_issue_states := hdel issue_id (o_running_issue_states s),
            o_running_parent_identifiers := hdel issue_id (o_running_parent_identifiers s),
            o_retry_tokens := hdel issue_id (o_retry_tokens s),
            o_worker_last_activity_ms := hdel issue_id (o_worker_last_activity_ms s),
            o_worker_session_ids := hdel issue_id (o_worker_session_ids s),
            o_worker_steer_tx := hdel issue_id (o_worker_steer_tx s),
            o_running_session_stats := hdel issue_id (o_running_session_stats s),
            o_completion_comment_summaries := hdel issue_id (o_completion_comment_summaries s) \<rparr>)"

section \<open>Startup\<close>

fun mark_startup_terminal ::
  "'w env \<Rightarrow> (string, string) hmap \<Rightarrow> issue list \<Rightarrow> 'w orchestrator \<Rightarrow> 'w orchestrator" where
  "mark_startup_terminal env workspaces [] s = s"
| "mark_startup_terminal env workspaces (i # issues) s =
     mark_startup_terminal env workspaces issues
       (mark_issue_terminal env i (hget workspaces (i_identifier i)) False s)"

definition startup_cleanup :: "'w env \<Rightarrow> 'w orchestrator \<Rightarrow> unit outcome \<times> 'w orchestrator" where
  "startup_cleanup env s0 =
     (let s1 = emit_runtime_event EvStartupCleanup s0;
          (result, s2) = call (e_startup_terminal_issues env (tc_terminal_states (sc_tracker (o_config s1)))) s1
      in case result of
           Inl err \<Rightarrow> (Inl err, s2)
         | Inr terminal_issues \<Rightarrow>
             (let wc = sc_workspace (o_config s2);
                  workspaces = e_scan_workspace_root env (wc_root wc) (wc_branch_prefix wc) (o_world s2)
              in (Inr (), mark_startup_terminal env workspaces terminal_issues s2)))"

end
