(* ===== verification/Dispatch.thy ===== *)
theory Dispatch
  imports WorkerLifecycle
begin

text \<open>
  The poll cycle of \<open>src/orchestrator.rs\<close>: reconciling the running issues with the
  tracker, choosing and dispatching candidates, retrying the issues whose delay is over,
  and handing the dispatched issues to workers.
\<close>

section \<open>Reconciliation\<close>

definition notify_state_change :: "'w env \<Rightarrow> issue \<Rightarrow> 'w orchestrator \<Rightarrow> 'w orchestrator" where
  "notify_state_change env i s =
     (let normalized_state = normalize_issue_state (i_state i)
      in case hget (o_running_issue_states s) (i_id i) of
           None \<Rightarrow> s
         | Some prev \<Rightarrow>
             if normalize_issue_state prev \<noteq> normalized_state then
               queue_slack_notification env
                 (map (\<lambda>c. if c = CHR '' '' then CHR ''_'' else c) normalized_state)
                 (i_identifier i) (i_title i)
                 (''Moved to '' @ i_state i @ '' (was '' @ prev @ '').'') (i_url i) s
             else s)"

definition reconcile_issue ::
  "'w env \<Rightarrow> string set \<Rightarrow> string set \<Rightarrow> issue \<Rightarrow> 'w orchestrator \<Rightarrow> 'w orchestrator" where
  "reconcile_issue env terminal_states active_states i s0 =
     (let normalized_state = normalize_issue_state (i_state i);
          s = notify_state_change env i s0
      in if normalized_state \<in> terminal_states then
           mark_issue_terminal env i None True (maybe_write_completion_comment env i s)
         else if \<not> i_assigned_to_worker i \<or> normalized_state \<notin> active_states then
           release_issue env (i_id i) s
         else
           s\<lparr> o_running_issue_states := hput (i_id i) (i_state i) (o_running_issue_states s),
              o_running_parent_identifiers :=
                hput (i_id i) (i_parent_identifier i) (o_running_parent_identifiers s),
              o_running :=
                hmodify (i_id i) (\<lambda>a. a\<lparr> ra_tracker_state := Some (i_state i) \<rparr>) (o_running s) \<rparr>)"

definition release_invisible ::
  "'w env \<Rightarrow> string set \<Rightarrow> string \<Rightarrow> 'w orchestrator \<Rightarrow> 'w orchestrator" where
  "release_invisible env visible running_id s =
     (if running_id \<in> visible then s else release_issue env running_id s)"

definition reconcile_running :: "'w env \<Rightarrow> 'w orchestrator \<Rightarrow> 'w orchestrator" where
  "reconcile_running env s0 =
     (let running_issue_ids = hkeys (o_running s0);
          (result, s1) = call (e_reconcile_running_issues env running_issue_ids) s0
      in case result of
           Inl err \<Rightarrow> s1
         | Inr refreshed_issues \<Rightarrow>
             (let s2 = fold (reconcile_issue env (terminal_state_set s1) (active_state_set s1))
                         refreshed_issues s1;
                  s3 = fold (release_invisible env (set (map i_id refreshed_issues))) running_issue_ids s2
              in s3\<lparr> o_running_issue_states :=
                       hretain (\<lambda>i _. hmember (o_running s3) i) (o_running_issue_states s3),
                     o_running_parent_identifiers :=
                       hretain (\<lambda>i _. hmember (o_running s3) i) (o_running_parent_identifiers s3) \<rparr>))"

section \<open>Candidates\<close>

definition issue_has_required_fields :: "issue \<Rightarrow> bool" where
  "issue_has_required_fields i \<longleftrightarrow>
     trim (i_id i) \<noteq> [] \<and> trim (i_identifier i) \<noteq> [] \<and> trim (i_title i) \<noteq> [] \<and> trim (i_state i) \<noteq> []"

definition priority_rank :: "int option \<Rightarrow> int" where
  "priority_rank priority =
     (case priority of Some v \<Rightarrow> if 1 \<le> v \<and> v \<le> 4 then v else 5 | None \<Rightarrow> 5)"

definition issue_created_at_sort_key :: "issue \<Rightarrow> int" where
  "issue_created_at_sort_key i =
     (case i_created_at i of Some t \<Rightarrow> timestamp_micros t | None \<Rightarrow> i64_max)"

definition dispatch_key :: "issue \<Rightarrow> int \<times> int \<times> string \<times> string" where
  "dispatch_key i =
     (priority_rank (i_priority i), issue_created_at_sort_key i, i_identifier i, i_id i)"

definition sort_issues_for_dispatch :: "issue list \<Rightarrow> issue list" where
  "sort_issues_for_dispatch issues = sort_key dispatch_key issues"

definition label_keys :: "string list \<Rightarrow> string list" where
  "label_keys labels = filter (\<lambda>l. l \<noteq> []) (map (\<lambda>l. to_ascii_lowercase (trim l)) labels)"

definition issue_has_excluded_label :: "'w orchestrator \<Rightarrow> issue \<Rightarrow> bool" where
  "issue_has_excluded_label s i =
     (let excluded = set (label_keys (tc_exclude_labels (sc_tracker (o_config s))))
      in if excluded = {} then False
         else list_ex (\<lambda>l. l \<in> excluded) (label_keys (i_labels i)))"

definition forge_host_from_endpoint :: "'w env \<Rightarrow> string \<Rightarrow> string" where
  "forge_host_from_endpoint env endpoint =
     (let host = (case e_url_host env (trim endpoint) of Some h \<Rightarrow> h | None \<Rightarrow> ''github.com'')
      in if eq_ignore_ascii_case host ''api.github.com'' then ''github.com'' else host)"

definition trimmed_non_empty :: "string option \<Rightarrow> string option" where
  "trimmed_non_empty v = Option.bind v (\<lambda>t. non_empty (trim t))"

definition configured_tracker_identity :: "'w env \<Rightarrow> 'w orchestrator \<Rightarrow> (string \<times> string) option" where
  "configured_tracker_identity env s =
     (let tc = sc_tracker (o_config s)
      in case (trimmed_non_empty (tc_repo_owner tc), trimmed_non_empty (tc_repo_name tc)) of
           (Some owner, Some repo) \<Rightarrow>
             Some (forge_host_from_endpoint env (tc_endpoint tc), owner @ ''/'' @ repo)
         | _ \<Rightarrow> None)"

definition issue_matches_automatic_dispatch_guard ::
  "'w env \<Rightarrow> 'w orchestrator \<Rightarrow> issue \<Rightarrow> dispatch_guard list \<Rightarrow> bool" where
  "issue_matches_automatic_dispatch_guard env s i guards =
     list_ex (\<lambda>g. case configured_tracker_identity env s of
                    Some (forge_host, repository) \<Rightarrow>
                      eq_ignore_ascii_case (dg_forge_host g) forge_host
                      \<and> eq_ignore_ascii_case (dg_repository g) repository
                      \<and> dg_issue_id g = i_id i
                  | None \<Rightarrow> dg_issue_id g = i_id i) guards"

definition filter_pending_automatic_publication ::
  "'w env \<Rightarrow> 'w orchestrator \<Rightarrow> issue list \<Rightarrow> issue list" where
  "filter_pending_automatic_publication env s candidates =
     (case e_pending_guards env (o_world s) of
        None \<Rightarrow> candidates
      | Some (Inl err) \<Rightarrow> []
      | Some (Inr guards) \<Rightarrow>
          if guards = [] then candidates
          else filter (\<lambda>i. \<not> issue_matches_automatic_dispatch_guard env s i guards) candidates)"

definition issue_blocked_by_pending_automatic_publication ::
  "'w env \<Rightarrow> 'w orchestrator \<Rightarrow> issue \<Rightarrow> bool" where
  "issue_blocked_by_pending_automatic_publication env s i =
     (case e_pending_guards env (o_world s) of
        None \<Rightarrow> False
      | Some (Inr guards) \<Rightarrow> issue_matches_automatic_dispatch_guard env s i guards
      | Some (Inl err) \<Rightarrow> True)"

definition available_slots :: "'w orchestrator \<Rightarrow> nat" where
  "available_slots s = o_max_concurrent_agents s - (hlen (o_running s) mod 2 ^ 32)"

definition is_candidate_for_blocked_check :: "'w orchestrator \<Rightarrow> issue \<Rightarrow> bool" where
  "is_candidate_for_blocked_check s i =
     (if \<not> issue_has_required_fields i then False
      else if \<not> i_assigned_to_worker i then False
      else if normalize_issue_state (i_state i) \<in> terminal_state_set s then False
      else if normalize_issue_state (i_state i) \<notin> active_state_set s then False
      else if issue_has_excluded_label s i then False
      else True)"

definition should_dispatch_issue :: "'w env \<Rightarrow> 'w orchestrator \<Rightarrow> issue \<Rightarrow> bool" where
  "should_dispatch_issue env s i =
     (if \<not> issue_has_required_fields i then False
      else if \<not> i_assigned_to_worker i then False
      else if normalize_issue_state (i_state i) \<in> terminal_state_set s then False
      else if normalize_issue_state (i_state i) \<notin> active_state_set s then False
      else if i_parent_identifier i \<noteq> None then False
      else if issue_has_excluded_label s i then False
      else if issue_blocked_by_pending_automatic_publication env s i then False
      else if i_id i \<in> o_claimed s \<or> hmember (o_running s) (i_id i) then False
      else if available_slots s = 0 then False
      else True)"

definition blocking_identifiers :: "string set \<Rightarrow> issue \<Rightarrow> string list" where
  "blocking_identifiers terminal_states i =
     List.map_filter
       (\<lambda>b. case br_state b of
              None \<Rightarrow> None
            | Some st \<Rightarrow>
                if normalize_issue_state st \<in> terminal_states then None
                else Some (case br_identifier b of Some d \<Rightarrow> d | None \<Rightarrow> ''unknown''))
       (i_blocked_by i)"

definition is_blocked_by_dependency :: "'w orchestrator \<Rightarrow> issue \<Rightarrow> bool \<times> string list" where
  "is_blocked_by_dependency s i =
     (if i_blocked_by i = [] then (False, [])
      else let blockers = blocking_identifiers (terminal_state_set s) i
           in (blockers \<noteq> [], blockers))"

definition host_loads :: "run_attempt list \<Rightarrow> (string, nat) hmap" where
  "host_loads attempts =
     fold (\<lambda>a load. case ra_worker_host a of
                      Some host \<Rightarrow> hput host (host_load load host + 1) load
                    | None \<Rightarrow> load) attempts hempty"

definition usize_max :: nat where
  "usize_max = u64_max"

definition select_host :: "'w orchestrator \<Rightarrow> string option \<Rightarrow> worker_host_selection" where
  "select_host s preferred =
     (if wc_isolation (sc_workspace (o_config s)) = IsolationDocker then SelLocal
      else let wk = sc_worker (o_config s);
               cap = (case wk_max_concurrent_agents_per_host wk of Some c \<Rightarrow> c | None \<Rightarrow> usize_max)
           in select_worker_host (wk_ssh_hosts wk) (host_loads (hvals (o_running s))) cap preferred)"

section \<open>The agent-review gate\<close>

datatype agent_review_pr_status =
    PrValid string string
  | PrMissing "string option" string
  | PrCheckFailed string

definition or_else :: "string \<Rightarrow> string \<Rightarrow> string" where
  "or_else a b = (if a = [] then b else a)"

definition judge_pull_request ::
  "'w env \<Rightarrow> string option \<Rightarrow> string \<Rightarrow> command_outcome \<Rightarrow> agent_review_pr_status" where
  "judge_pull_request env expected_base_branch branch pr_result =
     (if \<not> co_success pr_result then
        (let detail = or_else (co_stderr pr_result) (co_stdout pr_result)
         in PrMissing (Some branch)
              (if contains_str ''no pull requests found for branch'' (to_ascii_lowercase detail)
               then ''no open PR found for current branch `'' @ branch @ ''`''
               else ''could not verify open PR: '' @ detail))
      else case e_parse_pull_request env (co_stdout pr_result) of
        Inl err \<Rightarrow> PrMissing (Some branch) (''could not parse `gh pr view` output: '' @ err)
      | Inr pr \<Rightarrow>
          if \<not> eq_ignore_ascii_case (pv_state pr) ''OPEN'' then
            PrMissing (Some branch) (''PR exists but is not open (state: '' @ pv_state pr @ '')'')
          else if pv_head_ref_name pr \<noteq> branch then
            PrMissing (Some branch) (''PR head branch `'' @ pv_head_ref_name pr
              @ ''` does not match current branch `'' @ branch @ ''`'')
          else (case trimmed_non_empty expected_base_branch of
                  Some base_branch \<Rightarrow>
                    if pv_base_ref_name pr \<noteq> base_branch then
                      PrMissing (Some branch) (''PR base branch `'' @ pv_base_ref_name pr
                        @ ''` does not match expected `'' @ base_branch @ ''`'')
                    else PrValid branch (pv_url pr)
                | None \<Rightarrow> PrValid branch (pv_url pr)))"

definition check_agent_review_pr_status ::
  "'w env \<Rightarrow> string \<Rightarrow> string option \<Rightarrow> 'w \<Rightarrow> agent_review_pr_status \<times> 'w" where
  "check_agent_review_pr_status env workspace_path expected_base_branch w0 =
     (case e_run_command env ''git'' [''branch'', ''--show-current''] workspace_path w0 of
        (Inl err, w1) \<Rightarrow> (PrCheckFailed (''could not determine current branch: '' @ err), w1)
      | (Inr branch_result, w1) \<Rightarrow>
          if \<not> co_success branch_result then
            (PrMissing None (''could not determine current branch: ''
               @ or_else (co_stderr branch_result) (co_stdout branch_result)), w1)
          else let branch = trim (co_stdout branch_result) in
          if branch = [] \<or> branch = ''HEAD'' then
            (PrMissing None ''current branch is detached or empty'', w1)
          else case e_run_command env ''git''
                      [''ls-remote'', ''--exit-code'', ''--heads'', ''origin'', branch]
                      workspace_path w1 of
            (Inl err, w2) \<Rightarrow> (PrCheckFailed (''could not verify remote branch: '' @ err), w2)
          | (Inr remote_result, w2) \<Rightarrow>
              if \<not> co_success remote_result then
                (PrMissing (Some branch)
                   (''remote branch is missing on origin (''
                    @ or_else (co_stderr remote_result)
                        (or_else (co_stdout remote_result) ''ref not found'') @ '')''), w2)
              else case e_run_command env ''gh''
                          [''pr'', ''view'', ''--json'', ''url,state,headRefName,baseRefName'']
                          workspace_path w2 of
                (Inl err, w3) \<Rightarrow> (PrCheckFailed (''could not verify open PR: '' @ err), w3)
              | (Inr pr_result, w3) \<Rightarrow>
                  (judge_pull_request env expected_base_branch branch pr_result, w3))"

definition invalid_agent_review_note :: "issue \<Rightarrow> string option \<Rightarrow> string \<Rightarrow> string" where
  "invalid_agent_review_note i branch reason =
     ''## Symphony note'' @ newline @ newline
     @ ''Moved this issue from `Agent Review` back to `In Progress` because Agent Review requires an ''
     @ ''open PR for the current workspace branch.'' @ newline @ newline
     @ ''- branch: `'' @ (case branch of Some b \<Rightarrow> b | None \<Rightarrow> ''unknown'') @ ''`'' @ newline
     @ ''- reason: '' @ reason @ newline @ newline
     @ ''Open or restore the PR, then move `'' @ i_identifier i @ ''` back to `Agent Review`.''"

definition enforce_agent_review_pr_gate ::
  "'w env \<Rightarrow> issue \<Rightarrow> string \<Rightarrow> 'w orchestrator \<Rightarrow> issue option outcome \<times> 'w orchestrator" where
  "enforce_agent_review_pr_gate env i workspace_path s0 =
     (if normalize_issue_state (i_state i) \<noteq> ''agent review'' then (Inr (Some i), s0)
      else
        (let (pr_status, s1) = call (check_agent_review_pr_status env workspace_path
                                       (wc_base_branch (sc_workspace (o_config s0)))) s0
         in case pr_status of
              PrValid _ _ \<Rightarrow> (Inr (Some i), s1)
            | PrCheckFailed reason \<Rightarrow> (Inr None, s1)
            | PrMissing branch reason \<Rightarrow>
                (case call (e_update_issue_state env (i_id i) ''In Progress'') s1 of
                   (Inl err, s2) \<Rightarrow> (Inl err, s2)
                 | (Inr (), s2) \<Rightarrow>
                     (Inr None,
                      snd (call (e_create_issue_comment env (i_id i)
                                   (invalid_agent_review_note i branch reason)) s2)))))"

section \<open>Dispatching\<close>

record dispatched_issue =
  di_issue :: issue
  di_attempt :: "nat option"
  di_worker_host :: "string option"
  di_refresh_policy :: refresh_policy
  di_status_context :: "string option"

definition workspace_refresh_policy_for_dispatch :: "issue \<Rightarrow> nat option \<Rightarrow> refresh_policy" where
  "workspace_refresh_policy_for_dispatch i attempt =
     (if attempt \<noteq> None \<or> normalize_issue_state (i_state i) \<noteq> ''todo'' then AllowStale else Strict)"

definition prepare_workspace_for_active_dispatch ::
  "'w env \<Rightarrow> issue \<Rightarrow> refresh_policy \<Rightarrow> 'w orchestrator \<Rightarrow> (string \<times> string option) option \<times> 'w orchestrator" where
  "prepare_workspace_for_active_dispatch env i policy s0 =
     (case call (e_ensure_workspace env i (sc_workspace (o_config s0)) policy) s0 of
        (Inr preparation, s1) \<Rightarrow> (Some preparation, s1)
      | (Inl err, s1) \<Rightarrow>
          (None, emit_runtime_event
                   (EvWorkspacePrepareFailed (i_id i) (i_identifier i) (error_to_string err)) s1))"

text \<open>\<open>Path::join\<close> of the workspace root and one segment.\<close>

definition default_workspace_path_for_issue :: "'w orchestrator \<Rightarrow> issue \<Rightarrow> string" where
  "default_workspace_path_for_issue s i =
     (let root = wc_root (sc_workspace (o_config s));
          segment = sanitize_identifier (i_identifier i)
      in if root = [] then segment
         else if last root = CHR ''/'' then root @ segment else root @ ''/'' @ segment)"

definition scheduled_run ::
  "'w orchestrator \<Rightarrow> issue \<Rightarrow> nat option \<Rightarrow> string option \<Rightarrow> string option \<Rightarrow> timestamp \<Rightarrow> run_attempt" where
  "scheduled_run s i attempt workspace_path worker_host now =
     \<lparr> ra_issue_id = i_id i, ra_issue_identifier = i_identifier i,
       ra_issue_title = Some (i_title i), ra_attempt = attempt,
       ra_workspace_path =
         (case workspace_path of Some p \<Rightarrow> p | None \<Rightarrow> default_workspace_path_for_issue s i),
       ra_started_at = now, ra_status = ''scheduled'', ra_error = None,
       ra_worker_host = worker_host,
       ra_model = (if sc_agent_backend (o_config s) = KataCli
                   then effective_pi_model_for_issue (o_config s) i else None),
       ra_tracker_state = Some (i_state i), ra_issue_url = i_url i \<rparr>"

definition dispatch_issue ::
  "'w env \<Rightarrow> issue \<Rightarrow> nat option \<Rightarrow> string option \<Rightarrow> string option \<Rightarrow> 'w orchestrator \<Rightarrow> 'w orchestrator" where
  "dispatch_issue env i attempt workspace_path worker_host s0 =
     (let (now, s1) = call (e_now env) s0;
          run = scheduled_run s1 i attempt workspace_path worker_host now;
          s2 = s1\<lparr> o_completion_comment_summaries := hdel (i_id i) (o_completion_comment_summaries s1),
                   o_running := hput (i_id i) run (o_running s1) \<rparr>;
          s3 = ensure_worker_session_info (i_id i) s2;
          s4 = s3\<lparr> o_claimed := insert (i_id i) (o_claimed s3) \<rparr>;
          (activity, s5) = call (e_now env) s4
      in s5\<lparr> o_running_session_stats :=
               hput (i_id i) (default_session_stats\<lparr> rs_last_activity_at := Some activity \<rparr>)
                 (o_running_session_stats s5),
             o_retry_attempts := hdel (i_id i) (o_retry_attempts s5),
             o_running_issue_states := hput (i_id i) (i_state i) (o_running_issue_states s5),
             o_running_parent_identifiers :=
               hput (i_id i) (i_parent_identifier i) (o_running_parent_identifiers s5) \<rparr>)"

fun selected_host :: "worker_host_selection \<Rightarrow> string option" where
  "selected_host (SelRemote host) = Some host"
| "selected_host _ = None"

text \<open>
  One candidate of the second pass. \<open>Inr None\<close> is a \<open>continue\<close> of the loop, an error
  leaves the whole tick.
\<close>

definition dispatch_candidate ::
  "'w env \<Rightarrow> string set \<Rightarrow> issue \<Rightarrow> 'w orchestrator \<Rightarrow> dispatched_issue option outcome \<times> 'w orchestrator" where
  "dispatch_candidate env blocked_ids candidate s0 =
     (if \<not> should_dispatch_issue env s0 candidate then (Inr None, s0)
      else if i_id candidate \<in> blocked_ids then (Inr None, s0)
      else case call (e_refresh_issue env (i_id candidate)) s0 of
        (Inl err, s1) \<Rightarrow> (Inl err, s1)
      | (Inr None, s1) \<Rightarrow> (Inr None, s1)
      | (Inr (Some refreshed), s1) \<Rightarrow>
          (let policy = workspace_refresh_policy_for_dispatch refreshed None in
           case prepare_workspace_for_active_dispatch env refreshed policy s1 of
             (None, s2) \<Rightarrow> (Inr None, s2)
           | (Some (workspace_path, status_context), s2) \<Rightarrow>
               (case enforce_agent_review_pr_gate env refreshed workspace_path s2 of
                  (Inl err, s3) \<Rightarrow> (Inl err, s3)
                | (Inr None, s3) \<Rightarrow> (Inr None, s3)
                | (Inr (Some i), s3) \<Rightarrow>
                    if \<not> should_dispatch_issue env s3 i then (Inr None, s3)
                    else (let selection = select_host s3 None in
                          if selection = SelNoneAvailable then (Inr None, s3)
                          else (Inr (Some \<lparr> di_issue = i, di_attempt = None,
                                            di_worker_host = selected_host selection,
                                            di_refresh_policy = policy,
                                            di_status_context = status_context \<rparr>),
                                dispatch_issue env i None (Some workspace_path)
                                  (selected_host selection) s3)))))"

fun dispatch_candidates ::
  "'w env \<Rightarrow> string set \<Rightarrow> issue list \<Rightarrow> 'w orchestrator \<Rightarrow> dispatched_issue list outcome \<times> 'w orchestrator" where
  "dispatch_candidates env blocked_ids [] s = (Inr [], s)"
| "dispatch_candidates env blocked_ids (candidate # candidates) s =
     (if available_slots s = 0 then (Inr [], s)
      else case dispatch_candidate env blocked_ids candidate s of
        (Inl err, s1) \<Rightarrow> (Inl err, s1)
      | (Inr step, s1) \<Rightarrow>
          (case dispatch_candidates env blocked_ids candidates s1 of
             (Inl err, s2) \<Rightarrow> (Inl err, s2)
           | (Inr dispatched, s2) \<Rightarrow>
               (Inr ((case step of Some d \<Rightarrow> [d] | None \<Rightarrow> []) @ dispatched), s2)))"

text \<open>The first pass: every candidate a dependency blocks, whatever slots are free.\<close>

definition blocked_entries :: "'w orchestrator \<Rightarrow> issue list \<Rightarrow> blocked_issue_entry list" where
  "blocked_entries s candidates =
     List.map_filter
       (\<lambda>c. if \<not> is_candidate_for_blocked_check s c then None
            else let (dep_blocked, blocker_ids) = is_blocked_by_dependency s c
                 in if dep_blocked
                    then Some \<lparr> bi_issue_id = i_id c, bi_identifier = i_identifier c,
                                bi_title = i_title c, bi_state = i_state c,
                                bi_blocker_identifiers = blocker_ids \<rparr>
                    else None) candidates"

record tick_result =
  tr_dispatched_issues :: "dispatched_issue list"
  tr_dispatch_skipped :: bool

definition skipped_tick :: tick_result where
  "skipped_tick = \<lparr> tr_dispatched_issues = [], tr_dispatch_skipped = True \<rparr>"

definition dispatch_phase :: "'w env \<Rightarrow> 'w orchestrator \<Rightarrow> tick_result outcome \<times> 'w orchestrator" where
  "dispatch_phase env s0 =
     (case call (e_fetch_candidate_issues env) (emit_runtime_event EvDispatch s0) of
        (Inl err, s1) \<Rightarrow> (Inl err, s1)
      | (Inr fetched, s1) \<Rightarrow>
          (let candidates = sort_issues_for_dispatch (filter_pending_automatic_publication env s1 fetched);
               blocked = blocked_entries s1 candidates
           in case dispatch_candidates env (set (map bi_issue_id blocked)) candidates s1 of
                (Inl err, s2) \<Rightarrow> (Inl err, s2)
              | (Inr dispatched, s2) \<Rightarrow>
                  (Inr \<lparr> tr_dispatched_issues = dispatched, tr_dispatch_skipped = False \<rparr>,
                   s2\<lparr> o_blocked_issues := blocked \<rparr>)))"

definition begin_tick :: "'w env \<Rightarrow> bool \<Rightarrow> 'w orchestrator \<Rightarrow> 'w orchestrator" where
  "begin_tick env refresh s0 =
     (let (now, s1) = call (e_now env) s0;
          s2 = s1\<lparr> o_poll_count := o_poll_count s1 + 1, o_last_poll_at := Some now,
                   o_blocked_issues := [] \<rparr>;
          s3 = (if refresh then refresh_runtime_config env s2 else s2);
          (prune_now, s4) = call (e_now env) s3
      in s4\<lparr> o_shared_context_store :=
               snd (prune_expired_entries_at prune_now (o_shared_context_store s4)) \<rparr>)"

definition tick_with_refresh :: "'w env \<Rightarrow> bool \<Rightarrow> 'w orchestrator \<Rightarrow> tick_result outcome \<times> 'w orchestrator" where
  "tick_with_refresh env refresh s0 =
     (let s1 = reconcile_running env (emit_runtime_event EvReconcile (begin_tick env refresh s0));
          s2 = emit_runtime_event EvValidate s1
      in case e_config_validate env (o_config s2) of
           Inl err \<Rightarrow> (Inr skipped_tick, emit_runtime_event EvValidationSkippedDispatch s2)
         | Inr () \<Rightarrow>
             (case call (e_validate_dispatch_preflight env (o_config s2)) s2 of
                (Inl err, s3) \<Rightarrow> (Inr skipped_tick, emit_runtime_event EvValidationSkippedDispatch s3)
              | (Inr (), s3) \<Rightarrow> dispatch_phase env s3))"

definition tick :: "'w env \<Rightarrow> 'w orchestrator \<Rightarrow> tick_result outcome \<times> 'w orchestrator" where
  "tick env s = tick_with_refresh env True s"

end
