(* ===== verification/Retry.thy ===== *)
theory Retry
  imports Dispatch
begin

text \<open>
  \<open>process_due_retries\<close> of \<open>src/orchestrator.rs\<close>: every retry whose delay is over is
  fired, its issue looked up again, and either dispatched, rescheduled, released or marked
  terminal. The entries are taken from the queue as it is when the pass starts.
\<close>

definition due_retries :: "int \<Rightarrow> 'w orchestrator \<Rightarrow> retry_entry list" where
  "due_retries now_ms s = filter (\<lambda>r. re_due_at_ms r \<le> now_ms) (hvals (o_retry_attempts s))"

definition reschedule_failure ::
  "retry_entry \<Rightarrow> retry_context \<Rightarrow> int \<Rightarrow> string \<Rightarrow> string \<Rightarrow> string \<Rightarrow> 'w orchestrator \<Rightarrow> 'w orchestrator" where
  "reschedule_failure r ctx now_ms issue_id identifier err s =
     snd (schedule_retry_with_context issue_id identifier (sat_add_u32 (re_attempt r) 1)
            Failure now_ms (Some err) ctx s)"

text \<open>The issue of a fired retry is not among the candidates.\<close>

definition retry_hidden_issue ::
  "'w env \<Rightarrow> retry_entry \<Rightarrow> retry_context \<Rightarrow> int \<Rightarrow> 'w orchestrator \<Rightarrow> 'w orchestrator" where
  "retry_hidden_issue env r ctx now_ms s0 =
     (case call (e_refresh_issue env (re_issue_id r)) s0 of
        (Inl err, s1) \<Rightarrow>
          reschedule_failure r ctx now_ms (re_issue_id r) (re_identifier r)
            (''retry refresh failed: '' @ error_to_string err) s1
      | (Inr (Some hidden), s1) \<Rightarrow>
          if normalize_issue_state (i_state hidden) \<in> terminal_state_set s1 then
            mark_issue_terminal env hidden (re_workspace_path r) True
              (maybe_write_completion_comment env hidden s1)
          else release_issue env (re_issue_id r) s1
      | (Inr None, s1) \<Rightarrow> release_issue env (re_issue_id r) s1)"

text \<open>The issue of a fired retry has passed the workspace step and the agent-review gate.\<close>

definition retry_dispatch ::
  "'w env \<Rightarrow> retry_entry \<Rightarrow> retry_context \<Rightarrow> int \<Rightarrow> refresh_policy \<Rightarrow> string \<Rightarrow> string option \<Rightarrow> issue
     \<Rightarrow> 'w orchestrator \<Rightarrow> dispatched_issue option \<times> 'w orchestrator" where
  "retry_dispatch env r ctx now_ms policy workspace_path status_context i s =
     (let normalized_state = normalize_issue_state (i_state i)
      in if normalized_state \<in> terminal_state_set s then
           (None, mark_issue_terminal env i (re_workspace_path r) True (maybe_write_completion_comment env i s))
         else if should_dispatch_issue env s i then
           (let selection = select_host s (re_worker_host r) in
            if selection = SelNoneAvailable then
              (None, snd (schedule_retry_with_context (i_id i) (i_identifier i) (re_attempt r) Continuation
                            now_ms (Some ''ssh pool exhausted'') ctx s))
            else
              (Some \<lparr> di_issue = i, di_attempt = Some (re_attempt r),
                      di_worker_host = selected_host selection, di_refresh_policy = policy,
                      di_status_context = status_context \<rparr>,
               dispatch_issue env i (Some (re_attempt r)) (Some workspace_path) (selected_host selection) s))
         else if normalized_state \<notin> active_state_set s then (None, release_issue env (i_id i) s)
         else (None, reschedule_failure r ctx now_ms (i_id i) (i_identifier i)
                       ''no available orchestrator slots'' s))"

definition retry_visible_issue ::
  "'w env \<Rightarrow> retry_entry \<Rightarrow> retry_context \<Rightarrow> int \<Rightarrow> issue \<Rightarrow> 'w orchestrator
     \<Rightarrow> dispatched_issue option \<times> 'w orchestrator" where
  "retry_visible_issue env r ctx now_ms i s0 =
     (let policy = workspace_refresh_policy_for_dispatch i (Some (re_attempt r)) in
      case prepare_workspace_for_active_dispatch env i policy s0 of
        (None, s1) \<Rightarrow> (None, s1)
      | (Some (workspace_path, status_context), s1) \<Rightarrow>
          (case enforce_agent_review_pr_gate env i workspace_path s1 of
             (Inl err, s2) \<Rightarrow> (None, s2)
           | (Inr None, s2) \<Rightarrow> (None, s2)
           | (Inr (Some i'), s2) \<Rightarrow>
               retry_dispatch env r ctx now_ms policy workspace_path status_context i' s2))"

definition retry_fired ::
  "'w env \<Rightarrow> retry_entry \<Rightarrow> int \<Rightarrow> 'w orchestrator \<Rightarrow> dispatched_issue option \<times> 'w orchestrator" where
  "retry_fired env r now_ms s0 =
     (let ctx = \<lparr> rx_worker_host = re_worker_host r, rx_workspace_path = re_workspace_path r,
                  rx_session_id = hget (o_worker_session_ids s0) (re_issue_id r) \<rparr> in
      case call (e_fetch_candidate_issues env) s0 of
        (Inl err, s1) \<Rightarrow>
          (None, reschedule_failure r ctx now_ms (re_issue_id r) (re_identifier r)
                   (''retry poll failed: '' @ error_to_string err) s1)
      | (Inr candidates, s1) \<Rightarrow>
          (case find (\<lambda>i. i_id i = re_issue_id r) candidates of
             None \<Rightarrow> (None, retry_hidden_issue env r ctx now_ms s1)
           | Some i \<Rightarrow> retry_visible_issue env r ctx now_ms i s1))"

definition process_retry ::
  "'w env \<Rightarrow> int \<Rightarrow> retry_entry \<Rightarrow> 'w orchestrator \<Rightarrow> dispatched_issue option \<times> 'w orchestrator" where
  "process_retry env now_ms r s0 =
     (case re_timer_handle r of
        None \<Rightarrow> (None, s0)
      | Some token \<Rightarrow>
          (let (fired, s1) = fire_retry (re_issue_id r) token s0
           in if \<not> fired then (None, s1) else retry_fired env r now_ms s1))"

fun process_retries ::
  "'w env \<Rightarrow> int \<Rightarrow> retry_entry list \<Rightarrow> 'w orchestrator \<Rightarrow> dispatched_issue list \<times> 'w orchestrator" where
  "process_retries env now_ms [] s = ([], s)"
| "process_retries env now_ms (r # rs) s =
     (let (step, s1) = process_retry env now_ms r s;
          (dispatched, s2) = process_retries env now_ms rs s1
      in ((case step of Some d \<Rightarrow> [d] | None \<Rightarrow> []) @ dispatched, s2))"

definition process_due_retries ::
  "'w env \<Rightarrow> int \<Rightarrow> 'w orchestrator \<Rightarrow> dispatched_issue list \<times> 'w orchestrator" where
  "process_due_retries env now_ms s = process_retries env now_ms (due_retries now_ms s) s"

end
