(* ===== verification/WorkerPrompt.thy ===== *)
theory WorkerPrompt
  imports Orchestrator
begin

text \<open>
  What a worker is told when it starts, and what an operator is shown of a worker's
  question (\<open>src/orchestrator.rs\<close>): the prompt template with the place of the shared
  context, the block of notes of other workers, the enriched payload of an escalation and
  its preview.
\<close>

section \<open>The order of scopes\<close>

text \<open>The derived \<open>Ord\<close>: by the constructor, then by its text.\<close>

fun scope_key :: "context_scope \<Rightarrow> nat \<times> string" where
  "scope_key ScopeProject = (0, [])"
| "scope_key (ScopeMilestone m) = (1, m)"
| "scope_key (ScopeLabel l) = (2, l)"

lemma scope_key_inj: "scope_key a = scope_key b \<Longrightarrow> a = b"
  by (cases a; cases b) simp_all

instantiation context_scope :: linorder
begin

definition less_eq_context_scope :: "context_scope \<Rightarrow> context_scope \<Rightarrow> bool" where
  "less_eq_context_scope a b \<longleftrightarrow> scope_key a \<le> scope_key b"

definition less_context_scope :: "context_scope \<Rightarrow> context_scope \<Rightarrow> bool" where
  "less_context_scope a b \<longleftrightarrow> scope_key a < scope_key b"

instance
  by standard (auto simp: less_eq_context_scope_def less_context_scope_def dest: scope_key_inj)

end

section \<open>The prompt\<close>

text \<open>The regular expression for the placeholder, tried at every position.\<close>

definition placeholder_at :: "string \<Rightarrow> bool" where
  "placeholder_at v =
     (case strip_prefix ''{{'' v of
        None \<Rightarrow> False
      | Some v1 \<Rightarrow>
          (case strip_prefix ''shared_context'' (trim_start v1) of
             None \<Rightarrow> False
           | Some v2 \<Rightarrow> strip_prefix ''}}'' (trim_start v2) \<noteq> None))"

fun has_placeholder :: "string \<Rightarrow> bool" where
  "has_placeholder [] = False"
| "has_placeholder (c # v) = (placeholder_at (c # v) \<or> has_placeholder v)"

definition paragraph_break :: string where
  "paragraph_break = [char_of (10 :: nat), char_of (10 :: nat)]"

definition ensure_shared_context_placeholder :: "string \<Rightarrow> string" where
  "ensure_shared_context_placeholder template =
     (if has_placeholder template then template
      else ''{{ shared_context }}'' @ paragraph_break @ template)"

definition resolve_prompt_for_state :: "'w env \<Rightarrow> string \<Rightarrow> 'w orchestrator \<Rightarrow> string" where
  "resolve_prompt_for_state env issue_state s =
     (case e_state_prompt env (o_config s) issue_state (o_world s) of
        Some template \<Rightarrow> template | None \<Rightarrow> o_prompt_template s)"

section \<open>Shared context\<close>

definition shared_context_scopes_for_issue :: "issue \<Rightarrow> context_scope list" where
  "shared_context_scopes_for_issue i =
     remdups_adj (sort (ScopeProject #
       map ScopeLabel (filter (\<lambda>l. l \<noteq> []) (map (\<lambda>l. to_ascii_lowercase (trim l)) (i_labels i)))))"

definition format_shared_context_age :: "timestamp \<Rightarrow> timestamp \<Rightarrow> string" where
  "format_shared_context_age now created_at =
     (let age_seconds = nat (max (num_seconds (now - created_at)) 0);
          age_minutes = age_seconds div 60;
          age_hours = age_minutes div 60;
          age_days = age_hours div 24
      in if age_seconds < 60 then nat_digits age_seconds @ ''s ago''
         else if age_minutes < 60 then nat_digits age_minutes @ ''m ago''
         else if age_hours < 24 then nat_digits age_hours @ ''h ago''
         else nat_digits age_days @ ''d ago'')"

definition append_workspace_status_context :: "string \<Rightarrow> string option \<Rightarrow> string" where
  "append_workspace_status_context shared_context status_context =
     (case status_context of
        None \<Rightarrow> shared_context
      | Some c \<Rightarrow>
          if trim c = [] then shared_context
          else (if trim shared_context \<noteq> [] then shared_context @ paragraph_break else shared_context) @ c)"

definition shared_context_line :: "timestamp \<Rightarrow> context_entry \<Rightarrow> string" where
  "shared_context_line now e =
     ''- ['' @ cx_author_issue e @ ''] ('' @ format_shared_context_age now (cx_created_at e) @ '', ''
     @ as_scope_key (cx_scope e) @ ''): '' @ cx_content e"

definition foreign_entries :: "issue \<Rightarrow> context_entry list \<Rightarrow> context_entry list" where
  "foreign_entries i entries = take 10 (filter (\<lambda>e. cx_author_issue e \<noteq> i_identifier i) entries)"

definition build_shared_context_block_for_issue ::
  "'w env \<Rightarrow> issue \<Rightarrow> 'w orchestrator \<Rightarrow> string \<times> 'w orchestrator" where
  "build_shared_context_block_for_issue env i s0 =
     (let (read_now, s1) = call (e_now env) s0;
          (visible, store) = read_entries read_now (shared_context_scopes_for_issue i)
                               (o_shared_context_store s1);
          s2 = s1\<lparr> o_shared_context_store := store \<rparr>;
          entries = foreign_entries i visible
      in if entries = [] then ([], s2)
         else let (now, s3) = call (e_now env) s2
              in (join_with [char_of (10 :: nat)]
                    ([''## Shared Context from Other Workers'', []]
                     @ map (shared_context_line now) entries), s3))"

section \<open>Escalations as an operator sees them\<close>

definition json_opt_string :: "string option \<Rightarrow> json" where
  "json_opt_string v = (case v of Some t \<Rightarrow> JString t | None \<Rightarrow> JNull)"

definition enrich_escalation_payload ::
  "json \<Rightarrow> string \<Rightarrow> string option \<Rightarrow> string option \<Rightarrow> json" where
  "enrich_escalation_payload payload issue_identifier issue_state parent_identifier =
     (let payload_object = (case payload of
                              JObject m \<Rightarrow> m
                            | other \<Rightarrow> obj_insert ''raw_payload'' other [])
      in JObject
           (obj_insert ''parent_identifier'' (json_opt_string parent_identifier)
             (obj_insert ''issue_state'' (json_opt_string issue_state)
               (obj_insert ''issue_identifier'' (JString issue_identifier) payload_object))))"

definition first_some :: "'a option \<Rightarrow> 'a option \<Rightarrow> 'a option" where
  "first_some a b = (case a of Some x \<Rightarrow> Some x | None \<Rightarrow> b)"

definition json_field_str :: "json \<Rightarrow> string \<Rightarrow> string option" where
  "json_field_str v key = Option.bind (json_get v key) as_str"

definition first_question :: "json \<Rightarrow> json option" where
  "first_question payload =
     (case Option.bind (json_get payload ''questions'') as_array of
        Some (q # _) \<Rightarrow> Some q
      | _ \<Rightarrow> None)"

definition escalation_preview :: "(json \<Rightarrow> string) \<Rightarrow> json \<Rightarrow> string" where
  "escalation_preview render payload =
     (let questions = Option.bind (first_question payload)
                        (\<lambda>q. first_some (json_field_str q ''question'') (json_field_str q ''prompt''));
          preview = first_some questions
                      (first_some (json_field_str payload ''question'') (json_field_str payload ''prompt''))
      in truncate_for_display
           (case preview of Some p \<Rightarrow> p | None \<Rightarrow> truncate_for_display (render payload) 120) 120)"

definition pending_of_entry :: "(json \<Rightarrow> string) \<Rightarrow> escalation_entry \<Rightarrow> pending_escalation" where
  "pending_of_entry render e =
     (let q = ee_request e
      in \<lparr> pe_request_id = er_id q, pe_issue_id = er_issue_id q,
           pe_issue_identifier = er_issue_identifier q, pe_method = er_method q,
           pe_preview = escalation_preview render (er_payload q),
           pe_created_at = er_created_at q, pe_timeout_ms = er_timeout_ms q \<rparr>)"

definition pending_snapshot :: "(json \<Rightarrow> string) \<Rightarrow> registry_state \<Rightarrow> pending_escalation list" where
  "pending_snapshot render reg =
     sort_key pe_created_at (map (pending_of_entry render) (hvals (rg_pending reg)))"

section \<open>Facts\<close>

lemma escalation_preview_length: "length (escalation_preview render payload) \<le> 120"
  by (simp add: escalation_preview_def Let_def truncate_for_display_length)

lemma has_placeholder_iff: "has_placeholder v \<longleftrightarrow> (\<exists>a b. v = a @ b \<and> placeholder_at b)"
proof (induction v)
  case Nil
  show ?case by (simp add: placeholder_at_def strip_prefix_def)
next
  case (Cons c v)
  show ?case
  proof
    assume "has_placeholder (c # v)"
    then consider "placeholder_at (c # v)" | a b where "v = a @ b" "placeholder_at b"
      using Cons by auto
    then show "\<exists>a b. c # v = a @ b \<and> placeholder_at b"
      by cases (metis append_Nil append_Cons)+
  next
    assume "\<exists>a b. c # v = a @ b \<and> placeholder_at b"
    then obtain a b where "c # v = a @ b" "placeholder_at b" by blast
    then show "has_placeholder (c # v)"
      using Cons by (cases a) auto
  qed
qed

lemma is_whitespace_space: "is_whitespace (CHR '' '')"
  by code_simp

lemma strip_prefix_append: "strip_prefix p (p @ v) = Some v"
  by (simp add: strip_prefix_def)

lemma trim_start_space: "\<not> is_whitespace c \<Longrightarrow> trim_start (CHR '' '' # c # v) = c # v"
  by (simp add: trim_start_def is_whitespace_space)

lemma placeholder_default: "placeholder_at (''{{ shared_context }}'' @ v)"
proof -
  let ?r2 = "''}}'' @ v"
  let ?r1 = "''shared_context'' @ CHR '' '' # ?r2"
  have nw: "\<not> is_whitespace (CHR ''s'')" "\<not> is_whitespace (CHR ''}'')"
    by code_simp+
  have "strip_prefix ''{{'' (''{{ shared_context }}'' @ v) = Some (CHR '' '' # ?r1)"
    using strip_prefix_append [of "''{{''" "CHR '' '' # ?r1"] by simp
  moreover have "strip_prefix ''shared_context'' (trim_start (CHR '' '' # ?r1)) = Some (CHR '' '' # ?r2)"
    using strip_prefix_append [of "''shared_context''" "CHR '' '' # ?r2"]
      trim_start_space [OF nw(1), of "tl ?r1"] by simp
  moreover have "strip_prefix ''}}'' (trim_start (CHR '' '' # ?r2)) = Some v"
    using strip_prefix_append [of "''}}''" v] trim_start_space [OF nw(2), of "tl ?r2"] by simp
  ultimately show ?thesis
    by (simp only: placeholder_at_def option.case option.distinct not_False_eq_True)
qed

lemma ensured_placeholder: "has_placeholder (ensure_shared_context_placeholder template)"
proof (cases "has_placeholder template")
  case False
  then show ?thesis
    unfolding ensure_shared_context_placeholder_def has_placeholder_iff
    using placeholder_default [of "paragraph_break @ template"]
    by (metis append_Nil append.assoc)
qed (simp add: ensure_shared_context_placeholder_def)

lemma foreign_entries_bound: "length (foreign_entries i entries) \<le> 10"
  by (simp add: foreign_entries_def)

lemma foreign_entries_author: "e \<in> set (foreign_entries i entries) \<Longrightarrow> cx_author_issue e \<noteq> i_identifier i"
  by (auto simp: foreign_entries_def dest: in_set_takeD)

lemma enrich_payload_get:
  "json_get (enrich_escalation_payload payload ident st parent) key
     = (if key = ''parent_identifier'' then Some (json_opt_string parent)
        else if key = ''issue_state'' then Some (json_opt_string st)
        else if key = ''issue_identifier'' then Some (JString ident)
        else case payload of
               JObject m \<Rightarrow> map_of m key
             | other \<Rightarrow> if key = ''raw_payload'' then Some other else None)"
  by (simp add: enrich_escalation_payload_def Let_def split: json.splits)

end
