(* ===== verification/RunLoop.thy ===== *)
theory RunLoop
  imports Retry WorkerPrompt
begin

text \<open>
  The runtime loop of \<open>src/orchestrator.rs\<close>: one poll cycle (\<open>run\<close>), the launch of
  the workers of a cycle, and the messages the loop serves between cycles. The loop itself
  never ends; \<open>orchestrator_step\<close> is one turn of it, with the concurrent callers of the
  two shared stores.
\<close>

section \<open>Launching workers\<close>

definition modify_run :: "string \<Rightarrow> (run_attempt \<Rightarrow> run_attempt) \<Rightarrow> 'w orchestrator \<Rightarrow> 'w orchestrator" where
  "modify_run issue_id f s = s\<lparr> o_running := hmodify issue_id f (o_running s) \<rparr>"

text \<open>An issue in Todo moves to In Progress; a failure to move it is only logged.\<close>

definition transition_on_dispatch :: "'w env \<Rightarrow> issue \<Rightarrow> 'w orchestrator \<Rightarrow> string \<times> 'w orchestrator" where
  "transition_on_dispatch env i s0 =
     (if normalize_issue_state (i_state i) = ''todo'' then
        (case call (e_update_issue_state env (i_id i) ''In Progress'') s0 of
           (Inr (), s1) \<Rightarrow> (''In Progress'', s1)
         | (Inl err, s1) \<Rightarrow> (i_state i, s1))
      else (i_state i, s0))"

text \<open>The steer channel of the worker: only the Kata backend has one.\<close>

definition open_steer_channel :: "'w env \<Rightarrow> string \<Rightarrow> 'w orchestrator \<Rightarrow> nat option \<times> 'w orchestrator" where
  "open_steer_channel env issue_id s0 =
     (let s1 = s0\<lparr> o_worker_steer_tx := hdel issue_id (o_worker_steer_tx s0) \<rparr>
      in if sc_agent_backend (o_config s1) = KataCli then
           (let (channel, s2) = call (e_new_channel env) s1
            in (Some channel, s2\<lparr> o_worker_steer_tx := hput issue_id channel (o_worker_steer_tx s2) \<rparr>))
         else (None, s1))"

definition spawn_worker :: "'w env \<Rightarrow> dispatched_issue \<Rightarrow> 'w orchestrator \<Rightarrow> 'w orchestrator" where
  "spawn_worker env d s0 =
     (let (effective_state, s1) = transition_on_dispatch env (di_issue d) s0;
          i = (di_issue d)\<lparr> i_state := effective_state \<rparr>;
          s2 = s1\<lparr> o_running_issue_states := hput (i_id i) effective_state (o_running_issue_states s1) \<rparr>;
          s3 = modify_run (i_id i)
                 (\<lambda>a. a\<lparr> ra_status := ''running'', ra_tracker_state := Some effective_state \<rparr>) s2;
          (steer_rx, s4) = open_steer_channel env (i_id i) s3;
          prompt_template = ensure_shared_context_placeholder (resolve_prompt_for_state env effective_state s4);
          (block, s5) = build_shared_context_block_for_issue env i s4;
          shared_context = append_workspace_status_context block (di_status_context d);
          pi_model_override = (if sc_agent_backend (o_config s5) = KataCli
                               then effective_pi_model_for_issue (o_config s5) i else None);
          s6 = modify_run (i_id i) (\<lambda>a. a\<lparr> ra_model := pi_model_override \<rparr>) s5;
          launch = \<lparr> wl_issue = i, wl_attempt = di_attempt d, wl_worker_host = di_worker_host d,
                     wl_pi_model_override = pi_model_override, wl_prompt_template = prompt_template,
                     wl_shared_context = shared_context, wl_refresh_policy = di_refresh_policy d,
                     wl_steer_rx = steer_rx, wl_config = o_config s6 \<rparr>
      in s6\<lparr> o_world := e_start_worker env launch (o_world s6) \<rparr>)"

definition spawn_workers_for_dispatched ::
  "'w env \<Rightarrow> dispatched_issue list \<Rightarrow> 'w orchestrator \<Rightarrow> 'w orchestrator" where
  "spawn_workers_for_dispatched env dispatched s = fold (spawn_worker env) dispatched s"

section \<open>Messages of workers and operators\<close>

definition drain_ready_worker_events ::
  "'w env \<Rightarrow> (string \<times> agent_event) list \<Rightarrow> 'w orchestrator \<Rightarrow> 'w orchestrator" where
  "drain_ready_worker_events env events s =
     fold (\<lambda>(issue_id, event). ingest_agent_event env issue_id event) events s"

record worker_result =
  wr_issue_id :: string
  wr_completion :: worker_completion
  wr_events :: "agent_event list"

definition handle_worker_result :: "'w env \<Rightarrow> worker_result \<Rightarrow> 'w orchestrator \<Rightarrow> 'w orchestrator" where
  "handle_worker_result env result s0 =
     (let s1 = fold (ingest_agent_event env (wr_issue_id result)) (wr_events result) s0;
          (now, s2) = call (e_now env) s1
      in snd (handle_worker_completion env (wr_issue_id result) (wr_completion result)
                (timestamp_millis now) s2))"

definition handle_escalation_dispatch ::
  "escalation_request \<Rightarrow> nat \<Rightarrow> 'w orchestrator \<Rightarrow> 'w orchestrator" where
  "handle_escalation_dispatch request response_tx s =
     (let issue_state =
            first_some (hget (o_running_issue_states s) (er_issue_id request))
              (Option.bind (hget (o_running s) (er_issue_id request)) ra_tracker_state);
          parent_identifier =
            (case hget (o_running_parent_identifiers s) (er_issue_id request) of
               Some p \<Rightarrow> p | None \<Rightarrow> None);
          enriched = request\<lparr> er_payload :=
                       enrich_escalation_payload (er_payload request) (er_issue_identifier request)
                         issue_state parent_identifier \<rparr>
      in s\<lparr> o_escalation_registry := register enriched response_tx (o_escalation_registry s) \<rparr>)"

datatype steer_result =
    SteerDelivered string string
  | SteerIssueNotRunning
  | SteerNoActiveSession
  | SteerDeliveryFailed string

definition find_running_by_identifier :: "string \<Rightarrow> 'w orchestrator \<Rightarrow> (string \<times> string) option" where
  "find_running_by_identifier issue_identifier s =
     map_option (\<lambda>(issue_id, a). (issue_id, ra_issue_identifier a))
       (find (\<lambda>(_, a). eq_ignore_ascii_case (ra_issue_identifier a) issue_identifier)
          (hitems (o_running s)))"

definition send_follow_up ::
  "'w env \<Rightarrow> string \<Rightarrow> string \<Rightarrow> nat \<Rightarrow> string \<Rightarrow> 'w orchestrator \<Rightarrow> steer_result \<times> 'w orchestrator" where
  "send_follow_up env issue_id canonical_identifier channel instruction s0 =
     (case call (e_send_follow_up env channel instruction) s0 of
        (FollowUpClosed, s1) \<Rightarrow>
          (SteerNoActiveSession, s1\<lparr> o_worker_steer_tx := hdel issue_id (o_worker_steer_tx s1) \<rparr>)
      | (FollowUpAccepted, s1) \<Rightarrow> (SteerDelivered issue_id canonical_identifier, s1)
      | (FollowUpRefused err, s1) \<Rightarrow> (SteerDeliveryFailed err, s1)
      | (FollowUpDropped, s1) \<Rightarrow> (SteerDeliveryFailed ''worker_follow_up_response_dropped'', s1)
      | (FollowUpTimedOut, s1) \<Rightarrow> (SteerDeliveryFailed ''worker_follow_up_timeout'', s1))"

definition steer_running_issue ::
  "'w env \<Rightarrow> string \<Rightarrow> string \<Rightarrow> 'w orchestrator \<Rightarrow> steer_result \<times> 'w orchestrator" where
  "steer_running_issue env issue_identifier instruction s =
     (if instruction = [] then (SteerDeliveryFailed ''instruction_empty'', s)
      else case find_running_by_identifier issue_identifier s of
        None \<Rightarrow> (SteerIssueNotRunning, s)
      | Some (issue_id, canonical_identifier) \<Rightarrow>
          if \<not> hmember (o_worker_session_ids s) issue_id then (SteerNoActiveSession, s)
          else (case hget (o_worker_steer_tx s) issue_id of
                  Some channel \<Rightarrow> send_follow_up env issue_id canonical_identifier channel instruction s
                | None \<Rightarrow> (SteerNoActiveSession, s)))"

fun steer_event :: "string \<Rightarrow> steer_result \<Rightarrow> runtime_event" where
  "steer_event issue_identifier (SteerDelivered issue_id canonical) = EvSteerDelivered issue_id canonical"
| "steer_event issue_identifier SteerIssueNotRunning = EvSteerFailed issue_identifier ''issue_not_running''"
| "steer_event issue_identifier SteerNoActiveSession = EvSteerFailed issue_identifier ''no_active_session''"
| "steer_event issue_identifier (SteerDeliveryFailed message) = EvSteerFailed issue_identifier message"

definition handle_steer_dispatch ::
  "'w env \<Rightarrow> string \<Rightarrow> string \<Rightarrow> 'w orchestrator \<Rightarrow> steer_result \<times> 'w orchestrator" where
  "handle_steer_dispatch env raw_identifier raw_instruction s0 =
     (let issue_identifier = to_ascii_uppercase (trim raw_identifier);
          instruction = trim raw_instruction;
          s1 = emit_runtime_event
                 (EvSteerReceived issue_identifier (truncate_for_display instruction 100)) s0;
          (response, s2) = steer_running_issue env issue_identifier instruction s1
      in (response, emit_runtime_event (steer_event issue_identifier response) s2))"

section \<open>The cycle\<close>

definition poll_cycle :: "'w env \<Rightarrow> 'w orchestrator \<Rightarrow> 'w orchestrator" where
  "poll_cycle env s0 =
     (let s1 = refresh_runtime_config env s0;
          (now, s2) = call (e_now env) s1;
          stall_timeout_ms = backend_stall_timeout_ms (o_config s2) (sc_agent_backend (o_config s2));
          s3 = detect_stalled_workers env (timestamp_millis now) stall_timeout_ms s2;
          s4 = s3\<lparr> o_world := e_triage_poll env (o_config s3) (o_world s3) \<rparr>;
          (result, s5) = tick_with_refresh env False s4;
          s6 = (case result of
                  Inr tick_result \<Rightarrow> spawn_workers_for_dispatched env (tr_dispatched_issues tick_result) s5
                | Inl err \<Rightarrow> s5);
          (retry_now, s7) = call (e_now env) s6;
          (retry_dispatched, s8) = process_due_retries env (timestamp_millis retry_now) s7
      in spawn_workers_for_dispatched env retry_dispatched s8)"

text \<open>
  One step of the running program. \<open>step_world\<close> is everything outside it. The last four
  are the callers that share the registry and the store of notes with the loop.
\<close>

inductive orchestrator_step :: "'w env \<Rightarrow> 'w orchestrator \<Rightarrow> 'w orchestrator \<Rightarrow> bool" for env where
  step_poll: "orchestrator_step env s (poll_cycle env s)"
| step_events: "orchestrator_step env s (drain_ready_worker_events env events s)"
| step_escalation: "orchestrator_step env s (handle_escalation_dispatch request tx s)"
| step_steer: "orchestrator_step env s (snd (handle_steer_dispatch env ident instruction s))"
| step_result: "orchestrator_step env s
    (handle_worker_result env result (drain_ready_worker_events env events s))"
| step_refresh: "orchestrator_step env s (emit_runtime_event EvRefreshRequested s)"
| step_world: "orchestrator_step env s (s\<lparr> o_world := w \<rparr>)"
| step_resolve: "orchestrator_step env s
    (s\<lparr> o_escalation_registry :=
         snd (resolve send request_id response (o_escalation_registry s)) \<rparr>)"
| step_write: "orchestrator_step env s
    (s\<lparr> o_shared_context_store :=
         snd (write_entry entry_id now draft (o_shared_context_store s)) \<rparr>)"
| step_clear: "orchestrator_step env s
    (s\<lparr> o_shared_context_store := snd (clear_entries scope_filter (o_shared_context_store s)) \<rparr>)"
| step_remove: "orchestrator_step env s
    (s\<lparr> o_shared_context_store := snd (remove_entry entry_id (o_shared_context_store s)) \<rparr>)"

inductive orchestrator_reachable :: "'w env \<Rightarrow> 'w orchestrator \<Rightarrow> bool" for env where
  reach_start: "startup_cleanup env (new_orchestrator config template port w) = (Inr (), s)
     \<Longrightarrow> orchestrator_reachable env s"
| reach_step: "orchestrator_reachable env s \<Longrightarrow> orchestrator_step env s t
     \<Longrightarrow> orchestrator_reachable env t"

inductive_cases orchestrator_stepE: "orchestrator_step env s t"

end
