(* ===== verification/Scheduling.thy ===== *)
theory Scheduling
  imports RunLoop
begin

text \<open>
  What the scheduling tables of the orchestrator promise each other, stated on the tables
  alone, and what the elementary changes of the code do to that promise.
\<close>

section \<open>The promise\<close>

text \<open>
  An issue is claimed exactly while it runs; an attempt is filed under its own id; every
  entry of the retry queue is filed under its id and carries the current token of the
  issue; no issue both runs and waits; every token was drawn from the counter, and no two
  issues share one.
\<close>

definition claims_ok :: "(string, run_attempt) hmap \<Rightarrow> string set \<Rightarrow> bool" where
  "claims_ok running claimed \<longleftrightarrow>
     claimed = set (hkeys running)
     \<and> (\<forall>i a. hget running i = Some a \<longrightarrow> ra_issue_id a = i)"

definition retries_ok ::
  "(string, run_attempt) hmap \<Rightarrow> (string, retry_entry) hmap \<Rightarrow> (string, string) hmap \<Rightarrow> bool" where
  "retries_ok running attempts tokens \<longleftrightarrow>
     (\<forall>i r. hget attempts i = Some r \<longrightarrow>
        re_issue_id r = i \<and> hget running i = None
        \<and> (\<exists>token. re_timer_handle r = Some token \<and> hget tokens i = Some token))"

definition tokens_ok :: "(string, string) hmap \<Rightarrow> nat \<Rightarrow> bool" where
  "tokens_ok tokens n \<longleftrightarrow>
     (\<forall>i t. hget tokens i = Some t \<longrightarrow> (\<exists>k. 1 \<le> k \<and> k \<le> n \<and> t = retry_token k))
     \<and> inj_on (hget tokens) (dom (hget tokens))"

definition sessions_ok ::
  "(string, run_attempt) hmap \<Rightarrow> (string, running_session_stats) hmap
     \<Rightarrow> (string, worker_session_info) hmap \<Rightarrow> bool" where
  "sessions_ok running stats info \<longleftrightarrow>
     dom (hget stats) = dom (hget running) \<and> dom (hget running) \<subseteq> dom (hget info)"

definition orch_inv :: "'w orchestrator \<Rightarrow> bool" where
  "orch_inv s \<longleftrightarrow>
     claims_ok (o_running s) (o_claimed s)
     \<and> retries_ok (o_running s) (o_retry_attempts s) (o_retry_tokens s)
     \<and> tokens_ok (o_retry_tokens s) (o_next_retry_token s)
     \<and> sessions_ok (o_running s) (o_running_session_stats s) (o_worker_session_info s)
     \<and> registry_ok (o_escalation_registry s)
     \<and> store_ok (o_shared_context_store s)"

text \<open>The promise, fact by fact.\<close>

lemma inv_claimed: "orch_inv s \<Longrightarrow> o_claimed s = set (hkeys (o_running s))"
  by (simp add: orch_inv_def claims_ok_def)

lemma inv_running:
  assumes "orch_inv s" "hget (o_running s) i = Some a"
  shows "ra_issue_id a = i" "hget (o_retry_attempts s) i = None"
    "hget (o_running_session_stats s) i \<noteq> None" "hget (o_worker_session_info s) i \<noteq> None"
proof -
  show "ra_issue_id a = i" using assms by (simp add: orch_inv_def claims_ok_def)
  show "hget (o_retry_attempts s) i = None"
    using assms by (cases "hget (o_retry_attempts s) i") (auto simp: orch_inv_def retries_ok_def)
  have "i \<in> dom (hget (o_running s))" using assms(2) by auto
  then show "hget (o_running_session_stats s) i \<noteq> None" "hget (o_worker_session_info s) i \<noteq> None"
    using assms(1) by (auto simp: orch_inv_def sessions_ok_def)
qed

lemma inv_retry:
  assumes "orch_inv s" "hget (o_retry_attempts s) i = Some r"
  shows "re_issue_id r = i" "hget (o_running s) i = None"
    "\<exists>token. re_timer_handle r = Some token \<and> hget (o_retry_tokens s) i = Some token"
  using assms by (auto simp: orch_inv_def retries_ok_def)

lemma inv_token_inj:
  assumes "orch_inv s" "hget (o_retry_tokens s) i = Some token" "hget (o_retry_tokens s) j = Some token"
  shows "i = j"
proof (rule inj_onD [of "hget (o_retry_tokens s)" "dom (hget (o_retry_tokens s))"])
  show "inj_on (hget (o_retry_tokens s)) (dom (hget (o_retry_tokens s)))"
    using assms(1) by (simp add: orch_inv_def tokens_ok_def)
qed (use assms in auto)

section \<open>Elementary changes\<close>

lemma claims_ok_modify:
  "claims_ok r c \<Longrightarrow> (\<And>a. ra_issue_id (f a) = ra_issue_id a) \<Longrightarrow> claims_ok (hmodify i f r) c"
  by (auto simp: claims_ok_def hkeys_iff split: if_splits)

lemma claims_ok_del: "claims_ok r c \<Longrightarrow> claims_ok (hdel i r) (c - {i})"
  by (auto simp: claims_ok_def hkeys_iff split: if_splits)

lemma claims_ok_put: "claims_ok r c \<Longrightarrow> ra_issue_id a = i \<Longrightarrow> claims_ok (hput i a r) (insert i c)"
  by (auto simp: claims_ok_def hkeys_iff split: if_splits)

lemma retries_ok_modify: "retries_ok r a t \<Longrightarrow> retries_ok (hmodify i f r) a t"
  by (auto simp: retries_ok_def)

lemma retries_ok_del_running: "retries_ok r a t \<Longrightarrow> retries_ok (hdel i r) a t"
  by (auto simp: retries_ok_def)

lemma retries_ok_del_attempt: "retries_ok r a t \<Longrightarrow> retries_ok r (hdel i a) t"
  by (auto simp: retries_ok_def split: if_splits)

lemma retries_ok_del_token: "retries_ok r a t \<Longrightarrow> retries_ok r (hdel i a) (hdel i t)"
  by (auto simp: retries_ok_def split: if_splits)

lemma retries_ok_put_running: "retries_ok r a t \<Longrightarrow> retries_ok (hput i x r) (hdel i a) t"
  by (auto simp: retries_ok_def split: if_splits)

lemma retries_ok_schedule:
  "retries_ok r a t \<Longrightarrow> hget r i = None \<Longrightarrow> re_issue_id e = i \<Longrightarrow> re_timer_handle e = Some tok
     \<Longrightarrow> retries_ok r (hput i e a) (hput i tok t)"
  by (auto simp: retries_ok_def split: if_splits)

lemma retry_token_inj: "retry_token a = retry_token b \<Longrightarrow> a = b"
  by (simp add: retry_token_def nat_digits_inj)

lemma tokens_ok_del: "tokens_ok t n \<Longrightarrow> tokens_ok (hdel i t) n"
  by (auto simp: tokens_ok_def inj_on_def dom_def split: if_splits)

lemma tokens_ok_fresh: "tokens_ok t n \<Longrightarrow> hget t i \<noteq> Some (retry_token (Suc n))"
  unfolding tokens_ok_def by (metis Suc_n_not_le_n retry_token_inj)

lemma tokens_ok_put:
  assumes ok: "tokens_ok t n"
  shows "tokens_ok (hput i (retry_token (Suc n)) t) (Suc n)"
proof -
  have "\<exists>k. 1 \<le> k \<and> k \<le> Suc n \<and> tok = retry_token k"
    if "hget (hput i (retry_token (Suc n)) t) j = Some tok" for j tok
  proof (cases "j = i")
    case True
    then show ?thesis using that by (intro exI [of _ "Suc n"]) simp
  next
    case False
    then have "hget t j = Some tok" using that by simp
    then show ?thesis using ok unfolding tokens_ok_def by (meson le_SucI)
  qed
  moreover have "inj_on (hget (hput i (retry_token (Suc n)) t)) (dom (hget (hput i (retry_token (Suc n)) t)))"
    unfolding hm.get_put using ok tokens_ok_fresh [OF ok]
    by (auto simp: tokens_ok_def inj_on_def)
  ultimately show ?thesis by (simp add: tokens_ok_def)
qed

lemma sessions_ok_modify: "sessions_ok r st info \<Longrightarrow> sessions_ok (hmodify i f r) st info"
  by (auto simp: sessions_ok_def dom_def)

lemma sessions_ok_del: "sessions_ok r st info \<Longrightarrow> sessions_ok (hdel i r) (hdel i st) (hdel i info)"
  by (auto simp: sessions_ok_def dom_def)

lemma sessions_ok_release: "sessions_ok r st info \<Longrightarrow> sessions_ok (hdel i r) (hdel i st) info"
  by (auto simp: sessions_ok_def dom_def)

lemma sessions_ok_put:
  "sessions_ok r st info \<Longrightarrow> sessions_ok (hput i a r) (hput i x st) (hput i y info)"
  by (auto simp: sessions_ok_def dom_def)

lemma sessions_ok_put_info: "sessions_ok r st info \<Longrightarrow> sessions_ok r st (hput i y info)"
  by (auto simp: sessions_ok_def dom_def)

lemma sessions_ok_modify_info: "sessions_ok r st info \<Longrightarrow> sessions_ok r st (hmodify i f info)"
  by (auto simp: sessions_ok_def dom_def)

lemma sessions_ok_put_stats:
  "sessions_ok r st info \<Longrightarrow> hget r i \<noteq> None \<Longrightarrow> sessions_ok r (hput i x st) info"
  by (fastforce simp: sessions_ok_def dom_def)

lemmas tables_intros = claims_ok_modify claims_ok_del claims_ok_put
  retries_ok_modify retries_ok_del_running retries_ok_del_attempt retries_ok_del_token
  retries_ok_put_running retries_ok_schedule tokens_ok_del tokens_ok_put
  sessions_ok_modify sessions_ok_del sessions_ok_release sessions_ok_put sessions_ok_put_info
  sessions_ok_modify_info sessions_ok_put_stats

section \<open>Calls into the world\<close>

lemma call_eq: "call f s = (fst (f (o_world s)), s\<lparr> o_world := snd (f (o_world s)) \<rparr>)"
  by (simp add: call_def split: prod.splits)

lemma snd_call [state_simps]: "snd (call f s) = s\<lparr> o_world := snd (f (o_world s)) \<rparr>"
  by (simp add: call_eq)

lemma orch_inv_world [simp]: "orch_inv (s\<lparr> o_world := w \<rparr>) = orch_inv s"
  by (simp add: orch_inv_def)

lemma call_result: "call f s = (r, t) \<Longrightarrow> t = s\<lparr> o_world := snd (f (o_world s)) \<rparr>"
  by (auto simp: call_eq)

lemma orch_inv_events [simp]: "orch_inv (emit_runtime_event ev s) = orch_inv s"
  by (simp add: orch_inv_def emit_runtime_event_def)

lemma orch_inv_event_log [simp]: "orch_inv (s\<lparr> o_events := evs \<rparr>) = orch_inv s"
  by (simp add: orch_inv_def)

lemma orch_inv_slack [simp]: "orch_inv (queue_slack_notification env e i t m u s) = orch_inv s"
  by (simp add: queue_slack_notification_def split: option.splits)

lemma hkeys_empty [simp]: "hkeys hempty = []"
  using hm.keys_get [of hempty] by (simp add: dom_def)

text \<open>
  \<open>world_step s t\<close>: from \<open>s\<close> to \<open>t\<close> only the world and the log of runtime events
  moved. Every call of the code that is not followed by a change of its own tables is one.
\<close>

definition world_step :: "'w orchestrator \<Rightarrow> 'w orchestrator \<Rightarrow> bool" where
  "world_step s t \<longleftrightarrow> (\<exists>w evs. t = s\<lparr> o_world := w, o_events := evs \<rparr>)"

lemma world_step_refl [intro]: "world_step s s"
  unfolding world_step_def by (rule exI [of _ "o_world s"], rule exI [of _ "o_events s"]) simp

lemma world_step_trans [trans]: "world_step s t \<Longrightarrow> world_step t u \<Longrightarrow> world_step s u"
  by (clarsimp simp: world_step_def) blast

lemma world_step_world [intro]: "world_step s (s\<lparr> o_world := w \<rparr>)"
  unfolding world_step_def by (rule exI [of _ w], rule exI [of _ "o_events s"]) simp

lemma world_step_event [intro]: "world_step s (emit_runtime_event ev s)"
  unfolding world_step_def emit_runtime_event_def
  by (rule exI [of _ "o_world s"], rule exI [of _ "o_events s @ [ev]"]) simp

lemma world_step_call: "call f s = (r, t) \<Longrightarrow> world_step s t"
  by (auto dest: call_result)

lemma world_step_slack [intro]: "world_step s (queue_slack_notification env e i t m u s)"
  by (auto simp: queue_slack_notification_def split: option.splits)

lemma world_step_fields:
  assumes "world_step s t"
  shows "o_running t = o_running s" "o_claimed t = o_claimed s"
    "o_retry_attempts t = o_retry_attempts s" "o_retry_tokens t = o_retry_tokens s"
    "o_config t = o_config s" "o_max_concurrent_agents t = o_max_concurrent_agents s"
    "o_worker_session_ids t = o_worker_session_ids s"
    "o_worker_session_info t = o_worker_session_info s"
    "o_running_session_stats t = o_running_session_stats s"
    "o_next_retry_token t = o_next_retry_token s" "o_completed t = o_completed s"
  using assms by (auto simp: world_step_def)

lemma world_step_inv: "world_step s t \<Longrightarrow> orch_inv t = orch_inv s"
  by (auto simp: world_step_def)

lemma orch_inv_new: "orch_inv (new_orchestrator config template port w)"
  by (simp add: orch_inv_def new_orchestrator_def claims_ok_def retries_ok_def tokens_ok_def
      sessions_ok_def registry_ok_empty store_ok_new dom_def)

end
