(* ===== verification/SchedulingPreserved.thy ===== *)
theory SchedulingPreserved
  imports Scheduling
begin

text \<open>
  Every operation of the orchestrator keeps the promise \<open>orch_inv\<close> of its scheduling
  tables, from the bookkeeping of one session up to a step of the running program.
\<close>

section \<open>Session bookkeeping and events\<close>

lemma inv_ensure_info: "orch_inv s \<Longrightarrow> orch_inv (ensure_worker_session_info i s)"
  by (simp add: orch_inv_def ensure_worker_session_info_def Let_def tables_intros)

lemma inv_modify_info: "orch_inv s \<Longrightarrow> orch_inv (modify_info i f s)"
  by (simp add: orch_inv_def modify_info_def tables_intros)

lemma inv_modify_stats: "orch_inv s \<Longrightarrow> hmember (o_running s) i \<Longrightarrow> orch_inv (modify_stats i f s)"
  by (simp add: orch_inv_def modify_stats_def hmember_def sessions_ok_put_stats)

lemma inv_activity: "orch_inv s \<Longrightarrow> orch_inv (record_worker_activity i t s)"
  by (simp add: orch_inv_def record_worker_activity_def tables_intros)

lemma inv_advance: "orch_inv s \<Longrightarrow> orch_inv (advance_turn_counter i s)"
  using inv_ensure_info [of s i]
  by (simp add: advance_turn_counter_def Let_def orch_inv_def tables_intros)

lemma inv_metrics: "orch_inv s \<Longrightarrow> orch_inv (apply_turn_metrics m s)"
  by (simp add: orch_inv_def apply_turn_metrics_def Let_def)

lemma inv_modify_run:
  "orch_inv s \<Longrightarrow> r = o_running s \<Longrightarrow> (\<And>a. ra_issue_id (f a) = ra_issue_id a)
     \<Longrightarrow> orch_inv (s\<lparr> o_running := hmodify i f r \<rparr>)"
  by (simp add: orch_inv_def tables_intros)

text \<open>The set of running issues is not touched by the bookkeeping.\<close>

lemma running_bookkeeping [state_simps]:
  "o_running (ensure_worker_session_info i s) = o_running s"
  "o_running (modify_info i g s) = o_running s"
  "o_running (modify_stats i f s) = o_running s"
  "o_running (record_worker_activity i t s) = o_running s"
  "o_running (advance_turn_counter i s) = o_running s"
  "o_running (apply_turn_metrics m s) = o_running s"
  "o_running (emit_runtime_event ev s) = o_running s"
  "o_running (close_escalation event s) = o_running s"
  by (simp_all add: ensure_worker_session_info_def Let_def modify_info_def modify_stats_def
      record_worker_activity_def advance_turn_counter_def apply_turn_metrics_def
      emit_runtime_event_def close_escalation_def split: option.splits)

lemma running_ingest_parts [state_simps]:
  "o_running (ingest_summary env i event s) = o_running s"
  "o_running (ingest_tool_activity env i event s) = o_running s"
  "o_running (ingest_error i event s) = o_running s"
  "o_running (ingest_turn_completed i event s) = o_running s"
  by (simp_all add: ingest_summary_def ingest_tool_activity_def ingest_error_def
      ingest_turn_completed_def Let_def state_simps split: prod.splits tool_activity.splits
      option.splits agent_event.splits)

lemma inv_summary: "orch_inv s \<Longrightarrow> hmember (o_running s) i \<Longrightarrow> orch_inv (ingest_summary env i event s)"
  by (simp add: ingest_summary_def inv_modify_stats split: prod.splits)

lemma inv_tool: "orch_inv s \<Longrightarrow> hmember (o_running s) i \<Longrightarrow> orch_inv (ingest_tool_activity env i event s)"
  by (simp add: ingest_tool_activity_def inv_modify_stats inv_modify_info split: tool_activity.splits)

lemma inv_error: "orch_inv s \<Longrightarrow> orch_inv (ingest_error i event s)"
  by (simp add: ingest_error_def inv_modify_info split: option.splits)

lemma inv_turn_completed:
  "orch_inv s \<Longrightarrow> hmember (o_running s) i \<Longrightarrow> orch_inv (ingest_turn_completed i event s)"
  by (simp add: ingest_turn_completed_def Let_def inv_modify_stats inv_modify_info inv_advance
      inv_metrics split: agent_event.splits)

lemma inv_close_escalation: "orch_inv s \<Longrightarrow> orch_inv (close_escalation event s)"
  by (simp add: close_escalation_def orch_inv_def registry_ok_intros split: option.splits)

lemma attempt_after_event_id [simp]: "ra_issue_id (attempt_after_event event a) = ra_issue_id a"
  by (simp add: attempt_after_event_def split: agent_event.splits)

lemma hmember_modify [simp]: "hmember (hmodify i f m) j = hmember m j"
  by (simp add: hmember_def)

lemma inv_event_count:
  "orch_inv (s\<lparr> o_codex_totals := t \<rparr>) = orch_inv s"
  "orch_inv (s\<lparr> o_worker_session_ids := ids \<rparr>) = orch_inv s"
  by (simp_all add: orch_inv_def)

theorem inv_ingest: "orch_inv s \<Longrightarrow> orch_inv (ingest_agent_event env i event s)"
proof -
  assume "orch_inv s"
  then have s1: "orch_inv (close_escalation event s)" by (rule inv_close_escalation)
  show ?thesis
    unfolding ingest_agent_event_def Let_def
    by (cases "event_session_id event")
      (auto simp: s1 state_simps inv_event_count
        intro!: inv_turn_completed inv_error inv_modify_run inv_tool inv_summary inv_activity inv_ensure_info)
qed

lemma running_ingest [state_simps]:
  "hget (o_running (ingest_agent_event env i event s))
     = (hget (o_running s))(i := map_option (attempt_after_event event) (hget (o_running s) i))"
  by (auto simp: ingest_agent_event_def Let_def state_simps hmember_def fun_eq_iff split: option.splits)

section \<open>Ending a worker\<close>

lemma inv_registry:
  "orch_inv s \<Longrightarrow> registry_ok reg \<Longrightarrow> orch_inv (s\<lparr> o_escalation_registry := reg \<rparr>)"
  by (simp add: orch_inv_def)

lemma inv_cancel_each: "orch_inv s \<Longrightarrow> orch_inv (cancel_each env i reason requests s)"
  by (induction requests arbitrary: s)
    (simp_all add: call_eq Let_def inv_ingest split: prod.splits)

lemma inv_cancel_pending: "orch_inv s \<Longrightarrow> orch_inv (cancel_pending_escalations_for_issue env i reason s)"
proof -
  assume inv: "orch_inv s"
  have "orch_inv (s\<lparr> o_escalation_registry := snd (cancel_for_issue i (o_escalation_registry s)) \<rparr>)"
    using inv by (intro inv_registry registry_ok_cancel) (simp_all add: orch_inv_def)
  then show ?thesis
    by (simp add: cancel_pending_escalations_for_issue_def inv_cancel_each Let_def case_prod_unfold)
qed

lemma running_cancel_each [state_simps]:
  "dom (hget (o_running (cancel_each env i reason requests s))) = dom (hget (o_running s))"
  by (induction requests arbitrary: s)
    (auto simp: call_eq Let_def state_simps split: prod.splits)

lemma running_cancel_pending [state_simps]:
  "dom (hget (o_running (cancel_pending_escalations_for_issue env i reason s))) = dom (hget (o_running s))"
  by (simp add: cancel_pending_escalations_for_issue_def Let_def state_simps split: prod.splits)

lemma inv_cleanup_workspace: "orch_inv s \<Longrightarrow> orch_inv (cleanup_workspace env i p s)"
  by (simp add: cleanup_workspace_def state_simps)

lemma inv_pending_cleanup: "orch_inv (s\<lparr> o_pending_terminal_cleanup := p \<rparr>) = orch_inv s"
  by (simp add: orch_inv_def)

lemma inv_complete_released: "orch_inv s \<Longrightarrow> orch_inv (complete_released_worker env i s)"
  using inv_cancel_pending [of s env i "''worker_already_released''"]
  by (simp add: complete_released_worker_def Let_def inv_cleanup_workspace inv_pending_cleanup
      split: option.splits)

lemma inv_retire: "orch_inv s \<Longrightarrow> orch_inv (retire_worker env i a s)"
  by (simp add: retire_worker_def Let_def call_eq orch_inv_def tables_intros split: prod.splits)

lemma running_retire [state_simps]: "o_running (retire_worker env i a s) = hdel i (o_running s)"
  by (simp add: retire_worker_def Let_def call_eq split: prod.splits)

lemma inv_schedule:
  "orch_inv s \<Longrightarrow> hget (o_running s) i = None
     \<Longrightarrow> orch_inv (snd (schedule_retry_with_context i ident n kind now err ctx s))"
  by (simp add: schedule_retry_with_context_def Let_def orch_inv_def emit_runtime_event_def
      tables_intros split: option.splits)

lemma inv_completed: "orch_inv (s\<lparr> o_completed := c \<rparr>) = orch_inv s"
  by (simp add: orch_inv_def)

lemma inv_del_attempt: "orch_inv s \<Longrightarrow> orch_inv (s\<lparr> o_retry_attempts := hdel i (o_retry_attempts s) \<rparr>)"
  by (simp add: orch_inv_def tables_intros)

lemma inv_finish_completed:
  "orch_inv s \<Longrightarrow> hget (o_running s) i = None
     \<Longrightarrow> orch_inv (snd (finish_completed env i cont a ctx now s))"
  by (auto simp: finish_completed_def Let_def call_eq inv_completed state_simps case_prod_unfold
      intro!: inv_del_attempt inv_schedule)

lemma running_slack [state_simps]: "o_running (queue_slack_notification env e i t m u s) = o_running s"
  by (simp add: queue_slack_notification_def split: option.splits)

lemma inv_finish_failed:
  "orch_inv s \<Longrightarrow> hget (o_running s) i = None
     \<Longrightarrow> orch_inv (snd (finish_failed env i err a ctx now s))"
  by (auto simp: finish_failed_def Let_def inv_completed state_simps case_prod_unfold
      intro!: inv_schedule)

theorem inv_completion:
  assumes "orch_inv s"
  shows "orch_inv (snd (handle_worker_completion env i completion now s))"
proof -
  let ?s1 = "cancel_pending_escalations_for_issue env i ''worker_exited'' s"
  have "orch_inv (retire_worker env i a ?s1)" for a
    by (intro inv_retire inv_cancel_pending assms)
  then show ?thesis
    by (auto simp: handle_worker_completion_def Let_def inv_complete_released assms inv_cancel_pending
        state_simps split: option.splits worker_completion.splits
        intro!: inv_finish_completed inv_finish_failed)
qed

lemma inv_check_stalled: "orch_inv s \<Longrightarrow> orch_inv (check_stalled_worker env now timeout i s)"
  by (simp add: check_stalled_worker_def Let_def inv_completion split: option.splits)

lemma inv_fold: "(\<And>x s. P s \<Longrightarrow> P (f x s)) \<Longrightarrow> P s \<Longrightarrow> P (fold f xs s)"
  by (induction xs arbitrary: s) auto

lemma inv_detect: "orch_inv s \<Longrightarrow> orch_inv (detect_stalled_workers env now timeout s)"
  unfolding detect_stalled_workers_def by (rule inv_fold [of orch_inv]) (simp_all add: inv_check_stalled)

section \<open>Terminal and released issues\<close>

lemma inv_comment: "orch_inv s \<Longrightarrow> orch_inv (maybe_write_completion_comment env i s)"
  by (simp add: maybe_write_completion_comment_def Let_def call_eq)

lemma inv_terminal_cleanup: "orch_inv s \<Longrightarrow> orch_inv (terminal_cleanup env i hint s)"
  by (simp add: terminal_cleanup_def inv_cleanup_workspace inv_pending_cleanup split: option.splits)

lemma inv_mark_terminal: "orch_inv s \<Longrightarrow> orch_inv (mark_issue_terminal env i hint c s)"
proof -
  assume "orch_inv s"
  then have "orch_inv (terminal_cleanup env i hint
      (cancel_pending_escalations_for_issue env (i_id i) ''issue_terminal'' s))"
    by (intro inv_terminal_cleanup inv_cancel_pending)
  then show ?thesis
    by (simp add: mark_issue_terminal_def Let_def orch_inv_def tables_intros)
qed

lemma inv_release: "orch_inv s \<Longrightarrow> orch_inv (release_issue env i s)"
proof -
  assume "orch_inv s"
  then have "orch_inv (cancel_pending_escalations_for_issue env i ''issue_released'' s)"
    by (rule inv_cancel_pending)
  then show ?thesis
    by (simp add: release_issue_def Let_def orch_inv_def tables_intros)
qed

lemma inv_startup: "orch_inv s \<Longrightarrow> orch_inv (snd (startup_cleanup env s))"
proof -
  assume inv: "orch_inv s"
  have marked: "orch_inv (mark_startup_terminal env ws issues t)" if "orch_inv t" for ws issues t
    using that by (induction issues arbitrary: t) (simp_all add: inv_mark_terminal)
  show ?thesis
    by (simp add: startup_cleanup_def Let_def call_eq inv marked split: sum.splits)
qed

section \<open>Reconciliation\<close>

lemma inv_notify: "orch_inv s \<Longrightarrow> orch_inv (notify_state_change env i s)"
  by (simp add: notify_state_change_def Let_def split: option.splits)

lemma inv_visible:
  "orch_inv s \<Longrightarrow> (\<And>a. ra_issue_id (f a) = ra_issue_id a) \<Longrightarrow>
     orch_inv (s\<lparr> o_running_issue_states := st, o_running_parent_identifiers := ps,
                 o_running := hmodify i f (o_running s) \<rparr>)"
  by (simp add: orch_inv_def tables_intros)

lemma inv_reconcile_issue: "orch_inv s \<Longrightarrow> orch_inv (reconcile_issue env ts as i s)"
  by (simp add: reconcile_issue_def Let_def inv_notify inv_comment inv_mark_terminal inv_release
      inv_visible)

lemma inv_reconcile: "orch_inv s \<Longrightarrow> orch_inv (reconcile_running env s)"
proof -
  assume inv: "orch_inv s"
  have folded: "orch_inv (fold (release_invisible env vis) ids (fold (reconcile_issue env ts as) issues t))"
    if "orch_inv t" for vis ids ts as issues t
    by (intro inv_fold [of orch_inv] that)
      (simp_all add: inv_reconcile_issue release_invisible_def inv_release)
  have cleared: "orch_inv (t\<lparr> o_running_issue_states := a, o_running_parent_identifiers := b \<rparr>) = orch_inv t"
    for t :: "'a orchestrator" and a b by (simp add: orch_inv_def)
  show ?thesis
    by (simp add: reconcile_running_def Let_def call_eq folded cleared inv split: sum.splits)
qed

section \<open>Dispatching\<close>

lemma gate_frame:
  "enforce_agent_review_pr_gate env i p s = (r, t) \<Longrightarrow>
     world_step s t \<and> (\<forall>j. r = Inr (Some j) \<longrightarrow> j = i)"
  by (cases "normalize_issue_state (i_state i) = ''agent review''")
    (auto simp: enforce_agent_review_pr_gate_def Let_def state_simps
      split: prod.splits agent_review_pr_status.splits sum.splits unit.splits dest!: call_result)

text \<open>
  The evidence the gate of an issue in agent review asks for, command by command: the workspace is on a
  named branch, the remote has that branch, and the pull request GitHub shows for it is open, comes from
  the branch, and goes to the configured base branch where there is one.
\<close>

definition open_pull_request :: "'w env \<Rightarrow> string \<Rightarrow> string option \<Rightarrow> 'w \<Rightarrow> bool" where
  "open_pull_request env path base w \<longleftrightarrow>
     (\<exists>o1 w1 o2 w2 o3 w3 pr.
        e_run_command env ''git'' [''branch'', ''--show-current''] path w = (Inr o1, w1) \<and> co_success o1
        \<and> trim (co_stdout o1) \<noteq> [] \<and> trim (co_stdout o1) \<noteq> ''HEAD''
        \<and> e_run_command env ''git''
             [''ls-remote'', ''--exit-code'', ''--heads'', ''origin'', trim (co_stdout o1)] path w1 = (Inr o2, w2)
        \<and> co_success o2
        \<and> e_run_command env ''gh''
             [''pr'', ''view'', ''--json'', ''url,state,headRefName,baseRefName''] path w2 = (Inr o3, w3)
        \<and> co_success o3 \<and> e_parse_pull_request env (co_stdout o3) = Inr pr
        \<and> eq_ignore_ascii_case (pv_state pr) ''OPEN'' \<and> pv_head_ref_name pr = trim (co_stdout o1)
        \<and> (case trimmed_non_empty base of Some b \<Rightarrow> pv_base_ref_name pr = b | None \<Rightarrow> True))"

definition required_base :: "'w orchestrator \<Rightarrow> string option" where
  "required_base s = wc_base_branch (sc_workspace (o_config s))"

lemma required_base_config: "o_config t = o_config s \<Longrightarrow> required_base t = required_base s"
  by (simp add: required_base_def)

lemma check_finds_pull_request:
  "(\<exists>branch url. fst (check_agent_review_pr_status env path base w) = PrValid branch url)
     \<longleftrightarrow> open_pull_request env path base w"
proof -
  obtain c1 w1 where c1: "e_run_command env ''git'' [''branch'', ''--show-current''] path w = (c1, w1)"
    by (cases "e_run_command env ''git'' [''branch'', ''--show-current''] path w")
  show ?thesis
  proof (cases c1)
    case (Inl err)
    then show ?thesis using c1 by (simp add: check_agent_review_pr_status_def open_pull_request_def)
  next
    case (Inr o1)
    let ?b = "trim (co_stdout o1)"
    let ?remote = "[''ls-remote'', ''--exit-code'', ''--heads'', ''origin'', ?b]"
    let ?view = "[''pr'', ''view'', ''--json'', ''url,state,headRefName,baseRefName'']"
    obtain c2 w2 where c2: "e_run_command env ''git'' ?remote path w1 = (c2, w2)"
      by (cases "e_run_command env ''git'' ?remote path w1")
    obtain c3 w3 where c3: "e_run_command env ''gh'' ?view path w2 = (c3, w3)"
      by (cases "e_run_command env ''gh'' ?view path w2")
    show ?thesis
      using c1 c2 c3 Inr
      by (cases c2; cases c3)
        (auto simp: check_agent_review_pr_status_def open_pull_request_def judge_pull_request_def Let_def
          split: sum.splits if_splits option.splits)
  qed
qed

lemma gate_passes_iff:
  assumes "normalize_issue_state (i_state i) = ''agent review''"
  shows "fst (enforce_agent_review_pr_gate env i path s) = Inr (Some j)
    \<longleftrightarrow> j = i \<and> open_pull_request env path (required_base s) (o_world s)"
  using assms check_finds_pull_request [of env path "required_base s" "o_world s"]
  by (auto simp: enforce_agent_review_pr_gate_def required_base_def Let_def call_eq case_prod_unfold
      split: agent_review_pr_status.splits sum.splits unit.splits)

text \<open>The gate was passed at world \<open>w\<close> and nothing has been asked of the world since.\<close>

definition gated_at :: "'w env \<Rightarrow> string \<Rightarrow> string option \<Rightarrow> 'w \<Rightarrow> 'w \<Rightarrow> bool" where
  "gated_at env path base w w' \<longleftrightarrow>
     open_pull_request env path base w \<and> w' = snd (check_agent_review_pr_status env path base w)"

definition review_gated :: "'w env \<Rightarrow> issue \<Rightarrow> string \<Rightarrow> 'w orchestrator \<Rightarrow> bool" where
  "review_gated env i path s \<longleftrightarrow>
     (normalize_issue_state (i_state i) = ''agent review''
        \<longrightarrow> (\<exists>w. gated_at env path (required_base s) w (o_world s)))"

lemma gate_passed:
  assumes "enforce_agent_review_pr_gate env i path s = (Inr (Some j), t)"
  shows "review_gated env j path t"
proof (cases "normalize_issue_state (i_state i) = ''agent review''")
  case True
  have j: "j = i" and open_pr: "open_pull_request env path (required_base s) (o_world s)"
    using gate_passes_iff [OF True, of env path s j] assms by simp_all
  have "t = s\<lparr> o_world := snd (check_agent_review_pr_status env path (required_base s) (o_world s)) \<rparr>"
    using assms True
    by (auto simp: enforce_agent_review_pr_gate_def required_base_def Let_def call_eq case_prod_unfold
        split: agent_review_pr_status.splits sum.splits unit.splits)
  then have "gated_at env path (required_base t) (o_world s) (o_world t)"
    using open_pr by (simp add: gated_at_def required_base_def)
  then show ?thesis by (auto simp: review_gated_def)
next
  case False
  then have "j = i" using assms by (simp add: enforce_agent_review_pr_gate_def)
  then show ?thesis using False by (simp add: review_gated_def)
qed

lemma prepare_frame:
  "prepare_workspace_for_active_dispatch env i policy s = (r, t) \<Longrightarrow> world_step s t"
  by (auto simp: prepare_workspace_for_active_dispatch_def split: prod.splits sum.splits
      dest!: world_step_call intro: world_step_trans)

lemma scheduled_run_id [simp]: "ra_issue_id (scheduled_run s i attempt p h now) = i_id i"
  by (simp add: scheduled_run_def)

lemma inv_dispatch: "orch_inv s \<Longrightarrow> orch_inv (dispatch_issue env i attempt p h s)"
  by (simp add: dispatch_issue_def Let_def call_eq case_prod_unfold orch_inv_def
      ensure_worker_session_info_def tables_intros)

text \<open>What one candidate can lead to.\<close>

lemma dispatch_candidate_cases:
  assumes "dispatch_candidate env blocked c s = (r, t)"
  obtains (skipped) "world_step s t" "\<And>d. r \<noteq> Inr (Some d)"
  | (dispatched) s' d p where "world_step s s'" "r = Inr (Some d)"
      "should_dispatch_issue env s c" "i_id c \<notin> blocked"
      "should_dispatch_issue env s' (di_issue d)" "di_attempt d = None"
      "select_host s' None \<noteq> SelNoneAvailable"
      "di_worker_host d = selected_host (select_host s' None)"
      "t = dispatch_issue env (di_issue d) None (Some p) (di_worker_host d) s'"
      "fst (e_refresh_issue env (i_id c) (o_world s)) = Inr (Some (di_issue d))"
      "review_gated env (di_issue d) p s'"
proof (cases "should_dispatch_issue env s c \<and> i_id c \<notin> blocked")
  case False
  then have same: "t = s \<and> (\<forall>d. r \<noteq> Inr (Some d))"
    using assms by (auto simp: dispatch_candidate_def split: if_splits)
  show thesis by (rule skipped) (use same in auto)
next
  case True
  obtain fetched s1 where f: "call (e_refresh_issue env (i_id c)) s = (fetched, s1)"
    by (cases "call (e_refresh_issue env (i_id c)) s")
  note w1 = world_step_call [OF f]
  show thesis
  proof (cases "\<exists>i. fetched = Inr (Some i)")
    case False
    then have same: "t = s1" "\<And>d. r \<noteq> Inr (Some d)"
      using assms True f by (auto simp: dispatch_candidate_def split: sum.splits option.splits)
    show thesis by (rule skipped) (use w1 same in simp_all)
  next
    case fetched: True
    then obtain i where i: "fetched = Inr (Some i)" by blast
    let ?policy = "workspace_refresh_policy_for_dispatch i None"
    obtain prep s2 where p: "prepare_workspace_for_active_dispatch env i ?policy s1 = (prep, s2)"
      by (cases "prepare_workspace_for_active_dispatch env i ?policy s1")
    have w2: "world_step s s2" using w1 prepare_frame [OF p] by (rule world_step_trans)
    show thesis
    proof (cases prep)
      case None
      then have same: "t = s2 \<and> r = Inr None"
        using assms True f i p by (simp add: dispatch_candidate_def Let_def)
      show thesis by (rule skipped) (use w2 same in simp_all)
    next
      case (Some prepared)
      obtain path ctx where prepared: "prepared = (path, ctx)" by (cases prepared)
      obtain verdict s3 where g: "enforce_agent_review_pr_gate env i path s2 = (verdict, s3)"
        by (cases "enforce_agent_review_pr_gate env i path s2")
      have w3: "world_step s s3" using w2 conjunct1 [OF gate_frame [OF g]] by (rule world_step_trans)
      have eq: "dispatch_candidate env blocked c s =
          (case (verdict, s3) of
             (Inl err, s3) \<Rightarrow> (Inl err, s3)
           | (Inr None, s3) \<Rightarrow> (Inr None, s3)
           | (Inr (Some i), s3) \<Rightarrow>
               if \<not> should_dispatch_issue env s3 i then (Inr None, s3)
               else (let selection = select_host s3 None in
                     if selection = SelNoneAvailable then (Inr None, s3)
                     else (Inr (Some \<lparr> di_issue = i, di_attempt = None,
                                       di_worker_host = selected_host selection,
                                       di_refresh_policy = ?policy,
                                       di_status_context = ctx \<rparr>),
                           dispatch_issue env i None (Some path) (selected_host selection) s3)))"
        using True f i p Some prepared g by (simp add: dispatch_candidate_def Let_def)
      show thesis
      proof (cases "verdict = Inr (Some i) \<and> should_dispatch_issue env s3 i
                      \<and> select_host s3 None \<noteq> SelNoneAvailable")
        case False
        have same: "t = s3 \<and> (\<forall>d. r \<noteq> Inr (Some d))"
          using assms eq False gate_frame [OF g]
          by (auto simp: Let_def split: sum.splits option.splits if_splits)
        show thesis by (rule skipped) (use w3 same in simp_all)
      next
        case go: True
        let ?d = "\<lparr> di_issue = i, di_attempt = None,
            di_worker_host = selected_host (select_host s3 None),
            di_refresh_policy = ?policy, di_status_context = ctx \<rparr>"
        have "r = Inr (Some ?d)
            \<and> t = dispatch_issue env (di_issue ?d) None (Some path) (di_worker_host ?d) s3"
          using assms eq go by (simp add: Let_def)
        then show thesis
          using True go f i gate_passed [of env i path s2 i s3] g
          by (intro dispatched [OF w3, of ?d path]) (simp_all add: call_eq)
      qed
    qed
  qed
qed

lemma inv_dispatch_candidate:
  assumes "orch_inv s"
  shows "orch_inv (snd (dispatch_candidate env blocked c s))"
proof -
  obtain r t where r: "dispatch_candidate env blocked c s = (r, t)"
    by (cases "dispatch_candidate env blocked c s")
  then have "orch_inv t"
    by (cases rule: dispatch_candidate_cases) (auto simp: assms world_step_inv intro!: inv_dispatch)
  then show ?thesis by (simp add: r)
qed

lemma inv_dispatch_candidates: "orch_inv s \<Longrightarrow> orch_inv (snd (dispatch_candidates env blocked cs s))"
proof (induction cs arbitrary: s)
  case (Cons c cs)
  have "orch_inv (snd (dispatch_candidate env blocked c s))"
    using Cons.prems by (rule inv_dispatch_candidate)
  then have "orch_inv (snd (dispatch_candidates env blocked cs (snd (dispatch_candidate env blocked c s))))"
    "orch_inv (snd (dispatch_candidate env blocked c s))"
    by (simp_all add: Cons.IH)
  then show ?case
    using Cons.prems by (auto split: prod.splits sum.splits)
qed simp

lemma inv_refresh: "orch_inv s \<Longrightarrow> orch_inv (refresh_runtime_config env s)"
  by (simp add: refresh_runtime_config_def Let_def orch_inv_def store_ok_settings split: option.splits)

lemma inv_store:
  "orch_inv s \<Longrightarrow> store_ok st \<Longrightarrow> orch_inv (s\<lparr> o_shared_context_store := st \<rparr>)"
  by (simp add: orch_inv_def)

lemma inv_begin: "orch_inv s \<Longrightarrow> orch_inv (begin_tick env refresh s)"
proof -
  have poll: "orch_inv (t\<lparr> o_poll_count := n, o_last_poll_at := p, o_blocked_issues := b \<rparr>) = orch_inv t"
    for t :: "'a orchestrator" and n p b by (simp add: orch_inv_def)
  have prune: "orch_inv t \<Longrightarrow> orch_inv (t\<lparr> o_world := w, o_shared_context_store :=
      snd (prune_expired_entries_at now (o_shared_context_store t)) \<rparr>)"
    for t :: "'a orchestrator" and w now by (simp add: orch_inv_def store_ok_prune)
  show "orch_inv s \<Longrightarrow> orch_inv (begin_tick env refresh s)"
    by (simp add: begin_tick_def Let_def call_eq case_prod_unfold prune poll inv_refresh)
qed

lemma inv_blocked: "orch_inv (s\<lparr> o_blocked_issues := b \<rparr>) = orch_inv s"
  by (simp add: orch_inv_def)

lemma inv_dispatch_phase:
  assumes "orch_inv s"
  shows "orch_inv (snd (dispatch_phase env s))"
proof -
  have "orch_inv (snd (dispatch_candidates env blocked cs t))" if "world_step (emit_runtime_event EvDispatch s) t"
    for blocked cs t
    using that assms by (intro inv_dispatch_candidates) (simp add: world_step_inv)
  then show ?thesis
    using assms
    by (auto simp: dispatch_phase_def Let_def inv_blocked world_step_inv
        split: prod.splits sum.splits dest!: world_step_call) (metis snd_conv)+
qed

theorem inv_tick: "orch_inv s \<Longrightarrow> orch_inv (snd (tick_with_refresh env refresh s))"
proof -
  assume "orch_inv s"
  then have reconciled: "orch_inv (reconcile_running env (emit_runtime_event EvReconcile (begin_tick env refresh s)))"
    by (intro inv_reconcile) (simp add: inv_begin)
  let ?s2 = "emit_runtime_event EvValidate
      (reconcile_running env (emit_runtime_event EvReconcile (begin_tick env refresh s)))"
  obtain v s3 where c: "call (e_validate_dispatch_preflight env (o_config ?s2)) ?s2 = (v, s3)"
    by (cases "call (e_validate_dispatch_preflight env (o_config ?s2)) ?s2")
  have "orch_inv s3"
    using world_step_inv [OF world_step_call [OF c]] reconciled by simp
  then show ?thesis
    using c reconciled
    by (cases v)
      (simp_all add: tick_with_refresh_def Let_def inv_dispatch_phase split: sum.splits unit.splits)
qed

section \<open>Retries\<close>

lemma inv_fire: "orch_inv s \<Longrightarrow> orch_inv (snd (fire_retry i token s))"
  by (auto simp: fire_retry_def split: option.splits)
    (simp add: orch_inv_def tables_intros)

text \<open>An issue whose retry fired is not running.\<close>

lemma fired_not_running:
  "orch_inv s \<Longrightarrow> fire_retry i token s = (True, t) \<Longrightarrow> hget (o_running t) i = None"
  by (auto simp: fire_retry_def orch_inv_def retries_ok_def hmember_def split: option.splits if_splits)

lemma inv_reschedule:
  "orch_inv s \<Longrightarrow> hget (o_running s) i = None \<Longrightarrow> orch_inv (reschedule_failure r ctx now i ident err s)"
  by (simp add: reschedule_failure_def inv_schedule)

lemma inv_retry_hidden:
  "orch_inv s \<Longrightarrow> hget (o_running s) (re_issue_id r) = None
     \<Longrightarrow> orch_inv (retry_hidden_issue env r ctx now s)"
  by (auto simp: retry_hidden_issue_def world_step_inv world_step_fields
      split: prod.splits sum.splits option.splits
      dest!: world_step_call intro!: inv_reschedule inv_mark_terminal inv_comment inv_release)

lemma inv_retry_dispatch:
  "orch_inv s \<Longrightarrow> hget (o_running s) (i_id i) = None
     \<Longrightarrow> orch_inv (snd (retry_dispatch env r ctx now policy p st i s))"
  by (auto simp: retry_dispatch_def Let_def intro!: inv_reschedule inv_mark_terminal inv_comment
      inv_release inv_schedule inv_dispatch)

lemma inv_retry_visible:
  assumes inv: "orch_inv s" and idle: "hget (o_running s) (i_id i) = None"
  shows "orch_inv (snd (retry_visible_issue env r ctx now i s))"
proof -
  let ?policy = "workspace_refresh_policy_for_dispatch i (Some (re_attempt r))"
  obtain prep s1 where p: "prepare_workspace_for_active_dispatch env i ?policy s = (prep, s1)"
    by (cases "prepare_workspace_for_active_dispatch env i ?policy s")
  note w1 = prepare_frame [OF p]
  show ?thesis
  proof (cases prep)
    case None
    then show ?thesis using p inv w1 by (simp add: retry_visible_issue_def Let_def world_step_inv)
  next
    case (Some prepared)
    obtain path ctx' where prepared: "prepared = (path, ctx')" by (cases prepared)
    obtain verdict s2 where g: "enforce_agent_review_pr_gate env i path s1 = (verdict, s2)"
      by (cases "enforce_agent_review_pr_gate env i path s1")
    have w: "world_step s s2" using w1 conjunct1 [OF gate_frame [OF g]] by (rule world_step_trans)
    have after: "orch_inv s2" "hget (o_running s2) (i_id i) = None"
      using w inv idle by (simp_all add: world_step_inv world_step_fields)
    show ?thesis
    proof (cases "verdict = Inr (Some i)")
      case True
      then show ?thesis
        using p Some prepared g after by (simp add: retry_visible_issue_def Let_def inv_retry_dispatch)
    next
      case False
      then have "\<forall>j. verdict \<noteq> Inr (Some j)"
        using conjunct2 [OF gate_frame [OF g]] by metis
      then show ?thesis
        using p Some prepared g after
        by (simp add: retry_visible_issue_def Let_def split: sum.splits option.splits)
    qed
  qed
qed

lemma find_candidate: "find (\<lambda>i. i_id i = k) cs = Some i \<Longrightarrow> i_id i = k"
  by (auto simp: find_Some_iff)

lemma inv_retry_fired:
  assumes inv: "orch_inv s" and idle: "hget (o_running s) (re_issue_id r) = None"
  shows "orch_inv (snd (retry_fired env r now s))"
proof -
  obtain fetched s1 where f: "call (e_fetch_candidate_issues env) s = (fetched, s1)"
    by (cases "call (e_fetch_candidate_issues env) s")
  have "orch_inv s1" "o_running s1 = o_running s"
    using world_step_call [OF f] inv by (simp_all add: world_step_inv world_step_fields)
  then have visible: "orch_inv (snd (retry_visible_issue env r ctx now i s1))"
    if "find (\<lambda>i. i_id i = re_issue_id r) cs = Some i" for cs i ctx
    using find_candidate [OF that] idle by (intro inv_retry_visible) simp_all
  let ?ctx = "\<lparr> rx_worker_host = re_worker_host r, rx_workspace_path = re_workspace_path r,
      rx_session_id = hget (o_worker_session_ids s) (re_issue_id r) \<rparr>"
  have idle1: "hget (o_running s1) (re_issue_id r) = None"
    using idle \<open>o_running s1 = o_running s\<close> by simp
  show ?thesis
  proof (cases fetched)
    case (Inl err)
    then show ?thesis
      using f idle1 \<open>orch_inv s1\<close> by (simp add: retry_fired_def Let_def inv_reschedule)
  next
    case (Inr cs)
    show ?thesis
    proof (cases "find (\<lambda>i. i_id i = re_issue_id r) cs")
      case None
      then show ?thesis
        using f Inr idle1 \<open>orch_inv s1\<close> by (simp add: retry_fired_def Let_def inv_retry_hidden)
    next
      case (Some i)
      then show ?thesis
        using f Inr visible [OF Some, of ?ctx] by (simp add: retry_fired_def Let_def)
    qed
  qed
qed

lemma inv_process_retry: "orch_inv s \<Longrightarrow> orch_inv (snd (process_retry env now r s))"
proof -
  assume inv: "orch_inv s"
  have "orch_inv (snd (fire_retry i token s))" for i token using inv by (rule inv_fire)
  then show ?thesis
    using inv fired_not_running [OF inv]
    by (auto simp: process_retry_def Let_def split: prod.splits option.splits intro!: inv_retry_fired)
      (metis snd_conv)+
qed

theorem inv_retries: "orch_inv s \<Longrightarrow> orch_inv (snd (process_due_retries env now s))"
proof -
  have "orch_inv t \<Longrightarrow> orch_inv (snd (process_retries env now rs t))" for rs and t :: "'a orchestrator"
  proof (induction rs arbitrary: t)
    case (Cons r rs)
    then show ?case
      using inv_process_retry [OF Cons.prems, of env now r] by (auto simp: case_prod_unfold Let_def)
  qed simp
  then show "orch_inv s \<Longrightarrow> orch_inv (snd (process_due_retries env now s))"
    by (simp add: process_due_retries_def)
qed

section \<open>The running program\<close>

lemma inv_steer_channel: "orch_inv s \<Longrightarrow> orch_inv (snd (open_steer_channel env i s))"
  by (simp add: open_steer_channel_def Let_def call_eq orch_inv_def)

lemma inv_transition: "orch_inv s \<Longrightarrow> orch_inv (snd (transition_on_dispatch env i s))"
  by (auto simp: transition_on_dispatch_def world_step_inv
      split: prod.splits sum.splits unit.splits dest!: world_step_call)

lemma inv_context_block: "orch_inv s \<Longrightarrow> orch_inv (snd (build_shared_context_block_for_issue env i s))"
proof -
  assume inv: "orch_inv s"
  have stored: "orch_inv (s\<lparr> o_shared_context_store := snd (read_entries now scopes
      (o_shared_context_store s)) \<rparr>)" "orch_inv (s\<lparr> o_world := w, o_shared_context_store :=
      snd (read_entries now scopes (o_shared_context_store s)) \<rparr>)" for w now scopes
    using inv by (simp_all add: orch_inv_def store_ok_read)
  show ?thesis
    by (simp add: build_shared_context_block_for_issue_def Let_def call_eq case_prod_unfold stored)
qed

lemma inv_spawn: "orch_inv s \<Longrightarrow> orch_inv (spawn_worker env d s)"
proof -
  assume inv: "orch_inv s"
  have states: "orch_inv (t\<lparr> o_running_issue_states := st \<rparr>) = orch_inv t"
    for t :: "'a orchestrator" and st by (simp add: orch_inv_def)
  have run: "orch_inv t \<Longrightarrow> (\<And>a. ra_issue_id (f a) = ra_issue_id a) \<Longrightarrow> orch_inv (modify_run i f t)"
    for t :: "'a orchestrator" and i f by (simp add: modify_run_def inv_modify_run)
  show ?thesis
    by (simp add: spawn_worker_def Let_def case_prod_unfold states run inv inv_transition
        inv_steer_channel inv_context_block)
qed

lemma inv_spawn_all: "orch_inv s \<Longrightarrow> orch_inv (spawn_workers_for_dispatched env ds s)"
  unfolding spawn_workers_for_dispatched_def by (rule inv_fold [of orch_inv]) (simp_all add: inv_spawn)

lemma inv_drain: "orch_inv s \<Longrightarrow> orch_inv (drain_ready_worker_events env evs s)"
  unfolding drain_ready_worker_events_def
  by (rule inv_fold [of orch_inv]) (simp_all add: inv_ingest split: prod.splits)

lemma inv_result: "orch_inv s \<Longrightarrow> orch_inv (handle_worker_result env res s)"
proof -
  assume "orch_inv s"
  then have "orch_inv (fold (ingest_agent_event env (wr_issue_id res)) (wr_events res) s)"
    by (intro inv_fold [of orch_inv]) (simp_all add: inv_ingest)
  then show ?thesis
    by (simp add: handle_worker_result_def Let_def call_eq case_prod_unfold inv_completion)
qed

lemma inv_escalation: "orch_inv s \<Longrightarrow> orch_inv (handle_escalation_dispatch request tx s)"
  by (simp add: handle_escalation_dispatch_def Let_def orch_inv_def registry_ok_register)

lemma inv_steer: "orch_inv s \<Longrightarrow> orch_inv (snd (handle_steer_dispatch env ident instruction s))"
proof -
  have tx: "orch_inv (t\<lparr> o_worker_steer_tx := m \<rparr>) = orch_inv t" for t :: "'a orchestrator" and m
    by (simp add: orch_inv_def)
  have sent: "orch_inv t \<Longrightarrow> orch_inv (snd (send_follow_up env i c ch instr t))"
    for t :: "'a orchestrator" and i c ch instr
    by (simp add: send_follow_up_def call_eq tx split: follow_up.splits)
  have "orch_inv t \<Longrightarrow> orch_inv (snd (steer_running_issue env i instr t))"
    for t :: "'a orchestrator" and i instr
    by (simp add: steer_running_issue_def sent split: option.splits prod.splits)
  then show "orch_inv s \<Longrightarrow> orch_inv (snd (handle_steer_dispatch env ident instruction s))"
    by (simp add: handle_steer_dispatch_def Let_def case_prod_unfold)
qed

lemma inv_poll: "orch_inv s \<Longrightarrow> orch_inv (poll_cycle env s)"
proof -
  assume inv: "orch_inv s"
  have spawned: "orch_inv (case fst (tick_with_refresh env False t) of
      Inl err \<Rightarrow> snd (tick_with_refresh env False t)
    | Inr res \<Rightarrow> spawn_workers_for_dispatched env (ds res) (snd (tick_with_refresh env False t)))"
    if "orch_inv t" for t ds
    using inv_tick [OF that] by (simp add: inv_spawn_all split: sum.splits)
  show ?thesis
    unfolding poll_cycle_def Let_def call_eq case_prod_unfold fst_conv snd_conv
    by (intro inv_spawn_all inv_retries)
      (simp only: orch_inv_world, intro spawned, simp add: inv_detect inv_refresh inv)
qed

lemma inv_step: "orchestrator_step env s t \<Longrightarrow> orch_inv s \<Longrightarrow> orch_inv t"
proof (induction rule: orchestrator_step.induct)
  case (step_resolve s send request_id response)
  then show ?case by (intro inv_registry) (simp_all add: orch_inv_def registry_ok_resolve)
qed (simp_all add: inv_poll inv_drain inv_escalation inv_steer inv_result inv_store store_ok_intros,
  auto simp: orch_inv_def intro!: store_ok_intros)

text \<open>Every state of a running program keeps the promise.\<close>

lemma reachable_inv: "orchestrator_reachable env s \<Longrightarrow> orch_inv s"
proof (induction rule: orchestrator_reachable.induct)
  case (reach_start config template port w s)
  then show ?case
    using inv_startup [OF orch_inv_new, of env config template port w] by simp
next
  case (reach_step s t)
  then show ?case using inv_step by blast
qed

end
