(* ===== verification/DispatchFacts.thy ===== *)
theory DispatchFacts
  imports SchedulingPreserved
begin

text \<open>
  What a dispatch pass may do, as a small specification: \<open>dispatches s ds t\<close> relates the
  state before and after to the list of dispatched issues. The pass of the code refines it,
  and the facts about slots, hosts and double dispatch are proved on the specification.
\<close>

section \<open>One dispatch\<close>

definition issue_run :: "string option \<Rightarrow> nat option \<Rightarrow> issue \<Rightarrow> run_attempt \<Rightarrow> bool" where
  "issue_run host attempt i a \<longleftrightarrow>
     ra_issue_id a = i_id i \<and> ra_issue_identifier a = i_identifier i \<and> ra_attempt a = attempt
     \<and> ra_worker_host a = host \<and> ra_tracker_state a = Some (i_state i) \<and> ra_status a = ''scheduled''"

lemma dispatch_running:
  "\<exists>a. o_running (dispatch_issue env i attempt p h s) = hput (i_id i) a (o_running s)
     \<and> issue_run h attempt i a"
proof -
  let ?s1 = "s\<lparr> o_world := snd (e_now env (o_world s)) \<rparr>"
  let ?a = "scheduled_run ?s1 i attempt p h (fst (e_now env (o_world s)))"
  have "o_running (dispatch_issue env i attempt p h s) = hput (i_id i) ?a (o_running s)"
    by (simp add: dispatch_issue_def Let_def call_eq case_prod_unfold ensure_worker_session_info_def)
  moreover have "issue_run h attempt i ?a"
    by (simp add: issue_run_def scheduled_run_def)
  ultimately show ?thesis by blast
qed

lemma dispatch_fields [state_simps]:
  "o_config (dispatch_issue env i attempt p h s) = o_config s"
  "o_max_concurrent_agents (dispatch_issue env i attempt p h s) = o_max_concurrent_agents s"
  "o_claimed (dispatch_issue env i attempt p h s) = insert (i_id i) (o_claimed s)"
  "o_retry_attempts (dispatch_issue env i attempt p h s) = hdel (i_id i) (o_retry_attempts s)"
  "o_retry_tokens (dispatch_issue env i attempt p h s) = o_retry_tokens s"
  by (simp_all add: dispatch_issue_def Let_def call_eq case_prod_unfold ensure_worker_session_info_def)

lemma should_dispatch_iff:
  "should_dispatch_issue env s i \<longleftrightarrow>
     issue_has_required_fields i \<and> i_assigned_to_worker i
     \<and> normalize_issue_state (i_state i) \<notin> terminal_state_set s
     \<and> normalize_issue_state (i_state i) \<in> active_state_set s
     \<and> i_parent_identifier i = None \<and> \<not> issue_has_excluded_label s i
     \<and> \<not> issue_blocked_by_pending_automatic_publication env s i
     \<and> i_id i \<notin> o_claimed s \<and> hget (o_running s) (i_id i) = None \<and> 0 < available_slots s"
  by (auto simp: should_dispatch_issue_def hmember_def)

section \<open>The specification of a pass\<close>

inductive dispatches ::
  "'w env \<Rightarrow> 'w orchestrator \<Rightarrow> dispatched_issue list \<Rightarrow> 'w orchestrator \<Rightarrow> bool" for env where
  dispatches_none: "world_step s t \<Longrightarrow> dispatches env s [] t"
| dispatches_one: "world_step s s1 \<Longrightarrow> should_dispatch_issue env s1 (di_issue d)
     \<Longrightarrow> di_attempt d = None \<Longrightarrow> select_host s1 None \<noteq> SelNoneAvailable
     \<Longrightarrow> di_worker_host d = selected_host (select_host s1 None)
     \<Longrightarrow> review_gated env (di_issue d) p s1
     \<Longrightarrow> dispatches env (dispatch_issue env (di_issue d) None (Some p) (di_worker_host d) s1) ds t
     \<Longrightarrow> dispatches env s (d # ds) t"

inductive_cases dispatches_consE: "dispatches env s (d # ds) t"

lemma dispatches_world: "world_step s s1 \<Longrightarrow> dispatches env s1 ds t \<Longrightarrow> dispatches env s ds t"
  by (erule dispatches.cases) (auto intro: dispatches.intros world_step_trans)

lemma dispatch_candidates_refine:
  "dispatch_candidates env blocked cs s = (r, t) \<Longrightarrow>
     \<exists>ds. dispatches env s ds t \<and> (\<forall>ds'. r = Inr ds' \<longrightarrow> ds' = ds)"
proof (induction cs arbitrary: s r t)
  case Nil
  then show ?case by (auto intro!: exI [of _ "[]"] dispatches_none)
next
  case (Cons c cs)
  obtain step s1 where c: "dispatch_candidate env blocked c s = (step, s1)"
    by (cases "dispatch_candidate env blocked c s")
  obtain r' t' where rest: "dispatch_candidates env blocked cs s1 = (r', t')"
    by (cases "dispatch_candidates env blocked cs s1")
  from Cons.IH [OF rest] obtain ds where ds: "dispatches env s1 ds t'" "\<forall>ds'. r' = Inr ds' \<longrightarrow> ds' = ds"
    by blast
  show ?case
  proof (cases "available_slots s = 0")
    case True
    then show ?thesis using Cons.prems by (auto intro!: exI [of _ "[]"] dispatches_none)
  next
    case slots: False
    from c show ?thesis
    proof (cases rule: dispatch_candidate_cases)
      case skipped
      show ?thesis
      proof (cases step)
        case (Inl err)
        then show ?thesis
          using Cons.prems slots c skipped(1) by (auto intro!: exI [of _ "[]"] dispatches_none)
      next
        case (Inr found)
        then have "found = None" using skipped(2) by (cases found) auto
        then have "t = t' \<and> (\<forall>ds'. r = Inr ds' \<longrightarrow> r' = Inr ds')"
          using Cons.prems slots c rest Inr by (auto split: sum.splits)
        then show ?thesis using ds dispatches_world [OF skipped(1)] by blast
      qed
    next
      case (dispatched s' d p)
      have "dispatches env s (d # ds) t'"
        by (rule dispatches_one [OF dispatched(1,5,6,7,8,11)]) (use dispatched(9) ds(1) in simp)
      moreover have "t = t' \<and> (\<forall>ds'. r = Inr ds' \<longrightarrow> (\<exists>ds''. r' = Inr ds'' \<and> ds' = d # ds''))"
        using Cons.prems slots c rest dispatched(2) by (auto split: sum.splits)
      ultimately show ?thesis using ds(2) by blast
    qed
  qed
qed

text \<open>Where the tracker answers a refresh with the issue asked for, no blocked id is dispatched.\<close>

definition refresh_faithful :: "'w env \<Rightarrow> bool" where
  "refresh_faithful env \<longleftrightarrow>
     (\<forall>k w i. fst (e_refresh_issue env k w) = Inr (Some i) \<longrightarrow> i_id i = k)"

lemma dispatch_candidates_unblocked:
  assumes "refresh_faithful env"
  shows "dispatch_candidates env blocked cs s = (Inr ds, t) \<Longrightarrow> d \<in> set ds
     \<Longrightarrow> i_id (di_issue d) \<in> i_id ` set cs - blocked"
proof (induction cs arbitrary: s ds)
  case (Cons c cs)
  obtain step s1 where c: "dispatch_candidate env blocked c s = (step, s1)"
    by (cases "dispatch_candidate env blocked c s")
  have slots: "available_slots s \<noteq> 0" using Cons.prems by (auto split: if_splits)
  then obtain found ds' where step: "step = Inr found"
    and rest: "dispatch_candidates env blocked cs s1 = (Inr ds', t)"
    and ds: "ds = (case found of Some d \<Rightarrow> [d] | None \<Rightarrow> []) @ ds'"
    using Cons.prems(1) c by (auto split: sum.splits prod.splits)
  have first: "i_id (di_issue x) = i_id c \<and> i_id c \<notin> blocked" if "found = Some x" for x
    using c
  proof (cases rule: dispatch_candidate_cases)
    case skipped
    then show ?thesis using step that skipped(2) [of x] by simp
  next
    case (dispatched s' d p)
    then show ?thesis using step that assms by (auto simp: refresh_faithful_def)
  qed
  consider "found = Some d" | "d \<in> set ds'" using Cons.prems(2) ds by (auto split: option.splits)
  then show ?case
    using first Cons.IH [OF rest] by cases auto
qed simp

section \<open>No double dispatch\<close>

lemma dispatches_running:
  "dispatches env s ds t \<Longrightarrow>
     distinct (map (\<lambda>d. i_id (di_issue d)) ds)
     \<and> (\<forall>d \<in> set ds. hget (o_running s) (i_id (di_issue d)) = None \<and> di_attempt d = None
           \<and> (\<exists>a. hget (o_running t) (i_id (di_issue d)) = Some a
                 \<and> issue_run (di_worker_host d) None (di_issue d) a))
     \<and> (\<forall>i. i \<notin> (\<lambda>d. i_id (di_issue d)) ` set ds \<longrightarrow> hget (o_running t) i = hget (o_running s) i)"
proof (induction rule: dispatches.induct)
  case (dispatches_none s t)
  then show ?case by (simp add: world_step_fields)
next
  case (dispatches_one s s1 d p ds t)
  let ?i = "i_id (di_issue d)"
  obtain a where a: "o_running (dispatch_issue env (di_issue d) None (Some p) (di_worker_host d) s1)
      = hput ?i a (o_running s1)" "issue_run (di_worker_host d) None (di_issue d) a"
    using dispatch_running by blast
  have before: "o_running s1 = o_running s" "hget (o_running s) ?i = None"
    using dispatches_one.hyps(1,2) by (auto simp: should_dispatch_iff world_step_fields)
  have fresh: "?i \<notin> (\<lambda>d. i_id (di_issue d)) ` set ds"
    using dispatches_one.IH a(1) by (force split: if_splits)
  have "hget (o_running t) ?i = Some a"
    using dispatches_one.IH fresh a(1) by simp
  then show ?case
    using dispatches_one.IH dispatches_one.hyps(3) a before fresh
    by (auto split: if_splits)
qed

lemma dispatches_length:
  "dispatches env s ds t \<Longrightarrow> hlen (o_running s) < 2 ^ 32 \<Longrightarrow> o_max_concurrent_agents s \<le> u32_max
     \<Longrightarrow> hlen (o_running t) = hlen (o_running s) + length ds \<and> length ds \<le> available_slots s
       \<and> o_max_concurrent_agents t = o_max_concurrent_agents s"
proof (induction rule: dispatches.induct)
  case (dispatches_none s t)
  then show ?case by (simp add: world_step_fields)
next
  case (dispatches_one s s1 d p ds t)
  let ?i = "i_id (di_issue d)"
  let ?s2 = "dispatch_issue env (di_issue d) None (Some p) (di_worker_host d) s1"
  obtain a where a: "o_running ?s2 = hput ?i a (o_running s1)"
    using dispatch_running by blast
  have w: "o_running s1 = o_running s" "o_max_concurrent_agents s1 = o_max_concurrent_agents s"
    using dispatches_one.hyps(1) by (simp_all add: world_step_fields)
  have go: "hget (o_running s) ?i = None" "hlen (o_running s) < o_max_concurrent_agents s"
    using dispatches_one.hyps(2) dispatches_one.prems w
    by (auto simp: should_dispatch_iff available_slots_def)
  then have len: "hlen (o_running ?s2) = Suc (hlen (o_running s))"
    using a w by (simp add: hlen_put)
  have "hlen (o_running ?s2) < 2 ^ 32"
    using len go dispatches_one.prems by (simp add: u32_max_def)
  then have "hlen (o_running t) = hlen (o_running ?s2) + length ds \<and> length ds \<le> available_slots ?s2
      \<and> o_max_concurrent_agents t = o_max_concurrent_agents ?s2"
    using dispatches_one.prems w by (intro dispatches_one.IH) (simp_all add: state_simps)
  then show ?case
    using len w go dispatches_one.prems \<open>hlen (o_running ?s2) < 2 ^ 32\<close>
    by (auto simp: available_slots_def state_simps)
qed

section \<open>The agent-review gate\<close>

text \<open>The attempt of a dispatched issue in agent review: the evidence was there in its workspace, and
  the clock reading that dates the attempt is the next thing asked of the world.\<close>

definition started_on_evidence :: "'w env \<Rightarrow> string option \<Rightarrow> run_attempt \<Rightarrow> bool" where
  "started_on_evidence env base a \<longleftrightarrow>
     (\<exists>w w'. gated_at env (ra_workspace_path a) base w w' \<and> ra_started_at a = fst (e_now env w'))"

lemma dispatch_on_evidence:
  assumes "review_gated env i p s" "normalize_issue_state (i_state i) = ''agent review''"
  shows "\<exists>a. o_running (dispatch_issue env i attempt (Some p) h s) = hput (i_id i) a (o_running s)
     \<and> issue_run h attempt i a \<and> started_on_evidence env (required_base s) a"
proof -
  let ?s1 = "s\<lparr> o_world := snd (e_now env (o_world s)) \<rparr>"
  let ?a = "scheduled_run ?s1 i attempt (Some p) h (fst (e_now env (o_world s)))"
  have "o_running (dispatch_issue env i attempt (Some p) h s) = hput (i_id i) ?a (o_running s)"
    by (simp add: dispatch_issue_def Let_def call_eq case_prod_unfold ensure_worker_session_info_def)
  moreover have "issue_run h attempt i ?a" by (simp add: issue_run_def scheduled_run_def)
  moreover have "started_on_evidence env (required_base s) ?a"
    using assms by (auto simp: started_on_evidence_def review_gated_def scheduled_run_def)
  ultimately show ?thesis by blast
qed

lemma dispatches_on_evidence:
  "dispatches env s ds t \<Longrightarrow> d \<in> set ds \<Longrightarrow> normalize_issue_state (i_state (di_issue d)) = ''agent review''
     \<Longrightarrow> \<exists>a. hget (o_running t) (i_id (di_issue d)) = Some a \<and> started_on_evidence env (required_base s) a"
proof (induction rule: dispatches.induct)
  case (dispatches_one s s1 d' p ds t)
  let ?s2 = "dispatch_issue env (di_issue d') None (Some p) (di_worker_host d') s1"
  have base: "required_base s1 = required_base s" "required_base ?s2 = required_base s"
    using dispatches_one.hyps(1) by (simp_all add: required_base_def world_step_fields state_simps)
  show ?case
  proof (cases "d \<in> set ds")
    case True
    then show ?thesis using dispatches_one.IH dispatches_one.prems(2) base by simp
  next
    case False
    then have d: "d = d'" using dispatches_one.prems(1) by simp
    obtain a where a: "o_running ?s2 = hput (i_id (di_issue d)) a (o_running s1)"
      "started_on_evidence env (required_base s) a"
      using dispatch_on_evidence [OF dispatches_one.hyps(6), of None "di_worker_host d'"]
        dispatches_one.prems(2) base d by auto
    have "i_id (di_issue d) \<notin> (\<lambda>d. i_id (di_issue d)) ` set ds"
      using dispatches_running [OF dispatches_one.hyps(7)] a(1) by (force split: if_splits)
    then have "hget (o_running t) (i_id (di_issue d)) = Some a"
      using dispatches_running [OF dispatches_one.hyps(7)] a(1) by simp
    then show ?thesis using a(2) by blast
  qed
qed simp

section \<open>Hosts\<close>

definition host_count :: "string \<Rightarrow> run_attempt list \<Rightarrow> nat" where
  "host_count h attempts = length (filter (\<lambda>a. ra_worker_host a = Some h) attempts)"

lemma host_loads_count: "host_load (host_loads attempts) h = host_count h attempts"
proof -
  have "host_load (fold (\<lambda>a load. case ra_worker_host a of
            Some host \<Rightarrow> hput host (host_load load host + 1) load | None \<Rightarrow> load) as m) h
        = host_load m h + host_count h as" for as m
    by (induction as arbitrary: m) (auto simp: host_count_def host_load_def split: option.splits)
  then show ?thesis by (simp add: host_loads_def host_load_def)
qed

lemma select_host_within_cap:
  assumes "select_host s preferred = SelRemote h"
  shows "h \<in> set (wk_ssh_hosts (sc_worker (o_config s)))"
    and "wk_max_concurrent_agents_per_host (sc_worker (o_config s)) = Some cap
           \<Longrightarrow> host_count h (hvals (o_running s)) < cap"
proof -
  have selected: "h \<in> set (wk_ssh_hosts (sc_worker (o_config s))) \<and>
      host_load (host_loads (hvals (o_running s))) h
        < (case wk_max_concurrent_agents_per_host (sc_worker (o_config s)) of Some c \<Rightarrow> c | None \<Rightarrow> usize_max)"
    using assms by (intro select_worker_host_remote [of _ _ _ preferred])
      (simp add: select_host_def Let_def split: if_splits)
  then show "h \<in> set (wk_ssh_hosts (sc_worker (o_config s)))" by simp
  show "wk_max_concurrent_agents_per_host (sc_worker (o_config s)) = Some cap
      \<Longrightarrow> host_count h (hvals (o_running s)) < cap"
    using selected by (simp add: host_loads_count)
qed

lemma select_host_docker:
  "wc_isolation (sc_workspace (o_config s)) = IsolationDocker \<Longrightarrow> select_host s preferred = SelLocal"
  by (simp add: select_host_def)

lemma update_absent: "k \<notin> fst ` set xs \<Longrightarrow> AList.update k v xs = xs @ [(k, v)]"
  by (induction xs) auto

lemma hvals_put_new: "hget m k = None \<Longrightarrow> hvals (hput k v m) = hvals m @ [v]"
proof -
  assume "hget m k = None"
  then have "k \<notin> fst ` set (hitems m)"
    by (simp add: hget_map_of map_of_eq_None_iff)
  then have "hitems (hput k v m) = hitems m @ [(k, v)]"
    by (simp add: hitems_def hput_def DAList.update.rep_eq update_absent)
  then show ?thesis by (simp add: hvals_def)
qed

lemma dispatches_host_cap:
  "dispatches env s ds t \<Longrightarrow> wk_max_concurrent_agents_per_host (sc_worker (o_config s)) = Some cap
     \<Longrightarrow> host_count h (hvals (o_running t)) \<le> max (host_count h (hvals (o_running s))) cap"
proof (induction rule: dispatches.induct)
  case (dispatches_none s t)
  then show ?case by (simp add: world_step_fields)
next
  case (dispatches_one s s1 d p ds t)
  let ?s2 = "dispatch_issue env (di_issue d) None (Some p) (di_worker_host d) s1"
  obtain a where a: "o_running ?s2 = hput (i_id (di_issue d)) a (o_running s1)"
      "issue_run (di_worker_host d) None (di_issue d) a"
    using dispatch_running by blast
  have w: "o_running s1 = o_running s" "o_config s1 = o_config s"
    using dispatches_one.hyps(1) by (simp_all add: world_step_fields)
  have "hget (o_running s) (i_id (di_issue d)) = None"
    using dispatches_one.hyps(2) w by (simp add: should_dispatch_iff)
  then have vals: "hvals (o_running ?s2) = hvals (o_running s) @ [a]"
    using a(1) w by (simp add: hvals_put_new)
  have cap: "wk_max_concurrent_agents_per_host (sc_worker (o_config s1)) = Some cap"
    using dispatches_one.prems w by simp
  have "host_count h (hvals (o_running ?s2)) \<le> max (host_count h (hvals (o_running s))) cap"
  proof (cases "di_worker_host d = Some h")
    case True
    then have "select_host s1 None = SelRemote h"
      using dispatches_one.hyps(5) by (cases "select_host s1 None") auto
    from select_host_within_cap(2) [OF this cap]
    show ?thesis
      using vals w a(2) True by (simp add: host_count_def issue_run_def)
  next
    case False
    then show ?thesis using vals a(2) by (simp add: host_count_def issue_run_def)
  qed
  moreover have "host_count h (hvals (o_running t)) \<le> max (host_count h (hvals (o_running ?s2))) cap"
    using dispatches_one.prems w by (intro dispatches_one.IH) (simp add: state_simps)
  ultimately show ?case by (simp add: max_def split: if_splits)
qed

section \<open>Blocked candidates\<close>

lemma blocked_ids_iff:
  "i \<in> set (map bi_issue_id (blocked_entries s cs)) \<longleftrightarrow>
     (\<exists>c \<in> set cs. i_id c = i \<and> is_candidate_for_blocked_check s c \<and> fst (is_blocked_by_dependency s c))"
  by (fastforce simp: blocked_entries_def List.map_filter_def split: prod.splits if_splits)

lemma blocked_iff:
  "fst (is_blocked_by_dependency s c) \<longleftrightarrow>
     (\<exists>b \<in> set (i_blocked_by c). \<exists>st. br_state b = Some st
        \<and> normalize_issue_state st \<notin> terminal_state_set s)"
  by (auto simp: is_blocked_by_dependency_def blocking_identifiers_def Let_def List.map_filter_def
      filter_empty_conv split: option.splits if_splits)

lemma should_dispatch_candidate_check:
  "should_dispatch_issue env s i \<Longrightarrow> is_candidate_for_blocked_check s i"
  by (simp add: should_dispatch_iff is_candidate_for_blocked_check_def)

end
