(* ===== verification/IssueFacts.thy ===== *)
theory IssueFacts
  imports SchedulingPreserved
begin

text \<open>
  The operations on one issue, seen from that issue and from every other one:
  \<open>agrees_at i s t\<close> says that \<open>s\<close> and \<open>t\<close> hold the same of issue \<open>i\<close> in every table keyed by
  issues, run under the same configuration and have the same list of blocked issues and the same
  notes; \<open>asks_as_before i s t\<close> that the same questions about \<open>i\<close> wait for an answer. An operation on
  another issue never disturbs the first; the second can be disturbed by an event that names a question.
\<close>

section \<open>Isolation\<close>

definition agrees_at :: "string \<Rightarrow> 'w orchestrator \<Rightarrow> 'w orchestrator \<Rightarrow> bool" where
  "agrees_at i s t \<longleftrightarrow>
     hget (o_running t) i = hget (o_running s) i
     \<and> hget (o_retry_attempts t) i = hget (o_retry_attempts s) i
     \<and> hget (o_retry_tokens t) i = hget (o_retry_tokens s) i
     \<and> hget (o_completed t) i = hget (o_completed s) i
     \<and> hget (o_worker_last_activity_ms t) i = hget (o_worker_last_activity_ms s) i
     \<and> hget (o_worker_session_info t) i = hget (o_worker_session_info s) i
     \<and> hget (o_worker_session_ids t) i = hget (o_worker_session_ids s) i
     \<and> hget (o_worker_steer_tx t) i = hget (o_worker_steer_tx s) i
     \<and> hget (o_running_session_stats t) i = hget (o_running_session_stats s) i
     \<and> hget (o_running_issue_states t) i = hget (o_running_issue_states s) i
     \<and> hget (o_pending_terminal_cleanup t) i = hget (o_pending_terminal_cleanup s) i
     \<and> hget (o_completion_comment_summaries t) i = hget (o_completion_comment_summaries s) i
     \<and> hget (o_running_parent_identifiers t) i = hget (o_running_parent_identifiers s) i
     \<and> (i \<in> o_claimed t \<longleftrightarrow> i \<in> o_claimed s)
     \<and> o_config t = o_config s \<and> o_max_concurrent_agents t = o_max_concurrent_agents s
     \<and> o_server_port_override t = o_server_port_override s
     \<and> o_poll_interval_ms t = o_poll_interval_ms s \<and> o_poll_count t = o_poll_count s
     \<and> o_last_poll_at t = o_last_poll_at s \<and> o_prompt_template t = o_prompt_template s
     \<and> o_blocked_issues t = o_blocked_issues s
     \<and> o_shared_context_store t = o_shared_context_store s"

lemma agrees_refl [intro]: "agrees_at i s s"
  by (simp add: agrees_at_def)

lemma agrees_trans [trans]: "agrees_at i s t \<Longrightarrow> agrees_at i t u \<Longrightarrow> agrees_at i s u"
  by (simp add: agrees_at_def)

lemma agrees_world_step: "world_step s t \<Longrightarrow> agrees_at i s t"
  by (auto simp: world_step_def agrees_at_def)

lemma agrees_stalled: "agrees_at i s t \<Longrightarrow> stalled_for i now timeout t = stalled_for i now timeout s"
  by (simp add: agrees_at_def stalled_for_def stall_timeout_for_def last_activity_for_def Let_def
      cong: option.case_cong)

lemma agrees_modify_stats: "i \<noteq> j \<Longrightarrow> agrees_at i s (modify_stats j f s)"
  by (simp add: agrees_at_def modify_stats_def)

lemma agrees_modify_info: "i \<noteq> j \<Longrightarrow> agrees_at i s (modify_info j f s)"
  by (simp add: agrees_at_def modify_info_def)

lemma agrees_ensure_info: "i \<noteq> j \<Longrightarrow> agrees_at i s (ensure_worker_session_info j s)"
  by (simp add: agrees_at_def ensure_worker_session_info_def Let_def)

lemma agrees_activity: "i \<noteq> j \<Longrightarrow> agrees_at i s (record_worker_activity j n s)"
  by (simp add: agrees_at_def record_worker_activity_def)

lemma agrees_advance: "i \<noteq> j \<Longrightarrow> agrees_at i s (advance_turn_counter j s)"
  by (simp add: agrees_at_def advance_turn_counter_def ensure_worker_session_info_def Let_def)

lemma agrees_metrics: "agrees_at i s (apply_turn_metrics m s)"
  by (simp add: agrees_at_def apply_turn_metrics_def Let_def)

lemma agrees_close: "agrees_at i s (close_escalation event s)"
  by (simp add: agrees_at_def close_escalation_def split: option.splits)

lemma agrees_ingest_parts:
  assumes "i \<noteq> j"
  shows "agrees_at i s (ingest_summary env j event s)" "agrees_at i s (ingest_tool_activity env j event s)"
    "agrees_at i s (ingest_error j event s)" "agrees_at i s (ingest_turn_completed j event s)"
  using assms
  by (auto simp: ingest_summary_def ingest_tool_activity_def ingest_error_def ingest_turn_completed_def
      Let_def split: prod.splits tool_activity.splits option.splits agent_event.splits
      intro!: agrees_trans [OF _ agrees_metrics] agrees_trans [OF _ agrees_advance]
        agrees_trans [OF _ agrees_modify_info] agrees_modify_stats agrees_modify_info)

text \<open>The same, after any change that already agreed.\<close>

lemmas agrees_after =
  agrees_trans [OF _ agrees_world_step] agrees_trans [OF _ agrees_close]
  agrees_trans [OF _ agrees_ensure_info] agrees_trans [OF _ agrees_activity]
  agrees_trans [OF _ agrees_ingest_parts(1)] agrees_trans [OF _ agrees_ingest_parts(2)]
  agrees_trans [OF _ agrees_ingest_parts(3)] agrees_trans [OF _ agrees_ingest_parts(4)]

lemma agrees_updates:
  "agrees_at i s (t\<lparr> o_codex_totals := c \<rparr>) = agrees_at i s t"
  "agrees_at i s (t\<lparr> o_world := w \<rparr>) = agrees_at i s t"
  "agrees_at i s (t\<lparr> o_events := evs \<rparr>) = agrees_at i s t"
  "agrees_at i s (t\<lparr> o_escalation_registry := reg \<rparr>) = agrees_at i s t"
  "agrees_at i s (emit_runtime_event ev t) = agrees_at i s t"
  by (simp_all add: agrees_at_def emit_runtime_event_def)

lemma agrees_ingest:
  assumes "i \<noteq> j"
  shows "agrees_at i s (ingest_agent_event env j event s)"
proof -
  have sids: "agrees_at i s t \<Longrightarrow> agrees_at i s (t\<lparr> o_worker_session_ids := hput j sid m \<rparr>)"
    if "m = o_worker_session_ids t" for t sid m
    using assms that by (simp add: agrees_at_def)
  have run: "agrees_at i s t \<Longrightarrow> agrees_at i s (t\<lparr> o_running := hmodify j f m \<rparr>)"
    if "m = o_running t" for t f m
    using assms that by (simp add: agrees_at_def)
  show ?thesis
    unfolding ingest_agent_event_def Let_def
    by (cases "event_session_id event")
      (simp_all add: agrees_close, auto simp: agrees_updates assms intro!: agrees_after(4-8) agrees_after(3)
        run sids agrees_close)
qed

lemma agrees_cancel_each: "i \<noteq> j \<Longrightarrow> agrees_at i s (cancel_each env j reason requests s)"
proof (induction requests arbitrary: s)
  case (Cons q qs)
  let ?s1 = "snd (call (e_now env) s)"
  have "agrees_at i s ?s1" by (simp add: call_eq agrees_updates agrees_refl)
  also have "agrees_at i ?s1 (ingest_agent_event env j event ?s1)" for event
    using Cons.prems by (rule agrees_ingest)
  finally have "agrees_at i s (ingest_agent_event env j event ?s1)" for event .
  then show ?case
    using Cons by (simp add: case_prod_unfold Let_def) (blast intro: agrees_trans)
qed (simp add: agrees_refl)

lemma agrees_cancel_pending:
  "i \<noteq> j \<Longrightarrow> agrees_at i s (cancel_pending_escalations_for_issue env j reason s)"
  by (auto simp: cancel_pending_escalations_for_issue_def Let_def case_prod_unfold agrees_updates
      intro!: agrees_trans [OF _ agrees_cancel_each])

lemma agrees_schedule:
  "i \<noteq> j \<Longrightarrow> agrees_at i s (snd (schedule_retry_with_context j ident n kind now err ctx s))"
  by (simp add: schedule_retry_with_context_def Let_def agrees_updates split: option.splits)
    (simp add: agrees_at_def)

lemma agrees_retire: "i \<noteq> j \<Longrightarrow> agrees_at i s (retire_worker env j a s)"
  by (simp add: retire_worker_def Let_def call_eq agrees_at_def)

lemma agrees_cleanup: "agrees_at i s (cleanup_workspace env x p s)"
  by (auto simp: cleanup_workspace_def call_eq agrees_updates)

lemma agrees_complete_released: "i \<noteq> j \<Longrightarrow> agrees_at i s (complete_released_worker env j s)"
proof -
  assume "i \<noteq> j"
  let ?s1 = "cancel_pending_escalations_for_issue env j ''worker_already_released'' s"
  have "agrees_at i s ?s1" using \<open>i \<noteq> j\<close> by (rule agrees_cancel_pending)
  moreover from this have "agrees_at i s (?s1\<lparr> o_pending_terminal_cleanup := hdel j (o_pending_terminal_cleanup ?s1) \<rparr>)"
    using \<open>i \<noteq> j\<close> by (simp add: agrees_at_def)
  ultimately show ?thesis
    by (auto simp: complete_released_worker_def Let_def split: option.splits
        intro: agrees_trans [OF _ agrees_cleanup])
qed

lemma agrees_finish:
  assumes "i \<noteq> j"
  shows "agrees_at i s (snd (finish_completed env j cont a ctx now s))"
    and "agrees_at i s (snd (finish_failed env j err a ctx now s))"
proof -
  have stored: "agrees_at i s t \<Longrightarrow> agrees_at i s (t\<lparr> o_completed := hput j c m \<rparr>)"
    "agrees_at i s t \<Longrightarrow> agrees_at i s (t\<lparr> o_completed := hdel j m \<rparr>)"
    if "m = o_completed t" for t c m using assms that by (simp_all add: agrees_at_def)
  have dropped: "agrees_at i s t \<Longrightarrow> agrees_at i s (t\<lparr> o_retry_attempts := hdel j m \<rparr>)"
    if "m = o_retry_attempts t" for t m using assms that by (simp add: agrees_at_def)
  show "agrees_at i s (snd (finish_completed env j cont a ctx now s))"
    by (auto simp: finish_completed_def Let_def call_eq case_prod_unfold agrees_updates
        intro!: agrees_trans [OF _ agrees_schedule [OF assms]] stored dropped agrees_refl)
  show "agrees_at i s (snd (finish_failed env j err a ctx now s))"
    by (auto simp: finish_failed_def Let_def case_prod_unfold agrees_updates
        intro!: agrees_trans [OF _ agrees_schedule [OF assms]]
          agrees_trans [OF _ agrees_world_step [OF world_step_slack]] stored)
qed

lemma agrees_completion:
  assumes "i \<noteq> j"
  shows "agrees_at i s (snd (handle_worker_completion env j completion now s))"
  using assms
  by (auto simp: handle_worker_completion_def Let_def agrees_complete_released
      split: option.splits worker_completion.splits
      intro!: agrees_trans [OF _ agrees_finish(1)] agrees_trans [OF _ agrees_finish(2)]
        agrees_trans [OF _ agrees_retire] agrees_cancel_pending)

lemma agrees_check_stalled: "i \<noteq> j \<Longrightarrow> agrees_at i s (check_stalled_worker env now timeout j s)"
  by (auto simp: check_stalled_worker_def Let_def agrees_updates split: option.splits
      intro!: agrees_trans [OF _ agrees_completion] agrees_trans [OF _ agrees_world_step [OF world_step_slack]])

lemma agrees_release: "i \<noteq> j \<Longrightarrow> agrees_at i s (release_issue env j s)"
  using agrees_cancel_pending [of i j s env "''issue_released''"]
  by (simp add: release_issue_def Let_def agrees_at_def)

lemma agrees_mark_terminal: "i \<noteq> i_id x \<Longrightarrow> agrees_at i s (mark_issue_terminal env x hint c s)"
proof -
  assume ne: "i \<noteq> i_id x"
  let ?s1 = "cancel_pending_escalations_for_issue env (i_id x) ''issue_terminal'' s"
  have "agrees_at i s ?s1" using ne by (rule agrees_cancel_pending)
  moreover have "agrees_at i ?s1 (terminal_cleanup env x hint ?s1)"
    using ne by (auto simp: terminal_cleanup_def split: option.splits
        intro!: agrees_trans [OF _ agrees_cleanup]) (simp_all add: agrees_at_def)
  ultimately have "agrees_at i s (terminal_cleanup env x hint ?s1)" by (rule agrees_trans)
  then show ?thesis
    using ne by (simp add: mark_issue_terminal_def Let_def agrees_at_def)
qed

section \<open>The questions of an issue\<close>

definition questions_of :: "string \<Rightarrow> 'w orchestrator \<Rightarrow> string \<Rightarrow> escalation_entry option" where
  "questions_of i s request_id =
     (case hget (rg_pending (o_escalation_registry s)) request_id of
        Some e \<Rightarrow> if er_issue_id (ee_request e) = i then Some e else None
      | None \<Rightarrow> None)"

definition asks_as_before :: "string \<Rightarrow> 'w orchestrator \<Rightarrow> 'w orchestrator \<Rightarrow> bool" where
  "asks_as_before i s t \<longleftrightarrow>
     questions_of i t = questions_of i s
     \<and> rg_resolved (o_escalation_registry t) = rg_resolved (o_escalation_registry s)"

lemma asks_refl [intro]: "asks_as_before i s s"
  by (simp add: asks_as_before_def)

lemma asks_trans [trans]: "asks_as_before i s t \<Longrightarrow> asks_as_before i t u \<Longrightarrow> asks_as_before i s u"
  by (simp add: asks_as_before_def)

lemma asks_registry: "o_escalation_registry t = o_escalation_registry u \<Longrightarrow> asks_as_before i s t = asks_as_before i s u"
  by (simp add: asks_as_before_def questions_of_def fun_eq_iff)

text \<open>Only three operations touch the registry: the event that closes a question, the withdrawal of
  the questions of an issue, and the registration of a new one.\<close>

lemma registry_kept:
  "o_escalation_registry (modify_stats j f s) = o_escalation_registry s"
  "o_escalation_registry (modify_info j g s) = o_escalation_registry s"
  "o_escalation_registry (ensure_worker_session_info j s) = o_escalation_registry s"
  "o_escalation_registry (record_worker_activity j n s) = o_escalation_registry s"
  "o_escalation_registry (advance_turn_counter j s) = o_escalation_registry s"
  "o_escalation_registry (apply_turn_metrics m s) = o_escalation_registry s"
  "o_escalation_registry (emit_runtime_event ev s) = o_escalation_registry s"
  "o_escalation_registry (snd (schedule_retry_with_context j ident k kind now err ctx s)) = o_escalation_registry s"
  "o_escalation_registry (retire_worker env j a s) = o_escalation_registry s"
  "o_escalation_registry (cleanup_workspace env x p s) = o_escalation_registry s"
  "o_escalation_registry (terminal_cleanup env x hint s) = o_escalation_registry s"
  by (simp_all add: modify_stats_def modify_info_def ensure_worker_session_info_def Let_def
      record_worker_activity_def advance_turn_counter_def apply_turn_metrics_def emit_runtime_event_def
      schedule_retry_with_context_def retire_worker_def cleanup_workspace_def terminal_cleanup_def call_eq
      split: option.splits)

lemma registry_ingest_parts:
  "o_escalation_registry (ingest_summary env j event s) = o_escalation_registry s"
  "o_escalation_registry (ingest_tool_activity env j event s) = o_escalation_registry s"
  "o_escalation_registry (ingest_error j event s) = o_escalation_registry s"
  "o_escalation_registry (ingest_turn_completed j event s) = o_escalation_registry s"
  by (simp_all add: ingest_summary_def ingest_tool_activity_def ingest_error_def ingest_turn_completed_def
      registry_kept Let_def split: prod.splits tool_activity.splits option.splits agent_event.splits)

lemma registry_ingest:
  "o_escalation_registry (ingest_agent_event env j event s) = o_escalation_registry (close_escalation event s)"
  by (simp add: ingest_agent_event_def registry_kept registry_ingest_parts Let_def split: option.splits)

lemma questions_ingest:
  "questions_of i (ingest_agent_event env j event s)
     = (case escalation_closed event of
          None \<Rightarrow> questions_of i s | Some request_id \<Rightarrow> (questions_of i s)(request_id := None))"
  "rg_resolved (o_escalation_registry (ingest_agent_event env j event s)) = rg_resolved (o_escalation_registry s)"
  by (auto simp: questions_of_def registry_ingest close_escalation_def registry_remove_def fun_eq_iff
      split: option.splits)

text \<open>The withdrawal of the questions of an issue, seen on the registry.\<close>

definition withdrawn :: "string \<Rightarrow> 'w orchestrator \<Rightarrow> 'w orchestrator \<Rightarrow> bool" where
  "withdrawn j s t \<longleftrightarrow>
     (\<forall>request_id. hget (rg_pending (o_escalation_registry t)) request_id
        = (case hget (rg_pending (o_escalation_registry s)) request_id of
             Some e \<Rightarrow> if er_issue_id (ee_request e) = j then None else Some e
           | None \<Rightarrow> None))
     \<and> rg_resolved (o_escalation_registry t) = rg_resolved (o_escalation_registry s)"

lemma withdrawn_asks: "withdrawn j s t \<Longrightarrow> i \<noteq> j \<Longrightarrow> asks_as_before i s t"
  by (auto simp: withdrawn_def asks_as_before_def questions_of_def fun_eq_iff split: option.splits)

lemma withdrawn_own: "withdrawn j s t \<Longrightarrow> questions_of j t request_id = None"
  by (auto simp: withdrawn_def questions_of_def split: option.splits)

lemma withdrawn_ok: "withdrawn j s t \<Longrightarrow> registry_ok (o_escalation_registry s) \<Longrightarrow> registry_ok (o_escalation_registry t)"
  by (auto simp: withdrawn_def registry_ok_def split: option.splits if_splits)

lemma withdrawn_registry:
  "withdrawn j s t \<Longrightarrow> o_escalation_registry u = o_escalation_registry t \<Longrightarrow> withdrawn j s u"
  by (simp add: withdrawn_def)

lemma withdrawn_from:
  "withdrawn j s t \<Longrightarrow> o_escalation_registry s' = o_escalation_registry s \<Longrightarrow> withdrawn j s' t"
  by (simp add: withdrawn_def)

text \<open>The events a withdrawal sends name questions that have already left the registry.\<close>

lemma registry_cancel_each:
  assumes "\<forall>q \<in> set requests. hget (rg_pending (o_escalation_registry s)) (er_id q) = None"
  shows "hget (rg_pending (o_escalation_registry (cancel_each env j reason requests s)))
      = hget (rg_pending (o_escalation_registry s))
    \<and> rg_resolved (o_escalation_registry (cancel_each env j reason requests s))
      = rg_resolved (o_escalation_registry s)"
  using assms
proof (induction requests arbitrary: s)
  case (Cons q qs)
  obtain now s1 where call: "call (e_now env) s = (now, s1)" by (cases "call (e_now env) s")
  let ?u = "ingest_agent_event env j
      (EscalationCancelled now (er_issue_id q) (er_issue_identifier q) (er_id q) reason) s1"
  have s1: "o_escalation_registry s1 = o_escalation_registry s" using call by (auto simp: call_eq)
  have "hget (rg_pending (o_escalation_registry ?u)) = hget (rg_pending (o_escalation_registry s))"
    "rg_resolved (o_escalation_registry ?u) = rg_resolved (o_escalation_registry s)"
    using Cons.prems
    by (auto simp: registry_ingest close_escalation_def escalation_closed_def registry_remove_def s1 fun_eq_iff)
  then show ?case using Cons.IH [of ?u] Cons.prems by (simp add: call)
qed simp

lemma cancelled_requests:
  assumes "registry_ok reg" "q \<in> set (fst (cancel_for_issue j reg))"
  shows "hget (rg_pending (snd (cancel_for_issue j reg))) (er_id q) = None"
proof -
  define ids where "ids = map fst (filter (\<lambda>(r, e). er_issue_id (ee_request e) = j) (hitems (rg_pending reg)))"
  have "distinct ids"
    using distinct_hkeys [of "rg_pending reg"] by (auto simp: hkeys_def ids_def intro: distinct_map_fst_filter)
  note spec = cancel_ids_spec [OF this, of "rg_pending reg"]
  have parts: "fst (cancel_for_issue j reg) = fst (cancel_ids ids (rg_pending reg))"
    "rg_pending (snd (cancel_for_issue j reg)) = snd (cancel_ids ids (rg_pending reg))"
    by (simp_all add: cancel_for_issue_def Let_def ids_def split: prod.splits)
  from assms(2) obtain k e where "k \<in> set ids" "hget (rg_pending reg) k = Some e" "q = ee_request e"
    unfolding parts spec [THEN conjunct1] by auto
  then have "er_id q \<in> set ids" using assms(1) by (auto simp: registry_ok_def)
  then show ?thesis unfolding parts spec [THEN conjunct2] by (simp only: if_True)
qed

lemma withdrawn_cancel:
  assumes "registry_ok (o_escalation_registry s)"
  shows "withdrawn j s (cancel_pending_escalations_for_issue env j reason s)"
proof -
  define reg where "reg = snd (cancel_for_issue j (o_escalation_registry s))"
  define cancelled where "cancelled = fst (cancel_for_issue j (o_escalation_registry s))"
  let ?s1 = "s\<lparr> o_escalation_registry := reg \<rparr>"
  have start: "withdrawn j s ?s1"
    by (simp add: withdrawn_def reg_def cancel_for_issue_pending)
  have "\<forall>q \<in> set cancelled. hget (rg_pending (o_escalation_registry ?s1)) (er_id q) = None"
    using cancelled_requests [OF assms] by (simp add: cancelled_def reg_def)
  note each = registry_cancel_each [OF this, of env j reason]
  have "withdrawn j s (cancel_each env j reason cancelled ?s1)"
    using start each by (simp add: withdrawn_def)
  then show ?thesis
    using start
    by (simp add: cancel_pending_escalations_for_issue_def case_prod_unfold Let_def flip: reg_def cancelled_def)
qed

text \<open>The end of a worker, the release of an issue and its move to a terminal state.\<close>

lemma registry_complete_released:
  "o_escalation_registry (complete_released_worker env j s)
     = o_escalation_registry (cancel_pending_escalations_for_issue env j ''worker_already_released'' s)"
  by (simp add: complete_released_worker_def Let_def registry_kept split: option.splits)

lemma registry_finish:
  "o_escalation_registry (snd (finish_completed env j c a ctx now s)) = o_escalation_registry s"
  "o_escalation_registry (snd (finish_failed env j err a ctx now s)) = o_escalation_registry s"
  by (simp_all add: finish_completed_def finish_failed_def Let_def case_prod_unfold registry_kept
      queue_slack_notification_def call_eq split: option.splits)

lemma withdrawn_completion:
  "registry_ok (o_escalation_registry s)
     \<Longrightarrow> withdrawn j s (snd (handle_worker_completion env j completion now s))"
  by (auto simp: handle_worker_completion_def Let_def registry_complete_released registry_finish registry_kept
      split: option.splits worker_completion.splits intro: withdrawn_registry [OF withdrawn_cancel])

lemma withdrawn_release: "registry_ok (o_escalation_registry s) \<Longrightarrow> withdrawn j s (release_issue env j s)"
  by (rule withdrawn_registry [OF withdrawn_cancel]) (simp_all add: release_issue_def Let_def)

lemma withdrawn_terminal:
  "registry_ok (o_escalation_registry s) \<Longrightarrow> withdrawn (i_id x) s (mark_issue_terminal env x hint c s)"
  by (rule withdrawn_registry [OF withdrawn_cancel]) (simp_all add: mark_issue_terminal_def Let_def registry_kept)

end
