(* ===== verification/CompletionFacts.thy ===== *)
theory CompletionFacts
  imports IssueFacts
begin

text \<open>
  What the end of a worker, a stall and a reconciliation do to the issue they are about.
\<close>

section \<open>What an event does not touch\<close>

definition sched_view :: "'w orchestrator \<Rightarrow> _" where
  "sched_view s = (o_retry_attempts s, o_retry_tokens s, o_claimed s, o_config s,
     o_next_retry_token s, o_completed s, o_pending_terminal_cleanup s, o_running_issue_states s,
     o_max_concurrent_agents s)"

lemma sched_view_fields:
  assumes "sched_view t = sched_view s"
  shows "o_retry_attempts t = o_retry_attempts s" "o_retry_tokens t = o_retry_tokens s"
    "o_claimed t = o_claimed s" "o_config t = o_config s" "o_next_retry_token t = o_next_retry_token s"
    "o_completed t = o_completed s" "o_pending_terminal_cleanup t = o_pending_terminal_cleanup s"
    "o_running_issue_states t = o_running_issue_states s"
    "o_max_concurrent_agents t = o_max_concurrent_agents s"
  using assms by (simp_all add: sched_view_def)

lemma sched_view_parts [simp]:
  "sched_view (modify_stats i f s) = sched_view s"
  "sched_view (modify_info i g s) = sched_view s"
  "sched_view (ensure_worker_session_info i s) = sched_view s"
  "sched_view (record_worker_activity i n s) = sched_view s"
  "sched_view (advance_turn_counter i s) = sched_view s"
  "sched_view (apply_turn_metrics m s) = sched_view s"
  "sched_view (close_escalation event s) = sched_view s"
  "sched_view (s\<lparr> o_world := w \<rparr>) = sched_view s"
  "sched_view (s\<lparr> o_running := r \<rparr>) = sched_view s"
  "sched_view (s\<lparr> o_codex_totals := c \<rparr>) = sched_view s"
  "sched_view (s\<lparr> o_worker_session_ids := ids \<rparr>) = sched_view s"
  "sched_view (s\<lparr> o_escalation_registry := reg \<rparr>) = sched_view s"
  by (simp_all add: sched_view_def modify_stats_def modify_info_def ensure_worker_session_info_def
      record_worker_activity_def advance_turn_counter_def apply_turn_metrics_def close_escalation_def
      Let_def split: option.splits)

lemma sched_view_ingest_parts [simp]:
  "sched_view (ingest_summary env i event s) = sched_view s"
  "sched_view (ingest_tool_activity env i event s) = sched_view s"
  "sched_view (ingest_error i event s) = sched_view s"
  "sched_view (ingest_turn_completed i event s) = sched_view s"
  by (simp_all add: ingest_summary_def ingest_tool_activity_def ingest_error_def ingest_turn_completed_def
      Let_def split: prod.splits tool_activity.splits option.splits agent_event.splits)

lemma sched_view_ingest [simp]: "sched_view (ingest_agent_event env i event s) = sched_view s"
  by (simp add: ingest_agent_event_def Let_def split: option.splits)

lemma sched_view_cancel_each [simp]:
  "sched_view (cancel_each env i reason requests s) = sched_view s"
  by (induction requests arbitrary: s) (simp_all add: Let_def call_eq case_prod_unfold)

lemma sched_view_cancel [simp]:
  "sched_view (cancel_pending_escalations_for_issue env i reason s) = sched_view s"
  by (simp add: cancel_pending_escalations_for_issue_def Let_def case_prod_unfold)

lemmas cancel_fields = sched_view_fields [OF sched_view_cancel]

text \<open>A cancelled question leaves the attempt as it was.\<close>

lemma attempt_after_cancel: "attempt_after_event (EscalationCancelled n i ident q reason) = (\<lambda>a. a)"
  by (simp add: attempt_after_event_def fun_eq_iff)

lemma running_cancel_each_eq:
  "hget (o_running (cancel_each env i reason requests s)) = hget (o_running s)"
  by (induction requests arbitrary: s)
    (simp_all add: Let_def call_eq case_prod_unfold running_ingest attempt_after_cancel
      fun_eq_iff option.map_ident)

lemma running_cancel_eq [simp]:
  "hget (o_running (cancel_pending_escalations_for_issue env i reason s)) = hget (o_running s)"
  by (simp add: cancel_pending_escalations_for_issue_def Let_def case_prod_unfold running_cancel_each_eq)

section \<open>The end of a worker\<close>

definition retry_entry_for ::
  "string \<Rightarrow> run_attempt \<Rightarrow> nat \<Rightarrow> int \<Rightarrow> string \<Rightarrow> string option \<Rightarrow> retry_entry" where
  "retry_entry_for i a attempt due_at_ms token err =
     \<lparr> re_issue_id = i, re_identifier = ra_issue_identifier a, re_attempt = attempt,
       re_due_at_ms = due_at_ms, re_timer_handle = Some token, re_error = err,
       re_worker_host = ra_worker_host a, re_workspace_path = Some (ra_workspace_path a) \<rparr>"

lemma retry_delay_config: "o_config t = o_config s \<Longrightarrow> retry_delay_ms t kind n = retry_delay_ms s kind n"
  by (simp add: retry_delay_ms_def split: retry_kind.splits)

lemma retry_delay_token [simp]:
  "retry_delay_ms (s\<lparr> o_next_retry_token := k \<rparr>) kind n = retry_delay_ms s kind n"
  by (rule retry_delay_config) simp

lemma small_power: "(2::int) ^ min k 10 \<le> 1024"
  using power_increasing [of "min k 10" 10 "2::int"] by simp

lemma failure_delay:
  assumes "1 \<le> k"
  shows "retry_delay_ms s Failure k
    = min (10000 * 2 ^ min (k - 1) 10) (min (int (ag_max_retry_backoff_ms (sc_agent (o_config s)))) i64_max)"
proof -
  have "(0::int) \<le> 10000 * 2 ^ min (k - 1) 10" by simp
  then have "clamp_i64 (10000 * 2 ^ min (k - 1) 10) = 10000 * 2 ^ min (k - 1) 10"
    using small_power [of "k - 1"] unfolding clamp_i64_def i64_max_def i64_min_def by linarith
  then show ?thesis
    using assms by (simp add: retry_delay_ms_def Let_def sat_mul_i64_def FAILURE_RETRY_BASE_MS_def max_def)
qed

lemma schedule_retry_effect:
  "schedule_retry_with_context i ident n kind now err ctx s = (token, t) \<Longrightarrow>
     token = retry_token (Suc (o_next_retry_token s))
     \<and> hget (o_retry_tokens t) i = Some token
     \<and> o_retry_attempts t = hput i \<lparr> re_issue_id = i, re_identifier = ident, re_attempt = n,
         re_due_at_ms = now + retry_delay_ms s kind n, re_timer_handle = Some token, re_error = err,
         re_worker_host = rx_worker_host ctx, re_workspace_path = rx_workspace_path ctx \<rparr> (o_retry_attempts s)
     \<and> o_running t = o_running s \<and> o_claimed t = o_claimed s \<and> o_completed t = o_completed s
     \<and> o_config t = o_config s \<and> o_max_concurrent_agents t = o_max_concurrent_agents s"
  by (auto simp: schedule_retry_with_context_def Let_def emit_runtime_event_def
      split: option.splits)

lemma retire_fields:
  "o_running (retire_worker env i a s) = hdel i (o_running s)"
  "o_claimed (retire_worker env i a s) = o_claimed s - {i}"
  "o_config (retire_worker env i a s) = o_config s"
  "o_max_concurrent_agents (retire_worker env i a s) = o_max_concurrent_agents s"
  "o_next_retry_token (retire_worker env i a s) = o_next_retry_token s"
  "o_completed (retire_worker env i a s) = o_completed s"
  "o_retry_attempts (retire_worker env i a s) = o_retry_attempts s"
  by (simp_all add: retire_worker_def Let_def call_eq)

lemma completion_start:
  assumes "hget (o_running s) i = Some a"
  shows "handle_worker_completion env i completion now s =
    (let s1 = cancel_pending_escalations_for_issue env i ''worker_exited'' s;
         ctx = \<lparr> rx_worker_host = ra_worker_host a, rx_workspace_path = Some (ra_workspace_path a),
                 rx_session_id = hget (o_worker_session_ids s1) i \<rparr>
     in case completion of
          Completed c \<Rightarrow> finish_completed env i c a ctx now (retire_worker env i a s1)
        | Failed err \<Rightarrow> finish_failed env i err a ctx now (retire_worker env i a s1))"
  using assms by (simp add: handle_worker_completion_def hmember_def Let_def)

lemma completion_failed:
  assumes "hget (o_running s) i = Some a"
    and "handle_worker_completion env i (Failed err) now s = (r, t)"
  shows "\<exists>token. r = Some token \<and> hget (o_running t) = (hget (o_running s))(i := None)
    \<and> o_claimed t = o_claimed s - {i} \<and> hget (o_completed t) = (hget (o_completed s))(i := None)
    \<and> hget (o_retry_tokens t) i = Some token
    \<and> hget (o_retry_attempts t) i =
        Some (retry_entry_for i a (failure_attempt a)
                (now + retry_delay_ms s Failure (failure_attempt a)) token (Some err))
    \<and> o_config t = o_config s \<and> o_max_concurrent_agents t = o_max_concurrent_agents s"
proof -
  let ?s1 = "cancel_pending_escalations_for_issue env i ''worker_exited'' s"
  let ?ctx = "\<lparr> rx_worker_host = ra_worker_host a, rx_workspace_path = Some (ra_workspace_path a),
                 rx_session_id = hget (o_worker_session_ids ?s1) i \<rparr>"
  have "finish_failed env i err a ?ctx now (retire_worker env i a ?s1) = (r, t)"
    using assms by (simp add: completion_start Let_def)
  then obtain u token where sched: "schedule_retry_with_context i (ra_issue_identifier a)
        (failure_attempt a) Failure now (Some err) ?ctx u = (token, t)" and r: "r = Some token"
    and u: "world_step ((retire_worker env i a ?s1)\<lparr> o_completed :=
              hdel i (o_completed (retire_worker env i a ?s1)) \<rparr>) u"
    by (auto simp: finish_failed_def Let_def split: prod.splits if_splits
        intro: world_step_trans [OF world_step_event world_step_slack])
  note f = world_step_fields [OF u]
  show ?thesis
    using schedule_retry_effect [OF sched] r
    by (auto simp: f retire_fields cancel_fields retry_entry_for_def retry_delay_config [of u s] fun_eq_iff)
qed

lemma completion_continued:
  assumes "hget (o_running s) i = Some a"
    and "handle_worker_completion env i (Completed True) now s = (r, t)"
  shows "\<exists>token. r = Some token \<and> hget (o_running t) = (hget (o_running s))(i := None)
    \<and> o_claimed t = o_claimed s - {i} \<and> o_completed t = o_completed s
    \<and> hget (o_retry_tokens t) i = Some token
    \<and> hget (o_retry_attempts t) i =
        Some (retry_entry_for i a 1 (now + CONTINUATION_RETRY_DELAY_MS) token None)"
proof -
  let ?s1 = "cancel_pending_escalations_for_issue env i ''worker_exited'' s"
  let ?ctx = "\<lparr> rx_worker_host = ra_worker_host a, rx_workspace_path = Some (ra_workspace_path a),
                 rx_session_id = hget (o_worker_session_ids ?s1) i \<rparr>"
  have "finish_completed env i True a ?ctx now (retire_worker env i a ?s1) = (r, t)"
    using assms by (simp add: completion_start Let_def)
  then obtain u token where sched: "schedule_retry_with_context i (ra_issue_identifier a)
        1 Continuation now None ?ctx u = (token, t)" and r: "r = Some token"
    and u: "world_step (retire_worker env i a ?s1) u"
    by (auto simp: finish_completed_def Let_def split: prod.splits)
  note f = world_step_fields [OF u]
  show ?thesis
    using schedule_retry_effect [OF sched] r
    by (auto simp: f retire_fields cancel_fields retry_entry_for_def retry_delay_ms_def fun_eq_iff)
qed

definition completed_entry_for :: "string \<Rightarrow> run_attempt \<Rightarrow> timestamp \<Rightarrow> completed_entry" where
  "completed_entry_for i a now =
     \<lparr> ce_issue_id = i, ce_identifier = ra_issue_identifier a,
       ce_title = (case ra_issue_title a of Some x \<Rightarrow> x | None \<Rightarrow> []), ce_completed_at = Some now \<rparr>"

text \<open>The clock is read once more after the worker's tables are cleared.\<close>

definition completion_time :: "'w env \<Rightarrow> string \<Rightarrow> run_attempt \<Rightarrow> 'w orchestrator \<Rightarrow> timestamp" where
  "completion_time env i a s =
     fst (e_now env (o_world (retire_worker env i a
       (cancel_pending_escalations_for_issue env i ''worker_exited'' s))))"

lemma completion_done:
  assumes "hget (o_running s) i = Some a"
    and "handle_worker_completion env i (Completed False) now s = (r, t)"
  shows "r = None \<and> hget (o_running t) = (hget (o_running s))(i := None)
    \<and> o_claimed t = o_claimed s - {i} \<and> hget (o_retry_attempts t) i = None
    \<and> hget (o_completed t)
        = (hget (o_completed s))(i := Some (completed_entry_for i a (completion_time env i a s)))"
  using assms
  by (auto simp: completion_start finish_completed_def Let_def call_eq emit_runtime_event_def
      retire_fields cancel_fields completed_entry_for_def completion_time_def fun_eq_iff)

section \<open>Stalled workers\<close>

definition stall_error :: "int \<Rightarrow> string" where
  "stall_error elapsed_ms = ''stalled for '' @ int_digits elapsed_ms @ ''ms '' @ STALL_FAILURE_MARKER"

lemma check_stalled_none: "stalled_for i now timeout s = None \<Longrightarrow> check_stalled_worker env now timeout i s = s"
  by (simp add: check_stalled_worker_def split: option.splits)

lemma check_stalled_some:
  assumes "hget (o_running s) i = Some a" "stalled_for i now timeout s = Some elapsed"
  shows "hget (o_running (check_stalled_worker env now timeout i s)) i = None
    \<and> (\<exists>token. hget (o_retry_attempts (check_stalled_worker env now timeout i s)) i =
          Some (retry_entry_for i a (failure_attempt a)
                  (now + retry_delay_ms s Failure (failure_attempt a)) token (Some (stall_error elapsed))))"
proof -
  obtain u where u: "world_step s u"
    and check: "check_stalled_worker env now timeout i s
      = snd (handle_worker_completion env i (Failed (stall_error elapsed)) now u)"
    using assms by (auto simp: check_stalled_worker_def stall_error_def Let_def
        intro: that world_step_trans [OF world_step_event world_step_slack])
  obtain r t where t: "handle_worker_completion env i (Failed (stall_error elapsed)) now u = (r, t)"
    by (cases "handle_worker_completion env i (Failed (stall_error elapsed)) now u")
  have "hget (o_running u) i = Some a" using assms u by (simp add: world_step_fields)
  moreover have "retry_delay_ms u Failure n = retry_delay_ms s Failure n" for n
    by (rule retry_delay_config) (rule world_step_fields(5) [OF u])
  ultimately show ?thesis
    using completion_failed [of u i a env "stall_error elapsed" now r t] t by (auto simp: check)
qed

lemma detect_fold:
  assumes "distinct ks"
  shows "i \<notin> set ks \<or> stalled_for i now timeout s = None
           \<Longrightarrow> agrees_at i s (fold (check_stalled_worker env now timeout) ks s)"
    and "i \<in> set ks \<Longrightarrow> (\<exists>u. agrees_at i s u \<and> agrees_at i (check_stalled_worker env now timeout i u)
           (fold (check_stalled_worker env now timeout) ks s))"
proof -
  have untouched: "i \<notin> set ks \<or> stalled_for i now timeout s = None
      \<Longrightarrow> agrees_at i s (fold (check_stalled_worker env now timeout) ks s)" for ks s
  proof (induction ks arbitrary: s)
    case (Cons k ks)
    let ?s1 = "check_stalled_worker env now timeout k s"
    have first: "agrees_at i s ?s1"
      using Cons.prems by (cases "k = i") (auto simp: check_stalled_none intro: agrees_check_stalled)
    moreover have "i \<notin> set ks \<or> stalled_for i now timeout ?s1 = None"
      using Cons.prems agrees_stalled [OF first] by auto
    ultimately show ?case using agrees_trans [OF first Cons.IH [of ?s1]] by simp
  qed (simp add: agrees_refl)
  then show "i \<notin> set ks \<or> stalled_for i now timeout s = None
      \<Longrightarrow> agrees_at i s (fold (check_stalled_worker env now timeout) ks s)" .
  assume "i \<in> set ks"
  then obtain before after where ks: "ks = before @ i # after" by (meson split_list)
  let ?u = "fold (check_stalled_worker env now timeout) before s"
  have "agrees_at i s ?u" using assms ks by (intro untouched) auto
  moreover have "agrees_at i (check_stalled_worker env now timeout i ?u)
      (fold (check_stalled_worker env now timeout) after (check_stalled_worker env now timeout i ?u))"
    using assms ks by (intro untouched) auto
  ultimately show "(\<exists>u. agrees_at i s u \<and> agrees_at i (check_stalled_worker env now timeout i u)
      (fold (check_stalled_worker env now timeout) ks s))"
    using ks by auto
qed

lemma detect_stalled_kept:
  "stalled_for i now timeout s = None \<Longrightarrow> agrees_at i s (detect_stalled_workers env now timeout s)"
  unfolding detect_stalled_workers_def by (rule detect_fold(1)) simp_all

lemma detect_stalled_removed:
  assumes "hget (o_running s) i = Some a" "stalled_for i now timeout s = Some elapsed"
  shows "hget (o_running (detect_stalled_workers env now timeout s)) i = None
    \<and> (\<exists>token. hget (o_retry_attempts (detect_stalled_workers env now timeout s)) i =
          Some (retry_entry_for i a (failure_attempt a)
                  (now + retry_delay_ms s Failure (failure_attempt a)) token (Some (stall_error elapsed))))"
proof -
  have "i \<in> set (hkeys (o_running s))" using assms(1) by (simp add: hkeys_iff)
  then obtain u where u: "agrees_at i s u"
    and rest: "agrees_at i (check_stalled_worker env now timeout i u) (detect_stalled_workers env now timeout s)"
    unfolding detect_stalled_workers_def
    using detect_fold(2) [OF distinct_hkeys, where i = i and s = s and env = env] by blast
  have here: "hget (o_running u) i = Some a" "o_config u = o_config s"
    using u assms(1) by (simp_all add: agrees_at_def)
  have stalled: "stalled_for i now timeout u = Some elapsed"
    using agrees_stalled [OF u, of now timeout] assms(2) by simp
  have delay: "retry_delay_ms u Failure n = retry_delay_ms s Failure n" for n
    using here(2) by (rule retry_delay_config)
  from check_stalled_some [OF here(1) stalled, of env] show ?thesis
    unfolding delay using rest by (simp add: agrees_at_def)
qed

text \<open>Only the issues that are stalled lose the questions they have open.\<close>

lemma check_stalled_questions:
  assumes "registry_ok (o_escalation_registry s)"
  shows "registry_ok (o_escalation_registry (check_stalled_worker env now timeout k s))"
    and "i \<noteq> k \<or> stalled_for i now timeout s = None
      \<Longrightarrow> asks_as_before i s (check_stalled_worker env now timeout k s)"
    and "stalled_for k now timeout s \<noteq> None
      \<Longrightarrow> questions_of k (check_stalled_worker env now timeout k s) q = None"
proof -
  have "check_stalled_worker env now timeout k s = s \<and> stalled_for k now timeout s = None
    \<or> withdrawn k s (check_stalled_worker env now timeout k s) \<and> stalled_for k now timeout s \<noteq> None"
  proof (cases "stalled_for k now timeout s")
    case (Some elapsed)
    then obtain a where a: "hget (o_running s) k = Some a"
      by (auto simp: stalled_for_def split: option.splits)
    obtain u where u: "world_step s u"
      and check: "check_stalled_worker env now timeout k s
        = snd (handle_worker_completion env k (Failed (stall_error elapsed)) now u)"
      using a Some by (auto simp: check_stalled_worker_def stall_error_def Let_def
          intro: that world_step_trans [OF world_step_event world_step_slack])
    have same: "o_escalation_registry u = o_escalation_registry s"
      using u by (auto simp: world_step_def)
    have "withdrawn k u (check_stalled_worker env now timeout k s)"
      unfolding check using assms same by (intro withdrawn_completion) simp
    then show ?thesis using withdrawn_from [OF _ same [symmetric]] Some by simp
  qed (simp add: check_stalled_none)
  then show "registry_ok (o_escalation_registry (check_stalled_worker env now timeout k s))"
    "i \<noteq> k \<or> stalled_for i now timeout s = None
      \<Longrightarrow> asks_as_before i s (check_stalled_worker env now timeout k s)"
    "stalled_for k now timeout s \<noteq> None
      \<Longrightarrow> questions_of k (check_stalled_worker env now timeout k s) q = None"
    using assms by (auto simp: withdrawn_own intro: withdrawn_ok withdrawn_asks)
qed

lemma check_stalled_other:
  "i \<noteq> k \<or> stalled_for i now timeout s = None \<Longrightarrow> agrees_at i s (check_stalled_worker env now timeout k s)"
  by (cases "k = i") (auto simp: check_stalled_none agrees_refl intro: agrees_check_stalled)

lemma detect_fold_questions:
  assumes "registry_ok (o_escalation_registry s)"
  shows "i \<notin> set ks \<or> stalled_for i now timeout s = None
           \<Longrightarrow> asks_as_before i s (fold (check_stalled_worker env now timeout) ks s)"
    and "i \<in> set ks \<Longrightarrow> distinct ks \<Longrightarrow> stalled_for i now timeout s \<noteq> None
           \<Longrightarrow> questions_of i (fold (check_stalled_worker env now timeout) ks s) q = None"
proof -
  let ?chk = "check_stalled_worker env now timeout"
  have kept: "i \<notin> set ks \<or> stalled_for i now timeout s = None \<Longrightarrow> registry_ok (o_escalation_registry s)
      \<Longrightarrow> asks_as_before i s (fold ?chk ks s)" for ks s
  proof (induction ks arbitrary: s)
    case (Cons k ks)
    have here: "i \<noteq> k \<or> stalled_for i now timeout s = None" using Cons.prems(1) by auto
    have "i \<notin> set ks \<or> stalled_for i now timeout (?chk k s) = None"
      using Cons.prems(1) agrees_stalled [OF check_stalled_other [OF here, of env]] by auto
    note rest = Cons.IH [OF this check_stalled_questions(1) [OF Cons.prems(2)]]
    show ?case using asks_trans [OF check_stalled_questions(2) [OF Cons.prems(2) here, of env] rest] by simp
  qed (simp add: asks_refl)
  then show "i \<notin> set ks \<or> stalled_for i now timeout s = None \<Longrightarrow> asks_as_before i s (fold ?chk ks s)"
    using assms by blast
  show "i \<in> set ks \<Longrightarrow> distinct ks \<Longrightarrow> stalled_for i now timeout s \<noteq> None
      \<Longrightarrow> questions_of i (fold ?chk ks s) q = None"
    using assms
  proof (induction ks arbitrary: s)
    case (Cons k ks)
    note step = check_stalled_questions [OF Cons.prems(4), where env = env and now = now
        and timeout = timeout and k = k]
    show ?case
    proof (cases "k = i")
      case True
      then have "i \<notin> set ks" using Cons.prems(2) by simp
      then have "asks_as_before i (?chk k s) (fold ?chk ks (?chk k s))" using kept step(1) by blast
      then show ?thesis using step(3) Cons.prems(3) True by (simp add: asks_as_before_def)
    next
      case False
      then have "stalled_for i now timeout (?chk k s) \<noteq> None"
        using Cons.prems(3) agrees_stalled [OF check_stalled_other [of i k now timeout s env]] by simp
      then show ?thesis using Cons.IH [OF _ _ _ step(1)] Cons.prems(1,2) False by simp
    qed
  qed simp
qed

lemma detect_stalled_questions:
  assumes "registry_ok (o_escalation_registry s)"
  shows "stalled_for i now timeout s = None \<Longrightarrow> asks_as_before i s (detect_stalled_workers env now timeout s)"
    and "stalled_for i now timeout s \<noteq> None
      \<Longrightarrow> questions_of i (detect_stalled_workers env now timeout s) q = None"
proof -
  show "stalled_for i now timeout s = None \<Longrightarrow> asks_as_before i s (detect_stalled_workers env now timeout s)"
    unfolding detect_stalled_workers_def by (rule detect_fold_questions(1) [OF assms]) simp
  assume stalled: "stalled_for i now timeout s \<noteq> None"
  then have "i \<in> set (hkeys (o_running s))"
    by (auto simp: stalled_for_def hkeys_iff split: option.splits)
  then show "questions_of i (detect_stalled_workers env now timeout s) q = None"
    unfolding detect_stalled_workers_def by (rule detect_fold_questions(2) [OF assms]) (use stalled in simp_all)
qed

section \<open>Reconciliation\<close>

definition keeps_running :: "string set \<Rightarrow> string set \<Rightarrow> issue \<Rightarrow> bool" where
  "keeps_running terminal_states active_states i \<longleftrightarrow>
     normalize_issue_state (i_state i) \<notin> terminal_states
     \<and> i_assigned_to_worker i \<and> normalize_issue_state (i_state i) \<in> active_states"

lemma notify_step: "world_step s (notify_state_change env x s)"
  by (auto simp: notify_state_change_def Let_def split: option.splits)

lemma comment_step: "world_step s (maybe_write_completion_comment env x s)"
  by (auto simp: maybe_write_completion_comment_def Let_def call_eq intro: world_step_trans)

lemma mark_terminal_running:
  "hget (o_running (mark_issue_terminal env x hint c s)) = (hget (o_running s))(i_id x := None)"
proof -
  have "o_running (terminal_cleanup env x hint t) = o_running t" for t
    by (simp add: terminal_cleanup_def cleanup_workspace_def call_eq split: option.splits)
  then show ?thesis by (simp add: mark_issue_terminal_def Let_def fun_eq_iff)
qed

lemma release_running:
  "hget (o_running (release_issue env i s)) = (hget (o_running s))(i := None)"
  by (simp add: release_issue_def Let_def fun_eq_iff)

lemma reconcile_issue_running:
  "hget (o_running (reconcile_issue env ts as x s)) i = None
     \<longleftrightarrow> hget (o_running s) i = None \<or> (i = i_id x \<and> \<not> keeps_running ts as x)"
  using world_step_fields(1) [OF notify_step [of s env x]]
    world_step_fields(1) [OF comment_step [of "notify_state_change env x s" env x]]
  by (auto simp: reconcile_issue_def Let_def keeps_running_def mark_terminal_running release_running)

lemma reconcile_fold_running:
  "hget (o_running (fold (reconcile_issue env ts as) xs s)) i = None
     \<longleftrightarrow> hget (o_running s) i = None \<or> (\<exists>x \<in> set xs. i = i_id x \<and> \<not> keeps_running ts as x)"
  by (induction xs arbitrary: s) (auto simp: reconcile_issue_running)

lemma invisible_fold_running:
  "hget (o_running (fold (release_invisible env visible) ids s)) i = None
     \<longleftrightarrow> hget (o_running s) i = None \<or> (i \<in> set ids \<and> i \<notin> visible)"
  by (induction ids arbitrary: s) (auto simp: release_invisible_def release_running)

end
