(* ===== verification/TickFacts.thy ===== *)
theory TickFacts
  imports DispatchFacts CompletionFacts
begin

text \<open>
  The whole tick as one pass of the specification \<open>dispatches\<close> from the reconciled
  state, and the retry pass.
\<close>

section \<open>The tick refines a pass\<close>

definition reconciled :: "'w env \<Rightarrow> bool \<Rightarrow> 'w orchestrator \<Rightarrow> 'w orchestrator" where
  "reconciled env refresh s =
     reconcile_running env (emit_runtime_event EvReconcile (begin_tick env refresh s))"

lemma dispatch_phase_refine:
  assumes "dispatch_phase env s = (r, t)"
  shows "\<exists>ds t0 blocked. dispatches env s ds t0 \<and> (t = t0 \<or> t = t0\<lparr> o_blocked_issues := blocked \<rparr>)
    \<and> (\<forall>res. r = Inr res \<longrightarrow> tr_dispatched_issues res = ds)"
proof -
  let ?s0 = "emit_runtime_event EvDispatch s"
  obtain fetched s1 where f: "call (e_fetch_candidate_issues env) ?s0 = (fetched, s1)"
    by (cases "call (e_fetch_candidate_issues env) ?s0")
  have w: "world_step s s1"
    by (rule world_step_trans [OF world_step_event world_step_call [OF f]])
  show ?thesis
  proof (cases fetched)
    case (Inl err)
    then have "t = s1 \<and> r = Inl err" using assms f by (simp add: dispatch_phase_def)
    then show ?thesis using dispatches_none [OF w] by blast
  next
    case (Inr issues)
    let ?cs = "sort_issues_for_dispatch (filter_pending_automatic_publication env s1 issues)"
    let ?blocked = "blocked_entries s1 ?cs"
    obtain r' t' where d: "dispatch_candidates env (set (map bi_issue_id ?blocked)) ?cs s1 = (r', t')"
      by (cases "dispatch_candidates env (set (map bi_issue_id ?blocked)) ?cs s1")
    from dispatch_candidates_refine [OF d] obtain ds where
      ds: "dispatches env s1 ds t'" "\<forall>ds'. r' = Inr ds' \<longrightarrow> ds' = ds" by blast
    have "dispatches env s ds t'" using w ds(1) by (rule dispatches_world)
    moreover have "(t = t' \<or> t = t'\<lparr> o_blocked_issues := ?blocked \<rparr>)
        \<and> (\<forall>res. r = Inr res \<longrightarrow> tr_dispatched_issues res = ds)"
    proof (cases r')
      case err: (Inl err)
      then have "r = Inl err \<and> t = t'"
        using assms f Inr d by (simp add: dispatch_phase_def Let_def)
      then show ?thesis by simp
    next
      case ok: (Inr ds')
      then have "r = Inr \<lparr> tr_dispatched_issues = ds', tr_dispatch_skipped = False \<rparr>
          \<and> t = t'\<lparr> o_blocked_issues := ?blocked \<rparr>"
        using assms f Inr d by (simp add: dispatch_phase_def Let_def)
      then show ?thesis using ds(2) ok by simp
    qed
    ultimately show ?thesis by blast
  qed
qed

lemma unit_case [simp]: "(case u of () \<Rightarrow> a) = a"
  by (cases u) (simp only: unit.case)

lemma tick_refine:
  assumes "tick_with_refresh env refresh s = (r, t)"
  shows "\<exists>ds t0 blocked. dispatches env (reconciled env refresh s) ds t0
    \<and> (t = t0 \<or> t = t0\<lparr> o_blocked_issues := blocked \<rparr>)
    \<and> (\<forall>res. r = Inr res \<longrightarrow> tr_dispatched_issues res = ds)"
proof -
  let ?u = "reconciled env refresh s"
  let ?s2 = "emit_runtime_event EvValidate ?u"
  have start: "tick_with_refresh env refresh s =
      (case e_config_validate env (o_config ?s2) of
         Inl err \<Rightarrow> (Inr skipped_tick, emit_runtime_event EvValidationSkippedDispatch ?s2)
       | Inr () \<Rightarrow>
           (case call (e_validate_dispatch_preflight env (o_config ?s2)) ?s2 of
              (Inl err, s3) \<Rightarrow> (Inr skipped_tick, emit_runtime_event EvValidationSkippedDispatch s3)
            | (Inr (), s3) \<Rightarrow> dispatch_phase env s3))"
    unfolding tick_with_refresh_def reconciled_def Let_def by (rule refl)
  obtain v s3 where v: "call (e_validate_dispatch_preflight env (o_config ?s2)) ?s2 = (v, s3)"
    by (cases "call (e_validate_dispatch_preflight env (o_config ?s2)) ?s2")
  have w: "world_step ?u s3"
    by (rule world_step_trans [OF world_step_event world_step_call [OF v]])
  have stop: "\<exists>ds t0 blocked. dispatches env ?u ds t0 \<and> (t = t0 \<or> t = t0\<lparr> o_blocked_issues := blocked \<rparr>)
      \<and> (\<forall>res. r = Inr res \<longrightarrow> tr_dispatched_issues res = ds)"
    if "r = Inr skipped_tick" "world_step ?u t"
    using dispatches_none [OF that(2), of env] that(1) by (auto simp: skipped_tick_def)
  show ?thesis
  proof (cases "e_config_validate env (o_config ?s2)")
    case (Inl err)
    then have "r = Inr skipped_tick" "t = emit_runtime_event EvValidationSkippedDispatch ?s2"
      using assms start by simp_all
    then show ?thesis
      by (intro stop) (auto intro: world_step_trans [OF world_step_event world_step_event])
  next
    case valid: (Inr x)
    show ?thesis
    proof (cases v)
      case (Inl err)
      then have "r = Inr skipped_tick" "t = emit_runtime_event EvValidationSkippedDispatch s3"
        using assms start v valid by simp_all
      then show ?thesis by (intro stop) (auto intro: world_step_trans [OF w world_step_event])
    next
      case (Inr y)
      then have "dispatch_phase env s3 = (r, t)" using assms start v valid by simp
      from dispatch_phase_refine [OF this] show ?thesis
        using dispatches_world [OF w] by blast
    qed
  qed
qed

text \<open>What a tick that ends well reports.\<close>

lemma dispatch_phase_ok:
  assumes "dispatch_phase env s = (Inr res, t)"
  shows "\<exists>issues s1 t0. world_step s s1 \<and> fst (e_fetch_candidate_issues env (o_world s)) = Inr issues
    \<and> (let cs = sort_issues_for_dispatch (filter_pending_automatic_publication env s1 issues)
       in dispatch_candidates env (set (map bi_issue_id (blocked_entries s1 cs))) cs s1
            = (Inr (tr_dispatched_issues res), t0)
          \<and> t = t0\<lparr> o_blocked_issues := blocked_entries s1 cs \<rparr>)"
proof -
  let ?s0 = "emit_runtime_event EvDispatch s"
  obtain fetched s1 where f: "call (e_fetch_candidate_issues env) ?s0 = (fetched, s1)"
    by (cases "call (e_fetch_candidate_issues env) ?s0")
  have w: "world_step s s1"
    by (rule world_step_trans [OF world_step_event world_step_call [OF f]])
  obtain issues where issues: "fetched = Inr issues"
    using assms f by (cases fetched) (simp_all add: dispatch_phase_def)
  let ?cs = "sort_issues_for_dispatch (filter_pending_automatic_publication env s1 issues)"
  let ?run = "dispatch_candidates env (set (map bi_issue_id (blocked_entries s1 ?cs))) ?cs s1"
  obtain r t0 where r: "?run = (r, t0)" by (cases ?run)
  have "fst (e_fetch_candidate_issues env (o_world s)) = Inr issues"
    using f issues by (simp add: call_eq emit_runtime_event_def)
  moreover have "r = Inr (tr_dispatched_issues res) \<and> t = t0\<lparr> o_blocked_issues := blocked_entries s1 ?cs \<rparr>"
    using assms f issues r by (cases r) (auto simp: dispatch_phase_def Let_def)
  ultimately show ?thesis using w r by (auto simp: Let_def)
qed

lemma tick_ok:
  assumes "tick_with_refresh env refresh s = (Inr res, t)"
  shows "res = skipped_tick \<or> (\<exists>u. dispatch_phase env u = (Inr res, t))"
proof -
  let ?s2 = "emit_runtime_event EvValidate (reconciled env refresh s)"
  obtain v s3 where v: "call (e_validate_dispatch_preflight env (o_config ?s2)) ?s2 = (v, s3)"
    by (cases "call (e_validate_dispatch_preflight env (o_config ?s2)) ?s2")
  have "tick_with_refresh env refresh s =
      (case e_config_validate env (o_config ?s2) of
         Inl err \<Rightarrow> (Inr skipped_tick, emit_runtime_event EvValidationSkippedDispatch ?s2)
       | Inr () \<Rightarrow>
           (case (v, s3) of
              (Inl err, s3) \<Rightarrow> (Inr skipped_tick, emit_runtime_event EvValidationSkippedDispatch s3)
            | (Inr (), s3) \<Rightarrow> dispatch_phase env s3))"
    unfolding v [symmetric] unfolding tick_with_refresh_def reconciled_def Let_def by (rule refl)
  then show ?thesis
    using assms by (cases "e_config_validate env (o_config ?s2)"; cases v) auto
qed

section \<open>What every dispatched issue satisfies\<close>

lemma candidate_check_config:
  "o_config t = o_config s \<Longrightarrow> is_candidate_for_blocked_check t i = is_candidate_for_blocked_check s i"
  by (simp add: is_candidate_for_blocked_check_def terminal_state_set_def active_state_set_def
      issue_has_excluded_label_def)

lemma dispatches_eligible:
  "dispatches env s ds t \<Longrightarrow> (\<forall>d \<in> set ds. is_candidate_for_blocked_check s (di_issue d)
       \<and> i_parent_identifier (di_issue d) = None)
     \<and> o_config t = o_config s"
proof (induction rule: dispatches.induct)
  case (dispatches_none s t)
  then show ?case by (simp add: world_step_fields)
next
  case (dispatches_one s s1 d p ds t)
  have c: "o_config s1 = o_config s" using dispatches_one.hyps(1) by (simp add: world_step_fields)
  have "is_candidate_for_blocked_check s1 (di_issue d)" "i_parent_identifier (di_issue d) = None"
    using dispatches_one.hyps(2) by (auto simp: should_dispatch_candidate_check should_dispatch_iff)
  then show ?case
    using dispatches_one.IH c
    by (auto simp: candidate_check_config [of s1 s]
        candidate_check_config [of "dispatch_issue env (di_issue d) None (Some p) (di_worker_host d) s1" s]
        state_simps)
qed

section \<open>The retry pass\<close>

lemma retry_dispatched:
  assumes "fst (process_retry env now r s) = Some d"
  shows "di_attempt d = Some (re_attempt r)"
  using assms
  by (auto simp: process_retry_def retry_fired_def retry_visible_issue_def retry_dispatch_def Let_def
      split: option.splits prod.splits sum.splits if_splits)

lemma process_retries_dispatched:
  "d \<in> set (fst (process_retries env now rs s)) \<Longrightarrow> \<exists>r \<in> set rs. di_attempt d = Some (re_attempt r)"
proof (induction rs arbitrary: s)
  case (Cons r rs)
  then show ?case
    using retry_dispatched [of env now r s]
    by (auto simp: Let_def case_prod_unfold split: option.splits)
qed simp

section \<open>Retries and the agent-review gate\<close>

lemma config_kept:
  "o_config (cancel_pending_escalations_for_issue env i reason s) = o_config s"
  "o_config (terminal_cleanup env x hint s) = o_config s"
  "o_config (mark_issue_terminal env x hint c s) = o_config s"
  "o_config (maybe_write_completion_comment env x s) = o_config s"
  "o_config (release_issue env i s) = o_config s"
  "o_config (reschedule_failure r ctx now i ident err s) = o_config s"
  "o_config (snd (schedule_retry_with_context i ident n kind now maybe_err ctx s)) = o_config s"
  "o_config (snd (fire_retry i token s)) = o_config s"
proof -
  show c: "o_config (cancel_pending_escalations_for_issue env i reason s) = o_config s" for env i reason s
    by (rule cancel_fields)
  show t: "o_config (terminal_cleanup env x hint s) = o_config s" for s
    by (simp add: terminal_cleanup_def cleanup_workspace_def call_eq split: option.splits)
  show "o_config (mark_issue_terminal env x hint c s) = o_config s"
    by (simp add: mark_issue_terminal_def Let_def c t)
  show "o_config (maybe_write_completion_comment env x s) = o_config s"
    by (rule world_step_fields(5) [OF comment_step])
  show "o_config (release_issue env i s) = o_config s" by (simp add: release_issue_def Let_def c)
  show sched: "o_config (snd (schedule_retry_with_context i ident n kind now maybe_err ctx s)) = o_config s"
    for i ident n kind now maybe_err ctx s
    by (simp add: schedule_retry_with_context_def emit_runtime_event_def Let_def split: option.splits)
  show "o_config (reschedule_failure r ctx now i ident err s) = o_config s"
    by (simp add: reschedule_failure_def sched)
  show "o_config (snd (fire_retry i token s)) = o_config s"
    by (simp add: fire_retry_def emit_runtime_event_def split: option.splits)
qed

lemma retry_dispatch_config:
  "o_config (snd (retry_dispatch env r ctx now policy p sc i s)) = o_config s"
  by (auto simp: retry_dispatch_def Let_def config_kept state_simps)

lemma retry_visible_config: "o_config (snd (retry_visible_issue env r ctx now i s)) = o_config s"
proof -
  let ?policy = "workspace_refresh_policy_for_dispatch i (Some (re_attempt r))"
  obtain prep s1 where p: "prepare_workspace_for_active_dispatch env i ?policy s = (prep, s1)"
    by (cases "prepare_workspace_for_active_dispatch env i ?policy s")
  have c1: "o_config s1 = o_config s" using prepare_frame [OF p] by (rule world_step_fields(5))
  have "o_config (snd (enforce_agent_review_pr_gate env i q s1)) = o_config s1" for q
    using gate_frame [of env i q s1] by (cases "enforce_agent_review_pr_gate env i q s1")
      (auto dest: world_step_fields(5))
  then have gate: "o_config v = o_config s" if "enforce_agent_review_pr_gate env i q s1 = (u, v)" for q u v
    using that c1 by (metis snd_conv)
  show ?thesis
    by (auto simp: retry_visible_issue_def Let_def p c1 retry_dispatch_config gate
        split: option.splits prod.splits sum.splits)
qed

lemma process_retry_config: "o_config (snd (process_retry env now r s)) = o_config s"
proof (cases "re_timer_handle r")
  case (Some token)
  obtain fired s1 where f: "fire_retry (re_issue_id r) token s = (fired, s1)"
    by (cases "fire_retry (re_issue_id r) token s")
  have c1: "o_config s1 = o_config s" using config_kept(8) [of "re_issue_id r" token s] f by simp
  have "o_config (retry_hidden_issue env r ctx now u) = o_config u" for ctx u
    by (auto simp: retry_hidden_issue_def call_eq case_prod_unfold config_kept split: sum.splits option.splits)
  then have "o_config (snd (retry_fired env r now s1)) = o_config s1"
    by (simp add: retry_fired_def Let_def call_eq case_prod_unfold config_kept retry_visible_config
        split: sum.splits option.splits)
  then show ?thesis using Some f c1 by (simp add: process_retry_def)
qed (simp add: process_retry_def)

lemma retry_visible_on_evidence:
  assumes "retry_visible_issue env r ctx now i s = (Some d, t)"
    and "normalize_issue_state (i_state (di_issue d)) = ''agent review''"
  shows "\<exists>a. hget (o_running t) (i_id (di_issue d)) = Some a
    \<and> issue_run (di_worker_host d) (di_attempt d) (di_issue d) a \<and> started_on_evidence env (required_base s) a"
proof -
  let ?policy = "workspace_refresh_policy_for_dispatch i (Some (re_attempt r))"
  obtain prep s1 where p: "prepare_workspace_for_active_dispatch env i ?policy s = (prep, s1)"
    by (cases "prepare_workspace_for_active_dispatch env i ?policy s")
  then obtain path sc where prep: "prep = Some (path, sc)"
    using assms(1) by (cases prep) (auto simp: retry_visible_issue_def)
  obtain verdict s2 where g: "enforce_agent_review_pr_gate env i path s1 = (verdict, s2)"
    by (cases "enforce_agent_review_pr_gate env i path s1")
  then obtain j where v: "verdict = Inr (Some j)"
    and run: "retry_dispatch env r ctx now ?policy path sc j s2 = (Some d, t)"
    using assms(1) p prep by (auto simp: retry_visible_issue_def Let_def split: sum.splits option.splits)
  have d: "di_issue d = j" "di_attempt d = Some (re_attempt r)"
    "t = dispatch_issue env j (Some (re_attempt r)) (Some path) (di_worker_host d) s2"
    using run by (auto simp: retry_dispatch_def Let_def split: if_splits)
  have "o_config s2 = o_config s"
    using world_step_fields(5) [OF prepare_frame [OF p]] gate_frame [OF g] by (auto dest: world_step_fields(5))
  then have "required_base s2 = required_base s" by (rule required_base_config)
  with dispatch_on_evidence [OF gate_passed [OF g [unfolded v]], of "Some (re_attempt r)" "di_worker_host d"]
  show ?thesis using assms(2) d by auto
qed

lemma process_retry_on_evidence:
  assumes "process_retry env now r s = (Some d, t)"
    and "normalize_issue_state (i_state (di_issue d)) = ''agent review''"
  shows "\<exists>a. hget (o_running t) (i_id (di_issue d)) = Some a
    \<and> issue_run (di_worker_host d) (di_attempt d) (di_issue d) a \<and> started_on_evidence env (required_base s) a"
proof -
  obtain token where token: "re_timer_handle r = Some token"
    using assms(1) by (cases "re_timer_handle r") (auto simp: process_retry_def)
  obtain fired s1 where f: "fire_retry (re_issue_id r) token s = (fired, s1)"
    by (cases "fire_retry (re_issue_id r) token s")
  obtain cs s2 where fetch: "call (e_fetch_candidate_issues env) s1 = (cs, s2)"
    by (cases "call (e_fetch_candidate_issues env) s1")
  obtain ctx i where run: "retry_visible_issue env r ctx now i s2 = (Some d, t)"
    using assms(1) token f fetch
    by (auto simp: process_retry_def retry_fired_def Let_def split: if_splits sum.splits option.splits)
  have "o_config s2 = o_config s"
    using config_kept(8) [of "re_issue_id r" token s] f fetch by (auto simp: call_eq)
  then have "required_base s2 = required_base s" by (rule required_base_config)
  then show ?thesis using retry_visible_on_evidence [OF run assms(2)] by simp
qed

lemma process_retries_on_evidence:
  "d \<in> set (fst (process_retries env now rs s))
     \<Longrightarrow> normalize_issue_state (i_state (di_issue d)) = ''agent review''
     \<Longrightarrow> \<exists>a. issue_run (di_worker_host d) (di_attempt d) (di_issue d) a \<and> started_on_evidence env (required_base s) a"
proof (induction rs arbitrary: s)
  case (Cons r rs)
  obtain step s1 where r: "process_retry env now r s = (step, s1)" by (cases "process_retry env now r s")
  have base: "required_base s1 = required_base s"
    using process_retry_config [of env now r s] r by (intro required_base_config) simp
  consider "step = Some d" | "d \<in> set (fst (process_retries env now rs s1))"
    using Cons.prems(1) r by (auto simp: Let_def case_prod_unfold split: option.splits)
  then show ?case
    using process_retry_on_evidence [of env now r s d s1] r Cons.IH [of s1] Cons.prems(2) base
    by cases auto
qed simp

end
