(* ===== verification/EscalationProtocol.thy ===== *)
theory EscalationProtocol
  imports Escalation
begin

text \<open>
  The registry of \<open>Escalation\<close> under concurrent callers. HTTP handlers resolve
  requests while the orchestrator registers, removes and cancels them; each locked section
  is atomic and a \<open>resolve\<close> may be between its two sections while others run. A one-shot
  channel is made for every registration, so its number is fresh.
\<close>

record escalation_system =
  ey_registry :: registry_state
  ey_taken :: "(string \<times> nat) list"      \<comment> \<open>resolves between taking the entry and sending\<close>
  ey_answered :: "string list"             \<comment> \<open>resolves between sending and recording\<close>
  ey_delivered :: "nat list"               \<comment> \<open>channels whose receiver got a response\<close>
  ey_used :: "nat set"                     \<comment> \<open>channels created so far\<close>

definition initial_system :: escalation_system where
  "initial_system = \<lparr> ey_registry = empty_registry, ey_taken = [], ey_answered = [],
     ey_delivered = [], ey_used = {} \<rparr>"

inductive escalation_step :: "escalation_system \<Rightarrow> escalation_system \<Rightarrow> bool" where
  do_register: "tx \<notin> ey_used s \<Longrightarrow>
    escalation_step s (s\<lparr> ey_registry := register request tx (ey_registry s),
                          ey_used := insert tx (ey_used s) \<rparr>)"
| do_take: "resolve_take request_id (ey_registry s) = (Inr entry, reg') \<Longrightarrow>
    escalation_step s (s\<lparr> ey_registry := reg',
                          ey_taken := (request_id, ee_response_tx entry) # ey_taken s \<rparr>)"
| do_refuse: "resolve_take request_id (ey_registry s) = (Inl r, reg') \<Longrightarrow>
    escalation_step s (s\<lparr> ey_registry := reg' \<rparr>)"
| do_send: "ey_taken s = before @ (request_id, tx) # after \<Longrightarrow>
    escalation_step s (s\<lparr> ey_taken := before @ after,
                          ey_answered := request_id # ey_answered s,
                          ey_delivered := tx # ey_delivered s \<rparr>)"
| do_send_failed: "ey_taken s = before @ (request_id, tx) # after \<Longrightarrow>
    escalation_step s (s\<lparr> ey_taken := before @ after \<rparr>)"
| do_record: "ey_answered s = before @ request_id # after \<Longrightarrow>
    escalation_step s (s\<lparr> ey_registry := resolve_record request_id (ey_registry s),
                          ey_answered := before @ after \<rparr>)"
| do_remove: "escalation_step s
    (s\<lparr> ey_registry := snd (registry_remove request_id (ey_registry s)) \<rparr>)"
| do_cancel: "escalation_step s
    (s\<lparr> ey_registry := snd (cancel_for_issue issue_id (ey_registry s)) \<rparr>)"

inductive escalation_reachable :: "escalation_system \<Rightarrow> bool" where
  start: "escalation_reachable initial_system"
| step: "escalation_reachable s \<Longrightarrow> escalation_step s t \<Longrightarrow> escalation_reachable t"

inductive_cases escalation_stepE: "escalation_step s t"

section \<open>The invariant\<close>

definition pending_tx :: "registry_state \<Rightarrow> string \<Rightarrow> nat option" where
  "pending_tx reg request_id = map_option ee_response_tx (hget (rg_pending reg) request_id)"

text \<open>
  Every channel is in at most one place: waiting in the registry under one id, held by a
  resolve that took it, or used.
\<close>

definition channels_ok :: "(string \<Rightarrow> nat option) \<Rightarrow> nat list \<Rightarrow> nat list \<Rightarrow> nat set \<Rightarrow> bool" where
  "channels_ok pend taken delivered used \<longleftrightarrow>
     inj_on pend (dom pend) \<and> ran pend \<subseteq> used \<and> set taken \<subseteq> used \<and> set delivered \<subseteq> used
     \<and> distinct taken \<and> distinct delivered
     \<and> ran pend \<inter> set taken = {} \<and> ran pend \<inter> set delivered = {} \<and> set taken \<inter> set delivered = {}"

definition system_ok :: "escalation_system \<Rightarrow> bool" where
  "system_ok s \<longleftrightarrow> registry_ok (ey_registry s)
     \<and> channels_ok (pending_tx (ey_registry s)) (map snd (ey_taken s)) (ey_delivered s) (ey_used s)"

lemma channels_ok_shrink:
  assumes "channels_ok pend taken delivered used" "\<And>r. pend' r = None \<or> pend' r = pend r"
  shows "channels_ok pend' taken delivered used"
proof -
  have some: "pend r = Some tx" if "pend' r = Some tx" for r tx
    using assms(2) [of r] that by auto
  then have sub: "ran pend' \<subseteq> ran pend"
    by (fastforce simp: ran_def)
  have "inj_on pend' (dom pend')"
  proof (rule inj_onI)
    fix r r' assume "r \<in> dom pend'" "r' \<in> dom pend'" and eq: "pend' r = pend' r'"
    then obtain tx where "pend' r = Some tx" by auto
    moreover from this eq have "pend' r' = Some tx" by simp
    ultimately have "pend r = Some tx" "pend r' = Some tx" by (simp_all add: some)
    then show "r = r'"
      using assms(1) unfolding channels_ok_def by (metis domI inj_onD)
  qed
  with sub assms(1) show ?thesis by (auto simp: channels_ok_def)
qed

lemma channels_ok_add:
  assumes "channels_ok pend taken delivered used" "tx \<notin> used"
  shows "channels_ok (pend(r \<mapsto> tx)) taken delivered (insert tx used)"
proof -
  have fresh: "tx \<notin> ran pend" using assms by (auto simp: channels_ok_def)
  have "ran (pend(r \<mapsto> tx)) \<subseteq> insert tx (ran pend)" by (auto simp: ran_def)
  moreover have "inj_on (pend(r \<mapsto> tx)) (dom (pend(r \<mapsto> tx)))"
    using assms(1) fresh by (auto simp: channels_ok_def inj_on_def ran_def dom_def)
  ultimately show ?thesis using assms by (auto simp: channels_ok_def)
qed

lemma channels_ok_take:
  assumes "channels_ok pend taken delivered used" "pend r = Some tx"
  shows "channels_ok (pend(r := None)) (tx # taken) delivered used"
proof -
  have ok: "channels_ok (pend(r := None)) taken delivered used"
    by (rule channels_ok_shrink [OF assms(1)]) auto
  have "tx \<notin> ran (pend(r := None))"
    using assms unfolding channels_ok_def inj_on_def ran_def dom_def by auto
  moreover have "tx \<in> ran pend" using assms(2) by (auto simp: ran_def)
  ultimately show ?thesis using ok assms(1) by (auto simp: channels_ok_def)
qed

lemma channels_ok_sent:
  "channels_ok pend (xs @ tx # ys) delivered used \<Longrightarrow> channels_ok pend (xs @ ys) (tx # delivered) used"
  by (auto simp: channels_ok_def)

lemma channels_ok_dropped:
  "channels_ok pend (xs @ tx # ys) delivered used \<Longrightarrow> channels_ok pend (xs @ ys) delivered used"
  by (auto simp: channels_ok_def)

lemma pending_tx_register:
  "pending_tx (register request tx reg) = (pending_tx reg)(er_id request \<mapsto> tx)"
  by (auto simp: pending_tx_def register_def fun_eq_iff)

lemma pending_tx_take:
  "resolve_take request_id reg = (Inr entry, reg') \<Longrightarrow>
     pending_tx reg request_id = Some (ee_response_tx entry)
     \<and> pending_tx reg' = (pending_tx reg)(request_id := None)"
  by (auto simp: resolve_take_def pending_tx_def fun_eq_iff split: option.splits if_splits)

lemma resolve_take_refused: "resolve_take request_id reg = (Inl r, reg') \<Longrightarrow> reg' = reg"
  by (auto simp: resolve_take_def split: option.splits if_splits)

lemma pending_tx_record [simp]: "pending_tx (resolve_record request_id reg) = pending_tx reg"
  by (simp add: pending_tx_def resolve_record_def fun_eq_iff)

lemma pending_tx_remove:
  "pending_tx (snd (registry_remove request_id reg)) r = None
     \<or> pending_tx (snd (registry_remove request_id reg)) r = pending_tx reg r"
  by (simp add: pending_tx_def registry_remove_def)

lemma pending_tx_cancel:
  "pending_tx (snd (cancel_for_issue issue_id reg)) r = None
     \<or> pending_tx (snd (cancel_for_issue issue_id reg)) r = pending_tx reg r"
  by (simp add: pending_tx_def cancel_for_issue_pending split: option.splits)

lemma system_ok_initial: "system_ok initial_system"
proof -
  have "pending_tx empty_registry = Map.empty"
    by (simp add: pending_tx_def empty_registry_def fun_eq_iff)
  then show ?thesis
    by (simp add: system_ok_def initial_system_def registry_ok_empty channels_ok_def)
qed

lemma system_ok_step: "escalation_step s t \<Longrightarrow> system_ok s \<Longrightarrow> system_ok t"
proof (induction rule: escalation_step.induct)
  case (do_register tx s request)
  then show ?case
    by (simp add: system_ok_def registry_ok_register pending_tx_register channels_ok_add)
next
  case (do_take request_id s entry reg')
  then show ?case
    using registry_ok_take [of "ey_registry s" request_id] pending_tx_take [OF do_take.hyps]
    by (simp add: system_ok_def channels_ok_take)
next
  case (do_refuse request_id s r reg')
  have "reg' = ey_registry s" using do_refuse.hyps by (rule resolve_take_refused)
  then show ?case using do_refuse.prems by (simp add: system_ok_def)
next
  case (do_send s before request_id tx after)
  then show ?case by (simp add: system_ok_def channels_ok_sent)
next
  case (do_send_failed s before request_id tx after)
  then show ?case by (auto simp: system_ok_def dest: channels_ok_dropped)
next
  case (do_record s before request_id after)
  then show ?case by (simp add: system_ok_def registry_ok_record)
next
  case (do_remove s request_id)
  then show ?case
    by (auto simp: system_ok_def registry_ok_remove intro!: channels_ok_shrink [OF _ pending_tx_remove])
next
  case (do_cancel s issue_id)
  then show ?case
    by (auto simp: system_ok_def registry_ok_cancel intro!: channels_ok_shrink [OF _ pending_tx_cancel])
qed

lemma reachable_system_ok: "escalation_reachable s \<Longrightarrow> system_ok s"
  by (induction rule: escalation_reachable.induct) (auto intro: system_ok_initial system_ok_step)

end
