(* ===== verification/Examples.thy ===== *)
theory Examples
  imports TickFacts EscalationProtocol
begin

text \<open>
  A small concrete deployment: one issue, a clock that advances by a millisecond at every
  reading, and a tracker, workspaces and commands with fixed answers. The concrete
  instances of the properties are evaluated on it.
\<close>

definition example_config :: service_config where
  "example_config =
     \<lparr> sc_tracker = default_tracker_config, sc_polling_interval_ms = 30000,
       sc_workspace = default_workspace_config ''/work'',
       sc_worker = \<lparr> wk_ssh_hosts = [''a'', ''b''], wk_max_concurrent_agents_per_host = Some 1 \<rparr>,
       sc_agent = default_agent_config, sc_codex_stall_timeout_ms = 300000,
       sc_pi_agent = default_pi_agent_config, sc_agent_backend = KataCli, sc_server_port = None,
       sc_slack = None, sc_shared_context_ttl_ms = 1000, sc_shared_context_max_entries = 2 \<rparr>"

definition example_issue :: "string \<Rightarrow> string \<Rightarrow> issue" where
  "example_issue issue_id state =
     \<lparr> i_id = issue_id, i_identifier = ''KAT-1'', i_title = ''Title'', i_description = None,
       i_priority = Some 2, i_state = state, i_branch_name = None, i_url = None,
       i_assignee_id = None, i_labels = [], i_blocked_by = [], i_assigned_to_worker = True,
       i_created_at = None, i_updated_at = None, i_children_count = 0, i_parent_identifier = None \<rparr>"

definition example_env :: "issue list \<Rightarrow> int env" where
  "example_env issues =
     \<lparr> e_startup_terminal_issues = (\<lambda>_ w. (Inr [], w)),
       e_reconcile_running_issues = (\<lambda>ids w. (Inr (filter (\<lambda>i. i_id i \<in> set ids) issues), w)),
       e_validate_dispatch_preflight = (\<lambda>_ w. (Inr (), w)),
       e_fetch_candidate_issues = (\<lambda>w. (Inr issues, w)),
       e_refresh_issue = (\<lambda>k w. (Inr (find (\<lambda>i. i_id i = k) issues), w)),
       e_create_issue_comment = (\<lambda>_ _ w. (Inr (), w)),
       e_update_issue_state = (\<lambda>_ _ w. (Inr (), w)),
       e_now = (\<lambda>w. (w, w + 1000000)),
       e_effective_config = (\<lambda>_. None),
       e_config_validate = (\<lambda>_. Inr ()),
       e_ensure_workspace = (\<lambda>_ _ _ w. (Inr (''/work/KAT-1'', None), w)),
       e_workspace_exists = (\<lambda>_ _. False),
       e_remove_workspace = (\<lambda>_ _ _ w. (Inr (), w)),
       e_scan_workspace_root = (\<lambda>_ _ _. hempty),
       e_run_command = (\<lambda>_ _ _ w. (Inl ''missing'', w)),
       e_parse_pull_request = (\<lambda>_. Inl ''missing''),
       e_pending_guards = (\<lambda>_. None),
       e_url_host = (\<lambda>_. None),
       e_slack = (\<lambda>_ _ _ _ _ _ w. w),
       e_state_prompt = (\<lambda>_ _ _. None),
       e_triage_poll = (\<lambda>_ w. w),
       e_new_channel = (\<lambda>w. (0, w)),
       e_start_worker = (\<lambda>_ w. w),
       e_send_follow_up = (\<lambda>_ _ w. (FollowUpAccepted, w)),
       e_json_parse = (\<lambda>_. None),
       e_json_render = (\<lambda>_. []) \<rparr>"

definition example_start :: "int orchestrator" where
  "example_start = new_orchestrator example_config ''template'' None 0"

text \<open>One issue running, as a dispatch leaves it.\<close>

definition example_running :: "int orchestrator" where
  "example_running =
     dispatch_issue (example_env []) (example_issue ''1'' ''Todo'') None (Some ''/work/KAT-1'') (Some ''a'')
       example_start"

lemma example_start_inv: "orch_inv example_start"
  by (simp add: example_start_def orch_inv_new)

lemma example_running_inv: "orch_inv example_running"
  by (simp add: example_running_def inv_dispatch example_start_inv)

definition example_ready :: "int orchestrator" where
  "example_ready = emit_runtime_event EvStartupCleanup example_start"

lemma example_reachable: "orchestrator_reachable (example_env issues) example_ready"
proof -
  have start: "startup_cleanup (example_env issues) example_start = (Inr (), example_ready)"
    by (simp add: startup_cleanup_def example_env_def call_eq Let_def example_ready_def)
  show ?thesis
    by (rule reach_start [OF start [unfolded example_start_def]])
qed

lemma example_reachable_poll:
  "orchestrator_reachable (example_env issues) (poll_cycle (example_env issues) example_ready)"
  by (rule reach_step [OF example_reachable step_poll])

lemma example_running_attempt:
  "\<exists>a. o_running example_running = hput ''1'' a hempty
     \<and> issue_run (Some ''a'') None (example_issue ''1'' ''Todo'') a"
proof -
  have "i_id (example_issue ''1'' ''Todo'') = ''1''" by (simp add: example_issue_def)
  then show ?thesis
    using dispatch_running [of "example_env []" "example_issue ''1'' ''Todo''" None
        "Some ''/work/KAT-1''" "Some ''a''" example_start]
    by (simp add: example_running_def example_start_def new_orchestrator_def)
qed

text \<open>A tracker with one issue to do: a tick that dispatches it to the first host.\<close>

lemma example_should_dispatch:
  assumes "o_config s = example_config" "o_running s = hempty" "o_claimed s = {}"
    "o_max_concurrent_agents s = 10"
  shows "should_dispatch_issue (example_env issues) s (example_issue ''1'' ''Todo'')"
proof -
  let ?x = "example_issue ''1'' ''Todo''"
  have todo: "normalize_issue_state ''Todo'' = ''todo''" by code_simp
  have closed: "''todo'' \<notin> set (filter (\<lambda>st. st \<noteq> []) (map normalize_issue_state
      (tc_terminal_states default_tracker_config)))"
    and active: "''todo'' \<in> set (filter (\<lambda>st. st \<noteq> []) (map normalize_issue_state
      (tc_active_states default_tracker_config)))"
    by code_simp+
  have fields: "issue_has_required_fields ?x" by code_simp
  have label: "\<not> issue_has_excluded_label s ?x"
    using assms by (simp add: issue_has_excluded_label_def label_keys_def example_config_def
        default_tracker_config_def)
  show ?thesis
    using assms todo closed active fields label
    by (simp add: should_dispatch_issue_def terminal_state_set_def active_state_set_def
        example_config_def issue_blocked_by_pending_automatic_publication_def hmember_def
        available_slots_def)
      (simp add: example_issue_def example_env_def)
qed

lemma example_select_host:
  assumes "o_config s = example_config" "o_running s = hempty"
  shows "select_host s preferred = SelRemote (if preferred = Some ''b'' then ''b'' else ''a'')"
proof -
  have "hvals (hempty :: (string, run_attempt) hmap) = []"
    using hvals_iff [of _ "hempty :: (string, run_attempt) hmap"]
    by (cases "hvals (hempty :: (string, run_attempt) hmap)") auto
  then show ?thesis
    using assms
    by (auto simp: select_host_def Let_def example_config_def default_workspace_config_def
        host_loads_def select_worker_host_def eligible_hosts_def host_load_def split: option.splits)
qed

lemma example_gate:
  "enforce_agent_review_pr_gate env (example_issue ''1'' ''Todo'') path s
     = (Inr (Some (example_issue ''1'' ''Todo'')), s)"
proof -
  have "normalize_issue_state ''Todo'' \<noteq> ''agent review''" by code_simp
  then show ?thesis by (simp add: enforce_agent_review_pr_gate_def example_issue_def)
qed

lemma example_dispatch_candidate:
  assumes "o_config s = example_config" "o_running s = hempty" "o_claimed s = {}"
    "o_max_concurrent_agents s = 10"
  shows "\<exists>d t. dispatch_candidate (example_env [example_issue ''1'' ''Todo'']) {} (example_issue ''1'' ''Todo'') s
      = (Inr (Some d), t) \<and> di_issue d = example_issue ''1'' ''Todo'' \<and> di_worker_host d = Some ''a''"
proof -
  let ?x = "example_issue ''1'' ''Todo''"
  let ?env = "example_env [?x]"
  have refresh: "call (e_refresh_issue ?env (i_id ?x)) s = (Inr (Some ?x), s)"
    by (simp add: call_eq example_env_def)
  have prepare: "prepare_workspace_for_active_dispatch ?env ?x p s = (Some (''/work/KAT-1'', None), s)" for p
    by (simp add: prepare_workspace_for_active_dispatch_def call_eq example_env_def)
  show ?thesis
    using example_should_dispatch [OF assms] example_select_host [OF assms(1,2)]
    by (simp add: dispatch_candidate_def refresh prepare example_gate Let_def)
qed

lemma example_dispatch_phase:
  assumes "o_config s = example_config" "o_running s = hempty" "o_claimed s = {}"
    "o_max_concurrent_agents s = 10"
  shows "\<exists>d t. dispatch_phase (example_env [example_issue ''1'' ''Todo'']) s
      = (Inr \<lparr> tr_dispatched_issues = [d], tr_dispatch_skipped = False \<rparr>, t)
    \<and> di_issue d = example_issue ''1'' ''Todo'' \<and> di_worker_host d = Some ''a''"
proof -
  let ?x = "example_issue ''1'' ''Todo''"
  let ?env = "example_env [?x]"
  let ?s1 = "emit_runtime_event EvDispatch s"
  have fetch: "call (e_fetch_candidate_issues ?env) ?s1 = (Inr [?x], ?s1)"
    by (simp add: call_eq example_env_def)
  have sorted: "sort_issues_for_dispatch (filter_pending_automatic_publication ?env u [?x]) = [?x]" for u
    by (simp add: filter_pending_automatic_publication_def sort_issues_for_dispatch_def example_env_def)
  have "i_blocked_by ?x = []" by (simp add: example_issue_def)
  then have blocked: "blocked_entries u [?x] = []" for u
    by (simp add: blocked_entries_def is_blocked_by_dependency_def List.map_filter_simps)
  have slots: "available_slots ?s1 \<noteq> 0"
    using assms by (simp add: available_slots_def emit_runtime_event_def)
  obtain d t where "dispatch_candidate ?env {} ?x ?s1 = (Inr (Some d), t)"
    "di_issue d = ?x" "di_worker_host d = Some ''a''"
    using example_dispatch_candidate [of ?s1] assms by (auto simp: emit_runtime_event_def)
  then show ?thesis
    by (simp add: dispatch_phase_def fetch sorted blocked slots Let_def)
qed

text \<open>The state a tick dispatches from, whatever issues the tracker holds.\<close>

lemma example_tick_start:
  "o_config (reconciled (example_env issues) False example_start) = example_config"
  "o_running (reconciled (example_env issues) False example_start) = hempty"
  "o_claimed (reconciled (example_env issues) False example_start) = {}"
  "o_max_concurrent_agents (reconciled (example_env issues) False example_start) = 10"
  by (simp_all add: reconciled_def reconcile_running_def begin_tick_def call_eq Let_def case_prod_unfold
      example_env_def example_start_def new_orchestrator_def emit_runtime_event_def
      example_config_def default_agent_config_def)

lemma example_tick_dispatch:
  "\<exists>d t. tick_with_refresh (example_env [example_issue ''1'' ''Todo'']) False example_start
      = (Inr \<lparr> tr_dispatched_issues = [d], tr_dispatch_skipped = False \<rparr>, t)
    \<and> di_issue d = example_issue ''1'' ''Todo'' \<and> di_worker_host d = Some ''a''"
proof -
  let ?env = "example_env [example_issue ''1'' ''Todo'']"
  let ?s2 = "emit_runtime_event EvValidate (reconciled ?env False example_start)"
  have "e_config_validate ?env c = Inr ()"
    "call (e_validate_dispatch_preflight ?env c) u = (Inr (), u)" for c u
    by (simp_all add: example_env_def call_eq)
  then have "tick_with_refresh ?env False example_start = dispatch_phase ?env ?s2"
    by (simp add: tick_with_refresh_def Let_def reconciled_def)
  then show ?thesis
    using example_dispatch_phase [of ?s2] example_tick_start
    by (simp add: emit_runtime_event_def)
qed

lemma example_stalled: "stalled_for ''1'' 400000 300000 example_running = Some 400000"
proof -
  have "backend_stall_timeout_ms example_config KataCli = 300000"
    by (simp add: backend_stall_timeout_ms_def example_config_def default_pi_agent_config_def i64_max_def)
  then show ?thesis
    by (simp add: example_running_def dispatch_issue_def call_eq Let_def case_prod_unfold
        stalled_for_def stall_timeout_for_def last_activity_for_def ensure_worker_session_info_def
        repaired_session_info_def example_start_def new_orchestrator_def example_issue_def
        example_env_def scheduled_run_def timestamp_millis_def sat_sub_i64_def clamp_i64_def
        i64_max_def i64_min_def)
      (simp add: example_config_def)
qed

lemma example_running_totals:
  "o_codex_totals example_running = \<lparr> ct_input_tokens = 0, ct_output_tokens = 0, ct_total_tokens = 0,
     ct_event_count = 0 \<rparr>"
  by (simp add: example_running_def dispatch_issue_def call_eq Let_def case_prod_unfold
      ensure_worker_session_info_def example_start_def new_orchestrator_def)

text \<open>One question, asked and answered.\<close>

definition example_request :: escalation_request where
  "example_request = \<lparr> er_id = ''q'', er_issue_id = ''1'', er_issue_identifier = ''KAT-1'',
     er_method = ''ask'', er_payload = JNull, er_created_at = 0, er_timeout_ms = 1000 \<rparr>"

lemma example_delivery: "\<exists>y. escalation_reachable y \<and> ey_delivered y = [7]"
proof -
  let ?reg = "register example_request 7 empty_registry"
  let ?y1 = "initial_system\<lparr> ey_registry := ?reg, ey_used := {7} \<rparr>"
  let ?e = "\<lparr> ee_request = example_request, ee_response_tx = 7 \<rparr>"
  let ?reg2 = "?reg\<lparr> rg_pending := hdel ''q'' (rg_pending ?reg) \<rparr>"
  let ?y2 = "?y1\<lparr> ey_registry := ?reg2, ey_taken := [(''q'', 7)] \<rparr>"
  have "escalation_step initial_system ?y1"
    using do_register [of 7 initial_system example_request] by (simp add: initial_system_def)
  then have "escalation_reachable ?y1" by (rule step [OF start])
  moreover have "resolve_take ''q'' ?reg = (Inr ?e, ?reg2)"
    by (simp add: resolve_take_def register_def example_request_def)
  then have "escalation_step ?y1 ?y2"
    using do_take [of "''q''" ?y1 ?e ?reg2] by (simp add: initial_system_def)
  ultimately have "escalation_reachable ?y2" by (rule step)
  moreover have "escalation_step ?y2 (?y2\<lparr> ey_taken := [], ey_answered := [''q''], ey_delivered := [7] \<rparr>)"
    using do_send [of ?y2 "[]" "''q''" 7 "[]"] by (simp add: initial_system_def)
  ultimately have "escalation_reachable (?y2\<lparr> ey_taken := [], ey_answered := [''q''], ey_delivered := [7] \<rparr>)"
    by (rule step)
  moreover have "ey_delivered (?y2\<lparr> ey_taken := [], ey_answered := [''q''], ey_delivered := [7] \<rparr>) = [7]"
    by (simp add: initial_system_def)
  ultimately show ?thesis by blast
qed

section \<open>An issue in agent review\<close>

text \<open>The same deployment with agent review among its active states: the workspace is on a branch
  with an open pull request against main, and every command takes the world one step further.\<close>

definition reviewing_config :: service_config where
  "reviewing_config = example_config\<lparr> sc_tracker :=
     default_tracker_config\<lparr> tc_active_states := [''Todo'', ''Agent Review''] \<rparr> \<rparr>"

definition reviewing_issue :: issue where
  "reviewing_issue = example_issue ''1'' ''Agent Review''"

definition reviewing_env :: "int env" where
  "reviewing_env = (example_env [reviewing_issue])
     \<lparr> e_run_command := (\<lambda>program _ _ w.
         (Inr \<lparr> co_success = True, co_stdout = ''fix'', co_stderr = [] \<rparr>, w + 1)),
       e_parse_pull_request := (\<lambda>_. Inr \<lparr> pv_url = ''u'', pv_state = ''OPEN'', pv_head_ref_name = ''fix'',
         pv_base_ref_name = ''main'' \<rparr>) \<rparr>"

definition reviewing_start :: "int orchestrator" where
  "reviewing_start = new_orchestrator reviewing_config ''template'' None 0"

lemma reviewing_open: "open_pull_request reviewing_env path (Some ''main'') w"
proof -
  have "trim ''fix'' = ''fix''" "eq_ignore_ascii_case ''OPEN'' ''OPEN''"
    "trimmed_non_empty (Some ''main'') = Some ''main''" by code_simp+
  then show ?thesis by (simp add: open_pull_request_def reviewing_env_def)
qed

lemma reviewing_state: "normalize_issue_state (i_state reviewing_issue) = ''agent review''"
proof -
  have "normalize_issue_state ''Agent Review'' = ''agent review''" by code_simp
  then show ?thesis by (simp add: reviewing_issue_def example_issue_def)
qed

definition reviewing_ready :: "int orchestrator \<Rightarrow> bool" where
  "reviewing_ready s \<longleftrightarrow> o_config s = reviewing_config \<and> o_running s = hempty \<and> o_claimed s = {}
     \<and> o_max_concurrent_agents s = 10"

lemma reviewing_gate:
  assumes "reviewing_ready s"
  shows "\<exists>t. enforce_agent_review_pr_gate reviewing_env reviewing_issue path s = (Inr (Some reviewing_issue), t)
    \<and> reviewing_ready t"
proof -
  have "required_base s = Some ''main''"
    using assms by (simp add: reviewing_ready_def required_base_def reviewing_config_def example_config_def
        default_workspace_config_def)
  then have pass: "fst (enforce_agent_review_pr_gate reviewing_env reviewing_issue path s) = Inr (Some reviewing_issue)"
    using reviewing_open [of path "o_world s"] by (simp add: gate_passes_iff [OF reviewing_state])
  obtain t where t: "enforce_agent_review_pr_gate reviewing_env reviewing_issue path s = (Inr (Some reviewing_issue), t)"
    using pass by (cases "enforce_agent_review_pr_gate reviewing_env reviewing_issue path s") auto
  have "world_step s t" using gate_frame [OF t] by blast
  then show ?thesis using t assms by (auto simp: reviewing_ready_def world_step_fields)
qed

lemma reviewing_should_dispatch: "reviewing_ready s \<Longrightarrow> should_dispatch_issue reviewing_env s reviewing_issue"
proof -
  assume ready: "reviewing_ready s"
  have states: "tc_terminal_states (sc_tracker reviewing_config) = tc_terminal_states default_tracker_config"
    "tc_active_states (sc_tracker reviewing_config) = [''Todo'', ''Agent Review'']"
    "tc_exclude_labels (sc_tracker reviewing_config) = []"
    by (simp_all add: reviewing_config_def default_tracker_config_def)
  have closed: "''agent review'' \<notin> set (filter (\<lambda>st. st \<noteq> []) (map normalize_issue_state
      (tc_terminal_states default_tracker_config)))"
    and active: "''agent review'' \<in> set (filter (\<lambda>st. st \<noteq> []) (map normalize_issue_state
      [''Todo'', ''Agent Review'']))"
    by code_simp+
  have fields: "issue_has_required_fields reviewing_issue" by code_simp
  have label: "\<not> issue_has_excluded_label s reviewing_issue"
    using ready states by (simp add: reviewing_ready_def issue_has_excluded_label_def label_keys_def)
  show ?thesis
    using ready closed active fields label reviewing_state states
    by (simp add: should_dispatch_issue_def terminal_state_set_def active_state_set_def reviewing_ready_def
        issue_blocked_by_pending_automatic_publication_def hmember_def available_slots_def)
      (simp add: reviewing_issue_def example_issue_def reviewing_env_def example_env_def)
qed

lemma reviewing_select_host: "reviewing_ready s \<Longrightarrow> select_host s None = SelRemote ''a''"
proof -
  assume ready: "reviewing_ready s"
  have "hvals (hempty :: (string, run_attempt) hmap) = []"
    using hvals_iff [of _ "hempty :: (string, run_attempt) hmap"]
    by (cases "hvals (hempty :: (string, run_attempt) hmap)") auto
  then show ?thesis
    using ready
    by (auto simp: reviewing_ready_def select_host_def Let_def reviewing_config_def example_config_def
        default_workspace_config_def host_loads_def select_worker_host_def eligible_hosts_def host_load_def
        split: option.splits)
qed

lemma reviewing_dispatch_candidate:
  assumes "reviewing_ready s"
  shows "\<exists>d t. dispatch_candidate reviewing_env {} reviewing_issue s = (Inr (Some d), t) \<and> di_issue d = reviewing_issue"
proof -
  have refresh: "call (e_refresh_issue reviewing_env (i_id reviewing_issue)) s = (Inr (Some reviewing_issue), s)"
    by (simp add: call_eq reviewing_env_def example_env_def)
  have prepare: "prepare_workspace_for_active_dispatch reviewing_env reviewing_issue p s = (Some (''/work/KAT-1'', None), s)" for p
    by (simp add: prepare_workspace_for_active_dispatch_def call_eq reviewing_env_def example_env_def)
  obtain t where gate: "enforce_agent_review_pr_gate reviewing_env reviewing_issue ''/work/KAT-1'' s
      = (Inr (Some reviewing_issue), t)" and t: "reviewing_ready t"
    using reviewing_gate [OF assms] by blast
  show ?thesis
    using reviewing_should_dispatch [OF assms] reviewing_should_dispatch [OF t] reviewing_select_host [OF t]
    by (simp add: dispatch_candidate_def refresh prepare gate Let_def)
qed

lemma reviewing_tick_dispatch:
  "\<exists>d t. tick_with_refresh reviewing_env False reviewing_start
      = (Inr \<lparr> tr_dispatched_issues = [d], tr_dispatch_skipped = False \<rparr>, t) \<and> di_issue d = reviewing_issue"
proof -
  let ?s2 = "emit_runtime_event EvValidate (reconciled reviewing_env False reviewing_start)"
  let ?s3 = "emit_runtime_event EvDispatch ?s2"
  have ready: "reviewing_ready ?s3"
    by (simp add: reviewing_ready_def reconciled_def reconcile_running_def begin_tick_def call_eq Let_def
        case_prod_unfold reviewing_env_def example_env_def reviewing_start_def new_orchestrator_def
        emit_runtime_event_def reviewing_config_def example_config_def default_agent_config_def)
  have "e_config_validate reviewing_env c = Inr ()"
    "call (e_validate_dispatch_preflight reviewing_env c) u = (Inr (), u)" for c u
    by (simp_all add: reviewing_env_def example_env_def call_eq)
  then have tick: "tick_with_refresh reviewing_env False reviewing_start = dispatch_phase reviewing_env ?s2"
    by (simp add: tick_with_refresh_def Let_def reconciled_def)
  have fetch: "call (e_fetch_candidate_issues reviewing_env) ?s3 = (Inr [reviewing_issue], ?s3)"
    by (simp add: call_eq reviewing_env_def example_env_def)
  have sorted: "sort_issues_for_dispatch (filter_pending_automatic_publication reviewing_env u [reviewing_issue])
      = [reviewing_issue]" for u
    by (simp add: filter_pending_automatic_publication_def sort_issues_for_dispatch_def reviewing_env_def
        example_env_def)
  have blocked: "blocked_entries u [reviewing_issue] = []" for u
    by (simp add: blocked_entries_def is_blocked_by_dependency_def List.map_filter_simps reviewing_issue_def
        example_issue_def)
  have slots: "available_slots ?s3 \<noteq> 0"
    using ready by (simp add: reviewing_ready_def available_slots_def)
  obtain d t where "dispatch_candidate reviewing_env {} reviewing_issue ?s3 = (Inr (Some d), t)"
    "di_issue d = reviewing_issue"
    using reviewing_dispatch_candidate [OF ready] by blast
  then show ?thesis
    by (simp add: tick dispatch_phase_def fetch sorted blocked slots Let_def)
qed

end
