(* ===== verification/ComponentProperties.thy ===== *)
theory ComponentProperties
  imports Examples TokenAccounting
begin

text \<open>
  Properties of the parts the scheduling core is built from: the host pool, the store of
  notes, token accounting, path resolution, quoting, retries and steering.
\<close>

section \<open>Dispatch order\<close>

text \<open>The lexicographic order of the dispatch key, component by component.\<close>

lemma dispatch_key_le:
  "dispatch_key a \<le> dispatch_key b \<longleftrightarrow>
     priority_rank (i_priority a) < priority_rank (i_priority b)
     \<or> priority_rank (i_priority a) = priority_rank (i_priority b)
       \<and> (issue_created_at_sort_key a < issue_created_at_sort_key b
          \<or> issue_created_at_sort_key a = issue_created_at_sort_key b
            \<and> (i_identifier a < i_identifier b
               \<or> i_identifier a = i_identifier b \<and> i_id a \<le> i_id b))"
  by (auto simp: dispatch_key_def less_eq_prod_def)

lemma dispatch_candidates_in_order:
  assumes "refresh_faithful env"
  shows "dispatch_candidates env blocked cs s = (Inr ds, t)
     \<Longrightarrow> subseq (map (\<lambda>d. i_id (di_issue d)) ds) (map i_id cs)"
proof (induction cs arbitrary: s ds)
  case (Cons c cs)
  show ?case
  proof (cases "available_slots s = 0")
    case True
    then show ?thesis using Cons.prems by simp
  next
    case False
    obtain step s1 where c: "dispatch_candidate env blocked c s = (step, s1)"
      by (cases "dispatch_candidate env blocked c s")
    obtain found ds' where step: "step = Inr found"
      and rest: "dispatch_candidates env blocked cs s1 = (Inr ds', t)"
      and ds: "ds = (case found of Some d \<Rightarrow> [d] | None \<Rightarrow> []) @ ds'"
      using Cons.prems False c by (auto split: sum.splits prod.splits)
    have "i_id (di_issue x) = i_id c" if "found = Some x" for x
      using c
    proof (cases rule: dispatch_candidate_cases)
      case skipped
      then show ?thesis using step that skipped(2) [of x] by simp
    next
      case (dispatched s' d p)
      then show ?thesis using step that assms by (auto simp: refresh_faithful_def)
    qed
    then show ?thesis using Cons.IH [OF rest] ds by (cases found) auto
  qed
qed simp

text \<open>Slots go by priority, then age, then identifier: where the tracker refreshes the issue it is
  asked for, the issues a dispatch phase starts come in the order of a list that holds the fetched
  candidates without guarded ones and in which no issue precedes one that is more urgent.\<close>

theorem dispatch_by_urgency:
  assumes "refresh_faithful env"
    and "call (e_fetch_candidate_issues env) (emit_runtime_event EvDispatch s) = (Inr fetched, s1)"
    and "dispatch_phase env s = (Inr res, t)"
  defines "candidates \<equiv> sort_issues_for_dispatch (filter_pending_automatic_publication env s1 fetched)"
  shows "subseq (map (\<lambda>d. i_id (di_issue d)) (tr_dispatched_issues res)) (map i_id candidates)
    \<and> mset candidates = mset (filter_pending_automatic_publication env s1 fetched)
    \<and> sorted_wrt (\<lambda>a b.
        priority_rank (i_priority a) < priority_rank (i_priority b)
        \<or> priority_rank (i_priority a) = priority_rank (i_priority b)
          \<and> (issue_created_at_sort_key a < issue_created_at_sort_key b
             \<or> issue_created_at_sort_key a = issue_created_at_sort_key b
               \<and> (i_identifier a < i_identifier b
                  \<or> i_identifier a = i_identifier b \<and> i_id a \<le> i_id b))) candidates"
proof -
  obtain r t0 where r: "dispatch_candidates env (set (map bi_issue_id (blocked_entries s1 candidates)))
      candidates s1 = (r, t0)" by fastforce
  have "r = Inr (tr_dispatched_issues res)"
    using assms(2,3) r unfolding candidates_def by (cases r) (auto simp: dispatch_phase_def Let_def)
  moreover have "sorted_wrt (\<lambda>a b. dispatch_key a \<le> dispatch_key b) candidates"
    using sorted_sort_key [of dispatch_key "filter_pending_automatic_publication env s1 fetched"]
    unfolding candidates_def sort_issues_for_dispatch_def sorted_map .
  ultimately show ?thesis
    using dispatch_candidates_in_order [OF assms(1), of _ candidates s1] r
    by (auto simp: dispatch_key_le candidates_def sort_issues_for_dispatch_def)
qed

lemma dispatch_by_urgency_witness:
  "\<exists>d t. dispatch_phase (example_env [example_issue ''1'' ''Todo'']) example_start
       = (Inr \<lparr> tr_dispatched_issues = [d], tr_dispatch_skipped = False \<rparr>, t)
     \<and> subseq [i_id (di_issue d)]
         (map i_id (sort_issues_for_dispatch
           (filter_pending_automatic_publication (example_env [example_issue ''1'' ''Todo''])
              (emit_runtime_event EvDispatch example_start) [example_issue ''1'' ''Todo''])))"
proof -
  let ?env = "example_env [example_issue ''1'' ''Todo'']"
  obtain d t where run: "dispatch_phase ?env example_start
      = (Inr \<lparr> tr_dispatched_issues = [d], tr_dispatch_skipped = False \<rparr>, t)"
    using example_dispatch_phase [of example_start]
    by (auto simp: example_start_def new_orchestrator_def example_config_def default_agent_config_def)
  have "refresh_faithful ?env"
    by (auto simp: refresh_faithful_def example_env_def)
  moreover have "call (e_fetch_candidate_issues ?env) (emit_runtime_event EvDispatch example_start)
      = (Inr [example_issue ''1'' ''Todo''], emit_runtime_event EvDispatch example_start)"
    by (simp add: call_eq example_env_def)
  ultimately show ?thesis
    using dispatch_by_urgency [OF _ _ run] run by fastforce
qed

section \<open>The host pool\<close>

lemma min_by_load_least:
  assumes "eligible_hosts hosts load cap = first # rest" "g \<in> set hosts"
  shows "host_load load (snd (min_by_load load first rest)) \<le> host_load load g"
proof (cases "host_load load g < cap")
  case True
  then have "g \<in> snd ` set (eligible_hosts hosts load cap)"
    using assms(2) by (simp add: eligible_hosts_image)
  then obtain x where "x \<in> set (first # rest)" "snd x = g" using assms(1) by fastforce
  then show ?thesis using min_by_load_le [of x first rest load] by simp
next
  case False
  have "snd (min_by_load load first rest) \<in> snd ` set (eligible_hosts hosts load cap)"
    using assms(1) min_by_load_in [of load first rest] by auto
  then show ?thesis using False by (simp add: eligible_hosts_image)
qed

text \<open>C18. The host pool: no host is offered exactly when every configured host runs as many workers as
  it may; otherwise the host offered is configured and below its cap, and it is the preferred one
  where that one is below its cap, else one of the least loaded of all.\<close>

theorem host_choice:
  "case select_worker_host hosts load cap preferred of
     SelLocal \<Rightarrow> hosts = []
   | SelNoneAvailable \<Rightarrow> hosts \<noteq> [] \<and> (\<forall>h \<in> set hosts. cap \<le> host_load load h)
   | SelRemote h \<Rightarrow> h \<in> set hosts \<and> host_load load h < cap
       \<and> (case preferred of
            Some p \<Rightarrow> if p \<in> set hosts \<and> host_load load p < cap then h = p
                      else (\<forall>g \<in> set hosts. host_load load h \<le> host_load load g)
          | None \<Rightarrow> (\<forall>g \<in> set hosts. host_load load h \<le> host_load load g))"
proof (cases "eligible_hosts hosts load cap")
  case Nil
  then have "\<forall>h \<in> set hosts. cap \<le> host_load load h" by (simp only: eligible_hosts_Nil)
  then show ?thesis using Nil by (simp add: select_worker_host_def)
next
  case (Cons first rest)
  have image: "snd ` set (first # rest) = {h \<in> set hosts. host_load load h < cap}"
    using eligible_hosts_image [of hosts load cap] Cons by simp
  then have best: "snd (min_by_load load first rest) \<in> {h \<in> set hosts. host_load load h < cap}"
    using min_by_load_in [of load first rest] by blast
  have "hosts \<noteq> []" using best by auto
  then show ?thesis
    using best image min_by_load_least [OF Cons]
    by (auto simp: select_worker_host_def Cons split: option.splits)
qed

lemma host_choice_witness:
  "select_worker_host [''a'', ''b''] (hput ''a'' 1 hempty) 2 (Some ''c'') = SelRemote ''b''
    \<and> host_load (hput ''a'' 1 hempty) ''b'' \<le> host_load (hput ''a'' 1 hempty) ''a''"
proof -
  have pick: "select_worker_host [''a'', ''b''] (hput ''a'' 1 hempty) 2 (Some ''c'') = SelRemote ''b''"
    by (simp add: select_worker_host_def eligible_hosts_def host_load_def upt_rec)
  with host_choice [of "[''a'', ''b'']" "hput ''a'' 1 hempty" 2 "Some ''c''"] show ?thesis by simp
qed

section \<open>The store of notes\<close>

lemma newest_first:
  "sorted_wrt (\<lambda>a b. age_key b \<le> age_key a) (rev (sort_key age_key es))"
proof -
  have "sorted_wrt (\<lambda>a b. age_key a \<le> age_key b) (sort_key age_key es)"
    using sorted_sort_key [of age_key es] unfolding sorted_map .
  then show ?thesis by (simp add: sorted_wrt_rev)
qed

text \<open>Reading notes returns each note that is not expired and matches a scope of the filter (every
  scope when the filter is empty) exactly as often as the store has it, newest first, and leaves
  in the store exactly what has not expired.\<close>

theorem read_exact:
  "case read_entries now scopes st of (entries, st') \<Rightarrow>
     mset entries = filter_mset
       (\<lambda>e. \<not> is_expired e now
          \<and> (scopes = [] \<or> normalize_scope (cx_scope e) \<in> normalize_scope ` set scopes))
       (mset (ss_entries st))
     \<and> sorted_wrt (\<lambda>a b. cx_created_at b < cx_created_at a
                  \<or> cx_created_at a = cx_created_at b \<and> cx_id b \<le> cx_id a) entries
     \<and> mset (ss_entries st') = filter_mset (\<lambda>e. \<not> is_expired e now) (mset (ss_entries st))"
proof -
  have "sorted_wrt (\<lambda>a b. cx_created_at b < cx_created_at a
      \<or> cx_created_at a = cx_created_at b \<and> cx_id b \<le> cx_id a) (rev (sort_key age_key es))" for es
    using newest_first [of es] by (rule sorted_wrt_mono_rel [rotated]) (auto simp: age_key_def less_eq_prod_def)
  then show ?thesis
    by (simp add: read_entries_def prune_expired_entries_at_def Let_def mset_filter conj_commute
        filter_filter_mset)
qed

text \<open>Writing a note keeps the store within its limit and loses only the oldest: what is stored
  afterwards comes from what was stored or is the new note, every lost note is at most as new as
  every kept one, and nothing is lost while there is room. The note itself is cut to 500 characters, its
  scope normalised, its lifetime at least a millisecond.\<close>

theorem write_evicts_oldest:
  assumes "write_entry uuid now draft st = (e, st')" "1 \<le> ss_max_entries st"
  shows "length (ss_entries st') = min (Suc (length (ss_entries st))) (ss_max_entries st)
    \<and> set (ss_entries st') \<subseteq> insert e (set (ss_entries st))
    \<and> (\<forall>kept \<in> set (ss_entries st'). \<forall>lost \<in> insert e (set (ss_entries st)) - set (ss_entries st').
          (cx_created_at lost, cx_id lost) \<le> (cx_created_at kept, cx_id kept))
    \<and> (length (ss_entries st) < ss_max_entries st \<longrightarrow> ss_entries st' = ss_entries st @ [e])
    \<and> cx_content e = take 500 (dr_content draft) \<and> cx_scope e = normalize_scope (dr_scope draft)
    \<and> 1 \<le> cx_ttl_ms e"
proof -
  have st': "ss_entries st' = enforce_max_entries (ss_entries st @ [e]) (ss_max_entries st)"
    and e: "cx_content e = take 500 (dr_content draft)" "cx_scope e = normalize_scope (dr_scope draft)"
      "1 \<le> cx_ttl_ms e"
    using assms(1)
    by (auto simp: write_entry_def Let_def truncate_chars_def MAX_SHARED_CONTEXT_CONTENT_CHARS_def)
  have "age_key lost \<le> age_key kept"
    if "kept \<in> set (ss_entries st')" "lost \<in> insert e (set (ss_entries st)) - set (ss_entries st')"
    for kept lost
    using that enforce_keeps_newest [of kept "ss_entries st @ [e]" "ss_max_entries st" lost]
    by (simp add: st')
  moreover have "set (ss_entries st') \<subseteq> insert e (set (ss_entries st))"
    using set_enforce [of "ss_entries st @ [e]" "ss_max_entries st"] by (simp add: st')
  moreover have "length (ss_entries st') = min (Suc (length (ss_entries st))) (ss_max_entries st)"
    using assms(2) by (simp add: st' length_enforce max_absorb1)
  moreover have "ss_entries st' = ss_entries st @ [e]" if "length (ss_entries st) < ss_max_entries st"
    using that by (simp add: st' enforce_max_entries_def Let_def)
  ultimately show ?thesis using e by (auto simp: age_key_def)
qed

lemma write_evicts_oldest_witness:
  "\<exists>e st'. write_entry ''n'' 5 \<lparr> dr_author_issue = ''A'', dr_scope = ScopeProject, dr_content = ''note'',
       dr_ttl_ms = None \<rparr> (new_store 1000 2) = (e, st') \<and> ss_entries st' = [e] \<and> cx_ttl_ms e \<ge> 1"
proof -
  let ?d = "\<lparr> dr_author_issue = ''A'', dr_scope = ScopeProject, dr_content = ''note'', dr_ttl_ms = None \<rparr>"
  obtain e st' where w: "write_entry ''n'' 5 ?d (new_store 1000 2) = (e, st')"
    by (cases "write_entry ''n'' 5 ?d (new_store 1000 2)")
  from write_evicts_oldest [OF w] w show ?thesis by (simp add: new_store_def)
qed

section \<open>Token accounting\<close>

text \<open>C21. Nothing is counted twice: when the totals a session reports never fall, neither below each
  other nor below what was counted before, the deltas of a series of events, whatever events report
  nothing in between, add up to the last reported total minus the one counted before.\<close>

theorem token_deltas_add_up:
  assumes "sorted (ts_last_total st # List.map_filter reported_total payloads)"
  shows "fst (total_deltas st payloads)
    = last (ts_last_total st # List.map_filter reported_total payloads) - ts_last_total st"
  using total_deltas_telescope [OF assms] by simp

lemma token_deltas_add_up_witness:
  "fst (total_deltas \<lparr> ts_last_input = 0, ts_last_output = 0, ts_last_total = 5 \<rparr>
     [JObject [(''total_tokens'', JNumber (PosInt 8))], JNull, JObject [(''total_tokens'', JNumber (PosInt 12))]]) = 7"
proof -
  let ?st = "\<lparr> ts_last_input = 0, ts_last_output = 0, ts_last_total = 5 \<rparr>"
  let ?ps = "[JObject [(''total_tokens'', JNumber (PosInt 8))], JNull, JObject [(''total_tokens'', JNumber (PosInt 12))]]"
  have "reported_total (JObject [(''total_tokens'', JNumber (PosInt 8))]) = Some 8"
    "reported_total JNull = None" "reported_total (JObject [(''total_tokens'', JNumber (PosInt 12))]) = Some 12"
    by (simp_all add: reported_total_def extract_token_usage_def usage_paths_def token_map_at_def
        turn_completed_usage_def is_integer_token_map_def token_fields_def field_u64_def
        get_token_usage_total_def)
  then have "List.map_filter reported_total ?ps = [8, 12]" by (simp add: List.map_filter_simps)
  then show ?thesis using token_deltas_add_up [of ?st ?ps] by simp
qed

text \<open>The search for rate limits is exact: it finds something exactly when some value inside the
  payload, at any depth, looks like a rate-limit map, and what it returns is such a value.\<close>

theorem rate_limits_exact:
  "(extract_rate_limits payload = None \<longleftrightarrow> \<not> (\<exists>v. inside v payload \<and> is_rate_limits_map v))
    \<and> (\<forall>v. extract_rate_limits payload = Some v \<longrightarrow> inside v payload \<and> is_rate_limits_map v)"
  using rate_limits_sound(1) [of payload] rate_limits_complete [of _ payload]
  unfolding extract_rate_limits_def by (cases "rate_limits_from_payload payload") auto

lemma rate_limits_exact_witness:
  "\<exists>v. extract_rate_limits (JArray [JObject [(''x'', JObject [(''limit_id'', JNull), (''primary'', JNull)])]]) = Some v
     \<and> is_rate_limits_map v"
proof -
  let ?p = "JArray [JObject [(''x'', JObject [(''limit_id'', JNull), (''primary'', JNull)])]]"
  have "extract_rate_limits ?p \<noteq> None" by code_simp
  then show ?thesis using rate_limits_exact [of ?p] by blast
qed

section \<open>Paths\<close>

text \<open>C23. A canonical path has no symbolic link left in the part of it that exists, and resolving it
  again, from any current directory, changes nothing.\<close>

theorem canonical_is_final:
  assumes "canonicalize fs current_dir p = Inr segs"
  shows "(\<forall>n \<in> {1..length segs}. (\<forall>m \<in> {1..<n}. fs (take m segs) = FsOther)
          \<longrightarrow> fs (take n segs) = FsOther \<or> fs (take n segs) = FsNotFound)
    \<and> canonicalize fs other_dir (segments_path segs) = Inr segs"
proof -
  obtain segments where "resolve_segments fs [] segments MAX_SYMLINK_HOPS = Inr segs"
    using assms by (auto simp: canonicalize_def split: sum.splits)
  then have settled: "settled fs segs" using resolve_segments_settled plain_prefix_Nil by blast
  then have "canonicalize fs other_dir (segments_path segs) = Inr segs"
    by (simp add: canonicalize_def split_segments_path settled_resolves)
      (simp add: path_is_absolute_def segments_path_def)
  then show ?thesis using settled by (auto simp: settled_def)
qed

text \<open>One link, \<open>/a\<close> to \<open>b/../c\<close>, and nothing at \<open>/c/x\<close>.\<close>

definition example_files :: file_system where
  "example_files segs =
     (if segs = [''a''] then FsSymlink (Inr [Normal ''b'', ParentDir, Normal ''c''])
      else if segs = [''c''] then FsOther else FsNotFound)"

lemma canonical_is_final_witness:
  "canonicalize example_files (Inl (Other [])) [RootDir, Normal ''a'', Normal ''x''] = Inr [''c'', ''x'']
    \<and> canonicalize example_files (Inl (Other [])) (segments_path [''c'', ''x'']) = Inr [''c'', ''x'']"
proof -
  have run: "canonicalize example_files (Inl (Other [])) [RootDir, Normal ''a'', Normal ''x''] = Inr [''c'', ''x'']"
    by (simp add: canonicalize_def split_and_normalize_def path_is_absolute_def example_files_def
        path_join_def segments_path_def MAX_SYMLINK_HOPS_def resolve_segments.simps)
  from canonical_is_final [OF run, of "Inl (Other [])"] run show ?thesis by simp
qed

section \<open>Remote commands\<close>

text \<open>C24. What a remote shell runs is the command: in the arguments for ssh the last one, read by the
  quoting rules of a POSIX shell, is one word and that word is the command, whatever characters it has.\<close>

theorem remote_command_survives:
  "shell_word Unquoted (last (ssh_args config host command)) = Some command"
  by (simp add: ssh_args_def shell_escape_def shell_word_quoted case_prod_unfold Let_def)

text \<open>A host with a port keeps both: for a host name without colon or outer white space and any
  16-bit port, the arguments for \<open>host:port\<close> are the ones with exactly that port and host.\<close>

theorem remote_target_survives:
  assumes "h \<noteq> []" "trim h = h" "CHR '':'' \<notin> set h" "port \<le> 65535"
  shows "ssh_args None (h @ '':'' @ nat_digits port) command
    = [''-T'', ''-p'', nat_digits port, h, ''bash'', ''-lc'', shell_escape command]"
  using parse_target_roundtrip [OF assms] by (simp add: ssh_args_def)

lemma remote_target_survives_witness:
  "ssh_args None (''me@box:'' @ nat_digits 2222) ''ls''
    = [''-T'', ''-p'', nat_digits 2222, ''me@box'', ''bash'', ''-lc'', shell_escape ''ls'']"
proof -
  have "trim ''me@box'' = ''me@box''" by code_simp
  then show ?thesis using remote_target_survives [of "''me@box''" 2222 "''ls''"] by simp
qed

section \<open>Retries\<close>

text \<open>A retry keeps its count: every issue a retry pass dispatches runs as the attempt number of a
  retry entry that was due when the pass began.\<close>

theorem retry_pass_keeps_attempts:
  assumes "d \<in> set (fst (process_due_retries env now s))"
  shows "\<exists>i r. hget (o_retry_attempts s) i = Some r \<and> re_due_at_ms r \<le> now
    \<and> di_attempt d = Some (re_attempt r)"
proof -
  obtain r where "r \<in> set (due_retries now s)" "di_attempt d = Some (re_attempt r)"
    using process_retries_dispatched [of d env now "due_retries now s" s] assms
    by (auto simp: process_due_retries_def)
  then show ?thesis by (auto simp: due_retries_def hvals_iff)
qed

text \<open>One due retry of the third attempt.\<close>

definition example_waiting :: "int orchestrator" where
  "example_waiting = snd (schedule_retry_with_context ''1'' ''KAT-1'' 3 Failure 0 None
     \<lparr> rx_worker_host = Some ''b'', rx_workspace_path = None, rx_session_id = None \<rparr> example_start)"

lemma hvals_single: "hvals (hput k v hempty) = [v]"
proof -
  have "hlen (hput k v hempty) = 1" by (simp add: hlen_put)
  then have "length (hvals (hput k v hempty)) = 1" by (simp add: hvals_def hlen_def)
  moreover have "v \<in> set (hvals (hput k v hempty))" by (auto simp: hvals_iff intro: exI [of _ k])
  ultimately show ?thesis by (cases "hvals (hput k v hempty)") auto
qed

lemma retry_pass_keeps_attempts_witness:
  "\<exists>d. d \<in> set (fst (process_due_retries (example_env [example_issue ''1'' ''Todo'']) 50000 example_waiting))
     \<and> di_attempt d = Some 3 \<and> di_worker_host d = Some ''b''"
proof -
  let ?x = "example_issue ''1'' ''Todo''"
  let ?env = "example_env [?x]"
  let ?ctx = "\<lparr> rx_worker_host = Some ''b'', rx_workspace_path = None, rx_session_id = None \<rparr>"
  let ?r = "\<lparr> re_issue_id = ''1'', re_identifier = ''KAT-1'', re_attempt = 3, re_due_at_ms = 40000,
      re_timer_handle = Some (retry_token 1), re_error = None, re_worker_host = Some ''b'',
      re_workspace_path = None \<rparr>"
  obtain token where sched: "schedule_retry_with_context ''1'' ''KAT-1'' 3 Failure 0 None ?ctx example_start
      = (token, example_waiting)"
    unfolding example_waiting_def
    by (cases "schedule_retry_with_context ''1'' ''KAT-1'' 3 Failure 0 None ?ctx example_start") simp
  have start: "o_config example_start = example_config" "o_running example_start = hempty"
    "o_claimed example_start = {}" "o_max_concurrent_agents example_start = 10"
    "o_next_retry_token example_start = 0" "o_retry_attempts example_start = hempty"
    by (simp_all add: example_start_def new_orchestrator_def)
      (simp add: example_config_def default_agent_config_def)
  have delay: "retry_delay_ms example_start Failure 3 = 40000"
    using start by (simp add: failure_delay example_config_def default_agent_config_def i64_max_def)
  note effect = schedule_retry_effect [OF sched]
  have queue: "o_retry_attempts example_waiting = hput ''1'' ?r hempty"
    and token: "hget (o_retry_tokens example_waiting) ''1'' = Some (retry_token 1)"
    using effect by (simp_all add: start delay)
  define s1 where "s1 = example_waiting\<lparr> o_retry_tokens := hdel ''1'' (o_retry_tokens example_waiting),
      o_retry_attempts := hdel ''1'' (o_retry_attempts example_waiting) \<rparr>"
  have fired: "fire_retry ''1'' (retry_token 1) example_waiting = (True, s1)"
    by (simp add: fire_retry_def token queue hmember_def s1_def)
  have s1: "o_config s1 = example_config" "o_running s1 = hempty" "o_claimed s1 = {}"
      "o_max_concurrent_agents s1 = 10"
    using effect start by (simp_all add: s1_def)
  have fetch: "call (e_fetch_candidate_issues ?env) s1 = (Inr [?x], s1)"
    by (simp add: call_eq example_env_def)
  have prepare: "prepare_workspace_for_active_dispatch ?env ?x p s1 = (Some (''/work/KAT-1'', None), s1)" for p
    by (simp add: prepare_workspace_for_active_dispatch_def call_eq example_env_def)
  have go: "should_dispatch_issue ?env s1 ?x" by (rule example_should_dispatch [OF s1])
  then have open_state: "normalize_issue_state (i_state ?x) \<notin> terminal_state_set s1"
    by (simp add: should_dispatch_iff)
  have one: "due_retries 50000 example_waiting = [?r]"
    by (simp add: due_retries_def queue hvals_single)
  have "i_id ?x = ''1''" by (simp add: example_issue_def)
  then obtain d where "fst (process_due_retries ?env 50000 example_waiting) = [d]"
    "di_worker_host d = Some ''b''"
    using fired fetch prepare example_gate [of ?env "''/work/KAT-1''" s1] go open_state
      example_select_host [OF s1(1,2), of "Some ''b''"]
    by (simp add: process_due_retries_def one process_retry_def retry_fired_def retry_visible_issue_def
        retry_dispatch_def Let_def)
  then show ?thesis
    using retry_pass_keeps_attempts [of d ?env 50000 example_waiting] queue by (auto split: if_splits)
qed

lemma candidate_check_iff:
  "is_candidate_for_blocked_check s x \<longleftrightarrow>
     issue_has_required_fields x \<and> i_assigned_to_worker x
     \<and> normalize_issue_state (i_state x) \<notin> terminal_state_set s
     \<and> normalize_issue_state (i_state x) \<in> active_state_set s \<and> \<not> issue_has_excluded_label s x"
  by (simp add: is_candidate_for_blocked_check_def)

text \<open>C27. The back-off of a failed issue does not hold it back from polls: once its worker failed, an
  issue the tracker still offers is a candidate of the very next poll while its retry entry waits
  for its due time, and dispatching it drops that entry and starts again without an attempt number.\<close>

theorem failed_issue_offered_before_due:
  assumes "hget (o_running s) i = Some a" "i_id x = i"
    and "handle_worker_completion env i (Failed err) now s = (r, t)"
    and "is_candidate_for_blocked_check t x" "i_parent_identifier x = None"
    and "\<not> issue_blocked_by_pending_automatic_publication env t x" "0 < available_slots t"
  shows "should_dispatch_issue env t x
    \<and> (\<exists>e. hget (o_retry_attempts t) i = Some e \<and> re_attempt e = failure_attempt a
          \<and> re_due_at_ms e = now + retry_delay_ms s Failure (failure_attempt a))
    \<and> hget (o_retry_attempts (dispatch_issue env x None p h t)) i = None
    \<and> (\<exists>b. hget (o_running (dispatch_issue env x None p h t)) i = Some b \<and> ra_attempt b = None)"
proof -
  from completion_failed [OF assms(1,3)] obtain token
    where running: "hget (o_running t) = (hget (o_running s))(i := None)"
    and claimed: "o_claimed t = o_claimed s - {i}"
    and e: "hget (o_retry_attempts t) i =
        Some (retry_entry_for i a (failure_attempt a)
                (now + retry_delay_ms s Failure (failure_attempt a)) token (Some err))"
    by blast
  have t: "hget (o_running t) i = None" "i \<notin> o_claimed t"
    unfolding running claimed by simp_all
  have "should_dispatch_issue env t x"
    using assms(2,4-7) t by (simp add: should_dispatch_iff candidate_check_iff)
  moreover have "\<exists>b. hget (o_running (dispatch_issue env x None p h t)) i = Some b \<and> ra_attempt b = None"
    using dispatch_running [of env x None p h t] assms(2) by (auto simp: issue_run_def)
  ultimately show ?thesis using e assms(2) by (auto simp: retry_entry_for_def state_simps)
qed

lemma failed_issue_offered_before_due_witness:
  "\<exists>t e. snd (handle_worker_completion (example_env []) ''1'' (Failed ''boom'') 5 example_running) = t
     \<and> hget (o_retry_attempts t) ''1'' = Some e \<and> 5 < re_due_at_ms e
     \<and> should_dispatch_issue (example_env []) t (example_issue ''1'' ''Todo'')"
proof -
  let ?x = "example_issue ''1'' ''Todo''"
  let ?env = "example_env []"
  obtain a where a: "hget (o_running example_running) ''1'' = Some a" "ra_attempt a = None"
    and one: "o_running example_running = hput ''1'' a hempty"
    using example_running_attempt by (auto simp: issue_run_def)
  obtain r t where run: "handle_worker_completion ?env ''1'' (Failed ''boom'') 5 example_running = (r, t)"
    by (cases "handle_worker_completion ?env ''1'' (Failed ''boom'') 5 example_running")
  have config: "o_config example_running = example_config" "o_max_concurrent_agents example_running = 10"
    by (simp_all add: example_running_def state_simps example_start_def new_orchestrator_def)
      (simp add: example_config_def default_agent_config_def)
  have fields: "hget (o_running t) = (hget (o_running example_running))(''1'' := None)"
    "o_config t = example_config" "o_max_concurrent_agents t = 10"
    using completion_failed [OF a(1) run] config by auto
  have "hget (o_running t) = hget hempty" using fields one by (auto simp: fun_eq_iff)
  then have "hlen (o_running t) = 0" by (simp add: hlen_card dom_def)
  then have slots: "0 < available_slots t" using fields by (simp add: available_slots_def)
  have check: "is_candidate_for_blocked_check t ?x"
    using should_dispatch_candidate_check [OF example_should_dispatch [of example_start "[]"]] fields
    by (simp add: candidate_check_config [of t example_start] example_start_def new_orchestrator_def)
      (simp add: example_config_def default_agent_config_def)
  have guards: "\<not> issue_blocked_by_pending_automatic_publication ?env t ?x"
    by (simp add: issue_blocked_by_pending_automatic_publication_def example_env_def)
  have x: "i_id ?x = ''1''" "i_parent_identifier ?x = None" by (simp_all add: example_issue_def)
  have "retry_delay_ms example_running Failure 1 = 10000"
    using config by (simp add: failure_delay example_config_def default_agent_config_def i64_max_def)
  moreover have "failure_attempt a = 1" using a(2) by (simp add: failure_attempt_def sat_add_u32_def u32_max_def)
  ultimately show ?thesis
    using failed_issue_offered_before_due [OF a(1) x(1) run check x(2) guards slots, of None None] run
    by auto
qed

section \<open>What a release leaves behind\<close>

definition session_usage :: "string \<Rightarrow> 'w orchestrator \<Rightarrow> (nat \<times> session_token_usage) option" where
  "session_usage i s =
     map_option (\<lambda>info. (si_turn_count info, si_session_tokens info)) (hget (o_worker_session_info s) i)"

lemma usage_ensure:
  "session_usage i s = Some (Suc n, u) \<Longrightarrow> session_usage i (ensure_worker_session_info i s) = Some (Suc n, u)"
  by (auto simp: session_usage_def ensure_worker_session_info_def repaired_session_info_def Let_def)

lemma usage_activity: "session_usage i (record_worker_activity i n s) = session_usage i s"
  by (simp add: session_usage_def record_worker_activity_def Let_def option.map_comp comp_def)

lemma usage_cancelled:
  assumes "session_usage i s = Some (Suc n, u)"
  shows "session_usage i (ingest_agent_event env i (EscalationCancelled now j ident q reason) s) = Some (Suc n, u)"
proof -
  let ?event = "EscalationCancelled now j ident q reason"
  have quiet: "extract_tool_activity parse ?event = ToolNone" "surfaced_error ?event = None"
    "event_session_id ?event = None" for parse
    by (simp_all add: extract_tool_activity_def surfaced_error_def)
  have closed: "session_usage i (close_escalation ?event s) = Some (Suc n, u)"
    using assms by (simp add: close_escalation_def session_usage_def split: option.splits)
  have total: "session_usage i (s'\<lparr> o_codex_totals := c \<rparr>) = session_usage i s'" for s' :: "'a orchestrator" and c
    by (simp add: session_usage_def)
  have summary: "session_usage i (ingest_summary env i ?event s') = session_usage i s'" for s'
    by (simp add: session_usage_def ingest_summary_def modify_stats_def case_prod_unfold Let_def)
  have running: "session_usage i (s'\<lparr> o_running := m \<rparr>) = session_usage i s'" for s' :: "'a orchestrator" and m
    by (simp add: session_usage_def)
  show ?thesis
    by (simp add: ingest_agent_event_def Let_def ingest_tool_activity_def ingest_error_def quiet
        ingest_turn_completed_def running summary usage_activity)
      (simp add: closed usage_ensure total)
qed

lemma usage_cancel_each:
  "session_usage i s = Some (Suc n, u) \<Longrightarrow> session_usage i (cancel_each env i reason requests s) = Some (Suc n, u)"
proof (induction requests arbitrary: s)
  case (Cons request requests)
  have "session_usage i (s\<lparr> o_world := w \<rparr>) = Some (Suc n, u)" for w
    using Cons.prems by (simp add: session_usage_def)
  then show ?case by (simp add: Let_def call_eq Cons.IH usage_cancelled)
qed simp

lemma usage_cancel:
  "session_usage i s = Some (Suc n, u)
     \<Longrightarrow> session_usage i (cancel_pending_escalations_for_issue env i reason s) = Some (Suc n, u)"
  using usage_cancel_each [of i "s\<lparr> o_escalation_registry := reg \<rparr>" n u env reason requests for reg requests]
  by (simp add: cancel_pending_escalations_for_issue_def Let_def case_prod_unfold)
    (simp add: session_usage_def)

text \<open>The turns and tokens of a session outlive its release: an issue that is released and dispatched
  again starts its new worker with the turn count and the token usage the released one had.\<close>

theorem released_session_survives:
  assumes "hget (o_worker_session_info s) i = Some info" "0 < si_turn_count info" "i_id x = i"
  shows "\<exists>kept. hget (o_worker_session_info (dispatch_issue env x attempt p h (release_issue env i s))) i = Some kept
    \<and> si_turn_count kept = si_turn_count info \<and> si_session_tokens kept = si_session_tokens info"
proof -
  obtain n where n: "si_turn_count info = Suc n" using assms(2) by (cases "si_turn_count info") auto
  have "session_usage i s = Some (Suc n, si_session_tokens info)"
    using assms(1) n by (simp add: session_usage_def)
  then have "session_usage i (release_issue env i s) = Some (Suc n, si_session_tokens info)"
    using usage_cancel [of i s n "si_session_tokens info" env "''issue_released''"]
    by (simp add: release_issue_def Let_def session_usage_def)
  then have "session_usage i (dispatch_issue env x attempt p h (release_issue env i s))
      = Some (Suc n, si_session_tokens info)"
    using assms(3)
    by (auto simp: dispatch_issue_def Let_def call_eq session_usage_def ensure_worker_session_info_def
        repaired_session_info_def)
  then show ?thesis using n by (auto simp: session_usage_def)
qed

lemma released_session_survives_witness:
  "\<exists>kept. hget (o_worker_session_info (dispatch_issue (example_env []) (example_issue ''1'' ''Todo'') None None None
        (release_issue (example_env []) ''1''
          (example_running\<lparr> o_worker_session_info :=
             hput ''1'' \<lparr> si_turn_count = 3, si_max_turns = 20, si_stall_timeout_ms = 1000,
               si_last_activity_ms = None, si_session_tokens = \<lparr> tu_input_tokens = 3, tu_output_tokens = 4,
               tu_total_tokens = 7 \<rparr>, si_current_tool_name = None, si_current_tool_args_preview = None,
               si_last_error = None \<rparr> hempty \<rparr>)))) ''1'' = Some kept
     \<and> si_turn_count kept = 3 \<and> tu_total_tokens (si_session_tokens kept) = 7"
proof -
  let ?info = "\<lparr> si_turn_count = 3, si_max_turns = 20, si_stall_timeout_ms = 1000,
      si_last_activity_ms = None, si_session_tokens = \<lparr> tu_input_tokens = 3, tu_output_tokens = 4,
      tu_total_tokens = 7 \<rparr>, si_current_tool_name = None, si_current_tool_args_preview = None,
      si_last_error = None \<rparr>"
  have "i_id (example_issue ''1'' ''Todo'') = ''1''" by (simp add: example_issue_def)
  then show ?thesis
    using released_session_survives [of "example_running\<lparr> o_worker_session_info := hput ''1'' ?info hempty \<rparr>"
        "''1''" ?info "example_issue ''1'' ''Todo''" "example_env []" None None None]
    by auto
qed

section \<open>Steering\<close>

lemma lower_upper: "to_ascii_lowercase (to_ascii_uppercase s) = to_ascii_lowercase s"
proof -
  have "ascii_lower (ascii_upper c) = ascii_lower c" for c
    by (auto simp: ascii_lower_def ascii_upper_def code_point_def)
  then show ?thesis by (simp add: to_ascii_lowercase_def to_ascii_uppercase_def comp_def)
qed

text \<open>An instruction is reported as delivered only when it was: it is not blank, an issue with that
  identifier (ASCII case aside) runs and has a session and a channel to its worker, and the worker
  accepted exactly the trimmed instruction; a worker whose channel is closed loses its channel.\<close>

theorem steer_delivered:
  assumes "handle_steer_dispatch env ident instruction s = (response, t)"
  shows "(\<forall>i canonical. response = SteerDelivered i canonical \<longrightarrow>
        trim instruction \<noteq> []
        \<and> (\<exists>a channel. hget (o_running s) i = Some a \<and> ra_issue_identifier a = canonical
              \<and> eq_ignore_ascii_case canonical (trim ident) \<and> hmember (o_worker_session_ids s) i
              \<and> hget (o_worker_steer_tx s) i = Some channel
              \<and> fst (e_send_follow_up env channel (trim instruction) (o_world s)) = FollowUpAccepted))
    \<and> (\<forall>i. hget (o_worker_steer_tx t) i \<noteq> hget (o_worker_steer_tx s) i \<longrightarrow>
        hget (o_worker_steer_tx t) i = None
        \<and> (\<exists>channel. hget (o_worker_steer_tx s) i = Some channel
              \<and> fst (e_send_follow_up env channel (trim instruction) (o_world s)) = FollowUpClosed))"
proof -
  let ?ident = "to_ascii_uppercase (trim ident)" and ?text = "trim instruction"
  let ?s1 = "emit_runtime_event (EvSteerReceived ?ident (truncate_for_display ?text 100)) s"
  have fields: "o_running ?s1 = o_running s" "o_worker_session_ids ?s1 = o_worker_session_ids s"
    "o_worker_steer_tx ?s1 = o_worker_steer_tx s" "o_world ?s1 = o_world s"
    by (simp_all add: emit_runtime_event_def)
  obtain resp u where steer: "steer_running_issue env ?ident ?text ?s1 = (resp, u)"
    by (cases "steer_running_issue env ?ident ?text ?s1")
  have result: "response = resp" "o_worker_steer_tx t = o_worker_steer_tx u"
    using assms steer by (auto simp: handle_steer_dispatch_def Let_def emit_runtime_event_def)
  have upper: "eq_ignore_ascii_case a ?ident = eq_ignore_ascii_case a (trim ident)" for a
    by (simp add: eq_ignore_ascii_case_def lower_upper)
  show ?thesis
  proof (cases "find_running_by_identifier ?ident ?s1")
    case None
    then have "o_worker_steer_tx u = o_worker_steer_tx s" "\<And>i c. resp \<noteq> SteerDelivered i c"
      using steer fields by (auto simp: steer_running_issue_def split: if_splits)
    then show ?thesis using result by simp
  next
    case (Some found)
    obtain i canonical where found: "found = (i, canonical)" by (cases found)
    from Some found obtain a where a: "hget (o_running s) i = Some a" "ra_issue_identifier a = canonical"
      "eq_ignore_ascii_case canonical ?ident"
      by (auto simp: find_running_by_identifier_def find_Some_iff fields nth_mem
          dest: nth_mem simp flip: hitems_iff)
    show ?thesis
    proof (cases "?text \<noteq> [] \<and> hmember (o_worker_session_ids s) i \<and> hget (o_worker_steer_tx s) i \<noteq> None")
      case False
      then have "o_worker_steer_tx u = o_worker_steer_tx s" "\<And>i c. resp \<noteq> SteerDelivered i c"
        using steer Some found fields by (auto simp: steer_running_issue_def split: if_splits option.splits)
      then show ?thesis using result by simp
    next
      case True
      then obtain channel where ch: "hget (o_worker_steer_tx s) i = Some channel" by auto
      have "steer_running_issue env ?ident ?text ?s1 = send_follow_up env i canonical channel ?text ?s1"
        using True Some found ch fields by (simp add: steer_running_issue_def)
      then show ?thesis
        using steer result True a ch fields upper
        by (cases "fst (e_send_follow_up env channel ?text (o_world s))")
          (auto simp: send_follow_up_def call_eq)
    qed
  qed
qed

lemma steer_delivered_witness:
  "\<exists>t. handle_steer_dispatch (example_env []) ''kat-1 '' '' go on ''
      (example_running\<lparr> o_worker_session_ids := hput ''1'' ''s'' hempty, o_worker_steer_tx := hput ''1'' 4 hempty \<rparr>)
        = (SteerDelivered ''1'' ''KAT-1'', t)
     \<and> eq_ignore_ascii_case ''KAT-1'' (trim ''kat-1 '')"
proof -
  let ?s = "example_running\<lparr> o_worker_session_ids := hput ''1'' ''s'' hempty, o_worker_steer_tx := hput ''1'' 4 hempty \<rparr>"
  obtain a where a: "o_running example_running = hput ''1'' a hempty" "ra_issue_identifier a = ''KAT-1''"
    using example_running_attempt by (auto simp: issue_run_def example_issue_def)
  have "hitems (hput ''1'' a hempty) = [(''1'', a)]"
  proof -
    have "hlen (hput ''1'' a hempty) = 1" by (simp add: hlen_put)
    then have "length (hitems (hput ''1'' a hempty)) = 1" by (simp add: hlen_def)
    moreover have "(''1'', a) \<in> set (hitems (hput ''1'' a hempty))" by (simp add: hitems_iff)
    ultimately show ?thesis by (cases "hitems (hput ''1'' a hempty)") auto
  qed
  moreover have "eq_ignore_ascii_case ''KAT-1'' (to_ascii_uppercase (trim ''kat-1 ''))" by code_simp
  moreover have "trim '' go on '' \<noteq> []" by code_simp
  ultimately have "\<exists>t. handle_steer_dispatch (example_env []) ''kat-1 '' '' go on '' ?s
      = (SteerDelivered ''1'' ''KAT-1'', t)"
    by (simp add: handle_steer_dispatch_def steer_running_issue_def find_running_by_identifier_def
        send_follow_up_def call_eq emit_runtime_event_def a hmember_def example_env_def)
  then show ?thesis
    using steer_delivered [of "example_env []" "''kat-1 ''" "'' go on ''" ?s] by blast
qed

end
