(* ===== verification/AccountingFacts.thy ===== *)
theory AccountingFacts
  imports CompletionFacts
begin

text \<open>
  Token accounting of the orchestrator: the totals over all workers grow by exactly what
  the turns of running issues report, and stick at the largest 64-bit value.
\<close>

fun event_usage :: "agent_event \<Rightarrow> nat \<times> nat \<times> nat" where
  "event_usage (TurnCompleted _ _ _ _ input_tokens output_tokens total_tokens _) =
     (input_tokens, output_tokens, total_tokens)"
| "event_usage _ = (0, 0, 0)"

definition totals_ok :: "codex_totals \<Rightarrow> bool" where
  "totals_ok t \<longleftrightarrow> ct_input_tokens t \<le> u64_max \<and> ct_output_tokens t \<le> u64_max \<and> ct_total_tokens t \<le> u64_max"

lemma totals_bookkeeping [simp]:
  "o_codex_totals (ensure_worker_session_info i s) = o_codex_totals s"
  "o_codex_totals (modify_info i g s) = o_codex_totals s"
  "o_codex_totals (modify_stats i f s) = o_codex_totals s"
  "o_codex_totals (record_worker_activity i t s) = o_codex_totals s"
  "o_codex_totals (advance_turn_counter i s) = o_codex_totals s"
  "o_codex_totals (close_escalation event s) = o_codex_totals s"
  by (simp_all add: ensure_worker_session_info_def Let_def modify_info_def modify_stats_def
      record_worker_activity_def advance_turn_counter_def close_escalation_def split: option.splits)

lemma totals_ingest_parts [simp]:
  "o_codex_totals (ingest_summary env i event s) = o_codex_totals s"
  "o_codex_totals (ingest_tool_activity env i event s) = o_codex_totals s"
  "o_codex_totals (ingest_error i event s) = o_codex_totals s"
  by (simp_all add: ingest_summary_def ingest_tool_activity_def ingest_error_def Let_def
      split: prod.splits tool_activity.splits option.splits)

lemma totals_turn_completed:
  assumes "totals_ok (o_codex_totals s)"
  shows "o_codex_totals (ingest_turn_completed i event s) =
    (let t = o_codex_totals s; (a, b, c) = event_usage event
     in t\<lparr> ct_input_tokens := sat_add_u64 (ct_input_tokens t) a,
           ct_output_tokens := sat_add_u64 (ct_output_tokens t) b,
           ct_total_tokens := sat_add_u64 (ct_total_tokens t) c \<rparr>)"
  using assms
  by (cases event) (simp_all add: ingest_turn_completed_def apply_turn_metrics_def Let_def totals_ok_def u64.add_zero)

lemma totals_ingest:
  assumes "totals_ok (o_codex_totals s)"
  shows "o_codex_totals (ingest_agent_event env i event s) =
    (if hmember (o_running s) i then
       (let t = o_codex_totals s; (a, b, c) = event_usage event
        in \<lparr> ct_input_tokens = sat_add_u64 (ct_input_tokens t) a,
             ct_output_tokens = sat_add_u64 (ct_output_tokens t) b,
             ct_total_tokens = sat_add_u64 (ct_total_tokens t) c,
             ct_event_count = sat_add_u64 (ct_event_count t) 1 \<rparr>)
     else o_codex_totals s)"
proof -
  have "totals_ok (t\<lparr> ct_event_count := n \<rparr>) = totals_ok t" for t n by (simp add: totals_ok_def)
  then show ?thesis
    using assms
    by (cases "event_session_id event")
      (simp_all add: ingest_agent_event_def Let_def state_simps totals_turn_completed split: prod.splits)
qed

lemma totals_ok_ingest: "totals_ok (o_codex_totals s) \<Longrightarrow> totals_ok (o_codex_totals (ingest_agent_event env i event s))"
  by (simp add: totals_ingest Let_def split: prod.splits) (simp add: totals_ok_def)

lemma running_member_ingest:
  "hmember (o_running (ingest_agent_event env i event s)) j = hmember (o_running s) j"
  by (simp add: hmember_def running_ingest)

lemma min_add_min: "min (min a m + b) m = min (a + b) (m :: nat)"
  by auto

lemma totals_drain:
  assumes "totals_ok (o_codex_totals s)"
  shows "ct_total_tokens (o_codex_totals (drain_ready_worker_events env events s))
    = min (ct_total_tokens (o_codex_totals s)
        + sum_list (map (\<lambda>(i, ev). snd (snd (event_usage ev)))
            (filter (\<lambda>(i, ev). hmember (o_running s) i) events))) u64_max"
  using assms
proof (induction events arbitrary: s)
  case Nil
  then show ?case by (simp add: drain_ready_worker_events_def totals_ok_def)
next
  case (Cons x xs)
  obtain i ev where x: "x = (i, ev)" by (cases x)
  let ?s1 = "ingest_agent_event env i ev s"
  have "drain_ready_worker_events env (x # xs) s = drain_ready_worker_events env xs ?s1"
    by (simp add: drain_ready_worker_events_def x)
  moreover have "ct_total_tokens (o_codex_totals ?s1) =
      (if hmember (o_running s) i then sat_add_u64 (ct_total_tokens (o_codex_totals s)) (snd (snd (event_usage ev)))
       else ct_total_tokens (o_codex_totals s))"
    using Cons.prems by (simp add: totals_ingest Let_def split: prod.splits)
  ultimately show ?case
    using Cons.IH [OF totals_ok_ingest [OF Cons.prems], of env i ev]
    by (simp add: x running_member_ingest sat_add_u64_def min_add_min add.assoc)
qed

end
