(* ===== verification/Gate.thy ===== *)
theory Gate
  imports Prelude Domain
begin

text \<open>
  \<open>src/verification/gate.rs\<close> with the values of \<open>src/verification/domain.rs\<close> it reads: the
  strict check of the verifier's manifest and the gate computed from the durable command runs.
  A hash set of strings is the set of the strings put into it; a loop that returns on its
  first error is a recursion that stops there.
\<close>

section \<open>Values\<close>

datatype verification_command_kind = KindTest | KindAcceptance

datatype verifier_criterion_status = CritPass | CritFail | CritNotProven

fun verifier_criterion_status_as_str :: "verifier_criterion_status \<Rightarrow> string" where
  "verifier_criterion_status_as_str CritPass = ''pass''"
| "verifier_criterion_status_as_str CritFail = ''fail''"
| "verifier_criterion_status_as_str CritNotProven = ''not_proven''"

record verifier_criterion =
  vc_index :: nat
  vc_status :: verifier_criterion_status
  vc_rationale :: string
  vc_evidence :: "string list"

record verifier_manifest =
  vm_schema_version :: nat
  vm_spec_artifact_id :: string
  vm_implementation_artifact_id :: string
  vm_review_artifact_id :: string
  vm_reviewed_head_sha :: string
  vm_base_sha :: string
  vm_summary :: string
  vm_criteria :: "verifier_criterion list"

record verification_evidence_record =
  ve_evidence_id :: string
  ve_run_id :: string
  ve_attempt_id :: string
  ve_relative_path :: string
  ve_sha256 :: string
  ve_bytes_len :: nat
  ve_collected_at :: int

record verification_command_run =
  cr_command_run_id :: string
  cr_run_id :: string
  cr_attempt_id :: string
  cr_ordinal :: nat
  cr_name :: string
  cr_kind :: verification_command_kind
  cr_configuration_revision :: string
  cr_command_sha256 :: string
  cr_status :: string
  cr_launch_nonce :: "string option"
  cr_pid :: "int option"
  cr_process_group_id :: "int option"
  cr_process_start_token :: "string option"
  cr_executable_identity :: "string option"
  cr_container_id :: "string option"
  cr_started_at :: "int option"
  cr_completed_at :: "int option"
  cr_duration_ms :: "nat option"
  cr_exit_code :: "int option"
  cr_termination_reason :: "string option"
  cr_passed :: "bool option"
  cr_output_tail :: "string option"
  cr_output_sha256 :: "string option"
  cr_execution_profile :: string
  cr_created_at :: int
  cr_updated_at :: int

record expected_command =
  ec_ordinal :: nat
  ec_name :: string
  ec_kind :: verification_command_kind
  ec_configuration_revision :: string

record gate_identity =
  gi_spec_artifact_id :: string
  gi_implementation_artifact_id :: string
  gi_review_artifact_id :: string
  gi_reviewed_head_sha :: string
  gi_base_sha :: string
  gi_criterion_count :: nat
  gi_expected_commands :: "expected_command list"

record criterion_verdict =
  cv_index :: nat
  cv_status :: verifier_criterion_status
  cv_rationale :: string
  cv_evidence :: "string list"

record gate_verdict =
  gv_passed :: bool
  gv_reasons :: "string list"
  gv_criteria :: "criterion_verdict list"

definition verification_criteria_max_items :: nat where
  "verification_criteria_max_items = 200"

section \<open>The manifest\<close>

text \<open>One turn of the loop over the criteria, with the indices seen so far.\<close>

definition check_criterion ::
    "string set \<Rightarrow> nat list \<Rightarrow> verifier_criterion \<Rightarrow> symphony_error + nat list" where
  "check_criterion valid_evidence_paths seen criterion =
     (if vc_index criterion = 0
      then Inl (TriageError ''verifier manifest criterion index must be 1-based'')
      else if vc_index criterion \<in> set seen
      then Inl (TriageError (''verifier manifest criterion index ''
             @ nat_digits (vc_index criterion) @ '' appears more than once''))
      else if trim (vc_rationale criterion) = []
      then Inl (TriageError (''verifier manifest criterion ''
             @ nat_digits (vc_index criterion) @ '' has an empty rationale''))
      else case find (\<lambda>reference. reference \<notin> valid_evidence_paths) (vc_evidence criterion) of
        Some reference \<Rightarrow>
          Inl (TriageError (''verifier manifest criterion '' @ nat_digits (vc_index criterion)
                 @ '' references evidence '' @ [CHR 0x27] @ reference @ [CHR 0x27] @ '' outside the attempt''))
      | None \<Rightarrow>
          if vc_status criterion \<noteq> CritNotProven \<and> vc_evidence criterion = []
          then Inl (TriageError (''verifier manifest criterion '' @ nat_digits (vc_index criterion)
                 @ '' needs at least one evidence reference for status '' @ [CHR 0x27]
                 @ verifier_criterion_status_as_str (vc_status criterion) @ [CHR 0x27]))
          else Inr (vc_index criterion # seen))"

fun check_criteria ::
    "string set \<Rightarrow> nat list \<Rightarrow> verifier_criterion list \<Rightarrow> symphony_error + nat list" where
  "check_criteria valid_evidence_paths seen [] = Inr seen"
| "check_criteria valid_evidence_paths seen (criterion # criteria) =
     (case check_criterion valid_evidence_paths seen criterion of
        Inl e \<Rightarrow> Inl e
      | Inr seen' \<Rightarrow> check_criteria valid_evidence_paths seen' criteria)"

definition mismatch :: "string \<Rightarrow> string \<Rightarrow> string \<Rightarrow> symphony_error" where
  "mismatch field got wanted =
     TriageError (''verifier manifest '' @ field @ '' '' @ got @ '' does not match '' @ wanted)"

definition validate_manifest ::
    "verifier_manifest \<Rightarrow> gate_identity \<Rightarrow> verification_evidence_record list
     \<Rightarrow> symphony_error + unit" where
  "validate_manifest manifest identity evidence =
     (if vm_schema_version manifest \<noteq> 1
      then Inl (TriageError (''verifier manifest schema_version must be 1, got ''
             @ nat_digits (vm_schema_version manifest)))
      else if vm_spec_artifact_id manifest \<noteq> gi_spec_artifact_id identity
      then Inl (mismatch ''spec_artifact_id'' (vm_spec_artifact_id manifest) (gi_spec_artifact_id identity))
      else if vm_implementation_artifact_id manifest \<noteq> gi_implementation_artifact_id identity
      then Inl (mismatch ''implementation_artifact_id'' (vm_implementation_artifact_id manifest)
             (gi_implementation_artifact_id identity))
      else if vm_review_artifact_id manifest \<noteq> gi_review_artifact_id identity
      then Inl (mismatch ''review_artifact_id'' (vm_review_artifact_id manifest) (gi_review_artifact_id identity))
      else if vm_reviewed_head_sha manifest \<noteq> gi_reviewed_head_sha identity
      then Inl (mismatch ''reviewed_head_sha'' (vm_reviewed_head_sha manifest) (gi_reviewed_head_sha identity))
      else if vm_base_sha manifest \<noteq> gi_base_sha identity
      then Inl (mismatch ''base_sha'' (vm_base_sha manifest) (gi_base_sha identity))
      else if trim (vm_summary manifest) = []
      then Inl (TriageError ''verifier manifest summary must be non-empty'')
      else if length (vm_criteria manifest) \<noteq> gi_criterion_count identity
      then Inl (TriageError (''verifier manifest declares '' @ nat_digits (length (vm_criteria manifest))
             @ '' criteria; the approved spec has '' @ nat_digits (gi_criterion_count identity)))
      else if verification_criteria_max_items < length (vm_criteria manifest)
      then Inl (TriageError (''verifier manifest criteria exceed ''
             @ nat_digits verification_criteria_max_items))
      else case check_criteria (set (map ve_relative_path evidence)) [] (vm_criteria manifest) of
        Inl e \<Rightarrow> Inl e
      | Inr seen \<Rightarrow>
          (case find (\<lambda>index. index mod 2 ^ 32 \<notin> set seen) [1..<Suc (gi_criterion_count identity)] of
             Some index \<Rightarrow>
               Inl (TriageError (''verifier manifest is missing criterion '' @ nat_digits index))
           | None \<Rightarrow> Inr ()))"

section \<open>The gate\<close>

definition quoted :: "string \<Rightarrow> string" where
  "quoted s = [CHR 0x27] @ s @ [CHR 0x27]"

definition debug_exit_code :: "int option \<Rightarrow> string" where
  "debug_exit_code code =
     (case code of None \<Rightarrow> ''None'' | Some n \<Rightarrow> ''Some('' @ int_digits n @ '')'')"

definition criterion_reason :: "verifier_criterion \<Rightarrow> string option" where
  "criterion_reason criterion =
     (case vc_status criterion of
        CritPass \<Rightarrow> None
      | CritFail \<Rightarrow> Some (''criterion '' @ nat_digits (vc_index criterion) @ '' is assessed as fail'')
      | CritNotProven \<Rightarrow> Some (''criterion '' @ nat_digits (vc_index criterion) @ '' is not proven''))"

definition command_reason :: "verification_command_run \<Rightarrow> string option" where
  "command_reason run =
     (if cr_status run = ''completed'' \<and> cr_passed run = Some True then None
      else if cr_status run = ''completed''
      then Some (''command '' @ quoted (cr_name run) @ '' failed (exit ''
             @ debug_exit_code (cr_exit_code run) @ '')'')
      else if cr_status run = ''failed'' \<or> cr_status run = ''interrupted''
      then Some (''command '' @ quoted (cr_name run) @ '' did not complete ('' @ cr_status run @ '')'')
      else if cr_status run = ''not_run''
      then Some (''required command '' @ quoted (cr_name run) @ '' was never executed'')
      else if cr_status run = ''launching'' \<or> cr_status run = ''running''
      then Some (''command '' @ quoted (cr_name run) @ '' is still '' @ cr_status run)
      else Some (''command '' @ quoted (cr_name run) @ '' has an unexpected status ''
             @ quoted (cr_status run)))"

definition command_matches :: "verification_command_run \<Rightarrow> expected_command \<Rightarrow> bool" where
  "command_matches run expected \<longleftrightarrow>
     cr_ordinal run = ec_ordinal expected \<and> cr_name run = ec_name expected
     \<and> cr_kind run = ec_kind expected
     \<and> cr_configuration_revision run = ec_configuration_revision expected"

text \<open>The first position of a list whose element satisfies a predicate.\<close>

fun position_from :: "nat \<Rightarrow> ('a \<Rightarrow> bool) \<Rightarrow> 'a list \<Rightarrow> nat option" where
  "position_from i P [] = None"
| "position_from i P (x # xs) = (if P x then Some i else position_from (Suc i) P xs)"

fun match_commands ::
    "expected_command list \<Rightarrow> bool list \<Rightarrow> verification_command_run list \<Rightarrow> bool list \<times> string list" where
  "match_commands expected matched [] = (matched, [])"
| "match_commands expected matched (run # runs) =
     (case position_from 0 (command_matches run) expected of
        Some index \<Rightarrow>
          if \<not> matched ! index then match_commands expected (matched[index := True]) runs
          else (case match_commands expected matched runs of
                  (final, reasons) \<Rightarrow>
                    (final, (''command '' @ quoted (cr_name run) @ '' has more than one run record'') # reasons))
      | None \<Rightarrow>
          (case match_commands expected matched runs of
             (final, reasons) \<Rightarrow>
               (final, (''command '' @ quoted (cr_name run) @ '' (ordinal '' @ nat_digits (cr_ordinal run)
                  @ '') is not a configured verification command'') # reasons)))"

definition missing_commands :: "expected_command list \<Rightarrow> bool list \<Rightarrow> string list" where
  "missing_commands expected matched =
     map (\<lambda>(e, _). ''configured command '' @ quoted (ec_name e) @ '' has no run record'')
       (filter (\<lambda>(_, is_matched). \<not> is_matched) (zip expected matched))"

definition acceptance_reason :: "verification_command_run list \<Rightarrow> string list" where
  "acceptance_reason runs =
     (case find (\<lambda>run. cr_kind run = KindAcceptance) runs of
        None \<Rightarrow> [''no acceptance command recorded'']
      | Some acceptance \<Rightarrow>
          if cr_status acceptance \<noteq> ''completed'' \<or> cr_passed acceptance \<noteq> Some True
          then [''acceptance command '' @ quoted (cr_name acceptance) @ '' did not pass''] else [])"

definition gate_reasons ::
    "verifier_manifest \<Rightarrow> gate_identity \<Rightarrow> verification_command_run list \<Rightarrow> string list" where
  "gate_reasons manifest identity command_runs =
     (let expected = gi_expected_commands identity;
          (matched, coverage) = match_commands expected (replicate (length expected) False) command_runs
      in List.map_filter criterion_reason (vm_criteria manifest)
         @ List.map_filter command_reason command_runs
         @ coverage @ missing_commands expected matched @ acceptance_reason command_runs)"

definition criterion_verdict_of :: "verifier_criterion \<Rightarrow> criterion_verdict" where
  "criterion_verdict_of criterion =
     \<lparr> cv_index = vc_index criterion, cv_status = vc_status criterion,
       cv_rationale = vc_rationale criterion, cv_evidence = vc_evidence criterion \<rparr>"

definition compute_gate ::
    "verifier_manifest \<Rightarrow> gate_identity \<Rightarrow> verification_command_run list
     \<Rightarrow> verification_evidence_record list \<Rightarrow> symphony_error + gate_verdict" where
  "compute_gate manifest identity command_runs evidence =
     (case validate_manifest manifest identity evidence of
        Inl e \<Rightarrow> Inl e
      | Inr _ \<Rightarrow>
          (let reasons = gate_reasons manifest identity command_runs
           in Inr \<lparr> gv_passed = (reasons = []), gv_reasons = reasons,
                    gv_criteria = map criterion_verdict_of (vm_criteria manifest) \<rparr>))"

end
