(* ===== verification/GateFacts.thy ===== *)
theory GateFacts
  imports Gate
begin

text \<open>
  What the gate means: the loop over the criteria as a condition on the list of criteria, the
  matching of runs and configured commands as a one-to-one correspondence of their keys.
\<close>

section \<open>The manifest\<close>

definition criterion_ok :: "string set \<Rightarrow> verifier_criterion \<Rightarrow> bool" where
  "criterion_ok valid_evidence_paths c \<longleftrightarrow>
     0 < vc_index c \<and> trim (vc_rationale c) \<noteq> [] \<and> set (vc_evidence c) \<subseteq> valid_evidence_paths
     \<and> (vc_status c = CritNotProven \<or> vc_evidence c \<noteq> [])"

definition manifest_identity_ok :: "verifier_manifest \<Rightarrow> gate_identity \<Rightarrow> bool" where
  "manifest_identity_ok m i \<longleftrightarrow>
     vm_schema_version m = 1 \<and> vm_spec_artifact_id m = gi_spec_artifact_id i
     \<and> vm_implementation_artifact_id m = gi_implementation_artifact_id i
     \<and> vm_review_artifact_id m = gi_review_artifact_id i
     \<and> vm_reviewed_head_sha m = gi_reviewed_head_sha i \<and> vm_base_sha m = gi_base_sha i"

definition criteria_indices :: "verifier_manifest \<Rightarrow> nat list" where
  "criteria_indices m = map vc_index (vm_criteria m)"

lemma find_none_subset: "find (\<lambda>x. x \<notin> A) xs = None \<longleftrightarrow> set xs \<subseteq> A"
  by (auto simp: find_None_iff)

lemma check_criterion_ok:
  "check_criterion paths seen c = Inr seen' \<longleftrightarrow>
     criterion_ok paths c \<and> vc_index c \<notin> set seen \<and> seen' = vc_index c # seen"
proof (cases "find (\<lambda>x. x \<notin> paths) (vc_evidence c)")
  case None
  then have "set (vc_evidence c) \<subseteq> paths" by (simp only: find_none_subset)
  with None show ?thesis by (auto simp: check_criterion_def criterion_ok_def)
next
  case (Some x)
  then have "\<not> set (vc_evidence c) \<subseteq> paths"
    using find_none_subset [of paths "vc_evidence c"] by simp
  with Some show ?thesis by (simp add: check_criterion_def criterion_ok_def)
qed

lemma check_criteria_ok:
  "check_criteria paths seen cs = Inr out \<longleftrightarrow>
     out = rev (map vc_index cs) @ seen \<and> distinct (map vc_index cs)
     \<and> set (map vc_index cs) \<inter> set seen = {} \<and> (\<forall>c\<in>set cs. criterion_ok paths c)"
proof (induction cs arbitrary: seen)
  case Nil
  show ?case by auto
next
  case (Cons c cs)
  show ?case
  proof (cases "check_criterion paths seen c")
    case (Inl e)
    then have "\<not> (criterion_ok paths c \<and> vc_index c \<notin> set seen)"
      using check_criterion_ok [of paths seen c] by auto
    with Inl show ?thesis by auto
  next
    case (Inr seen')
    then have "criterion_ok paths c" "vc_index c \<notin> set seen" "seen' = vc_index c # seen"
      by (auto simp: check_criterion_ok)
    with Inr show ?thesis by (auto simp: Cons.IH)
  qed
qed

lemma full_indices:
  assumes "distinct xs" and "length xs = n"
  shows "{1..n} \<subseteq> set xs \<longleftrightarrow> set xs = {1..n}"
proof
  assume sub: "{1..n} \<subseteq> set xs"
  have "card (set xs) = card {1..n}" using assms by (simp add: distinct_card)
  with sub show "set xs = {1..n}" by (metis List.finite_set card_subset_eq)
qed simp

lemma index_fits: "n \<le> 200 \<Longrightarrow> index \<in> set [1..<Suc n] \<Longrightarrow> index mod 2 ^ 32 = index"
  by auto

lemma find_missing:
  assumes "n \<le> 200"
  shows "find (\<lambda>index. index mod 2 ^ 32 \<notin> A) [1..<Suc n] = None \<longleftrightarrow> {1..n} \<subseteq> A"
proof -
  have "\<forall>index \<in> set [1..<Suc n]. index mod 2 ^ 32 = index"
    using assms index_fits by blast
  then have "find (\<lambda>index. index mod 2 ^ 32 \<notin> A) [1..<Suc n] = None
      \<longleftrightarrow> (\<forall>index \<in> set [1..<Suc n]. index \<in> A)"
    unfolding find_None_iff by (metis (no_types, lifting))
  also have "\<dots> \<longleftrightarrow> {1..n} \<subseteq> A" by auto
  finally show ?thesis .
qed

lemma validate_manifest_ok:
  "validate_manifest m i evidence = Inr () \<longleftrightarrow>
     manifest_identity_ok m i \<and> trim (vm_summary m) \<noteq> []
     \<and> length (vm_criteria m) = gi_criterion_count i \<and> gi_criterion_count i \<le> 200
     \<and> distinct (criteria_indices m) \<and> set (criteria_indices m) = {1..gi_criterion_count i}
     \<and> (\<forall>c\<in>set (vm_criteria m). criterion_ok (set (map ve_relative_path evidence)) c)"
    (is "?lhs \<longleftrightarrow> ?head \<and> ?summary \<and> ?len \<and> ?max \<and> ?tail")
proof (cases "?head \<and> ?summary \<and> ?len \<and> ?max")
  case False
  then show ?thesis
    by (auto simp: validate_manifest_def manifest_identity_ok_def verification_criteria_max_items_def)
next
  case True
  let ?paths = "set (map ve_relative_path evidence)" and ?n = "gi_criterion_count i"
  have body: "validate_manifest m i evidence =
      (case check_criteria ?paths [] (vm_criteria m) of Inl e \<Rightarrow> Inl e
       | Inr seen \<Rightarrow> (case find (\<lambda>index. index mod 2 ^ 32 \<notin> set seen) [1..<Suc ?n] of
           Some index \<Rightarrow> Inl (TriageError (''verifier manifest is missing criterion '' @ nat_digits index))
         | None \<Rightarrow> Inr ()))"
    using True
    by (simp add: validate_manifest_def manifest_identity_ok_def verification_criteria_max_items_def
        del: upt_Suc)
  show ?thesis
  proof (cases "check_criteria ?paths [] (vm_criteria m)")
    case (Inl e)
    then have "\<not> (distinct (criteria_indices m) \<and> (\<forall>c\<in>set (vm_criteria m). criterion_ok ?paths c))"
      using check_criteria_ok [of ?paths "[]" "vm_criteria m"] unfolding criteria_indices_def by auto
    with Inl body show ?thesis by auto
  next
    case (Inr seen)
    then have seen: "set seen = set (criteria_indices m)" and d: "distinct (criteria_indices m)"
      and ok: "\<forall>c\<in>set (vm_criteria m). criterion_ok ?paths c"
      by (auto simp: check_criteria_ok criteria_indices_def)
    have len: "length (criteria_indices m) = ?n" using True by (simp add: criteria_indices_def)
    have "?lhs \<longleftrightarrow> find (\<lambda>index. index mod 2 ^ 32 \<notin> set seen) [1..<Suc ?n] = None"
      using body Inr by (simp split: option.split del: upt_Suc)
    also have "\<dots> \<longleftrightarrow> set (criteria_indices m) = {1..?n}"
      using True seen by (simp only: find_missing full_indices [OF d len])
    finally show ?thesis using True d ok by blast
  qed
qed

section \<open>Runs and configured commands\<close>

definition run_key :: "verification_command_run \<Rightarrow> nat \<times> string \<times> verification_command_kind \<times> string"
  where "run_key r = (cr_ordinal r, cr_name r, cr_kind r, cr_configuration_revision r)"

definition expected_key :: "expected_command \<Rightarrow> nat \<times> string \<times> verification_command_kind \<times> string"
  where "expected_key e = (ec_ordinal e, ec_name e, ec_kind e, ec_configuration_revision e)"

definition run_passed :: "verification_command_run \<Rightarrow> bool" where
  "run_passed r \<longleftrightarrow> cr_status r = ''completed'' \<and> cr_passed r = Some True"

lemma command_matches_key: "command_matches r e \<longleftrightarrow> run_key r = expected_key e"
  by (simp add: command_matches_def run_key_def expected_key_def)

lemma position_from_some:
  "position_from k P xs = Some i \<Longrightarrow>
     \<exists>d < length xs. i = k + d \<and> P (xs ! d) \<and> (\<forall>j < d. \<not> P (xs ! j))"
proof (induction xs arbitrary: k)
  case (Cons x xs)
  show ?case
  proof (cases "P x")
    case True
    with Cons.prems show ?thesis by (intro exI [of _ 0]) simp
  next
    case False
    with Cons.prems have "position_from (Suc k) P xs = Some i" by simp
    from Cons.IH [OF this] obtain d where d: "d < length xs" "i = Suc k + d" "P (xs ! d)"
      "\<forall>j<d. \<not> P (xs ! j)" by blast
    with False show ?thesis by (intro exI [of _ "Suc d"]) (auto simp: less_Suc_eq_0_disj)
  qed
qed simp

lemma position_from_none: "position_from k P xs = None \<longleftrightarrow> (\<forall>x\<in>set xs. \<not> P x)"
  by (induction xs arbitrary: k) auto

definition run_position :: "expected_command list \<Rightarrow> verification_command_run \<Rightarrow> nat option" where
  "run_position expected r = position_from 0 (command_matches r) expected"

lemma run_position_some:
  "run_position expected r = Some i \<Longrightarrow>
     i < length expected \<and> expected_key (expected ! i) = run_key r
     \<and> (\<forall>j<i. expected_key (expected ! j) \<noteq> run_key r)"
  by (auto simp: run_position_def command_matches_key dest!: position_from_some)

lemma run_position_none:
  "run_position expected r = None \<longleftrightarrow> run_key r \<notin> expected_key ` set expected"
  by (auto simp: run_position_def position_from_none command_matches_key)

lemma match_commands_length [simp]:
  "length (fst (match_commands expected matched runs)) = length matched"
  by (induction expected matched runs rule: match_commands.induct)
    (auto split: option.splits prod.splits)

text \<open>One turn of the matching loop, by the position of the run.\<close>

lemma match_commands_bad:
  assumes "run_position expected r = None \<or> (\<exists>k. run_position expected r = Some k \<and> matched ! k)"
  shows "fst (match_commands expected matched (r # runs)) = fst (match_commands expected matched runs)"
    and "snd (match_commands expected matched (r # runs)) \<noteq> []"
  using assms by (auto simp: run_position_def split: prod.split)

lemma match_commands_good:
  assumes "run_position expected r = Some k" and "\<not> matched ! k"
  shows "match_commands expected matched (r # runs) = match_commands expected (matched[k := True]) runs"
  using assms by (simp add: run_position_def)

lemma match_commands_final:
  assumes "length matched = length expected" and "i < length expected"
  shows "fst (match_commands expected matched runs) ! i \<longleftrightarrow>
     matched ! i \<or> (\<exists>r\<in>set runs. run_position expected r = Some i)"
  using assms(1)
proof (induction runs arbitrary: matched)
  case (Cons r runs)
  show ?case
  proof (cases "\<exists>k. run_position expected r = Some k \<and> \<not> matched ! k")
    case True
    then obtain k where k: "run_position expected r = Some k" "\<not> matched ! k" by blast
    then have "k < length matched" using run_position_some [OF k(1)] Cons.prems by simp
    then show ?thesis
      using Cons.IH [of "matched[k := True]"] Cons.prems k
      by (auto simp: match_commands_good nth_list_update simp del: match_commands.simps)
  next
    case False
    then have bad: "run_position expected r = None \<or> (\<exists>k. run_position expected r = Some k \<and> matched ! k)"
      by (cases "run_position expected r") auto
    show ?thesis
      using Cons.IH [OF Cons.prems] bad
      by (auto simp: match_commands_bad(1) [OF bad] simp del: match_commands.simps)
  qed
qed simp

lemma match_commands_reasons:
  assumes "length matched = length expected"
  shows "snd (match_commands expected matched runs) = [] \<longleftrightarrow>
     (\<forall>r\<in>set runs. \<exists>i. run_position expected r = Some i \<and> \<not> matched ! i)
     \<and> distinct (map (run_position expected) runs)"
  using assms
proof (induction runs arbitrary: matched)
  case (Cons r runs)
  show ?case
  proof (cases "\<exists>k. run_position expected r = Some k \<and> \<not> matched ! k")
    case True
    then obtain k where k: "run_position expected r = Some k" "\<not> matched ! k" by blast
    then have len: "k < length matched" using run_position_some [OF k(1)] Cons.prems by simp
    have step: "(\<exists>i. run_position expected q = Some i \<and> \<not> matched[k := True] ! i) \<longleftrightarrow>
        (\<exists>i. run_position expected q = Some i \<and> \<not> matched ! i) \<and> run_position expected q \<noteq> Some k"
      for q using len k(2) by (cases "run_position expected q") (auto simp: nth_list_update)
    have "(\<forall>q\<in>set runs. \<exists>i. run_position expected q = Some i \<and> \<not> matched[k := True] ! i) \<longleftrightarrow>
        (\<forall>q\<in>set runs. (\<exists>i. run_position expected q = Some i \<and> \<not> matched ! i)
           \<and> run_position expected q \<noteq> Some k)" by (simp only: step)
    also have "\<dots> \<longleftrightarrow> (\<forall>q\<in>set runs. \<exists>i. run_position expected q = Some i \<and> \<not> matched ! i)
        \<and> Some k \<notin> set (map (run_position expected) runs)" by (simp add: image_iff ball_conj_distrib) metis
    finally have all: "(\<forall>q\<in>set runs. \<exists>i. run_position expected q = Some i \<and> \<not> matched[k := True] ! i) \<longleftrightarrow>
        (\<forall>q\<in>set runs. \<exists>i. run_position expected q = Some i \<and> \<not> matched ! i)
        \<and> Some k \<notin> set (map (run_position expected) runs)" .
    have "snd (match_commands expected (matched[k := True]) runs) = [] \<longleftrightarrow>
        (\<forall>q\<in>set runs. \<exists>i. run_position expected q = Some i \<and> \<not> matched[k := True] ! i)
        \<and> distinct (map (run_position expected) runs)"
      using Cons.IH [of "matched[k := True]"] Cons.prems by simp
    moreover have "match_commands expected matched (r # runs) = match_commands expected (matched[k := True]) runs"
      using k by (rule match_commands_good)
    ultimately show ?thesis using all k by simp
  next
    case False
    then have bad: "run_position expected r = None \<or> (\<exists>k. run_position expected r = Some k \<and> matched ! k)"
      by (cases "run_position expected r") auto
    show ?thesis using False match_commands_bad(2) [OF bad, of runs] by auto
  qed
qed simp

lemma missing_commands_none:
  assumes "length matched = length expected"
  shows "missing_commands expected matched = [] \<longleftrightarrow> (\<forall>i<length expected. matched ! i)"
  using assms unfolding missing_commands_def by (auto simp: filter_empty_conv set_zip)

definition one_to_one :: "verification_command_run list \<Rightarrow> expected_command list \<Rightarrow> bool" where
  "one_to_one runs expected \<longleftrightarrow>
     distinct (map run_key runs) \<and> distinct (map expected_key expected)
     \<and> set (map run_key runs) = set (map expected_key expected)"

lemma run_position_key:
  assumes "run_position expected r = Some i" and "run_position expected r' = Some j"
  shows "i = j \<longleftrightarrow> run_key r = run_key r'"
  using run_position_some [OF assms(1)] run_position_some [OF assms(2)]
  by (metis linorder_neqE_nat)

text \<open>Every run has a position, no two the same, and every position is taken: exactly the
  one-to-one correspondence.\<close>

lemma coverage_one_to_one:
  "(\<forall>r\<in>set runs. run_position expected r \<noteq> None) \<and> distinct (map (run_position expected) runs)
     \<and> (\<forall>i<length expected. \<exists>r\<in>set runs. run_position expected r = Some i)
   \<longleftrightarrow> one_to_one runs expected"
proof (cases "\<forall>r\<in>set runs. run_position expected r \<noteq> None")
  case False
  then obtain r where r: "r \<in> set runs" "run_key r \<notin> expected_key ` set expected"
    by (auto simp: run_position_none)
  then have "\<not> one_to_one runs expected" unfolding one_to_one_def by (metis image_eqI list.set_map)
  with False show ?thesis by blast
next
  case True
  have inj: "run_position expected r = run_position expected r' \<longleftrightarrow> run_key r = run_key r'"
    if "r \<in> set runs" "r' \<in> set runs" for r r'
    using True that run_position_key by (metis not_Some_eq option.inject)
  have d: "distinct (map (run_position expected) runs) \<longleftrightarrow> distinct (map run_key runs)"
    by (auto simp: distinct_map inj_on_def inj)
  have sub: "run_key ` set runs \<subseteq> expected_key ` set expected"
    using True by (auto simp: run_position_none)
  have "(\<forall>i<length expected. \<exists>r\<in>set runs. run_position expected r = Some i) \<longleftrightarrow>
      distinct (map expected_key expected) \<and> expected_key ` set expected \<subseteq> run_key ` set runs"
    (is "?all \<longleftrightarrow> ?dist \<and> ?sup")
  proof
    assume all: ?all
    have "expected_key (expected ! i) \<noteq> expected_key (expected ! j)"
      if "i < length expected" "j < i" for i j
    proof -
      from all that(1) obtain r where r: "run_position expected r = Some i" by blast
      show ?thesis using run_position_some [OF r] that(2) by auto
    qed
    then have ?dist by (auto simp: distinct_conv_nth) (metis linorder_neqE_nat)
    moreover have ?sup
    proof
      fix key assume "key \<in> expected_key ` set expected"
      then obtain i where i: "i < length expected" "key = expected_key (expected ! i)"
        by (auto simp: in_set_conv_nth)
      then obtain r where "r \<in> set runs" "run_position expected r = Some i" using all by blast
      then show "key \<in> run_key ` set runs" using run_position_some i(2) by (metis image_eqI)
    qed
    ultimately show "?dist \<and> ?sup" by blast
  next
    assume right: "?dist \<and> ?sup"
    show ?all
    proof (intro allI impI)
      fix i assume i: "i < length expected"
      then have "expected_key (expected ! i) \<in> run_key ` set runs" using right by auto
      then obtain r where r: "r \<in> set runs" "expected_key (expected ! i) = run_key r" by blast
      with True obtain j where j: "run_position expected r = Some j" by blast
      have "j = i"
        using run_position_some [OF j] r(2) i right
        by (metis distinct_conv_nth length_map nth_map)
      with r j show "\<exists>r\<in>set runs. run_position expected r = Some i" by blast
    qed
  qed
  then show ?thesis using True d sub unfolding one_to_one_def by auto
qed

lemma coverage_reasons:
  assumes m: "match_commands expected (replicate (length expected) False) runs = (matched, coverage)"
  shows "coverage = [] \<and> missing_commands expected matched = [] \<longleftrightarrow> one_to_one runs expected"
proof -
  let ?F = "replicate (length expected) False"
  have c: "coverage = [] \<longleftrightarrow> (\<forall>r\<in>set runs. run_position expected r \<noteq> None)
      \<and> distinct (map (run_position expected) runs)"
    using match_commands_reasons [of ?F expected runs] m run_position_some
    by (fastforce simp del: distinct_map)
  have len: "length matched = length expected"
    using match_commands_length [of expected ?F runs] m by simp
  have "missing_commands expected matched = [] \<longleftrightarrow>
      (\<forall>i<length expected. \<exists>r\<in>set runs. run_position expected r = Some i)"
    using match_commands_final [of ?F expected _ runs] m
    by (simp add: missing_commands_none [OF len])
  then show ?thesis using c coverage_one_to_one [of runs expected] by blast
qed

lemma map_filter_none: "List.map_filter f xs = [] \<longleftrightarrow> (\<forall>x\<in>set xs. f x = None)"
  by (induction xs) (auto simp: List.map_filter_def)

lemma criterion_reason_none: "criterion_reason c = None \<longleftrightarrow> vc_status c = CritPass"
  by (simp add: criterion_reason_def split: verifier_criterion_status.split)

lemma command_reason_none: "command_reason r = None \<longleftrightarrow> run_passed r"
  by (simp add: command_reason_def run_passed_def)

lemma acceptance_reason_none:
  assumes "\<forall>r\<in>set runs. run_passed r"
  shows "acceptance_reason runs = [] \<longleftrightarrow> (\<exists>r\<in>set runs. cr_kind r = KindAcceptance)"
proof (cases "find (\<lambda>run. cr_kind run = KindAcceptance) runs")
  case None
  then have "\<not> (\<exists>r\<in>set runs. cr_kind r = KindAcceptance)" by (simp add: find_None_iff)
  with None show ?thesis by (simp add: acceptance_reason_def)
next
  case (Some r)
  then have "r \<in> set runs \<and> cr_kind r = KindAcceptance" by (auto simp: find_Some_iff)
  with Some assms show ?thesis by (auto simp: acceptance_reason_def run_passed_def)
qed

lemma gate_reasons_none:
  "gate_reasons m i runs = [] \<longleftrightarrow>
     (\<forall>c\<in>set (vm_criteria m). vc_status c = CritPass) \<and> (\<forall>r\<in>set runs. run_passed r)
     \<and> one_to_one runs (gi_expected_commands i) \<and> (\<exists>r\<in>set runs. cr_kind r = KindAcceptance)"
proof -
  obtain matched coverage where m: "match_commands (gi_expected_commands i)
      (replicate (length (gi_expected_commands i)) False) runs = (matched, coverage)"
    by (cases "match_commands (gi_expected_commands i)
      (replicate (length (gi_expected_commands i)) False) runs")
  show ?thesis
    using coverage_reasons [OF m] acceptance_reason_none [of runs]
    by (auto simp: gate_reasons_def m map_filter_none criterion_reason_none command_reason_none)
qed

end
