(* ===== verification/FactoryDomain.thy ===== *)
theory FactoryDomain
  imports Prelude Domain Json
begin

text \<open>
  \<open>src/triage/domain.rs\<close>: statuses, routes and modes of the factory with their text, errors
  and artifacts, the byte-bounded truncation of text, and the managed projection of a GitHub
  issue. A \<open>BTreeSet<String>\<close> is the set of its elements; where its order shows (its
  JSON) the elements are sorted. Time stamps are integers.
\<close>

section \<open>Text within a number of bytes\<close>

definition char_bytes :: "char \<Rightarrow> nat" where
  "char_bytes c =
     (if code_point c < 128 then 1 else if c \<in> {right_arrow, em_dash, ellipsis} then 3 else 2)"

text \<open>\<open>str::len\<close>: the length of the UTF-8 encoding.\<close>

definition utf8_len :: "string \<Rightarrow> nat" where
  "utf8_len s = sum_list (map char_bytes s)"

text \<open>The characters whose encodings lie within the first \<open>n\<close> bytes.\<close>

fun take_bytes :: "nat \<Rightarrow> string \<Rightarrow> string" where
  "take_bytes n [] = []"
| "take_bytes n (c # s) = (if char_bytes c \<le> n then c # take_bytes (n - char_bytes c) s else [])"

definition is_char_boundary :: "string \<Rightarrow> nat \<Rightarrow> bool" where
  "is_char_boundary s n \<longleftrightarrow> utf8_len (take_bytes n s) = n"

fun back_to_boundary :: "string \<Rightarrow> nat \<Rightarrow> nat" where
  "back_to_boundary s 0 = 0"
| "back_to_boundary s (Suc n) = (if is_char_boundary s (Suc n) then Suc n else back_to_boundary s n)"

definition truncate_utf8_bytes :: "string \<Rightarrow> nat \<Rightarrow> string" where
  "truncate_utf8_bytes s max_bytes =
     (if utf8_len s \<le> max_bytes then s else take_bytes (back_to_boundary s max_bytes) s)"

section \<open>Modes, routes and statuses\<close>

datatype triage_mode = ModePreview | ModeAutomatic

definition triage_mode_parse :: "string \<Rightarrow> triage_mode option" where
  "triage_mode_parse value =
     (let v = to_ascii_lowercase (trim value)
      in if v = ''preview'' then Some ModePreview
         else if v = ''automatic'' then Some ModeAutomatic else None)"

fun triage_mode_as_str :: "triage_mode \<Rightarrow> string" where
  "triage_mode_as_str ModePreview = ''preview''"
| "triage_mode_as_str ModeAutomatic = ''automatic''"

datatype triage_route =
  RouteImplement | RouteSpec | RouteNeedsInformation | RoutePark | RouteHumanOwned

fun triage_route_as_str :: "triage_route \<Rightarrow> string" where
  "triage_route_as_str RouteImplement = ''implement''"
| "triage_route_as_str RouteSpec = ''spec''"
| "triage_route_as_str RouteNeedsInformation = ''needs_information''"
| "triage_route_as_str RoutePark = ''park''"
| "triage_route_as_str RouteHumanOwned = ''human_owned''"

definition parse_route :: "string \<Rightarrow> triage_route option" where
  "parse_route value =
     (let v = to_ascii_lowercase (trim value)
      in if v = ''implement'' then Some RouteImplement
         else if v = ''spec'' then Some RouteSpec
         else if v = ''needs_information'' \<or> v = ''needs-information'' \<or> v = ''needs information''
         then Some RouteNeedsInformation
         else if v = ''park'' then Some RoutePark
         else if v = ''human_owned'' \<or> v = ''human-owned'' \<or> v = ''human owned''
         then Some RouteHumanOwned
         else None)"

datatype risk_class = RiskLow | RiskMedium | RiskHigh

fun risk_class_as_str :: "risk_class \<Rightarrow> string" where
  "risk_class_as_str RiskLow = ''low''"
| "risk_class_as_str RiskMedium = ''medium''"
| "risk_class_as_str RiskHigh = ''high''"

definition parse_risk_class :: "string \<Rightarrow> risk_class option" where
  "parse_risk_class value =
     (let v = to_ascii_lowercase (trim value)
      in if v = ''low'' then Some RiskLow
         else if v = ''medium'' then Some RiskMedium
         else if v = ''high'' then Some RiskHigh else None)"

datatype evidence_kind = EvidenceIssue | EvidenceRepository | EvidenceReproduction

fun evidence_kind_as_str :: "evidence_kind \<Rightarrow> string" where
  "evidence_kind_as_str EvidenceIssue = ''issue''"
| "evidence_kind_as_str EvidenceRepository = ''repository''"
| "evidence_kind_as_str EvidenceReproduction = ''reproduction''"

datatype factory_run_status = FactoryActive | FactoryWaiting | FactoryCompleted | FactoryFailed | FactoryIneligible

fun factory_run_status_as_str :: "factory_run_status \<Rightarrow> string" where
  "factory_run_status_as_str FactoryActive = ''active''"
| "factory_run_status_as_str FactoryWaiting = ''waiting''"
| "factory_run_status_as_str FactoryCompleted = ''completed''"
| "factory_run_status_as_str FactoryFailed = ''failed''"
| "factory_run_status_as_str FactoryIneligible = ''ineligible''"

datatype stage_status = StagePending | StageRunning | StageCompleted | StageFailed | StageInterrupted

fun stage_status_as_str :: "stage_status \<Rightarrow> string" where
  "stage_status_as_str StagePending = ''pending''"
| "stage_status_as_str StageRunning = ''running''"
| "stage_status_as_str StageCompleted = ''completed''"
| "stage_status_as_str StageFailed = ''failed''"
| "stage_status_as_str StageInterrupted = ''interrupted''"

definition stage_status_is_terminal :: "stage_status \<Rightarrow> bool" where
  "stage_status_is_terminal s \<longleftrightarrow> s = StageCompleted \<or> s = StageFailed \<or> s = StageInterrupted"

datatype publication_status = PubNone | PubPending | PubApplied | PubBlocked | PubConflict

fun publication_status_as_str :: "publication_status \<Rightarrow> string" where
  "publication_status_as_str PubNone = ''none''"
| "publication_status_as_str PubPending = ''pending''"
| "publication_status_as_str PubApplied = ''applied''"
| "publication_status_as_str PubBlocked = ''blocked''"
| "publication_status_as_str PubConflict = ''conflict''"

datatype publication_mode = PublishPreview | PublishAutomatic

fun publication_mode_as_str :: "publication_mode \<Rightarrow> string" where
  "publication_mode_as_str PublishPreview = ''preview''"
| "publication_mode_as_str PublishAutomatic = ''automatic''"

section \<open>Records\<close>

record triage_evidence =
  te_kind :: evidence_kind
  te_reference :: string
  te_summary :: string

record reproduction_summary =
  rs_attempted :: bool
  rs_outcome :: string

record triage_artifact =
  ta_schema_version :: nat
  ta_route :: triage_route
  ta_risk_class :: risk_class
  ta_rationale :: string
  ta_evidence :: "triage_evidence list"
  ta_next_action :: string
  ta_clarification_question :: "string option"
  ta_reproduction :: "reproduction_summary option"

record route_mapping =
  rm_label :: string
  rm_state :: "string option"

record triage_routes_config =
  tr_implement :: route_mapping
  tr_spec :: route_mapping
  tr_needs_information :: route_mapping
  tr_park :: route_mapping
  tr_human_owned :: route_mapping

fun mapping_for :: "triage_routes_config \<Rightarrow> triage_route \<Rightarrow> route_mapping" where
  "mapping_for c RouteImplement = tr_implement c"
| "mapping_for c RouteSpec = tr_spec c"
| "mapping_for c RouteNeedsInformation = tr_needs_information c"
| "mapping_for c RoutePark = tr_park c"
| "mapping_for c RouteHumanOwned = tr_human_owned c"

definition routes_managed_labels :: "triage_routes_config \<Rightarrow> string list" where
  "routes_managed_labels c =
     [rm_label (tr_implement c), rm_label (tr_spec c), rm_label (tr_needs_information c),
      rm_label (tr_park c), rm_label (tr_human_owned c)]"

record factory_error =
  fe_code :: string
  fe_component :: string
  fe_remediation :: string
  fe_retryable :: bool
  fe_publication_step :: "string option"

definition factory_error_string_max_bytes :: nat where
  "factory_error_string_max_bytes = 2000"

definition factory_event_payload_max_bytes :: nat where
  "factory_event_payload_max_bytes = 65536"

definition triage_lease_stale_after_ms :: int where
  "triage_lease_stale_after_ms = 60000"

definition triage_stage_name :: string where
  "triage_stage_name = ''triage''"

definition factory_error_new ::
    "string \<Rightarrow> string \<Rightarrow> string \<Rightarrow> bool \<Rightarrow> string option \<Rightarrow> factory_error" where
  "factory_error_new code component remediation retryable publication_step =
     \<lparr> fe_code = truncate_utf8_bytes code factory_error_string_max_bytes,
       fe_component = truncate_utf8_bytes component factory_error_string_max_bytes,
       fe_remediation = truncate_utf8_bytes remediation factory_error_string_max_bytes,
       fe_retryable = retryable,
       fe_publication_step =
         map_option (\<lambda>step. truncate_utf8_bytes step factory_error_string_max_bytes) publication_step \<rparr>"

record stage_usage =
  su_input_tokens :: nat
  su_output_tokens :: nat
  su_total_tokens :: nat

section \<open>The managed projection\<close>

record managed_projection =
  mp_managed_labels :: "string set"
  mp_project_state :: "string option"

definition projection_default :: managed_projection where
  "projection_default = \<lparr> mp_managed_labels = {}, mp_project_state = None \<rparr>"

definition normalize_managed_value :: "string \<Rightarrow> string" where
  "normalize_managed_value value = to_ascii_lowercase (trim value)"

definition nonblank :: "string option \<Rightarrow> string option" where
  "nonblank s = (case s of None \<Rightarrow> None | Some t \<Rightarrow> if t = [] then None else Some t)"

definition projection_observe ::
    "string list \<Rightarrow> string set \<Rightarrow> string option \<Rightarrow> managed_projection" where
  "projection_observe labels managed project_state =
     \<lparr> mp_managed_labels = set (filter (\<lambda>l. l \<in> managed) (map normalize_managed_value labels)),
       mp_project_state = nonblank (map_option normalize_managed_value project_state) \<rparr>"

fun json_strings :: "json list \<Rightarrow> string list option" where
  "json_strings [] = Some []"
| "json_strings (JString s # xs) = map_option (Cons s) (json_strings xs)"
| "json_strings (_ # xs) = None"

text \<open>\<open>serde\<close> reads a missing or null optional field as \<open>None\<close>.\<close>

definition projection_from_json :: "json \<Rightarrow> managed_projection option" where
  "projection_from_json v =
     (case json_get v ''managed_labels'' of
        None \<Rightarrow> None
      | Some labels \<Rightarrow>
          (case Option.bind (as_array labels) json_strings of
             None \<Rightarrow> None
           | Some ls \<Rightarrow>
               (case json_get v ''project_state'' of
                  None \<Rightarrow> Some \<lparr> mp_managed_labels = set ls, mp_project_state = None \<rparr>
                | Some JNull \<Rightarrow> Some \<lparr> mp_managed_labels = set ls, mp_project_state = None \<rparr>
                | Some (JString s) \<Rightarrow> Some \<lparr> mp_managed_labels = set ls, mp_project_state = Some s \<rparr>
                | Some _ \<Rightarrow> None)))"

definition projection_to_json :: "managed_projection \<Rightarrow> json" where
  "projection_to_json p =
     JObject
       [(''managed_labels'', JArray (map JString (sorted_list_of_set (mp_managed_labels p)))),
        (''project_state'', (case mp_project_state p of None \<Rightarrow> JNull | Some s \<Rightarrow> JString s))]"

definition with_label :: "managed_projection \<Rightarrow> string \<Rightarrow> managed_projection" where
  "with_label p l =
     p\<lparr> mp_managed_labels := insert (normalize_managed_value l) (mp_managed_labels p) \<rparr>"

definition without_label :: "managed_projection \<Rightarrow> string \<Rightarrow> managed_projection" where
  "without_label p l = p\<lparr> mp_managed_labels := mp_managed_labels p - {normalize_managed_value l} \<rparr>"

definition with_project_state :: "managed_projection \<Rightarrow> string \<Rightarrow> managed_projection" where
  "with_project_state p state =
     (let normalized = normalize_managed_value state
      in p\<lparr> mp_project_state := (if normalized \<noteq> [] then Some normalized else None) \<rparr>)"

definition contains_label :: "managed_projection \<Rightarrow> string \<Rightarrow> bool" where
  "contains_label p l \<longleftrightarrow> normalize_managed_value l \<in> mp_managed_labels p"

definition managed_label_set :: "string list \<Rightarrow> string set" where
  "managed_label_set labels = set (filter (\<lambda>l. l \<noteq> []) (map normalize_managed_value labels))"

section \<open>Facts\<close>

lemma utf8_len_Nil [simp]: "utf8_len [] = 0"
  by (simp add: utf8_len_def)

lemma utf8_len_Cons [simp]: "utf8_len (c # s) = char_bytes c + utf8_len s"
  by (simp add: utf8_len_def)

lemma utf8_len_append [simp]: "utf8_len (s @ t) = utf8_len s + utf8_len t"
  by (simp add: utf8_len_def)

lemma char_bytes_pos [simp]: "0 < char_bytes c"
  by (simp add: char_bytes_def)

lemma utf8_len_take_bytes: "utf8_len (take_bytes n s) \<le> n"
  by (induction n s rule: take_bytes.induct) auto

lemma take_bytes_prefix: "\<exists>t. s = take_bytes n s @ t"
  by (induction n s rule: take_bytes.induct) auto

lemma take_bytes_all: "utf8_len s \<le> n \<Longrightarrow> take_bytes n s = s"
  by (induction n s rule: take_bytes.induct) auto

text \<open>\<open>take_bytes\<close> depends only on the boundary it stops at.\<close>

lemma take_bytes_boundary: "take_bytes (utf8_len (take_bytes n s)) s = take_bytes n s"
  by (induction n s rule: take_bytes.induct) auto

lemma back_to_boundary_is: "back_to_boundary s n = utf8_len (take_bytes n s)"
proof (induction n)
  case 0
  have "take_bytes 0 s = []" by (cases s) (simp_all add: not_le)
  then show ?case by simp
next
  case (Suc n)
  show ?case
  proof (cases "is_char_boundary s (Suc n)")
    case True
    then show ?thesis by (simp add: is_char_boundary_def)
  next
    case False
    then have "utf8_len (take_bytes (Suc n) s) \<le> n"
      using utf8_len_take_bytes [of "Suc n" s] by (simp add: is_char_boundary_def)
    moreover have "utf8_len (take_bytes (Suc n) s) \<le> n \<Longrightarrow> take_bytes (Suc n) s = take_bytes n s" for n s
    proof (induction "Suc n" s arbitrary: n rule: take_bytes.induct)
      case (2 c s)
      show ?case
      proof (cases "char_bytes c \<le> n")
        case True
        then have "Suc n - char_bytes c = Suc (n - char_bytes c)" by simp
        with 2 True show ?thesis by simp
      next
        case False
        with 2 show ?thesis by (auto split: if_splits)
      qed
    qed simp
    ultimately show ?thesis using Suc False by simp
  qed
qed

lemma truncate_is_take_bytes: "truncate_utf8_bytes s n = take_bytes n s"
  by (simp add: truncate_utf8_bytes_def back_to_boundary_is take_bytes_boundary take_bytes_all)

lemma truncate_bound: "utf8_len (truncate_utf8_bytes s n) \<le> n"
  by (simp add: truncate_is_take_bytes utf8_len_take_bytes)

lemma normalize_idem [simp]: "normalize_managed_value (normalize_managed_value s) = normalize_managed_value s"
proof -
  have hd: "dropWhile is_whitespace (map ascii_lower s) = map ascii_lower (dropWhile is_whitespace s)"
    for s by (induction s) (auto simp: ascii_lower_whitespace)
  have "trim (to_ascii_lowercase s) = to_ascii_lowercase (trim s)" for s
    unfolding trim_def trim_start_def trim_end_def to_ascii_lowercase_def
    by (simp add: hd rev_map)
  then show ?thesis by (simp add: normalize_managed_value_def trim_idem to_ascii_lowercase_idem)
qed

lemma json_strings_map [simp]: "json_strings (map JString ls) = Some ls"
  by (induction ls) simp_all

lemma projection_json_roundtrip:
  "finite (mp_managed_labels p) \<Longrightarrow> projection_from_json (projection_to_json p) = Some p"
  by (cases "mp_project_state p") (simp_all add: projection_from_json_def projection_to_json_def)

lemma projection_eqI:
  "mp_managed_labels p = mp_managed_labels q \<Longrightarrow> mp_project_state p = mp_project_state q \<Longrightarrow>
   p = (q :: managed_projection)"
  by simp

lemma finite_projection [simp]:
  "finite (mp_managed_labels (projection_observe labels managed st))"
  "finite (mp_managed_labels p) \<Longrightarrow> finite (mp_managed_labels (with_label p l))"
  "finite (mp_managed_labels p) \<Longrightarrow> finite (mp_managed_labels (without_label p l))"
  "finite (mp_managed_labels p) \<Longrightarrow> finite (mp_managed_labels (with_project_state p s))"
  by (simp_all add: projection_observe_def with_label_def without_label_def with_project_state_def Let_def)

end
