(* ===== verification/SpecDecision.thy ===== *)
theory SpecDecision
  imports FactoryDomain
begin

text \<open>
  Two rules that read a human's labels: the decision table of the specification stage
  (\<open>src/spec/decision.rs\<close>) and the measurement of route corrections
  (\<open>src/triage/correction.rs\<close>).
\<close>

section \<open>The decision on a published specification\<close>

record intake_comment =
  ic_id :: nat
  ic_author_login :: string
  ic_body :: string
  ic_created_at :: int
  ic_updated_at :: int

record spec_decision_labels =
  sl_approved :: string
  sl_revise :: string

record spec_prompts_config =
  sp_draft :: string
  sp_review :: string
  sp_revise :: string

record spec_approval_route =
  sr_label :: string
  sr_state :: "string option"

record spec_config =
  sc_enabled :: bool
  sc_intake_label :: string
  sc_prompts :: spec_prompts_config
  sc_model :: "string option"
  sc_review_model :: "string option"
  sc_turn_timeout_ms :: nat
  sc_max_intake_pages :: nat
  sc_max_review_cycles :: nat
  sc_max_attempts :: nat
  sc_max_revision_requests :: nat
  sc_labels :: spec_decision_labels
  sc_approval_route :: spec_approval_route

datatype decision_action =
    DecisionNone
  | DecisionConflict
  | DecisionRevise "intake_comment list"
  | DecisionReviseWithoutFeedback
  | DecisionApprove
  | DecisionStaleApproval
  | DecisionColdRevision

record decision_input =
  di_labels :: "string list"
  di_comments :: "intake_comment list"
  di_publisher_login :: string
  di_published_at :: int
  di_revision_is_current :: bool
  di_intake_revision_changed :: bool
  di_config :: spec_config

definition is_publisher_owned :: "intake_comment \<Rightarrow> string \<Rightarrow> bool" where
  "is_publisher_owned comment publisher_login \<longleftrightarrow>
     eq_ignore_ascii_case (ic_author_login comment) publisher_login
     \<and> contains_str ''<!-- symphony:'' (ic_body comment)"

definition has_label :: "decision_input \<Rightarrow> string \<Rightarrow> bool" where
  "has_label input wanted \<longleftrightarrow> (\<exists>label \<in> set (di_labels input). eq_ignore_ascii_case label wanted)"

definition decision_feedback :: "decision_input \<Rightarrow> intake_comment list" where
  "decision_feedback input =
     filter (\<lambda>comment. \<not> is_publisher_owned comment (di_publisher_login input)
         \<and> (di_published_at input < ic_created_at comment \<or> di_published_at input < ic_updated_at comment))
       (di_comments input)"

definition detect_decision :: "decision_input \<Rightarrow> decision_action" where
  "detect_decision input =
     (let approved = has_label input (sl_approved (sc_labels (di_config input)));
          revise = has_label input (sl_revise (sc_labels (di_config input)))
      in if approved \<and> revise then DecisionConflict
         else if revise
         then (let feedback = decision_feedback input
               in if feedback = [] then DecisionReviseWithoutFeedback else DecisionRevise feedback)
         else if approved
         then (if di_revision_is_current input then DecisionApprove else DecisionStaleApproval)
         else if di_intake_revision_changed input \<and> has_label input (sc_intake_label (di_config input))
         then DecisionColdRevision
         else DecisionNone)"

section \<open>Route corrections\<close>

definition route_keys :: "string list" where
  "route_keys = [''implement'', ''spec'', ''needs_information'', ''park'', ''human_owned'']"

datatype route_agreement =
    Agreed
  | Corrected string string
  | Inconsistent "string list"

text \<open>One turn of the loop over the recorded labels: \<open>present\<close> holds what was found, in order.\<close>

definition collect_label ::
    "string list \<Rightarrow> nat \<times> string \<Rightarrow> (nat \<times> string) list \<Rightarrow> (nat \<times> string) list" where
  "collect_label current entry present =
     (case entry of (index, label) \<Rightarrow>
        let recorded = normalize_managed_value label
        in if recorded = [] then present
           else if recorded \<in> snd ` set present then present
           else if recorded \<in> set current then present @ [(index, recorded)]
           else present)"

definition present_labels :: "string list \<Rightarrow> string list \<Rightarrow> (nat \<times> string) list" where
  "present_labels recorded_labels current_labels =
     fold (collect_label (map normalize_managed_value current_labels))
       (zip [0..<length recorded_labels] recorded_labels) []"

definition compare_route_labels :: "string \<Rightarrow> string list \<Rightarrow> string list \<Rightarrow> route_agreement" where
  "compare_route_labels published_route recorded_labels current_labels =
     (if length recorded_labels \<noteq> length route_keys then Inconsistent []
      else case present_labels recorded_labels current_labels of
        [(index, label)] \<Rightarrow>
          (let route = route_keys ! index
           in if eq_ignore_ascii_case route (trim published_route) then Agreed
              else Corrected route label)
      | observed \<Rightarrow> Inconsistent (map snd observed))"

section \<open>Facts\<close>

text \<open>The labels found are the normalised recorded labels that the issue carries, each once,
  each with the first position it is recorded at.\<close>

definition first_recorded :: "string list \<Rightarrow> nat \<Rightarrow> string \<Rightarrow> bool" where
  "first_recorded recorded i l \<longleftrightarrow>
     i < length recorded \<and> normalize_managed_value (recorded ! i) = l
     \<and> (\<forall>j<i. normalize_managed_value (recorded ! j) \<noteq> l)"

definition present_upto :: "string list \<Rightarrow> string list \<Rightarrow> nat \<Rightarrow> (nat \<times> string) set" where
  "present_upto recorded current n =
     {(i, l). i < n \<and> l \<noteq> [] \<and> l \<in> set current \<and> first_recorded recorded i l}"

lemma first_such: "P (j::nat) \<Longrightarrow> \<exists>i\<le>j. P i \<and> (\<forall>k<i. \<not> P k)"
  by (metis LeastI Least_le not_less_Least)

lemma collect_step:
  assumes "n < length recorded"
    and "set present = present_upto recorded current n" and "distinct (map snd present)"
  shows "set (collect_label current (n, recorded ! n) present) = present_upto recorded current (Suc n)
    \<and> distinct (map snd (collect_label current (n, recorded ! n) present))"
proof -
  let ?r = "normalize_managed_value (recorded ! n)"
  have seen: "?r \<in> snd ` set present \<longleftrightarrow>
      ?r \<noteq> [] \<and> ?r \<in> set current \<and> (\<exists>j<n. normalize_managed_value (recorded ! j) = ?r)"
  proof
    assume "?r \<in> snd ` set present"
    then show "?r \<noteq> [] \<and> ?r \<in> set current \<and> (\<exists>j<n. normalize_managed_value (recorded ! j) = ?r)"
      unfolding assms(2) present_upto_def first_recorded_def by auto
  next
    assume right: "?r \<noteq> [] \<and> ?r \<in> set current \<and> (\<exists>j<n. normalize_managed_value (recorded ! j) = ?r)"
    then obtain j where "j < n" "normalize_managed_value (recorded ! j) = ?r" by blast
    from first_such [of "\<lambda>j. normalize_managed_value (recorded ! j) = ?r", OF this(2)] this(1)
    obtain i where i: "i < n" "normalize_managed_value (recorded ! i) = ?r"
      "\<forall>k<i. normalize_managed_value (recorded ! k) \<noteq> ?r" by (meson le_less_trans)
    with right assms(1) have "(i, ?r) \<in> present_upto recorded current n"
      unfolding present_upto_def first_recorded_def by simp
    then show "?r \<in> snd ` set present" unfolding assms(2) by force
  qed
  have grow: "present_upto recorded current (Suc n) =
      (if ?r \<noteq> [] \<and> ?r \<in> set current \<and> (\<forall>j<n. normalize_managed_value (recorded ! j) \<noteq> ?r)
       then insert (n, ?r) (present_upto recorded current n) else present_upto recorded current n)"
    using assms(1) by (auto simp: present_upto_def first_recorded_def less_Suc_eq)
  show ?thesis
  proof (cases "?r \<noteq> [] \<and> ?r \<in> set current \<and> ?r \<notin> snd ` set present")
    case True
    then have "collect_label current (n, recorded ! n) present = present @ [(n, ?r)]"
      by (simp add: collect_label_def)
    moreover have "present_upto recorded current (Suc n) = insert (n, ?r) (present_upto recorded current n)"
    proof -
      have "\<forall>j<n. normalize_managed_value (recorded ! j) \<noteq> ?r" using True seen by blast
      with True show ?thesis unfolding grow by (intro if_P) blast
    qed
    ultimately show ?thesis using True assms(2,3) by simp
  next
    case False
    then have "collect_label current (n, recorded ! n) present = present"
      by (auto simp: collect_label_def Let_def)
    moreover have "present_upto recorded current (Suc n) = present_upto recorded current n"
    proof -
      have "\<not> (?r \<noteq> [] \<and> ?r \<in> set current \<and> (\<forall>j<n. normalize_managed_value (recorded ! j) \<noteq> ?r))"
      proof
        assume all: "?r \<noteq> [] \<and> ?r \<in> set current \<and> (\<forall>j<n. normalize_managed_value (recorded ! j) \<noteq> ?r)"
        then have "\<not> (\<exists>j<n. normalize_managed_value (recorded ! j) = ?r)" by simp
        then have "?r \<notin> snd ` set present" unfolding seen by simp
        with False all show False by simp
      qed
      then show ?thesis by (simp only: grow if_False)
    qed
    ultimately show ?thesis using assms(2,3) by simp
  qed
qed

lemma present_labels_upto:
  assumes "n \<le> length recorded"
  shows "set (fold (collect_label current) (zip [0..<n] (take n recorded)) [])
      = present_upto recorded current n
    \<and> distinct (map snd (fold (collect_label current) (zip [0..<n] (take n recorded)) []))"
  using assms
proof (induction n)
  case 0
  show ?case by (simp add: present_upto_def)
next
  case (Suc n)
  then have z: "zip [0..<Suc n] (take (Suc n) recorded)
      = zip [0..<n] (take n recorded) @ [(n, recorded ! n)]"
    by (simp add: take_Suc_conv_app_nth)
  have "n < length recorded" using Suc.prems by simp
  from collect_step [OF this] Suc show ?case unfolding z by simp
qed

lemma present_labels_exact:
  "set (present_labels recorded current)
     = present_upto recorded (map normalize_managed_value current) (length recorded)"
  "distinct (map snd (present_labels recorded current))"
  using present_labels_upto [of "length recorded" recorded "map normalize_managed_value current"]
  by (simp_all add: present_labels_def)

text \<open>The route labels an issue carries, as a set.\<close>

definition carried :: "string list \<Rightarrow> string list \<Rightarrow> string set" where
  "carried recorded current =
     (normalize_managed_value ` set recorded \<inter> normalize_managed_value ` set current) - {[]}"

lemma present_labels_carried: "set (map snd (present_labels recorded current)) = carried recorded current"
proof -
  have "\<exists>i. first_recorded recorded i l" if l: "l \<in> normalize_managed_value ` set recorded" for l
  proof -
    obtain j where j: "j < length recorded" "normalize_managed_value (recorded ! j) = l"
      using l by (auto simp: in_set_conv_nth)
    from first_such [of "\<lambda>j. normalize_managed_value (recorded ! j) = l", OF j(2)] j(1)
    obtain i where "i < length recorded" "normalize_managed_value (recorded ! i) = l"
      "\<forall>k<i. normalize_managed_value (recorded ! k) \<noteq> l" by (metis le_less_trans)
    then show ?thesis unfolding first_recorded_def by blast
  qed
  then have "carried recorded current
      = {l. l \<noteq> [] \<and> l \<in> normalize_managed_value ` set current \<and> (\<exists>i. first_recorded recorded i l)}"
    unfolding carried_def by (auto simp: first_recorded_def) (metis image_eqI nth_mem)
  also have "\<dots> = snd ` present_upto recorded (map normalize_managed_value current) (length recorded)"
  proof -
    have "snd ` present_upto R C n = {l. l \<noteq> [] \<and> l \<in> set C \<and> (\<exists>i<n. first_recorded R i l)}"
      for R C n by (auto simp: present_upto_def image_iff)
    moreover have "(\<exists>i<length R. first_recorded R i l) = (\<exists>i. first_recorded R i l)" for R l
      by (auto simp: first_recorded_def)
    ultimately show ?thesis by simp
  qed
  finally show ?thesis by (simp add: present_labels_exact)
qed

lemma present_labels_single:
  "(\<exists>entry. present_labels recorded current = [entry]) \<longleftrightarrow> card (carried recorded current) = 1"
proof -
  have "card (carried recorded current) = length (present_labels recorded current)"
    using distinct_card [OF present_labels_exact(2) [of recorded current]]
    by (simp only: present_labels_carried length_map)
  then show ?thesis by (cases "present_labels recorded current") simp_all
qed

end
