(* ===== verification/TriageComment.thy ===== *)
theory TriageComment
  imports FactoryDomain
begin

text \<open>
  \<open>src/triage/comment.rs\<close>: the comments the triage stage publishes, the hidden marker each
  begins with, and the reading of the marker by which a publisher finds its comment again after
  a crash. \<open>str::find\<close> is \<open>split_at_str\<close>, the text before and after the first occurrence.
\<close>

section \<open>The marker\<close>

fun split_at_str :: "string \<Rightarrow> string \<Rightarrow> (string \<times> string) option" where
  "split_at_str pat [] = (if pat = [] then Some ([], []) else None)"
| "split_at_str pat (c # s) =
     (if prefix pat (c # s) then Some ([], drop (length pat) (c # s))
      else map_option (\<lambda>(a, b). (c # a, b)) (split_at_str pat s))"

definition marker_prefix :: string where
  "marker_prefix = ''<!-- symphony:triage:''"

definition marker_suffix :: string where
  "marker_suffix = '' -->''"

definition bounded :: "string \<Rightarrow> nat \<Rightarrow> string" where
  "bounded value max_bytes = truncate_utf8_bytes (trim value) max_bytes"

definition marker :: "string \<Rightarrow> string" where
  "marker intent_id = marker_prefix @ bounded intent_id 200 @ marker_suffix"

definition extract_intent_id_from_marker :: "string \<Rightarrow> string option" where
  "extract_intent_id_from_marker body =
     (case split_at_str marker_prefix body of
        None \<Rightarrow> None
      | Some (_, rest) \<Rightarrow>
          (case split_at_str marker_suffix rest of
             None \<Rightarrow> None
           | Some (intent, _) \<Rightarrow> if trim intent \<noteq> [] then Some (trim intent) else None))"

section \<open>The comments\<close>

definition comment_field_max_bytes :: nat where
  "comment_field_max_bytes = 2000"

definition comment_evidence_max_items :: nat where
  "comment_evidence_max_items = 20"

record preview_comment_input =
  pci_intent_id :: string
  pci_run_id :: string
  pci_stage_run_id :: string
  pci_attempt :: nat
  pci_artifact :: triage_artifact

record ineligible_comment_input =
  ici_intent_id :: string
  ici_run_id :: string
  ici_issue_identifier :: string
  ici_project_name :: string
  ici_remediation :: string

datatype automatic_comment_phase = PhasePending | PhaseRouteEffectsApplied | PhaseApplied

record automatic_comment_input =
  aci_intent_id :: string
  aci_run_id :: string
  aci_stage_run_id :: string
  aci_attempt :: nat
  aci_artifact :: triage_artifact
  aci_route_label :: string
  aci_project_state :: "string option"
  aci_phase :: automatic_comment_phase

definition field :: "string \<Rightarrow> string" where
  "field value = bounded value comment_field_max_bytes"

definition artifact_block :: "triage_artifact \<Rightarrow> string" where
  "artifact_block artifact =
     ''- Route: `'' @ triage_route_as_str (ta_route artifact) @ ''`'' @ newline
     @ ''- Risk: `'' @ risk_class_as_str (ta_risk_class artifact) @ ''`'' @ newline
     @ ''- Rationale: '' @ field (ta_rationale artifact) @ newline
     @ ''- Next action: '' @ field (ta_next_action artifact) @ newline
     @ (case ta_clarification_question artifact of None \<Rightarrow> []
        | Some question \<Rightarrow> ''- Clarification question: '' @ field question @ newline)"

definition evidence_line :: "triage_evidence \<Rightarrow> string" where
  "evidence_line e =
     ''- `'' @ evidence_kind_as_str (te_kind e) @ ''` `'' @ field (te_reference e) @ ''`: ''
     @ field (te_summary e) @ newline"

definition evidence_block :: "triage_artifact \<Rightarrow> string" where
  "evidence_block artifact =
     newline @ ''### Evidence'' @ newline
     @ concat (map evidence_line (take comment_evidence_max_items (ta_evidence artifact)))"

definition reproduction_block :: "triage_artifact \<Rightarrow> string" where
  "reproduction_block artifact =
     (case ta_reproduction artifact of None \<Rightarrow> []
      | Some r \<Rightarrow>
          newline @ ''### Reproduction'' @ newline
          @ ''- Attempted: `'' @ (if rs_attempted r then ''true'' else ''false'') @ ''`'' @ newline
          @ ''- Outcome: '' @ field (rs_outcome r) @ newline)"

definition run_block :: "string \<Rightarrow> string \<Rightarrow> nat \<Rightarrow> string \<Rightarrow> string" where
  "run_block run_id stage_run_id attempt intent_id =
     newline @ ''### Run'' @ newline
     @ ''- Factory run: `'' @ bounded run_id 200 @ ''`'' @ newline
     @ ''- Stage attempt: `'' @ bounded stage_run_id 200 @ ''` attempt `'' @ nat_digits attempt @ ''`'' @ newline
     @ ''- Publication intent: `'' @ bounded intent_id 200 @ ''`'' @ newline"

definition render_preview_comment :: "preview_comment_input \<Rightarrow> string" where
  "render_preview_comment input =
     marker (pci_intent_id input) @ newline @ newline @ ''## Symphony triage preview'' @ newline @ newline
     @ ''No labels or project state were changed.'' @ newline @ newline
     @ artifact_block (pci_artifact input) @ evidence_block (pci_artifact input)
     @ reproduction_block (pci_artifact input)
     @ run_block (pci_run_id input) (pci_stage_run_id input) (pci_attempt input) (pci_intent_id input)"

definition render_ineligible_diagnostic_comment :: "ineligible_comment_input \<Rightarrow> string" where
  "render_ineligible_diagnostic_comment input =
     marker (ici_intent_id input) @ newline @ newline @ ''## Symphony triage diagnostic'' @ newline @ newline
     @ ''Issue `'' @ bounded (ici_issue_identifier input) 200
     @ ''` is not eligible for triage because it is not in project `'' @ field (ici_project_name input)
     @ ''`.'' @ newline @ newline
     @ ''Remediation: '' @ field (ici_remediation input) @ newline @ newline
     @ ''The intake label remains unchanged and no agent attempt was started.'' @ newline @ newline
     @ ''- Factory run: `'' @ bounded (ici_run_id input) 200 @ ''`'' @ newline
     @ ''- Publication intent: `'' @ bounded (ici_intent_id input) 200 @ ''`'' @ newline"

definition applied_effects :: "automatic_comment_input \<Rightarrow> string" where
  "applied_effects input =
     ''- Applied route label: `'' @ field (aci_route_label input) @ ''`'' @ newline
     @ (case aci_project_state input of None \<Rightarrow> []
        | Some state \<Rightarrow> ''- Applied project state: `'' @ field state @ ''`'' @ newline)
     @ newline"

definition phase_block :: "automatic_comment_input \<Rightarrow> string" where
  "phase_block input =
     (case aci_phase input of
        PhasePending \<Rightarrow> ''Publication: `pending`'' @ newline @ newline
      | PhaseRouteEffectsApplied \<Rightarrow>
          ''Route effects: `applied`; publication: `pending`'' @ newline @ newline @ applied_effects input
      | PhaseApplied \<Rightarrow> ''Publication: `applied`'' @ newline @ newline @ applied_effects input)"

definition render_automatic_comment :: "automatic_comment_input \<Rightarrow> string" where
  "render_automatic_comment input =
     marker (aci_intent_id input) @ newline @ newline @ ''## Symphony triage publication'' @ newline @ newline
     @ phase_block input @ artifact_block (aci_artifact input) @ evidence_block (aci_artifact input)
     @ run_block (aci_run_id input) (aci_stage_run_id input) (aci_attempt input) (aci_intent_id input)"

section \<open>Facts\<close>

lemma split_at_str_here: "pat \<noteq> [] \<Longrightarrow> split_at_str pat (pat @ rest) = Some ([], rest)"
  by (cases pat) auto

text \<open>A pattern whose first character does not come again in it cannot begin before a copy of
  itself and end inside that copy.\<close>

lemma no_early_occurrence:
  assumes "p \<notin> set pat" and "prefix (p # pat) (c # s @ (p # pat) @ rest)"
  shows "prefix (p # pat) (c # s)"
proof -
  from assms(2) have "c = p" and "prefix pat (s @ (p # pat) @ rest)" by auto
  then obtain t where t: "s @ (p # pat) @ rest = pat @ t" by (auto simp: prefix_def)
  have "length pat \<le> length s"
  proof (rule ccontr)
    assume "\<not> length pat \<le> length s"
    then have "(s @ (p # pat) @ rest) ! length s = p" and "(pat @ t) ! length s = pat ! length s"
      and "length s < length pat" by (auto simp: nth_append)
    then have "p \<in> set pat" using t by (metis nth_mem)
    with assms(1) show False ..
  qed
  then have "prefix pat s" using t by (metis append_eq_append_conv_if prefix_def take_is_prefix)
  with \<open>c = p\<close> show ?thesis by simp
qed

lemma split_at_str_first:
  assumes "p \<notin> set pat" and "\<not> contains_str (p # pat) s"
  shows "split_at_str (p # pat) (s @ (p # pat) @ rest) = Some (s, rest)"
  using assms(2)
proof (induction s)
  case Nil
  show ?case using split_at_str_here [of "p # pat" rest] by simp
next
  case (Cons c s)
  have "\<not> prefix (p # pat) (c # s)" using Cons.prems by auto
  then have "\<not> prefix (p # pat) (c # s @ (p # pat) @ rest)"
    using no_early_occurrence [OF assms(1)] by blast
  moreover have "\<not> contains_str (p # pat) s" using Cons.prems by auto
  ultimately show ?case using Cons.IH by simp
qed

definition plain_intent_id :: "string \<Rightarrow> bool" where
  "plain_intent_id intent \<longleftrightarrow>
     intent \<noteq> [] \<and> trim intent = intent \<and> utf8_len intent \<le> 200 \<and> \<not> contains_str marker_suffix intent"

lemma extract_marker:
  assumes "plain_intent_id intent"
  shows "extract_intent_id_from_marker (marker intent @ rest) = Some intent"
proof -
  have b: "bounded intent 200 = intent"
    using assms by (simp add: plain_intent_id_def bounded_def truncate_is_take_bytes take_bytes_all)
  have "split_at_str marker_prefix (marker intent @ rest) = Some ([], intent @ marker_suffix @ rest)"
    using split_at_str_here [of marker_prefix "intent @ marker_suffix @ rest"]
    by (simp add: marker_def b marker_prefix_def)
  moreover have "split_at_str marker_suffix (intent @ marker_suffix @ rest) = Some (intent, rest)"
    using assms split_at_str_first [of "CHR '' ''" "''-->''" intent rest]
    by (simp add: plain_intent_id_def marker_suffix_def)
  ultimately show ?thesis using assms by (simp add: extract_intent_id_from_marker_def plain_intent_id_def)
qed

end
