(* ===== verification/FactoryStore.thy ===== *)
theory FactoryStore
  imports FactoryDomain
begin

text \<open>
  The part of \<open>src/triage/store.rs\<close> the triage stage uses, over the tables of
  \<open>migrations/001_init.sql\<close> to \<open>003_spec_stage.sql\<close>. The database is a \<open>factory_store\<close>, one list
  of rows per table in insertion order; a statement is a function on it and a transaction that
  fails leaves it unchanged. Primary keys, \<open>UNIQUE\<close> constraints, the partial unique index and
  foreign keys are checked where rows are inserted. Every operation returns the store and the
  result.

  Arguments of the operations: the clock reading \<open>now\<close>, the ids that \<open>Uuid::now_v7\<close> draws, and
  \<open>factory_env\<close>, which holds the text of JSON values (\<open>serde_json\<close>) and the messages of the
  database library. Time stamps are compared as the integers they denote: RFC 3339 text in UTC
  sorts the same way. Columns of enumerated text hold the enumeration; \<open>error_json\<close>, which the
  code may cut off, holds the text. \<open>ORDER BY\<close> leaves ties open; here they stay in insertion order.
\<close>

section \<open>Rows and tables\<close>

record factory_env =
  fenv_json_text :: "json \<Rightarrow> string"
  fenv_error_text :: "factory_error \<Rightarrow> string"
  fenv_error_parse :: "string \<Rightarrow> string + factory_error"
  fenv_constraint :: "string \<Rightarrow> string"
  fenv_row_message :: "string \<Rightarrow> string"
  fenv_no_rows :: string

record factory_run_record =
  fr_run_id :: string
  fr_forge_host :: string
  fr_repository :: string
  fr_issue_id :: string
  fr_issue_identifier :: string
  fr_issue_revision :: "string option"
  fr_status :: factory_run_status
  fr_current_stage :: "string option"
  fr_created_at :: int
  fr_updated_at :: int

text \<open>A row of \<open>stage_runs\<close>, and what a reader makes of it.\<close>

record stage_run_row =
  sg_stage_run_id :: string
  sg_run_id :: string
  sg_stage :: string
  sg_issue_revision :: string
  sg_configuration_revision :: string
  sg_attempt :: nat
  sg_owner_instance :: "string option"
  sg_pid :: "int option"
  sg_process_group_id :: "int option"
  sg_process_start_token :: "string option"
  sg_executable_identity :: "string option"
  sg_lease_heartbeat_at :: "int option"
  sg_status :: stage_status
  sg_harness :: string
  sg_model :: "string option"
  sg_workspace_path :: "string option"
  sg_output_path :: "string option"
  sg_started_at :: "int option"
  sg_completed_at :: "int option"
  sg_usage :: stage_usage
  sg_error_json :: "string option"
  sg_created_at :: int
  sg_updated_at :: int

record stage_run_record =
  sr_row :: stage_run_row
  sr_error :: "factory_error option"

record artifact_record =
  ar_artifact_id :: string
  ar_run_id :: string
  ar_stage_run_id :: string
  ar_issue_revision :: string
  ar_configuration_revision :: string
  ar_route_mapping_hash :: string
  ar_artifact :: triage_artifact
  ar_received_at :: int
  ar_bytes_len :: nat

record publication_intent_row =
  pi_intent_id :: string
  pi_run_id :: string
  pi_artifact_id :: "string option"
  pi_mode :: publication_mode
  pi_status :: publication_status
  pi_intake_label :: string
  pi_route_label :: string
  pi_project_state :: "string option"
  pi_route_mapping_hash :: string
  pi_completed_steps :: "string list"
  pi_retry_count :: nat
  pi_last_error_json :: "string option"
  pi_comment_id :: "string option"
  pi_publisher_login :: "string option"
  pi_desired_effects :: json
  pi_observed_baseline :: json
  pi_expected_projection :: json
  pi_created_at :: int
  pi_updated_at :: int

record publication_intent_record =
  pr_row :: publication_intent_row
  pr_last_error :: "factory_error option"

datatype route_observation_kind = ObservedCorrected | ObservedInconsistent

fun route_observation_kind_as_str :: "route_observation_kind \<Rightarrow> string" where
  "route_observation_kind_as_str ObservedCorrected = ''corrected''"
| "route_observation_kind_as_str ObservedInconsistent = ''inconsistent''"

record route_observation_row =
  ob_artifact_id :: string
  ob_kind :: route_observation_kind
  ob_value :: string
  ob_observed_at :: int

record factory_event_record =
  ev_event_id :: string
  ev_run_id :: "string option"
  ev_stage_run_id :: "string option"
  ev_event_type :: string
  ev_timestamp :: int
  ev_payload :: json

record factory_store =
  fs_runs :: "factory_run_record list"
  fs_stage_runs :: "stage_run_row list"
  fs_artifacts :: "artifact_record list"
  fs_intents :: "publication_intent_row list"
  fs_observations :: "route_observation_row list"
  fs_events :: "factory_event_record list"

definition factory_store_empty :: factory_store where
  "factory_store_empty =
     \<lparr> fs_runs = [], fs_stage_runs = [], fs_artifacts = [], fs_intents = [],
       fs_observations = [], fs_events = [] \<rparr>"

type_synonym 'a store_result = "factory_store \<times> (symphony_error + 'a)"

section \<open>Requests\<close>

record claim_attempt_request =
  ca_forge_host :: string
  ca_repository :: string
  ca_issue_id :: string
  ca_issue_identifier :: string
  ca_issue_revision :: string
  ca_configuration_revision :: string
  ca_owner_instance :: string
  ca_harness :: string
  ca_model :: "string option"
  ca_workspace_path :: "string option"
  ca_output_path :: "string option"
  ca_pid :: "int option"
  ca_process_group_id :: "int option"
  ca_process_start_token :: "string option"
  ca_executable_identity :: "string option"

record store_artifact_request =
  sa_stage_run_id :: string
  sa_issue_revision :: string
  sa_configuration_revision :: string
  sa_route_mapping_hash :: string
  sa_artifact :: triage_artifact
  sa_bytes_len :: nat
  sa_usage :: stage_usage

record create_publication_intent_request =
  cp_run_id :: string
  cp_artifact_id :: "string option"
  cp_mode :: publication_mode
  cp_intake_label :: string
  cp_route_label :: string
  cp_project_state :: "string option"
  cp_route_mapping_hash :: string
  cp_desired_effects :: json
  cp_observed_baseline :: json
  cp_expected_projection :: json

record upsert_factory_run_request =
  uf_forge_host :: string
  uf_repository :: string
  uf_issue_id :: string
  uf_issue_identifier :: string
  uf_issue_revision :: "string option"
  uf_status :: factory_run_status
  uf_current_stage :: "string option"

record process_identity =
  pid_pid :: int
  pid_process_group_id :: int
  pid_start_token :: "string option"
  pid_executable :: "string option"

record record_attempt_process_request =
  rp_stage_run_id :: string
  rp_owner_instance :: string
  rp_identity :: process_identity
  rp_workspace_path :: "string option"
  rp_output_path :: "string option"

record recoverable_attempt =
  rv_stage_run_id :: string
  rv_run_id :: string
  rv_owner_instance :: "string option"
  rv_identity :: "process_identity option"
  rv_workspace_path :: "string option"
  rv_output_path :: "string option"

record stored_comment_identity =
  ci_comment_id :: string
  ci_intent_id :: string
  ci_publisher_login :: string

record correction_candidate =
  cc_run_id :: string
  cc_stage_run_id :: string
  cc_artifact_id :: string
  cc_intent_id :: string
  cc_issue_id :: string
  cc_issue_identifier :: string
  cc_intake_label :: string
  cc_published_route :: string
  cc_desired_effects :: json

section \<open>Statements and readers\<close>

text \<open>\<open>UPDATE .. WHERE\<close>: the table, and how many rows changed.\<close>

definition update_where :: "('r \<Rightarrow> bool) \<Rightarrow> ('r \<Rightarrow> 'r) \<Rightarrow> 'r list \<Rightarrow> 'r list" where
  "update_where P f rows = map (\<lambda>r. if P r then f r else r) rows"

definition changed_rows :: "('r \<Rightarrow> bool) \<Rightarrow> 'r list \<Rightarrow> nat" where
  "changed_rows P rows = length (filter P rows)"

text \<open>\<open>ORDER BY key DESC LIMIT 1\<close>.\<close>

definition latest_by :: "('r \<Rightarrow> int) \<Rightarrow> 'r list \<Rightarrow> 'r option" where
  "latest_by key rows = (case sort_key (\<lambda>r. - key r) rows of [] \<Rightarrow> None | r # _ \<Rightarrow> Some r)"

text \<open>Reading rows stops at the first one that cannot be read.\<close>

fun read_rows :: "('r \<Rightarrow> symphony_error + 'a) \<Rightarrow> 'r list \<Rightarrow> symphony_error + 'a list" where
  "read_rows read [] = Inr []"
| "read_rows read (r # rows) =
     (case read r of Inl e \<Rightarrow> Inl e
      | Inr a \<Rightarrow> (case read_rows read rows of Inl e \<Rightarrow> Inl e | Inr as \<Rightarrow> Inr (a # as)))"

definition read_optional :: "('r \<Rightarrow> symphony_error + 'a) \<Rightarrow> 'r option \<Rightarrow> symphony_error + 'a option" where
  "read_optional read r =
     (case r of None \<Rightarrow> Inr None
      | Some row \<Rightarrow> (case read row of Inl e \<Rightarrow> Inl e | Inr a \<Rightarrow> Inr (Some a)))"

definition bounded_json :: "factory_env \<Rightarrow> json \<Rightarrow> symphony_error + json" where
  "bounded_json env value =
     (if factory_event_payload_max_bytes < utf8_len (fenv_json_text env value)
      then Inl (StorageError (''JSON payload exceeds '' @ nat_digits factory_event_payload_max_bytes @ '' bytes''))
      else Inr value)"

definition optional_json :: "factory_env \<Rightarrow> factory_error option \<Rightarrow> string option" where
  "optional_json env value =
     map_option (\<lambda>e. truncate_utf8_bytes (fenv_error_text env e) (factory_error_string_max_bytes * 4)) value"

definition optional_from_json :: "factory_env \<Rightarrow> string option \<Rightarrow> symphony_error + factory_error option" where
  "optional_from_json env value =
     (case value of None \<Rightarrow> Inr None
      | Some text \<Rightarrow>
          (case fenv_error_parse env text of
             Inl message \<Rightarrow> Inl (StorageError (fenv_row_message env message))
           | Inr e \<Rightarrow> Inr (Some e)))"

definition stage_run_from_row :: "factory_env \<Rightarrow> stage_run_row \<Rightarrow> symphony_error + stage_run_record" where
  "stage_run_from_row env row =
     (case optional_from_json env (sg_error_json row) of
        Inl e \<Rightarrow> Inl e
      | Inr err \<Rightarrow> Inr \<lparr> sr_row = row, sr_error = err \<rparr>)"

definition publication_intent_from_row ::
    "factory_env \<Rightarrow> publication_intent_row \<Rightarrow> symphony_error + publication_intent_record" where
  "publication_intent_from_row env row =
     (case optional_from_json env (pi_last_error_json row) of
        Inl e \<Rightarrow> Inl e
      | Inr err \<Rightarrow> Inr \<lparr> pr_row = row, pr_last_error = err \<rparr>)"

definition find_run :: "factory_store \<Rightarrow> string \<Rightarrow> string \<Rightarrow> string \<Rightarrow> factory_run_record option" where
  "find_run s forge_host repository issue_id =
     find (\<lambda>r. fr_forge_host r = forge_host \<and> fr_repository r = repository \<and> fr_issue_id r = issue_id)
       (fs_runs s)"

definition find_stage :: "factory_store \<Rightarrow> string \<Rightarrow> stage_run_row option" where
  "find_stage s stage_run_id = find (\<lambda>r. sg_stage_run_id r = stage_run_id) (fs_stage_runs s)"

definition find_intent :: "factory_store \<Rightarrow> string \<Rightarrow> publication_intent_row option" where
  "find_intent s intent_id = find (\<lambda>r. pi_intent_id r = intent_id) (fs_intents s)"

definition select_stage_run :: "factory_env \<Rightarrow> factory_store \<Rightarrow> string \<Rightarrow> symphony_error + stage_run_record" where
  "select_stage_run env s stage_run_id =
     (case find_stage s stage_run_id of
        None \<Rightarrow> Inl (StorageError (fenv_no_rows env))
      | Some row \<Rightarrow> stage_run_from_row env row)"

definition select_publication_intent ::
    "factory_env \<Rightarrow> factory_store \<Rightarrow> string \<Rightarrow> symphony_error + publication_intent_record" where
  "select_publication_intent env s intent_id =
     (case find_intent s intent_id of
        None \<Rightarrow> Inl (StorageError (fenv_no_rows env))
      | Some row \<Rightarrow> publication_intent_from_row env row)"

definition get_run_by_id :: "factory_store \<Rightarrow> string \<Rightarrow> factory_run_record option" where
  "get_run_by_id s run_id = find (\<lambda>r. fr_run_id r = run_id) (fs_runs s)"

definition get_run_by_issue :: "factory_store \<Rightarrow> string \<Rightarrow> string \<Rightarrow> string \<Rightarrow> factory_run_record option" where
  "get_run_by_issue s forge_host repository issue_id = find_run s forge_host repository issue_id"

definition get_run_by_issue_identifier :: "factory_store \<Rightarrow> string \<Rightarrow> factory_run_record option" where
  "get_run_by_issue_identifier s identifier =
     latest_by fr_updated_at (filter (\<lambda>r. fr_issue_identifier r = identifier) (fs_runs s))"

definition list_stage_runs :: "factory_env \<Rightarrow> factory_store \<Rightarrow> string \<Rightarrow> symphony_error + stage_run_record list" where
  "list_stage_runs env s run_id =
     read_rows (stage_run_from_row env)
       (sort_key sg_attempt (filter (\<lambda>r. sg_run_id r = run_id) (fs_stage_runs s)))"

definition list_stage_attempts_for_revision ::
    "factory_env \<Rightarrow> factory_store \<Rightarrow> string \<Rightarrow> string \<Rightarrow> string \<Rightarrow> string \<Rightarrow> symphony_error + stage_run_record list" where
  "list_stage_attempts_for_revision env s stage run_id issue_revision configuration_revision =
     read_rows (stage_run_from_row env)
       (sort_key sg_attempt
         (filter (\<lambda>r. sg_run_id r = run_id \<and> sg_issue_revision r = issue_revision
             \<and> sg_configuration_revision r = configuration_revision \<and> sg_stage r = stage) (fs_stage_runs s)))"

definition get_stage_run :: "factory_env \<Rightarrow> factory_store \<Rightarrow> string \<Rightarrow> symphony_error + stage_run_record option" where
  "get_stage_run env s stage_run_id =
     read_optional (stage_run_from_row env) (find_stage s stage_run_id)"

definition get_artifact_by_id :: "factory_store \<Rightarrow> string \<Rightarrow> artifact_record option" where
  "get_artifact_by_id s artifact_id = find (\<lambda>a. ar_artifact_id a = artifact_id) (fs_artifacts s)"

definition get_latest_artifact :: "factory_store \<Rightarrow> string \<Rightarrow> artifact_record option" where
  "get_latest_artifact s run_id =
     latest_by ar_received_at (filter (\<lambda>a. ar_run_id a = run_id) (fs_artifacts s))"

definition get_artifact_for_revision :: "factory_store \<Rightarrow> string \<Rightarrow> string \<Rightarrow> string \<Rightarrow> artifact_record option" where
  "get_artifact_for_revision s run_id issue_revision configuration_revision =
     find (\<lambda>a. ar_run_id a = run_id \<and> ar_issue_revision a = issue_revision
         \<and> ar_configuration_revision a = configuration_revision) (fs_artifacts s)"

definition get_publication_intent ::
    "factory_env \<Rightarrow> factory_store \<Rightarrow> string \<Rightarrow> symphony_error + publication_intent_record option" where
  "get_publication_intent env s intent_id =
     read_optional (publication_intent_from_row env) (find_intent s intent_id)"

definition get_latest_publication ::
    "factory_env \<Rightarrow> factory_store \<Rightarrow> string \<Rightarrow> symphony_error + publication_intent_record option" where
  "get_latest_publication env s run_id =
     read_optional (publication_intent_from_row env)
       (latest_by pi_updated_at (filter (\<lambda>i. pi_run_id i = run_id) (fs_intents s)))"

definition list_intents_for_run ::
    "factory_env \<Rightarrow> factory_store \<Rightarrow> string \<Rightarrow> symphony_error + publication_intent_record list" where
  "list_intents_for_run env s run_id =
     read_rows (publication_intent_from_row env)
       (sort_key pi_created_at (filter (\<lambda>i. pi_run_id i = run_id) (fs_intents s)))"

definition list_pending_intents ::
    "factory_env \<Rightarrow> factory_store \<Rightarrow> nat \<Rightarrow> symphony_error + publication_intent_record list" where
  "list_pending_intents env s limit =
     read_rows (publication_intent_from_row env)
       (take limit (sort_key pi_updated_at (filter (\<lambda>i. pi_status i = PubPending) (fs_intents s))))"

definition list_verified_comment_identities :: "factory_store \<Rightarrow> string \<Rightarrow> stored_comment_identity list" where
  "list_verified_comment_identities s run_id =
     List.map_filter
       (\<lambda>i. case (pi_comment_id i, pi_publisher_login i) of
          (Some comment, Some login) \<Rightarrow>
            Some \<lparr> ci_comment_id = comment, ci_intent_id = pi_intent_id i, ci_publisher_login = login \<rparr>
        | _ \<Rightarrow> None)
       (sort_key pi_updated_at (filter (\<lambda>i. pi_run_id i = run_id) (fs_intents s)))"

definition recoverable_of :: "stage_run_row \<Rightarrow> recoverable_attempt" where
  "recoverable_of r =
     \<lparr> rv_stage_run_id = sg_stage_run_id r, rv_run_id = sg_run_id r, rv_owner_instance = sg_owner_instance r,
       rv_identity =
         (case (sg_pid r, sg_process_group_id r) of
            (Some pid, Some pgid) \<Rightarrow>
              Some \<lparr> pid_pid = pid, pid_process_group_id = pgid,
                     pid_start_token = sg_process_start_token r, pid_executable = sg_executable_identity r \<rparr>
          | _ \<Rightarrow> None),
       rv_workspace_path = sg_workspace_path r, rv_output_path = sg_output_path r \<rparr>"

definition list_recoverable_attempts :: "factory_store \<Rightarrow> recoverable_attempt list" where
  "list_recoverable_attempts s =
     map recoverable_of
       (sort_key sg_updated_at
         (filter (\<lambda>r. sg_stage r = triage_stage_name \<and> sg_status r = StageInterrupted
             \<and> (sg_pid r \<noteq> None \<or> sg_workspace_path r \<noteq> None \<or> sg_output_path r \<noteq> None)) (fs_stage_runs s)))"

definition superseded :: "factory_store \<Rightarrow> publication_intent_row \<Rightarrow> bool" where
  "superseded s i \<longleftrightarrow>
     (\<exists>newer \<in> set (fs_intents s).
        pi_run_id newer = pi_run_id i \<and> pi_mode newer = pi_mode i \<and> pi_status newer = pi_status i
        \<and> (pi_updated_at i < pi_updated_at newer
            \<or> pi_updated_at newer = pi_updated_at i \<and> pi_intent_id i < pi_intent_id newer))"

definition correction_candidate_of :: "factory_store \<Rightarrow> publication_intent_row \<Rightarrow> correction_candidate option" where
  "correction_candidate_of s i =
     (case (Option.bind (pi_artifact_id i) (get_artifact_by_id s), get_run_by_id s (pi_run_id i)) of
        (Some a, Some r) \<Rightarrow>
          Some \<lparr> cc_run_id = pi_run_id i, cc_stage_run_id = ar_stage_run_id a,
                 cc_artifact_id = ar_artifact_id a, cc_intent_id = pi_intent_id i,
                 cc_issue_id = fr_issue_id r, cc_issue_identifier = fr_issue_identifier r,
                 cc_intake_label = pi_intake_label i,
                 cc_published_route = triage_route_as_str (ta_route (ar_artifact a)),
                 cc_desired_effects = pi_desired_effects i \<rparr>
      | _ \<Rightarrow> None)"

text \<open>\<open>ORDER BY RANDOM()\<close> is an argument: some rearrangement of the rows.\<close>

definition list_correction_candidates ::
    "(correction_candidate list \<Rightarrow> correction_candidate list) \<Rightarrow> factory_store \<Rightarrow> nat \<Rightarrow> correction_candidate list" where
  "list_correction_candidates shuffle s limit =
     take limit (shuffle
       (List.map_filter (correction_candidate_of s)
         (filter (\<lambda>i. pi_mode i = PublishAutomatic \<and> pi_status i = PubApplied \<and> \<not> superseded s i)
           (fs_intents s))))"

section \<open>Claiming an attempt\<close>

text \<open>\<open>INSERT INTO factory_runs .. ON CONFLICT (forge_host, repository, issue_id) DO UPDATE\<close>: the
  row keeps its id and creation time. \<open>None\<close> when the new row's id is taken.\<close>

definition put_run ::
    "string \<Rightarrow> int \<Rightarrow> upsert_factory_run_request \<Rightarrow> factory_store \<Rightarrow> factory_store option" where
  "put_run run_id now request s =
     (case find_run s (uf_forge_host request) (uf_repository request) (uf_issue_id request) of
        Some _ \<Rightarrow>
          Some (s\<lparr> fs_runs :=
            update_where (\<lambda>r. fr_forge_host r = uf_forge_host request \<and> fr_repository r = uf_repository request
                \<and> fr_issue_id r = uf_issue_id request)
              (\<lambda>r. r\<lparr> fr_issue_identifier := uf_issue_identifier request,
                      fr_issue_revision := uf_issue_revision request, fr_status := uf_status request,
                      fr_current_stage := uf_current_stage request, fr_updated_at := now \<rparr>) (fs_runs s) \<rparr>)
      | None \<Rightarrow>
          if run_id \<in> fr_run_id ` set (fs_runs s) then None
          else Some (s\<lparr> fs_runs := fs_runs s @
            [\<lparr> fr_run_id = run_id, fr_forge_host = uf_forge_host request,
               fr_repository = uf_repository request, fr_issue_id = uf_issue_id request,
               fr_issue_identifier = uf_issue_identifier request, fr_issue_revision = uf_issue_revision request,
               fr_status = uf_status request, fr_current_stage = uf_current_stage request,
               fr_created_at = now, fr_updated_at = now \<rparr>] \<rparr>))"

definition upsert_factory_run ::
    "factory_env \<Rightarrow> int \<Rightarrow> string \<Rightarrow> upsert_factory_run_request \<Rightarrow> factory_store \<Rightarrow> factory_run_record store_result" where
  "upsert_factory_run env now new_run_id request s =
     (case put_run new_run_id now request s of
        None \<Rightarrow> (s, Inl (StorageError (fenv_constraint env ''factory_runs.run_id'')))
      | Some s' \<Rightarrow>
          (case get_run_by_issue s' (uf_forge_host request) (uf_repository request) (uf_issue_id request) of
             Some r \<Rightarrow> (s', Inr r)
           | None \<Rightarrow> (s', Inl (StorageError ''factory run missing after upsert''))))"

definition stage_nonterminal :: "stage_run_row \<Rightarrow> bool" where
  "stage_nonterminal r \<longleftrightarrow> sg_status r = StagePending \<or> sg_status r = StageRunning"

text \<open>The key of the partial unique indexes over pending and running attempts: one per run, stage
  and revision pair (\<open>003_spec_stage.sql\<close>), and for the implementation, review and verification
  stages one per run and stage (\<open>004\<close>, \<open>006\<close> and \<open>010\<close>).\<close>

definition pin_of :: "string \<Rightarrow> string \<Rightarrow> string \<Rightarrow> string \<Rightarrow> string \<times> string \<times> string \<times> string" where
  "pin_of run_id stage issue_revision configuration_revision =
     (if stage = ''implementation'' \<or> stage = ''review'' \<or> stage = ''verification''
      then (run_id, stage, [], []) else (run_id, stage, issue_revision, configuration_revision))"

definition stage_pin :: "stage_run_row \<Rightarrow> string \<times> string \<times> string \<times> string" where
  "stage_pin r = pin_of (sg_run_id r) (sg_stage r) (sg_issue_revision r) (sg_configuration_revision r)"

definition next_attempt :: "factory_store \<Rightarrow> string \<Rightarrow> string \<Rightarrow> nat" where
  "next_attempt s run_id stage =
     foldr max (map sg_attempt (filter (\<lambda>r. sg_run_id r = run_id \<and> sg_stage r = stage) (fs_stage_runs s))) 0 + 1"

definition insert_stage_run :: "stage_run_row \<Rightarrow> factory_store \<Rightarrow> factory_store option" where
  "insert_stage_run row s =
     (if sg_stage_run_id row \<in> sg_stage_run_id ` set (fs_stage_runs s)
         \<or> (\<exists>r \<in> set (fs_stage_runs s). sg_run_id r = sg_run_id row \<and> sg_stage r = sg_stage row
              \<and> sg_attempt r = sg_attempt row)
         \<or> (stage_nonterminal row \<and> (\<exists>r \<in> set (fs_stage_runs s). stage_nonterminal r \<and> stage_pin r = stage_pin row))
         \<or> sg_run_id row \<notin> fr_run_id ` set (fs_runs s)
      then None
      else Some (s\<lparr> fs_stage_runs := fs_stage_runs s @ [row] \<rparr>))"

definition claimed_row ::
    "int \<Rightarrow> string \<Rightarrow> string \<Rightarrow> string \<Rightarrow> nat \<Rightarrow> claim_attempt_request \<Rightarrow> stage_run_row" where
  "claimed_row now stage_run_id run_id stage attempt request =
     \<lparr> sg_stage_run_id = stage_run_id, sg_run_id = run_id, sg_stage = stage,
       sg_issue_revision = ca_issue_revision request,
       sg_configuration_revision = ca_configuration_revision request, sg_attempt = attempt,
       sg_owner_instance = Some (ca_owner_instance request), sg_pid = ca_pid request,
       sg_process_group_id = ca_process_group_id request,
       sg_process_start_token = ca_process_start_token request,
       sg_executable_identity = ca_executable_identity request, sg_lease_heartbeat_at = Some now,
       sg_status = StageRunning, sg_harness = ca_harness request, sg_model = ca_model request,
       sg_workspace_path = ca_workspace_path request, sg_output_path = ca_output_path request,
       sg_started_at = Some now, sg_completed_at = None,
       sg_usage = \<lparr> su_input_tokens = 0, su_output_tokens = 0, su_total_tokens = 0 \<rparr>,
       sg_error_json = None, sg_created_at = now, sg_updated_at = now \<rparr>"

definition claim_run_request :: "string \<Rightarrow> claim_attempt_request \<Rightarrow> upsert_factory_run_request" where
  "claim_run_request stage request =
     \<lparr> uf_forge_host = ca_forge_host request, uf_repository = ca_repository request,
       uf_issue_id = ca_issue_id request, uf_issue_identifier = ca_issue_identifier request,
       uf_issue_revision = Some (ca_issue_revision request), uf_status = FactoryActive,
       uf_current_stage = Some stage \<rparr>"

text \<open>The transaction both claims run, for a stage: \<open>existing_run_id.unwrap_or_else(new_id)\<close> keeps
  the id of the issue's run.\<close>

definition claim_for_stage ::
    "factory_env \<Rightarrow> int \<Rightarrow> string \<Rightarrow> string \<Rightarrow> string \<Rightarrow> claim_attempt_request \<Rightarrow> factory_store
     \<Rightarrow> stage_run_record store_result" where
  "claim_for_stage env now new_run_id new_stage_run_id stage request s =
     (case put_run new_run_id now (claim_run_request stage request) s of
        None \<Rightarrow> (s, Inl (StorageError (fenv_constraint env ''factory_runs.run_id'')))
      | Some s1 \<Rightarrow>
          (case find_run s1 (ca_forge_host request) (ca_repository request) (ca_issue_id request) of
             None \<Rightarrow> (s, Inl (StorageError (fenv_no_rows env)))
           | Some run \<Rightarrow>
               (let attempt = next_attempt s1 (fr_run_id run) stage
                in if u32_max < attempt
                   then (s, Inl (StorageError (fenv_row_message env (nat_digits attempt))))
                   else case insert_stage_run
                       (claimed_row now new_stage_run_id (fr_run_id run) stage attempt request) s1 of
                     None \<Rightarrow> (s, Inl (StorageError (fenv_constraint env ''stage_runs'')))
                   | Some s2 \<Rightarrow>
                       (case select_stage_run env s2 new_stage_run_id of
                          Inl e \<Rightarrow> (s, Inl e)
                        | Inr record \<Rightarrow> (s2, Inr record)))))"

definition claim_stage_attempt ::
    "factory_env \<Rightarrow> int \<Rightarrow> string \<Rightarrow> string \<Rightarrow> string \<Rightarrow> claim_attempt_request \<Rightarrow> factory_store
     \<Rightarrow> stage_run_record store_result" where
  "claim_stage_attempt env now new_run_id new_stage_run_id stage request s =
     (if trim stage = [] then (s, Inl (StorageError ''factory stage name must be non-empty''))
      else claim_for_stage env now new_run_id new_stage_run_id stage request s)"

definition claim_attempt ::
    "factory_env \<Rightarrow> int \<Rightarrow> string \<Rightarrow> string \<Rightarrow> claim_attempt_request \<Rightarrow> factory_store
     \<Rightarrow> stage_run_record store_result" where
  "claim_attempt env now new_run_id new_stage_run_id request s =
     claim_for_stage env now new_run_id new_stage_run_id triage_stage_name request s"

section \<open>Ending an attempt\<close>

definition insert_artifact :: "artifact_record \<Rightarrow> factory_store \<Rightarrow> factory_store option" where
  "insert_artifact a s =
     (if ar_artifact_id a \<in> ar_artifact_id ` set (fs_artifacts s)
         \<or> ar_stage_run_id a \<in> ar_stage_run_id ` set (fs_artifacts s)
         \<or> (\<exists>b \<in> set (fs_artifacts s). ar_run_id b = ar_run_id a \<and> ar_issue_revision b = ar_issue_revision a
              \<and> ar_configuration_revision b = ar_configuration_revision a)
         \<or> ar_run_id a \<notin> fr_run_id ` set (fs_runs s)
         \<or> ar_stage_run_id a \<notin> sg_stage_run_id ` set (fs_stage_runs s)
      then None
      else Some (s\<lparr> fs_artifacts := fs_artifacts s @ [a] \<rparr>))"

definition store_artifact ::
    "factory_env \<Rightarrow> int \<Rightarrow> string \<Rightarrow> store_artifact_request \<Rightarrow> factory_store \<Rightarrow> artifact_record store_result" where
  "store_artifact env now new_artifact_id request s =
     (case select_stage_run env s (sa_stage_run_id request) of
        Inl e \<Rightarrow> (s, Inl e)
      | Inr stage \<Rightarrow>
          if sg_status (sr_row stage) \<noteq> StageRunning
          then (s, Inl (StorageError (''stage run '' @ sa_stage_run_id request @ '' is ''
                 @ stage_status_as_str (sg_status (sr_row stage)) @ '' and cannot accept triage output'')))
          else
            (let artifact =
               \<lparr> ar_artifact_id = new_artifact_id, ar_run_id = sg_run_id (sr_row stage),
                 ar_stage_run_id = sa_stage_run_id request, ar_issue_revision = sa_issue_revision request,
                 ar_configuration_revision = sa_configuration_revision request,
                 ar_route_mapping_hash = sa_route_mapping_hash request, ar_artifact = sa_artifact request,
                 ar_received_at = now, ar_bytes_len = sa_bytes_len request \<rparr>
             in case insert_artifact artifact s of
                  None \<Rightarrow> (s, Inl (StorageError (fenv_constraint env ''triage_artifacts'')))
                | Some s1 \<Rightarrow>
                    (s1\<lparr> fs_stage_runs :=
                       update_where (\<lambda>r. sg_stage_run_id r = sa_stage_run_id request)
                         (\<lambda>r. r\<lparr> sg_status := StageCompleted, sg_completed_at := Some now,
                                 sg_usage := sa_usage request, sg_updated_at := now \<rparr>) (fs_stage_runs s1) \<rparr>,
                     Inr artifact)))"

definition fail_attempt ::
    "factory_env \<Rightarrow> int \<Rightarrow> string \<Rightarrow> factory_error \<Rightarrow> factory_store \<Rightarrow> stage_run_record store_result" where
  "fail_attempt env now stage_run_id err s =
     (let P = (\<lambda>r. sg_stage_run_id r = stage_run_id);
          s' = s\<lparr> fs_stage_runs :=
            update_where P
              (\<lambda>r. r\<lparr> sg_status := StageFailed, sg_completed_at := Some now,
                      sg_error_json := optional_json env (Some err), sg_updated_at := now \<rparr>) (fs_stage_runs s) \<rparr>
      in if changed_rows P (fs_stage_runs s) = 0
         then (s', Inl (StorageError (''stage run '' @ stage_run_id @ '' not found'')))
         else (s', select_stage_run env s' stage_run_id))"

definition owned_and_running :: "string \<Rightarrow> string \<Rightarrow> stage_run_row \<Rightarrow> bool" where
  "owned_and_running stage_run_id owner_instance r \<longleftrightarrow>
     sg_stage_run_id r = stage_run_id \<and> sg_owner_instance r = Some owner_instance \<and> sg_status r = StageRunning"

definition renew_lease :: "int \<Rightarrow> string \<Rightarrow> string \<Rightarrow> factory_store \<Rightarrow> bool store_result" where
  "renew_lease now stage_run_id owner_instance s =
     (let P = owned_and_running stage_run_id owner_instance
      in (s\<lparr> fs_stage_runs :=
            update_where P (\<lambda>r. r\<lparr> sg_lease_heartbeat_at := Some now, sg_updated_at := now \<rparr>) (fs_stage_runs s) \<rparr>,
          Inr (changed_rows P (fs_stage_runs s) = 1)))"

definition interrupt_attempt :: "int \<Rightarrow> string \<Rightarrow> string \<Rightarrow> factory_store \<Rightarrow> bool store_result" where
  "interrupt_attempt now stage_run_id owner_instance s =
     (let P = owned_and_running stage_run_id owner_instance
      in (s\<lparr> fs_stage_runs :=
            update_where P (\<lambda>r. r\<lparr> sg_status := StageInterrupted, sg_completed_at := Some now, sg_updated_at := now \<rparr>)
              (fs_stage_runs s) \<rparr>,
          Inr (changed_rows P (fs_stage_runs s) = 1)))"

text \<open>The clock is read twice. A comparison with a missing heartbeat is not true.\<close>

definition lease_is_stale :: "int \<Rightarrow> stage_run_row \<Rightarrow> bool" where
  "lease_is_stale stale_before r \<longleftrightarrow>
     sg_status r = StageRunning
     \<and> (case sg_lease_heartbeat_at r of None \<Rightarrow> False | Some t \<Rightarrow> t < stale_before)"

definition interrupt_stale_attempts :: "int \<Rightarrow> int \<Rightarrow> factory_store \<Rightarrow> nat store_result" where
  "interrupt_stale_attempts first_now now s =
     (let P = lease_is_stale (first_now - triage_lease_stale_after_ms)
      in (s\<lparr> fs_stage_runs :=
            update_where P (\<lambda>r. r\<lparr> sg_status := StageInterrupted, sg_completed_at := Some now, sg_updated_at := now \<rparr>)
              (fs_stage_runs s) \<rparr>,
          Inr (changed_rows P (fs_stage_runs s))))"

definition record_attempt_process ::
    "int \<Rightarrow> record_attempt_process_request \<Rightarrow> factory_store \<Rightarrow> unit store_result" where
  "record_attempt_process now request s =
     (s\<lparr> fs_stage_runs :=
        update_where (owned_and_running (rp_stage_run_id request) (rp_owner_instance request))
          (\<lambda>r. r\<lparr> sg_pid := Some (pid_pid (rp_identity request)),
                  sg_process_group_id := Some (pid_process_group_id (rp_identity request)),
                  sg_process_start_token := pid_start_token (rp_identity request),
                  sg_executable_identity := pid_executable (rp_identity request),
                  sg_workspace_path := rp_workspace_path request, sg_output_path := rp_output_path request,
                  sg_updated_at := now \<rparr>) (fs_stage_runs s) \<rparr>, Inr ())"

definition clear_attempt_process :: "int \<Rightarrow> string \<Rightarrow> factory_store \<Rightarrow> unit store_result" where
  "clear_attempt_process now stage_run_id s =
     (s\<lparr> fs_stage_runs :=
        update_where (\<lambda>r. sg_stage_run_id r = stage_run_id)
          (\<lambda>r. r\<lparr> sg_pid := None, sg_process_group_id := None, sg_process_start_token := None,
                  sg_executable_identity := None, sg_workspace_path := None, sg_output_path := None,
                  sg_updated_at := now \<rparr>) (fs_stage_runs s) \<rparr>, Inr ())"

definition mark_run_status :: "int \<Rightarrow> string \<Rightarrow> factory_run_status \<Rightarrow> factory_store \<Rightarrow> unit store_result" where
  "mark_run_status now run_id status s =
     (let P = (\<lambda>r. fr_run_id r = run_id);
          s' = s\<lparr> fs_runs := update_where P (\<lambda>r. r\<lparr> fr_status := status, fr_updated_at := now \<rparr>) (fs_runs s) \<rparr>
      in if changed_rows P (fs_runs s) = 0
         then (s', Inl (StorageError (''factory run '' @ run_id @ '' not found'')))
         else (s', Inr ()))"

section \<open>Publications\<close>

definition insert_intent :: "publication_intent_row \<Rightarrow> factory_store \<Rightarrow> factory_store option" where
  "insert_intent i s =
     (if pi_intent_id i \<in> pi_intent_id ` set (fs_intents s)
         \<or> pi_run_id i \<notin> fr_run_id ` set (fs_runs s)
         \<or> (case pi_artifact_id i of None \<Rightarrow> False
            | Some a \<Rightarrow> a \<notin> ar_artifact_id ` set (fs_artifacts s))
      then None
      else Some (s\<lparr> fs_intents := fs_intents s @ [i] \<rparr>))"

definition create_publication_intent ::
    "factory_env \<Rightarrow> int \<Rightarrow> string \<Rightarrow> create_publication_intent_request \<Rightarrow> factory_store
     \<Rightarrow> publication_intent_record store_result" where
  "create_publication_intent env now new_intent_id request s =
     (case bounded_json env (cp_desired_effects request) of
        Inl e \<Rightarrow> (s, Inl e)
      | Inr desired \<Rightarrow>
      (case bounded_json env (cp_observed_baseline request) of
        Inl e \<Rightarrow> (s, Inl e)
      | Inr baseline \<Rightarrow>
      (case bounded_json env (cp_expected_projection request) of
        Inl e \<Rightarrow> (s, Inl e)
      | Inr projection \<Rightarrow>
          (case insert_intent
             \<lparr> pi_intent_id = new_intent_id, pi_run_id = cp_run_id request,
               pi_artifact_id = cp_artifact_id request, pi_mode = cp_mode request, pi_status = PubPending,
               pi_intake_label = cp_intake_label request, pi_route_label = cp_route_label request,
               pi_project_state = cp_project_state request,
               pi_route_mapping_hash = cp_route_mapping_hash request, pi_completed_steps = [],
               pi_retry_count = 0, pi_last_error_json = None, pi_comment_id = None,
               pi_publisher_login = None, pi_desired_effects = desired, pi_observed_baseline = baseline,
               pi_expected_projection = projection, pi_created_at = now, pi_updated_at = now \<rparr> s of
             None \<Rightarrow> (s, Inl (StorageError (fenv_constraint env ''publication_intents'')))
           | Some s' \<Rightarrow> (s', select_publication_intent env s' new_intent_id)))))"

definition add_step :: "string \<Rightarrow> string list \<Rightarrow> string list" where
  "add_step completed_step steps =
     (if trim completed_step \<noteq> [] \<and> trim completed_step \<notin> set steps
      then steps @ [trim completed_step] else steps)"

definition update_publication_step ::
    "factory_env \<Rightarrow> int \<Rightarrow> string \<Rightarrow> string \<Rightarrow> publication_status \<Rightarrow> factory_error option \<Rightarrow> factory_store
     \<Rightarrow> unit store_result" where
  "update_publication_step env now intent_id completed_step status err s =
     (case select_publication_intent env s intent_id of
        Inl e \<Rightarrow> (s, Inl e)
      | Inr intent \<Rightarrow>
          (let steps = add_step completed_step (pi_completed_steps (pr_row intent));
               error_json = optional_json env err
           in (s\<lparr> fs_intents :=
                 update_where (\<lambda>i. pi_intent_id i = intent_id)
                   (\<lambda>i. i\<lparr> pi_completed_steps := steps, pi_status := status, pi_last_error_json := error_json,
                           pi_retry_count := pi_retry_count i + (if error_json = None then 0 else 1),
                           pi_updated_at := now \<rparr>) (fs_intents s) \<rparr>, Inr ())))"

definition record_publication_step ::
    "factory_env \<Rightarrow> int \<Rightarrow> string \<Rightarrow> string \<Rightarrow> publication_status \<Rightarrow> json \<Rightarrow> factory_store
     \<Rightarrow> unit store_result" where
  "record_publication_step env now intent_id completed_step status expected_projection s =
     (case select_publication_intent env s intent_id of
        Inl e \<Rightarrow> (s, Inl e)
      | Inr intent \<Rightarrow>
          (let steps = add_step completed_step (pi_completed_steps (pr_row intent))
           in case bounded_json env expected_projection of
                Inl e \<Rightarrow> (s, Inl e)
              | Inr projection \<Rightarrow>
                  (s\<lparr> fs_intents :=
                     update_where (\<lambda>i. pi_intent_id i = intent_id)
                       (\<lambda>i. i\<lparr> pi_completed_steps := steps, pi_status := status, pi_last_error_json := None,
                               pi_expected_projection := projection, pi_updated_at := now \<rparr>) (fs_intents s) \<rparr>,
                   Inr ())))"

definition update_intent ::
    "string \<Rightarrow> (publication_intent_row \<Rightarrow> publication_intent_row) \<Rightarrow> factory_store \<Rightarrow> unit store_result" where
  "update_intent intent_id f s =
     (let P = (\<lambda>i. pi_intent_id i = intent_id);
          s' = s\<lparr> fs_intents := update_where P f (fs_intents s) \<rparr>
      in if changed_rows P (fs_intents s) = 0
         then (s', Inl (StorageError (''publication intent '' @ intent_id @ '' not found'')))
         else (s', Inr ()))"

definition set_publication_baseline ::
    "factory_env \<Rightarrow> int \<Rightarrow> string \<Rightarrow> json \<Rightarrow> json \<Rightarrow> factory_store \<Rightarrow> unit store_result" where
  "set_publication_baseline env now intent_id observed_baseline expected_projection s =
     (case bounded_json env observed_baseline of
        Inl e \<Rightarrow> (s, Inl e)
      | Inr baseline \<Rightarrow>
      (case bounded_json env expected_projection of
        Inl e \<Rightarrow> (s, Inl e)
      | Inr projection \<Rightarrow>
          update_intent intent_id
            (\<lambda>i. i\<lparr> pi_observed_baseline := baseline, pi_expected_projection := projection,
                    pi_updated_at := now \<rparr>) s))"

definition set_publication_comment ::
    "int \<Rightarrow> string \<Rightarrow> string \<Rightarrow> string \<Rightarrow> factory_store \<Rightarrow> unit store_result" where
  "set_publication_comment now intent_id comment_id publisher_login s =
     update_intent intent_id
       (\<lambda>i. i\<lparr> pi_comment_id := Some comment_id, pi_publisher_login := Some publisher_login,
               pi_updated_at := now \<rparr>) s"

section \<open>Events and observations\<close>

definition record_event :: "factory_env \<Rightarrow> factory_event_record \<Rightarrow> factory_store \<Rightarrow> unit store_result" where
  "record_event env event s =
     (case bounded_json env (ev_payload event) of
        Inl e \<Rightarrow> (s, Inl e)
      | Inr payload \<Rightarrow>
          if ev_event_id event \<in> ev_event_id ` set (fs_events s)
             \<or> (case ev_run_id event of None \<Rightarrow> False | Some r \<Rightarrow> r \<notin> fr_run_id ` set (fs_runs s))
             \<or> (case ev_stage_run_id event of None \<Rightarrow> False
                | Some r \<Rightarrow> r \<notin> sg_stage_run_id ` set (fs_stage_runs s))
          then (s, Inl (StorageError (fenv_constraint env ''factory_events'')))
          else (s\<lparr> fs_events := fs_events s @ [event\<lparr> ev_payload := payload \<rparr>] \<rparr>, Inr ()))"

text \<open>\<open>INSERT OR IGNORE\<close>: a row with the same key is left alone; a missing artifact is an error.\<close>

definition record_route_observation ::
    "factory_env \<Rightarrow> int \<Rightarrow> string \<Rightarrow> route_observation_kind \<Rightarrow> string \<Rightarrow> factory_store \<Rightarrow> bool store_result" where
  "record_route_observation env now artifact_id kind value s =
     (if \<exists>o' \<in> set (fs_observations s). ob_artifact_id o' = artifact_id \<and> ob_kind o' = kind \<and> ob_value o' = value
      then (s, Inr False)
      else if artifact_id \<notin> ar_artifact_id ` set (fs_artifacts s)
      then (s, Inl (StorageError (fenv_constraint env ''route_observations'')))
      else (s\<lparr> fs_observations := fs_observations s @
              [\<lparr> ob_artifact_id = artifact_id, ob_kind = kind, ob_value = value, ob_observed_at = now \<rparr>] \<rparr>,
            Inr True))"

end
