(* ===== verification/FactoryStoreFacts.thy ===== *)
theory FactoryStoreFacts
  imports FactoryStore
begin

text \<open>
  The operations of the store as steps, the invariant of the tables, and its preservation.
  Updates of attempts and of intents keep the keys of their rows; the lemmas about
  \<open>update_where\<close> say what follows from that once and for all.
\<close>

section \<open>Steps\<close>

inductive factory_step :: "factory_env \<Rightarrow> factory_store \<Rightarrow> factory_store \<Rightarrow> bool" for env where
  claim: "factory_step env s (fst (claim_attempt env now rid sid request s))"
| claim_stage: "factory_step env s (fst (claim_stage_attempt env now rid sid stage request s))"
| store: "factory_step env s (fst (store_artifact env now aid request s))"
| fail: "factory_step env s (fst (fail_attempt env now sid err s))"
| renew: "factory_step env s (fst (renew_lease now sid owner s))"
| interrupt: "factory_step env s (fst (interrupt_attempt now sid owner s))"
| interrupt_stale: "factory_step env s (fst (interrupt_stale_attempts now now' s))"
| record_process: "factory_step env s (fst (record_attempt_process now request s))"
| clear_process: "factory_step env s (fst (clear_attempt_process now sid s))"
| upsert: "factory_step env s (fst (upsert_factory_run env now rid request s))"
| mark: "factory_step env s (fst (mark_run_status now rid status s))"
| create_intent: "factory_step env s (fst (create_publication_intent env now iid request s))"
| update_step: "factory_step env s (fst (update_publication_step env now iid st status err s))"
| record_step: "factory_step env s (fst (record_publication_step env now iid st status projection s))"
| baseline: "factory_step env s (fst (set_publication_baseline env now iid b projection s))"
| comment: "factory_step env s (fst (set_publication_comment now iid cid login s))"
| event: "factory_step env s (fst (record_event env ev s))"
| observe: "factory_step env s (fst (record_route_observation env now aid kind v s))"

inductive factory_reachable :: "factory_env \<Rightarrow> factory_store \<Rightarrow> bool" for env where
  empty: "factory_reachable env factory_store_empty"
| step: "factory_reachable env s \<Longrightarrow> factory_step env s s' \<Longrightarrow> factory_reachable env s'"

section \<open>The invariant\<close>

definition issue_key :: "factory_run_record \<Rightarrow> string \<times> string \<times> string" where
  "issue_key r = (fr_forge_host r, fr_repository r, fr_issue_id r)"

definition run_ids :: "factory_store \<Rightarrow> string set" where
  "run_ids s = fr_run_id ` set (fs_runs s)"

definition attempts_of :: "string \<Rightarrow> string \<Rightarrow> stage_run_row list \<Rightarrow> nat list" where
  "attempts_of run_id stage rows =
     map sg_attempt (filter (\<lambda>r. sg_run_id r = run_id \<and> sg_stage r = stage) rows)"

definition runs_ok :: "factory_store \<Rightarrow> bool" where
  "runs_ok s \<longleftrightarrow> distinct (map fr_run_id (fs_runs s)) \<and> distinct (map issue_key (fs_runs s))"

definition attempts_numbered :: "stage_run_row list \<Rightarrow> bool" where
  "attempts_numbered rows \<longleftrightarrow>
     (\<forall>run_id stage. attempts_of run_id stage rows = [1..<Suc (length (attempts_of run_id stage rows))])"

definition stages_ok :: "factory_store \<Rightarrow> bool" where
  "stages_ok s \<longleftrightarrow>
     distinct (map sg_stage_run_id (fs_stage_runs s))
     \<and> sg_run_id ` set (fs_stage_runs s) \<subseteq> run_ids s
     \<and> attempts_numbered (fs_stage_runs s)
     \<and> distinct (map stage_pin (filter stage_nonterminal (fs_stage_runs s)))"

definition artifact_pin :: "artifact_record \<Rightarrow> string \<times> string \<times> string" where
  "artifact_pin a = (ar_run_id a, ar_issue_revision a, ar_configuration_revision a)"

definition has_ended :: "stage_run_row list \<Rightarrow> artifact_record \<Rightarrow> bool" where
  "has_ended rows a \<longleftrightarrow>
     (\<exists>r\<in>set rows. sg_stage_run_id r = ar_stage_run_id a \<and> sg_run_id r = ar_run_id a \<and> \<not> stage_nonterminal r)"

definition artifacts_ok :: "factory_store \<Rightarrow> bool" where
  "artifacts_ok s \<longleftrightarrow>
     distinct (map ar_artifact_id (fs_artifacts s)) \<and> distinct (map ar_stage_run_id (fs_artifacts s))
     \<and> distinct (map artifact_pin (fs_artifacts s))
     \<and> (\<forall>a\<in>set (fs_artifacts s). has_ended (fs_stage_runs s) a)"

definition steps_ok :: "string list \<Rightarrow> bool" where
  "steps_ok steps \<longleftrightarrow> distinct steps \<and> (\<forall>t\<in>set steps. t \<noteq> [] \<and> trim t = t)"

definition intents_ok :: "factory_store \<Rightarrow> bool" where
  "intents_ok s \<longleftrightarrow>
     distinct (map pi_intent_id (fs_intents s))
     \<and> (\<forall>i\<in>set (fs_intents s). pi_run_id i \<in> run_ids s \<and> steps_ok (pi_completed_steps i)
          \<and> set_option (pi_artifact_id i) \<subseteq> ar_artifact_id ` set (fs_artifacts s))"

definition observation_key :: "route_observation_row \<Rightarrow> string \<times> route_observation_kind \<times> string" where
  "observation_key r = (ob_artifact_id r, ob_kind r, ob_value r)"

definition observations_ok :: "factory_store \<Rightarrow> bool" where
  "observations_ok s \<longleftrightarrow> distinct (map observation_key (fs_observations s))
     \<and> ob_artifact_id ` set (fs_observations s) \<subseteq> ar_artifact_id ` set (fs_artifacts s)"

definition store_inv :: "factory_store \<Rightarrow> bool" where
  "store_inv s \<longleftrightarrow> runs_ok s \<and> stages_ok s \<and> artifacts_ok s \<and> intents_ok s \<and> observations_ok s"

lemmas inv_defs = store_inv_def runs_ok_def stages_ok_def artifacts_ok_def intents_ok_def observations_ok_def

lemma store_inv_empty: "store_inv factory_store_empty"
  by (simp add: inv_defs factory_store_empty_def run_ids_def attempts_numbered_def attempts_of_def)

section \<open>Updates that keep keys\<close>

lemma map_update_where:
  assumes "\<And>r. P r \<Longrightarrow> key (f r) = key r"
  shows "map key (update_where P f rows) = map key rows"
  using assms by (simp add: update_where_def)

lemma set_update_where: "set (update_where P f rows) = (\<lambda>r. if P r then f r else r) ` set rows"
  by (simp add: update_where_def)

lemma image_update_where:
  assumes "\<And>r. P r \<Longrightarrow> key (f r) = key r"
  shows "key ` set (update_where P f rows) = key ` set rows"
  using map_update_where [of P key f rows] assms by (metis list.set_map)

definition keeps_attempt :: "(stage_run_row \<Rightarrow> stage_run_row) \<Rightarrow> bool" where
  "keeps_attempt f \<longleftrightarrow>
     (\<forall>r. sg_stage_run_id (f r) = sg_stage_run_id r \<and> stage_pin (f r) = stage_pin r
        \<and> sg_attempt (f r) = sg_attempt r \<and> (stage_nonterminal (f r) \<longrightarrow> stage_nonterminal r))"

lemma pin_of_parts: "fst (pin_of run stage issue conf) = run" "fst (snd (pin_of run stage issue conf)) = stage"
  by (simp_all add: pin_of_def)

lemma keeps_attemptD:
  assumes "keeps_attempt f"
  shows "sg_stage_run_id (f r) = sg_stage_run_id r" "sg_run_id (f r) = sg_run_id r"
    "sg_stage (f r) = sg_stage r" "stage_pin (f r) = stage_pin r" "sg_attempt (f r) = sg_attempt r"
    "stage_nonterminal (f r) \<Longrightarrow> stage_nonterminal r"
proof -
  have pin: "stage_pin (f r) = stage_pin r" using assms by (simp add: keeps_attempt_def)
  show "sg_run_id (f r) = sg_run_id r" and "sg_stage (f r) = sg_stage r"
    using arg_cong [OF pin, of fst] arg_cong [OF pin, of "\<lambda>p. fst (snd p)"]
    by (simp_all add: stage_pin_def pin_of_parts)
qed (use assms in \<open>simp_all add: keeps_attempt_def\<close>)

lemma attempts_of_update:
  assumes "keeps_attempt f"
  shows "attempts_of run_id stage (update_where P f rows) = attempts_of run_id stage rows"
  by (induction rows) (auto simp: attempts_of_def update_where_def keeps_attemptD [OF assms])

lemma nonterminal_update:
  assumes "keeps_attempt f" and "distinct (map stage_pin (filter stage_nonterminal rows))"
  shows "distinct (map stage_pin (filter stage_nonterminal (update_where P f rows)))
    \<and> stage_pin ` set (filter stage_nonterminal (update_where P f rows))
        \<subseteq> stage_pin ` set (filter stage_nonterminal rows)"
  using assms(2)
proof (induction rows)
  case (Cons r rows)
  then have IH: "distinct (map stage_pin (filter stage_nonterminal (update_where P f rows)))"
    "stage_pin ` set (filter stage_nonterminal (update_where P f rows))
        \<subseteq> stage_pin ` set (filter stage_nonterminal rows)"
    by (auto split: if_splits)
  let ?r = "if P r then f r else r"
  have u: "update_where P f (r # rows) = ?r # update_where P f rows" by (simp add: update_where_def)
  have p: "stage_pin ?r = stage_pin r" using keeps_attemptD(4) [OF assms(1)] by simp
  show ?case
  proof (cases "stage_nonterminal ?r")
    case True
    then have "stage_nonterminal r" using keeps_attemptD(6) [OF assms(1)] by (auto split: if_splits)
    with True IH Cons.prems show ?thesis unfolding u by (auto simp: p)
  next
    case False
    with IH show ?thesis unfolding u by auto
  qed
qed (simp add: update_where_def)

lemma has_ended_update:
  assumes "keeps_attempt f" and "has_ended rows a"
  shows "has_ended (update_where P f rows) a"
proof -
  obtain r where r: "r \<in> set rows" "sg_stage_run_id r = ar_stage_run_id a" "sg_run_id r = ar_run_id a"
    "\<not> stage_nonterminal r" using assms(2) unfolding has_ended_def by blast
  let ?r = "if P r then f r else r"
  have "?r \<in> set (update_where P f rows)" using r(1) by (auto simp: set_update_where)
  moreover have "sg_stage_run_id ?r = ar_stage_run_id a" "sg_run_id ?r = ar_run_id a" "\<not> stage_nonterminal ?r"
    using r keeps_attemptD [OF assms(1), of r] by auto
  ultimately show ?thesis unfolding has_ended_def by blast
qed

lemma store_inv_stage_update:
  assumes "store_inv s" and k: "keeps_attempt f"
  shows "store_inv (s\<lparr> fs_stage_runs := update_where P f (fs_stage_runs s) \<rparr>)" (is "store_inv ?s")
proof -
  have "stages_ok ?s"
    using assms(1) nonterminal_update [OF k, of "fs_stage_runs s" P]
    by (simp add: store_inv_def stages_ok_def run_ids_def attempts_numbered_def attempts_of_update [OF k]
        map_update_where [where key = sg_stage_run_id] image_update_where [where key = sg_run_id]
        keeps_attemptD [OF k])
  moreover have "artifacts_ok ?s"
    using assms(1) has_ended_update [OF k] by (simp add: store_inv_def artifacts_ok_def)
  ultimately show ?thesis
    using assms(1) by (simp add: store_inv_def runs_ok_def intents_ok_def observations_ok_def run_ids_def)
qed

lemma store_inv_intent_update:
  assumes "store_inv s"
    and "\<And>i. i \<in> set (fs_intents s) \<Longrightarrow> P i \<Longrightarrow> pi_intent_id (f i) = pi_intent_id i \<and> pi_run_id (f i) = pi_run_id i
        \<and> pi_artifact_id (f i) = pi_artifact_id i \<and> steps_ok (pi_completed_steps (f i))"
  shows "store_inv (s\<lparr> fs_intents := update_where P f (fs_intents s) \<rparr>)" (is "store_inv ?s")
proof -
  have "map pi_intent_id (update_where P f (fs_intents s)) = map pi_intent_id (fs_intents s)"
    using assms(2) by (simp add: update_where_def)
  then have "intents_ok ?s"
    using assms by (auto simp: store_inv_def intents_ok_def set_update_where run_ids_def)
  then show ?thesis
    using assms(1)
    by (simp add: store_inv_def runs_ok_def stages_ok_def artifacts_ok_def observations_ok_def run_ids_def)
qed

lemma store_inv_runs:
  assumes "store_inv s" and "distinct (map fr_run_id rows)" and "distinct (map issue_key rows)"
    and "run_ids s \<subseteq> fr_run_id ` set rows"
  shows "store_inv (s\<lparr> fs_runs := rows \<rparr>)"
  using assms
  by (fastforce simp: store_inv_def runs_ok_def stages_ok_def artifacts_ok_def intents_ok_def
      observations_ok_def run_ids_def)

lemma put_run_inv:
  assumes "store_inv s" and "put_run rid now request s = Some s'"
  shows "store_inv s'"
proof (cases "find_run s (uf_forge_host request) (uf_repository request) (uf_issue_id request)")
  case (Some r)
  let ?P = "\<lambda>r. fr_forge_host r = uf_forge_host request \<and> fr_repository r = uf_repository request
      \<and> fr_issue_id r = uf_issue_id request"
  let ?f = "\<lambda>r. r\<lparr> fr_issue_identifier := uf_issue_identifier request,
      fr_issue_revision := uf_issue_revision request, fr_status := uf_status request,
      fr_current_stage := uf_current_stage request, fr_updated_at := now \<rparr>"
  have "map fr_run_id (update_where ?P ?f (fs_runs s)) = map fr_run_id (fs_runs s)"
    and "map issue_key (update_where ?P ?f (fs_runs s)) = map issue_key (fs_runs s)"
    and "fr_run_id ` set (update_where ?P ?f (fs_runs s)) = run_ids s"
    by (simp_all add: map_update_where image_update_where issue_key_def run_ids_def)
  then have "store_inv (s\<lparr> fs_runs := update_where ?P ?f (fs_runs s) \<rparr>)"
    using assms(1) by (intro store_inv_runs) (auto simp: store_inv_def runs_ok_def)
  moreover have "s' = s\<lparr> fs_runs := update_where ?P ?f (fs_runs s) \<rparr>"
    using assms(2) Some by (simp add: put_run_def)
  ultimately show ?thesis by simp
next
  case None
  let ?row = "\<lparr> fr_run_id = rid, fr_forge_host = uf_forge_host request,
               fr_repository = uf_repository request, fr_issue_id = uf_issue_id request,
               fr_issue_identifier = uf_issue_identifier request, fr_issue_revision = uf_issue_revision request,
               fr_status = uf_status request, fr_current_stage = uf_current_stage request,
               fr_created_at = now, fr_updated_at = now \<rparr>"
  have fresh: "rid \<notin> run_ids s" and s': "s' = s\<lparr> fs_runs := fs_runs s @ [?row] \<rparr>"
    using assms(2) None by (auto simp: put_run_def run_ids_def split: if_splits)
  have "issue_key ?row \<notin> issue_key ` set (fs_runs s)"
    using None by (auto simp: issue_key_def find_run_def find_None_iff)
  then show ?thesis
    unfolding s' using assms(1) fresh
    by (intro store_inv_runs) (auto simp: store_inv_def runs_ok_def run_ids_def)
qed

lemma put_run_stages: "put_run rid now request s = Some s' \<Longrightarrow> fs_stage_runs s' = fs_stage_runs s"
  by (auto simp: put_run_def split: option.splits if_splits)

section \<open>Claims\<close>

lemma foldr_max_upt: "foldr max [1..<Suc n] k = max n (k::nat)"
  by (induction n arbitrary: k) simp_all

lemma next_attempt_numbered:
  assumes "attempts_numbered (fs_stage_runs s)"
  shows "next_attempt s run_id stage = Suc (length (attempts_of run_id stage (fs_stage_runs s)))"
proof -
  let ?xs = "attempts_of run_id stage (fs_stage_runs s)"
  have "?xs = [1..<Suc (length ?xs)]" using assms unfolding attempts_numbered_def by blast
  then have "foldr max ?xs 0 = length ?xs" by (metis foldr_max_upt max_0R)
  then show ?thesis by (simp add: next_attempt_def flip: attempts_of_def)
qed

lemma attempts_numbered_append:
  assumes "attempts_numbered rows"
    and "sg_attempt row = Suc (length (attempts_of (sg_run_id row) (sg_stage row) rows))"
  shows "attempts_numbered (rows @ [row])"
  unfolding attempts_numbered_def
proof (intro allI)
  fix run_id stage
  have old: "attempts_of run_id stage rows = [1..<Suc (length (attempts_of run_id stage rows))]"
    using assms(1) unfolding attempts_numbered_def by blast
  show "attempts_of run_id stage (rows @ [row]) = [1..<Suc (length (attempts_of run_id stage (rows @ [row])))]"
  proof (cases "sg_run_id row = run_id \<and> sg_stage row = stage")
    case True
    then have "attempts_of run_id stage (rows @ [row]) = attempts_of run_id stage rows @ [sg_attempt row]"
      by (simp add: attempts_of_def)
    then show ?thesis using old True assms(2) by simp
  next
    case False
    then have "attempts_of run_id stage (rows @ [row]) = attempts_of run_id stage rows"
      by (auto simp: attempts_of_def)
    then show ?thesis using old by simp
  qed
qed

lemma insert_stage_run_inv:
  assumes "store_inv s" and "insert_stage_run row s = Some s'"
    and "sg_attempt row = next_attempt s (sg_run_id row) (sg_stage row)"
  shows "store_inv s'"
proof -
  have ok: "sg_stage_run_id row \<notin> sg_stage_run_id ` set (fs_stage_runs s)" "sg_run_id row \<in> run_ids s"
    "stage_nonterminal row \<Longrightarrow> stage_pin row \<notin> stage_pin ` set (filter stage_nonterminal (fs_stage_runs s))"
    and s': "s' = s\<lparr> fs_stage_runs := fs_stage_runs s @ [row] \<rparr>"
    using assms(2) by (auto simp: insert_stage_run_def run_ids_def split: if_splits)
  have num: "attempts_numbered (fs_stage_runs s)" using assms(1) by (simp add: store_inv_def stages_ok_def)
  have "attempts_numbered (fs_stage_runs s @ [row])"
    using num assms(3) by (intro attempts_numbered_append) (simp_all add: next_attempt_numbered)
  moreover have "has_ended (fs_stage_runs s @ [row]) a" if "has_ended (fs_stage_runs s) a" for a
    using that by (auto simp: has_ended_def)
  ultimately show ?thesis
    using assms(1) ok unfolding s'
    by (auto simp: store_inv_def runs_ok_def stages_ok_def artifacts_ok_def intents_ok_def
        observations_ok_def run_ids_def)
qed

lemma find_appended: "key x = k \<Longrightarrow> k \<notin> key ` set xs \<Longrightarrow> find (\<lambda>y. key y = k) (xs @ [x]) = Some x"
  by (induction xs) auto

lemma select_inserted:
  assumes "insert_stage_run row s = Some s'" and "sg_error_json row = None"
  shows "select_stage_run env s' (sg_stage_run_id row) = Inr \<lparr> sr_row = row, sr_error = None \<rparr>"
proof -
  have "fs_stage_runs s' = fs_stage_runs s @ [row]"
    and "sg_stage_run_id row \<notin> sg_stage_run_id ` set (fs_stage_runs s)"
    using assms(1) by (auto simp: insert_stage_run_def split: if_splits)
  then have "find_stage s' (sg_stage_run_id row) = Some row"
    unfolding find_stage_def by (simp add: find_appended)
  then show ?thesis
    using assms(2) by (simp add: select_stage_run_def stage_run_from_row_def optional_from_json_def)
qed

text \<open>A claim either changes nothing or is an upsert of the run followed by a new row whose
  number is the next one.\<close>

lemma claim_cases:
  obtains (refused) e where "claim_for_stage env now rid sid stage request s = (s, Inl e)"
  | (claimed) s1 run s2 where
      "put_run rid now (claim_run_request stage request) s = Some s1"
      "find_run s1 (ca_forge_host request) (ca_repository request) (ca_issue_id request) = Some run"
      "insert_stage_run (claimed_row now sid (fr_run_id run) stage (next_attempt s1 (fr_run_id run) stage) request) s1
         = Some s2"
      "claim_for_stage env now rid sid stage request s =
         (s2, Inr \<lparr> sr_row = claimed_row now sid (fr_run_id run) stage (next_attempt s1 (fr_run_id run) stage) request,
                    sr_error = None \<rparr>)"
proof (cases "\<exists>e. claim_for_stage env now rid sid stage request s = (s, Inl e)")
  case True
  then show ?thesis using refused by blast
next
  case False
  let ?req = "claim_run_request stage request"
  obtain s1 where s1: "put_run rid now ?req s = Some s1"
    using False by (cases "put_run rid now ?req s") (auto simp: claim_for_stage_def)
  obtain run where run: "find_run s1 (ca_forge_host request) (ca_repository request) (ca_issue_id request) = Some run"
    using False s1 by (cases "find_run s1 (ca_forge_host request) (ca_repository request) (ca_issue_id request)")
      (auto simp: claim_for_stage_def)
  let ?row = "claimed_row now sid (fr_run_id run) stage (next_attempt s1 (fr_run_id run) stage) request"
  obtain s2 where s2: "insert_stage_run ?row s1 = Some s2"
    using False s1 run by (cases "insert_stage_run ?row s1") (auto simp: claim_for_stage_def Let_def split: if_splits)
  have "select_stage_run env s2 sid = Inr \<lparr> sr_row = ?row, sr_error = None \<rparr>"
    using select_inserted [OF s2] by (simp add: claimed_row_def)
  then have "claim_for_stage env now rid sid stage request s = (s2, Inr \<lparr> sr_row = ?row, sr_error = None \<rparr>)"
    using False s1 run s2 by (auto simp: claim_for_stage_def Let_def split: if_splits)
  with s1 run s2 show ?thesis by (rule claimed)
qed

lemma claim_inv:
  assumes "store_inv s"
  shows "store_inv (fst (claim_for_stage env now rid sid stage request s))"
proof (cases rule: claim_cases [of env now rid sid stage request s])
  case (refused e)
  then show ?thesis using assms by simp
next
  case (claimed s1 run s2)
  have "store_inv s1" using put_run_inv [OF assms claimed(1)] .
  then have "store_inv s2"
    using claimed(3) by (rule insert_stage_run_inv) (simp add: claimed_row_def)
  then show ?thesis using claimed(4) by simp
qed

section \<open>The invariant is kept\<close>

lemma keeps_attempt_updates [intro, simp]:
  "keeps_attempt (\<lambda>r. r\<lparr> sg_lease_heartbeat_at := h, sg_updated_at := n \<rparr>)"
  "keeps_attempt (\<lambda>r. r\<lparr> sg_status := StageInterrupted, sg_completed_at := c, sg_updated_at := n \<rparr>)"
  "keeps_attempt (\<lambda>r. r\<lparr> sg_status := StageFailed, sg_completed_at := c, sg_error_json := e, sg_updated_at := n \<rparr>)"
  "keeps_attempt (\<lambda>r. r\<lparr> sg_status := StageCompleted, sg_completed_at := c, sg_usage := u, sg_updated_at := n \<rparr>)"
  "keeps_attempt (\<lambda>r. r\<lparr> sg_pid := p, sg_process_group_id := g, sg_process_start_token := t,
     sg_executable_identity := x, sg_workspace_path := w, sg_output_path := out, sg_updated_at := n \<rparr>)"
  by (simp_all add: keeps_attempt_def stage_pin_def stage_nonterminal_def)

lemma find_in: "find P xs = Some x \<Longrightarrow> x \<in> set xs \<and> P x"
  by (auto simp: find_Some_iff)

lemma stage_run_row [simp]: "stage_run_from_row env row = Inr record \<Longrightarrow> sr_row record = row"
  by (auto simp: stage_run_from_row_def split: sum.splits)

lemma select_stage_run_in:
  "select_stage_run env s sid = Inr record \<Longrightarrow>
     sr_row record \<in> set (fs_stage_runs s) \<and> sg_stage_run_id (sr_row record) = sid
     \<and> find_stage s sid = Some (sr_row record)"
  by (auto simp: select_stage_run_def find_stage_def dest: find_in split: option.splits)

lemma publication_intent_row [simp]:
  "publication_intent_from_row env row = Inr record \<Longrightarrow> pr_row record = row"
  by (auto simp: publication_intent_from_row_def split: sum.splits)

lemma select_publication_intent_in:
  "select_publication_intent env s iid = Inr record \<Longrightarrow>
     pr_row record \<in> set (fs_intents s) \<and> pi_intent_id (pr_row record) = iid
     \<and> find_intent s iid = Some (pr_row record)"
  by (auto simp: select_publication_intent_def find_intent_def dest: find_in split: option.splits)

lemma steps_ok_add: "steps_ok steps \<Longrightarrow> steps_ok (add_step t steps)"
  by (auto simp: steps_ok_def add_step_def trim_idem)

lemma insert_artifact_parts:
  assumes "insert_artifact a s = Some s'"
  shows "s' = s\<lparr> fs_artifacts := fs_artifacts s @ [a] \<rparr>" "ar_artifact_id a \<notin> ar_artifact_id ` set (fs_artifacts s)"
    "ar_stage_run_id a \<notin> ar_stage_run_id ` set (fs_artifacts s)"
    "artifact_pin a \<notin> artifact_pin ` set (fs_artifacts s)"
  using assms by (auto simp: insert_artifact_def artifact_pin_def split: if_splits)

lemma store_artifact_inv:
  assumes "store_inv s"
  shows "store_inv (fst (store_artifact env now aid request s))"
proof (cases "select_stage_run env s (sa_stage_run_id request)")
  case (Inl e)
  then show ?thesis using assms by (simp add: store_artifact_def)
next
  case (Inr stage)
  note sel = select_stage_run_in [OF Inr]
  let ?a = "\<lparr> ar_artifact_id = aid, ar_run_id = sg_run_id (sr_row stage),
      ar_stage_run_id = sa_stage_run_id request, ar_issue_revision = sa_issue_revision request,
      ar_configuration_revision = sa_configuration_revision request,
      ar_route_mapping_hash = sa_route_mapping_hash request, ar_artifact = sa_artifact request,
      ar_received_at = now, ar_bytes_len = sa_bytes_len request \<rparr>"
  show ?thesis
  proof (cases "sg_status (sr_row stage) = StageRunning \<and> insert_artifact ?a s \<noteq> None")
    case False
    then have "fst (store_artifact env now aid request s) = s"
      using Inr by (auto simp: store_artifact_def Let_def)
    then show ?thesis using assms by simp
  next
    case True
    then obtain s1 where s1: "insert_artifact ?a s = Some s1" by blast
    note parts = insert_artifact_parts [OF s1]
    let ?P = "\<lambda>r. sg_stage_run_id r = sa_stage_run_id request"
    let ?f = "\<lambda>r. r\<lparr> sg_status := StageCompleted, sg_completed_at := Some now,
        sg_usage := sa_usage request, sg_updated_at := now \<rparr>"
    let ?rows = "update_where ?P ?f (fs_stage_runs s)"
    let ?s = "s\<lparr> fs_stage_runs := ?rows \<rparr>"
    have inv: "store_inv ?s" using assms by (intro store_inv_stage_update) simp_all
    have res: "fst (store_artifact env now aid request s) = ?s\<lparr> fs_artifacts := fs_artifacts s @ [?a] \<rparr>"
      using True Inr s1 parts(1) by (simp add: store_artifact_def Let_def)
    have "?f (sr_row stage) \<in> set ?rows" using sel by (force simp: set_update_where)
    then have "has_ended ?rows ?a"
      using sel by (auto simp: has_ended_def stage_nonterminal_def intro!: bexI [of _ "?f (sr_row stage)"])
    then have "artifacts_ok (?s\<lparr> fs_artifacts := fs_artifacts s @ [?a] \<rparr>)"
      using inv parts(2-4) by (simp add: store_inv_def artifacts_ok_def)
    moreover have "intents_ok (?s\<lparr> fs_artifacts := fs_artifacts s @ [?a] \<rparr>)"
      using inv by (fastforce simp: store_inv_def intents_ok_def run_ids_def)
    moreover have "observations_ok (?s\<lparr> fs_artifacts := fs_artifacts s @ [?a] \<rparr>)"
      using inv by (auto simp: store_inv_def observations_ok_def)
    ultimately show ?thesis
      using inv unfolding res by (simp add: store_inv_def runs_ok_def stages_ok_def run_ids_def)
  qed
qed

lemma mark_run_status_inv:
  assumes "store_inv s"
  shows "store_inv (fst (mark_run_status now rid status s))"
proof -
  let ?P = "\<lambda>r. fr_run_id r = rid" and ?f = "\<lambda>r. r\<lparr> fr_status := status, fr_updated_at := now \<rparr>"
  have "map fr_run_id (update_where ?P ?f (fs_runs s)) = map fr_run_id (fs_runs s)"
    and "map issue_key (update_where ?P ?f (fs_runs s)) = map issue_key (fs_runs s)"
    and "fr_run_id ` set (update_where ?P ?f (fs_runs s)) = run_ids s"
    by (simp_all add: map_update_where image_update_where issue_key_def run_ids_def)
  then have "store_inv (s\<lparr> fs_runs := update_where ?P ?f (fs_runs s) \<rparr>)"
    using assms by (intro store_inv_runs) (auto simp: store_inv_def runs_ok_def)
  then show ?thesis by (simp add: mark_run_status_def Let_def)
qed

lemma upsert_factory_run_inv:
  assumes "store_inv s"
  shows "store_inv (fst (upsert_factory_run env now rid request s))"
proof (cases "put_run rid now request s")
  case None
  then show ?thesis using assms by (simp add: upsert_factory_run_def)
next
  case (Some s')
  then have "fst (upsert_factory_run env now rid request s) = s'"
    by (simp add: upsert_factory_run_def split: option.split)
  then show ?thesis using put_run_inv [OF assms Some] by simp
qed

lemma insert_intent_inv:
  assumes "store_inv s" and "insert_intent i s = Some s'" and "pi_completed_steps i = []"
  shows "store_inv s'"
proof -
  have s': "s' = s\<lparr> fs_intents := fs_intents s @ [i] \<rparr>" and ok: "pi_intent_id i \<notin> pi_intent_id ` set (fs_intents s)"
    "pi_run_id i \<in> run_ids s" "set_option (pi_artifact_id i) \<subseteq> ar_artifact_id ` set (fs_artifacts s)"
    using assms(2) by (auto simp: insert_intent_def run_ids_def split: if_splits option.splits)
  have "intents_ok s'"
    using assms(1,3) ok unfolding s' by (simp add: store_inv_def intents_ok_def run_ids_def steps_ok_def)
  then show ?thesis
    using assms(1) unfolding s'
    by (simp add: store_inv_def runs_ok_def stages_ok_def artifacts_ok_def observations_ok_def run_ids_def)
qed

lemma create_publication_intent_inv:
  assumes "store_inv s"
  shows "store_inv (fst (create_publication_intent env now iid request s))"
  using assms insert_intent_inv [OF assms]
  by (auto simp: create_publication_intent_def split: sum.split option.split)

lemma update_intent_inv:
  assumes "store_inv s"
    and "\<And>i. pi_intent_id (f i) = pi_intent_id i \<and> pi_run_id (f i) = pi_run_id i
        \<and> pi_artifact_id (f i) = pi_artifact_id i \<and> pi_completed_steps (f i) = pi_completed_steps i"
  shows "store_inv (fst (update_intent iid f s))"
proof -
  have "store_inv (s\<lparr> fs_intents := update_where (\<lambda>i. pi_intent_id i = iid) f (fs_intents s) \<rparr>)"
    using assms by (intro store_inv_intent_update) (auto simp: store_inv_def intents_ok_def)
  then show ?thesis by (simp add: update_intent_def Let_def)
qed

lemma selected_steps_ok:
  assumes "store_inv s" and "select_publication_intent env s iid = Inr intent"
  shows "steps_ok (add_step t (pi_completed_steps (pr_row intent)))"
  using assms select_publication_intent_in [OF assms(2)]
  by (auto simp: store_inv_def intents_ok_def intro: steps_ok_add)

lemma update_publication_step_inv:
  assumes "store_inv s"
  shows "store_inv (fst (update_publication_step env now iid st status err s))"
proof (cases "select_publication_intent env s iid")
  case (Inl e)
  then show ?thesis using assms by (simp add: update_publication_step_def)
next
  case (Inr intent)
  note ok = selected_steps_ok [OF assms Inr, of st]
  show ?thesis
    using Inr by (auto simp: update_publication_step_def Let_def ok intro!: store_inv_intent_update [OF assms])
qed

lemma record_publication_step_inv:
  assumes "store_inv s"
  shows "store_inv (fst (record_publication_step env now iid st status projection s))"
proof (cases "select_publication_intent env s iid")
  case (Inl e)
  then show ?thesis using assms by (simp add: record_publication_step_def)
next
  case (Inr intent)
  note ok = selected_steps_ok [OF assms Inr, of st]
  show ?thesis
    using Inr assms
    by (auto simp: record_publication_step_def Let_def ok intro!: store_inv_intent_update [OF assms]
        split: sum.split)
qed

lemma observation_inv:
  assumes "store_inv s"
  shows "store_inv (fst (record_route_observation env now aid kind v s))"
proof (cases "fst (record_route_observation env now aid kind v s) = s")
  case False
  let ?o = "\<lparr> ob_artifact_id = aid, ob_kind = kind, ob_value = v, ob_observed_at = now \<rparr>"
  from False have s': "fst (record_route_observation env now aid kind v s) = s\<lparr> fs_observations := fs_observations s @ [?o] \<rparr>"
    and "observation_key ?o \<notin> observation_key ` set (fs_observations s)"
    and "aid \<in> ar_artifact_id ` set (fs_artifacts s)"
    by (auto simp: record_route_observation_def observation_key_def split: if_splits)
  with assms show ?thesis
    unfolding s' by (simp add: store_inv_def runs_ok_def stages_ok_def artifacts_ok_def intents_ok_def
        observations_ok_def run_ids_def)
qed (use assms in simp)

lemma event_inv:
  assumes "store_inv s"
  shows "store_inv (fst (record_event env ev s))"
proof -
  obtain evs where "fst (record_event env ev s) = s\<lparr> fs_events := evs \<rparr>"
  proof (cases "bounded_json env (ev_payload ev)")
    case (Inl e)
    then have "fst (record_event env ev s) = s\<lparr> fs_events := fs_events s \<rparr>" by (simp add: record_event_def)
    then show ?thesis using that by blast
  next
    case (Inr payload)
    then have "fst (record_event env ev s) = s\<lparr> fs_events := fs_events s \<rparr>
        \<or> fst (record_event env ev s) = s\<lparr> fs_events := fs_events s @ [ev\<lparr> ev_payload := payload \<rparr>] \<rparr>"
      by (simp add: record_event_def)
    then show ?thesis using that by blast
  qed
  then show ?thesis
    using assms by (simp add: store_inv_def runs_ok_def stages_ok_def artifacts_ok_def intents_ok_def
        observations_ok_def run_ids_def)
qed

lemma factory_step_inv:
  assumes "factory_step env s s'" and "store_inv s"
  shows "store_inv s'"
  using assms
proof (induction rule: factory_step.induct)
  case (claim s now rid sid request)
  then show ?case by (simp add: claim_attempt_def claim_inv)
next
  case (claim_stage s now rid sid stage request)
  then show ?case by (simp add: claim_stage_attempt_def claim_inv)
next
  case (fail s now sid err)
  then show ?case by (simp add: fail_attempt_def Let_def store_inv_stage_update)
next
  case (renew s now sid owner)
  then show ?case by (simp add: renew_lease_def Let_def store_inv_stage_update)
next
  case (interrupt s now sid owner)
  then show ?case by (simp add: interrupt_attempt_def Let_def store_inv_stage_update)
next
  case (interrupt_stale s now now')
  then show ?case by (simp add: interrupt_stale_attempts_def Let_def store_inv_stage_update)
next
  case (record_process s now request)
  then show ?case by (simp add: record_attempt_process_def store_inv_stage_update)
next
  case (clear_process s now sid)
  then show ?case by (simp add: clear_attempt_process_def store_inv_stage_update)
next
  case (baseline s now iid b projection)
  then show ?case
    by (auto simp: set_publication_baseline_def intro: update_intent_inv split: sum.split)
next
  case (comment s now iid cid login)
  then show ?case by (simp add: set_publication_comment_def update_intent_inv)
qed (simp_all add: store_artifact_inv mark_run_status_inv upsert_factory_run_inv create_publication_intent_inv
    update_publication_step_inv record_publication_step_inv observation_inv event_inv)

lemma factory_reachable_inv: "factory_reachable env s \<Longrightarrow> store_inv s"
  by (induction rule: factory_reachable.induct) (auto intro: store_inv_empty factory_step_inv)

section \<open>An attempt that has ended\<close>

definition ended :: "factory_store \<Rightarrow> string \<Rightarrow> bool" where
  "ended s sid \<longleftrightarrow> (\<exists>r\<in>set (fs_stage_runs s). sg_stage_run_id r = sid \<and> \<not> stage_nonterminal r)"

lemma claim_more: "set (fs_stage_runs s) \<subseteq> set (fs_stage_runs (fst (claim_for_stage env now rid sid stage request s)))"
proof (cases rule: claim_cases [of env now rid sid stage request s])
  case (claimed s1 run s2)
  then have "fs_stage_runs s1 = fs_stage_runs s" by (simp add: put_run_stages)
  then show ?thesis using claimed(3,4) by (auto simp: insert_stage_run_def split: if_splits)
qed simp

lemma same_stages:
  "fs_stage_runs (fst (upsert_factory_run env now rid request1 s)) = fs_stage_runs s"
  "fs_stage_runs (fst (mark_run_status now rid status s)) = fs_stage_runs s"
  "fs_stage_runs (fst (create_publication_intent env now iid request2 s)) = fs_stage_runs s"
  "fs_stage_runs (fst (update_publication_step env now iid st pstatus err s)) = fs_stage_runs s"
  "fs_stage_runs (fst (record_publication_step env now iid st pstatus projection s)) = fs_stage_runs s"
  "fs_stage_runs (fst (set_publication_baseline env now iid b projection s)) = fs_stage_runs s"
  "fs_stage_runs (fst (set_publication_comment now iid cid login s)) = fs_stage_runs s"
  "fs_stage_runs (fst (record_event env ev s)) = fs_stage_runs s"
  "fs_stage_runs (fst (record_route_observation env now aid kind v s)) = fs_stage_runs s"
  by (auto simp: upsert_factory_run_def mark_run_status_def create_publication_intent_def insert_intent_def
      update_publication_step_def record_publication_step_def set_publication_baseline_def update_intent_def
      set_publication_comment_def record_event_def record_route_observation_def Let_def put_run_stages
      split: option.split sum.split)

lemma find_unique:
  assumes "distinct (map key rows)" and "r \<in> set rows"
  shows "find (\<lambda>x. key x = key r) rows = Some r"
  using assms by (induction rows) auto

lemma ended_row:
  assumes "store_inv s" and "ended s sid" and "r \<in> set (fs_stage_runs s)" and "sg_stage_run_id r = sid"
  shows "\<not> stage_nonterminal r"
proof -
  obtain q where q: "q \<in> set (fs_stage_runs s)" "sg_stage_run_id q = sid" "\<not> stage_nonterminal q"
    using assms(2) unfolding ended_def by blast
  have "distinct (map sg_stage_run_id (fs_stage_runs s))" using assms(1) by (simp add: store_inv_def stages_ok_def)
  then have "r = q" using q assms(3,4) by (metis find_unique option.inject)
  then show ?thesis using q by simp
qed

lemma ended_refuses:
  assumes "store_inv s" and "ended s sid"
  shows "sa_stage_run_id request = sid \<Longrightarrow> \<exists>e. store_artifact env now aid request s = (s, Inl e)"
    and "renew_lease now sid owner s = (s, Inr False)"
    and "interrupt_attempt now sid owner s = (s, Inr False)"
proof -
  have none: "\<not> owned_and_running sid owner r" if "r \<in> set (fs_stage_runs s)" for r
    using ended_row [OF assms that] by (auto simp: owned_and_running_def stage_nonterminal_def)
  then have same: "update_where (owned_and_running sid owner) f (fs_stage_runs s) = fs_stage_runs s"
    and zero: "changed_rows (owned_and_running sid owner) (fs_stage_runs s) = 0" for f
    by (simp_all add: update_where_def changed_rows_def map_idI)
  show "renew_lease now sid owner s = (s, Inr False)" "interrupt_attempt now sid owner s = (s, Inr False)"
    by (simp_all add: renew_lease_def interrupt_attempt_def Let_def same zero)
  show "\<exists>e. store_artifact env now aid request s = (s, Inl e)" if id: "sa_stage_run_id request = sid"
  proof (cases "select_stage_run env s sid")
    case (Inl e)
    then show ?thesis by (simp add: store_artifact_def id)
  next
    case (Inr stage)
    then have "sg_status (sr_row stage) \<noteq> StageRunning"
      using ended_row [OF assms] select_stage_run_in [OF Inr] by (auto simp: stage_nonterminal_def)
    with Inr show ?thesis by (simp add: store_artifact_def id)
  qed
qed

text \<open>The status of an ended attempt: only \<open>fail_attempt\<close>, which does not look at it, can change it.\<close>

definition ended_as :: "stage_status \<Rightarrow> string \<Rightarrow> factory_store \<Rightarrow> bool" where
  "ended_as status sid s \<longleftrightarrow>
     stage_status_is_terminal status
     \<and> (\<exists>r\<in>set (fs_stage_runs s). sg_stage_run_id r = sid \<and> sg_status r \<in> {status, StageFailed})"

lemma ended_as_ended: "ended_as status sid s \<Longrightarrow> ended s sid"
  by (auto simp: ended_as_def ended_def stage_nonterminal_def stage_status_is_terminal_def)

lemma ended_as_more: "set (fs_stage_runs s) \<subseteq> set (fs_stage_runs s') \<Longrightarrow> ended_as status sid s \<Longrightarrow> ended_as status sid s'"
  by (auto simp: ended_as_def)

lemma ended_as_update:
  assumes "ended_as status sid s"
    and "\<And>r. sg_stage_run_id (f r) = sg_stage_run_id r"
    and "\<And>r. sg_stage_run_id r = sid \<Longrightarrow> P r \<Longrightarrow> sg_status r \<in> {status, StageFailed}
           \<Longrightarrow> sg_status (f r) \<in> {status, StageFailed}"
  shows "ended_as status sid (s\<lparr> fs_stage_runs := update_where P f (fs_stage_runs s) \<rparr>)"
proof -
  obtain r where r: "r \<in> set (fs_stage_runs s)" "sg_stage_run_id r = sid" "sg_status r \<in> {status, StageFailed}"
    using assms(1) by (auto simp: ended_as_def)
  let ?r = "if P r then f r else r"
  have "?r \<in> set (update_where P f (fs_stage_runs s))" using r(1) by (auto simp: set_update_where)
  moreover have "sg_stage_run_id ?r = sid" "sg_status ?r \<in> {status, StageFailed}"
    using r assms(2,3) by auto
  ultimately show ?thesis using assms(1) unfolding ended_as_def by auto
qed

lemma ended_as_not_running: "ended_as status sid s \<Longrightarrow> status \<noteq> StageRunning"
  by (auto simp: ended_as_def stage_status_is_terminal_def)

lemma ended_as_store:
  assumes "store_inv s" and "ended_as status sid s"
  shows "ended_as status sid (fst (store_artifact env now aid request s))"
proof (cases "sa_stage_run_id request = sid")
  case True
  then show ?thesis
    using ended_refuses(1) [OF assms(1) ended_as_ended [OF assms(2)] True, of env now aid] assms(2) by auto
next
  case False
  let ?P = "\<lambda>r. sg_stage_run_id r = sa_stage_run_id request"
  let ?f = "\<lambda>r. r\<lparr> sg_status := StageCompleted, sg_completed_at := Some now,
      sg_usage := sa_usage request, sg_updated_at := now \<rparr>"
  have "fs_stage_runs (fst (store_artifact env now aid request s)) = fs_stage_runs s
      \<or> fs_stage_runs (fst (store_artifact env now aid request s)) = update_where ?P ?f (fs_stage_runs s)"
    by (auto simp: store_artifact_def Let_def insert_artifact_def split: sum.split option.split)
  moreover have "ended_as status sid (s\<lparr> fs_stage_runs := update_where ?P ?f (fs_stage_runs s) \<rparr>)"
    using False by (intro ended_as_update [OF assms(2)]) simp_all
  ultimately show ?thesis using assms(2) by (auto simp: ended_as_def)
qed

lemma ended_as_step:
  assumes "factory_step env s s'" and "store_inv s" and "ended_as status sid s"
  shows "ended_as status sid s'"
  using assms
proof (induction rule: factory_step.induct)
  case (claim s now rid sid' request)
  then show ?case using ended_as_more [OF claim_more] by (auto simp: claim_attempt_def)
next
  case (claim_stage s now rid sid' stage request)
  then show ?case using ended_as_more [OF claim_more] by (auto simp: claim_stage_attempt_def)
next
  case (store s now aid request)
  then show ?case by (rule ended_as_store)
next
  case (fail s now sid' err)
  then show ?case by (auto simp: fail_attempt_def Let_def intro: ended_as_update)
next
  case (renew s now sid' owner)
  then show ?case by (auto simp: renew_lease_def Let_def intro: ended_as_update)
next
  case (interrupt s now sid' owner)
  then show ?case
    using ended_as_not_running [OF interrupt(2)]
    by (auto simp: interrupt_attempt_def owned_and_running_def Let_def intro!: ended_as_update)
next
  case (interrupt_stale s now now')
  then show ?case
    using ended_as_not_running [OF interrupt_stale(2)]
    by (auto simp: interrupt_stale_attempts_def lease_is_stale_def Let_def intro!: ended_as_update)
next
  case (record_process s now request)
  then show ?case by (auto simp: record_attempt_process_def intro: ended_as_update)
next
  case (clear_process s now sid')
  then show ?case by (auto simp: clear_attempt_process_def intro: ended_as_update)
qed (auto simp: ended_as_def same_stages)

lemma ended_as_steps:
  assumes "(factory_step env)\<^sup>*\<^sup>* s s'" and "store_inv s" and "ended_as status sid s"
  shows "store_inv s' \<and> ended_as status sid s'"
  using assms by (induction rule: rtranclp_induct) (auto intro: factory_step_inv ended_as_step)

lemma sweep_leaves_ended:
  assumes "ended_as status sid s" and "r \<in> set (fs_stage_runs s)" and "sg_status r \<in> {status, StageFailed}"
  shows "r \<in> set (fs_stage_runs (fst (interrupt_stale_attempts now later s)))"
  using ended_as_not_running [OF assms(1)] assms(2,3)
  by (force simp: interrupt_stale_attempts_def lease_is_stale_def Let_def set_update_where)

lemma ended_as_process:
  assumes "store_inv s" and "ended_as status sid s" and "rp_stage_run_id request = sid"
  shows "record_attempt_process now request s = (s, Inr ())"
proof -
  have "\<not> owned_and_running sid owner r" if "r \<in> set (fs_stage_runs s)" for r owner
    using ended_row [OF assms(1) ended_as_ended [OF assms(2)] that]
    by (auto simp: owned_and_running_def stage_nonterminal_def)
  then have "update_where (owned_and_running sid (rp_owner_instance request)) f (fs_stage_runs s) = fs_stage_runs s" for f
    by (simp add: update_where_def map_idI)
  then show ?thesis using assms(3) by (simp add: record_attempt_process_def)
qed

section \<open>A stale lease\<close>

text \<open>The upsert of a run that exists keeps its id.\<close>

lemma put_run_existing:
  assumes "find_run s (uf_forge_host request) (uf_repository request) (uf_issue_id request) = Some run"
  shows "\<exists>s1 run1. put_run rid now request s = Some s1
    \<and> find_run s1 (uf_forge_host request) (uf_repository request) (uf_issue_id request) = Some run1
    \<and> fr_run_id run1 = fr_run_id run \<and> run_ids s1 = run_ids s"
proof -
  let ?P = "\<lambda>r. fr_forge_host r = uf_forge_host request \<and> fr_repository r = uf_repository request
      \<and> fr_issue_id r = uf_issue_id request"
  let ?f = "\<lambda>r. r\<lparr> fr_issue_identifier := uf_issue_identifier request,
      fr_issue_revision := uf_issue_revision request, fr_status := uf_status request,
      fr_current_stage := uf_current_stage request, fr_updated_at := now \<rparr>"
  have "find ?P rows = Some run \<Longrightarrow> find ?P (update_where ?P ?f rows) = Some (?f run)" for rows
    by (induction rows) (auto simp: update_where_def)
  then have "find_run (s\<lparr> fs_runs := update_where ?P ?f (fs_runs s) \<rparr>) (uf_forge_host request)
      (uf_repository request) (uf_issue_id request) = Some (?f run)"
    using assms by (simp add: find_run_def)
  moreover have "put_run rid now request s = Some (s\<lparr> fs_runs := update_where ?P ?f (fs_runs s) \<rparr>)"
    using assms by (simp add: put_run_def)
  ultimately show ?thesis by (simp add: run_ids_def image_update_where)
qed

lemma claim_refused_when_pinned:
  assumes "find_run s (ca_forge_host request) (ca_repository request) (ca_issue_id request) = Some run"
    and "r \<in> set (fs_stage_runs s)" and "stage_nonterminal r"
    and "stage_pin r = pin_of (fr_run_id run) stage (ca_issue_revision request) (ca_configuration_revision request)"
  shows "\<exists>e. claim_for_stage env now rid sid stage request s = (s, Inl e)"
proof (cases rule: claim_cases [of env now rid sid stage request s])
  case (claimed s1 run' s2)
  have same: "fr_run_id run' = fr_run_id run"
    using claimed(1,2) assms(1) put_run_existing [of s "claim_run_request stage request" run rid now]
    by (auto simp: claim_run_request_def)
  have "r \<in> set (fs_stage_runs s1)" using assms(2) claimed(1) by (simp add: put_run_stages)
  then have False
    using claimed(3) assms(3,4) same
    by (auto simp: insert_stage_run_def claimed_row_def stage_pin_def stage_nonterminal_def split: if_splits)
  then show ?thesis ..
qed blast

lemma attempts_below_next:
  assumes "store_inv s" and "r \<in> set (fs_stage_runs s)"
  shows "sg_attempt r < next_attempt s (sg_run_id r) (sg_stage r)"
proof -
  have num: "attempts_numbered (fs_stage_runs s)" using assms(1) by (simp add: store_inv_def stages_ok_def)
  let ?xs = "attempts_of (sg_run_id r) (sg_stage r) (fs_stage_runs s)"
  have "?xs = [1..<Suc (length ?xs)]" using num unfolding attempts_numbered_def by blast
  moreover have "sg_attempt r \<in> set ?xs" using assms(2) by (auto simp: attempts_of_def)
  ultimately have "sg_attempt r \<in> set [1..<Suc (length ?xs)]" by (simp only:)
  then have "sg_attempt r < Suc (length ?xs)" by (simp only: set_upt atLeastLessThan_iff)
  then show ?thesis by (simp only: next_attempt_numbered [OF num])
qed

lemma claim_accepted:
  assumes "store_inv s"
    and run: "find_run s (ca_forge_host request) (ca_repository request) (ca_issue_id request) = Some run"
    and free: "\<And>r. r \<in> set (fs_stage_runs s) \<Longrightarrow> stage_nonterminal r \<Longrightarrow>
        stage_pin r \<noteq> pin_of (fr_run_id run) stage (ca_issue_revision request) (ca_configuration_revision request)"
    and fresh: "sid \<notin> sg_stage_run_id ` set (fs_stage_runs s)"
    and bound: "next_attempt s (fr_run_id run) stage \<le> u32_max"
  shows "\<exists>s'. claim_for_stage env now rid sid stage request s =
    (s', Inr \<lparr> sr_row = claimed_row now sid (fr_run_id run) stage (next_attempt s (fr_run_id run) stage) request,
               sr_error = None \<rparr>)"
proof -
  obtain s1 run1 where s1: "put_run rid now (claim_run_request stage request) s = Some s1"
    and run1: "find_run s1 (ca_forge_host request) (ca_repository request) (ca_issue_id request) = Some run1"
    and id: "fr_run_id run1 = fr_run_id run"
    using put_run_existing [of s "claim_run_request stage request" run rid now] run
    by (auto simp: claim_run_request_def)
  have rows: "fs_stage_runs s1 = fs_stage_runs s" using put_run_stages [OF s1] .
  have nxt: "next_attempt s1 (fr_run_id run) stage = next_attempt s (fr_run_id run) stage"
    by (simp add: next_attempt_def rows)
  let ?row = "claimed_row now sid (fr_run_id run) stage (next_attempt s (fr_run_id run) stage) request"
  have "fr_run_id run \<in> fr_run_id ` set (fs_runs s1)"
    using find_in [OF run1 [unfolded find_run_def]] id by (metis image_eqI)
  moreover have "\<not> (\<exists>r\<in>set (fs_stage_runs s). sg_run_id r = fr_run_id run \<and> sg_stage r = stage
      \<and> sg_attempt r = next_attempt s (fr_run_id run) stage)"
    using attempts_below_next [OF assms(1)] by fastforce
  moreover have "\<not> (\<exists>r\<in>set (fs_stage_runs s). stage_nonterminal r \<and> stage_pin r = stage_pin ?row)"
    using free by (auto simp: stage_pin_def claimed_row_def)
  ultimately obtain s2 where s2: "insert_stage_run ?row s1 = Some s2"
    using fresh by (simp add: insert_stage_run_def rows claimed_row_def)
  have sel: "select_stage_run env s2 sid = Inr \<lparr> sr_row = ?row, sr_error = None \<rparr>"
    using select_inserted [OF s2] by (simp add: claimed_row_def)
  show ?thesis
    using s1 run1 bound s2 sel by (simp add: claim_for_stage_def id nxt Let_def not_less [symmetric])
qed

lemma pin_unique:
  assumes "store_inv s" and "r \<in> set (fs_stage_runs s)" and "q \<in> set (fs_stage_runs s)"
    and "stage_nonterminal r" and "stage_nonterminal q" and "stage_pin r = stage_pin q"
  shows "r = q"
  using assms by (auto simp: store_inv_def stages_ok_def distinct_map inj_on_def)

text \<open>After the sweep no attempt of a swept pin is pending or running.\<close>

lemma swept_pin_free:
  assumes "store_inv s" and "r \<in> set (fs_stage_runs s)" and "stage_nonterminal r" and "P r"
    and "q \<in> set (fs_stage_runs (s\<lparr> fs_stage_runs :=
      update_where P (\<lambda>r. r\<lparr> sg_status := StageInterrupted, sg_completed_at := c, sg_updated_at := n \<rparr>)
        (fs_stage_runs s) \<rparr>))" and "stage_nonterminal q"
  shows "stage_pin q \<noteq> stage_pin r"
proof
  assume same: "stage_pin q = stage_pin r"
  from assms(5,6) have "q \<in> set (fs_stage_runs s)" and "\<not> P q"
    by (auto simp: set_update_where stage_nonterminal_def split: if_splits)
  then have "q = r" using pin_unique [OF assms(1) _ assms(2,6,3)] same by blast
  with \<open>\<not> P q\<close> assms(4) show False by simp
qed

lemma at_most_one_key: "distinct (map key xs) \<Longrightarrow> length (filter (\<lambda>x. key x = k) xs) \<le> 1"
proof (induction xs)
  case (Cons x xs)
  have "key x \<notin> key ` set xs" using Cons.prems by simp
  then have "filter (\<lambda>x. key x = k) xs = []" if "key x = k"
    unfolding filter_empty_conv using that by (metis image_eqI)
  with Cons show ?case by auto
qed simp

section \<open>An error that does not fit\<close>

lemma read_rows_error: "r \<in> set rows \<Longrightarrow> read r = Inl e \<Longrightarrow> isl (read_rows read rows)"
  by (induction rows) (auto split: sum.splits)

lemma take_bytes_take: "\<exists>n. take_bytes m s = take n s"
  by (metis append_eq_conv_conj take_bytes_prefix)

lemma truncated_is_cut:
  assumes "m < utf8_len s"
  shows "\<exists>n<length s. truncate_utf8_bytes s m = take n s"
proof -
  obtain t where t: "s = take_bytes m s @ t" using take_bytes_prefix by blast
  have "t \<noteq> []" using t assms utf8_len_take_bytes [of m s] by (metis append_Nil2 leD)
  then have "length (take_bytes m s) < length s" using t by (metis length_append length_greater_0_conv less_add_same_cancel1)
  then show ?thesis using t by (metis append_eq_conv_conj truncate_is_take_bytes)
qed

end
