(* ===== verification/FactoryProperties.thy ===== *)
theory FactoryProperties
  imports GateFacts SpecDecision TriageComment FactoryStoreFacts
begin

text \<open>
  The properties of the factory's stages: the verification gate, the human decisions, the
  marked comments and the durable store.
\<close>

section \<open>The gate\<close>

text \<open>C30. The gate passes exactly when the manifest names the pinned artifacts and commits, has a
  summary, covers the criteria one to n each once, each with a rationale, evidence of this attempt
  only and some of it for a verdict, every criterion is asserted to pass, every recorded command
  completed and passed, runs and configured commands correspond one to one, and an acceptance
  command is among them.\<close>

theorem gate_passes_exactly:
  "(\<exists>verdict. compute_gate m i runs evidence = Inr verdict \<and> gv_passed verdict) \<longleftrightarrow>
     manifest_identity_ok m i \<and> trim (vm_summary m) \<noteq> []
     \<and> length (vm_criteria m) = gi_criterion_count i \<and> gi_criterion_count i \<le> 200
     \<and> distinct (criteria_indices m) \<and> set (criteria_indices m) = {1..gi_criterion_count i}
     \<and> list_all (\<lambda>c. criterion_ok (set (map ve_relative_path evidence)) c \<and> vc_status c = CritPass) (vm_criteria m)
     \<and> list_all (\<lambda>r. cr_status r = ''completed'' \<and> cr_passed r = Some True) runs
     \<and> distinct (map run_key runs) \<and> distinct (map expected_key (gi_expected_commands i))
     \<and> set (map run_key runs) = set (map expected_key (gi_expected_commands i))
     \<and> list_ex (\<lambda>r. cr_kind r = KindAcceptance) runs"
proof (cases "validate_manifest m i evidence")
  case (Inl e)
  then have "validate_manifest m i evidence \<noteq> Inr ()" by simp
  with Inl show ?thesis
    unfolding validate_manifest_ok by (auto simp: compute_gate_def list_all_iff)
next
  case (Inr u)
  then have ok: "validate_manifest m i evidence = Inr ()" by simp
  have "(\<exists>verdict. compute_gate m i runs evidence = Inr verdict \<and> gv_passed verdict)
      \<longleftrightarrow> gate_reasons m i runs = []"
    using ok by (simp add: compute_gate_def Let_def)
  then show ?thesis
    using ok unfolding validate_manifest_ok gate_reasons_none run_passed_def one_to_one_def
    by (simp only: list_all_iff list_ex_iff ball_conj_distrib) blast
qed

section \<open>Human decisions\<close>

text \<open>The specification is approved exactly when the issue carries the approval label, not
  the revision label, and the published revision is current. A requested revision gets as
  feedback exactly the comments written or edited since the publication that are not the
  publisher's own marked comments, in order.\<close>

theorem decision_exact:
  "(detect_decision input = DecisionApprove \<longleftrightarrow>
      has_label input (sl_approved (sc_labels (di_config input)))
      \<and> \<not> has_label input (sl_revise (sc_labels (di_config input))) \<and> di_revision_is_current input)
   \<and> (detect_decision input = DecisionRevise feedback \<longleftrightarrow>
      has_label input (sl_revise (sc_labels (di_config input)))
      \<and> \<not> has_label input (sl_approved (sc_labels (di_config input)))
      \<and> feedback \<noteq> []
      \<and> feedback = filter (\<lambda>c. (di_published_at input < ic_created_at c \<or> di_published_at input < ic_updated_at c)
          \<and> \<not> (eq_ignore_ascii_case (ic_author_login c) (di_publisher_login input)
               \<and> contains_str ''<!-- symphony:'' (ic_body c))) (di_comments input))"
proof -
  have "decision_feedback input = filter (\<lambda>c. (di_published_at input < ic_created_at c
      \<or> di_published_at input < ic_updated_at c)
      \<and> \<not> (eq_ignore_ascii_case (ic_author_login c) (di_publisher_login input)
           \<and> contains_str ''<!-- symphony:'' (ic_body c))) (di_comments input)"
    unfolding decision_feedback_def is_publisher_owned_def by (intro filter_cong) auto
  then show ?thesis by (auto simp: detect_decision_def Let_def)
qed

text \<open>A route counts as corrected exactly when the issue carries one managed route label,
  whatever its case and surrounding space, and the route recorded for it is not the published
  one; it counts as agreed exactly when that route is the published one. With five distinct
  labels, none or several carried ones are an inconsistency.\<close>

theorem correction_exact:
  assumes "length recorded = 5" and "distinct (map normalize_managed_value recorded)"
    and "k < 5" and "normalize_managed_value (recorded ! k) \<noteq> []"
    and "normalize_managed_value ` set current \<inter> normalize_managed_value ` set recorded
           = {normalize_managed_value (recorded ! k)}"
  shows "compare_route_labels published recorded current =
     (if eq_ignore_ascii_case (route_keys ! k) (trim published) then Agreed
      else Corrected (route_keys ! k) (normalize_managed_value (recorded ! k)))"
proof -
  let ?l = "normalize_managed_value (recorded ! k)"
  have "carried recorded current = {?l}" using assms(4,5) by (auto simp: carried_def)
  then obtain entry where e: "present_labels recorded current = [entry]"
    using present_labels_single [of recorded current] by auto
  obtain j l where jl: "entry = (j, l)" by (cases entry)
  have "(j, l) \<in> present_upto recorded (map normalize_managed_value current) (length recorded)"
    using present_labels_exact(1) [of recorded current] unfolding e jl by auto
  then have j: "j < 5" "l = normalize_managed_value (recorded ! j)"
    using assms(1) by (auto simp: present_upto_def first_recorded_def)
  have "l = ?l"
    using present_labels_carried [of recorded current] \<open>carried recorded current = {?l}\<close> by (simp add: e jl)
  then have "j = k"
    using j assms(1-3) by (metis distinct_conv_nth length_map nth_map)
  then show ?thesis
    using assms(1) j by (simp add: compare_route_labels_def e jl route_keys_def)
qed

theorem correction_exact_witness:
  "compare_route_labels ''implement'' [''a'', ''b'', ''c'', ''d'', ''e''] [''bug'', '' B''] = Corrected ''spec'' ''b''"
proof -
  let ?r = "[''a'', ''b'', ''c'', ''d'', ''e'']"
  have n: "normalize_managed_value ''a'' = ''a''" "normalize_managed_value ''b'' = ''b''"
    "normalize_managed_value ''c'' = ''c''" "normalize_managed_value ''d'' = ''d''"
    "normalize_managed_value ''e'' = ''e''" "normalize_managed_value ''bug'' = ''bug''"
    "normalize_managed_value '' B'' = ''b''"
    by code_simp+
  have "compare_route_labels ''implement'' ?r [''bug'', '' B''] =
     (if eq_ignore_ascii_case (route_keys ! 1) (trim ''implement'') then Agreed
      else Corrected (route_keys ! 1) (normalize_managed_value (?r ! 1)))"
    by (rule correction_exact) (simp_all add: n insert_commute)
  also have "\<dots> = Corrected ''spec'' ''b''" by (simp add: n route_keys_def) code_simp
  finally show ?thesis .
qed

section \<open>Marked comments\<close>

text \<open>C33. Whatever the artifact and the texts in it, every rendered comment gives back the
  publication intent it belongs to: the marker is read as the intent's id.\<close>

theorem comment_names_its_intent:
  assumes "intent \<noteq> []" and "trim intent = intent" and "utf8_len intent \<le> 200"
    and "\<not> contains_str '' -->'' intent"
  shows "extract_intent_id_from_marker (render_preview_comment (p\<lparr> pci_intent_id := intent \<rparr>)) = Some intent
    \<and> extract_intent_id_from_marker (render_ineligible_diagnostic_comment (q\<lparr> ici_intent_id := intent \<rparr>)) = Some intent
    \<and> extract_intent_id_from_marker (render_automatic_comment (a\<lparr> aci_intent_id := intent \<rparr>)) = Some intent"
proof -
  have "plain_intent_id intent" using assms by (simp add: plain_intent_id_def marker_suffix_def)
  from extract_marker [OF this] show ?thesis
    by (simp add: render_preview_comment_def render_ineligible_diagnostic_comment_def
        render_automatic_comment_def)
qed

theorem comment_names_its_intent_witness:
  "extract_intent_id_from_marker (render_ineligible_diagnostic_comment
     \<lparr> ici_intent_id = ''0198-7'', ici_run_id = ''r'', ici_issue_identifier = ''KAT-1'',
       ici_project_name = ''p'', ici_remediation = ''<!-- symphony:triage:other -->'' \<rparr>) = Some ''0198-7''"
proof -
  let ?q = "\<lparr> ici_intent_id = '''', ici_run_id = ''r'', ici_issue_identifier = ''KAT-1'',
       ici_project_name = ''p'', ici_remediation = ''<!-- symphony:triage:other -->'' \<rparr>"
  have "trim ''0198-7'' = ''0198-7''" "utf8_len ''0198-7'' \<le> 200" "\<not> contains_str '' -->'' ''0198-7''"
    by code_simp+
  from comment_names_its_intent [OF _ this, of undefined ?q undefined] show ?thesis by simp
qed

section \<open>The store\<close>

text \<open>C34. In every state of the store that its operations can reach there is one run per issue of
  a repository, the attempts of a run at a stage are numbered one, two, three and so on, at most
  one attempt per stage and revision pair (in the implementation, review and verification stages:
  per stage) is pending or running, each revision pair has at most
  one triage artifact and the attempt it came from has ended, and no publication step or route
  observation is recorded twice.\<close>

theorem store_tables_consistent:
  assumes "factory_reachable env s"
  shows "distinct (map (\<lambda>r. (fr_forge_host r, fr_repository r, fr_issue_id r)) (fs_runs s))
    \<and> map sg_attempt (filter (\<lambda>r. sg_run_id r = run \<and> sg_stage r = stage) (fs_stage_runs s))
        = [1..<Suc (length (filter (\<lambda>r. sg_run_id r = run \<and> sg_stage r = stage) (fs_stage_runs s)))]
    \<and> length (filter (\<lambda>r. stage_nonterminal r \<and> stage_pin r = pin) (fs_stage_runs s)) \<le> 1
    \<and> distinct (map (\<lambda>a. (ar_run_id a, ar_issue_revision a, ar_configuration_revision a)) (fs_artifacts s))
    \<and> (\<forall>a\<in>set (fs_artifacts s). \<exists>r\<in>set (fs_stage_runs s).
          sg_stage_run_id r = ar_stage_run_id a \<and> sg_run_id r = ar_run_id a
          \<and> stage_status_is_terminal (sg_status r))
    \<and> (\<forall>i\<in>set (fs_intents s). distinct (pi_completed_steps i))
    \<and> distinct (map (\<lambda>r. (ob_artifact_id r, ob_kind r, ob_value r)) (fs_observations s))"
proof -
  have inv: "store_inv s" using assms by (rule factory_reachable_inv)
  have keys: "(\<lambda>r. (fr_forge_host r, fr_repository r, fr_issue_id r)) = issue_key"
    "(\<lambda>a. (ar_run_id a, ar_issue_revision a, ar_configuration_revision a)) = artifact_pin"
    "(\<lambda>r. (ob_artifact_id r, ob_kind r, ob_value r)) = observation_key"
    by (simp_all add: fun_eq_iff issue_key_def artifact_pin_def observation_key_def)
  have terminal: "\<not> stage_nonterminal r \<longleftrightarrow> stage_status_is_terminal (sg_status r)" for r
    by (cases "sg_status r") (simp_all add: stage_nonterminal_def stage_status_is_terminal_def)
  have "attempts_of run stage (fs_stage_runs s) = [1..<Suc (length (attempts_of run stage (fs_stage_runs s)))]"
    using inv unfolding store_inv_def stages_ok_def attempts_numbered_def by blast
  moreover have "length (filter (\<lambda>r. stage_nonterminal r \<and> stage_pin r = pin) (fs_stage_runs s)) \<le> 1"
    using inv at_most_one_key [of stage_pin "filter stage_nonterminal (fs_stage_runs s)" pin]
    by (simp add: store_inv_def stages_ok_def conj_commute)
  moreover have "\<forall>a\<in>set (fs_artifacts s). \<exists>r\<in>set (fs_stage_runs s).
      sg_stage_run_id r = ar_stage_run_id a \<and> sg_run_id r = ar_run_id a \<and> stage_status_is_terminal (sg_status r)"
    using inv by (simp add: store_inv_def artifacts_ok_def has_ended_def terminal)
  ultimately show ?thesis
    using inv unfolding keys
    by (simp add: attempts_of_def store_inv_def runs_ok_def artifacts_ok_def intents_ok_def observations_ok_def
        steps_ok_def)
qed


text \<open>C36. While an attempt runs, no other can be claimed for its revision pair. If its owner has
  been silent for more than a minute, the sweep of stale leases ends it, and then the same claim
  succeeds with the next attempt number; if not, the sweep leaves the attempt as it is.\<close>

theorem stale_lease_is_taken_over:
  assumes "factory_reachable env s" and "r \<in> set (fs_stage_runs s)"
    and "sg_status r = StageRunning" and "sg_lease_heartbeat_at r = Some heartbeat"
    and "sg_stage r = ''triage''"
    and "get_run_by_issue s (ca_forge_host request) (ca_repository request) (ca_issue_id request) = Some run"
    and "fr_run_id run = sg_run_id r" and "ca_issue_revision request = sg_issue_revision r"
    and "ca_configuration_revision request = sg_configuration_revision r"
    and "new_id \<notin> sg_stage_run_id ` set (fs_stage_runs s)"
    and "next_attempt s (sg_run_id r) ''triage'' \<le> u32_max"
  shows "fst (claim_attempt env now rid new_id request s) = s
    \<and> isl (snd (claim_attempt env now rid new_id request s))
    \<and> (let s' = fst (interrupt_stale_attempts sweep_now later s)
       in if heartbeat < sweep_now - 60000
          then \<exists>claimed. snd (claim_attempt env now rid new_id request s') = Inr claimed
                 \<and> sg_attempt (sr_row claimed) = next_attempt s (sg_run_id r) ''triage''
                 \<and> sg_attempt r < sg_attempt (sr_row claimed)
          else r \<in> set (fs_stage_runs s'))"
proof -
  have inv: "store_inv s" using assms(1) by (rule factory_reachable_inv)
  have run: "find_run s (ca_forge_host request) (ca_repository request) (ca_issue_id request) = Some run"
    using assms(6) by (simp add: get_run_by_issue_def)
  have nt: "stage_nonterminal r" using assms(3) by (simp add: stage_nonterminal_def)
  have pin: "stage_pin r = pin_of (fr_run_id run) ''triage'' (ca_issue_revision request) (ca_configuration_revision request)"
    using assms(5,7-9) by (simp add: stage_pin_def)
  let ?P = "lease_is_stale (sweep_now - 60000)"
  let ?f = "\<lambda>r. r\<lparr> sg_status := StageInterrupted, sg_completed_at := Some later, sg_updated_at := later \<rparr>"
  let ?s = "s\<lparr> fs_stage_runs := update_where ?P ?f (fs_stage_runs s) \<rparr>"
  have sweep: "fst (interrupt_stale_attempts sweep_now later s) = ?s"
    by (simp add: interrupt_stale_attempts_def triage_lease_stale_after_ms_def Let_def)
  have inv': "store_inv ?s" using inv by (intro store_inv_stage_update) simp_all
  have nxt: "next_attempt ?s run' stage = next_attempt s run' stage" for run' stage
    using attempts_of_update [of ?f run' stage ?P "fs_stage_runs s"]
    by (simp add: next_attempt_def flip: attempts_of_def)
  have before: "\<exists>e. claim_attempt env now rid new_id request s = (s, Inl e)"
    using claim_refused_when_pinned [OF run assms(2) nt pin]
    by (simp add: claim_attempt_def triage_stage_name_def)
  have after: "\<exists>claimed. snd (claim_attempt env now rid new_id request ?s) = Inr claimed
      \<and> sg_attempt (sr_row claimed) = next_attempt s (sg_run_id r) ''triage''
      \<and> sg_attempt r < sg_attempt (sr_row claimed)" if "heartbeat < sweep_now - 60000"
  proof -
    have free: "stage_pin q \<noteq> pin_of (fr_run_id run) ''triage'' (ca_issue_revision request) (ca_configuration_revision request)"
      if q: "q \<in> set (fs_stage_runs ?s)" "stage_nonterminal q" for q
      using swept_pin_free [OF inv assms(2) nt _ q] that assms(3,4) \<open>heartbeat < sweep_now - 60000\<close> pin
      by (simp add: lease_is_stale_def)
    have "\<exists>s'. claim_for_stage env now rid new_id ''triage'' request ?s =
        (s', Inr \<lparr> sr_row = claimed_row now new_id (fr_run_id run) ''triage''
              (next_attempt ?s (fr_run_id run) ''triage'') request, sr_error = None \<rparr>)"
      using run free assms(7,10,11) nxt image_update_where [of ?P sg_stage_run_id ?f]
      by (intro claim_accepted [OF inv']) (simp_all add: find_run_def)
    then show ?thesis
      using attempts_below_next [OF inv assms(2)] assms(5,7)
      by (auto simp: claim_attempt_def triage_stage_name_def nxt claimed_row_def)
  qed
  have kept: "r \<in> set (fs_stage_runs ?s)" if "\<not> heartbeat < sweep_now - 60000"
    using assms(2,4) that by (force simp: set_update_where lease_is_stale_def)
  show ?thesis using before after kept unfolding sweep Let_def by auto
qed

text \<open>C37. An error whose JSON is longer than 8000 bytes is cut off when it is stored, and cut JSON
  cannot be read: the attempt is marked as failed, but the call reports an error, and from then on
  neither that attempt nor the list of attempts of its run can be read.\<close>

theorem oversized_error_hides_attempt:
  assumes "factory_reachable env s" and "r \<in> set (fs_stage_runs s)"
    and "8000 < utf8_len (fenv_error_text env err)"
    and "\<forall>n < length (fenv_error_text env err). isl (fenv_error_parse env (take n (fenv_error_text env err)))"
  shows "isl (snd (fail_attempt env now (sg_stage_run_id r) err s))
    \<and> (\<exists>q\<in>set (fs_stage_runs (fst (fail_attempt env now (sg_stage_run_id r) err s))).
         sg_stage_run_id q = sg_stage_run_id r \<and> sg_status q = StageFailed)
    \<and> isl (get_stage_run env (fst (fail_attempt env now (sg_stage_run_id r) err s)) (sg_stage_run_id r))
    \<and> isl (list_stage_runs env (fst (fail_attempt env now (sg_stage_run_id r) err s)) (sg_run_id r))"
proof -
  have inv: "store_inv s" using assms(1) by (rule factory_reachable_inv)
  let ?P = "\<lambda>q. sg_stage_run_id q = sg_stage_run_id r"
  let ?f = "\<lambda>q. q\<lparr> sg_status := StageFailed, sg_completed_at := Some now,
      sg_error_json := optional_json env (Some err), sg_updated_at := now \<rparr>"
  let ?s = "s\<lparr> fs_stage_runs := update_where ?P ?f (fs_stage_runs s) \<rparr>"
  have inv': "store_inv ?s" using inv by (intro store_inv_stage_update) simp_all
  have row: "?f r \<in> set (fs_stage_runs ?s)" using assms(2) by (force simp: set_update_where)
  obtain n where "n < length (fenv_error_text env err)"
    and n: "optional_json env (Some err) = Some (take n (fenv_error_text env err))"
    using truncated_is_cut [OF assms(3)] by (auto simp: optional_json_def factory_error_string_max_bytes_def)
  then obtain message where "fenv_error_parse env (take n (fenv_error_text env err)) = Inl message"
    using assms(4) by (auto simp: isl_def)
  then have unread: "\<exists>e. stage_run_from_row env (?f r) = Inl e"
    using n by (simp add: stage_run_from_row_def optional_from_json_def)
  have found: "find_stage ?s (sg_stage_run_id r) = Some (?f r)"
    using find_unique [of sg_stage_run_id "fs_stage_runs ?s" "?f r"] row inv'
    by (simp add: find_stage_def store_inv_def stages_ok_def)
  have "changed_rows ?P (fs_stage_runs s) \<noteq> 0"
    using assms(2) by (auto simp: changed_rows_def filter_empty_conv)
  then have fail: "fail_attempt env now (sg_stage_run_id r) err s = (?s, select_stage_run env ?s (sg_stage_run_id r))"
    by (simp add: fail_attempt_def Let_def)
  have one: "isl (select_stage_run env ?s (sg_stage_run_id r))" "isl (get_stage_run env ?s (sg_stage_run_id r))"
    using unread found by (auto simp: select_stage_run_def get_stage_run_def read_optional_def)
  have "?f r \<in> set (sort_key sg_attempt (filter (\<lambda>q. sg_run_id q = sg_run_id r) (fs_stage_runs ?s)))"
    using row by simp
  then have many: "isl (list_stage_runs env ?s (sg_run_id r))"
    using unread unfolding list_stage_runs_def by (blast intro: read_rows_error)
  show ?thesis
    using one many row by (simp only: fail fst_conv snd_conv) (auto intro!: bexI [of _ "?f r"])
qed

section \<open>Witnesses over a small store\<close>

definition small_env :: factory_env where
  "small_env =
     \<lparr> fenv_json_text = (\<lambda>_. ''{}''), fenv_error_text = (\<lambda>e. ''{'' @ fe_remediation e @ ''}''),
       fenv_error_parse = (\<lambda>t. if t \<noteq> [] \<and> last t = CHR ''}'' then Inr (factory_error_new '''' '''' '''' False None)
          else Inl ''EOF while parsing''),
       fenv_constraint = (\<lambda>c. ''UNIQUE constraint failed: '' @ c), fenv_row_message = id,
       fenv_no_rows = ''Query returned no rows'' \<rparr>"

definition small_claim :: claim_attempt_request where
  "small_claim =
     \<lparr> ca_forge_host = ''h'', ca_repository = ''o/r'', ca_issue_id = ''1'', ca_issue_identifier = ''#1'',
       ca_issue_revision = ''rev'', ca_configuration_revision = ''conf'', ca_owner_instance = ''me'',
       ca_harness = ''codex'', ca_model = None, ca_workspace_path = None, ca_output_path = None,
       ca_pid = None, ca_process_group_id = None, ca_process_start_token = None, ca_executable_identity = None \<rparr>"

definition small_run :: factory_run_record where
  "small_run =
     \<lparr> fr_run_id = ''run'', fr_forge_host = ''h'', fr_repository = ''o/r'', fr_issue_id = ''1'',
       fr_issue_identifier = ''#1'', fr_issue_revision = Some ''rev'', fr_status = FactoryActive,
       fr_current_stage = Some ''triage'', fr_created_at = 0, fr_updated_at = 0 \<rparr>"

definition small_row :: stage_run_row where
  "small_row = claimed_row 0 ''a1'' ''run'' ''triage'' 1 small_claim"

definition small_store :: factory_store where
  "small_store = factory_store_empty\<lparr> fs_runs := [small_run], fs_stage_runs := [small_row] \<rparr>"

lemma small_claimed:
  "claim_attempt small_env 0 ''run'' ''a1'' small_claim factory_store_empty
     = (small_store, Inr \<lparr> sr_row = small_row, sr_error = None \<rparr>)"
  by (simp add: claim_attempt_def claim_for_stage_def put_run_def claim_run_request_def find_run_def
      factory_store_empty_def small_claim_def next_attempt_def u32_max_def insert_stage_run_def
      claimed_row_def select_stage_run_def find_stage_def stage_run_from_row_def optional_from_json_def
      small_store_def small_row_def small_run_def triage_stage_name_def Let_def)

lemma small_reachable: "factory_reachable small_env small_store"
  using factory_reachable.step [OF factory_reachable.empty
      factory_step.claim [of small_env factory_store_empty 0 "''run''" "''a1''" small_claim]]
  by (simp add: small_claimed)

lemma small_fields [simp]:
  "fs_stage_runs small_store = [small_row]" "fs_runs small_store = [small_run]"
  "fs_artifacts small_store = []" "fs_intents small_store = []" "fs_observations small_store = []"
  "sg_stage_run_id small_row = ''a1''" "sg_run_id small_row = ''run''" "sg_stage small_row = ''triage''"
  "sg_status small_row = StageRunning" "sg_attempt small_row = 1"
  "sg_lease_heartbeat_at small_row = Some 0" "sg_owner_instance small_row = Some ''me''"
  "sg_issue_revision small_row = ''rev''" "sg_configuration_revision small_row = ''conf''"
  by (simp_all add: small_store_def small_row_def claimed_row_def small_claim_def factory_store_empty_def)

theorem store_tables_consistent_witness:
  "distinct (map (\<lambda>r. (fr_forge_host r, fr_repository r, fr_issue_id r)) (fs_runs small_store))
    \<and> map sg_attempt (filter (\<lambda>r. sg_run_id r = ''run'' \<and> sg_stage r = ''triage'') (fs_stage_runs small_store)) = [1]"
  using store_tables_consistent [OF small_reachable, of "''run''" "''triage''"] by simp




theorem stale_lease_is_taken_over_witness:
  "fst (claim_attempt small_env 1 ''x'' ''a2'' small_claim small_store) = small_store
    \<and> (\<exists>claimed. snd (claim_attempt small_env 1 ''x'' ''a2'' small_claim
          (fst (interrupt_stale_attempts 70000 70001 small_store))) = Inr claimed
        \<and> 1 < sg_attempt (sr_row claimed))"
proof -
  have "get_run_by_issue small_store (ca_forge_host small_claim) (ca_repository small_claim) (ca_issue_id small_claim)
      = Some small_run"
    by (simp add: get_run_by_issue_def find_run_def small_claim_def small_run_def)
  moreover have "next_attempt small_store ''run'' ''triage'' \<le> u32_max"
    by (simp add: next_attempt_def u32_max_def)
  ultimately show ?thesis
    using stale_lease_is_taken_over [OF small_reachable, where r = small_row and heartbeat = 0
        and request = small_claim and run = small_run and new_id = "''a2''" and now = 1 and rid = "''x''"
        and sweep_now = 70000 and later = 70001]
    by (auto simp: Let_def small_run_def small_claim_def)
qed

lemma small_cut: "isl (fenv_error_parse small_env (take n (CHR ''{'' # replicate k CHR ''x'')))"
proof -
  let ?c = "take n (CHR ''{'' # replicate k CHR ''x'')"
  have "set ?c \<subseteq> {CHR ''{'', CHR ''x''}"
    using set_take_subset [of n "CHR ''{'' # replicate k CHR ''x''"] by (auto split: if_splits)
  then have "\<not> (?c \<noteq> [] \<and> last ?c = CHR ''}'')" using last_in_set [of ?c] by force
  then have "fenv_error_parse small_env ?c = Inl ''EOF while parsing''"
    unfolding small_env_def factory_env.simps by (simp only: if_False)
  then show ?thesis by simp
qed

theorem oversized_error_hides_attempt_witness:
  "isl (list_stage_runs small_env (fst (fail_attempt small_env 9 ''a1''
     \<lparr> fe_code = ''c'', fe_component = ''p'', fe_remediation = replicate 9000 CHR ''x'', fe_retryable = True,
       fe_publication_step = None \<rparr> small_store)) ''run'')"
proof -
  let ?e = "\<lparr> fe_code = ''c'', fe_component = ''p'', fe_remediation = replicate 9000 CHR ''x'', fe_retryable = True,
       fe_publication_step = None \<rparr>"
  let ?t = "fenv_error_text small_env ?e"
  have t: "?t = CHR ''{'' # replicate 9000 CHR ''x'' @ [CHR ''}'']" by (simp add: small_env_def)
  have "utf8_len (replicate n CHR ''x'') = n" for n
    by (induction n) (simp_all add: char_bytes_def code_point_def)
  then have big: "8000 < utf8_len ?t" unfolding t by simp
  have cut: "isl (fenv_error_parse small_env (take n ?t))" if "n < length ?t" for n
  proof -
    have "?t = (CHR ''{'' # replicate 9000 CHR ''x'') @ [CHR ''}'']" unfolding t by simp
    moreover have "n \<le> length (CHR ''{'' # replicate 9000 CHR ''x'')" using that unfolding t by simp
    ultimately have "take n ?t = take n (CHR ''{'' # replicate 9000 CHR ''x'')"
      by (simp only: take_append diff_is_0_eq' take_0 append_Nil2)
    then show ?thesis by (simp only: small_cut)
  qed
  have row: "small_row \<in> set (fs_stage_runs small_store)" by simp
  have "\<forall>n < length ?t. isl (fenv_error_parse small_env (take n ?t))" using cut by (intro allI impI)
  from oversized_error_hides_attempt [OF small_reachable row big this, of 9]
  show ?thesis unfolding small_fields by (elim conjE)
qed

end
