(* ===== verification/Publisher.thy ===== *)
theory Publisher
  imports FactoryStore TriageComment
begin

text \<open>
  \<open>src/triage/publisher.rs\<close>: publishing a triage decision on GitHub, as a preview comment or with
  labels and project state, in steps that are recorded in the store so that a publication can be
  taken up again after a crash.

  The two port traits are a \<open>github_port\<close>, a record of arbitrary functions: what GitHub answers to
  a call may depend on everything that was called before, so it also covers what other people do
  meanwhile. A state holds the store, the history of calls with whether each succeeded, and the
  number of clock readings. An action returns an error or a value, and a state in both cases; a
  process that dies in the middle is an action whose last call failed.
\<close>

section \<open>Calls, ports and actions\<close>

record github_issue_comment =
  gc_id :: nat
  gc_user_login :: "string option"
  gc_body :: "string option"
  gc_html_url :: "string option"
  gc_created_at :: "int option"
  gc_updated_at :: "int option"

datatype github_call =
    CallLogin
  | CallListComments nat nat
  | CallGetComment nat
  | CallCreateComment nat string
  | CallUpdateComment nat string
  | CallListLabels nat
  | CallProjectState nat
  | CallAddLabel nat string
  | CallRemoveLabel nat string
  | CallSetState nat string

type_synonym history = "(github_call \<times> bool) list"

record github_port =
  po_login :: "history \<Rightarrow> symphony_error + string"
  po_list_comments :: "nat \<Rightarrow> nat \<Rightarrow> history \<Rightarrow> symphony_error + github_issue_comment list"
  po_get_comment :: "nat \<Rightarrow> history \<Rightarrow> symphony_error + github_issue_comment"
  po_create_comment :: "nat \<Rightarrow> string \<Rightarrow> history \<Rightarrow> symphony_error + github_issue_comment"
  po_update_comment :: "nat \<Rightarrow> string \<Rightarrow> history \<Rightarrow> symphony_error + github_issue_comment"
  po_list_issue_labels :: "nat \<Rightarrow> history \<Rightarrow> symphony_error + string list"
  po_issue_project_state :: "nat \<Rightarrow> history \<Rightarrow> symphony_error + string option"
  po_add_issue_label :: "nat \<Rightarrow> string \<Rightarrow> history \<Rightarrow> symphony_error + unit"
  po_remove_issue_label :: "nat \<Rightarrow> string \<Rightarrow> history \<Rightarrow> symphony_error + unit"
  po_set_issue_project_state :: "nat \<Rightarrow> string \<Rightarrow> history \<Rightarrow> symphony_error + unit"
  po_clock :: "nat \<Rightarrow> int"

record publish_state =
  pb_store :: factory_store
  pb_history :: history
  pb_ticks :: nat

type_synonym ('s, 'a) state_action = "'s \<Rightarrow> (symphony_error + 'a) \<times> 's"

type_synonym 'a action = "(publish_state, 'a) state_action"

definition give :: "'a \<Rightarrow> ('s, 'a) state_action" where
  "give a \<sigma> = (Inr a, \<sigma>)"

definition give_up :: "symphony_error \<Rightarrow> ('s, 'a) state_action" where
  "give_up e \<sigma> = (Inl e, \<sigma>)"

text \<open>The \<open>?\<close> operator.\<close>

definition and_then :: "('s, 'a) state_action \<Rightarrow> ('a \<Rightarrow> ('s, 'b) state_action) \<Rightarrow> ('s, 'b) state_action" where
  "and_then m k \<sigma> = (case m \<sigma> of (Inl e, \<sigma>') \<Rightarrow> (Inl e, \<sigma>') | (Inr a, \<sigma>') \<Rightarrow> k a \<sigma>')"

definition ask :: "github_call \<Rightarrow> (history \<Rightarrow> symphony_error + 'a) \<Rightarrow> 'a action" where
  "ask c answer \<sigma> =
     (let r = answer (pb_history \<sigma>)
      in (r, \<sigma>\<lparr> pb_history := pb_history \<sigma> @ [(c, \<not> isl r)] \<rparr>))"

definition on_store :: "github_port \<Rightarrow> (int \<Rightarrow> factory_store \<Rightarrow> 'a store_result) \<Rightarrow> 'a action" where
  "on_store po f \<sigma> =
     (case f (po_clock po (pb_ticks \<sigma>)) (pb_store \<sigma>) of
        (s, r) \<Rightarrow> (r, \<sigma>\<lparr> pb_store := s, pb_ticks := Suc (pb_ticks \<sigma>) \<rparr>))"

definition from_store :: "(factory_store \<Rightarrow> symphony_error + 'a) \<Rightarrow> 'a action" where
  "from_store f \<sigma> = (f (pb_store \<sigma>), \<sigma>)"

section \<open>Steps and vocabulary\<close>

definition preview_comment_step :: string where "preview_comment_step = ''preview_comment''"
definition diagnostic_comment_step :: string where "diagnostic_comment_step = ''ineligible_diagnostic''"
definition comment_pending_step :: string where "comment_pending_step = ''comment_pending''"
definition route_label_step :: string where "route_label_step = ''route_label''"
definition project_state_step :: string where "project_state_step = ''project_state''"
definition conflict_cleanup_step :: string where "conflict_cleanup_step = ''conflict_cleanup''"
definition comment_route_effects_step :: string where "comment_route_effects_step = ''comment_route_effects''"
definition intake_removed_step :: string where "intake_removed_step = ''intake_removed''"
definition comment_applied_step :: string where "comment_applied_step = ''comment_applied''"

lemmas step_names = comment_pending_step_def route_label_step_def project_state_step_def
  conflict_cleanup_step_def comment_route_effects_step_def intake_removed_step_def comment_applied_step_def

definition automatic_steps :: "string list" where
  "automatic_steps =
     [comment_pending_step, route_label_step, project_state_step, conflict_cleanup_step,
      comment_route_effects_step, intake_removed_step, comment_applied_step]"

record automatic_publish_request =
  ap_intent :: publication_intent_record
  ap_issue_number :: nat
  ap_run_id :: string
  ap_stage_run_id :: string
  ap_attempt :: nat
  ap_artifact :: triage_artifact
  ap_managed_labels :: "string list"
  ap_max_pages :: nat

record preview_publish_request =
  pp_intent :: publication_intent_record
  pp_issue_number :: nat
  pp_run_id :: string
  pp_stage_run_id :: string
  pp_attempt :: nat
  pp_artifact :: triage_artifact
  pp_max_pages :: nat

record ineligible_publish_request =
  ip_intent :: publication_intent_record
  ip_issue_number :: nat
  ip_run_id :: string
  ip_issue_identifier :: string
  ip_project_name :: string
  ip_remediation :: string
  ip_max_pages :: nat

datatype mutation_kind = AddLabel string | SetState string | RemoveLabels "string list"

datatype step_outcome = OutcomeDone | OutcomeConflict

definition publication_vocabulary :: "string list \<Rightarrow> string \<Rightarrow> string set" where
  "publication_vocabulary route_labels intake_label =
     (let intake = to_ascii_lowercase (trim intake_label)
      in if intake \<noteq> [] then insert intake (managed_label_set route_labels)
         else managed_label_set route_labels)"

definition conflicting_route_labels :: "managed_projection \<Rightarrow> string list \<Rightarrow> string \<Rightarrow> string list" where
  "conflicting_route_labels expected managed_labels desired_route_label =
     (let desired = to_ascii_lowercase (trim desired_route_label)
      in filter (\<lambda>l. l \<noteq> [] \<and> l \<noteq> desired \<and> contains_label expected l)
           (map (\<lambda>l. to_ascii_lowercase (trim l)) managed_labels))"

definition conflict_cleanup_desired :: "managed_projection \<Rightarrow> string list \<Rightarrow> string \<Rightarrow> managed_projection" where
  "conflict_cleanup_desired expected managed_labels desired_route_label =
     fold (\<lambda>l p. without_label p l)
       (conflicting_route_labels expected managed_labels desired_route_label) expected"

section \<open>Comments\<close>

text \<open>\<open>str::parse\<close> for \<open>u64\<close> with the messages of the standard library.\<close>

fun parse_u64_digits :: "nat \<Rightarrow> string \<Rightarrow> string + nat" where
  "parse_u64_digits n [] = Inr n"
| "parse_u64_digits n (c # s) =
     (if \<not> is_ascii_digit c then Inl ''invalid digit found in string''
      else if u64_max < n * 10 + (code_point c - 48) then Inl ''number too large to fit in target type''
      else parse_u64_digits (n * 10 + (code_point c - 48)) s)"

definition parse_u64 :: "string \<Rightarrow> string + nat" where
  "parse_u64 s =
     (case s of
        [] \<Rightarrow> Inl ''cannot parse integer from empty string''
      | c # t \<Rightarrow>
          if (c = CHR ''+'' \<or> c = CHR ''-'') \<and> t = [] then Inl ''invalid digit found in string''
          else parse_u64_digits 0 (if c = CHR ''+'' then t else s))"

definition parse_comment_id :: "string \<Rightarrow> nat action" where
  "parse_comment_id raw =
     (case parse_u64 raw of
        Inr n \<Rightarrow> give n
      | Inl err \<Rightarrow> give_up (TriageError (''invalid publication comment_id '' @ [CHR 0x27] @ raw @ [CHR 0x27]
          @ '': '' @ err)))"

definition comment_author :: "github_issue_comment \<Rightarrow> string" where
  "comment_author c = (case gc_user_login c of None \<Rightarrow> '''' | Some login \<Rightarrow> login)"

definition owns_comment :: "string \<Rightarrow> string \<Rightarrow> github_issue_comment \<Rightarrow> bool" where
  "owns_comment intent_id publisher_login c \<longleftrightarrow>
     (case gc_body c of
        None \<Rightarrow> False
      | Some body \<Rightarrow> extract_intent_id_from_marker body = Some intent_id
          \<and> eq_ignore_ascii_case (comment_author c) publisher_login)"

definition recover_owned_comment ::
    "github_port \<Rightarrow> nat \<Rightarrow> string \<Rightarrow> string \<Rightarrow> nat \<Rightarrow> nat option action" where
  "recover_owned_comment po issue_number intent_id publisher_login max_pages =
     and_then (ask (CallListComments issue_number max_pages) (po_list_comments po issue_number max_pages))
       (\<lambda>comments. give (map_option gc_id (find (owns_comment intent_id publisher_login) comments)))"

definition edit_owned_comment ::
    "github_port \<Rightarrow> publication_intent_row \<Rightarrow> string \<Rightarrow> string \<Rightarrow> nat \<Rightarrow> unit action" where
  "edit_owned_comment po intent body publisher_login comment_id =
     and_then (ask (CallGetComment comment_id) (po_get_comment po comment_id))
       (\<lambda>existing.
          if \<not> eq_ignore_ascii_case (comment_author existing) publisher_login
          then give_up (TriageError (''publication comment '' @ nat_digits comment_id
                 @ '' is not owned by publisher '' @ publisher_login))
          else and_then (ask (CallUpdateComment comment_id body) (po_update_comment po comment_id body))
            (\<lambda>_. if pi_comment_id intent = None \<or> pi_publisher_login intent \<noteq> Some publisher_login
                 then on_store po (\<lambda>now. set_publication_comment now (pi_intent_id intent)
                        (nat_digits comment_id) publisher_login)
                 else give ()))"

text \<open>A new comment is created first and its id recorded afterwards.\<close>

definition upsert_marked_comment ::
    "github_port \<Rightarrow> publication_intent_row \<Rightarrow> nat \<Rightarrow> string \<Rightarrow> nat \<Rightarrow> unit action" where
  "upsert_marked_comment po intent issue_number body max_pages =
     and_then (ask CallLogin (po_login po))
       (\<lambda>publisher_login.
          case pi_comment_id intent of
            Some raw \<Rightarrow> and_then (parse_comment_id raw) (edit_owned_comment po intent body publisher_login)
          | None \<Rightarrow>
              and_then (recover_owned_comment po issue_number (pi_intent_id intent) publisher_login max_pages)
                (\<lambda>recovered.
                   case recovered of
                     Some comment_id \<Rightarrow> edit_owned_comment po intent body publisher_login comment_id
                   | None \<Rightarrow>
                       and_then (ask (CallCreateComment issue_number body) (po_create_comment po issue_number body))
                         (\<lambda>created. on_store po (\<lambda>now. set_publication_comment now (pi_intent_id intent)
                            (nat_digits (gc_id created)) publisher_login))))"

section \<open>Previews and diagnostics\<close>

definition reconcile_preview ::
    "factory_env \<Rightarrow> github_port \<Rightarrow> preview_publish_request \<Rightarrow> unit action" where
  "reconcile_preview env po request =
     (let intent = pr_row (pp_intent request)
      in if pi_mode intent \<noteq> PublishPreview
         then give_up (TriageError (''preview publisher cannot reconcile mode='' @ publication_mode_as_str (pi_mode intent)))
         else if pi_status intent = PubApplied \<and> preview_comment_step \<in> set (pi_completed_steps intent)
         then give ()
         else and_then
           (upsert_marked_comment po intent (pp_issue_number request)
              (render_preview_comment
                 \<lparr> pci_intent_id = pi_intent_id intent, pci_run_id = pp_run_id request,
                   pci_stage_run_id = pp_stage_run_id request, pci_attempt = pp_attempt request,
                   pci_artifact = pp_artifact request \<rparr>) (pp_max_pages request))
           (\<lambda>_. on_store po (\<lambda>now. update_publication_step env now (pi_intent_id intent)
              preview_comment_step PubApplied None)))"

definition reconcile_ineligible_diagnostic ::
    "factory_env \<Rightarrow> github_port \<Rightarrow> ineligible_publish_request \<Rightarrow> unit action" where
  "reconcile_ineligible_diagnostic env po request =
     (let intent = pr_row (ip_intent request)
      in if pi_status intent = PubApplied \<and> diagnostic_comment_step \<in> set (pi_completed_steps intent)
         then give ()
         else and_then
           (upsert_marked_comment po intent (ip_issue_number request)
              (render_ineligible_diagnostic_comment
                 \<lparr> ici_intent_id = pi_intent_id intent, ici_run_id = ip_run_id request,
                   ici_issue_identifier = ip_issue_identifier request, ici_project_name = ip_project_name request,
                   ici_remediation = ip_remediation request \<rparr>) (ip_max_pages request))
           (\<lambda>_. on_store po (\<lambda>now. update_publication_step env now (pi_intent_id intent)
              diagnostic_comment_step PubApplied None)))"

definition reconcile_pending_intent ::
    "factory_env \<Rightarrow> github_port \<Rightarrow> publication_intent_row \<Rightarrow> preview_publish_request option
     \<Rightarrow> ineligible_publish_request option \<Rightarrow> unit action" where
  "reconcile_pending_intent env po intent preview diagnostic =
     (case pi_mode intent of
        PublishPreview \<Rightarrow>
          (case preview of
             Some request \<Rightarrow> reconcile_preview env po request
           | None \<Rightarrow>
               (case diagnostic of
                  Some request \<Rightarrow> reconcile_ineligible_diagnostic env po request
                | None \<Rightarrow> give_up (TriageError ''pending preview intent requires preview or diagnostic payload'')))
      | PublishAutomatic \<Rightarrow> give_up (TriageError ''automatic publication requires AutomaticPublisher''))"

section \<open>Automatic publication\<close>

definition observe_current :: "github_port \<Rightarrow> nat \<Rightarrow> string set \<Rightarrow> managed_projection action" where
  "observe_current po issue_number vocabulary =
     and_then (ask (CallListLabels issue_number) (po_list_issue_labels po issue_number))
       (\<lambda>labels. and_then (ask (CallProjectState issue_number) (po_issue_project_state po issue_number))
          (\<lambda>state. give (projection_observe labels vocabulary state)))"

definition record_step ::
    "factory_env \<Rightarrow> github_port \<Rightarrow> string \<Rightarrow> string \<Rightarrow> publication_status \<Rightarrow> managed_projection \<Rightarrow> unit action" where
  "record_step env po intent_id step status projection =
     on_store po (\<lambda>now. record_publication_step env now intent_id step status (projection_to_json projection))"

fun remove_labels ::
    "factory_env \<Rightarrow> github_port \<Rightarrow> string \<Rightarrow> nat \<Rightarrow> managed_projection \<Rightarrow> string list \<Rightarrow> unit action" where
  "remove_labels env po intent_id issue_number progressive [] = give ()"
| "remove_labels env po intent_id issue_number progressive (l # labels) =
     (if contains_label progressive l
      then and_then (ask (CallRemoveLabel issue_number l) (po_remove_issue_label po issue_number l))
        (\<lambda>_. and_then (record_step env po intent_id '''' PubPending (without_label progressive l))
           (\<lambda>_. remove_labels env po intent_id issue_number (without_label progressive l) labels))
      else remove_labels env po intent_id issue_number progressive labels)"

definition apply_mutation ::
    "factory_env \<Rightarrow> github_port \<Rightarrow> string \<Rightarrow> nat \<Rightarrow> managed_projection \<Rightarrow> mutation_kind \<Rightarrow> unit action" where
  "apply_mutation env po intent_id issue_number current mutation =
     (case mutation of
        AddLabel l \<Rightarrow> ask (CallAddLabel issue_number l) (po_add_issue_label po issue_number l)
      | SetState state \<Rightarrow> ask (CallSetState issue_number state) (po_set_issue_project_state po issue_number state)
      | RemoveLabels labels \<Rightarrow> remove_labels env po intent_id issue_number current labels)"

definition human_conflict :: "string \<Rightarrow> factory_error" where
  "human_conflict step =
     factory_error_new ''human_conflict'' ''publisher''
       (''managed GitHub state differs from both expected and desired projections at step '' @ step)
       False (Some step)"

definition reconcile_mutation ::
    "factory_env \<Rightarrow> github_port \<Rightarrow> string \<Rightarrow> nat \<Rightarrow> string set \<Rightarrow> managed_projection \<Rightarrow> managed_projection
     \<Rightarrow> string \<Rightarrow> mutation_kind \<Rightarrow> step_outcome action" where
  "reconcile_mutation env po intent_id issue_number vocabulary expected desired step mutation =
     and_then (observe_current po issue_number vocabulary)
       (\<lambda>current.
          if current = desired
          then and_then (record_step env po intent_id step PubPending desired) (\<lambda>_. give OutcomeDone)
          else if current \<noteq> expected
          then and_then (on_store po (\<lambda>now. update_publication_step env now intent_id '''' PubConflict
                 (Some (human_conflict step)))) (\<lambda>_. give OutcomeConflict)
          else and_then (apply_mutation env po intent_id issue_number current mutation)
            (\<lambda>_. and_then (record_step env po intent_id step PubPending desired) (\<lambda>_. give OutcomeDone)))"

definition outcome_status :: "step_outcome \<Rightarrow> publication_status" where
  "outcome_status outcome = (case outcome of OutcomeConflict \<Rightarrow> PubConflict | OutcomeDone \<Rightarrow> PubPending)"

definition automatic_body ::
    "automatic_publish_request \<Rightarrow> publication_intent_row \<Rightarrow> automatic_comment_phase \<Rightarrow> string" where
  "automatic_body request intent phase =
     render_automatic_comment
       \<lparr> aci_intent_id = pi_intent_id intent, aci_run_id = ap_run_id request,
         aci_stage_run_id = ap_stage_run_id request, aci_attempt = ap_attempt request,
         aci_artifact = ap_artifact request, aci_route_label = pi_route_label intent,
         aci_project_state = pi_project_state intent, aci_phase = phase \<rparr>"

definition reconcile_comment ::
    "factory_env \<Rightarrow> github_port \<Rightarrow> automatic_publish_request \<Rightarrow> publication_intent_row \<Rightarrow> managed_projection
     \<Rightarrow> string \<Rightarrow> automatic_comment_phase \<Rightarrow> publication_status \<Rightarrow> publication_status action" where
  "reconcile_comment env po request intent expected step phase status =
     and_then (upsert_marked_comment po intent (ap_issue_number request)
          (automatic_body request intent phase) (ap_max_pages request))
       (\<lambda>_. and_then (record_step env po (pi_intent_id intent) step status expected) (\<lambda>_. give status))"

definition reconcile_step ::
    "factory_env \<Rightarrow> github_port \<Rightarrow> automatic_publish_request \<Rightarrow> string set \<Rightarrow> publication_intent_row \<Rightarrow> string
     \<Rightarrow> publication_status action" where
  "reconcile_step env po request vocabulary intent step =
     (let expected = (case projection_from_json (pi_expected_projection intent) of
            None \<Rightarrow> projection_default | Some p \<Rightarrow> p);
          mutate = (\<lambda>desired mutation.
            and_then (reconcile_mutation env po (pi_intent_id intent) (ap_issue_number request) vocabulary
                expected desired step mutation) (\<lambda>outcome. give (outcome_status outcome)))
      in if step = comment_pending_step
         then reconcile_comment env po request intent expected step PhasePending PubPending
         else if step = route_label_step
         then mutate (with_label expected (pi_route_label intent)) (AddLabel (pi_route_label intent))
         else if step = project_state_step
         then (case pi_project_state intent of
                 None \<Rightarrow> and_then (record_step env po (pi_intent_id intent) step PubPending expected)
                   (\<lambda>_. give PubPending)
               | Some state \<Rightarrow> mutate (with_project_state expected state) (SetState state))
         else if step = conflict_cleanup_step
         then mutate (conflict_cleanup_desired expected (ap_managed_labels request) (pi_route_label intent))
                (RemoveLabels (conflicting_route_labels expected (ap_managed_labels request) (pi_route_label intent)))
         else if step = comment_route_effects_step
         then reconcile_comment env po request intent expected step PhaseRouteEffectsApplied PubPending
         else if step = intake_removed_step
         then mutate (without_label expected (pi_intake_label intent)) (RemoveLabels [pi_intake_label intent])
         else if step = comment_applied_step
         then reconcile_comment env po request intent expected step PhaseApplied PubApplied
         else give_up (TriageError (''unknown automatic publication step '' @ step)))"

definition reload_intent :: "factory_env \<Rightarrow> string \<Rightarrow> publication_intent_row action" where
  "reload_intent env intent_id =
     and_then (from_store (\<lambda>s. get_publication_intent env s intent_id))
       (\<lambda>found. case found of
          Some record \<Rightarrow> give (pr_row record)
        | None \<Rightarrow> give_up (TriageError (''publication intent '' @ intent_id @ '' missing after step'')))"

definition ensure_baseline ::
    "factory_env \<Rightarrow> github_port \<Rightarrow> publication_intent_row \<Rightarrow> nat \<Rightarrow> string set \<Rightarrow> unit action" where
  "ensure_baseline env po intent issue_number vocabulary =
     (if projection_from_json (pi_observed_baseline intent) \<noteq> None then give ()
      else and_then (observe_current po issue_number vocabulary)
        (\<lambda>current. on_store po (\<lambda>now. set_publication_baseline env now (pi_intent_id intent)
           (projection_to_json current) (projection_to_json current))))"

fun run_steps ::
    "factory_env \<Rightarrow> github_port \<Rightarrow> automatic_publish_request \<Rightarrow> string set \<Rightarrow> string list
     \<Rightarrow> publication_intent_row \<Rightarrow> publication_status action" where
  "run_steps env po request vocabulary [] intent = give PubApplied"
| "run_steps env po request vocabulary (step # steps) intent =
     (if step \<in> set (pi_completed_steps intent)
      then run_steps env po request vocabulary steps intent
      else and_then (reconcile_step env po request vocabulary intent step)
        (\<lambda>status. if status = PubPending
           then and_then (reload_intent env (pi_intent_id intent))
                  (run_steps env po request vocabulary steps)
           else give status))"

definition reconcile_automatic ::
    "factory_env \<Rightarrow> github_port \<Rightarrow> automatic_publish_request \<Rightarrow> publication_status action" where
  "reconcile_automatic env po request =
     (let intent_id = pi_intent_id (pr_row (ap_intent request));
          mode = pi_mode (pr_row (ap_intent request))
      in if mode \<noteq> PublishAutomatic
         then give_up (TriageError (''automatic publisher cannot reconcile mode='' @ publication_mode_as_str mode))
         else and_then (from_store (\<lambda>s. get_publication_intent env s intent_id))
           (\<lambda>found. case found of
              None \<Rightarrow> give_up (TriageError (''publication intent '' @ intent_id @ '' missing''))
            | Some record \<Rightarrow>
                (let intent = pr_row record
                 in if pi_status intent = PubApplied \<or> pi_status intent = PubConflict \<or> pi_status intent = PubBlocked
                    then give (pi_status intent)
                    else
                      (let vocabulary = publication_vocabulary (ap_managed_labels request) (pi_intake_label intent)
                       in and_then (ensure_baseline env po intent (ap_issue_number request) vocabulary)
                            (\<lambda>_. and_then (reload_intent env (pi_intent_id intent))
                               (run_steps env po request vocabulary automatic_steps))))))"

end
