(* ===== verification/PublisherFacts.thy ===== *)
theory PublisherFacts
  imports Publisher FactoryStoreFacts
begin

text \<open>
  Automatic publication against a GitHub that shows what the publisher did and nothing else,
  where calls may fail and replies may be lost. A triple \<open>triple P m Q R\<close> says that an action
  begun in \<open>P\<close> ends in \<open>Q\<close> with its value or, with an error, in \<open>R\<close>. The invariant says how far
  a publication has come and that GitHub is in the recorded state or one recorded step ahead.
\<close>

section \<open>Triples\<close>

definition triple ::
    "('s \<Rightarrow> bool) \<Rightarrow> ('s, 'a) state_action \<Rightarrow> ('a \<Rightarrow> 's \<Rightarrow> bool) \<Rightarrow> ('s \<Rightarrow> bool) \<Rightarrow> bool" where
  "triple P m Q R \<longleftrightarrow> (\<forall>\<sigma>. P \<sigma> \<longrightarrow> (case m \<sigma> of (Inr a, \<sigma>') \<Rightarrow> Q a \<sigma>' | (Inl e, \<sigma>') \<Rightarrow> R \<sigma>'))"

lemma tripleI:
  assumes "\<And>\<sigma> a \<sigma>'. P \<sigma> \<Longrightarrow> m \<sigma> = (Inr a, \<sigma>') \<Longrightarrow> Q a \<sigma>'"
    and "\<And>\<sigma> e \<sigma>'. P \<sigma> \<Longrightarrow> m \<sigma> = (Inl e, \<sigma>') \<Longrightarrow> R \<sigma>'"
  shows "triple P m Q R"
  using assms unfolding triple_def by (auto split: prod.split sum.split)

lemma triple_value: "triple P m Q R \<Longrightarrow> P \<sigma> \<Longrightarrow> m \<sigma> = (Inr a, \<sigma>') \<Longrightarrow> Q a \<sigma>'"
  unfolding triple_def by fastforce

lemma triple_error: "triple P m Q R \<Longrightarrow> P \<sigma> \<Longrightarrow> m \<sigma> = (Inl e, \<sigma>') \<Longrightarrow> R \<sigma>'"
  unfolding triple_def by fastforce

lemma triple_and_then [intro]:
  assumes "triple P m Q R" and "\<And>a. triple (Q a) (k a) S R"
  shows "triple P (and_then m k) S R"
proof (rule tripleI)
  fix \<sigma> b \<sigma>' assume P: "P \<sigma>" and r: "and_then m k \<sigma> = (Inr b, \<sigma>')"
  then obtain a \<sigma>1 where m: "m \<sigma> = (Inr a, \<sigma>1)" and k: "k a \<sigma>1 = (Inr b, \<sigma>')"
    unfolding and_then_def by (auto split: prod.splits sum.splits)
  show "S b \<sigma>'" using triple_value [OF assms(2) triple_value [OF assms(1) P m] k] .
next
  fix \<sigma> e \<sigma>' assume P: "P \<sigma>" and r: "and_then m k \<sigma> = (Inl e, \<sigma>')"
  show "R \<sigma>'"
  proof (cases "m \<sigma>")
    case (Pair x \<sigma>1)
    show ?thesis
    proof (cases x)
      case (Inl e')
      then show ?thesis using r Pair triple_error [OF assms(1) P] by (auto simp: and_then_def)
    next
      case (Inr a)
      then have m: "m \<sigma> = (Inr a, \<sigma>1)" using Pair by simp
      then have "k a \<sigma>1 = (Inl e, \<sigma>')" using r by (simp add: and_then_def)
      then show ?thesis using triple_error [OF assms(2) triple_value [OF assms(1) P m]] by blast
    qed
  qed
qed

lemma triple_give: "(\<And>\<sigma>. P \<sigma> \<Longrightarrow> Q a \<sigma>) \<Longrightarrow> triple P (give a) Q R"
  by (auto simp: triple_def give_def)

lemma triple_give_up: "(\<And>\<sigma>. P \<sigma> \<Longrightarrow> R \<sigma>) \<Longrightarrow> triple P (give_up e) Q R"
  by (auto simp: triple_def give_up_def)

lemma triple_weaken:
  assumes "triple P m Q R" and "\<And>\<sigma>. P' \<sigma> \<Longrightarrow> P \<sigma>" and "\<And>a \<sigma>. Q a \<sigma> \<Longrightarrow> Q' a \<sigma>" and "\<And>\<sigma>. R \<sigma> \<Longrightarrow> R' \<sigma>"
  shows "triple P' m Q' R'"
  using assms by (intro tripleI) (blast dest: triple_value triple_error)+

lemma triple_call:
  assumes "\<And>\<sigma> a. P \<sigma> \<Longrightarrow> answer (pb_history \<sigma>) = Inr a \<Longrightarrow> Q a (\<sigma>\<lparr> pb_history := pb_history \<sigma> @ [(c, True)] \<rparr>)"
    and "\<And>\<sigma> e. P \<sigma> \<Longrightarrow> answer (pb_history \<sigma>) = Inl e \<Longrightarrow> R (\<sigma>\<lparr> pb_history := pb_history \<sigma> @ [(c, False)] \<rparr>)"
  shows "triple P (ask c answer) Q R"
  using assms by (intro tripleI) (auto simp: ask_def Let_def)

section \<open>A GitHub without other people\<close>

text \<open>A call takes effect when it succeeds, or when it fails and its reply was lost.\<close>

definition label_effect :: "nat \<Rightarrow> github_call \<Rightarrow> string set \<Rightarrow> string set" where
  "label_effect n c L =
     (case c of
        CallAddLabel m l \<Rightarrow> if m = n then insert (normalize_managed_value l) L else L
      | CallRemoveLabel m l \<Rightarrow> if m = n then L - {normalize_managed_value l} else L
      | _ \<Rightarrow> L)"

definition state_effect :: "nat \<Rightarrow> github_call \<Rightarrow> string option \<Rightarrow> string option" where
  "state_effect n c s =
     (case c of
        CallSetState m t \<Rightarrow> if m = n then nonblank (Some (normalize_managed_value t)) else s
      | _ \<Rightarrow> s)"

text \<open>The labels and state of issue \<open>n\<close> after a history; \<open>lost\<close> says after which histories the
  reply to the next call is lost.\<close>

fun github_after ::
    "nat \<Rightarrow> (history \<Rightarrow> bool) \<Rightarrow> history \<Rightarrow> history \<Rightarrow> string set \<times> string option \<Rightarrow> string set \<times> string option" where
  "github_after n lost past [] g = g"
| "github_after n lost past ((c, ok) # h) (L, s) =
     github_after n lost (past @ [(c, ok)]) h
       (if ok \<or> lost past then (label_effect n c L, state_effect n c s) else (L, s))"

definition undisturbed ::
    "github_port \<Rightarrow> nat \<Rightarrow> (history \<Rightarrow> bool) \<Rightarrow> string set \<Rightarrow> string option \<Rightarrow> bool" where
  "undisturbed po n lost L s \<longleftrightarrow>
     (\<forall>h ls. po_list_issue_labels po n h = Inr ls \<longrightarrow>
        normalize_managed_value ` set ls = fst (github_after n lost [] h (L, s)))
     \<and> (\<forall>h st. po_issue_project_state po n h = Inr st \<longrightarrow>
        nonblank (map_option normalize_managed_value st) = snd (github_after n lost [] h (L, s)))"

lemma github_after_snoc:
  "github_after n lost past (h @ [(c, ok)]) g =
     (case github_after n lost past h g of
        (L, s) \<Rightarrow> if ok \<or> lost (past @ h) then (label_effect n c L, state_effect n c s) else (L, s))"
proof (induction h arbitrary: past g)
  case Nil
  show ?case by (cases g) simp
next
  case (Cons e h)
  show ?case by (cases e; cases g) (simp add: Cons.IH)
qed

section \<open>The progress of a publication\<close>

record progress =
  pg_steps :: "string list"
  pg_status :: publication_status
  pg_expected :: "managed_projection option"
  pg_based :: bool

definition progress_of :: "publication_intent_row \<Rightarrow> progress" where
  "progress_of i =
     \<lparr> pg_steps = pi_completed_steps i, pg_status = pi_status i,
       pg_expected = projection_from_json (pi_expected_projection i),
       pg_based = (projection_from_json (pi_observed_baseline i) \<noteq> None) \<rparr>"

record job =
  jb_id :: string
  jb_issue :: nat
  jb_route :: string
  jb_intake :: string
  jb_state :: "string option"
  jb_managed :: "string list"
  jb_lost :: "history \<Rightarrow> bool"
  jb_labels :: "string set"
  jb_start :: "string option"

definition row_of_job :: "job \<Rightarrow> publication_intent_row \<Rightarrow> bool" where
  "row_of_job j i \<longleftrightarrow>
     pi_intent_id i = jb_id j \<and> pi_mode i = PublishAutomatic \<and> pi_route_label i = jb_route j
     \<and> pi_intake_label i = jb_intake j \<and> pi_project_state i = jb_state j \<and> pi_last_error_json i = None"

definition stored :: "job \<Rightarrow> publication_intent_row \<Rightarrow> publish_state \<Rightarrow> bool" where
  "stored j i \<sigma> \<longleftrightarrow> find_intent (pb_store \<sigma>) (jb_id j) = Some i"

definition holds :: "job \<Rightarrow> progress \<Rightarrow> publish_state \<Rightarrow> bool" where
  "holds j g \<sigma> \<longleftrightarrow> (\<exists>i. stored j i \<sigma> \<and> row_of_job j i \<and> progress_of i = g)"

definition job_vocabulary :: "job \<Rightarrow> string set" where
  "job_vocabulary j = publication_vocabulary (jb_managed j) (jb_intake j)"

text \<open>GitHub shows the projection \<open>p\<close> of the managed labels, and the other labels of the issue.\<close>

definition sees :: "job \<Rightarrow> managed_projection \<Rightarrow> publish_state \<Rightarrow> bool" where
  "sees j p \<sigma> \<longleftrightarrow>
     github_after (jb_issue j) (jb_lost j) [] (pb_history \<sigma>) (jb_labels j, jb_start j)
       = ((jb_labels j - job_vocabulary j) \<union> mp_managed_labels p, mp_project_state p)"

definition desired_after :: "job \<Rightarrow> nat \<Rightarrow> managed_projection \<Rightarrow> managed_projection" where
  "desired_after j k p =
     (if k = 1 then with_label p (jb_route j)
      else if k = 2 then (case jb_state j of None \<Rightarrow> p | Some s \<Rightarrow> with_project_state p s)
      else if k = 3 then conflict_cleanup_desired p (jb_managed j) (jb_route j)
      else if k = 5 then without_label p (jb_intake j)
      else p)"

definition job_baseline :: "job \<Rightarrow> managed_projection" where
  "job_baseline j = \<lparr> mp_managed_labels = jb_labels j \<inter> job_vocabulary j, mp_project_state = jb_start j \<rparr>"

fun target :: "job \<Rightarrow> nat \<Rightarrow> managed_projection" where
  "target j 0 = job_baseline j"
| "target j (Suc k) = desired_after j k (target j k)"

definition at_stage :: "job \<Rightarrow> nat \<Rightarrow> managed_projection \<Rightarrow> bool" where
  "at_stage j k p \<longleftrightarrow> k \<le> 7 \<and> desired_after j k p = target j (Suc k)
     \<and> mp_managed_labels p \<subseteq> mp_managed_labels (target j k)"

definition stage_progress :: "nat \<Rightarrow> managed_projection \<Rightarrow> progress" where
  "stage_progress k p =
     \<lparr> pg_steps = take k automatic_steps, pg_status = (if k = 7 then PubApplied else PubPending),
       pg_expected = Some p, pg_based = True \<rparr>"

definition publish_inv :: "job \<Rightarrow> publish_state \<Rightarrow> bool" where
  "publish_inv j \<sigma> \<longleftrightarrow>
     (\<exists>e. holds j \<lparr> pg_steps = [], pg_status = PubPending, pg_expected = e, pg_based = False \<rparr> \<sigma>
        \<and> sees j (job_baseline j) \<sigma>)
     \<or> (\<exists>k p. at_stage j k p \<and> holds j (stage_progress k p) \<sigma>
        \<and> (sees j p \<sigma> \<or> sees j (desired_after j k p) \<sigma>))"

text \<open>The route labels other than the decided one that the issue carried at the start.\<close>

definition job_conflicts :: "job \<Rightarrow> string set" where
  "job_conflicts j =
     {l \<in> managed_label_set (jb_managed j). l \<noteq> normalize_managed_value (jb_route j) \<and> l \<in> jb_labels j}"

text \<open>The projections a publication of the job can record: labels of its vocabulary, and the project
  state of the start or the one decided on.\<close>

definition decided_state :: "string option \<Rightarrow> string option" where
  "decided_state state = Option.bind state (\<lambda>s. nonblank (Some (normalize_managed_value s)))"

definition recordable :: "job \<Rightarrow> managed_projection \<Rightarrow> bool" where
  "recordable j p \<longleftrightarrow> mp_managed_labels p \<subseteq> job_vocabulary j
     \<and> (mp_project_state p = jb_start j \<or> mp_project_state p = decided_state (jb_state j))"

definition job_ok :: "factory_env \<Rightarrow> github_port \<Rightarrow> job \<Rightarrow> bool" where
  "job_ok env po j \<longleftrightarrow>
     undisturbed po (jb_issue j) (jb_lost j) (jb_labels j) (jb_start j)
     \<and> normalize_managed_value (jb_route j) \<in> managed_label_set (jb_managed j)
     \<and> ((\<forall>h. \<not> jb_lost j h) \<or> (\<forall>a\<in>job_conflicts j. \<forall>b\<in>job_conflicts j. a = b))
     \<and> (\<forall>p. recordable j p
          \<longrightarrow> utf8_len (fenv_json_text env (projection_to_json p)) \<le> factory_event_payload_max_bytes)"

section \<open>Store actions\<close>

lemma finite_managed_label_set [simp]: "finite (managed_label_set ls)"
  by (simp add: managed_label_set_def)

lemma finite_vocabulary [simp]: "finite (job_vocabulary j)"
  by (simp add: job_vocabulary_def publication_vocabulary_def Let_def)

lemma find_updated:
  assumes "find (\<lambda>i. key i = k) rows = Some i" and "\<And>x. key x = k \<Longrightarrow> key (f x) = key x"
  shows "find (\<lambda>i. key i = k) (update_where (\<lambda>i. key i = k) f rows) = Some (f i)"
  using assms by (induction rows) (auto simp: update_where_def split: if_splits)

lemma stored_update:
  assumes "stored j i \<sigma>" and "\<And>x. pi_intent_id (f x) = pi_intent_id x"
  shows "stored j (f i) (\<sigma>\<lparr> pb_store := (pb_store \<sigma>)\<lparr> fs_intents :=
      update_where (\<lambda>i. pi_intent_id i = jb_id j) f (fs_intents (pb_store \<sigma>)) \<rparr>, pb_ticks := t \<rparr>)"
  using find_updated [of pi_intent_id "jb_id j" "fs_intents (pb_store \<sigma>)" i f] assms
  by (simp add: stored_def find_intent_def)

lemma sees_store [simp]: "sees j p (\<sigma>\<lparr> pb_store := s, pb_ticks := t \<rparr>) = sees j p \<sigma>"
  by (simp add: sees_def)

lemma stored_history [simp]: "stored j i (\<sigma>\<lparr> pb_history := h \<rparr>) = stored j i \<sigma>"
  by (simp add: stored_def)

lemma holds_history [simp]: "holds j g (\<sigma>\<lparr> pb_history := h \<rparr>) = holds j g \<sigma>"
  by (simp add: holds_def)

lemma row_read:
  assumes "row_of_job j i"
  shows "publication_intent_from_row env i = Inr \<lparr> pr_row = i, pr_last_error = None \<rparr>"
  using assms by (simp add: publication_intent_from_row_def optional_from_json_def row_of_job_def)

lemma select_stored:
  assumes "stored j i \<sigma>" and "row_of_job j i"
  shows "select_publication_intent env (pb_store \<sigma>) (jb_id j) = Inr \<lparr> pr_row = i, pr_last_error = None \<rparr>"
  using assms(1) row_read [OF assms(2)] by (simp add: select_publication_intent_def stored_def)

lemma get_stored:
  assumes "stored j i \<sigma>" and "row_of_job j i"
  shows "get_publication_intent env (pb_store \<sigma>) (jb_id j) = Inr (Some \<lparr> pr_row = i, pr_last_error = None \<rparr>)"
  using assms(1) row_read [OF assms(2)] by (simp add: get_publication_intent_def read_optional_def stored_def)

lemma changed_stored:
  assumes "stored j i \<sigma>"
  shows "changed_rows (\<lambda>i. pi_intent_id i = jb_id j) (fs_intents (pb_store \<sigma>)) \<noteq> 0"
  using find_in [of "\<lambda>i. pi_intent_id i = jb_id j" "fs_intents (pb_store \<sigma>)" i] assms
  by (auto simp: changed_rows_def filter_empty_conv stored_def find_intent_def)

lemma bounded_ok:
  "job_ok env po j \<Longrightarrow> recordable j p
     \<Longrightarrow> bounded_json env (projection_to_json p) = Inr (projection_to_json p)"
  by (simp add: bounded_json_def job_ok_def not_less)

lemma record_step_triple:
  assumes ok: "job_ok env po j" and fits: "recordable j p"
  shows "triple (\<lambda>\<sigma>. holds j g \<sigma> \<and> sees j q \<sigma>) (record_step env po (jb_id j) step status p)
    (\<lambda>_ \<sigma>. holds j \<lparr> pg_steps = add_step step (pg_steps g), pg_status = status, pg_expected = Some p,
        pg_based = pg_based g \<rparr> \<sigma> \<and> sees j q \<sigma>) R"
proof -
  have fin: "finite (mp_managed_labels p)"
    using fits finite_subset [OF _ finite_vocabulary] by (auto simp: recordable_def)
  have eff: "\<exists>\<sigma>'. record_step env po (jb_id j) step status p \<sigma> = (Inr (), \<sigma>')
      \<and> holds j \<lparr> pg_steps = add_step step (pg_steps g), pg_status = status, pg_expected = Some p,
        pg_based = pg_based g \<rparr> \<sigma>' \<and> sees j q \<sigma>'" if H: "holds j g \<sigma>" "sees j q \<sigma>" for \<sigma>
  proof -
    obtain i where i: "stored j i \<sigma>" "row_of_job j i" "progress_of i = g"
      using H(1) unfolding holds_def by blast
    let ?f = "\<lambda>x. x\<lparr> pi_completed_steps := add_step step (pi_completed_steps i), pi_status := status,
        pi_last_error_json := None, pi_expected_projection := projection_to_json p,
        pi_updated_at := po_clock po (pb_ticks \<sigma>) \<rparr>"
    have "row_of_job j (?f i)" using i(2) by (simp add: row_of_job_def)
    moreover have "progress_of (?f i) = \<lparr> pg_steps = add_step step (pg_steps g), pg_status = status,
        pg_expected = Some p, pg_based = pg_based g \<rparr>"
      using i(3) projection_json_roundtrip [OF fin] by (auto simp: progress_of_def)
    moreover have "record_step env po (jb_id j) step status p \<sigma> =
        (Inr (), \<sigma>\<lparr> pb_store := (pb_store \<sigma>)\<lparr> fs_intents :=
          update_where (\<lambda>i. pi_intent_id i = jb_id j) ?f (fs_intents (pb_store \<sigma>)) \<rparr>,
          pb_ticks := Suc (pb_ticks \<sigma>) \<rparr>)"
      using select_stored [OF i(1,2)]
      by (simp add: record_step_def on_store_def record_publication_step_def bounded_ok [OF ok fits] Let_def)
    ultimately show ?thesis
      using stored_update [OF i(1), of ?f] H(2) unfolding holds_def by auto
  qed
  show ?thesis by (rule tripleI) (use eff in \<open>fastforce\<close>)+
qed

section \<open>Calls\<close>

lemma sees_quiet_call:
  assumes "sees j p \<sigma>" and "\<And>L. label_effect (jb_issue j) c L = L" and "\<And>s. state_effect (jb_issue j) c s = s"
  shows "sees j p (\<sigma>\<lparr> pb_history := pb_history \<sigma> @ [(c, ok)] \<rparr>)"
  using assms by (simp add: sees_def github_after_snoc)

lemma quiet_call:
  assumes "\<And>L. label_effect (jb_issue j) c L = L" and "\<And>s. state_effect (jb_issue j) c s = s"
  shows "triple (\<lambda>\<sigma>. holds j g \<sigma> \<and> sees j p \<sigma>) (ask c answer)
    (\<lambda>_ \<sigma>. holds j g \<sigma> \<and> sees j p \<sigma>) (\<lambda>\<sigma>. holds j g \<sigma> \<and> sees j p \<sigma>)"
  by (rule triple_call) (simp_all add: sees_quiet_call assms)

lemma set_comment_triple:
  "triple (\<lambda>\<sigma>. holds j g \<sigma> \<and> sees j p \<sigma>)
     (on_store po (\<lambda>now. set_publication_comment now (jb_id j) cid login))
     (\<lambda>_ \<sigma>. holds j g \<sigma> \<and> sees j p \<sigma>) (\<lambda>\<sigma>. holds j g \<sigma> \<and> sees j p \<sigma>)"
proof -
  have eff: "\<exists>\<sigma>'. on_store po (\<lambda>now. set_publication_comment now (jb_id j) cid login) \<sigma> = (Inr (), \<sigma>')
      \<and> holds j g \<sigma>' \<and> sees j p \<sigma>'" if H: "holds j g \<sigma>" "sees j p \<sigma>" for \<sigma>
  proof -
    obtain i where i: "stored j i \<sigma>" "row_of_job j i" "progress_of i = g"
      using H(1) unfolding holds_def by blast
    let ?f = "\<lambda>x. x\<lparr> pi_comment_id := Some cid, pi_publisher_login := Some login,
        pi_updated_at := po_clock po (pb_ticks \<sigma>) \<rparr>"
    have "row_of_job j (?f i)" "progress_of (?f i) = g"
      using i by (simp_all add: row_of_job_def progress_of_def)
    moreover have "on_store po (\<lambda>now. set_publication_comment now (jb_id j) cid login) \<sigma> =
        (Inr (), \<sigma>\<lparr> pb_store := (pb_store \<sigma>)\<lparr> fs_intents :=
          update_where (\<lambda>i. pi_intent_id i = jb_id j) ?f (fs_intents (pb_store \<sigma>)) \<rparr>,
          pb_ticks := Suc (pb_ticks \<sigma>) \<rparr>)"
      using changed_stored [OF i(1)]
      by (simp add: on_store_def set_publication_comment_def update_intent_def Let_def)
    ultimately show ?thesis
      using stored_update [OF i(1), of ?f] H(2) unfolding holds_def by auto
  qed
  show ?thesis by (rule tripleI) (use eff in \<open>fastforce\<close>)+
qed

lemma edit_comment_triple:
  assumes "pi_intent_id i = jb_id j"
  shows "triple (\<lambda>\<sigma>. holds j g \<sigma> \<and> sees j p \<sigma>) (edit_owned_comment po i body login cid)
    (\<lambda>_ \<sigma>. holds j g \<sigma> \<and> sees j p \<sigma>) (\<lambda>\<sigma>. holds j g \<sigma> \<and> sees j p \<sigma>)"
  unfolding edit_owned_comment_def
proof (rule triple_and_then [OF quiet_call])
  fix existing
  show "triple (\<lambda>\<sigma>. holds j g \<sigma> \<and> sees j p \<sigma>)
    (if \<not> eq_ignore_ascii_case (comment_author existing) login
     then give_up (TriageError (''publication comment '' @ nat_digits cid @ '' is not owned by publisher '' @ login))
     else and_then (ask (CallUpdateComment cid body) (po_update_comment po cid body))
       (\<lambda>_. if pi_comment_id i = None \<or> pi_publisher_login i \<noteq> Some login
            then on_store po (\<lambda>now. set_publication_comment now (pi_intent_id i) (nat_digits cid) login)
            else give ()))
    (\<lambda>_ \<sigma>. holds j g \<sigma> \<and> sees j p \<sigma>) (\<lambda>\<sigma>. holds j g \<sigma> \<and> sees j p \<sigma>)"
  proof (cases "eq_ignore_ascii_case (comment_author existing) login")
    case True
    have "triple (\<lambda>\<sigma>. holds j g \<sigma> \<and> sees j p \<sigma>)
      (if pi_comment_id i = None \<or> pi_publisher_login i \<noteq> Some login
       then on_store po (\<lambda>now. set_publication_comment now (pi_intent_id i) (nat_digits cid) login)
       else give ()) (\<lambda>_ \<sigma>. holds j g \<sigma> \<and> sees j p \<sigma>) (\<lambda>\<sigma>. holds j g \<sigma> \<and> sees j p \<sigma>)"
      by (auto simp: assms intro: set_comment_triple triple_give)
    then have "triple (\<lambda>\<sigma>. holds j g \<sigma> \<and> sees j p \<sigma>)
      (and_then (ask (CallUpdateComment cid body) (po_update_comment po cid body))
        (\<lambda>_. if pi_comment_id i = None \<or> pi_publisher_login i \<noteq> Some login
          then on_store po (\<lambda>now. set_publication_comment now (pi_intent_id i) (nat_digits cid) login)
          else give ())) (\<lambda>_ \<sigma>. holds j g \<sigma> \<and> sees j p \<sigma>) (\<lambda>\<sigma>. holds j g \<sigma> \<and> sees j p \<sigma>)"
      by (intro triple_and_then [OF quiet_call]) (simp_all add: label_effect_def state_effect_def)
    then show ?thesis by (simp only: True not_True_eq_False if_False)
  next
    case False
    then show ?thesis by (simp add: triple_give_up)
  qed
qed (simp_all add: label_effect_def state_effect_def)

lemma upsert_comment_triple:
  assumes id: "pi_intent_id i = jb_id j"
  shows "triple (\<lambda>\<sigma>. holds j g \<sigma> \<and> sees j p \<sigma>) (upsert_marked_comment po i n body pages)
    (\<lambda>_ \<sigma>. holds j g \<sigma> \<and> sees j p \<sigma>) (\<lambda>\<sigma>. holds j g \<sigma> \<and> sees j p \<sigma>)"
  unfolding upsert_marked_comment_def
proof (rule triple_and_then [OF quiet_call])
  fix login
  show "triple (\<lambda>\<sigma>. holds j g \<sigma> \<and> sees j p \<sigma>)
    (case pi_comment_id i of
       Some raw \<Rightarrow> and_then (parse_comment_id raw) (edit_owned_comment po i body login)
     | None \<Rightarrow>
         and_then (recover_owned_comment po n (pi_intent_id i) login pages)
           (\<lambda>recovered. case recovered of
              Some comment_id \<Rightarrow> edit_owned_comment po i body login comment_id
            | None \<Rightarrow> and_then (ask (CallCreateComment n body) (po_create_comment po n body))
                (\<lambda>created. on_store po (\<lambda>now. set_publication_comment now (pi_intent_id i)
                   (nat_digits (gc_id created)) login))))
    (\<lambda>_ \<sigma>. holds j g \<sigma> \<and> sees j p \<sigma>) (\<lambda>\<sigma>. holds j g \<sigma> \<and> sees j p \<sigma>)"
  proof (cases "pi_comment_id i")
    case (Some raw)
    have "triple (\<lambda>\<sigma>. holds j g \<sigma> \<and> sees j p \<sigma>) (parse_comment_id raw)
        (\<lambda>_ \<sigma>. holds j g \<sigma> \<and> sees j p \<sigma>) (\<lambda>\<sigma>. holds j g \<sigma> \<and> sees j p \<sigma>)"
      by (auto simp: parse_comment_id_def intro: triple_give triple_give_up split: sum.split)
    with Some show ?thesis by (auto intro: edit_comment_triple [OF id])
  next
    case None
    have "triple (\<lambda>\<sigma>. holds j g \<sigma> \<and> sees j p \<sigma>) (recover_owned_comment po n (pi_intent_id i) login pages)
        (\<lambda>_ \<sigma>. holds j g \<sigma> \<and> sees j p \<sigma>) (\<lambda>\<sigma>. holds j g \<sigma> \<and> sees j p \<sigma>)"
      unfolding recover_owned_comment_def
      by (rule triple_and_then [OF quiet_call]) (auto simp: label_effect_def state_effect_def intro: triple_give)
    moreover have "triple (\<lambda>\<sigma>. holds j g \<sigma> \<and> sees j p \<sigma>)
        (case recovered of
           Some comment_id \<Rightarrow> edit_owned_comment po i body login comment_id
         | None \<Rightarrow> and_then (ask (CallCreateComment n body) (po_create_comment po n body))
             (\<lambda>created. on_store po (\<lambda>now. set_publication_comment now (pi_intent_id i)
                (nat_digits (gc_id created)) login)))
        (\<lambda>_ \<sigma>. holds j g \<sigma> \<and> sees j p \<sigma>) (\<lambda>\<sigma>. holds j g \<sigma> \<and> sees j p \<sigma>)" for recovered
    proof (cases recovered)
      case None
      show ?thesis
        unfolding None option.case
        by (rule triple_and_then [OF quiet_call])
          (simp_all add: id label_effect_def state_effect_def set_comment_triple)
    next
      case (Some cid)
      then show ?thesis by (simp add: edit_comment_triple [OF id])
    qed
    ultimately show ?thesis using None by (simp add: triple_and_then)
  qed
qed (simp_all add: label_effect_def state_effect_def)

section \<open>Projections\<close>

lemma managed_in_vocabulary: "managed_label_set (jb_managed j) \<subseteq> job_vocabulary j"
  by (auto simp: job_vocabulary_def publication_vocabulary_def Let_def)

definition removal :: "job \<Rightarrow> nat \<Rightarrow> string set" where
  "removal j k =
     (if k = 3 then {l \<in> managed_label_set (jb_managed j). l \<noteq> normalize_managed_value (jb_route j)}
      else {normalize_managed_value (jb_intake j)})"

lemma conflicting_set:
  "set (conflicting_route_labels p (jb_managed j) (jb_route j)) = removal j 3 \<inter> mp_managed_labels p"
  by (auto simp: conflicting_route_labels_def removal_def managed_label_set_def contains_label_def Let_def
      simp flip: normalize_managed_value_def)

lemma fold_without:
  "fold (\<lambda>l p. without_label p l) ls p =
     p\<lparr> mp_managed_labels := mp_managed_labels p - normalize_managed_value ` set ls \<rparr>"
proof (induction ls arbitrary: p)
  case (Cons l ls)
  show ?case unfolding fold_Cons comp_def Cons.IH by (simp add: without_label_def flip: Diff_insert2)
qed simp

lemma conflicting_normal:
  "l \<in> set (conflicting_route_labels p (jb_managed j) (jb_route j)) \<Longrightarrow> normalize_managed_value l = l"
  by (auto simp: conflicting_route_labels_def Let_def simp flip: normalize_managed_value_def)

lemma desired_removal:
  assumes "k = 3 \<or> k = 5"
  shows "desired_after j k p = p\<lparr> mp_managed_labels := mp_managed_labels p - removal j k \<rparr>"
proof (cases "k = 3")
  case True
  have "normalize_managed_value ` set (conflicting_route_labels p (jb_managed j) (jb_route j))
      = set (conflicting_route_labels p (jb_managed j) (jb_route j))"
    using conflicting_normal by (force simp: image_iff)
  then have "conflict_cleanup_desired p (jb_managed j) (jb_route j) =
      p\<lparr> mp_managed_labels := mp_managed_labels p - (removal j 3 \<inter> mp_managed_labels p) \<rparr>"
    by (simp only: conflict_cleanup_desired_def fold_without conflicting_set)
  also have "mp_managed_labels p - (removal j 3 \<inter> mp_managed_labels p) = mp_managed_labels p - removal j 3"
    by blast
  finally show ?thesis using True by (simp add: desired_after_def)
next
  case False
  with assms show ?thesis by (simp add: desired_after_def without_label_def removal_def)
qed

lemma desired_labels:
  assumes "job_ok env po j"
  shows "mp_managed_labels (desired_after j k p) \<subseteq> insert (normalize_managed_value (jb_route j)) (mp_managed_labels p)"
    and "mp_managed_labels p \<subseteq> job_vocabulary j \<Longrightarrow> mp_managed_labels (desired_after j k p) \<subseteq> job_vocabulary j"
proof -
  show *: "mp_managed_labels (desired_after j k p) \<subseteq> insert (normalize_managed_value (jb_route j)) (mp_managed_labels p)"
    using desired_removal [of k j p]
    by (cases "k = 3 \<or> k = 5")
      (auto simp: desired_after_def with_label_def with_project_state_def Let_def split: option.split)
  show "mp_managed_labels (desired_after j k p) \<subseteq> job_vocabulary j" if "mp_managed_labels p \<subseteq> job_vocabulary j"
    using * that assms managed_in_vocabulary [of j] unfolding job_ok_def by blast
qed

lemma target_vocabulary: "job_ok env po j \<Longrightarrow> mp_managed_labels (target j k) \<subseteq> job_vocabulary j"
  by (induction k) (simp_all add: job_baseline_def desired_labels(2))

lemma desired_state:
  "mp_project_state (desired_after j k p) = mp_project_state p
     \<or> mp_project_state (desired_after j k p) = decided_state (jb_state j)"
  using desired_removal [of k j p]
  by (cases "k = 3 \<or> k = 5")
    (auto simp: desired_after_def with_label_def with_project_state_def decided_state_def nonblank_def Let_def
      split: option.split)

lemma target_recordable: "job_ok env po j \<Longrightarrow> recordable j (target j k)"
proof (induction k)
  case 0
  then show ?case by (simp add: recordable_def job_baseline_def)
next
  case (Suc k)
  then show ?case
    using desired_state [of j k "target j k"] desired_labels(2) [of env po j "target j k" k]
    by (auto simp: recordable_def)
qed

lemma at_stage_vocabulary:
  "job_ok env po j \<Longrightarrow> at_stage j k p \<Longrightarrow> mp_managed_labels p \<subseteq> job_vocabulary j"
  using target_vocabulary [of env po j k] by (auto simp: at_stage_def)

lemma target_at_stage: "k \<le> 7 \<Longrightarrow> at_stage j k (target j k)"
  by (simp add: at_stage_def)

lemma add_step_stage: "k < 7 \<Longrightarrow> add_step (automatic_steps ! k) (take k automatic_steps) = take (Suc k) automatic_steps"
proof -
  assume "k < 7"
  then consider "k = 0" | "k = 1" | "k = 2" | "k = 3" | "k = 4" | "k = 5" | "k = 6" by linarith
  then show ?thesis by cases (simp only:, code_simp)+
qed

section \<open>Observation and mutation\<close>

lemma triple_or:
  assumes "triple P m Q R" and "triple P' m Q R"
  shows "triple (\<lambda>\<sigma>. P \<sigma> \<or> P' \<sigma>) m Q R"
  using assms by (simp add: triple_def)

lemma triple_ex: "(\<And>q. triple (P q) m Q R) \<Longrightarrow> triple (\<lambda>\<sigma>. \<exists>q. P q \<sigma>) m Q R"
  unfolding triple_def by metis

lemma triple_assume: "(A \<Longrightarrow> triple P m Q R) \<Longrightarrow> triple (\<lambda>\<sigma>. A \<and> P \<sigma>) m Q R"
  by (simp add: triple_def)

lemma shrink_id:
  "mp_managed_labels p \<inter> X = {} \<Longrightarrow>
   p\<lparr> mp_managed_labels := mp_managed_labels p - X \<rparr> = (p :: managed_projection)"
  by (rule projection_eqI) auto

lemma observe_triple:
  assumes ok: "job_ok env po j" and sub: "mp_managed_labels p \<subseteq> job_vocabulary j"
  shows "triple (\<lambda>\<sigma>. holds j g \<sigma> \<and> sees j p \<sigma>) (observe_current po (jb_issue j) (job_vocabulary j))
    (\<lambda>current \<sigma>. current = p \<and> holds j g \<sigma> \<and> sees j p \<sigma>) (\<lambda>\<sigma>. holds j g \<sigma> \<and> sees j p \<sigma>)"
proof -
  have u: "undisturbed po (jb_issue j) (jb_lost j) (jb_labels j) (jb_start j)" using ok by (simp add: job_ok_def)
  let ?A = "\<lambda>\<sigma>. holds j g \<sigma> \<and> sees j p \<sigma>"
  let ?full = "(jb_labels j - job_vocabulary j) \<union> mp_managed_labels p"
  have labels: "triple ?A (ask (CallListLabels (jb_issue j)) (po_list_issue_labels po (jb_issue j)))
      (\<lambda>ls \<sigma>. normalize_managed_value ` set ls = ?full \<and> ?A \<sigma>) ?A"
  proof (rule triple_call)
    fix \<sigma> ls assume A: "?A \<sigma>" and ls: "po_list_issue_labels po (jb_issue j) (pb_history \<sigma>) = Inr ls"
    have "normalize_managed_value ` set ls = ?full"
      using u ls A by (simp add: undisturbed_def sees_def)
    then show "normalize_managed_value ` set ls = ?full
        \<and> ?A (\<sigma>\<lparr> pb_history := pb_history \<sigma> @ [(CallListLabels (jb_issue j), True)] \<rparr>)"
      using A by (simp add: sees_quiet_call label_effect_def state_effect_def)
  qed (simp add: sees_quiet_call label_effect_def state_effect_def)
  have state: "triple ?A (ask (CallProjectState (jb_issue j)) (po_issue_project_state po (jb_issue j)))
      (\<lambda>st \<sigma>. nonblank (map_option normalize_managed_value st) = mp_project_state p \<and> ?A \<sigma>) ?A"
  proof (rule triple_call)
    fix \<sigma> st assume A: "?A \<sigma>" and st: "po_issue_project_state po (jb_issue j) (pb_history \<sigma>) = Inr st"
    have "nonblank (map_option normalize_managed_value st) = mp_project_state p"
      using u st A by (simp add: undisturbed_def sees_def)
    then show "nonblank (map_option normalize_managed_value st) = mp_project_state p
        \<and> ?A (\<sigma>\<lparr> pb_history := pb_history \<sigma> @ [(CallProjectState (jb_issue j), True)] \<rparr>)"
      using A by (simp add: sees_quiet_call label_effect_def state_effect_def)
  qed (simp add: sees_quiet_call label_effect_def state_effect_def)
  have result: "projection_observe ls (job_vocabulary j) st = p"
    if "normalize_managed_value ` set ls = ?full" "nonblank (map_option normalize_managed_value st) = mp_project_state p"
    for ls st
  proof (rule projection_eqI)
    have "mp_managed_labels (projection_observe ls (job_vocabulary j) st) = normalize_managed_value ` set ls \<inter> job_vocabulary j"
      by (auto simp: projection_observe_def)
    then show "mp_managed_labels (projection_observe ls (job_vocabulary j) st) = mp_managed_labels p"
      using that(1) sub by auto
  qed (simp add: projection_observe_def that(2))
  show ?thesis
    unfolding observe_current_def
    by (intro triple_and_then [OF labels] triple_assume triple_and_then [OF state])
      (auto intro: triple_give simp: result)
qed

lemma mutation_call:
  assumes eff: "\<And>L s. label_effect (jb_issue j) c ((jb_labels j - job_vocabulary j) \<union> mp_managed_labels p)
        = (jb_labels j - job_vocabulary j) \<union> mp_managed_labels d"
    and st: "state_effect (jb_issue j) c (mp_project_state p) = mp_project_state d"
  shows "triple (\<lambda>\<sigma>. holds j g \<sigma> \<and> sees j p \<sigma>) (ask c answer)
    (\<lambda>_ \<sigma>. holds j g \<sigma> \<and> sees j d \<sigma>)
    (\<lambda>\<sigma>. holds j g \<sigma> \<and> (sees j p \<sigma> \<or> (\<exists>h. jb_lost j h) \<and> sees j d \<sigma>))"
  by (rule triple_call) (auto simp: sees_def github_after_snoc eff st)

lemma removal_conflicts:
  assumes "job_ok env po j" and "at_stage j 3 p"
  shows "mp_managed_labels p \<inter> removal j 3 \<subseteq> job_conflicts j"
proof -
  have "mp_managed_labels (target j 3) \<subseteq> insert (normalize_managed_value (jb_route j)) (jb_labels j)"
    by (auto simp: eval_nat_numeral desired_after_def with_label_def with_project_state_def job_baseline_def Let_def
        split: option.splits)
  then show ?thesis using assms(2) by (auto simp: at_stage_def removal_def job_conflicts_def)
qed

lemma remove_labels_triple:
  assumes ok: "job_ok env po j" and k: "k = 3 \<or> k = 5"
    and "at_stage j k p" and "normalize_managed_value ` set ls \<subseteq> removal j k"
    and "mp_managed_labels p \<inter> removal j k \<subseteq> normalize_managed_value ` set ls"
  shows "triple (\<lambda>\<sigma>. holds j (stage_progress k p) \<sigma> \<and> sees j p \<sigma>)
    (remove_labels env po (jb_id j) (jb_issue j) p ls)
    (\<lambda>_ \<sigma>. \<exists>q. holds j (stage_progress k q) \<sigma> \<and> sees j (desired_after j k p) \<sigma>) (publish_inv j)"
  using assms(3-5)
proof (induction ls arbitrary: p)
  case Nil
  then have "mp_managed_labels p \<inter> removal j k = {}" by simp
  then have "desired_after j k p = p" by (simp only: desired_removal [OF k] shrink_id)
  then show ?case by (auto intro: triple_give)
next
  case (Cons l ls)
  let ?l = "normalize_managed_value l"
  show ?case
  proof (cases "contains_label p l")
    case False
    then have "?l \<notin> mp_managed_labels p" by (simp add: contains_label_def)
    then have "mp_managed_labels p \<inter> removal j k \<subseteq> normalize_managed_value ` set ls"
      using Cons.prems(3) by auto
    with False Cons show ?thesis by simp
  next
    case True
    let ?p = "without_label p l"
    have l: "?l \<in> mp_managed_labels p" "?l \<in> removal j k" using True Cons.prems(2) by (auto simp: contains_label_def)
    have vocab: "mp_managed_labels p \<subseteq> job_vocabulary j" using at_stage_vocabulary [OF ok Cons.prems(1)] .
    have same: "desired_after j k ?p = desired_after j k p"
    proof -
      have "mp_managed_labels p - {?l} - removal j k = mp_managed_labels p - removal j k" using l(2) by blast
      then show ?thesis by (simp add: desired_removal [OF k] without_label_def)
    qed
    have stage: "at_stage j k ?p"
      using Cons.prems(1) same by (auto simp: at_stage_def without_label_def)
    have lost: "?p = desired_after j k p" if "\<exists>h. jb_lost j h"
    proof -
      have "mp_managed_labels p \<inter> removal j k \<subseteq> {?l}"
      proof (cases "k = 3")
        case True
        have sub: "mp_managed_labels p \<inter> removal j 3 \<subseteq> job_conflicts j"
          using removal_conflicts [OF ok] Cons.prems(1) True by simp
        have "a = b" if "a \<in> job_conflicts j" "b \<in> job_conflicts j" for a b
          using ok \<open>\<exists>h. jb_lost j h\<close> that unfolding job_ok_def by blast
        then show ?thesis using sub l True by blast
      qed (use k l(2) in \<open>auto simp: removal_def\<close>)
      then have "mp_managed_labels p - {?l} = mp_managed_labels p - removal j k" using l by blast
      then show ?thesis by (simp add: desired_removal [OF k] without_label_def)
    qed
    have failed: "publish_inv j \<sigma>"
      if "holds j (stage_progress k p) \<sigma> \<and> (sees j p \<sigma> \<or> (\<exists>h. jb_lost j h) \<and> sees j ?p \<sigma>)" for \<sigma>
    proof -
      have "sees j p \<sigma> \<or> sees j (desired_after j k p) \<sigma>" using that lost by metis
      then show ?thesis using that Cons.prems(1) unfolding publish_inv_def by blast
    qed
    have "label_effect (jb_issue j) (CallRemoveLabel (jb_issue j) l) ((jb_labels j - job_vocabulary j) \<union> mp_managed_labels p)
        = (jb_labels j - job_vocabulary j) \<union> mp_managed_labels ?p"
      using l(1) vocab by (auto simp: label_effect_def without_label_def)
    moreover have "state_effect (jb_issue j) (CallRemoveLabel (jb_issue j) l) (mp_project_state p) = mp_project_state ?p"
      by (simp add: state_effect_def without_label_def)
    ultimately have removed: "triple (\<lambda>\<sigma>. holds j (stage_progress k p) \<sigma> \<and> sees j p \<sigma>)
        (ask (CallRemoveLabel (jb_issue j) l) (po_remove_issue_label po (jb_issue j) l))
        (\<lambda>_ \<sigma>. holds j (stage_progress k p) \<sigma> \<and> sees j ?p \<sigma>) (publish_inv j)"
      by (rule triple_weaken [OF mutation_call]) (use failed in auto)
    have "mp_project_state (desired_after j k ?p) = mp_project_state ?p" by (simp add: desired_removal [OF k])
    moreover have "desired_after j k ?p = target j (Suc k)" using stage unfolding at_stage_def by blast
    moreover have "mp_managed_labels ?p \<subseteq> job_vocabulary j" using vocab by (auto simp: without_label_def)
    ultimately have "recordable j ?p"
      using target_recordable [OF ok, of "Suc k"] unfolding recordable_def by metis
    from record_step_triple [OF ok this, of "stage_progress k p" ?p "''''" PubPending "publish_inv j"]
    have recorded: "triple (\<lambda>\<sigma>. holds j (stage_progress k p) \<sigma> \<and> sees j ?p \<sigma>)
        (record_step env po (jb_id j) '''' PubPending ?p)
        (\<lambda>_ \<sigma>. holds j (stage_progress k ?p) \<sigma> \<and> sees j ?p \<sigma>) (publish_inv j)"
      using k by (auto simp: stage_progress_def add_step_def trim_def trim_start_def trim_end_def)
    have "normalize_managed_value ` set ls \<subseteq> removal j k" using Cons.prems(2) by auto
    moreover have "mp_managed_labels ?p \<inter> removal j k \<subseteq> normalize_managed_value ` set ls"
      using Cons.prems(3) by (auto simp: without_label_def)
    ultimately show ?thesis
      using True Cons.IH [OF stage]
      by (simp add: same) (intro triple_and_then [OF removed] triple_and_then [OF recorded])
  qed
qed

section \<open>Steps of a publication\<close>

definition reached :: "job \<Rightarrow> nat \<Rightarrow> publish_state \<Rightarrow> bool" where
  "reached j k \<sigma> \<longleftrightarrow> holds j (stage_progress k (target j k)) \<sigma> \<and> sees j (target j k) \<sigma>"

definition midway :: "job \<Rightarrow> nat \<Rightarrow> managed_projection \<Rightarrow> publish_state \<Rightarrow> bool" where
  "midway j k p \<sigma> \<longleftrightarrow>
     holds j (stage_progress k p) \<sigma> \<and> (sees j p \<sigma> \<or> sees j (desired_after j k p) \<sigma>)"

lemma midway_inv: "at_stage j k p \<Longrightarrow> midway j k p \<sigma> \<Longrightarrow> publish_inv j \<sigma>"
  unfolding publish_inv_def midway_def by blast

lemma reached_midway: "reached j k \<sigma> \<Longrightarrow> midway j k (target j k) \<sigma>"
  by (simp add: reached_def midway_def)

lemma reached_inv: "k \<le> 7 \<Longrightarrow> reached j k \<sigma> \<Longrightarrow> publish_inv j \<sigma>"
  by (rule midway_inv [OF target_at_stage reached_midway])

text \<open>Recording the step at the desired projection reaches the next stage.\<close>

lemma record_reaches:
  assumes ok: "job_ok env po j" and stage: "at_stage j k p" and k: "k < 7"
    and status: "status = (if k = 6 then PubApplied else PubPending)"
  shows "triple (\<lambda>\<sigma>. (\<exists>q. holds j (stage_progress k q) \<sigma>) \<and> sees j (desired_after j k p) \<sigma>)
    (record_step env po (jb_id j) (automatic_steps ! k) status (desired_after j k p))
    (\<lambda>_. reached j (Suc k)) (publish_inv j)"
proof -
  let ?d = "desired_after j k p"
  have d: "?d = target j (Suc k)" using stage by (simp add: at_stage_def)
  have "recordable j ?d" unfolding d by (rule target_recordable [OF ok])
  note rec = record_step_triple [OF ok this, of "stage_progress k _" ?d "automatic_steps ! k" status "publish_inv j"]
  have "triple (\<lambda>\<sigma>. holds j (stage_progress k q) \<sigma> \<and> sees j ?d \<sigma>)
      (record_step env po (jb_id j) (automatic_steps ! k) status ?d) (\<lambda>_. reached j (Suc k)) (publish_inv j)" for q
    by (rule triple_weaken [OF rec [of q]])
      (use k status in \<open>auto simp: reached_def d [symmetric] stage_progress_def add_step_stage [OF k]
        simp del: target.simps\<close>)
  from triple_ex [OF this] show ?thesis by (rule triple_weaken) auto
qed

definition job_mutation :: "job \<Rightarrow> nat \<Rightarrow> managed_projection \<Rightarrow> mutation_kind" where
  "job_mutation j k p =
     (if k = 1 then AddLabel (jb_route j)
      else if k = 2 then SetState (the (jb_state j))
      else if k = 3 then RemoveLabels (conflicting_route_labels p (jb_managed j) (jb_route j))
      else RemoveLabels [jb_intake j])"

lemma apply_triple:
  assumes ok: "job_ok env po j" and stage: "at_stage j k p"
    and k: "k = 1 \<or> k = 2 \<and> jb_state j \<noteq> None \<or> k = 3 \<or> k = 5"
  shows "triple (\<lambda>\<sigma>. holds j (stage_progress k p) \<sigma> \<and> sees j p \<sigma>)
    (apply_mutation env po (jb_id j) (jb_issue j) p (job_mutation j k p))
    (\<lambda>_ \<sigma>. (\<exists>q. holds j (stage_progress k q) \<sigma>) \<and> sees j (desired_after j k p) \<sigma>) (publish_inv j)"
proof -
  have single: "triple (\<lambda>\<sigma>. holds j (stage_progress k p) \<sigma> \<and> sees j p \<sigma>) (ask c answer)
      (\<lambda>_ \<sigma>. (\<exists>q. holds j (stage_progress k q) \<sigma>) \<and> sees j (desired_after j k p) \<sigma>) (publish_inv j)"
    if "label_effect (jb_issue j) c ((jb_labels j - job_vocabulary j) \<union> mp_managed_labels p)
          = (jb_labels j - job_vocabulary j) \<union> mp_managed_labels (desired_after j k p)"
      and "state_effect (jb_issue j) c (mp_project_state p) = mp_project_state (desired_after j k p)"
    for c and answer :: "history \<Rightarrow> symphony_error + unit"
    by (rule triple_weaken [OF mutation_call [OF that]]) (use stage in \<open>auto simp: publish_inv_def\<close>)
  consider "k = 1" | "k = 2" "jb_state j \<noteq> None" | "k = 3" | "k = 5" using k by blast
  then show ?thesis
  proof cases
    case 1
    have "triple (\<lambda>\<sigma>. holds j (stage_progress k p) \<sigma> \<and> sees j p \<sigma>)
        (ask (CallAddLabel (jb_issue j) (jb_route j)) (po_add_issue_label po (jb_issue j) (jb_route j)))
        (\<lambda>_ \<sigma>. (\<exists>q. holds j (stage_progress k q) \<sigma>) \<and> sees j (desired_after j k p) \<sigma>) (publish_inv j)"
      by (rule single) (simp_all add: 1 label_effect_def state_effect_def desired_after_def with_label_def)
    then show ?thesis using 1 by (simp add: apply_mutation_def job_mutation_def)
  next
    case 2
    then obtain s where s: "jb_state j = Some s" by blast
    have "triple (\<lambda>\<sigma>. holds j (stage_progress k p) \<sigma> \<and> sees j p \<sigma>)
        (ask (CallSetState (jb_issue j) s) (po_set_issue_project_state po (jb_issue j) s))
        (\<lambda>_ \<sigma>. (\<exists>q. holds j (stage_progress k q) \<sigma>) \<and> sees j (desired_after j k p) \<sigma>) (publish_inv j)"
      by (rule single) (simp_all add: 2 s label_effect_def state_effect_def desired_after_def
          with_project_state_def nonblank_def Let_def)
    then show ?thesis using 2 s by (simp add: apply_mutation_def job_mutation_def)
  next
    case 3
    let ?ls = "conflicting_route_labels p (jb_managed j) (jb_route j)"
    have "normalize_managed_value ` set ?ls = set ?ls" using conflicting_normal by (force simp: image_iff)
    then have "normalize_managed_value ` set ?ls = removal j 3 \<inter> mp_managed_labels p"
      by (simp only: conflicting_set)
    then have "triple (\<lambda>\<sigma>. holds j (stage_progress k p) \<sigma> \<and> sees j p \<sigma>)
        (remove_labels env po (jb_id j) (jb_issue j) p ?ls)
        (\<lambda>_ \<sigma>. \<exists>q. holds j (stage_progress k q) \<sigma> \<and> sees j (desired_after j k p) \<sigma>) (publish_inv j)"
      using 3 by (intro remove_labels_triple [OF ok _ stage]) auto
    then show ?thesis using 3 by (simp add: apply_mutation_def job_mutation_def)
  next
    case 4
    then have "triple (\<lambda>\<sigma>. holds j (stage_progress k p) \<sigma> \<and> sees j p \<sigma>)
        (remove_labels env po (jb_id j) (jb_issue j) p [jb_intake j])
        (\<lambda>_ \<sigma>. \<exists>q. holds j (stage_progress k q) \<sigma> \<and> sees j (desired_after j k p) \<sigma>) (publish_inv j)"
      by (intro remove_labels_triple [OF ok _ stage]) (auto simp: removal_def)
    then show ?thesis using 4 by (simp add: apply_mutation_def job_mutation_def del: remove_labels.simps)
  qed
qed

lemma mutation_triple:
  assumes ok: "job_ok env po j" and stage: "at_stage j k p"
    and k: "k = 1 \<or> k = 2 \<and> jb_state j \<noteq> None \<or> k = 3 \<or> k = 5"
  shows "triple (midway j k p)
    (reconcile_mutation env po (jb_id j) (jb_issue j) (job_vocabulary j) p (desired_after j k p)
      (automatic_steps ! k) (job_mutation j k p))
    (\<lambda>outcome \<sigma>. outcome = OutcomeDone \<and> reached j (Suc k) \<sigma>) (publish_inv j)"
proof -
  let ?d = "desired_after j k p" and ?g = "stage_progress k p"
  have vp: "mp_managed_labels p \<subseteq> job_vocabulary j" using at_stage_vocabulary [OF ok stage] .
  have vd: "mp_managed_labels ?d \<subseteq> job_vocabulary j" using desired_labels(2) [OF ok vp] .
  have "k < 7" "k \<noteq> 6" using k by auto
  note rec = record_reaches [OF ok stage this(1), of PubPending]
  have observed: "triple (midway j k p) (observe_current po (jb_issue j) (job_vocabulary j))
      (\<lambda>current \<sigma>. (current = p \<or> current = ?d) \<and> holds j ?g \<sigma> \<and> sees j current \<sigma>) (publish_inv j)"
  proof -
    have "triple (\<lambda>\<sigma>. holds j ?g \<sigma> \<and> sees j q \<sigma>) (observe_current po (jb_issue j) (job_vocabulary j))
        (\<lambda>current \<sigma>. (current = p \<or> current = ?d) \<and> holds j ?g \<sigma> \<and> sees j current \<sigma>) (publish_inv j)"
      if "q = p \<or> q = ?d" "mp_managed_labels q \<subseteq> job_vocabulary j" for q
      by (rule triple_weaken [OF observe_triple [OF ok that(2)]])
        (use that(1) stage in \<open>auto simp: publish_inv_def\<close>)
    from triple_or [OF this [of p] this [of ?d]] vp vd show ?thesis
      by (auto simp: midway_def elim: triple_weaken)
  qed
  have rest: "triple (\<lambda>\<sigma>. holds j ?g \<sigma> \<and> sees j current \<sigma>)
      (if current = ?d
       then and_then (record_step env po (jb_id j) (automatic_steps ! k) PubPending ?d) (\<lambda>_. give OutcomeDone)
       else if current \<noteq> p
       then and_then (on_store po (\<lambda>now. update_publication_step env now (jb_id j) '''' PubConflict
              (Some (human_conflict (automatic_steps ! k))))) (\<lambda>_. give OutcomeConflict)
       else and_then (apply_mutation env po (jb_id j) (jb_issue j) current (job_mutation j k p))
         (\<lambda>_. and_then (record_step env po (jb_id j) (automatic_steps ! k) PubPending ?d) (\<lambda>_. give OutcomeDone)))
      (\<lambda>outcome \<sigma>. outcome = OutcomeDone \<and> reached j (Suc k) \<sigma>) (publish_inv j)"
    if "current = p \<or> current = ?d" for current
  proof -
    have tail: "triple (\<lambda>\<sigma>. (\<exists>q. holds j (stage_progress k q) \<sigma>) \<and> sees j ?d \<sigma>)
        (and_then (record_step env po (jb_id j) (automatic_steps ! k) PubPending ?d) (\<lambda>_. give OutcomeDone))
        (\<lambda>outcome \<sigma>. outcome = OutcomeDone \<and> reached j (Suc k) \<sigma>) (publish_inv j)"
      using \<open>k \<noteq> 6\<close> by (intro triple_and_then [OF rec]) (simp_all add: triple_give)
    show ?thesis
    proof (cases "current = ?d")
      case True
      then show ?thesis by (simp only: if_True simp_thms) (rule triple_weaken [OF tail], auto)
    next
      case False
      with that have "current = p" by blast
      then show ?thesis
        using False triple_and_then [OF apply_triple [OF ok stage k] tail] by simp
    qed
  qed
  show ?thesis
    unfolding reconcile_mutation_def
    by (intro triple_and_then [OF observed] triple_assume rest)
qed

text \<open>What a request must say to be about a job.\<close>

definition request_for :: "job \<Rightarrow> automatic_publish_request \<Rightarrow> bool" where
  "request_for j request \<longleftrightarrow>
     pi_intent_id (pr_row (ap_intent request)) = jb_id j
     \<and> pi_mode (pr_row (ap_intent request)) = PublishAutomatic
     \<and> ap_issue_number request = jb_issue j \<and> ap_managed_labels request = jb_managed j"

lemma comment_triple:
  assumes ok: "job_ok env po j" and stage: "at_stage j k p" and k: "k = 0 \<or> k = 4 \<or> k = 6"
    and row: "row_of_job j i" and request: "request_for j request"
    and status: "status = (if k = 6 then PubApplied else PubPending)"
  shows "triple (midway j k p) (reconcile_comment env po request i p (automatic_steps ! k) phase status)
    (\<lambda>st \<sigma>. st = status \<and> reached j (Suc k) \<sigma>) (publish_inv j)"
proof -
  have d: "desired_after j k p = p" using k by (auto simp: desired_after_def)
  have id: "pi_intent_id i = jb_id j" using row by (simp add: row_of_job_def)
  have "k < 7" using k by auto
  note rec = record_reaches [OF ok stage this status]
  have upsert: "triple (midway j k p)
      (upsert_marked_comment po i (ap_issue_number request) (automatic_body request i phase) (ap_max_pages request))
      (\<lambda>_ \<sigma>. (\<exists>q. holds j (stage_progress k q) \<sigma>) \<and> sees j (desired_after j k p) \<sigma>) (publish_inv j)"
    by (rule triple_weaken [OF upsert_comment_triple [OF id, of "stage_progress k p" p]])
      (use stage d in \<open>auto simp: midway_def publish_inv_def\<close>)
  have "triple (\<lambda>\<sigma>. (\<exists>q. holds j (stage_progress k q) \<sigma>) \<and> sees j (desired_after j k p) \<sigma>)
      (and_then (record_step env po (pi_intent_id i) (automatic_steps ! k) status p) (\<lambda>_. give status))
      (\<lambda>st \<sigma>. st = status \<and> reached j (Suc k) \<sigma>) (publish_inv j)"
    using rec by (intro triple_and_then [where Q = "\<lambda>_. reached j (Suc k)"] triple_give) (simp_all add: id d)
  then show ?thesis unfolding reconcile_comment_def by (intro triple_and_then [OF upsert])
qed

section \<open>The whole pass\<close>

lemma reconcile_step_triple:
  assumes ok: "job_ok env po j" and stage: "at_stage j k p" and k: "k < 7"
    and row: "row_of_job j i" and progress: "progress_of i = stage_progress k p"
    and request: "request_for j request"
  shows "triple (midway j k p)
    (reconcile_step env po request (job_vocabulary j) i (automatic_steps ! k))
    (\<lambda>status \<sigma>. status = (if k = 6 then PubApplied else PubPending) \<and> reached j (Suc k) \<sigma>) (publish_inv j)"
proof -
  have e: "projection_from_json (pi_expected_projection i) = Some p"
    using progress by (simp add: progress_of_def stage_progress_def)
  have r: "pi_intent_id i = jb_id j" "pi_route_label i = jb_route j" "pi_intake_label i = jb_intake j"
    "pi_project_state i = jb_state j" "ap_issue_number request = jb_issue j" "ap_managed_labels request = jb_managed j"
    using row request by (simp_all add: row_of_job_def request_for_def)
  have mutate: "triple (midway j k p)
      (and_then (reconcile_mutation env po (jb_id j) (jb_issue j) (job_vocabulary j) p (desired_after j k p)
          (automatic_steps ! k) (job_mutation j k p)) (\<lambda>outcome. give (outcome_status outcome)))
      (\<lambda>status \<sigma>. status = PubPending \<and> reached j (Suc k) \<sigma>) (publish_inv j)"
    if "k = 1 \<or> k = 2 \<and> jb_state j \<noteq> None \<or> k = 3 \<or> k = 5"
    by (intro triple_and_then [OF mutation_triple [OF ok stage that]] triple_give)
      (auto simp: outcome_status_def)
  note comment = comment_triple [OF ok stage _ row request]
  consider "k = 0" | "k = 1" | "k = 2" | "k = 3" | "k = 4" | "k = 5" | "k = 6" using k by linarith
  then show ?thesis
  proof cases
    case 1
    with comment show ?thesis
      by (simp add: reconcile_step_def Let_def e automatic_steps_def step_names)
  next
    case 2
    with mutate show ?thesis
      by (simp add: reconcile_step_def Let_def e r automatic_steps_def step_names desired_after_def job_mutation_def)
  next
    case 3
    show ?thesis
    proof (cases "jb_state j")
      case None
      have d: "desired_after j k p = p" using 3 None by (simp add: desired_after_def)
      have "triple (midway j k p)
          (and_then (record_step env po (jb_id j) (automatic_steps ! k) PubPending p) (\<lambda>_. give PubPending))
          (\<lambda>status \<sigma>. status = PubPending \<and> reached j (Suc k) \<sigma>) (publish_inv j)"
        using record_reaches [OF ok stage k, of PubPending] 3 d
        by (intro triple_and_then [where Q = "\<lambda>_. reached j (Suc k)"] triple_give)
          (auto simp: midway_def elim!: triple_weaken)
      with 3 None show ?thesis
        by (simp add: reconcile_step_def Let_def e r automatic_steps_def step_names)
    next
      case (Some s)
      with 3 mutate show ?thesis
        by (simp add: reconcile_step_def Let_def e r automatic_steps_def step_names desired_after_def job_mutation_def)
    qed
  next
    case 4
    with mutate show ?thesis
      by (simp add: reconcile_step_def Let_def e r automatic_steps_def step_names desired_after_def job_mutation_def)
  next
    case 5
    with comment show ?thesis
      by (simp add: reconcile_step_def Let_def e automatic_steps_def step_names)
  next
    case 6
    with mutate show ?thesis
      by (simp add: reconcile_step_def Let_def e r automatic_steps_def step_names desired_after_def job_mutation_def)
  next
    case 7
    with comment show ?thesis
      by (simp add: reconcile_step_def Let_def e automatic_steps_def step_names)
  qed
qed

lemma steps_fresh: "k < 7 \<Longrightarrow> automatic_steps ! k \<notin> set (take k automatic_steps)"
proof -
  assume "k < 7"
  then consider "k = 0" | "k = 1" | "k = 2" | "k = 3" | "k = 4" | "k = 5" | "k = 6" by linarith
  then show ?thesis by cases (simp only:, code_simp)+
qed

lemma seven_steps: "length automatic_steps = 7"
  by (simp add: automatic_steps_def)

lemma reload_triple:
  "triple (\<lambda>\<sigma>. holds j g \<sigma> \<and> H \<sigma>) (reload_intent env (jb_id j))
     (\<lambda>i \<sigma>. row_of_job j i \<and> progress_of i = g \<and> holds j g \<sigma> \<and> H \<sigma>) R"
proof -
  have "\<exists>i. reload_intent env (jb_id j) \<sigma> = (Inr i, \<sigma>) \<and> row_of_job j i \<and> progress_of i = g" if "holds j g \<sigma>" for \<sigma>
  proof -
    from that obtain i where i: "stored j i \<sigma>" "row_of_job j i" "progress_of i = g"
      unfolding holds_def by blast
    then show ?thesis
      using get_stored [OF i(1,2), of env] by (simp add: reload_intent_def and_then_def from_store_def give_def)
  qed
  then show ?thesis by (intro tripleI) fastforce+
qed

lemma run_steps_triple:
  assumes ok: "job_ok env po j" and "at_stage j k p"
    and "row_of_job j i" and "progress_of i = stage_progress k p" and request: "request_for j request"
  shows "triple (midway j k p) (run_steps env po request (job_vocabulary j) (drop k automatic_steps) i)
    (\<lambda>status \<sigma>. status = PubApplied \<and> reached j 7 \<sigma>) (publish_inv j)"
  using assms(2-4)
proof (induction "7 - k" arbitrary: k p i rule: less_induct)
  case less
  show ?case
  proof (cases "k < 7")
    case False
    then have k: "k = 7" using less.prems(1) by (simp add: at_stage_def)
    have d: "desired_after j 7 q = q" for q by (simp add: desired_after_def)
    have "target j (Suc 7) = target j 7" unfolding target.simps by (rule d)
    then have "p = target j 7" using less.prems(1) unfolding k at_stage_def d by blast
    then have "midway j k p \<sigma> \<Longrightarrow> reached j 7 \<sigma>" for \<sigma> using k d by (simp add: midway_def reached_def)
    then show ?thesis using k seven_steps by (simp add: triple_give)
  next
    case True
    have drop: "drop k automatic_steps = automatic_steps ! k # drop (Suc k) automatic_steps"
      using True seven_steps by (simp add: Cons_nth_drop_Suc)
    have todo: "automatic_steps ! k \<notin> set (pi_completed_steps i)"
      using steps_fresh [OF True] less.prems(3) by (simp add: progress_of_def stage_progress_def)
    have id: "pi_intent_id i = jb_id j" using less.prems(2) by (simp add: row_of_job_def)
    note step = reconcile_step_triple [OF ok less.prems(1) True less.prems(2,3) request]
    have again: "triple (reached j (Suc k))
        (and_then (reload_intent env (jb_id j)) (run_steps env po request (job_vocabulary j) (drop (Suc k) automatic_steps)))
        (\<lambda>status \<sigma>. status = PubApplied \<and> reached j 7 \<sigma>) (publish_inv j)"
    proof (rule triple_and_then)
      show "triple (reached j (Suc k)) (reload_intent env (jb_id j))
          (\<lambda>i \<sigma>. (row_of_job j i \<and> progress_of i = stage_progress (Suc k) (target j (Suc k)))
             \<and> midway j (Suc k) (target j (Suc k)) \<sigma>) (publish_inv j)"
        by (rule triple_weaken [OF reload_triple [of j "stage_progress (Suc k) (target j (Suc k))" "sees j (target j (Suc k))"]])
          (auto simp: reached_def midway_def simp del: target.simps)
      show "triple (\<lambda>\<sigma>. (row_of_job j i' \<and> progress_of i' = stage_progress (Suc k) (target j (Suc k)))
             \<and> midway j (Suc k) (target j (Suc k)) \<sigma>)
          (run_steps env po request (job_vocabulary j) (drop (Suc k) automatic_steps) i')
          (\<lambda>status \<sigma>. status = PubApplied \<and> reached j 7 \<sigma>) (publish_inv j)" for i'
        using True by (intro triple_assume less.hyps target_at_stage) auto
    qed
    have rest: "triple (\<lambda>\<sigma>. status = (if k = 6 then PubApplied else PubPending) \<and> reached j (Suc k) \<sigma>)
        (if status = PubPending
         then and_then (reload_intent env (pi_intent_id i))
                (run_steps env po request (job_vocabulary j) (drop (Suc k) automatic_steps))
         else give status)
        (\<lambda>status \<sigma>. status = PubApplied \<and> reached j 7 \<sigma>) (publish_inv j)" for status
      by (rule triple_assume) (use again id in \<open>auto intro: triple_give simp del: target.simps\<close>)
    show ?thesis
      unfolding drop using todo triple_and_then [OF step rest] by (simp del: target.simps)
  qed
qed

lemma run_steps_skip:
  assumes "pi_completed_steps i = take k automatic_steps"
  shows "run_steps env po request V automatic_steps i = run_steps env po request V (drop k automatic_steps) i"
proof -
  have "set past \<subseteq> set (pi_completed_steps i) \<Longrightarrow>
      run_steps env po request V (past @ rest) i = run_steps env po request V rest i" for past rest
    by (induction past) auto
  from this [of "take k automatic_steps" "drop k automatic_steps"] assms show ?thesis by simp
qed

text \<open>What a pass does once it has loaded a publication that is still pending.\<close>

definition from_intent ::
    "factory_env \<Rightarrow> github_port \<Rightarrow> job \<Rightarrow> automatic_publish_request \<Rightarrow> publication_intent_row \<Rightarrow> publication_status action" where
  "from_intent env po j request intent =
     and_then (ensure_baseline env po intent (ap_issue_number request) (job_vocabulary j))
       (\<lambda>_. and_then (reload_intent env (pi_intent_id intent))
          (run_steps env po request (job_vocabulary j) automatic_steps))"

lemma reconcile_automatic_from:
  assumes "stored j i \<sigma>" and "row_of_job j i" and "request_for j request"
  shows "reconcile_automatic env po request \<sigma> =
    (if pi_status i = PubApplied \<or> pi_status i = PubConflict \<or> pi_status i = PubBlocked
     then (Inr (pi_status i), \<sigma>) else from_intent env po j request i \<sigma>)"
  using get_stored [OF assms(1,2), of env] assms(2,3)
  by (simp add: reconcile_automatic_def Let_def request_for_def and_then_def from_store_def give_def
      row_of_job_def from_intent_def job_vocabulary_def)

lemma reload_and_run_triple:
  assumes ok: "job_ok env po j" and request: "request_for j request" and stage: "at_stage j k p"
  shows "triple (midway j k p)
    (and_then (reload_intent env (jb_id j)) (run_steps env po request (job_vocabulary j) automatic_steps))
    (\<lambda>status \<sigma>. status = PubApplied \<and> reached j 7 \<sigma>) (publish_inv j)"
proof (rule triple_and_then)
  show "triple (midway j k p) (reload_intent env (jb_id j))
      (\<lambda>i \<sigma>. (row_of_job j i \<and> progress_of i = stage_progress k p) \<and> midway j k p \<sigma>) (publish_inv j)"
    by (rule triple_weaken [OF reload_triple [of j "stage_progress k p"
          "\<lambda>\<sigma>. sees j p \<sigma> \<or> sees j (desired_after j k p) \<sigma>"]]) (auto simp: midway_def)
  show "triple (\<lambda>\<sigma>. (row_of_job j i \<and> progress_of i = stage_progress k p) \<and> midway j k p \<sigma>)
      (run_steps env po request (job_vocabulary j) automatic_steps i)
      (\<lambda>status \<sigma>. status = PubApplied \<and> reached j 7 \<sigma>) (publish_inv j)" for i
    using run_steps_triple [OF ok stage _ _ request, of i]
    by (intro triple_assume) (simp add: run_steps_skip progress_of_def stage_progress_def)
qed

lemma resume_triple:
  assumes ok: "job_ok env po j" and request: "request_for j request" and stage: "at_stage j k p"
    and row: "row_of_job j i" and progress: "progress_of i = stage_progress k p"
  shows "triple (midway j k p) (from_intent env po j request i)
    (\<lambda>status \<sigma>. status = PubApplied \<and> reached j 7 \<sigma>) (publish_inv j)"
proof -
  have id: "pi_intent_id i = jb_id j" using row by (simp add: row_of_job_def)
  have "projection_from_json (pi_observed_baseline i) \<noteq> None"
    using progress by (simp add: progress_of_def stage_progress_def)
  then have base: "triple (midway j k p) (ensure_baseline env po i (ap_issue_number request) (job_vocabulary j))
      (\<lambda>_. midway j k p) (publish_inv j)" by (simp add: ensure_baseline_def triple_give)
  show ?thesis
    unfolding from_intent_def id by (rule triple_and_then [OF base reload_and_run_triple [OF ok request stage]])
qed

definition fresh_progress :: "managed_projection option \<Rightarrow> progress" where
  "fresh_progress e = \<lparr> pg_steps = [], pg_status = PubPending, pg_expected = e, pg_based = False \<rparr>"

lemma set_baseline_triple:
  assumes ok: "job_ok env po j"
  shows "triple (\<lambda>\<sigma>. holds j (fresh_progress e) \<sigma> \<and> sees j (job_baseline j) \<sigma>)
    (on_store po (\<lambda>now. set_publication_baseline env now (jb_id j)
       (projection_to_json (job_baseline j)) (projection_to_json (job_baseline j))))
    (\<lambda>_. midway j 0 (job_baseline j)) R"
proof -
  have fin: "finite (mp_managed_labels (job_baseline j))" by (simp add: job_baseline_def)
  have fits: "recordable j (job_baseline j)" using target_recordable [OF ok, of 0] by simp
  have eff: "\<exists>\<sigma>'. on_store po (\<lambda>now. set_publication_baseline env now (jb_id j)
       (projection_to_json (job_baseline j)) (projection_to_json (job_baseline j))) \<sigma> = (Inr (), \<sigma>')
      \<and> midway j 0 (job_baseline j) \<sigma>'"
    if H: "holds j (fresh_progress e) \<sigma>" "sees j (job_baseline j) \<sigma>" for \<sigma>
  proof -
    obtain q where q: "stored j q \<sigma>" "row_of_job j q" "progress_of q = fresh_progress e"
      using H(1) unfolding holds_def by blast
    let ?f = "\<lambda>x. x\<lparr> pi_observed_baseline := projection_to_json (job_baseline j),
        pi_expected_projection := projection_to_json (job_baseline j),
        pi_updated_at := po_clock po (pb_ticks \<sigma>) \<rparr>"
    have "row_of_job j (?f q)" "progress_of (?f q) = stage_progress 0 (job_baseline j)"
      using q(2,3) projection_json_roundtrip [OF fin]
      by (simp_all add: row_of_job_def progress_of_def stage_progress_def fresh_progress_def)
    then show ?thesis
      using changed_stored [OF q(1)] stored_update [OF q(1), of ?f] H(2)
      by (auto simp: on_store_def set_publication_baseline_def bounded_ok [OF ok fits] update_intent_def
          midway_def holds_def Let_def)
  qed
  show ?thesis by (rule tripleI) (use eff in \<open>fastforce\<close>)+
qed

lemma begin_triple:
  assumes ok: "job_ok env po j" and request: "request_for j request"
    and row: "row_of_job j i" and progress: "progress_of i = fresh_progress e"
  shows "triple (\<lambda>\<sigma>. holds j (fresh_progress e) \<sigma> \<and> sees j (job_baseline j) \<sigma>) (from_intent env po j request i)
    (\<lambda>status \<sigma>. status = PubApplied \<and> reached j 7 \<sigma>) (publish_inv j)"
proof -
  have sub: "mp_managed_labels (job_baseline j) \<subseteq> job_vocabulary j" by (simp add: job_baseline_def)
  have id: "pi_intent_id i = jb_id j" and n: "ap_issue_number request = jb_issue j"
    using row request by (simp_all add: row_of_job_def request_for_def)
  have observe: "triple (\<lambda>\<sigma>. holds j (fresh_progress e) \<sigma> \<and> sees j (job_baseline j) \<sigma>)
      (observe_current po (jb_issue j) (job_vocabulary j))
      (\<lambda>current \<sigma>. current = job_baseline j \<and> (holds j (fresh_progress e) \<sigma> \<and> sees j (job_baseline j) \<sigma>))
      (publish_inv j)"
    by (rule triple_weaken [OF observe_triple [OF ok sub]]) (auto simp: publish_inv_def fresh_progress_def)
  have "projection_from_json (pi_observed_baseline i) = None"
    using progress by (simp add: progress_of_def fresh_progress_def)
  then have base: "triple (\<lambda>\<sigma>. holds j (fresh_progress e) \<sigma> \<and> sees j (job_baseline j) \<sigma>)
      (ensure_baseline env po i (ap_issue_number request) (job_vocabulary j))
      (\<lambda>_. midway j 0 (job_baseline j)) (publish_inv j)"
    unfolding ensure_baseline_def id n using set_baseline_triple [OF ok]
    by (simp, intro triple_and_then [OF observe] triple_assume) simp
  have "at_stage j 0 (job_baseline j)" using target_at_stage [of 0 j] by simp
  from reload_and_run_triple [OF ok request this] show ?thesis
    unfolding from_intent_def id by (rule triple_and_then [OF base])
qed

lemma finished_reached:
  assumes "at_stage j 7 p" and "midway j 7 p \<sigma>"
  shows "reached j 7 \<sigma>"
proof -
  have d: "desired_after j 7 q = q" for q by (simp add: desired_after_def)
  have "target j (Suc 7) = target j 7" unfolding target.simps by (rule d)
  then have "p = target j 7" using assms(1) unfolding at_stage_def d by blast
  then show ?thesis using assms(2) by (simp add: midway_def reached_def d)
qed

lemma publish_inv_cases:
  assumes "publish_inv j \<sigma>"
  obtains (fresh) e i where "stored j i \<sigma>" "row_of_job j i" "progress_of i = fresh_progress e"
      "holds j (fresh_progress e) \<sigma>" "sees j (job_baseline j) \<sigma>"
  | (working) k p i where "stored j i \<sigma>" "row_of_job j i" "progress_of i = stage_progress k p"
      "at_stage j k p" "midway j k p \<sigma>" "k \<noteq> 7"
  | (finished) i where "stored j i \<sigma>" "row_of_job j i" "pi_status i = PubApplied" "reached j 7 \<sigma>"
proof -
  from assms consider
      (start) e where "holds j \<lparr> pg_steps = [], pg_status = PubPending, pg_expected = e, pg_based = False \<rparr> \<sigma>"
        "sees j (job_baseline j) \<sigma>"
    | (later) k p where "at_stage j k p" "holds j (stage_progress k p) \<sigma>"
        "sees j p \<sigma> \<or> sees j (desired_after j k p) \<sigma>"
    unfolding publish_inv_def by blast
  then show thesis
  proof cases
  case (start e)
  note h = start(1) and s = start(2)
  have "holds j (fresh_progress e) \<sigma>" using h by (simp add: fresh_progress_def)
  with s show thesis unfolding holds_def using fresh [of _ e] holds_def by blast
next
  case (later k p)
  note st = later(1) and h = later(2) and s = later(3)
  have m: "midway j k p \<sigma>" using h s by (simp add: midway_def)
  obtain i where i: "stored j i \<sigma>" "row_of_job j i" "progress_of i = stage_progress k p"
    using h unfolding holds_def by blast
  show thesis
  proof (cases "k = 7")
    case True
    have "pi_status i = PubApplied" using i(3) True by (simp add: progress_of_def stage_progress_def)
    with i finished_reached [of j p \<sigma>] st m True show thesis by (intro finished) auto
  next
    case False
    with i st m show thesis by (intro working)
  qed
  qed
qed

text \<open>One pass of the publisher keeps the invariant and never reports a conflict; when it ends
  without an error the publication has reached its last stage.\<close>

lemma reconcile_automatic_triple:
  assumes ok: "job_ok env po j" and request: "request_for j request"
  shows "triple (publish_inv j) (reconcile_automatic env po request)
    (\<lambda>status \<sigma>. status = PubApplied \<and> reached j 7 \<sigma>) (publish_inv j)"
  unfolding triple_def
proof (intro allI impI)
  fix \<sigma> assume "publish_inv j \<sigma>"
  then show "case reconcile_automatic env po request \<sigma> of (Inl e, \<sigma>') \<Rightarrow> publish_inv j \<sigma>'
      | (Inr status, \<sigma>') \<Rightarrow> status = PubApplied \<and> reached j 7 \<sigma>'"
  proof (cases rule: publish_inv_cases)
    case (fresh e i)
    have "reconcile_automatic env po request \<sigma> = from_intent env po j request i \<sigma>"
      using reconcile_automatic_from [OF fresh(1,2) request] fresh(3) by (simp add: progress_of_def fresh_progress_def)
    then show ?thesis using begin_triple [OF ok request fresh(2,3)] fresh(4,5) unfolding triple_def by simp
  next
    case (working k p i)
    have "reconcile_automatic env po request \<sigma> = from_intent env po j request i \<sigma>"
      using reconcile_automatic_from [OF working(1,2) request] working(3,6)
      by (simp add: progress_of_def stage_progress_def)
    then show ?thesis using resume_triple [OF ok request working(4,2,3)] working(5) unfolding triple_def by simp
  next
    case (finished i)
    then show ?thesis using reconcile_automatic_from [OF finished(1,2) request] by simp
  qed
qed

section \<open>Passes\<close>

fun passes :: "factory_env \<Rightarrow> github_port \<Rightarrow> automatic_publish_request \<Rightarrow> nat \<Rightarrow> publish_state \<Rightarrow> publish_state" where
  "passes env po request 0 \<sigma> = \<sigma>"
| "passes env po request (Suc m) \<sigma> = snd (reconcile_automatic env po request (passes env po request m \<sigma>))"

lemma reached_last_inv: "reached j 7 \<sigma> \<Longrightarrow> publish_inv j \<sigma>"
  by (rule reached_inv) simp_all

lemma passes_inv:
  assumes "job_ok env po j" and "request_for j request" and "publish_inv j \<sigma>"
  shows "publish_inv j (passes env po request m \<sigma>)"
proof (induction m)
  case (Suc m)
  let ?\<sigma> = "passes env po request m \<sigma>"
  obtain r \<sigma>' where run: "reconcile_automatic env po request ?\<sigma> = (r, \<sigma>')"
    by (cases "reconcile_automatic env po request ?\<sigma>")
  note t = reconcile_automatic_triple [OF assms(1,2)]
  have "publish_inv j \<sigma>'"
  proof (cases r)
    case (Inl e)
    then show ?thesis using triple_error [OF t Suc.IH] run by blast
  next
    case (Inr st)
    then show ?thesis using triple_value [OF t Suc.IH] run reached_last_inv by blast
  qed
  then show ?case using run by simp
qed (use assms in simp)

lemma target_last:
  assumes "normalize_managed_value (jb_route j) \<in> managed_label_set (jb_managed j)"
  shows "(jb_labels j - job_vocabulary j) \<union> mp_managed_labels (target j 7) =
      insert (normalize_managed_value (jb_route j)) (jb_labels j)
        - (managed_label_set (jb_managed j) - {normalize_managed_value (jb_route j)})
        - ({normalize_managed_value (jb_intake j)} - {[]})"
    and "mp_project_state (target j 7) =
      (case jb_state j of None \<Rightarrow> jb_start j | Some s \<Rightarrow> nonblank (Some (normalize_managed_value s)))"
proof -
  let ?r = "normalize_managed_value (jb_route j)" and ?i = "normalize_managed_value (jb_intake j)"
  have two: "target j 2 = with_label (job_baseline j) (jb_route j)"
    by (simp add: eval_nat_numeral desired_after_def)
  have three: "target j 3 = (case jb_state j of None \<Rightarrow> target j 2 | Some s \<Rightarrow> with_project_state (target j 2) s)"
    using target.simps(2) [of j 2] by (simp add: desired_after_def)
  have four: "target j 4 = (target j 3)\<lparr> mp_managed_labels := mp_managed_labels (target j 3) - removal j 3 \<rparr>"
    using target.simps(2) [of j 3] by (simp add: desired_removal)
  have five: "target j 5 = target j 4" using target.simps(2) [of j 4] by (simp add: desired_after_def)
  have six: "target j 6 = without_label (target j 5) (jb_intake j)"
    using target.simps(2) [of j 5] by (simp add: desired_after_def)
  have seven: "target j 7 = target j 6" using target.simps(2) [of j 6] by (simp add: desired_after_def)
  have l3: "mp_managed_labels (target j 3) = insert ?r (jb_labels j \<inter> job_vocabulary j)"
    unfolding three two
    by (simp add: with_label_def with_project_state_def job_baseline_def Let_def split: option.split)
  have l7: "mp_managed_labels (target j 7)
      = insert ?r (jb_labels j \<inter> job_vocabulary j) - removal j 3 - {?i}"
    unfolding seven six five four by (simp add: without_label_def l3)
  have rem: "removal j 3 = managed_label_set (jb_managed j) - {?r}" by (auto simp: removal_def)
  have v: "job_vocabulary j = managed_label_set (jb_managed j) \<union> ({?i} - {[]})"
    by (auto simp: job_vocabulary_def publication_vocabulary_def Let_def simp flip: normalize_managed_value_def)
  have "[] \<notin> managed_label_set (jb_managed j)" by (simp add: managed_label_set_def)
  then show "(jb_labels j - job_vocabulary j) \<union> mp_managed_labels (target j 7) =
      insert ?r (jb_labels j) - (managed_label_set (jb_managed j) - {?r}) - ({?i} - {[]})"
    using assms unfolding l7 rem v by auto
  show "mp_project_state (target j 7) =
      (case jb_state j of None \<Rightarrow> jb_start j | Some s \<Rightarrow> nonblank (Some (normalize_managed_value s)))"
    unfolding seven six five four three two
    by (simp add: without_label_def with_label_def with_project_state_def nonblank_def job_baseline_def Let_def
        split: option.split)
qed

section \<open>A lost reply between two removals\<close>

lemma not_isl: "\<not> isl r \<Longrightarrow> \<exists>a. r = Inr a"
  by (cases r) auto

lemma observe_exact:
  assumes "undisturbed po (jb_issue j) (jb_lost j) (jb_labels j) (jb_start j)"
    and sub: "mp_managed_labels p \<subseteq> job_vocabulary j" and "sees j p \<sigma>"
    and "\<forall>h. \<not> isl (po_list_issue_labels po (jb_issue j) h) \<and> \<not> isl (po_issue_project_state po (jb_issue j) h)"
  shows "observe_current po (jb_issue j) (job_vocabulary j) \<sigma> =
    (Inr p, \<sigma>\<lparr> pb_history := pb_history \<sigma> @ [(CallListLabels (jb_issue j), True), (CallProjectState (jb_issue j), True)] \<rparr>)"
proof -
  let ?h = "pb_history \<sigma> @ [(CallListLabels (jb_issue j), True)]"
  obtain ls where ls: "po_list_issue_labels po (jb_issue j) (pb_history \<sigma>) = Inr ls"
    using assms(4) not_isl by blast
  obtain st where st: "po_issue_project_state po (jb_issue j) ?h = Inr st"
    using assms(4) not_isl by blast
  have "sees j p (\<sigma>\<lparr> pb_history := ?h \<rparr>)"
    by (rule sees_quiet_call [OF assms(3)]) (simp_all add: label_effect_def state_effect_def)
  then have "nonblank (map_option normalize_managed_value st) = mp_project_state p"
    using assms(1) st by (simp add: undisturbed_def sees_def)
  moreover have "normalize_managed_value ` set ls = (jb_labels j - job_vocabulary j) \<union> mp_managed_labels p"
    using assms(1,3) ls by (simp add: undisturbed_def sees_def)
  ultimately have "projection_observe ls (job_vocabulary j) st = p"
    using sub by (intro projection_eqI) (auto simp: projection_observe_def)
  then show ?thesis
    using ls st by (simp add: observe_current_def and_then_def ask_def give_def Let_def)
qed

lemma pass_at_stage:
  assumes i: "stored j i \<sigma>" "row_of_job j i" and request: "request_for j request"
    and "progress_of i = stage_progress 3 p"
  shows "fst (reconcile_automatic env po request \<sigma>) =
      (case reconcile_mutation env po (jb_id j) (jb_issue j) (job_vocabulary j) p (desired_after j 3 p)
          conflict_cleanup_step (job_mutation j 3 p) \<sigma> of
        (Inl e, _) \<Rightarrow> Inl e
      | (Inr OutcomeConflict, _) \<Rightarrow> Inr PubConflict
      | (Inr OutcomeDone, \<sigma>') \<Rightarrow> fst (and_then (reload_intent env (jb_id j))
          (run_steps env po request (job_vocabulary j) (drop 4 automatic_steps)) \<sigma>'))"
    and "reconcile_mutation env po (jb_id j) (jb_issue j) (job_vocabulary j) p (desired_after j 3 p)
          conflict_cleanup_step (job_mutation j 3 p) \<sigma> = (Inl e, \<sigma>')
      \<Longrightarrow> snd (reconcile_automatic env po request \<sigma>) = \<sigma>'"
proof -
  have facts: "pi_completed_steps i = take 3 automatic_steps" "pi_status i = PubPending"
    "projection_from_json (pi_observed_baseline i) \<noteq> None" "projection_from_json (pi_expected_projection i) = Some p"
    using assms(4) by (simp_all add: progress_of_def stage_progress_def)
  have ids: "pi_intent_id i = jb_id j" "pi_route_label i = jb_route j"
    "ap_issue_number request = jb_issue j" "ap_managed_labels request = jb_managed j"
    using i(2) request by (simp_all add: row_of_job_def request_for_def)
  have reload: "reload_intent env (jb_id j) \<sigma> = (Inr i, \<sigma>)"
    using get_stored [OF i, of env] by (simp add: reload_intent_def and_then_def from_store_def give_def)
  have split: "drop 3 automatic_steps = conflict_cleanup_step # drop 4 automatic_steps"
    and todo: "conflict_cleanup_step \<notin> set (pi_completed_steps i)"
    unfolding facts(1) by code_simp+
  have step: "reconcile_step env po request (job_vocabulary j) i conflict_cleanup_step =
      and_then (reconcile_mutation env po (jb_id j) (jb_issue j) (job_vocabulary j) p (desired_after j 3 p)
          conflict_cleanup_step (job_mutation j 3 p)) (\<lambda>outcome. give (outcome_status outcome))"
    by (simp add: reconcile_step_def Let_def facts(4) ids step_names desired_after_def job_mutation_def)
  have run: "reconcile_automatic env po request \<sigma> =
      and_then (reconcile_step env po request (job_vocabulary j) i conflict_cleanup_step)
        (\<lambda>status. if status = PubPending
           then and_then (reload_intent env (jb_id j))
                  (run_steps env po request (job_vocabulary j) (drop 4 automatic_steps))
           else give status) \<sigma>"
    using facts todo reload run_steps_skip [OF facts(1)] ids(1)
    by (simp add: reconcile_automatic_from [OF i request] from_intent_def ensure_baseline_def and_then_def
        give_def ids split cong: if_cong)
  show "fst (reconcile_automatic env po request \<sigma>) =
      (case reconcile_mutation env po (jb_id j) (jb_issue j) (job_vocabulary j) p (desired_after j 3 p)
          conflict_cleanup_step (job_mutation j 3 p) \<sigma> of
        (Inl e, _) \<Rightarrow> Inl e
      | (Inr OutcomeConflict, _) \<Rightarrow> Inr PubConflict
      | (Inr OutcomeDone, \<sigma>') \<Rightarrow> fst (and_then (reload_intent env (jb_id j))
          (run_steps env po request (job_vocabulary j) (drop 4 automatic_steps)) \<sigma>'))"
    unfolding run step
    by (auto simp: and_then_def give_def outcome_status_def split: prod.split sum.split step_outcome.split)
  show "snd (reconcile_automatic env po request \<sigma>) = \<sigma>'"
    if "reconcile_mutation env po (jb_id j) (jb_issue j) (job_vocabulary j) p (desired_after j 3 p)
          conflict_cleanup_step (job_mutation j 3 p) \<sigma> = (Inl e, \<sigma>')"
    unfolding run step by (simp add: and_then_def that)
qed

end
