(* ===== verification/PublisherProperties.thy ===== *)
theory PublisherProperties
  imports PublisherFacts FactoryProperties
begin

text \<open>
  What automatic publication guarantees when nobody else touches the issue, and where it does
  not: failing calls and lost replies are survived, but a reply lost between two removals of
  labels is taken for a conflict.
\<close>

section \<open>Failures are survived\<close>

text \<open>C38. Let nobody else change the issue, and let calls to GitHub fail at any point; let replies
  be lost only if at most one other route label has to be removed (C39 shows what happens otherwise);
  and let the JSON of the labels and the project state the publication records fit into the column that
  takes it. However often the publication
  is taken up again, it is never reported as a conflict; and when a pass ends without an error it
  is applied: the issue has gained the route label, lost the other route labels and the intake
  label, kept every other label, and has the project state decided on.\<close>

theorem publication_survives_failures:
  assumes "undisturbed po issue lost labels start"
    and "normalize_managed_value route \<in> managed_label_set managed"
    and "(\<forall>h. \<not> lost h) \<or> card (managed_label_set managed \<inter> labels - {normalize_managed_value route}) \<le> 1"
    and "\<forall>p. mp_managed_labels p \<subseteq> publication_vocabulary managed (pi_intake_label i)
           \<and> (mp_project_state p = start \<or> mp_project_state p = decided_state (pi_project_state i))
           \<longrightarrow> utf8_len (fenv_json_text env (projection_to_json p)) \<le> 65536"
    and "pi_intent_id (pr_row (ap_intent request)) = pi_intent_id i"
    and "pi_mode (pr_row (ap_intent request)) = PublishAutomatic"
    and "ap_issue_number request = issue" and "ap_managed_labels request = managed"
    and "find_intent (pb_store \<sigma>) (pi_intent_id i) = Some i"
    and "pi_mode i = PublishAutomatic" and "pi_route_label i = route" and "pi_status i = PubPending"
    and "pi_completed_steps i = []" and "pi_last_error_json i = None"
    and "projection_from_json (pi_observed_baseline i) = None"
    and "pb_history \<sigma> = []"
  shows "(\<exists>q. find_intent (pb_store (passes env po request m \<sigma>)) (pi_intent_id i) = Some q
           \<and> pi_status q \<noteq> PubConflict)
    \<and> (case reconcile_automatic env po request (passes env po request m \<sigma>) of
         (Inl e, _) \<Rightarrow> True
       | (Inr status, \<sigma>') \<Rightarrow>
           status = PubApplied
           \<and> github_after issue lost [] (pb_history \<sigma>') (labels, start) =
              (insert (normalize_managed_value route) labels
                 - (managed_label_set managed - {normalize_managed_value route})
                 - ({normalize_managed_value (pi_intake_label i)} - {[]}),
               (case pi_project_state i of None \<Rightarrow> start
                | Some s \<Rightarrow> nonblank (Some (normalize_managed_value s)))))"
proof -
  define j where "j = \<lparr> jb_id = pi_intent_id i, jb_issue = issue, jb_route = route,
      jb_intake = pi_intake_label i, jb_state = pi_project_state i, jb_managed = managed, jb_lost = lost,
      jb_labels = labels, jb_start = start \<rparr>"
  have conflicts: "job_conflicts j = managed_label_set managed \<inter> labels - {normalize_managed_value route}"
    by (auto simp: job_conflicts_def j_def)
  have "finite (job_conflicts j)" by (simp add: job_conflicts_def)
  then have "card (job_conflicts j) \<le> 1 \<Longrightarrow> \<forall>a\<in>job_conflicts j. \<forall>b\<in>job_conflicts j. a = b"
    by (simp add: card_le_Suc0_iff_eq)
  then have ok: "job_ok env po j"
    using assms(1-4) unfolding job_ok_def conflicts [symmetric] factory_event_payload_max_bytes_def
    by (auto simp: j_def recordable_def job_vocabulary_def)
  have request: "request_for j request" using assms(5-8) by (simp add: request_for_def j_def)
  have "holds j (fresh_progress (projection_from_json (pi_expected_projection i))) \<sigma>"
    using assms(9-15) by (auto simp: holds_def stored_def row_of_job_def progress_of_def fresh_progress_def j_def)
  moreover have "sees j (job_baseline j) \<sigma>"
    using assms(16) by (auto simp: sees_def job_baseline_def j_def)
  ultimately have "publish_inv j \<sigma>" unfolding publish_inv_def fresh_progress_def by blast
  from passes_inv [OF ok request this] have inv: "publish_inv j (passes env po request m \<sigma>)" .
  then have "\<exists>q. find_intent (pb_store (passes env po request m \<sigma>)) (pi_intent_id i) = Some q
      \<and> pi_status q \<noteq> PubConflict"
    by (cases rule: publish_inv_cases)
      (auto simp: stored_def j_def progress_of_def fresh_progress_def stage_progress_def)
  moreover have "case reconcile_automatic env po request (passes env po request m \<sigma>) of
      (Inl e, _) \<Rightarrow> True | (Inr status, \<sigma>') \<Rightarrow> status = PubApplied \<and> reached j 7 \<sigma>'"
    using reconcile_automatic_triple [OF ok request] inv unfolding triple_def
    by (auto split: prod.splits sum.splits)
  moreover have "github_after issue lost [] (pb_history \<sigma>') (labels, start) =
      (insert (normalize_managed_value route) labels
         - (managed_label_set managed - {normalize_managed_value route})
         - ({normalize_managed_value (pi_intake_label i)} - {[]}),
       (case pi_project_state i of None \<Rightarrow> start
        | Some s \<Rightarrow> nonblank (Some (normalize_managed_value s))))" if "reached j 7 \<sigma>'" for \<sigma>'
  proof -
    have f: "jb_issue j = issue" "jb_lost j = lost" "jb_labels j = labels" "jb_start j = start"
      "jb_route j = route" "jb_managed j = managed" "jb_intake j = pi_intake_label i"
      "jb_state j = pi_project_state i" by (simp_all add: j_def)
    have "sees j (target j 7) \<sigma>'" using that by (simp add: reached_def)
    then show ?thesis
      using target_last [of j] assms(2) unfolding sees_def f by simp
  qed
  ultimately show ?thesis by (auto split: prod.splits sum.splits)
qed

section \<open>A small GitHub\<close>

text \<open>A GitHub that answers with what the history did to the issue, where the call after a given
  history fails without a reply.\<close>

definition small_reply :: "(history \<Rightarrow> bool) \<Rightarrow> 'a \<Rightarrow> history \<Rightarrow> symphony_error + 'a" where
  "small_reply lost a h = (if lost h then Inl (TriageError ''timeout'') else Inr a)"

definition small_comment :: github_issue_comment where
  "small_comment = \<lparr> gc_id = 7, gc_user_login = Some ''bot'', gc_body = None, gc_html_url = None,
       gc_created_at = None, gc_updated_at = None \<rparr>"

fun added_labels :: "history \<Rightarrow> string list" where
  "added_labels [] = []"
| "added_labels ((CallAddLabel n l, ok) # h) = normalize_managed_value l # added_labels h"
| "added_labels (_ # h) = added_labels h"

definition small_port :: "(history \<Rightarrow> bool) \<Rightarrow> string list \<Rightarrow> github_port" where
  "small_port lost labels =
     \<lparr> po_login = small_reply lost ''bot'', po_list_comments = (\<lambda>_ _. small_reply lost []),
       po_get_comment = (\<lambda>_. small_reply lost small_comment),
       po_create_comment = (\<lambda>_ _. small_reply lost small_comment),
       po_update_comment = (\<lambda>_ _. small_reply lost small_comment),
       po_list_issue_labels =
         (\<lambda>n h. Inr (filter (\<lambda>l. l \<in> fst (github_after n lost [] h (set labels, None)))
            (labels @ added_labels h))),
       po_issue_project_state = (\<lambda>n h. Inr (snd (github_after n lost [] h (set labels, None)))),
       po_add_issue_label = (\<lambda>_ _. small_reply lost ()),
       po_remove_issue_label = (\<lambda>_ _. small_reply lost ()),
       po_set_issue_project_state = (\<lambda>_ _. small_reply lost ()), po_clock = int \<rparr>"

lemma added_labels_cases:
  "added_labels (e # h) =
     (case fst e of CallAddLabel n l \<Rightarrow> normalize_managed_value l # added_labels h | _ \<Rightarrow> added_labels h)"
  by (cases e; cases "fst e") auto

lemma label_effect_added:
  "label_effect n c L \<subseteq> L \<union> set (added_labels [(c, ok)])"
  by (cases c) (auto simp: label_effect_def)

lemma labels_are_added:
  "fst (github_after n lost past h (L, s)) \<subseteq> L \<union> set (added_labels h)"
proof (induction h arbitrary: past L s)
  case (Cons e h)
  obtain c ok where e: "e = (c, ok)" by (cases e)
  have "set (added_labels (e # h)) = set (added_labels [(c, ok)]) \<union> set (added_labels h)"
    by (cases c) (simp_all add: e)
  moreover have "fst (github_after n lost past (e # h) (L, s))
      \<in> {fst (github_after n lost (past @ [e]) h (label_effect n c L, state_effect n c s)),
         fst (github_after n lost (past @ [e]) h (L, s))}"
    by (simp add: e)
  ultimately show ?case
    using Cons [of "past @ [e]" "label_effect n c L" "state_effect n c s"]
      Cons [of "past @ [e]" L s] label_effect_added [of n c L ok] by blast
qed simp

lemma added_normalized: "l \<in> set (added_labels h) \<Longrightarrow> normalize_managed_value l = l"
  by (induction h rule: added_labels.induct) auto

lemma nonblank_normalized:
  "nonblank (map_option normalize_managed_value (nonblank (Some (normalize_managed_value t))))
     = nonblank (Some (normalize_managed_value t))"
  by (simp add: nonblank_def)

lemma state_normalized:
  assumes "nonblank (map_option normalize_managed_value s) = s"
  shows "nonblank (map_option normalize_managed_value (snd (github_after n lost past h (L, s))))
    = snd (github_after n lost past h (L, s))"
  using assms
proof (induction h arbitrary: past L s)
  case (Cons e h)
  obtain c ok where e: "e = (c, ok)" by (cases e)
  have "nonblank (map_option normalize_managed_value (state_effect n c s)) = state_effect n c s"
    using Cons.prems nonblank_normalized by (simp add: state_effect_def split: github_call.split)
  then show ?case using Cons by (simp add: e)
qed simp

lemma small_undisturbed:
  assumes "\<forall>l\<in>set labels. normalize_managed_value l = l"
  shows "undisturbed (small_port lost labels) n lost (set labels) None"
proof -
  have "normalize_managed_value ` {l \<in> set (labels @ added_labels h). l \<in> L} = L"
    if "L \<subseteq> set labels \<union> set (added_labels h)" for h L
  proof -
    have "normalize_managed_value l = l" if "l \<in> set (labels @ added_labels h)" for l
      using that assms added_normalized by auto
    then have "normalize_managed_value ` {l \<in> set (labels @ added_labels h). l \<in> L}
        = {l \<in> set (labels @ added_labels h). l \<in> L}" by force
    with that show ?thesis by auto
  qed
  note shown = this [OF labels_are_added]
  have state: "nonblank (map_option normalize_managed_value (snd (github_after n lost [] h (L, None))))
      = snd (github_after n lost [] h (L, None))" for h L
    by (rule state_normalized) (simp add: nonblank_def)
  show ?thesis
    unfolding undisturbed_def
  proof (intro conjI allI impI)
    fix h ls assume "po_list_issue_labels (small_port lost labels) n h = Inr ls"
    then have "ls = filter (\<lambda>l. l \<in> fst (github_after n lost [] h (set labels, None))) (labels @ added_labels h)"
      by (simp add: small_port_def)
    then show "normalize_managed_value ` set ls = fst (github_after n lost [] h (set labels, None))"
      using shown [of h n lost "[]" None] by (simp only: set_filter)
  next
    fix h st assume "po_issue_project_state (small_port lost labels) n h = Inr st"
    then have "st = snd (github_after n lost [] h (set labels, None))" by (simp add: small_port_def)
    then show "nonblank (map_option normalize_managed_value st)
        = snd (github_after n lost [] h (set labels, None))" using state by simp
  qed
qed

section \<open>The witness\<close>

definition small_intent :: publication_intent_row where
  "small_intent =
     \<lparr> pi_intent_id = ''i1'', pi_run_id = ''run'', pi_artifact_id = None, pi_mode = PublishAutomatic,
       pi_status = PubPending, pi_intake_label = ''triage'', pi_route_label = ''go'',
       pi_project_state = None, pi_route_mapping_hash = '''', pi_completed_steps = [],
       pi_retry_count = 0, pi_last_error_json = None, pi_comment_id = None, pi_publisher_login = None,
       pi_desired_effects = JNull, pi_observed_baseline = JNull, pi_expected_projection = JNull,
       pi_created_at = 0, pi_updated_at = 0 \<rparr>"

definition small_artifact :: triage_artifact where
  "small_artifact =
     \<lparr> ta_schema_version = 1, ta_route = RouteImplement, ta_risk_class = RiskLow, ta_rationale = ''r'',
       ta_evidence = [], ta_next_action = ''n'', ta_clarification_question = None, ta_reproduction = None \<rparr>"

definition small_request :: "publication_intent_row \<Rightarrow> string list \<Rightarrow> automatic_publish_request" where
  "small_request i managed =
     \<lparr> ap_intent = \<lparr> pr_row = i, pr_last_error = None \<rparr>, ap_issue_number = 1, ap_run_id = ''run'',
       ap_stage_run_id = ''a1'', ap_attempt = 1, ap_artifact = small_artifact,
       ap_managed_labels = managed, ap_max_pages = 1 \<rparr>"

definition small_publish :: "publication_intent_row \<Rightarrow> publish_state" where
  "small_publish i = \<lparr> pb_store = factory_store_empty\<lparr> fs_intents := [i] \<rparr>, pb_history = [], pb_ticks = 0 \<rparr>"

theorem publication_survives_failures_witness:
  "\<exists>q. find_intent (pb_store (passes small_env (small_port (\<lambda>h. length h = 4) [''other'', ''triage'', ''bug''])
        (small_request small_intent [''go'', ''other'']) 3 (small_publish small_intent))) ''i1'' = Some q
      \<and> pi_status q \<noteq> PubConflict"
proof -
  let ?po = "small_port (\<lambda>h. length h = 4) [''other'', ''triage'', ''bug'']"
  have "\<forall>l\<in>set [''other'', ''triage'', ''bug'']. normalize_managed_value l = l" by code_simp
  then have "undisturbed ?po 1 (\<lambda>h. length h = 4) (set [''other'', ''triage'', ''bug'']) None"
    by (rule small_undisturbed)
  moreover have "normalize_managed_value ''go'' = ''go''" by code_simp
  moreover have "managed_label_set [''go'', ''other''] = {''go'', ''other''}" by code_simp
  moreover have "{''go'', ''other''} \<inter> set [''other'', ''triage'', ''bug''] - {''go''} = {''other''}" by auto
  ultimately show ?thesis
    using publication_survives_failures [of ?po 1 "\<lambda>h. length h = 4" "set [''other'', ''triage'', ''bug'']" None
        "''go''" "[''go'', ''other'']" small_intent small_env "small_request small_intent [''go'', ''other'']"
        "small_publish small_intent" 3]
    by (simp add: small_request_def small_publish_def small_intent_def find_intent_def small_env_def
        factory_store_empty_def projection_from_json_def utf8_len_def char_bytes_def)
qed

text \<open>The reply to the removal of the first of two labels is lost: the pass fails, and the next one
  finds neither the expected nor the desired projection.\<close>

lemma removal_reply_lost:
  assumes world: "undisturbed po (jb_issue j) (jb_lost j) (jb_labels j) (jb_start j)"
    and i: "stored j i \<sigma>" "row_of_job j i" "progress_of i = stage_progress 3 p"
    and request: "request_for j request" and sees: "sees j p \<sigma>"
    and sub: "mp_managed_labels p \<subseteq> job_vocabulary j"
    and ls: "conflicting_route_labels p (jb_managed j) (jb_route j) = a # ls" and b: "b \<in> set ls" "b \<noteq> a"
    and quiet: "\<forall>h. \<not> isl (po_list_issue_labels po (jb_issue j) h) \<and> \<not> isl (po_issue_project_state po (jb_issue j) h)"
    and h: "h = pb_history \<sigma> @ [(CallListLabels (jb_issue j), True), (CallProjectState (jb_issue j), True)]"
    and fails: "po_remove_issue_label po (jb_issue j) a h = Inl e" "jb_lost j h"
  shows "reconcile_automatic env po request \<sigma>
      = (Inl e, \<sigma>\<lparr> pb_history := h @ [(CallRemoveLabel (jb_issue j) a, False)] \<rparr>)"
    and "fst (reconcile_automatic env po request
        (\<sigma>\<lparr> pb_history := h @ [(CallRemoveLabel (jb_issue j) a, False)] \<rparr>)) = Inr PubConflict"
proof -
  let ?\<sigma> = "\<sigma>\<lparr> pb_history := h @ [(CallRemoveLabel (jb_issue j) a, False)] \<rparr>"
  let ?q = "without_label p a"
  have set: "removal j 3 \<inter> mp_managed_labels p = set (a # ls)" using conflicting_set [of p j] ls by simp
  have normal: "normalize_managed_value a = a" using conflicting_normal [of a p j] ls by simp
  have ab: "a \<in> removal j 3" "a \<in> mp_managed_labels p" "b \<in> removal j 3" "b \<in> mp_managed_labels p"
    using set b by auto
  have desired: "mp_managed_labels (desired_after j 3 p) = mp_managed_labels p - removal j 3"
    by (simp add: desired_removal)
  have q: "mp_managed_labels ?q = mp_managed_labels p - {a}" by (simp add: without_label_def normal)
  have differ: "p \<noteq> desired_after j 3 p" "?q \<noteq> desired_after j 3 p" "?q \<noteq> p"
    using ab b(2) desired q by (metis DiffD2, metis DiffD2 DiffI singletonD, metis DiffD2 singletonI)
  have mutation: "job_mutation j 3 p = RemoveLabels (a # ls)" by (simp add: job_mutation_def ls)
  have "reconcile_mutation env po (jb_id j) (jb_issue j) (job_vocabulary j) p (desired_after j 3 p)
      conflict_cleanup_step (job_mutation j 3 p) \<sigma> = (Inl e, ?\<sigma>)"
    using observe_exact [OF world sub sees quiet] differ(1) ab(2) fails(1)
    by (simp add: reconcile_mutation_def and_then_def mutation apply_mutation_def contains_label_def normal
        ask_def Let_def h)
  with pass_at_stage [OF i(1,2) request i(3), of env po]
  show "reconcile_automatic env po request \<sigma> = (Inl e, ?\<sigma>)" by (simp add: prod_eq_iff)
  have stored: "stored j i ?\<sigma>" using i(1) by simp
  have "github_after (jb_issue j) (jb_lost j) [] h (jb_labels j, jb_start j)
      = ((jb_labels j - job_vocabulary j) \<union> mp_managed_labels p, mp_project_state p)"
    using sees unfolding sees_def h by (simp add: github_after_snoc [where h = "_ @ [_]", simplified]
      github_after_snoc label_effect_def state_effect_def)
  moreover have "a \<notin> jb_labels j - job_vocabulary j" using ab(2) sub by auto
  ultimately have "sees j ?q ?\<sigma>"
    using fails(2) by (auto simp: sees_def github_after_snoc label_effect_def state_effect_def q normal
        without_label_def)
  moreover have "mp_managed_labels ?q \<subseteq> job_vocabulary j" using sub q by auto
  ultimately obtain \<sigma>' where observe: "observe_current po (jb_issue j) (job_vocabulary j) ?\<sigma> = (Inr ?q, \<sigma>')"
    and same: "pb_store \<sigma>' = pb_store \<sigma>" using observe_exact [OF world _ _ quiet] by fastforce
  have "stored j i \<sigma>'" using i(1) same by (simp add: stored_def)
  from select_stored [OF this i(2), of env] have "reconcile_mutation env po (jb_id j) (jb_issue j) (job_vocabulary j)
      p (desired_after j 3 p) conflict_cleanup_step (job_mutation j 3 p) ?\<sigma>
    = (Inr OutcomeConflict, snd (on_store po (\<lambda>now. update_publication_step env now (jb_id j) '''' PubConflict
        (Some (human_conflict conflict_cleanup_step))) \<sigma>'))"
    using observe differ
    by (simp add: reconcile_mutation_def and_then_def give_def on_store_def update_publication_step_def Let_def)
  with pass_at_stage(1) [OF stored i(2) request i(3), of env po]
  show "fst (reconcile_automatic env po request ?\<sigma>) = Inr PubConflict" by simp
qed

text \<open>C39. A reply lost between two removals is taken for a human conflict. Let nobody else change
  the issue, let the publication have reached the removal of the other route labels with at least
  two of them to remove, and let the reply to the first removal be lost. The pass ends with the
  error of that call, and the next pass, in which every observation succeeds, reports a conflict
  although only the publisher has changed the issue.\<close>

theorem lost_removal_becomes_conflict:
  assumes "undisturbed po issue lost labels start"
    and "pi_intent_id (pr_row (ap_intent request)) = pi_intent_id i"
    and "pi_mode (pr_row (ap_intent request)) = PublishAutomatic"
    and "ap_issue_number request = issue" and "ap_managed_labels request = managed"
    and "find_intent (pb_store \<sigma>) (pi_intent_id i) = Some i"
    and "pi_mode i = PublishAutomatic" and "pi_route_label i = route" and "pi_status i = PubPending"
    and "pi_completed_steps i = [comment_pending_step, route_label_step, project_state_step]"
    and "pi_last_error_json i = None" and "projection_from_json (pi_observed_baseline i) \<noteq> None"
    and "projection_from_json (pi_expected_projection i) = Some p"
    and "mp_managed_labels p \<subseteq> publication_vocabulary managed (pi_intake_label i)"
    and "github_after issue lost [] (pb_history \<sigma>) (labels, start) =
      ((labels - publication_vocabulary managed (pi_intake_label i)) \<union> mp_managed_labels p, mp_project_state p)"
    and "conflicting_route_labels p managed route = a # ls" and "b \<in> set ls" and "b \<noteq> a"
    and "\<forall>h. \<not> isl (po_list_issue_labels po issue h) \<and> \<not> isl (po_issue_project_state po issue h)"
    and "h = pb_history \<sigma> @ [(CallListLabels issue, True), (CallProjectState issue, True)]"
    and "po_remove_issue_label po issue a h = Inl e" and "lost h"
  shows "fst (reconcile_automatic env po request \<sigma>) = Inl e
    \<and> fst (reconcile_automatic env po request (snd (reconcile_automatic env po request \<sigma>))) = Inr PubConflict"
proof -
  define j where "j = \<lparr> jb_id = pi_intent_id i, jb_issue = issue, jb_route = route,
      jb_intake = pi_intake_label i, jb_state = pi_project_state i, jb_managed = managed, jb_lost = lost,
      jb_labels = labels, jb_start = start \<rparr>"
  have f: "jb_issue j = issue" "jb_lost j = lost" "jb_labels j = labels" "jb_start j = start"
    "jb_route j = route" "jb_managed j = managed" "job_vocabulary j = publication_vocabulary managed (pi_intake_label i)"
    by (simp_all add: j_def job_vocabulary_def)
  have request: "request_for j request" using assms(2-5) by (simp add: request_for_def j_def)
  have i: "stored j i \<sigma>" "row_of_job j i"
    using assms(6-11) by (simp_all add: stored_def row_of_job_def j_def)
  have progress: "progress_of i = stage_progress 3 p"
    using assms(9,10,12,13) by (simp add: progress_of_def stage_progress_def automatic_steps_def)
  have "sees j p \<sigma>" using assms(15) by (simp add: sees_def f)
  note lost = removal_reply_lost [of po j i \<sigma> p request a ls b h e env, unfolded f,
      OF assms(1) i progress request this assms(14,16-22)]
  show ?thesis using lost by simp
qed

definition small_midway :: publication_intent_row where
  "small_midway = small_intent\<lparr> pi_completed_steps := [comment_pending_step, route_label_step, project_state_step],
     pi_observed_baseline := projection_to_json projection_default,
     pi_expected_projection := projection_to_json
       \<lparr> mp_managed_labels = {''go'', ''one'', ''two''}, mp_project_state = None \<rparr> \<rparr>"

theorem lost_removal_becomes_conflict_witness:
  "\<exists>\<sigma>'. reconcile_automatic small_env (small_port (\<lambda>h. length h = 2) [''go'', ''one'', ''two''])
        (small_request small_midway [''go'', ''one'', ''two'']) (small_publish small_midway)
          = (Inl (TriageError ''timeout''), \<sigma>')
      \<and> fst (reconcile_automatic small_env (small_port (\<lambda>h. length h = 2) [''go'', ''one'', ''two''])
        (small_request small_midway [''go'', ''one'', ''two'']) \<sigma>') = Inr PubConflict"
proof -
  let ?po = "small_port (\<lambda>h. length h = 2) [''go'', ''one'', ''two'']"
  let ?p = "\<lparr> mp_managed_labels = {''go'', ''one'', ''two''}, mp_project_state = None \<rparr>"
  let ?h = "[(CallListLabels 1, True), (CallProjectState 1, True)]"
  have "\<forall>l\<in>set [''go'', ''one'', ''two'']. normalize_managed_value l = l" by code_simp
  then have "undisturbed ?po 1 (\<lambda>h. length h = 2) (set [''go'', ''one'', ''two'']) None"
    by (rule small_undisturbed)
  moreover have "publication_vocabulary [''go'', ''one'', ''two''] ''triage'' = {''go'', ''one'', ''two'', ''triage''}"
    by code_simp
  moreover have "conflicting_route_labels ?p [''go'', ''one'', ''two''] ''go'' = [''one'', ''two'']" by code_simp
  moreover have "projection_from_json (pi_expected_projection small_midway) = Some ?p"
    by (simp add: small_midway_def projection_json_roundtrip)
  moreover have "projection_from_json (pi_observed_baseline small_midway) \<noteq> None"
    by (simp add: small_midway_def projection_json_roundtrip projection_default_def)
  moreover have "po_remove_issue_label ?po 1 ''one'' ?h = Inl (TriageError ''timeout'')"
    by (simp add: small_port_def small_reply_def)
  moreover have "\<forall>h. \<not> isl (po_list_issue_labels ?po 1 h) \<and> \<not> isl (po_issue_project_state ?po 1 h)"
    by (simp add: small_port_def)
  moreover have "{''go'', ''one'', ''two''} - {''go'', ''one'', ''two'', ''triage''} \<union> {''go'', ''one'', ''two''}
      = {''go'', ''one'', ''two''}" by auto
  ultimately have "fst (reconcile_automatic small_env ?po (small_request small_midway [''go'', ''one'', ''two''])
        (small_publish small_midway)) = Inl (TriageError ''timeout'')
    \<and> fst (reconcile_automatic small_env ?po (small_request small_midway [''go'', ''one'', ''two''])
        (snd (reconcile_automatic small_env ?po (small_request small_midway [''go'', ''one'', ''two''])
          (small_publish small_midway)))) = Inr PubConflict"
    by (intro lost_removal_becomes_conflict [where i = small_midway and b = "''two''" and a = "''one''"
          and ls = "[''two'']" and p = ?p and h = ?h and labels = "set [''go'', ''one'', ''two'']"
          and route = "''go''" and managed = "[''go'', ''one'', ''two'']" and start = None and issue = 1
          and lost = "\<lambda>h. length h = 2"])
      (simp_all add: small_request_def small_publish_def small_intent_def find_intent_def small_midway_def
        factory_store_empty_def)
  then show ?thesis by (metis prod.collapse)
qed

end
