(* ===== verification/SpecStage.thy ===== *)
theory SpecStage
  imports SpecDecision
begin

text \<open>
  The specification stage without its store and its coordinator: the artifacts
  (\<open>src/spec/domain.rs\<close>), their validation (\<open>src/spec/artifact.rs\<close>), the pipeline of draft,
  review and revision turns (\<open>src/spec/pipeline.rs\<close>) and the published comment
  (\<open>src/spec/comment.rs\<close>).

  A turn is executed by the \<open>SpecTurnExecutor\<close> the caller passes: an argument that takes the
  state of its world \<open>'w\<close> and a request and returns the next state and a result. JSON is parsed by
  \<open>serde_json\<close>, an argument too. The turn ids \<open>Uuid::now_v7\<close> draws are an argument indexed by the
  turn's number.
\<close>

section \<open>Artifacts and findings\<close>

definition spec_stage_name :: string where
  "spec_stage_name = ''spec''"

definition spec_schema_version :: nat where
  "spec_schema_version = 1"

definition spec_artifact_max_bytes :: nat where
  "spec_artifact_max_bytes = 65536"

definition spec_section_max_bytes :: nat where
  "spec_section_max_bytes = 16000"

definition spec_list_item_max_bytes :: nat where
  "spec_list_item_max_bytes = 1000"

definition spec_acceptance_criteria_max_items :: nat where
  "spec_acceptance_criteria_max_items = 50"

definition spec_open_decisions_max_items :: nat where
  "spec_open_decisions_max_items = 50"

definition spec_findings_max_items :: nat where
  "spec_findings_max_items = 30"

record spec_artifact =
  spa_schema_version :: nat
  spa_product_behavior :: string
  spa_technical_approach :: string
  spa_acceptance_criteria :: "string list"
  spa_open_decisions :: "string list"

datatype review_verdict = VerdictPass | VerdictRevise

datatype finding_severity = SeverityBlocking | SeverityAdvisory

datatype finding_section =
    SectionProductBehavior
  | SectionTechnicalApproach
  | SectionAcceptanceCriteria
  | SectionOpenDecisions
  | SectionGeneral

record spec_review_finding =
  srf_severity :: finding_severity
  srf_section :: finding_section
  srf_summary :: string
  srf_recommendation :: string

record spec_review_findings =
  srs_schema_version :: nat
  srs_verdict :: review_verdict
  srs_findings :: "spec_review_finding list"

definition findings_blocking :: "spec_review_findings \<Rightarrow> spec_review_finding list" where
  "findings_blocking fs = filter (\<lambda>f. srf_severity f = SeverityBlocking) (srs_findings fs)"

definition findings_blocking_count :: "spec_review_findings \<Rightarrow> nat" where
  "findings_blocking_count fs = length (findings_blocking fs)"

definition spec_config_managed_labels :: "spec_config \<Rightarrow> string list" where
  "spec_config_managed_labels c =
     [sc_intake_label c, sl_approved (sc_labels c), sl_revise (sc_labels c),
      sr_label (sc_approval_route c)]"

definition spec_config_default :: spec_config where
  "spec_config_default =
     \<lparr> sc_enabled = False, sc_intake_label = ''ready-to-spec'',
       sc_prompts = \<lparr> sp_draft = ''prompts/spec-draft.md'', sp_review = ''prompts/spec-review.md'',
                      sp_revise = ''prompts/spec-revise.md'' \<rparr>,
       sc_model = None, sc_review_model = None, sc_turn_timeout_ms = 1800000,
       sc_max_intake_pages = 100, sc_max_review_cycles = 3, sc_max_attempts = 3,
       sc_max_revision_requests = 3,
       sc_labels = \<lparr> sl_approved = ''spec-approved'', sl_revise = ''spec-revise'' \<rparr>,
       sc_approval_route = \<lparr> sr_label = ''ready-for-agent'', sr_state = Some ''Todo'' \<rparr> \<rparr>"

datatype spec_turn_kind = TurnDraft | TurnReview | TurnRevise

fun spec_turn_kind_as_str :: "spec_turn_kind \<Rightarrow> string" where
  "spec_turn_kind_as_str TurnDraft = ''draft''"
| "spec_turn_kind_as_str TurnReview = ''review''"
| "spec_turn_kind_as_str TurnRevise = ''revise''"

section \<open>Validation\<close>

record spec_validation_error =
  sve_field :: string
  sve_message :: string

definition spec_validation_error_text :: "spec_validation_error \<Rightarrow> string" where
  "spec_validation_error_text e = sve_field e @ '': '' @ sve_message e"

definition validate_text :: "string \<Rightarrow> string \<Rightarrow> nat \<Rightarrow> spec_validation_error + unit" where
  "validate_text field_name value max_bytes =
     (if trim value = []
      then Inl \<lparr> sve_field = field_name, sve_message = ''must be non-empty'' \<rparr>
      else if max_bytes < utf8_len value
      then Inl \<lparr> sve_field = field_name,
                 sve_message = ''must be at most '' @ nat_digits max_bytes @ '' UTF-8 bytes'' \<rparr>
      else Inr ())"

text \<open>The \<open>?\<close> operator, and a loop that stops at the first error.\<close>

definition ok_then :: "'e + unit \<Rightarrow> 'e + unit \<Rightarrow> 'e + unit" where
  "ok_then r s = (case r of Inl e \<Rightarrow> Inl e | Inr _ \<Rightarrow> s)"

fun validate_items :: "(nat \<Rightarrow> 'a \<Rightarrow> 'e + unit) \<Rightarrow> nat \<Rightarrow> 'a list \<Rightarrow> 'e + unit" where
  "validate_items check index [] = Inr ()"
| "validate_items check index (x # xs) =
     ok_then (check index x) (validate_items check (Suc index) xs)"

definition item_name :: "string \<Rightarrow> nat \<Rightarrow> string" where
  "item_name field_name index = field_name @ ''['' @ nat_digits index @ '']''"

definition validate_list :: "string \<Rightarrow> string list \<Rightarrow> nat \<Rightarrow> nat \<Rightarrow> spec_validation_error + unit" where
  "validate_list field_name values least most =
     (if length values < least \<or> most < length values
      then Inl \<lparr> sve_field = field_name,
                 sve_message = ''must contain '' @ nat_digits least @ '' to '' @ nat_digits most @ '' items'' \<rparr>
      else validate_items
             (\<lambda>index value. validate_text (item_name field_name index) value spec_list_item_max_bytes) 0 values)"

definition schema_version_error :: spec_validation_error where
  "schema_version_error =
     \<lparr> sve_field = ''schema_version'', sve_message = ''must be exactly '' @ nat_digits spec_schema_version \<rparr>"

definition validate_spec :: "spec_artifact \<Rightarrow> spec_validation_error + unit" where
  "validate_spec artifact =
     (if spa_schema_version artifact \<noteq> spec_schema_version then Inl schema_version_error
      else
        ok_then (validate_text ''product_behavior'' (spa_product_behavior artifact) spec_section_max_bytes)
        (ok_then (validate_text ''technical_approach'' (spa_technical_approach artifact) spec_section_max_bytes)
        (ok_then (validate_list ''acceptance_criteria'' (spa_acceptance_criteria artifact) 1
                     spec_acceptance_criteria_max_items)
          (validate_list ''open_decisions'' (spa_open_decisions artifact) 0 spec_open_decisions_max_items))))"

definition validate_finding :: "nat \<Rightarrow> spec_review_finding \<Rightarrow> spec_validation_error + unit" where
  "validate_finding index finding =
     ok_then
       (validate_text (item_name ''findings'' index @ ''.summary'') (srf_summary finding)
          spec_list_item_max_bytes)
       (validate_text (item_name ''findings'' index @ ''.recommendation'') (srf_recommendation finding)
          spec_list_item_max_bytes)"

definition validate_findings :: "spec_review_findings \<Rightarrow> spec_validation_error + unit" where
  "validate_findings fs =
     (if srs_schema_version fs \<noteq> spec_schema_version then Inl schema_version_error
      else if spec_findings_max_items < length (srs_findings fs)
      then Inl \<lparr> sve_field = ''findings'',
                 sve_message = ''must contain at most '' @ nat_digits spec_findings_max_items @ '' items'' \<rparr>
      else
        ok_then (validate_items validate_finding 0 (srs_findings fs))
          (let blocking = length (filter (\<lambda>f. srf_severity f = SeverityBlocking) (srs_findings fs))
           in case srs_verdict fs of
                VerdictPass \<Rightarrow>
                  if 0 < blocking
                  then Inl \<lparr> sve_field = ''verdict'',
                             sve_message = [CHR 0x27] @ ''pass'' @ [CHR 0x27] @ '' requires zero blocking findings'' \<rparr>
                  else Inr ()
              | VerdictRevise \<Rightarrow>
                  if blocking = 0
                  then Inl \<lparr> sve_field = ''verdict'',
                             sve_message = [CHR 0x27] @ ''revise'' @ [CHR 0x27]
                               @ '' requires at least one blocking finding'' \<rparr>
                  else Inr ()))"

text \<open>\<open>parse_bounded\<close>: the bytes are counted before \<open>serde_json\<close> reads them.\<close>

definition parse_bounded :: "(string \<Rightarrow> string + 'a) \<Rightarrow> string \<Rightarrow> spec_validation_error + 'a" where
  "parse_bounded from_json bytes =
     (if spec_artifact_max_bytes < utf8_len bytes
      then Inl \<lparr> sve_field = ''output'',
                 sve_message = ''artifact is '' @ nat_digits (utf8_len bytes) @ '' bytes; maximum is ''
                   @ nat_digits spec_artifact_max_bytes @ '' bytes'' \<rparr>
      else (case from_json bytes of
              Inl message \<Rightarrow> Inl \<lparr> sve_field = ''output'', sve_message = ''invalid JSON: '' @ message \<rparr>
            | Inr a \<Rightarrow> Inr a))"

definition parse_spec ::
    "(string \<Rightarrow> string + spec_artifact) \<Rightarrow> string \<Rightarrow> spec_validation_error + spec_artifact" where
  "parse_spec from_json bytes =
     (case parse_bounded from_json bytes of
        Inl e \<Rightarrow> Inl e
      | Inr artifact \<Rightarrow> (case validate_spec artifact of Inl e \<Rightarrow> Inl e | Inr _ \<Rightarrow> Inr artifact))"

definition parse_findings ::
    "(string \<Rightarrow> string + spec_review_findings) \<Rightarrow> string \<Rightarrow> spec_validation_error + spec_review_findings" where
  "parse_findings from_json bytes =
     (case parse_bounded from_json bytes of
        Inl e \<Rightarrow> Inl e
      | Inr findings \<Rightarrow> (case validate_findings findings of Inl e \<Rightarrow> Inl e | Inr _ \<Rightarrow> Inr findings))"

section \<open>The pipeline\<close>

record spec_pipeline_prompts =
  spp_draft :: string
  spp_review :: string
  spp_revise :: string

record spec_pipeline_config =
  spc_max_review_cycles :: nat
  spc_turn_timeout_ms :: nat
  spc_harness :: string
  spc_draft_model :: "string option"
  spc_review_model :: "string option"
  spc_prompts :: spec_pipeline_prompts

record seeded_revision =
  sd_prior_version :: nat
  sd_prior_spec :: spec_artifact
  sd_feedback :: "string list"

record spec_pipeline_request =
  spr_stage_run_id :: string
  spr_issue_context :: json
  spr_seed :: "seeded_revision option"
  spr_config :: spec_pipeline_config

record spec_turn_inputs =
  sti_issue_context :: json
  sti_current_spec :: "spec_artifact option"
  sti_blocking_findings :: "spec_review_finding list option"
  sti_prior_version :: "nat option"
  sti_human_feedback :: "string list option"

record spec_turn_request =
  str_turn_id :: string
  str_stage_run_id :: string
  str_ordinal :: nat
  str_kind :: spec_turn_kind
  str_prompt :: string
  str_model :: "string option"
  str_turn_timeout_ms :: nat
  str_inputs :: spec_turn_inputs

datatype spec_turn_output = OutputSpec spec_artifact | OutputFindings spec_review_findings

record spec_turn_outcome =
  sto_output :: spec_turn_output
  sto_usage :: stage_usage
  sto_started_at :: int
  sto_completed_at :: int
  sto_workspace_identity :: string

record completed_spec_turn =
  cst_turn_id :: string
  cst_ordinal :: nat
  cst_kind :: spec_turn_kind
  cst_model :: "string option"
  cst_output :: spec_turn_output
  cst_usage :: stage_usage
  cst_started_at :: int
  cst_completed_at :: int
  cst_workspace_identity :: string

record spec_pipeline_outcome =
  spo_artifact :: spec_artifact
  spo_turns :: "completed_spec_turn list"
  spo_review_cycles :: nat
  spo_unresolved_blocking_findings :: "spec_review_finding list"
  spo_usage :: stage_usage

type_synonym 'w spec_turn_executor =
  "'w \<Rightarrow> spec_turn_request \<Rightarrow> 'w \<times> (symphony_error + spec_turn_outcome)"

definition execute_turn ::
    "'w spec_turn_executor \<Rightarrow> (nat \<Rightarrow> string) \<Rightarrow> spec_pipeline_request \<Rightarrow> nat \<Rightarrow> spec_turn_kind \<Rightarrow> string
     \<Rightarrow> string option \<Rightarrow> spec_turn_inputs \<Rightarrow> 'w \<Rightarrow> 'w \<times> (symphony_error + completed_spec_turn)" where
  "execute_turn execute turn_id pipeline ordinal kind prompt model inputs w =
     (case execute w
        \<lparr> str_turn_id = turn_id ordinal, str_stage_run_id = spr_stage_run_id pipeline, str_ordinal = ordinal,
          str_kind = kind, str_prompt = prompt, str_model = model,
          str_turn_timeout_ms = spc_turn_timeout_ms (spr_config pipeline), str_inputs = inputs \<rparr> of
        (w', Inl e) \<Rightarrow> (w', Inl e)
      | (w', Inr outcome) \<Rightarrow>
          (w', Inr \<lparr> cst_turn_id = turn_id ordinal, cst_ordinal = ordinal, cst_kind = kind, cst_model = model,
                     cst_output = sto_output outcome, cst_usage = sto_usage outcome,
                     cst_started_at = sto_started_at outcome, cst_completed_at = sto_completed_at outcome,
                     cst_workspace_identity = sto_workspace_identity outcome \<rparr>))"

text \<open>The artifact and the turns with the new one appended.\<close>

definition execute_spec_turn ::
    "'w spec_turn_executor \<Rightarrow> (nat \<Rightarrow> string) \<Rightarrow> spec_pipeline_request \<Rightarrow> nat \<Rightarrow> spec_turn_kind \<Rightarrow> string
     \<Rightarrow> string option \<Rightarrow> spec_turn_inputs \<Rightarrow> completed_spec_turn list \<Rightarrow> 'w
     \<Rightarrow> 'w \<times> (symphony_error + (spec_artifact \<times> completed_spec_turn list))" where
  "execute_spec_turn execute turn_id pipeline ordinal kind prompt model inputs turns w =
     (case execute_turn execute turn_id pipeline ordinal kind prompt model inputs w of
        (w', Inl e) \<Rightarrow> (w', Inl e)
      | (w', Inr completed) \<Rightarrow>
          (case cst_output completed of
             OutputSpec artifact \<Rightarrow>
               (case validate_spec artifact of
                  Inl e \<Rightarrow> (w', Inl (TriageError (''spec '' @ spec_turn_kind_as_str kind
                              @ '' turn produced invalid output: '' @ spec_validation_error_text e)))
                | Inr _ \<Rightarrow> (w', Inr (artifact, turns @ [completed])))
           | OutputFindings _ \<Rightarrow>
               (w', Inl (TriageError (''spec '' @ spec_turn_kind_as_str kind
                      @ '' turn produced findings instead of a spec artifact'')))))"

definition execute_review_turn ::
    "'w spec_turn_executor \<Rightarrow> (nat \<Rightarrow> string) \<Rightarrow> spec_pipeline_request \<Rightarrow> nat \<Rightarrow> spec_artifact
     \<Rightarrow> completed_spec_turn list \<Rightarrow> 'w
     \<Rightarrow> 'w \<times> (symphony_error + (spec_review_findings \<times> completed_spec_turn list))" where
  "execute_review_turn execute turn_id pipeline ordinal current turns w =
     (case execute_turn execute turn_id pipeline ordinal TurnReview
             (spp_review (spc_prompts (spr_config pipeline))) (spc_review_model (spr_config pipeline))
             \<lparr> sti_issue_context = spr_issue_context pipeline, sti_current_spec = Some current,
               sti_blocking_findings = None, sti_prior_version = None, sti_human_feedback = None \<rparr> w of
        (w', Inl e) \<Rightarrow> (w', Inl e)
      | (w', Inr completed) \<Rightarrow>
          (case cst_output completed of
             OutputFindings findings \<Rightarrow>
               (case validate_findings findings of
                  Inl e \<Rightarrow> (w', Inl (TriageError (''spec review turn produced invalid output: ''
                              @ spec_validation_error_text e)))
                | Inr _ \<Rightarrow> (w', Inr (findings, turns @ [completed])))
           | OutputSpec _ \<Rightarrow>
               (w', Inl (TriageError ''spec review turn produced a spec instead of findings''))))"

definition unresolved_line :: "spec_review_finding \<Rightarrow> string" where
  "unresolved_line finding =
     truncate_utf8_bytes
       (''Unresolved review finding: '' @ trim (srf_summary finding) @ '' '' @ [em_dash] @ '' ''
          @ trim (srf_recommendation finding)) spec_list_item_max_bytes"

fun append_unresolved_to_open_decisions :: "spec_artifact \<Rightarrow> spec_review_finding list \<Rightarrow> spec_artifact" where
  "append_unresolved_to_open_decisions artifact [] = artifact"
| "append_unresolved_to_open_decisions artifact (finding # rest) =
     (if spec_open_decisions_max_items \<le> length (spa_open_decisions artifact) then artifact
      else append_unresolved_to_open_decisions
             (artifact\<lparr> spa_open_decisions := spa_open_decisions artifact @ [unresolved_line finding] \<rparr>) rest)"

text \<open>
  The loop of reviews. \<open>review_cycles\<close> counts the cycles before this turn of the loop; it ends
  with a passing review or with the last allowed cycle.
\<close>

function review_loop ::
    "'w spec_turn_executor \<Rightarrow> (nat \<Rightarrow> string) \<Rightarrow> spec_pipeline_request \<Rightarrow> spec_artifact
     \<Rightarrow> completed_spec_turn list \<Rightarrow> nat \<Rightarrow> nat \<Rightarrow> 'w
     \<Rightarrow> 'w \<times> (symphony_error
           + (spec_artifact \<times> completed_spec_turn list \<times> nat \<times> spec_review_finding list))" where
  "review_loop execute turn_id request current turns ordinal review_cycles w =
     (let cycle = Suc review_cycles in
      case execute_review_turn execute turn_id request ordinal current turns w of
        (w1, Inl e) \<Rightarrow> (w1, Inl e)
      | (w1, Inr (findings, turns1)) \<Rightarrow>
          if srs_verdict findings = VerdictPass then (w1, Inr (current, turns1, cycle, []))
          else if spc_max_review_cycles (spr_config request) \<le> cycle
          then (let capped = append_unresolved_to_open_decisions current (findings_blocking findings)
                in case validate_spec capped of
                     Inl e \<Rightarrow> (w1, Inl (TriageError (''spec cap post-processing validation failed: ''
                                @ spec_validation_error_text e)))
                   | Inr _ \<Rightarrow> (w1, Inr (capped, turns1, cycle, findings_blocking findings)))
          else
            (case execute_spec_turn execute turn_id request (Suc ordinal) TurnRevise
                    (spp_revise (spc_prompts (spr_config request))) (spc_draft_model (spr_config request))
                    \<lparr> sti_issue_context = spr_issue_context request, sti_current_spec = Some current,
                      sti_blocking_findings = Some (findings_blocking findings),
                      sti_prior_version = None, sti_human_feedback = None \<rparr> turns1 w1 of
               (w2, Inl e) \<Rightarrow> (w2, Inl e)
             | (w2, Inr (revised, turns2)) \<Rightarrow>
                 review_loop execute turn_id request revised turns2 (ordinal + 2) cycle w2))"
  by pat_completeness auto
termination
  by (relation "measure (\<lambda>(_, _, request, _, _, _, cycles, _).
        spc_max_review_cycles (spr_config request) - cycles)") auto

declare review_loop.simps [simp del]

definition add_turn_usage :: "stage_usage \<Rightarrow> stage_usage \<Rightarrow> stage_usage" where
  "add_turn_usage acc u =
     \<lparr> su_input_tokens = sat_add_u64 (su_input_tokens acc) (su_input_tokens u),
       su_output_tokens = sat_add_u64 (su_output_tokens acc) (su_output_tokens u),
       su_total_tokens = sat_add_u64 (su_total_tokens acc) (su_total_tokens u) \<rparr>"

definition no_usage :: stage_usage where
  "no_usage = \<lparr> su_input_tokens = 0, su_output_tokens = 0, su_total_tokens = 0 \<rparr>"

text \<open>The first turn: a draft, or the revision of the version a human sent back.\<close>

definition first_turn ::
    "'w spec_turn_executor \<Rightarrow> (nat \<Rightarrow> string) \<Rightarrow> spec_pipeline_request \<Rightarrow> 'w
     \<Rightarrow> 'w \<times> (symphony_error + (spec_artifact \<times> completed_spec_turn list))" where
  "first_turn execute turn_id request w =
     (let config = spr_config request in
      case spr_seed request of
        Some seed \<Rightarrow>
          execute_spec_turn execute turn_id request 1 TurnRevise (spp_revise (spc_prompts config))
            (spc_draft_model config)
            \<lparr> sti_issue_context = spr_issue_context request, sti_current_spec = Some (sd_prior_spec seed),
              sti_blocking_findings = None, sti_prior_version = Some (sd_prior_version seed),
              sti_human_feedback = Some (sd_feedback seed) \<rparr> [] w
      | None \<Rightarrow>
          execute_spec_turn execute turn_id request 1 TurnDraft (spp_draft (spc_prompts config))
            (spc_draft_model config)
            \<lparr> sti_issue_context = spr_issue_context request, sti_current_spec = None,
              sti_blocking_findings = None, sti_prior_version = None, sti_human_feedback = None \<rparr> [] w)"

definition run_pipeline ::
    "'w spec_turn_executor \<Rightarrow> (nat \<Rightarrow> string) \<Rightarrow> spec_pipeline_request \<Rightarrow> 'w
     \<Rightarrow> 'w \<times> (symphony_error + spec_pipeline_outcome)" where
  "run_pipeline execute turn_id request w =
     (if spc_max_review_cycles (spr_config request) = 0
      then (w, Inl (InvalidWorkflowConfig ''spec.max_review_cycles must be greater than 0''))
      else if spc_turn_timeout_ms (spr_config request) = 0
      then (w, Inl (InvalidWorkflowConfig ''spec.turn_timeout_ms must be greater than 0''))
      else
        (case first_turn execute turn_id request w of
           (w1, Inl e) \<Rightarrow> (w1, Inl e)
         | (w1, Inr (current, turns)) \<Rightarrow>
             (case review_loop execute turn_id request current turns 2 0 w1 of
                (w2, Inl e) \<Rightarrow> (w2, Inl e)
              | (w2, Inr (artifact, turns, cycles, unresolved)) \<Rightarrow>
                  (w2, Inr \<lparr> spo_artifact = artifact, spo_turns = turns, spo_review_cycles = cycles,
                             spo_unresolved_blocking_findings = unresolved,
                             spo_usage = foldl add_turn_usage no_usage (map cst_usage turns) \<rparr>))))"

definition non_empty_model :: "string \<Rightarrow> string option" where
  "non_empty_model value = (if trim value = [] then None else Some (trim value))"

definition resolve_models ::
    "string option \<Rightarrow> string option \<Rightarrow> string option \<Rightarrow> string option \<times> string option" where
  "resolve_models spec_model review_model agent_model =
     (let draft = (case Option.bind spec_model non_empty_model of
                     Some m \<Rightarrow> Some m | None \<Rightarrow> Option.bind agent_model non_empty_model);
          review = (case Option.bind review_model non_empty_model of Some m \<Rightarrow> Some m | None \<Rightarrow> draft)
      in (draft, review))"

section \<open>The comment\<close>

datatype spec_comment_state =
    CommentPreview
  | CommentAwaitingDecision string string
  | CommentDiagnostic string
  | CommentApprovalPending
  | CommentApproved string "string option"

definition spec_comment_marker_prefix :: string where
  "spec_comment_marker_prefix = ''<!-- symphony:spec:''"

definition spec_marker :: "string \<Rightarrow> string" where
  "spec_marker intent_id = spec_comment_marker_prefix @ intent_id @ '' -->''"

fun finding_section_name :: "finding_section \<Rightarrow> string" where
  "finding_section_name SectionProductBehavior = ''ProductBehavior''"
| "finding_section_name SectionTechnicalApproach = ''TechnicalApproach''"
| "finding_section_name SectionAcceptanceCriteria = ''AcceptanceCriteria''"
| "finding_section_name SectionOpenDecisions = ''OpenDecisions''"
| "finding_section_name SectionGeneral = ''General''"

definition middle_dot :: char where
  "middle_dot = char_of (183 :: nat)"

definition bullet :: "string \<Rightarrow> string" where
  "bullet item = ''- '' @ trim item @ newline"

fun comment_state_text :: "nat \<Rightarrow> spec_comment_state \<Rightarrow> string" where
  "comment_state_text version CommentPreview =
     ''**Preview:** Symphony does not act on decision labels yet. Review this specification and leave feedback.''
       @ newline"
| "comment_state_text version (CommentAwaitingDecision approved_label revise_label) =
     ''Apply `'' @ approved_label @ ''` to approve, or add a feedback comment and apply `'' @ revise_label
       @ ''` to request changes.'' @ newline"
| "comment_state_text version (CommentDiagnostic message) =
     ''**Action required:** '' @ trim message @ newline"
| "comment_state_text version CommentApprovalPending =
     ''**Approval pending:** version '' @ nat_digits version @ '' is being routed to implementation.'' @ newline"
| "comment_state_text version (CommentApproved route_label project_state) =
     ''**Approved '' @ [em_dash] @ '' implementation-ready:** version '' @ nat_digits version @ ''; applied `''
       @ route_label @ ''`''
       @ (case project_state of None \<Rightarrow> [] | Some state \<Rightarrow> '' and project state `'' @ state @ ''`'')
       @ ''.'' @ newline"

definition render_spec_comment ::
    "string \<Rightarrow> string \<Rightarrow> string \<Rightarrow> nat \<Rightarrow> nat \<Rightarrow> spec_artifact \<Rightarrow> spec_review_finding list
     \<Rightarrow> spec_comment_state \<Rightarrow> string" where
  "render_spec_comment intent_id run_id stage_run_id attempt version artifact unresolved state =
     spec_marker intent_id @ newline @ ''## Symphony specification'' @ newline @ newline
     @ ''**Version:** '' @ nat_digits version @ '' '' @ [middle_dot] @ '' **Factory run:** `'' @ run_id @ ''` ''
     @ [middle_dot] @ '' **Attempt:** '' @ nat_digits attempt @ '' (`'' @ stage_run_id @ ''`)'' @ newline @ newline
     @ ''### Product behavior'' @ newline @ newline
     @ trim (spa_product_behavior artifact)
     @ newline @ newline @ ''### Technical approach'' @ newline @ newline
     @ trim (spa_technical_approach artifact)
     @ newline @ newline @ ''### Acceptance criteria'' @ newline @ newline
     @ concat (map bullet (spa_acceptance_criteria artifact))
     @ newline @ ''### Open decisions'' @ newline @ newline
     @ (if spa_open_decisions artifact = [] then ''_None._'' @ newline
        else concat (map bullet (spa_open_decisions artifact)))
     @ (if unresolved = [] then []
        else newline @ ''### Unresolved blocking review findings'' @ newline @ newline
          @ concat (map (\<lambda>f. ''- **'' @ finding_section_name (srf_section f) @ '':** '' @ trim (srf_summary f)
              @ '' '' @ [em_dash] @ '' '' @ trim (srf_recommendation f) @ newline) unresolved))
     @ newline @ ''---'' @ newline @ comment_state_text version state"

end
