(* ===== verification/SpecStore.thy ===== *)
theory SpecStore
  imports SpecStage FactoryStore
begin

text \<open>
  The specification stage's part of \<open>src/triage/store.rs\<close>, over the tables that
  \<open>migrations/003_spec_stage.sql\<close> adds. The database is a \<open>spec_db\<close>: the tables of the triage
  stage and, beside them, one list of rows per new table. As in \<open>FactoryStore\<close> an operation
  returns the database and the result, the clock and the new ids are arguments, and keys and
  foreign keys are checked where rows are inserted. A column of JSON holds the value; a
  column the code may cut off (\<open>optional_json\<close>) holds the text.
\<close>

section \<open>Tables\<close>

datatype spec_turn_status = SpecTurnRunning | SpecTurnCompleted | SpecTurnFailed

fun spec_turn_status_as_str :: "spec_turn_status \<Rightarrow> string" where
  "spec_turn_status_as_str SpecTurnRunning = ''running''"
| "spec_turn_status_as_str SpecTurnCompleted = ''completed''"
| "spec_turn_status_as_str SpecTurnFailed = ''failed''"

record spec_turn_row =
  spt_turn_id :: string
  spt_stage_run_id :: string
  spt_ordinal :: nat
  spt_kind :: spec_turn_kind
  spt_status :: spec_turn_status
  spt_harness :: string
  spt_model :: "string option"
  spt_usage :: stage_usage
  spt_output_json :: "json option"
  spt_error_json :: "string option"
  spt_started_at :: int
  spt_completed_at :: "int option"

record spec_turn_record =
  spt_row :: spec_turn_row
  spt_error :: "factory_error option"

record spec_artifact_record =
  sar_artifact_id :: string
  sar_run_id :: string
  sar_stage_run_id :: string
  sar_issue_revision :: string
  sar_configuration_revision :: string
  sar_version :: nat
  sar_artifact :: spec_artifact
  sar_review_cycles :: nat
  sar_unresolved_blocking_findings :: "spec_review_finding list"
  sar_received_at :: int
  sar_bytes_len :: nat

datatype spec_publication_kind = SpecPreview | SpecApproval | SpecDiagnostic

fun spec_publication_kind_as_str :: "spec_publication_kind \<Rightarrow> string" where
  "spec_publication_kind_as_str SpecPreview = ''preview''"
| "spec_publication_kind_as_str SpecApproval = ''approval''"
| "spec_publication_kind_as_str SpecDiagnostic = ''diagnostic''"

record spec_publication_row =
  spi_intent_id :: string
  spi_run_id :: string
  spi_artifact_id :: "string option"
  spi_kind :: spec_publication_kind
  spi_status :: publication_status
  spi_completed_steps :: "string list"
  spi_retry_count :: nat
  spi_last_error_json :: "string option"
  spi_comment_id :: "string option"
  spi_publisher_login :: "string option"
  spi_desired_effects :: json
  spi_observed_baseline :: json
  spi_expected_projection :: json
  spi_created_at :: int
  spi_updated_at :: int

record spec_publication_intent =
  spi_row :: spec_publication_row
  spi_last_error :: "factory_error option"

datatype spec_run_decision =
    AwaitingDecision | RevisionRequested | PendingApproval | ApprovedDecision | BlockedDecision | ConflictDecision

fun spec_decision_as_str :: "spec_run_decision \<Rightarrow> string" where
  "spec_decision_as_str AwaitingDecision = ''awaiting_decision''"
| "spec_decision_as_str RevisionRequested = ''revision_requested''"
| "spec_decision_as_str PendingApproval = ''pending_approval''"
| "spec_decision_as_str ApprovedDecision = ''approved''"
| "spec_decision_as_str BlockedDecision = ''blocked''"
| "spec_decision_as_str ConflictDecision = ''conflict''"

record spec_run_state =
  srn_run_id :: string
  srn_revision_requests_used :: nat
  srn_pending_approval_version :: "nat option"
  srn_approved_version :: "nat option"
  srn_approved_artifact_id :: "string option"
  srn_decision :: spec_run_decision
  srn_updated_at :: int

record spec_db =
  sdb_base :: factory_store
  sdb_spec_turns :: "spec_turn_row list"
  sdb_spec_artifacts :: "spec_artifact_record list"
  sdb_spec_states :: "spec_run_state list"
  sdb_spec_intents :: "spec_publication_row list"

type_synonym ('d, 'a) db_result = "'d \<times> (symphony_error + 'a)"

record store_spec_turn_request =
  tq_turn_id :: string
  tq_stage_run_id :: string
  tq_ordinal :: nat
  tq_kind :: spec_turn_kind
  tq_status :: spec_turn_status
  tq_harness :: string
  tq_model :: "string option"
  tq_usage :: stage_usage
  tq_output_json :: "json option"
  tq_error :: "factory_error option"
  tq_started_at :: int
  tq_completed_at :: "int option"

record store_spec_artifact_request =
  aq_stage_run_id :: string
  aq_issue_revision :: string
  aq_configuration_revision :: string
  aq_artifact :: spec_artifact
  aq_review_cycles :: nat
  aq_unresolved_blocking_findings :: "spec_review_finding list"
  aq_bytes_len :: nat
  aq_usage :: stage_usage

section \<open>The JSON of artifacts and findings\<close>

definition json_string_list :: "string list \<Rightarrow> json" where
  "json_string_list xs = JArray (map JString xs)"

definition spec_artifact_json :: "spec_artifact \<Rightarrow> json" where
  "spec_artifact_json a =
     JObject
       [(''schema_version'', JNumber (PosInt (spa_schema_version a))),
        (''product_behavior'', JString (spa_product_behavior a)),
        (''technical_approach'', JString (spa_technical_approach a)),
        (''acceptance_criteria'', json_string_list (spa_acceptance_criteria a)),
        (''open_decisions'', json_string_list (spa_open_decisions a))]"

fun finding_severity_json :: "finding_severity \<Rightarrow> json" where
  "finding_severity_json SeverityBlocking = JString ''blocking''"
| "finding_severity_json SeverityAdvisory = JString ''advisory''"

fun finding_section_json :: "finding_section \<Rightarrow> json" where
  "finding_section_json SectionProductBehavior = JString ''product_behavior''"
| "finding_section_json SectionTechnicalApproach = JString ''technical_approach''"
| "finding_section_json SectionAcceptanceCriteria = JString ''acceptance_criteria''"
| "finding_section_json SectionOpenDecisions = JString ''open_decisions''"
| "finding_section_json SectionGeneral = JString ''general''"

definition spec_finding_json :: "spec_review_finding \<Rightarrow> json" where
  "spec_finding_json f =
     JObject
       [(''severity'', finding_severity_json (srf_severity f)),
        (''section'', finding_section_json (srf_section f)),
        (''summary'', JString (srf_summary f)),
        (''recommendation'', JString (srf_recommendation f))]"

section \<open>Shared pieces of the stage stores\<close>

text \<open>\<open>Option<T>\<close> through \<open>bounded_json\<close>, and the effect of a failed check on the database.\<close>

definition bounded_optional :: "factory_env \<Rightarrow> json option \<Rightarrow> symphony_error + json option" where
  "bounded_optional env value =
     (case value of None \<Rightarrow> Inr None
      | Some v \<Rightarrow> (case bounded_json env v of Inl e \<Rightarrow> Inl e | Inr v' \<Rightarrow> Inr (Some v')))"

definition storage_fail :: "string \<Rightarrow> symphony_error + 'a" where
  "storage_fail message = Inl (StorageError message)"

definition constraint_fail :: "factory_env \<Rightarrow> string \<Rightarrow> symphony_error + 'a" where
  "constraint_fail env table = Inl (StorageError (fenv_constraint env table))"

definition add_exact_step :: "string \<Rightarrow> string list \<Rightarrow> string list" where
  "add_exact_step step steps = (if step \<in> set steps then steps else steps @ [step])"

definition run_exists :: "factory_store \<Rightarrow> string \<Rightarrow> bool" where
  "run_exists s run_id \<longleftrightarrow> run_id \<in> fr_run_id ` set (fs_runs s)"

definition stage_exists :: "factory_store \<Rightarrow> string \<Rightarrow> bool" where
  "stage_exists s stage_run_id \<longleftrightarrow> stage_run_id \<in> sg_stage_run_id ` set (fs_stage_runs s)"

text \<open>The statements several stages share: a stage run completes, its factory run changes status.\<close>

definition complete_stage_run :: "int \<Rightarrow> string \<Rightarrow> stage_usage \<Rightarrow> factory_store \<Rightarrow> factory_store" where
  "complete_stage_run now stage_run_id usage s =
     s\<lparr> fs_stage_runs :=
          update_where (\<lambda>r. sg_stage_run_id r = stage_run_id)
            (\<lambda>r. r\<lparr> sg_status := StageCompleted, sg_completed_at := Some now, sg_usage := usage,
                    sg_updated_at := now \<rparr>) (fs_stage_runs s) \<rparr>"

definition set_run_stage :: "int \<Rightarrow> string \<Rightarrow> factory_run_status \<Rightarrow> string \<Rightarrow> factory_store \<Rightarrow> factory_store" where
  "set_run_stage now run_id status stage s =
     s\<lparr> fs_runs :=
          update_where (\<lambda>r. fr_run_id r = run_id)
            (\<lambda>r. r\<lparr> fr_status := status, fr_current_stage := Some stage, fr_updated_at := now \<rparr>) (fs_runs s) \<rparr>"

text \<open>The stage run must be a running attempt of the stage; \<open>article\<close> is the stage in the message.\<close>

definition running_stage ::
    "factory_env \<Rightarrow> factory_store \<Rightarrow> string \<Rightarrow> string \<Rightarrow> string \<Rightarrow> symphony_error + stage_run_row" where
  "running_stage env s stage what stage_run_id =
     (case select_stage_run env s stage_run_id of
        Inl e \<Rightarrow> Inl e
      | Inr r \<Rightarrow>
          if sg_stage (sr_row r) \<noteq> stage \<or> sg_status (sr_row r) \<noteq> StageRunning
          then storage_fail (''stage run '' @ stage_run_id @ '' is not a running '' @ what @ '' attempt'')
          else Inr (sr_row r))"

section \<open>Turns\<close>

definition spec_turn_from_row :: "factory_env \<Rightarrow> spec_turn_row \<Rightarrow> symphony_error + spec_turn_record" where
  "spec_turn_from_row env row =
     (case optional_from_json env (spt_error_json row) of
        Inl e \<Rightarrow> Inl e
      | Inr err \<Rightarrow> Inr \<lparr> spt_row = row, spt_error = err \<rparr>)"

definition get_spec_turn :: "factory_env \<Rightarrow> spec_db \<Rightarrow> string \<Rightarrow> symphony_error + spec_turn_record option" where
  "get_spec_turn env db turn_id =
     read_optional (spec_turn_from_row env) (find (\<lambda>t. spt_turn_id t = turn_id) (sdb_spec_turns db))"

definition list_spec_turns :: "factory_env \<Rightarrow> spec_db \<Rightarrow> string \<Rightarrow> symphony_error + spec_turn_record list" where
  "list_spec_turns env db stage_run_id =
     read_rows (spec_turn_from_row env)
       (sort_key spt_ordinal (filter (\<lambda>t. spt_stage_run_id t = stage_run_id) (sdb_spec_turns db)))"

definition insert_spec_turn :: "spec_turn_row \<Rightarrow> spec_db \<Rightarrow> spec_db option" where
  "insert_spec_turn t db =
     (if spt_turn_id t \<in> spt_turn_id ` set (sdb_spec_turns db)
         \<or> (\<exists>t' \<in> set (sdb_spec_turns db).
              spt_stage_run_id t' = spt_stage_run_id t \<and> spt_ordinal t' = spt_ordinal t)
         \<or> \<not> stage_exists (sdb_base db) (spt_stage_run_id t)
      then None
      else Some (db\<lparr> sdb_spec_turns := sdb_spec_turns db @ [t] \<rparr>))"

text \<open>A row that was written and cannot be found again, or read.\<close>

definition found_or :: "string \<Rightarrow> symphony_error + 'a option \<Rightarrow> symphony_error + 'a" where
  "found_or message r =
     (case r of Inl e \<Rightarrow> Inl e | Inr None \<Rightarrow> storage_fail message | Inr (Some a) \<Rightarrow> Inr a)"

definition store_spec_turn ::
    "factory_env \<Rightarrow> store_spec_turn_request \<Rightarrow> spec_db \<Rightarrow> (spec_db, spec_turn_record) db_result" where
  "store_spec_turn env request db =
     (case running_stage env (sdb_base db) spec_stage_name ''spec'' (tq_stage_run_id request) of
        Inl e \<Rightarrow> (db, Inl e)
      | Inr _ \<Rightarrow>
      (case bounded_optional env (tq_output_json request) of
        Inl e \<Rightarrow> (db, Inl e)
      | Inr output \<Rightarrow>
      (case insert_spec_turn
              \<lparr> spt_turn_id = tq_turn_id request, spt_stage_run_id = tq_stage_run_id request,
                spt_ordinal = tq_ordinal request, spt_kind = tq_kind request, spt_status = tq_status request,
                spt_harness = tq_harness request, spt_model = tq_model request, spt_usage = tq_usage request,
                spt_output_json = output, spt_error_json = optional_json env (tq_error request),
                spt_started_at = tq_started_at request, spt_completed_at = tq_completed_at request \<rparr> db of
         None \<Rightarrow> (db, constraint_fail env ''spec_turns'')
       | Some db' \<Rightarrow>
           (db', found_or (''spec turn '' @ tq_turn_id request @ '' was not stored'')
                   (get_spec_turn env db' (tq_turn_id request))))))"

section \<open>Artifacts\<close>

definition find_spec_artifact :: "spec_db \<Rightarrow> string \<Rightarrow> spec_artifact_record option" where
  "find_spec_artifact db artifact_id =
     find (\<lambda>a. sar_artifact_id a = artifact_id) (sdb_spec_artifacts db)"

definition get_spec_artifact :: "spec_db \<Rightarrow> string \<Rightarrow> spec_artifact_record option" where
  "get_spec_artifact db artifact_id = find_spec_artifact db artifact_id"

definition select_spec_artifact :: "factory_env \<Rightarrow> spec_db \<Rightarrow> string \<Rightarrow> symphony_error + spec_artifact_record" where
  "select_spec_artifact env db artifact_id =
     (case find_spec_artifact db artifact_id of
        None \<Rightarrow> storage_fail (fenv_no_rows env) | Some a \<Rightarrow> Inr a)"

definition list_spec_artifacts :: "spec_db \<Rightarrow> string \<Rightarrow> spec_artifact_record list" where
  "list_spec_artifacts db run_id =
     sort_key (\<lambda>a. - int (sar_version a)) (filter (\<lambda>a. sar_run_id a = run_id) (sdb_spec_artifacts db))"

text \<open>\<open>COALESCE(MAX(version), 0) + 1\<close> over the run's artifacts.\<close>

definition next_spec_version :: "spec_db \<Rightarrow> string \<Rightarrow> nat" where
  "next_spec_version db run_id =
     Suc (fold max (map sar_version (filter (\<lambda>a. sar_run_id a = run_id) (sdb_spec_artifacts db))) 0)"

definition insert_spec_artifact :: "spec_artifact_record \<Rightarrow> spec_db \<Rightarrow> spec_db option" where
  "insert_spec_artifact a db =
     (if (\<exists>b \<in> set (sdb_spec_artifacts db).
            sar_artifact_id b = sar_artifact_id a
            \<or> sar_stage_run_id b = sar_stage_run_id a
            \<or> sar_run_id b = sar_run_id a
                \<and> (sar_version b = sar_version a
                    \<or> sar_issue_revision b = sar_issue_revision a
                        \<and> sar_configuration_revision b = sar_configuration_revision a))
         \<or> \<not> run_exists (sdb_base db) (sar_run_id a) \<or> \<not> stage_exists (sdb_base db) (sar_stage_run_id a)
      then None
      else Some (db\<lparr> sdb_spec_artifacts := sdb_spec_artifacts db @ [a] \<rparr>))"

definition find_spec_state :: "spec_db \<Rightarrow> string \<Rightarrow> spec_run_state option" where
  "find_spec_state db run_id = find (\<lambda>s. srn_run_id s = run_id) (sdb_spec_states db)"

definition get_spec_state :: "spec_db \<Rightarrow> string \<Rightarrow> spec_run_state option" where
  "get_spec_state db run_id = find_spec_state db run_id"

text \<open>The insertion of a fresh state, which turns into an update when the run has one.\<close>

definition reset_spec_state :: "int \<Rightarrow> string \<Rightarrow> spec_db \<Rightarrow> spec_db" where
  "reset_spec_state now run_id db =
     db\<lparr> sdb_spec_states :=
          (if run_id \<in> srn_run_id ` set (sdb_spec_states db)
           then update_where (\<lambda>s. srn_run_id s = run_id)
                  (\<lambda>s. s\<lparr> srn_pending_approval_version := None, srn_approved_version := None,
                          srn_approved_artifact_id := None, srn_decision := AwaitingDecision,
                          srn_updated_at := now \<rparr>) (sdb_spec_states db)
           else sdb_spec_states db @
                  [\<lparr> srn_run_id = run_id, srn_revision_requests_used = 0,
                     srn_pending_approval_version = None, srn_approved_version = None,
                     srn_approved_artifact_id = None, srn_decision = AwaitingDecision,
                     srn_updated_at = now \<rparr>]) \<rparr>"

text \<open>One transaction: when a statement fails the database is the one before.\<close>

definition store_spec_artifact ::
    "factory_env \<Rightarrow> int \<Rightarrow> string \<Rightarrow> store_spec_artifact_request \<Rightarrow> spec_db
     \<Rightarrow> (spec_db, spec_artifact_record) db_result" where
  "store_spec_artifact env now new_artifact_id request db =
     (case validate_spec (aq_artifact request) of
        Inl e \<Rightarrow> (db, storage_fail (''refusing invalid spec artifact: '' @ spec_validation_error_text e))
      | Inr _ \<Rightarrow>
      (case running_stage env (sdb_base db) spec_stage_name ''spec'' (aq_stage_run_id request) of
        Inl e \<Rightarrow> (db, Inl e)
      | Inr stage \<Rightarrow>
      (case bounded_json env (spec_artifact_json (aq_artifact request)) of
        Inl e \<Rightarrow> (db, Inl e)
      | Inr _ \<Rightarrow>
      (case bounded_json env (JArray (map spec_finding_json (aq_unresolved_blocking_findings request))) of
        Inl e \<Rightarrow> (db, Inl e)
      | Inr _ \<Rightarrow>
          (case insert_spec_artifact
                  \<lparr> sar_artifact_id = new_artifact_id, sar_run_id = sg_run_id stage,
                    sar_stage_run_id = aq_stage_run_id request, sar_issue_revision = aq_issue_revision request,
                    sar_configuration_revision = aq_configuration_revision request,
                    sar_version = next_spec_version db (sg_run_id stage), sar_artifact = aq_artifact request,
                    sar_review_cycles = aq_review_cycles request,
                    sar_unresolved_blocking_findings = aq_unresolved_blocking_findings request,
                    sar_received_at = now, sar_bytes_len = aq_bytes_len request \<rparr> db of
             None \<Rightarrow> (db, constraint_fail env ''spec_artifacts'')
           | Some db1 \<Rightarrow>
               (let base1 = complete_stage_run now (aq_stage_run_id request) (aq_usage request) (sdb_base db1);
                    db2 = reset_spec_state now (sg_run_id stage) (db1\<lparr> sdb_base := base1 \<rparr>);
                    db3 = db2\<lparr> sdb_base :=
                      set_run_stage now (sg_run_id stage) FactoryWaiting spec_stage_name (sdb_base db2) \<rparr>
                in case select_spec_artifact env db3 new_artifact_id of
                     Inl e \<Rightarrow> (db, Inl e)
                   | Inr record \<Rightarrow> (db3, Inr record)))))))"

section \<open>The state of a run\<close>

definition update_spec_state ::
    "(spec_run_state \<Rightarrow> bool) \<Rightarrow> (spec_run_state \<Rightarrow> spec_run_state) \<Rightarrow> spec_db \<Rightarrow> spec_db" where
  "update_spec_state P f db = db\<lparr> sdb_spec_states := update_where P f (sdb_spec_states db) \<rparr>"

definition increment_spec_revision_requests ::
    "int \<Rightarrow> string \<Rightarrow> nat \<Rightarrow> spec_db \<Rightarrow> (spec_db, nat) db_result" where
  "increment_spec_revision_requests now run_id most db =
     (let P = (\<lambda>s. srn_run_id s = run_id \<and> srn_revision_requests_used s < most);
          db' = update_spec_state P
            (\<lambda>s. s\<lparr> srn_revision_requests_used := Suc (srn_revision_requests_used s),
                    srn_decision := RevisionRequested, srn_updated_at := now \<rparr>) db
      in if changed_rows P (sdb_spec_states db) = 0
         then (db, storage_fail (''spec revision request budget exhausted for run '' @ run_id))
         else (db', Inr (case get_spec_state db' run_id of
                           Some s \<Rightarrow> srn_revision_requests_used s | None \<Rightarrow> 0)))"

definition set_pending_spec_approval :: "int \<Rightarrow> string \<Rightarrow> nat \<Rightarrow> spec_db \<Rightarrow> (spec_db, unit) db_result" where
  "set_pending_spec_approval now run_id version db =
     (let P = (\<lambda>s. srn_run_id s = run_id)
      in if changed_rows P (sdb_spec_states db) = 0
         then (db, storage_fail (''spec state for run '' @ run_id @ '' not found''))
         else (update_spec_state P
                 (\<lambda>s. s\<lparr> srn_pending_approval_version := Some version, srn_decision := PendingApproval,
                         srn_updated_at := now \<rparr>) db, Inr ()))"

definition pin_spec_approval :: "int \<Rightarrow> string \<Rightarrow> string \<Rightarrow> spec_db \<Rightarrow> (spec_db, unit) db_result" where
  "pin_spec_approval now run_id artifact_id db =
     (case get_spec_artifact db artifact_id of
        None \<Rightarrow> (db, storage_fail (''spec artifact '' @ artifact_id @ '' not found''))
      | Some artifact \<Rightarrow>
          if sar_run_id artifact \<noteq> run_id
          then (db, storage_fail ''approved artifact does not belong to factory run'')
          else
            (let P = (\<lambda>s. srn_run_id s = run_id)
             in if changed_rows P (sdb_spec_states db) = 0
                then (db, storage_fail (''spec state for run '' @ run_id @ '' not found''))
                else (update_spec_state P
                        (\<lambda>s. s\<lparr> srn_approved_version := Some (sar_version artifact),
                                srn_approved_artifact_id := Some artifact_id,
                                srn_decision := PendingApproval, srn_updated_at := now \<rparr>) db, Inr ())))"

section \<open>Publications\<close>

definition spec_publication_from_row ::
    "factory_env \<Rightarrow> spec_publication_row \<Rightarrow> symphony_error + spec_publication_intent" where
  "spec_publication_from_row env row =
     (case optional_from_json env (spi_last_error_json row) of
        Inl e \<Rightarrow> Inl e
      | Inr err \<Rightarrow> Inr \<lparr> spi_row = row, spi_last_error = err \<rparr>)"

definition get_spec_publication_intent ::
    "factory_env \<Rightarrow> spec_db \<Rightarrow> string \<Rightarrow> symphony_error + spec_publication_intent option" where
  "get_spec_publication_intent env db intent_id =
     read_optional (spec_publication_from_row env) (find (\<lambda>i. spi_intent_id i = intent_id) (sdb_spec_intents db))"

definition get_latest_spec_publication ::
    "factory_env \<Rightarrow> spec_db \<Rightarrow> string \<Rightarrow> symphony_error + spec_publication_intent option" where
  "get_latest_spec_publication env db run_id =
     read_optional (spec_publication_from_row env)
       (latest_by spi_created_at (filter (\<lambda>i. spi_run_id i = run_id) (sdb_spec_intents db)))"

definition latest_spec_publication_of_kind ::
    "factory_env \<Rightarrow> spec_db \<Rightarrow> string \<Rightarrow> spec_publication_kind \<Rightarrow> symphony_error + spec_publication_intent option" where
  "latest_spec_publication_of_kind env db run_id kind =
     read_optional (spec_publication_from_row env)
       (latest_by spi_created_at (filter (\<lambda>i. spi_run_id i = run_id \<and> spi_kind i = kind) (sdb_spec_intents db)))"

text \<open>\<open>ORDER BY created_at ASC LIMIT 1\<close>.\<close>

definition find_spec_publication_by_kind ::
    "factory_env \<Rightarrow> spec_db \<Rightarrow> string \<Rightarrow> spec_publication_kind \<Rightarrow> symphony_error + spec_publication_intent option" where
  "find_spec_publication_by_kind env db run_id kind =
     read_optional (spec_publication_from_row env)
       (case sort_key spi_created_at
               (filter (\<lambda>i. spi_run_id i = run_id \<and> spi_kind i = kind) (sdb_spec_intents db)) of
          [] \<Rightarrow> None | i # _ \<Rightarrow> Some i)"

definition list_pending_spec_publications ::
    "factory_env \<Rightarrow> spec_db \<Rightarrow> symphony_error + spec_publication_intent list" where
  "list_pending_spec_publications env db =
     read_rows (spec_publication_from_row env)
       (sort_key spi_created_at (filter (\<lambda>i. spi_status i = PubPending) (sdb_spec_intents db)))"

definition insert_spec_intent :: "spec_publication_row \<Rightarrow> spec_db \<Rightarrow> spec_db option" where
  "insert_spec_intent i db =
     (if spi_intent_id i \<in> spi_intent_id ` set (sdb_spec_intents db)
         \<or> \<not> run_exists (sdb_base db) (spi_run_id i)
         \<or> (case spi_artifact_id i of None \<Rightarrow> False
            | Some a \<Rightarrow> a \<notin> sar_artifact_id ` set (sdb_spec_artifacts db))
      then None
      else Some (db\<lparr> sdb_spec_intents := sdb_spec_intents db @ [i] \<rparr>))"

definition update_spec_intent ::
    "(spec_publication_row \<Rightarrow> bool) \<Rightarrow> (spec_publication_row \<Rightarrow> spec_publication_row) \<Rightarrow> spec_db \<Rightarrow> spec_db" where
  "update_spec_intent P f db = db\<lparr> sdb_spec_intents := update_where P f (sdb_spec_intents db) \<rparr>"

definition spec_intent_missing :: "string \<Rightarrow> string" where
  "spec_intent_missing intent_id = ''spec publication intent '' @ intent_id @ '' not found''"

definition create_spec_publication_intent ::
    "factory_env \<Rightarrow> int \<Rightarrow> string \<Rightarrow> string \<Rightarrow> string option \<Rightarrow> spec_publication_kind \<Rightarrow> json \<Rightarrow> spec_db
     \<Rightarrow> (spec_db, spec_publication_intent) db_result" where
  "create_spec_publication_intent env now new_intent_id run_id artifact_id kind desired_effects db =
     (case bounded_json env desired_effects of
        Inl e \<Rightarrow> (db, Inl e)
      | Inr desired \<Rightarrow>
          (case insert_spec_intent
                  \<lparr> spi_intent_id = new_intent_id, spi_run_id = run_id, spi_artifact_id = artifact_id,
                    spi_kind = kind, spi_status = PubPending, spi_completed_steps = [], spi_retry_count = 0,
                    spi_last_error_json = None, spi_comment_id = None, spi_publisher_login = None,
                    spi_desired_effects = desired, spi_observed_baseline = JObject [],
                    spi_expected_projection = JObject [], spi_created_at = now, spi_updated_at = now \<rparr> db of
             None \<Rightarrow> (db, constraint_fail env ''spec_publication_intents'')
           | Some db' \<Rightarrow>
               (db', found_or ''created spec publication intent is missing''
                       (get_spec_publication_intent env db' new_intent_id))))"

definition update_spec_diagnostic_message ::
    "factory_env \<Rightarrow> int \<Rightarrow> string \<Rightarrow> json \<Rightarrow> spec_db \<Rightarrow> (spec_db, spec_publication_intent) db_result" where
  "update_spec_diagnostic_message env now intent_id desired_effects db =
     (case bounded_json env desired_effects of
        Inl e \<Rightarrow> (db, Inl e)
      | Inr desired \<Rightarrow>
          (let db' = update_spec_intent (\<lambda>i. spi_intent_id i = intent_id)
                 (\<lambda>i. i\<lparr> spi_desired_effects := desired, spi_status := PubPending,
                         spi_completed_steps := [], spi_updated_at := now \<rparr>) db
           in (db', found_or (spec_intent_missing intent_id) (get_spec_publication_intent env db' intent_id))))"

definition set_spec_publication_comment ::
    "int \<Rightarrow> string \<Rightarrow> string \<Rightarrow> string \<Rightarrow> spec_db \<Rightarrow> (spec_db, unit) db_result" where
  "set_spec_publication_comment now intent_id comment_id publisher_login db =
     (update_spec_intent (\<lambda>i. spi_intent_id i = intent_id)
        (\<lambda>i. i\<lparr> spi_comment_id := Some comment_id, spi_publisher_login := Some publisher_login,
                spi_updated_at := now \<rparr>) db, Inr ())"

definition complete_spec_publication ::
    "factory_env \<Rightarrow> int \<Rightarrow> string \<Rightarrow> string \<Rightarrow> spec_db \<Rightarrow> (spec_db, unit) db_result" where
  "complete_spec_publication env now intent_id step db =
     (case found_or (spec_intent_missing intent_id) (get_spec_publication_intent env db intent_id) of
        Inl e \<Rightarrow> (db, Inl e)
      | Inr intent \<Rightarrow>
          (let steps = add_exact_step step (spi_completed_steps (spi_row intent))
           in case bounded_json env (json_string_list steps) of
                Inl e \<Rightarrow> (db, Inl e)
              | Inr _ \<Rightarrow>
                  (update_spec_intent (\<lambda>i. spi_intent_id i = intent_id)
                     (\<lambda>i. i\<lparr> spi_status := PubApplied, spi_completed_steps := steps,
                             spi_last_error_json := None, spi_updated_at := now \<rparr>) db, Inr ())))"

definition update_spec_publication_step ::
    "factory_env \<Rightarrow> int \<Rightarrow> string \<Rightarrow> string \<Rightarrow> publication_status \<Rightarrow> factory_error option \<Rightarrow> spec_db
     \<Rightarrow> (spec_db, unit) db_result" where
  "update_spec_publication_step env now intent_id completed_step status err db =
     (case found_or (spec_intent_missing intent_id) (get_spec_publication_intent env db intent_id) of
        Inl e \<Rightarrow> (db, Inl e)
      | Inr intent \<Rightarrow>
          (let steps = add_step completed_step (spi_completed_steps (spi_row intent));
               error_json = optional_json env err
           in case bounded_json env (json_string_list steps) of
                Inl e \<Rightarrow> (db, Inl e)
              | Inr _ \<Rightarrow>
                  (update_spec_intent (\<lambda>i. spi_intent_id i = intent_id)
                     (\<lambda>i. i\<lparr> spi_completed_steps := steps, spi_status := status,
                             spi_last_error_json := error_json,
                             spi_retry_count := spi_retry_count i + (if error_json = None then 0 else 1),
                             spi_updated_at := now \<rparr>) db, Inr ())))"

text \<open>The approval becomes final: the state, the factory run and the intent in one transaction.\<close>

definition finalize_spec_approval ::
    "factory_env \<Rightarrow> int \<Rightarrow> string \<Rightarrow> string \<Rightarrow> string \<Rightarrow> spec_db \<Rightarrow> (spec_db, unit) db_result" where
  "finalize_spec_approval env now run_id intent_id completed_step db =
     (case found_or (spec_intent_missing intent_id) (get_spec_publication_intent env db intent_id) of
        Inl e \<Rightarrow> (db, Inl e)
      | Inr intent \<Rightarrow>
          (let steps = add_exact_step completed_step (spi_completed_steps (spi_row intent));
               P = (\<lambda>s. srn_run_id s = run_id \<and> srn_approved_version s \<noteq> None)
           in if changed_rows P (sdb_spec_states db) = 0
              then (db, storage_fail (''cannot finalize spec approval for run '' @ run_id
                          @ '' without a pinned version''))
              else (case bounded_json env (json_string_list steps) of
                      Inl e \<Rightarrow> (db, Inl e)
                    | Inr _ \<Rightarrow>
                        (let db1 = update_spec_state P
                               (\<lambda>s. s\<lparr> srn_pending_approval_version := None, srn_decision := ApprovedDecision,
                                       srn_updated_at := now \<rparr>) db;
                             db2 = db1\<lparr> sdb_base :=
                               set_run_stage now run_id FactoryCompleted spec_stage_name (sdb_base db1) \<rparr>
                         in (update_spec_intent (\<lambda>i. spi_intent_id i = intent_id \<and> spi_run_id i = run_id)
                               (\<lambda>i. i\<lparr> spi_status := PubApplied, spi_completed_steps := steps,
                                       spi_last_error_json := None, spi_updated_at := now \<rparr>) db2, Inr ())))))"

end
