(* ===== verification/SpecStageFacts.thy ===== *)
theory SpecStageFacts
  imports SpecStage
begin

text \<open>
  Facts about the specification stage: what the validators accept, the cap's post-processing
  keeps an artifact valid, and the shape of every run of the pipeline, read off the log of the
  turns it asks its executor for.
\<close>

section \<open>What the validators accept\<close>

definition text_ok :: "nat \<Rightarrow> string \<Rightarrow> bool" where
  "text_ok max_bytes s \<longleftrightarrow> trim s \<noteq> [] \<and> utf8_len s \<le> max_bytes"

definition spec_ok :: "spec_artifact \<Rightarrow> bool" where
  "spec_ok a \<longleftrightarrow>
     spa_schema_version a = 1
     \<and> text_ok 16000 (spa_product_behavior a) \<and> text_ok 16000 (spa_technical_approach a)
     \<and> 1 \<le> length (spa_acceptance_criteria a) \<and> length (spa_acceptance_criteria a) \<le> 50
     \<and> list_all (text_ok 1000) (spa_acceptance_criteria a)
     \<and> length (spa_open_decisions a) \<le> 50 \<and> list_all (text_ok 1000) (spa_open_decisions a)"

definition findings_ok :: "spec_review_findings \<Rightarrow> bool" where
  "findings_ok fs \<longleftrightarrow>
     srs_schema_version fs = 1 \<and> length (srs_findings fs) \<le> 30
     \<and> list_all (\<lambda>f. text_ok 1000 (srf_summary f) \<and> text_ok 1000 (srf_recommendation f)) (srs_findings fs)
     \<and> (srs_verdict fs = VerdictPass \<longleftrightarrow> findings_blocking fs = [])"

lemma ok_then_ok [simp]: "ok_then r s = Inr () \<longleftrightarrow> r = Inr () \<and> s = Inr ()"
  by (cases r) (simp_all add: ok_then_def)

lemma validate_text_ok [simp]: "validate_text n s m = Inr () \<longleftrightarrow> text_ok m s"
  by (simp add: validate_text_def text_ok_def not_less)

lemma validate_items_ok:
  "(\<And>i x. check i x = Inr () \<longleftrightarrow> P x) \<Longrightarrow> validate_items check i xs = Inr () \<longleftrightarrow> list_all P xs"
  by (induction xs arbitrary: i) simp_all

lemma validate_list_ok [simp]:
  "validate_list n xs l m = Inr () \<longleftrightarrow> l \<le> length xs \<and> length xs \<le> m \<and> list_all (text_ok 1000) xs"
  by (auto simp: validate_list_def spec_list_item_max_bytes_def
      validate_items_ok [where P = "text_ok 1000"])

lemma validate_spec_ok: "validate_spec a = Inr () \<longleftrightarrow> spec_ok a"
  by (simp add: validate_spec_def spec_ok_def spec_schema_version_def spec_section_max_bytes_def
      spec_acceptance_criteria_max_items_def spec_open_decisions_max_items_def)

lemma validate_findings_ok: "validate_findings fs = Inr () \<longleftrightarrow> findings_ok fs"
proof -
  have item: "validate_items validate_finding 0 (srs_findings fs) = Inr ()
      \<longleftrightarrow> list_all (\<lambda>f. text_ok 1000 (srf_summary f) \<and> text_ok 1000 (srf_recommendation f)) (srs_findings fs)"
    by (rule validate_items_ok) (simp add: validate_finding_def spec_list_item_max_bytes_def)
  show ?thesis
    by (cases "srs_verdict fs")
      (auto simp: validate_findings_def findings_ok_def item spec_schema_version_def
        spec_findings_max_items_def findings_blocking_def Let_def)
qed

lemma unit_sum_cases: "(r :: 'e + unit) = Inr () \<or> (\<exists>e. r = Inl e)"
  by (cases r) auto

section \<open>The cap's post-processing\<close>

lemma unresolved_line_ok: "text_ok 1000 (unresolved_line f)"
proof -
  obtain rest where r: "unresolved_line f = CHR ''U'' # rest"
    by (simp add: unresolved_line_def truncate_is_take_bytes spec_list_item_max_bytes_def
        char_bytes_def code_point_def)
  have u: "\<not> is_whitespace (CHR ''U'')"
    by (simp add: is_whitespace_def code_point_def)
  have "trim (CHR ''U'' # rest) = trim_end (CHR ''U'' # rest)"
    by (simp add: trim_def trim_start_def u)
  also have "\<dots> \<noteq> []"
    using u by (simp add: trim_end_def dropWhile_eq_Nil_conv)
  finally have "trim (unresolved_line f) \<noteq> []" using r by simp
  moreover have "utf8_len (unresolved_line f) \<le> 1000"
    by (metis truncate_bound spec_list_item_max_bytes_def unresolved_line_def)
  ultimately show ?thesis by (simp add: text_ok_def)
qed

lemma append_unresolved_ok: "spec_ok a \<Longrightarrow> spec_ok (append_unresolved_to_open_decisions a fs)"
proof (induction a fs rule: append_unresolved_to_open_decisions.induct)
  case (2 artifact finding rest)
  show ?case
  proof (cases "spec_open_decisions_max_items \<le> length (spa_open_decisions artifact)")
    case False
    then have "spec_ok (artifact\<lparr> spa_open_decisions :=
        spa_open_decisions artifact @ [unresolved_line finding] \<rparr>)"
      using "2.prems" by (simp add: spec_ok_def unresolved_line_ok spec_open_decisions_max_items_def)
    with 2 False show ?thesis by simp
  qed (use 2 in simp)
qed simp

lemma append_unresolved_is:
  "append_unresolved_to_open_decisions a fs
     = a\<lparr> spa_open_decisions := spa_open_decisions a
           @ map unresolved_line (take (50 - length (spa_open_decisions a)) fs) \<rparr>"
proof (induction a fs rule: append_unresolved_to_open_decisions.induct)
  case (2 artifact finding rest)
  then show ?case
    by (auto simp: spec_open_decisions_max_items_def take_Cons')
qed simp

section \<open>One turn\<close>

text \<open>An executor that keeps the list of the requests it was given.\<close>

definition logged :: "'w spec_turn_executor \<Rightarrow> ('w \<times> spec_turn_request list) spec_turn_executor" where
  "logged execute wl r = (case execute (fst wl) r of (w', res) \<Rightarrow> ((w', snd wl @ [r]), res))"

lemma execute_turn_logged:
  assumes "execute_turn (logged ex) tid req ord kind prompt model inputs (w, log) = ((w', log'), res)"
  shows "\<exists>r. log' = log @ [r] \<and> str_ordinal r = ord \<and> str_kind r = kind \<and> str_inputs r = inputs
    \<and> execute_turn ex tid req ord kind prompt model inputs w = (w', res)"
  using assms by (auto simp: execute_turn_def logged_def split: prod.splits sum.splits)

lemma execute_turn_kind:
  assumes "execute_turn ex tid req ord kind prompt model inputs w = (w', Inr t)"
  shows "cst_kind t = kind" "cst_ordinal t = ord"
  using assms by (auto simp: execute_turn_def split: prod.splits sum.splits)

lemma execute_spec_turn_cases:
  assumes "execute_spec_turn ex tid req ord kind prompt model inputs turns w = (w', res)"
  obtains (failed) e where "res = Inl e"
  | (completed) t a where "execute_turn ex tid req ord kind prompt model inputs w = (w', Inr t)"
      "cst_output t = OutputSpec a" "spec_ok a" "res = Inr (a, turns @ [t])"
  using assms
  by (auto simp: execute_spec_turn_def simp flip: validate_spec_ok
      split: prod.splits sum.splits spec_turn_output.splits)

lemma execute_review_turn_cases:
  assumes "execute_review_turn ex tid req ord current turns w = (w', res)"
  obtains (failed) e where "res = Inl e"
  | (completed) t fs where "cst_kind t = TurnReview" "cst_ordinal t = ord"
      "cst_output t = OutputFindings fs" "findings_ok fs" "res = Inr (fs, turns @ [t])"
  using assms
  by (auto simp: execute_review_turn_def dest: execute_turn_kind simp flip: validate_findings_ok
      split: prod.splits sum.splits spec_turn_output.splits)

lemma execute_spec_turn_logged:
  assumes "execute_spec_turn (logged ex) tid req ord kind prompt model inputs turns (w, log) = ((w', log'), res)"
  shows "\<exists>r. log' = log @ [r] \<and> str_ordinal r = ord \<and> str_kind r = kind \<and> str_inputs r = inputs
    \<and> execute_spec_turn ex tid req ord kind prompt model inputs turns w = (w', res)"
proof -
  obtain w1 log1 res1
    where t: "execute_turn (logged ex) tid req ord kind prompt model inputs (w, log) = ((w1, log1), res1)"
    by (metis prod.collapse)
  from execute_turn_logged [OF t] obtain r where
    r: "log1 = log @ [r]" "str_ordinal r = ord" "str_kind r = kind" "str_inputs r = inputs"
      "execute_turn ex tid req ord kind prompt model inputs w = (w1, res1)" by blast
  from assms have "w' = w1 \<and> log' = log1"
    by (auto simp: execute_spec_turn_def t split: sum.splits spec_turn_output.splits)
  with assms r show ?thesis
    by (auto simp: execute_spec_turn_def t split: sum.splits spec_turn_output.splits)
qed

lemma execute_review_turn_logged:
  assumes "execute_review_turn (logged ex) tid req ord current turns (w, log) = ((w', log'), res)"
  shows "\<exists>r. log' = log @ [r] \<and> str_ordinal r = ord \<and> str_kind r = TurnReview
    \<and> sti_current_spec (str_inputs r) = Some current \<and> sti_blocking_findings (str_inputs r) = None
    \<and> sti_human_feedback (str_inputs r) = None
    \<and> execute_review_turn ex tid req ord current turns w = (w', res)"
proof -
  let ?i = "\<lparr> sti_issue_context = spr_issue_context req, sti_current_spec = Some current,
    sti_blocking_findings = None, sti_prior_version = None, sti_human_feedback = None \<rparr>"
  obtain w1 log1 res1
    where t: "execute_turn (logged ex) tid req ord TurnReview (spp_review (spc_prompts (spr_config req)))
      (spc_review_model (spr_config req)) ?i (w, log) = ((w1, log1), res1)"
    by (metis prod.collapse)
  from execute_turn_logged [OF t] obtain r where
    r: "log1 = log @ [r]" "str_ordinal r = ord" "str_kind r = TurnReview" "str_inputs r = ?i"
      "execute_turn ex tid req ord TurnReview (spp_review (spc_prompts (spr_config req)))
        (spc_review_model (spr_config req)) ?i w = (w1, res1)" by blast
  from assms have "w' = w1 \<and> log' = log1"
    by (auto simp: execute_review_turn_def t split: sum.splits spec_turn_output.splits)
  with assms r show ?thesis
    by (auto simp: execute_review_turn_def t split: sum.splits spec_turn_output.splits)
qed

section \<open>The loop of reviews\<close>

text \<open>The kinds of the requests from one review on: review, revise, review and so on.\<close>

definition loop_kind :: "nat \<Rightarrow> spec_turn_kind" where
  "loop_kind i = (if even i then TurnReview else TurnRevise)"

definition requests_from :: "nat \<Rightarrow> spec_turn_request list \<Rightarrow> bool" where
  "requests_from ord rs \<longleftrightarrow>
     (\<forall>i<length rs. str_ordinal (rs ! i) = ord + i \<and> str_kind (rs ! i) = loop_kind i)"

lemma requests_from_one: "requests_from ord [r] \<longleftrightarrow> str_ordinal r = ord \<and> str_kind r = TurnReview"
  by (simp add: requests_from_def loop_kind_def)

lemma requests_from_two:
  "requests_from ord [r, r'] \<longleftrightarrow>
     str_ordinal r = ord \<and> str_kind r = TurnReview \<and> str_ordinal r' = Suc ord \<and> str_kind r' = TurnRevise"
  by (auto simp: requests_from_def loop_kind_def less_Suc_eq)

lemma requests_from_more:
  assumes "str_ordinal r = ord" "str_kind r = TurnReview" "str_ordinal r' = Suc ord" "str_kind r' = TurnRevise"
    and "requests_from (ord + 2) rest"
  shows "requests_from ord (r # r' # rest)"
  unfolding requests_from_def
proof (intro allI impI)
  fix i assume i: "i < length (r # r' # rest)"
  consider "i = 0" | "i = 1" | k where "i = Suc (Suc k)"
    by (metis One_nat_def not0_implies_Suc)
  then show "str_ordinal ((r # r' # rest) ! i) = ord + i \<and> str_kind ((r # r' # rest) ! i) = loop_kind i"
  proof cases
    case 3
    then show ?thesis using assms(5) i by (simp add: requests_from_def loop_kind_def)
  qed (use assms in \<open>simp_all add: loop_kind_def\<close>)
qed

lemma review_loop_logged:
  assumes "review_loop (logged ex) tid req current turns ord cyc (w, log) = ((w', log'), res)"
  shows "review_loop ex tid req current turns ord cyc w = (w', res)
    \<and> (\<exists>rest. log' = log @ rest \<and> requests_from ord rest \<and> 1 \<le> length rest
        \<and> length rest \<le> max 1 (2 * (spc_max_review_cycles (spr_config req) - cyc) - 1))"
  using assms
proof (induction "spc_max_review_cycles (spr_config req) - cyc"
    arbitrary: current turns ord cyc w log rule: less_induct)
  case less
  let ?max = "spc_max_review_cycles (spr_config req)"
  obtain w1 log1 res1
    where rev: "execute_review_turn (logged ex) tid req ord current turns (w, log) = ((w1, log1), res1)"
    by (metis prod.collapse)
  from execute_review_turn_logged [OF rev] obtain r where
    r: "log1 = log @ [r]" "str_ordinal r = ord" "str_kind r = TurnReview"
      "execute_review_turn ex tid req ord current turns w = (w1, res1)" by blast
  note loop = less.prems [unfolded review_loop.simps [of "logged ex" tid req current turns ord cyc "(w, log)"] rev]
  show ?case
  proof (cases "\<exists>fs turns1. res1 = Inr (fs, turns1) \<and> srs_verdict fs = VerdictRevise \<and> Suc cyc < ?max")
    case False
    have "log' = log @ [r] \<and> review_loop ex tid req current turns ord cyc w = (w', res)"
    proof (cases res1)
      case (Inl e)
      then show ?thesis
        using loop r unfolding review_loop.simps [of ex tid req current turns ord cyc w] by (simp add: Let_def)
    next
      case (Inr p)
      obtain fs turns1 where p: "p = (fs, turns1)" by (cases p)
      consider "srs_verdict fs = VerdictPass" | "srs_verdict fs = VerdictRevise" "?max \<le> Suc cyc"
        using False Inr p by (cases "srs_verdict fs") (auto simp: not_less)
      then show ?thesis
        using loop r Inr p unfolding review_loop.simps [of ex tid req current turns ord cyc w]
        by cases (simp_all add: Let_def split: sum.splits)
    qed
    with r show ?thesis by (intro conjI exI [of _ "[r]"]) (simp_all add: requests_from_one)
  next
    case True
    then obtain fs turns1 where fs: "res1 = Inr (fs, turns1)" "srs_verdict fs = VerdictRevise" "Suc cyc < ?max"
      by blast
    let ?p = "spp_revise (spc_prompts (spr_config req))"
    let ?i = "\<lparr> sti_issue_context = spr_issue_context req, sti_current_spec = Some current,
      sti_blocking_findings = Some (findings_blocking fs), sti_prior_version = None, sti_human_feedback = None \<rparr>"
    obtain w2 log2 res2
      where revise: "execute_spec_turn (logged ex) tid req (Suc ord) TurnRevise ?p
        (spc_draft_model (spr_config req)) ?i turns1 (w1, log1) = ((w2, log2), res2)"
      by (metis prod.collapse)
    from execute_spec_turn_logged [OF revise] obtain r' where
      r': "log2 = log1 @ [r']" "str_ordinal r' = Suc ord" "str_kind r' = TurnRevise"
        "execute_spec_turn ex tid req (Suc ord) TurnRevise ?p (spc_draft_model (spr_config req)) ?i turns1 w1
           = (w2, res2)" by blast
    show ?thesis
    proof (cases res2)
      case (Inl e)
      have "review_loop ex tid req current turns ord cyc w = (w', res)" "log' = log @ [r, r']"
        using loop fs r r' revise Inl unfolding review_loop.simps [of ex tid req current turns ord cyc w] by (auto simp: Let_def)
      with r r' fs show ?thesis
        by (intro conjI exI [of _ "[r, r']"]) (simp_all add: requests_from_two)
    next
      case (Inr p)
      obtain revised turns2 where p: "p = (revised, turns2)" by (cases p)
      have next_loop: "review_loop (logged ex) tid req revised turns2 (ord + 2) (Suc cyc) (w2, log2)
          = ((w', log'), res)"
        using loop fs revise Inr p by (simp add: Let_def)
      have "?max - Suc cyc < ?max - cyc" using fs(3) by simp
      from less.hyps [OF this next_loop] obtain rest where
        ih: "review_loop ex tid req revised turns2 (ord + 2) (Suc cyc) w2 = (w', res)"
          "log' = log2 @ rest" "requests_from (ord + 2) rest" "1 \<le> length rest"
          "length rest \<le> max 1 (2 * (?max - Suc cyc) - 1)" by blast
      have "review_loop ex tid req current turns ord cyc w = (w', res)"
        using fs r r' Inr p ih(1) unfolding review_loop.simps [of ex tid req current turns ord cyc w] by (simp add: Let_def)
      moreover have "log' = log @ (r # r' # rest)" using ih(2) r r' by simp
      moreover have "requests_from ord (r # r' # rest)"
        using r r' ih(3) by (intro requests_from_more) simp_all
      moreover have "length (r # r' # rest) \<le> max 1 (2 * (?max - cyc) - 1)"
        using ih(5) fs(3) by (cases "?max - cyc") (auto simp: max_def Suc_diff_Suc split: if_splits)
      ultimately show ?thesis by (intro conjI exI [of _ "r # r' # rest"]) simp_all
    qed
  qed
qed

text \<open>What the loop returns: the turns it added, two to a cycle, and how the last one decided.\<close>

definition loop_result ::
    "spec_pipeline_request \<Rightarrow> nat \<Rightarrow> nat \<Rightarrow> spec_artifact \<Rightarrow> completed_spec_turn list
     \<Rightarrow> nat \<Rightarrow> spec_review_finding list \<Rightarrow> completed_spec_turn list \<Rightarrow> bool" where
  "loop_result req cyc ord artifact turns cycles unresolved added \<longleftrightarrow>
     cyc < cycles \<and> cycles \<le> max (Suc cyc) (spc_max_review_cycles (spr_config req))
     \<and> length added + 1 = 2 * (cycles - cyc)
     \<and> (\<forall>i<length added. cst_kind (added ! i) = loop_kind i \<and> cst_ordinal (added ! i) = ord + i)
     \<and> (\<exists>fs reviewed. cst_output (last added) = OutputFindings fs \<and> findings_ok fs
          \<and> cst_output (last (turns @ butlast added)) = OutputSpec reviewed \<and> spec_ok reviewed
          \<and> unresolved = findings_blocking fs
          \<and> (unresolved \<noteq> [] \<longrightarrow> spc_max_review_cycles (spr_config req) \<le> cycles)
          \<and> artifact = append_unresolved_to_open_decisions reviewed unresolved)"

lemma loop_result_step:
  assumes "loop_result req (Suc cyc) (ord + 2) artifact turns2 cycles unresolved added"
    and "turns2 = turns @ [t, t']" "Suc cyc < spc_max_review_cycles (spr_config req)"
    and "cst_kind t = TurnReview" "cst_ordinal t = ord" "cst_kind t' = TurnRevise" "cst_ordinal t' = Suc ord"
  shows "loop_result req cyc ord artifact turns cycles unresolved (t # t' # added)"
proof -
  have ne: "added \<noteq> []" using assms(1) by (auto simp: loop_result_def)
  have "cst_kind ((t # t' # added) ! i) = loop_kind i \<and> cst_ordinal ((t # t' # added) ! i) = ord + i"
    if i: "i < length (t # t' # added)" for i
  proof -
    consider "i = 0" | "i = 1" | k where "i = Suc (Suc k)"
      by (metis One_nat_def not0_implies_Suc)
    then show ?thesis
    proof cases
      case 3
      then show ?thesis using assms(1) i by (simp add: loop_result_def loop_kind_def)
    qed (use assms in \<open>simp_all add: loop_kind_def\<close>)
  qed
  moreover have "cyc < cycles" "cycles \<le> max (Suc cyc) (spc_max_review_cycles (spr_config req))"
    "length (t # t' # added) + 1 = 2 * (cycles - cyc)"
    using assms(1,3) by (auto simp: loop_result_def)
  ultimately show ?thesis
    using assms(1) ne unfolding loop_result_def assms(2) by simp
qed

lemma append_unresolved_Nil [simp]: "append_unresolved_to_open_decisions a [] = a"
  by simp

lemma review_loop_result:
  assumes "review_loop ex tid req current turns ord cyc w = (w', Inr (artifact, turns', cycles, unresolved))"
    and "spec_ok current" "turns \<noteq> []" "cst_output (last turns) = OutputSpec current"
  shows "\<exists>added. turns' = turns @ added \<and> loop_result req cyc ord artifact turns cycles unresolved added"
  using assms
proof (induction "spc_max_review_cycles (spr_config req) - cyc"
    arbitrary: current turns ord cyc w rule: less_induct)
  case less
  let ?max = "spc_max_review_cycles (spr_config req)"
  obtain w1 res1 where rev: "execute_review_turn ex tid req ord current turns w = (w1, res1)"
    by (metis prod.collapse)
  note loop = less.prems(1) [unfolded review_loop.simps [of ex tid req current turns ord cyc w] rev]
  from rev show ?case
  proof (cases rule: execute_review_turn_cases)
    case (failed e)
    then show ?thesis using loop by (simp add: Let_def)
  next
    case (completed t fs)
    show ?thesis
    proof (cases "srs_verdict fs = VerdictRevise \<and> Suc cyc < ?max")
      case False
      then have "turns' = turns @ [t]" "cycles = Suc cyc" "unresolved = findings_blocking fs"
        "artifact = append_unresolved_to_open_decisions current unresolved"
        "unresolved \<noteq> [] \<longrightarrow> ?max \<le> cycles"
        using loop completed(4,5) False
        by (cases "srs_verdict fs"; simp add: Let_def findings_ok_def not_less split: sum.splits)+
      with completed less.prems show ?thesis
        by (intro exI [of _ "[t]"] conjI) (simp_all add: loop_result_def loop_kind_def)
    next
      case True
      let ?p = "spp_revise (spc_prompts (spr_config req))"
      let ?i = "\<lparr> sti_issue_context = spr_issue_context req, sti_current_spec = Some current,
        sti_blocking_findings = Some (findings_blocking fs), sti_prior_version = None, sti_human_feedback = None \<rparr>"
      obtain w2 res2
        where revise: "execute_spec_turn ex tid req (Suc ord) TurnRevise ?p
          (spc_draft_model (spr_config req)) ?i (turns @ [t]) w1 = (w2, res2)"
        by (metis prod.collapse)
      then show ?thesis
      proof (cases rule: execute_spec_turn_cases)
        case (failed e)
        then show ?thesis using loop completed True revise by (simp add: Let_def)
      next
        case rev': (completed t' a)
        have next_loop: "review_loop ex tid req a (turns @ [t, t']) (ord + 2) (Suc cyc) w2
            = (w', Inr (artifact, turns', cycles, unresolved))"
          using loop completed True revise rev' by (simp add: Let_def)
        have "?max - Suc cyc < ?max - cyc" using True by arith
        from less.hyps [OF this next_loop] rev' obtain added where
          ih: "turns' = (turns @ [t, t']) @ added"
            "loop_result req (Suc cyc) (ord + 2) artifact (turns @ [t, t']) cycles unresolved added" by auto
        from loop_result_step [OF ih(2) refl] True completed execute_turn_kind [OF rev'(1)]
        have "loop_result req cyc ord artifact turns cycles unresolved (t # t' # added)" by simp
        with ih(1) show ?thesis by (intro exI [of _ "t # t' # added"]) simp
      qed
    qed
  qed
qed

section \<open>A whole run\<close>

definition first_kind :: "spec_pipeline_request \<Rightarrow> spec_turn_kind" where
  "first_kind req = (case spr_seed req of None \<Rightarrow> TurnDraft | Some _ \<Rightarrow> TurnRevise)"

definition turn_kind :: "spec_pipeline_request \<Rightarrow> nat \<Rightarrow> spec_turn_kind" where
  "turn_kind req i = (if i = 0 then first_kind req else loop_kind (i - 1))"

lemma first_turn_is:
  obtains prompt inputs where "\<And>ex :: 'w spec_turn_executor. first_turn ex tid req
      = execute_spec_turn ex tid req 1 (first_kind req) prompt (spc_draft_model (spr_config req)) inputs []"
    "\<And>ex :: ('w \<times> spec_turn_request list) spec_turn_executor. first_turn ex tid req
      = execute_spec_turn ex tid req 1 (first_kind req) prompt (spc_draft_model (spr_config req)) inputs []"
  by (cases "spr_seed req") (auto simp: first_turn_def first_kind_def fun_eq_iff Let_def)

lemma map_nth_eq:
  "map f xs = map g [0..<n] \<longleftrightarrow> length xs = n \<and> (\<forall>i<n. f (xs ! i) = g i)"
  by (subst list_eq_iff_nth_eq) auto

lemma numbered_turns:
  assumes "f x = g 0" "\<And>i. i < length xs \<Longrightarrow> f (xs ! i) = g (Suc i)"
  shows "map f (x # xs) = map g [0..<length (x # xs)]"
  unfolding map_nth_eq using assms by (auto simp: nth_Cons split: nat.splits)

lemma run_pipeline_logged:
  assumes "run_pipeline (logged ex) tid req (w, []) = ((w', log), res)"
  shows "run_pipeline ex tid req w = (w', res) \<and> length log \<le> 2 * spc_max_review_cycles (spr_config req)
    \<and> map str_ordinal log = map Suc [0..<length log] \<and> map str_kind log = map (turn_kind req) [0..<length log]"
proof (cases "spc_max_review_cycles (spr_config req) = 0 \<or> spc_turn_timeout_ms (spr_config req) = 0")
  case True
  then show ?thesis using assms by (auto simp: run_pipeline_def)
next
  case False
  let ?max = "spc_max_review_cycles (spr_config req)"
  obtain prompt inputs where first: "\<And>ex :: 'a spec_turn_executor. first_turn ex tid req
      = execute_spec_turn ex tid req 1 (first_kind req) prompt (spc_draft_model (spr_config req)) inputs []"
    "\<And>ex :: ('a \<times> spec_turn_request list) spec_turn_executor. first_turn ex tid req
      = execute_spec_turn ex tid req 1 (first_kind req) prompt (spc_draft_model (spr_config req)) inputs []"
    by (rule first_turn_is) blast
  obtain w1 log1 res1 where one: "first_turn (logged ex) tid req (w, []) = ((w1, log1), res1)"
    by (metis prod.collapse)
  from execute_spec_turn_logged [OF one [unfolded first]] obtain r where
    r: "log1 = [r]" "str_ordinal r = 1" "str_kind r = first_kind req" "first_turn ex tid req w = (w1, res1)"
    unfolding first by auto
  show ?thesis
  proof (cases res1)
    case (Inl e)
    with assms False one r show ?thesis by (auto simp: run_pipeline_def turn_kind_def)
  next
    case (Inr p)
    obtain current turns where p: "p = (current, turns)" by (cases p)
    obtain w2 log2 res2
      where loop: "review_loop (logged ex) tid req current turns 2 0 (w1, log1) = ((w2, log2), res2)"
      by (metis prod.collapse)
    from review_loop_logged [OF loop] obtain rest where
      l: "review_loop ex tid req current turns 2 0 w1 = (w2, res2)" "log2 = r # rest" "requests_from 2 rest"
        "length rest \<le> max 1 (2 * ?max - 1)"
      unfolding r(1) by auto
    have run: "run_pipeline ex tid req w = (w', res)" "log = r # rest"
      using assms False one r Inr p loop l by (auto simp: run_pipeline_def split: sum.splits)
    have "map str_ordinal log = map Suc [0..<length log]"
      unfolding run(2) using r(2) l(3) by (intro numbered_turns) (simp_all add: requests_from_def)
    moreover have "map str_kind log = map (turn_kind req) [0..<length log]"
      unfolding run(2) using r(3) l(3)
      by (intro numbered_turns) (simp_all add: requests_from_def turn_kind_def)
    moreover have "length log \<le> 2 * ?max" using l(4) run(2) False by (auto simp: max_def split: if_splits)
    ultimately show ?thesis using run(1) by blast
  qed
qed

lemma run_pipeline_result:
  assumes "run_pipeline ex tid req w = (w', Inr out)"
  shows "\<exists>reviewed fs.
      1 \<le> spo_review_cycles out \<and> spo_review_cycles out \<le> spc_max_review_cycles (spr_config req)
      \<and> length (spo_turns out) = 2 * spo_review_cycles out
      \<and> map cst_ordinal (spo_turns out) = map Suc [0..<length (spo_turns out)]
      \<and> map cst_kind (spo_turns out) = map (turn_kind req) [0..<length (spo_turns out)]
      \<and> cst_output (last (butlast (spo_turns out))) = OutputSpec reviewed \<and> spec_ok reviewed
      \<and> cst_output (last (spo_turns out)) = OutputFindings fs \<and> findings_ok fs
      \<and> spo_unresolved_blocking_findings out = findings_blocking fs
      \<and> (findings_blocking fs \<noteq> [] \<longrightarrow> spo_review_cycles out = spc_max_review_cycles (spr_config req))
      \<and> spo_artifact out = append_unresolved_to_open_decisions reviewed (findings_blocking fs)
      \<and> spo_usage out = foldl add_turn_usage no_usage (map cst_usage (spo_turns out))"
proof -
  let ?max = "spc_max_review_cycles (spr_config req)"
  have pos: "0 < ?max" using assms by (auto simp: run_pipeline_def split: if_splits)
  obtain prompt inputs where first: "\<And>ex :: 'a spec_turn_executor. first_turn ex tid req
      = execute_spec_turn ex tid req 1 (first_kind req) prompt (spc_draft_model (spr_config req)) inputs []"
    by (rule first_turn_is) blast
  from assms obtain current turns w1 where one: "first_turn ex tid req w = (w1, Inr (current, turns))"
    and loop: "review_loop ex tid req current turns 2 0 w1
      = (w', Inr (spo_artifact out, spo_turns out, spo_review_cycles out, spo_unresolved_blocking_findings out))"
    and usage: "spo_usage out = foldl add_turn_usage no_usage (map cst_usage (spo_turns out))"
    by (auto simp: run_pipeline_def split: if_splits prod.splits sum.splits)
  from one [unfolded first] obtain t where t: "turns = [t]" "cst_kind t = first_kind req" "cst_ordinal t = 1"
    "cst_output t = OutputSpec current" "spec_ok current"
    by (cases rule: execute_spec_turn_cases) (auto dest: execute_turn_kind)
  with review_loop_result [OF loop] obtain added where
    added: "spo_turns out = t # added"
      "loop_result req 0 2 (spo_artifact out) [t] (spo_review_cycles out)
         (spo_unresolved_blocking_findings out) added"
    by auto
  then have ne: "added \<noteq> []" by (auto simp: loop_result_def)
  have "map cst_ordinal (spo_turns out) = map Suc [0..<length (spo_turns out)]"
    unfolding added(1) using t added(2) by (intro numbered_turns) (simp_all add: loop_result_def)
  moreover have "map cst_kind (spo_turns out) = map (turn_kind req) [0..<length (spo_turns out)]"
    unfolding added(1) using t added(2) by (intro numbered_turns) (simp_all add: loop_result_def turn_kind_def)
  moreover have "spo_review_cycles out \<le> ?max"
    using added(2) pos by (simp add: loop_result_def max_def split: if_splits)
  moreover have "length (spo_turns out) = 2 * spo_review_cycles out" "1 \<le> spo_review_cycles out"
    using added by (simp_all add: loop_result_def)
  moreover obtain fs reviewed where
    f: "cst_output (last added) = OutputFindings fs" "findings_ok fs"
      "cst_output (last ([t] @ butlast added)) = OutputSpec reviewed" "spec_ok reviewed"
      "spo_unresolved_blocking_findings out = findings_blocking fs"
      "spo_unresolved_blocking_findings out \<noteq> [] \<longrightarrow> ?max \<le> spo_review_cycles out"
      "spo_artifact out = append_unresolved_to_open_decisions reviewed (spo_unresolved_blocking_findings out)"
    using added(2) unfolding loop_result_def by blast
  moreover have "last (spo_turns out) = last added" "butlast (spo_turns out) = [t] @ butlast added"
    using added(1) ne by simp_all
  ultimately show ?thesis
    using usage by (intro exI [of _ reviewed] exI [of _ fs]) (simp del: append_unresolved_to_open_decisions.simps)
qed

section \<open>What the turns are given\<close>

text \<open>
  The request a turn must be made with, given the turns before it: turn by turn its ordinal, its kind
  with the prompt and the model of that kind, and its inputs. A review reads the artifact of the turn
  before, a revision that of the turn before the review and the blocking findings of the review.
\<close>

definition spec_of_turn :: "completed_spec_turn \<Rightarrow> spec_artifact option" where
  "spec_of_turn t = (case cst_output t of OutputSpec a \<Rightarrow> Some a | OutputFindings _ \<Rightarrow> None)"

definition findings_of_turn :: "completed_spec_turn \<Rightarrow> spec_review_findings option" where
  "findings_of_turn t = (case cst_output t of OutputSpec _ \<Rightarrow> None | OutputFindings fs \<Rightarrow> Some fs)"

definition turn_inputs :: "spec_pipeline_request \<Rightarrow> completed_spec_turn list \<Rightarrow> nat \<Rightarrow> spec_turn_inputs" where
  "turn_inputs req turns i =
     (if i = 0 then
        \<lparr> sti_issue_context = spr_issue_context req,
          sti_current_spec = map_option sd_prior_spec (spr_seed req), sti_blocking_findings = None,
          sti_prior_version = map_option sd_prior_version (spr_seed req),
          sti_human_feedback = map_option sd_feedback (spr_seed req) \<rparr>
      else if odd i then
        \<lparr> sti_issue_context = spr_issue_context req, sti_current_spec = spec_of_turn (turns ! (i - 1)),
          sti_blocking_findings = None, sti_prior_version = None, sti_human_feedback = None \<rparr>
      else
        \<lparr> sti_issue_context = spr_issue_context req, sti_current_spec = spec_of_turn (turns ! (i - 2)),
          sti_blocking_findings = map_option findings_blocking (findings_of_turn (turns ! (i - 1))),
          sti_prior_version = None, sti_human_feedback = None \<rparr>)"

definition turn_request ::
    "(nat \<Rightarrow> string) \<Rightarrow> spec_pipeline_request \<Rightarrow> completed_spec_turn list \<Rightarrow> nat \<Rightarrow> spec_turn_request" where
  "turn_request tid req turns i =
     (let prompts = spc_prompts (spr_config req) in
      \<lparr> str_turn_id = tid (Suc i), str_stage_run_id = spr_stage_run_id req, str_ordinal = Suc i,
        str_kind = turn_kind req i,
        str_prompt = (case turn_kind req i of
           TurnDraft \<Rightarrow> spp_draft prompts | TurnReview \<Rightarrow> spp_review prompts | TurnRevise \<Rightarrow> spp_revise prompts),
        str_model = (if turn_kind req i = TurnReview then spc_review_model (spr_config req)
                     else spc_draft_model (spr_config req)),
        str_turn_timeout_ms = spc_turn_timeout_ms (spr_config req),
        str_inputs = turn_inputs req turns i \<rparr>)"

definition asked_as_due :: "(nat \<Rightarrow> string) \<Rightarrow> spec_pipeline_request \<Rightarrow> completed_spec_turn list
     \<Rightarrow> spec_turn_request list \<Rightarrow> bool" where
  "asked_as_due tid req turns log \<longleftrightarrow> log = map (turn_request tid req turns) [0..<length turns]"

lemma turn_request_snoc:
  "i \<le> length turns \<Longrightarrow> turn_request tid req (turns @ [t]) i = turn_request tid req turns i"
  by (cases "i = 0"; cases "odd i")
    (auto simp: turn_request_def turn_inputs_def nth_append elim!: evenE oddE)

lemma asked_as_due_snoc:
  "asked_as_due tid req turns log \<Longrightarrow>
     asked_as_due tid req (turns @ [t]) (log @ [turn_request tid req turns (length turns)])"
  by (auto simp: asked_as_due_def turn_request_snoc)

lemma output_of_turn [simp]:
  "cst_output t = OutputSpec a \<Longrightarrow> spec_of_turn t = Some a"
  "cst_output t = OutputFindings fs \<Longrightarrow> findings_of_turn t = Some fs"
  by (simp_all add: spec_of_turn_def findings_of_turn_def)

lemma review_turn_asked:
  assumes "execute_review_turn (logged ex) tid req ord current turns (w, log) = ((w', log'), Inr (fs, turns1))"
  shows "\<exists>t. turns1 = turns @ [t] \<and> cst_output t = OutputFindings fs \<and> log' = log @
      [\<lparr> str_turn_id = tid ord, str_stage_run_id = spr_stage_run_id req, str_ordinal = ord, str_kind = TurnReview,
         str_prompt = spp_review (spc_prompts (spr_config req)), str_model = spc_review_model (spr_config req),
         str_turn_timeout_ms = spc_turn_timeout_ms (spr_config req),
         str_inputs = \<lparr> sti_issue_context = spr_issue_context req, sti_current_spec = Some current,
           sti_blocking_findings = None, sti_prior_version = None, sti_human_feedback = None \<rparr> \<rparr>]"
  using assms
  by (auto simp: execute_review_turn_def execute_turn_def logged_def
      split: prod.splits sum.splits spec_turn_output.splits)

lemma spec_turn_asked:
  assumes "execute_spec_turn (logged ex) tid req ord kind prompt model inputs turns (w, log)
    = ((w', log'), Inr (a, turns1))"
  shows "\<exists>t. turns1 = turns @ [t] \<and> cst_output t = OutputSpec a \<and> log' = log @
      [\<lparr> str_turn_id = tid ord, str_stage_run_id = spr_stage_run_id req, str_ordinal = ord, str_kind = kind,
         str_prompt = prompt, str_model = model,
         str_turn_timeout_ms = spc_turn_timeout_ms (spr_config req), str_inputs = inputs \<rparr>]"
  using assms
  by (auto simp: execute_spec_turn_def execute_turn_def logged_def
      split: prod.splits sum.splits spec_turn_output.splits)

lemma review_loop_asked:
  assumes "review_loop (logged ex) tid req current turns ord cyc (w, log) = ((w', log'), Inr (artifact, turns', n, us))"
    and "asked_as_due tid req turns log" "odd (length turns)" "ord = Suc (length turns)"
    and "spec_of_turn (last turns) = Some current"
  shows "asked_as_due tid req turns' log'"
  using assms
proof (induction "spc_max_review_cycles (spr_config req) - cyc"
    arbitrary: current turns ord cyc w log rule: less_induct)
  case less
  let ?max = "spc_max_review_cycles (spr_config req)"
  have ne: "turns \<noteq> []" using less.prems(3) by (cases turns) simp_all
  obtain w1 log1 res1
    where rev: "execute_review_turn (logged ex) tid req ord current turns (w, log) = ((w1, log1), res1)"
    by (metis prod.collapse)
  note loop = less.prems(1) [unfolded review_loop.simps [of "logged ex" tid req current turns ord cyc "(w, log)"] rev]
  obtain fs turns1 where fs: "res1 = Inr (fs, turns1)" using loop by (cases res1) (auto simp: Let_def)
  from review_turn_asked [OF rev [unfolded fs]] obtain t where
    t: "turns1 = turns @ [t]" "cst_output t = OutputFindings fs"
    and log1: "log1 = log @ [turn_request tid req turns (length turns)]"
    using less.prems(3,4,5) ne
    by (auto simp: turn_request_def turn_inputs_def turn_kind_def loop_kind_def last_conv_nth Let_def)
  have due1: "asked_as_due tid req turns1 log1"
    unfolding t(1) log1 using less.prems(2) by (rule asked_as_due_snoc)
  show ?case
  proof (cases "srs_verdict fs = VerdictRevise \<and> Suc cyc < ?max")
    case False
    then have "turns' = turns1 \<and> log' = log1"
      using loop fs by (cases "srs_verdict fs") (auto simp: Let_def not_less split: sum.splits)
    then show ?thesis using due1 by simp
  next
    case True
    let ?i = "\<lparr> sti_issue_context = spr_issue_context req, sti_current_spec = Some current,
      sti_blocking_findings = Some (findings_blocking fs), sti_prior_version = None, sti_human_feedback = None \<rparr>"
    obtain w2 log2 res2
      where revise: "execute_spec_turn (logged ex) tid req (Suc ord) TurnRevise
        (spp_revise (spc_prompts (spr_config req))) (spc_draft_model (spr_config req)) ?i turns1 (w1, log1)
          = ((w2, log2), res2)"
      by (metis prod.collapse)
    obtain revised turns2 where res2: "res2 = Inr (revised, turns2)"
      using loop fs True revise by (cases res2) (auto simp: Let_def)
    have next_loop: "review_loop (logged ex) tid req revised turns2 (ord + 2) (Suc cyc) (w2, log2)
        = ((w', log'), Inr (artifact, turns', n, us))"
      using loop fs True revise res2 by (simp add: Let_def)
    have two: "turns ! (length turns - 1) = last turns" "length turns1 = Suc (length turns)"
      using ne t(1) by (simp_all add: last_conv_nth)
    have inputs: "turn_inputs req turns1 (length turns1) = ?i"
      using less.prems(3,5) ne t two by (simp add: turn_inputs_def nth_append)
    from spec_turn_asked [OF revise [unfolded res2]] obtain t' where
      t': "turns2 = turns1 @ [t']" "cst_output t' = OutputSpec revised"
      and log2: "log2 = log1 @ [turn_request tid req turns1 (length turns1)]"
      using less.prems(3,4) two(2) inputs
      by (auto simp: turn_request_def turn_kind_def loop_kind_def Let_def)
    have due2: "asked_as_due tid req turns2 log2"
      unfolding t'(1) log2 using due1 by (rule asked_as_due_snoc)
    have "?max - Suc cyc < ?max - cyc" using True by arith
    then show ?thesis
      by (rule less.hyps [OF _ next_loop due2]) (use less.prems(3,4) t(1) t' in simp_all)
  qed
qed

lemma first_turn_asked:
  assumes "first_turn (logged ex) tid req (w, []) = ((w', log), Inr (current, turns))"
  shows "asked_as_due tid req turns log \<and> length turns = 1 \<and> spec_of_turn (last turns) = Some current"
proof (cases "spr_seed req")
  case None
  from assms [unfolded first_turn_def None] show ?thesis
    by (auto simp: Let_def asked_as_due_def turn_request_def turn_inputs_def turn_kind_def first_kind_def None
        dest!: spec_turn_asked)
next
  case (Some seed)
  from assms [unfolded first_turn_def Some] show ?thesis
    by (auto simp: Let_def asked_as_due_def turn_request_def turn_inputs_def turn_kind_def first_kind_def Some
        dest!: spec_turn_asked)
qed

lemma run_pipeline_asked:
  assumes "run_pipeline ex tid req w = (w', Inr out)"
  shows "run_pipeline (logged ex) tid req (w, [])
    = ((w', map (turn_request tid req (spo_turns out)) [0..<length (spo_turns out)]), Inr out)"
proof -
  obtain v log res where run: "run_pipeline (logged ex) tid req (w, []) = ((v, log), res)"
    by (metis prod.collapse)
  have same: "v = w'" "res = Inr out" using run_pipeline_logged [OF run] assms by auto
  from run [unfolded same] obtain current turns w1 log1 where
    one: "first_turn (logged ex) tid req (w, []) = ((w1, log1), Inr (current, turns))"
    and loop: "review_loop (logged ex) tid req current turns 2 0 (w1, log1)
      = ((w', log), Inr (spo_artifact out, spo_turns out, spo_review_cycles out, spo_unresolved_blocking_findings out))"
    by (auto simp: run_pipeline_def split: if_splits prod.splits sum.splits)
  have "asked_as_due tid req (spo_turns out) log"
    by (rule review_loop_asked [OF loop]) (use first_turn_asked [OF one] in simp_all)
  then show ?thesis using run same by (simp add: asked_as_due_def)
qed

end
