(* ===== verification/SpecStoreFacts.thy ===== *)
theory SpecStoreFacts
  imports SpecStore SpecStageFacts FactoryStoreFacts
begin

text \<open>
  The invariant of the specification tables and its proof for every operation: stored
  artifacts are valid and numbered 1, 2, and so on within their run, an approval names a stored
  artifact of its run with its version, and a run never uses more revision requests than
  its budget. The factory tables may change in any way between two operations.
\<close>

section \<open>The invariant\<close>

definition run_artifacts :: "string \<Rightarrow> spec_artifact_record list \<Rightarrow> spec_artifact_record list" where
  "run_artifacts run_id arts = filter (\<lambda>a. sar_run_id a = run_id) arts"

definition spec_artifacts_ok :: "spec_artifact_record list \<Rightarrow> bool" where
  "spec_artifacts_ok arts \<longleftrightarrow>
     (\<forall>a \<in> set arts. spec_ok (sar_artifact a))
     \<and> distinct (map sar_artifact_id arts) \<and> distinct (map sar_stage_run_id arts)
     \<and> (\<forall>run_id. map sar_version (run_artifacts run_id arts)
            = map Suc [0..<length (run_artifacts run_id arts)])"

definition approval_ok :: "spec_artifact_record list \<Rightarrow> spec_run_state \<Rightarrow> bool" where
  "approval_ok arts s \<longleftrightarrow>
     (case srn_approved_artifact_id s of
        None \<Rightarrow> srn_approved_version s = None \<and> srn_decision s \<noteq> ApprovedDecision
      | Some artifact_id \<Rightarrow>
          \<exists>a \<in> set arts. sar_artifact_id a = artifact_id \<and> sar_run_id a = srn_run_id s
            \<and> srn_approved_version s = Some (sar_version a))"

definition state_ok :: "nat \<Rightarrow> spec_artifact_record list \<Rightarrow> spec_run_state \<Rightarrow> bool" where
  "state_ok budget arts s \<longleftrightarrow>
     srn_revision_requests_used s \<le> budget \<and> approval_ok arts s
     \<and> (srn_decision s = ApprovedDecision \<longrightarrow> srn_pending_approval_version s = None)"

definition spec_inv :: "nat \<Rightarrow> spec_db \<Rightarrow> bool" where
  "spec_inv budget db \<longleftrightarrow>
     spec_artifacts_ok (sdb_spec_artifacts db)
     \<and> distinct (map srn_run_id (sdb_spec_states db))
     \<and> (\<forall>s \<in> set (sdb_spec_states db). state_ok budget (sdb_spec_artifacts db) s)"

text \<open>What an operation that leaves the two tables alone preserves.\<close>

definition same_spec_tables :: "spec_db \<Rightarrow> spec_db \<Rightarrow> bool" where
  "same_spec_tables db db' \<longleftrightarrow>
     sdb_spec_artifacts db' = sdb_spec_artifacts db \<and> sdb_spec_states db' = sdb_spec_states db"

lemma same_spec_tables_inv: "same_spec_tables db db' \<Longrightarrow> spec_inv m db \<Longrightarrow> spec_inv m db'"
  by (simp add: same_spec_tables_def spec_inv_def)

lemma same_spec_tables_refl [simp]: "same_spec_tables db db"
  by (simp add: same_spec_tables_def)

lemma same_spec_tables_base [simp]: "same_spec_tables db (db\<lparr> sdb_base := b \<rparr>)"
  by (simp add: same_spec_tables_def)

lemma same_spec_tables_intent [simp]: "same_spec_tables db (update_spec_intent P f db)"
  by (simp add: same_spec_tables_def update_spec_intent_def)

lemma same_spec_tables_ops:
  "same_spec_tables db (fst (store_spec_turn env tq db))"
  "same_spec_tables db (fst (create_spec_publication_intent env now i run_id art kind desired db))"
  "same_spec_tables db (fst (update_spec_diagnostic_message env now i desired db))"
  "same_spec_tables db (fst (set_spec_publication_comment now i comment login db))"
  "same_spec_tables db (fst (complete_spec_publication env now i step db))"
  "same_spec_tables db (fst (update_spec_publication_step env now i step status err db))"
       apply (auto simp: store_spec_turn_def insert_spec_turn_def same_spec_tables_def split: sum.splits option.splits)[1]
      apply (auto simp: create_spec_publication_intent_def insert_spec_intent_def same_spec_tables_def
      split: sum.splits option.splits)[1]
  by (simp_all add: update_spec_diagnostic_message_def set_spec_publication_comment_def
      complete_spec_publication_def update_spec_publication_step_def Let_def split: sum.split)

section \<open>Updates of the state of a run\<close>

lemma update_where_map: "(\<And>r. P r \<Longrightarrow> g (f r) = g r) \<Longrightarrow> map g (update_where P f rows) = map g rows"
  by (simp add: update_where_def)

lemma update_spec_state_inv:
  assumes "spec_inv m db"
    and "\<And>s. s \<in> set (sdb_spec_states db) \<Longrightarrow> P s \<Longrightarrow> state_ok m (sdb_spec_artifacts db) s
      \<Longrightarrow> srn_run_id (f s) = srn_run_id s \<and> state_ok m (sdb_spec_artifacts db) (f s)"
  shows "spec_inv m (update_spec_state P f db)"
proof -
  have "map srn_run_id (update_where P f (sdb_spec_states db)) = map srn_run_id (sdb_spec_states db)"
    using assms by (auto simp: update_where_def spec_inv_def)
  moreover have "\<forall>s \<in> set (update_where P f (sdb_spec_states db)). state_ok m (sdb_spec_artifacts db) s"
    using assms by (auto simp: update_where_def spec_inv_def)
  ultimately show ?thesis using assms(1) by (simp add: spec_inv_def update_spec_state_def)
qed

lemma increment_inv:
  "spec_inv m db \<Longrightarrow> spec_inv m (fst (increment_spec_revision_requests now run_id m db))"
  by (auto simp: increment_spec_revision_requests_def Let_def state_ok_def approval_ok_def
      intro!: update_spec_state_inv split: option.splits)

lemma set_pending_inv: "spec_inv m db \<Longrightarrow> spec_inv m (fst (set_pending_spec_approval now run_id v db))"
  by (auto simp: set_pending_spec_approval_def Let_def state_ok_def approval_ok_def
      intro!: update_spec_state_inv split: option.splits)

lemma pin_inv: "spec_inv m db \<Longrightarrow> spec_inv m (fst (pin_spec_approval now run_id art db))"
proof (cases "get_spec_artifact db art")
  case (Some a)
  assume inv: "spec_inv m db"
  have a: "a \<in> set (sdb_spec_artifacts db)" "sar_artifact_id a = art"
    using Some find_in by (fastforce simp: get_spec_artifact_def find_spec_artifact_def)+
  have "spec_inv m (update_spec_state (\<lambda>s. srn_run_id s = sar_run_id a)
      (\<lambda>s. s\<lparr> srn_approved_version := Some (sar_version a), srn_approved_artifact_id := Some art,
              srn_decision := PendingApproval, srn_updated_at := now \<rparr>) db)"
    using inv by (rule update_spec_state_inv) (use a in \<open>auto simp: state_ok_def approval_ok_def\<close>)
  with inv Some show ?thesis by (auto simp: pin_spec_approval_def Let_def)
qed (simp add: pin_spec_approval_def)

lemma finalize_inv: "spec_inv m db \<Longrightarrow> spec_inv m (fst (finalize_spec_approval env now run_id i step db))"
proof -
  assume inv: "spec_inv m db"
  have "spec_inv m (update_spec_state (\<lambda>s. srn_run_id s = run_id \<and> srn_approved_version s \<noteq> None)
      (\<lambda>s. s\<lparr> srn_pending_approval_version := None, srn_decision := ApprovedDecision, srn_updated_at := now \<rparr>) db)"
    using inv by (rule update_spec_state_inv) (auto simp: state_ok_def approval_ok_def split: option.splits)
  then show ?thesis
    using inv by (auto simp: finalize_spec_approval_def Let_def intro!: same_spec_tables_inv [OF same_spec_tables_intent]
        same_spec_tables_inv [OF same_spec_tables_base] split: sum.split)
qed

section \<open>A new version\<close>

lemma fold_max_from_one: "fold max (map Suc [0..<n]) 0 = n"
  by (induction n) simp_all

lemma next_version_is:
  "spec_artifacts_ok (sdb_spec_artifacts db)
     \<Longrightarrow> next_spec_version db run_id = Suc (length (run_artifacts run_id (sdb_spec_artifacts db)))"
  by (simp add: next_spec_version_def spec_artifacts_ok_def fold_max_from_one flip: run_artifacts_def)

lemma approval_ok_more: "approval_ok arts s \<Longrightarrow> approval_ok (arts @ more_arts) s"
  by (auto simp: approval_ok_def split: option.splits)

lemma insert_artifact_ok:
  assumes "spec_artifacts_ok (sdb_spec_artifacts db)" "insert_spec_artifact a db = Some db'"
    and "spec_ok (sar_artifact a)" "sar_version a = next_spec_version db (sar_run_id a)"
  shows "spec_artifacts_ok (sdb_spec_artifacts db')"
proof -
  have db': "sdb_spec_artifacts db' = sdb_spec_artifacts db @ [a]"
    and new: "sar_artifact_id a \<notin> sar_artifact_id ` set (sdb_spec_artifacts db)"
      "sar_stage_run_id a \<notin> sar_stage_run_id ` set (sdb_spec_artifacts db)"
    using assms(2) by (auto simp: insert_spec_artifact_def split: if_splits)
  show ?thesis
    using assms(1,3) new unfolding spec_artifacts_ok_def db'
    by (auto simp: run_artifacts_def assms(4) next_version_is [OF assms(1), unfolded run_artifacts_def])
qed

lemma reset_state_inv:
  assumes "spec_inv m db"
  shows "spec_inv m (reset_spec_state now run_id db)"
proof (cases "run_id \<in> srn_run_id ` set (sdb_spec_states db)")
  case True
  have "spec_inv m (update_spec_state (\<lambda>s. srn_run_id s = run_id)
      (\<lambda>s. s\<lparr> srn_pending_approval_version := None, srn_approved_version := None,
              srn_approved_artifact_id := None, srn_decision := AwaitingDecision, srn_updated_at := now \<rparr>) db)"
    using assms by (rule update_spec_state_inv) (simp add: state_ok_def approval_ok_def)
  with True show ?thesis by (simp add: reset_spec_state_def update_spec_state_def)
next
  case False
  with assms show ?thesis by (auto simp: reset_spec_state_def spec_inv_def state_ok_def approval_ok_def)
qed

lemma insert_artifact_inv:
  assumes "spec_inv m db" "insert_spec_artifact a db = Some db'"
    and "spec_ok (sar_artifact a)" "sar_version a = next_spec_version db (sar_run_id a)"
  shows "spec_inv m db'"
proof -
  have "sdb_spec_artifacts db' = sdb_spec_artifacts db @ [a]" "sdb_spec_states db' = sdb_spec_states db"
    using assms(2) by (auto simp: insert_spec_artifact_def split: if_splits)
  with assms insert_artifact_ok [OF _ assms(2-4)] show ?thesis
    by (auto simp: spec_inv_def state_ok_def approval_ok_more)
qed

lemma store_spec_artifact_inv:
  assumes "spec_inv m db"
  shows "spec_inv m (fst (store_spec_artifact env now new_id rq db))"
proof -
  have "spec_inv m (reset_spec_state now run_id (db1\<lparr> sdb_base := b \<rparr>)\<lparr> sdb_base := b' \<rparr>)"
    if "spec_inv m db1" for db1 run_id b b'
    using that reset_state_inv same_spec_tables_inv same_spec_tables_base by blast
  then show ?thesis
    using assms insert_artifact_inv [OF assms]
    by (auto simp: store_spec_artifact_def Let_def simp flip: validate_spec_ok split: sum.splits option.splits)
qed

section \<open>Every reachable database\<close>

text \<open>
  The operations on the specification tables, in any order, with any arguments; every request
  for a revision is counted against the same budget. The factory tables change freely.
\<close>

inductive spec_step :: "factory_env \<Rightarrow> nat \<Rightarrow> spec_db \<Rightarrow> spec_db \<Rightarrow> bool" for env budget where
  base: "spec_step env budget db (db\<lparr> sdb_base := b \<rparr>)"
| turn: "spec_step env budget db (fst (store_spec_turn env request db))"
| artifact: "spec_step env budget db (fst (store_spec_artifact env now new_id rq db))"
| increment: "spec_step env budget db (fst (increment_spec_revision_requests now run_id budget db))"
| pending: "spec_step env budget db (fst (set_pending_spec_approval now run_id version db))"
| pin: "spec_step env budget db (fst (pin_spec_approval now run_id artifact_id db))"
| finalize: "spec_step env budget db (fst (finalize_spec_approval env now run_id intent_id step db))"
| create: "spec_step env budget db (fst (create_spec_publication_intent env now new_id run_id art kind desired db))"
| diagnostic: "spec_step env budget db (fst (update_spec_diagnostic_message env now intent_id desired db))"
| comment: "spec_step env budget db (fst (set_spec_publication_comment now intent_id comment_id login db))"
| complete: "spec_step env budget db (fst (complete_spec_publication env now intent_id step db))"
| publication_step:
    "spec_step env budget db (fst (update_spec_publication_step env now intent_id step status err db))"

definition spec_db_empty :: "factory_store \<Rightarrow> spec_db" where
  "spec_db_empty b =
     \<lparr> sdb_base = b, sdb_spec_turns = [], sdb_spec_artifacts = [], sdb_spec_states = [], sdb_spec_intents = [] \<rparr>"

inductive spec_reachable :: "factory_env \<Rightarrow> nat \<Rightarrow> spec_db \<Rightarrow> bool" for env budget where
  start: "spec_reachable env budget (spec_db_empty b)"
| step: "spec_reachable env budget db \<Longrightarrow> spec_step env budget db db' \<Longrightarrow> spec_reachable env budget db'"

lemma spec_step_inv: "spec_step env m db db' \<Longrightarrow> spec_inv m db \<Longrightarrow> spec_inv m db'"
  by (induction rule: spec_step.induct)
    (blast intro: store_spec_artifact_inv increment_inv set_pending_inv pin_inv finalize_inv
      same_spec_tables_inv [OF same_spec_tables_base] same_spec_tables_ops [THEN same_spec_tables_inv])+

lemma spec_reachable_inv: "spec_reachable env m db \<Longrightarrow> spec_inv m db"
proof (induction rule: spec_reachable.induct)
  case (start b)
  show ?case by (simp add: spec_inv_def spec_artifacts_ok_def run_artifacts_def spec_db_empty_def)
qed (rule spec_step_inv)

end
