(* ===== verification/ImplementationStage.thy ===== *)
theory ImplementationStage
  imports SpecStage PathSafety TriageComment
begin

text \<open>
  The implementation stage without its store, its runner and its coordinator: the manifest a
  worker hands over and its validation (\<open>src/implementation/domain.rs\<close>, \<open>artifact.rs\<close>), the
  comments and the pull request body (\<open>comment.rs\<close>), the order of validation commands
  (\<open>validation.rs\<close>) and the publication of a branch without force (\<open>branch.rs\<close>).

  Running a command and talking to Git are arguments that take and return the state of their
  world. JSON is parsed by \<open>serde_json\<close>, an argument.
\<close>

section \<open>Text\<close>

text \<open>\<open>str::replace\<close>, left to right and without overlaps, and \<open>str::split\<close> on characters.\<close>

function replace_str :: "string \<Rightarrow> string \<Rightarrow> string \<Rightarrow> string" where
  "replace_str pat new s =
     (if pat = [] then concat (map (\<lambda>c. new @ [c]) s) @ new
      else (case s of
              [] \<Rightarrow> []
            | c # cs \<Rightarrow>
                if prefix pat s then new @ replace_str pat new (drop (length pat) s)
                else c # replace_str pat new cs))"
  by pat_completeness auto
termination
  by (relation "measure (\<lambda>(_, _, s). length s)") auto

declare replace_str.simps [simp del]

fun split_on :: "(char \<Rightarrow> bool) \<Rightarrow> string \<Rightarrow> string list" where
  "split_on P [] = [[]]"
| "split_on P (c # cs) =
     (if P c then [] # split_on P cs
      else (case split_on P cs of [] \<Rightarrow> [[c]] | x # xs \<Rightarrow> (c # x) # xs))"

section \<open>The manifest\<close>

definition implementation_stage_name :: string where
  "implementation_stage_name = ''implementation''"

datatype implementation_mode = ImplementationPreview | ImplementationAutomatic

record implementation_validation_command =
  ivc_name :: string
  ivc_command :: string
  ivc_timeout_ms :: nat

datatype manifest_status = ManifestCompleted | ManifestBlocked

fun manifest_status_as_str :: "manifest_status \<Rightarrow> string" where
  "manifest_status_as_str ManifestCompleted = ''completed''"
| "manifest_status_as_str ManifestBlocked = ''blocked''"

datatype criterion_status = CriterionImplemented

datatype implementation_evidence_kind = EvidenceOfRepository | EvidenceOfTest | EvidenceOfDocumentation

fun implementation_evidence_kind_as_str :: "implementation_evidence_kind \<Rightarrow> string" where
  "implementation_evidence_kind_as_str EvidenceOfRepository = ''repository''"
| "implementation_evidence_kind_as_str EvidenceOfTest = ''test''"
| "implementation_evidence_kind_as_str EvidenceOfDocumentation = ''documentation''"

record implementation_evidence =
  ie_kind :: implementation_evidence_kind
  ie_reference :: string
  ie_summary :: string

record acceptance_criterion_claim =
  acc_index :: nat
  acc_status :: criterion_status
  acc_evidence :: "implementation_evidence list"

datatype blocker_kind = BlockerSpecGap | BlockerEnvironment | BlockerRepository

fun blocker_kind_as_str :: "blocker_kind \<Rightarrow> string" where
  "blocker_kind_as_str BlockerSpecGap = ''spec_gap''"
| "blocker_kind_as_str BlockerEnvironment = ''environment''"
| "blocker_kind_as_str BlockerRepository = ''repository''"

record implementation_blocker =
  ib_kind :: blocker_kind
  ib_summary :: string
  ib_evidence :: string

record implementation_manifest =
  im_schema_version :: nat
  im_status :: manifest_status
  im_head_commit :: "string option"
  im_summary :: string
  im_acceptance_criteria :: "acceptance_criterion_claim list"
  im_known_limitations :: "string list"
  im_blocker :: "implementation_blocker option"

datatype execution_profile = ProfileLocal | ProfileDocker

fun execution_profile_as_str :: "execution_profile \<Rightarrow> string" where
  "execution_profile_as_str ProfileLocal = ''local''"
| "execution_profile_as_str ProfileDocker = ''docker''"

record validation_command_result =
  vcr_name :: string
  vcr_command_sha256 :: string
  vcr_cycle :: nat
  vcr_started_at :: int
  vcr_completed_at :: int
  vcr_duration_ms :: nat
  vcr_exit_code :: "int option"
  vcr_passed :: bool
  vcr_termination_reason :: "string option"
  vcr_stdout_tail :: string
  vcr_stderr_tail :: string
  vcr_output_sha256 :: string
  vcr_execution_profile :: execution_profile

section \<open>Validation of the manifest\<close>

definition implementation_schema_version :: nat where
  "implementation_schema_version = 1"

definition implementation_manifest_max_bytes :: nat where
  "implementation_manifest_max_bytes = 65536"

definition implementation_summary_max_bytes :: nat where
  "implementation_summary_max_bytes = 4000"

definition implementation_limitation_max_bytes :: nat where
  "implementation_limitation_max_bytes = 1000"

definition implementation_limitations_max_items :: nat where
  "implementation_limitations_max_items = 20"

definition implementation_evidence_max_items :: nat where
  "implementation_evidence_max_items = 10"

definition implementation_evidence_reference_max_bytes :: nat where
  "implementation_evidence_reference_max_bytes = 500"

definition implementation_evidence_summary_max_bytes :: nat where
  "implementation_evidence_summary_max_bytes = 1000"

definition implementation_blocker_summary_max_bytes :: nat where
  "implementation_blocker_summary_max_bytes = 2000"

definition implementation_blocker_evidence_max_bytes :: nat where
  "implementation_blocker_evidence_max_bytes = 4000"

definition implementation_spec_path_max_bytes :: nat where
  "implementation_spec_path_max_bytes = 240"

record implementation_validation_error =
  ive_field :: string
  ive_message :: string

type_synonym 'a manifest_result = "implementation_validation_error + 'a"

definition manifest_error :: "string \<Rightarrow> string \<Rightarrow> 'a manifest_result" where
  "manifest_error field_name message = Inl \<lparr> ive_field = field_name, ive_message = message \<rparr>"

definition implementation_error_text :: "implementation_validation_error \<Rightarrow> string" where
  "implementation_error_text e = ive_field e @ '': '' @ ive_message e"

definition validate_manifest_text :: "string \<Rightarrow> string \<Rightarrow> nat \<Rightarrow> unit manifest_result" where
  "validate_manifest_text field_name value max_bytes =
     (if trim value = [] then manifest_error field_name ''must be a non-empty string''
      else if max_bytes < utf8_len value
      then manifest_error field_name (''must be at most '' @ nat_digits max_bytes @ '' UTF-8 bytes'')
      else Inr ())"

definition is_hex_lower :: "char \<Rightarrow> bool" where
  "is_hex_lower c \<longleftrightarrow> is_ascii_digit c \<or> 97 \<le> code_point c \<and> code_point c \<le> 102"

definition validate_commit_oid :: "string \<Rightarrow> string \<Rightarrow> unit manifest_result" where
  "validate_commit_oid field_name value =
     (if trim value \<noteq> value then manifest_error field_name ''must not have leading or trailing whitespace''
      else if \<not> (utf8_len value = 40 \<or> utf8_len value = 64) \<or> \<not> list_all is_hex_lower value
      then manifest_error field_name ''must be a 40- or 64-character lowercase hexadecimal object ID''
      else Inr ())"

definition criterion_name :: "nat \<Rightarrow> string" where
  "criterion_name index = item_name ''acceptance_criteria'' index"

definition validate_evidence :: "nat \<Rightarrow> nat \<Rightarrow> implementation_evidence \<Rightarrow> unit manifest_result" where
  "validate_evidence claim_index evidence_index evidence =
     (let name = item_name (criterion_name claim_index @ ''.evidence'') evidence_index
      in ok_then
           (validate_manifest_text (name @ ''.reference'') (ie_reference evidence)
              implementation_evidence_reference_max_bytes)
           (validate_manifest_text (name @ ''.summary'') (ie_summary evidence)
              implementation_evidence_summary_max_bytes))"

definition validate_claim :: "nat \<Rightarrow> acceptance_criterion_claim \<Rightarrow> unit manifest_result" where
  "validate_claim index claim =
     (if acc_evidence claim = [] \<or> implementation_evidence_max_items < length (acc_evidence claim)
      then manifest_error (criterion_name index @ ''.evidence'')
             (''must contain 1 to '' @ nat_digits implementation_evidence_max_items @ '' entries'')
      else validate_items (validate_evidence index) 0 (acc_evidence claim))"

text \<open>The loop over the claims; \<open>seen\<close> has one flag per criterion of the specification.\<close>

fun coverage_loop ::
    "nat \<Rightarrow> nat \<Rightarrow> acceptance_criterion_claim list \<Rightarrow> bool list \<Rightarrow> bool list manifest_result" where
  "coverage_loop expected index [] seen = Inr seen"
| "coverage_loop expected index (claim # claims) seen =
     (case validate_claim index claim of
        Inl e \<Rightarrow> Inl e
      | Inr _ \<Rightarrow>
          if acc_index claim = 0 \<or> expected < acc_index claim
          then manifest_error (criterion_name index @ ''.index'') (''must be between 1 and '' @ nat_digits expected)
          else if seen ! (acc_index claim - 1)
          then manifest_error (criterion_name index @ ''.index'')
                 (''duplicate criterion index '' @ nat_digits (acc_index claim))
          else coverage_loop expected (Suc index) claims (seen[acc_index claim - 1 := True]))"

fun first_unseen :: "nat \<Rightarrow> bool list \<Rightarrow> nat option" where
  "first_unseen i [] = None"
| "first_unseen i (present # rest) = (if present then first_unseen (Suc i) rest else Some i)"

definition validate_criterion_coverage ::
    "acceptance_criterion_claim list \<Rightarrow> spec_artifact \<Rightarrow> unit manifest_result" where
  "validate_criterion_coverage claims approved =
     (let expected = length (spa_acceptance_criteria approved)
      in if length claims \<noteq> expected
         then manifest_error ''acceptance_criteria''
                (''must contain exactly '' @ nat_digits expected @ '' entries matching the approved specification'')
         else (case coverage_loop expected 0 claims (replicate expected False) of
                 Inl e \<Rightarrow> Inl e
               | Inr seen \<Rightarrow>
                   (case first_unseen 0 seen of
                      None \<Rightarrow> Inr ()
                    | Some missing \<Rightarrow>
                        manifest_error ''acceptance_criteria''
                          (''missing criterion index '' @ nat_digits (missing + 1)))))"

definition validate_completed :: "implementation_manifest \<Rightarrow> spec_artifact option \<Rightarrow> unit manifest_result" where
  "validate_completed manifest approved =
     (case im_head_commit manifest of
        None \<Rightarrow> manifest_error ''head_commit'' ''required for completed manifests''
      | Some head \<Rightarrow>
          ok_then (validate_commit_oid ''head_commit'' head)
            (if im_blocker manifest \<noteq> None
             then manifest_error ''blocker'' ''must be absent for completed manifests''
             else (case approved of
                     Some spec \<Rightarrow> validate_criterion_coverage (im_acceptance_criteria manifest) spec
                   | None \<Rightarrow>
                       if im_acceptance_criteria manifest = []
                       then manifest_error ''acceptance_criteria'' ''must be non-empty for completed manifests''
                       else validate_items validate_claim 0 (im_acceptance_criteria manifest))))"

definition validate_blocker :: "implementation_blocker \<Rightarrow> unit manifest_result" where
  "validate_blocker blocker =
     ok_then
       (validate_manifest_text ''blocker.summary'' (ib_summary blocker) implementation_blocker_summary_max_bytes)
       (validate_manifest_text ''blocker.evidence'' (ib_evidence blocker) implementation_blocker_evidence_max_bytes)"

definition validate_blocked :: "implementation_manifest \<Rightarrow> unit manifest_result" where
  "validate_blocked manifest =
     (if im_head_commit manifest \<noteq> None
      then manifest_error ''head_commit'' ''must be null for blocked manifests''
      else if im_acceptance_criteria manifest \<noteq> []
      then manifest_error ''acceptance_criteria'' ''must be empty for blocked manifests''
      else (case im_blocker manifest of
              None \<Rightarrow> manifest_error ''blocker'' ''required for blocked manifests''
            | Some blocker \<Rightarrow> validate_blocker blocker))"

definition validate_implementation_manifest :: "implementation_manifest \<Rightarrow> spec_artifact option \<Rightarrow> unit manifest_result" where
  "validate_implementation_manifest manifest approved =
     (if im_schema_version manifest \<noteq> implementation_schema_version
      then manifest_error ''schema_version'' (''must be exactly '' @ nat_digits implementation_schema_version)
      else
        ok_then (validate_manifest_text ''summary'' (im_summary manifest) implementation_summary_max_bytes)
          (if implementation_limitations_max_items < length (im_known_limitations manifest)
           then manifest_error ''known_limitations''
                  (''must contain at most '' @ nat_digits implementation_limitations_max_items @ '' items'')
           else
             ok_then
               (validate_items
                  (\<lambda>index limitation. validate_manifest_text (item_name ''known_limitations'' index) limitation
                     implementation_limitation_max_bytes) 0 (im_known_limitations manifest))
               (case im_status manifest of
                  ManifestCompleted \<Rightarrow> validate_completed manifest approved
                | ManifestBlocked \<Rightarrow> validate_blocked manifest)))"

definition parse_bounded_manifest ::
    "(string \<Rightarrow> string + implementation_manifest) \<Rightarrow> string \<Rightarrow> implementation_manifest manifest_result" where
  "parse_bounded_manifest from_json bytes =
     (if implementation_manifest_max_bytes < utf8_len bytes
      then manifest_error ''output''
             (''manifest is '' @ nat_digits (utf8_len bytes) @ '' bytes; maximum is ''
                @ nat_digits implementation_manifest_max_bytes @ '' bytes'')
      else (case from_json bytes of
              Inl message \<Rightarrow> manifest_error ''output'' (''invalid JSON: '' @ message)
            | Inr manifest \<Rightarrow> Inr manifest))"

definition parse_and_validate ::
    "(string \<Rightarrow> string + implementation_manifest) \<Rightarrow> string \<Rightarrow> spec_artifact option
     \<Rightarrow> implementation_manifest manifest_result" where
  "parse_and_validate from_json bytes approved =
     (case parse_bounded_manifest from_json bytes of
        Inl e \<Rightarrow> Inl e
      | Inr manifest \<Rightarrow>
          (case validate_implementation_manifest manifest approved of Inl e \<Rightarrow> Inl e | Inr _ \<Rightarrow> Inr manifest))"

definition parse_manifest ::
    "(string \<Rightarrow> string + implementation_manifest) \<Rightarrow> string \<Rightarrow> implementation_manifest manifest_result" where
  "parse_manifest from_json bytes = parse_and_validate from_json bytes None"

definition parse_and_validate_manifest ::
    "(string \<Rightarrow> string + implementation_manifest) \<Rightarrow> string \<Rightarrow> spec_artifact
     \<Rightarrow> implementation_manifest manifest_result" where
  "parse_and_validate_manifest from_json bytes approved = parse_and_validate from_json bytes (Some approved)"

section \<open>The approved specification in the repository\<close>

definition validate_spec_file_path :: "string \<Rightarrow> unit manifest_result" where
  "validate_spec_file_path path =
     (if trim path = [] then manifest_error ''spec_file'' ''must be a non-empty relative path''
      else if implementation_spec_path_max_bytes < utf8_len path
      then manifest_error ''spec_file''
             (''expanded path must be at most '' @ nat_digits implementation_spec_path_max_bytes @ '' UTF-8 bytes'')
      else if prefix ''/'' path \<or> prefix [CHR 0x5C] path
      then manifest_error ''spec_file'' ''must be relative to the repository root''
      else if \<not> suffix ''.md'' path then manifest_error ''spec_file'' ''must end in .md''
      else
        (let components = split_on (\<lambda>c. c = CHR ''/'' \<or> c = CHR 0x5C) path
         in case fold (\<lambda>component acc.
                  case acc of
                    Inl e \<Rightarrow> Inl e
                  | Inr normalized \<Rightarrow>
                      if component = [] \<or> component = ''.'' then Inr normalized
                      else if component = ''..''
                      then manifest_error ''spec_file''
                             (''must not contain '' @ [CHR 0x27] @ ''..'' @ [CHR 0x27] @ '' path segments'')
                      else if eq_ignore_ascii_case component ''.git''
                              \<or> (\<exists>existing \<in> set normalized. eq_ignore_ascii_case existing ''.git'')
                      then manifest_error ''spec_file'' ''must not address .git''
                      else Inr (normalized @ [component])) components (Inr []) of
              Inl e \<Rightarrow> Inl e
            | Inr normalized \<Rightarrow>
                if normalized = [] then manifest_error ''spec_file'' ''must identify a Markdown file''
                else Inr ()))"

definition expand_spec_file_path ::
    "string \<Rightarrow> string \<Rightarrow> string \<Rightarrow> string \<Rightarrow> nat \<Rightarrow> string manifest_result" where
  "expand_spec_file_path template issue_identifier run_id artifact_id version =
     (let expanded =
        replace_str ''{version}'' (nat_digits version)
          (replace_str ''{artifact_id}'' artifact_id
            (replace_str ''{run_id}'' run_id
              (replace_str ''{issue_identifier}'' issue_identifier template)))
      in case validate_spec_file_path expanded of Inl e \<Rightarrow> Inl e | Inr _ \<Rightarrow> Inr expanded)"

definition numbered :: "string list \<Rightarrow> string" where
  "numbered xs =
     concat (map (\<lambda>(i, x). nat_digits (i + 1) @ ''. '' @ trim x @ newline) (zip [0..<length xs] xs))"

definition render_approved_spec ::
    "string \<Rightarrow> string \<Rightarrow> string \<Rightarrow> nat \<Rightarrow> string \<Rightarrow> spec_artifact \<Rightarrow> string" where
  "render_approved_spec run_id issue_identifier artifact_id version approved_at artifact =
     ''---'' @ newline
     @ ''symphony_factory_run: '' @ run_id @ newline
     @ ''symphony_issue: '' @ issue_identifier @ newline
     @ ''symphony_spec_artifact: '' @ artifact_id @ newline
     @ ''symphony_spec_version: '' @ nat_digits version @ newline
     @ ''symphony_approved_at: '' @ approved_at @ newline
     @ ''---'' @ newline @ newline
     @ ''# Approved specification for '' @ issue_identifier @ newline @ newline
     @ ''## Product behavior'' @ newline @ newline
     @ trim (spa_product_behavior artifact)
     @ newline @ newline @ ''## Technical approach'' @ newline @ newline
     @ trim (spa_technical_approach artifact)
     @ newline @ newline @ ''## Acceptance criteria'' @ newline @ newline
     @ numbered (spa_acceptance_criteria artifact)
     @ newline @ ''## Open decisions'' @ newline @ newline
     @ (if spa_open_decisions artifact = [] then ''- None.'' @ newline
        else concat (map bullet (spa_open_decisions artifact)))"

definition is_spec_gap :: "implementation_blocker \<Rightarrow> bool" where
  "is_spec_gap blocker \<longleftrightarrow> ib_kind blocker = BlockerSpecGap"

section \<open>Comments\<close>

definition implementation_comment_marker_prefix :: string where
  "implementation_comment_marker_prefix = ''<!-- symphony:implementation:''"

definition implementation_pr_marker_prefix :: string where
  "implementation_pr_marker_prefix = ''<!-- symphony:implementation-pr:''"

definition implementation_marker :: "string \<Rightarrow> string" where
  "implementation_marker intent_id = implementation_comment_marker_prefix @ intent_id @ '' -->''"

definition pr_marker :: "string \<Rightarrow> string" where
  "pr_marker intent_id = implementation_pr_marker_prefix @ intent_id @ '' -->''"

definition abbreviate :: "string \<Rightarrow> string" where
  "abbreviate sha = (if 12 \<le> utf8_len sha then take_bytes 12 sha else sha)"

definition dot_sep :: string where
  "dot_sep = '' '' @ [middle_dot] @ '' ''"

definition code_quoted :: "string \<Rightarrow> string" where
  "code_quoted s = ''`'' @ s @ ''`''"

definition render_criteria :: "acceptance_criterion_claim list \<Rightarrow> string" where
  "render_criteria claims =
     (if claims = [] then ''_None._'' @ newline
      else concat (map (\<lambda>claim.
             ''- **Criterion '' @ nat_digits (acc_index claim) @ ''** '' @ [em_dash] @ '' implemented'' @ newline
             @ concat (map (\<lambda>e. ''  - '' @ code_quoted (implementation_evidence_kind_as_str (ie_kind e)) @ '' ''
                 @ trim (ie_reference e) @ '': '' @ trim (ie_summary e) @ newline) (acc_evidence claim))) claims))"

definition render_validation_line :: "bool \<Rightarrow> validation_command_result \<Rightarrow> string" where
  "render_validation_line with_exit command =
     ''- '' @ code_quoted (vcr_name command) @ '': **'' @ (if vcr_passed command then ''pass'' else ''fail'')
     @ ''** in '' @ nat_digits (vcr_duration_ms command) @ '' ms''
     @ (if with_exit then (case vcr_exit_code command of None \<Rightarrow> [] | Some code \<Rightarrow> '' (exit '' @ int_digits code @ '')'')
        else []) @ newline"

definition render_validation :: "bool \<Rightarrow> validation_command_result list \<Rightarrow> string" where
  "render_validation with_exit results =
     (if results = [] then ''_No validation commands recorded._'' @ newline
      else concat (map (render_validation_line with_exit) results))"

definition render_limitations :: "implementation_manifest \<Rightarrow> string" where
  "render_limitations manifest =
     (if im_known_limitations manifest = [] then ''_None._'' @ newline
      else concat (map bullet (im_known_limitations manifest)))"

record implementation_preview_comment =
  ipc_intent_id :: string
  ipc_run_id :: string
  ipc_stage_run_id :: string
  ipc_artifact_id :: string
  ipc_approved_version :: nat
  ipc_approved_spec_path :: string
  ipc_base_commit :: string
  ipc_head_commit :: string
  ipc_manifest :: implementation_manifest
  ipc_changed_paths :: "string list"
  ipc_validation :: "validation_command_result list"

record implementation_draft_pr_body =
  idb_intent_id :: string
  idb_issue_number :: nat
  idb_run_id :: string
  idb_stage_run_id :: string
  idb_artifact_id :: string
  idb_bundle_artifact_id :: string
  idb_approved_artifact_id :: string
  idb_approved_version :: nat
  idb_approved_spec_path :: string
  idb_base_commit :: string
  idb_head_commit :: string
  idb_manifest :: implementation_manifest
  idb_validation :: "validation_command_result list"

definition run_line :: "string \<Rightarrow> string \<Rightarrow> string \<Rightarrow> string" where
  "run_line run_id stage_run_id artifact_id =
     ''**Factory run:** '' @ code_quoted run_id @ dot_sep @ ''**Stage run:** '' @ code_quoted stage_run_id @ dot_sep
     @ ''**Artifact:** '' @ code_quoted artifact_id"

definition implementation_render_preview_comment :: "implementation_preview_comment \<Rightarrow> string" where
  "implementation_render_preview_comment i =
     implementation_marker (ipc_intent_id i) @ newline @ ''## Symphony implementation preview'' @ newline @ newline
     @ ''**Preview:** Symphony validated this implementation locally and stored a verified change bundle. No remote branch or pull request was created, and tracker state was not advanced.''
     @ newline @ newline
     @ run_line (ipc_run_id i) (ipc_stage_run_id i) (ipc_artifact_id i) @ newline @ newline
     @ ''**Approved spec:** v'' @ nat_digits (ipc_approved_version i) @ '' at '' @ code_quoted (ipc_approved_spec_path i)
     @ newline @ newline
     @ ''**Commits:** '' @ code_quoted (abbreviate (ipc_base_commit i)) @ '' '' @ [right_arrow] @ '' ''
     @ code_quoted (abbreviate (ipc_head_commit i)) @ newline @ newline
     @ ''### Summary'' @ newline @ newline @ trim (im_summary (ipc_manifest i))
     @ newline @ newline @ ''### Changed files'' @ newline @ newline
     @ (if ipc_changed_paths i = [] then ''_None listed._'' @ newline
        else concat (map (\<lambda>path. ''- '' @ code_quoted (trim path) @ newline) (take 50 (ipc_changed_paths i)))
          @ (if 50 < length (ipc_changed_paths i)
             then ''- _'' @ [ellipsis] @ ''and '' @ nat_digits (length (ipc_changed_paths i) - 50) @ '' more_'' @ newline
             else []))
     @ newline @ ''### Acceptance criteria'' @ newline @ newline
     @ render_criteria (im_acceptance_criteria (ipc_manifest i))
     @ newline @ ''### Validation'' @ newline @ newline @ render_validation True (ipc_validation i)
     @ newline @ ''### Known limitations'' @ newline @ newline @ render_limitations (ipc_manifest i)
     @ newline @ ''---'' @ newline
     @ ''To publish a draft pull request, set `implementation.mode: automatic` and ensure `completion_route.state` resolves to Agent Review.''
     @ newline"

definition render_publication_pending_comment :: "string \<Rightarrow> string \<Rightarrow> string \<Rightarrow> string \<Rightarrow> string" where
  "render_publication_pending_comment intent_id run_id stage_run_id artifact_id =
     implementation_marker intent_id @ newline @ ''## Symphony implementation'' @ newline @ newline
     @ ''**Publication:** pending'' @ newline @ newline
     @ run_line run_id stage_run_id artifact_id @ newline @ newline
     @ ''Symphony is publishing the verified change bundle to a draft pull request.'' @ newline"

definition render_publication_final_comment ::
    "string \<Rightarrow> string \<Rightarrow> string \<Rightarrow> string \<Rightarrow> nat \<Rightarrow> string \<Rightarrow> string \<Rightarrow> string \<Rightarrow> string" where
  "render_publication_final_comment intent_id run_id stage_run_id artifact_id pr_number pr_url branch head_commit =
     implementation_marker intent_id @ newline @ ''## Symphony implementation'' @ newline @ newline
     @ ''**Publication:** draft PR created '' @ [em_dash] @ '' Agent Review'' @ newline @ newline
     @ ''**Pull request:** [#'' @ nat_digits pr_number @ ''](''  @ pr_url @ '')'' @ newline @ newline
     @ ''**Branch:** '' @ code_quoted branch @ '' @ '' @ code_quoted (abbreviate head_commit) @ newline @ newline
     @ run_line run_id stage_run_id artifact_id @ newline"

definition render_draft_pr_body :: "implementation_draft_pr_body \<Rightarrow> string" where
  "render_draft_pr_body i =
     pr_marker (idb_intent_id i) @ newline
     @ ''Closes #'' @ nat_digits (idb_issue_number i) @ newline @ newline
     @ ''## Symphony implementation'' @ newline @ newline
     @ ''**Factory run:** '' @ code_quoted (idb_run_id i) @ dot_sep @ ''**Stage run:** '' @ code_quoted (idb_stage_run_id i)
     @ newline @ newline
     @ ''**Implementation artifact:** '' @ code_quoted (idb_artifact_id i) @ dot_sep @ ''**Bundle:** ''
     @ code_quoted (idb_bundle_artifact_id i) @ newline @ newline
     @ ''**Approved spec:** '' @ code_quoted (idb_approved_artifact_id i) @ '' v'' @ nat_digits (idb_approved_version i)
     @ '' at '' @ code_quoted (idb_approved_spec_path i) @ newline @ newline
     @ ''**Commits:** '' @ code_quoted (idb_base_commit i) @ '' '' @ [right_arrow] @ '' '' @ code_quoted (idb_head_commit i)
     @ newline @ newline
     @ ''### Summary'' @ newline @ newline @ trim (im_summary (idb_manifest i))
     @ newline @ newline @ ''### Acceptance criteria'' @ newline @ newline
     @ render_criteria (im_acceptance_criteria (idb_manifest i))
     @ newline @ ''### Validation'' @ newline @ newline @ render_validation False (idb_validation i)
     @ newline @ ''### Known limitations'' @ newline @ newline @ render_limitations (idb_manifest i)"

definition extract_implementation_pr_intent_id :: "string \<Rightarrow> string option" where
  "extract_implementation_pr_intent_id body =
     (case split_at_str implementation_pr_marker_prefix body of
        None \<Rightarrow> None
      | Some (_, rest) \<Rightarrow>
          (case split_at_str '' -->'' rest of
             None \<Rightarrow> None
           | Some (intent_id, _) \<Rightarrow> if trim intent_id = [] then None else Some (trim intent_id)))"

definition render_diagnostic_comment :: "string \<Rightarrow> string \<Rightarrow> string \<Rightarrow> string" where
  "render_diagnostic_comment intent_id run_id message =
     implementation_marker intent_id @ newline @ ''## Symphony implementation'' @ newline @ newline
     @ ''**Factory run:** '' @ code_quoted run_id @ newline @ newline
     @ ''**Action required:** '' @ trim message @ newline"

section \<open>Validation commands\<close>

text \<open>
  \<open>run_one\<close> spawns a process and is an argument: the world it leaves and the result. The order of
  the commands and where a cycle stops are \<open>run_cycle\<close>.
\<close>

record validation_cycle_outcome =
  vco_passed :: bool
  vco_commands :: "validation_command_result list"

type_synonym 'w command_runner =
  "implementation_validation_command \<Rightarrow> nat \<Rightarrow> 'w \<Rightarrow> 'w \<times> (symphony_error + validation_command_result)"

definition validate_commands_configured ::
    "implementation_validation_command list \<Rightarrow> symphony_error + unit" where
  "validate_commands_configured commands =
     (if commands = []
      then Inl (InvalidWorkflowConfig ''implementation.validation must contain at least one command'')
      else Inr ())"

fun run_commands ::
    "'w command_runner \<Rightarrow> nat \<Rightarrow> implementation_validation_command list \<Rightarrow> validation_command_result list
     \<Rightarrow> 'w \<Rightarrow> 'w \<times> (symphony_error + validation_cycle_outcome)" where
  "run_commands run_one cycle [] results w = (w, Inr \<lparr> vco_passed = True, vco_commands = results \<rparr>)"
| "run_commands run_one cycle (command # commands) results w =
     (case run_one command cycle w of
        (w', Inl e) \<Rightarrow> (w', Inl e)
      | (w', Inr result) \<Rightarrow>
          if vcr_passed result then run_commands run_one cycle commands (results @ [result]) w'
          else (w', Inr \<lparr> vco_passed = False, vco_commands = results @ [result] \<rparr>))"

definition run_cycle ::
    "'w command_runner \<Rightarrow> implementation_validation_command list \<Rightarrow> nat \<Rightarrow> 'w
     \<Rightarrow> 'w \<times> (symphony_error + validation_cycle_outcome)" where
  "run_cycle run_one commands cycle w =
     (case validate_commands_configured commands of
        Inl e \<Rightarrow> (w, Inl e)
      | Inr _ \<Rightarrow> run_commands run_one cycle commands [] w)"

definition looks_like_shell_script :: "string \<Rightarrow> bool" where
  "looks_like_shell_script s \<longleftrightarrow>
     (\<exists>c \<in> set s. c \<in> {CHR ''|'', CHR '';'', CHR ''>'', CHR ''<''})
     \<or> contains_str ''&&'' s \<or> contains_str ''||'' s \<or> contains_str ''$('' s"

text \<open>\<open>shell_words::split\<close> is an argument.\<close>

definition split_command :: "(string \<Rightarrow> string + string list) \<Rightarrow> string \<Rightarrow> symphony_error + string list" where
  "split_command shell_words command =
     (if looks_like_shell_script command then Inr [command]
      else (case shell_words command of
              Inl message \<Rightarrow> Inl (InvalidWorkflowConfig (''invalid validation command quoting: '' @ message))
            | Inr argv \<Rightarrow> Inr argv))"

definition output_tail_bytes :: nat where
  "output_tail_bytes = 4096"

text \<open>The smallest number of characters that holds at least \<open>n\<close> bytes is dropped.\<close>

fun drop_bytes :: "nat \<Rightarrow> string \<Rightarrow> string" where
  "drop_bytes 0 s = s"
| "drop_bytes (Suc n) [] = []"
| "drop_bytes (Suc n) (c # s) = drop_bytes (Suc n - char_bytes c) s"

definition tail_str :: "string \<Rightarrow> nat \<Rightarrow> string" where
  "tail_str value max_bytes =
     (if utf8_len value \<le> max_bytes then value else drop_bytes (utf8_len value - max_bytes) value)"

definition timeout_stderr :: "string \<Rightarrow> nat \<Rightarrow> string \<Rightarrow> string" where
  "timeout_stderr name timeout_ms stderr_tail =
     (let note = ''validation command '' @ [CHR 0x27] @ name @ [CHR 0x27] @ '' timed out after ''
             @ nat_digits timeout_ms @ '' ms''
      in if stderr_tail = [] then note else tail_str (stderr_tail @ newline @ note) output_tail_bytes)"

section \<open>Publishing a branch\<close>

datatype branch_projection_decision =
    PushAbsent
  | AlreadyDesired
  | FastForwardPush
  | HumanConflict string

definition decide_branch_projection ::
    "string option \<Rightarrow> string \<Rightarrow> string option \<Rightarrow> bool \<Rightarrow> branch_projection_decision" where
  "decide_branch_projection remote_sha desired_head expected_remote_sha remote_is_ancestor_of_desired =
     (case remote_sha of
        None \<Rightarrow> PushAbsent
      | Some sha \<Rightarrow>
          if sha = desired_head then AlreadyDesired
          else if expected_remote_sha = Some sha \<and> remote_is_ancestor_of_desired then FastForwardPush
          else HumanConflict sha)"

definition trim_matches :: "char \<Rightarrow> string \<Rightarrow> string" where
  "trim_matches c s = rev (dropWhile (\<lambda>x. x = c) (rev (dropWhile (\<lambda>x. x = c) s)))"

definition branch_name_for_issue :: "string \<Rightarrow> string \<Rightarrow> string" where
  "branch_name_for_issue branch_prefix issue_identifier =
     trim_matches (CHR ''/'') branch_prefix @ ''/'' @ sanitize_identifier issue_identifier"

record branch_publish_request =
  bpr_bundle_sha256 :: string
  bpr_bundle_bytes_len :: nat
  bpr_base_commit :: string
  bpr_desired_head :: string
  bpr_expected_remote_sha :: "string option"
  bpr_branch_name :: string
  bpr_base_branch :: string

record branch_publish_outcome =
  bpo_decision :: branch_projection_decision
  bpo_remote_sha_before :: "string option"
  bpo_remote_sha_after :: string
  bpo_pushed :: bool

text \<open>
  Git, the file system and the network: what the calls of \<open>publish_branch\<close> return. A network
  command returns whether it succeeded with its (sanitised) error text, or an error when it could
  not be run; the repository is a temporary one, part of the world \<open>'w\<close>.
\<close>

record 'w git_port =
  gp_blob_is_file :: "string \<Rightarrow> bool"
  gp_blob_sha256 :: "string \<Rightarrow> symphony_error + string"
  gp_blob_len :: "string \<Rightarrow> symphony_error + nat"
  gp_verify_bundle :: "string \<Rightarrow> symphony_error + unit"
  gp_init_repo :: "'w \<Rightarrow> 'w \<times> (symphony_error + unit)"
  gp_network :: "string list \<Rightarrow> 'w \<Rightarrow> 'w \<times> (symphony_error + (bool \<times> string \<times> string))"
  gp_fetch_file :: "string \<Rightarrow> string \<Rightarrow> 'w \<Rightarrow> 'w \<times> (symphony_error + (bool \<times> string))"
  gp_force_branch :: "string \<Rightarrow> string \<Rightarrow> 'w \<Rightarrow> 'w \<times> (symphony_error + unit)"
  gp_is_ancestor :: "string \<Rightarrow> string \<Rightarrow> 'w \<Rightarrow> symphony_error + bool"
  gp_rev_parse :: "string \<Rightarrow> 'w \<Rightarrow> symphony_error + string"
  gp_has_commit :: "string \<Rightarrow> 'w \<Rightarrow> bool"

text \<open>\<open>bundle::blob_path\<close> and \<open>Path::display\<close>: the path of a blob is an argument.\<close>

definition load_and_reverify_bundle ::
    "'w git_port \<Rightarrow> (string \<Rightarrow> string) \<Rightarrow> string \<Rightarrow> nat \<Rightarrow> symphony_error + string" where
  "load_and_reverify_bundle git blob_path sha256 expected_bytes =
     (let path = blob_path sha256
      in if \<not> gp_blob_is_file git path then Inl (StorageError (''bundle blob missing at '' @ path))
         else (case gp_blob_sha256 git path of
                 Inl e \<Rightarrow> Inl e
               | Inr actual \<Rightarrow>
                   if actual \<noteq> sha256
                   then Inl (StorageError (''bundle digest mismatch at '' @ path @ '': expected '' @ sha256
                          @ '', got '' @ actual))
                   else (case gp_blob_len git path of
                           Inl e \<Rightarrow> Inl e
                         | Inr len \<Rightarrow>
                             if len \<noteq> expected_bytes
                             then Inl (StorageError (''bundle size mismatch at '' @ path @ '': ''
                                    @ nat_digits len @ '' != '' @ nat_digits expected_bytes))
                             else (case gp_verify_bundle git path of
                                     Inl e \<Rightarrow> Inl e | Inr _ \<Rightarrow> Inr path))))"

text \<open>\<open>?\<close> between steps that change the world.\<close>

definition git_then ::
    "'w \<times> (symphony_error + 'a) \<Rightarrow> ('w \<Rightarrow> 'a \<Rightarrow> 'w \<times> (symphony_error + 'b)) \<Rightarrow> 'w \<times> (symphony_error + 'b)" where
  "git_then m k = (case m of (w, Inl e) \<Rightarrow> (w, Inl e) | (w, Inr a) \<Rightarrow> k w a)"

definition fetch_args :: "string \<Rightarrow> string list" where
  "fetch_args base_branch =
     [''fetch'', ''origin'', ''+refs/heads/'' @ base_branch @ '':refs/remotes/origin/'' @ base_branch]"

definition push_args :: "string \<Rightarrow> string list" where
  "push_args branch = [''push'', ''origin'', ''refs/heads/'' @ branch @ '':refs/heads/'' @ branch]"

text \<open>The first word of the first line of \<open>git ls-remote\<close>.\<close>

definition ls_remote_args :: "string \<Rightarrow> string \<Rightarrow> string list" where
  "ls_remote_args remote_url branch = [''ls-remote'', remote_url, ''refs/heads/'' @ branch]"

definition remote_sha_of :: "string \<Rightarrow> string option" where
  "remote_sha_of out =
     (let line = (case text_lines out of [] \<Rightarrow> [] | l # _ \<Rightarrow> trim l)
      in if line = [] then None
         else (let sha = (case split_whitespace line of [] \<Rightarrow> [] | s # _ \<Rightarrow> trim s)
               in if sha = [] then None else Some sha))"

definition observe_remote_branch ::
    "'w git_port \<Rightarrow> string \<Rightarrow> string \<Rightarrow> 'w \<Rightarrow> 'w \<times> (symphony_error + string option)" where
  "observe_remote_branch git remote_url branch w =
     git_then (gp_network git (ls_remote_args remote_url branch) w)
       (\<lambda>w (ok, out, err).
          if \<not> ok then (w, Inl (TriageError (''git ls-remote failed: '' @ err)))
          else (w, Inr (remote_sha_of out)))"

definition import_bundle ::
    "'w git_port \<Rightarrow> string \<Rightarrow> branch_publish_request \<Rightarrow> 'w \<Rightarrow> 'w \<times> (symphony_error + unit)" where
  "import_bundle git bundle_path request w =
     git_then (gp_fetch_file git bundle_path (''HEAD:refs/heads/'' @ bpr_branch_name request) w)
       (\<lambda>w (ok, err).
          if ok then (w, Inr ())
          else git_then (gp_fetch_file git bundle_path ''HEAD:refs/heads/bundle-head'' w)
                 (\<lambda>w (ok, _).
                    if \<not> ok then (w, Inl (TriageError (''git import result bundle failed: '' @ trim err)))
                    else gp_force_branch git (bpr_branch_name request) ''bundle-head'' w))"

definition align_local_branch ::
    "'w git_port \<Rightarrow> branch_publish_request \<Rightarrow> 'w \<Rightarrow> 'w \<times> (symphony_error + unit)" where
  "align_local_branch git request w =
     (case gp_rev_parse git (''refs/heads/'' @ bpr_branch_name request) w of
        Inl e \<Rightarrow> (w, Inl e)
      | Inr local_head \<Rightarrow>
          if local_head = bpr_desired_head request then (w, Inr ())
          else if \<not> gp_has_commit git (bpr_desired_head request) w
          then (w, Inl (TriageError (''desired head '' @ bpr_desired_head request
                 @ '' not present after bundle import (local='' @ local_head @ '')'')))
          else gp_force_branch git (bpr_branch_name request) (bpr_desired_head request) w)"

definition debug_option :: "string option \<Rightarrow> string" where
  "debug_option v = (case v of None \<Rightarrow> ''None'' | Some s \<Rightarrow> ''Some('' @ debug_string s @ '')'')"

definition push_and_confirm ::
    "'w git_port \<Rightarrow> string \<Rightarrow> branch_publish_request \<Rightarrow> branch_projection_decision \<Rightarrow> string option
     \<Rightarrow> 'w \<Rightarrow> 'w \<times> (symphony_error + branch_publish_outcome)" where
  "push_and_confirm git remote_url request decision before w =
     git_then (gp_network git (push_args (bpr_branch_name request)) w)
       (\<lambda>w (ok, _, err).
          if \<not> ok then (w, Inl (TriageError (''git push (no-force) failed: '' @ err)))
          else git_then (observe_remote_branch git remote_url (bpr_branch_name request) w)
                 (\<lambda>w after.
                    case after of
                      None \<Rightarrow>
                        (w, Inl (TriageError (''remote branch '' @ bpr_branch_name request
                               @ '' missing after push'')))
                    | Some sha \<Rightarrow>
                        if sha \<noteq> bpr_desired_head request
                        then (w, Inl (TriageError (''remote branch '' @ bpr_branch_name request
                               @ '' after push is '' @ sha @ '', expected '' @ bpr_desired_head request)))
                        else (w, Inr \<lparr> bpo_decision = decision, bpo_remote_sha_before = before,
                                       bpo_remote_sha_after = sha, bpo_pushed = True \<rparr>)))"

definition reconcile_remote ::
    "'w git_port \<Rightarrow> string \<Rightarrow> branch_publish_request \<Rightarrow> 'w \<Rightarrow> 'w \<times> (symphony_error + branch_publish_outcome)" where
  "reconcile_remote git remote_url request w =
     git_then (observe_remote_branch git remote_url (bpr_branch_name request) w)
       (\<lambda>w before.
          case (case before of
                  None \<Rightarrow> Inr False | Some remote \<Rightarrow> gp_is_ancestor git remote (bpr_desired_head request) w) of
            Inl e \<Rightarrow> (w, Inl e)
          | Inr ancestor \<Rightarrow>
              (let decision = decide_branch_projection before (bpr_desired_head request)
                     (bpr_expected_remote_sha request) ancestor
               in case decision of
                    HumanConflict remote_sha \<Rightarrow>
                      (w, Inl (TriageError (''implementation branch conflict on '' @ bpr_branch_name request
                             @ '': remote='' @ remote_sha @ '' desired='' @ bpr_desired_head request
                             @ '' expected='' @ debug_option (bpr_expected_remote_sha request))))
                  | AlreadyDesired \<Rightarrow>
                      (w, Inr \<lparr> bpo_decision = decision, bpo_remote_sha_before = before,
                                bpo_remote_sha_after = bpr_desired_head request, bpo_pushed = False \<rparr>)
                  | _ \<Rightarrow> push_and_confirm git remote_url request decision before w))"

definition publish_branch ::
    "'w git_port \<Rightarrow> (string \<Rightarrow> string) \<Rightarrow> string \<Rightarrow> branch_publish_request \<Rightarrow> 'w
     \<Rightarrow> 'w \<times> (symphony_error + branch_publish_outcome)" where
  "publish_branch git blob_path remote_url request w =
     (case load_and_reverify_bundle git blob_path (bpr_bundle_sha256 request) (bpr_bundle_bytes_len request) of
        Inl e \<Rightarrow> (w, Inl e)
      | Inr bundle_path \<Rightarrow>
          git_then (gp_init_repo git w)
            (\<lambda>w _. git_then (gp_network git (fetch_args (bpr_base_branch request)) w)
            (\<lambda>w (ok, _, err).
               if \<not> ok
               then (w, Inl (TriageError (''git fetch base `'' @ bpr_base_branch request @ ''` failed: '' @ err)))
               else
                 (case gp_is_ancestor git (bpr_base_commit request)
                         (''refs/remotes/origin/'' @ bpr_base_branch request) w of
                    Inl e \<Rightarrow> (w, Inl e)
                  | Inr False \<Rightarrow>
                      (w, Inl (TriageError (''base commit conflict: captured base '' @ bpr_base_commit request
                             @ '' is not reachable from remote base branch '' @ bpr_base_branch request)))
                  | Inr True \<Rightarrow>
                      git_then (import_bundle git bundle_path request w)
                        (\<lambda>w _. git_then (align_local_branch git request w)
                        (\<lambda>w _. reconcile_remote git remote_url request w))))))"

end
