(* ===== verification/ImplementationFacts.thy ===== *)
theory ImplementationFacts
  imports ImplementationStage SpecStageFacts
begin

text \<open>
  Facts about the implementation stage: what the validators of the manifest accept, which paths
  the approved specification may be written to, where a validation cycle stops, and what the
  publisher of a branch may do to the remote.
\<close>

section \<open>The coverage of acceptance criteria\<close>

definition claim_ok :: "acceptance_criterion_claim \<Rightarrow> bool" where
  "claim_ok c \<longleftrightarrow>
     1 \<le> length (acc_evidence c) \<and> length (acc_evidence c) \<le> 10
     \<and> list_all (\<lambda>e. text_ok 500 (ie_reference e) \<and> text_ok 1000 (ie_summary e)) (acc_evidence c)"

lemma manifest_error_not_ok [simp]: "manifest_error f m \<noteq> Inr x"
  by (simp add: manifest_error_def)

lemma validate_manifest_text_ok [simp]: "validate_manifest_text n s m = Inr () \<longleftrightarrow> text_ok m s"
  by (simp add: validate_manifest_text_def text_ok_def not_less)

lemma validate_claim_ok [simp]: "validate_claim i c = Inr () \<longleftrightarrow> claim_ok c"
proof -
  have "validate_items (validate_evidence i) 0 (acc_evidence c) = Inr ()
      \<longleftrightarrow> list_all (\<lambda>e. text_ok 500 (ie_reference e) \<and> text_ok 1000 (ie_summary e)) (acc_evidence c)"
    by (rule validate_items_ok)
      (simp add: validate_evidence_def Let_def implementation_evidence_reference_max_bytes_def
        implementation_evidence_summary_max_bytes_def)
  then show ?thesis
    by (cases "acc_evidence c")
      (auto simp: validate_claim_def claim_ok_def implementation_evidence_max_items_def not_less)
qed

lemma coverage_loop_ok:
  assumes "length seen = n"
  shows "coverage_loop n i claims seen = Inr seen' \<longleftrightarrow>
    list_all claim_ok claims \<and> distinct (map acc_index claims)
    \<and> (\<forall>c \<in> set claims. 1 \<le> acc_index c \<and> acc_index c \<le> n \<and> \<not> seen ! (acc_index c - 1))
    \<and> seen' = map (\<lambda>j. seen ! j \<or> Suc j \<in> acc_index ` set claims) [0..<n]"
  using assms
proof (induction claims arbitrary: i seen)
  case Nil
  have "map (\<lambda>j. seen ! j) [0..<n] = seen" using Nil by (metis map_nth)
  then show ?case by auto
next
  case (Cons c claims)
  show ?case
  proof (cases "claim_ok c \<and> 1 \<le> acc_index c \<and> acc_index c \<le> n \<and> \<not> seen ! (acc_index c - 1)")
    case False
    have "coverage_loop n i (c # claims) seen \<noteq> Inr seen'"
    proof (cases "validate_claim i c")
      case (Inr u)
      then have "claim_ok c" by simp
      with False show ?thesis unfolding coverage_loop.simps Inr by (auto simp: Suc_le_eq not_less)
    qed simp
    moreover have "\<not> (list_all claim_ok (c # claims)
        \<and> (\<forall>c \<in> set (c # claims). 1 \<le> acc_index c \<and> acc_index c \<le> n \<and> \<not> seen ! (acc_index c - 1)))"
      using False by (simp only: list.pred_inject list.set ball_simps) blast
    ultimately show ?thesis by blast
  next
    case True
    define k where "k = acc_index c - 1"
    have k: "acc_index c = Suc k" "k < n" using True k_def by linarith+
    have step: "coverage_loop n i (c # claims) seen = coverage_loop n (Suc i) claims (seen[k := True])"
    proof -
      have v: "validate_claim i c = Inr ()" using True by simp
      show ?thesis unfolding coverage_loop.simps v using True k by simp
    qed
    have other: "1 \<le> acc_index d \<and> acc_index d \<le> n \<and> \<not> seen[k := True] ! (acc_index d - 1)
        \<longleftrightarrow> 1 \<le> acc_index d \<and> acc_index d \<le> n \<and> \<not> seen ! (acc_index d - 1) \<and> acc_index d \<noteq> Suc k" for d
      using k Cons.prems by (auto simp: nth_list_update)
    have marks: "map (\<lambda>j. seen[k := True] ! j \<or> Suc j \<in> acc_index ` set claims) [0..<n]
        = map (\<lambda>j. seen ! j \<or> Suc j \<in> acc_index ` set (c # claims)) [0..<n]"
      using k Cons.prems by (auto simp: nth_list_update)
    have ih: "coverage_loop n (Suc i) claims (seen[k := True]) = Inr seen' \<longleftrightarrow>
      list_all claim_ok claims \<and> distinct (map acc_index claims)
      \<and> (\<forall>d \<in> set claims. 1 \<le> acc_index d \<and> acc_index d \<le> n \<and> \<not> seen ! (acc_index d - 1) \<and> acc_index d \<noteq> Suc k)
      \<and> seen' = map (\<lambda>j. seen ! j \<or> Suc j \<in> acc_index ` set (c # claims)) [0..<n]"
      using Cons.IH [of "seen[k := True]" "Suc i"] Cons.prems unfolding other marks by simp
    have "(\<forall>d \<in> set claims. 1 \<le> acc_index d \<and> acc_index d \<le> n \<and> \<not> seen ! (acc_index d - 1)
          \<and> acc_index d \<noteq> Suc k) \<and> distinct (map acc_index claims)
        \<longleftrightarrow> (\<forall>d \<in> set (c # claims). 1 \<le> acc_index d \<and> acc_index d \<le> n \<and> \<not> seen ! (acc_index d - 1))
          \<and> distinct (map acc_index (c # claims))"
      using True k(1) by (simp only: list.set ball_simps list.map distinct.simps set_map image_iff) metis
    then show ?thesis unfolding step ih list.pred_inject using True by blast
  qed
qed

lemma first_unseen_None: "first_unseen i seen = None \<longleftrightarrow> list_all id seen"
  by (induction seen arbitrary: i) auto

lemma covering_claims:
  assumes "length claims = n" "distinct (map acc_index claims)"
    and "\<forall>c \<in> set claims. 1 \<le> acc_index c \<and> acc_index c \<le> n"
  shows "acc_index ` set claims = {1..n}"
proof (rule card_subset_eq)
  show "acc_index ` set claims \<subseteq> {1..n}" using assms(3) by auto
  show "card (acc_index ` set claims) = card {1..n}"
    using assms(1,2) by (metis card_atLeastAtMost diff_Suc_1 distinct_card length_map list.set_map)
qed simp

text \<open>The claims are the criteria, once each; that one is missing is never reported.\<close>

lemma criterion_coverage_ok:
  "validate_criterion_coverage claims approved = Inr () \<longleftrightarrow>
     list_all claim_ok claims \<and> distinct (map acc_index claims)
     \<and> acc_index ` set claims = {1..length (spa_acceptance_criteria approved)}"
proof -
  let ?n = "length (spa_acceptance_criteria approved)"
  let ?in = "\<forall>c \<in> set claims. 1 \<le> acc_index c \<and> acc_index c \<le> ?n"
  have loop: "coverage_loop ?n 0 claims (replicate ?n False) = Inr seen \<longleftrightarrow>
      list_all claim_ok claims \<and> distinct (map acc_index claims) \<and> ?in
      \<and> seen = map (\<lambda>j. Suc j \<in> acc_index ` set claims) [0..<?n]" for seen
  proof -
    have m: "map (\<lambda>j. replicate ?n False ! j \<or> Suc j \<in> acc_index ` set claims) [0..<?n]
        = map (\<lambda>j. Suc j \<in> acc_index ` set claims) [0..<?n]" by (intro map_cong refl) simp
    have i: "(\<forall>c \<in> set claims. 1 \<le> acc_index c \<and> acc_index c \<le> ?n \<and> \<not> replicate ?n False ! (acc_index c - 1))
        \<longleftrightarrow> ?in" by auto
    show ?thesis using coverage_loop_ok [of "replicate ?n False" ?n 0 claims seen, OF length_replicate] unfolding m i .
  qed
  show ?thesis
  proof (cases "length claims = ?n")
    case False
    have "distinct (map acc_index claims) \<and> acc_index ` set claims = {1..?n} \<Longrightarrow> length claims = ?n"
      by (metis card_atLeastAtMost diff_Suc_1 distinct_card length_map list.set_map)
    with False show ?thesis by (auto simp: validate_criterion_coverage_def)
  next
    case True
    show ?thesis
    proof (cases "list_all claim_ok claims \<and> distinct (map acc_index claims) \<and> ?in")
      case ok: True
      have all: "acc_index ` set claims = {1..?n}" using covering_claims [OF True] ok by blast
      have "coverage_loop ?n 0 claims (replicate ?n False) = Inr (map (\<lambda>j. Suc j \<in> {1..?n}) [0..<?n])"
        using loop ok all by simp
      moreover have "first_unseen 0 (map (\<lambda>j. Suc j \<in> {1..?n}) [0..<?n]) = None"
        by (simp add: first_unseen_None list_all_iff)
      ultimately show ?thesis using True ok all by (simp add: validate_criterion_coverage_def)
    next
      case bad: False
      then obtain e where "coverage_loop ?n 0 claims (replicate ?n False) = Inl e"
        using loop by (cases "coverage_loop ?n 0 claims (replicate ?n False)") auto
      moreover have "\<not> (list_all claim_ok claims \<and> distinct (map acc_index claims)
          \<and> acc_index ` set claims = {1..?n})" using bad by auto
      ultimately show ?thesis using True by (simp add: validate_criterion_coverage_def)
    qed
  qed
qed

section \<open>The whole manifest\<close>

definition commit_oid_ok :: "string \<Rightarrow> bool" where
  "commit_oid_ok s \<longleftrightarrow> (length s = 40 \<or> length s = 64) \<and> list_all is_hex_lower s"

lemma utf8_len_ascii: "list_all (\<lambda>c. code_point c < 128) s \<Longrightarrow> utf8_len s = length s"
  by (induction s) (auto simp: char_bytes_def)

lemma hex_ascii: "is_hex_lower c \<Longrightarrow> code_point c < 128 \<and> \<not> is_whitespace c"
  by (auto simp: is_hex_lower_def is_ascii_digit_def is_whitespace_def)

lemma trim_no_white: "list_all (\<lambda>c. \<not> is_whitespace c) s \<Longrightarrow> trim s = s"
proof -
  have id: "dropWhile is_whitespace xs = xs" if "list_all (\<lambda>c. \<not> is_whitespace c) xs" for xs
    using that by (cases xs) auto
  assume "list_all (\<lambda>c. \<not> is_whitespace c) s"
  then show ?thesis by (simp add: trim_def trim_start_def trim_end_def id list_all_iff)
qed

lemma validate_commit_oid_ok [simp]: "validate_commit_oid f s = Inr () \<longleftrightarrow> commit_oid_ok s"
proof (cases "list_all is_hex_lower s")
  case True
  then have "trim s = s" "utf8_len s = length s"
    using hex_ascii by (auto intro!: trim_no_white utf8_len_ascii simp: list_all_iff)
  with True show ?thesis by (simp add: validate_commit_oid_def commit_oid_ok_def)
qed (simp add: validate_commit_oid_def commit_oid_ok_def)

definition blocker_ok :: "implementation_blocker \<Rightarrow> bool" where
  "blocker_ok b \<longleftrightarrow> text_ok 2000 (ib_summary b) \<and> text_ok 4000 (ib_evidence b)"

text \<open>What a valid manifest is, given the approved specification or without it.\<close>

definition manifest_ok :: "implementation_manifest \<Rightarrow> spec_artifact option \<Rightarrow> bool" where
  "manifest_ok m approved \<longleftrightarrow>
     im_schema_version m = 1 \<and> text_ok 4000 (im_summary m)
     \<and> length (im_known_limitations m) \<le> 20 \<and> list_all (text_ok 1000) (im_known_limitations m)
     \<and> (case im_status m of
          ManifestCompleted \<Rightarrow>
            (\<exists>head. im_head_commit m = Some head \<and> commit_oid_ok head) \<and> im_blocker m = None
            \<and> list_all claim_ok (im_acceptance_criteria m)
            \<and> (case approved of
                 None \<Rightarrow> im_acceptance_criteria m \<noteq> []
               | Some spec \<Rightarrow>
                   distinct (map acc_index (im_acceptance_criteria m))
                   \<and> acc_index ` set (im_acceptance_criteria m) = {1..length (spa_acceptance_criteria spec)})
        | ManifestBlocked \<Rightarrow>
            im_head_commit m = None \<and> im_acceptance_criteria m = []
            \<and> (\<exists>b. im_blocker m = Some b \<and> blocker_ok b))"

lemma validate_completed_ok:
  "validate_completed m approved = Inr () \<longleftrightarrow>
     (\<exists>head. im_head_commit m = Some head \<and> commit_oid_ok head) \<and> im_blocker m = None
     \<and> list_all claim_ok (im_acceptance_criteria m)
     \<and> (case approved of
          None \<Rightarrow> im_acceptance_criteria m \<noteq> []
        | Some spec \<Rightarrow>
            distinct (map acc_index (im_acceptance_criteria m))
            \<and> acc_index ` set (im_acceptance_criteria m) = {1..length (spa_acceptance_criteria spec)})"
proof -
  have "validate_items validate_claim 0 xs = Inr () \<longleftrightarrow> list_all claim_ok xs" for xs
    by (rule validate_items_ok) simp
  then show ?thesis
    by (auto simp: validate_completed_def criterion_coverage_ok split: option.splits)
qed

lemma validate_blocked_ok:
  "validate_blocked m = Inr () \<longleftrightarrow>
     im_head_commit m = None \<and> im_acceptance_criteria m = [] \<and> (\<exists>b. im_blocker m = Some b \<and> blocker_ok b)"
  by (auto simp: validate_blocked_def validate_blocker_def blocker_ok_def
      implementation_blocker_summary_max_bytes_def implementation_blocker_evidence_max_bytes_def
      split: option.splits)

lemma validate_implementation_manifest_ok: "validate_implementation_manifest m approved = Inr () \<longleftrightarrow> manifest_ok m approved"
proof -
  have "validate_items (\<lambda>i l. validate_manifest_text (item_name ''known_limitations'' i) l
      implementation_limitation_max_bytes) 0 xs = Inr () \<longleftrightarrow> list_all (text_ok 1000) xs" for xs
    by (rule validate_items_ok) (simp add: implementation_limitation_max_bytes_def)
  then show ?thesis
    by (cases "im_status m")
      (auto simp: validate_implementation_manifest_def manifest_ok_def validate_completed_ok validate_blocked_ok not_less
        implementation_schema_version_def implementation_summary_max_bytes_def
        implementation_limitations_max_items_def)
qed

section \<open>The path of the approved specification\<close>

definition path_parts :: "string \<Rightarrow> string list" where
  "path_parts path = split_on (\<lambda>c. c = CHR ''/'' \<or> c = CHR 0x5C) path"

definition part_ok :: "string \<Rightarrow> bool" where
  "part_ok c \<longleftrightarrow> c \<noteq> ''..'' \<and> \<not> eq_ignore_ascii_case c ''.git''"

definition check_part :: "string \<Rightarrow> string list manifest_result \<Rightarrow> string list manifest_result" where
  "check_part component acc =
     (case acc of
        Inl e \<Rightarrow> Inl e
      | Inr normalized \<Rightarrow>
          if component = [] \<or> component = ''.'' then Inr normalized
          else if component = ''..''
          then manifest_error ''spec_file''
                 (''must not contain '' @ [CHR 0x27] @ ''..'' @ [CHR 0x27] @ '' path segments'')
          else if eq_ignore_ascii_case component ''.git''
                  \<or> (\<exists>existing \<in> set normalized. eq_ignore_ascii_case existing ''.git'')
          then manifest_error ''spec_file'' ''must not address .git''
          else Inr (normalized @ [component]))"

lemma check_part_error: "fold check_part parts (Inl e) = Inl e"
  by (induction parts) (simp_all add: check_part_def)

lemma empty_not_git: "\<not> eq_ignore_ascii_case [] ''.git''" "\<not> eq_ignore_ascii_case ''.'' ''.git''"
  by (simp_all add: eq_ignore_ascii_case_def to_ascii_lowercase_def)

lemma check_parts:
  assumes "\<not> (\<exists>x \<in> set normalized. eq_ignore_ascii_case x ''.git'')"
  shows "fold check_part parts (Inr normalized) = Inr result \<longleftrightarrow>
    list_all part_ok parts \<and> result = normalized @ filter (\<lambda>c. c \<noteq> [] \<and> c \<noteq> ''.'') parts"
  using assms
proof (induction parts arbitrary: normalized)
  case Nil
  then show ?case by auto
next
  case (Cons c parts)
  consider "c = [] \<or> c = ''.''" | "c \<noteq> []" "c \<noteq> ''.''" "part_ok c" | "c \<noteq> []" "c \<noteq> ''.''" "\<not> part_ok c" by blast
  then show ?case
  proof cases
    case 1
    then have "check_part c (Inr normalized) = Inr normalized" "part_ok c"
      using empty_not_git by (auto simp: check_part_def part_ok_def)
    with 1 Cons show ?thesis by auto
  next
    case 2
    then have "check_part c (Inr normalized) = Inr (normalized @ [c])"
      using Cons.prems by (simp add: check_part_def part_ok_def)
    with 2 Cons show ?thesis by (simp add: part_ok_def)
  next
    case 3
    then have "c = ''..'' \<or> eq_ignore_ascii_case c ''.git''" by (simp add: part_ok_def)
    with 3 obtain e where "check_part c (Inr normalized) = Inl e"
      unfolding check_part_def manifest_error_def by (cases "c = ''..''") simp_all
    with 3 show ?thesis by (simp add: check_part_error)
  qed
qed

lemma split_on_not_Nil [simp]: "split_on P s \<noteq> []"
  by (cases s) (auto split: list.splits)

lemma split_on_last: "split_on P s \<noteq> [] \<and> last (split_on P s) = rev (takeWhile (\<lambda>c. \<not> P c) (rev s))"
proof (induction s)
  case (Cons c s)
  show ?case
  proof (cases "P c")
    case True
    then have "takeWhile (\<lambda>c. \<not> P c) (rev s @ [c]) = takeWhile (\<lambda>c. \<not> P c) (rev s)"
      by (simp add: takeWhile_tail)
    with Cons True show ?thesis by simp
  next
    case False
    obtain x xs where x: "split_on P s = x # xs" using Cons by (cases "split_on P s") auto
    show ?thesis
    proof (cases "\<exists>d \<in> set s. P d")
      case True
      then have "xs \<noteq> []"
      proof (rule contrapos_pp)
        have "split_on P t = [y] \<Longrightarrow> \<not> (\<exists>d \<in> set t. P d)" for t y
        proof (induction t arbitrary: y)
          case (Cons a t)
          then show ?case by (cases "split_on P t") (auto split: if_splits)
        qed simp
        then show "\<not> xs \<noteq> [] \<Longrightarrow> \<not> (\<exists>d \<in> set s. P d)" using x by blast
      qed
      moreover have "takeWhile (\<lambda>c. \<not> P c) (rev s @ [c]) = takeWhile (\<lambda>c. \<not> P c) (rev s)"
        using True by (metis set_rev takeWhile_append1)
      ultimately show ?thesis using Cons False x by simp
    next
      case none: False
      have "split_on P t = [t]" if "\<not> (\<exists>d \<in> set t. P d)" for t
        using that by (induction t) auto
      then have "split_on P (c # s) = [c # s]" using none False by simp
      moreover have "takeWhile (\<lambda>c. \<not> P c) (rev (c # s)) = rev (c # s)"
        using none False by (intro takeWhile_eq_all_conv [THEN iffD2]) auto
      ultimately show ?thesis by (metis last.simps list.distinct(1) rev_rev_ident)
    qed
  qed
qed simp

text \<open>The last part of a path that ends in \<open>.md\<close> is kept, so the path names a file.\<close>

lemma md_part: "suffix ''.md'' path \<Longrightarrow> filter (\<lambda>c. c \<noteq> [] \<and> c \<noteq> ''.'') (path_parts path) \<noteq> []"
proof -
  let ?P = "\<lambda>c. c = CHR ''/'' \<or> c = CHR 0x5C"
  assume "suffix ''.md'' path"
  then obtain p where p: "path = p @ ''.md''" by (auto simp: suffix_def)
  have "last (path_parts path) = rev (takeWhile (\<lambda>c. \<not> ?P c) (rev path))"
    by (simp add: path_parts_def split_on_last)
  also have "\<dots> = rev (''dm.'' @ takeWhile (\<lambda>c. \<not> ?P c) (rev p))" by (simp add: p)
  finally have last: "last (path_parts path) = rev (takeWhile (\<lambda>c. \<not> ?P c) (rev p)) @ ''.md''" by simp
  have "last (path_parts path) \<noteq> [] \<and> last (path_parts path) \<noteq> ''.''"
  proof -
    have "x @ ''.md'' \<noteq> ''.''" for x :: string by (cases x) simp_all
    then show ?thesis unfolding last by simp
  qed
  moreover have "last (path_parts path) \<in> set (path_parts path)"
    using split_on_last [of ?P path] unfolding path_parts_def by (intro last_in_set) blast
  ultimately show ?thesis unfolding filter_empty_conv by blast
qed

lemma validate_spec_file_path_ok:
  "validate_spec_file_path path = Inr () \<longleftrightarrow>
     text_ok 240 path \<and> \<not> prefix ''/'' path \<and> \<not> prefix [CHR 0x5C] path \<and> suffix ''.md'' path
     \<and> list_all part_ok (path_parts path)"
proof -
  have fold: "(\<lambda>component acc. case acc of
                    Inl e \<Rightarrow> Inl e
                  | Inr normalized \<Rightarrow>
                      if component = [] \<or> component = ''.'' then Inr normalized
                      else if component = ''..''
                      then manifest_error ''spec_file''
                             (''must not contain '' @ [CHR 0x27] @ ''..'' @ [CHR 0x27] @ '' path segments'')
                      else if eq_ignore_ascii_case component ''.git''
                              \<or> (\<exists>existing \<in> set normalized. eq_ignore_ascii_case existing ''.git'')
                      then manifest_error ''spec_file'' ''must not address .git''
                      else Inr (normalized @ [component])) = check_part"
    by (intro ext) (simp add: check_part_def)
  have ok: "fold check_part (path_parts path) (Inr []) = Inr result \<longleftrightarrow>
      list_all part_ok (path_parts path) \<and> result = filter (\<lambda>c. c \<noteq> [] \<and> c \<noteq> ''.'') (path_parts path)" for result
    using check_parts [of "[]" "path_parts path" result] by simp
  show ?thesis
  proof (cases "trim path \<noteq> [] \<and> utf8_len path \<le> 240 \<and> \<not> prefix ''/'' path \<and> \<not> prefix [CHR 0x5C] path
      \<and> suffix ''.md'' path")
    case False
    then show ?thesis
      by (auto simp: validate_spec_file_path_def text_ok_def implementation_spec_path_max_bytes_def)
  next
    case True
    then have v: "validate_spec_file_path path =
        (case fold check_part (path_parts path) (Inr []) of
           Inl e \<Rightarrow> Inl e
         | Inr normalized \<Rightarrow>
             if normalized = [] then manifest_error ''spec_file'' ''must identify a Markdown file'' else Inr ())"
      unfolding validate_spec_file_path_def fold Let_def path_parts_def
      by (simp add: implementation_spec_path_max_bytes_def)
    show ?thesis
    proof (cases "list_all part_ok (path_parts path)")
      case parts: True
      then have "fold check_part (path_parts path) (Inr [])
          = Inr (filter (\<lambda>c. c \<noteq> [] \<and> c \<noteq> ''.'') (path_parts path))" using ok by blast
      with True parts md_part show ?thesis by (simp add: v text_ok_def)
    next
      case parts: False
      then obtain e where "fold check_part (path_parts path) (Inr []) = Inl e"
        using ok by (cases "fold check_part (path_parts path) (Inr [])") auto
      with parts show ?thesis by (simp add: v)
    qed
  qed
qed

section \<open>A validation cycle\<close>

text \<open>The commands that were run: a prefix of the configured ones, all but the last passing.\<close>

lemma run_commands_results:
  assumes "run_commands run_one cycle commands results w = (w', Inr out)"
    and "\<And>c w w' r. run_one c cycle w = (w', Inr r) \<Longrightarrow> vcr_name r = ivc_name c"
  shows "\<exists>rs. vco_commands out = results @ rs
    \<and> map vcr_name rs = map ivc_name (take (length rs) commands) \<and> length rs \<le> length commands
    \<and> (vco_passed out \<longleftrightarrow> length rs = length commands \<and> list_all vcr_passed rs)
    \<and> (\<not> vco_passed out \<longrightarrow> rs \<noteq> [] \<and> list_all vcr_passed (butlast rs) \<and> \<not> vcr_passed (last rs))"
  using assms(1)
proof (induction commands arbitrary: results w)
  case Nil
  then show ?case by auto
next
  case (Cons c commands)
  obtain w1 r1 where one: "run_one c cycle w = (w1, r1)" by (cases "run_one c cycle w")
  with Cons.prems obtain r where r: "r1 = Inr r" by (cases r1) auto
  show ?case
  proof (cases "vcr_passed r")
    case True
    with Cons.prems one r have "run_commands run_one cycle commands (results @ [r]) w1 = (w', Inr out)" by simp
    from Cons.IH [OF this] obtain rs where
      "vco_commands out = results @ r # rs" "map vcr_name rs = map ivc_name (take (length rs) commands)"
      "length rs \<le> length commands" "vco_passed out \<longleftrightarrow> length rs = length commands \<and> list_all vcr_passed rs"
      "\<not> vco_passed out \<longrightarrow> rs \<noteq> [] \<and> list_all vcr_passed (butlast rs) \<and> \<not> vcr_passed (last rs)" by auto
    with True assms(2) [OF one [unfolded r]] show ?thesis by (intro exI [of _ "r # rs"]) auto
  next
    case False
    with Cons.prems one r have "out = \<lparr> vco_passed = False, vco_commands = results @ [r] \<rparr>" by simp
    with False assms(2) [OF one [unfolded r]] show ?thesis by (intro exI [of _ "[r]"]) auto
  qed
qed

lemma drop_bytes_len: "n \<le> utf8_len s \<Longrightarrow> utf8_len (drop_bytes n s) + n \<le> utf8_len s"
proof (induction n s rule: drop_bytes.induct)
  case (3 n c s)
  show ?case
  proof (cases "Suc n \<le> char_bytes c")
    case True
    then have "drop_bytes (Suc n) (c # s) = s" by simp
    with True show ?thesis by simp
  next
    case False
    then have "Suc n - char_bytes c \<le> utf8_len s" using 3(2) by simp
    then have "utf8_len (drop_bytes (Suc n - char_bytes c) s) + (Suc n - char_bytes c) \<le> utf8_len s" by (rule 3(1))
    with False show ?thesis by simp
  qed
qed simp_all

lemma tail_str_bound: "utf8_len (tail_str s n) \<le> n"
  using drop_bytes_len [of "utf8_len s - n" s] by (auto simp: tail_str_def)

lemma tail_str_suffix: "suffix (tail_str s n) s"
proof -
  have "suffix (drop_bytes k t) t" for k t
    by (induction k t rule: drop_bytes.induct) (auto intro: suffix_ConsI)
  then show ?thesis by (simp add: tail_str_def)
qed

section \<open>What the publisher of a branch does to the remote\<close>

type_synonym network_log = "(string list \<times> (symphony_error + (bool \<times> string \<times> string))) list"

text \<open>The same port, keeping the network commands it was given and their results.\<close>

definition keep_log :: "('w \<Rightarrow> 'w \<times> 'r) \<Rightarrow> 'w \<times> 'l \<Rightarrow> ('w \<times> 'l) \<times> 'r" where
  "keep_log f wl = (case f (fst wl) of (w', r) \<Rightarrow> ((w', snd wl), r))"

definition git_logged :: "'w git_port \<Rightarrow> ('w \<times> network_log) git_port" where
  "git_logged git =
     \<lparr> gp_blob_is_file = gp_blob_is_file git, gp_blob_sha256 = gp_blob_sha256 git,
       gp_blob_len = gp_blob_len git, gp_verify_bundle = gp_verify_bundle git,
       gp_init_repo = keep_log (gp_init_repo git),
       gp_network = (\<lambda>args wl. case gp_network git args (fst wl) of (w', r) \<Rightarrow> ((w', snd wl @ [(args, r)]), r)),
       gp_fetch_file = (\<lambda>p s. keep_log (gp_fetch_file git p s)),
       gp_force_branch = (\<lambda>b t. keep_log (gp_force_branch git b t)),
       gp_is_ancestor = (\<lambda>a b wl. gp_is_ancestor git a b (fst wl)),
       gp_rev_parse = (\<lambda>r wl. gp_rev_parse git r (fst wl)),
       gp_has_commit = (\<lambda>c wl. gp_has_commit git c (fst wl)) \<rparr>"

lemma git_then_eq:
  "git_then m k = (w', r) \<longleftrightarrow>
     (\<exists>w1 e. m = (w1, Inl e) \<and> w' = w1 \<and> r = Inl e) \<or> (\<exists>w1 a. m = (w1, Inr a) \<and> k w1 a = (w', r))"
  by (auto simp: git_then_def split: prod.splits sum.splits)

lemma keep_log_log: "keep_log f wl = (wl', r) \<Longrightarrow> snd wl' = snd wl"
  by (auto simp: keep_log_def split: prod.splits)

lemma import_bundle_log: "import_bundle (git_logged git) p req wl = (wl', r) \<Longrightarrow> snd wl' = snd wl"
  by (auto simp: import_bundle_def git_then_eq git_logged_def dest!: keep_log_log split: if_splits)

lemma align_local_branch_log: "align_local_branch (git_logged git) req wl = (wl', r) \<Longrightarrow> snd wl' = snd wl"
  by (auto simp: align_local_branch_def git_logged_def dest!: keep_log_log split: if_splits sum.splits)

lemma gp_network_log:
  "gp_network (git_logged git) args wl = (wl', r) \<Longrightarrow> snd wl' = snd wl @ [(args, r)]"
  by (auto simp: git_logged_def split: prod.splits)

definition saw_remote :: "string \<Rightarrow> string \<Rightarrow> string option \<Rightarrow> string list \<times> (symphony_error + (bool \<times> string \<times> string)) \<Rightarrow> bool" where
  "saw_remote url branch sha entry \<longleftrightarrow>
     (\<exists>out err. entry = (ls_remote_args url branch, Inr (True, out, err)) \<and> sha = remote_sha_of out)"

lemma observe_log:
  assumes "observe_remote_branch (git_logged git) url branch wl = (wl', r)"
  shows "(\<exists>entry. snd wl' = snd wl @ [entry] \<and> fst entry = ls_remote_args url branch
      \<and> (\<forall>sha. r = Inr sha \<longrightarrow> saw_remote url branch sha entry))"
proof -
  obtain wl1 r1 where n: "gp_network (git_logged git) (ls_remote_args url branch) wl = (wl1, r1)"
    by (metis prod.collapse)
  have "wl' = wl1" "\<forall>sha. r = Inr sha \<longrightarrow> (\<exists>out err. r1 = Inr (True, out, err) \<and> sha = remote_sha_of out)"
    using assms by (auto simp: observe_remote_branch_def n git_then_def split: sum.splits if_splits)
  with gp_network_log [OF n] show ?thesis
    by (intro exI [of _ "(ls_remote_args url branch, r1)"]) (auto simp: saw_remote_def)
qed

definition published :: "branch_publish_request \<Rightarrow> string \<Rightarrow> network_log \<Rightarrow> symphony_error + branch_publish_outcome \<Rightarrow> bool" where
  "published req url log r \<longleftrightarrow>
     (\<exists>before. log \<noteq> [] \<and> saw_remote url (bpr_branch_name req) before (log ! 0)
        \<and> (before = None \<or> before = bpr_expected_remote_sha req \<and> before \<noteq> Some (bpr_desired_head req))
        \<and> prefix (map fst log) [ls_remote_args url (bpr_branch_name req), push_args (bpr_branch_name req),
                                ls_remote_args url (bpr_branch_name req)]
        \<and> (\<forall>out. r = Inr out \<longrightarrow> length log = 3 \<and> bpo_pushed out
             \<and> bpo_remote_sha_before out = before \<and> bpo_remote_sha_after out = bpr_desired_head req
             \<and> saw_remote url (bpr_branch_name req) (Some (bpr_desired_head req)) (last log)))
     \<or> (length log = 1 \<and> fst (hd log) = ls_remote_args url (bpr_branch_name req)
        \<and> (\<forall>out. r = Inr out \<longrightarrow> \<not> bpo_pushed out \<and> bpo_remote_sha_after out = bpr_desired_head req
             \<and> saw_remote url (bpr_branch_name req) (Some (bpr_desired_head req)) (hd log)))"

lemma push_and_confirm_log:
  assumes "push_and_confirm (git_logged git) url req d before wl = (wl', r)"
  shows "\<exists>added. snd wl' = snd wl @ added \<and> added \<noteq> []
    \<and> prefix (map fst added) [push_args (bpr_branch_name req), ls_remote_args url (bpr_branch_name req)]
    \<and> (\<forall>out. r = Inr out \<longrightarrow> length added = 2 \<and> bpo_pushed out
         \<and> bpo_remote_sha_before out = before \<and> bpo_remote_sha_after out = bpr_desired_head req
         \<and> saw_remote url (bpr_branch_name req) (Some (bpr_desired_head req)) (last added))"
proof -
  obtain wl1 r1 where push: "gp_network (git_logged git) (push_args (bpr_branch_name req)) wl = (wl1, r1)"
    by (metis prod.collapse)
  have log1: "snd wl1 = snd wl @ [(push_args (bpr_branch_name req), r1)]" by (rule gp_network_log [OF push])
  show ?thesis
  proof (cases "\<exists>out err. r1 = Inr (True, out, err)")
    case False
    then have "wl' = wl1" "\<exists>e. r = Inl e"
      using assms by (auto simp: push_and_confirm_def push git_then_def split: sum.splits if_splits)
    with log1 show ?thesis by (intro exI [of _ "[(push_args (bpr_branch_name req), r1)]"]) auto
  next
    case True
    obtain wl2 r2 where obs: "observe_remote_branch (git_logged git) url (bpr_branch_name req) wl1 = (wl2, r2)"
      by (metis prod.collapse)
    from observe_log [OF obs] obtain entry where
      entry: "snd wl2 = snd wl1 @ [entry]" "fst entry = ls_remote_args url (bpr_branch_name req)"
        "\<And>sha. r2 = Inr sha \<Longrightarrow> saw_remote url (bpr_branch_name req) sha entry" by blast
    have "wl' = wl2"
      "\<And>out. r = Inr out \<Longrightarrow> r2 = Inr (Some (bpr_desired_head req)) \<and> bpo_pushed out
         \<and> bpo_remote_sha_before out = before \<and> bpo_remote_sha_after out = bpr_desired_head req"
      using assms True
      by (auto simp: push_and_confirm_def push obs git_then_def split: sum.splits if_splits option.splits)
    with log1 entry show ?thesis
      by (intro exI [of _ "[(push_args (bpr_branch_name req), r1), entry]"]) auto
  qed
qed

lemma reconcile_remote_log:
  assumes "reconcile_remote (git_logged git) url req wl = (wl', r)"
  shows "\<exists>added. snd wl' = snd wl @ added \<and> published req url added r"
proof -
  obtain wl1 r1 where obs: "observe_remote_branch (git_logged git) url (bpr_branch_name req) wl = (wl1, r1)"
    by (metis prod.collapse)
  from observe_log [OF obs] obtain entry where
    entry: "snd wl1 = snd wl @ [entry]" "fst entry = ls_remote_args url (bpr_branch_name req)"
      "\<And>sha. r1 = Inr sha \<Longrightarrow> saw_remote url (bpr_branch_name req) sha entry" by blast
  define anc where "anc = (\<lambda>before. case before of None \<Rightarrow> Inr False
      | Some remote \<Rightarrow> gp_is_ancestor (git_logged git) remote (bpr_desired_head req) wl1)"
  show ?thesis
  proof (cases "\<exists>before a. r1 = Inr before \<and> anc before = Inr a
      \<and> decide_branch_projection before (bpr_desired_head req) (bpr_expected_remote_sha req) a
          \<in> {PushAbsent, FastForwardPush}")
    case True
    then obtain before a where b: "r1 = Inr before" "anc before = Inr a"
      "decide_branch_projection before (bpr_desired_head req) (bpr_expected_remote_sha req) a
         \<in> {PushAbsent, FastForwardPush}" by blast
    then have allowed: "before = None \<or> before = bpr_expected_remote_sha req \<and> before \<noteq> Some (bpr_desired_head req)"
      by (auto simp: decide_branch_projection_def split: option.splits if_splits)
    obtain d where push: "push_and_confirm (git_logged git) url req d before wl1 = (wl', r)"
      using assms b by (auto simp: reconcile_remote_def obs git_then_def anc_def Let_def)
    from push_and_confirm_log [OF push] obtain added where
      "snd wl' = snd wl1 @ added" "added \<noteq> []"
      "prefix (map fst added) [push_args (bpr_branch_name req), ls_remote_args url (bpr_branch_name req)]"
      "\<forall>out. r = Inr out \<longrightarrow> length added = 2 \<and> bpo_pushed out
         \<and> bpo_remote_sha_before out = before \<and> bpo_remote_sha_after out = bpr_desired_head req
         \<and> saw_remote url (bpr_branch_name req) (Some (bpr_desired_head req)) (last added)" by blast
    with entry b allowed show ?thesis
      by (intro exI [of _ "entry # added"]) (auto simp: published_def intro!: exI [of _ before])
  next
    case False
    have "wl' = wl1" "\<And>out. r = Inr out \<Longrightarrow> r1 = Inr (Some (bpr_desired_head req)) \<and> \<not> bpo_pushed out
        \<and> bpo_remote_sha_after out = bpr_desired_head req"
      using assms False
      by (auto simp: reconcile_remote_def obs git_then_def anc_def Let_def decide_branch_projection_def
          split: sum.splits option.splits if_splits)
    with entry show ?thesis by (intro exI [of _ "[entry]"]) (auto simp: published_def)
  qed
qed

text \<open>
  Whatever Git and the remote answer: one fetch, one look at the branch, at most one push (the
  plain one), one look after it; a push only when the branch was absent or where it was expected,
  and success only after the branch was seen at the desired head.
\<close>

lemma publish_branch_log:
  assumes "publish_branch (git_logged git) blob_path url req (w, []) = ((w', log), r)"
  shows "log = [] \<and> isl r
    \<or> map fst log = [fetch_args (bpr_base_branch req)] \<and> isl r
    \<or> (\<exists>first added. log = first # added \<and> fst first = fetch_args (bpr_base_branch req)
         \<and> published req url added r)"
proof (cases "load_and_reverify_bundle (git_logged git) blob_path (bpr_bundle_sha256 req) (bpr_bundle_bytes_len req)")
  case (Inl e)
  with assms show ?thesis by (auto simp: publish_branch_def)
next
  case blob: (Inr path)
  obtain wl0 r0 where init: "gp_init_repo (git_logged git) (w, []) = (wl0, r0)" by (metis prod.collapse)
  then have log0: "snd wl0 = []" by (auto simp: git_logged_def dest: keep_log_log)
  show ?thesis
  proof (cases r0)
    case (Inl e)
    with assms blob init log0 show ?thesis by (auto simp: publish_branch_def git_then_def)
  next
    case ok0: (Inr u)
    obtain wl1 r1 where fetch: "gp_network (git_logged git) (fetch_args (bpr_base_branch req)) wl0 = (wl1, r1)"
      by (metis prod.collapse)
    have log1: "snd wl1 = [(fetch_args (bpr_base_branch req), r1)]"
      using gp_network_log [OF fetch] log0 by simp
    show ?thesis
    proof (cases "\<exists>out err. r1 = Inr (True, out, err)
        \<and> gp_is_ancestor (git_logged git) (bpr_base_commit req) (''refs/remotes/origin/'' @ bpr_base_branch req) wl1
            = Inr True")
      case False
      then have "(w', log) = wl1 \<and> isl r"
        using assms blob init ok0 fetch
        by (auto simp: publish_branch_def git_then_def split: sum.splits if_splits bool.splits)
      then show ?thesis using log1 by auto
    next
      case True
      obtain wl2 r2 where imp: "import_bundle (git_logged git) path req wl1 = (wl2, r2)" by (metis prod.collapse)
      obtain wl3 r3 where al: "align_local_branch (git_logged git) req wl2 = (wl3, r3)" by (metis prod.collapse)
      have logs: "snd wl2 = snd wl1" "snd wl3 = snd wl2"
        using import_bundle_log [OF imp] align_local_branch_log [OF al] by simp_all
      show ?thesis
      proof (cases "\<exists>a b. r2 = Inr a \<and> r3 = Inr b")
        case False
        then have "isl r \<and> ((w', log) = wl2 \<or> (w', log) = wl3)"
          using assms blob init ok0 fetch True imp al
          by (auto simp: publish_branch_def git_then_def split: sum.splits)
        then show ?thesis using log1 logs by auto
      next
        case both: True
        then have "reconcile_remote (git_logged git) url req wl3 = ((w', log), r)"
          using assms blob init ok0 fetch True imp al by (auto simp: publish_branch_def git_then_def)
        from reconcile_remote_log [OF this] log1 logs show ?thesis by auto
      qed
    qed
  qed
qed

end
