(* ===== verification/ImplementationStore.thy ===== *)
theory ImplementationStore
  imports SpecStore ImplementationStage
begin

text \<open>
  The implementation stage's part of \<open>src/triage/store.rs\<close>, over the tables of
  \<open>migrations/004_implementation_stage.sql\<close> and \<open>005_implementation_draft_pr.sql\<close>. The database
  is an \<open>impl_db\<close>: the tables of the earlier stages and, beside them, one list of rows per new
  table. The status of a publication intent is under a partial unique index, so a statement that
  changes it is checked like an insertion.
\<close>

section \<open>Tables\<close>

datatype implementation_turn_kind = TurnImplement | TurnRepair

fun implementation_turn_kind_as_str :: "implementation_turn_kind \<Rightarrow> string" where
  "implementation_turn_kind_as_str TurnImplement = ''implement''"
| "implementation_turn_kind_as_str TurnRepair = ''repair''"

datatype implementation_turn_status = ImplTurnRunning | ImplTurnCompleted | ImplTurnFailed

fun implementation_turn_status_as_str :: "implementation_turn_status \<Rightarrow> string" where
  "implementation_turn_status_as_str ImplTurnRunning = ''running''"
| "implementation_turn_status_as_str ImplTurnCompleted = ''completed''"
| "implementation_turn_status_as_str ImplTurnFailed = ''failed''"

record implementation_turn_row =
  itr_turn_id :: string
  itr_stage_run_id :: string
  itr_ordinal :: nat
  itr_kind :: implementation_turn_kind
  itr_status :: implementation_turn_status
  itr_harness :: string
  itr_model :: "string option"
  itr_execution_profile :: execution_profile
  itr_usage :: stage_usage
  itr_output_json :: "json option"
  itr_error_json :: "string option"
  itr_started_at :: int
  itr_completed_at :: "int option"

record implementation_turn_record =
  itr_row :: implementation_turn_row
  itr_error :: "factory_error option"

record validation_cycle_record =
  vcy_cycle_id :: string
  vcy_stage_run_id :: string
  vcy_cycle :: nat
  vcy_passed :: bool
  vcy_commands :: "validation_command_result list"
  vcy_started_at :: int
  vcy_completed_at :: int

record implementation_attempt_inputs =
  iai_approved_artifact_id :: string
  iai_approved_version :: nat
  iai_approval_issue_revision :: string
  iai_base_branch :: string
  iai_base_commit :: string
  iai_execution_profile :: execution_profile
  iai_configuration_revision :: string

record implementation_artifact_record =
  iar_artifact_id :: string
  iar_run_id :: string
  iar_stage_run_id :: string
  iar_approved_artifact_id :: string
  iar_approved_version :: nat
  iar_issue_revision :: string
  iar_configuration_revision :: string
  iar_manifest :: implementation_manifest
  iar_base_commit :: string
  iar_head_commit :: "string option"
  iar_approved_spec_path :: string
  iar_validation_cycles :: nat
  iar_execution_profile :: execution_profile
  iar_received_at :: int
  iar_bytes_len :: nat

record bundle_artifact_record =
  bar_artifact_id :: string
  bar_run_id :: string
  bar_stage_run_id :: string
  bar_implementation_artifact_id :: string
  bar_base_commit :: string
  bar_head_commit :: string
  bar_tree_sha :: string
  bar_sha256 :: string
  bar_bytes_len :: nat
  bar_changed_file_count :: nat
  bar_changed_paths :: "string list"
  bar_approved_spec_path :: string
  bar_approved_spec_blob_sha :: string
  bar_harness :: string
  bar_model :: "string option"
  bar_execution_profile :: execution_profile
  bar_created_at :: int
  bar_verified_at :: int

datatype implementation_decision =
    ImplPending | ImplPreviewed | ImplAwaitingHuman | ImplPublished | ImplBlocked | ImplFailed | ImplConflict

fun implementation_decision_as_str :: "implementation_decision \<Rightarrow> string" where
  "implementation_decision_as_str ImplPending = ''pending''"
| "implementation_decision_as_str ImplPreviewed = ''previewed''"
| "implementation_decision_as_str ImplAwaitingHuman = ''awaiting_human''"
| "implementation_decision_as_str ImplPublished = ''published''"
| "implementation_decision_as_str ImplBlocked = ''blocked''"
| "implementation_decision_as_str ImplFailed = ''failed''"
| "implementation_decision_as_str ImplConflict = ''conflict''"

text \<open>A row of \<open>implementation_run_state\<close>; the blocker is text that may have been cut off.\<close>

record implementation_state_row =
  isr_run_id :: string
  isr_approved_artifact_id :: string
  isr_approved_version :: nat
  isr_configuration_revision :: string
  isr_decision :: implementation_decision
  isr_successful_artifact_id :: "string option"
  isr_bundle_artifact_id :: "string option"
  isr_blocker_json :: "string option"
  isr_updated_at :: int

record implementation_run_state =
  isr_row :: implementation_state_row
  isr_blocker :: "implementation_blocker option"

datatype implementation_publication_kind = ImplPreviewPublication | ImplAutomaticPublication | ImplDiagnosticPublication

fun implementation_publication_kind_as_str :: "implementation_publication_kind \<Rightarrow> string" where
  "implementation_publication_kind_as_str ImplPreviewPublication = ''preview''"
| "implementation_publication_kind_as_str ImplAutomaticPublication = ''automatic''"
| "implementation_publication_kind_as_str ImplDiagnosticPublication = ''diagnostic''"

record implementation_publication_row =
  ipi_intent_id :: string
  ipi_run_id :: string
  ipi_artifact_id :: "string option"
  ipi_kind :: implementation_publication_kind
  ipi_status :: publication_status
  ipi_completed_steps :: "string list"
  ipi_retry_count :: nat
  ipi_last_error_json :: "string option"
  ipi_comment_id :: "string option"
  ipi_publisher_login :: "string option"
  ipi_desired_effects :: json
  ipi_observed_baseline :: json
  ipi_expected_projection :: json
  ipi_created_at :: int
  ipi_updated_at :: int

record implementation_publication_intent =
  ipi_row :: implementation_publication_row
  ipi_last_error :: "factory_error option"

record draft_pr_artifact_record =
  dpr_artifact_id :: string
  dpr_run_id :: string
  dpr_implementation_artifact_id :: string
  dpr_intent_id :: string
  dpr_number :: nat
  dpr_url :: string
  dpr_draft :: bool
  dpr_head :: string
  dpr_base :: string
  dpr_head_sha :: string
  dpr_marker :: string
  dpr_created_at :: int

record impl_db =
  idb_spec :: spec_db
  idb_inputs :: "(string \<times> implementation_attempt_inputs \<times> int) list"
  idb_turns :: "implementation_turn_row list"
  idb_cycles :: "validation_cycle_record list"
  idb_artifacts :: "implementation_artifact_record list"
  idb_bundles :: "bundle_artifact_record list"
  idb_states :: "implementation_state_row list"
  idb_intents :: "implementation_publication_row list"
  idb_draft_prs :: "draft_pr_artifact_record list"

definition impl_base :: "impl_db \<Rightarrow> factory_store" where
  "impl_base db = sdb_base (idb_spec db)"

definition set_impl_base :: "factory_store \<Rightarrow> impl_db \<Rightarrow> impl_db" where
  "set_impl_base b db = db\<lparr> idb_spec := (idb_spec db)\<lparr> sdb_base := b \<rparr> \<rparr>"

text \<open>The JSON reader of a blocker and the text of a time stamp are arguments, in the environment.\<close>

record impl_env =
  ien_factory :: factory_env
  ien_blocker_parse :: "string \<Rightarrow> string + implementation_blocker"
  ien_ts :: "int \<Rightarrow> string"

section \<open>JSON of the records\<close>

definition opt_field :: "string \<Rightarrow> json option \<Rightarrow> (string \<times> json) list" where
  "opt_field name v = (case v of None \<Rightarrow> [] | Some j \<Rightarrow> [(name, j)])"

definition blocker_json :: "implementation_blocker \<Rightarrow> json" where
  "blocker_json b =
     JObject
       [(''kind'', JString (blocker_kind_as_str (ib_kind b))), (''summary'', JString (ib_summary b)),
        (''evidence'', JString (ib_evidence b))]"

definition evidence_json :: "implementation_evidence \<Rightarrow> json" where
  "evidence_json e =
     JObject
       [(''kind'', JString (implementation_evidence_kind_as_str (ie_kind e))),
        (''reference'', JString (ie_reference e)), (''summary'', JString (ie_summary e))]"

definition claim_json :: "acceptance_criterion_claim \<Rightarrow> json" where
  "claim_json c =
     JObject
       [(''index'', JNumber (PosInt (acc_index c))), (''status'', JString ''implemented''),
        (''evidence'', JArray (map evidence_json (acc_evidence c)))]"

definition manifest_json :: "implementation_manifest \<Rightarrow> json" where
  "manifest_json m =
     JObject
       ([(''schema_version'', JNumber (PosInt (im_schema_version m))),
         (''status'', JString (manifest_status_as_str (im_status m)))]
        @ opt_field ''head_commit'' (map_option JString (im_head_commit m))
        @ [(''summary'', JString (im_summary m)),
           (''acceptance_criteria'', JArray (map claim_json (im_acceptance_criteria m))),
           (''known_limitations'', json_string_list (im_known_limitations m))]
        @ opt_field ''blocker'' (map_option blocker_json (im_blocker m)))"

definition int_json :: "int \<Rightarrow> json" where
  "int_json i = JNumber (if i < 0 then NegInt i else PosInt (nat i))"

definition command_result_json :: "impl_env \<Rightarrow> validation_command_result \<Rightarrow> json" where
  "command_result_json env r =
     JObject
       ([(''name'', JString (vcr_name r)), (''command_sha256'', JString (vcr_command_sha256 r)),
         (''cycle'', JNumber (PosInt (vcr_cycle r))), (''started_at'', JString (ien_ts env (vcr_started_at r))),
         (''completed_at'', JString (ien_ts env (vcr_completed_at r))),
         (''duration_ms'', JNumber (PosInt (vcr_duration_ms r)))]
        @ opt_field ''exit_code'' (map_option int_json (vcr_exit_code r))
        @ [(''passed'', JBool (vcr_passed r))]
        @ opt_field ''termination_reason'' (map_option JString (vcr_termination_reason r))
        @ [(''stdout_tail'', JString (vcr_stdout_tail r)), (''stderr_tail'', JString (vcr_stderr_tail r)),
           (''output_sha256'', JString (vcr_output_sha256 r)),
           (''execution_profile'', JString (execution_profile_as_str (vcr_execution_profile r)))])"

text \<open>A \<open>serde_json::Value\<close>: its keys ascend.\<close>

definition factory_error_json :: "factory_error \<Rightarrow> json" where
  "factory_error_json e =
     JObject
       ([(''code'', JString (fe_code e)), (''component'', JString (fe_component e))]
        @ opt_field ''publication_step'' (map_option JString (fe_publication_step e))
        @ [(''remediation'', JString (fe_remediation e)), (''retryable'', JBool (fe_retryable e))])"

definition reset_payload :: "string \<Rightarrow> string \<Rightarrow> factory_error option \<Rightarrow> string list \<Rightarrow> json" where
  "reset_payload intent_id operator cleared steps =
     JObject
       [(''cleared_error'', (case cleared of None \<Rightarrow> JNull | Some e \<Rightarrow> factory_error_json e)),
        (''completed_steps'', json_string_list steps), (''intent_id'', JString intent_id),
        (''operator'', JString operator)]"

section \<open>Requests\<close>

record store_implementation_turn_request =
  tr_turn_id :: string
  tr_stage_run_id :: string
  tr_ordinal :: nat
  tr_kind :: implementation_turn_kind
  tr_status :: implementation_turn_status
  tr_harness :: string
  tr_model :: "string option"
  tr_execution_profile :: execution_profile
  tr_usage :: stage_usage
  tr_output_json :: "json option"
  tr_error :: "factory_error option"
  tr_started_at :: int
  tr_completed_at :: "int option"

record store_implementation_artifact_request =
  ia_stage_run_id :: string
  ia_approved_artifact_id :: string
  ia_approved_version :: nat
  ia_issue_revision :: string
  ia_configuration_revision :: string
  ia_manifest :: implementation_manifest
  ia_base_commit :: string
  ia_head_commit :: "string option"
  ia_approved_spec_path :: string
  ia_validation_cycles :: nat
  ia_execution_profile :: execution_profile
  ia_bytes_len :: nat
  ia_usage :: stage_usage

record store_bundle_artifact_request =
  ba_stage_run_id :: string
  ba_implementation_artifact_id :: string
  ba_base_commit :: string
  ba_head_commit :: string
  ba_tree_sha :: string
  ba_sha256 :: string
  ba_bytes_len :: nat
  ba_changed_file_count :: nat
  ba_changed_paths :: "string list"
  ba_approved_spec_path :: string
  ba_approved_spec_blob_sha :: string
  ba_harness :: string
  ba_model :: "string option"
  ba_execution_profile :: execution_profile
  ba_created_at :: int
  ba_verified_at :: int

record store_draft_pr_request =
  dp_run_id :: string
  dp_implementation_artifact_id :: string
  dp_intent_id :: string
  dp_number :: nat
  dp_url :: string
  dp_draft :: bool
  dp_head :: string
  dp_base :: string
  dp_head_sha :: string
  dp_marker :: string

record upsert_implementation_state_request =
  ui_run_id :: string
  ui_approved_artifact_id :: string
  ui_approved_version :: nat
  ui_configuration_revision :: string
  ui_decision :: implementation_decision
  ui_successful_artifact_id :: "string option"
  ui_bundle_artifact_id :: "string option"
  ui_blocker :: "implementation_blocker option"

section \<open>Turns, cycles and inputs\<close>

definition implementation_turn_from_row ::
    "factory_env \<Rightarrow> implementation_turn_row \<Rightarrow> symphony_error + implementation_turn_record" where
  "implementation_turn_from_row env row =
     (case optional_from_json env (itr_error_json row) of
        Inl e \<Rightarrow> Inl e
      | Inr err \<Rightarrow> Inr \<lparr> itr_row = row, itr_error = err \<rparr>)"

definition list_implementation_turns ::
    "factory_env \<Rightarrow> impl_db \<Rightarrow> string \<Rightarrow> symphony_error + implementation_turn_record list" where
  "list_implementation_turns env db stage_run_id =
     read_rows (implementation_turn_from_row env)
       (sort_key itr_ordinal (filter (\<lambda>t. itr_stage_run_id t = stage_run_id) (idb_turns db)))"

definition insert_implementation_turn :: "implementation_turn_row \<Rightarrow> impl_db \<Rightarrow> impl_db option" where
  "insert_implementation_turn t db =
     (if itr_turn_id t \<in> itr_turn_id ` set (idb_turns db)
         \<or> (\<exists>t' \<in> set (idb_turns db). itr_stage_run_id t' = itr_stage_run_id t \<and> itr_ordinal t' = itr_ordinal t)
         \<or> \<not> stage_exists (impl_base db) (itr_stage_run_id t)
      then None else Some (db\<lparr> idb_turns := idb_turns db @ [t] \<rparr>))"

definition store_implementation_turn ::
    "factory_env \<Rightarrow> store_implementation_turn_request \<Rightarrow> impl_db \<Rightarrow> (impl_db, implementation_turn_record) db_result" where
  "store_implementation_turn env request db =
     (case running_stage env (impl_base db) implementation_stage_name ''implementation'' (tr_stage_run_id request) of
        Inl e \<Rightarrow> (db, Inl e)
      | Inr _ \<Rightarrow>
      (case bounded_optional env (tr_output_json request) of
        Inl e \<Rightarrow> (db, Inl e)
      | Inr output \<Rightarrow>
      (case insert_implementation_turn
              \<lparr> itr_turn_id = tr_turn_id request, itr_stage_run_id = tr_stage_run_id request,
                itr_ordinal = tr_ordinal request, itr_kind = tr_kind request, itr_status = tr_status request,
                itr_harness = tr_harness request, itr_model = tr_model request,
                itr_execution_profile = tr_execution_profile request, itr_usage = tr_usage request,
                itr_output_json = output, itr_error_json = optional_json env (tr_error request),
                itr_started_at = tr_started_at request, itr_completed_at = tr_completed_at request \<rparr> db of
         None \<Rightarrow> (db, constraint_fail env ''implementation_turns'')
       | Some db' \<Rightarrow>
           (case list_implementation_turns env db' (tr_stage_run_id request) of
              Inl e \<Rightarrow> (db', Inl e)
            | Inr turns \<Rightarrow>
                (db', found_or (''implementation turn '' @ tr_turn_id request @ '' was not stored'')
                        (Inr (find (\<lambda>t. itr_turn_id (itr_row t) = tr_turn_id request) turns)))))))"

definition implementation_stage ::
    "factory_env \<Rightarrow> impl_db \<Rightarrow> string \<Rightarrow> symphony_error + stage_run_row" where
  "implementation_stage env db stage_run_id =
     (case select_stage_run env (impl_base db) stage_run_id of
        Inl e \<Rightarrow> Inl e
      | Inr r \<Rightarrow>
          if sg_stage (sr_row r) \<noteq> implementation_stage_name
          then storage_fail (''stage run '' @ stage_run_id @ '' is not an implementation attempt'')
          else Inr (sr_row r))"

definition list_validation_cycles :: "impl_db \<Rightarrow> string \<Rightarrow> validation_cycle_record list" where
  "list_validation_cycles db stage_run_id =
     sort_key vcy_cycle (filter (\<lambda>c. vcy_stage_run_id c = stage_run_id) (idb_cycles db))"

definition insert_cycle :: "validation_cycle_record \<Rightarrow> impl_db \<Rightarrow> impl_db option" where
  "insert_cycle c db =
     (if vcy_cycle_id c \<in> vcy_cycle_id ` set (idb_cycles db)
         \<or> (\<exists>c' \<in> set (idb_cycles db). vcy_stage_run_id c' = vcy_stage_run_id c \<and> vcy_cycle c' = vcy_cycle c)
         \<or> \<not> stage_exists (impl_base db) (vcy_stage_run_id c)
      then None else Some (db\<lparr> idb_cycles := idb_cycles db @ [c] \<rparr>))"

text \<open>The request has the fields of the record.\<close>

definition store_validation_cycle ::
    "impl_env \<Rightarrow> validation_cycle_record \<Rightarrow> impl_db \<Rightarrow> (impl_db, validation_cycle_record) db_result" where
  "store_validation_cycle env request db =
     (case implementation_stage (ien_factory env) db (vcy_stage_run_id request) of
        Inl e \<Rightarrow> (db, Inl e)
      | Inr _ \<Rightarrow>
      (case bounded_json (ien_factory env) (JArray (map (command_result_json env) (vcy_commands request))) of
        Inl e \<Rightarrow> (db, Inl e)
      | Inr _ \<Rightarrow>
      (case insert_cycle request db of
         None \<Rightarrow> (db, constraint_fail (ien_factory env) ''implementation_validation_cycles'')
       | Some db' \<Rightarrow>
           (db', found_or (''validation cycle '' @ vcy_cycle_id request @ '' was not stored'')
                   (Inr (find (\<lambda>c. vcy_cycle_id c = vcy_cycle_id request)
                           (list_validation_cycles db' (vcy_stage_run_id request))))))))"

definition store_implementation_attempt_inputs ::
    "factory_env \<Rightarrow> int \<Rightarrow> string \<Rightarrow> implementation_attempt_inputs \<Rightarrow> impl_db \<Rightarrow> (impl_db, unit) db_result" where
  "store_implementation_attempt_inputs env now stage_run_id inputs db =
     (case implementation_stage env db stage_run_id of
        Inl e \<Rightarrow> (db, Inl e)
      | Inr _ \<Rightarrow>
          if stage_run_id \<in> fst ` set (idb_inputs db)
             \<or> iai_approved_artifact_id inputs \<notin> sar_artifact_id ` set (sdb_spec_artifacts (idb_spec db))
             \<or> \<not> stage_exists (impl_base db) stage_run_id
          then (db, constraint_fail env ''implementation_attempt_inputs'')
          else (db\<lparr> idb_inputs := idb_inputs db @ [(stage_run_id, inputs, now)] \<rparr>, Inr ()))"

definition get_implementation_attempt_inputs :: "impl_db \<Rightarrow> string \<Rightarrow> implementation_attempt_inputs option" where
  "get_implementation_attempt_inputs db stage_run_id =
     map_option fst (map_of (idb_inputs db) stage_run_id)"

section \<open>Artifacts and bundles\<close>

definition get_implementation_artifact :: "impl_db \<Rightarrow> string \<Rightarrow> implementation_artifact_record option" where
  "get_implementation_artifact db artifact_id = find (\<lambda>a. iar_artifact_id a = artifact_id) (idb_artifacts db)"

definition list_implementation_artifacts :: "impl_db \<Rightarrow> string \<Rightarrow> implementation_artifact_record list" where
  "list_implementation_artifacts db run_id =
     sort_key (\<lambda>a. - iar_received_at a) (filter (\<lambda>a. iar_run_id a = run_id) (idb_artifacts db))"

definition spec_artifact_exists :: "impl_db \<Rightarrow> string \<Rightarrow> bool" where
  "spec_artifact_exists db artifact_id \<longleftrightarrow> artifact_id \<in> sar_artifact_id ` set (sdb_spec_artifacts (idb_spec db))"

definition insert_implementation_artifact :: "implementation_artifact_record \<Rightarrow> impl_db \<Rightarrow> impl_db option" where
  "insert_implementation_artifact a db =
     (if (\<exists>b \<in> set (idb_artifacts db).
            iar_artifact_id b = iar_artifact_id a \<or> iar_stage_run_id b = iar_stage_run_id a
            \<or> iar_run_id b = iar_run_id a \<and> iar_approved_artifact_id b = iar_approved_artifact_id a
                \<and> iar_configuration_revision b = iar_configuration_revision a)
         \<or> \<not> run_exists (impl_base db) (iar_run_id a) \<or> \<not> stage_exists (impl_base db) (iar_stage_run_id a)
         \<or> \<not> spec_artifact_exists db (iar_approved_artifact_id a)
      then None else Some (db\<lparr> idb_artifacts := idb_artifacts db @ [a] \<rparr>))"

text \<open>\<open>optional_json\<close> of a blocker: at most 8000 bytes of its JSON.\<close>

definition optional_blocker_json :: "factory_env \<Rightarrow> implementation_blocker option \<Rightarrow> string option" where
  "optional_blocker_json env blocker =
     map_option (\<lambda>b. truncate_utf8_bytes (fenv_json_text env (blocker_json b)) (factory_error_string_max_bytes * 4))
       blocker"

text \<open>The insertion of a run's state; a state that exists is given the values \<open>on_conflict\<close> takes over.\<close>

definition upsert_state_row ::
    "implementation_state_row \<Rightarrow> (implementation_state_row \<Rightarrow> implementation_state_row)
     \<Rightarrow> implementation_state_row list \<Rightarrow> implementation_state_row list" where
  "upsert_state_row row on_conflict rows =
     (if isr_run_id row \<in> isr_run_id ` set rows
      then update_where (\<lambda>r. isr_run_id r = isr_run_id row) on_conflict rows
      else rows @ [row])"

definition state_references_ok :: "impl_db \<Rightarrow> implementation_state_row \<Rightarrow> bool" where
  "state_references_ok db row \<longleftrightarrow>
     run_exists (impl_base db) (isr_run_id row) \<and> spec_artifact_exists db (isr_approved_artifact_id row)
     \<and> (case isr_successful_artifact_id row of None \<Rightarrow> True
        | Some a \<Rightarrow> a \<in> iar_artifact_id ` set (idb_artifacts db))
     \<and> (case isr_bundle_artifact_id row of None \<Rightarrow> True
        | Some b \<Rightarrow> b \<in> bar_artifact_id ` set (idb_bundles db))"

definition store_implementation_artifact ::
    "factory_env \<Rightarrow> int \<Rightarrow> string \<Rightarrow> store_implementation_artifact_request \<Rightarrow> impl_db
     \<Rightarrow> (impl_db, implementation_artifact_record) db_result" where
  "store_implementation_artifact env now new_artifact_id request db =
     (let manifest = ia_manifest request in
      case validate_implementation_manifest manifest None of
        Inl e \<Rightarrow> (db, storage_fail (''refusing invalid implementation artifact: '' @ implementation_error_text e))
      | Inr _ \<Rightarrow>
      (case running_stage env (impl_base db) implementation_stage_name ''implementation'' (ia_stage_run_id request) of
        Inl e \<Rightarrow> (db, Inl e)
      | Inr stage \<Rightarrow>
      (case bounded_json env (manifest_json manifest) of
        Inl e \<Rightarrow> (db, Inl e)
      | Inr _ \<Rightarrow>
      (case insert_implementation_artifact
              \<lparr> iar_artifact_id = new_artifact_id, iar_run_id = sg_run_id stage,
                iar_stage_run_id = ia_stage_run_id request,
                iar_approved_artifact_id = ia_approved_artifact_id request,
                iar_approved_version = ia_approved_version request, iar_issue_revision = ia_issue_revision request,
                iar_configuration_revision = ia_configuration_revision request, iar_manifest = manifest,
                iar_base_commit = ia_base_commit request, iar_head_commit = ia_head_commit request,
                iar_approved_spec_path = ia_approved_spec_path request,
                iar_validation_cycles = ia_validation_cycles request,
                iar_execution_profile = ia_execution_profile request, iar_received_at = now,
                iar_bytes_len = ia_bytes_len request \<rparr> db of
         None \<Rightarrow> (db, constraint_fail env ''implementation_artifacts'')
       | Some db1 \<Rightarrow>
           (let db2 = set_impl_base
                  (complete_stage_run now (ia_stage_run_id request) (ia_usage request) (impl_base db1)) db1;
                row =
                  \<lparr> isr_run_id = sg_run_id stage, isr_approved_artifact_id = ia_approved_artifact_id request,
                    isr_approved_version = ia_approved_version request,
                    isr_configuration_revision = ia_configuration_revision request,
                    isr_decision = (case im_status manifest of
                        ManifestCompleted \<Rightarrow> ImplPreviewed | ManifestBlocked \<Rightarrow> ImplAwaitingHuman),
                    isr_successful_artifact_id = (case im_status manifest of
                        ManifestCompleted \<Rightarrow> Some new_artifact_id | ManifestBlocked \<Rightarrow> None),
                    isr_bundle_artifact_id = None,
                    isr_blocker_json = optional_blocker_json env (im_blocker manifest),
                    isr_updated_at = now \<rparr>;
                db3 = db2\<lparr> idb_states :=
                  upsert_state_row row
                    (\<lambda>old. row\<lparr> isr_bundle_artifact_id := isr_bundle_artifact_id old \<rparr>) (idb_states db2) \<rparr>;
                db4 = set_impl_base
                  (set_run_stage now (sg_run_id stage) FactoryWaiting implementation_stage_name (impl_base db3)) db3
            in case get_implementation_artifact db4 new_artifact_id of
                 None \<Rightarrow> (db, storage_fail (fenv_no_rows env))
               | Some record \<Rightarrow> (db4, Inr record))))))"

definition get_bundle_artifact :: "impl_db \<Rightarrow> string \<Rightarrow> bundle_artifact_record option" where
  "get_bundle_artifact db artifact_id = find (\<lambda>b. bar_artifact_id b = artifact_id) (idb_bundles db)"

definition insert_bundle :: "bundle_artifact_record \<Rightarrow> impl_db \<Rightarrow> impl_db option" where
  "insert_bundle b db =
     (if (\<exists>c \<in> set (idb_bundles db).
            bar_artifact_id c = bar_artifact_id b
            \<or> bar_implementation_artifact_id c = bar_implementation_artifact_id b \<or> bar_sha256 c = bar_sha256 b)
         \<or> \<not> run_exists (impl_base db) (bar_run_id b) \<or> \<not> stage_exists (impl_base db) (bar_stage_run_id b)
         \<or> bar_implementation_artifact_id b \<notin> iar_artifact_id ` set (idb_artifacts db)
      then None else Some (db\<lparr> idb_bundles := idb_bundles db @ [b] \<rparr>))"

definition set_state_bundle :: "int \<Rightarrow> string \<Rightarrow> string \<Rightarrow> impl_db \<Rightarrow> impl_db" where
  "set_state_bundle now run_id bundle_id db =
     db\<lparr> idb_states :=
          update_where (\<lambda>r. isr_run_id r = run_id)
            (\<lambda>r. r\<lparr> isr_bundle_artifact_id := Some bundle_id, isr_updated_at := now \<rparr>) (idb_states db) \<rparr>"

text \<open>A bundle with the same digest is used again, whichever run stored it.\<close>

definition store_bundle_artifact ::
    "factory_env \<Rightarrow> int \<Rightarrow> string \<Rightarrow> store_bundle_artifact_request \<Rightarrow> impl_db
     \<Rightarrow> (impl_db, bundle_artifact_record) db_result" where
  "store_bundle_artifact env now new_artifact_id request db =
     (case implementation_stage env db (ba_stage_run_id request) of
        Inl e \<Rightarrow> (db, Inl e)
      | Inr stage \<Rightarrow>
          (case find (\<lambda>b. bar_sha256 b = ba_sha256 request) (idb_bundles db) of
             Some existing \<Rightarrow>
               (let db' = set_state_bundle now (sg_run_id stage) (bar_artifact_id existing) db
                in (db', found_or (''bundle artifact '' @ bar_artifact_id existing @ '' was not found after reuse'')
                           (Inr (get_bundle_artifact db' (bar_artifact_id existing)))))
           | None \<Rightarrow>
               (case bounded_json env (json_string_list (ba_changed_paths request)) of
                  Inl e \<Rightarrow> (db, Inl e)
                | Inr _ \<Rightarrow>
                    (case insert_bundle
                       \<lparr> bar_artifact_id = new_artifact_id, bar_run_id = sg_run_id stage,
                         bar_stage_run_id = ba_stage_run_id request,
                         bar_implementation_artifact_id = ba_implementation_artifact_id request,
                         bar_base_commit = ba_base_commit request, bar_head_commit = ba_head_commit request,
                         bar_tree_sha = ba_tree_sha request, bar_sha256 = ba_sha256 request,
                         bar_bytes_len = ba_bytes_len request,
                         bar_changed_file_count = ba_changed_file_count request,
                         bar_changed_paths = ba_changed_paths request,
                         bar_approved_spec_path = ba_approved_spec_path request,
                         bar_approved_spec_blob_sha = ba_approved_spec_blob_sha request,
                         bar_harness = ba_harness request, bar_model = ba_model request,
                         bar_execution_profile = ba_execution_profile request,
                         bar_created_at = ba_created_at request, bar_verified_at = ba_verified_at request \<rparr> db of
                       None \<Rightarrow> (db, constraint_fail env ''implementation_bundle_artifacts'')
                     | Some db1 \<Rightarrow>
                         (let db2 = set_state_bundle now (sg_run_id stage) new_artifact_id db1
                          in (db2, found_or (''bundle artifact '' @ new_artifact_id @ '' was not stored'')
                                     (Inr (get_bundle_artifact db2 new_artifact_id))))))))"

section \<open>The state of a run\<close>

definition implementation_state_from_row ::
    "impl_env \<Rightarrow> implementation_state_row \<Rightarrow> symphony_error + implementation_run_state" where
  "implementation_state_from_row env row =
     (case isr_blocker_json row of
        None \<Rightarrow> Inr \<lparr> isr_row = row, isr_blocker = None \<rparr>
      | Some text \<Rightarrow>
          (case ien_blocker_parse env text of
             Inl message \<Rightarrow> Inl (StorageError (fenv_row_message (ien_factory env) message))
           | Inr b \<Rightarrow> Inr \<lparr> isr_row = row, isr_blocker = Some b \<rparr>))"

definition get_implementation_state ::
    "impl_env \<Rightarrow> impl_db \<Rightarrow> string \<Rightarrow> symphony_error + implementation_run_state option" where
  "get_implementation_state env db run_id =
     read_optional (implementation_state_from_row env) (find (\<lambda>r. isr_run_id r = run_id) (idb_states db))"

definition upsert_implementation_state ::
    "impl_env \<Rightarrow> int \<Rightarrow> upsert_implementation_state_request \<Rightarrow> impl_db
     \<Rightarrow> (impl_db, implementation_run_state) db_result" where
  "upsert_implementation_state env now request db =
     (let row =
        \<lparr> isr_run_id = ui_run_id request, isr_approved_artifact_id = ui_approved_artifact_id request,
          isr_approved_version = ui_approved_version request,
          isr_configuration_revision = ui_configuration_revision request, isr_decision = ui_decision request,
          isr_successful_artifact_id = ui_successful_artifact_id request,
          isr_bundle_artifact_id = ui_bundle_artifact_id request,
          isr_blocker_json = optional_blocker_json (ien_factory env) (ui_blocker request),
          isr_updated_at = now \<rparr>
      in if \<not> state_references_ok db row
         then (db, constraint_fail (ien_factory env) ''implementation_run_state'')
         else (let db' = db\<lparr> idb_states := upsert_state_row row (\<lambda>_. row) (idb_states db) \<rparr>
               in (db', found_or (''implementation state for run '' @ ui_run_id request @ '' missing after upsert'')
                          (get_implementation_state env db' (ui_run_id request)))))"

definition set_implementation_decision ::
    "factory_env \<Rightarrow> int \<Rightarrow> string \<Rightarrow> implementation_decision \<Rightarrow> implementation_blocker option \<Rightarrow> impl_db
     \<Rightarrow> (impl_db, unit) db_result" where
  "set_implementation_decision env now run_id decision blocker db =
     (let P = (\<lambda>r. isr_run_id r = run_id)
      in if changed_rows P (idb_states db) = 0
         then (db, storage_fail (''implementation state for run '' @ run_id @ '' not found''))
         else (db\<lparr> idb_states :=
                 update_where P
                   (\<lambda>r. r\<lparr> isr_decision := decision, isr_blocker_json := optional_blocker_json env blocker,
                           isr_updated_at := now \<rparr>) (idb_states db) \<rparr>, Inr ()))"

text \<open>A failed attempt (\<open>fail_implementation_attempt\<close> of the coordinator, through the store).\<close>

definition fail_implementation_attempt ::
    "factory_env \<Rightarrow> int \<Rightarrow> string \<Rightarrow> string \<Rightarrow> factory_error \<Rightarrow> impl_db \<Rightarrow> (impl_db, unit) db_result" where
  "fail_implementation_attempt env now stage_run_id run_id err db =
     (case fail_attempt env now stage_run_id err (impl_base db) of
        (base', Inl e) \<Rightarrow> (set_impl_base base' db, Inl e)
      | (base', Inr _) \<Rightarrow> set_implementation_decision env now run_id ImplFailed None (set_impl_base base' db))"

text \<open>
  What the coordinator does when an attempt ends in an error (\<open>process_candidate\<close>): both calls are made
  and their results ignored, whatever the attempt has stored before.
\<close>

definition abandon_implementation_attempt ::
    "factory_env \<Rightarrow> int \<Rightarrow> string \<Rightarrow> string \<Rightarrow> factory_error \<Rightarrow> impl_db \<Rightarrow> impl_db" where
  "abandon_implementation_attempt env now stage_run_id run_id err db =
     fst (set_implementation_decision env now run_id ImplFailed None
       (set_impl_base (fst (fail_attempt env now stage_run_id err (impl_base db))) db))"

section \<open>Publications\<close>

definition implementation_publication_from_row ::
    "factory_env \<Rightarrow> implementation_publication_row \<Rightarrow> symphony_error + implementation_publication_intent" where
  "implementation_publication_from_row env row =
     (case optional_from_json env (ipi_last_error_json row) of
        Inl e \<Rightarrow> Inl e
      | Inr err \<Rightarrow> Inr \<lparr> ipi_row = row, ipi_last_error = err \<rparr>)"

text \<open>The statuses the partial unique index on the artifact covers, and the index.\<close>

definition nonterminal_publication :: "publication_status \<Rightarrow> bool" where
  "nonterminal_publication status \<longleftrightarrow> status = PubPending \<or> status = PubConflict \<or> status = PubBlocked"

definition indexed_artifact :: "implementation_publication_row \<Rightarrow> string option" where
  "indexed_artifact i = (if nonterminal_publication (ipi_status i) then ipi_artifact_id i else None)"

definition one_nonterminal_publication :: "implementation_publication_row list \<Rightarrow> bool" where
  "one_nonterminal_publication rows \<longleftrightarrow> distinct (List.map_filter indexed_artifact rows)"

definition insert_implementation_intent :: "implementation_publication_row \<Rightarrow> impl_db \<Rightarrow> impl_db option" where
  "insert_implementation_intent i db =
     (if ipi_intent_id i \<in> ipi_intent_id ` set (idb_intents db)
         \<or> \<not> run_exists (impl_base db) (ipi_run_id i)
         \<or> (case ipi_artifact_id i of None \<Rightarrow> False | Some a \<Rightarrow> a \<notin> iar_artifact_id ` set (idb_artifacts db))
         \<or> \<not> one_nonterminal_publication (idb_intents db @ [i])
      then None else Some (db\<lparr> idb_intents := idb_intents db @ [i] \<rparr>))"

text \<open>An \<open>UPDATE\<close> of one intent, rejected when it breaks the index; and the number of changed rows.\<close>

definition update_implementation_intent ::
    "factory_env \<Rightarrow> string \<Rightarrow> (implementation_publication_row \<Rightarrow> implementation_publication_row) \<Rightarrow> impl_db
     \<Rightarrow> (impl_db, nat) db_result" where
  "update_implementation_intent env intent_id f db =
     (let P = (\<lambda>i. ipi_intent_id i = intent_id);
          rows = update_where P f (idb_intents db)
      in if one_nonterminal_publication rows
         then (db\<lparr> idb_intents := rows \<rparr>, Inr (changed_rows P (idb_intents db)))
         else (db, constraint_fail env ''implementation_publication_intents''))"

definition find_implementation_intent :: "impl_db \<Rightarrow> string \<Rightarrow> implementation_publication_row option" where
  "find_implementation_intent db intent_id = find (\<lambda>i. ipi_intent_id i = intent_id) (idb_intents db)"

definition get_implementation_publication_intent ::
    "factory_env \<Rightarrow> impl_db \<Rightarrow> string \<Rightarrow> symphony_error + implementation_publication_intent option" where
  "get_implementation_publication_intent env db intent_id =
     read_optional (implementation_publication_from_row env) (find_implementation_intent db intent_id)"

definition list_implementation_intents ::
    "factory_env \<Rightarrow> (implementation_publication_row \<Rightarrow> bool) \<Rightarrow> (implementation_publication_row \<Rightarrow> int) \<Rightarrow> impl_db
     \<Rightarrow> symphony_error + implementation_publication_intent list" where
  "list_implementation_intents env P key db =
     read_rows (implementation_publication_from_row env) (sort_key key (filter P (idb_intents db)))"

definition list_pending_implementation_publications ::
    "factory_env \<Rightarrow> impl_db \<Rightarrow> symphony_error + implementation_publication_intent list" where
  "list_pending_implementation_publications env db =
     list_implementation_intents env (\<lambda>i. ipi_status i = PubPending) ipi_created_at db"

definition list_implementation_publications_for_run ::
    "factory_env \<Rightarrow> impl_db \<Rightarrow> string \<Rightarrow> symphony_error + implementation_publication_intent list" where
  "list_implementation_publications_for_run env db run_id =
     list_implementation_intents env (\<lambda>i. ipi_run_id i = run_id) (\<lambda>i. - ipi_created_at i) db"

definition list_blocked_implementation_publications ::
    "factory_env \<Rightarrow> impl_db \<Rightarrow> symphony_error + implementation_publication_intent list" where
  "list_blocked_implementation_publications env db =
     list_implementation_intents env (\<lambda>i. ipi_status i = PubBlocked) ipi_created_at db"

definition implementation_intent_missing :: "string \<Rightarrow> string" where
  "implementation_intent_missing intent_id = ''implementation publication intent '' @ intent_id @ '' not found''"

definition create_implementation_publication_intent ::
    "factory_env \<Rightarrow> int \<Rightarrow> string \<Rightarrow> string \<Rightarrow> string option \<Rightarrow> implementation_publication_kind \<Rightarrow> json \<Rightarrow> impl_db
     \<Rightarrow> (impl_db, implementation_publication_intent) db_result" where
  "create_implementation_publication_intent env now new_intent_id run_id artifact_id kind desired_effects db =
     (case bounded_json env desired_effects of
        Inl e \<Rightarrow> (db, Inl e)
      | Inr desired \<Rightarrow>
          (case insert_implementation_intent
                  \<lparr> ipi_intent_id = new_intent_id, ipi_run_id = run_id, ipi_artifact_id = artifact_id,
                    ipi_kind = kind, ipi_status = PubPending, ipi_completed_steps = [], ipi_retry_count = 0,
                    ipi_last_error_json = None, ipi_comment_id = None, ipi_publisher_login = None,
                    ipi_desired_effects = desired, ipi_observed_baseline = JObject [],
                    ipi_expected_projection = JObject [], ipi_created_at = now, ipi_updated_at = now \<rparr> db of
             None \<Rightarrow> (db, constraint_fail env ''implementation_publication_intents'')
           | Some db' \<Rightarrow>
               (db', found_or ''created implementation publication intent is missing''
                       (get_implementation_publication_intent env db' new_intent_id))))"

text \<open>Statements that ignore how many rows changed, and those that want at least one.\<close>

definition ignoring_count :: "('d, nat) db_result \<Rightarrow> ('d, unit) db_result" where
  "ignoring_count r = (case r of (db, Inl e) \<Rightarrow> (db, Inl e) | (db, Inr _) \<Rightarrow> (db, Inr ()))"

definition wanting_row :: "string \<Rightarrow> ('d, nat) db_result \<Rightarrow> ('d, unit) db_result" where
  "wanting_row message r =
     (case r of
        (db, Inl e) \<Rightarrow> (db, Inl e)
      | (db, Inr n) \<Rightarrow> (db, if n = 0 then storage_fail message else Inr ()))"

definition complete_implementation_publication ::
    "factory_env \<Rightarrow> int \<Rightarrow> string \<Rightarrow> string \<Rightarrow> impl_db \<Rightarrow> (impl_db, unit) db_result" where
  "complete_implementation_publication env now intent_id step db =
     (case found_or (implementation_intent_missing intent_id)
             (get_implementation_publication_intent env db intent_id) of
        Inl e \<Rightarrow> (db, Inl e)
      | Inr intent \<Rightarrow>
          (let steps = add_exact_step step (ipi_completed_steps (ipi_row intent))
           in case bounded_json env (json_string_list steps) of
                Inl e \<Rightarrow> (db, Inl e)
              | Inr _ \<Rightarrow>
                  ignoring_count (update_implementation_intent env intent_id
                    (\<lambda>i. i\<lparr> ipi_status := PubApplied, ipi_completed_steps := steps, ipi_last_error_json := None,
                            ipi_updated_at := now \<rparr>) db)))"

definition record_implementation_publication_step ::
    "factory_env \<Rightarrow> int \<Rightarrow> string \<Rightarrow> string \<Rightarrow> publication_status \<Rightarrow> json \<Rightarrow> impl_db \<Rightarrow> (impl_db, unit) db_result" where
  "record_implementation_publication_step env now intent_id step status expected_projection db =
     (case found_or (implementation_intent_missing intent_id)
             (get_implementation_publication_intent env db intent_id) of
        Inl e \<Rightarrow> (db, Inl e)
      | Inr intent \<Rightarrow>
          (let steps = add_step step (ipi_completed_steps (ipi_row intent))
           in case bounded_json env (json_string_list steps) of
                Inl e \<Rightarrow> (db, Inl e)
              | Inr _ \<Rightarrow>
              (case bounded_json env expected_projection of
                Inl e \<Rightarrow> (db, Inl e)
              | Inr projection \<Rightarrow>
                  ignoring_count (update_implementation_intent env intent_id
                    (\<lambda>i. i\<lparr> ipi_completed_steps := steps, ipi_status := status, ipi_last_error_json := None,
                            ipi_expected_projection := projection, ipi_updated_at := now \<rparr>) db))))"

definition set_implementation_publication_baseline ::
    "factory_env \<Rightarrow> int \<Rightarrow> string \<Rightarrow> json \<Rightarrow> json \<Rightarrow> impl_db \<Rightarrow> (impl_db, unit) db_result" where
  "set_implementation_publication_baseline env now intent_id observed_baseline expected_projection db =
     (case bounded_json env observed_baseline of
        Inl e \<Rightarrow> (db, Inl e)
      | Inr baseline \<Rightarrow>
      (case bounded_json env expected_projection of
        Inl e \<Rightarrow> (db, Inl e)
      | Inr projection \<Rightarrow>
          wanting_row (implementation_intent_missing intent_id)
            (update_implementation_intent env intent_id
              (\<lambda>i. i\<lparr> ipi_observed_baseline := baseline, ipi_expected_projection := projection,
                      ipi_updated_at := now \<rparr>) db)))"

definition set_implementation_publication_error ::
    "factory_env \<Rightarrow> int \<Rightarrow> string \<Rightarrow> publication_status \<Rightarrow> factory_error \<Rightarrow> impl_db \<Rightarrow> (impl_db, unit) db_result" where
  "set_implementation_publication_error env now intent_id status err db =
     wanting_row (implementation_intent_missing intent_id)
       (update_implementation_intent env intent_id
         (\<lambda>i. i\<lparr> ipi_status := status, ipi_last_error_json := optional_json env (Some err),
                 ipi_retry_count := Suc (ipi_retry_count i), ipi_updated_at := now \<rparr>) db)"

definition set_implementation_publication_waiting ::
    "factory_env \<Rightarrow> int \<Rightarrow> string \<Rightarrow> publication_status \<Rightarrow> factory_error \<Rightarrow> impl_db \<Rightarrow> (impl_db, unit) db_result" where
  "set_implementation_publication_waiting env now intent_id status err db =
     wanting_row (implementation_intent_missing intent_id)
       (update_implementation_intent env intent_id
         (\<lambda>i. i\<lparr> ipi_status := status, ipi_last_error_json := optional_json env (Some err),
                 ipi_updated_at := now \<rparr>) db)"

definition bind_implementation_publication_comment ::
    "factory_env \<Rightarrow> int \<Rightarrow> string \<Rightarrow> string \<Rightarrow> string \<Rightarrow> impl_db \<Rightarrow> (impl_db, unit) db_result" where
  "bind_implementation_publication_comment env now intent_id comment_id publisher_login db =
     ignoring_count (update_implementation_intent env intent_id
       (\<lambda>i. i\<lparr> ipi_comment_id := Some comment_id, ipi_publisher_login := Some publisher_login,
               ipi_updated_at := now \<rparr>) db)"

definition reset_event :: "string \<Rightarrow> string \<Rightarrow> string \<Rightarrow> int \<Rightarrow> json \<Rightarrow> factory_event_record" where
  "reset_event event_id run_id event_type now payload =
     \<lparr> ev_event_id = event_id, ev_run_id = Some run_id, ev_stage_run_id = None, ev_event_type = event_type,
       ev_timestamp = now, ev_payload = payload \<rparr>"

text \<open>The reset and its audit event commit together.\<close>

definition reset_blocked_implementation_publication ::
    "factory_env \<Rightarrow> int \<Rightarrow> string \<Rightarrow> string \<Rightarrow> string \<Rightarrow> impl_db \<Rightarrow> (impl_db, implementation_publication_intent) db_result" where
  "reset_blocked_implementation_publication env now new_event_id intent_id operator db =
     (case found_or (implementation_intent_missing intent_id)
             (get_implementation_publication_intent env db intent_id) of
        Inl e \<Rightarrow> (db, Inl e)
      | Inr intent \<Rightarrow>
          if ipi_status (ipi_row intent) \<noteq> PubBlocked
          then (db, Inl (TriageError (''implementation publication intent '' @ intent_id @ '' is ''
                 @ publication_status_as_str (ipi_status (ipi_row intent))
                 @ '', not blocked; only a blocked intent can be reset'')))
          else
            (case bounded_json env (reset_payload (ipi_intent_id (ipi_row intent)) operator (ipi_last_error intent)
                    (ipi_completed_steps (ipi_row intent))) of
               Inl e \<Rightarrow> (db, Inl e)
             | Inr payload \<Rightarrow>
                 (case update_implementation_intent env intent_id
                         (\<lambda>i. i\<lparr> ipi_status := PubPending, ipi_last_error_json := None, ipi_retry_count := 0,
                                 ipi_updated_at := now \<rparr>) db of
                    (_, Inl e) \<Rightarrow> (db, Inl e)
                  | (db1, Inr _) \<Rightarrow>
                      (case record_event env
                              (reset_event new_event_id (ipi_run_id (ipi_row intent))
                                 ''implementation_publication_reset'' now payload) (impl_base db1) of
                         (_, Inl e) \<Rightarrow> (db, Inl e)
                       | (base', Inr _) \<Rightarrow>
                           (set_impl_base base' db1,
                            Inr \<lparr> ipi_row = (ipi_row intent)\<lparr> ipi_status := PubPending, ipi_last_error_json := None,
                                    ipi_retry_count := 0, ipi_updated_at := now \<rparr>,
                                  ipi_last_error = None \<rparr>)))))"

section \<open>Draft pull requests and the queues of the next stages\<close>

definition get_draft_pr_artifact :: "impl_db \<Rightarrow> string \<Rightarrow> draft_pr_artifact_record option" where
  "get_draft_pr_artifact db artifact_id = find (\<lambda>d. dpr_artifact_id d = artifact_id) (idb_draft_prs db)"

definition get_draft_pr_for_implementation_artifact :: "impl_db \<Rightarrow> string \<Rightarrow> draft_pr_artifact_record option" where
  "get_draft_pr_for_implementation_artifact db artifact_id =
     find (\<lambda>d. dpr_implementation_artifact_id d = artifact_id) (idb_draft_prs db)"

definition get_draft_pr_for_intent :: "impl_db \<Rightarrow> string \<Rightarrow> draft_pr_artifact_record option" where
  "get_draft_pr_for_intent db intent_id = find (\<lambda>d. dpr_intent_id d = intent_id) (idb_draft_prs db)"

definition store_draft_pr_artifact ::
    "factory_env \<Rightarrow> int \<Rightarrow> string \<Rightarrow> store_draft_pr_request \<Rightarrow> impl_db
     \<Rightarrow> (impl_db, draft_pr_artifact_record) db_result" where
  "store_draft_pr_artifact env now new_artifact_id request db =
     (let d = \<lparr> dpr_artifact_id = new_artifact_id, dpr_run_id = dp_run_id request,
                dpr_implementation_artifact_id = dp_implementation_artifact_id request,
                dpr_intent_id = dp_intent_id request, dpr_number = dp_number request, dpr_url = dp_url request,
                dpr_draft = dp_draft request, dpr_head = dp_head request, dpr_base = dp_base request,
                dpr_head_sha = dp_head_sha request, dpr_marker = dp_marker request, dpr_created_at = now \<rparr>
      in if (\<exists>e \<in> set (idb_draft_prs db).
               dpr_artifact_id e = new_artifact_id
               \<or> dpr_implementation_artifact_id e = dp_implementation_artifact_id request
               \<or> dpr_intent_id e = dp_intent_id request)
            \<or> \<not> run_exists (impl_base db) (dp_run_id request)
            \<or> dp_implementation_artifact_id request \<notin> iar_artifact_id ` set (idb_artifacts db)
            \<or> dp_intent_id request \<notin> ipi_intent_id ` set (idb_intents db)
         then (db, constraint_fail env ''implementation_draft_pr_artifacts'')
         else (let db' = db\<lparr> idb_draft_prs := idb_draft_prs db @ [d] \<rparr>
               in (db', found_or ''created draft PR artifact is missing''
                          (Inr (get_draft_pr_artifact db' new_artifact_id)))))"

record a3_eligible_approved_run =
  a3_run :: factory_run_record
  a3_approved_artifact_id :: string
  a3_approved_version :: nat

definition stage_in_progress :: "factory_store \<Rightarrow> string \<Rightarrow> string \<Rightarrow> bool" where
  "stage_in_progress s stage run_id \<longleftrightarrow>
     (\<exists>r \<in> set (fs_stage_runs s).
        sg_run_id r = run_id \<and> sg_stage r = stage \<and> (sg_status r = StagePending \<or> sg_status r = StageRunning))"

text \<open>The condition of the query on one run and its specification state.\<close>

definition a3_eligible :: "impl_db \<Rightarrow> string \<Rightarrow> factory_run_record \<Rightarrow> spec_run_state \<Rightarrow> bool" where
  "a3_eligible db configuration_revision r s \<longleftrightarrow>
     srn_run_id s = fr_run_id r \<and> srn_decision s = ApprovedDecision
     \<and> srn_approved_artifact_id s \<noteq> None \<and> srn_approved_version s \<noteq> None
     \<and> (\<exists>p \<in> set (sdb_spec_intents (idb_spec db)).
          spi_run_id p = fr_run_id r \<and> spi_kind p = SpecApproval \<and> spi_status p = PubApplied)
     \<and> \<not> (\<exists>a \<in> set (idb_artifacts db).
            iar_run_id a = fr_run_id r \<and> Some (iar_approved_artifact_id a) = srn_approved_artifact_id s
            \<and> iar_configuration_revision a = configuration_revision
            \<and> im_status (iar_manifest a) = ManifestCompleted)
     \<and> \<not> stage_in_progress (impl_base db) implementation_stage_name (fr_run_id r)
     \<and> ((\<forall>i \<in> set (idb_states db). isr_run_id i \<noteq> fr_run_id r)
         \<or> (\<exists>i \<in> set (idb_states db). isr_run_id i = fr_run_id r \<and> isr_decision i = ImplFailed))"

definition list_a3_eligible_approved_runs :: "impl_db \<Rightarrow> string \<Rightarrow> a3_eligible_approved_run list" where
  "list_a3_eligible_approved_runs db configuration_revision =
     concat (map (\<lambda>r.
       map (\<lambda>s. \<lparr> a3_run = r, a3_approved_artifact_id = the (srn_approved_artifact_id s),
                  a3_approved_version = the (srn_approved_version s) \<rparr>)
         (filter (a3_eligible db configuration_revision r) (sdb_spec_states (idb_spec db))))
       (sort_key fr_updated_at (fs_runs (impl_base db))))"

record a4_eligible_review_run =
  a4_run :: factory_run_record
  a4_draft_pr :: draft_pr_artifact_record
  a4_approved_artifact_id :: string

definition a4_eligible :: "impl_db \<Rightarrow> factory_run_record \<Rightarrow> draft_pr_artifact_record \<Rightarrow> spec_run_state \<Rightarrow> bool" where
  "a4_eligible db r d s \<longleftrightarrow>
     dpr_run_id d = fr_run_id r \<and> srn_run_id s = fr_run_id r
     \<and> (\<exists>p \<in> set (idb_intents db). ipi_intent_id p = dpr_intent_id d \<and> ipi_status p = PubApplied)
     \<and> dpr_implementation_artifact_id d \<in> iar_artifact_id ` set (idb_artifacts db)
     \<and> srn_approved_artifact_id s \<noteq> None \<and> srn_decision s = ApprovedDecision \<and> dpr_draft d
     \<and> \<not> stage_in_progress (impl_base db) ''review'' (fr_run_id r)"

text \<open>\<open>ORDER BY r.updated_at, d.created_at\<close>: a stable sort by the second key, then by the first.\<close>

definition list_a4_eligible_review_runs :: "impl_db \<Rightarrow> a4_eligible_review_run list" where
  "list_a4_eligible_review_runs db =
     sort_key (\<lambda>e. fr_updated_at (a4_run e))
       (sort_key (\<lambda>e. dpr_created_at (a4_draft_pr e))
         [\<lparr> a4_run = r, a4_draft_pr = d, a4_approved_artifact_id = the (srn_approved_artifact_id s) \<rparr>.
            r \<leftarrow> fs_runs (impl_base db), d \<leftarrow> idb_draft_prs db, s \<leftarrow> sdb_spec_states (idb_spec db),
            a4_eligible db r d s])"

end
