(* ===== verification/ImplementationStoreFacts.thy ===== *)
theory ImplementationStoreFacts
  imports ImplementationStore SpecStoreFacts
begin

text \<open>
  Facts about the implementation stage's store: what a successful operation has written.
\<close>

lemma storage_fail_not_ok [simp]: "storage_fail m \<noteq> Inr x" "isl (storage_fail m)"
  by (simp_all add: storage_fail_def)

lemma constraint_fail_not_ok [simp]: "constraint_fail env t \<noteq> Inr x" "isl (constraint_fail env t)"
  by (simp_all add: constraint_fail_def)

lemma impl_base_set [simp]: "impl_base (set_impl_base b db) = b"
  by (simp add: impl_base_def set_impl_base_def)

lemma set_impl_base_fields [simp]:
  "idb_artifacts (set_impl_base b db) = idb_artifacts db" "idb_states (set_impl_base b db) = idb_states db"
  "idb_bundles (set_impl_base b db) = idb_bundles db" "idb_intents (set_impl_base b db) = idb_intents db"
  "sdb_spec_states (idb_spec (set_impl_base b db)) = sdb_spec_states (idb_spec db)"
  by (simp_all add: set_impl_base_def)

lemma impl_base_fields [simp]:
  "impl_base (db\<lparr> idb_artifacts := as \<rparr>) = impl_base db" "impl_base (db\<lparr> idb_states := ss \<rparr>) = impl_base db"
  "impl_base (db\<lparr> idb_bundles := bs \<rparr>) = impl_base db" "impl_base (db\<lparr> idb_intents := is \<rparr>) = impl_base db"
  by (simp_all add: impl_base_def)

lemma running_stage_found:
  assumes "running_stage env s stage what stage_run_id = Inr r"
  shows "r \<in> set (fs_stage_runs s)" "sg_stage_run_id r = stage_run_id" "sg_stage r = stage"
    "sg_status r = StageRunning"
  using assms find_in
  by (fastforce simp: running_stage_def select_stage_run_def find_stage_def split: sum.splits option.splits if_splits)+

lemma complete_stage_run_ids [simp]:
  "sg_stage_run_id ` set (fs_stage_runs (complete_stage_run now i u s)) = sg_stage_run_id ` set (fs_stage_runs s)"
  "fs_runs (complete_stage_run now i u s) = fs_runs s"
  by (simp_all add: complete_stage_run_def image_update_where)

lemma set_run_stage_ids [simp]: "fs_stage_runs (set_run_stage now run status stage s) = fs_stage_runs s"
  by (simp add: set_run_stage_def)

lemma upsert_state_ids:
  assumes "\<And>old. isr_run_id old = isr_run_id row \<Longrightarrow> isr_run_id (f old) = isr_run_id row"
  shows "isr_run_id row \<in> isr_run_id ` set (upsert_state_row row f rows)"
proof (cases "isr_run_id row \<in> isr_run_id ` set rows")
  case True
  have "isr_run_id ` set (update_where (\<lambda>r. isr_run_id r = isr_run_id row) f rows) = isr_run_id ` set rows"
    using assms by (intro image_update_where) simp
  with True show ?thesis by (simp only: upsert_state_row_def if_True)
qed (simp add: upsert_state_row_def)

lemma insert_implementation_artifact_is:
  "insert_implementation_artifact a db = Some db'
     \<Longrightarrow> db' = db\<lparr> idb_artifacts := idb_artifacts db @ [a] \<rparr>
       \<and> iar_artifact_id a \<notin> iar_artifact_id ` set (idb_artifacts db)"
  by (auto simp: insert_implementation_artifact_def split: if_splits)

lemma find_new:
  "key a \<notin> key ` set xs \<Longrightarrow> find (\<lambda>b. key b = key a) (xs @ [a]) = Some a"
  by (induction xs) auto

lemma stored_implementation_artifact:
  assumes "store_implementation_artifact env now new_id request db = (db1, Inr artifact)"
  shows "\<exists>stage. running_stage env (impl_base db) implementation_stage_name ''implementation''
            (ia_stage_run_id request) = Inr stage \<and> iar_run_id artifact = sg_run_id stage"
    and "idb_artifacts db1 = idb_artifacts db @ [artifact]"
    and "iar_configuration_revision artifact = ia_configuration_revision request"
    and "iar_approved_artifact_id artifact = ia_approved_artifact_id request"
    and "iar_manifest artifact = ia_manifest request"
    and "iar_run_id artifact \<in> isr_run_id ` set (idb_states db1)"
    and "sdb_spec_states (idb_spec db1) = sdb_spec_states (idb_spec db)"
    and "sg_stage_run_id ` set (fs_stage_runs (impl_base db1)) = sg_stage_run_id ` set (fs_stage_runs (impl_base db))"
proof -
  obtain stage where stage: "running_stage env (impl_base db) implementation_stage_name ''implementation''
      (ia_stage_run_id request) = Inr stage"
    using assms by (cases "running_stage env (impl_base db) implementation_stage_name ''implementation''
      (ia_stage_run_id request)") (auto simp: store_implementation_artifact_def Let_def split: sum.splits)
  define a where "a = \<lparr> iar_artifact_id = new_id, iar_run_id = sg_run_id stage,
                iar_stage_run_id = ia_stage_run_id request,
                iar_approved_artifact_id = ia_approved_artifact_id request,
                iar_approved_version = ia_approved_version request, iar_issue_revision = ia_issue_revision request,
                iar_configuration_revision = ia_configuration_revision request, iar_manifest = ia_manifest request,
                iar_base_commit = ia_base_commit request, iar_head_commit = ia_head_commit request,
                iar_approved_spec_path = ia_approved_spec_path request,
                iar_validation_cycles = ia_validation_cycles request,
                iar_execution_profile = ia_execution_profile request, iar_received_at = now,
                iar_bytes_len = ia_bytes_len request \<rparr>"
  define row where "row = \<lparr> isr_run_id = sg_run_id stage, isr_approved_artifact_id = ia_approved_artifact_id request,
                    isr_approved_version = ia_approved_version request,
                    isr_configuration_revision = ia_configuration_revision request,
                    isr_decision = (case im_status (ia_manifest request) of
                        ManifestCompleted \<Rightarrow> ImplPreviewed | ManifestBlocked \<Rightarrow> ImplAwaitingHuman),
                    isr_successful_artifact_id = (case im_status (ia_manifest request) of
                        ManifestCompleted \<Rightarrow> Some new_id | ManifestBlocked \<Rightarrow> None),
                    isr_bundle_artifact_id = None,
                    isr_blocker_json = optional_blocker_json env (im_blocker (ia_manifest request)),
                    isr_updated_at = now \<rparr>"
  obtain db0 where
    ins: "insert_implementation_artifact a db = Some db0"
    and found: "get_implementation_artifact db1 new_id = Some artifact"
    and db1: "db1 = set_impl_base (set_run_stage now (sg_run_id stage) FactoryWaiting implementation_stage_name
          (complete_stage_run now (ia_stage_run_id request) (ia_usage request) (impl_base db0)))
        ((set_impl_base (complete_stage_run now (ia_stage_run_id request) (ia_usage request) (impl_base db0)) db0)
          \<lparr> idb_states := upsert_state_row row
             (\<lambda>old. row\<lparr> isr_bundle_artifact_id := isr_bundle_artifact_id old \<rparr>) (idb_states db0) \<rparr>)"
    using assms stage
    by (auto simp: store_implementation_artifact_def Let_def a_def row_def split: sum.splits option.splits)
  from insert_implementation_artifact_is [OF ins] have db0: "db0 = db\<lparr> idb_artifacts := idb_artifacts db @ [a] \<rparr>"
    and new: "iar_artifact_id a \<notin> iar_artifact_id ` set (idb_artifacts db)" by simp_all
  have arts: "idb_artifacts db1 = idb_artifacts db @ [a]" by (simp add: db1 db0)
  have "new_id = iar_artifact_id a" by (simp add: a_def)
  then have "artifact = a"
    using found find_new [OF new] by (simp add: get_implementation_artifact_def arts)
  then show "\<exists>stage. running_stage env (impl_base db) implementation_stage_name ''implementation''
            (ia_stage_run_id request) = Inr stage \<and> iar_run_id artifact = sg_run_id stage"
    "idb_artifacts db1 = idb_artifacts db @ [artifact]"
    "iar_configuration_revision artifact = ia_configuration_revision request"
    "iar_approved_artifact_id artifact = ia_approved_artifact_id request"
    "iar_manifest artifact = ia_manifest request"
    "iar_run_id artifact \<in> isr_run_id ` set (idb_states db1)"
    using stage arts upsert_state_ids [of row "\<lambda>old. row\<lparr> isr_bundle_artifact_id := isr_bundle_artifact_id old \<rparr>"]
    by (simp_all add: a_def db1 row_def)
  show "sdb_spec_states (idb_spec db1) = sdb_spec_states (idb_spec db)"
    "sg_stage_run_id ` set (fs_stage_runs (impl_base db1)) = sg_stage_run_id ` set (fs_stage_runs (impl_base db))"
    by (simp_all add: db1 db0)
qed

lemma updated_in: "r \<in> set rows \<Longrightarrow> P r \<Longrightarrow> f r \<in> set (update_where P f rows)"
  by (force simp: set_update_where)

lemma in_updated:
  "r \<in> set (update_where P f rows) \<Longrightarrow> (\<exists>q \<in> set rows. P q \<and> r = f q) \<or> r \<in> set rows \<and> \<not> P r"
  by (auto simp: set_update_where split: if_splits)

lemma image_const: "x \<in> A \<Longrightarrow> (\<And>y. y \<in> A \<Longrightarrow> g y = c) \<Longrightarrow> g ` A = {c}"
  by auto

lemma fail_attempt_fst:
  "fst (fail_attempt env now stage_run_id err s) =
     s\<lparr> fs_stage_runs := update_where (\<lambda>r. sg_stage_run_id r = stage_run_id)
          (\<lambda>r. r\<lparr> sg_status := StageFailed, sg_completed_at := Some now,
                  sg_error_json := optional_json env (Some err), sg_updated_at := now \<rparr>) (fs_stage_runs s) \<rparr>"
  by (simp add: fail_attempt_def Let_def)

lemma changed_rows_pos: "x \<in> set rows \<Longrightarrow> P x \<Longrightarrow> changed_rows P rows \<noteq> 0"
  by (auto simp: changed_rows_def filter_empty_conv)

lemma abandon_is:
  assumes "run_id \<in> isr_run_id ` set (idb_states db)"
  shows "abandon_implementation_attempt env now stage_run_id run_id err db =
    (set_impl_base (fst (fail_attempt env now stage_run_id err (impl_base db))) db)
      \<lparr> idb_states := update_where (\<lambda>r. isr_run_id r = run_id)
          (\<lambda>r. r\<lparr> isr_decision := ImplFailed, isr_blocker_json := None, isr_updated_at := now \<rparr>) (idb_states db) \<rparr>"
proof -
  obtain i where "i \<in> set (idb_states db)" "isr_run_id i = run_id" using assms by blast
  then have "changed_rows (\<lambda>r. isr_run_id r = run_id) (idb_states db) \<noteq> 0" by (rule changed_rows_pos)
  then show ?thesis
    by (simp add: abandon_implementation_attempt_def set_implementation_decision_def Let_def optional_blocker_json_def)
qed

section \<open>The operations as steps\<close>

text \<open>Everything that writes the tables of the implementation stage, and any change at all of the tables
  of the earlier stages.\<close>

inductive impl_step :: "impl_env \<Rightarrow> impl_db \<Rightarrow> impl_db \<Rightarrow> bool" for env where
  earlier: "impl_step env db (db\<lparr> idb_spec := sp \<rparr>)"
| turn: "impl_step env db (fst (store_implementation_turn (ien_factory env) turn_rq db))"
| cycle: "impl_step env db (fst (store_validation_cycle env cycle_rq db))"
| inputs: "impl_step env db (fst (store_implementation_attempt_inputs (ien_factory env) now sid inputs_rq db))"
| artifact: "impl_step env db (fst (store_implementation_artifact (ien_factory env) now new_id artifact_rq db))"
| bundled: "impl_step env db (fst (store_bundle_artifact (ien_factory env) now new_id bundle_rq db))"
| upsert: "impl_step env db (fst (upsert_implementation_state env now state_rq db))"
| decide: "impl_step env db (fst (set_implementation_decision (ien_factory env) now run_id decision blocker db))"
| fail: "impl_step env db (fst (fail_implementation_attempt (ien_factory env) now sid run_id err db))"
| abandon: "impl_step env db (abandon_implementation_attempt (ien_factory env) now sid run_id err db)"
| create: "impl_step env db
    (fst (create_implementation_publication_intent (ien_factory env) now new_id run_id aid kind desired db))"
| complete: "impl_step env db (fst (complete_implementation_publication (ien_factory env) now iid st db))"
| recorded: "impl_step env db
    (fst (record_implementation_publication_step (ien_factory env) now iid st status projection db))"
| baseline: "impl_step env db
    (fst (set_implementation_publication_baseline (ien_factory env) now iid observed projection db))"
| failed: "impl_step env db (fst (set_implementation_publication_error (ien_factory env) now iid status err db))"
| waiting: "impl_step env db (fst (set_implementation_publication_waiting (ien_factory env) now iid status err db))"
| comment: "impl_step env db (fst (bind_implementation_publication_comment (ien_factory env) now iid cid login db))"
| reset: "impl_step env db
    (fst (reset_blocked_implementation_publication (ien_factory env) now new_id iid operator db))"
| draft_pr: "impl_step env db (fst (store_draft_pr_artifact (ien_factory env) now new_id draft_rq db))"

text \<open>No operation removes a stored artifact or changes it.\<close>

lemma update_intent_artifacts:
  "idb_artifacts (fst (update_implementation_intent env iid f db)) = idb_artifacts db"
  "idb_artifacts (fst (wanting_row message (update_implementation_intent env iid f db))) = idb_artifacts db"
  "idb_artifacts (fst (ignoring_count (update_implementation_intent env iid f db))) = idb_artifacts db"
  by (simp_all add: update_implementation_intent_def wanting_row_def ignoring_count_def Let_def split: sum.split)

lemma set_decision_artifacts:
  "idb_artifacts (fst (set_implementation_decision env now run_id decision blocker db)) = idb_artifacts db"
  by (simp add: set_implementation_decision_def Let_def)

lemma store_artifact_more:
  "set (idb_artifacts db) \<subseteq> set (idb_artifacts (fst (store_implementation_artifact env now new_id request db)))"
proof (cases "store_implementation_artifact env now new_id request db")
  case (Pair db1 res)
  show ?thesis
  proof (cases res)
    case (Inl e)
    then have "db1 = db"
      using Pair by (auto simp: store_implementation_artifact_def Let_def split: sum.splits option.splits)
    then show ?thesis using Pair by simp
  next
    case (Inr artifact)
    then show ?thesis using Pair stored_implementation_artifact(2) [of env now new_id request db db1 artifact] by auto
  qed
qed

lemma impl_step_keeps_artifacts:
  "impl_step env db db' \<Longrightarrow> set (idb_artifacts db) \<subseteq> set (idb_artifacts db')"
proof (induction rule: impl_step.induct)
  case (turn db turn_rq)
  show ?case
    by (simp add: store_implementation_turn_def insert_implementation_turn_def split: sum.split option.split)
next
  case (cycle db cycle_rq)
  show ?case by (simp add: store_validation_cycle_def insert_cycle_def split: sum.split option.split)
next
  case (inputs db now sid inputs_rq)
  show ?case by (simp add: store_implementation_attempt_inputs_def split: sum.split)
next
  case (artifact db now new_id artifact_rq)
  show ?case by (rule store_artifact_more)
next
  case (bundled db now new_id bundle_rq)
  show ?case
    by (simp add: store_bundle_artifact_def insert_bundle_def set_state_bundle_def Let_def
        split: sum.split option.split)
next
  case (upsert db now state_rq)
  show ?case by (simp add: upsert_implementation_state_def Let_def)
next
  case (fail db now sid run_id err)
  show ?case
    by (simp add: fail_implementation_attempt_def set_decision_artifacts split: prod.split sum.split)
next
  case (abandon db now sid run_id err)
  show ?case by (simp add: abandon_implementation_attempt_def set_decision_artifacts)
next
  case (create db now new_id run_id aid kind desired)
  show ?case
    by (simp add: create_implementation_publication_intent_def insert_implementation_intent_def
        split: sum.split option.split)
next
  case (complete db now iid st)
  show ?case
    by (simp add: complete_implementation_publication_def update_intent_artifacts Let_def split: sum.split)
next
  case (recorded db now iid st status projection)
  show ?case
    by (simp add: record_implementation_publication_step_def update_intent_artifacts Let_def split: sum.split)
next
  case (baseline db now iid observed projection)
  show ?case
    by (simp add: set_implementation_publication_baseline_def update_intent_artifacts split: sum.split)
next
  case (failed db now iid status err)
  show ?case by (simp add: set_implementation_publication_error_def update_intent_artifacts)
next
  case (waiting db now iid status err)
  show ?case by (simp add: set_implementation_publication_waiting_def update_intent_artifacts)
next
  case (comment db now iid cid login)
  show ?case by (simp add: bind_implementation_publication_comment_def update_intent_artifacts)
next
  case (reset db now new_id iid operator)
  have same: "idb_artifacts d = idb_artifacts db" if "update_implementation_intent env iid f db = (d, r)" for env f d r
    using that update_intent_artifacts(1) [of env iid f db] by simp
  show ?case
    by (auto simp: reset_blocked_implementation_publication_def Let_def split: sum.split prod.split dest: same)
next
  case (draft_pr db now new_id draft_rq)
  show ?case by (simp add: store_draft_pr_artifact_def Let_def)
qed (simp_all add: set_decision_artifacts)

lemma impl_steps_keep_artifacts:
  "(impl_step env)\<^sup>*\<^sup>* db db' \<Longrightarrow> set (idb_artifacts db) \<subseteq> set (idb_artifacts db')"
  by (induction rule: rtranclp_induct) (auto dest: impl_step_keeps_artifacts)

text \<open>A version whose completed artifact is stored is not on offer.\<close>

lemma completed_not_offered:
  assumes "a \<in> set (idb_artifacts db)" and "im_status (iar_manifest a) = ManifestCompleted"
    and "e \<in> set (list_a3_eligible_approved_runs db (iar_configuration_revision a))"
    and "fr_run_id (a3_run e) = iar_run_id a"
  shows "a3_approved_artifact_id e \<noteq> iar_approved_artifact_id a"
proof -
  obtain r s where e: "e = \<lparr> a3_run = r, a3_approved_artifact_id = the (srn_approved_artifact_id s),
      a3_approved_version = the (srn_approved_version s) \<rparr>"
    and eligible: "a3_eligible db (iar_configuration_revision a) r s"
    using assms(3) by (auto simp: list_a3_eligible_approved_runs_def)
  then show ?thesis using assms(1,2,4) by (auto simp: a3_eligible_def)
qed

end
