(* ===== verification/StageProperties.thy ===== *)
theory StageProperties
  imports SpecStoreFacts ImplementationFacts ImplementationStoreFacts FactoryProperties
begin

text \<open>
  The properties of the specification and implementation stages: the turns of a pipeline, its
  outcome, the versions and approvals in the store, the manifest, the path of the approved
  specification, the validation commands, the publication of the branch, and an attempt that
  fails after its artifact was stored.
\<close>

section \<open>The specification pipeline\<close>

text \<open>C40. Whatever the executor answers, a pipeline ends after at most two turns for each allowed
  review cycle. It asks for turn one, two and so on: first a draft, or a revision when a human
  sent the last version back, and then reviews and revisions in turn.\<close>

theorem pipeline_turns_bounded:
  "\<exists>w' log result. run_pipeline (logged execute) turn_id request (w, []) = ((w', log), result)
     \<and> run_pipeline execute turn_id request w = (w', result)
     \<and> length log \<le> 2 * spc_max_review_cycles (spr_config request)
     \<and> map str_ordinal log = map Suc [0..<length log]
     \<and> map str_kind log = map (\<lambda>i. if i = 0 then (if spr_seed request = None then TurnDraft else TurnRevise)
          else if odd i then TurnReview else TurnRevise) [0..<length log]"
proof -
  obtain w' log result where run: "run_pipeline (logged execute) turn_id request (w, []) = ((w', log), result)"
    by (metis prod.collapse)
  have "turn_kind request i = (if i = 0 then (if spr_seed request = None then TurnDraft else TurnRevise)
      else if odd i then TurnReview else TurnRevise)" for i
    by (cases i) (simp_all add: turn_kind_def first_kind_def loop_kind_def split: option.split)
  then have "turn_kind request = (\<lambda>i. if i = 0 then (if spr_seed request = None then TurnDraft else TurnRevise)
      else if odd i then TurnReview else TurnRevise)" by (intro ext)
  with run run_pipeline_logged [OF run] show ?thesis by metis
qed

text \<open>C14. A pipeline that succeeds returns a valid artifact after two turns per review cycle. Every turn
  was asked for with exactly the request due to it: a review with the artifact of the turn before, a
  revision with the artifact the review read and the blocking findings it named, and the first turn with
  the version and the feedback of a human, if there are any. The last turn is a valid review of the
  artifact of the turn before. If it names blocking findings, all allowed cycles were used; all of them
  are returned, and as many are listed in the artifact's open decisions as fit into fifty; if it names
  none, the artifact is the reviewed one.\<close>

theorem pipeline_outcome:
  assumes "run_pipeline execute turn_id request w = (w', Inr out)"
  shows "validate_spec (spo_artifact out) = Inr ()
    \<and> 1 \<le> spo_review_cycles out \<and> spo_review_cycles out \<le> spc_max_review_cycles (spr_config request)
    \<and> length (spo_turns out) = 2 * spo_review_cycles out
    \<and> (\<exists>reviewed findings.
         cst_output (last (butlast (spo_turns out))) = OutputSpec reviewed
         \<and> cst_output (last (spo_turns out)) = OutputFindings findings \<and> validate_findings findings = Inr ()
         \<and> spo_unresolved_blocking_findings out = findings_blocking findings
         \<and> (findings_blocking findings = []
              \<or> spo_review_cycles out = spc_max_review_cycles (spr_config request))
         \<and> spo_artifact out = reviewed\<lparr> spa_open_decisions := spa_open_decisions reviewed
              @ map unresolved_line
                  (take (50 - length (spa_open_decisions reviewed)) (findings_blocking findings)) \<rparr>)
    \<and> spo_usage out = foldl add_turn_usage no_usage (map cst_usage (spo_turns out))
    \<and> run_pipeline (logged execute) turn_id request (w, [])
        = ((w', map (turn_request turn_id request (spo_turns out)) [0..<length (spo_turns out)]), Inr out)"
proof -
  from run_pipeline_result [OF assms] obtain reviewed fs where
    r: "1 \<le> spo_review_cycles out" "spo_review_cycles out \<le> spc_max_review_cycles (spr_config request)"
      "length (spo_turns out) = 2 * spo_review_cycles out"
      "cst_output (last (butlast (spo_turns out))) = OutputSpec reviewed" "spec_ok reviewed"
      "cst_output (last (spo_turns out)) = OutputFindings fs" "findings_ok fs"
      "spo_unresolved_blocking_findings out = findings_blocking fs"
      "findings_blocking fs \<noteq> [] \<longrightarrow> spo_review_cycles out = spc_max_review_cycles (spr_config request)"
      "spo_artifact out = append_unresolved_to_open_decisions reviewed (findings_blocking fs)"
      "spo_usage out = foldl add_turn_usage no_usage (map cst_usage (spo_turns out))" by blast
  have "spec_ok (spo_artifact out)" unfolding r(10) by (rule append_unresolved_ok [OF r(5)])
  with r run_pipeline_asked [OF assms] show ?thesis
    unfolding validate_spec_ok validate_findings_ok append_unresolved_is by blast
qed

text \<open>A pipeline with a draft that its first review accepts.\<close>

definition demo_spec :: spec_artifact where
  "demo_spec =
     \<lparr> spa_schema_version = 1, spa_product_behavior = ''b'', spa_technical_approach = ''t'',
       spa_acceptance_criteria = [''c''], spa_open_decisions = [] \<rparr>"

definition demo_executor :: "nat spec_turn_executor" where
  "demo_executor n request =
     (Suc n, Inr
       \<lparr> sto_output = (if str_kind request = TurnReview
            then OutputFindings \<lparr> srs_schema_version = 1, srs_verdict = VerdictPass, srs_findings = [] \<rparr>
            else OutputSpec demo_spec),
         sto_usage = no_usage, sto_started_at = 0, sto_completed_at = 1, sto_workspace_identity = ''w'' \<rparr>)"

definition demo_pipeline :: spec_pipeline_request where
  "demo_pipeline =
     \<lparr> spr_stage_run_id = ''a1'', spr_issue_context = JNull, spr_seed = None,
       spr_config = \<lparr> spc_max_review_cycles = 3, spc_turn_timeout_ms = 1000, spc_harness = ''codex'',
          spc_draft_model = None, spc_review_model = None,
          spc_prompts = \<lparr> spp_draft = ''d'', spp_review = ''r'', spp_revise = ''v'' \<rparr> \<rparr> \<rparr>"

lemma demo_valid:
  "validate_spec demo_spec = Inr ()"
  "validate_findings \<lparr> srs_schema_version = 1, srs_verdict = VerdictPass, srs_findings = [] \<rparr> = Inr ()"
  by code_simp+

lemma demo_pipeline_run:
  "map_sum id spo_review_cycles (snd (run_pipeline demo_executor (\<lambda>_. ''t'') demo_pipeline 0)) = Inr 1"
  using demo_valid
  by (simp add: run_pipeline_def first_turn_def execute_spec_turn_def execute_turn_def demo_executor_def
      review_loop.simps [where review_cycles = 0] execute_review_turn_def demo_pipeline_def Let_def)

theorem pipeline_outcome_witness:
  "map_sum id (\<lambda>out. (length (spo_turns out), validate_spec (spo_artifact out)))
     (snd (run_pipeline demo_executor (\<lambda>_. ''t'') demo_pipeline 0)) = Inr (2, Inr ())"
proof -
  obtain w out where run: "run_pipeline demo_executor (\<lambda>_. ''t'') demo_pipeline 0 = (w, Inr out)"
    and "spo_review_cycles out = 1"
    using demo_pipeline_run 
    by (cases "run_pipeline demo_executor (\<lambda>_. ''t'') demo_pipeline 0"; cases "snd (run_pipeline demo_executor (\<lambda>_. ''t'') demo_pipeline 0)") auto
  with pipeline_outcome [OF run] show ?thesis by simp
qed

section \<open>Versions and approvals\<close>

text \<open>C10. In every state of the specification tables that their operations can reach, whatever
  happens to the factory tables in between: the stored specifications are valid, those of a run
  are versions one, two, three and so on, no attempt stored two; a run has one state, has used at
  most its budget of revisions, and is approved only with an artifact of its own, in the version
  that was stored.\<close>

theorem approvals_name_stored_versions:
  assumes "spec_reachable env budget db"
  shows "list_all (\<lambda>a. validate_spec (sar_artifact a) = Inr ()) (sdb_spec_artifacts db)
    \<and> map sar_version (filter (\<lambda>a. sar_run_id a = run_id) (sdb_spec_artifacts db))
        = [1..<Suc (length (filter (\<lambda>a. sar_run_id a = run_id) (sdb_spec_artifacts db)))]
    \<and> distinct (map sar_artifact_id (sdb_spec_artifacts db))
    \<and> distinct (map sar_stage_run_id (sdb_spec_artifacts db))
    \<and> distinct (map srn_run_id (sdb_spec_states db))
    \<and> list_all (\<lambda>s. srn_revision_requests_used s \<le> budget) (sdb_spec_states db)
    \<and> (\<lambda>s. (srn_run_id s, srn_approved_artifact_id s, srn_approved_version s))
          ` {s \<in> set (sdb_spec_states db). srn_decision s = ApprovedDecision}
        \<subseteq> (\<lambda>a. (sar_run_id a, Some (sar_artifact_id a), Some (sar_version a))) ` set (sdb_spec_artifacts db)"
proof -
  have inv: "spec_inv budget db" using assms by (rule spec_reachable_inv)
  have ok: "state_ok budget (sdb_spec_artifacts db) s" if "s \<in> set (sdb_spec_states db)" for s
    using inv that by (simp add: spec_inv_def)
  have approved: "(srn_run_id s, srn_approved_artifact_id s, srn_approved_version s)
      \<in> (\<lambda>a. (sar_run_id a, Some (sar_artifact_id a), Some (sar_version a))) ` set (sdb_spec_artifacts db)"
    if "s \<in> set (sdb_spec_states db)" "srn_decision s = ApprovedDecision" for s
  proof -
    from ok [OF that(1)] that(2) obtain a where "a \<in> set (sdb_spec_artifacts db)"
      "srn_approved_artifact_id s = Some (sar_artifact_id a)" "sar_run_id a = srn_run_id s"
      "srn_approved_version s = Some (sar_version a)"
      by (auto simp: state_ok_def approval_ok_def split: option.splits)
    then show ?thesis by (intro image_eqI [of _ _ a]) simp_all
  qed
  have "map Suc [0..<n] = [1..<Suc n]" for n by (simp add: map_Suc_upt)
  then have "map sar_version (filter (\<lambda>a. sar_run_id a = run_id) (sdb_spec_artifacts db))
      = [1..<Suc (length (filter (\<lambda>a. sar_run_id a = run_id) (sdb_spec_artifacts db)))]"
    using inv unfolding spec_inv_def spec_artifacts_ok_def run_artifacts_def by metis
  moreover have "list_all (\<lambda>s. srn_revision_requests_used s \<le> budget) (sdb_spec_states db)"
    using ok by (simp add: list_all_iff state_ok_def)
  ultimately show ?thesis
    using inv approved by (auto simp: spec_inv_def spec_artifacts_ok_def list_all_iff validate_spec_ok)
qed

definition demo_stage_run :: "string \<Rightarrow> stage_run_row" where
  "demo_stage_run stage = claimed_row 0 ''a1'' ''run'' stage 1 small_claim"

definition demo_store :: "string \<Rightarrow> factory_store" where
  "demo_store stage =
     factory_store_empty\<lparr> fs_runs := [small_run], fs_stage_runs := [demo_stage_run stage] \<rparr>"

definition demo_spec_db :: spec_db where
  "demo_spec_db = fst (store_spec_artifact small_env 5 ''s1''
     \<lparr> aq_stage_run_id = ''a1'', aq_issue_revision = ''rev'', aq_configuration_revision = ''conf'',
       aq_artifact = demo_spec, aq_review_cycles = 1, aq_unresolved_blocking_findings = [],
       aq_bytes_len = 10, aq_usage = no_usage \<rparr> (spec_db_empty (demo_store ''spec'')))"

lemma demo_stage_found:
  "select_stage_run small_env (demo_store stage) ''a1'' = Inr \<lparr> sr_row = demo_stage_run stage, sr_error = None \<rparr>"
  "sg_stage (demo_stage_run stage) = stage" "sg_status (demo_stage_run stage) = StageRunning"
  "sg_run_id (demo_stage_run stage) = ''run''"
  by (simp_all add: select_stage_run_def find_stage_def stage_run_from_row_def optional_from_json_def
      demo_store_def demo_stage_run_def claimed_row_def small_claim_def)

lemma small_bounded [simp]: "bounded_json small_env v = Inr v"
  by (simp add: bounded_json_def small_env_def factory_event_payload_max_bytes_def char_bytes_def code_point_def)

lemma demo_run_exists [simp]: "run_exists (demo_store stage) ''run''" "stage_exists (demo_store stage) ''a1''"
  by (simp_all add: run_exists_def stage_exists_def demo_store_def small_run_def demo_stage_run_def claimed_row_def)

lemma demo_spec_db_rows:
  "map (\<lambda>a. (sar_artifact_id a, sar_version a)) (sdb_spec_artifacts demo_spec_db) = [(''s1'', 1)]"
  "map sar_run_id (sdb_spec_artifacts demo_spec_db) = [''run'']"
  by (simp_all add: demo_spec_db_def store_spec_artifact_def demo_valid(1) running_stage_def spec_db_empty_def
      demo_stage_found spec_stage_name_def insert_spec_artifact_def next_spec_version_def Let_def
      reset_spec_state_def select_spec_artifact_def find_spec_artifact_def)

theorem approvals_name_stored_versions_witness:
  "list_all (\<lambda>a. validate_spec (sar_artifact a) = Inr ()) (sdb_spec_artifacts demo_spec_db)
    \<and> map sar_version (filter (\<lambda>a. sar_run_id a = ''run'') (sdb_spec_artifacts demo_spec_db)) = [1]"
proof -
  have "spec_reachable small_env 3 demo_spec_db"
    unfolding demo_spec_db_def by (rule spec_reachable.step [OF spec_reachable.start spec_step.artifact])
  from approvals_name_stored_versions [OF this, of "''run''"] show ?thesis
    using demo_spec_db_rows by (auto simp: map_eq_Cons_conv)
qed

section \<open>The implementation stage's inputs and outputs\<close>

text \<open>C17. A manifest is accepted for an approved specification exactly when its texts keep their
  bounds and it is either a completed one, which names a commit and claims every acceptance
  criterion once, each with one to ten pieces of evidence, or a blocked one, which names a
  blocker and neither a commit nor a claim.\<close>

theorem manifest_accepted_exactly:
  "validate_implementation_manifest m (Some spec) = Inr () \<longleftrightarrow>
     im_schema_version m = 1 \<and> trim (im_summary m) \<noteq> [] \<and> utf8_len (im_summary m) \<le> 4000
     \<and> length (im_known_limitations m) \<le> 20 \<and> list_all (text_ok 1000) (im_known_limitations m)
     \<and> (case im_status m of
          ManifestCompleted \<Rightarrow>
            im_blocker m = None
            \<and> (\<exists>head. im_head_commit m = Some head \<and> commit_oid_ok head)
            \<and> list_all (\<lambda>c. acc_evidence c \<noteq> [] \<and> length (acc_evidence c) \<le> 10
                  \<and> list_all (\<lambda>e. text_ok 500 (ie_reference e) \<and> text_ok 1000 (ie_summary e)) (acc_evidence c))
                (im_acceptance_criteria m)
            \<and> distinct (map acc_index (im_acceptance_criteria m))
            \<and> acc_index ` set (im_acceptance_criteria m) = {1..length (spa_acceptance_criteria spec)}
        | ManifestBlocked \<Rightarrow>
            im_head_commit m = None \<and> im_acceptance_criteria m = []
            \<and> (\<exists>b. im_blocker m = Some b \<and> text_ok 2000 (ib_summary b) \<and> text_ok 4000 (ib_evidence b)))"
proof -
  have "claim_ok = (\<lambda>c. acc_evidence c \<noteq> [] \<and> length (acc_evidence c) \<le> 10
      \<and> list_all (\<lambda>e. text_ok 500 (ie_reference e) \<and> text_ok 1000 (ie_summary e)) (acc_evidence c))"
    by (intro ext) (simp add: claim_ok_def Suc_le_eq)
  then show ?thesis
    unfolding validate_implementation_manifest_ok manifest_ok_def text_ok_def [of 4000 "im_summary m"] blocker_ok_def
    by (cases "im_status m") auto
qed

text \<open>C25. The path the approved specification is committed to is accepted exactly when it is a
  non-empty relative path of at most 240 bytes ending in \<open>.md\<close> none of whose parts, however
  slashes and backslashes separate them, is a step up or the directory of Git.\<close>

theorem spec_path_accepted_exactly:
  "validate_spec_file_path path = Inr () \<longleftrightarrow>
     trim path \<noteq> [] \<and> utf8_len path \<le> 240 \<and> hd path \<notin> {CHR ''/'', CHR 0x5C} \<and> suffix ''.md'' path
     \<and> ''..'' \<notin> set (split_on (\<lambda>c. c = CHR ''/'' \<or> c = CHR 0x5C) path)
     \<and> ''.git'' \<notin> to_ascii_lowercase ` set (split_on (\<lambda>c. c = CHR ''/'' \<or> c = CHR 0x5C) path)"
proof -
  have hd: "path \<noteq> [] \<Longrightarrow> \<not> prefix ''/'' path \<and> \<not> prefix [CHR 0x5C] path \<longleftrightarrow> hd path \<notin> {CHR ''/'', CHR 0x5C}"
    by (cases path) auto
  have "to_ascii_lowercase ''.git'' = ''.git''" by code_simp
  then have git: "eq_ignore_ascii_case c ''.git'' \<longleftrightarrow> to_ascii_lowercase c = ''.git''" for c
    by (simp add: eq_ignore_ascii_case_def)
  have "list_all part_ok parts \<longleftrightarrow> ''..'' \<notin> set parts \<and> ''.git'' \<notin> to_ascii_lowercase ` set parts" for parts
    unfolding list_all_iff part_ok_def git by force
  then show ?thesis
    unfolding validate_spec_file_path_ok text_ok_def path_parts_def
    using hd by (cases "path = []") auto
qed

text \<open>A validation cycle runs the configured commands in order up to the first that fails; it
  passes exactly when all of them passed, and without a command there is no cycle. What is kept
  of an output is its end, of at most the given number of bytes.\<close>

theorem cycle_stops_at_failure:
  assumes "\<And>c w w' r. run_one c cycle w = (w', Inr r) \<Longrightarrow> vcr_name r = ivc_name c"
    and "run_cycle run_one commands cycle w = (w', Inr out)"
  shows "commands \<noteq> []
    \<and> map vcr_name (vco_commands out) = map ivc_name (take (length (vco_commands out)) commands)
    \<and> (if vco_passed out
       then length (vco_commands out) = length commands \<and> list_all vcr_passed (vco_commands out)
       else list_all vcr_passed (butlast (vco_commands out)) \<and> \<not> vcr_passed (last (vco_commands out)))
    \<and> suffix (tail_str printed limit) printed \<and> utf8_len (tail_str printed limit) \<le> limit"
proof -
  have ne: "commands \<noteq> []" using assms(2) by (auto simp: run_cycle_def validate_commands_configured_def)
  then have "run_commands run_one cycle commands [] w = (w', Inr out)"
    using assms(2) by (simp add: run_cycle_def validate_commands_configured_def)
  from run_commands_results [OF this assms(1)] show ?thesis
    using ne by (auto simp: tail_str_bound tail_str_suffix)
qed

definition demo_command :: "string \<Rightarrow> implementation_validation_command" where
  "demo_command name = \<lparr> ivc_name = name, ivc_command = ''make'', ivc_timeout_ms = 1000 \<rparr>"

definition demo_runner :: "nat command_runner" where
  "demo_runner command cycle w =
     (Suc w, Inr
       \<lparr> vcr_name = ivc_name command, vcr_command_sha256 = '''', vcr_cycle = cycle, vcr_started_at = 0,
         vcr_completed_at = 1, vcr_duration_ms = 1, vcr_exit_code = Some (int w), vcr_passed = (w = 0),
         vcr_termination_reason = None, vcr_stdout_tail = '''', vcr_stderr_tail = '''', vcr_output_sha256 = '''',
         vcr_execution_profile = ProfileLocal \<rparr>)"

theorem cycle_stops_at_failure_witness:
  "\<exists>w out. run_cycle demo_runner (map demo_command [''test'', ''lint'', ''docs'']) 1 0 = (w, Inr out)
     \<and> \<not> vco_passed out \<and> map vcr_name (vco_commands out) = [''test'', ''lint''] \<and> utf8_len (tail_str ''abcd'' 3) \<le> 3"
proof -
  define run where "run = run_cycle demo_runner (map demo_command [''test'', ''lint'', ''docs'']) 1 0"
  have names: "\<And>c w w' r. demo_runner c 1 w = (w', Inr r) \<Longrightarrow> vcr_name r = ivc_name c"
    by (auto simp: demo_runner_def)
  obtain w out where out: "run = (w, Inr out)" "\<not> vco_passed out" "length (vco_commands out) = 2"
    by (simp add: run_def run_cycle_def validate_commands_configured_def demo_runner_def)
  from cycle_stops_at_failure [OF names out(1) [unfolded run_def], where printed = "''abcd''" and limit = 3] show ?thesis
    using out unfolding run_def [symmetric] by (simp add: demo_command_def numeral_2_eq_2)
qed

section \<open>The publication of the branch\<close>

text \<open>C22. Whatever Git and the remote answer, publishing the branch runs at most one fetch, a look
  at the remote branch, one plain push of the branch and a second look, in this order. It pushes
  only after it saw the branch absent, or at the commit the caller expects, and it succeeds only
  after it saw the branch at the desired head.\<close>

theorem branch_published_safely:
  assumes "publish_branch (git_logged git) blob_path url request (w, []) = ((w', log), result)"
  shows "prefix (map fst log)
      [fetch_args (bpr_base_branch request), ls_remote_args url (bpr_branch_name request),
       push_args (bpr_branch_name request), ls_remote_args url (bpr_branch_name request)]
    \<and> (if push_args (bpr_branch_name request) \<in> set (map fst log)
       then \<exists>out err. snd (log ! 1) = Inr (True, out, err)
              \<and> remote_sha_of out \<in> {None, bpr_expected_remote_sha request}
              \<and> remote_sha_of out \<noteq> Some (bpr_desired_head request)
       else True)
    \<and> (case result of Inl e \<Rightarrow> True
       | Inr outcome \<Rightarrow>
           bpo_remote_sha_after outcome = bpr_desired_head request
           \<and> (\<exists>out err. last log = (ls_remote_args url (bpr_branch_name request), Inr (True, out, err))
                \<and> remote_sha_of out = Some (bpr_desired_head request))
           \<and> bpo_pushed outcome = (push_args (bpr_branch_name request) \<in> set (map fst log)))"
proof -
  let ?fetch = "fetch_args (bpr_base_branch request)" and ?push = "push_args (bpr_branch_name request)"
    and ?look = "ls_remote_args url (bpr_branch_name request)"
  have diff: "?fetch \<noteq> ?push" "?look \<noteq> ?push" "?push \<noteq> ?fetch" "?push \<noteq> ?look"
    by (simp_all add: fetch_args_def push_args_def ls_remote_args_def)
  from publish_branch_log [OF assms] consider
      (short) "log = [] \<or> map fst log = [?fetch]" "isl result"
    | (full) first added where "log = first # added" "fst first = ?fetch" "published request url added result"
    by blast
  then show ?thesis
  proof cases
    case short
    then show ?thesis using diff by (auto simp: isl_def)
  next
    case full
    from full(3) consider
        (once) entry where "added = [entry]" "fst entry = ?look"
          "\<And>out. result = Inr out \<Longrightarrow> \<not> bpo_pushed out \<and> bpo_remote_sha_after out = bpr_desired_head request
             \<and> saw_remote url (bpr_branch_name request) (Some (bpr_desired_head request)) entry"
      | (pushed) before where "added \<noteq> []" "saw_remote url (bpr_branch_name request) before (added ! 0)"
          "before = None \<or> before = bpr_expected_remote_sha request \<and> before \<noteq> Some (bpr_desired_head request)"
          "prefix (map fst added) [?look, ?push, ?look]"
          "\<And>out. result = Inr out \<Longrightarrow> length added = 3 \<and> bpo_pushed out
             \<and> bpo_remote_sha_after out = bpr_desired_head request
             \<and> saw_remote url (bpr_branch_name request) (Some (bpr_desired_head request)) (last added)"
      unfolding published_def by (auto simp: length_Suc_conv)
    then show ?thesis
    proof cases
      case once
      with full(1,2) diff show ?thesis by (auto simp: saw_remote_def split: sum.split)
    next
      case pushed
      from pushed(2) obtain out err where look: "snd (log ! 1) = Inr (True, out, err)" "remote_sha_of out = before"
        using full(1) by (auto simp: saw_remote_def)
      have names: "prefix (map fst log) [?fetch, ?look, ?push, ?look]" using full(1,2) pushed(4) by simp
      have "?push \<in> set (map fst log) \<and> (\<exists>out err. last log = (?look, Inr (True, out, err))
          \<and> remote_sha_of out = Some (bpr_desired_head request))" if "result = Inr outcome" for outcome
      proof -
        from pushed(5) [OF that] have "length added = 3" by blast
        with pushed(4) have "map fst added = [?look, ?push, ?look]"
          by (auto simp: prefix_def numeral_3_eq_3 length_Suc_conv)
        then have "?push \<in> set (map fst added)" by simp
        with pushed(5) [OF that] pushed(1) full(1) show ?thesis by (auto simp: saw_remote_def)
      qed
      with names look pushed(3,5) show ?thesis by (auto split: sum.split)
    qed
  qed
qed

text \<open>A remote that lacks the branch until it is pushed; the world counts the network commands.\<close>

definition demo_git :: "nat git_port" where
  "demo_git =
     \<lparr> gp_blob_is_file = (\<lambda>_. True), gp_blob_sha256 = (\<lambda>_. Inr ''d''), gp_blob_len = (\<lambda>_. Inr 7),
       gp_verify_bundle = (\<lambda>_. Inr ()), gp_init_repo = (\<lambda>w. (w, Inr ())),
       gp_network = (\<lambda>_ w. (Suc w, Inr (True, if w = 3 then ''abc refs/heads/b'' else '''', ''''))),
       gp_fetch_file = (\<lambda>_ _ w. (w, Inr (True, ''''))), gp_force_branch = (\<lambda>_ _ w. (w, Inr ())),
       gp_is_ancestor = (\<lambda>_ _ _. Inr True), gp_rev_parse = (\<lambda>_ _. Inr ''abc''), gp_has_commit = (\<lambda>_ _. True) \<rparr>"

definition demo_publish_request :: branch_publish_request where
  "demo_publish_request =
     \<lparr> bpr_bundle_sha256 = ''d'', bpr_bundle_bytes_len = 7, bpr_base_commit = ''base'', bpr_desired_head = ''abc'',
       bpr_expected_remote_sha = None, bpr_branch_name = ''b'', bpr_base_branch = ''main'' \<rparr>"

lemma demo_publish_run:
  "\<exists>log. publish_branch (git_logged demo_git) id ''u'' demo_publish_request (0, [])
     = ((4, log), Inr \<lparr> bpo_decision = PushAbsent, bpo_remote_sha_before = None, bpo_remote_sha_after = ''abc'',
                        bpo_pushed = True \<rparr>)"
proof -
  have "remote_sha_of '''' = None" "remote_sha_of ''abc refs/heads/b'' = Some ''abc''" by code_simp+
  then show ?thesis
    by (simp add: publish_branch_def load_and_reverify_bundle_def demo_publish_request_def git_logged_def demo_git_def
        git_then_def keep_log_def import_bundle_def align_local_branch_def reconcile_remote_def
        observe_remote_branch_def push_and_confirm_def decide_branch_projection_def Let_def)
qed

theorem branch_published_safely_witness:
  "\<exists>log outcome. publish_branch (git_logged demo_git) id ''u'' demo_publish_request (0, []) = ((4, log), Inr outcome)
     \<and> push_args ''b'' \<in> set (map fst log)
     \<and> (\<exists>out err. last log = (ls_remote_args ''u'' ''b'', Inr (True, out, err)) \<and> remote_sha_of out = Some ''abc'')"
proof -
  obtain log where run: "publish_branch (git_logged demo_git) id ''u'' demo_publish_request (0, [])
     = ((4, log), Inr \<lparr> bpo_decision = PushAbsent, bpo_remote_sha_before = None, bpo_remote_sha_after = ''abc'',
                        bpo_pushed = True \<rparr>)" using demo_publish_run by blast
  from branch_published_safely [OF run] show ?thesis
    using run by (simp add: demo_publish_request_def)
qed

section \<open>A completed attempt that fails\<close>

text \<open>C26. An attempt whose completed manifest was stored and that then ends in an error (a bundle that
  cannot be stored, a publication that cannot be recorded, a comment that cannot be written) is
  marked failed, and so is the decision of its run. Yet whatever the operations of the store do from
  then on, the run is never again offered with the version the attempt implemented, under the
  configuration it ran with: the stored artifact says it is completed. Only another approved version,
  or another configuration, can bring the run back.\<close>

theorem completed_attempt_never_retried:
  assumes "store_implementation_artifact env now new_id request db = (db1, Inr artifact)"
    and "im_status (ia_manifest request) = ManifestCompleted"
    and "db2 = abandon_implementation_attempt env later (ia_stage_run_id request) (iar_run_id artifact) err db1"
  shows "StageFailed \<in> sg_status ` {r \<in> set (fs_stage_runs (impl_base db2)). sg_stage_run_id r = ia_stage_run_id request}
    \<and> isr_decision ` {i \<in> set (idb_states db2). isr_run_id i = iar_run_id artifact} = {ImplFailed}
    \<and> (\<forall>env' db'. (impl_step env')\<^sup>*\<^sup>* db2 db' \<longrightarrow>
         (\<forall>e \<in> set (list_a3_eligible_approved_runs db' (ia_configuration_revision request)).
            fr_run_id (a3_run e) = iar_run_id artifact
              \<longrightarrow> a3_approved_artifact_id e \<noteq> ia_approved_artifact_id request))"
proof -
  let ?run = "iar_run_id artifact" and ?sid = "ia_stage_run_id request"
  note stored = stored_implementation_artifact [OF assms(1)]
  have db2: "db2 = (set_impl_base (fst (fail_attempt env later ?sid err (impl_base db1))) db1)
      \<lparr> idb_states := update_where (\<lambda>r. isr_run_id r = ?run)
          (\<lambda>r. r\<lparr> isr_decision := ImplFailed, isr_blocker_json := None, isr_updated_at := later \<rparr>) (idb_states db1) \<rparr>"
    unfolding assms(3) by (rule abandon_is [OF stored(6)])
  obtain stage where "running_stage env (impl_base db) implementation_stage_name ''implementation'' ?sid = Inr stage"
    using stored(1) by blast
  from running_stage_found(1,2) [OF this] have "?sid \<in> sg_stage_run_id ` set (fs_stage_runs (impl_base db))"
    by force
  then obtain r where r: "r \<in> set (fs_stage_runs (impl_base db1))" "sg_stage_run_id r = ?sid"
    using stored(8) by (metis imageE)
  let ?g = "\<lambda>r. r\<lparr> sg_status := StageFailed, sg_completed_at := Some later,
      sg_error_json := optional_json env (Some err), sg_updated_at := later \<rparr>"
  from updated_in [OF r(1), where P = "\<lambda>r. sg_stage_run_id r = ?sid" and f = ?g, OF r(2)]
  have "?g r \<in> set (fs_stage_runs (impl_base db2))"
    by (simp add: db2 fail_attempt_fst)
  then have "StageFailed \<in> sg_status ` {r \<in> set (fs_stage_runs (impl_base db2)). sg_stage_run_id r = ?sid}"
    using r(2) by (intro image_eqI) auto
  moreover have "isr_decision ` {i \<in> set (idb_states db2). isr_run_id i = ?run} = {ImplFailed}"
  proof -
    let ?f = "\<lambda>r. r\<lparr> isr_decision := ImplFailed, isr_blocker_json := None, isr_updated_at := later \<rparr>"
    obtain i where i: "i \<in> set (idb_states db1)" "isr_run_id i = ?run"
      using stored(6) by (metis imageE)
    from updated_in [OF i(1), where P = "\<lambda>r. isr_run_id r = ?run" and f = ?f, OF i(2)]
    have "?f i \<in> set (idb_states db2)" by (simp add: db2)
    then have "?f i \<in> {i \<in> set (idb_states db2). isr_run_id i = ?run}" using i(2) by simp
    moreover have "isr_decision q = ImplFailed" if "q \<in> {i \<in> set (idb_states db2). isr_run_id i = ?run}" for q
      using that in_updated [of q "\<lambda>r. isr_run_id r = ?run" ?f "idb_states db1"] by (auto simp: db2)
    ultimately show ?thesis by (rule image_const)
  qed
  moreover have "a3_approved_artifact_id e \<noteq> ia_approved_artifact_id request"
    if steps: "(impl_step env')\<^sup>*\<^sup>* db2 db'" and run: "fr_run_id (a3_run e) = ?run"
      and offered: "e \<in> set (list_a3_eligible_approved_runs db' (ia_configuration_revision request))" for env' db' e
  proof -
    have "artifact \<in> set (idb_artifacts db')"
      using impl_steps_keep_artifacts [OF steps] stored(2) by (auto simp: db2)
    from completed_not_offered [OF this] show ?thesis using stored(3-5) assms(2) run offered by simp
  qed
  ultimately show ?thesis by blast
qed

definition demo_manifest :: implementation_manifest where
  "demo_manifest =
     \<lparr> im_schema_version = 1, im_status = ManifestCompleted, im_head_commit = Some (replicate 40 CHR ''a''),
       im_summary = ''s'', im_acceptance_criteria =
         [\<lparr> acc_index = 1, acc_status = CriterionImplemented,
            acc_evidence = [\<lparr> ie_kind = EvidenceOfTest, ie_reference = ''r'', ie_summary = ''s'' \<rparr>] \<rparr>],
       im_known_limitations = [], im_blocker = None \<rparr>"

definition demo_impl_db :: impl_db where
  "demo_impl_db =
     \<lparr> idb_spec = (spec_db_empty (demo_store ''implementation''))
         \<lparr> sdb_spec_artifacts := sdb_spec_artifacts demo_spec_db,
           sdb_spec_states :=
             [\<lparr> srn_run_id = ''run'', srn_revision_requests_used = 0, srn_pending_approval_version = None,
                srn_approved_version = Some 1, srn_approved_artifact_id = Some ''s1'',
                srn_decision = ApprovedDecision, srn_updated_at = 6 \<rparr>] \<rparr>,
       idb_inputs = [], idb_turns = [], idb_cycles = [], idb_artifacts = [], idb_bundles = [], idb_states = [],
       idb_intents = [], idb_draft_prs = [] \<rparr>"

definition demo_artifact_request :: store_implementation_artifact_request where
  "demo_artifact_request =
     \<lparr> ia_stage_run_id = ''a1'', ia_approved_artifact_id = ''s1'', ia_approved_version = 1, ia_issue_revision = ''rev'',
       ia_configuration_revision = ''conf'', ia_manifest = demo_manifest, ia_base_commit = ''b'',
       ia_head_commit = Some ''h'', ia_approved_spec_path = ''s.md'', ia_validation_cycles = 1,
       ia_execution_profile = ProfileLocal, ia_bytes_len = 10, ia_usage = no_usage \<rparr>"

lemma demo_manifest_valid: "validate_implementation_manifest demo_manifest None = Inr ()"
  by code_simp

lemma demo_artifact_stored:
  "\<exists>db1 artifact. store_implementation_artifact small_env 7 ''m1'' demo_artifact_request demo_impl_db = (db1, Inr artifact)
     \<and> iar_run_id artifact = ''run''"
proof -
  have base: "impl_base demo_impl_db = demo_store ''implementation''"
    by (simp add: impl_base_def demo_impl_db_def spec_db_empty_def)
  have "spec_artifact_exists demo_impl_db ''s1''"
    using demo_spec_db_rows(1) by (auto simp: spec_artifact_exists_def demo_impl_db_def map_eq_Cons_conv)
  moreover have "idb_artifacts demo_impl_db = []" by (simp add: demo_impl_db_def)
  ultimately show ?thesis
    by (simp add: store_implementation_artifact_def demo_artifact_request_def demo_manifest_valid base running_stage_def
        demo_stage_found implementation_stage_name_def insert_implementation_artifact_def Let_def
        get_implementation_artifact_def)
qed

theorem completed_attempt_never_retried_witness:
  "\<exists>db1 artifact. store_implementation_artifact small_env 7 ''m1'' demo_artifact_request demo_impl_db = (db1, Inr artifact)
     \<and> (\<forall>e \<in> set (list_a3_eligible_approved_runs
            (fst (set_implementation_decision small_env 11 ''run'' ImplFailed None
              (abandon_implementation_attempt small_env 9 ''a1'' ''run'' (factory_error_new '''' '''' '''' True None) db1)))
            ''conf'').
          fr_run_id (a3_run e) = ''run'' \<longrightarrow> a3_approved_artifact_id e \<noteq> ''s1'')"
proof -
  obtain db1 artifact where stored:
    "store_implementation_artifact small_env 7 ''m1'' demo_artifact_request demo_impl_db = (db1, Inr artifact)"
    "iar_run_id artifact = ''run''" using demo_artifact_stored by blast
  define env' where "env' = \<lparr> ien_factory = small_env, ien_blocker_parse = (\<lambda>_. Inl ''x''), ien_ts = (\<lambda>_. ''x'') \<rparr>"
  have completed: "im_status (ia_manifest demo_artifact_request) = ManifestCompleted"
    by (simp add: demo_artifact_request_def demo_manifest_def)
  have "impl_step env' db (fst (set_implementation_decision small_env 11 ''run'' ImplFailed None db))" for db
    using impl_step.decide [of env' db 11 "''run''" ImplFailed None] by (simp add: env'_def)
  then have steps: "(impl_step env')\<^sup>*\<^sup>* db (fst (set_implementation_decision small_env 11 ''run'' ImplFailed None db))" for db
    by blast
  from completed_attempt_never_retried [OF stored(1) completed refl, of 9 "factory_error_new '''' '''' '''' True None"]
    steps stored show ?thesis
    by (fastforce simp: demo_artifact_request_def)
qed

end
