(* ===== verification/ReviewManifest.thy ===== *)
theory ReviewManifest
  imports Complex_Main ImplementationStage
begin

text \<open>
  The review worker's manifest (\<open>src/review/manifest.rs\<close>), the inventory of the reviewed diff, the
  identity of a finding and the texts of a review (\<open>src/review/findings.rs\<close>), with the records of
  \<open>src/review/domain.rs\<close> they use. JSON is parsed by \<open>serde_json\<close>, an argument. A finite \<open>f64\<close> is the
  rational number it stands for; infinities and NaN are one more value.
\<close>

section \<open>The manifest\<close>

definition review_schema_version :: nat where
  "review_schema_version = 1"

definition review_manifest_max_bytes :: nat where
  "review_manifest_max_bytes = 256 * 1024"

datatype review_severity = SevBlocking | SevMajor | SevMinor | SevNit

datatype review_finding_category =
    CatCorrectness | CatSecurity | CatSpecConformance | CatTestCoverage | CatMaintainability

datatype f64 = Finite rat | NotFinite

record review_finding =
  rfi_finding_id :: string
  rfi_severity :: review_severity
  rfi_category :: review_finding_category
  rfi_path :: string
  rfi_line :: nat
  rfi_end_line :: "nat option"
  rfi_claim :: string
  rfi_rationale :: string
  rfi_remediation :: string
  rfi_acceptance_criterion :: "string option"
  rfi_confidence :: f64

record review_findings_manifest =
  rfm_schema_version :: nat
  rfm_reviewed_head_sha :: string
  rfm_base_sha :: string
  rfm_spec_conformance_summary :: string
  rfm_no_findings :: bool
  rfm_findings :: "review_finding list"

record reviewed_line_range =
  rlr_start :: nat
  rlr_end :: nat

definition range_contains :: "reviewed_line_range \<Rightarrow> nat \<Rightarrow> nat \<Rightarrow> bool" where
  "range_contains r first last_line \<longleftrightarrow> rlr_start r \<le> first \<and> last_line \<le> rlr_end r"

record reviewed_file =
  rvf_path :: string
  rvf_line_count :: nat
  rvf_right_side_ranges :: "reviewed_line_range list"

definition manifest_rejected_text :: "string list \<Rightarrow> string" where
  "manifest_rejected_text violations = ''review findings manifest rejected: '' @ join_with ''; '' violations"

section \<open>Validation\<close>

text \<open>What is wrong with the manifest as a whole, in the order of the checks.\<close>

definition note_if :: "bool \<Rightarrow> string \<Rightarrow> string list" where
  "note_if condition message = (if condition then [message] else [])"

definition manifest_violations ::
    "review_findings_manifest \<Rightarrow> string \<Rightarrow> string \<Rightarrow> nat \<Rightarrow> string list" where
  "manifest_violations m expected_head_sha expected_base_sha max_findings =
     note_if (rfm_schema_version m \<noteq> review_schema_version)
       (''schema_version must be '' @ nat_digits review_schema_version @ '', got '' @ nat_digits (rfm_schema_version m))
     @ note_if (rfm_reviewed_head_sha m \<noteq> expected_head_sha)
         (''reviewed_head_sha does not match the pinned head '' @ expected_head_sha)
     @ note_if (rfm_base_sha m \<noteq> expected_base_sha)
         (''base_sha does not match the pinned base '' @ expected_base_sha)
     @ note_if (trim (rfm_spec_conformance_summary m) = []) ''spec_conformance_summary must not be empty''
     @ note_if (rfm_findings m = [] \<and> \<not> rfm_no_findings m)
         ''an empty findings list requires an explicit no_findings affirmation''
     @ note_if (rfm_findings m \<noteq> [] \<and> rfm_no_findings m) ''no_findings cannot be true when findings are present''
     @ note_if (max_findings < length (rfm_findings m))
         (''manifest has '' @ nat_digits (length (rfm_findings m)) @ '' findings; configured maximum is ''
           @ nat_digits max_findings)"

text \<open>A \<open>BTreeMap\<close> collected from the files: of two entries for a path the later one counts.\<close>

definition reviewed_file_at :: "reviewed_file list \<Rightarrow> string \<Rightarrow> reviewed_file option" where
  "reviewed_file_at files path = map_of (rev (map (\<lambda>f. (rvf_path f, f)) files)) path"

definition line_resolves :: "reviewed_file \<Rightarrow> review_finding \<Rightarrow> bool" where
  "line_resolves file finding \<longleftrightarrow> 0 < rfi_line finding \<and> rfi_line finding \<le> rvf_line_count file"

definition effective_end :: "review_finding \<Rightarrow> nat" where
  "effective_end finding = (case rfi_end_line finding of None \<Rightarrow> rfi_line finding | Some e \<Rightarrow> e)"

definition end_resolves :: "reviewed_file \<Rightarrow> review_finding \<Rightarrow> bool" where
  "end_resolves file finding \<longleftrightarrow>
     rfi_line finding \<le> effective_end finding \<and> effective_end finding \<le> rvf_line_count file"

definition valid_confidence :: "f64 \<Rightarrow> bool" where
  "valid_confidence c = (case c of Finite q \<Rightarrow> 0 \<le> q \<and> q \<le> 1 | NotFinite \<Rightarrow> False)"

definition anchor_violations :: "string \<Rightarrow> reviewed_file \<Rightarrow> review_finding \<Rightarrow> string list" where
  "anchor_violations label file finding =
     (let line = nat_digits (rfi_line finding);
          end_text = nat_digits (effective_end finding);
          most = nat_digits (rvf_line_count file)
      in note_if (\<not> line_resolves file finding)
           (label @ '': line '' @ line @ '' does not resolve in '' @ rfi_path finding
             @ '' at the reviewed head (1..='' @ most @ '')'')
       @ note_if (rfi_end_line finding \<noteq> None \<and> \<not> end_resolves file finding)
           (label @ '': end_line '' @ end_text @ '' must be between line '' @ line @ '' and '' @ most)
       @ note_if (line_resolves file finding \<and> end_resolves file finding
               \<and> \<not> list_ex (\<lambda>r. range_contains r (rfi_line finding) (effective_end finding))
                    (rvf_right_side_ranges file))
           (label @ '': anchor '' @ line @ ''..='' @ end_text
             @ '' is absent from the right side of the reviewed diff for '' @ rfi_path finding))"

definition text_violations :: "string \<Rightarrow> review_finding \<Rightarrow> string list" where
  "text_violations label finding =
     note_if (trim (rfi_claim finding) = []) (label @ '': claim must not be empty'')
     @ note_if (trim (rfi_rationale finding) = []) (label @ '': rationale must not be empty'')
     @ note_if (trim (rfi_remediation finding) = []) (label @ '': remediation must not be empty'')
     @ note_if (case rfi_acceptance_criterion finding of None \<Rightarrow> False | Some c \<Rightarrow> trim c = [])
         (label @ '': acceptance_criterion must not be empty when present'')
     @ note_if (\<not> valid_confidence (rfi_confidence finding))
         (label @ '': confidence must be a finite number from 0 through 1'')"

text \<open>A finding of an unknown file is not looked at any further.\<close>

definition finding_violations ::
    "reviewed_file list \<Rightarrow> nat \<Rightarrow> string list \<Rightarrow> review_finding \<Rightarrow> string list" where
  "finding_violations files index seen finding =
     (let empty = trim (rfi_finding_id finding) = [];
          label = (if empty then ''finding['' @ nat_digits index @ '']'' else ''finding '' @ rfi_finding_id finding)
      in (if empty then [label @ '': finding_id must not be empty'']
          else note_if (rfi_finding_id finding \<in> set seen) (label @ '': finding_id is duplicated''))
       @ (case reviewed_file_at files (rfi_path finding) of
            None \<Rightarrow> [label @ '': path '' @ rfi_path finding @ '' is absent from the reviewed diff'']
          | Some file \<Rightarrow> anchor_violations label file finding @ text_violations label finding))"

fun findings_violations :: "reviewed_file list \<Rightarrow> nat \<Rightarrow> string list \<Rightarrow> review_finding list \<Rightarrow> string list" where
  "findings_violations files index seen [] = []"
| "findings_violations files index seen (finding # rest) =
     finding_violations files index seen finding
     @ findings_violations files (Suc index)
         (if trim (rfi_finding_id finding) = [] then seen else rfi_finding_id finding # seen) rest"

definition parse_and_validate_review_manifest ::
    "(string \<Rightarrow> string + review_findings_manifest) \<Rightarrow> string \<Rightarrow> string \<Rightarrow> string \<Rightarrow> reviewed_file list \<Rightarrow> nat
     \<Rightarrow> string list + review_findings_manifest" where
  "parse_and_validate_review_manifest from_json raw expected_head_sha expected_base_sha changed_files max_findings =
     (if review_manifest_max_bytes < utf8_len raw
      then Inl [''manifest is '' @ nat_digits (utf8_len raw) @ '' bytes; maximum is ''
             @ nat_digits review_manifest_max_bytes]
      else (case from_json raw of
              Inl e \<Rightarrow> Inl [''manifest is not valid strict JSON: '' @ e]
            | Inr m \<Rightarrow>
                (let violations = manifest_violations m expected_head_sha expected_base_sha max_findings
                       @ findings_violations changed_files 0 [] (rfm_findings m)
                 in if violations = [] then Inr m else Inl violations)))"

section \<open>The inventory of the diff\<close>

record pull_request_file =
  prf_filename :: string
  prf_status :: string
  prf_patch :: "string option"

definition parse_new_hunk_header :: "string \<Rightarrow> (nat \<times> nat) option" where
  "parse_new_hunk_header line =
     (case strip_prefix ''@@ '' (trim_start line) of
        None \<Rightarrow> None
      | Some rest \<Rightarrow>
          (case find (\<lambda>part. prefix ''+'' part) (split_whitespace rest) of
             None \<Rightarrow> None
           | Some target \<Rightarrow>
               (let parts = split_on (\<lambda>c. c = CHR '','') (drop 1 target)
                in case parse_unsigned u32_max (hd parts) of
                     None \<Rightarrow> None
                   | Some first \<Rightarrow>
                       Some (first,
                         case tl parts of
                           [] \<Rightarrow> 1
                         | value # _ \<Rightarrow>
                             (case parse_unsigned u32_max value of None \<Rightarrow> 1 | Some n \<Rightarrow> n)))))"

definition hunk_range :: "nat \<times> nat \<Rightarrow> reviewed_line_range option" where
  "hunk_range header =
     (case header of (first, lines) \<Rightarrow>
        if 0 < lines then Some \<lparr> rlr_start = first, rlr_end = sat_add_u32 first (lines - 1) \<rparr> else None)"

definition patch_ranges :: "string \<Rightarrow> reviewed_line_range list" where
  "patch_ranges patch = List.map_filter hunk_range (List.map_filter parse_new_hunk_header (text_lines patch))"

definition reviewed_file_of :: "pull_request_file \<Rightarrow> reviewed_file" where
  "reviewed_file_of file =
     (let deleted = eq_ignore_ascii_case (prf_status file) ''removed'';
          ranges = (if deleted then [] else (case prf_patch file of None \<Rightarrow> [] | Some patch \<Rightarrow> patch_ranges patch))
      in \<lparr> rvf_path = prf_filename file,
           rvf_line_count = (if deleted then 0 else fold max (map rlr_end ranges) 0),
           rvf_right_side_ranges = ranges \<rparr>)"

definition reviewed_files :: "pull_request_file list \<Rightarrow> reviewed_file list" where
  "reviewed_files files = map reviewed_file_of files"

section \<open>Identities and texts\<close>

fun severity_label :: "review_severity \<Rightarrow> string" where
  "severity_label SevBlocking = ''blocking''"
| "severity_label SevMajor = ''major''"
| "severity_label SevMinor = ''minor''"
| "severity_label SevNit = ''nit''"

fun category_label :: "review_finding_category \<Rightarrow> string" where
  "category_label CatCorrectness = ''correctness''"
| "category_label CatSecurity = ''security''"
| "category_label CatSpecConformance = ''spec-conformance''"
| "category_label CatTestCoverage = ''test-coverage''"
| "category_label CatMaintainability = ''maintainability''"

text \<open>Lines are left out, so that a finding keeps its identity when an edit moves it.\<close>

definition finding_identity_key :: "review_finding \<Rightarrow> string" where
  "finding_identity_key f =
     trim (rfi_path f) @ '':'' @ category_label (rfi_category f) @ '':'' @ trim (rfi_claim f)"

datatype finding_lifecycle = LifecycleNew | LifecyclePersisting | LifecycleResolved

record review_finding_record =
  rfr_finding_record_id :: string
  rfr_run_id :: string
  rfr_artifact_id :: string
  rfr_finding_id :: string
  rfr_identity_key :: string
  rfr_reviewed_head_sha :: string
  rfr_base_sha :: string
  rfr_severity :: review_severity
  rfr_category :: review_finding_category
  rfr_path :: string
  rfr_line :: nat
  rfr_end_line :: "nat option"
  rfr_claim :: string
  rfr_rationale :: string
  rfr_remediation :: string
  rfr_acceptance_criterion :: "string option"
  rfr_confidence :: f64
  rfr_lifecycle_state :: finding_lifecycle
  rfr_created_at :: int
  rfr_updated_at :: int

record review_findings_artifact =
  raf_artifact_id :: string
  raf_run_id :: string
  raf_stage_run_id :: string
  raf_attempt_id :: string
  raf_draft_pr_artifact_id :: string
  raf_implementation_artifact_id :: string
  raf_spec_artifact_id :: string
  raf_schema_version :: nat
  raf_reviewed_head_sha :: string
  raf_base_sha :: string
  raf_manifest :: review_findings_manifest
  raf_no_findings :: bool
  raf_finding_count :: nat
  raf_received_at :: int
  raf_bytes_len :: nat

definition review_comment_marker_prefix :: string where
  "review_comment_marker_prefix = ''<!-- symphony:review:''"

definition review_comment_marker_suffix :: string where
  "review_comment_marker_suffix = '' -->''"

definition review_marker :: "string \<Rightarrow> string" where
  "review_marker intent_id = review_comment_marker_prefix @ intent_id @ review_comment_marker_suffix"

text \<open>A claim in a cell of a table: line ends become spaces and bars are escaped.\<close>

definition cell_text :: "string \<Rightarrow> string" where
  "cell_text s =
     concat (map (\<lambda>c. if c = CHR 0x0D \<or> c = CHR 0x0A then '' ''
                      else if c = CHR 0x7C then [CHR 0x5C, CHR 0x7C] else [c]) s)"

definition line_suffix :: "nat option \<Rightarrow> string" where
  "line_suffix end_line = (case end_line of None \<Rightarrow> '''' | Some l \<Rightarrow> ''-'' @ nat_digits l)"

definition severity_rows :: "review_finding list \<Rightarrow> string" where
  "severity_rows findings =
     concat (map (\<lambda>sev. let n = length (filter (\<lambda>f. rfi_severity f = sev) findings)
                        in if n = 0 then ''''
                           else ''| '' @ severity_label sev @ '' | '' @ nat_digits n @ '' |'' @ newline)
       [SevBlocking, SevMajor, SevMinor, SevNit])"

definition finding_row :: "review_finding \<Rightarrow> string" where
  "finding_row f =
     ''| '' @ code_quoted (rfi_finding_id f) @ '' | '' @ code_quoted (severity_label (rfi_severity f)) @ '' | ''
     @ code_quoted (category_label (rfi_category f)) @ '' | '' @ code_quoted (rfi_path f) @ '':''
     @ nat_digits (rfi_line f) @ line_suffix (rfi_end_line f) @ '' | '' @ cell_text (rfi_claim f) @ '' |'' @ newline"

definition review_render_preview_comment :: "string \<Rightarrow> string \<Rightarrow> review_findings_artifact \<Rightarrow> string" where
  "review_render_preview_comment intent_id run_id artifact =
     (let m = raf_manifest artifact
      in review_marker intent_id @ newline @ ''## Symphony A4 review preview'' @ newline @ newline
         @ ''Factory run '' @ code_quoted run_id @ '' reviewed head '' @ code_quoted (raf_reviewed_head_sha artifact)
         @ '' against base '' @ code_quoted (raf_base_sha artifact) @ ''.'' @ newline @ newline
         @ trim (rfm_spec_conformance_summary m) @ newline
         @ (if rfm_no_findings m
            then newline @ ''**No findings.** The worker explicitly affirmed '' @ code_quoted ''no_findings'' @ ''.'' @ newline
            else newline @ ''Findings: '' @ nat_digits (raf_finding_count artifact) @ newline
              @ (if rfm_findings m = [] then ''''
                 else newline @ ''| Severity | Count |'' @ newline @ ''| --- | ---: |'' @ newline
                   @ severity_rows (rfm_findings m))
              @ newline @ ''| ID | Severity | Category | Location | Claim |'' @ newline
              @ ''| --- | --- | --- | --- | --- |'' @ newline
              @ concat (map finding_row (rfm_findings m)))
         @ newline @ ''_This is a preview only. A4 PR1 creates no GitHub review, inline comment, tracker transition, approval, or merge._''
         @ newline)"

definition persisting_records :: "review_finding_record list \<Rightarrow> review_finding_record list" where
  "persisting_records records = filter (\<lambda>r. rfr_lifecycle_state r = LifecyclePersisting) records"

definition persisting_row :: "review_finding_record \<Rightarrow> string" where
  "persisting_row r =
     ''| '' @ code_quoted (rfr_finding_id r) @ '' | '' @ code_quoted (rfr_path r) @ '':'' @ nat_digits (rfr_line r)
     @ line_suffix (rfr_end_line r) @ '' | '' @ cell_text (rfr_claim r) @ '' |'' @ newline"

definition render_formal_review_body_with_records ::
    "nat \<Rightarrow> string \<Rightarrow> string \<Rightarrow> review_findings_artifact \<Rightarrow> nat option \<Rightarrow> review_finding_record list \<Rightarrow> string" where
  "render_formal_review_body_with_records issue_number intent_id run_id artifact approved_spec_version records =
     (let m = raf_manifest artifact;
          persisting = persisting_records records;
          findings =
            (if rfm_no_findings m
             then ''**No findings.** The worker explicitly affirmed '' @ code_quoted ''no_findings'' @ ''.''
             else if persisting = []
             then ''Findings: '' @ nat_digits (raf_finding_count artifact)
               @ ''. Every finding is attached as an inline comment.''
             else ''Findings: '' @ nat_digits (raf_finding_count artifact)
               @ ''. New findings are attached as inline comments. '' @ nat_digits (length persisting)
               @ '' persisting finding(s) remain summarized below.'');
          summary =
            (if persisting = [] then ''''
             else newline @ newline @ ''### Persisting findings'' @ newline @ newline
               @ ''| ID | Location | Claim |'' @ newline @ ''| --- | --- | --- |'' @ newline
               @ concat (map persisting_row persisting))
      in review_marker intent_id @ newline @ ''## Symphony A4 formal review'' @ newline @ newline
         @ ''Issue '' @ code_quoted (''#'' @ nat_digits issue_number) @ ''.'' @ newline @ newline
         @ ''Spec artifact '' @ code_quoted (raf_spec_artifact_id artifact) @ '' (version ''
         @ code_quoted (case approved_spec_version of None \<Rightarrow> ''unknown'' | Some v \<Rightarrow> nat_digits v) @ '').'' @ newline @ newline
         @ ''Factory run '' @ code_quoted run_id @ '' reviewed head '' @ code_quoted (raf_reviewed_head_sha artifact)
         @ '' against base '' @ code_quoted (raf_base_sha artifact) @ ''.'' @ newline @ newline
         @ trim (rfm_spec_conformance_summary m) @ newline @ newline @ findings @ summary @ newline)"

definition render_formal_review_body ::
    "nat \<Rightarrow> string \<Rightarrow> string \<Rightarrow> review_findings_artifact \<Rightarrow> nat option \<Rightarrow> string" where
  "render_formal_review_body issue_number intent_id run_id artifact approved_spec_version =
     render_formal_review_body_with_records issue_number intent_id run_id artifact approved_spec_version []"

text \<open>The inline comments of a formal review (\<open>publisher.rs\<close>); a finding that persists has none.\<close>

record review_comment =
  rco_path :: string
  rco_line :: nat
  rco_side :: string
  rco_start_line :: "nat option"
  rco_start_side :: "string option"
  rco_body :: string

definition review_comment_of :: "review_finding \<Rightarrow> review_comment" where
  "review_comment_of f =
     (let end_line = effective_end f; multiline = rfi_line f < end_line
      in \<lparr> rco_path = rfi_path f, rco_line = end_line, rco_side = ''RIGHT'',
           rco_start_line = (if multiline then Some (rfi_line f) else None),
           rco_start_side = (if multiline then Some ''RIGHT'' else None),
           rco_body = ''**'' @ severity_label (rfi_severity f) @ ''** ('' @ category_label (rfi_category f) @ '')''
             @ newline @ newline @ rfi_claim f @ newline @ newline @ ''**Why:** '' @ rfi_rationale f @ newline @ newline
             @ ''**Suggested remediation:** '' @ rfi_remediation f
             @ (case rfi_acceptance_criterion f of None \<Rightarrow> ''''
                | Some c \<Rightarrow> newline @ newline @ ''**Acceptance criterion:** '' @ c) \<rparr>)"

definition render_review_comments ::
    "review_findings_artifact \<Rightarrow> review_finding_record list \<Rightarrow> review_comment list" where
  "render_review_comments artifact records =
     map review_comment_of
       (filter (\<lambda>f. \<not> list_ex (\<lambda>r. rfr_artifact_id r = raf_artifact_id artifact
                        \<and> rfr_finding_id r = rfi_finding_id f
                        \<and> rfr_lifecycle_state r = LifecyclePersisting) records)
         (rfm_findings (raf_manifest artifact)))"

end
