(* ===== verification/ReviewStore.thy ===== *)
theory ReviewStore
  imports ImplementationStore ReviewManifest
begin

text \<open>
  The review stage's part of \<open>src/triage/store.rs\<close>, over the tables of
  \<open>migrations/006_review_stage.sql\<close> to \<open>009_a4_review_head_base_identity.sql\<close>. The database is a
  \<open>review_db\<close>: the tables of the earlier stages and, beside them, attempts, findings artifacts,
  finding records and publication intents. Times are numbers of nanoseconds; as text they have the
  same order. A statement that changes the status of an intent finds it in a status the partial
  unique index covers already, so the index is only checked where intents are inserted.
\<close>

section \<open>Tables\<close>

record review_attempt_record =
  rat_attempt_id :: string
  rat_run_id :: string
  rat_stage_run_id :: string
  rat_draft_pr_artifact_id :: string
  rat_implementation_artifact_id :: string
  rat_spec_artifact_id :: string
  rat_pr_number :: nat
  rat_reviewed_head_sha :: string
  rat_base_sha :: string
  rat_status :: string
  rat_reprompt_count :: nat
  rat_worker_turn :: "json option"
  rat_manifest :: "json option"
  rat_validation_result :: "json option"
  rat_last_error :: "factory_error option"
  rat_created_at :: int
  rat_updated_at :: int

text \<open>A publication intent with the two columns of its lease.\<close>

record review_publication_intent =
  rpi_intent_id :: string
  rpi_run_id :: string
  rpi_artifact_id :: string
  rpi_kind :: string
  rpi_status :: publication_status
  rpi_completed_steps :: "string list"
  rpi_retry_count :: nat
  rpi_last_error :: "factory_error option"
  rpi_comment_id :: "string option"
  rpi_publisher_login :: "string option"
  rpi_review_id :: "string option"
  rpi_review_url :: "string option"
  rpi_route_state :: "string option"
  rpi_desired_effects :: json
  rpi_observed_baseline :: json
  rpi_expected_projection :: json
  rpi_created_at :: int
  rpi_updated_at :: int
  rpi_lease_owner :: "string option"
  rpi_lease_expires_at :: "int option"

record review_db =
  rdb_impl :: impl_db
  rdb_attempts :: "review_attempt_record list"
  rdb_artifacts :: "review_findings_artifact list"
  rdb_findings :: "review_finding_record list"
  rdb_intents :: "review_publication_intent list"

definition review_base :: "review_db \<Rightarrow> factory_store" where
  "review_base db = impl_base (rdb_impl db)"

definition set_review_base :: "factory_store \<Rightarrow> review_db \<Rightarrow> review_db" where
  "set_review_base b db = db\<lparr> rdb_impl := set_impl_base b (rdb_impl db) \<rparr>"

text \<open>The decimal text of a finite \<open>f64\<close> is an argument, in the environment.\<close>

record review_env =
  ren_factory :: factory_env
  ren_f64_text :: "rat \<Rightarrow> string"

record store_review_attempt_request =
  va_attempt_id :: string
  va_stage_run_id :: string
  va_draft_pr_artifact_id :: string
  va_implementation_artifact_id :: string
  va_spec_artifact_id :: string
  va_pr_number :: nat
  va_reviewed_head_sha :: string
  va_base_sha :: string

record store_review_artifact_request =
  ra_stage_run_id :: string
  ra_attempt_id :: string
  ra_draft_pr_artifact_id :: string
  ra_implementation_artifact_id :: string
  ra_spec_artifact_id :: string
  ra_reviewed_head_sha :: string
  ra_base_sha :: string
  ra_manifest :: review_findings_manifest
  ra_bytes_len :: nat
  ra_usage :: stage_usage

record update_review_attempt_request =
  ur_attempt_id :: string
  ur_status :: string
  ur_reprompt_count :: nat
  ur_worker_turn :: "json option"
  ur_manifest :: "json option"
  ur_validation_result :: "json option"
  ur_error :: "factory_error option"

definition review_stage_name :: string where
  "review_stage_name = ''review''"

section \<open>JSON of the manifest\<close>

fun f64_json :: "review_env \<Rightarrow> f64 \<Rightarrow> json" where
  "f64_json env (Finite q) = JNumber (Float (ren_f64_text env q))"
| "f64_json env NotFinite = JNull"

definition review_finding_json :: "review_env \<Rightarrow> review_finding \<Rightarrow> json" where
  "review_finding_json env f =
     JObject
       ([(''finding_id'', JString (rfi_finding_id f)), (''severity'', JString (severity_label (rfi_severity f))),
         (''category'', JString (category_label (rfi_category f))), (''path'', JString (rfi_path f)),
         (''line'', JNumber (PosInt (rfi_line f)))]
        @ opt_field ''end_line'' (map_option (\<lambda>n. JNumber (PosInt n)) (rfi_end_line f))
        @ [(''claim'', JString (rfi_claim f)), (''rationale'', JString (rfi_rationale f)),
           (''remediation'', JString (rfi_remediation f))]
        @ opt_field ''acceptance_criterion'' (map_option JString (rfi_acceptance_criterion f))
        @ [(''confidence'', f64_json env (rfi_confidence f))])"

definition review_manifest_json :: "review_env \<Rightarrow> review_findings_manifest \<Rightarrow> json" where
  "review_manifest_json env m =
     JObject
       [(''schema_version'', JNumber (PosInt (rfm_schema_version m))),
        (''reviewed_head_sha'', JString (rfm_reviewed_head_sha m)), (''base_sha'', JString (rfm_base_sha m)),
        (''spec_conformance_summary'', JString (rfm_spec_conformance_summary m)),
        (''no_findings'', JBool (rfm_no_findings m)),
        (''findings'', JArray (map (review_finding_json env) (rfm_findings m)))]"

definition accepted_json :: "review_findings_manifest \<Rightarrow> json" where
  "accepted_json m =
     JObject [(''accepted'', JBool True), (''finding_count'', JNumber (PosInt (length (rfm_findings m))))]"

section \<open>Attempts\<close>

definition count_review_attempt_failures_for_head :: "review_db \<Rightarrow> string \<Rightarrow> string \<Rightarrow> string \<Rightarrow> nat" where
  "count_review_attempt_failures_for_head db run_id head_sha base_sha =
     length (filter (\<lambda>a. rat_run_id a = run_id \<and> rat_reviewed_head_sha a = head_sha \<and> rat_base_sha a = base_sha
       \<and> (rat_status a = ''failed'' \<or> rat_status a = ''blocked'' \<or> rat_status a = ''interrupted'')) (rdb_attempts db))"

definition get_review_attempt :: "review_db \<Rightarrow> string \<Rightarrow> review_attempt_record option" where
  "get_review_attempt db attempt_id = find (\<lambda>a. rat_attempt_id a = attempt_id) (rdb_attempts db)"

definition list_review_attempts :: "review_db \<Rightarrow> string \<Rightarrow> review_attempt_record list" where
  "list_review_attempts db run_id =
     sort_key (\<lambda>a. - rat_created_at a) (filter (\<lambda>a. rat_run_id a = run_id) (rdb_attempts db))"

text \<open>The foreign keys attempts and artifacts share.\<close>

definition review_inputs_exist :: "review_db \<Rightarrow> string \<Rightarrow> string \<Rightarrow> string \<Rightarrow> bool" where
  "review_inputs_exist db draft_pr_artifact_id implementation_artifact_id spec_artifact_id \<longleftrightarrow>
     draft_pr_artifact_id \<in> dpr_artifact_id ` set (idb_draft_prs (rdb_impl db))
     \<and> implementation_artifact_id \<in> iar_artifact_id ` set (idb_artifacts (rdb_impl db))
     \<and> spec_artifact_id \<in> sar_artifact_id ` set (sdb_spec_artifacts (idb_spec (rdb_impl db)))"

definition insert_review_attempt :: "review_attempt_record \<Rightarrow> review_db \<Rightarrow> review_db option" where
  "insert_review_attempt a db =
     (if (\<exists>b \<in> set (rdb_attempts db).
            rat_attempt_id b = rat_attempt_id a \<or> rat_stage_run_id b = rat_stage_run_id a)
         \<or> \<not> run_exists (review_base db) (rat_run_id a) \<or> \<not> stage_exists (review_base db) (rat_stage_run_id a)
         \<or> \<not> review_inputs_exist db (rat_draft_pr_artifact_id a) (rat_implementation_artifact_id a)
               (rat_spec_artifact_id a)
      then None else Some (db\<lparr> rdb_attempts := rdb_attempts db @ [a] \<rparr>))"

definition store_review_attempt_inputs ::
    "factory_env \<Rightarrow> int \<Rightarrow> store_review_attempt_request \<Rightarrow> review_db \<Rightarrow> (review_db, review_attempt_record) db_result" where
  "store_review_attempt_inputs env now request db =
     (case running_stage env (review_base db) review_stage_name ''review'' (va_stage_run_id request) of
        Inl e \<Rightarrow> (db, Inl e)
      | Inr stage \<Rightarrow>
      (case insert_review_attempt
              \<lparr> rat_attempt_id = va_attempt_id request, rat_run_id = sg_run_id stage,
                rat_stage_run_id = va_stage_run_id request,
                rat_draft_pr_artifact_id = va_draft_pr_artifact_id request,
                rat_implementation_artifact_id = va_implementation_artifact_id request,
                rat_spec_artifact_id = va_spec_artifact_id request, rat_pr_number = va_pr_number request,
                rat_reviewed_head_sha = va_reviewed_head_sha request, rat_base_sha = va_base_sha request,
                rat_status = ''running'', rat_reprompt_count = 0, rat_worker_turn = None, rat_manifest = None,
                rat_validation_result = None, rat_last_error = None, rat_created_at = now, rat_updated_at = now \<rparr> db of
         None \<Rightarrow> (db, constraint_fail env ''review_attempts'')
       | Some db' \<Rightarrow>
           (db', found_or ''created review attempt is missing'' (Inr (get_review_attempt db' (va_attempt_id request))))))"

definition coalesce :: "'a option \<Rightarrow> 'a option \<Rightarrow> 'a option" where
  "coalesce a b = (case a of None \<Rightarrow> b | Some x \<Rightarrow> Some x)"

definition bounded_error :: "factory_env \<Rightarrow> factory_error option \<Rightarrow> symphony_error + factory_error option" where
  "bounded_error env err =
     (case bounded_optional env (map_option factory_error_json err) of Inl e \<Rightarrow> Inl e | Inr _ \<Rightarrow> Inr err)"

definition update_review_attempts ::
    "string \<Rightarrow> (review_attempt_record \<Rightarrow> review_attempt_record) \<Rightarrow> review_db \<Rightarrow> review_db \<times> nat" where
  "update_review_attempts attempt_id f db =
     (let P = (\<lambda>a. rat_attempt_id a = attempt_id)
      in (db\<lparr> rdb_attempts := update_where P f (rdb_attempts db) \<rparr>, changed_rows P (rdb_attempts db)))"

definition update_review_attempt ::
    "factory_env \<Rightarrow> int \<Rightarrow> update_review_attempt_request \<Rightarrow> review_db \<Rightarrow> (review_db, unit) db_result" where
  "update_review_attempt env now request db =
     (case bounded_optional env (ur_worker_turn request) of
        Inl e \<Rightarrow> (db, Inl e)
      | Inr turn \<Rightarrow>
      (case bounded_optional env (ur_manifest request) of
        Inl e \<Rightarrow> (db, Inl e)
      | Inr manifest \<Rightarrow>
      (case bounded_optional env (ur_validation_result request) of
        Inl e \<Rightarrow> (db, Inl e)
      | Inr result \<Rightarrow>
      (case bounded_error env (ur_error request) of
        Inl e \<Rightarrow> (db, Inl e)
      | Inr err \<Rightarrow>
          (case update_review_attempts (ur_attempt_id request)
                  (\<lambda>a. a\<lparr> rat_status := ur_status request, rat_reprompt_count := ur_reprompt_count request,
                          rat_worker_turn := coalesce turn (rat_worker_turn a),
                          rat_manifest := coalesce manifest (rat_manifest a),
                          rat_validation_result := coalesce result (rat_validation_result a),
                          rat_last_error := err, rat_updated_at := now \<rparr>) db of
             (db', n) \<Rightarrow>
               (db', if n = 0 then storage_fail (''review attempt '' @ ur_attempt_id request @ '' not found'')
                     else Inr ()))))))"

section \<open>Findings artifacts\<close>

definition get_review_artifact :: "review_db \<Rightarrow> string \<Rightarrow> review_findings_artifact option" where
  "get_review_artifact db artifact_id = find (\<lambda>a. raf_artifact_id a = artifact_id) (rdb_artifacts db)"

definition list_review_artifacts :: "review_db \<Rightarrow> string \<Rightarrow> review_findings_artifact list" where
  "list_review_artifacts db run_id =
     sort_key (\<lambda>a. - raf_received_at a) (filter (\<lambda>a. raf_run_id a = run_id) (rdb_artifacts db))"

definition of_revision :: "string \<Rightarrow> string \<Rightarrow> string \<Rightarrow> review_findings_artifact \<Rightarrow> bool" where
  "of_revision run_id head_sha base_sha a \<longleftrightarrow>
     raf_run_id a = run_id \<and> raf_reviewed_head_sha a = head_sha \<and> raf_base_sha a = base_sha"

definition review_artifact_exists :: "review_db \<Rightarrow> string \<Rightarrow> string \<Rightarrow> string \<Rightarrow> bool" where
  "review_artifact_exists db run_id head_sha base_sha \<longleftrightarrow> list_ex (of_revision run_id head_sha base_sha) (rdb_artifacts db)"

definition get_orphaned_review_artifact ::
    "review_db \<Rightarrow> string \<Rightarrow> string \<Rightarrow> string \<Rightarrow> review_findings_artifact option" where
  "get_orphaned_review_artifact db run_id head_sha base_sha =
     latest_by raf_received_at
       (filter (\<lambda>a. of_revision run_id head_sha base_sha a
            \<and> raf_artifact_id a \<notin> rpi_artifact_id ` set (rdb_intents db)) (rdb_artifacts db))"

definition list_review_finding_records_for_artifact :: "review_db \<Rightarrow> string \<Rightarrow> review_finding_record list" where
  "list_review_finding_records_for_artifact db artifact_id =
     sort_key rfr_created_at
       (sort_key rfr_finding_record_id (filter (\<lambda>r. rfr_artifact_id r = artifact_id) (rdb_findings db)))"

definition insert_review_artifact :: "review_findings_artifact \<Rightarrow> review_db \<Rightarrow> review_db option" where
  "insert_review_artifact a db =
     (if (\<exists>b \<in> set (rdb_artifacts db).
            raf_artifact_id b = raf_artifact_id a \<or> raf_stage_run_id b = raf_stage_run_id a
            \<or> raf_attempt_id b = raf_attempt_id a
            \<or> of_revision (raf_run_id a) (raf_reviewed_head_sha a) (raf_base_sha a) b)
         \<or> \<not> run_exists (review_base db) (raf_run_id a) \<or> \<not> stage_exists (review_base db) (raf_stage_run_id a)
         \<or> raf_attempt_id a \<notin> rat_attempt_id ` set (rdb_attempts db)
         \<or> \<not> review_inputs_exist db (raf_draft_pr_artifact_id a) (raf_implementation_artifact_id a)
               (raf_spec_artifact_id a)
      then None else Some (db\<lparr> rdb_artifacts := rdb_artifacts db @ [a] \<rparr>))"

text \<open>The keys of a finding record, its foreign keys and the check on the confidence.\<close>

definition finding_conflict :: "review_finding_record \<Rightarrow> review_finding_record \<Rightarrow> bool" where
  "finding_conflict r q \<longleftrightarrow>
     rfr_finding_record_id q = rfr_finding_record_id r
     \<or> rfr_artifact_id q = rfr_artifact_id r \<and> rfr_finding_id q = rfr_finding_id r
     \<or> rfr_run_id q = rfr_run_id r \<and> rfr_reviewed_head_sha q = rfr_reviewed_head_sha r
         \<and> rfr_base_sha q = rfr_base_sha r \<and> rfr_identity_key q = rfr_identity_key r"

definition insert_finding_record :: "review_finding_record \<Rightarrow> review_db \<Rightarrow> review_db option" where
  "insert_finding_record r db =
     (if list_ex (finding_conflict r) (rdb_findings db) \<or> \<not> valid_confidence (rfr_confidence r)
         \<or> \<not> run_exists (review_base db) (rfr_run_id r)
         \<or> rfr_artifact_id r \<notin> raf_artifact_id ` set (rdb_artifacts db)
      then None else Some (db\<lparr> rdb_findings := rdb_findings db @ [r] \<rparr>))"

definition unresolved_records :: "review_db \<Rightarrow> string \<Rightarrow> review_finding_record list" where
  "unresolved_records db run_id =
     filter (\<lambda>r. rfr_run_id r = run_id \<and> rfr_lifecycle_state r \<noteq> LifecycleResolved) (rdb_findings db)"

definition unresolved_keys :: "review_db \<Rightarrow> string \<Rightarrow> string set" where
  "unresolved_keys db run_id = rfr_identity_key ` set (unresolved_records db run_id)"

definition record_of_finding ::
    "int \<Rightarrow> string \<Rightarrow> string set \<Rightarrow> string \<Rightarrow> string \<Rightarrow> store_review_artifact_request \<Rightarrow> review_finding
     \<Rightarrow> review_finding_record" where
  "record_of_finding now record_id prior_keys run_id artifact_id request f =
     \<lparr> rfr_finding_record_id = record_id, rfr_run_id = run_id, rfr_artifact_id = artifact_id,
       rfr_finding_id = rfi_finding_id f, rfr_identity_key = finding_identity_key f,
       rfr_reviewed_head_sha = ra_reviewed_head_sha request, rfr_base_sha = ra_base_sha request,
       rfr_severity = rfi_severity f, rfr_category = rfi_category f, rfr_path = rfi_path f, rfr_line = rfi_line f,
       rfr_end_line = rfi_end_line f, rfr_claim = rfi_claim f, rfr_rationale = rfi_rationale f,
       rfr_remediation = rfi_remediation f, rfr_acceptance_criterion = rfi_acceptance_criterion f,
       rfr_confidence = rfi_confidence f,
       rfr_lifecycle_state =
         (if finding_identity_key f \<in> prior_keys then LifecyclePersisting else LifecycleNew),
       rfr_created_at = now, rfr_updated_at = now \<rparr>"

text \<open>One insertion per finding of the manifest; \<open>new_record_id n\<close> is the id drawn for the \<open>n\<close>-th.\<close>

fun insert_findings :: "(nat \<Rightarrow> review_finding \<Rightarrow> review_finding_record) \<Rightarrow> nat \<Rightarrow> review_finding list \<Rightarrow> review_db
    \<Rightarrow> review_db option" where
  "insert_findings record_of n [] db = Some db"
| "insert_findings record_of n (f # fs) db =
     (case insert_finding_record (record_of n f) db of
        None \<Rightarrow> None
      | Some db' \<Rightarrow> insert_findings record_of (Suc n) fs db')"

text \<open>The earlier findings the new manifest does not name any more, each by its record id.\<close>

definition resolve_findings :: "int \<Rightarrow> string \<Rightarrow> string \<Rightarrow> string set \<Rightarrow> review_db \<Rightarrow> review_db" where
  "resolve_findings now run_id artifact_id current_keys db =
     (let prior = filter (\<lambda>r. rfr_artifact_id r \<noteq> artifact_id) (unresolved_records db run_id);
          ids = map rfr_finding_record_id (filter (\<lambda>r. rfr_identity_key r \<notin> current_keys) prior)
      in db\<lparr> rdb_findings :=
           update_where (\<lambda>r. rfr_finding_record_id r \<in> set ids)
             (\<lambda>r. r\<lparr> rfr_lifecycle_state := LifecycleResolved, rfr_updated_at := now \<rparr>) (rdb_findings db) \<rparr>)"

definition manifest_keys :: "review_findings_manifest \<Rightarrow> string set" where
  "manifest_keys m = set (map finding_identity_key (rfm_findings m))"

text \<open>One transaction: when a statement fails the database is the one before.\<close>

definition store_review_artifact ::
    "review_env \<Rightarrow> int \<Rightarrow> string \<Rightarrow> (nat \<Rightarrow> string) \<Rightarrow> store_review_artifact_request \<Rightarrow> review_db
     \<Rightarrow> (review_db, review_findings_artifact) db_result" where
  "store_review_artifact env now new_artifact_id new_record_id request db =
     (let fenv = ren_factory env; m = ra_manifest request; stage_run_id = ra_stage_run_id request
      in if rfm_reviewed_head_sha m \<noteq> ra_reviewed_head_sha request \<or> rfm_base_sha m \<noteq> ra_base_sha request
         then (db, storage_fail ''review manifest does not match the pinned attempt'')
         else
           (case bounded_json fenv (review_manifest_json env m) of
              Inl e \<Rightarrow> (db, Inl e)
            | Inr manifest \<Rightarrow>
            (case running_stage fenv (review_base db) review_stage_name ''review'' stage_run_id of
              Inl e \<Rightarrow> (db, Inl e)
            | Inr stage \<Rightarrow>
            (let run_id = sg_run_id stage; prior_keys = unresolved_keys db run_id
             in case insert_review_artifact
                  \<lparr> raf_artifact_id = new_artifact_id, raf_run_id = run_id, raf_stage_run_id = stage_run_id,
                    raf_attempt_id = ra_attempt_id request,
                    raf_draft_pr_artifact_id = ra_draft_pr_artifact_id request,
                    raf_implementation_artifact_id = ra_implementation_artifact_id request,
                    raf_spec_artifact_id = ra_spec_artifact_id request, raf_schema_version = rfm_schema_version m,
                    raf_reviewed_head_sha = ra_reviewed_head_sha request, raf_base_sha = ra_base_sha request,
                    raf_manifest = m, raf_no_findings = rfm_no_findings m,
                    raf_finding_count = length (rfm_findings m), raf_received_at = now,
                    raf_bytes_len = ra_bytes_len request \<rparr> db of
               None \<Rightarrow> (db, constraint_fail fenv ''review_findings_artifacts'')
             | Some db1 \<Rightarrow>
             (case insert_findings
                     (\<lambda>n. record_of_finding now (new_record_id n) prior_keys run_id new_artifact_id request)
                     0 (rfm_findings m) db1 of
               None \<Rightarrow> (db, constraint_fail fenv ''review_finding_records'')
             | Some db2 \<Rightarrow>
             (let db3 = resolve_findings now run_id new_artifact_id (manifest_keys m) db2
              in case bounded_json fenv (accepted_json m) of
                   Inl e \<Rightarrow> (db, Inl e)
                 | Inr result \<Rightarrow>
                   (let db4 = fst (update_review_attempts (ra_attempt_id request)
                          (\<lambda>a. a\<lparr> rat_status := ''completed'', rat_manifest := Some manifest,
                                  rat_validation_result := Some result, rat_updated_at := now \<rparr>) db3);
                        base' = set_run_stage now run_id FactoryWaiting review_stage_name
                          (complete_stage_run now stage_run_id (ra_usage request) (review_base db4));
                        db5 = set_review_base base' db4
                    in case get_review_artifact db5 new_artifact_id of
                         None \<Rightarrow> (db, storage_fail (fenv_no_rows fenv))
                       | Some a \<Rightarrow> (db5, Inr a))))))))"

section \<open>Publication intents\<close>

definition find_review_intent :: "review_db \<Rightarrow> string \<Rightarrow> review_publication_intent option" where
  "find_review_intent db intent_id = find (\<lambda>i. rpi_intent_id i = intent_id) (rdb_intents db)"

definition get_review_publication_intent :: "review_db \<Rightarrow> string \<Rightarrow> review_publication_intent option" where
  "get_review_publication_intent db intent_id = find_review_intent db intent_id"

definition list_review_publications_for_run :: "review_db \<Rightarrow> string \<Rightarrow> review_publication_intent list" where
  "list_review_publications_for_run db run_id =
     sort_key (\<lambda>i. - rpi_created_at i) (filter (\<lambda>i. rpi_run_id i = run_id) (rdb_intents db))"

definition list_pending_review_publications :: "review_db \<Rightarrow> review_publication_intent list" where
  "list_pending_review_publications db =
     sort_key rpi_created_at (filter (\<lambda>i. rpi_status i = PubPending) (rdb_intents db))"

definition blocked_or_conflict :: "publication_status \<Rightarrow> bool" where
  "blocked_or_conflict status \<longleftrightarrow> status = PubBlocked \<or> status = PubConflict"

definition list_blocked_review_publications :: "review_db \<Rightarrow> review_publication_intent list" where
  "list_blocked_review_publications db =
     sort_key rpi_created_at (filter (\<lambda>i. blocked_or_conflict (rpi_status i)) (rdb_intents db))"

definition insert_review_intent :: "review_publication_intent \<Rightarrow> review_db \<Rightarrow> review_db option" where
  "insert_review_intent i db =
     (if rpi_intent_id i \<in> rpi_intent_id ` set (rdb_intents db)
         \<or> \<not> run_exists (review_base db) (rpi_run_id i)
         \<or> rpi_artifact_id i \<notin> raf_artifact_id ` set (rdb_artifacts db)
         \<or> nonterminal_publication (rpi_status i)
             \<and> list_ex (\<lambda>j. nonterminal_publication (rpi_status j) \<and> rpi_artifact_id j = rpi_artifact_id i) (rdb_intents db)
      then None else Some (db\<lparr> rdb_intents := rdb_intents db @ [i] \<rparr>))"

definition create_review_publication_intent ::
    "factory_env \<Rightarrow> int \<Rightarrow> string \<Rightarrow> string \<Rightarrow> string \<Rightarrow> string \<Rightarrow> json \<Rightarrow> review_db
     \<Rightarrow> (review_db, review_publication_intent) db_result" where
  "create_review_publication_intent env now new_intent_id run_id artifact_id kind desired_effects db =
     (case find (\<lambda>i. rpi_artifact_id i = artifact_id \<and> \<not> blocked_or_conflict (rpi_status i))
             (list_review_publications_for_run db run_id) of
        Some existing \<Rightarrow> (db, Inr existing)
      | None \<Rightarrow>
          (case bounded_json env desired_effects of
             Inl e \<Rightarrow> (db, Inl e)
           | Inr desired \<Rightarrow>
               (case insert_review_intent
                       \<lparr> rpi_intent_id = new_intent_id, rpi_run_id = run_id, rpi_artifact_id = artifact_id,
                         rpi_kind = kind, rpi_status = PubPending, rpi_completed_steps = [], rpi_retry_count = 0,
                         rpi_last_error = None, rpi_comment_id = None, rpi_publisher_login = None,
                         rpi_review_id = None, rpi_review_url = None, rpi_route_state = None,
                         rpi_desired_effects = desired, rpi_observed_baseline = JObject [],
                         rpi_expected_projection = JObject [], rpi_created_at = now, rpi_updated_at = now,
                         rpi_lease_owner = None, rpi_lease_expires_at = None \<rparr> db of
                  None \<Rightarrow> (db, constraint_fail env ''review_publication_intents'')
                | Some db' \<Rightarrow>
                    (db', found_or ''created review publication intent is missing''
                            (Inr (get_review_publication_intent db' new_intent_id))))))"

text \<open>An \<open>UPDATE\<close> of the intents that satisfy a condition, and whether it changed one row.\<close>

definition update_review_intents ::
    "(review_publication_intent \<Rightarrow> bool) \<Rightarrow> (review_publication_intent \<Rightarrow> review_publication_intent) \<Rightarrow> review_db
     \<Rightarrow> review_db" where
  "update_review_intents P f db = db\<lparr> rdb_intents := update_where P f (rdb_intents db) \<rparr>"

definition one_intent_changed :: "(review_publication_intent \<Rightarrow> bool) \<Rightarrow> review_db \<Rightarrow> bool" where
  "one_intent_changed P db \<longleftrightarrow> changed_rows P (rdb_intents db) = 1"

section \<open>The publication lease\<close>

definition nanos_per_second :: int where
  "nanos_per_second = 1000000000"

definition lease_end :: "int \<Rightarrow> int \<Rightarrow> int" where
  "lease_end now lease_seconds = now + max lease_seconds 1 * nanos_per_second"

text \<open>\<open>intent_id\<close> is pending and its lease is free for \<open>owner\<close>: its own, nobody's, or run out.\<close>

definition lease_free :: "int \<Rightarrow> string \<Rightarrow> string \<Rightarrow> review_publication_intent \<Rightarrow> bool" where
  "lease_free now intent_id owner i \<longleftrightarrow>
     rpi_intent_id i = intent_id \<and> rpi_status i = PubPending
     \<and> (rpi_lease_owner i = Some owner \<or> rpi_lease_owner i = None
        \<or> (case rpi_lease_expires_at i of None \<Rightarrow> True | Some t \<Rightarrow> t \<le> now))"

definition claim_review_publication :: "int \<Rightarrow> string \<Rightarrow> string \<Rightarrow> int \<Rightarrow> review_db \<Rightarrow> review_db \<times> bool" where
  "claim_review_publication now intent_id owner lease_seconds db =
     (update_review_intents (lease_free now intent_id owner)
        (\<lambda>i. i\<lparr> rpi_lease_owner := Some owner, rpi_lease_expires_at := Some (lease_end now lease_seconds),
                rpi_updated_at := now \<rparr>) db,
      one_intent_changed (lease_free now intent_id owner) db)"

definition clear_review_publication_lease :: "int \<Rightarrow> string \<Rightarrow> string \<Rightarrow> review_db \<Rightarrow> review_db" where
  "clear_review_publication_lease now intent_id owner db =
     update_review_intents (\<lambda>i. rpi_intent_id i = intent_id \<and> rpi_lease_owner i = Some owner)
       (\<lambda>i. i\<lparr> rpi_lease_owner := None, rpi_lease_expires_at := None, rpi_updated_at := now \<rparr>) db"

text \<open>The condition of every owned write: pending, leased to \<open>owner\<close>, and the lease has not run out.\<close>

definition holds_lease :: "int \<Rightarrow> string \<Rightarrow> string \<Rightarrow> review_publication_intent \<Rightarrow> bool" where
  "holds_lease now intent_id owner i \<longleftrightarrow>
     rpi_intent_id i = intent_id \<and> rpi_status i = PubPending \<and> rpi_lease_owner i = Some owner
     \<and> (case rpi_lease_expires_at i of None \<Rightarrow> False | Some t \<Rightarrow> now < t)"

definition owned_update ::
    "int \<Rightarrow> string \<Rightarrow> string \<Rightarrow> (review_publication_intent \<Rightarrow> review_publication_intent) \<Rightarrow> review_db \<Rightarrow> review_db \<times> bool" where
  "owned_update now intent_id owner f db =
     (update_review_intents (holds_lease now intent_id owner) (\<lambda>i. f (i\<lparr> rpi_updated_at := now \<rparr>)) db,
      one_intent_changed (holds_lease now intent_id owner) db)"

definition renew_review_publication_lease :: "int \<Rightarrow> string \<Rightarrow> string \<Rightarrow> int \<Rightarrow> review_db \<Rightarrow> review_db \<times> bool" where
  "renew_review_publication_lease now intent_id owner lease_seconds db =
     owned_update now intent_id owner (\<lambda>i. i\<lparr> rpi_lease_expires_at := Some (lease_end now lease_seconds) \<rparr>) db"

definition bind_review_publication_comment_owned ::
    "int \<Rightarrow> string \<Rightarrow> string \<Rightarrow> string \<Rightarrow> string \<Rightarrow> review_db \<Rightarrow> review_db \<times> bool" where
  "bind_review_publication_comment_owned now intent_id owner comment_id publisher_login db =
     owned_update now intent_id owner
       (\<lambda>i. i\<lparr> rpi_comment_id := Some comment_id, rpi_publisher_login := Some publisher_login \<rparr>) db"

definition clear_review_publication_comment_owned :: "int \<Rightarrow> string \<Rightarrow> string \<Rightarrow> review_db \<Rightarrow> review_db \<times> bool" where
  "clear_review_publication_comment_owned now intent_id owner db =
     owned_update now intent_id owner (\<lambda>i. i\<lparr> rpi_comment_id := None, rpi_publisher_login := None \<rparr>) db"

text \<open>These two read the clock twice: for the time stamp, and later for the condition.\<close>

definition bind_review_publication_review_owned ::
    "int \<Rightarrow> int \<Rightarrow> string \<Rightarrow> string \<Rightarrow> string \<Rightarrow> string \<Rightarrow> string \<Rightarrow> review_db \<Rightarrow> review_db \<times> bool" where
  "bind_review_publication_review_owned now later intent_id owner review_id review_url publisher_login db =
     owned_update later intent_id owner
       (\<lambda>i. i\<lparr> rpi_review_id := Some review_id, rpi_review_url := Some review_url,
               rpi_publisher_login := Some publisher_login, rpi_updated_at := now \<rparr>) db"

definition set_review_publication_route_state_owned ::
    "int \<Rightarrow> int \<Rightarrow> string \<Rightarrow> string \<Rightarrow> string \<Rightarrow> review_db \<Rightarrow> review_db \<times> bool" where
  "set_review_publication_route_state_owned now later intent_id owner route_state db =
     owned_update later intent_id owner
       (\<lambda>i. i\<lparr> rpi_route_state := Some route_state, rpi_updated_at := now \<rparr>) db"

section \<open>Steps, completion and errors\<close>

definition ok_pair :: "'d \<times> 'a \<Rightarrow> ('d, 'a) db_result" where
  "ok_pair r = (case r of (db, a) \<Rightarrow> (db, Inr a))"

definition review_intent_missing :: "string \<Rightarrow> string" where
  "review_intent_missing intent_id = ''review intent '' @ intent_id @ '' not found''"

definition release_lease :: "review_publication_intent \<Rightarrow> review_publication_intent" where
  "release_lease i = i\<lparr> rpi_lease_owner := None, rpi_lease_expires_at := None \<rparr>"

definition next_review_status :: "string \<Rightarrow> publication_status \<Rightarrow> publication_status" where
  "next_review_status step status =
     (if trim step = ''comment_final'' then PubApplied
      else if status = PubApplied then PubPending else status)"

definition record_review_publication_step_owned ::
    "factory_env \<Rightarrow> int \<Rightarrow> string \<Rightarrow> string \<Rightarrow> string \<Rightarrow> publication_status \<Rightarrow> json \<Rightarrow> review_db
     \<Rightarrow> (review_db, bool) db_result" where
  "record_review_publication_step_owned env now intent_id owner step status expected_projection db =
     (case get_review_publication_intent db intent_id of
        None \<Rightarrow> (db, storage_fail (review_intent_missing intent_id))
      | Some intent \<Rightarrow>
          if rpi_status intent \<noteq> PubPending then (db, Inr False)
          else
            (let steps = add_step step (rpi_completed_steps intent); status' = next_review_status step status
             in case bounded_json env (json_string_list steps) of
                  Inl e \<Rightarrow> (db, Inl e)
                | Inr _ \<Rightarrow>
                (case bounded_json env expected_projection of
                  Inl e \<Rightarrow> (db, Inl e)
                | Inr projection \<Rightarrow>
                    ok_pair (owned_update now intent_id owner
                      (\<lambda>i. (if status' = PubApplied then release_lease else id)
                         (i\<lparr> rpi_completed_steps := steps, rpi_status := status', rpi_last_error := None,
                             rpi_expected_projection := projection \<rparr>)) db))))"

definition complete_review_publication_owned ::
    "factory_env \<Rightarrow> int \<Rightarrow> string \<Rightarrow> string \<Rightarrow> string \<Rightarrow> review_db \<Rightarrow> (review_db, bool) db_result" where
  "complete_review_publication_owned env now intent_id owner step db =
     (case get_review_publication_intent db intent_id of
        None \<Rightarrow> (db, storage_fail (review_intent_missing intent_id))
      | Some intent \<Rightarrow>
          if rpi_kind intent \<noteq> ''preview''
          then (db, Inl (TriageError (''review publication helper only supports preview intents, got kind=''
                 @ rpi_kind intent)))
          else if rpi_status intent \<noteq> PubPending then (db, Inr False)
          else
            (let steps = add_exact_step step (rpi_completed_steps intent)
             in case bounded_json env (json_string_list steps) of
                  Inl e \<Rightarrow> (db, Inl e)
                | Inr _ \<Rightarrow>
                    ok_pair (owned_update now intent_id owner
                      (\<lambda>i. release_lease (i\<lparr> rpi_status := PubApplied, rpi_completed_steps := steps,
                                             rpi_last_error := None \<rparr>)) db)))"

definition set_review_publication_error_owned ::
    "factory_env \<Rightarrow> int \<Rightarrow> string \<Rightarrow> string \<Rightarrow> publication_status \<Rightarrow> factory_error \<Rightarrow> review_db
     \<Rightarrow> (review_db, bool) db_result" where
  "set_review_publication_error_owned env now intent_id owner status err db =
     (case bounded_error env (Some err) of
        Inl e \<Rightarrow> (db, Inl e)
      | Inr err' \<Rightarrow>
          ok_pair (owned_update now intent_id owner
            (\<lambda>i. release_lease (i\<lparr> rpi_status := status, rpi_last_error := err',
                                   rpi_retry_count := Suc (rpi_retry_count i) \<rparr>)) db))"

definition supersede_review_publication_owned ::
    "factory_env \<Rightarrow> int \<Rightarrow> string \<Rightarrow> string \<Rightarrow> factory_error \<Rightarrow> review_db \<Rightarrow> (review_db, bool) db_result" where
  "supersede_review_publication_owned env now intent_id owner err db =
     (case bounded_error env (Some err) of
        Inl e \<Rightarrow> (db, Inl e)
      | Inr err' \<Rightarrow>
          (case owned_update now intent_id owner
                  (\<lambda>i. release_lease (i\<lparr> rpi_status := PubConflict, rpi_last_error := err' \<rparr>)) db of
             (db', _) \<Rightarrow>
               if changed_rows (holds_lease now intent_id owner) (rdb_intents db) > 0 then (db', Inr True)
               else if find_review_intent db intent_id = None
               then (db, storage_fail (review_intent_missing intent_id))
               else (db, Inr False)))"

definition reset_blocked_review_publication ::
    "factory_env \<Rightarrow> int \<Rightarrow> string \<Rightarrow> string \<Rightarrow> string \<Rightarrow> review_db \<Rightarrow> (review_db, review_publication_intent) db_result" where
  "reset_blocked_review_publication env now new_event_id intent_id operator db =
     (case get_review_publication_intent db intent_id of
        None \<Rightarrow> (db, storage_fail (''review publication intent '' @ intent_id @ '' not found''))
      | Some intent \<Rightarrow>
          if \<not> blocked_or_conflict (rpi_status intent)
          then (db, Inl (TriageError (''review publication intent '' @ intent_id @ '' is ''
                 @ publication_status_as_str (rpi_status intent)
                 @ '', not blocked; only a blocked or conflict intent can be reset'')))
          else
            (case bounded_json env (reset_payload (rpi_intent_id intent) operator (rpi_last_error intent)
                    (rpi_completed_steps intent)) of
               Inl e \<Rightarrow> (db, Inl e)
             | Inr payload \<Rightarrow>
                 (let reset = (\<lambda>i. release_lease (i\<lparr> rpi_status := PubPending, rpi_last_error := None,
                                                    rpi_retry_count := 0, rpi_updated_at := now \<rparr>));
                      db1 = update_review_intents
                        (\<lambda>i. rpi_intent_id i = intent_id \<and> blocked_or_conflict (rpi_status i)) reset db
                  in case record_event env
                          (reset_event new_event_id (rpi_run_id intent) ''review_publication_reset'' now payload)
                          (review_base db1) of
                       (_, Inl e) \<Rightarrow> (db, Inl e)
                     | (base', Inr _) \<Rightarrow> (set_review_base base' db1, Inr (reset intent)))))"

end
