(* ===== verification/ReviewPublisher.thy ===== *)
theory ReviewPublisher
  imports ReviewStore Publisher
begin

text \<open>
  \<open>src/review/publisher.rs\<close>: publishing a review as a preview comment on the issue or as a formal
  review of the pull request. GitHub is a \<open>review_port\<close> of arbitrary functions of the calls made so
  far, as in \<open>Publisher\<close>. While a call is under way the lease is renewed by a task of its own and other
  processes use the store: \<open>rpo_meanwhile\<close> is whatever they do to it.
\<close>

section \<open>Calls, port and actions\<close>

record pull_request_review =
  prv_id :: nat
  prv_user_login :: "string option"
  prv_body :: "string option"
  prv_commit_id :: "string option"
  prv_html_url :: "string option"

datatype review_call =
    RcLogin
  | RcListReviews nat nat
  | RcHeadSha nat
  | RcCreateReview nat string string "review_comment list"
  | RcCommentLogin
  | RcListComments nat nat
  | RcGetComment nat
  | RcCreateComment nat string
  | RcUpdateComment nat string

type_synonym review_history = "(review_call \<times> bool) list"

record review_port =
  rpo_login :: "review_history \<Rightarrow> symphony_error + string"
  rpo_list_reviews :: "nat \<Rightarrow> nat \<Rightarrow> review_history \<Rightarrow> symphony_error + pull_request_review list"
  rpo_head_sha :: "nat \<Rightarrow> review_history \<Rightarrow> symphony_error + string"
  rpo_create_review ::
    "nat \<Rightarrow> string \<Rightarrow> string \<Rightarrow> review_comment list \<Rightarrow> review_history \<Rightarrow> symphony_error + pull_request_review"
  rpo_comment_login :: "review_history \<Rightarrow> symphony_error + string"
  rpo_list_comments :: "nat \<Rightarrow> nat \<Rightarrow> review_history \<Rightarrow> symphony_error + github_issue_comment list"
  rpo_get_comment :: "nat \<Rightarrow> review_history \<Rightarrow> symphony_error + github_issue_comment"
  rpo_create_comment :: "nat \<Rightarrow> string \<Rightarrow> review_history \<Rightarrow> symphony_error + github_issue_comment"
  rpo_update_comment :: "nat \<Rightarrow> string \<Rightarrow> review_history \<Rightarrow> symphony_error + github_issue_comment"
  rpo_meanwhile :: "review_history \<Rightarrow> review_db \<Rightarrow> review_db"
  rpo_clock :: "nat \<Rightarrow> int"

record review_state =
  rvs_db :: review_db
  rvs_history :: review_history
  rvs_ticks :: nat

type_synonym 'a review_action = "(review_state, 'a) state_action"

definition review_ask :: "review_port \<Rightarrow> review_call \<Rightarrow> (review_history \<Rightarrow> symphony_error + 'a) \<Rightarrow> 'a review_action" where
  "review_ask po c answer \<sigma> =
     (let r = answer (rvs_history \<sigma>); h = rvs_history \<sigma> @ [(c, \<not> isl r)]
      in (r, \<sigma>\<lparr> rvs_history := h, rvs_db := rpo_meanwhile po h (rvs_db \<sigma>) \<rparr>))"

text \<open>A store operation that reads the clock \<open>readings\<close> times.\<close>

definition on_review_store ::
    "review_port \<Rightarrow> nat \<Rightarrow> ((nat \<Rightarrow> int) \<Rightarrow> review_db \<Rightarrow> (review_db, 'a) db_result) \<Rightarrow> 'a review_action" where
  "on_review_store po readings f \<sigma> =
     (case f (\<lambda>k. rpo_clock po (rvs_ticks \<sigma> + k)) (rvs_db \<sigma>) of
        (db, r) \<Rightarrow> (r, \<sigma>\<lparr> rvs_db := db, rvs_ticks := rvs_ticks \<sigma> + readings \<rparr>))"

definition review_publication_lease_seconds :: int where
  "review_publication_lease_seconds = 900"

definition review_created_step :: string where "review_created_step = ''review_created''"
definition findings_recorded_step :: string where "findings_recorded_step = ''findings_recorded''"
definition review_preview_comment_step :: string where "review_preview_comment_step = ''review_preview_comment''"

definition claim_lease :: "review_port \<Rightarrow> string \<Rightarrow> string \<Rightarrow> bool review_action" where
  "claim_lease po intent_id owner =
     on_review_store po 1 (\<lambda>clk db. ok_pair
       (claim_review_publication (clk 0) intent_id owner review_publication_lease_seconds db))"

definition record_review_step ::
    "factory_env \<Rightarrow> review_port \<Rightarrow> string \<Rightarrow> string \<Rightarrow> string \<Rightarrow> json \<Rightarrow> bool review_action" where
  "record_review_step env po intent_id owner step projection =
     on_review_store po 1 (\<lambda>clk.
       record_review_publication_step_owned env (clk 0) intent_id owner step PubPending projection)"

section \<open>The formal review\<close>

text \<open>Values of \<open>desired_effects\<close>.\<close>

definition effect_u64 :: "json \<Rightarrow> string \<Rightarrow> nat option" where
  "effect_u64 effects name =
     (case json_get effects name of Some (JNumber n) \<Rightarrow> as_u64 n | _ \<Rightarrow> None)"

definition intent_spec_version :: "json \<Rightarrow> nat option" where
  "intent_spec_version effects =
     (case effect_u64 effects ''approved_spec_version'' of
        Some v \<Rightarrow> if v \<le> u32_max then Some v else None | None \<Rightarrow> None)"

definition reviewer_of :: "pull_request_review \<Rightarrow> string" where
  "reviewer_of r = (case prv_user_login r of None \<Rightarrow> '''' | Some l \<Rightarrow> l)"

definition carries_marker :: "string \<Rightarrow> pull_request_review \<Rightarrow> bool" where
  "carries_marker mark r = (case prv_body r of None \<Rightarrow> False | Some body \<Rightarrow> contains_str mark body)"

text \<open>The reviews that carry the mark: each must be ours and of the reviewed head, and only one may exist.\<close>

fun owned_review ::
    "string \<Rightarrow> string \<Rightarrow> string \<Rightarrow> pull_request_review option \<Rightarrow> pull_request_review list
     \<Rightarrow> symphony_error + pull_request_review option" where
  "owned_review mark login head owned [] = Inr owned"
| "owned_review mark login head owned (r # rs) =
     (if \<not> eq_ignore_ascii_case (reviewer_of r) login
      then Inl (ReviewPublicationConflict (''formal review marker '' @ mark @ '' is owned by another GitHub login ''
             @ reviewer_of r))
      else if prv_commit_id r \<noteq> Some head
      then Inl (ReviewPublicationConflict (''formal review marker '' @ mark @ '' conflict: head ''
             @ (case prv_commit_id r of None \<Rightarrow> ''unknown'' | Some c \<Rightarrow> c) @ '' does not match expected '' @ head))
      else if owned \<noteq> None
      then Inl (ReviewPublicationConflict (''multiple formal reviews found for marker '' @ mark))
      else owned_review mark login head (Some r) rs)"

definition lift_result :: "symphony_error + 'a \<Rightarrow> ('s, 'a) state_action" where
  "lift_result r = (case r of Inl e \<Rightarrow> give_up e | Inr a \<Rightarrow> give a)"

definition cycle_reopened :: "string \<Rightarrow> string \<Rightarrow> string \<Rightarrow> symphony_error" where
  "cycle_reopened moment live expected =
     ReviewCycleReopened (''review cycle reopened '' @ moment @ '': live head '' @ live
       @ '' does not match expected '' @ expected)"

definition ask_head :: "review_port \<Rightarrow> nat \<Rightarrow> string review_action" where
  "ask_head po number = review_ask po (RcHeadSha number) (rpo_head_sha po number)"

definition expect_head :: "review_port \<Rightarrow> nat \<Rightarrow> string \<Rightarrow> string \<Rightarrow> unit review_action" where
  "expect_head po number moment expected =
     and_then (ask_head po number)
       (\<lambda>live. if live \<noteq> expected then give_up (cycle_reopened moment live expected) else give ())"

text \<open>After a failed creation the head is asked for once more, to say why.\<close>

definition create_formal_review ::
    "review_port \<Rightarrow> nat \<Rightarrow> string \<Rightarrow> string \<Rightarrow> review_comment list \<Rightarrow> pull_request_review review_action" where
  "create_formal_review po number head body comments \<sigma> =
     (case review_ask po (RcCreateReview number head body comments) (rpo_create_review po number head body comments) \<sigma> of
        (Inr r, \<sigma>1) \<Rightarrow> (Inr r, \<sigma>1)
      | (Inl e, \<sigma>1) \<Rightarrow>
          (case ask_head po number \<sigma>1 of
             (Inl _, \<sigma>2) \<Rightarrow> (Inl e, \<sigma>2)
           | (Inr live, \<sigma>2) \<Rightarrow>
               (if live \<noteq> head then (Inl (cycle_reopened ''during formal review creation'' live head), \<sigma>2)
                else (Inl e, \<sigma>2))))"

definition find_or_create_review ::
    "review_port \<Rightarrow> nat \<Rightarrow> nat \<Rightarrow> string \<Rightarrow> string \<Rightarrow> string \<Rightarrow> string \<Rightarrow> review_comment list
     \<Rightarrow> pull_request_review review_action" where
  "find_or_create_review po number max_pages mark login head body comments =
     and_then (review_ask po (RcListReviews number max_pages) (rpo_list_reviews po number max_pages))
       (\<lambda>reviews. and_then (lift_result (owned_review mark login head None (filter (carries_marker mark) reviews)))
          (\<lambda>owned. case owned of
             Some r \<Rightarrow> give r
           | None \<Rightarrow>
               and_then (expect_head po number ''before formal review creation'' head)
                 (\<lambda>_. create_formal_review po number head body comments)))"

definition review_identity_json :: "string \<Rightarrow> string \<Rightarrow> string \<Rightarrow> json" where
  "review_identity_json review_id review_url login =
     JObject [(''publisher_login'', JString login), (''review_id'', JString review_id), (''review_url'', JString review_url)]"

text \<open>The last step: \<open>false\<close> when the lease was lost.\<close>

definition record_findings ::
    "factory_env \<Rightarrow> review_port \<Rightarrow> string \<Rightarrow> string \<Rightarrow> review_findings_artifact \<Rightarrow> review_comment list \<Rightarrow> bool review_action" where
  "record_findings env po intent_id owner artifact comments =
     record_review_step env po intent_id owner findings_recorded_step
       (JObject [(''finding_count'', JNumber (PosInt (raf_finding_count artifact))),
                 (''inline_comment_count'', JNumber (PosInt (length comments)))])"

text \<open>A review that was found or created is bound to the intent before the step is recorded.\<close>

definition record_new_review ::
    "factory_env \<Rightarrow> review_port \<Rightarrow> string \<Rightarrow> string \<Rightarrow> string \<Rightarrow> pull_request_review \<Rightarrow> bool review_action" where
  "record_new_review env po intent_id owner login r =
     (let review_id = nat_digits (prv_id r);
          url = (case prv_html_url r of None \<Rightarrow> '''' | Some u \<Rightarrow> u)
      in and_then (on_review_store po 2 (\<lambda>clk db. ok_pair
             (bind_review_publication_review_owned (clk 0) (clk 1) intent_id owner review_id url login db)))
           (\<lambda>bound. if \<not> bound then give False
              else record_review_step env po intent_id owner review_created_step
                     (review_identity_json review_id url login)))"

definition bound_identity :: "review_publication_intent \<Rightarrow> (string \<times> string \<times> string) option" where
  "bound_identity intent =
     (case (rpi_review_id intent, rpi_review_url intent, rpi_publisher_login intent) of
        (Some i, Some u, Some l) \<Rightarrow> Some (i, u, l) | _ \<Rightarrow> None)"

text \<open>From the claimed lease to the last recorded step.\<close>

definition publish_claimed ::
    "factory_env \<Rightarrow> review_port \<Rightarrow> string \<Rightarrow> review_publication_intent \<Rightarrow> review_findings_artifact \<Rightarrow> nat \<Rightarrow> nat
     \<Rightarrow> string \<Rightarrow> string \<Rightarrow> review_comment list \<Rightarrow> bool review_action" where
  "publish_claimed env po owner intent artifact number max_pages login body comments =
     (let intent_id = rpi_intent_id intent; head = raf_reviewed_head_sha artifact;
          review_created = review_created_step \<in> set (rpi_completed_steps intent);
          bound = bound_identity intent;
          accept = expect_head po number ''while accepting formal review identity'' head;
          finish = record_findings env po intent_id owner artifact comments
      in case bound of
           Some (review_id, url, durable_login) \<Rightarrow>
             if \<not> eq_ignore_ascii_case durable_login login
             then give_up (ReviewPublicationConflict
                    (''formal review publisher identity conflict: durable login '' @ durable_login
                     @ '' does not match authenticated login '' @ login))
             else and_then accept (\<lambda>_.
               if review_created then finish
               else and_then (record_review_step env po intent_id owner review_created_step
                        (review_identity_json review_id url durable_login))
                      (\<lambda>recorded. if recorded then finish else give False))
         | None \<Rightarrow>
             if review_created then finish
             else if rpi_review_id intent \<noteq> None
             then give_up (TriageError ''formal review has no forge identity to record'')
             else and_then (find_or_create_review po number max_pages (review_marker intent_id) login head body comments)
               (\<lambda>r. and_then accept (\<lambda>_. and_then (record_new_review env po intent_id owner login r)
                 (\<lambda>recorded. if recorded then finish else give False))))"

definition publish_formal ::
    "factory_env \<Rightarrow> review_port \<Rightarrow> string \<Rightarrow> review_publication_intent \<Rightarrow> review_findings_artifact \<Rightarrow> nat \<Rightarrow> nat
     \<Rightarrow> bool review_action" where
  "publish_formal env po owner intent artifact number max_pages =
     (let intent_id = rpi_intent_id intent
      in if rpi_kind intent \<noteq> ''automatic'' \<and> rpi_kind intent \<noteq> ''formal''
         then give_up (TriageError (''formal review publisher cannot reconcile kind='' @ rpi_kind intent))
         else if findings_recorded_step \<in> set (rpi_completed_steps intent) then give True
         else and_then (claim_lease po intent_id owner) (\<lambda>claimed.
           if \<not> claimed then give False
           else and_then (review_ask po RcLogin (rpo_login po)) (\<lambda>login.
             and_then (\<lambda>\<sigma>. (Inr (list_review_finding_records_for_artifact (rvs_db \<sigma>) (raf_artifact_id artifact)), \<sigma>))
               (\<lambda>records.
                 case effect_u64 (rpi_desired_effects intent) ''issue_number'' of
                   None \<Rightarrow> give_up (TriageError (''formal review intent '' @ intent_id @ '' is missing issue_number''))
                 | Some issue_number \<Rightarrow>
                     publish_claimed env po owner intent artifact number max_pages login
                       (render_formal_review_body_with_records issue_number intent_id (rpi_run_id intent) artifact
                          (intent_spec_version (rpi_desired_effects intent)) records)
                       (render_review_comments artifact records)))))"

section \<open>The preview comment\<close>

definition marked_comment :: "string \<Rightarrow> string \<Rightarrow> github_issue_comment \<Rightarrow> bool" where
  "marked_comment mark publisher_login c \<longleftrightarrow>
     (case gc_body c of
        None \<Rightarrow> False
      | Some body \<Rightarrow> contains_str mark body \<and> eq_ignore_ascii_case (comment_author c) publisher_login)"

definition find_owned_marker :: "review_port \<Rightarrow> nat \<Rightarrow> string \<Rightarrow> string \<Rightarrow> nat \<Rightarrow> nat option review_action" where
  "find_owned_marker po issue_number intent_id publisher_login max_pages =
     and_then (review_ask po (RcListComments issue_number max_pages) (rpo_list_comments po issue_number max_pages))
       (\<lambda>comments. give (map_option gc_id (find (marked_comment (review_marker intent_id) publisher_login) comments)))"

definition bind_comment :: "review_port \<Rightarrow> string \<Rightarrow> string \<Rightarrow> nat \<Rightarrow> string \<Rightarrow> bool review_action" where
  "bind_comment po intent_id owner comment_id publisher_login =
     on_review_store po 1 (\<lambda>clk db. ok_pair
       (bind_review_publication_comment_owned (clk 0) intent_id owner (nat_digits comment_id) publisher_login db))"

definition create_bound_comment :: "review_port \<Rightarrow> string \<Rightarrow> string \<Rightarrow> nat \<Rightarrow> string \<Rightarrow> string \<Rightarrow> bool review_action" where
  "create_bound_comment po intent_id owner issue_number body publisher_login =
     and_then (review_ask po (RcCreateComment issue_number body) (rpo_create_comment po issue_number body))
       (\<lambda>created. bind_comment po intent_id owner (gc_id created) publisher_login)"

text \<open>The comment is ours: its text is replaced, and the binding written when it differs.\<close>

definition update_bound_comment ::
    "review_port \<Rightarrow> string \<Rightarrow> review_publication_intent \<Rightarrow> string \<Rightarrow> string \<Rightarrow> nat \<Rightarrow> github_issue_comment
     \<Rightarrow> bool review_action" where
  "update_bound_comment po owner intent body publisher_login comment_id existing =
     (if \<not> eq_ignore_ascii_case (comment_author existing) publisher_login
      then give_up (TriageError (''review publication comment '' @ nat_digits comment_id
             @ '' is not owned by publisher '' @ publisher_login))
      else and_then (review_ask po (RcUpdateComment comment_id body) (rpo_update_comment po comment_id body))
        (\<lambda>_. if rpi_comment_id intent = None \<or> rpi_publisher_login intent \<noteq> Some publisher_login
             then bind_comment po (rpi_intent_id intent) owner comment_id publisher_login
             else give True))"

definition get_issue_comment :: "review_port \<Rightarrow> nat \<Rightarrow> github_issue_comment review_action" where
  "get_issue_comment po comment_id = review_ask po (RcGetComment comment_id) (rpo_get_comment po comment_id)"

text \<open>A comment that is gone: the binding is cleared, and a marked comment looked for or written anew.\<close>

definition recover_comment ::
    "review_port \<Rightarrow> string \<Rightarrow> review_publication_intent \<Rightarrow> nat \<Rightarrow> string \<Rightarrow> nat \<Rightarrow> string \<Rightarrow> bool review_action" where
  "recover_comment po owner intent issue_number body max_pages publisher_login =
     (let intent_id = rpi_intent_id intent
      in and_then (on_review_store po 1 (\<lambda>clk db. ok_pair
             (clear_review_publication_comment_owned (clk 0) intent_id owner db)))
           (\<lambda>cleared. if \<not> cleared then give False
              else and_then (find_owned_marker po issue_number intent_id publisher_login max_pages)
                (\<lambda>found. case found of
                   None \<Rightarrow> create_bound_comment po intent_id owner issue_number body publisher_login
                 | Some comment_id \<Rightarrow>
                     and_then (bind_comment po intent_id owner comment_id publisher_login)
                       (\<lambda>bound. if \<not> bound then give False
                          else and_then (get_issue_comment po comment_id)
                            (update_bound_comment po owner intent body publisher_login comment_id)))))"

definition comment_gone :: "symphony_error \<Rightarrow> bool" where
  "comment_gone e = (case e of GithubApiStatus status m \<Rightarrow> status = 404 | _ \<Rightarrow> False)"

definition update_existing_comment ::
    "review_port \<Rightarrow> string \<Rightarrow> review_publication_intent \<Rightarrow> nat \<Rightarrow> string \<Rightarrow> nat \<Rightarrow> string \<Rightarrow> nat \<Rightarrow> bool review_action" where
  "update_existing_comment po owner intent issue_number body max_pages publisher_login comment_id \<sigma> =
     (case get_issue_comment po comment_id \<sigma> of
        (Inr existing, \<sigma>1) \<Rightarrow> update_bound_comment po owner intent body publisher_login comment_id existing \<sigma>1
      | (Inl e, \<sigma>1) \<Rightarrow>
          if comment_gone e then recover_comment po owner intent issue_number body max_pages publisher_login \<sigma>1
          else (Inl e, \<sigma>1))"

definition upsert_owned_comment ::
    "review_port \<Rightarrow> string \<Rightarrow> review_publication_intent \<Rightarrow> nat \<Rightarrow> string \<Rightarrow> nat \<Rightarrow> bool review_action" where
  "upsert_owned_comment po owner intent issue_number body max_pages =
     and_then (review_ask po RcCommentLogin (rpo_comment_login po))
       (\<lambda>publisher_login.
          case rpi_comment_id intent of
            Some raw \<Rightarrow>
              (case parse_u64 raw of
                 Inl err \<Rightarrow> give_up (TriageError (''invalid review publication comment id '' @ raw @ '': '' @ err))
               | Inr comment_id \<Rightarrow>
                   update_existing_comment po owner intent issue_number body max_pages publisher_login comment_id)
          | None \<Rightarrow>
              and_then (find_owned_marker po issue_number (rpi_intent_id intent) publisher_login max_pages)
                (\<lambda>found. case found of
                   Some comment_id \<Rightarrow>
                     update_existing_comment po owner intent issue_number body max_pages publisher_login comment_id
                 | None \<Rightarrow> create_bound_comment po (rpi_intent_id intent) owner issue_number body publisher_login))"

definition publish_preview ::
    "factory_env \<Rightarrow> review_port \<Rightarrow> string \<Rightarrow> review_publication_intent \<Rightarrow> review_findings_artifact \<Rightarrow> nat \<Rightarrow> nat
     \<Rightarrow> unit review_action" where
  "publish_preview env po owner intent artifact issue_number max_pages =
     (let intent_id = rpi_intent_id intent
      in if rpi_kind intent \<noteq> ''preview''
         then give_up (TriageError (''review preview publisher cannot reconcile kind='' @ rpi_kind intent))
         else if rpi_status intent = PubApplied \<and> review_preview_comment_step \<in> set (rpi_completed_steps intent)
         then give ()
         else and_then (claim_lease po intent_id owner) (\<lambda>claimed.
           if \<not> claimed then give ()
           else and_then
             (and_then (upsert_owned_comment po owner intent issue_number
                  (review_render_preview_comment intent_id (rpi_run_id intent) artifact) max_pages)
               (\<lambda>written. if \<not> written then give False
                  else on_review_store po 1 (\<lambda>clk.
                    complete_review_publication_owned env (clk 0) intent_id owner review_preview_comment_step)))
             (\<lambda>completed. if completed then give ()
                else on_review_store po 1 (\<lambda>clk db. (clear_review_publication_lease (clk 0) intent_id owner db, Inr ())))))"

end
