(* ===== verification/ReviewStoreFacts.thy ===== *)
theory ReviewStoreFacts
  imports ReviewStore ImplementationStoreFacts
begin

text \<open>
  The review tables as a transition system: which writes to a publication intent an actor may make
  at which time, the invariant of the stored findings, and their proofs for every operation.
\<close>

section \<open>The operations as steps\<close>

text \<open>
  A step at a time, by the owner of a lease or, for the operations without one, by nobody. The
  tables of the earlier stages may change in any way.
\<close>

inductive review_step :: "review_env \<Rightarrow> int \<Rightarrow> string option \<Rightarrow> review_db \<Rightarrow> review_db \<Rightarrow> bool" for env where
  earlier: "review_step env now None db (db\<lparr> rdb_impl := impl \<rparr>)"
| attempt: "review_step env now None db (fst (store_review_attempt_inputs (ren_factory env) now request db))"
| attempt_update: "review_step env now None db (fst (update_review_attempt (ren_factory env) now rq db))"
| artifact: "review_step env now None db (fst (store_review_artifact env now new_id new_record_id ra db))"
| create: "review_step env now None db
    (fst (create_review_publication_intent (ren_factory env) now new_id run_id artifact_id kind desired db))"
| reset: "review_step env now None db
    (fst (reset_blocked_review_publication (ren_factory env) now new_id intent_id operator db))"
| claim: "review_step env now (Some owner) db (fst (claim_review_publication now intent_id owner lease_seconds db))"
| clear: "review_step env now (Some owner) db (clear_review_publication_lease now intent_id owner db)"
| renew: "review_step env now (Some owner) db (fst (renew_review_publication_lease now intent_id owner lease_seconds db))"
| bind_comment: "review_step env now (Some owner) db
    (fst (bind_review_publication_comment_owned now intent_id owner comment_id login db))"
| clear_comment: "review_step env now (Some owner) db
    (fst (clear_review_publication_comment_owned now intent_id owner db))"
| bind_review: "review_step env now (Some owner) db
    (fst (bind_review_publication_review_owned earlier now intent_id owner review_id url login db))"
| route: "review_step env now (Some owner) db
    (fst (set_review_publication_route_state_owned earlier now intent_id owner state db))"
| recorded: "review_step env now (Some owner) db
    (fst (record_review_publication_step_owned (ren_factory env) now intent_id owner step status projection db))"
| complete: "review_step env now (Some owner) db
    (fst (complete_review_publication_owned (ren_factory env) now intent_id owner step db))"
| failed: "review_step env now (Some owner) db
    (fst (set_review_publication_error_owned (ren_factory env) now intent_id owner status err db))"
| supersede: "review_step env now (Some owner) db
    (fst (supersede_review_publication_owned (ren_factory env) now intent_id owner err db))"

definition review_db_empty :: "impl_db \<Rightarrow> review_db" where
  "review_db_empty impl =
     \<lparr> rdb_impl = impl, rdb_attempts = [], rdb_artifacts = [], rdb_findings = [], rdb_intents = [] \<rparr>"

inductive review_reachable :: "review_env \<Rightarrow> review_db \<Rightarrow> bool" for env where
  start: "review_reachable env (review_db_empty impl)"
| step: "review_reachable env db \<Longrightarrow> review_step env now actor db db' \<Longrightarrow> review_reachable env db'"

text \<open>What happens before \<open>deadline\<close> without the actor \<open>owner\<close>.\<close>

inductive others_run :: "review_env \<Rightarrow> string \<Rightarrow> int \<Rightarrow> review_db \<Rightarrow> review_db \<Rightarrow> bool" for env owner deadline where
  none_yet: "others_run env owner deadline db db"
| then_one: "others_run env owner deadline db db1 \<Longrightarrow> review_step env now actor db1 db2
    \<Longrightarrow> actor \<noteq> Some owner \<Longrightarrow> now < deadline \<Longrightarrow> others_run env owner deadline db db2"

section \<open>Who may write an intent\<close>

definition may_write :: "int \<Rightarrow> string option \<Rightarrow> review_publication_intent \<Rightarrow> bool" where
  "may_write now actor i \<longleftrightarrow>
     rpi_status i \<noteq> PubPending
     \<or> (\<exists>owner. actor = Some owner
          \<and> (rpi_lease_owner i = Some owner \<or> rpi_lease_owner i = None
             \<or> (case rpi_lease_expires_at i of None \<Rightarrow> True | Some t \<Rightarrow> t \<le> now)))"

definition intent_write ::
    "int \<Rightarrow> string option \<Rightarrow> review_publication_intent list \<Rightarrow> review_publication_intent list \<Rightarrow> bool" where
  "intent_write now actor rows rows' \<longleftrightarrow>
     rows' = rows
     \<or> (\<exists>i. rows' = rows @ [i] \<and> rpi_intent_id i \<notin> rpi_intent_id ` set rows)
     \<or> (\<exists>P f. rows' = update_where P f rows \<and> (\<forall>i. P i \<longrightarrow> may_write now actor i \<and> rpi_intent_id (f i) = rpi_intent_id i))"

lemma intent_write_refl [simp]: "intent_write now actor rows rows"
  by (simp add: intent_write_def)

lemma intent_write_update:
  "(\<And>i. P i \<Longrightarrow> may_write now actor i) \<Longrightarrow> (\<And>i. P i \<Longrightarrow> rpi_intent_id (f i) = rpi_intent_id i)
     \<Longrightarrow> intent_write now actor rows (update_where P f rows)"
  unfolding intent_write_def by blast

lemma holds_lease_may_write: "holds_lease now intent_id owner i \<Longrightarrow> may_write now (Some owner) i"
  by (simp add: holds_lease_def may_write_def)

lemma lease_free_may_write: "lease_free now intent_id owner i \<Longrightarrow> may_write now (Some owner) i"
  by (auto simp: lease_free_def may_write_def)

lemma owned_update_write:
  "(\<And>i. rpi_intent_id (f i) = rpi_intent_id i)
     \<Longrightarrow> intent_write now (Some owner) (rdb_intents db) (rdb_intents (fst (owned_update now intent_id owner f db)))"
  by (auto simp: owned_update_def update_review_intents_def intro!: intent_write_update intro: holds_lease_may_write)

lemma set_review_base_fields [simp]:
  "rdb_intents (set_review_base b db) = rdb_intents db" "rdb_findings (set_review_base b db) = rdb_findings db"
  "rdb_artifacts (set_review_base b db) = rdb_artifacts db" "rdb_attempts (set_review_base b db) = rdb_attempts db"
  "review_base (set_review_base b db) = b"
  by (simp_all add: set_review_base_def review_base_def)

lemma review_base_fields [simp]:
  "review_base (db\<lparr> rdb_attempts := as \<rparr>) = review_base db" "review_base (db\<lparr> rdb_artifacts := fs \<rparr>) = review_base db"
  "review_base (db\<lparr> rdb_findings := rs \<rparr>) = review_base db" "review_base (db\<lparr> rdb_intents := is \<rparr>) = review_base db"
  by (simp_all add: review_base_def)

lemma release_lease_id [simp]: "rpi_intent_id (release_lease i) = rpi_intent_id i"
  by (simp add: release_lease_def)

lemma ok_pair_fst [simp]: "fst (ok_pair r) = fst r"
  by (simp add: ok_pair_def split: prod.split)

lemma insert_review_attempt_intents:
  "insert_review_attempt a db = Some db' \<Longrightarrow> rdb_intents db' = rdb_intents db"
  by (auto simp: insert_review_attempt_def split: if_splits)

lemma insert_review_artifact_is:
  "insert_review_artifact a db = Some db' \<Longrightarrow> db' = db\<lparr> rdb_artifacts := rdb_artifacts db @ [a] \<rparr>"
  by (auto simp: insert_review_artifact_def split: if_splits)

lemma insert_review_artifact_new:
  "insert_review_artifact a db = Some db' \<Longrightarrow> raf_artifact_id a \<notin> raf_artifact_id ` set (rdb_artifacts db)
     \<and> \<not> list_ex (of_revision (raf_run_id a) (raf_reviewed_head_sha a) (raf_base_sha a)) (rdb_artifacts db)"
  by (auto simp: insert_review_artifact_def list_ex_iff split: if_splits)

lemma insert_findings_same:
  "insert_findings record_of n fs db = Some db'
     \<Longrightarrow> rdb_intents db' = rdb_intents db \<and> rdb_artifacts db' = rdb_artifacts db \<and> rdb_impl db' = rdb_impl db
       \<and> rdb_attempts db' = rdb_attempts db"
  by (induction fs arbitrary: n db) (auto simp: insert_finding_record_def split: if_splits option.splits)

lemma update_review_attempts_fields [simp]:
  "rdb_intents (fst (update_review_attempts attempt_id f db)) = rdb_intents db"
  "rdb_findings (fst (update_review_attempts attempt_id f db)) = rdb_findings db"
  "rdb_artifacts (fst (update_review_attempts attempt_id f db)) = rdb_artifacts db"
  "rdb_impl (fst (update_review_attempts attempt_id f db)) = rdb_impl db"
  by (simp_all add: update_review_attempts_def Let_def)

lemma resolve_findings_fields [simp]:
  "rdb_intents (resolve_findings now run_id artifact_id keys db) = rdb_intents db"
  "rdb_artifacts (resolve_findings now run_id artifact_id keys db) = rdb_artifacts db"
  "rdb_impl (resolve_findings now run_id artifact_id keys db) = rdb_impl db"
  "rdb_attempts (resolve_findings now run_id artifact_id keys db) = rdb_attempts db"
  by (simp_all add: resolve_findings_def Let_def)

text \<open>Either nothing is written, or the artifact, a record for each of its findings, and what they resolve.\<close>

lemma store_review_artifact_cases:
  assumes "store_review_artifact env now new_id new_record_id request db = (db', r)"
  obtains (failed) e where "db' = db" "r = Inl e"
  | (stored) stage a db1 db2 where
      "running_stage (ren_factory env) (review_base db) review_stage_name ''review'' (ra_stage_run_id request) = Inr stage"
      "insert_review_artifact a db = Some db1"
      "insert_findings
         (\<lambda>n. record_of_finding now (new_record_id n) (unresolved_keys db (sg_run_id stage)) (sg_run_id stage) new_id request)
         0 (rfm_findings (ra_manifest request)) db1 = Some db2"
      "raf_artifact_id a = new_id" "raf_run_id a = sg_run_id stage" "raf_manifest a = ra_manifest request"
      "raf_reviewed_head_sha a = ra_reviewed_head_sha request" "raf_base_sha a = ra_base_sha request"
      "rdb_artifacts db' = rdb_artifacts db @ [a]" "rdb_intents db' = rdb_intents db"
      "rdb_findings db' = rdb_findings
         (resolve_findings now (sg_run_id stage) new_id (manifest_keys (ra_manifest request)) db2)"
      "fr_run_id ` set (fs_runs (review_base db')) = fr_run_id ` set (fs_runs (review_base db))"
      "r = Inr a"
proof (cases r)
  case (Inl e)
  then have "db' = db"
    using assms by (auto simp: store_review_artifact_def Let_def split: if_splits sum.splits option.splits)
  with Inl failed show thesis by blast
next
  case (Inr a')
  define m where "m = ra_manifest request"
  have heads: "rfm_reviewed_head_sha m = ra_reviewed_head_sha request" "rfm_base_sha m = ra_base_sha request"
    using assms Inr by (simp_all add: store_review_artifact_def m_def Let_def split: if_splits)
  obtain manifest where manifest: "bounded_json (ren_factory env) (review_manifest_json env m) = Inr manifest"
    using assms Inr heads
    by (cases "bounded_json (ren_factory env) (review_manifest_json env m)")
      (simp_all add: store_review_artifact_def m_def Let_def)
  obtain stage where stage: "running_stage (ren_factory env) (review_base db) review_stage_name ''review''
      (ra_stage_run_id request) = Inr stage"
    using assms Inr heads manifest
    by (cases "running_stage (ren_factory env) (review_base db) review_stage_name ''review'' (ra_stage_run_id request)")
      (simp_all add: store_review_artifact_def m_def Let_def)
  define a where "a = \<lparr> raf_artifact_id = new_id, raf_run_id = sg_run_id stage, raf_stage_run_id = ra_stage_run_id request,
                    raf_attempt_id = ra_attempt_id request,
                    raf_draft_pr_artifact_id = ra_draft_pr_artifact_id request,
                    raf_implementation_artifact_id = ra_implementation_artifact_id request,
                    raf_spec_artifact_id = ra_spec_artifact_id request, raf_schema_version = rfm_schema_version m,
                    raf_reviewed_head_sha = ra_reviewed_head_sha request, raf_base_sha = ra_base_sha request,
                    raf_manifest = m, raf_no_findings = rfm_no_findings m,
                    raf_finding_count = length (rfm_findings m), raf_received_at = now,
                    raf_bytes_len = ra_bytes_len request \<rparr>"
  obtain db1 where db1: "insert_review_artifact a db = Some db1"
    using assms Inr heads manifest stage
    by (cases "insert_review_artifact a db") (simp_all add: store_review_artifact_def m_def a_def Let_def)
  define rec where "rec = (\<lambda>n. record_of_finding now (new_record_id n) (unresolved_keys db (sg_run_id stage))
      (sg_run_id stage) new_id request)"
  obtain db2 where db2: "insert_findings rec 0 (rfm_findings m) db1 = Some db2"
    using assms Inr heads manifest stage db1
    by (cases "insert_findings rec 0 (rfm_findings m) db1")
      (simp_all add: store_review_artifact_def m_def a_def rec_def Let_def)
  define db3 where "db3 = resolve_findings now (sg_run_id stage) new_id (manifest_keys m) db2"
  obtain result where result: "bounded_json (ren_factory env) (accepted_json m) = Inr result"
    using assms Inr heads manifest stage db1 db2
    by (cases "bounded_json (ren_factory env) (accepted_json m)")
      (simp_all add: store_review_artifact_def m_def a_def rec_def Let_def)
  define db4 where "db4 = fst (update_review_attempts (ra_attempt_id request)
      (\<lambda>b. b\<lparr> rat_status := ''completed'', rat_manifest := Some manifest,
              rat_validation_result := Some result, rat_updated_at := now \<rparr>) db3)"
  have db': "db' = set_review_base (set_run_stage now (sg_run_id stage) FactoryWaiting review_stage_name
          (complete_stage_run now (ra_stage_run_id request) (ra_usage request) (review_base db4))) db4
      \<and> get_review_artifact db' new_id = Some a'"
    using assms Inr heads manifest stage db1 db2 result
    by (auto simp: store_review_artifact_def m_def a_def rec_def db4_def db3_def Let_def split: option.splits)
  note same = insert_review_artifact_is [OF db1] insert_findings_same [OF db2]
  have arts: "rdb_artifacts db' = rdb_artifacts db @ [a]"
    using db' same by (simp add: db4_def db3_def)
  have "raf_artifact_id a = new_id" by (simp add: a_def)
  then have "r = Inr a"
    using db' Inr find_new [of raf_artifact_id a "rdb_artifacts db"] insert_review_artifact_new [OF db1]
    by (simp add: get_review_artifact_def arts)
  moreover have "fr_run_id ` set (fs_runs (review_base db')) = fr_run_id ` set (fs_runs (review_base db))"
  proof -
    have "review_base db4 = review_base db" using same by (simp add: review_base_def db4_def db3_def)
    then show ?thesis using db' by (simp add: set_run_stage_def complete_stage_run_def image_update_where)
  qed
  ultimately show thesis
    using stored [OF stage db1 db2 [unfolded rec_def m_def]] arts db' same
    by (simp add: a_def db4_def db3_def m_def)
qed

lemma store_review_artifact_intents:
  "rdb_intents (fst (store_review_artifact env now new_id new_record_id request db)) = rdb_intents db"
proof -
  obtain db' r where eq: "store_review_artifact env now new_id new_record_id request db = (db', r)" by fastforce
  then show ?thesis by (cases rule: store_review_artifact_cases [OF eq]) simp_all
qed

lemma step_writes:
  "review_step env now actor db db' \<Longrightarrow> intent_write now actor (rdb_intents db) (rdb_intents db')"
proof (induction rule: review_step.induct)
  case (attempt now db request)
  then show ?case
    by (auto simp: store_review_attempt_inputs_def dest: insert_review_attempt_intents split: sum.splits option.splits)
next
  case (attempt_update now db rq)
  have [simp]: "rdb_intents (fst (update_review_attempts i f db)) = rdb_intents db" for i f by simp
  show ?case
    by (auto simp: update_review_attempt_def update_review_attempts_def Let_def split: sum.splits)
next
  case (create now db new_id run_id artifact_id kind desired)
  then show ?case
    by (auto simp: create_review_publication_intent_def insert_review_intent_def intent_write_def
        split: option.splits sum.splits if_splits)
next
  case (reset now db new_id intent_id operator)
  have "intent_write now None (rdb_intents db)
      (update_where (\<lambda>i. rpi_intent_id i = intent_id \<and> blocked_or_conflict (rpi_status i)) f (rdb_intents db))"
    if "\<And>i. rpi_intent_id (f i) = rpi_intent_id i" for f
    using that by (auto intro!: intent_write_update simp: may_write_def blocked_or_conflict_def)
  then show ?case
    by (auto simp: reset_blocked_review_publication_def Let_def update_review_intents_def
        split: option.splits sum.splits prod.splits)
next
  case (claim now owner db intent_id lease_seconds)
  then show ?case
    by (auto simp: claim_review_publication_def update_review_intents_def
        intro!: intent_write_update intro: lease_free_may_write)
next
  case (clear now owner db intent_id)
  then show ?case
    by (auto simp: clear_review_publication_lease_def update_review_intents_def may_write_def intro!: intent_write_update)
next
  case (recorded now owner db intent_id step status projection)
  then show ?case
    by (auto simp: record_review_publication_step_owned_def Let_def intro!: owned_update_write
        split: option.splits sum.splits)
next
  case (complete now owner db intent_id step)
  then show ?case
    by (auto simp: complete_review_publication_owned_def Let_def intro!: owned_update_write
        split: option.splits sum.splits)
next
  case (failed now owner db intent_id status err)
  then show ?case
    by (auto simp: set_review_publication_error_owned_def intro!: owned_update_write split: sum.splits)
next
  case (supersede now owner db intent_id err)
  have "fst (supersede_review_publication_owned (ren_factory env) now intent_id owner err db) = db
      \<or> (\<exists>err'. fst (supersede_review_publication_owned (ren_factory env) now intent_id owner err db)
            = fst (owned_update now intent_id owner
                (\<lambda>i. release_lease (i\<lparr> rpi_status := PubConflict, rpi_last_error := err' \<rparr>)) db))"
    by (auto simp: supersede_review_publication_owned_def case_prod_unfold split: sum.splits)
  then show ?case by (auto intro!: owned_update_write)
qed (simp_all add: store_review_artifact_intents renew_review_publication_lease_def
    bind_review_publication_comment_owned_def clear_review_publication_comment_owned_def
    bind_review_publication_review_owned_def set_review_publication_route_state_owned_def owned_update_write)

section \<open>A live lease\<close>

lemma live_lease_not_writable:
  assumes "rpi_status i = PubPending" "rpi_lease_owner i = Some owner" "rpi_lease_expires_at i = Some deadline"
    and "actor \<noteq> Some owner" "now < deadline"
  shows "\<not> may_write now actor i"
  using assms by (auto simp: may_write_def)

lemma unwritable_stays:
  assumes "intent_write now actor rows rows'" "i \<in> set rows" "\<not> may_write now actor i"
  shows "i \<in> set rows'"
  using assms unfolding intent_write_def by (auto simp: set_update_where image_iff)

lemma intent_write_distinct:
  assumes "intent_write now actor rows rows'" "distinct (map rpi_intent_id rows)"
  shows "distinct (map rpi_intent_id rows')"
proof -
  have "map rpi_intent_id (update_where P f rows) = map rpi_intent_id rows"
    if "\<And>i. P i \<Longrightarrow> rpi_intent_id (f i) = rpi_intent_id i" for P f
    using that by (rule map_update_where)
  with assms show ?thesis unfolding intent_write_def by (auto simp: image_iff)
qed

lemma others_run_keeps:
  assumes "others_run env owner deadline db db'"
    and "i \<in> set (rdb_intents db)" "rpi_status i = PubPending" "rpi_lease_owner i = Some owner"
      "rpi_lease_expires_at i = Some deadline"
  shows "i \<in> set (rdb_intents db')"
  using assms
proof (induction rule: others_run.induct)
  case (then_one db db1 now actor db2)
  then show ?case
    using unwritable_stays [OF step_writes [OF then_one.hyps(2)]] live_lease_not_writable by blast
qed

lemma others_run_distinct:
  "others_run env owner deadline db db' \<Longrightarrow> distinct (map rpi_intent_id (rdb_intents db))
     \<Longrightarrow> distinct (map rpi_intent_id (rdb_intents db'))"
  by (induction rule: others_run.induct) (auto intro: intent_write_distinct step_writes)

lemma review_reachable_distinct_intents:
  "review_reachable env db \<Longrightarrow> distinct (map rpi_intent_id (rdb_intents db))"
  by (induction rule: review_reachable.induct) (auto simp: review_db_empty_def intro: intent_write_distinct step_writes)

text \<open>With unique ids an \<open>UPDATE\<close> of an intent by its id changes the one row, or none.\<close>

lemma changed_rows_one:
  assumes "distinct (map key rows)" "i \<in> set rows" "\<And>j. P j \<Longrightarrow> key j = key i"
  shows "changed_rows P rows = (if P i then 1 else 0)"
  using assms
proof (induction rows)
  case (Cons r rows)
  have others: "\<not> P j" if "j \<in> set rows" "r = i" for j
    using that Cons.prems by (metis distinct.simps(2) imageI list.set_map list.simps(9))
  show ?case
  proof (cases "r = i")
    case True
    then have "filter P rows = []" using others by (simp add: filter_empty_conv)
    with True show ?thesis by (simp add: changed_rows_def)
  next
    case False
    then have "i \<in> set rows" using Cons.prems(2) by simp
    then have "key r \<noteq> key i" using Cons.prems(1) by force
    then have "\<not> P r" using Cons.prems(3) by blast
    then show ?thesis using Cons \<open>i \<in> set rows\<close> by (simp add: changed_rows_def)
  qed
qed simp

lemma one_intent_changed_iff:
  assumes "distinct (map rpi_intent_id (rdb_intents db))" "i \<in> set (rdb_intents db)"
    and "\<And>j. P j \<Longrightarrow> rpi_intent_id j = rpi_intent_id i"
  shows "one_intent_changed P db \<longleftrightarrow> P i"
  using changed_rows_one [of rpi_intent_id "rdb_intents db" i P] assms by (simp add: one_intent_changed_def)

lemma owned_update_refused:
  assumes "distinct (map rpi_intent_id (rdb_intents db))" "i \<in> set (rdb_intents db)" "\<not> holds_lease now (rpi_intent_id i) owner i"
  shows "owned_update now (rpi_intent_id i) owner f db = (db, False)"
proof -
  have "\<not> holds_lease now (rpi_intent_id i) owner j" if "j \<in> set (rdb_intents db)" for j
    using assms that by (metis distinct_map holds_lease_def inj_onD)
  then have "update_where (holds_lease now (rpi_intent_id i) owner) g (rdb_intents db) = rdb_intents db" for g
    by (simp add: update_where_def map_idI)
  moreover have "\<not> one_intent_changed (holds_lease now (rpi_intent_id i) owner) db"
    using one_intent_changed_iff [OF assms(1,2), of "holds_lease now (rpi_intent_id i) owner"] assms(3)
    by (simp add: holds_lease_def)
  ultimately show ?thesis by (simp add: owned_update_def update_review_intents_def)
qed

lemma claim_refused:
  assumes "distinct (map rpi_intent_id (rdb_intents db))" "i \<in> set (rdb_intents db)" "\<not> lease_free now (rpi_intent_id i) owner i"
  shows "claim_review_publication now (rpi_intent_id i) owner secs db = (db, False)"
proof -
  have "\<not> lease_free now (rpi_intent_id i) owner j" if "j \<in> set (rdb_intents db)" for j
    using assms that by (metis distinct_map lease_free_def inj_onD)
  then have "update_where (lease_free now (rpi_intent_id i) owner) g (rdb_intents db) = rdb_intents db" for g
    by (simp add: update_where_def map_idI)
  moreover have "\<not> one_intent_changed (lease_free now (rpi_intent_id i) owner) db"
    using one_intent_changed_iff [OF assms(1,2), of "lease_free now (rpi_intent_id i) owner"] assms(3)
    by (simp add: lease_free_def)
  ultimately show ?thesis by (simp add: claim_review_publication_def update_review_intents_def)
qed

lemma claim_granted:
  assumes "distinct (map rpi_intent_id (rdb_intents db))" "i \<in> set (rdb_intents db)" "lease_free now (rpi_intent_id i) owner i"
  shows "snd (claim_review_publication now (rpi_intent_id i) owner secs db)"
    and "i\<lparr> rpi_lease_owner := Some owner, rpi_lease_expires_at := Some (lease_end now secs), rpi_updated_at := now \<rparr>
      \<in> set (rdb_intents (fst (claim_review_publication now (rpi_intent_id i) owner secs db)))"
  using one_intent_changed_iff [OF assms(1,2), of "lease_free now (rpi_intent_id i) owner"] assms
    updated_in [OF assms(2), of "lease_free now (rpi_intent_id i) owner"]
  by (simp_all add: claim_review_publication_def update_review_intents_def lease_free_def)

section \<open>The life cycle of findings\<close>

lemma insert_findings_is:
  assumes "insert_findings record_of n fs db = Some db'"
  shows "rdb_findings db' = rdb_findings db @ map (case_prod record_of) (enumerate n fs)"
    and "distinct (map rfr_finding_record_id (rdb_findings db)) \<Longrightarrow> distinct (map rfr_finding_record_id (rdb_findings db'))"
  using assms
proof (induction fs arbitrary: n db)
  case (Cons f fs)
  case 1
  then obtain db1 where db1: "insert_finding_record (record_of n f) db = Some db1"
      "insert_findings record_of (Suc n) fs db1 = Some db'"
    by (auto split: option.splits)
  then have "rdb_findings db1 = rdb_findings db @ [record_of n f]"
    by (auto simp: insert_finding_record_def split: if_splits)
  with Cons.IH(1) [OF db1(2)] show ?case by simp
next
  case (Cons f fs)
  case 2
  then obtain db1 where db1: "insert_finding_record (record_of n f) db = Some db1"
      "insert_findings record_of (Suc n) fs db1 = Some db'"
    by (auto split: option.splits)
  then have "rdb_findings db1 = rdb_findings db @ [record_of n f]"
      "rfr_finding_record_id (record_of n f) \<notin> rfr_finding_record_id ` set (rdb_findings db)"
    by (auto simp: insert_finding_record_def finding_conflict_def list_ex_iff split: if_splits)
  with Cons.IH(2) [OF _ db1(2)] 2(1) show ?case by simp
qed simp_all

text \<open>After a resolution every earlier record whose identity is not in the manifest is resolved.\<close>

lemma resolve_findings_is:
  assumes "distinct (map rfr_finding_record_id (rdb_findings db))"
  shows "rdb_findings (resolve_findings now run_id artifact_id keys db) =
    map (\<lambda>r. if rfr_run_id r = run_id \<and> rfr_lifecycle_state r \<noteq> LifecycleResolved \<and> rfr_artifact_id r \<noteq> artifact_id
                \<and> rfr_identity_key r \<notin> keys
             then r\<lparr> rfr_lifecycle_state := LifecycleResolved, rfr_updated_at := now \<rparr> else r) (rdb_findings db)"
proof -
  have "rfr_finding_record_id r \<in> rfr_finding_record_id ` {q \<in> set (rdb_findings db). Q q} \<longleftrightarrow> Q r"
    if "r \<in> set (rdb_findings db)" for r Q
    using assms that by (auto simp: distinct_map dest: inj_onD)
  from this [of _ "\<lambda>q. rfr_run_id q = run_id \<and> rfr_lifecycle_state q \<noteq> LifecycleResolved \<and> rfr_artifact_id q \<noteq> artifact_id
      \<and> rfr_identity_key q \<notin> keys"]
  show ?thesis
    by (simp add: resolve_findings_def unresolved_records_def update_where_def Let_def conj_assoc)
qed

text \<open>
  The invariant: record ids are unique, every record belongs to a stored artifact, a revision of a
  run is reviewed at most once, and what is unresolved is what the last artifact of the run found.
\<close>

definition run_reviews :: "review_db \<Rightarrow> string \<Rightarrow> review_findings_artifact list" where
  "run_reviews db run_id = filter (\<lambda>a. raf_run_id a = run_id) (rdb_artifacts db)"

definition open_keys :: "review_db \<Rightarrow> string \<Rightarrow> string set" where
  "open_keys db run_id =
     (if run_reviews db run_id = [] then {} else manifest_keys (raf_manifest (last (run_reviews db run_id))))"

definition revision_of :: "review_findings_artifact \<Rightarrow> string \<times> string \<times> string" where
  "revision_of a = (raf_run_id a, raf_reviewed_head_sha a, raf_base_sha a)"

definition findings_inv :: "review_db \<Rightarrow> bool" where
  "findings_inv db \<longleftrightarrow>
     distinct (map rfr_finding_record_id (rdb_findings db))
     \<and> rfr_artifact_id ` set (rdb_findings db) \<subseteq> raf_artifact_id ` set (rdb_artifacts db)
     \<and> distinct (map raf_artifact_id (rdb_artifacts db)) \<and> distinct (map revision_of (rdb_artifacts db))
     \<and> (\<forall>run_id. unresolved_keys db run_id = open_keys db run_id)"

lemma findings_inv_same:
  "rdb_findings db' = rdb_findings db \<Longrightarrow> rdb_artifacts db' = rdb_artifacts db \<Longrightarrow> findings_inv db' = findings_inv db"
  by (simp add: findings_inv_def unresolved_keys_def unresolved_records_def open_keys_def run_reviews_def)

lemma owned_update_findings [simp]:
  "rdb_findings (fst (owned_update now intent_id owner f db)) = rdb_findings db"
  "rdb_artifacts (fst (owned_update now intent_id owner f db)) = rdb_artifacts db"
  by (simp_all add: owned_update_def update_review_intents_def)

lemma filter_map_drop:
  "(\<And>x. P (g x) \<Longrightarrow> g x = x) \<Longrightarrow> filter P (map g xs) = filter (\<lambda>x. P (g x)) xs"
  by (induction xs) auto

lemma findings_inv_updates [simp]:
  "findings_inv (fst (owned_update now intent_id owner f db)) = findings_inv db"
  "findings_inv (update_review_intents P g db) = findings_inv db"
  "findings_inv (db\<lparr> rdb_impl := impl \<rparr>) = findings_inv db"
  by (rule findings_inv_same; simp add: update_review_intents_def)+

lemma unresolved_after:
  assumes old: "\<And>r. r \<in> set olds \<Longrightarrow> rfr_artifact_id r \<noteq> artifact_id"
    and new: "\<And>r. r \<in> set news \<Longrightarrow> rfr_artifact_id r = artifact_id \<and> rfr_run_id r = run_id
        \<and> rfr_lifecycle_state r \<noteq> LifecycleResolved"
    and keys: "rfr_identity_key ` set news = keys"
    and findings: "rdb_findings db' = map (\<lambda>r. if rfr_run_id r = run_id \<and> rfr_lifecycle_state r \<noteq> LifecycleResolved
                \<and> rfr_artifact_id r \<noteq> artifact_id \<and> rfr_identity_key r \<notin> keys
             then r\<lparr> rfr_lifecycle_state := LifecycleResolved, rfr_updated_at := now \<rparr> else r) (olds @ news)"
  shows "unresolved_keys db' run_id = keys"
    and "run' \<noteq> run_id \<Longrightarrow> unresolved_keys db' run'
      = rfr_identity_key ` {r \<in> set olds. rfr_run_id r = run' \<and> rfr_lifecycle_state r \<noteq> LifecycleResolved}"
proof -
  have records: "unresolved_records db' run = filter (\<lambda>r. rfr_run_id r = run \<and> rfr_lifecycle_state r \<noteq> LifecycleResolved
      \<and> \<not> (rfr_run_id r = run_id \<and> rfr_artifact_id r \<noteq> artifact_id \<and> rfr_identity_key r \<notin> keys)) (olds @ news)" for run
  proof -
    define g where "g = (\<lambda>r :: review_finding_record. if rfr_run_id r = run_id \<and> rfr_lifecycle_state r \<noteq> LifecycleResolved
        \<and> rfr_artifact_id r \<noteq> artifact_id \<and> rfr_identity_key r \<notin> keys
      then r\<lparr> rfr_lifecycle_state := LifecycleResolved, rfr_updated_at := now \<rparr> else r)"
    have open_iff: "rfr_run_id (g r) = rfr_run_id r"
      "rfr_lifecycle_state (g r) \<noteq> LifecycleResolved \<longleftrightarrow> rfr_lifecycle_state r \<noteq> LifecycleResolved
         \<and> \<not> (rfr_run_id r = run_id \<and> rfr_artifact_id r \<noteq> artifact_id \<and> rfr_identity_key r \<notin> keys)" for r
      by (auto simp: g_def)
    have "filter (\<lambda>r. rfr_run_id r = run \<and> rfr_lifecycle_state r \<noteq> LifecycleResolved) (map g (olds @ news))
        = filter (\<lambda>r. rfr_run_id (g r) = run \<and> rfr_lifecycle_state (g r) \<noteq> LifecycleResolved) (olds @ news)"
    proof (rule filter_map_drop)
      fix r assume "rfr_run_id (g r) = run \<and> rfr_lifecycle_state (g r) \<noteq> LifecycleResolved"
      then have "\<not> (rfr_run_id r = run_id \<and> rfr_artifact_id r \<noteq> artifact_id \<and> rfr_identity_key r \<notin> keys)"
        using open_iff(2) by blast
      then show "g r = r" unfolding g_def by (intro if_not_P) blast
    qed
    then show ?thesis
      unfolding unresolved_records_def findings g_def [symmetric] open_iff .
  qed
  have "set (unresolved_records db' run_id) = set news
      \<union> {r \<in> set olds. rfr_run_id r = run_id \<and> rfr_lifecycle_state r \<noteq> LifecycleResolved \<and> rfr_identity_key r \<in> keys}"
    unfolding records using old new by auto
  then show "unresolved_keys db' run_id = keys"
    unfolding unresolved_keys_def image_Un keys by simp (use keys in blast)
  assume "run' \<noteq> run_id"
  then have "set (unresolved_records db' run')
      = {r \<in> set olds. rfr_run_id r = run' \<and> rfr_lifecycle_state r \<noteq> LifecycleResolved}"
    unfolding records using new by auto
  then show "unresolved_keys db' run'
      = rfr_identity_key ` {r \<in> set olds. rfr_run_id r = run' \<and> rfr_lifecycle_state r \<noteq> LifecycleResolved}"
    by (simp add: unresolved_keys_def)
qed

lemma open_keys_append:
  assumes "rdb_artifacts db' = rdb_artifacts db @ [a]"
  shows "open_keys db' run_id = (if raf_run_id a = run_id then manifest_keys (raf_manifest a) else open_keys db run_id)"
  using assms by (simp add: open_keys_def run_reviews_def)

lemma store_review_artifact_stored:
  assumes "store_review_artifact env now new_id new_record_id request db = (db', Inr a)"
  obtains stage db1 db2 where
      "running_stage (ren_factory env) (review_base db) review_stage_name ''review'' (ra_stage_run_id request) = Inr stage"
      "insert_review_artifact a db = Some db1"
      "insert_findings
         (\<lambda>n. record_of_finding now (new_record_id n) (unresolved_keys db (sg_run_id stage)) (sg_run_id stage) new_id request)
         0 (rfm_findings (ra_manifest request)) db1 = Some db2"
      "raf_artifact_id a = new_id" "raf_run_id a = sg_run_id stage" "raf_manifest a = ra_manifest request"
      "rdb_artifacts db' = rdb_artifacts db @ [a]"
      "rdb_findings db' = rdb_findings
         (resolve_findings now (sg_run_id stage) new_id (manifest_keys (ra_manifest request)) db2)"
proof (cases rule: store_review_artifact_cases [OF assms])
  case (2 stage a' db1 db2)
  then have "a' = a" by simp
  with 2 show ?thesis by (intro that [of stage db1 db2]) simp_all
qed simp

lemma map_enumerate_snd: "map (\<lambda>x. h (snd x)) (enumerate n xs) = map h xs"
  by (induction xs arbitrary: n) simp_all

text \<open>What a stored artifact leaves behind.\<close>

lemma stored_artifact_findings:
  assumes store: "store_review_artifact env now new_id new_record_id request db = (db', Inr a)" and inv: "findings_inv db"
  shows "findings_inv db'" "rdb_artifacts db' = rdb_artifacts db @ [a]" "raf_manifest a = ra_manifest request"
    and "\<exists>stage. running_stage (ren_factory env) (review_base db) review_stage_name ''review'' (ra_stage_run_id request)
        = Inr stage \<and> raf_run_id a = sg_run_id stage"
    and "map (\<lambda>r. (rfr_identity_key r, rfr_lifecycle_state r))
         (filter (\<lambda>r. rfr_artifact_id r = raf_artifact_id a) (rdb_findings db'))
       = map (\<lambda>f. (finding_identity_key f,
            if finding_identity_key f \<in> open_keys db (raf_run_id a) then LifecyclePersisting else LifecycleNew))
         (rfm_findings (ra_manifest request))"
proof -
  obtain stage db1 db2 where stored:
    "running_stage (ren_factory env) (review_base db) review_stage_name ''review'' (ra_stage_run_id request) = Inr stage"
    "insert_review_artifact a db = Some db1"
    "insert_findings
       (\<lambda>n. record_of_finding now (new_record_id n) (unresolved_keys db (sg_run_id stage)) (sg_run_id stage) new_id request)
       0 (rfm_findings (ra_manifest request)) db1 = Some db2"
    "raf_artifact_id a = new_id" "raf_run_id a = sg_run_id stage" "raf_manifest a = ra_manifest request"
    "rdb_artifacts db' = rdb_artifacts db @ [a]"
    "rdb_findings db' = rdb_findings
       (resolve_findings now (sg_run_id stage) new_id (manifest_keys (ra_manifest request)) db2)"
    by (rule store_review_artifact_stored [OF store])
  define rec where "rec = (\<lambda>n. record_of_finding now (new_record_id n) (unresolved_keys db (sg_run_id stage))
      (sg_run_id stage) new_id request)"
  define fs where "fs = rfm_findings (ra_manifest request)"
  define news where "news = map (case_prod rec) (enumerate 0 fs)"
  define keys where "keys = manifest_keys (ra_manifest request)"
  have db1: "rdb_findings db1 = rdb_findings db" using insert_review_artifact_is [OF stored(2)] by simp
  have db2: "rdb_findings db2 = rdb_findings db @ news"
    and ids: "distinct (map rfr_finding_record_id (rdb_findings db2))"
    using insert_findings_is [OF stored(3)] inv by (simp_all add: db1 news_def rec_def fs_def findings_inv_def)
  have rec: "rfr_artifact_id (rec n f) = new_id" "rfr_run_id (rec n f) = sg_run_id stage"
    "rfr_lifecycle_state (rec n f) \<noteq> LifecycleResolved" "rfr_identity_key (rec n f) = finding_identity_key f"
    "rfr_lifecycle_state (rec n f) = (if finding_identity_key f \<in> unresolved_keys db (sg_run_id stage)
       then LifecyclePersisting else LifecycleNew)" for n f
    by (simp_all add: rec_def record_of_finding_def)
  have new: "rfr_artifact_id r = new_id \<and> rfr_run_id r = sg_run_id stage \<and> rfr_lifecycle_state r \<noteq> LifecycleResolved"
    if "r \<in> set news" for r
    using that rec by (auto simp: news_def)
  have fresh: "new_id \<notin> raf_artifact_id ` set (rdb_artifacts db)"
    and revision: "revision_of a \<notin> revision_of ` set (rdb_artifacts db)"
    using insert_review_artifact_new [OF stored(2)] stored(4)
    by (auto simp: revision_of_def of_revision_def list_ex_iff)
  then have old: "rfr_artifact_id r \<noteq> new_id" if "r \<in> set (rdb_findings db)" for r
    using that inv by (auto simp: findings_inv_def)
  have news_keys: "map rfr_identity_key news = map finding_identity_key fs"
    by (simp add: news_def o_def case_prod_unfold rec map_enumerate_snd)
  then have news_set: "rfr_identity_key ` set news = keys"
    by (metis keys_def manifest_keys_def fs_def list.set_map)
  note findings = stored(8) [unfolded resolve_findings_is [OF ids] db2, folded keys_def]
  note unresolved = unresolved_after [OF old new news_set findings]
  have olds: "unresolved_keys db run' = rfr_identity_key ` {r \<in> set (rdb_findings db). rfr_run_id r = run'
      \<and> rfr_lifecycle_state r \<noteq> LifecycleResolved}" for run'
    by (simp add: unresolved_keys_def unresolved_records_def)
  have "unresolved_keys db' run' = open_keys db' run'" for run'
    using unresolved(1) unresolved(2) [of run'] inv stored(5,6)
    by (auto simp: open_keys_append [OF stored(7)] keys_def findings_inv_def simp flip: olds)
  moreover have "distinct (map rfr_finding_record_id (rdb_findings db'))"
  proof -
    have "map rfr_finding_record_id (rdb_findings db') = map rfr_finding_record_id (rdb_findings db2)"
      unfolding findings db2 by simp
    then show ?thesis using ids by simp
  qed
  moreover have "rfr_artifact_id ` set (rdb_findings db') \<subseteq> raf_artifact_id ` set (rdb_artifacts db')"
  proof -
    have "rfr_artifact_id ` set (rdb_findings db') = rfr_artifact_id ` set (rdb_findings db @ news)"
      unfolding findings image_set by (rule arg_cong [where f = set]) simp
    then show ?thesis using inv new stored(4,7) by (auto simp: findings_inv_def)
  qed
  ultimately show "findings_inv db'"
    using inv fresh revision stored(4,7) by (simp add: findings_inv_def)
  show "rdb_artifacts db' = rdb_artifacts db @ [a]" "raf_manifest a = ra_manifest request" by fact+
  show "\<exists>stage. running_stage (ren_factory env) (review_base db) review_stage_name ''review'' (ra_stage_run_id request)
      = Inr stage \<and> raf_run_id a = sg_run_id stage"
    using stored by blast
  have "filter (\<lambda>r. rfr_artifact_id r = new_id) (rdb_findings db') = news"
  proof -
    define g where "g = (\<lambda>r :: review_finding_record. if rfr_run_id r = sg_run_id stage \<and> rfr_lifecycle_state r \<noteq> LifecycleResolved
        \<and> rfr_artifact_id r \<noteq> new_id \<and> rfr_identity_key r \<notin> keys
      then r\<lparr> rfr_lifecycle_state := LifecycleResolved, rfr_updated_at := now \<rparr> else r)"
    have art: "rfr_artifact_id (g r) = rfr_artifact_id r" for r by (simp add: g_def)
    have "filter (\<lambda>r. rfr_artifact_id r = new_id) (map g (rdb_findings db)) = []"
      using old by (auto simp: filter_empty_conv art)
    moreover have "map g news = news" using new by (intro map_idI) (simp add: g_def)
    moreover have "filter (\<lambda>r. rfr_artifact_id r = new_id) news = news" using new by (simp add: filter_id_conv)
    ultimately show ?thesis unfolding findings g_def [symmetric] by simp
  qed
  moreover have "map (\<lambda>r. (rfr_identity_key r, rfr_lifecycle_state r)) news
      = map (\<lambda>f. (finding_identity_key f,
           if finding_identity_key f \<in> open_keys db (raf_run_id a) then LifecyclePersisting else LifecycleNew)) fs"
    using inv stored(5)
    by (simp add: news_def o_def case_prod_unfold rec findings_inv_def
        map_enumerate_snd [of "\<lambda>f. (finding_identity_key f, if finding_identity_key f \<in> open_keys db (sg_run_id stage)
          then LifecyclePersisting else LifecycleNew)"])
  ultimately
  show "map (\<lambda>r. (rfr_identity_key r, rfr_lifecycle_state r))
       (filter (\<lambda>r. rfr_artifact_id r = raf_artifact_id a) (rdb_findings db'))
     = map (\<lambda>f. (finding_identity_key f,
          if finding_identity_key f \<in> open_keys db (raf_run_id a) then LifecyclePersisting else LifecycleNew))
       (rfm_findings (ra_manifest request))"
    using stored(4) by (simp add: fs_def)
qed

lemma insert_review_attempt_fields:
  "insert_review_attempt a db = Some db' \<Longrightarrow> rdb_findings db' = rdb_findings db \<and> rdb_artifacts db' = rdb_artifacts db"
  by (auto simp: insert_review_attempt_def split: if_splits)

lemma review_step_findings_inv: "review_step env now actor db db' \<Longrightarrow> findings_inv db \<Longrightarrow> findings_inv db'"
proof (induction rule: review_step.induct)
  case (artifact now db new_id new_record_id ra)
  obtain db' r where eq: "store_review_artifact env now new_id new_record_id ra db = (db', r)" by fastforce
  show ?case
  proof (cases r)
    case (Inl e)
    with eq have "db' = db" by (cases rule: store_review_artifact_cases [OF eq]) simp_all
    with artifact eq show ?thesis by simp
  qed (use artifact eq stored_artifact_findings(1) in auto)
next
  case (attempt now db request)
  then show ?case
    by (auto simp: store_review_attempt_inputs_def dest: insert_review_attempt_fields findings_inv_same
        split: sum.splits option.splits)
next
  case (attempt_update now db rq)
  have "findings_inv (db\<lparr> rdb_attempts := as \<rparr>) = findings_inv db" for as
    by (rule findings_inv_same) simp_all
  with attempt_update show ?case
    by (auto simp: update_review_attempt_def update_review_attempts_def Let_def split: sum.splits)
next
  case (create now db new_id run_id artifact_id kind desired)
  have "rdb_findings db' = rdb_findings db \<and> rdb_artifacts db' = rdb_artifacts db" if "insert_review_intent i db = Some db'" for i db'
    using that by (auto simp: insert_review_intent_def split: if_splits)
  with create show ?case
    by (auto simp: create_review_publication_intent_def dest: findings_inv_same split: option.splits sum.splits)
next
  case (reset now db new_id intent_id operator)
  have "rdb_findings (set_review_base b (update_review_intents P f db)) = rdb_findings db"
    "rdb_artifacts (set_review_base b (update_review_intents P f db)) = rdb_artifacts db" for b P f
    by (simp_all add: update_review_intents_def)
  note same = findings_inv_same [OF this]
  from reset show ?case
    by (auto simp: reset_blocked_review_publication_def Let_def same split: option.splits sum.splits prod.splits)
next
  case (recorded now owner db intent_id step status projection)
  then show ?case
    by (auto simp: record_review_publication_step_owned_def Let_def split: option.splits sum.splits)
next
  case (complete now owner db intent_id step)
  then show ?case
    by (auto simp: complete_review_publication_owned_def Let_def split: option.splits sum.splits)
next
  case (failed now owner db intent_id status err)
  then show ?case
    by (auto simp: set_review_publication_error_owned_def split: sum.splits)
next
  case (supersede now owner db intent_id err)
  then show ?case
    by (auto simp: supersede_review_publication_owned_def case_prod_unfold split: sum.splits)
qed (simp_all add: renew_review_publication_lease_def claim_review_publication_def
    clear_review_publication_lease_def
    bind_review_publication_comment_owned_def clear_review_publication_comment_owned_def
    bind_review_publication_review_owned_def set_review_publication_route_state_owned_def)

lemma review_reachable_findings: "review_reachable env db \<Longrightarrow> findings_inv db"
proof (induction rule: review_reachable.induct)
  case (start impl)
  show ?case
    by (simp add: findings_inv_def review_db_empty_def unresolved_keys_def unresolved_records_def open_keys_def
        run_reviews_def)
qed (rule review_step_findings_inv)

section \<open>Two findings with one identity\<close>

lemma insert_findings_keys:
  assumes "insert_findings record_of n fs db = Some db'"
    and "\<And>k f. rfr_run_id (record_of k f) = run_id \<and> rfr_reviewed_head_sha (record_of k f) = head
      \<and> rfr_base_sha (record_of k f) = base \<and> rfr_identity_key (record_of k f) = finding_identity_key f"
  shows "distinct (map finding_identity_key fs) \<and>
    (\<forall>r \<in> set (rdb_findings db). rfr_run_id r = run_id \<and> rfr_reviewed_head_sha r = head \<and> rfr_base_sha r = base
       \<longrightarrow> rfr_identity_key r \<notin> finding_identity_key ` set fs)"
  using assms
proof (induction fs arbitrary: n db)
  case (Cons f fs)
  then obtain db1 where db1: "insert_finding_record (record_of n f) db = Some db1"
      "insert_findings record_of (Suc n) fs db1 = Some db'"
    by (auto split: option.splits)
  have clear: "\<not> finding_conflict (record_of n f) r" if "r \<in> set (rdb_findings db)" for r
    using db1(1) that by (auto simp: insert_finding_record_def list_ex_iff split: if_splits)
  have "rdb_findings db1 = rdb_findings db @ [record_of n f]"
    using db1(1) by (auto simp: insert_finding_record_def split: if_splits)
  with Cons.IH [OF db1(2) Cons.prems(2)] clear Cons.prems(2) [of n f]
  show ?case by (auto simp: finding_conflict_def)
qed simp

text \<open>
  The parser accepts a manifest that makes the same claim about a file twice, at different lines; its
  findings have one identity, and the store never takes it.
\<close>

lemma same_identity_never_stored:
  assumes "\<not> distinct (map finding_identity_key (rfm_findings (ra_manifest request)))"
  shows "\<exists>e. store_review_artifact env now new_id new_record_id request db = (db, Inl e)"
proof -
  obtain db' r where eq: "store_review_artifact env now new_id new_record_id request db = (db', r)" by fastforce
  then show ?thesis
  proof (cases rule: store_review_artifact_cases [OF eq])
    case (2 stage a db1 db2)
    from insert_findings_keys [OF 2(3), of "sg_run_id stage" "ra_reviewed_head_sha request" "ra_base_sha request"] assms
    show ?thesis by (simp add: record_of_finding_def)
  qed simp
qed

text \<open>A manifest that is longer than an event may be cannot be stored either, though the parser takes four times as much.\<close>

lemma long_manifest_never_stored:
  assumes "factory_event_payload_max_bytes
      < utf8_len (fenv_json_text (ren_factory env) (review_manifest_json env (ra_manifest request)))"
  shows "\<exists>e. store_review_artifact env now new_id new_record_id request db = (db, Inl e)"
  using assms by (auto simp: store_review_artifact_def Let_def bounded_json_def storage_fail_def)

lemma manifest_may_be_longer: "review_manifest_max_bytes = 4 * factory_event_payload_max_bytes"
  by (simp add: review_manifest_max_bytes_def factory_event_payload_max_bytes_def)

end
