(* ===== verification/ReviewPublisherFacts.thy ===== *)
theory ReviewPublisherFacts
  imports ReviewPublisher PublisherFacts ReviewStoreFacts
begin

text \<open>
  Facts about the review publisher: which calls an action adds to the history, and what a
  recorded step leaves in the store.
\<close>

section \<open>Calls an action adds\<close>

definition is_creation :: "review_call \<times> bool \<Rightarrow> bool" where
  "is_creation c = (case fst c of RcCreateReview n h b cs \<Rightarrow> True | _ \<Rightarrow> False)"

definition no_creation :: "(review_call \<times> bool) list \<Rightarrow> bool" where
  "no_creation calls \<longleftrightarrow> filter is_creation calls = []"

lemma no_creation_simps [simp]:
  "no_creation []" "no_creation (xs @ ys) \<longleftrightarrow> no_creation xs \<and> no_creation ys"
  "no_creation (c # xs) \<longleftrightarrow> \<not> is_creation c \<and> no_creation xs"
  by (auto simp: no_creation_def)

lemma is_creation_simps [simp]:
  "is_creation (RcCreateReview n h b cs, ok)" "\<not> is_creation (RcLogin, ok)" "\<not> is_creation (RcListReviews n p, ok)"
  "\<not> is_creation (RcHeadSha n, ok)"
  by (simp_all add: is_creation_def)

text \<open>An action that creates no review, and its laws.\<close>

definition quiet :: "'a review_action \<Rightarrow> bool" where
  "quiet m \<longleftrightarrow> (\<forall>\<sigma>. \<exists>calls. rvs_history (snd (m \<sigma>)) = rvs_history \<sigma> @ calls \<and> no_creation calls)"

named_theorems quiet_intros

lemma quiet_history:
  assumes "quiet m" "m \<sigma> = (r, \<sigma>')"
  obtains calls where "rvs_history \<sigma>' = rvs_history \<sigma> @ calls" "no_creation calls"
  using assms unfolding quiet_def by (metis snd_conv)

lemma quiet_give [quiet_intros]: "quiet (give a)"
  by (simp add: quiet_def give_def)

lemma quiet_give_up [quiet_intros]: "quiet (give_up e)"
  by (simp add: quiet_def give_up_def)

lemma quiet_and_then [quiet_intros]:
  assumes m: "quiet m" and k: "\<And>a. quiet (k a)"
  shows "quiet (and_then m k)"
  unfolding quiet_def
proof
  fix \<sigma>
  obtain r \<sigma>1 where 1: "m \<sigma> = (r, \<sigma>1)" by fastforce
  obtain calls where calls: "rvs_history \<sigma>1 = rvs_history \<sigma> @ calls" "no_creation calls"
    by (rule quiet_history [OF m 1])
  show "\<exists>calls. rvs_history (snd (and_then m k \<sigma>)) = rvs_history \<sigma> @ calls \<and> no_creation calls"
  proof (cases r)
    case (Inl e)
    with calls show ?thesis by (auto simp: and_then_def 1)
  next
    case (Inr a)
    obtain r' \<sigma>2 where 2: "k a \<sigma>1 = (r', \<sigma>2)" by fastforce
    obtain calls' where "rvs_history \<sigma>2 = rvs_history \<sigma>1 @ calls'" "no_creation calls'"
      by (rule quiet_history [OF k 2])
    with Inr calls 2 show ?thesis by (intro exI [of _ "calls @ calls'"]) (simp add: and_then_def 1)
  qed
qed

lemma quiet_store [quiet_intros]: "quiet (on_review_store po n f)"
  by (simp add: quiet_def on_review_store_def split: prod.split)

lemma quiet_ask [quiet_intros]: "\<not> is_creation (c, True) \<Longrightarrow> quiet (review_ask po c answer)"
  by (simp add: quiet_def review_ask_def Let_def is_creation_def)

lemma quiet_expect_head [quiet_intros]: "quiet (expect_head po n moment head)"
  unfolding expect_head_def ask_head_def
  by (rule quiet_and_then, simp add: quiet_intros) (simp add: quiet_intros)

lemma quiet_record [quiet_intros]:
  "quiet (record_findings env po i o' artifact cs)" "quiet (record_review_step env po i o' step projection)"
  "quiet (claim_lease po i o')"
  by (simp_all add: record_findings_def record_review_step_def claim_lease_def quiet_store)

lemma quiet_record_new [quiet_intros]: "quiet (record_new_review env po i o' login r)"
  unfolding record_new_review_def Let_def by (rule quiet_and_then [OF quiet_store]) (simp add: quiet_intros)

text \<open>With no marked review in the list there is none to own.\<close>

lemma owned_review_some: "owned_review mark login head owned rs = Inr x \<Longrightarrow> owned \<noteq> None \<Longrightarrow> x \<noteq> None"
  by (induction rs arbitrary: owned) (auto split: if_splits)

lemma owned_review_none: "owned_review mark login head None rs = Inr None \<Longrightarrow> rs = []"
  by (cases rs) (auto split: if_splits dest: owned_review_some)

text \<open>
  The calls that lead to a review being created: the list of reviews has none with the marker, the
  head is the reviewed one, then the creation; whatever follows creates nothing.
\<close>

definition creation_calls ::
    "review_port \<Rightarrow> review_history \<Rightarrow> nat \<Rightarrow> nat \<Rightarrow> string \<Rightarrow> string \<Rightarrow> string \<Rightarrow> review_comment list
     \<Rightarrow> (review_call \<times> bool) list \<Rightarrow> bool" where
  "creation_calls po h number max_pages mark head body comments calls \<longleftrightarrow>
     (\<exists>ok rest reviews.
        calls = (RcListReviews number max_pages, True) # (RcHeadSha number, True)
          # (RcCreateReview number head body comments, ok) # rest
        \<and> no_creation rest
        \<and> rpo_list_reviews po number max_pages h = Inr reviews \<and> filter (carries_marker mark) reviews = []
        \<and> rpo_head_sha po number (h @ [(RcListReviews number max_pages, True)]) = Inr head)"

lemma creation_calls_append:
  "creation_calls po h number max_pages mark head body comments calls \<Longrightarrow> no_creation calls'
     \<Longrightarrow> creation_calls po h number max_pages mark head body comments (calls @ calls')"
  by (fastforce simp: creation_calls_def)

lemma create_formal_review_calls:
  assumes "create_formal_review po number head body comments \<sigma> = (r, \<sigma>')"
  shows "\<exists>ok rest. rvs_history \<sigma>' = rvs_history \<sigma> @ (RcCreateReview number head body comments, ok) # rest \<and> no_creation rest"
  using assms
  by (auto simp: create_formal_review_def review_ask_def ask_head_def Let_def split: sum.splits if_splits)

lemma find_or_create_calls:
  assumes "find_or_create_review po number max_pages mark login head body comments \<sigma> = (r, \<sigma>')"
  shows "\<exists>calls. rvs_history \<sigma>' = rvs_history \<sigma> @ calls
    \<and> (no_creation calls \<or> creation_calls po (rvs_history \<sigma>) number max_pages mark head body comments calls)"
proof (cases "rpo_list_reviews po number max_pages (rvs_history \<sigma>)")
  case (Inl e)
  then show ?thesis
    using assms by (auto simp: find_or_create_review_def and_then_def review_ask_def Let_def)
next
  case (Inr reviews)
  define \<sigma>1 where "\<sigma>1 = snd (review_ask po (RcListReviews number max_pages) (rpo_list_reviews po number max_pages) \<sigma>)"
  have h1: "rvs_history \<sigma>1 = rvs_history \<sigma> @ [(RcListReviews number max_pages, True)]"
    by (simp add: \<sigma>1_def review_ask_def Let_def Inr)
  have first: "review_ask po (RcListReviews number max_pages) (rpo_list_reviews po number max_pages) \<sigma> = (Inr reviews, \<sigma>1)"
    by (simp add: \<sigma>1_def review_ask_def Let_def Inr)
  consider (err) e where "owned_review mark login head None (filter (carries_marker mark) reviews) = Inl e"
    | (own) x where "owned_review mark login head None (filter (carries_marker mark) reviews) = Inr (Some x)"
    | (new) "owned_review mark login head None (filter (carries_marker mark) reviews) = Inr None"
    by (metis old.sum.exhaust option.exhaust)
  then show ?thesis
  proof cases
    case err
    then have "\<sigma>' = \<sigma>1"
      using assms by (simp add: find_or_create_review_def and_then_def first lift_result_def give_up_def)
    then show ?thesis by (simp add: h1)
  next
    case own
    then have "\<sigma>' = \<sigma>1"
      using assms by (simp add: find_or_create_review_def and_then_def first lift_result_def give_def)
    then show ?thesis by (simp add: h1)
  next
    case new
    then have none: "filter (carries_marker mark) reviews = []" by (rule owned_review_none)
    define \<sigma>2 where "\<sigma>2 = snd (ask_head po number \<sigma>1)"
    show ?thesis
    proof (cases "rpo_head_sha po number (rvs_history \<sigma>1) = Inr head")
      case True
      then have h2: "rvs_history \<sigma>2 = rvs_history \<sigma>1 @ [(RcHeadSha number, True)]"
        and head: "expect_head po number ''before formal review creation'' head \<sigma>1 = (Inr (), \<sigma>2)"
        by (simp_all add: \<sigma>2_def ask_head_def expect_head_def and_then_def review_ask_def Let_def give_def)
      have "create_formal_review po number head body comments \<sigma>2 = (r, \<sigma>')"
        using assms new
        by (simp add: find_or_create_review_def and_then_def first lift_result_def give_def head)
      from create_formal_review_calls [OF this] obtain ok rest where
        "rvs_history \<sigma>' = rvs_history \<sigma>2 @ (RcCreateReview number head body comments, ok) # rest" "no_creation rest"
        by blast
      then show ?thesis
        using True Inr none by (auto simp: h1 h2 creation_calls_def)
    next
      case False
      have "and_then (expect_head po number ''before formal review creation'' head)
          (\<lambda>_. create_formal_review po number head body comments) \<sigma>1 = (r, \<sigma>')"
        using assms new by (simp add: find_or_create_review_def and_then_def first lift_result_def give_def)
      with False have "\<exists>b. rvs_history \<sigma>' = rvs_history \<sigma>1 @ [(RcHeadSha number, b)]"
        by (auto simp: expect_head_def and_then_def ask_head_def review_ask_def Let_def give_up_def split: sum.splits if_splits)
      then show ?thesis by (auto simp: h1)
    qed
  qed
qed

lemma triple_of_and_then:
  assumes "and_then m k \<sigma> = (r, \<sigma>')"
  obtains (err) e where "m \<sigma> = (Inl e, \<sigma>')" "r = Inl e" | (ok) a \<sigma>1 where "m \<sigma> = (Inr a, \<sigma>1)" "k a \<sigma>1 = (r, \<sigma>')"
  using assms by (auto simp: and_then_def split: prod.splits sum.splits)

lemma publish_claimed_calls:
  assumes "publish_claimed env po owner intent artifact number max_pages login body comments \<sigma> = (r, \<sigma>')"
  shows "\<exists>calls. rvs_history \<sigma>' = rvs_history \<sigma> @ calls
    \<and> (no_creation calls
       \<or> creation_calls po (rvs_history \<sigma>) number max_pages (review_marker (rpi_intent_id intent))
           (raf_reviewed_head_sha artifact) body comments calls
         \<and> rpi_review_id intent = None \<and> review_created_step \<notin> set (rpi_completed_steps intent))"
  (is "?claim \<sigma> \<sigma>'")
proof -
  have quietly: "?claim \<sigma> \<sigma>'" if "quiet m" "m \<sigma> = (r, \<sigma>')" for m :: "bool review_action"
    using quiet_history [OF that] by metis
  show ?thesis
  proof (cases "bound_identity intent = None \<and> review_created_step \<notin> set (rpi_completed_steps intent)
      \<and> rpi_review_id intent = None")
    case False
    have "quiet (publish_claimed env po owner intent artifact number max_pages login body comments)"
    proof (cases "bound_identity intent")
      case None
      with False show ?thesis by (auto simp: publish_claimed_def Let_def intro: quiet_intros)
    next
      case (Some b)
      then show ?thesis
        by (auto simp: publish_claimed_def Let_def split: prod.split intro!: quiet_intros)
    qed
    from quietly [OF this assms] show ?thesis .
  next
    case True
    define head where "head = raf_reviewed_head_sha artifact"
    define mark where "mark = review_marker (rpi_intent_id intent)"
    define k where "k = (\<lambda>r. and_then (expect_head po number ''while accepting formal review identity'' head)
        (\<lambda>_. and_then (record_new_review env po (rpi_intent_id intent) owner login r)
          (\<lambda>recorded. if recorded then record_findings env po (rpi_intent_id intent) owner artifact comments
             else give False)))"
    have "quiet (k x)" for x unfolding k_def by (intro quiet_intros) (simp add: quiet_intros)
    then have later: "\<exists>calls. rvs_history \<sigma>2 = rvs_history \<sigma>1 @ calls \<and> no_creation calls"
      if "k x \<sigma>1 = (r, \<sigma>2)" for x \<sigma>1 \<sigma>2
      using that by (metis quiet_history)
    have run: "and_then (find_or_create_review po number max_pages mark login head body comments) k \<sigma> = (r, \<sigma>')"
      using assms True by (simp add: publish_claimed_def Let_def k_def head_def mark_def)
    from run show ?thesis
    proof (cases rule: triple_of_and_then)
      case (err e)
      from find_or_create_calls [OF err(1)] True show ?thesis unfolding head_def mark_def by blast
    next
      case (ok x \<sigma>1)
      from find_or_create_calls [OF ok(1)] obtain calls where calls: "rvs_history \<sigma>1 = rvs_history \<sigma> @ calls"
        "no_creation calls \<or> creation_calls po (rvs_history \<sigma>) number max_pages mark head body comments calls"
        by blast
      from later [OF ok(2)] obtain calls' where calls': "rvs_history \<sigma>' = rvs_history \<sigma>1 @ calls'" "no_creation calls'"
        by blast
      have "rvs_history \<sigma>' = rvs_history \<sigma> @ (calls @ calls')" using calls calls' by simp
      moreover have "no_creation (calls @ calls')
          \<or> creation_calls po (rvs_history \<sigma>) number max_pages mark head body comments (calls @ calls')"
        using calls(2) calls'(2) creation_calls_append by (metis no_creation_simps(2))
      ultimately show ?thesis using True unfolding head_def mark_def by blast
    qed
  qed
qed

lemma publish_formal_calls:
  assumes "publish_formal env po owner intent artifact number max_pages \<sigma> = (r, \<sigma>')"
  shows "\<exists>calls. rvs_history \<sigma>' = rvs_history \<sigma> @ calls
    \<and> (no_creation calls
       \<or> (\<exists>issue_number login records calls'.
            calls = (RcLogin, True) # calls' \<and> rpo_login po (rvs_history \<sigma>) = Inr login
            \<and> creation_calls po (rvs_history \<sigma> @ [(RcLogin, True)]) number max_pages
                (review_marker (rpi_intent_id intent)) (raf_reviewed_head_sha artifact)
                (render_formal_review_body_with_records issue_number (rpi_intent_id intent) (rpi_run_id intent) artifact
                   (intent_spec_version (rpi_desired_effects intent)) records)
                (render_review_comments artifact records) calls'
            \<and> rpi_review_id intent = None \<and> review_created_step \<notin> set (rpi_completed_steps intent)))"
proof -
  consider (skip) "rpi_kind intent \<noteq> ''automatic''" "rpi_kind intent \<noteq> ''formal''"
    | (finished) "rpi_kind intent = ''automatic'' \<or> rpi_kind intent = ''formal''"
        "findings_recorded_step \<in> set (rpi_completed_steps intent)"
    | (run) "rpi_kind intent = ''automatic'' \<or> rpi_kind intent = ''formal''"
        "findings_recorded_step \<notin> set (rpi_completed_steps intent)"
    by blast
  then show ?thesis
  proof cases
    case run
    define k where "k = (\<lambda>login. and_then
        (\<lambda>\<sigma>. (Inr (list_review_finding_records_for_artifact (rvs_db \<sigma>) (raf_artifact_id artifact)), \<sigma>))
        (\<lambda>records. case effect_u64 (rpi_desired_effects intent) ''issue_number'' of
                   None \<Rightarrow> give_up (TriageError (''formal review intent '' @ rpi_intent_id intent @ '' is missing issue_number''))
                 | Some issue_number \<Rightarrow>
                     publish_claimed env po owner intent artifact number max_pages login
                       (render_formal_review_body_with_records issue_number (rpi_intent_id intent) (rpi_run_id intent) artifact
                          (intent_spec_version (rpi_desired_effects intent)) records)
                       (render_review_comments artifact records)))"
    have "and_then (claim_lease po (rpi_intent_id intent) owner) (\<lambda>claimed.
           if \<not> claimed then give False else and_then (review_ask po RcLogin (rpo_login po)) k) \<sigma> = (r, \<sigma>')"
      using assms run unfolding k_def by (auto simp: publish_formal_def Let_def)
    then show ?thesis
    proof (cases rule: triple_of_and_then)
      case (err e)
      then show ?thesis using quiet_history [OF quiet_record(3) err(1)] by metis
    next
      case (ok claimed \<sigma>1)
      have h1: "rvs_history \<sigma>1 = rvs_history \<sigma>"
        using ok(1) by (auto simp: claim_lease_def on_review_store_def split: prod.splits)
      show ?thesis
      proof (cases claimed)
        case True
        then have "and_then (review_ask po RcLogin (rpo_login po)) k \<sigma>1 = (r, \<sigma>')" using ok(2) by simp
        then show ?thesis
        proof (cases rule: triple_of_and_then)
          case (err e)
          then show ?thesis by (auto simp: review_ask_def Let_def h1)
        next
          case (ok login \<sigma>2)
          then have login: "rpo_login po (rvs_history \<sigma>) = Inr login"
            and h2: "rvs_history \<sigma>2 = rvs_history \<sigma> @ [(RcLogin, True)]"
            by (auto simp: review_ask_def Let_def h1)
          define records where
            "records = list_review_finding_records_for_artifact (rvs_db \<sigma>2) (raf_artifact_id artifact)"
          show ?thesis
          proof (cases "effect_u64 (rpi_desired_effects intent) ''issue_number''")
            case None
            then have "\<sigma>' = \<sigma>2" using ok(2) by (simp add: k_def and_then_def give_up_def)
            then show ?thesis by (simp add: h2)
          next
            case (Some issue_number)
            then have "publish_claimed env po owner intent artifact number max_pages login
                (render_formal_review_body_with_records issue_number (rpi_intent_id intent) (rpi_run_id intent) artifact
                   (intent_spec_version (rpi_desired_effects intent)) records)
                (render_review_comments artifact records) \<sigma>2 = (r, \<sigma>')"
              using ok(2) by (simp add: k_def and_then_def records_def)
            from publish_claimed_calls [OF this] obtain calls where calls: "rvs_history \<sigma>' = rvs_history \<sigma>2 @ calls"
              "no_creation calls \<or> creation_calls po (rvs_history \<sigma>2) number max_pages
                  (review_marker (rpi_intent_id intent)) (raf_reviewed_head_sha artifact)
                  (render_formal_review_body_with_records issue_number (rpi_intent_id intent) (rpi_run_id intent) artifact
                     (intent_spec_version (rpi_desired_effects intent)) records)
                  (render_review_comments artifact records) calls
                \<and> rpi_review_id intent = None \<and> review_created_step \<notin> set (rpi_completed_steps intent)"
              by blast
            have "rvs_history \<sigma>' = rvs_history \<sigma> @ (RcLogin, True) # calls" by (simp add: calls(1) h2)
            with calls(2) login show ?thesis unfolding h2 by fastforce
          qed
        qed
      qed (use ok h1 in \<open>auto simp: give_def\<close>)
    qed
  qed (use assms in \<open>auto simp: publish_formal_def Let_def give_def give_up_def\<close>)
qed

section \<open>A recorded step stays in the store\<close>

lemma record_step_recorded:
  assumes "record_review_publication_step_owned env now intent_id owner step status projection db = (db', Inr True)"
    and "trim step \<noteq> []"
  shows "\<exists>i \<in> set (rdb_intents db'). rpi_intent_id i = intent_id \<and> trim step \<in> set (rpi_completed_steps i)"
proof -
  obtain intent where intent: "get_review_publication_intent db intent_id = Some intent"
    using assms(1) by (cases "get_review_publication_intent db intent_id")
      (simp_all add: record_review_publication_step_owned_def)
  define steps where "steps = add_step step (rpi_completed_steps intent)"
  obtain f where upd: "owned_update now intent_id owner f db = (db', True)"
    and f: "\<And>i. rpi_intent_id (f i) = rpi_intent_id i \<and> rpi_completed_steps (f i) = steps"
    using assms(1) intent
    by (auto simp: record_review_publication_step_owned_def Let_def ok_pair_def steps_def release_lease_def
        split: if_splits sum.splits prod.splits)
  then have "changed_rows (holds_lease now intent_id owner) (rdb_intents db) = 1"
    by (simp add: owned_update_def one_intent_changed_def)
  then have "filter (holds_lease now intent_id owner) (rdb_intents db) \<noteq> []"
    by (auto simp: changed_rows_def)
  then obtain i where "i \<in> set (rdb_intents db)" "holds_lease now intent_id owner i"
    by (auto simp: filter_empty_conv)
  from updated_in [of i _ "holds_lease now intent_id owner" "\<lambda>i. f (i\<lparr> rpi_updated_at := now \<rparr>)", OF this]
  have "f (i\<lparr> rpi_updated_at := now \<rparr>) \<in> set (rdb_intents db')"
    using upd by (auto simp: owned_update_def update_review_intents_def)
  moreover have "trim step \<in> set steps" using assms(2) by (simp add: steps_def add_step_def Let_def)
  ultimately show ?thesis
    using f \<open>holds_lease now intent_id owner i\<close> by (intro bexI) (simp_all add: holds_lease_def)
qed

end
