(* ===== verification/VerificationStore.thy ===== *)
theory VerificationStore
  imports ReviewStore Gate
begin

text \<open>
  The verification stage's part of \<open>src/triage/store.rs\<close>, over the tables of
  \<open>migrations/010_verification_stage.sql\<close>. The database is a \<open>verification_db\<close>: the tables of the
  earlier stages and, beside them, attempts, command runs, evidence, gates and publication intents.
\<close>

section \<open>Tables and requests\<close>

record verification_attempt_record =
  vat_attempt_id :: string
  vat_run_id :: string
  vat_stage_run_id :: string
  vat_pr_number :: nat
  vat_reviewed_head_sha :: string
  vat_base_sha :: string
  vat_spec_artifact_id :: string
  vat_implementation_artifact_id :: string
  vat_review_artifact_id :: string
  vat_configuration_revision :: string
  vat_execution_profile :: string
  vat_status :: string
  vat_workspace_path :: "string option"
  vat_evidence_dir :: "string option"
  vat_error :: "factory_error option"
  vat_verifier :: "process_identity option"
  vat_created_at :: int
  vat_updated_at :: int

record verification_gate_record =
  vga_gate_id :: string
  vga_run_id :: string
  vga_attempt_id :: string
  vga_status :: string
  vga_verifier_manifest :: "verifier_manifest option"
  vga_command_summary :: "json option"
  vga_computed_at :: "int option"
  vga_created_at :: int
  vga_updated_at :: int

record verification_publication_intent =
  vpi_intent_id :: string
  vpi_run_id :: string
  vpi_attempt_id :: string
  vpi_kind :: string
  vpi_status :: publication_status
  vpi_completed_steps :: "string list"
  vpi_retry_count :: nat
  vpi_last_error :: "factory_error option"
  vpi_comment_id :: "string option"
  vpi_created_at :: int
  vpi_updated_at :: int

record verification_db =
  vdb_review :: review_db
  vdb_attempts :: "verification_attempt_record list"
  vdb_runs :: "verification_command_run list"
  vdb_evidence :: "verification_evidence_record list"
  vdb_gates :: "verification_gate_record list"
  vdb_intents :: "verification_publication_intent list"

definition verification_base :: "verification_db \<Rightarrow> factory_store" where
  "verification_base db = review_base (vdb_review db)"

definition set_verification_base :: "factory_store \<Rightarrow> verification_db \<Rightarrow> verification_db" where
  "set_verification_base b db = db\<lparr> vdb_review := set_review_base b (vdb_review db) \<rparr>"

record store_verification_attempt_request =
  sva_attempt_id :: string
  sva_stage_run_id :: string
  sva_pr_number :: nat
  sva_reviewed_head_sha :: string
  sva_base_sha :: string
  sva_spec_artifact_id :: string
  sva_implementation_artifact_id :: string
  sva_review_artifact_id :: string
  sva_configuration_revision :: string
  sva_execution_profile :: string

record update_verification_attempt_request =
  uva_attempt_id :: string
  uva_status :: "string option"
  uva_workspace_path :: "string option"
  uva_evidence_dir :: "string option"
  uva_error :: "factory_error option"

record record_command_launch_request =
  rcl_run_id :: string
  rcl_attempt_id :: string
  rcl_ordinal :: nat
  rcl_name :: string
  rcl_kind :: verification_command_kind
  rcl_configuration_revision :: string
  rcl_command_sha256 :: string
  rcl_execution_profile :: string
  rcl_launch_nonce :: string

record complete_command_request =
  ccr_command_run_id :: string
  ccr_status :: string
  ccr_exit_code :: "int option"
  ccr_termination_reason :: "string option"
  ccr_passed :: "bool option"
  ccr_output_tail :: "string option"
  ccr_output_sha256 :: "string option"
  ccr_started_at :: int
  ccr_completed_at :: int
  ccr_duration_ms :: nat

definition verification_stage_name :: string where
  "verification_stage_name = ''verification''"

section \<open>Attempts\<close>

definition get_verification_attempt :: "verification_db \<Rightarrow> string \<Rightarrow> verification_attempt_record option" where
  "get_verification_attempt db attempt_id = find (\<lambda>a. vat_attempt_id a = attempt_id) (vdb_attempts db)"

definition list_verification_attempts :: "verification_db \<Rightarrow> string \<Rightarrow> verification_attempt_record list" where
  "list_verification_attempts db run_id =
     sort_key (\<lambda>a. - vat_created_at a) (filter (\<lambda>a. vat_run_id a = run_id) (vdb_attempts db))"

definition list_running_verification_attempts :: "verification_db \<Rightarrow> verification_attempt_record list" where
  "list_running_verification_attempts db =
     sort_key vat_created_at (filter (\<lambda>a. vat_status a = ''running'') (vdb_attempts db))"

definition insert_verification_attempt :: "verification_attempt_record \<Rightarrow> verification_db \<Rightarrow> verification_db option" where
  "insert_verification_attempt a db =
     (if (\<exists>b \<in> set (vdb_attempts db). vat_attempt_id b = vat_attempt_id a \<or> vat_stage_run_id b = vat_stage_run_id a)
         \<or> \<not> run_exists (verification_base db) (vat_run_id a)
         \<or> \<not> stage_exists (verification_base db) (vat_stage_run_id a)
         \<or> vat_spec_artifact_id a \<notin> sar_artifact_id ` set (sdb_spec_artifacts (idb_spec (rdb_impl (vdb_review db))))
         \<or> vat_implementation_artifact_id a \<notin> iar_artifact_id ` set (idb_artifacts (rdb_impl (vdb_review db)))
         \<or> vat_review_artifact_id a \<notin> raf_artifact_id ` set (rdb_artifacts (vdb_review db))
      then None else Some (db\<lparr> vdb_attempts := vdb_attempts db @ [a] \<rparr>))"

definition store_verification_attempt_inputs ::
    "factory_env \<Rightarrow> int \<Rightarrow> store_verification_attempt_request \<Rightarrow> verification_db
     \<Rightarrow> (verification_db, verification_attempt_record) db_result" where
  "store_verification_attempt_inputs env now request db =
     (case running_stage env (verification_base db) verification_stage_name ''verification'' (sva_stage_run_id request) of
        Inl e \<Rightarrow> (db, Inl e)
      | Inr stage \<Rightarrow>
      (case insert_verification_attempt
              \<lparr> vat_attempt_id = sva_attempt_id request, vat_run_id = sg_run_id stage,
                vat_stage_run_id = sva_stage_run_id request, vat_pr_number = sva_pr_number request,
                vat_reviewed_head_sha = sva_reviewed_head_sha request, vat_base_sha = sva_base_sha request,
                vat_spec_artifact_id = sva_spec_artifact_id request,
                vat_implementation_artifact_id = sva_implementation_artifact_id request,
                vat_review_artifact_id = sva_review_artifact_id request,
                vat_configuration_revision = sva_configuration_revision request,
                vat_execution_profile = sva_execution_profile request, vat_status = ''running'',
                vat_workspace_path = None, vat_evidence_dir = None, vat_error = None, vat_verifier = None,
                vat_created_at = now, vat_updated_at = now \<rparr> db of
         None \<Rightarrow> (db, constraint_fail env ''verification_attempts'')
       | Some db' \<Rightarrow>
           (db', found_or ''created verification attempt is missing''
                   (Inr (get_verification_attempt db' (sva_attempt_id request))))))"

text \<open>\<open>UPDATE .. WHERE id\<close>, an error when there is no such row.\<close>

definition update_verification_attempts ::
    "string \<Rightarrow> (verification_attempt_record \<Rightarrow> verification_attempt_record) \<Rightarrow> verification_db
     \<Rightarrow> (verification_db, unit) db_result" where
  "update_verification_attempts attempt_id f db =
     (let P = (\<lambda>a. vat_attempt_id a = attempt_id)
      in (db\<lparr> vdb_attempts := update_where P f (vdb_attempts db) \<rparr>,
          if changed_rows P (vdb_attempts db) = 0
          then storage_fail (''verification attempt '' @ attempt_id @ '' not found'') else Inr ()))"

definition update_verification_attempt ::
    "factory_env \<Rightarrow> int \<Rightarrow> update_verification_attempt_request \<Rightarrow> verification_db \<Rightarrow> (verification_db, unit) db_result" where
  "update_verification_attempt env now request db =
     (case bounded_error env (uva_error request) of
        Inl e \<Rightarrow> (db, Inl e)
      | Inr err \<Rightarrow>
          update_verification_attempts (uva_attempt_id request)
            (\<lambda>a. a\<lparr> vat_status := (case uva_status request of None \<Rightarrow> vat_status a | Some s \<Rightarrow> s),
                    vat_workspace_path := coalesce (uva_workspace_path request) (vat_workspace_path a),
                    vat_evidence_dir := coalesce (uva_evidence_dir request) (vat_evidence_dir a),
                    vat_error := err, vat_updated_at := now \<rparr>) db)"

definition record_verifier_identity ::
    "int \<Rightarrow> string \<Rightarrow> process_identity \<Rightarrow> verification_db \<Rightarrow> (verification_db, unit) db_result" where
  "record_verifier_identity now attempt_id identity db =
     update_verification_attempts attempt_id (\<lambda>a. a\<lparr> vat_verifier := Some identity, vat_updated_at := now \<rparr>) db"

section \<open>Candidates\<close>

record a5_eligible_verification_run =
  a5_run :: factory_run_record
  a5_draft_pr :: draft_pr_artifact_record
  a5_review_artifact :: review_findings_artifact
  a5_route_state :: "string option"

definition of_reviewed_revision :: "string \<Rightarrow> review_findings_artifact \<Rightarrow> verification_attempt_record \<Rightarrow> bool" where
  "of_reviewed_revision run_id a v \<longleftrightarrow>
     vat_run_id v = run_id \<and> vat_reviewed_head_sha v = raf_reviewed_head_sha a \<and> vat_base_sha v = raf_base_sha a"

definition verification_failures :: "verification_db \<Rightarrow> string \<Rightarrow> review_findings_artifact \<Rightarrow> nat" where
  "verification_failures db run_id a =
     length (filter (\<lambda>v. of_reviewed_revision run_id a v
       \<and> (vat_status v = ''failed'' \<or> vat_status v = ''interrupted'' \<or> vat_status v = ''blocked'')) (vdb_attempts db))"

definition verification_completed :: "verification_db \<Rightarrow> string \<Rightarrow> review_findings_artifact \<Rightarrow> bool" where
  "verification_completed db run_id a \<longleftrightarrow>
     list_ex (\<lambda>v. of_reviewed_revision run_id a v
       \<and> list_ex (\<lambda>s. sg_stage_run_id s = vat_stage_run_id v \<and> sg_status s = StageCompleted)
           (fs_stage_runs (verification_base db))) (vdb_attempts db)"

definition a5_eligible ::
    "verification_db \<Rightarrow> nat \<Rightarrow> factory_run_record \<Rightarrow> review_findings_artifact \<Rightarrow> review_publication_intent
     \<Rightarrow> draft_pr_artifact_record \<Rightarrow> bool" where
  "a5_eligible db max_attempts r a p d \<longleftrightarrow>
     raf_run_id a = fr_run_id r
     \<and> rpi_artifact_id p = raf_artifact_id a \<and> rpi_kind p = ''automatic'' \<and> rpi_status p = PubApplied
     \<and> dpr_artifact_id d = raf_draft_pr_artifact_id a \<and> dpr_draft d
     \<and> \<not> stage_in_progress (verification_base db) verification_stage_name (fr_run_id r)
     \<and> \<not> verification_completed db (fr_run_id r) a
     \<and> verification_failures db (fr_run_id r) a < max_attempts"

definition list_a5_eligible_verification_runs :: "verification_db \<Rightarrow> nat \<Rightarrow> a5_eligible_verification_run list" where
  "list_a5_eligible_verification_runs db max_attempts =
     remdups
       (sort_key (\<lambda>e. fr_updated_at (a5_run e))
         (sort_key (\<lambda>e. - raf_received_at (a5_review_artifact e))
           [\<lparr> a5_run = r, a5_draft_pr = d, a5_review_artifact = a, a5_route_state = rpi_route_state p \<rparr>.
              r \<leftarrow> fs_runs (verification_base db), a \<leftarrow> rdb_artifacts (vdb_review db),
              p \<leftarrow> rdb_intents (vdb_review db), d \<leftarrow> idb_draft_prs (rdb_impl (vdb_review db)),
              a5_eligible db max_attempts r a p d]))"

section \<open>Command runs\<close>

definition command_statuses :: "string list" where
  "command_statuses = [''launching'', ''running'', ''completed'', ''failed'', ''interrupted'', ''not_run'']"

definition insert_command_run :: "verification_command_run \<Rightarrow> verification_db \<Rightarrow> verification_db option" where
  "insert_command_run c db =
     (if (\<exists>b \<in> set (vdb_runs db).
            cr_command_run_id b = cr_command_run_id c
            \<or> cr_attempt_id b = cr_attempt_id c \<and> cr_ordinal b = cr_ordinal c)
         \<or> \<not> run_exists (verification_base db) (cr_run_id c)
         \<or> cr_attempt_id c \<notin> vat_attempt_id ` set (vdb_attempts db) \<or> cr_status c \<notin> set command_statuses
      then None else Some (db\<lparr> vdb_runs := vdb_runs db @ [c] \<rparr>))"

definition record_verification_command_launch ::
    "factory_env \<Rightarrow> int \<Rightarrow> string \<Rightarrow> record_command_launch_request \<Rightarrow> verification_db \<Rightarrow> (verification_db, string) db_result" where
  "record_verification_command_launch env now new_id request db =
     (case insert_command_run
             \<lparr> cr_command_run_id = new_id, cr_run_id = rcl_run_id request, cr_attempt_id = rcl_attempt_id request,
               cr_ordinal = rcl_ordinal request, cr_name = rcl_name request, cr_kind = rcl_kind request,
               cr_configuration_revision = rcl_configuration_revision request,
               cr_command_sha256 = rcl_command_sha256 request, cr_status = ''launching'',
               cr_launch_nonce = Some (rcl_launch_nonce request), cr_pid = None, cr_process_group_id = None,
               cr_process_start_token = None, cr_executable_identity = None, cr_container_id = None,
               cr_started_at = None, cr_completed_at = None, cr_duration_ms = None, cr_exit_code = None,
               cr_termination_reason = None, cr_passed = None, cr_output_tail = None, cr_output_sha256 = None,
               cr_execution_profile = rcl_execution_profile request, cr_created_at = now, cr_updated_at = now \<rparr> db of
        None \<Rightarrow> (db, constraint_fail env ''verification_command_runs'')
      | Some db' \<Rightarrow> (db', Inr new_id))"

text \<open>\<open>UPDATE\<close> of the command runs that satisfy a condition, an error when there is none.\<close>

definition update_command_runs ::
    "(verification_command_run \<Rightarrow> bool) \<Rightarrow> (verification_command_run \<Rightarrow> verification_command_run) \<Rightarrow> string
     \<Rightarrow> verification_db \<Rightarrow> (verification_db, unit) db_result" where
  "update_command_runs P f message db =
     (db\<lparr> vdb_runs := update_where P f (vdb_runs db) \<rparr>,
      if changed_rows P (vdb_runs db) = 0 then storage_fail message else Inr ())"

definition launching_with :: "string \<Rightarrow> string \<Rightarrow> verification_command_run \<Rightarrow> bool" where
  "launching_with command_run_id nonce c \<longleftrightarrow>
     cr_command_run_id c = command_run_id \<and> cr_launch_nonce c = Some nonce \<and> cr_status c = ''launching''"

definition cas_verification_launch_identity ::
    "int \<Rightarrow> string \<Rightarrow> string \<Rightarrow> process_identity \<Rightarrow> verification_db \<Rightarrow> (verification_db, unit) db_result" where
  "cas_verification_launch_identity now command_run_id launch_nonce identity db =
     update_command_runs (launching_with command_run_id launch_nonce)
       (\<lambda>c. c\<lparr> cr_status := ''running'', cr_pid := Some (pid_pid identity),
               cr_process_group_id := Some (pid_process_group_id identity),
               cr_process_start_token := pid_start_token identity,
               cr_executable_identity := pid_executable identity, cr_started_at := Some now, cr_updated_at := now \<rparr>)
       (''launch CAS failed for command run '' @ command_run_id @ '': not launching or nonce mismatch'') db"

definition cas_verification_container ::
    "int \<Rightarrow> string \<Rightarrow> string \<Rightarrow> string \<Rightarrow> verification_db \<Rightarrow> (verification_db, unit) db_result" where
  "cas_verification_container now command_run_id launch_nonce container_id db =
     update_command_runs (launching_with command_run_id launch_nonce)
       (\<lambda>c. c\<lparr> cr_status := ''running'', cr_container_id := Some container_id, cr_started_at := Some now,
               cr_updated_at := now \<rparr>)
       (''container CAS failed for command run '' @ command_run_id @ '': not launching or nonce mismatch'') db"

definition command_run_missing :: "string \<Rightarrow> string" where
  "command_run_missing command_run_id = ''verification command run '' @ command_run_id @ '' not found''"

text \<open>The status is the caller's; one that the table does not allow fails when there is a row.\<close>

definition complete_verification_command ::
    "factory_env \<Rightarrow> complete_command_request \<Rightarrow> verification_db \<Rightarrow> (verification_db, unit) db_result" where
  "complete_verification_command env request db =
     (let P = (\<lambda>c. cr_command_run_id c = ccr_command_run_id request)
      in if changed_rows P (vdb_runs db) \<noteq> 0 \<and> ccr_status request \<notin> set command_statuses
         then (db, constraint_fail env ''verification_command_runs'')
         else update_command_runs P
           (\<lambda>c. c\<lparr> cr_status := ccr_status request, cr_exit_code := ccr_exit_code request,
                   cr_termination_reason := ccr_termination_reason request, cr_passed := ccr_passed request,
                   cr_output_tail := ccr_output_tail request, cr_output_sha256 := ccr_output_sha256 request,
                   cr_completed_at := Some (ccr_completed_at request),
                   cr_duration_ms := Some (ccr_duration_ms request), cr_updated_at := ccr_completed_at request \<rparr>)
           (command_run_missing (ccr_command_run_id request)) db)"

definition mark_verification_command_not_run ::
    "int \<Rightarrow> string \<Rightarrow> verification_db \<Rightarrow> (verification_db, unit) db_result" where
  "mark_verification_command_not_run now command_run_id db =
     update_command_runs (\<lambda>c. cr_command_run_id c = command_run_id)
       (\<lambda>c. c\<lparr> cr_status := ''not_run'', cr_updated_at := now \<rparr>) (command_run_missing command_run_id) db"

definition list_verification_command_runs :: "verification_db \<Rightarrow> string \<Rightarrow> verification_command_run list" where
  "list_verification_command_runs db attempt_id =
     sort_key cr_ordinal (filter (\<lambda>c. cr_attempt_id c = attempt_id) (vdb_runs db))"

section \<open>Evidence and gates\<close>

text \<open>An insertion that becomes an update when the attempt has evidence at the path.\<close>

definition upsert_evidence ::
    "factory_env \<Rightarrow> int \<Rightarrow> verification_evidence_record \<Rightarrow> verification_db \<Rightarrow> (verification_db, unit) db_result" where
  "upsert_evidence env now r db =
     (let same = (\<lambda>e. ve_attempt_id e = ve_attempt_id r \<and> ve_relative_path e = ve_relative_path r)
      in if \<not> run_exists (verification_base db) (ve_run_id r)
            \<or> ve_attempt_id r \<notin> vat_attempt_id ` set (vdb_attempts db)
            \<or> list_ex (\<lambda>e. ve_evidence_id e = ve_evidence_id r \<and> \<not> same e) (vdb_evidence db)
         then (db, constraint_fail env ''verification_evidence'')
         else if list_ex same (vdb_evidence db)
         then (db\<lparr> vdb_evidence := update_where same
                (\<lambda>e. e\<lparr> ve_sha256 := ve_sha256 r, ve_bytes_len := ve_bytes_len r, ve_collected_at := now \<rparr>)
                (vdb_evidence db) \<rparr>, Inr ())
         else (db\<lparr> vdb_evidence := vdb_evidence db @ [r\<lparr> ve_collected_at := now \<rparr>] \<rparr>, Inr ()))"

text \<open>No transaction: what was written before an error stays.\<close>

fun store_verification_evidence ::
    "factory_env \<Rightarrow> int \<Rightarrow> verification_evidence_record list \<Rightarrow> verification_db \<Rightarrow> (verification_db, unit) db_result" where
  "store_verification_evidence env now [] db = (db, Inr ())"
| "store_verification_evidence env now (r # rs) db =
     (case upsert_evidence env now r db of
        (db', Inl e) \<Rightarrow> (db', Inl e)
      | (db', Inr _) \<Rightarrow> store_verification_evidence env now rs db')"

definition list_verification_evidence :: "verification_db \<Rightarrow> string \<Rightarrow> verification_evidence_record list" where
  "list_verification_evidence db attempt_id =
     sort_key ve_collected_at (filter (\<lambda>e. ve_attempt_id e = attempt_id) (vdb_evidence db))"

definition verifier_criterion_json :: "verifier_criterion \<Rightarrow> json" where
  "verifier_criterion_json c =
     JObject
       [(''index'', JNumber (PosInt (vc_index c))),
        (''status'', JString (verifier_criterion_status_as_str (vc_status c))),
        (''rationale'', JString (vc_rationale c)), (''evidence'', json_string_list (vc_evidence c))]"

definition verifier_manifest_json :: "verifier_manifest \<Rightarrow> json" where
  "verifier_manifest_json m =
     JObject
       [(''schema_version'', JNumber (PosInt (vm_schema_version m))),
        (''spec_artifact_id'', JString (vm_spec_artifact_id m)),
        (''implementation_artifact_id'', JString (vm_implementation_artifact_id m)),
        (''review_artifact_id'', JString (vm_review_artifact_id m)),
        (''reviewed_head_sha'', JString (vm_reviewed_head_sha m)), (''base_sha'', JString (vm_base_sha m)),
        (''summary'', JString (vm_summary m)),
        (''criteria'', JArray (map verifier_criterion_json (vm_criteria m)))]"

definition gate_statuses :: "string list" where
  "gate_statuses = [''pending'', ''passed'', ''failed'']"

definition store_verification_gate ::
    "factory_env \<Rightarrow> int \<Rightarrow> verification_gate_record \<Rightarrow> verification_db \<Rightarrow> (verification_db, unit) db_result" where
  "store_verification_gate env now g db =
     (case bounded_optional env (map_option verifier_manifest_json (vga_verifier_manifest g)) of
        Inl e \<Rightarrow> (db, Inl e)
      | Inr _ \<Rightarrow>
      (case bounded_optional env (vga_command_summary g) of
        Inl e \<Rightarrow> (db, Inl e)
      | Inr _ \<Rightarrow>
      (let same = (\<lambda>o'. vga_attempt_id o' = vga_attempt_id g)
       in if vga_status g \<notin> set gate_statuses \<or> \<not> run_exists (verification_base db) (vga_run_id g)
             \<or> vga_attempt_id g \<notin> vat_attempt_id ` set (vdb_attempts db)
             \<or> list_ex (\<lambda>o'. vga_gate_id o' = vga_gate_id g \<and> \<not> same o') (vdb_gates db)
          then (db, constraint_fail env ''verification_gates'')
          else if list_ex same (vdb_gates db)
          then (db\<lparr> vdb_gates := update_where same
                 (\<lambda>o'. o'\<lparr> vga_status := vga_status g, vga_verifier_manifest := vga_verifier_manifest g,
                           vga_command_summary := vga_command_summary g, vga_computed_at := vga_computed_at g,
                           vga_updated_at := now \<rparr>) (vdb_gates db) \<rparr>, Inr ())
          else (db\<lparr> vdb_gates := vdb_gates db @ [g\<lparr> vga_created_at := now, vga_updated_at := now \<rparr>] \<rparr>, Inr ()))))"

definition get_verification_gate :: "verification_db \<Rightarrow> string \<Rightarrow> verification_gate_record option" where
  "get_verification_gate db attempt_id = find (\<lambda>g. vga_attempt_id g = attempt_id) (vdb_gates db)"

section \<open>Publication intents\<close>

definition list_verification_publications_for_run ::
    "verification_db \<Rightarrow> string \<Rightarrow> verification_publication_intent list" where
  "list_verification_publications_for_run db run_id =
     sort_key vpi_created_at (filter (\<lambda>i. vpi_run_id i = run_id) (vdb_intents db))"

definition insert_verification_intent ::
    "verification_publication_intent \<Rightarrow> verification_db \<Rightarrow> verification_db option" where
  "insert_verification_intent i db =
     (if (\<exists>j \<in> set (vdb_intents db).
            vpi_intent_id j = vpi_intent_id i \<or> vpi_attempt_id j = vpi_attempt_id i \<and> vpi_kind j = vpi_kind i)
         \<or> \<not> run_exists (verification_base db) (vpi_run_id i)
         \<or> vpi_attempt_id i \<notin> vat_attempt_id ` set (vdb_attempts db)
      then None else Some (db\<lparr> vdb_intents := vdb_intents db @ [i] \<rparr>))"

definition create_verification_publication_intent ::
    "factory_env \<Rightarrow> int \<Rightarrow> string \<Rightarrow> string \<Rightarrow> string \<Rightarrow> string \<Rightarrow> verification_db
     \<Rightarrow> (verification_db, verification_publication_intent) db_result" where
  "create_verification_publication_intent env now new_id run_id attempt_id kind db =
     (case find (\<lambda>i. vpi_kind i = kind \<and> vpi_status i = PubPending) (list_verification_publications_for_run db run_id) of
        Some existing \<Rightarrow> (db, Inr existing)
      | None \<Rightarrow>
          (case insert_verification_intent
                  \<lparr> vpi_intent_id = new_id, vpi_run_id = run_id, vpi_attempt_id = attempt_id, vpi_kind = kind,
                    vpi_status = PubPending, vpi_completed_steps = [], vpi_retry_count = 0, vpi_last_error = None,
                    vpi_comment_id = None, vpi_created_at = now, vpi_updated_at = now \<rparr> db of
             None \<Rightarrow> (db, constraint_fail env ''verification_publication_intents'')
           | Some db' \<Rightarrow>
               (db', found_or ''created verification intent is missing''
                       (Inr (find (\<lambda>i. vpi_intent_id i = new_id)
                          (list_verification_publications_for_run db' run_id))))))"

definition mark_verification_publication_applied ::
    "int \<Rightarrow> string \<Rightarrow> string \<Rightarrow> verification_db \<Rightarrow> (verification_db, unit) db_result" where
  "mark_verification_publication_applied now intent_id comment_id db =
     (let P = (\<lambda>i. vpi_intent_id i = intent_id)
      in (db\<lparr> vdb_intents := update_where P
                (\<lambda>i. i\<lparr> vpi_status := PubApplied, vpi_comment_id := Some comment_id, vpi_updated_at := now \<rparr>)
                (vdb_intents db) \<rparr>,
          if changed_rows P (vdb_intents db) = 0
          then storage_fail (''verification intent '' @ intent_id @ '' not found'') else Inr ()))"

section \<open>The stage run\<close>

definition complete_verification_stage_run ::
    "int \<Rightarrow> string \<Rightarrow> stage_usage \<Rightarrow> verification_db \<Rightarrow> (verification_db, unit) db_result" where
  "complete_verification_stage_run now stage_run_id usage db =
     (let P = (\<lambda>r. sg_stage_run_id r = stage_run_id \<and> sg_status r = StageRunning); b = verification_base db
      in if changed_rows P (fs_stage_runs b) = 0
         then (db, storage_fail (''verification stage run '' @ stage_run_id @ '' is not running''))
         else (set_verification_base (b\<lparr> fs_stage_runs := update_where P
                 (\<lambda>r. r\<lparr> sg_status := StageCompleted, sg_completed_at := Some now, sg_usage := usage,
                         sg_updated_at := now \<rparr>) (fs_stage_runs b) \<rparr>) db, Inr ()))"

definition interrupt_verification_stage_run ::
    "factory_env \<Rightarrow> int \<Rightarrow> string \<Rightarrow> factory_error \<Rightarrow> verification_db \<Rightarrow> (verification_db, unit) db_result" where
  "interrupt_verification_stage_run env now stage_run_id err db =
     (case bounded_json env (factory_error_json err) of
        Inl e \<Rightarrow> (db, Inl e)
      | Inr _ \<Rightarrow>
          (let P = (\<lambda>r. sg_stage_run_id r = stage_run_id \<and> stage_nonterminal r); b = verification_base db
           in if changed_rows P (fs_stage_runs b) = 0
              then (db, storage_fail (''verification stage run '' @ stage_run_id @ '' is not running or pending''))
              else (set_verification_base (b\<lparr> fs_stage_runs := update_where P
                      (\<lambda>r. r\<lparr> sg_status := StageInterrupted, sg_completed_at := Some now,
                              sg_error_json := Some (fenv_error_text env err), sg_updated_at := now \<rparr>)
                      (fs_stage_runs b) \<rparr>) db, Inr ())))"

end
