(* ===== verification/VerificationStoreFacts.thy ===== *)
theory VerificationStoreFacts
  imports VerificationStore ReviewStoreFacts
begin

text \<open>
  The verification tables as a transition system. No operation takes a command run back to
  launching, so the claim of a launch succeeds at most once; and one publication intent of a kind is
  pending per run.
\<close>

section \<open>The operations as steps\<close>

text \<open>The coordinator never completes a command as launching; the earlier tables change freely.\<close>

inductive verification_step :: "factory_env \<Rightarrow> verification_db \<Rightarrow> verification_db \<Rightarrow> bool" for env where
  earlier: "verification_step env db (db\<lparr> vdb_review := r \<rparr>)"
| attempt: "verification_step env db (fst (store_verification_attempt_inputs env now sva db))"
| attempt_update: "verification_step env db (fst (update_verification_attempt env now uva db))"
| verifier: "verification_step env db (fst (record_verifier_identity now attempt_id identity db))"
| launch: "verification_step env db (fst (record_verification_command_launch env now new_id rcl db))"
| process: "verification_step env db (fst (cas_verification_launch_identity now command_run_id nonce identity db))"
| container: "verification_step env db (fst (cas_verification_container now command_run_id nonce container_id db))"
| complete: "ccr_status ccr \<noteq> ''launching'' \<Longrightarrow> verification_step env db (fst (complete_verification_command env ccr db))"
| not_run: "verification_step env db (fst (mark_verification_command_not_run now command_run_id db))"
| evidence: "verification_step env db (fst (store_verification_evidence env now records db))"
| gate: "verification_step env db (fst (store_verification_gate env now g db))"
| intent: "verification_step env db (fst (create_verification_publication_intent env now new_id run_id attempt_id kind db))"
| applied: "verification_step env db (fst (mark_verification_publication_applied now intent_id comment_id db))"
| completed: "verification_step env db (fst (complete_verification_stage_run now stage_run_id usage db))"
| interrupted: "verification_step env db (fst (interrupt_verification_stage_run env now stage_run_id err db))"

definition verification_db_empty :: "review_db \<Rightarrow> verification_db" where
  "verification_db_empty r =
     \<lparr> vdb_review = r, vdb_attempts = [], vdb_runs = [], vdb_evidence = [], vdb_gates = [], vdb_intents = [] \<rparr>"

inductive verification_reachable :: "factory_env \<Rightarrow> verification_db \<Rightarrow> bool" for env where
  start: "verification_reachable env (verification_db_empty r)"
| step: "verification_reachable env db \<Longrightarrow> verification_step env db db' \<Longrightarrow> verification_reachable env db'"

section \<open>What a step does to runs and intents\<close>

text \<open>Rows are appended with a new id or updated in place; an update never leads back to launching.\<close>

definition runs_advance :: "verification_command_run list \<Rightarrow> verification_command_run list \<Rightarrow> bool" where
  "runs_advance rows rows' \<longleftrightarrow>
     rows' = rows
     \<or> (\<exists>c. rows' = rows @ [c] \<and> cr_command_run_id c \<notin> cr_command_run_id ` set rows)
     \<or> (\<exists>P f. rows' = update_where P f rows
          \<and> (\<forall>c. cr_command_run_id (f c) = cr_command_run_id c \<and> cr_status (f c) \<noteq> ''launching''))"

definition intents_advance ::
    "verification_publication_intent list \<Rightarrow> verification_publication_intent list \<Rightarrow> bool" where
  "intents_advance rows rows' \<longleftrightarrow>
     rows' = rows
     \<or> (\<exists>i. rows' = rows @ [i]
          \<and> (\<forall>j \<in> set rows. \<not> (vpi_run_id j = vpi_run_id i \<and> vpi_kind j = vpi_kind i \<and> vpi_status j = PubPending)
                \<and> \<not> (vpi_attempt_id j = vpi_attempt_id i \<and> vpi_kind j = vpi_kind i)))
     \<or> (\<exists>P f. rows' = update_where P f rows
          \<and> (\<forall>i. vpi_run_id (f i) = vpi_run_id i \<and> vpi_kind (f i) = vpi_kind i \<and> vpi_attempt_id (f i) = vpi_attempt_id i
                \<and> vpi_status (f i) \<noteq> PubPending))"

lemma runs_advance_update:
  "(\<And>c. cr_command_run_id (f c) = cr_command_run_id c \<and> cr_status (f c) \<noteq> ''launching'')
     \<Longrightarrow> runs_advance rows (update_where P f rows)"
  unfolding runs_advance_def by blast

lemma intents_advance_update:
  "(\<And>i. vpi_run_id (f i) = vpi_run_id i \<and> vpi_kind (f i) = vpi_kind i \<and> vpi_attempt_id (f i) = vpi_attempt_id i
        \<and> vpi_status (f i) \<noteq> PubPending)
     \<Longrightarrow> intents_advance rows (update_where P f rows)"
  unfolding intents_advance_def by blast

lemma advance_refl [simp]: "runs_advance rows rows" "intents_advance is is"
  by (simp_all add: runs_advance_def intents_advance_def)

lemma set_verification_base_fields [simp]:
  "vdb_runs (set_verification_base b db) = vdb_runs db" "vdb_intents (set_verification_base b db) = vdb_intents db"
  by (simp_all add: set_verification_base_def)

lemma insert_verification_attempt_fields:
  "insert_verification_attempt a db = Some db' \<Longrightarrow> vdb_runs db' = vdb_runs db \<and> vdb_intents db' = vdb_intents db"
  by (auto simp: insert_verification_attempt_def split: if_splits)

lemma update_verification_attempts_fields [simp]:
  "vdb_runs (fst (update_verification_attempts attempt_id f db)) = vdb_runs db"
  "vdb_intents (fst (update_verification_attempts attempt_id f db)) = vdb_intents db"
  by (simp_all add: update_verification_attempts_def Let_def)

lemma upsert_evidence_fields:
  "vdb_runs (fst (upsert_evidence env now r db)) = vdb_runs db"
  "vdb_intents (fst (upsert_evidence env now r db)) = vdb_intents db"
  by (simp_all add: upsert_evidence_def Let_def)

lemma store_evidence_fields [simp]:
  "vdb_runs (fst (store_verification_evidence env now rs db)) = vdb_runs db"
  "vdb_intents (fst (store_verification_evidence env now rs db)) = vdb_intents db"
proof (induction rs arbitrary: db)
  case (Cons r rs)
  { case 1 show ?case using Cons.IH(1) upsert_evidence_fields(1) [of env now r db]
      by (auto split: prod.split sum.split) }
  { case 2 show ?case using Cons.IH(2) upsert_evidence_fields(2) [of env now r db]
      by (auto split: prod.split sum.split) }
qed simp_all

lemma store_gate_fields [simp]:
  "vdb_runs (fst (store_verification_gate env now g db)) = vdb_runs db"
  "vdb_intents (fst (store_verification_gate env now g db)) = vdb_intents db"
  by (simp_all add: store_verification_gate_def Let_def split: sum.split)

lemma update_command_runs_advance:
  assumes "\<And>c. cr_command_run_id (f c) = cr_command_run_id c \<and> cr_status (f c) \<noteq> ''launching''"
  shows "runs_advance (vdb_runs db) (vdb_runs (fst (update_command_runs P f message db)))"
    and "vdb_intents (fst (update_command_runs P f message db)) = vdb_intents db"
  using assms by (simp_all add: update_command_runs_def runs_advance_update)

lemma step_advances:
  "verification_step env db db' \<Longrightarrow>
     runs_advance (vdb_runs db) (vdb_runs db') \<and> intents_advance (vdb_intents db) (vdb_intents db')"
proof (induction rule: verification_step.induct)
  case (attempt db now sva)
  then show ?case
    by (auto simp: store_verification_attempt_inputs_def dest: insert_verification_attempt_fields
        split: sum.splits option.splits)
next
  case (attempt_update db now uva)
  then show ?case by (simp add: update_verification_attempt_def split: sum.split)
next
  case (launch db now new_id rcl)
  then show ?case
    by (auto simp: record_verification_command_launch_def insert_command_run_def runs_advance_def
        split: option.splits if_splits)
next
  case (complete ccr db)
  then show ?case
    by (auto simp: complete_verification_command_def Let_def update_command_runs_advance)
next
  case (intent db now new_id run_id attempt_id kind)
  have "\<not> (vpi_run_id j = run_id \<and> vpi_kind j = kind \<and> vpi_status j = PubPending)"
    if "find (\<lambda>i. vpi_kind i = kind \<and> vpi_status i = PubPending) (list_verification_publications_for_run db run_id) = None"
      "j \<in> set (vdb_intents db)" for j
    using that by (auto simp: find_None_iff list_verification_publications_for_run_def)
  then show ?case
    by (auto simp: create_verification_publication_intent_def insert_verification_intent_def intents_advance_def
        split: option.splits if_splits)
next
  case (applied db now intent_id comment_id)
  then show ?case
    by (simp add: mark_verification_publication_applied_def Let_def intents_advance_update)
qed (simp_all add: record_verifier_identity_def cas_verification_launch_identity_def cas_verification_container_def
    mark_verification_command_not_run_def complete_verification_stage_run_def interrupt_verification_stage_run_def
    update_command_runs_advance Let_def split: sum.split)

section \<open>A launch is claimed once\<close>

definition left_launching :: "verification_db \<Rightarrow> string \<Rightarrow> bool" where
  "left_launching db command_run_id \<longleftrightarrow>
     command_run_id \<in> cr_command_run_id ` set (vdb_runs db)
     \<and> (\<forall>c \<in> set (vdb_runs db). cr_command_run_id c = command_run_id \<longrightarrow> cr_status c \<noteq> ''launching'')"

lemma left_launching_stays:
  assumes "runs_advance rows rows'" "vdb_runs db = rows" "vdb_runs db' = rows'" "left_launching db i"
  shows "left_launching db' i"
proof -
  from assms(1) consider "rows' = rows"
    | (new) c where "rows' = rows @ [c]" "cr_command_run_id c \<notin> cr_command_run_id ` set rows"
    | (upd) P f where "rows' = update_where P f rows"
        "\<And>c. cr_command_run_id (f c) = cr_command_run_id c \<and> cr_status (f c) \<noteq> ''launching''"
    unfolding runs_advance_def by blast
  then show ?thesis
  proof cases
    case new
    with assms show ?thesis by (auto simp: left_launching_def image_iff)
  next
    case (upd P f)
    then have "cr_command_run_id ` set rows' = cr_command_run_id ` set rows"
      by (simp only: upd(1)) (rule image_update_where, simp add: upd(2))
    moreover have "cr_status c \<noteq> ''launching''" if "c \<in> set rows'" "cr_command_run_id c = i" for c
      using in_updated [OF that(1) [unfolded upd(1)]] upd(2) that(2) assms(2,4) by (auto simp: left_launching_def)
    ultimately show ?thesis using assms(2-4) by (simp add: left_launching_def)
  qed (use assms in \<open>simp add: left_launching_def\<close>)
qed

lemma left_launching_steps:
  "(verification_step env)\<^sup>*\<^sup>* db db' \<Longrightarrow> left_launching db i \<Longrightarrow> left_launching db' i"
  by (induction rule: rtranclp_induct) (use step_advances left_launching_stays in blast)+

lemma cas_refused:
  assumes "left_launching db i"
  shows "changed_rows (launching_with i nonce) (vdb_runs db) = 0"
    and "update_where (launching_with i nonce) f (vdb_runs db) = vdb_runs db"
proof -
  have refused: "\<not> launching_with i nonce c" if "c \<in> set (vdb_runs db)" for c
    using that assms by (auto simp: left_launching_def launching_with_def)
  then show "changed_rows (launching_with i nonce) (vdb_runs db) = 0" by (simp add: changed_rows_def filter_empty_conv)
  from refused show "update_where (launching_with i nonce) f (vdb_runs db) = vdb_runs db"
    by (simp add: update_where_def map_idI)
qed

lemma update_with_leaves:
  assumes "snd (update_command_runs (launching_with i nonce) f message db) = Inr ()"
    and distinct: "distinct (map cr_command_run_id (vdb_runs db))"
    and f: "\<And>c. cr_command_run_id (f c) = cr_command_run_id c \<and> cr_status (f c) \<noteq> ''launching''"
  shows "left_launching (fst (update_command_runs (launching_with i nonce) f message db)) i"
proof -
  have "filter (launching_with i nonce) (vdb_runs db) \<noteq> []"
    using assms(1) by (auto simp: update_command_runs_def changed_rows_def storage_fail_def split: if_splits)
  then obtain c where c: "c \<in> set (vdb_runs db)" "launching_with i nonce c" by (auto simp: filter_empty_conv)
  have only: "d = c" if "d \<in> set (vdb_runs db)" "cr_command_run_id d = i" for d
    using that c distinct by (metis distinct_map inj_onD launching_with_def)
  let ?rows = "update_where (launching_with i nonce) f (vdb_runs db)"
  have "f c \<in> set ?rows" using updated_in [of c _ "launching_with i nonce" f, OF c] .
  then have "i \<in> cr_command_run_id ` set ?rows" using f c(2) by (intro image_eqI) (auto simp: launching_with_def)
  moreover have "cr_status d \<noteq> ''launching''" if "d \<in> set ?rows" "cr_command_run_id d = i" for d
    using in_updated [OF that(1)] only f c(2) that(2) by auto
  ultimately show ?thesis by (simp add: left_launching_def update_command_runs_def)
qed

definition verification_inv :: "verification_db \<Rightarrow> bool" where
  "verification_inv db \<longleftrightarrow>
     distinct (map cr_command_run_id (vdb_runs db))
     \<and> distinct (map (\<lambda>i. (vpi_attempt_id i, vpi_kind i)) (vdb_intents db))
     \<and> distinct (map (\<lambda>i. (vpi_run_id i, vpi_kind i)) (filter (\<lambda>i. vpi_status i = PubPending) (vdb_intents db)))"

lemma distinct_map_filter_mono:
  "distinct (map g (filter P xs)) \<Longrightarrow> (\<And>x. Q x \<Longrightarrow> P x) \<Longrightarrow> distinct (map g (filter Q xs))"
  by (induction xs) (auto split: if_splits)

lemma pending_update:
  assumes "\<And>i. h (f i) = h i \<and> \<not> Q (f i)"
  shows "map h (filter Q (update_where P f rows)) = map h (filter (\<lambda>i. Q i \<and> \<not> P i) rows)"
  using assms by (induction rows) (auto simp: update_where_def)

lemma verification_step_inv:
  assumes "verification_step env db db'" "verification_inv db"
  shows "verification_inv db'"
proof -
  have runs: "runs_advance (vdb_runs db) (vdb_runs db')" and intents: "intents_advance (vdb_intents db) (vdb_intents db')"
    using step_advances [OF assms(1)] by simp_all
  have "distinct (map cr_command_run_id (vdb_runs db'))"
    using runs unfolding runs_advance_def
  proof (elim disjE exE conjE)
    fix P f assume upd: "vdb_runs db' = update_where P f (vdb_runs db)"
      "\<forall>c. cr_command_run_id (f c) = cr_command_run_id c \<and> cr_status (f c) \<noteq> ''launching''"
    have "map cr_command_run_id (vdb_runs db') = map cr_command_run_id (vdb_runs db)"
      unfolding upd(1) by (rule map_update_where) (simp add: upd(2))
    then show ?thesis using assms(2) by (simp add: verification_inv_def)
  qed (use assms(2) in \<open>auto simp: verification_inv_def\<close>)
  moreover have "distinct (map (\<lambda>i. (vpi_attempt_id i, vpi_kind i)) (vdb_intents db'))
      \<and> distinct (map (\<lambda>i. (vpi_run_id i, vpi_kind i)) (filter (\<lambda>i. vpi_status i = PubPending) (vdb_intents db')))"
  proof -
    from intents consider "vdb_intents db' = vdb_intents db"
      | (new) i where "vdb_intents db' = vdb_intents db @ [i]"
          "\<forall>j \<in> set (vdb_intents db). \<not> (vpi_run_id j = vpi_run_id i \<and> vpi_kind j = vpi_kind i \<and> vpi_status j = PubPending)
             \<and> \<not> (vpi_attempt_id j = vpi_attempt_id i \<and> vpi_kind j = vpi_kind i)"
      | (upd) P f where "vdb_intents db' = update_where P f (vdb_intents db)"
          "\<And>i. vpi_run_id (f i) = vpi_run_id i \<and> vpi_kind (f i) = vpi_kind i \<and> vpi_attempt_id (f i) = vpi_attempt_id i
             \<and> vpi_status (f i) \<noteq> PubPending"
      unfolding intents_advance_def by blast
    then show ?thesis
    proof cases
      case new
      with assms(2) show ?thesis by (auto simp: verification_inv_def)
    next
      case (upd P f)
      have "map (\<lambda>i. (vpi_attempt_id i, vpi_kind i)) (vdb_intents db') = map (\<lambda>i. (vpi_attempt_id i, vpi_kind i)) (vdb_intents db)"
        unfolding upd(1) by (rule map_update_where) (simp add: upd(2))
      moreover have "map (\<lambda>i. (vpi_run_id i, vpi_kind i)) (filter (\<lambda>i. vpi_status i = PubPending) (vdb_intents db'))
          = map (\<lambda>i. (vpi_run_id i, vpi_kind i)) (filter (\<lambda>i. vpi_status i = PubPending \<and> \<not> P i) (vdb_intents db))"
        unfolding upd(1) by (rule pending_update) (simp add: upd(2))
      ultimately show ?thesis
        using assms(2) by (auto simp: verification_inv_def intro: distinct_map_filter_mono)
    qed (use assms(2) in \<open>simp add: verification_inv_def\<close>)
  qed
  ultimately show ?thesis by (simp add: verification_inv_def)
qed

lemma verification_reachable_inv: "verification_reachable env db \<Longrightarrow> verification_inv db"
  by (induction rule: verification_reachable.induct)
    (simp_all add: verification_inv_def verification_db_empty_def verification_step_inv [unfolded verification_inv_def])

end
