(* ===== verification/ReviewProperties.thy ===== *)
theory ReviewProperties
  imports ReviewPublisherFacts VerificationStoreFacts StageProperties
begin

text \<open>
  The properties of the review and verification stages: which manifests are accepted, where review
  comments are anchored, the life cycle of findings, the publication lease, the creation of a formal
  review, and the claim of a command launch. The file also shows what the inventory of a diff and
  the store make of some manifests.
\<close>

section \<open>The manifest\<close>

definition anchored :: "reviewed_file \<Rightarrow> nat \<Rightarrow> nat \<Rightarrow> bool" where
  "anchored file first last_line \<longleftrightarrow>
     0 < first \<and> first \<le> last_line \<and> last_line \<le> rvf_line_count file
     \<and> (\<exists>r \<in> set (rvf_right_side_ranges file). rlr_start r \<le> first \<and> last_line \<le> rlr_end r)"

definition finding_texts_ok :: "review_finding \<Rightarrow> bool" where
  "finding_texts_ok f \<longleftrightarrow>
     trim (rfi_finding_id f) \<noteq> [] \<and> trim (rfi_claim f) \<noteq> [] \<and> trim (rfi_rationale f) \<noteq> []
     \<and> trim (rfi_remediation f) \<noteq> [] \<and> (\<forall>c. rfi_acceptance_criterion f = Some c \<longrightarrow> trim c \<noteq> [])
     \<and> (\<exists>q. rfi_confidence f = Finite q \<and> 0 \<le> q \<and> q \<le> 1)"

definition finding_anchored :: "reviewed_file list \<Rightarrow> review_finding \<Rightarrow> bool" where
  "finding_anchored files f \<longleftrightarrow>
     (\<exists>file. reviewed_file_at files (rfi_path f) = Some file \<and> anchored file (rfi_line f) (effective_end f))"

lemma note_if_nil [simp]: "note_if b m = [] \<longleftrightarrow> \<not> b"
  by (simp add: note_if_def)

lemma anchor_violations_none: "anchor_violations label file f = [] \<longleftrightarrow> anchored file (rfi_line f) (effective_end f)"
  by (cases "rfi_end_line f")
    (auto simp: anchor_violations_def Let_def anchored_def line_resolves_def end_resolves_def effective_end_def
      range_contains_def list_ex_iff)

lemma text_violations_none: "text_violations label f = [] \<and> trim (rfi_finding_id f) \<noteq> [] \<longleftrightarrow> finding_texts_ok f"
  by (auto simp: text_violations_def finding_texts_ok_def valid_confidence_def split: option.splits f64.splits)

lemma finding_violations_none:
  "finding_violations files index seen f = [] \<longleftrightarrow>
     finding_texts_ok f \<and> finding_anchored files f \<and> rfi_finding_id f \<notin> set seen"
  using text_violations_none [of _ f] anchor_violations_none
  by (auto simp: finding_violations_def Let_def finding_anchored_def finding_texts_ok_def split: option.splits)

lemma findings_violations_none:
  "findings_violations files index seen fs = [] \<longleftrightarrow>
     (\<forall>f \<in> set fs. finding_texts_ok f \<and> finding_anchored files f \<and> rfi_finding_id f \<notin> set seen)
     \<and> distinct (map rfi_finding_id fs)"
  by (induction fs arbitrary: index seen) (auto simp: finding_violations_none finding_texts_ok_def image_iff)

text \<open>C32. The worker's findings are accepted exactly when the text has at most 256 KiB, parses, names
  schema one and the pinned head and base, says how the change meets the specification, affirms that
  there are no findings exactly when there are none, has no more than the allowed number, gives every
  finding an id of its own, texts and a confidence from zero to one, and anchors every finding
  within one range of the right side of the reviewed diff.\<close>

theorem review_manifest_accepted_exactly:
  "parse_and_validate_review_manifest from_json raw head base files max_findings = Inr m \<longleftrightarrow>
     utf8_len raw \<le> 262144 \<and> from_json raw = Inr m \<and> rfm_schema_version m = 1
     \<and> rfm_reviewed_head_sha m = head \<and> rfm_base_sha m = base \<and> trim (rfm_spec_conformance_summary m) \<noteq> []
     \<and> (rfm_no_findings m \<longleftrightarrow> rfm_findings m = []) \<and> length (rfm_findings m) \<le> max_findings
     \<and> distinct (map rfi_finding_id (rfm_findings m))
     \<and> (\<forall>f \<in> set (rfm_findings m). finding_texts_ok f \<and> finding_anchored files f)"
  by (auto simp: parse_and_validate_review_manifest_def Let_def manifest_violations_def findings_violations_none
      review_manifest_max_bytes_def review_schema_version_def split: sum.splits if_splits)

definition demo_finding :: "string \<Rightarrow> nat \<Rightarrow> review_finding" where
  "demo_finding i line =
     \<lparr> rfi_finding_id = i, rfi_severity = SevMajor, rfi_category = CatCorrectness, rfi_path = ''a.rs'', rfi_line = line,
       rfi_end_line = Some (Suc line), rfi_claim = ''error ignored'', rfi_rationale = ''r'', rfi_remediation = ''m'',
       rfi_acceptance_criterion = None, rfi_confidence = Finite 1 \<rparr>"

definition demo_review :: "review_finding list \<Rightarrow> review_findings_manifest" where
  "demo_review fs =
     \<lparr> rfm_schema_version = 1, rfm_reviewed_head_sha = ''h'', rfm_base_sha = ''b'', rfm_spec_conformance_summary = ''ok'',
       rfm_no_findings = (fs = []), rfm_findings = fs \<rparr>"

definition demo_files :: "reviewed_file list" where
  "demo_files = [\<lparr> rvf_path = ''a.rs'', rvf_line_count = 20, rvf_right_side_ranges = [\<lparr> rlr_start = 3, rlr_end = 9 \<rparr>] \<rparr>]"

lemma demo_findings_ok:
  "3 \<le> line \<and> line < 9 \<Longrightarrow> finding_anchored demo_files (demo_finding i line)"
  "trim i \<noteq> [] \<Longrightarrow> finding_texts_ok (demo_finding i line)"
  by (auto simp: finding_anchored_def finding_texts_ok_def demo_finding_def demo_files_def reviewed_file_at_def
      anchored_def effective_end_def trim_def trim_start_def trim_end_def is_whitespace_def code_point_def)

theorem review_manifest_accepted_exactly_witness:
  "parse_and_validate_review_manifest (\<lambda>_. Inr (demo_review [demo_finding ''f'' 4])) ''{}'' ''h'' ''b'' demo_files 50
     = Inr (demo_review [demo_finding ''f'' 4])"
  unfolding review_manifest_accepted_exactly
  using demo_findings_ok(1) [of 4 "''f''"] demo_findings_ok(2) [of "''f''" 4]
  by (simp add: demo_review_def utf8_len_def char_bytes_def code_point_def trim_def trim_start_def trim_end_def
      is_whitespace_def)

text \<open>C31. Every inline comment of the review of an accepted manifest is well formed for GitHub: it is on the
  right side of a file of the diff, its lines are in order, from one, within one range of the diff,
  and it names a first line and its side together, exactly when it spans several lines.\<close>

theorem review_comments_anchored:
  assumes "parse_and_validate_review_manifest from_json raw head base files max_findings = Inr (raf_manifest artifact)"
    and "c \<in> set (render_review_comments artifact records)"
  shows "\<exists>file first. reviewed_file_at files (rco_path c) = Some file \<and> anchored file first (rco_line c)
    \<and> rco_side c = ''RIGHT''
    \<and> (if first < rco_line c then rco_start_line c = Some first \<and> rco_start_side c = Some ''RIGHT''
       else rco_start_line c = None \<and> rco_start_side c = None)"
proof -
  obtain f where f: "f \<in> set (rfm_findings (raf_manifest artifact))" "c = review_comment_of f"
    using assms(2) by (auto simp: render_review_comments_def)
  have "\<forall>f \<in> set (rfm_findings (raf_manifest artifact)). finding_anchored files f"
  proof -
    have "findings_violations files 0 [] (rfm_findings (raf_manifest artifact)) = []"
      using assms(1)
      by (auto simp: parse_and_validate_review_manifest_def Let_def split: sum.splits if_splits)
    then show ?thesis by (simp add: findings_violations_none)
  qed
  then obtain rf where "reviewed_file_at files (rfi_path f) = Some rf" "anchored rf (rfi_line f) (effective_end f)"
    using f(1) by (auto simp: finding_anchored_def)
  then show ?thesis by (auto simp: f(2) review_comment_of_def Let_def)
qed

definition demo_artifact :: "review_finding list \<Rightarrow> review_findings_artifact" where
  "demo_artifact fs =
     \<lparr> raf_artifact_id = ''ra'', raf_run_id = ''run'', raf_stage_run_id = ''a1'', raf_attempt_id = ''at'',
       raf_draft_pr_artifact_id = ''d'', raf_implementation_artifact_id = ''m'', raf_spec_artifact_id = ''s'',
       raf_schema_version = 1, raf_reviewed_head_sha = ''h'', raf_base_sha = ''b'', raf_manifest = demo_review fs,
       raf_no_findings = (fs = []), raf_finding_count = length fs, raf_received_at = 5, raf_bytes_len = 10 \<rparr>"

lemma demo_review_accepted:
  assumes "\<forall>f \<in> set fs. finding_texts_ok f \<and> finding_anchored demo_files f" "distinct (map rfi_finding_id fs)"
    and "length fs \<le> 50"
  shows "parse_and_validate_review_manifest (\<lambda>_. Inr (demo_review fs)) ''{}'' ''h'' ''b'' demo_files 50 = Inr (demo_review fs)"
  unfolding review_manifest_accepted_exactly
  using assms by (auto simp: demo_review_def utf8_len_def char_bytes_def code_point_def trim_def trim_start_def trim_end_def
      is_whitespace_def)

theorem review_comments_anchored_witness:
  "\<exists>rf first. reviewed_file_at demo_files ''a.rs'' = Some rf \<and> anchored rf first 5"
proof -
  have ok: "parse_and_validate_review_manifest (\<lambda>_. Inr (demo_review [demo_finding ''f'' 4])) ''{}'' ''h'' ''b'' demo_files 50
      = Inr (raf_manifest (demo_artifact [demo_finding ''f'' 4]))"
    using demo_review_accepted [of "[demo_finding ''f'' 4]"] demo_findings_ok(1) [of 4 "''f''"]
      demo_findings_ok(2) [of "''f''" 4]
    by (simp add: demo_artifact_def trim_def trim_start_def trim_end_def is_whitespace_def code_point_def)
  have "review_comment_of (demo_finding ''f'' 4) \<in> set (render_review_comments (demo_artifact [demo_finding ''f'' 4]) [])"
    by (simp add: render_review_comments_def demo_artifact_def demo_review_def)
  from review_comments_anchored [OF ok this]
  show ?thesis by (simp add: review_comment_of_def demo_finding_def effective_end_def Let_def) blast
qed

text \<open>The inventory takes every line that looks like a hunk header once it is trimmed for one: a line of
  context begins with a space, so a file that quotes a diff makes lines anchorable that are not in
  the diff.\<close>

lemma indented_header: "parse_new_hunk_header ('' '' @ line) = parse_new_hunk_header line"
  by (simp add: parse_new_hunk_header_def trim_start_def is_whitespace_def code_point_def)

lemmas header_simps = parse_new_hunk_header_def strip_prefix_def trim_start_def split_whitespace_def parse_unsigned_def
  digits_value_def u32_max_def is_whitespace_def code_point_def is_ascii_digit_def

lemma demo_headers:
  "parse_new_hunk_header ''@@ -1,2 +1,2 @@'' = Some (1, 2)" "parse_new_hunk_header ''@@ -1 +900,5 @@'' = Some (900, 5)"
  "parse_new_hunk_header ''-old'' = None" "parse_new_hunk_header ''+new'' = None"
  by (simp_all add: header_simps)

lemma quoted_header_is_a_range:
  "patch_ranges (''@@ -1,2 +1,2 @@'' @ newline @ ''-old'' @ newline @ ''+new'' @ newline @ '' @@ -1 +900,5 @@'')
     = [\<lparr> rlr_start = 1, rlr_end = 2 \<rparr>, \<lparr> rlr_start = 900, rlr_end = 904 \<rparr>]"
proof -
  have "text_lines (''@@ -1,2 +1,2 @@'' @ newline @ ''-old'' @ newline @ ''+new'' @ newline @ '' @@ -1 +900,5 @@'')
      = [''@@ -1,2 +1,2 @@'', ''-old'', ''+new'', '' '' @ ''@@ -1 +900,5 @@'']"
    by code_simp
  then show ?thesis
    unfolding patch_ranges_def
    by (simp only: map_filter_simps demo_headers indented_header option.case hunk_range_def prod.case)
      (simp add: map_filter_simps sat_add_u32_def u32_max_def)
qed

section \<open>The life cycle of findings\<close>

text \<open>C13. In every reachable state the unresolved findings of a run have exactly the identities its latest
  review found, however many reviews there were, and a pair of head and base is reviewed at most
  once for a run.\<close>

theorem open_findings_of_last_review:
  assumes "review_reachable env db"
  shows "rfr_identity_key ` {r \<in> set (rdb_findings db). rfr_run_id r = run_id \<and> rfr_lifecycle_state r \<noteq> LifecycleResolved}
      = (case rev (filter (\<lambda>a. raf_run_id a = run_id) (rdb_artifacts db)) of
           [] \<Rightarrow> {}
         | a # _ \<Rightarrow> set (map finding_identity_key (rfm_findings (raf_manifest a))))
    \<and> distinct (map (\<lambda>a. (raf_run_id a, raf_reviewed_head_sha a, raf_base_sha a)) (rdb_artifacts db))"
proof -
  have "findings_inv db" using assms by (rule review_reachable_findings)
  then have "unresolved_keys db run_id = open_keys db run_id" "distinct (map revision_of (rdb_artifacts db))"
    by (simp_all add: findings_inv_def)
  moreover have "open_keys db run_id = (case rev (run_reviews db run_id) of [] \<Rightarrow> {} | a # _ \<Rightarrow> manifest_keys (raf_manifest a))"
    by (cases "run_reviews db run_id" rule: rev_cases) (simp_all add: open_keys_def)
  ultimately show ?thesis
    by (simp add: unresolved_keys_def unresolved_records_def run_reviews_def manifest_keys_def revision_of_def [abs_def]
        cong: list.case_cong)
qed

text \<open>A database with one stored review: the earlier tables hold what its foreign keys name.\<close>

definition demo_review_impl :: impl_db where
  "demo_review_impl = demo_impl_db
     \<lparr> idb_spec := (idb_spec demo_impl_db)\<lparr> sdb_base := demo_store ''review'' \<rparr>,
       idb_artifacts :=
         [\<lparr> iar_artifact_id = ''m1'', iar_run_id = ''run'', iar_stage_run_id = ''i1'', iar_approved_artifact_id = ''s1'',
            iar_approved_version = 1, iar_issue_revision = ''rev'', iar_configuration_revision = ''conf'',
            iar_manifest = demo_manifest, iar_base_commit = ''b'', iar_head_commit = Some ''h'',
            iar_approved_spec_path = ''s.md'', iar_validation_cycles = 1, iar_execution_profile = ProfileLocal,
            iar_received_at = 1, iar_bytes_len = 10 \<rparr>],
       idb_draft_prs :=
         [\<lparr> dpr_artifact_id = ''d1'', dpr_run_id = ''run'', dpr_implementation_artifact_id = ''m1'', dpr_intent_id = ''p1'',
            dpr_number = 7, dpr_url = ''u'', dpr_draft = True, dpr_head = ''br'', dpr_base = ''main'',
            dpr_head_sha = ''h'', dpr_marker = ''k'', dpr_created_at = 1 \<rparr>] \<rparr>"

definition demo_review_env :: review_env where
  "demo_review_env = \<lparr> ren_factory = small_env, ren_f64_text = (\<lambda>_. ''1.0'') \<rparr>"

definition demo_review_db1 :: review_db where
  "demo_review_db1 = fst (store_review_attempt_inputs small_env 3
     \<lparr> va_attempt_id = ''at'', va_stage_run_id = ''a1'', va_draft_pr_artifact_id = ''d1'',
       va_implementation_artifact_id = ''m1'', va_spec_artifact_id = ''s1'', va_pr_number = 7,
       va_reviewed_head_sha = ''h'', va_base_sha = ''b'' \<rparr> (review_db_empty demo_review_impl))"

definition demo_review_request :: "review_finding list \<Rightarrow> store_review_artifact_request" where
  "demo_review_request fs =
     \<lparr> ra_stage_run_id = ''a1'', ra_attempt_id = ''at'', ra_draft_pr_artifact_id = ''d1'',
       ra_implementation_artifact_id = ''m1'', ra_spec_artifact_id = ''s1'', ra_reviewed_head_sha = ''h'',
       ra_base_sha = ''b'', ra_manifest = demo_review fs, ra_bytes_len = 10, ra_usage = no_usage \<rparr>"

definition demo_review_db2 :: review_db where
  "demo_review_db2 = fst (store_review_artifact demo_review_env 4 ''ra'' (\<lambda>n. nat_digits n)
     (demo_review_request [demo_finding ''f'' 4]) demo_review_db1)"

lemma demo_review_reachable: "review_reachable demo_review_env demo_review_db2"
proof -
  have "review_step demo_review_env 3 None (review_db_empty demo_review_impl) demo_review_db1"
    using review_step.attempt [of demo_review_env 3] by (simp add: demo_review_db1_def demo_review_env_def)
  with review_reachable.start have "review_reachable demo_review_env demo_review_db1"
    by (rule review_reachable.step)
  then show ?thesis unfolding demo_review_db2_def by (rule review_reachable.step) (rule review_step.artifact)
qed

lemma demo_review_base [simp]: "review_base (review_db_empty demo_review_impl) = demo_store ''review''"
  by (simp add: review_base_def review_db_empty_def impl_base_def demo_review_impl_def)

lemma demo_review_inputs [simp]: "review_inputs_exist (review_db_empty demo_review_impl) ''d1'' ''m1'' ''s1''"
proof -
  have "''s1'' \<in> sar_artifact_id ` set (sdb_spec_artifacts demo_spec_db)"
    using demo_spec_db_rows(1) by (auto simp: map_eq_Cons_conv)
  then show ?thesis
    by (simp add: review_inputs_exist_def review_db_empty_def demo_review_impl_def demo_impl_db_def)
qed

lemma demo_running_review:
  "running_stage small_env (demo_store ''review'') review_stage_name ''review'' ''a1'' = Inr (demo_stage_run ''review'')"
  by (simp add: running_stage_def demo_stage_found review_stage_name_def)

lemma demo_review_attempted:
  "\<exists>a. rat_attempt_id a = ''at'' \<and> demo_review_db1 = (review_db_empty demo_review_impl)\<lparr> rdb_attempts := [a] \<rparr>"
proof -
  have "rdb_attempts (review_db_empty demo_review_impl) = []" by (simp add: review_db_empty_def)
  then show ?thesis
    by (simp add: demo_review_db1_def store_review_attempt_inputs_def demo_running_review insert_review_attempt_def
        demo_stage_found get_review_attempt_def found_or_def)
      (rule exI, rule conjI [rotated], rule refl, simp)
qed

lemma demo_review_db1_facts:
  "review_base demo_review_db1 = demo_store ''review''" "rdb_artifacts demo_review_db1 = []"
  "rdb_findings demo_review_db1 = []" "rdb_intents demo_review_db1 = []" "''at'' \<in> rat_attempt_id ` set (rdb_attempts demo_review_db1)"
  "review_inputs_exist demo_review_db1 ''d1'' ''m1'' ''s1''"
proof -
  obtain a where a: "rat_attempt_id a = ''at''" "demo_review_db1 = (review_db_empty demo_review_impl)\<lparr> rdb_attempts := [a] \<rparr>"
    using demo_review_attempted by blast
  show "review_base demo_review_db1 = demo_store ''review''"
    using demo_review_base by (simp add: a(2) review_base_def)
  show "review_inputs_exist demo_review_db1 ''d1'' ''m1'' ''s1''"
    using demo_review_inputs by (simp add: a(2) review_inputs_exist_def)
  show "rdb_artifacts demo_review_db1 = []" "rdb_findings demo_review_db1 = []" "rdb_intents demo_review_db1 = []"
    "''at'' \<in> rat_attempt_id ` set (rdb_attempts demo_review_db1)"
    by (simp_all add: a review_db_empty_def)
qed

lemma demo_review_stored:
  "\<exists>a. store_review_artifact demo_review_env 4 ''ra'' nat_digits (demo_review_request [demo_finding ''f'' 4]) demo_review_db1
        = (demo_review_db2, Inr a)"
proof -
  note facts = demo_review_db1_facts
  obtain db' r where eq: "store_review_artifact demo_review_env 4 ''ra'' nat_digits
      (demo_review_request [demo_finding ''f'' 4]) demo_review_db1 = (db', r)" by fastforce
  have "isl r = False"
    using eq facts
    by (auto simp: store_review_artifact_def demo_review_env_def demo_review_request_def demo_review_def Let_def
        demo_running_review demo_stage_found insert_review_artifact_def insert_finding_record_def record_of_finding_def
        valid_confidence_def demo_finding_def get_review_artifact_def split: if_splits)
  then show ?thesis using eq by (cases r) (auto simp: demo_review_db2_def)
qed

theorem open_findings_of_last_review_witness:
  "rfr_identity_key ` {r \<in> set (rdb_findings demo_review_db2). rfr_run_id r = ''run'' \<and> rfr_lifecycle_state r \<noteq> LifecycleResolved}
     = {''a.rs:correctness:error ignored''}"
proof -
  obtain a where stored: "store_review_artifact demo_review_env 4 ''ra'' nat_digits (demo_review_request [demo_finding ''f'' 4])
      demo_review_db1 = (demo_review_db2, Inr a)"
    using demo_review_stored by blast
  have inv: "findings_inv demo_review_db1"
    by (simp add: findings_inv_def demo_review_db1_facts unresolved_keys_def unresolved_records_def open_keys_def run_reviews_def)
  have arts: "rdb_artifacts demo_review_db2 = [a]" "raf_manifest a = demo_review [demo_finding ''f'' 4]"
    using stored_artifact_findings(2,3) [OF stored inv] by (simp_all add: demo_review_db1_facts demo_review_request_def)
  have "raf_run_id a = ''run''"
    using stored_artifact_findings(4) [OF stored inv]
    by (auto simp: demo_review_db1_facts demo_review_request_def demo_review_env_def demo_running_review demo_stage_found)
  then show ?thesis
    using open_findings_of_last_review [OF demo_review_reachable, of "''run''"] arts
    by (simp add: demo_review_def finding_identity_key_def demo_finding_def trim_def trim_start_def trim_end_def
        is_whitespace_def code_point_def)
qed

text \<open>Two findings may make one claim about a file: the manifest is accepted, and never stored.\<close>

lemma same_claim_accepted_never_stored:
  "parse_and_validate_review_manifest (\<lambda>_. Inr (demo_review [demo_finding ''f'' 4, demo_finding ''g'' 7])) ''{}'' ''h'' ''b''
     demo_files 50 = Inr (demo_review [demo_finding ''f'' 4, demo_finding ''g'' 7])"
  "\<exists>e. store_review_artifact env now new_id new_record_id (demo_review_request [demo_finding ''f'' 4, demo_finding ''g'' 7]) db
     = (db, Inl e)"
proof -
  show "parse_and_validate_review_manifest (\<lambda>_. Inr (demo_review [demo_finding ''f'' 4, demo_finding ''g'' 7])) ''{}'' ''h'' ''b''
     demo_files 50 = Inr (demo_review [demo_finding ''f'' 4, demo_finding ''g'' 7])"
    using demo_findings_ok(1) [of 4 "''f''"] demo_findings_ok(1) [of 7 "''g''"] demo_findings_ok(2) [of "''f''" 4]
      demo_findings_ok(2) [of "''g''" 7]
    by (intro demo_review_accepted)
      (simp_all add: trim_def trim_start_def trim_end_def is_whitespace_def code_point_def demo_finding_def)
  show "\<exists>e. store_review_artifact env now new_id new_record_id (demo_review_request [demo_finding ''f'' 4, demo_finding ''g'' 7]) db
     = (db, Inl e)"
    by (rule same_identity_never_stored) (simp add: demo_review_request_def demo_review_def finding_identity_key_def demo_finding_def)
qed

section \<open>The publication lease\<close>

text \<open>C20. After a successful claim of a publication, whatever others do before the lease runs out, the
  claimed row stays as it is: until then no one else can claim it, no write of another owner
  changes anything, and every owned write of the holder goes through; from the moment the lease runs
  out anybody can claim it.\<close>

theorem lease_excludes_others:
  assumes "review_reachable env db"
    and "claim_review_publication now intent_id owner secs db = (db1, True)"
    and "others_run env owner (lease_end now secs) db1 db2"
    and "later < lease_end now secs" and "other \<noteq> owner"
  shows "(\<exists>i \<in> set (rdb_intents db1). rpi_intent_id i = intent_id \<and> i \<in> set (rdb_intents db2))
    \<and> claim_review_publication later intent_id other secs' db2 = (db2, False)
    \<and> owned_update later intent_id other f db2 = (db2, False)
    \<and> snd (owned_update later intent_id owner f db2)
    \<and> snd (claim_review_publication (lease_end now secs) intent_id other secs' db2)"
proof -
  have "filter (lease_free now intent_id owner) (rdb_intents db) \<noteq> []"
    using assms(2) by (auto simp: claim_review_publication_def one_intent_changed_def changed_rows_def)
  then obtain i0 where i0: "i0 \<in> set (rdb_intents db)" "lease_free now intent_id owner i0"
    by (auto simp: filter_empty_conv)
  have id: "rpi_intent_id i0 = intent_id" "rpi_status i0 = PubPending" using i0(2) by (simp_all add: lease_free_def)
  define i where "i = i0\<lparr> rpi_lease_owner := Some owner, rpi_lease_expires_at := Some (lease_end now secs), rpi_updated_at := now \<rparr>"
  have distinct: "distinct (map rpi_intent_id (rdb_intents db))"
    using assms(1) by (rule review_reachable_distinct_intents)
  have i1: "i \<in> set (rdb_intents db1)"
    using claim_granted(2) [OF distinct i0(1), of now owner secs] i0(2) id assms(2) by (simp add: i_def)
  have "review_step env now (Some owner) db db1"
    using review_step.claim [of env now owner db intent_id secs] assms(2) by simp
  then have "distinct (map rpi_intent_id (rdb_intents db1))"
    using distinct by (metis intent_write_distinct step_writes)
  then have distinct2: "distinct (map rpi_intent_id (rdb_intents db2))" using assms(3) by (metis others_run_distinct)
  have i2: "i \<in> set (rdb_intents db2)"
    by (rule others_run_keeps [OF assms(3) i1]) (simp_all add: i_def id)
  have fields: "rpi_intent_id i = intent_id" "rpi_status i = PubPending" "rpi_lease_owner i = Some owner"
    "rpi_lease_expires_at i = Some (lease_end now secs)" by (simp_all add: i_def id)
  have "claim_review_publication later intent_id other secs' db2 = (db2, False)"
    using claim_refused [OF distinct2 i2, of later other secs'] fields assms(4,5) by (simp add: lease_free_def)
  moreover have "owned_update later intent_id other f db2 = (db2, False)"
    using owned_update_refused [OF distinct2 i2, of later other f] fields assms(5) by (simp add: holds_lease_def)
  moreover have "snd (owned_update later intent_id owner f db2)"
    using one_intent_changed_iff [OF distinct2 i2, of "holds_lease later intent_id owner"] fields assms(4)
    by (simp add: owned_update_def holds_lease_def)
  moreover have "snd (claim_review_publication (lease_end now secs) intent_id other secs' db2)"
    using claim_granted(1) [OF distinct2 i2, of "lease_end now secs" other secs'] fields by (simp add: lease_free_def)
  ultimately show ?thesis using i1 i2 fields(1) by blast
qed

definition demo_review_db3 :: review_db where
  "demo_review_db3 = fst (create_review_publication_intent small_env 5 ''in'' ''run'' ''ra'' ''formal'' (JObject []) demo_review_db2)"

lemma demo_review_db3_facts:
  "review_reachable demo_review_env demo_review_db3"
  "\<exists>i. rpi_intent_id i = ''in'' \<and> rpi_status i = PubPending \<and> rpi_lease_owner i = None \<and> rdb_intents demo_review_db3 = [i]"
proof -
  have "review_step demo_review_env 5 None demo_review_db2 demo_review_db3"
    using review_step.create [of demo_review_env 5] by (simp add: demo_review_db3_def demo_review_env_def)
  with demo_review_reachable show "review_reachable demo_review_env demo_review_db3" by (rule review_reachable.step)
  obtain a where stored: "store_review_artifact demo_review_env 4 ''ra'' nat_digits (demo_review_request [demo_finding ''f'' 4])
      demo_review_db1 = (demo_review_db2, Inr a)" using demo_review_stored by blast
  have "run_exists (review_base demo_review_db2) ''run'' \<and> ''ra'' \<in> raf_artifact_id ` set (rdb_artifacts demo_review_db2)
      \<and> rdb_intents demo_review_db2 = []"
    using store_review_artifact_cases [OF stored] demo_run_exists(1) [of "''review''"]
    by (cases rule: store_review_artifact_cases [OF stored])
      (simp_all add: run_exists_def demo_review_db1_facts)
  then show "\<exists>i. rpi_intent_id i = ''in'' \<and> rpi_status i = PubPending \<and> rpi_lease_owner i = None \<and> rdb_intents demo_review_db3 = [i]"
    by (simp add: demo_review_db3_def create_review_publication_intent_def list_review_publications_for_run_def
        insert_review_intent_def)
qed

theorem lease_excludes_others_witness:
  "claim_review_publication 10 ''in'' ''bob'' 60 (fst (claim_review_publication 6 ''in'' ''ann'' 60 demo_review_db3))
     = (fst (claim_review_publication 6 ''in'' ''ann'' 60 demo_review_db3), False)"
proof -
  obtain i where i: "rpi_intent_id i = ''in''" "rpi_status i = PubPending" "rpi_lease_owner i = None" "rdb_intents demo_review_db3 = [i]"
    using demo_review_db3_facts(2) by blast
  have claimed: "claim_review_publication 6 ''in'' ''ann'' 60 demo_review_db3
      = (fst (claim_review_publication 6 ''in'' ''ann'' 60 demo_review_db3), True)"
    using i by (simp add: claim_review_publication_def one_intent_changed_def changed_rows_def lease_free_def)
  show ?thesis
    using lease_excludes_others [OF demo_review_db3_facts(1) claimed others_run.none_yet, of 10 "''bob''" 60]
    by (simp add: lease_end_def nanos_per_second_def)
qed

section \<open>The formal review\<close>

lemma contains_prefix: "contains_str s (s @ t)"
proof (cases "s @ t")
  case (Cons a u)
  have "prefix s (a # u)" by (metis Cons prefixI)
  then show ?thesis by (simp add: Cons)
qed simp

lemma formal_body_marked:
  "contains_str (review_marker intent_id)
     (render_formal_review_body_with_records issue_number intent_id run_id artifact version records)"
  unfolding render_formal_review_body_with_records_def Let_def by (rule contains_prefix)

text \<open>What a successful publication has left in the store.\<close>

definition findings_recorded_in :: "string \<Rightarrow> review_state \<Rightarrow> bool" where
  "findings_recorded_in intent_id \<sigma> \<longleftrightarrow>
     (\<exists>i \<in> set (rdb_intents (rvs_db \<sigma>)). rpi_intent_id i = intent_id \<and> findings_recorded_step \<in> set (rpi_completed_steps i))"

text \<open>An action that answers true only with the last step recorded, and its laws.\<close>

definition records_last :: "string \<Rightarrow> bool review_action \<Rightarrow> bool" where
  "records_last intent_id m \<longleftrightarrow> (\<forall>\<sigma> \<sigma>'. m \<sigma> = (Inr True, \<sigma>') \<longrightarrow> findings_recorded_in intent_id \<sigma>')"

lemma records_last_findings: "records_last intent_id (record_findings env po intent_id owner artifact comments)"
proof -
  have "trim findings_recorded_step = findings_recorded_step" "findings_recorded_step \<noteq> []"
    by (simp_all add: findings_recorded_step_def trim_def trim_start_def trim_end_def is_whitespace_def code_point_def)
  then show ?thesis
    using record_step_recorded [where step = findings_recorded_step]
    by (fastforce simp: records_last_def record_findings_def record_review_step_def on_review_store_def
        findings_recorded_in_def split: prod.splits)
qed

lemma records_last_simps [simp]:
  "records_last i (give False)" "records_last i (give_up e)"
  by (simp_all add: records_last_def give_def give_up_def)

lemma records_last_and_then: "(\<And>a. records_last i (k a)) \<Longrightarrow> records_last i (and_then m k)"
  by (auto simp: records_last_def and_then_def split: prod.splits sum.splits)

lemma records_last_if: "records_last i m \<Longrightarrow> records_last i (if b then m else give False)"
  by simp

lemmas records_last_intros = records_last_and_then records_last_if records_last_findings records_last_simps

lemma publish_claimed_records:
  "records_last (rpi_intent_id intent) (publish_claimed env po owner intent artifact number max_pages login body comments)"
  by (auto simp: publish_claimed_def Let_def split: option.split prod.split intro!: records_last_intros)

lemma publish_formal_records:
  assumes "findings_recorded_step \<notin> set (rpi_completed_steps intent)"
  shows "records_last (rpi_intent_id intent) (publish_formal env po owner intent artifact number max_pages)"
  using assms publish_claimed_records
  by (auto simp: publish_formal_def Let_def split: option.split intro!: records_last_and_then)

text \<open>The calls of a publication that creates a review, in their order.\<close>

definition creates_once ::
    "review_port \<Rightarrow> review_history \<Rightarrow> review_publication_intent \<Rightarrow> review_findings_artifact \<Rightarrow> nat \<Rightarrow> nat
     \<Rightarrow> review_history \<Rightarrow> bool" where
  "creates_once po h intent artifact number max_pages calls \<longleftrightarrow>
     (\<exists>reviews body records ok rest.
        calls = [(RcLogin, True), (RcListReviews number max_pages, True), (RcHeadSha number, True),
                 (RcCreateReview number (raf_reviewed_head_sha artifact) body (render_review_comments artifact records), ok)]
                @ rest
        \<and> filter is_creation rest = []
        \<and> rpo_list_reviews po number max_pages (h @ [(RcLogin, True)]) = Inr reviews
        \<and> (\<forall>x \<in> set reviews. \<not> carries_marker (review_marker (rpi_intent_id intent)) x)
        \<and> rpo_head_sha po number (h @ [(RcLogin, True), (RcListReviews number max_pages, True)])
            = Inr (raf_reviewed_head_sha artifact)
        \<and> contains_str (review_marker (rpi_intent_id intent)) body
        \<and> rpi_review_id intent = None \<and> review_created_step \<notin> set (rpi_completed_steps intent))"

text \<open>C28. A publication adds at most one creation to the calls: after the login it has listed the reviews
  of the pull request and found none that carries the intent's marker, has read the head as the
  reviewed one right before, the body it sends carries the marker, so a later listing finds it, and the
  intent named no review yet. It answers that the review is published only when the last step is
  recorded.\<close>

theorem formal_review_created_once:
  assumes "publish_formal env po owner intent artifact number max_pages \<sigma> = (r, \<sigma>')"
  shows "(\<exists>calls. rvs_history \<sigma>' = rvs_history \<sigma> @ calls
       \<and> (filter is_creation calls = [] \<or> creates_once po (rvs_history \<sigma>) intent artifact number max_pages calls))
    \<and> (r = Inr True \<longrightarrow> findings_recorded_step \<in> set (rpi_completed_steps intent)
         \<or> findings_recorded_in (rpi_intent_id intent) \<sigma>')"
proof
  have "creates_once po h intent artifact number max_pages ((RcLogin, True) # calls)"
    if "creation_calls po (h @ [(RcLogin, True)]) number max_pages (review_marker (rpi_intent_id intent))
          (raf_reviewed_head_sha artifact)
          (render_formal_review_body_with_records issue_number (rpi_intent_id intent) (rpi_run_id intent) artifact
             (intent_spec_version (rpi_desired_effects intent)) records)
          (render_review_comments artifact records) calls"
      "rpi_review_id intent = None" "review_created_step \<notin> set (rpi_completed_steps intent)"
    for h issue_number records calls
    using that formal_body_marked
    by (fastforce simp: creation_calls_def creates_once_def no_creation_def filter_empty_conv)
  then show "\<exists>calls. rvs_history \<sigma>' = rvs_history \<sigma> @ calls
      \<and> (filter is_creation calls = [] \<or> creates_once po (rvs_history \<sigma>) intent artifact number max_pages calls)"
    using publish_formal_calls [OF assms] unfolding no_creation_def by blast
  show "r = Inr True \<longrightarrow> findings_recorded_step \<in> set (rpi_completed_steps intent)
      \<or> findings_recorded_in (rpi_intent_id intent) \<sigma>'"
    using publish_formal_records assms unfolding records_last_def by blast
qed

definition demo_review_intent :: review_publication_intent where
  "demo_review_intent =
     \<lparr> rpi_intent_id = ''in'', rpi_run_id = ''run'', rpi_artifact_id = ''ra'', rpi_kind = ''formal'',
       rpi_status = PubPending, rpi_completed_steps = [], rpi_retry_count = 0, rpi_last_error = None,
       rpi_comment_id = None, rpi_publisher_login = None, rpi_review_id = None, rpi_review_url = None,
       rpi_route_state = None, rpi_desired_effects = JObject [(''issue_number'', JNumber (PosInt 3))],
       rpi_observed_baseline = JObject [], rpi_expected_projection = JObject [], rpi_created_at = 5, rpi_updated_at = 5,
       rpi_lease_owner = None, rpi_lease_expires_at = None \<rparr>"

definition demo_review_state :: review_state where
  "demo_review_state =
     \<lparr> rvs_db = (review_db_empty demo_review_impl)\<lparr> rdb_intents := [demo_review_intent] \<rparr>, rvs_history = [], rvs_ticks = 0 \<rparr>"

text \<open>A forge that answers every call, and a clock that stands still.\<close>

definition demo_review_port :: review_port where
  "demo_review_port =
     \<lparr> rpo_login = (\<lambda>_. Inr ''bot''), rpo_list_reviews = (\<lambda>_ _ _. Inr []), rpo_head_sha = (\<lambda>_ _. Inr ''h''),
       rpo_create_review = (\<lambda>_ head body _ _. Inr
         \<lparr> prv_id = 9, prv_user_login = Some ''bot'', prv_body = Some body, prv_commit_id = Some head,
           prv_html_url = Some ''u'' \<rparr>),
       rpo_comment_login = (\<lambda>_. Inr ''bot''), rpo_list_comments = (\<lambda>_ _ _. Inr []),
       rpo_get_comment = (\<lambda>_ _. Inl (TriageError ''none'')), rpo_create_comment = (\<lambda>_ _ _. Inl (TriageError ''none'')),
       rpo_update_comment = (\<lambda>_ _ _. Inl (TriageError ''none'')), rpo_meanwhile = (\<lambda>_ db. db), rpo_clock = (\<lambda>_. 6) \<rparr>"

definition demo_publication :: "(symphony_error + bool) \<times> review_state" where
  "demo_publication = publish_formal small_env demo_review_port ''ann'' demo_review_intent
     (demo_artifact [demo_finding ''f'' 4]) 7 10 demo_review_state"

lemmas publication_simps = publish_formal_def publish_claimed_def and_then_def give_def give_up_def claim_lease_def
  on_review_store_def ok_pair_def claim_review_publication_def one_intent_changed_def update_review_intents_def
  lease_free_def lease_end_def review_ask_def find_or_create_review_def lift_result_def expect_head_def ask_head_def
  create_formal_review_def record_new_review_def bind_review_publication_review_owned_def owned_update_def
  holds_lease_def record_review_step_def record_findings_def record_review_publication_step_owned_def
  get_review_publication_intent_def find_review_intent_def update_where_def bound_identity_def effect_u64_def changed_rows_def

lemma review_step_names [simp]: "trim ''review_created'' = ''review_created''" "trim ''findings_recorded'' = ''findings_recorded''"
  by (simp_all add: trim_def trim_start_def trim_end_def is_whitespace_def code_point_def)

lemma demo_published: "demo_publication = (Inr True, snd demo_publication)"
proof -
  have "fst demo_publication = Inr True"
    by (simp add: demo_publication_def demo_review_state_def demo_review_port_def demo_review_intent_def publication_simps
        Let_def review_created_step_def findings_recorded_step_def nanos_per_second_def review_publication_lease_seconds_def
        demo_artifact_def demo_review_def next_review_status_def add_step_def)
  then show ?thesis by (metis prod.collapse)
qed

lemma demo_creation: "map (\<lambda>c. is_creation c) (take 4 (rvs_history (snd demo_publication))) = [False, False, False, True]"
  by (simp add: demo_publication_def demo_review_state_def demo_review_port_def demo_review_intent_def publication_simps
      Let_def review_created_step_def findings_recorded_step_def nanos_per_second_def review_publication_lease_seconds_def
      demo_artifact_def demo_review_def next_review_status_def add_step_def)

lemma demo_review_intent_fields [simp]:
  "rpi_intent_id demo_review_intent = ''in''" "rpi_completed_steps demo_review_intent = []" "rvs_history demo_review_state = []"
  by (simp_all add: demo_review_intent_def demo_review_state_def)

theorem formal_review_created_once_witness:
  "findings_recorded_in ''in'' (snd demo_publication)
   \<and> creates_once demo_review_port [] demo_review_intent (demo_artifact [demo_finding ''f'' 4]) 7 10
        (rvs_history (snd demo_publication))"
proof -
  have "filter is_creation (rvs_history (snd demo_publication)) \<noteq> []"
    using arg_cong [OF demo_creation, of "\<lambda>bs. True \<in> set bs"] by (auto simp: filter_empty_conv dest: in_set_takeD)
  then show ?thesis
    using formal_review_created_once [OF demo_published [unfolded demo_publication_def]]
    by (simp add: demo_publication_def [symmetric])
qed

section \<open>The claim of a launch\<close>

text \<open>C19. A launch is claimed at most once, by a process or by a container: the claim that succeeds
  finds the command run launching with its nonce, and after it, whatever the stage does, every other
  claim of that run is refused and writes nothing, with any nonce.\<close>

theorem launch_claimed_once:
  assumes "verification_reachable env db"
    and "cas_verification_launch_identity now i nonce identity db = (db1, Inr ())
       \<or> cas_verification_container now i nonce container_id db = (db1, Inr ())"
    and "(verification_step env)\<^sup>*\<^sup>* db1 db2"
  shows "(\<exists>c \<in> set (vdb_runs db). launching_with i nonce c)
    \<and> (\<exists>e. cas_verification_launch_identity later i nonce' identity' db2 = (db2, Inl e))
    \<and> (\<exists>e. cas_verification_container later i nonce' container_id' db2 = (db2, Inl e))"
proof -
  have distinct: "distinct (map cr_command_run_id (vdb_runs db))"
    using verification_reachable_inv [OF assms(1)] by (simp add: verification_inv_def)
  obtain f message where upd: "update_command_runs (launching_with i nonce) f message db = (db1, Inr ())"
    and f: "\<And>c. cr_command_run_id (f c) = cr_command_run_id c \<and> cr_status (f c) \<noteq> ''launching''"
    using assms(2) unfolding cas_verification_launch_identity_def cas_verification_container_def
    by (elim disjE) (erule that, simp)+
  have "left_launching db1 i"
    using update_with_leaves [where f = f, OF _ distinct f, of i nonce message] upd by simp
  then have "left_launching db2 i" by (rule left_launching_steps [OF assms(3)])
  note refused = cas_refused [OF this]
  have "changed_rows (launching_with i nonce) (vdb_runs db) \<noteq> 0"
    using upd by (auto simp: update_command_runs_def storage_fail_def split: if_splits)
  then have "\<exists>c \<in> set (vdb_runs db). launching_with i nonce c"
    by (auto simp: changed_rows_def filter_empty_conv)
  then show ?thesis
    using refused
    by (simp add: cas_verification_launch_identity_def cas_verification_container_def update_command_runs_def storage_fail_def)
qed

text \<open>A command that is being launched, in a database whose earlier tables hold a reviewed head.\<close>

definition demo_verification_db0 :: verification_db where
  "demo_verification_db0 = verification_db_empty
     ((review_db_empty (demo_review_impl\<lparr> idb_spec := (idb_spec demo_impl_db)\<lparr> sdb_base := demo_store ''verification'' \<rparr> \<rparr>))
        \<lparr> rdb_artifacts := [demo_artifact []] \<rparr>)"

definition demo_verification_db1 :: verification_db where
  "demo_verification_db1 = fst (store_verification_attempt_inputs small_env 6
     \<lparr> sva_attempt_id = ''va'', sva_stage_run_id = ''a1'', sva_pr_number = 7, sva_reviewed_head_sha = ''h'',
       sva_base_sha = ''b'', sva_spec_artifact_id = ''s1'', sva_implementation_artifact_id = ''m1'',
       sva_review_artifact_id = ''ra'', sva_configuration_revision = ''conf'', sva_execution_profile = ''local'' \<rparr>
     demo_verification_db0)"

definition demo_verification_db2 :: verification_db where
  "demo_verification_db2 = fst (record_verification_command_launch small_env 7 ''cr''
     \<lparr> rcl_run_id = ''run'', rcl_attempt_id = ''va'', rcl_ordinal = 0, rcl_name = ''test'', rcl_kind = KindTest,
       rcl_configuration_revision = ''conf'', rcl_command_sha256 = ''x'', rcl_execution_profile = ''local'',
       rcl_launch_nonce = ''n'' \<rparr> demo_verification_db1)"

lemma demo_verification_reachable: "verification_reachable small_env demo_verification_db2"
  unfolding demo_verification_db2_def demo_verification_db1_def demo_verification_db0_def
  by (rule verification_reachable.step [OF verification_reachable.step [OF verification_reachable.start]])
    (rule verification_step.attempt, rule verification_step.launch)

lemma demo_verification_base: "verification_base demo_verification_db0 = demo_store ''verification''"
  by (simp add: verification_base_def demo_verification_db0_def verification_db_empty_def review_base_def
      review_db_empty_def impl_base_def)

lemma demo_verification_attempted:
  "\<exists>a. vat_attempt_id a = ''va'' \<and> demo_verification_db1 = demo_verification_db0\<lparr> vdb_attempts := [a] \<rparr>"
proof -
  have "''s1'' \<in> sar_artifact_id ` set (sdb_spec_artifacts demo_spec_db)"
    using demo_spec_db_rows(1) by (auto simp: map_eq_Cons_conv)
  moreover have "running_stage small_env (demo_store ''verification'') verification_stage_name ''verification'' ''a1''
      = Inr (demo_stage_run ''verification'')"
    by (simp add: running_stage_def demo_stage_found verification_stage_name_def)
  ultimately show ?thesis
    using demo_verification_base
    by (simp add: demo_verification_db1_def store_verification_attempt_inputs_def insert_verification_attempt_def
        demo_stage_found get_verification_attempt_def found_or_def demo_verification_db0_def verification_db_empty_def
        review_db_empty_def demo_review_impl_def demo_impl_db_def demo_artifact_def)
qed

lemma demo_launching: "\<exists>c. launching_with ''cr'' ''n'' c \<and> vdb_runs demo_verification_db2 = [c]"
proof -
  obtain a where a: "vat_attempt_id a = ''va''" "demo_verification_db1 = demo_verification_db0\<lparr> vdb_attempts := [a] \<rparr>"
    using demo_verification_attempted by blast
  have "verification_base demo_verification_db1 = demo_store ''verification''" "vdb_runs demo_verification_db1 = []"
    "vat_attempt_id ` set (vdb_attempts demo_verification_db1) = {''va''}"
    using a(1) demo_verification_base by (simp_all add: a(2) verification_base_def demo_verification_db0_def verification_db_empty_def)
  then show ?thesis
    by (simp add: demo_verification_db2_def record_verification_command_launch_def insert_command_run_def
        command_statuses_def launching_with_def)
qed

theorem launch_claimed_once_witness:
  "\<exists>e. cas_verification_container 9 ''cr'' ''n'' ''box''
          (fst (cas_verification_launch_identity 8 ''cr'' ''n''
             \<lparr> pid_pid = 5, pid_process_group_id = 5, pid_start_token = None, pid_executable = None \<rparr> demo_verification_db2))
        = (fst (cas_verification_launch_identity 8 ''cr'' ''n''
             \<lparr> pid_pid = 5, pid_process_group_id = 5, pid_start_token = None, pid_executable = None \<rparr> demo_verification_db2), Inl e)"
proof -
  define identity where
    "identity = \<lparr> pid_pid = 5, pid_process_group_id = 5, pid_start_token = None, pid_executable = None :: string option \<rparr>"
  define db1 where "db1 = fst (cas_verification_launch_identity 8 ''cr'' ''n'' identity demo_verification_db2)"
  have "cas_verification_launch_identity 8 ''cr'' ''n'' identity demo_verification_db2 = (db1, Inr ())"
    unfolding db1_def using demo_launching
    by (auto simp: cas_verification_launch_identity_def update_command_runs_def changed_rows_def)
  from launch_claimed_once [OF demo_verification_reachable disjI1 [OF this] rtranclp.rtrancl_refl]
  show ?thesis unfolding db1_def identity_def by blast
qed

end
