(* ===== verification/ImplementationPublisher.thy ===== *)
theory ImplementationPublisher
  imports ImplementationStage ImplementationStore Publisher SpecDecision
begin

text \<open>
  \<open>src/implementation/publisher.rs\<close>, \<open>src/implementation/automatic.rs\<close> and the reconciling of pending
  publications in \<open>src/implementation/coordinator.rs\<close>: an implementation is published as a comment, or as
  a branch, a draft pull request and a hand-over in the tracker. GitHub is an \<open>impl_port\<close> of arbitrary
  functions of the calls made so far, Git the \<open>git_port\<close> of \<open>ImplementationStage\<close>.
\<close>

section \<open>Calls, port and actions\<close>

record pull_request_ref =
  prr_name :: string
  prr_sha :: string

record github_pull_request =
  gpr_number :: nat
  gpr_html_url :: string
  gpr_draft :: bool
  gpr_state :: string
  gpr_title :: string
  gpr_head :: pull_request_ref
  gpr_base :: pull_request_ref
  gpr_user_login :: "string option"
  gpr_body :: "string option"

record intake_milestone =
  im_number :: nat
  im_title :: string

record triage_intake_issue =
  tii_issue_id :: string
  tii_issue_number :: nat
  tii_identifier :: string
  tii_title :: string
  tii_body :: string
  tii_labels :: "string list"
  tii_non_managed_labels :: "string list"
  tii_assignees :: "string list"
  tii_milestone :: "intake_milestone option"
  tii_comments :: "intake_comment list"
  tii_created_at :: int
  tii_updated_at :: int
  tii_forge_host :: string
  tii_repository :: string
  tii_in_project :: bool

text \<open>The calls; the push of a branch is logged as one call.\<close>

datatype impl_call =
    IcLogin
  | IcListComments nat nat
  | IcGetComment nat
  | IcCreateComment nat string
  | IcUpdateComment nat string
  | IcListLabels nat
  | IcProjectState nat
  | IcRemoveLabel nat string
  | IcSetState nat string
  | IcListPulls string string string nat
  | IcCreatePull string string string string bool
  | IcPublishBranch branch_publish_request
  | IcFetchIssue string

type_synonym impl_history = "(impl_call \<times> bool) list"

record 'w impl_port =
  ipo_login :: "impl_history \<Rightarrow> symphony_error + string"
  ipo_list_comments :: "nat \<Rightarrow> nat \<Rightarrow> impl_history \<Rightarrow> symphony_error + github_issue_comment list"
  ipo_get_comment :: "nat \<Rightarrow> impl_history \<Rightarrow> symphony_error + github_issue_comment"
  ipo_create_comment :: "nat \<Rightarrow> string \<Rightarrow> impl_history \<Rightarrow> symphony_error + github_issue_comment"
  ipo_update_comment :: "nat \<Rightarrow> string \<Rightarrow> impl_history \<Rightarrow> symphony_error + github_issue_comment"
  ipo_list_labels :: "nat \<Rightarrow> impl_history \<Rightarrow> symphony_error + string list"
  ipo_project_state :: "nat \<Rightarrow> impl_history \<Rightarrow> symphony_error + string option"
  ipo_remove_label :: "nat \<Rightarrow> string \<Rightarrow> impl_history \<Rightarrow> symphony_error + unit"
  ipo_set_state :: "nat \<Rightarrow> string \<Rightarrow> impl_history \<Rightarrow> symphony_error + unit"
  ipo_list_pulls ::
    "string \<Rightarrow> string \<Rightarrow> string \<Rightarrow> nat \<Rightarrow> impl_history \<Rightarrow> symphony_error + github_pull_request list"
  ipo_create_pull ::
    "string \<Rightarrow> string \<Rightarrow> string \<Rightarrow> string \<Rightarrow> bool \<Rightarrow> impl_history \<Rightarrow> symphony_error + github_pull_request"
  ipo_fetch_issue :: "string \<Rightarrow> impl_history \<Rightarrow> symphony_error + triage_intake_issue"
  ipo_git :: "'w git_port"
  ipo_blob_path :: "string \<Rightarrow> string"
  ipo_clock :: "nat \<Rightarrow> int"
  ipo_new_id :: "nat \<Rightarrow> string"

record 'w impl_state =
  ips_db :: impl_db
  ips_world :: 'w
  ips_history :: impl_history
  ips_ticks :: nat

type_synonym ('w, 'a) impl_action = "('w impl_state, 'a) state_action"

definition impl_ask ::
    "impl_call \<Rightarrow> (impl_history \<Rightarrow> symphony_error + 'a) \<Rightarrow> ('w, 'a) impl_action" where
  "impl_ask c answer \<sigma> =
     (let r = answer (ips_history \<sigma>)
      in (r, \<sigma>\<lparr> ips_history := ips_history \<sigma> @ [(c, \<not> isl r)] \<rparr>))"

text \<open>A store operation gets the time and a fresh identifier.\<close>

definition on_impl_store ::
    "'w impl_port \<Rightarrow> (int \<Rightarrow> string \<Rightarrow> impl_db \<Rightarrow> (impl_db, 'a) db_result) \<Rightarrow> ('w, 'a) impl_action" where
  "on_impl_store po f \<sigma> =
     (case f (ipo_clock po (ips_ticks \<sigma>)) (ipo_new_id po (ips_ticks \<sigma>)) (ips_db \<sigma>) of
        (db, r) \<Rightarrow> (r, \<sigma>\<lparr> ips_db := db, ips_ticks := Suc (ips_ticks \<sigma>) \<rparr>))"

definition from_impl_store :: "(impl_db \<Rightarrow> symphony_error + 'a) \<Rightarrow> ('w, 'a) impl_action" where
  "from_impl_store f \<sigma> = (f (ips_db \<sigma>), \<sigma>)"

text \<open>\<open>let _ = ...\<close>, and an action run for its effect before an error is returned.\<close>

definition ignoring :: "('s, 'a) state_action \<Rightarrow> ('s, unit) state_action" where
  "ignoring m \<sigma> = (Inr (), snd (m \<sigma>))"

definition fail_after :: "('s, 'a) state_action \<Rightarrow> symphony_error \<Rightarrow> ('s, 'b) state_action" where
  "fail_after m e = and_then m (\<lambda>_. give_up e)"

section \<open>Steps\<close>

definition impl_preview_step :: string where "impl_preview_step = ''preview_comment''"
definition impl_diagnostic_step :: string where "impl_diagnostic_step = ''diagnostic_comment''"
definition impl_pending_step :: string where "impl_pending_step = ''comment_pending''"
definition branch_pushed_step :: string where "branch_pushed_step = ''branch_pushed''"
definition pr_verified_step :: string where "pr_verified_step = ''pr_verified''"
definition route_applied_step :: string where "route_applied_step = ''route_applied''"
definition comment_final_step :: string where "comment_final_step = ''comment_final''"

lemmas impl_step_names = impl_pending_step_def branch_pushed_step_def pr_verified_step_def
  route_applied_step_def comment_final_step_def

section \<open>The owned comment\<close>

definition extract_implementation_intent_id :: "string \<Rightarrow> string option" where
  "extract_implementation_intent_id body =
     (case split_at_str implementation_comment_marker_prefix body of
        None \<Rightarrow> None
      | Some (_, rest) \<Rightarrow>
          (case split_at_str '' -->'' rest of
             None \<Rightarrow> None
           | Some (intent_id, _) \<Rightarrow> if trim intent_id = [] then None else Some (trim intent_id)))"

definition parse_implementation_comment_id :: "string \<Rightarrow> ('w, nat) impl_action" where
  "parse_implementation_comment_id raw =
     (case parse_u64 raw of
        Inr n \<Rightarrow> give n
      | Inl err \<Rightarrow> give_up (TriageError (''invalid implementation comment id '' @ raw @ '': '' @ err)))"

definition owns_implementation_comment :: "string \<Rightarrow> string \<Rightarrow> github_issue_comment \<Rightarrow> bool" where
  "owns_implementation_comment intent_id publisher_login c \<longleftrightarrow>
     (case gc_body c of
        None \<Rightarrow> False
      | Some body \<Rightarrow> extract_implementation_intent_id body = Some intent_id
          \<and> eq_ignore_ascii_case (comment_author c) publisher_login)"

definition recover_implementation_comment ::
    "'w impl_port \<Rightarrow> nat \<Rightarrow> string \<Rightarrow> string \<Rightarrow> nat \<Rightarrow> ('w, nat option) impl_action" where
  "recover_implementation_comment po issue_number intent_id publisher_login max_pages =
     and_then (impl_ask (IcListComments issue_number max_pages) (ipo_list_comments po issue_number max_pages))
       (\<lambda>comments. give (map_option gc_id (find (owns_implementation_comment intent_id publisher_login) comments)))"

definition bind_implementation_comment ::
    "factory_env \<Rightarrow> 'w impl_port \<Rightarrow> string \<Rightarrow> nat \<Rightarrow> string \<Rightarrow> ('w, unit) impl_action" where
  "bind_implementation_comment env po intent_id comment_id publisher_login =
     on_impl_store po (\<lambda>now _.
       bind_implementation_publication_comment env now intent_id (nat_digits comment_id) publisher_login)"

definition edit_implementation_comment ::
    "factory_env \<Rightarrow> 'w impl_port \<Rightarrow> implementation_publication_row \<Rightarrow> string \<Rightarrow> string \<Rightarrow> nat
     \<Rightarrow> ('w, unit) impl_action" where
  "edit_implementation_comment env po intent body publisher_login comment_id =
     and_then (impl_ask (IcGetComment comment_id) (ipo_get_comment po comment_id))
       (\<lambda>existing.
          if \<not> eq_ignore_ascii_case (comment_author existing) publisher_login
          then give_up (TriageError (''implementation publication comment '' @ nat_digits comment_id
                 @ '' is not owned by publisher '' @ publisher_login))
          else and_then (impl_ask (IcUpdateComment comment_id body) (ipo_update_comment po comment_id body))
            (\<lambda>_. if ipi_comment_id intent = None \<or> ipi_publisher_login intent \<noteq> Some publisher_login
                 then bind_implementation_comment env po (ipi_intent_id intent) comment_id publisher_login
                 else give ()))"

definition upsert_implementation_comment ::
    "factory_env \<Rightarrow> 'w impl_port \<Rightarrow> implementation_publication_row \<Rightarrow> nat \<Rightarrow> string \<Rightarrow> nat
     \<Rightarrow> ('w, unit) impl_action" where
  "upsert_implementation_comment env po intent issue_number body max_pages =
     and_then (impl_ask IcLogin (ipo_login po))
       (\<lambda>publisher_login.
          case ipi_comment_id intent of
            Some raw \<Rightarrow>
              and_then (parse_implementation_comment_id raw)
                (edit_implementation_comment env po intent body publisher_login)
          | None \<Rightarrow>
              and_then (recover_implementation_comment po issue_number (ipi_intent_id intent) publisher_login max_pages)
                (\<lambda>recovered.
                   case recovered of
                     Some comment_id \<Rightarrow> edit_implementation_comment env po intent body publisher_login comment_id
                   | None \<Rightarrow>
                       and_then (impl_ask (IcCreateComment issue_number body) (ipo_create_comment po issue_number body))
                         (\<lambda>created. bind_implementation_comment env po (ipi_intent_id intent) (gc_id created) publisher_login)))"

section \<open>Previews and diagnostics\<close>

record impl_preview_request =
  ivr_intent :: implementation_publication_intent
  ivr_issue_number :: nat
  ivr_run_id :: string
  ivr_stage_run_id :: string
  ivr_artifact :: implementation_artifact_record
  ivr_manifest :: implementation_manifest
  ivr_changed_paths :: "string list"
  ivr_validation :: "validation_command_result list"
  ivr_max_pages :: nat

definition complete_publication ::
    "factory_env \<Rightarrow> 'w impl_port \<Rightarrow> string \<Rightarrow> string \<Rightarrow> ('w, unit) impl_action" where
  "complete_publication env po intent_id step =
     on_impl_store po (\<lambda>now _. complete_implementation_publication env now intent_id step)"

definition preview_head :: "implementation_artifact_record \<Rightarrow> implementation_manifest \<Rightarrow> string" where
  "preview_head artifact manifest =
     (case iar_head_commit artifact of
        Some h \<Rightarrow> h
      | None \<Rightarrow> (case im_head_commit manifest of Some h \<Rightarrow> h | None \<Rightarrow> ''''))"

definition publish_implementation_preview ::
    "factory_env \<Rightarrow> 'w impl_port \<Rightarrow> impl_preview_request \<Rightarrow> ('w, unit) impl_action" where
  "publish_implementation_preview env po request =
     (let intent = ipi_row (ivr_intent request); artifact = ivr_artifact request
      in if ipi_kind intent \<noteq> ImplPreviewPublication
         then give_up (TriageError (''preview publisher cannot reconcile kind=''
                @ implementation_publication_kind_as_str (ipi_kind intent)))
         else if ipi_status intent = PubApplied \<and> impl_preview_step \<in> set (ipi_completed_steps intent)
         then give ()
         else and_then
           (upsert_implementation_comment env po intent (ivr_issue_number request)
              (implementation_render_preview_comment
                 \<lparr> ipc_intent_id = ipi_intent_id intent, ipc_run_id = ivr_run_id request,
                   ipc_stage_run_id = ivr_stage_run_id request, ipc_artifact_id = iar_artifact_id artifact,
                   ipc_approved_version = iar_approved_version artifact,
                   ipc_approved_spec_path = iar_approved_spec_path artifact,
                   ipc_base_commit = iar_base_commit artifact,
                   ipc_head_commit = preview_head artifact (ivr_manifest request),
                   ipc_manifest = ivr_manifest request, ipc_changed_paths = ivr_changed_paths request,
                   ipc_validation = ivr_validation request \<rparr>) (ivr_max_pages request))
           (\<lambda>_. complete_publication env po (ipi_intent_id intent) impl_preview_step))"

definition publish_implementation_diagnostic ::
    "factory_env \<Rightarrow> 'w impl_port \<Rightarrow> implementation_publication_intent \<Rightarrow> nat \<Rightarrow> string \<Rightarrow> string \<Rightarrow> nat
     \<Rightarrow> ('w, unit) impl_action" where
  "publish_implementation_diagnostic env po intent issue_number run_id message max_pages =
     (let row = ipi_row intent
      in if ipi_kind row \<noteq> ImplDiagnosticPublication
         then give_up (TriageError (''diagnostic publisher cannot reconcile kind=''
                @ implementation_publication_kind_as_str (ipi_kind row)))
         else if ipi_status row = PubApplied \<and> impl_diagnostic_step \<in> set (ipi_completed_steps row)
         then give ()
         else and_then
           (upsert_implementation_comment env po row issue_number
              (render_diagnostic_comment (ipi_intent_id row) run_id message) max_pages)
           (\<lambda>_. complete_publication env po (ipi_intent_id row) impl_diagnostic_step))"

section \<open>Automatic publication\<close>

record impl_automatic_request =
  iau_intent :: implementation_publication_intent
  iau_issue_number :: nat
  iau_issue_title :: string
  iau_current_issue_revision :: string
  iau_run_id :: string
  iau_stage_run_id :: string
  iau_artifact :: implementation_artifact_record
  iau_bundle :: bundle_artifact_record
  iau_manifest :: implementation_manifest
  iau_validation :: "validation_command_result list"
  iau_branch :: string
  iau_base_branch :: string
  iau_remote_url :: string
  iau_repo_owner :: string
  iau_approval_route_label :: string
  iau_completion_route_state :: string
  iau_max_pages :: nat

definition publication_error :: "string \<Rightarrow> string \<Rightarrow> bool \<Rightarrow> string option \<Rightarrow> factory_error" where
  "publication_error code remediation retryable step =
     factory_error_new code ''implementation_publication'' remediation retryable step"

definition set_publication_error ::
    "factory_env \<Rightarrow> 'w impl_port \<Rightarrow> string \<Rightarrow> publication_status \<Rightarrow> factory_error \<Rightarrow> ('w, unit) impl_action" where
  "set_publication_error env po intent_id status e =
     on_impl_store po (\<lambda>now _. set_implementation_publication_error env now intent_id status e)"

definition record_impl_step ::
    "factory_env \<Rightarrow> 'w impl_port \<Rightarrow> string \<Rightarrow> string \<Rightarrow> json \<Rightarrow> ('w, unit) impl_action" where
  "record_impl_step env po intent_id step projection =
     on_impl_store po (\<lambda>now _. record_implementation_publication_step env now intent_id step PubPending projection)"

definition reload_impl_intent ::
    "factory_env \<Rightarrow> string \<Rightarrow> ('w, implementation_publication_row) impl_action" where
  "reload_impl_intent env intent_id \<sigma> =
     (case get_implementation_publication_intent env (ips_db \<sigma>) intent_id of
        Inl e \<Rightarrow> (Inl e, \<sigma>)
      | Inr None \<Rightarrow> (Inl (TriageError (''implementation publication intent '' @ intent_id @ '' missing'')), \<sigma>)
      | Inr (Some intent) \<Rightarrow> (Inr (ipi_row intent), \<sigma>))"

text \<open>A step that is recorded is skipped when the publication is taken up again.\<close>

definition unless_completed ::
    "factory_env \<Rightarrow> string \<Rightarrow> implementation_publication_row \<Rightarrow> ('w, unit) impl_action
     \<Rightarrow> ('w, implementation_publication_row) impl_action" where
  "unless_completed env step intent m =
     (if step \<in> set (ipi_completed_steps intent) then give intent
      else and_then m (\<lambda>_. reload_impl_intent env (ipi_intent_id intent)))"

fun set_completion_route_state ::
    "'w impl_port \<Rightarrow> nat \<Rightarrow> string \<Rightarrow> nat \<Rightarrow> ('w, unit) impl_action" where
  "set_completion_route_state po issue_number state 0 =
     give_up (TriageError (''completion route state '' @ [CHR 0x27] @ state @ [CHR 0x27]
       @ '' was not observed for issue '' @ nat_digits issue_number))"
| "set_completion_route_state po issue_number state (Suc attempts) =
     and_then (impl_ask (IcSetState issue_number state) (ipo_set_state po issue_number state))
       (\<lambda>_. and_then (impl_ask (IcProjectState issue_number) (ipo_project_state po issue_number))
         (\<lambda>observed.
            case observed of
              Some value \<Rightarrow>
                if eq_ignore_ascii_case (trim value) state then give ()
                else set_completion_route_state po issue_number state attempts
            | None \<Rightarrow> set_completion_route_state po issue_number state attempts))"

definition completion_state_attempts :: nat where
  "completion_state_attempts = 3"

text \<open>The pull request of a publication, checked against what the publication wants.\<close>

definition pull_request_intent :: "github_pull_request \<Rightarrow> string option" where
  "pull_request_intent pr =
     (case gpr_body pr of None \<Rightarrow> None | Some body \<Rightarrow> extract_implementation_pr_intent_id body)"

definition verify_owned_draft_pr ::
    "github_pull_request \<Rightarrow> string \<Rightarrow> string \<Rightarrow> string \<Rightarrow> string \<Rightarrow> string \<Rightarrow> symphony_error + github_pull_request" where
  "verify_owned_draft_pr pr intent_id branch base_branch desired_head publisher_login =
     (let author = (case gpr_user_login pr of None \<Rightarrow> '''' | Some l \<Rightarrow> l);
          named = ''owned PR #'' @ nat_digits (gpr_number pr)
      in if pull_request_intent pr \<noteq> Some intent_id then Inl (TriageError ''draft PR missing ownership marker'')
         else if \<not> eq_ignore_ascii_case author publisher_login
         then Inl (TriageError (named @ '' author '' @ debug_string author
                @ '' does not match authenticated publisher '' @ publisher_login))
         else if gpr_state pr \<noteq> ''open''
         then Inl (TriageError (named @ '' is '' @ gpr_state pr @ '', not open''))
         else if \<not> gpr_draft pr then Inl (TriageError (named @ '' is ready-for-review, not draft''))
         else if prr_name (gpr_head pr) \<noteq> branch \<or> prr_name (gpr_base pr) \<noteq> base_branch
         then Inl (TriageError (named @ '' head/base drift: '' @ prr_name (gpr_head pr) @ ''/'' @ prr_name (gpr_base pr)
                @ '' vs '' @ branch @ ''/'' @ base_branch))
         else if prr_sha (gpr_head pr) \<noteq> desired_head
         then Inl (TriageError (named @ '' head SHA drift: '' @ prr_sha (gpr_head pr) @ '' vs '' @ desired_head))
         else Inr pr)"

definition verify_persisted_draft_pr_record ::
    "draft_pr_artifact_record \<Rightarrow> github_pull_request \<Rightarrow> symphony_error + github_pull_request" where
  "verify_persisted_draft_pr_record persisted live =
     (if dpr_number persisted \<noteq> gpr_number live \<or> dpr_url persisted \<noteq> gpr_html_url live
         \<or> dpr_draft persisted \<noteq> gpr_draft live \<or> dpr_head persisted \<noteq> prr_name (gpr_head live)
         \<or> dpr_base persisted \<noteq> prr_name (gpr_base live) \<or> dpr_head_sha persisted \<noteq> prr_sha (gpr_head live)
      then Inl (TriageError (''persisted draft PR artifact for #'' @ nat_digits (dpr_number persisted)
             @ '' does not match live GitHub state''))
      else Inr live)"

definition truncate_title :: "string \<Rightarrow> nat \<Rightarrow> string" where
  "truncate_title title max_chars =
     (let trimmed = trim title
      in if length trimmed \<le> max_chars then trimmed else take (max_chars - 1) trimmed @ [ellipsis])"

definition list_candidates ::
    "'w impl_port \<Rightarrow> impl_automatic_request \<Rightarrow> ('w, github_pull_request list) impl_action" where
  "list_candidates po request =
     (let head = iau_repo_owner request @ '':'' @ iau_branch request
      in impl_ask (IcListPulls ''all'' head (iau_base_branch request) (iau_max_pages request))
           (ipo_list_pulls po ''all'' head (iau_base_branch request) (iau_max_pages request)))"

definition is_open_pr :: "github_pull_request \<Rightarrow> bool" where
  "is_open_pr pr \<longleftrightarrow> gpr_state pr = ''open''"

definition owned_by :: "string \<Rightarrow> github_pull_request \<Rightarrow> bool" where
  "owned_by intent_id pr \<longleftrightarrow> pull_request_intent pr = Some intent_id"

text \<open>A divergence is recorded as a conflict, and returned.\<close>

definition publication_conflict ::
    "factory_env \<Rightarrow> 'w impl_port \<Rightarrow> string \<Rightarrow> string \<Rightarrow> string \<Rightarrow> ('w, 'a) impl_action" where
  "publication_conflict env po intent_id code message =
     (let e = publication_error code message False None
      in fail_after (set_publication_error env po intent_id PubConflict e) (TriageError (fe_remediation e)))"

definition draft_pr_title :: "impl_automatic_request \<Rightarrow> string" where
  "draft_pr_title request = ''Symphony implementation: '' @ truncate_title (iau_issue_title request) 72"

definition draft_pr_body :: "impl_automatic_request \<Rightarrow> string \<Rightarrow> string" where
  "draft_pr_body request intent_id =
     (let artifact = iau_artifact request; bundle = iau_bundle request
      in render_draft_pr_body
           \<lparr> idb_intent_id = intent_id, idb_issue_number = iau_issue_number request,
             idb_run_id = iau_run_id request, idb_stage_run_id = iau_stage_run_id request,
             idb_artifact_id = iar_artifact_id artifact, idb_bundle_artifact_id = bar_artifact_id bundle,
             idb_approved_artifact_id = iar_approved_artifact_id artifact,
             idb_approved_version = iar_approved_version artifact,
             idb_approved_spec_path = iar_approved_spec_path artifact,
             idb_base_commit = bar_base_commit bundle, idb_head_commit = bar_head_commit bundle,
             idb_manifest = iau_manifest request, idb_validation = iau_validation request \<rparr>)"

definition create_draft_pr ::
    "'w impl_port \<Rightarrow> impl_automatic_request \<Rightarrow> string \<Rightarrow> string \<Rightarrow> ('w, github_pull_request) impl_action" where
  "create_draft_pr po request intent_id publisher_login =
     (let title = draft_pr_title request; body = draft_pr_body request intent_id;
          branch = iau_branch request; base = iau_base_branch request
      in and_then (impl_ask (IcCreatePull title body branch base True) (ipo_create_pull po title body branch base True))
           (\<lambda>created.
              case verify_owned_draft_pr created intent_id branch base (bar_head_commit (iau_bundle request)) publisher_login of
                Inl e \<Rightarrow> give_up e
              | Inr _ \<Rightarrow> give created))"

text \<open>The listed pull requests: a conflict, the one of this publication, or none yet.\<close>

definition settle_candidates ::
    "factory_env \<Rightarrow> 'w impl_port \<Rightarrow> string \<Rightarrow> impl_automatic_request \<Rightarrow> string \<Rightarrow> github_pull_request list
     \<Rightarrow> ('w, github_pull_request) impl_action" where
  "settle_candidates env po intent_id request publisher_login candidates =
     (let owned = filter (\<lambda>pr. owned_by intent_id pr \<and> is_open_pr pr) candidates;
          closed_owned = filter (\<lambda>pr. owned_by intent_id pr \<and> \<not> is_open_pr pr) candidates;
          foreign_open = (\<exists>pr \<in> set candidates. \<not> owned_by intent_id pr \<and> is_open_pr pr)
      in if closed_owned \<noteq> []
         then publication_conflict env po intent_id ''closed_owned_pr''
                (''owned PR #'' @ nat_digits (gpr_number (hd closed_owned)) @ '' is ''
                 @ gpr_state (hd closed_owned) @ '', refusing to replace maintainer divergence'')
         else if foreign_open \<and> owned = []
         then publication_conflict env po intent_id ''foreign_pr''
                (''open PR on '' @ iau_branch request @ '' lacks ownership marker'')
         else if 1 < length owned
         then publication_conflict env po intent_id ''multiple_prs''
                (''multiple owned PRs for intent '' @ intent_id)
         else case owned of
                pr # _ \<Rightarrow>
                  (case verify_owned_draft_pr pr intent_id (iau_branch request) (iau_base_branch request)
                          (bar_head_commit (iau_bundle request)) publisher_login of
                     Inr pr \<Rightarrow> give pr
                   | Inl e \<Rightarrow>
                       fail_after (ignoring (set_publication_error env po intent_id PubConflict
                         (publication_error ''pr_drift'' (error_to_string e) False None))) e)
              | [] \<Rightarrow> create_draft_pr po request intent_id publisher_login)"

definition reconcile_draft_pr ::
    "factory_env \<Rightarrow> 'w impl_port \<Rightarrow> string \<Rightarrow> impl_automatic_request \<Rightarrow> string
     \<Rightarrow> ('w, github_pull_request) impl_action" where
  "reconcile_draft_pr env po intent_id request publisher_login =
     and_then (list_candidates po request) (settle_candidates env po intent_id request publisher_login)"

definition reverify_persisted_draft_pr ::
    "factory_env \<Rightarrow> 'w impl_port \<Rightarrow> string \<Rightarrow> impl_automatic_request \<Rightarrow> draft_pr_artifact_record \<Rightarrow> string
     \<Rightarrow> ('w, unit) impl_action" where
  "reverify_persisted_draft_pr env po intent_id request persisted publisher_login =
     and_then (list_candidates po request)
       (\<lambda>candidates.
          case find (\<lambda>pr. gpr_number pr = dpr_number persisted) candidates of
            None \<Rightarrow>
              (let e = publication_error ''pr_not_visible''
                     (''persisted draft PR #'' @ nat_digits (dpr_number persisted)
                      @ '' is not visible in the bounded head/base listing'') True (Some pr_verified_step)
               in fail_after (set_publication_error env po intent_id PubPending e) (TriageError (fe_remediation e)))
          | Some live \<Rightarrow>
              (case (case verify_owned_draft_pr live intent_id (iau_branch request) (iau_base_branch request)
                            (bar_head_commit (iau_bundle request)) publisher_login of
                       Inl e \<Rightarrow> Inl e
                     | Inr pr \<Rightarrow> verify_persisted_draft_pr_record persisted pr) of
                 Inr _ \<Rightarrow> give ()
               | Inl e \<Rightarrow>
                   fail_after (set_publication_error env po intent_id PubConflict
                     (publication_error ''pr_drift'' (error_to_string e) False None)) e))"

section \<open>The steps of an automatic publication\<close>

definition announce_publication ::
    "factory_env \<Rightarrow> 'w impl_port \<Rightarrow> impl_automatic_request \<Rightarrow> implementation_publication_row
     \<Rightarrow> ('w, unit) impl_action" where
  "announce_publication env po request intent =
     (let bundle = iau_bundle request
      in and_then (upsert_implementation_comment env po intent (iau_issue_number request)
             (render_publication_pending_comment (ipi_intent_id intent) (iau_run_id request)
                (iau_stage_run_id request) (iar_artifact_id (iau_artifact request))) (iau_max_pages request))
           (\<lambda>_. record_impl_step env po (ipi_intent_id intent) impl_pending_step
              (JObject [(''branch'', JString (iau_branch request)),
                        (''bundle_sha256'', JString (bar_sha256 bundle)),
                        (''desired_head'', JString (bar_head_commit bundle)),
                        (''step'', JString impl_pending_step)])))"

definition expected_remote :: "implementation_publication_row \<Rightarrow> string option" where
  "expected_remote intent =
     (case json_get (ipi_expected_projection intent) ''remote_sha'' of None \<Rightarrow> None | Some v \<Rightarrow> as_str v)"

definition branch_request_of :: "impl_automatic_request \<Rightarrow> implementation_publication_row \<Rightarrow> branch_publish_request" where
  "branch_request_of request intent =
     (let bundle = iau_bundle request
      in \<lparr> bpr_bundle_sha256 = bar_sha256 bundle, bpr_bundle_bytes_len = bar_bytes_len bundle,
           bpr_base_commit = bar_base_commit bundle, bpr_desired_head = bar_head_commit bundle,
           bpr_expected_remote_sha = expected_remote intent, bpr_branch_name = iau_branch request,
           bpr_base_branch = iau_base_branch request \<rparr>)"

definition run_publish_branch ::
    "'w impl_port \<Rightarrow> string \<Rightarrow> branch_publish_request \<Rightarrow> ('w, branch_publish_outcome) impl_action" where
  "run_publish_branch po remote_url b \<sigma> =
     (case publish_branch (ipo_git po) (ipo_blob_path po) remote_url b (ips_world \<sigma>) of
        (w, r) \<Rightarrow> (r, \<sigma>\<lparr> ips_world := w, ips_history := ips_history \<sigma> @ [(IcPublishBranch b, \<not> isl r)] \<rparr>))"

text \<open>Which failures of the branch are conflicts is read off the text of the error.\<close>

definition branch_failure_code :: "string \<Rightarrow> string option" where
  "branch_failure_code message =
     (if contains_str ''base commit conflict'' message then Some ''base_commit_unreachable''
      else if contains_str ''conflict'' message then Some ''branch_conflict''
      else None)"

definition branch_failed ::
    "factory_env \<Rightarrow> 'w impl_port \<Rightarrow> string \<Rightarrow> symphony_error \<Rightarrow> ('w, 'a) impl_action" where
  "branch_failed env po intent_id e =
     (case branch_failure_code (error_to_string e) of
        None \<Rightarrow> give_up e
      | Some code \<Rightarrow>
          fail_after (ignoring (set_publication_error env po intent_id PubConflict
            (publication_error code (error_to_string e) False None))) e)"

definition or_handle :: "('s, 'a) state_action \<Rightarrow> (symphony_error \<Rightarrow> ('s, 'a) state_action) \<Rightarrow> ('s, 'a) state_action" where
  "or_handle m h \<sigma> = (case m \<sigma> of (Inl e, \<sigma>') \<Rightarrow> h e \<sigma>' | (Inr a, \<sigma>') \<Rightarrow> (Inr a, \<sigma>'))"

definition push_publication_branch ::
    "factory_env \<Rightarrow> 'w impl_port \<Rightarrow> impl_automatic_request \<Rightarrow> implementation_publication_row
     \<Rightarrow> ('w, unit) impl_action" where
  "push_publication_branch env po request intent =
     (let bundle = iau_bundle request
      in and_then
           (or_handle (run_publish_branch po (iau_remote_url request) (branch_request_of request intent))
              (branch_failed env po (ipi_intent_id intent)))
           (\<lambda>outcome. record_impl_step env po (ipi_intent_id intent) branch_pushed_step
              (JObject [(''branch'', JString (iau_branch request)),
                        (''bundle_sha256'', JString (bar_sha256 bundle)),
                        (''desired_head'', JString (bar_head_commit bundle)),
                        (''pushed'', JBool (bpo_pushed outcome)),
                        (''remote_sha'', JString (bpo_remote_sha_after outcome)),
                        (''step'', JString branch_pushed_step)])))"

definition verified_projection :: "string \<Rightarrow> string \<Rightarrow> string \<Rightarrow> nat \<Rightarrow> string \<Rightarrow> json" where
  "verified_projection base head head_sha pr_number pr_url =
     JObject [(''base'', JString base), (''head'', JString head), (''head_sha'', JString head_sha),
              (''pr_number'', JNumber (PosInt pr_number)), (''pr_url'', JString pr_url),
              (''step'', JString pr_verified_step)]"

definition draft_request :: "impl_automatic_request \<Rightarrow> string \<Rightarrow> github_pull_request \<Rightarrow> store_draft_pr_request" where
  "draft_request request intent_id pr =
     \<lparr> dp_run_id = iau_run_id request,
       dp_implementation_artifact_id = iar_artifact_id (iau_artifact request),
       dp_intent_id = intent_id, dp_number = gpr_number pr, dp_url = gpr_html_url pr, dp_draft = gpr_draft pr,
       dp_head = prr_name (gpr_head pr), dp_base = prr_name (gpr_base pr), dp_head_sha = prr_sha (gpr_head pr),
       dp_marker = pr_marker intent_id \<rparr>"

text \<open>The stored draft is verified again; without one a pull request is found or made and stored.\<close>

definition recheck_draft ::
    "factory_env \<Rightarrow> 'w impl_port \<Rightarrow> impl_automatic_request \<Rightarrow> implementation_publication_row
     \<Rightarrow> draft_pr_artifact_record \<Rightarrow> string \<Rightarrow> ('w, draft_pr_artifact_record \<times> implementation_publication_row) impl_action" where
  "recheck_draft env po request intent existing publisher_login =
     and_then (reverify_persisted_draft_pr env po (ipi_intent_id intent) request existing publisher_login)
       (\<lambda>_. and_then
          (unless_completed env pr_verified_step intent
             (record_impl_step env po (ipi_intent_id intent) pr_verified_step
                (verified_projection (dpr_base existing) (dpr_head existing) (dpr_head_sha existing)
                   (dpr_number existing) (dpr_url existing))))
          (\<lambda>intent. give (existing, intent)))"

definition obtain_draft ::
    "factory_env \<Rightarrow> 'w impl_port \<Rightarrow> impl_automatic_request \<Rightarrow> implementation_publication_row \<Rightarrow> string
     \<Rightarrow> ('w, draft_pr_artifact_record \<times> implementation_publication_row) impl_action" where
  "obtain_draft env po request intent publisher_login =
     (let intent_id = ipi_intent_id intent
      in and_then (reconcile_draft_pr env po intent_id request publisher_login)
           (\<lambda>pr. and_then (on_impl_store po (\<lambda>now new_id.
                store_draft_pr_artifact env now new_id (draft_request request intent_id pr)))
              (\<lambda>record. and_then (record_impl_step env po intent_id pr_verified_step
                   (verified_projection (prr_name (gpr_base pr)) (prr_name (gpr_head pr)) (prr_sha (gpr_head pr))
                      (gpr_number pr) (gpr_html_url pr)))
                 (\<lambda>_. and_then (reload_impl_intent env intent_id) (\<lambda>intent. give (record, intent))))))"

definition stored_draft :: "impl_automatic_request \<Rightarrow> impl_db \<Rightarrow> draft_pr_artifact_record option" where
  "stored_draft request db = get_draft_pr_for_implementation_artifact db (iar_artifact_id (iau_artifact request))"

definition draft_phase ::
    "factory_env \<Rightarrow> 'w impl_port \<Rightarrow> impl_automatic_request \<Rightarrow> implementation_publication_row
     \<Rightarrow> ('w, draft_pr_artifact_record \<times> implementation_publication_row) impl_action" where
  "draft_phase env po request intent =
     and_then (impl_ask IcLogin (ipo_login po))
       (\<lambda>publisher_login. and_then (from_impl_store (\<lambda>db. Inr (stored_draft request db)))
          (\<lambda>existing.
             case existing of
               Some d \<Rightarrow> recheck_draft env po request intent d publisher_login
             | None \<Rightarrow> obtain_draft env po request intent publisher_login))"

definition hand_over ::
    "factory_env \<Rightarrow> 'w impl_port \<Rightarrow> impl_automatic_request \<Rightarrow> implementation_publication_row \<Rightarrow> nat
     \<Rightarrow> ('w, unit) impl_action" where
  "hand_over env po request intent pr_number =
     (let issue = iau_issue_number request; approval = iau_approval_route_label request;
          state = iau_completion_route_state request
      in and_then (impl_ask (IcListLabels issue) (ipo_list_labels po issue))
           (\<lambda>labels. and_then
              (if \<exists>l \<in> set labels. eq_ignore_ascii_case l approval
               then impl_ask (IcRemoveLabel issue approval) (ipo_remove_label po issue approval) else give ())
              (\<lambda>_. and_then (set_completion_route_state po issue state completion_state_attempts)
                 (\<lambda>_. record_impl_step env po (ipi_intent_id intent) route_applied_step
                    (JObject [(''completion_state'', JString state),
                              (''pr_number'', JNumber (PosInt pr_number)),
                              (''removed_label'', JString approval),
                              (''step'', JString route_applied_step)])))))"

definition final_phase ::
    "factory_env \<Rightarrow> 'w impl_port \<Rightarrow> impl_automatic_request \<Rightarrow> implementation_publication_row
     \<Rightarrow> draft_pr_artifact_record \<Rightarrow> ('w, unit) impl_action" where
  "final_phase env po request intent draft =
     (if comment_final_step \<in> set (ipi_completed_steps intent) then give ()
      else and_then (upsert_implementation_comment env po intent (iau_issue_number request)
             (render_publication_final_comment (ipi_intent_id intent) (iau_run_id request)
                (iau_stage_run_id request) (iar_artifact_id (iau_artifact request)) (dpr_number draft)
                (dpr_url draft) (iau_branch request) (bar_head_commit (iau_bundle request))) (iau_max_pages request))
           (\<lambda>_. record_impl_step env po (ipi_intent_id intent) comment_final_step
              (JObject [(''pr_number'', JNumber (PosInt (dpr_number draft))),
                        (''pr_url'', JString (dpr_url draft)), (''step'', JString comment_final_step)])))"

text \<open>The hand-over in the tracker and the last comment: only with a stored draft.\<close>

definition after_draft ::
    "factory_env \<Rightarrow> 'w impl_port \<Rightarrow> impl_automatic_request \<Rightarrow> implementation_publication_row
     \<Rightarrow> draft_pr_artifact_record \<Rightarrow> ('w, draft_pr_artifact_record) impl_action" where
  "after_draft env po request intent draft =
     and_then (from_impl_store (\<lambda>db. Inr (stored_draft request db)))
       (\<lambda>existing.
          if existing = None
          then give_up (TriageError ''refusing tracker handoff without draft-PR artifact'')
          else and_then (unless_completed env route_applied_step intent
                 (hand_over env po request intent (dpr_number draft)))
            (\<lambda>intent. and_then (final_phase env po request intent draft) (\<lambda>_. give draft)))"

definition publish_steps ::
    "factory_env \<Rightarrow> 'w impl_port \<Rightarrow> impl_automatic_request \<Rightarrow> implementation_publication_row
     \<Rightarrow> ('w, draft_pr_artifact_record) impl_action" where
  "publish_steps env po request intent =
     and_then (unless_completed env impl_pending_step intent (announce_publication env po request intent))
       (\<lambda>intent. and_then
          (unless_completed env branch_pushed_step intent (push_publication_branch env po request intent))
          (\<lambda>intent. and_then (draft_phase env po request intent)
             (\<lambda>(draft, intent). after_draft env po request intent draft)))"

definition publish_implementation_automatic ::
    "factory_env \<Rightarrow> 'w impl_port \<Rightarrow> impl_automatic_request \<Rightarrow> ('w, draft_pr_artifact_record) impl_action" where
  "publish_implementation_automatic env po request =
     (let intent = ipi_row (iau_intent request); intent_id = ipi_intent_id intent;
          approved = iar_issue_revision (iau_artifact request)
      in if ipi_kind intent \<noteq> ImplAutomaticPublication
         then give_up (TriageError (''automatic publisher cannot reconcile kind=''
                @ implementation_publication_kind_as_str (ipi_kind intent)))
         else if ipi_status intent = PubApplied
         then from_impl_store (\<lambda>db. case get_draft_pr_for_intent db intent_id of
                Some d \<Rightarrow> Inr d
              | None \<Rightarrow> Inl (TriageError ''automatic publication is applied but draft PR artifact is missing''))
         else if ipi_status intent = PubConflict \<or> ipi_status intent = PubBlocked
         then give_up (TriageError (''automatic publication is terminal status=''
                @ publication_status_as_str (ipi_status intent)))
         else if iau_current_issue_revision request \<noteq> approved
         then (let e = publication_error ''issue_revision_drift''
                     (''issue revision drifted: approved='' @ approved @ '' current=''
                      @ iau_current_issue_revision request) True None
               in fail_after (on_impl_store po (\<lambda>now _.
                      set_implementation_publication_waiting env now intent_id PubPending e))
                    (TriageError (fe_remediation e)))
         else and_then (reload_impl_intent env intent_id) (publish_steps env po request))"

section \<open>Where a publication goes\<close>

text \<open>\<open>repo_is_remote\<close> of \<open>src/repo_url.rs\<close>; parsing a URL is an argument.\<close>

definition is_windows_drive_path :: "string \<Rightarrow> bool" where
  "is_windows_drive_path path \<longleftrightarrow>
     (case path of a # b # c # _ \<Rightarrow>
        is_ascii_alphabetic a \<and> b = CHR '':'' \<and> (c = CHR 0x5C \<or> c = CHR ''/'') | _ \<Rightarrow> False)"

definition repo_is_remote :: "string \<Rightarrow> bool" where
  "repo_is_remote raw =
     (let repo = trim raw
      in if contains_str ''://'' repo then True
         else if is_windows_drive_path repo then False
         else if prefix ''/'' repo \<or> prefix ''./'' repo \<or> prefix ''../'' repo then False
         else (case split_once (CHR '':'') repo of
                 Some (host, path) \<Rightarrow>
                   host \<noteq> [] \<and> path \<noteq> [] \<and> CHR ''/'' \<notin> set host \<and> CHR 0x5C \<notin> set host
                   \<and> last host \<noteq> CHR ''.''
                 | None \<Rightarrow> False) \<or> contains_str ''@'' repo)"

record parsed_url =
  pu_scheme :: string
  pu_username :: string
  pu_password :: "string option"
  pu_host :: "string option"
  pu_path :: string
  pu_query :: "string option"
  pu_fragment :: "string option"

definition strip_git_suffix :: "string \<Rightarrow> string" where
  "strip_git_suffix s = (if suffix ''.git'' s then take (length s - 4) s else s)"

definition nonempty_effect :: "json \<Rightarrow> string \<Rightarrow> string option" where
  "nonempty_effect effects key =
     (case json_get effects key of
        None \<Rightarrow> None
      | Some v \<Rightarrow> (case as_str v of None \<Rightarrow> None | Some s \<Rightarrow> if trim s = [] then None else Some (trim s)))"

definition canonical_remote :: "string \<Rightarrow> string \<Rightarrow> string \<Rightarrow> string" where
  "canonical_remote host owner repo = ''https://'' @ host @ ''/'' @ owner @ ''/'' @ repo @ ''.git''"

text \<open>A pinned remote must name the configured repository, over HTTPS and without credentials.\<close>

definition check_remote :: "(string \<Rightarrow> parsed_url option) \<Rightarrow> string \<Rightarrow> string \<Rightarrow> string \<Rightarrow> string \<Rightarrow> symphony_error + unit" where
  "check_remote parse_url url host owner repo =
     (case parse_url url of
        None \<Rightarrow> Inl (TriageError ''automatic publication remote_url must be a valid HTTPS URL'')
      | Some u \<Rightarrow>
          if pu_scheme u \<noteq> ''https'' then Inl (TriageError ''automatic publication remote_url must use HTTPS'')
          else if pu_username u \<noteq> [] \<or> pu_password u \<noteq> None
          then Inl (TriageError ''automatic publication remote_url must not contain credentials'')
          else if (case pu_host u of None \<Rightarrow> True | Some h \<Rightarrow> \<not> eq_ignore_ascii_case h host)
             \<or> strip_git_suffix (trim_matches (CHR ''/'') (pu_path u)) \<noteq> owner @ ''/'' @ repo
             \<or> pu_query u \<noteq> None \<or> pu_fragment u \<noteq> None
          then Inl (TriageError ''automatic publication remote_url does not match the pinned forge repository'')
          else Inr ())"

definition resolve_publication_remote ::
    "(string \<Rightarrow> parsed_url option) \<Rightarrow> json \<Rightarrow> string \<Rightarrow> string \<Rightarrow> string \<Rightarrow> symphony_error + string" where
  "resolve_publication_remote parse_url effects forge_host repo_owner repo_name =
     (let host = rev (dropWhile (\<lambda>c. c = CHR ''/'') (rev (trim forge_host)));
          owner = trim_matches (CHR ''/'') (trim repo_owner);
          repo = trim_matches (CHR ''/'') (trim repo_name);
          stem = strip_git_suffix repo
      in if host = [] \<or> owner = [] \<or> repo = []
         then Inl (TriageError
                ''automatic publication requires a pinned forge host, repo owner, and repo name'')
         else (case nonempty_effect effects ''remote_url'' of
                 Some url \<Rightarrow>
                   if repo_is_remote url
                   then (case check_remote parse_url url host owner stem of
                           Inl e \<Rightarrow> Inl e | Inr _ \<Rightarrow> Inr (canonical_remote host owner stem))
                   else Inr (canonical_remote host owner stem)
               | None \<Rightarrow> Inr (canonical_remote host owner stem)))"

section \<open>Reconciling pending publications\<close>

text \<open>What the coordinator reads of its configuration; the token is the one \<open>resolve_github_token\<close> finds.\<close>

record publication_service =
  psv_repo_owner :: "string option"
  psv_repo_name :: "string option"
  psv_token :: "string option"
  psv_spec :: spec_config
  psv_routes :: triage_routes_config
  psv_intake_label :: string
  psv_intake_max_pages :: nat

record publication_env =
  pen_impl :: impl_env
  pen_parse_url :: "string \<Rightarrow> parsed_url option"
  pen_digest :: "json \<Rightarrow> string"
  pen_forge_host :: string
  pen_routing :: bool
  pen_pulls :: bool

definition pen_factory :: "publication_env \<Rightarrow> factory_env" where
  "pen_factory env = ien_factory (pen_impl env)"

definition max_automatic_publication_retries :: nat where
  "max_automatic_publication_retries = 8"

definition automatic_backoff_secs :: "nat \<Rightarrow> int" where
  "automatic_backoff_secs retry_count = min (30 * 2 ^ min (retry_count - 1) 16) 1800"

definition automatic_retry_ready :: "nat \<Rightarrow> int \<Rightarrow> int \<Rightarrow> bool" where
  "automatic_retry_ready retry_count updated_at now \<longleftrightarrow>
     retry_count = 0 \<or> automatic_backoff_secs retry_count \<le> num_seconds (now - updated_at)"

definition already_recorded :: "factory_error \<Rightarrow> string \<Rightarrow> bool" where
  "already_recorded last_error message \<longleftrightarrow>
     fe_retryable last_error \<and> fe_remediation last_error \<noteq> [] \<and> suffix (fe_remediation last_error) message"

definition required_desired_effect :: "json \<Rightarrow> string \<Rightarrow> symphony_error + string" where
  "required_desired_effect effects key =
     (case nonempty_effect effects key of
        Some s \<Rightarrow> Inr s
      | None \<Rightarrow> Inl (TriageError (''automatic publication intent is missing pinned '' @ key)))"

definition service_max_pages :: "publication_service \<Rightarrow> nat" where
  "service_max_pages s = max (psv_intake_max_pages s) (sc_max_intake_pages (psv_spec s))"

definition spec_managed_labels :: "spec_config \<Rightarrow> string list" where
  "spec_managed_labels c =
     [sc_intake_label c, sl_approved (sc_labels c), sl_revise (sc_labels c), sr_label (sc_approval_route c)]"

text \<open>The revision of an issue: a digest of what people wrote, without managed labels and own comments.\<close>

definition implementation_issue_revision ::
    "publication_env \<Rightarrow> publication_service \<Rightarrow> triage_intake_issue \<Rightarrow> string \<Rightarrow> string" where
  "implementation_issue_revision env s issue publisher_login =
     (let ts = ien_ts (pen_impl env);
          managed = map to_ascii_lowercase
            (spec_managed_labels (psv_spec s) @ routes_managed_labels (psv_routes s) @ [psv_intake_label s]);
          labels = filter (\<lambda>l. to_ascii_lowercase l \<notin> set managed) (tii_labels issue);
          comments = filter (\<lambda>c. \<not> is_publisher_owned c publisher_login) (tii_comments issue)
      in pen_digest env
           (JObject [(''assignees'', json_string_list (tii_assignees issue)), (''body'', JString (tii_body issue)),
              (''comments'', JArray (map (\<lambda>c. JObject
                 [(''body'', JString (ic_body c)), (''created_at'', JString (ts (ic_created_at c))),
                  (''id'', JNumber (PosInt (ic_id c))), (''updated_at'', JString (ts (ic_updated_at c)))]) comments)),
              (''labels'', json_string_list labels),
              (''milestone'', (case tii_milestone issue of
                 None \<Rightarrow> JNull
               | Some m \<Rightarrow> JArray [JNumber (PosInt (im_number m)), JString (im_title m)])),
              (''title'', JString (tii_title issue))]))"

definition last_validation_results :: "impl_db \<Rightarrow> string \<Rightarrow> validation_command_result list" where
  "last_validation_results db stage_run_id =
     (case list_validation_cycles db stage_run_id of [] \<Rightarrow> [] | cs \<Rightarrow> vcy_commands (last cs))"

definition coordinator_event ::
    "publication_env \<Rightarrow> 'w impl_port \<Rightarrow> string \<Rightarrow> string option \<Rightarrow> string \<Rightarrow> json \<Rightarrow> ('w, unit) impl_action" where
  "coordinator_event env po run_id stage_run_id event_type payload =
     on_impl_store po (\<lambda>now new_id db.
       case record_event (pen_factory env)
              \<lparr> ev_event_id = new_id, ev_run_id = Some run_id, ev_stage_run_id = stage_run_id,
                ev_event_type = event_type, ev_timestamp = now, ev_payload = payload \<rparr> (impl_base db) of
         (base, r) \<Rightarrow> (set_impl_base base db, r))"

text \<open>What a publication reads from the store before the issue is fetched.\<close>

definition want :: "'a option \<Rightarrow> symphony_error \<Rightarrow> symphony_error + 'a" where
  "want v e = (case v of None \<Rightarrow> Inl e | Some a \<Rightarrow> Inr a)"

definition publication_records ::
    "publication_env \<Rightarrow> implementation_publication_row \<Rightarrow> impl_db
     \<Rightarrow> symphony_error + (implementation_artifact_record \<times> bundle_artifact_record \<times> string)" where
  "publication_records env intent db =
     (case ipi_artifact_id intent of
        None \<Rightarrow> Inl (TriageError ''automatic publication missing artifact_id'')
      | Some artifact_id \<Rightarrow>
     (case get_implementation_artifact db artifact_id of
        None \<Rightarrow> Inl (TriageError (''implementation artifact '' @ artifact_id @ '' missing''))
      | Some artifact \<Rightarrow>
     (case get_implementation_state (pen_impl env) db (ipi_run_id intent) of
        Inl e \<Rightarrow> Inl e
      | Inr None \<Rightarrow> Inl (TriageError ''implementation run state missing'')
      | Inr (Some state) \<Rightarrow>
     (case isr_bundle_artifact_id (isr_row state) of
        None \<Rightarrow> Inl (TriageError ''automatic publication missing bundle artifact'')
      | Some bundle_id \<Rightarrow>
     (case get_bundle_artifact db bundle_id of
        None \<Rightarrow> Inl (TriageError (''bundle artifact '' @ bundle_id @ '' missing''))
      | Some bundle \<Rightarrow>
     (case get_run_by_id (impl_base db) (ipi_run_id intent) of
        None \<Rightarrow> Inl (StorageError (''run '' @ ipi_run_id intent @ '' missing''))
      | Some run \<Rightarrow> Inr (artifact, bundle, fr_issue_id run)))))))"

definition trimmed_setting :: "string option \<Rightarrow> string option" where
  "trimmed_setting v = (case v of None \<Rightarrow> None | Some t \<Rightarrow> if trim t = [] then None else Some (trim t))"

record publication_target =
  ptg_owner :: string
  ptg_branch :: string
  ptg_base_branch :: string
  ptg_approval_label :: string
  ptg_completion_state :: string
  ptg_remote_url :: string

text \<open>The pinned target, in the order the coordinator asks for it.\<close>

definition sum_then :: "'e + 'a \<Rightarrow> ('a \<Rightarrow> 'e + 'b) \<Rightarrow> 'e + 'b" where
  "sum_then m k = (case m of Inl e \<Rightarrow> Inl e | Inr a \<Rightarrow> k a)"

definition pinned_target ::
    "publication_env \<Rightarrow> publication_service \<Rightarrow> json \<Rightarrow> symphony_error + publication_target" where
  "pinned_target env s effects =
     sum_then (required_desired_effect effects ''repo_owner'') (\<lambda>owner.
     sum_then (required_desired_effect effects ''repo_name'') (\<lambda>name.
     sum_then (want (trimmed_setting (psv_repo_owner s)) (TriageError ''tracker.repo_owner required'')) (\<lambda>active_owner.
     sum_then (want (trimmed_setting (psv_repo_name s)) (TriageError ''tracker.repo_name required'')) (\<lambda>active_name.
     if active_owner \<noteq> owner \<or> active_name \<noteq> name
     then Inl (TriageError (''automatic publication repository drift: pinned='' @ owner @ ''/'' @ name
            @ '' configured='' @ active_owner @ ''/'' @ active_name))
     else
     sum_then (required_desired_effect effects ''publication_branch'') (\<lambda>branch.
     sum_then (required_desired_effect effects ''base_branch'') (\<lambda>base_branch.
     sum_then (required_desired_effect effects ''approval_route_label'') (\<lambda>approval.
     sum_then (required_desired_effect effects ''completion_route_state'') (\<lambda>completion.
     sum_then (resolve_publication_remote (pen_parse_url env) effects (pen_forge_host env) owner name) (\<lambda>remote.
     sum_then (want (psv_token s) MissingGithubApiToken) (\<lambda>_.
       Inr \<lparr> ptg_owner = owner, ptg_branch = branch, ptg_base_branch = base_branch,
             ptg_approval_label = approval, ptg_completion_state = completion, ptg_remote_url = remote \<rparr>))))))))))"

definition lift_sum :: "symphony_error + 'a \<Rightarrow> ('s, 'a) state_action" where
  "lift_sum r = (case r of Inl e \<Rightarrow> give_up e | Inr a \<Rightarrow> give a)"

text \<open>What follows a publication that succeeded.\<close>

definition finish_publication ::
    "publication_env \<Rightarrow> 'w impl_port \<Rightarrow> implementation_publication_row \<Rightarrow> string \<Rightarrow> string
     \<Rightarrow> draft_pr_artifact_record \<Rightarrow> ('w, unit) impl_action" where
  "finish_publication env po intent stage_run_id completion_state draft =
     (let run_id = ipi_run_id intent; intent_id = ipi_intent_id intent;
          named = [(''intent_id'', JString intent_id), (''pr_number'', JNumber (PosInt (dpr_number draft))),
                   (''pr_url'', JString (dpr_url draft))];
          event = coordinator_event env po run_id (Some stage_run_id)
      in and_then (event ''implementation_pr_created'' (JObject named))
           (\<lambda>_. and_then (event ''implementation_route_applied''
                (JObject [(''completion_state'', JString completion_state), (''intent_id'', JString intent_id)]))
              (\<lambda>_. and_then (event ''implementation_completed'' (JObject named))
                 (\<lambda>_. and_then (on_impl_store po (\<lambda>now _.
                      set_implementation_decision (pen_factory env) now run_id ImplPublished None))
                    (\<lambda>_. complete_publication (pen_factory env) po intent_id comment_final_step)))))"

definition reconcile_automatic_publication ::
    "publication_env \<Rightarrow> 'w impl_port \<Rightarrow> publication_service \<Rightarrow> implementation_publication_intent
     \<Rightarrow> ('w, unit) impl_action" where
  "reconcile_automatic_publication env po s intent =
     (let row = ipi_row intent
      in if \<not> pen_routing env then give_up (TriageError ''automatic publication requires TriageRoutingPort'')
         else and_then (from_impl_store (publication_records env row))
           (\<lambda>(artifact, bundle, issue_id).
              and_then (impl_ask (IcFetchIssue issue_id) (ipo_fetch_issue po issue_id))
           (\<lambda>issue. and_then (lift_sum (pinned_target env s (ipi_desired_effects row)))
           (\<lambda>target. and_then (from_impl_store (\<lambda>db. Inr (last_validation_results db (iar_stage_run_id artifact))))
           (\<lambda>validation. and_then (impl_ask IcLogin (ipo_login po))
           (\<lambda>publisher_login.
              if \<not> pen_pulls env
              then give_up (TriageError ''automatic publication requires ImplementationPullRequestPort'')
              else and_then (coordinator_event env po (ipi_run_id row) (Some (iar_stage_run_id artifact))
                     ''implementation_publication_started''
                     (JObject [(''artifact_id'', JString (iar_artifact_id artifact)),
                               (''bundle_id'', JString (bar_artifact_id bundle)),
                               (''intent_id'', JString (ipi_intent_id row))]))
              (\<lambda>_. and_then (publish_implementation_automatic (pen_factory env) po
                  \<lparr> iau_intent = intent, iau_issue_number = tii_issue_number issue,
                    iau_issue_title = tii_title issue,
                    iau_current_issue_revision = implementation_issue_revision env s issue publisher_login,
                    iau_run_id = ipi_run_id row, iau_stage_run_id = iar_stage_run_id artifact,
                    iau_artifact = artifact, iau_bundle = bundle, iau_manifest = iar_manifest artifact,
                    iau_validation = validation, iau_branch = ptg_branch target,
                    iau_base_branch = ptg_base_branch target, iau_remote_url = ptg_remote_url target,
                    iau_repo_owner = ptg_owner target, iau_approval_route_label = ptg_approval_label target,
                    iau_completion_route_state = ptg_completion_state target,
                    iau_max_pages = service_max_pages s \<rparr>)
                (\<lambda>draft. finish_publication env po row (iar_stage_run_id artifact)
                   (ptg_completion_state target) draft))))))))"

section \<open>One pass over the pending publications\<close>

definition last_step :: "string list \<Rightarrow> string option" where
  "last_step steps = (if steps = [] then None else Some (last steps))"

definition exhausted_error :: "implementation_publication_intent \<Rightarrow> factory_error" where
  "exhausted_error intent =
     publication_error ''publication_retry_exhausted''
       (''automatic publication exhausted '' @ nat_digits max_automatic_publication_retries
        @ '' reconcile attempts; last error: ''
        @ (case ipi_last_error intent of None \<Rightarrow> ''unknown'' | Some e \<Rightarrow> fe_remediation e))
       False (last_step (ipi_completed_steps (ipi_row intent)))"

definition block_exhausted ::
    "publication_env \<Rightarrow> 'w impl_port \<Rightarrow> implementation_publication_intent \<Rightarrow> ('w, unit) impl_action" where
  "block_exhausted env po intent =
     (let row = ipi_row intent; failure = exhausted_error intent
      in and_then (set_publication_error (pen_factory env) po (ipi_intent_id row) PubBlocked failure)
           (\<lambda>_. coordinator_event env po (ipi_run_id row) None ''implementation_publication_blocked''
              (JObject [(''error'', factory_error_json failure), (''intent_id'', JString (ipi_intent_id row)),
                        (''retry_count'', JNumber (PosInt (ipi_retry_count row)))])))"

text \<open>
  A failed publication is charged to the retry budget unless its error is taken to be recorded already:
  the last error of the intent is a suffix of the message.
\<close>

definition needs_charge :: "implementation_publication_intent \<Rightarrow> string \<Rightarrow> bool" where
  "needs_charge latest message \<longleftrightarrow>
     ipi_status (ipi_row latest) = PubPending
     \<and> (case ipi_last_error latest of None \<Rightarrow> True | Some e \<Rightarrow> \<not> already_recorded e message)"

definition charge_failure ::
    "publication_env \<Rightarrow> 'w impl_port \<Rightarrow> implementation_publication_row \<Rightarrow> symphony_error \<Rightarrow> ('w, unit) impl_action" where
  "charge_failure env po row e =
     and_then (from_impl_store (\<lambda>db. get_implementation_publication_intent (pen_factory env) db (ipi_intent_id row)))
       (\<lambda>latest.
          case latest of
            None \<Rightarrow> give ()
          | Some latest \<Rightarrow>
              if needs_charge latest (error_to_string e)
              then (let failure = publication_error ''publication_retryable'' (error_to_string e) True
                          (last_step (ipi_completed_steps (ipi_row latest)))
                    in and_then (set_publication_error (pen_factory env) po (ipi_intent_id row) PubPending failure)
                         (\<lambda>_. coordinator_event env po (ipi_run_id row) None ''implementation_publication_blocked''
                            (JObject [(''error'', factory_error_json failure),
                                      (''intent_id'', JString (ipi_intent_id row))])))
              else give ())"

definition read_clock :: "'w impl_port \<Rightarrow> ('w, int) impl_action" where
  "read_clock po = on_impl_store po (\<lambda>now _ db. (db, Inr now))"

definition reconcile_automatic_intent ::
    "publication_env \<Rightarrow> 'w impl_port \<Rightarrow> publication_service \<Rightarrow> implementation_publication_intent
     \<Rightarrow> ('w, unit) impl_action" where
  "reconcile_automatic_intent env po s intent =
     (let row = ipi_row intent
      in if max_automatic_publication_retries \<le> ipi_retry_count row then block_exhausted env po intent
         else and_then (read_clock po)
           (\<lambda>now. if \<not> automatic_retry_ready (ipi_retry_count row) (ipi_updated_at row) now then give ()
              else or_handle (reconcile_automatic_publication env po s intent) (charge_failure env po row)))"

definition issue_number_from_run :: "impl_db \<Rightarrow> string \<Rightarrow> symphony_error + nat" where
  "issue_number_from_run db run_id =
     (case get_run_by_id (impl_base db) run_id of
        None \<Rightarrow> Inl (StorageError (''run '' @ run_id @ '' missing''))
      | Some run \<Rightarrow>
          (case parse_u64 (fr_issue_id run) of
             Inl _ \<Rightarrow> Inl (TriageError (''issue id '' @ fr_issue_id run @ '' is not numeric''))
           | Inr n \<Rightarrow> Inr n))"

definition effect_strings :: "json \<Rightarrow> string \<Rightarrow> string list" where
  "effect_strings effects key =
     (case Option.bind (json_get effects key) as_array of
        None \<Rightarrow> [] | Some xs \<Rightarrow> List.map_filter as_str xs)"

text \<open>
  A comment is published again for a preview, and for a diagnostic without an artifact; the outcome is
  ignored.
\<close>

definition reconcile_comment_intent ::
    "publication_env \<Rightarrow> 'w impl_port \<Rightarrow> publication_service \<Rightarrow> implementation_publication_intent
     \<Rightarrow> ('w, unit) impl_action" where
  "reconcile_comment_intent env po s intent =
     (let row = ipi_row intent; effects = ipi_desired_effects row;
          issue_number = from_impl_store (\<lambda>db. issue_number_from_run db (ipi_run_id row))
      in case ipi_artifact_id row of
           None \<Rightarrow>
             if ipi_kind row = ImplDiagnosticPublication
             then and_then issue_number (\<lambda>n.
               ignoring (publish_implementation_diagnostic (pen_factory env) po intent n (ipi_run_id row)
                 (case Option.bind (json_get effects ''message'') as_str of
                    None \<Rightarrow> ''Implementation requires human attention.'' | Some m \<Rightarrow> m)
                 (service_max_pages s)))
             else give ()
         | Some artifact_id \<Rightarrow>
             and_then (from_impl_store (\<lambda>db. Inr (get_implementation_artifact db artifact_id)))
               (\<lambda>found.
                  case found of
                    None \<Rightarrow> give ()
                  | Some artifact \<Rightarrow>
                      and_then issue_number (\<lambda>n.
                        if ipi_kind row \<noteq> ImplPreviewPublication then give ()
                        else and_then
                          (from_impl_store (\<lambda>db. Inr (last_validation_results db (iar_stage_run_id artifact))))
                          (\<lambda>validation. ignoring (publish_implementation_preview (pen_factory env) po
                             \<lparr> ivr_intent = intent, ivr_issue_number = n, ivr_run_id = iar_run_id artifact,
                               ivr_stage_run_id = iar_stage_run_id artifact, ivr_artifact = artifact,
                               ivr_manifest = iar_manifest artifact,
                               ivr_changed_paths = effect_strings effects ''changed_paths'',
                               ivr_validation = validation, ivr_max_pages = service_max_pages s \<rparr>)))))"

definition reconcile_intent ::
    "publication_env \<Rightarrow> 'w impl_port \<Rightarrow> publication_service \<Rightarrow> implementation_publication_intent
     \<Rightarrow> ('w, unit) impl_action" where
  "reconcile_intent env po s intent =
     (case ipi_kind (ipi_row intent) of
        ImplAutomaticPublication \<Rightarrow> reconcile_automatic_intent env po s intent
      | _ \<Rightarrow> reconcile_comment_intent env po s intent)"

fun for_each :: "('a \<Rightarrow> ('s, unit) state_action) \<Rightarrow> 'a list \<Rightarrow> ('s, unit) state_action" where
  "for_each f [] = give ()"
| "for_each f (x # xs) = and_then (f x) (\<lambda>_. for_each f xs)"

definition reconcile_pending_publications ::
    "publication_env \<Rightarrow> 'w impl_port \<Rightarrow> publication_service \<Rightarrow> ('w, unit) impl_action" where
  "reconcile_pending_publications env po s =
     and_then (from_impl_store (list_pending_implementation_publications (pen_factory env)))
       (for_each (reconcile_intent env po s))"

end
