(* ===== verification/ImplementationPublisherFacts.thy ===== *)
theory ImplementationPublisherFacts
  imports ImplementationPublisher ImplementationStoreFacts
begin

text \<open>
  Facts about publishing an implementation. \<open>orderly Q\<close> actions make only calls of the kind \<open>Q\<close>, keep
  the stored draft pull requests and only ever add to the steps of a publication.
\<close>

section \<open>What store operations keep\<close>

definition no_remote_yet :: "implementation_publication_row \<Rightarrow> bool" where
  "no_remote_yet row \<longleftrightarrow> branch_pushed_step \<in> set (ipi_completed_steps row) \<or> expected_remote row = None"

definition row_advances :: "implementation_publication_row \<Rightarrow> implementation_publication_row \<Rightarrow> bool" where
  "row_advances r r' \<longleftrightarrow> ipi_intent_id r' = ipi_intent_id r
     \<and> set (ipi_completed_steps r) \<subseteq> set (ipi_completed_steps r') \<and> (no_remote_yet r \<longrightarrow> no_remote_yet r')"

definition advances :: "impl_db \<Rightarrow> impl_db \<Rightarrow> bool" where
  "advances db db' \<longleftrightarrow> idb_draft_prs db' = idb_draft_prs db
     \<and> (\<forall>i r. find_implementation_intent db i = Some r
          \<longrightarrow> (\<exists>r'. find_implementation_intent db' i = Some r' \<and> row_advances r r'))"

lemma row_advances_refl [simp]: "row_advances r r"
  by (simp add: row_advances_def)

lemma row_advances_trans: "row_advances a b \<Longrightarrow> row_advances b c \<Longrightarrow> row_advances a c"
  by (auto simp: row_advances_def)

lemma advances_refl [simp]: "advances db db"
  by (simp add: advances_def)

lemma advances_trans: "advances a b \<Longrightarrow> advances b c \<Longrightarrow> advances a c"
  unfolding advances_def by (metis row_advances_trans)

lemma advances_same_rows:
  "idb_draft_prs db' = idb_draft_prs db \<Longrightarrow> idb_intents db' = idb_intents db \<Longrightarrow> advances db db'"
  by (simp add: advances_def find_implementation_intent_def)

lemma find_update_where_key:
  assumes "\<And>r. key (f r) = key r"
  shows "find (\<lambda>i. key i = k') (update_where (\<lambda>i. key i = k) f rows)
    = map_option (\<lambda>r. if key r = k then f r else r) (find (\<lambda>i. key i = k') rows)"
  by (induction rows) (auto simp: update_where_def assms)

lemma found_intent_id: "find_implementation_intent db i = Some r \<Longrightarrow> ipi_intent_id r = i"
  by (auto simp: find_implementation_intent_def dest: find_in)

lemma find_in_key: "find P xs = Some x \<Longrightarrow> P x"
  by (induction xs) (auto split: if_splits)

lemma update_intent_advances:
  assumes id: "\<And>r. ipi_intent_id (f r) = ipi_intent_id r"
    and adv: "\<And>r. find_implementation_intent db i = Some r \<Longrightarrow> row_advances r (f r)"
  shows "advances db (fst (update_implementation_intent env i f db))"
proof -
  have "row_advances r (if ipi_intent_id r = i then f r else r)"
    if "find_implementation_intent db k = Some r" for k r
    using that adv found_intent_id [OF that] by auto
  then show ?thesis
    by (auto simp: update_implementation_intent_def Let_def advances_def find_implementation_intent_def
          find_update_where_key [of ipi_intent_id f, OF id])
qed

lemma fst_wanting_row [simp]: "fst (wanting_row m r) = fst r" "fst (ignoring_count r) = fst r"
  by (auto simp: wanting_row_def ignoring_count_def split: prod.splits sum.splits)

lemma set_error_advances: "advances db (fst (set_implementation_publication_error env now i st e db))"
  by (auto simp: set_implementation_publication_error_def row_advances_def no_remote_yet_def expected_remote_def
      intro!: update_intent_advances)

lemma set_waiting_advances: "advances db (fst (set_implementation_publication_waiting env now i st e db))"
  by (auto simp: set_implementation_publication_waiting_def row_advances_def no_remote_yet_def expected_remote_def
      intro!: update_intent_advances)

lemma bind_comment_advances: "advances db (fst (bind_implementation_publication_comment env now i c l db))"
  by (auto simp: bind_implementation_publication_comment_def row_advances_def no_remote_yet_def expected_remote_def
      intro!: update_intent_advances)

lemma get_intent_found:
  "get_implementation_publication_intent env db i = Inr (Some intent)
     \<Longrightarrow> find_implementation_intent db i = Some (ipi_row intent)"
  by (auto simp: get_implementation_publication_intent_def read_optional_def implementation_publication_from_row_def
      split: option.splits sum.splits)

lemma found_or_ok: "found_or m r = Inr a \<longleftrightarrow> r = Inr (Some a)"
  by (auto simp: found_or_def split: sum.splits option.splits)

lemma bounded_json_same: "bounded_json env v = Inr w \<Longrightarrow> w = v"
  by (simp add: bounded_json_def split: if_splits)

lemma set_add_step: "set (add_step t steps) = (if trim t = [] then set steps else insert (trim t) (set steps))"
  by (auto simp: add_step_def)

lemma set_add_exact_step: "set (add_exact_step t steps) = insert t (set steps)"
  by (auto simp: add_exact_step_def)

lemma complete_advances: "advances db (fst (complete_implementation_publication env now i t db))"
  unfolding complete_implementation_publication_def
  by (auto simp: found_or_ok row_advances_def no_remote_yet_def expected_remote_def set_add_exact_step Let_def
      split: sum.split intro!: update_intent_advances dest!: get_intent_found)

lemma record_step_advances:
  assumes "t = branch_pushed_step \<or> json_get projection ''remote_sha'' = None"
  shows "advances db (fst (record_implementation_publication_step env now i t st projection db))"
proof -
  have "trim branch_pushed_step = branch_pushed_step" "branch_pushed_step \<noteq> []"
    by (simp_all add: branch_pushed_step_def trim_def trim_start_def trim_end_def is_whitespace_def code_point_def)
  then show ?thesis
    using assms unfolding record_implementation_publication_step_def
    by (auto simp: found_or_ok row_advances_def no_remote_yet_def expected_remote_def set_add_step Let_def
        split: sum.split intro!: update_intent_advances dest!: get_intent_found bounded_json_same)
qed

lemma set_decision_advances: "advances db (fst (set_implementation_decision env now i d b db))"
  by (simp add: set_implementation_decision_def Let_def advances_same_rows)

section \<open>Orderly actions\<close>

definition orderly :: "(impl_call \<times> bool \<Rightarrow> bool) \<Rightarrow> ('w, 'a) impl_action \<Rightarrow> bool" where
  "orderly Q m \<longleftrightarrow> (\<forall>\<sigma>. \<exists>calls. ips_history (snd (m \<sigma>)) = ips_history \<sigma> @ calls \<and> list_all Q calls
     \<and> advances (ips_db \<sigma>) (ips_db (snd (m \<sigma>))))"

named_theorems orderly_intros

lemma orderlyE:
  assumes "orderly Q m" "m \<sigma> = (r, \<sigma>')"
  obtains calls where "ips_history \<sigma>' = ips_history \<sigma> @ calls" "list_all Q calls" "advances (ips_db \<sigma>) (ips_db \<sigma>')"
  using assms unfolding orderly_def by (metis snd_conv)

lemma orderly_mono: "orderly Q m \<Longrightarrow> (\<And>c. Q c \<Longrightarrow> Q' c) \<Longrightarrow> orderly Q' m"
  unfolding orderly_def by (metis list.pred_mono_strong)

lemma orderly_state: "(\<And>\<sigma>. snd (m \<sigma>) = \<sigma>) \<Longrightarrow> orderly Q m"
  by (simp add: orderly_def)

lemma orderly_pure [orderly_intros]:
  "orderly Q (give a)" "orderly Q (give_up e)" "orderly Q (from_impl_store f)" "orderly Q (reload_impl_intent env i)"
  "orderly Q (lift_sum r)"
  by (auto simp: give_def give_up_def from_impl_store_def reload_impl_intent_def lift_sum_def intro!: orderly_state
      split: sum.split option.split)

lemma orderly_and_then [orderly_intros]:
  assumes m: "orderly Q m" and k: "\<And>a. orderly Q (k a)"
  shows "orderly Q (and_then m k)"
  unfolding orderly_def
proof
  fix \<sigma>
  obtain r \<sigma>1 where 1: "m \<sigma> = (r, \<sigma>1)" by fastforce
  obtain calls where calls: "ips_history \<sigma>1 = ips_history \<sigma> @ calls" "list_all Q calls" "advances (ips_db \<sigma>) (ips_db \<sigma>1)"
    by (rule orderlyE [OF m 1])
  show "\<exists>calls. ips_history (snd (and_then m k \<sigma>)) = ips_history \<sigma> @ calls \<and> list_all Q calls
      \<and> advances (ips_db \<sigma>) (ips_db (snd (and_then m k \<sigma>)))"
  proof (cases r)
    case (Inl e)
    with calls show ?thesis by (auto simp: and_then_def 1)
  next
    case (Inr a)
    obtain r' \<sigma>2 where 2: "k a \<sigma>1 = (r', \<sigma>2)" by fastforce
    obtain calls' where "ips_history \<sigma>2 = ips_history \<sigma>1 @ calls'" "list_all Q calls'" "advances (ips_db \<sigma>1) (ips_db \<sigma>2)"
      by (rule orderlyE [OF k 2])
    with Inr calls 2 show ?thesis
      by (intro exI [of _ "calls @ calls'"]) (auto simp: and_then_def 1 intro: advances_trans)
  qed
qed

lemma orderly_or_handle [orderly_intros]:
  assumes m: "orderly Q m" and h: "\<And>e. orderly Q (h e)"
  shows "orderly Q (or_handle m h)"
  unfolding orderly_def
proof
  fix \<sigma>
  obtain r \<sigma>1 where 1: "m \<sigma> = (r, \<sigma>1)" by fastforce
  obtain calls where calls: "ips_history \<sigma>1 = ips_history \<sigma> @ calls" "list_all Q calls" "advances (ips_db \<sigma>) (ips_db \<sigma>1)"
    by (rule orderlyE [OF m 1])
  show "\<exists>calls. ips_history (snd (or_handle m h \<sigma>)) = ips_history \<sigma> @ calls \<and> list_all Q calls
      \<and> advances (ips_db \<sigma>) (ips_db (snd (or_handle m h \<sigma>)))"
  proof (cases r)
    case (Inr a)
    with calls show ?thesis by (auto simp: or_handle_def 1)
  next
    case (Inl e)
    obtain r' \<sigma>2 where 2: "h e \<sigma>1 = (r', \<sigma>2)" by fastforce
    obtain calls' where "ips_history \<sigma>2 = ips_history \<sigma>1 @ calls'" "list_all Q calls'" "advances (ips_db \<sigma>1) (ips_db \<sigma>2)"
      by (rule orderlyE [OF h 2])
    with Inl calls 2 show ?thesis
      by (intro exI [of _ "calls @ calls'"]) (auto simp: or_handle_def 1 intro: advances_trans)
  qed
qed

lemma orderly_ask [orderly_intros]: "(\<And>ok. Q (c, ok)) \<Longrightarrow> orderly Q (impl_ask c answer)"
  by (simp add: orderly_def impl_ask_def Let_def)

lemma orderly_branch [orderly_intros]: "(\<And>ok. Q (IcPublishBranch b, ok)) \<Longrightarrow> orderly Q (run_publish_branch po url b)"
  by (simp add: orderly_def run_publish_branch_def split: prod.split)

lemma orderly_ignoring [orderly_intros]: "orderly Q m \<Longrightarrow> orderly Q (ignoring m)"
  by (simp add: orderly_def ignoring_def)

lemma orderly_fail_after [orderly_intros]: "orderly Q m \<Longrightarrow> orderly Q (fail_after m e)"
  by (simp add: fail_after_def orderly_intros)

lemma orderly_unless [orderly_intros]: "orderly Q m \<Longrightarrow> orderly Q (unless_completed env t intent m)"
  by (simp add: unless_completed_def orderly_intros)

lemma orderly_store: "(\<And>now i db. advances db (fst (f now i db))) \<Longrightarrow> orderly Q (on_impl_store po f)"
  by (auto simp: orderly_def on_impl_store_def split: prod.split) (metis fst_conv)

lemma orderly_store_ops [orderly_intros]:
  "orderly Q (set_publication_error env po i st e)" "orderly Q (bind_implementation_comment env po i c l)"
  "orderly Q (complete_publication env po i t)"
  "orderly Q (on_impl_store po (\<lambda>now _. set_implementation_publication_waiting env now i st e))"
  "orderly Q (on_impl_store po (\<lambda>now _. set_implementation_decision env now i d b))"
  "orderly Q (coordinator_event penv po i sr ty p)" "orderly Q (read_clock po)"
  unfolding set_publication_error_def bind_implementation_comment_def complete_publication_def coordinator_event_def read_clock_def
  by (rule orderly_store, auto intro!: set_error_advances bind_comment_advances complete_advances set_waiting_advances
      set_decision_advances advances_same_rows simp: set_impl_base_def split: prod.split)+

lemma orderly_record [orderly_intros]:
  "t = branch_pushed_step \<or> json_get projection ''remote_sha'' = None \<Longrightarrow> orderly Q (record_impl_step env po i t projection)"
  unfolding record_impl_step_def by (rule orderly_store) (rule record_step_advances)

section \<open>The phases\<close>

definition tracker_change :: "impl_call \<times> bool \<Rightarrow> bool" where
  "tracker_change c = (case fst c of IcRemoveLabel n l \<Rightarrow> True | IcSetState n s \<Rightarrow> True | _ \<Rightarrow> False)"

definition pull_creation :: "impl_call \<times> bool \<Rightarrow> bool" where
  "pull_creation c = (case fst c of IcCreatePull t b h ba d \<Rightarrow> True | _ \<Rightarrow> False)"

text \<open>Neither of the two.\<close>

definition harmless :: "impl_call \<times> bool \<Rightarrow> bool" where
  "harmless c \<longleftrightarrow> \<not> tracker_change c \<and> \<not> pull_creation c"

lemma call_kind_simps [simp]:
  "harmless (IcLogin, ok)" "harmless (IcListComments n p, ok)" "harmless (IcGetComment n, ok)"
  "harmless (IcCreateComment n b, ok)" "harmless (IcUpdateComment n b, ok)" "harmless (IcListLabels n, ok)"
  "harmless (IcProjectState n, ok)" "harmless (IcListPulls a b c p, ok)" "harmless (IcPublishBranch q, ok)"
  "harmless (IcFetchIssue i, ok)"
  "tracker_change (IcRemoveLabel n l, ok)" "tracker_change (IcSetState n b, ok)" "\<not> tracker_change (IcCreatePull a b c d e, ok)"
  "pull_creation (IcCreatePull a b c d e, ok)" "\<not> pull_creation (IcRemoveLabel n l, ok)" "\<not> pull_creation (IcSetState n b, ok)"
  by (simp_all add: harmless_def tracker_change_def pull_creation_def)

lemma harmlessD: "harmless c \<Longrightarrow> \<not> tracker_change c" "harmless c \<Longrightarrow> \<not> pull_creation c"
  by (simp_all add: harmless_def)

lemma harmless_kinds [simp]:
  "\<not> pull_creation (IcListLabels n, ok)" "\<not> pull_creation (IcProjectState n, ok)" "\<not> pull_creation (IcLogin, ok)"
  by (simp_all add: pull_creation_def)

lemma orderly_edit [orderly_intros]: "orderly harmless (edit_implementation_comment env po intent body login c)"
  unfolding edit_implementation_comment_def by (auto intro!: orderly_intros)

lemma orderly_parse [orderly_intros]: "orderly Q (parse_implementation_comment_id raw)"
  by (auto simp: parse_implementation_comment_id_def intro!: orderly_intros split: sum.split)

lemma orderly_recover [orderly_intros]: "orderly harmless (recover_implementation_comment po n i l p)"
  unfolding recover_implementation_comment_def by (auto intro!: orderly_intros)

lemma orderly_upsert [orderly_intros]: "orderly harmless (upsert_implementation_comment env po intent n body p)"
  unfolding upsert_implementation_comment_def
  by (auto intro!: orderly_intros split: option.split)

lemma orderly_announce [orderly_intros]: "orderly harmless (announce_publication env po request intent)"
  unfolding announce_publication_def Let_def by (auto intro!: orderly_intros)

lemma orderly_branch_failed [orderly_intros]: "orderly Q (branch_failed env po i e)"
  unfolding branch_failed_def by (auto intro!: orderly_intros split: option.split)

lemma orderly_push [orderly_intros]: "orderly harmless (push_publication_branch env po request intent)"
  unfolding push_publication_branch_def Let_def by (auto intro!: orderly_intros)

lemma orderly_list_candidates [orderly_intros]: "orderly harmless (list_candidates po request)"
  unfolding list_candidates_def Let_def by (auto intro!: orderly_intros)

lemma orderly_conflict [orderly_intros]: "orderly Q (publication_conflict env po i code m)"
  unfolding publication_conflict_def Let_def by (auto intro!: orderly_intros)

lemma orderly_reverify [orderly_intros]: "orderly harmless (reverify_persisted_draft_pr env po i request d login)"
  unfolding reverify_persisted_draft_pr_def Let_def by (auto intro!: orderly_intros split: option.split sum.split)

lemma orderly_recheck [orderly_intros]: "orderly harmless (recheck_draft env po request intent d login)"
  unfolding recheck_draft_def by (auto intro!: orderly_intros simp: verified_projection_def)

lemma orderly_final [orderly_intros]: "orderly harmless (final_phase env po request intent d)"
  unfolding final_phase_def by (auto intro!: orderly_intros)

lemma orderly_route_state [orderly_intros]: "orderly (\<lambda>c. \<not> pull_creation c) (set_completion_route_state po n s k)"
  by (induction k) (auto intro!: orderly_intros split: option.split)

lemma orderly_hand_over [orderly_intros]: "orderly (\<lambda>c. \<not> pull_creation c) (hand_over env po request intent n)"
  unfolding hand_over_def Let_def by (auto intro!: orderly_intros)

lemma orderly_weaker:
  "orderly harmless m \<Longrightarrow> orderly (\<lambda>c. \<not> pull_creation c) m" "orderly harmless m \<Longrightarrow> orderly (\<lambda>c. \<not> tracker_change c) m"
  by (auto elim!: orderly_mono simp: harmless_def)

lemma orderly_after_draft: "orderly (\<lambda>c. \<not> pull_creation c) (after_draft env po request intent d)"
  unfolding after_draft_def
  by (auto intro!: orderly_intros orderly_weaker(1) [OF orderly_final])

section \<open>How a publication gets its pull request\<close>

definition head_filter :: "impl_automatic_request \<Rightarrow> string" where
  "head_filter request = iau_repo_owner request @ '':'' @ iau_branch request"

definition listing :: "impl_automatic_request \<Rightarrow> impl_call" where
  "listing request = IcListPulls ''all'' (head_filter request) (iau_base_branch request) (iau_max_pages request)"

definition listed ::
    "'w impl_port \<Rightarrow> impl_automatic_request \<Rightarrow> impl_history \<Rightarrow> symphony_error + github_pull_request list" where
  "listed po request h = ipo_list_pulls po ''all'' (head_filter request) (iau_base_branch request) (iau_max_pages request) h"

definition creation :: "impl_automatic_request \<Rightarrow> string \<Rightarrow> impl_call" where
  "creation request intent_id =
     IcCreatePull (draft_pr_title request) (draft_pr_body request intent_id) (iau_branch request) (iau_base_branch request) True"

definition created_pull ::
    "'w impl_port \<Rightarrow> impl_automatic_request \<Rightarrow> string \<Rightarrow> impl_history \<Rightarrow> symphony_error + github_pull_request" where
  "created_pull po request intent_id h =
     ipo_create_pull po (draft_pr_title request) (draft_pr_body request intent_id) (iau_branch request)
       (iau_base_branch request) True h"

lemma listing_kinds [simp]: "harmless (listing request, ok)" "pull_creation (creation request i, ok)"
  "\<not> tracker_change (creation request i, ok)"
  by (simp_all add: listing_def creation_def)

text \<open>GitHub showed the pull request among the calls: in a listing, or as the answer to its creation.\<close>

definition saw_pull ::
    "'w impl_port \<Rightarrow> impl_automatic_request \<Rightarrow> string \<Rightarrow> impl_history \<Rightarrow> impl_history \<Rightarrow> github_pull_request \<Rightarrow> bool" where
  "saw_pull po request intent_id h calls pr \<longleftrightarrow>
     (\<exists>before after prs. calls = before @ (listing request, True) # after
        \<and> listed po request (h @ before) = Inr prs \<and> pr \<in> set prs)
     \<or> (\<exists>before after. calls = before @ (creation request intent_id, True) # after
        \<and> created_pull po request intent_id (h @ before) = Inr pr)"

text \<open>
  The one creation follows a listing that shows neither a pull request of this publication nor an open
  one of anybody.
\<close>

definition created_after_look ::
    "'w impl_port \<Rightarrow> impl_automatic_request \<Rightarrow> string \<Rightarrow> impl_history \<Rightarrow> impl_history \<Rightarrow> bool" where
  "created_after_look po request intent_id h calls \<longleftrightarrow>
     (\<exists>before ok after prs. calls = before @ (listing request, True) # (creation request intent_id, ok) # after
        \<and> list_all (\<lambda>c. \<not> pull_creation c) before \<and> list_all (\<lambda>c. \<not> pull_creation c) after
        \<and> listed po request (h @ before) = Inr prs
        \<and> (\<forall>pr \<in> set prs. \<not> owned_by intent_id pr \<and> \<not> is_open_pr pr))"

definition accepted_pull :: "impl_automatic_request \<Rightarrow> string \<Rightarrow> string \<Rightarrow> github_pull_request \<Rightarrow> bool" where
  "accepted_pull request intent_id login pr \<longleftrightarrow>
     owned_by intent_id pr \<and> is_open_pr pr \<and> gpr_draft pr
     \<and> eq_ignore_ascii_case (case gpr_user_login pr of None \<Rightarrow> '''' | Some l \<Rightarrow> l) login
     \<and> prr_name (gpr_head pr) = iau_branch request \<and> prr_name (gpr_base pr) = iau_base_branch request
     \<and> prr_sha (gpr_head pr) = bar_head_commit (iau_bundle request)"

lemma verified_is_accepted:
  "verify_owned_draft_pr pr i (iau_branch request) (iau_base_branch request) (bar_head_commit (iau_bundle request)) login = Inr pr'
     \<Longrightarrow> pr' = pr \<and> accepted_pull request i login pr"
  by (auto simp: verify_owned_draft_pr_def Let_def accepted_pull_def owned_by_def is_open_pr_def split: if_splits)

lemma saw_pull_append: "saw_pull po request i h calls pr \<Longrightarrow> saw_pull po request i h (calls @ more_calls) pr"
  by (fastforce simp: saw_pull_def)

lemma saw_pull_later:
  assumes "saw_pull po request i (h @ earlier) calls pr"
  shows "saw_pull po request i h (earlier @ calls) pr"
proof -
  from assms consider
      (look) before after prs where "calls = before @ (listing request, True) # after"
        "listed po request (h @ earlier @ before) = Inr prs" "pr \<in> set prs"
    | (make) before after where "calls = before @ (creation request i, True) # after"
        "created_pull po request i (h @ earlier @ before) = Inr pr"
    by (auto simp: saw_pull_def)
  then show ?thesis
  proof cases
    case look
    then have "earlier @ calls = (earlier @ before) @ (listing request, True) # after" by simp
    with look show ?thesis unfolding saw_pull_def by blast
  next
    case make
    then have "earlier @ calls = (earlier @ before) @ (creation request i, True) # after" by simp
    with make show ?thesis unfolding saw_pull_def by blast
  qed
qed

lemma created_after_look_append:
  "created_after_look po request i h calls \<Longrightarrow> list_all (\<lambda>c. \<not> pull_creation c) later
     \<Longrightarrow> created_after_look po request i h (calls @ later)"
  by (fastforce simp: created_after_look_def)

lemma created_after_look_later:
  assumes "created_after_look po request i (h @ earlier) calls" "list_all (\<lambda>c. \<not> pull_creation c) earlier"
  shows "created_after_look po request i h (earlier @ calls)"
proof -
  from assms(1) obtain before ok after prs where
      "calls = before @ (listing request, True) # (creation request i, ok) # after"
      "list_all (\<lambda>c. \<not> pull_creation c) before" "list_all (\<lambda>c. \<not> pull_creation c) after"
      "listed po request (h @ earlier @ before) = Inr prs"
      "\<forall>pr \<in> set prs. \<not> owned_by i pr \<and> \<not> is_open_pr pr"
    by (auto simp: created_after_look_def)
  with assms(2) show ?thesis
    unfolding created_after_look_def by (intro exI [of _ "earlier @ before"] exI [of _ ok] exI [of _ after]) simp
qed

text \<open>The two ways a listing is settled.\<close>

definition nothing_there :: "string \<Rightarrow> github_pull_request list \<Rightarrow> bool" where
  "nothing_there intent_id prs \<longleftrightarrow> (\<forall>pr \<in> set prs. \<not> owned_by intent_id pr \<and> \<not> is_open_pr pr)"

lemma settle_creates:
  assumes "nothing_there i prs"
  shows "settle_candidates env po i request login prs = create_draft_pr po request i login"
proof -
  have "filter (\<lambda>pr. owned_by i pr \<and> is_open_pr pr) prs = []" "filter (\<lambda>pr. owned_by i pr \<and> \<not> is_open_pr pr) prs = []"
    "\<not> (\<exists>pr \<in> set prs. \<not> owned_by i pr \<and> is_open_pr pr)"
    using assms by (auto simp: nothing_there_def filter_empty_conv)
  then show ?thesis by (auto simp: settle_candidates_def)
qed

lemma settle_orderly:
  assumes "\<not> nothing_there i prs"
  shows "orderly harmless (settle_candidates env po i request login prs)"
proof -
  have "filter (\<lambda>pr. owned_by i pr \<and> is_open_pr pr) prs \<noteq> [] \<or> filter (\<lambda>pr. owned_by i pr \<and> \<not> is_open_pr pr) prs \<noteq> []
    \<or> (\<exists>pr \<in> set prs. \<not> owned_by i pr \<and> is_open_pr pr)"
    using assms by (auto simp: nothing_there_def filter_empty_conv)
  then show ?thesis
    unfolding settle_candidates_def Let_def by (auto intro!: orderly_intros split: list.split sum.split)
qed

lemma settle_found:
  assumes "settle_candidates env po i request login prs \<sigma> = (Inr pr, \<sigma>')" "\<not> nothing_there i prs"
  shows "pr \<in> set prs \<and> accepted_pull request i login pr"
proof -
  let ?owned = "filter (\<lambda>pr. owned_by i pr \<and> is_open_pr pr) prs"
  from assms obtain rest where "?owned = pr # rest" and "accepted_pull request i login pr"
    by (auto simp: settle_candidates_def Let_def publication_conflict_def fail_after_def and_then_def give_up_def
        give_def nothing_there_def filter_empty_conv dest!: verified_is_accepted
        split: if_splits list.splits sum.splits prod.splits)
  then have "pr \<in> set ?owned" by simp
  with \<open>accepted_pull request i login pr\<close> show ?thesis by simp
qed

text \<open>What an action that may create a pull request has called.\<close>

definition one_creation ::
    "'w impl_port \<Rightarrow> impl_automatic_request \<Rightarrow> string \<Rightarrow> impl_history \<Rightarrow> impl_history \<Rightarrow> bool" where
  "one_creation po request intent_id h calls \<longleftrightarrow>
     list_all (\<lambda>c. \<not> pull_creation c) calls \<or> created_after_look po request intent_id h calls"

lemma one_creation_append:
  "one_creation po request i h calls \<Longrightarrow> list_all (\<lambda>c. \<not> pull_creation c) later \<Longrightarrow> one_creation po request i h (calls @ later)"
  by (auto simp: one_creation_def created_after_look_append)

lemma one_creation_later:
  "one_creation po request i (h @ earlier) calls \<Longrightarrow> list_all (\<lambda>c. \<not> pull_creation c) earlier
     \<Longrightarrow> one_creation po request i h (earlier @ calls)"
  by (auto simp: one_creation_def created_after_look_later)

lemma harmless_calls:
  "list_all harmless calls \<Longrightarrow> list_all (\<lambda>c. \<not> tracker_change c) calls"
  "list_all harmless calls \<Longrightarrow> list_all (\<lambda>c. \<not> pull_creation c) calls"
  by (auto simp: harmless_def elim: list.pred_mono_strong)

lemma list_candidates_is:
  "list_candidates po request \<sigma> = impl_ask (listing request) (listed po request) \<sigma>"
  by (simp add: list_candidates_def listing_def listed_def head_filter_def Let_def)
    (simp add: impl_ask_def listed_def head_filter_def)

lemma create_draft_calls:
  "create_draft_pr po request i login \<sigma> =
     (let r = created_pull po request i (ips_history \<sigma>);
          \<sigma>1 = \<sigma>\<lparr> ips_history := ips_history \<sigma> @ [(creation request i, \<not> isl r)] \<rparr>
      in case r of
           Inl e \<Rightarrow> (Inl e, \<sigma>1)
         | Inr pr \<Rightarrow>
             (case verify_owned_draft_pr pr i (iau_branch request) (iau_base_branch request)
                     (bar_head_commit (iau_bundle request)) login of
                Inl e \<Rightarrow> (Inl e, \<sigma>1) | Inr _ \<Rightarrow> (Inr pr, \<sigma>1)))"
  by (simp add: create_draft_pr_def Let_def and_then_def impl_ask_def created_pull_def creation_def give_def
      give_up_def split: sum.split)

lemma reconcile_calls:
  assumes run: "reconcile_draft_pr env po i request login \<sigma> = (r, \<sigma>')"
  obtains calls where "ips_history \<sigma>' = ips_history \<sigma> @ calls" "list_all (\<lambda>c. \<not> tracker_change c) calls"
    "one_creation po request i (ips_history \<sigma>) calls" "advances (ips_db \<sigma>) (ips_db \<sigma>')"
    "\<And>pr. r = Inr pr \<Longrightarrow> saw_pull po request i (ips_history \<sigma>) calls pr \<and> accepted_pull request i login pr"
proof (cases "listed po request (ips_history \<sigma>)")
  case (Inl e)
  with run have "ips_history \<sigma>' = ips_history \<sigma> @ [(listing request, False)]" "ips_db \<sigma>' = ips_db \<sigma>" "r = Inl e"
    by (auto simp: reconcile_draft_pr_def and_then_def list_candidates_is impl_ask_def)
  then show ?thesis
    by (intro that [of "[(listing request, False)]"])
      (simp_all add: one_creation_def harmlessD [OF listing_kinds(1)])
next
  case (Inr prs)
  define \<sigma>1 where "\<sigma>1 = \<sigma>\<lparr> ips_history := ips_history \<sigma> @ [(listing request, True)] \<rparr>"
  have settle: "settle_candidates env po i request login prs \<sigma>1 = (r, \<sigma>')"
    using run Inr by (simp add: reconcile_draft_pr_def and_then_def list_candidates_is impl_ask_def \<sigma>1_def)
  have seen: "saw_pull po request i (ips_history \<sigma>) ((listing request, True) # calls) pr" if "pr \<in> set prs" for calls pr
    using that Inr unfolding saw_pull_def
    by (intro disjI1 exI [of _ "[]"] exI [of _ calls] exI [of _ prs]) simp
  show ?thesis
  proof (cases "nothing_there i prs")
    case False
    obtain calls where calls: "ips_history \<sigma>' = ips_history \<sigma>1 @ calls" "list_all harmless calls"
        "advances (ips_db \<sigma>1) (ips_db \<sigma>')"
      by (rule orderlyE [OF settle_orderly [OF False] settle])
    show ?thesis
    proof (rule that [of "(listing request, True) # calls"])
      show "one_creation po request i (ips_history \<sigma>) ((listing request, True) # calls)"
        using calls(2) by (simp add: one_creation_def harmless_calls harmlessD(2) [OF listing_kinds(1)])
    next
      fix pr assume "r = Inr pr"
      with settle False have "pr \<in> set prs \<and> accepted_pull request i login pr"
        by (auto dest: settle_found)
      with seen show "saw_pull po request i (ips_history \<sigma>) ((listing request, True) # calls) pr
          \<and> accepted_pull request i login pr" by simp
    qed (use calls in \<open>simp_all add: \<sigma>1_def harmless_calls harmlessD(1) [OF listing_kinds(1)]\<close>)
  next
    case True
    let ?h = "ips_history \<sigma> @ [(listing request, True)]"
    define ok where "ok = (\<not> isl (created_pull po request i ?h))"
    have made: "ips_history \<sigma>' = ?h @ [(creation request i, ok)]" "ips_db \<sigma>' = ips_db \<sigma>"
        "\<And>pr. r = Inr pr \<Longrightarrow> created_pull po request i ?h = Inr pr \<and> accepted_pull request i login pr"
      using settle
      by (auto simp: settle_creates [OF True] create_draft_calls Let_def ok_def \<sigma>1_def dest!: verified_is_accepted
          split: sum.splits) (metis sum.disc(1))
    show ?thesis
    proof (rule that [of "[(listing request, True), (creation request i, ok)]"])
      show "one_creation po request i (ips_history \<sigma>) [(listing request, True), (creation request i, ok)]"
        using Inr True unfolding one_creation_def created_after_look_def nothing_there_def
        by (intro disjI2 exI [of _ "[]"] exI [of _ ok] exI [of _ prs]) simp
    next
      fix pr assume r: "r = Inr pr"
      with made(3) have "created_pull po request i ?h = Inr pr" "accepted_pull request i login pr" by simp_all
      moreover from this(1) have ok by (simp add: ok_def)
      ultimately show "saw_pull po request i (ips_history \<sigma>) [(listing request, True), (creation request i, ok)] pr
          \<and> accepted_pull request i login pr"
        unfolding saw_pull_def by (intro conjI disjI2 exI [of _ "[(listing request, True)]"] exI [of _ "[]"]) simp_all
    qed (use made in \<open>simp_all add: harmlessD(1) [OF listing_kinds(1)]\<close>)
  qed
qed

section \<open>The stored draft\<close>

definition rows_advance :: "impl_db \<Rightarrow> impl_db \<Rightarrow> bool" where
  "rows_advance db db' \<longleftrightarrow>
     (\<forall>i r. find_implementation_intent db i = Some r
        \<longrightarrow> (\<exists>r'. find_implementation_intent db' i = Some r' \<and> row_advances r r'))"

lemma rows_advanceI: "advances db db' \<Longrightarrow> rows_advance db db'"
  by (simp add: advances_def rows_advance_def)

lemma rows_advance_trans: "rows_advance a b \<Longrightarrow> rows_advance b c \<Longrightarrow> rows_advance a c"
  unfolding rows_advance_def by (metis row_advances_trans)

definition draft_matches :: "draft_pr_artifact_record \<Rightarrow> github_pull_request \<Rightarrow> bool" where
  "draft_matches d pr \<longleftrightarrow> dpr_number d = gpr_number pr \<and> dpr_url d = gpr_html_url pr \<and> dpr_draft d = gpr_draft pr
     \<and> dpr_head d = prr_name (gpr_head pr) \<and> dpr_base d = prr_name (gpr_base pr) \<and> dpr_head_sha d = prr_sha (gpr_head pr)"

lemma persisted_matches: "verify_persisted_draft_pr_record d pr = Inr pr' \<Longrightarrow> draft_matches d pr"
  by (auto simp: verify_persisted_draft_pr_record_def draft_matches_def split: if_splits)

lemma advances_draft: "advances db db' \<Longrightarrow> stored_draft request db' = stored_draft request db"
  by (simp add: advances_def stored_draft_def get_draft_pr_for_implementation_artifact_def)

lemma store_draft_failed:
  "store_draft_pr_artifact env now n rq db = (db', Inl e) \<Longrightarrow> rows_advance db db'"
  by (auto simp: store_draft_pr_artifact_def Let_def rows_advance_def find_implementation_intent_def split: if_splits)

lemma find_snoc: "find P xs = None \<Longrightarrow> find P (xs @ [x]) = (if P x then Some x else None)"
  by (induction xs) (auto split: if_splits)

lemma store_draft_ok:
  assumes "store_draft_pr_artifact env now n (draft_request request i pr) db = (db', Inr d)"
  shows "rows_advance db db'" "draft_matches d pr" "stored_draft request db = None \<Longrightarrow> stored_draft request db' = Some d"
proof -
  define e where "e = \<lparr> dpr_artifact_id = n, dpr_run_id = iau_run_id request,
      dpr_implementation_artifact_id = iar_artifact_id (iau_artifact request), dpr_intent_id = i,
      dpr_number = gpr_number pr, dpr_url = gpr_html_url pr, dpr_draft = gpr_draft pr,
      dpr_head = prr_name (gpr_head pr), dpr_base = prr_name (gpr_base pr), dpr_head_sha = prr_sha (gpr_head pr),
      dpr_marker = pr_marker i, dpr_created_at = now \<rparr>"
  have db': "db' = db\<lparr> idb_draft_prs := idb_draft_prs db @ [e] \<rparr>"
    and new: "dpr_artifact_id e \<notin> dpr_artifact_id ` set (idb_draft_prs db)"
    and found: "get_draft_pr_artifact db' n = Some d"
    using assms
    by (auto simp: store_draft_pr_artifact_def draft_request_def e_def Let_def found_or_ok split: if_splits)
  have "d = e"
    using found find_new [of dpr_artifact_id e, OF new] by (simp add: db' get_draft_pr_artifact_def e_def)
  then show "rows_advance db db'" "draft_matches d pr"
    by (simp_all add: db' rows_advance_def find_implementation_intent_def draft_matches_def e_def)
  show "stored_draft request db' = Some d" if "stored_draft request db = None"
    using that by (simp add: \<open>d = e\<close> db' stored_draft_def get_draft_pr_for_implementation_artifact_def e_def
        find_snoc)
qed

lemma reverify_accepts:
  assumes "reverify_persisted_draft_pr env po i request d login \<sigma> = (Inr u, \<sigma>')"
  shows "\<exists>pr. saw_pull po request i (ips_history \<sigma>) [(listing request, True)] pr
    \<and> accepted_pull request i login pr \<and> draft_matches d pr \<and> ips_history \<sigma>' = ips_history \<sigma> @ [(listing request, True)]
    \<and> ips_db \<sigma>' = ips_db \<sigma>"
proof -
  obtain prs where prs: "listed po request (ips_history \<sigma>) = Inr prs"
    using assms by (cases "listed po request (ips_history \<sigma>)")
      (auto simp: reverify_persisted_draft_pr_def and_then_def list_candidates_is impl_ask_def)
  obtain pr where "find (\<lambda>pr. gpr_number pr = dpr_number d) prs = Some pr"
      and ok: "accepted_pull request i login pr" "draft_matches d pr"
      and \<sigma>': "\<sigma>' = \<sigma>\<lparr> ips_history := ips_history \<sigma> @ [(listing request, True)] \<rparr>"
    using assms prs
    by (auto simp: reverify_persisted_draft_pr_def and_then_def list_candidates_is impl_ask_def fail_after_def give_up_def
        give_def Let_def dest!: verified_is_accepted persisted_matches split: option.splits sum.splits prod.splits)
  from this(1) have "pr \<in> set prs" by (auto dest: find_in)
  with prs have "saw_pull po request i (ips_history \<sigma>) [(listing request, True)] pr"
    unfolding saw_pull_def by (intro disjI1 exI [of _ "[]"] exI [of _ prs]) simp
  with ok \<sigma>' show ?thesis by auto
qed

text \<open>Results of the actions that read a row again.\<close>

definition current :: "impl_db \<Rightarrow> implementation_publication_row \<Rightarrow> bool" where
  "current db row \<longleftrightarrow> find_implementation_intent db (ipi_intent_id row) = Some row"

lemma reload_ok: "reload_impl_intent env i \<sigma> = (Inr row, \<sigma>') \<Longrightarrow> \<sigma>' = \<sigma> \<and> ipi_intent_id row = i \<and> current (ips_db \<sigma>) row"
  by (auto simp: reload_impl_intent_def current_def dest!: get_intent_found dest: found_intent_id
      split: sum.splits option.splits)

lemma and_thenE:
  assumes "and_then m k \<sigma> = (Inr b, \<sigma>')"
  obtains a \<sigma>1 where "m \<sigma> = (Inr a, \<sigma>1)" "k a \<sigma>1 = (Inr b, \<sigma>')"
  using assms by (auto simp: and_then_def split: prod.splits sum.splits)

lemma record_ok:
  assumes "record_impl_step env po i t projection \<sigma> = (Inr u, \<sigma>')" "trim t \<noteq> []"
  shows "\<exists>row. find_implementation_intent (ips_db \<sigma>') i = Some row \<and> trim t \<in> set (ipi_completed_steps row)"
  using assms
  by (auto simp: record_impl_step_def on_impl_store_def record_implementation_publication_step_def Let_def
      ignoring_count_def update_implementation_intent_def set_add_step found_or_ok find_implementation_intent_def
      find_update_where_key [of ipi_intent_id] dest!: get_intent_found dest: find_in_key
      split: prod.splits sum.splits if_splits)

lemma unless_ok:
  assumes run: "unless_completed env t intent m \<sigma> = (Inr row, \<sigma>')" and cur: "current (ips_db \<sigma>) intent"
    and rec: "\<And>\<sigma>1. m \<sigma> = (Inr (), \<sigma>1) \<Longrightarrow>
      \<exists>row. find_implementation_intent (ips_db \<sigma>1) (ipi_intent_id intent) = Some row \<and> t \<in> set (ipi_completed_steps row)"
  shows "ipi_intent_id row = ipi_intent_id intent \<and> current (ips_db \<sigma>') row \<and> t \<in> set (ipi_completed_steps row)"
proof (cases "t \<in> set (ipi_completed_steps intent)")
  case True
  with run cur show ?thesis by (simp add: unless_completed_def give_def)
next
  case False
  with run obtain \<sigma>1 where "m \<sigma> = (Inr (), \<sigma>1)" "reload_impl_intent env (ipi_intent_id intent) \<sigma>1 = (Inr row, \<sigma>')"
    by (auto simp: unless_completed_def elim!: and_thenE)
  with rec reload_ok show ?thesis by (metis current_def option.inject)
qed

section \<open>The draft phase\<close>

lemma trim_steps [simp]: "trim impl_pending_step = impl_pending_step" "trim branch_pushed_step = branch_pushed_step"
  "trim pr_verified_step = pr_verified_step" "trim route_applied_step = route_applied_step"
  "trim comment_final_step = comment_final_step"
  by (simp_all add: impl_step_names trim_def trim_start_def trim_end_def is_whitespace_def code_point_def)

lemma steps_nonempty [simp]: "impl_pending_step \<noteq> []" "branch_pushed_step \<noteq> []" "pr_verified_step \<noteq> []"
  "route_applied_step \<noteq> []" "comment_final_step \<noteq> []"
  by (simp_all add: impl_step_names)

lemma and_then_error: "m \<sigma> = (Inl e, \<sigma>1) \<Longrightarrow> and_then m k \<sigma> = (Inl e, \<sigma>1)"
  by (simp add: and_then_def)

lemma and_then_value: "m \<sigma> = (Inr a, \<sigma>1) \<Longrightarrow> and_then m k \<sigma> = k a \<sigma>1"
  by (simp add: and_then_def)

lemma orderly_recorded: "orderly harmless (and_then (record_impl_step env po i pr_verified_step
    (verified_projection b hd' sha n u)) (\<lambda>_. and_then (reload_impl_intent env i) (\<lambda>intent. give (record, intent))))"
  by (auto intro!: orderly_intros simp: verified_projection_def)

lemma record_then_reload:
  assumes "and_then (record_impl_step env po i t p) (\<lambda>_. and_then (reload_impl_intent env i) (\<lambda>intent. give (d, intent))) \<sigma>
      = (Inr (d', row), \<sigma>')" "trim t = t" "t \<noteq> []"
  shows "d' = d \<and> ipi_intent_id row = i \<and> current (ips_db \<sigma>') row \<and> t \<in> set (ipi_completed_steps row)"
proof -
  obtain u \<sigma>1 where r: "record_impl_step env po i t p \<sigma> = (Inr u, \<sigma>1)"
      "and_then (reload_impl_intent env i) (\<lambda>intent. give (d, intent)) \<sigma>1 = (Inr (d', row), \<sigma>')"
    using assms(1) by (rule and_thenE)
  from r(2) have "reload_impl_intent env i \<sigma>1 = (Inr row, \<sigma>') \<and> d' = d"
    by (auto simp: give_def elim!: and_thenE)
  moreover from record_ok [OF r(1)] assms obtain row' where
      "find_implementation_intent (ips_db \<sigma>1) i = Some row'" "t \<in> set (ipi_completed_steps row')" by auto
  ultimately show ?thesis by (auto dest!: reload_ok simp: current_def)
qed

lemma obtain_draft_calls:
  assumes run: "obtain_draft env po request intent login \<sigma> = (r, \<sigma>')"
    and none: "stored_draft request (ips_db \<sigma>) = None"
  obtains calls where "ips_history \<sigma>' = ips_history \<sigma> @ calls" "list_all (\<lambda>c. \<not> tracker_change c) calls"
    "one_creation po request (ipi_intent_id intent) (ips_history \<sigma>) calls" "rows_advance (ips_db \<sigma>) (ips_db \<sigma>')"
    "\<And>d row. r = Inr (d, row) \<Longrightarrow>
       (\<exists>pr. saw_pull po request (ipi_intent_id intent) (ips_history \<sigma>) calls pr
          \<and> accepted_pull request (ipi_intent_id intent) login pr \<and> draft_matches d pr)
       \<and> stored_draft request (ips_db \<sigma>') = Some d
       \<and> ipi_intent_id row = ipi_intent_id intent \<and> current (ips_db \<sigma>') row \<and> pr_verified_step \<in> set (ipi_completed_steps row)"
proof -
  let ?i = "ipi_intent_id intent"
  obtain r1 \<sigma>1 where 1: "reconcile_draft_pr env po ?i request login \<sigma> = (r1, \<sigma>1)" by fastforce
  obtain calls where calls: "ips_history \<sigma>1 = ips_history \<sigma> @ calls" "list_all (\<lambda>c. \<not> tracker_change c) calls"
      "one_creation po request ?i (ips_history \<sigma>) calls" "advances (ips_db \<sigma>) (ips_db \<sigma>1)"
      "\<And>pr. r1 = Inr pr \<Longrightarrow> saw_pull po request ?i (ips_history \<sigma>) calls pr \<and> accepted_pull request ?i login pr"
    by (rule reconcile_calls [OF 1]) auto
  show ?thesis
  proof (cases r1)
    case (Inl e)
    with run 1 have "r = Inl e" "\<sigma>' = \<sigma>1" by (simp_all add: obtain_draft_def and_then_def Let_def)
    with calls that show ?thesis by (simp add: rows_advanceI)
  next
    case (Inr pr)
    define store where "store = on_impl_store po (\<lambda>now n. store_draft_pr_artifact env now n (draft_request request ?i pr))"
    define rest where "rest d = and_then (record_impl_step env po ?i pr_verified_step
        (verified_projection (prr_name (gpr_base pr)) (prr_name (gpr_head pr)) (prr_sha (gpr_head pr))
           (gpr_number pr) (gpr_html_url pr)))
      (\<lambda>_. and_then (reload_impl_intent env ?i) (\<lambda>intent. give (d, intent)))" for d :: draft_pr_artifact_record
    obtain r2 \<sigma>2 where 2: "store \<sigma>1 = (r2, \<sigma>2)" by fastforce
    have h2: "ips_history \<sigma>2 = ips_history \<sigma>1"
      using 2 by (auto simp: store_def on_impl_store_def split: prod.splits)
    have run2: "and_then store rest \<sigma>1 = (r, \<sigma>')"
      using run 1 Inr
      by (simp add: obtain_draft_def Let_def store_def rest_def [abs_def]
          and_then_value [where m = "reconcile_draft_pr env po ?i request login" and a = pr])
    have none1: "stored_draft request (ips_db \<sigma>1) = None" using none calls(4) by (simp add: advances_draft)
    show ?thesis
    proof (cases r2)
      case (Inl e)
      with run2 2 have "r = Inl e" "\<sigma>' = \<sigma>2" by (simp_all add: and_then_def)
      moreover have "rows_advance (ips_db \<sigma>1) (ips_db \<sigma>2)"
        using 2 Inl by (auto simp: store_def on_impl_store_def split: prod.splits dest: store_draft_failed)
      moreover from this calls(4) have "rows_advance (ips_db \<sigma>) (ips_db \<sigma>2)"
        by (meson rows_advanceI rows_advance_trans)
      ultimately show ?thesis using calls h2 that by simp
    next
      case (Inr d)
      have stored: "rows_advance (ips_db \<sigma>1) (ips_db \<sigma>2)" "draft_matches d pr" "stored_draft request (ips_db \<sigma>2) = Some d"
        using 2 Inr none1 by (auto simp: store_def on_impl_store_def split: prod.splits dest: store_draft_ok)
      have 3: "rest d \<sigma>2 = (r, \<sigma>')" using run2 2 Inr by (simp add: and_then_def)
      obtain calls' where calls': "ips_history \<sigma>' = ips_history \<sigma>2 @ calls'" "list_all harmless calls'"
          "advances (ips_db \<sigma>2) (ips_db \<sigma>')"
        by (rule orderlyE [OF orderly_recorded 3 [unfolded rest_def]])
      show ?thesis
      proof (rule that [of "calls @ calls'"])
        show "one_creation po request ?i (ips_history \<sigma>) (calls @ calls')"
          using calls(3) calls'(2) by (simp add: one_creation_append harmless_calls)
        show "rows_advance (ips_db \<sigma>) (ips_db \<sigma>')"
          using calls(4) stored(1) calls'(3) by (meson rows_advanceI rows_advance_trans)
      next
        fix d' row assume r: "r = Inr (d', row)"
        have "d' = d \<and> ipi_intent_id row = ?i \<and> current (ips_db \<sigma>') row \<and> pr_verified_step \<in> set (ipi_completed_steps row)"
          by (rule record_then_reload [OF 3 [unfolded rest_def r]]) simp_all
        moreover have "saw_pull po request ?i (ips_history \<sigma>) (calls @ calls') pr \<and> accepted_pull request ?i login pr"
          using calls(5) \<open>r1 = Inr pr\<close> by (simp add: saw_pull_append)
        ultimately show "(\<exists>pr. saw_pull po request ?i (ips_history \<sigma>) (calls @ calls') pr
            \<and> accepted_pull request ?i login pr \<and> draft_matches d' pr)
          \<and> stored_draft request (ips_db \<sigma>') = Some d'
          \<and> ipi_intent_id row = ?i \<and> current (ips_db \<sigma>') row \<and> pr_verified_step \<in> set (ipi_completed_steps row)"
          using stored calls'(3) by (auto simp: advances_draft)
      qed (use calls h2 calls' in \<open>simp_all add: harmless_calls\<close>)
    qed
  qed
qed

definition drafted ::
    "'w impl_port \<Rightarrow> impl_automatic_request \<Rightarrow> string \<Rightarrow> impl_history \<Rightarrow> impl_history \<Rightarrow> draft_pr_artifact_record \<Rightarrow> bool" where
  "drafted po request intent_id h calls d \<longleftrightarrow>
     (\<exists>login pr before after. calls = before @ (IcLogin, True) # after \<and> ipo_login po (h @ before) = Inr login
        \<and> saw_pull po request intent_id h calls pr \<and> accepted_pull request intent_id login pr \<and> draft_matches d pr)"

lemma drafted_append: "drafted po request i h calls d \<Longrightarrow> drafted po request i h (calls @ later) d"
  unfolding drafted_def using saw_pull_append by fastforce

lemma drafted_later:
  assumes "drafted po request i (h @ earlier) calls d"
  shows "drafted po request i h (earlier @ calls) d"
proof -
  from assms obtain login pr before after where "calls = before @ (IcLogin, True) # after"
      "ipo_login po (h @ earlier @ before) = Inr login" "saw_pull po request i (h @ earlier) calls pr"
      "accepted_pull request i login pr" "draft_matches d pr"
    by (auto simp: drafted_def)
  then show ?thesis
    unfolding drafted_def using saw_pull_later
    by (intro exI [of _ login] exI [of _ pr] exI [of _ "earlier @ before"] exI [of _ after]) auto
qed

text \<open>The result of the draft phase: the stored draft and the row with the step.\<close>

definition draft_settled ::
    "'w impl_port \<Rightarrow> impl_automatic_request \<Rightarrow> string \<Rightarrow> impl_history \<Rightarrow> impl_history \<Rightarrow> impl_db
     \<Rightarrow> draft_pr_artifact_record \<Rightarrow> implementation_publication_row \<Rightarrow> bool" where
  "draft_settled po request i h calls db d row \<longleftrightarrow>
     drafted po request i h calls d \<and> stored_draft request db = Some d
     \<and> ipi_intent_id row = i \<and> current db row \<and> pr_verified_step \<in> set (ipi_completed_steps row)"

lemma recheck_ok:
  assumes run: "recheck_draft env po request intent existing login \<sigma> = (Inr (d, row), \<sigma>')"
    and cur: "current (ips_db \<sigma>) intent"
  shows "d = existing \<and> (\<exists>pr. saw_pull po request (ipi_intent_id intent) (ips_history \<sigma>) [(listing request, True)] pr
      \<and> accepted_pull request (ipi_intent_id intent) login pr \<and> draft_matches d pr)
    \<and> ips_history \<sigma>' = ips_history \<sigma> @ [(listing request, True)]
    \<and> ipi_intent_id row = ipi_intent_id intent \<and> current (ips_db \<sigma>') row \<and> pr_verified_step \<in> set (ipi_completed_steps row)"
proof -
  define m :: "('a, unit) impl_action" where "m = record_impl_step env po (ipi_intent_id intent) pr_verified_step
        (verified_projection (dpr_base existing) (dpr_head existing) (dpr_head_sha existing)
           (dpr_number existing) (dpr_url existing))"
  obtain u \<sigma>1 where 1: "reverify_persisted_draft_pr env po (ipi_intent_id intent) request existing login \<sigma> = (Inr u, \<sigma>1)"
      "unless_completed env pr_verified_step intent m \<sigma>1 = (Inr row, \<sigma>')" and d: "d = existing"
    using run unfolding recheck_draft_def m_def by (auto simp: give_def elim!: and_thenE)
  obtain pr where pr: "saw_pull po request (ipi_intent_id intent) (ips_history \<sigma>) [(listing request, True)] pr"
      "accepted_pull request (ipi_intent_id intent) login pr" "draft_matches existing pr"
      "ips_history \<sigma>1 = ips_history \<sigma> @ [(listing request, True)]" "ips_db \<sigma>1 = ips_db \<sigma>"
    using reverify_accepts [OF 1(1)] by blast
  have "ipi_intent_id row = ipi_intent_id intent \<and> current (ips_db \<sigma>') row \<and> pr_verified_step \<in> set (ipi_completed_steps row)"
    using cur pr(5) record_ok [of env po "ipi_intent_id intent" pr_verified_step]
    by (intro unless_ok [OF 1(2)]) (auto simp: m_def)
  moreover have "ips_history \<sigma>' = ips_history \<sigma>1"
    using 1(2)
    by (auto simp: unless_completed_def give_def m_def record_impl_step_def on_impl_store_def dest!: reload_ok
        elim!: and_thenE split: if_splits prod.splits)
  ultimately show ?thesis using pr d by auto
qed

lemma draft_phase_calls:
  assumes run: "draft_phase env po request intent \<sigma> = (r, \<sigma>')" and cur: "current (ips_db \<sigma>) intent"
  obtains calls where "ips_history \<sigma>' = ips_history \<sigma> @ calls" "list_all (\<lambda>c. \<not> tracker_change c) calls"
    "one_creation po request (ipi_intent_id intent) (ips_history \<sigma>) calls" "rows_advance (ips_db \<sigma>) (ips_db \<sigma>')"
    "\<And>d row. r = Inr (d, row) \<Longrightarrow>
       draft_settled po request (ipi_intent_id intent) (ips_history \<sigma>) calls (ips_db \<sigma>') d row"
proof (cases "ipo_login po (ips_history \<sigma>)")
  case (Inl e)
  with run have "ips_history \<sigma>' = ips_history \<sigma> @ [(IcLogin, False)]" "ips_db \<sigma>' = ips_db \<sigma>" "r = Inl e"
    by (auto simp: draft_phase_def and_then_def impl_ask_def)
  then show ?thesis
    by (intro that [of "[(IcLogin, False)]"])
      (simp_all add: one_creation_def harmlessD [OF call_kind_simps(1)] rows_advanceI)
next
  case (Inr login)
  let ?i = "ipi_intent_id intent"
  define \<sigma>1 where "\<sigma>1 = \<sigma>\<lparr> ips_history := ips_history \<sigma> @ [(IcLogin, True)] \<rparr>"
  have db1: "ips_db \<sigma>1 = ips_db \<sigma>" and h1: "ips_history \<sigma>1 = ips_history \<sigma> @ [(IcLogin, True)]" by (simp_all add: \<sigma>1_def)
  have logged: "drafted po request ?i (ips_history \<sigma>) ((IcLogin, True) # calls) d"
    if "saw_pull po request ?i (ips_history \<sigma>1) calls pr" "accepted_pull request ?i login pr" "draft_matches d pr" for calls pr d
    using that Inr saw_pull_later [of po request ?i "ips_history \<sigma>" "[(IcLogin, True)]" calls pr]
    unfolding drafted_def h1 by (intro exI [of _ login] exI [of _ pr] exI [of _ "[]"] exI [of _ calls]) simp
  have safe: "\<not> tracker_change (IcLogin, True)" "\<not> pull_creation (IcLogin, True)"
    by (simp_all add: harmlessD [OF call_kind_simps(1)])
  show ?thesis
  proof (cases "stored_draft request (ips_db \<sigma>)")
    case (Some existing)
    have 2: "recheck_draft env po request intent existing login \<sigma>1 = (r, \<sigma>')"
      using run Inr Some by (simp add: draft_phase_def and_then_def impl_ask_def from_impl_store_def \<sigma>1_def)
    obtain calls where calls: "ips_history \<sigma>' = ips_history \<sigma>1 @ calls" "list_all harmless calls"
        "advances (ips_db \<sigma>1) (ips_db \<sigma>')"
      by (rule orderlyE [OF orderly_recheck 2])
    show ?thesis
    proof (rule that [of "(IcLogin, True) # calls"])
      fix d row assume r: "r = Inr (d, row)"
      from recheck_ok [OF 2 [unfolded r]] cur obtain pr where ok: "d = existing"
          "saw_pull po request ?i (ips_history \<sigma>1) [(listing request, True)] pr" "accepted_pull request ?i login pr"
          "draft_matches d pr" "ips_history \<sigma>' = ips_history \<sigma>1 @ [(listing request, True)]"
          "ipi_intent_id row = ?i" "current (ips_db \<sigma>') row" "pr_verified_step \<in> set (ipi_completed_steps row)"
        by (auto simp: db1)
      have "calls = [(listing request, True)]" using ok(5) calls(1) by simp
      moreover have "stored_draft request (ips_db \<sigma>') = Some d"
        using Some ok(1) calls(3) by (simp add: advances_draft db1)
      ultimately show "draft_settled po request ?i (ips_history \<sigma>) ((IcLogin, True) # calls) (ips_db \<sigma>') d row"
        using ok logged by (simp add: draft_settled_def)
    qed (use calls h1 db1 safe in \<open>simp_all add: harmless_calls one_creation_def rows_advanceI\<close>)
  next
    case None
    have 2: "obtain_draft env po request intent login \<sigma>1 = (r, \<sigma>')"
      using run Inr None by (simp add: draft_phase_def and_then_def impl_ask_def from_impl_store_def \<sigma>1_def)
    have none1: "stored_draft request (ips_db \<sigma>1) = None" using None by (simp add: db1)
    obtain calls where calls: "ips_history \<sigma>' = ips_history \<sigma>1 @ calls" "list_all (\<lambda>c. \<not> tracker_change c) calls"
        "one_creation po request ?i (ips_history \<sigma>1) calls" "rows_advance (ips_db \<sigma>1) (ips_db \<sigma>')"
        "\<And>d row. r = Inr (d, row) \<Longrightarrow>
           (\<exists>pr. saw_pull po request ?i (ips_history \<sigma>1) calls pr \<and> accepted_pull request ?i login pr \<and> draft_matches d pr)
           \<and> stored_draft request (ips_db \<sigma>') = Some d
           \<and> ipi_intent_id row = ?i \<and> current (ips_db \<sigma>') row \<and> pr_verified_step \<in> set (ipi_completed_steps row)"
      by (rule obtain_draft_calls [OF 2 none1]) (rule that)
    show ?thesis
    proof (rule that [of "(IcLogin, True) # calls"])
      show "one_creation po request ?i (ips_history \<sigma>) ((IcLogin, True) # calls)"
        using one_creation_later [of po request ?i "ips_history \<sigma>" "[(IcLogin, True)]" calls] calls(3) safe by (simp add: h1)
    next
      fix d row assume "r = Inr (d, row)"
      from calls(5) [OF this] logged
      show "draft_settled po request ?i (ips_history \<sigma>) ((IcLogin, True) # calls) (ips_db \<sigma>') d row"
        by (auto simp: draft_settled_def)
    qed (use calls h1 db1 safe in simp_all)
  qed
qed

section \<open>The whole publication\<close>

lemma recorded_last:
  assumes "and_then m (\<lambda>x. record_impl_step env po i t p) \<sigma> = (Inr u, \<sigma>')" "trim t = t" "t \<noteq> []"
  shows "\<exists>row. find_implementation_intent (ips_db \<sigma>') i = Some row \<and> t \<in> set (ipi_completed_steps row)"
proof -
  from assms(1) obtain x \<sigma>1 where "record_impl_step env po i t p \<sigma>1 = (Inr u, \<sigma>')" by (rule and_thenE)
  from record_ok [OF this] assms(2,3) show ?thesis by simp
qed

lemma announce_ok:
  assumes "announce_publication env po request intent \<sigma> = (Inr u, \<sigma>')"
  shows "\<exists>row. find_implementation_intent (ips_db \<sigma>') (ipi_intent_id intent) = Some row
    \<and> impl_pending_step \<in> set (ipi_completed_steps row)"
  using assms unfolding announce_publication_def Let_def by (rule recorded_last) simp_all

lemma push_ok:
  assumes "push_publication_branch env po request intent \<sigma> = (Inr u, \<sigma>')"
  shows "\<exists>row. find_implementation_intent (ips_db \<sigma>') (ipi_intent_id intent) = Some row
    \<and> branch_pushed_step \<in> set (ipi_completed_steps row)"
proof -
  from assms obtain outcome \<sigma>1 p where "record_impl_step env po (ipi_intent_id intent) branch_pushed_step p \<sigma>1 = (Inr u, \<sigma>')"
    unfolding push_publication_branch_def Let_def by (blast elim: and_thenE)
  from record_ok [OF this] show ?thesis by simp
qed

lemma hand_over_ok:
  assumes "hand_over env po request intent n \<sigma> = (Inr u, \<sigma>')"
  shows "\<exists>row. find_implementation_intent (ips_db \<sigma>') (ipi_intent_id intent) = Some row
    \<and> route_applied_step \<in> set (ipi_completed_steps row)"
proof -
  from assms obtain \<sigma>1 p where "record_impl_step env po (ipi_intent_id intent) route_applied_step p \<sigma>1 = (Inr u, \<sigma>')"
    unfolding hand_over_def Let_def by (blast elim: and_thenE)
  from record_ok [OF this] show ?thesis by simp
qed

lemma final_ok:
  assumes "final_phase env po request intent d \<sigma> = (Inr u, \<sigma>')" "current (ips_db \<sigma>) intent"
  shows "\<exists>row. find_implementation_intent (ips_db \<sigma>') (ipi_intent_id intent) = Some row
    \<and> comment_final_step \<in> set (ipi_completed_steps row)"
proof (cases "comment_final_step \<in> set (ipi_completed_steps intent)")
  case True
  with assms show ?thesis by (simp add: final_phase_def give_def current_def)
next
  case False
  with assms(1) obtain \<sigma>1 p where "record_impl_step env po (ipi_intent_id intent) comment_final_step p \<sigma>1 = (Inr u, \<sigma>')"
    unfolding final_phase_def by (auto elim: and_thenE)
  from record_ok [OF this] show ?thesis by simp
qed

lemma current_advances:
  assumes "rows_advance db db'" "current db row"
  shows "\<exists>row'. find_implementation_intent db' (ipi_intent_id row) = Some row'
    \<and> set (ipi_completed_steps row) \<subseteq> set (ipi_completed_steps row')"
  using assms unfolding rows_advance_def current_def row_advances_def by blast

lemma unless_advances:
  assumes "orderly Q m" "unless_completed env t intent m \<sigma> = (Inr row, \<sigma>')" "current (ips_db \<sigma>) intent"
    "ipi_intent_id row = ipi_intent_id intent" "current (ips_db \<sigma>') row"
  shows "set (ipi_completed_steps intent) \<subseteq> set (ipi_completed_steps row)"
proof -
  obtain calls where "advances (ips_db \<sigma>) (ips_db \<sigma>')" by (rule orderlyE [OF orderly_unless [OF assms(1)] assms(2)])
  from current_advances [OF rows_advanceI [OF this] assms(3)] assms(4,5) show ?thesis by (auto simp: current_def)
qed

lemma after_draft_ok:
  assumes run: "after_draft env po request intent d \<sigma> = (Inr d', \<sigma>')" and cur: "current (ips_db \<sigma>) intent"
  shows "d' = d \<and> (\<exists>row. find_implementation_intent (ips_db \<sigma>') (ipi_intent_id intent) = Some row
    \<and> insert route_applied_step (insert comment_final_step (set (ipi_completed_steps intent))) \<subseteq> set (ipi_completed_steps row))"
proof -
  let ?m = "hand_over env po request intent (dpr_number d)"
  obtain row \<sigma>1 u where 1: "unless_completed env route_applied_step intent ?m \<sigma> = (Inr row, \<sigma>1)"
      and 2: "final_phase env po request row d \<sigma>1 = (Inr u, \<sigma>')" and d: "d' = d"
    using run by (auto simp: after_draft_def from_impl_store_def give_def give_up_def elim!: and_thenE split: if_splits)
  have row: "ipi_intent_id row = ipi_intent_id intent" "current (ips_db \<sigma>1) row" "route_applied_step \<in> set (ipi_completed_steps row)"
    using unless_ok [OF 1 cur] hand_over_ok by blast+
  have "set (ipi_completed_steps intent) \<subseteq> set (ipi_completed_steps row)"
    by (rule unless_advances [OF orderly_hand_over 1 cur row(1,2)])
  moreover obtain calls where adv: "advances (ips_db \<sigma>1) (ips_db \<sigma>')" by (rule orderlyE [OF orderly_final 2])
  from adv obtain row' where "find_implementation_intent (ips_db \<sigma>') (ipi_intent_id row) = Some row'"
      "set (ipi_completed_steps row) \<subseteq> set (ipi_completed_steps row')"
    using current_advances [OF rows_advanceI row(2)] by blast
  ultimately show ?thesis using final_ok [OF 2 row(2)] row d by fastforce
qed

text \<open>What a publication has called, in two parts: up to the draft, and after it.\<close>

definition hand_over_after ::
    "'w impl_port \<Rightarrow> impl_automatic_request \<Rightarrow> string \<Rightarrow> impl_history \<Rightarrow> impl_history \<Rightarrow> impl_db \<Rightarrow> bool" where
  "hand_over_after po request intent_id h calls db \<longleftrightarrow>
     (\<forall>before c after. calls = before @ c # after \<and> tracker_change c
        \<longrightarrow> (\<exists>d. stored_draft request db = Some d \<and> drafted po request intent_id h before d))"

lemma hand_over_none: "list_all (\<lambda>c. \<not> tracker_change c) calls \<Longrightarrow> hand_over_after po request i h calls db"
  by (auto simp: hand_over_after_def)

lemma hand_over_split:
  assumes "list_all (\<lambda>c. \<not> tracker_change c) early" "drafted po request i h early d" "stored_draft request db = Some d"
  shows "hand_over_after po request i h (early @ late) db"
  unfolding hand_over_after_def
proof (intro allI impI, elim conjE)
  fix before c after
  assume split: "early @ late = before @ c # after" and c: "tracker_change c"
  from split consider us where "early = before @ us" "us @ late = c # after" | us where "before = early @ us"
    by (auto simp: append_eq_append_conv2)
  then obtain us where "before = early @ us"
  proof cases
    case 1
    then have "us = []" using assms(1) c by (cases us) auto
    with 1 that [of "[]"] show ?thesis by simp
  qed (rule that)
  with drafted_append [OF assms(2)] assms(3) show "\<exists>d. stored_draft request db = Some d \<and> drafted po request i h before d"
    by metis
qed

lemma publish_steps_calls:
  assumes run: "publish_steps env po request intent \<sigma> = (r, \<sigma>')" and cur: "current (ips_db \<sigma>) intent"
  obtains calls where "ips_history \<sigma>' = ips_history \<sigma> @ calls"
    "one_creation po request (ipi_intent_id intent) (ips_history \<sigma>) calls"
    "hand_over_after po request (ipi_intent_id intent) (ips_history \<sigma>) calls (ips_db \<sigma>')"
    "rows_advance (ips_db \<sigma>) (ips_db \<sigma>')"
    "\<And>d. r = Inr d \<Longrightarrow> stored_draft request (ips_db \<sigma>') = Some d
       \<and> drafted po request (ipi_intent_id intent) (ips_history \<sigma>) calls d
       \<and> (\<exists>row. find_implementation_intent (ips_db \<sigma>') (ipi_intent_id intent) = Some row
            \<and> {impl_pending_step, branch_pushed_step, pr_verified_step, route_applied_step, comment_final_step}
                \<subseteq> set (ipi_completed_steps row))"
proof -
  let ?i = "ipi_intent_id intent"
  define m1 where "m1 = unless_completed env impl_pending_step intent (announce_publication env po request intent)"
  define m2 where "m2 row = unless_completed env branch_pushed_step row (push_publication_branch env po request row)" for row
  obtain r1 \<sigma>1 where 1: "m1 \<sigma> = (r1, \<sigma>1)" by fastforce
  obtain c1 where c1: "ips_history \<sigma>1 = ips_history \<sigma> @ c1" "list_all harmless c1" "advances (ips_db \<sigma>) (ips_db \<sigma>1)"
    by (rule orderlyE [OF orderly_unless [OF orderly_announce] 1 [unfolded m1_def]])
  show ?thesis
  proof (cases r1)
    case (Inl e)
    with run 1 have "r = Inl e" "\<sigma>' = \<sigma>1" by (simp_all add: publish_steps_def and_then_def m1_def)
    with c1 show ?thesis
      by (intro that [of c1]) (simp_all add: one_creation_def harmless_calls hand_over_none rows_advanceI)
  next
    case (Inr row1)
    have row1: "ipi_intent_id row1 = ?i" "current (ips_db \<sigma>1) row1" "impl_pending_step \<in> set (ipi_completed_steps row1)"
      using unless_ok [OF 1 [unfolded m1_def Inr] cur] announce_ok by blast+
    obtain r2 \<sigma>2 where 2: "m2 row1 \<sigma>1 = (r2, \<sigma>2)" by fastforce
    obtain c2 where c2: "ips_history \<sigma>2 = ips_history \<sigma>1 @ c2" "list_all harmless c2" "advances (ips_db \<sigma>1) (ips_db \<sigma>2)"
      by (rule orderlyE [OF orderly_unless [OF orderly_push] 2 [unfolded m2_def]])
    have run2: "and_then (m2 row1) (\<lambda>row. and_then (draft_phase env po request row)
        (\<lambda>(draft, row). after_draft env po request row draft)) \<sigma>1 = (r, \<sigma>')"
      using run 1 Inr by (simp add: publish_steps_def and_then_value [where a = row1] m1_def m2_def [abs_def])
    have c12: "list_all harmless (c1 @ c2)" "rows_advance (ips_db \<sigma>) (ips_db \<sigma>2)"
      using c1 c2 by (auto intro: rows_advanceI rows_advance_trans)
    show ?thesis
    proof (cases r2)
      case (Inl e)
      with run2 2 have "r = Inl e" "\<sigma>' = \<sigma>2" by (simp_all add: and_then_def)
      with c1 c2 c12 show ?thesis
        by (intro that [of "c1 @ c2"]) (simp_all add: one_creation_def harmless_calls hand_over_none)
    next
      case (Inr row2)
      have row2: "ipi_intent_id row2 = ?i" "current (ips_db \<sigma>2) row2" "branch_pushed_step \<in> set (ipi_completed_steps row2)"
        using unless_ok [OF 2 [unfolded m2_def Inr] row1(2) push_ok] row1(1) by simp_all
      have steps2: "set (ipi_completed_steps row1) \<subseteq> set (ipi_completed_steps row2)"
        using row1 row2 by (intro unless_advances [OF orderly_push 2 [unfolded m2_def Inr]]) simp_all
      obtain r3 \<sigma>3 where 3: "draft_phase env po request row2 \<sigma>2 = (r3, \<sigma>3)" by fastforce
      obtain c3 where c3: "ips_history \<sigma>3 = ips_history \<sigma>2 @ c3" "list_all (\<lambda>c. \<not> tracker_change c) c3"
          "one_creation po request ?i (ips_history \<sigma>2) c3" "rows_advance (ips_db \<sigma>2) (ips_db \<sigma>3)"
          "\<And>d row. r3 = Inr (d, row) \<Longrightarrow> draft_settled po request ?i (ips_history \<sigma>2) c3 (ips_db \<sigma>3) d row"
        using draft_phase_calls [OF 3 row2(2)] unfolding row2(1) by (metis (no_types, lifting))
      have h3: "ips_history \<sigma>3 = ips_history \<sigma> @ (c1 @ c2 @ c3)" using c1 c2 c3 by simp
      have quiet3: "list_all (\<lambda>c. \<not> tracker_change c) (c1 @ c2 @ c3)" using c12(1) c3(2) by (simp add: harmless_calls)
      have one3: "one_creation po request ?i (ips_history \<sigma>) (c1 @ c2 @ c3)"
        using one_creation_later [of po request ?i "ips_history \<sigma>" "c1 @ c2" c3] c12(1) c1(1) c2(1) c3(3)
        by (simp add: harmless_calls)
      have adv3: "rows_advance (ips_db \<sigma>) (ips_db \<sigma>3)" using c12(2) c3(4) by (rule rows_advance_trans)
      have run3: "and_then (draft_phase env po request row2) (\<lambda>(draft, row). after_draft env po request row draft) \<sigma>2 = (r, \<sigma>')"
        using run2 2 Inr by (simp add: and_then_value [where a = row2])
      show ?thesis
      proof (cases r3)
        case (Inl e)
        with run3 3 have "r = Inl e" "\<sigma>' = \<sigma>3" by (simp_all add: and_then_def)
        with h3 quiet3 one3 adv3 show ?thesis by (intro that [of "c1 @ c2 @ c3"]) (simp_all add: hand_over_none)
      next
        case (Inr dr)
        obtain d row3 where dr: "dr = (d, row3)" by fastforce
        have settled: "drafted po request ?i (ips_history \<sigma>2) c3 d" "stored_draft request (ips_db \<sigma>3) = Some d"
            "ipi_intent_id row3 = ?i" "current (ips_db \<sigma>3) row3" "pr_verified_step \<in> set (ipi_completed_steps row3)"
          using c3(5) Inr dr by (simp_all add: draft_settled_def)
        have drafted3: "drafted po request ?i (ips_history \<sigma>) (c1 @ c2 @ c3) d"
          using drafted_later [of po request ?i "ips_history \<sigma>" "c1 @ c2" c3 d] settled(1) c1(1) c2(1) by simp
        have 4: "after_draft env po request row3 d \<sigma>3 = (r, \<sigma>')"
          using run3 3 Inr dr by (simp add: and_then_def)
        obtain c4 where c4: "ips_history \<sigma>' = ips_history \<sigma>3 @ c4" "list_all (\<lambda>c. \<not> pull_creation c) c4"
            "advances (ips_db \<sigma>3) (ips_db \<sigma>')"
          by (rule orderlyE [OF orderly_after_draft 4])
        have stored: "stored_draft request (ips_db \<sigma>') = Some d" using settled(2) c4(3) by (simp add: advances_draft)
        show ?thesis
        proof (rule that [of "(c1 @ c2 @ c3) @ c4"])
          show "one_creation po request ?i (ips_history \<sigma>) ((c1 @ c2 @ c3) @ c4)"
            using one3 c4(2) by (rule one_creation_append)
          show "hand_over_after po request ?i (ips_history \<sigma>) ((c1 @ c2 @ c3) @ c4) (ips_db \<sigma>')"
            using quiet3 drafted3 stored by (rule hand_over_split)
          show "rows_advance (ips_db \<sigma>) (ips_db \<sigma>')" using adv3 c4(3) by (meson rows_advanceI rows_advance_trans)
        next
          fix d' assume r: "r = Inr d'"
          have "set (ipi_completed_steps row2) \<subseteq> set (ipi_completed_steps row3)"
            using current_advances [OF c3(4) row2(2)] settled(3,4) row2(1) by (auto simp: current_def)
          with after_draft_ok [OF 4 [unfolded r] settled(4)] steps2 row1(3) row2(3) settled(3,5) stored
            drafted_append [OF drafted3, of c4]
          show "stored_draft request (ips_db \<sigma>') = Some d'
              \<and> drafted po request ?i (ips_history \<sigma>) ((c1 @ c2 @ c3) @ c4) d'
              \<and> (\<exists>row. find_implementation_intent (ips_db \<sigma>') ?i = Some row
                \<and> {impl_pending_step, branch_pushed_step, pr_verified_step, route_applied_step, comment_final_step}
                    \<subseteq> set (ipi_completed_steps row))"
            by auto
        qed (use h3 c4(1) in simp)
      qed
    qed
  qed
qed

text \<open>A publication from its guards to its end.\<close>

definition publication_id :: "impl_automatic_request \<Rightarrow> string" where
  "publication_id request = ipi_intent_id (ipi_row (iau_intent request))"

definition all_steps_done :: "impl_db \<Rightarrow> string \<Rightarrow> bool" where
  "all_steps_done db intent_id \<longleftrightarrow>
     (\<exists>row. find_implementation_intent db intent_id = Some row
        \<and> {impl_pending_step, branch_pushed_step, pr_verified_step, route_applied_step, comment_final_step}
            \<subseteq> set (ipi_completed_steps row))"

definition publication_applied :: "impl_automatic_request \<Rightarrow> bool" where
  "publication_applied request \<longleftrightarrow> ipi_status (ipi_row (iau_intent request)) = PubApplied"

lemma orderly_nothing:
  assumes "orderly (\<lambda>_. False) m" "m \<sigma> = (r, \<sigma>')"
  shows "ips_history \<sigma>' = ips_history \<sigma> \<and> advances (ips_db \<sigma>) (ips_db \<sigma>')"
proof -
  obtain calls where "ips_history \<sigma>' = ips_history \<sigma> @ calls" "list_all (\<lambda>_. False) calls" "advances (ips_db \<sigma>) (ips_db \<sigma>')"
    by (rule orderlyE [OF assms])
  then show ?thesis by (cases calls) auto
qed

lemma fail_after_isl: "fail_after m e \<sigma> = (r, \<sigma>') \<Longrightarrow> isl r"
  by (auto simp: fail_after_def and_then_def give_up_def split: prod.splits sum.splits)

lemma publish_automatic_cases:
  assumes "publish_implementation_automatic env po request \<sigma> = (r, \<sigma>')"
  obtains (steps) row where "ipi_intent_id row = publication_id request" "current (ips_db \<sigma>) row"
      "publish_steps env po request row \<sigma> = (r, \<sigma>')"
    | (stopped) "ips_history \<sigma>' = ips_history \<sigma>" "advances (ips_db \<sigma>) (ips_db \<sigma>')" "isl r \<or> publication_applied request"
proof -
  let ?row = "ipi_row (iau_intent request)" and ?i = "publication_id request"
  let ?e = "publication_error ''issue_revision_drift''
     (''issue revision drifted: approved='' @ iar_issue_revision (iau_artifact request) @ '' current=''
      @ iau_current_issue_revision request) True None"
  define drift :: "('a, draft_pr_artifact_record) impl_action" where
    "drift = fail_after (on_impl_store po (\<lambda>now _. set_implementation_publication_waiting env now ?i PubPending ?e))
       (TriageError (fe_remediation ?e))"
  have quiet_drift: "orderly (\<lambda>_. False) drift" unfolding drift_def by (auto intro!: orderly_intros)
  consider (guard) "\<sigma>' = \<sigma>" "isl r \<or> publication_applied request"
    | (drift) "drift \<sigma> = (r, \<sigma>')"
    | (go) "and_then (reload_impl_intent env ?i) (publish_steps env po request) \<sigma> = (r, \<sigma>')"
    using assms
    by (auto simp: publish_implementation_automatic_def Let_def give_up_def from_impl_store_def drift_def
        publication_id_def publication_applied_def split: if_splits)
  then show thesis
  proof cases
    case guard
    then show ?thesis by (intro stopped) simp_all
  next
    case drift
    with orderly_nothing [OF quiet_drift drift] show ?thesis
      by (intro stopped) (auto simp: drift_def dest: fail_after_isl)
  next
    case go
    obtain r0 \<sigma>0 where 0: "reload_impl_intent env ?i \<sigma> = (r0, \<sigma>0)" by fastforce
    have same: "\<sigma>0 = \<sigma>" using 0 by (auto simp: reload_impl_intent_def split: sum.splits option.splits)
    show ?thesis
    proof (cases r0)
      case (Inl e)
      with go 0 same show ?thesis by (intro stopped) (auto simp: and_then_def)
    next
      case (Inr row)
      with reload_ok [OF 0 [unfolded Inr]] go 0 same show ?thesis by (intro steps [of row]) (auto simp: and_then_def)
    qed
  qed
qed

lemma publish_automatic_calls:
  assumes run: "publish_implementation_automatic env po request \<sigma> = (r, \<sigma>')"
  shows "\<exists>calls. ips_history \<sigma>' = ips_history \<sigma> @ calls
    \<and> one_creation po request (publication_id request) (ips_history \<sigma>) calls
    \<and> hand_over_after po request (publication_id request) (ips_history \<sigma>) calls (ips_db \<sigma>')
    \<and> (\<forall>d. r = Inr d \<longrightarrow> \<not> publication_applied request \<longrightarrow>
         stored_draft request (ips_db \<sigma>') = Some d
         \<and> drafted po request (publication_id request) (ips_history \<sigma>) calls d
         \<and> all_steps_done (ips_db \<sigma>') (publication_id request))"
  using run
proof (cases rule: publish_automatic_cases)
  case (steps row)
  obtain calls where "ips_history \<sigma>' = ips_history \<sigma> @ calls"
      "one_creation po request (publication_id request) (ips_history \<sigma>) calls"
      "hand_over_after po request (publication_id request) (ips_history \<sigma>) calls (ips_db \<sigma>')"
      "\<And>d. r = Inr d \<Longrightarrow> stored_draft request (ips_db \<sigma>') = Some d
         \<and> drafted po request (publication_id request) (ips_history \<sigma>) calls d
         \<and> all_steps_done (ips_db \<sigma>') (publication_id request)"
    by (rule publish_steps_calls [OF steps(3,2), unfolded steps(1), folded all_steps_done_def]) (rule that)
  then show ?thesis by blast
next
  case stopped
  then show ?thesis by (intro exI [of _ "[]"]) (auto simp: one_creation_def hand_over_none)
qed

section \<open>A tracker that cannot be reached\<close>

definition polls ::
    "publication_env \<Rightarrow> 'w impl_port \<Rightarrow> publication_service \<Rightarrow> nat \<Rightarrow> 'w impl_state \<Rightarrow> 'w impl_state" where
  "polls env po s n = ((\<lambda>\<sigma>. snd (reconcile_pending_publications env po s \<sigma>)) ^^ n)"

text \<open>What is stored of the failure, and the row after it was charged once.\<close>

definition retryable_failure :: "implementation_publication_row \<Rightarrow> symphony_error \<Rightarrow> factory_error" where
  "retryable_failure row e =
     publication_error ''publication_retryable'' (error_to_string e) True (last_step (ipi_completed_steps row))"

definition charged :: "factory_env \<Rightarrow> int \<Rightarrow> symphony_error \<Rightarrow> implementation_publication_row \<Rightarrow> implementation_publication_row" where
  "charged env now e row =
     row\<lparr> ipi_status := PubPending, ipi_last_error_json := optional_json env (Some (retryable_failure row e)),
          ipi_retry_count := Suc (ipi_retry_count row), ipi_updated_at := now \<rparr>"

text \<open>The failure is stored whole and read back as it was.\<close>

definition stored_whole :: "factory_env \<Rightarrow> implementation_publication_row \<Rightarrow> symphony_error \<Rightarrow> bool" where
  "stored_whole env row e \<longleftrightarrow> error_to_string e \<noteq> []
     \<and> fe_remediation (retryable_failure row e) = error_to_string e
     \<and> optional_from_json env (optional_json env (Some (retryable_failure row e))) = Inr (Some (retryable_failure row e))"

lemma list_pending_single:
  assumes "idb_intents db = [row]" "ipi_status row = PubPending"
    "optional_from_json env (ipi_last_error_json row) = Inr err"
  shows "list_pending_implementation_publications env db = Inr [\<lparr> ipi_row = row, ipi_last_error = err \<rparr>]"
  using assms
  by (simp add: list_pending_implementation_publications_def list_implementation_intents_def
      implementation_publication_from_row_def)

lemma get_intent_single:
  assumes "idb_intents db = [row]" "optional_from_json env (ipi_last_error_json row) = Inr err"
  shows "get_implementation_publication_intent env db (ipi_intent_id row) = Inr (Some \<lparr> ipi_row = row, ipi_last_error = err \<rparr>)"
  using assms
  by (simp add: get_implementation_publication_intent_def find_implementation_intent_def read_optional_def
      implementation_publication_from_row_def)

lemma unreachable_publication:
  assumes "pen_routing env" "publication_records env (ipi_row intent) (ips_db \<sigma>) = Inr (artifact, bundle, issue_id)"
    "\<And>h. ipo_fetch_issue po issue_id h = Inl e"
  shows "reconcile_automatic_publication env po s intent \<sigma>
    = (Inl e, \<sigma>\<lparr> ips_history := ips_history \<sigma> @ [(IcFetchIssue issue_id, False)] \<rparr>)"
  using assms by (simp add: reconcile_automatic_publication_def Let_def and_then_def from_impl_store_def impl_ask_def)

text \<open>One poll over a single automatic publication that is due.\<close>

lemma poll_single:
  assumes "idb_intents (ips_db \<sigma>) = [row]" "ipi_status row = PubPending" "ipi_kind row = ImplAutomaticPublication"
    "optional_from_json (pen_factory env) (ipi_last_error_json row) = Inr err"
    "ipi_retry_count row < 8" "automatic_retry_ready (ipi_retry_count row) (ipi_updated_at row) (ipo_clock po (ips_ticks \<sigma>))"
    "pen_routing env" "publication_records env row (ips_db \<sigma>) = Inr (artifact, bnd, issue_id)"
    "\<And>h. ipo_fetch_issue po issue_id h = Inl e"
  shows "snd (reconcile_pending_publications env po s \<sigma>) =
    snd (charge_failure env po row e
      (\<sigma>\<lparr> ips_ticks := Suc (ips_ticks \<sigma>), ips_history := ips_history \<sigma> @ [(IcFetchIssue issue_id, False)] \<rparr>))"
proof -
  let ?intent = "\<lparr> ipi_row = row, ipi_last_error = err \<rparr>"
  have "reconcile_intent env po s ?intent \<sigma> = or_handle (reconcile_automatic_publication env po s ?intent)
      (charge_failure env po row) (\<sigma>\<lparr> ips_ticks := Suc (ips_ticks \<sigma>) \<rparr>)"
    using assms(3,5,6)
    by (simp add: reconcile_intent_def reconcile_automatic_intent_def max_automatic_publication_retries_def and_then_def
        read_clock_def on_impl_store_def)
  also have "\<dots> = charge_failure env po row e
      (\<sigma>\<lparr> ips_ticks := Suc (ips_ticks \<sigma>), ips_history := ips_history \<sigma> @ [(IcFetchIssue issue_id, False)] \<rparr>)"
    using unreachable_publication [of env ?intent "\<sigma>\<lparr> ips_ticks := Suc (ips_ticks \<sigma>) \<rparr>"] assms(7,8,9)
    by (simp add: or_handle_def)
  finally show ?thesis
    using list_pending_single [OF assms(1,2,4)]
    by (simp add: reconcile_pending_publications_def and_then_def from_impl_store_def give_def split: prod.split sum.split)
qed

lemma first_charge:
  assumes "idb_intents (ips_db \<sigma>) = [row]" "ipi_status row = PubPending" "ipi_last_error_json row = None"
    and \<sigma>'_def: "\<sigma>' = snd (charge_failure env po row e \<sigma>)"
  shows "idb_intents (ips_db \<sigma>') = [charged (pen_factory env) (ipo_clock po (ips_ticks \<sigma>)) e row]"
    "ips_ticks \<sigma>' = ips_ticks \<sigma> + 2" "ips_history \<sigma>' = ips_history \<sigma>"
    "\<And>row'. publication_records env row' (ips_db \<sigma>') = publication_records env row' (ips_db \<sigma>)"
proof -
  define fail where "fail = retryable_failure row e"
  let ?db = "(ips_db \<sigma>)\<lparr> idb_intents := [charged (pen_factory env) (ipo_clock po (ips_ticks \<sigma>)) e row] \<rparr>"
  let ?ev = "coordinator_event env po (ipi_run_id row) None ''implementation_publication_blocked''
      (JObject [(''error'', factory_error_json fail), (''intent_id'', JString (ipi_intent_id row))])"
  have got: "get_implementation_publication_intent (pen_factory env) (ips_db \<sigma>) (ipi_intent_id row)
      = Inr (Some \<lparr> ipi_row = row, ipi_last_error = None \<rparr>)"
    using assms by (intro get_intent_single) (simp_all add: optional_from_json_def)
  have set: "set_publication_error (pen_factory env) po (ipi_intent_id row) PubPending fail \<sigma>
      = (Inr (), \<sigma>\<lparr> ips_db := ?db, ips_ticks := Suc (ips_ticks \<sigma>) \<rparr>)"
    using assms(1)
    by (simp add: set_publication_error_def on_impl_store_def set_implementation_publication_error_def wanting_row_def
        update_implementation_intent_def Let_def update_where_def changed_rows_def one_nonterminal_publication_def
        List.map_filter_def fail_def charged_def split: prod.split)
  have \<sigma>': "\<sigma>' = snd (?ev (\<sigma>\<lparr> ips_db := ?db, ips_ticks := Suc (ips_ticks \<sigma>) \<rparr>))"
    using got set assms(2)
    by (simp add: \<sigma>'_def charge_failure_def from_impl_store_def and_then_def needs_charge_def Let_def fail_def
        retryable_failure_def)
  obtain b r where ev: "record_event (pen_factory env)
      \<lparr> ev_event_id = ipo_new_id po (Suc (ips_ticks \<sigma>)), ev_run_id = Some (ipi_run_id row), ev_stage_run_id = None,
        ev_event_type = ''implementation_publication_blocked'', ev_timestamp = ipo_clock po (Suc (ips_ticks \<sigma>)),
        ev_payload = JObject [(''error'', factory_error_json fail), (''intent_id'', JString (ipi_intent_id row))] \<rparr>
      (impl_base (ips_db \<sigma>)) = (b, r)" by fastforce
  have s: "\<sigma>' = \<sigma>\<lparr> ips_db := set_impl_base b ?db, ips_ticks := Suc (Suc (ips_ticks \<sigma>)) \<rparr>"
    by (simp add: \<sigma>' coordinator_event_def on_impl_store_def ev)
  have runs: "fs_runs b = fs_runs (impl_base (ips_db \<sigma>))"
    using ev by (auto simp: record_event_def impl_base_def split: sum.splits if_splits)
  show "idb_intents (ips_db \<sigma>') = [charged (pen_factory env) (ipo_clock po (ips_ticks \<sigma>)) e row]"
    "ips_ticks \<sigma>' = ips_ticks \<sigma> + 2" "ips_history \<sigma>' = ips_history \<sigma>"
    by (simp_all add: s)
  have reads: "get_implementation_artifact (ips_db \<sigma>') = get_implementation_artifact (ips_db \<sigma>)"
      "get_implementation_state (pen_impl env) (ips_db \<sigma>') = get_implementation_state (pen_impl env) (ips_db \<sigma>)"
      "get_bundle_artifact (ips_db \<sigma>') = get_bundle_artifact (ips_db \<sigma>)"
    by (intro ext, simp add: s get_implementation_artifact_def get_implementation_state_def get_bundle_artifact_def
        set_impl_base_def)+
  have run_reads: "get_run_by_id (impl_base (ips_db \<sigma>')) = get_run_by_id (impl_base (ips_db \<sigma>))"
    by (intro ext, simp add: s runs get_run_by_id_def)
  show "publication_records env row' (ips_db \<sigma>') = publication_records env row' (ips_db \<sigma>)" for row'
    unfolding publication_records_def reads run_reads ..
qed

lemma later_charge:
  assumes "idb_intents (ips_db \<sigma>) = [row']" "row' = charged (pen_factory env) now e row" "stored_whole (pen_factory env) row e"
  shows "charge_failure env po row' e \<sigma> = (Inr (), \<sigma>)"
proof -
  have "get_implementation_publication_intent (pen_factory env) (ips_db \<sigma>) (ipi_intent_id row')
      = Inr (Some \<lparr> ipi_row = row', ipi_last_error = Some (retryable_failure row e) \<rparr>)"
    using assms by (intro get_intent_single) (simp_all add: charged_def stored_whole_def)
  moreover have "already_recorded (retryable_failure row e) (error_to_string e)"
    using assms(3)
    by (simp add: already_recorded_def stored_whole_def retryable_failure_def publication_error_def factory_error_new_def)
  ultimately show ?thesis
    by (simp add: charge_failure_def from_impl_store_def and_then_def needs_charge_def give_def)
qed

end
