(* ===== verification/ImplementationPublisherProperties.thy ===== *)
theory ImplementationPublisherProperties
  imports ImplementationPublisherFacts StageProperties
begin

text \<open>
  The properties of publishing an implementation: when the tracker is advanced and a pull request made,
  and what the retry budget counts. The file also shows which pending publications are never taken up
  again, and when a failed push becomes a conflict.
\<close>

section \<open>The tracker follows the draft\<close>

text \<open>C29. However GitHub answers, a publication makes at most one creation call, and only straight
  after a listing that shows no pull request of this publication and no open one of anybody else; before
  its first change to the issue's labels or project state it has logged in, seen an open draft pull
  request of the publisher that carries the publication's marker, the branch, the base and the desired
  commit, and stored it. It returns a draft only with that draft stored and all five steps recorded.\<close>

theorem handed_over_with_verified_draft:
  assumes "publish_implementation_automatic env po request \<sigma> = (r, \<sigma>')"
  shows "\<exists>calls. ips_history \<sigma>' = ips_history \<sigma> @ calls
    \<and> one_creation po request (publication_id request) (ips_history \<sigma>) calls
    \<and> hand_over_after po request (publication_id request) (ips_history \<sigma>) calls (ips_db \<sigma>')
    \<and> (\<forall>d. r = Inr d \<longrightarrow> \<not> publication_applied request \<longrightarrow>
         stored_draft request (ips_db \<sigma>') = Some d
         \<and> drafted po request (publication_id request) (ips_history \<sigma>) calls d
         \<and> all_steps_done (ips_db \<sigma>') (publication_id request))"
  using assms by (rule publish_automatic_calls)

definition demo_implementation :: implementation_artifact_record where
  "demo_implementation =
     \<lparr> iar_artifact_id = ''m1'', iar_run_id = ''run'', iar_stage_run_id = ''a1'', iar_approved_artifact_id = ''s1'',
       iar_approved_version = 1, iar_issue_revision = ''rev'', iar_configuration_revision = ''conf'',
       iar_manifest = demo_manifest, iar_base_commit = ''base'', iar_head_commit = Some ''abc'',
       iar_approved_spec_path = ''s.md'', iar_validation_cycles = 1, iar_execution_profile = ProfileLocal,
       iar_received_at = 7, iar_bytes_len = 10 \<rparr>"

definition demo_bundle :: bundle_artifact_record where
  "demo_bundle =
     \<lparr> bar_artifact_id = ''u1'', bar_run_id = ''run'', bar_stage_run_id = ''a1'',
       bar_implementation_artifact_id = ''m1'', bar_base_commit = ''base'', bar_head_commit = ''abc'',
       bar_tree_sha = ''t'', bar_sha256 = ''d'', bar_bytes_len = 7, bar_changed_file_count = 1,
       bar_changed_paths = [''x''], bar_approved_spec_path = ''s.md'', bar_approved_spec_blob_sha = ''z'',
       bar_harness = ''pi'', bar_model = None, bar_execution_profile = ProfileLocal, bar_created_at = 7,
       bar_verified_at = 7 \<rparr>"

definition demo_publication_row :: implementation_publication_row where
  "demo_publication_row =
     \<lparr> ipi_intent_id = ''i1'', ipi_run_id = ''run'', ipi_artifact_id = Some ''m1'',
       ipi_kind = ImplAutomaticPublication, ipi_status = PubPending, ipi_completed_steps = [], ipi_retry_count = 0,
       ipi_last_error_json = None, ipi_comment_id = None, ipi_publisher_login = None,
       ipi_desired_effects = JObject [], ipi_observed_baseline = JObject [], ipi_expected_projection = JObject [],
       ipi_created_at = 8, ipi_updated_at = 8 \<rparr>"

definition demo_publication_db :: impl_db where
  "demo_publication_db =
     demo_impl_db\<lparr> idb_artifacts := [demo_implementation], idb_bundles := [demo_bundle],
       idb_states := [\<lparr> isr_run_id = ''run'', isr_approved_artifact_id = ''s1'', isr_approved_version = 1,
         isr_configuration_revision = ''conf'', isr_decision = ImplPreviewed, isr_successful_artifact_id = Some ''m1'',
         isr_bundle_artifact_id = Some ''u1'', isr_blocker_json = None, isr_updated_at = 7 \<rparr>],
       idb_intents := [demo_publication_row] \<rparr>"

definition demo_pull :: github_pull_request where
  "demo_pull =
     \<lparr> gpr_number = 5, gpr_html_url = ''u5'', gpr_draft = True, gpr_state = ''open'', gpr_title = ''t'',
       gpr_head = \<lparr> prr_name = ''b'', prr_sha = ''abc'' \<rparr>, gpr_base = \<lparr> prr_name = ''main'', prr_sha = ''base'' \<rparr>,
       gpr_user_login = Some ''Bot'', gpr_body = Some (pr_marker ''i1'') \<rparr>"

definition demo_own_comment :: github_issue_comment where
  "demo_own_comment =
     \<lparr> gc_id = 3, gc_user_login = Some ''bot'', gc_body = None, gc_html_url = None, gc_created_at = None,
       gc_updated_at = None \<rparr>"

definition demo_impl_port :: "nat impl_port" where
  "demo_impl_port =
     \<lparr> ipo_login = (\<lambda>_. Inr ''bot''), ipo_list_comments = (\<lambda>_ _ _. Inr []), ipo_get_comment = (\<lambda>_ _. Inr demo_own_comment),
       ipo_create_comment = (\<lambda>_ _ _. Inr demo_own_comment), ipo_update_comment = (\<lambda>_ _ _. Inr demo_own_comment),
       ipo_list_labels = (\<lambda>_ _. Inr [''Approved'']), ipo_project_state = (\<lambda>_ _. Inr (Some ''agent review'')),
       ipo_remove_label = (\<lambda>_ _ _. Inr ()), ipo_set_state = (\<lambda>_ _ _. Inr ()),
       ipo_list_pulls = (\<lambda>_ _ _ _ _. Inr []), ipo_create_pull = (\<lambda>_ _ _ _ _ _. Inr demo_pull),
       ipo_fetch_issue = (\<lambda>_ _. Inl (GithubApiRequest ''forge unreachable'')), ipo_git = demo_git, ipo_blob_path = id,
       ipo_clock = (\<lambda>k. 100000000000 * int k), ipo_new_id = (\<lambda>_. ''p1'') \<rparr>"

definition demo_automatic_request :: impl_automatic_request where
  "demo_automatic_request =
     \<lparr> iau_intent = \<lparr> ipi_row = demo_publication_row, ipi_last_error = None \<rparr>, iau_issue_number = 7,
       iau_issue_title = ''title'', iau_current_issue_revision = ''rev'', iau_run_id = ''run'',
       iau_stage_run_id = ''a1'', iau_artifact = demo_implementation, iau_bundle = demo_bundle,
       iau_manifest = demo_manifest, iau_validation = [], iau_branch = ''b'', iau_base_branch = ''main'',
       iau_remote_url = ''u'', iau_repo_owner = ''acme'', iau_approval_route_label = ''approved'',
       iau_completion_route_state = ''Agent Review'', iau_max_pages = 5 \<rparr>"

definition demo_impl_state :: "nat impl_state" where
  "demo_impl_state = \<lparr> ips_db = demo_publication_db, ips_world = 0, ips_history = [], ips_ticks = 0 \<rparr>"

lemma demo_pull_accepted:
  "verify_owned_draft_pr demo_pull ''i1'' ''b'' ''main'' ''abc'' ''bot'' = Inr demo_pull"
  by code_simp

lemma demo_branch_pushed:
  "publish_branch demo_git id ''u'' demo_publish_request 0
     = (4, Inr \<lparr> bpo_decision = PushAbsent, bpo_remote_sha_before = None, bpo_remote_sha_after = ''abc'', bpo_pushed = True \<rparr>)"
proof -
  have "remote_sha_of '''' = None" "remote_sha_of ''abc refs/heads/b'' = Some ''abc''" by code_simp+
  then show ?thesis
    by (simp add: publish_branch_def load_and_reverify_bundle_def demo_publish_request_def demo_git_def
        git_then_def import_bundle_def align_local_branch_def reconcile_remote_def
        observe_remote_branch_def push_and_confirm_def decide_branch_projection_def Let_def)
qed

lemma demo_settled:
  "settle_candidates env po ''i1'' demo_automatic_request ''bot'' [] = create_draft_pr po demo_automatic_request ''i1'' ''bot''"
  by (rule settle_creates) (simp add: nothing_there_def)

text \<open>The store of the run: one publication, in a given row, and the drafts.\<close>

definition demo_db :: "implementation_publication_row \<Rightarrow> draft_pr_artifact_record list \<Rightarrow> impl_db" where
  "demo_db row drafts = demo_publication_db\<lparr> idb_intents := [row], idb_draft_prs := drafts \<rparr>"

definition demo_at ::
    "implementation_publication_row \<Rightarrow> draft_pr_artifact_record list \<Rightarrow> nat \<Rightarrow> impl_history \<Rightarrow> nat \<Rightarrow> nat impl_state" where
  "demo_at row drafts w h k = \<lparr> ips_db = demo_db row drafts, ips_world = w, ips_history = h, ips_ticks = k \<rparr>"

definition demo_row :: "implementation_publication_row \<Rightarrow> bool" where
  "demo_row row \<longleftrightarrow> ipi_intent_id row = ''i1'' \<and> ipi_last_error_json row = None"

lemma demo_db_fields [simp]: "idb_intents (demo_db row ds) = [row]" "idb_draft_prs (demo_db row ds) = ds"
  "idb_artifacts (demo_db row ds) = [demo_implementation]" "run_exists (impl_base (demo_db row ds)) ''run''"
  "(demo_db row ds)\<lparr> idb_intents := [row'] \<rparr> = demo_db row' ds" "(demo_db row ds)\<lparr> idb_draft_prs := ds' \<rparr> = demo_db row ds'"
  by (simp_all add: demo_db_def demo_publication_db_def demo_impl_db_def impl_base_def spec_db_empty_def)

lemma demo_found:
  "demo_row row \<Longrightarrow> get_implementation_publication_intent small_env (demo_db row ds) ''i1'' = Inr (Some \<lparr> ipi_row = row, ipi_last_error = None \<rparr>)"
  by (simp add: demo_row_def get_implementation_publication_intent_def find_implementation_intent_def read_optional_def
      implementation_publication_from_row_def optional_from_json_def)

lemma demo_update:
  "demo_row row \<Longrightarrow> update_implementation_intent env ''i1'' f (demo_db row ds) = (demo_db (f row) ds, Inr 1)"
  by (simp add: demo_row_def update_implementation_intent_def Let_def update_where_def changed_rows_def
      one_nonterminal_publication_def List.map_filter_def split: option.split)

definition stepped :: "int \<Rightarrow> string \<Rightarrow> json \<Rightarrow> implementation_publication_row \<Rightarrow> implementation_publication_row" where
  "stepped now t p row = row\<lparr> ipi_completed_steps := add_step t (ipi_completed_steps row), ipi_status := PubPending,
     ipi_last_error_json := None, ipi_expected_projection := p, ipi_updated_at := now \<rparr>"

definition bound_row :: "int \<Rightarrow> implementation_publication_row \<Rightarrow> implementation_publication_row" where
  "bound_row now row = row\<lparr> ipi_comment_id := Some ''3'', ipi_publisher_login := Some ''bot'', ipi_updated_at := now \<rparr>"

lemma demo_row_keeps [simp]: "demo_row (stepped now t p row) \<longleftrightarrow> ipi_intent_id row = ''i1''"
  "demo_row (bound_row now row) \<longleftrightarrow> demo_row row" "ipi_comment_id (stepped now t p row) = ipi_comment_id row"
  "ipi_publisher_login (stepped now t p row) = ipi_publisher_login row" "ipi_intent_id (stepped now t p row) = ipi_intent_id row"
  "ipi_intent_id (bound_row now row) = ipi_intent_id row" "ipi_comment_id (bound_row now row) = Some ''3''"
  "ipi_publisher_login (bound_row now row) = Some ''bot''" "ipi_completed_steps (bound_row now row) = ipi_completed_steps row"
  "ipi_completed_steps (stepped now t p row) = add_step t (ipi_completed_steps row)"
  "expected_remote (stepped now t p row) = (case json_get p ''remote_sha'' of None \<Rightarrow> None | Some v \<Rightarrow> as_str v)"
  by (simp_all add: demo_row_def stepped_def bound_row_def expected_remote_def)

lemma demo_record: "demo_row row \<Longrightarrow> record_impl_step small_env po ''i1'' t p (demo_at row ds w h k)
    = (Inr (), demo_at (stepped (ipo_clock po k) t p row) ds w h (Suc k))"
  by (simp add: record_impl_step_def on_impl_store_def demo_at_def record_implementation_publication_step_def demo_found
      found_or_def Let_def demo_update ignoring_count_def stepped_def)

lemma three: "nat_digits 3 = ''3''" "parse_u64 ''3'' = Inr 3" "eq_ignore_ascii_case ''bot'' ''bot''"
proof -
  show "nat_digits 3 = ''3''" by (subst nat_digits.simps) code_simp
  show "parse_u64 ''3'' = Inr 3" by (simp add: parse_u64_def u64_max_def is_ascii_digit_def code_point_def)
  show "eq_ignore_ascii_case ''bot'' ''bot''" by (simp add: eq_ignore_ascii_case_def)
qed

lemma demo_bind: "demo_row row \<Longrightarrow> bind_implementation_comment small_env po ''i1'' 3 ''bot'' (demo_at row ds w h k)
    = (Inr (), demo_at (bound_row (ipo_clock po k) row) ds w h (Suc k))"
  by (simp add: bind_implementation_comment_def on_impl_store_def demo_at_def bind_implementation_publication_comment_def demo_update
      ignoring_count_def bound_row_def three(1))

lemma demo_reload: "demo_row row \<Longrightarrow> reload_impl_intent small_env ''i1'' (demo_at row ds w h k) = (Inr row, demo_at row ds w h k)"
  by (simp add: reload_impl_intent_def demo_at_def demo_found)

lemma demo_ask: "impl_ask c answer (demo_at row ds w h k) = (answer h, demo_at row ds w (h @ [(c, \<not> isl (answer h))]) k)"
  by (simp add: impl_ask_def demo_at_def Let_def)

lemma demo_upsert_new:
  assumes "demo_row row" "ipi_intent_id intent = ''i1''" "ipi_comment_id intent = None"
  shows "upsert_implementation_comment small_env demo_impl_port intent n body p (demo_at row ds w h k)
    = (Inr (), demo_at (bound_row (100000000000 * int k) row) ds w
         (h @ [(IcLogin, True), (IcListComments n p, True), (IcCreateComment n body, True)]) (Suc k))"
  using assms
  by (simp add: upsert_implementation_comment_def recover_implementation_comment_def and_then_def demo_ask give_def
      demo_impl_port_def demo_own_comment_def demo_bind)

lemma demo_upsert_again:
  assumes "ipi_intent_id intent = ''i1''" "ipi_comment_id intent = Some ''3''" "ipi_publisher_login intent = Some ''bot''"
  shows "upsert_implementation_comment small_env demo_impl_port intent n body p (demo_at row ds w h k)
    = (Inr (), demo_at row ds w (h @ [(IcLogin, True), (IcGetComment 3, True), (IcUpdateComment 3 body, True)]) k)"
  using assms
  by (simp add: upsert_implementation_comment_def parse_implementation_comment_id_def edit_implementation_comment_def
      and_then_def demo_ask give_def demo_impl_port_def demo_own_comment_def comment_author_def three)

lemma demo_port_answers [simp]:
  "ipo_login demo_impl_port h = Inr ''bot''" "ipo_list_labels demo_impl_port n h = Inr [''Approved'']"
  "ipo_project_state demo_impl_port n h = Inr (Some ''agent review'')" "ipo_remove_label demo_impl_port n l h = Inr ()"
  "ipo_set_state demo_impl_port n st h = Inr ()" "ipo_list_pulls demo_impl_port a b c p h = Inr []"
  "ipo_create_pull demo_impl_port t b hd' ba d h = Inr demo_pull" "ipo_clock demo_impl_port k = 100000000000 * int k"
  "ipo_git demo_impl_port = demo_git" "ipo_blob_path demo_impl_port = id" "ipo_new_id demo_impl_port k = ''p1''"
  by (simp_all add: demo_impl_port_def)

lemma demo_request_fields [simp]:
  "iau_issue_number demo_automatic_request = 7" "iau_branch demo_automatic_request = ''b''"
  "iau_base_branch demo_automatic_request = ''main''" "iau_remote_url demo_automatic_request = ''u''"
  "iau_approval_route_label demo_automatic_request = ''approved''" "iau_run_id demo_automatic_request = ''run''"
  "iau_completion_route_state demo_automatic_request = ''Agent Review''" "iau_bundle demo_automatic_request = demo_bundle"
  "iau_artifact demo_automatic_request = demo_implementation" "bar_head_commit demo_bundle = ''abc''"
  "iar_artifact_id demo_implementation = ''m1''" "publication_id demo_automatic_request = ''i1''"
  "\<not> publication_applied demo_automatic_request"
  by (simp_all add: demo_automatic_request_def demo_bundle_def demo_implementation_def publication_id_def
      demo_publication_row_def publication_applied_def)

lemma demo_push:
  assumes "demo_row row" "expected_remote row = None"
  shows "\<exists>h' p. push_publication_branch small_env demo_impl_port demo_automatic_request row (demo_at row ds 0 h k)
    = (Inr (), demo_at (stepped (100000000000 * int k) branch_pushed_step p row) ds 4 h' (Suc k))"
proof -
  have "branch_request_of demo_automatic_request row = demo_publish_request"
    using assms(2) by (simp add: branch_request_of_def demo_bundle_def demo_publish_request_def)
  with assms(1) demo_branch_pushed show ?thesis
    by (simp add: push_publication_branch_def Let_def and_then_def or_handle_def run_publish_branch_def demo_at_def)
      (auto simp: demo_at_def [symmetric] demo_record demo_row_def)
qed

definition demo_draft :: draft_pr_artifact_record where
  "demo_draft =
     \<lparr> dpr_artifact_id = ''p1'', dpr_run_id = ''run'', dpr_implementation_artifact_id = ''m1'', dpr_intent_id = ''i1'',
       dpr_number = 5, dpr_url = ''u5'', dpr_draft = True, dpr_head = ''b'', dpr_base = ''main'',
       dpr_head_sha = ''abc'', dpr_marker = pr_marker ''i1'', dpr_created_at = 300000000000 \<rparr>"

lemma demo_store_draft:
  assumes "demo_row row"
  shows "on_impl_store demo_impl_port (\<lambda>now n. store_draft_pr_artifact small_env now n (draft_request demo_automatic_request ''i1'' demo_pull))
    (demo_at row [] w h 3) = (Inr demo_draft, demo_at row [demo_draft] w h 4)"
  using assms
  by (simp add: on_impl_store_def demo_at_def store_draft_pr_artifact_def Let_def draft_request_def demo_pull_def
      demo_draft_def demo_row_def found_or_def get_draft_pr_artifact_def)

lemma demo_obtain:
  assumes "demo_row row"
  shows "\<exists>h' row'. draft_phase small_env demo_impl_port demo_automatic_request row (demo_at row [] w h 3)
    = (Inr (demo_draft, row'), demo_at row' [demo_draft] w h' 5) \<and> demo_row row' \<and> ipi_comment_id row' = ipi_comment_id row
      \<and> ipi_publisher_login row' = ipi_publisher_login row
      \<and> ipi_completed_steps row' = add_step pr_verified_step (ipi_completed_steps row)"
proof -
  have i: "ipi_intent_id row = ''i1''" using assms by (simp add: demo_row_def)
  have none: "stored_draft demo_automatic_request (ips_db (demo_at row [] w h' k)) = None" for h' k
    by (simp add: stored_draft_def get_draft_pr_for_implementation_artifact_def demo_at_def)
  have rec: "\<exists>h'. reconcile_draft_pr small_env demo_impl_port ''i1'' demo_automatic_request ''bot'' (demo_at row [] w h k)
      = (Inr demo_pull, demo_at row [] w h' k)" for h k
    by (simp add: reconcile_draft_pr_def list_candidates_def Let_def and_then_def demo_ask demo_settled
        create_draft_pr_def demo_pull_accepted give_def) (simp add: demo_at_def)
  obtain h1 where 1: "reconcile_draft_pr small_env demo_impl_port ''i1'' demo_automatic_request ''bot''
      (demo_at row [] w (h @ [(IcLogin, True)]) 3) = (Inr demo_pull, demo_at row [] w h1 3)" using rec by blast
  show ?thesis
    using none [of "h @ [(IcLogin, True)]" 3] assms
    by (simp add: draft_phase_def and_then_def demo_ask from_impl_store_def obtain_draft_def Let_def i 1
        demo_store_draft demo_record demo_reload give_def)
      blast
qed

lemma demo_hand_over:
  assumes "demo_row row"
  shows "\<exists>h' p. hand_over small_env demo_impl_port demo_automatic_request row n (demo_at row ds w h k)
    = (Inr (), demo_at (stepped (100000000000 * int k) route_applied_step p row) ds w h' (Suc k))"
proof -
  have eq: "eq_ignore_ascii_case ''Approved'' ''approved''" "eq_ignore_ascii_case (trim ''agent review'') ''Agent Review''"
    by code_simp+
  have i: "ipi_intent_id row = ''i1''" using assms by (simp add: demo_row_def)
  have route: "set_completion_route_state demo_impl_port 7 ''Agent Review'' completion_state_attempts (demo_at row ds w h0 k)
      = (Inr (), demo_at row ds w (h0 @ [(IcSetState 7 ''Agent Review'', True), (IcProjectState 7, True)]) k)" for h0
    unfolding completion_state_attempts_def numeral_3_eq_3 using eq(2) by (simp add: and_then_def demo_ask give_def)
  show ?thesis
    using assms eq(1) by (simp add: hand_over_def Let_def and_then_def demo_ask give_def route i demo_record) blast
qed

lemma demo_steps_distinct [simp]:
  "impl_pending_step \<noteq> branch_pushed_step" "impl_pending_step \<noteq> pr_verified_step" "impl_pending_step \<noteq> route_applied_step"
  "impl_pending_step \<noteq> comment_final_step" "branch_pushed_step \<noteq> pr_verified_step" "branch_pushed_step \<noteq> route_applied_step"
  "branch_pushed_step \<noteq> comment_final_step" "pr_verified_step \<noteq> route_applied_step" "pr_verified_step \<noteq> comment_final_step"
  "route_applied_step \<noteq> comment_final_step"
  by (simp_all add: impl_step_names)

lemma demo_after_draft:
  assumes row: "demo_row row" "ipi_comment_id row = Some ''3''" "ipi_publisher_login row = Some ''bot''"
    "ipi_completed_steps row = [impl_pending_step, branch_pushed_step, pr_verified_step]"
  shows "fst (after_draft small_env demo_impl_port demo_automatic_request row demo_draft (demo_at row [demo_draft] w h k)) = Inr demo_draft"
proof -
  have stored: "stored_draft demo_automatic_request (ips_db (demo_at row [demo_draft] w h k)) = Some demo_draft" for row h k
    by (simp add: stored_draft_def get_draft_pr_for_implementation_artifact_def demo_at_def demo_draft_def)
  obtain h' p where 1: "hand_over small_env demo_impl_port demo_automatic_request row (dpr_number demo_draft)
      (demo_at row [demo_draft] w h k)
    = (Inr (), demo_at (stepped (100000000000 * int k) route_applied_step p row) [demo_draft] w h' (Suc k))"
    using demo_hand_over [OF row(1)] by blast
  let ?row = "stepped (100000000000 * int k) route_applied_step p row"
  have i: "ipi_intent_id row = ''i1''" using row(1) by (simp add: demo_row_def)
  have 2: "unless_completed small_env route_applied_step row (hand_over small_env demo_impl_port demo_automatic_request row
      (dpr_number demo_draft)) (demo_at row [demo_draft] w h k) = (Inr ?row, demo_at ?row [demo_draft] w h' (Suc k))"
    using row i 1 by (simp add: unless_completed_def and_then_def demo_reload demo_steps_distinct [symmetric])
  have "fst (final_phase small_env demo_impl_port demo_automatic_request ?row demo_draft
      (demo_at ?row [demo_draft] w h' (Suc k))) = Inr ()"
    using row i by (simp add: final_phase_def and_then_def demo_upsert_again demo_record add_step_def demo_steps_distinct [symmetric])
  then obtain \<sigma>f where "final_phase small_env demo_impl_port demo_automatic_request ?row demo_draft
      (demo_at ?row [demo_draft] w h' (Suc k)) = (Inr (), \<sigma>f)" by (metis prod.collapse)
  with 2 stored show ?thesis
    by (simp add: after_draft_def and_then_def from_impl_store_def give_def)
qed

lemma demo_publication_run:
  "fst (publish_implementation_automatic small_env demo_impl_port demo_automatic_request demo_impl_state) = Inr demo_draft"
proof -
  let ?r0 = demo_publication_row and ?e = small_env and ?q = demo_automatic_request and ?p = demo_impl_port
  have r0: "demo_row ?r0" "ipi_intent_id ?r0 = ''i1''" "ipi_completed_steps ?r0 = []" "ipi_comment_id ?r0 = None"
    by (simp_all add: demo_row_def demo_publication_row_def)
  have s0: "demo_impl_state = demo_at ?r0 [] 0 [] 0"
    by (simp add: demo_impl_state_def demo_at_def demo_db_def demo_publication_db_def demo_impl_db_def)
  define p1 where "p1 = JObject [(''branch'', JString ''b''), (''bundle_sha256'', JString (bar_sha256 demo_bundle)),
      (''desired_head'', JString ''abc''), (''step'', JString impl_pending_step)]"
  obtain h1 where a: "announce_publication ?e ?p ?q ?r0 (demo_at ?r0 [] 0 [] 0)
      = (Inr (), demo_at (stepped 100000000000 impl_pending_step p1 (bound_row 0 ?r0)) [] 0 h1 2)"
      "json_get p1 ''remote_sha'' = None"
    using r0 by (simp add: announce_publication_def Let_def and_then_def demo_upsert_new demo_record p1_def numeral_2_eq_2)
  define r1 where "r1 = stepped 100000000000 impl_pending_step p1 (bound_row 0 ?r0)"
  have r1: "demo_row r1" "ipi_intent_id r1 = ''i1''" "ipi_completed_steps r1 = [impl_pending_step]"
      "ipi_comment_id r1 = Some ''3''" "ipi_publisher_login r1 = Some ''bot''" "expected_remote r1 = None"
    using r0 a(2) by (simp_all add: r1_def add_step_def)
  have 1: "unless_completed ?e impl_pending_step ?r0 (announce_publication ?e ?p ?q ?r0) (demo_at ?r0 [] 0 [] 0)
      = (Inr r1, demo_at r1 [] 0 h1 2)"
    using r0 a(1) r1(1) by (simp add: unless_completed_def and_then_def r1_def [symmetric] demo_reload)
  obtain h2 p2 where b: "push_publication_branch ?e ?p ?q r1 (demo_at r1 [] 0 h1 2)
      = (Inr (), demo_at (stepped 200000000000 branch_pushed_step p2 r1) [] 4 h2 3)"
    using demo_push [OF r1(1,6), of "[]" h1 2] by auto
  define r2 where "r2 = stepped 200000000000 branch_pushed_step p2 r1"
  have r2: "demo_row r2" "ipi_completed_steps r2 = [impl_pending_step, branch_pushed_step]"
      "ipi_comment_id r2 = Some ''3''" "ipi_publisher_login r2 = Some ''bot''"
    using r1 by (simp_all add: r2_def add_step_def demo_steps_distinct [symmetric])
  have 2: "unless_completed ?e branch_pushed_step r1 (push_publication_branch ?e ?p ?q r1) (demo_at r1 [] 0 h1 2)
      = (Inr r2, demo_at r2 [] 4 h2 3)"
    using r1 r2(1) b by (simp add: unless_completed_def and_then_def r2_def [symmetric] demo_reload demo_steps_distinct [symmetric])
  obtain h3 r3 where 3: "draft_phase ?e ?p ?q r2 (demo_at r2 [] 4 h2 3) = (Inr (demo_draft, r3), demo_at r3 [demo_draft] 4 h3 5)"
      and r3: "demo_row r3" "ipi_comment_id r3 = Some ''3''" "ipi_publisher_login r3 = Some ''bot''"
        "ipi_completed_steps r3 = [impl_pending_step, branch_pushed_step, pr_verified_step]"
    using demo_obtain [OF r2(1), of 4 h2] r2 by (auto simp: add_step_def demo_steps_distinct [symmetric])
  have "fst (publish_steps ?e ?p ?q ?r0 (demo_at ?r0 [] 0 [] 0)) = Inr demo_draft"
    using demo_after_draft [OF r3] by (simp add: publish_steps_def and_then_def 1 2 3)
  moreover have "ipi_row (iau_intent ?q) = ?r0" "ipi_kind ?r0 = ImplAutomaticPublication" "ipi_status ?r0 = PubPending"
      "iau_current_issue_revision ?q = iar_issue_revision demo_implementation"
    by (simp_all add: demo_automatic_request_def demo_publication_row_def demo_implementation_def)
  ultimately show ?thesis
    using r0 unfolding s0 by (simp add: publish_implementation_automatic_def Let_def and_then_def demo_reload)
qed

theorem handed_over_with_verified_draft_witness:
  "\<exists>\<sigma>' calls. publish_implementation_automatic small_env demo_impl_port demo_automatic_request demo_impl_state
       = (Inr demo_draft, \<sigma>')
     \<and> ips_history \<sigma>' = calls \<and> drafted demo_impl_port demo_automatic_request ''i1'' [] calls demo_draft
     \<and> created_after_look demo_impl_port demo_automatic_request ''i1'' [] calls
     \<and> all_steps_done (ips_db \<sigma>') ''i1''"
proof -
  obtain \<sigma>' where run: "publish_implementation_automatic small_env demo_impl_port demo_automatic_request demo_impl_state
      = (Inr demo_draft, \<sigma>')" using demo_publication_run by (metis prod.collapse)
  have start: "ips_history demo_impl_state = []" by (simp add: demo_impl_state_def)
  from handed_over_with_verified_draft [OF run] start obtain calls where
    calls: "ips_history \<sigma>' = calls" "one_creation demo_impl_port demo_automatic_request ''i1'' [] calls"
      "drafted demo_impl_port demo_automatic_request ''i1'' [] calls demo_draft" "all_steps_done (ips_db \<sigma>') ''i1''"
    by auto
  have "\<not> list_all (\<lambda>c. \<not> pull_creation c) calls"
    using calls(3) by (auto simp: drafted_def saw_pull_def listed_def)
  with calls run show ?thesis by (auto simp: one_creation_def)
qed

section \<open>The retry budget\<close>

lemma ready_after_charge:
  assumes "now + 30000000000 \<le> later"
  shows "automatic_retry_ready (Suc 0) now later"
proof -
  have "30 \<le> (later - now) div 1000000000" using assms by (simp add: zdiv_mono1 [where a = 30000000000, simplified])
  then show ?thesis
    using assms by (simp add: automatic_retry_ready_def automatic_backoff_secs_def num_seconds_def trunc_div_def)
qed

lemma records_of_charged: "publication_records env (charged fenv now e row) db = publication_records env row db"
proof -
  have "ipi_artifact_id (charged fenv now e row) = ipi_artifact_id row" "ipi_run_id (charged fenv now e row) = ipi_run_id row"
    by (simp_all add: charged_def)
  then show ?thesis unfolding publication_records_def by (simp only:)
qed

text \<open>C16. Retries are meant to be bounded: after eight charged failures a publication is blocked and
  shown to an operator. But a failure is compared with the stored error of the previous poll, so a
  failure of the coordinator that repeats word for word is charged once. Take the only pending
  publication of a store, let fetching its issue fail at every poll with the same error, short enough to
  be stored whole, and let half a minute pass between the first poll and the others: every later poll
  asks the tracker again, and however many there are the publication stays pending with one failure on
  its account. (The failures the publisher itself records, such as a pull request that is not visible,
  are charged at every poll.)\<close>

theorem repeated_failure_charged_once:
  assumes intent: "idb_intents (ips_db \<sigma>) = [row]" "ipi_status row = PubPending" "ipi_kind row = ImplAutomaticPublication"
      "ipi_last_error_json row = None" "ipi_retry_count row = 0"
    and records: "pen_routing env" "publication_records env row (ips_db \<sigma>) = Inr (artifact, bundle, issue_id)"
    and unreachable: "\<And>h. ipo_fetch_issue po issue_id h = Inl e" and whole: "stored_whole (pen_factory env) row e"
    and clock: "\<And>j k. j < ips_ticks \<sigma> + 3 \<Longrightarrow> ips_ticks \<sigma> + 3 \<le> k \<Longrightarrow> ipo_clock po j + 30000000000 \<le> ipo_clock po k"
  shows "\<exists>row'. idb_intents (ips_db (polls env po s (Suc n) \<sigma>)) = [row'] \<and> ipi_status row' = PubPending
    \<and> ipi_retry_count row' = 1
    \<and> ips_history (polls env po s (Suc n) \<sigma>) = ips_history \<sigma> @ replicate (Suc n) (IcFetchIssue issue_id, False)"
proof -
  let ?now = "ipo_clock po (Suc (ips_ticks \<sigma>))"
  let ?row = "charged (pen_factory env) ?now e row"
  have step: "polls env po s (Suc m) \<sigma> = snd (reconcile_pending_publications env po s (polls env po s m \<sigma>))" for m
    by (simp add: polls_def)
  have "idb_intents (ips_db (polls env po s (Suc n) \<sigma>)) = [?row]
    \<and> publication_records env ?row (ips_db (polls env po s (Suc n) \<sigma>)) = Inr (artifact, bundle, issue_id)
    \<and> ips_ticks \<sigma> + 3 \<le> ips_ticks (polls env po s (Suc n) \<sigma>)
    \<and> ips_history (polls env po s (Suc n) \<sigma>) = ips_history \<sigma> @ replicate (Suc n) (IcFetchIssue issue_id, False)"
  proof (induction n)
    case 0
    let ?\<sigma> = "\<sigma>\<lparr> ips_ticks := Suc (ips_ticks \<sigma>), ips_history := ips_history \<sigma> @ [(IcFetchIssue issue_id, False)] \<rparr>"
    have "polls env po s (Suc 0) \<sigma> = snd (charge_failure env po row e ?\<sigma>)"
      unfolding step using intent records unreachable
      by (subst poll_single [where err = "None" and artifact = "artifact" and bnd = "bundle" and issue_id = "issue_id"])
        (simp_all add: polls_def optional_from_json_def automatic_retry_ready_def)
    from first_charge [OF _ intent(2,4) this] intent(1) show ?case
      by (simp add: records(2) records_of_charged)
  next
    case (Suc n)
    let ?\<sigma> = "polls env po s (Suc n) \<sigma>"
    have ready: "automatic_retry_ready (ipi_retry_count ?row) (ipi_updated_at ?row) (ipo_clock po (ips_ticks ?\<sigma>))"
      using ready_after_charge [OF clock] Suc.IH by (simp add: charged_def intent(5))
    have "polls env po s (Suc (Suc n)) \<sigma> = snd (charge_failure env po ?row e
        (?\<sigma>\<lparr> ips_ticks := Suc (ips_ticks ?\<sigma>), ips_history := ips_history ?\<sigma> @ [(IcFetchIssue issue_id, False)] \<rparr>))"
      unfolding step [of "Suc n"] using Suc.IH intent records unreachable whole ready
      by (intro poll_single [where err = "Some (retryable_failure row e)"]) (simp_all add: charged_def stored_whole_def)
    also have "\<dots> = ?\<sigma>\<lparr> ips_ticks := Suc (ips_ticks ?\<sigma>), ips_history := ips_history ?\<sigma> @ [(IcFetchIssue issue_id, False)] \<rparr>"
      using Suc.IH whole by (subst later_charge [where row = row and now = ?now]) simp_all
    finally show ?case using Suc.IH by (simp add: replicate_append_same [symmetric] del: replicate_append_same)
  qed
  then show ?thesis by (intro exI [of _ ?row]) (simp add: charged_def intent(5))
qed

definition demo_failure :: symphony_error where
  "demo_failure = GithubApiRequest ''forge unreachable''"

text \<open>An environment whose error text is the code and the remediation, and reads back this failure.\<close>

definition demo_retry_env :: publication_env where
  "demo_retry_env =
     \<lparr> pen_impl = \<lparr> ien_factory = small_env\<lparr> fenv_error_text := fe_remediation,
           fenv_error_parse := (\<lambda>text. Inr (publication_error ''publication_retryable'' text True None)) \<rparr>,
         ien_blocker_parse = (\<lambda>_. Inl ''''), ien_ts = (\<lambda>_. '''') \<rparr>,
       pen_parse_url = (\<lambda>_. None), pen_digest = (\<lambda>_. ''''), pen_forge_host = ''github.com'', pen_routing = True,
       pen_pulls = True \<rparr>"

definition demo_service :: publication_service where
  "demo_service =
     (let route = (\<lambda>l. \<lparr> rm_label = l, rm_state = None \<rparr>)
      in \<lparr> psv_repo_owner = Some ''acme'', psv_repo_name = Some ''widgets'', psv_token = Some ''t'',
           psv_spec = spec_config_default,
           psv_routes = \<lparr> tr_implement = route ''ready-for-agent'', tr_spec = route ''ready-to-spec'',
             tr_needs_information = route ''needs-information'', tr_park = route ''parked'',
             tr_human_owned = route ''human-owned'' \<rparr>,
           psv_intake_label = ''ready-for-triage'', psv_intake_max_pages = 100 \<rparr>)"

lemma demo_failure_stored: "stored_whole (pen_factory demo_retry_env) demo_publication_row demo_failure"
proof -
  have t: "error_to_string demo_failure = ''GitHub API request error: forge unreachable''" by (simp add: demo_failure_def)
  have cut: "fe_remediation (retryable_failure demo_publication_row demo_failure) = error_to_string demo_failure"
    unfolding retryable_failure_def publication_error_def factory_error_new_def t by code_simp
  have "truncate_utf8_bytes (error_to_string demo_failure) (factory_error_string_max_bytes * 4) = error_to_string demo_failure"
    unfolding t by code_simp
  moreover have "ipi_completed_steps demo_publication_row = []" by (simp add: demo_publication_row_def)
  ultimately show ?thesis
    using cut by (simp add: stored_whole_def t optional_json_def optional_from_json_def pen_factory_def demo_retry_env_def
        retryable_failure_def last_step_def)
qed

theorem repeated_failure_charged_once_witness:
  "\<exists>row. idb_intents (ips_db (polls demo_retry_env demo_impl_port demo_service 20 demo_impl_state)) = [row]
     \<and> ipi_status row = PubPending \<and> ipi_retry_count row = 1
     \<and> length (ips_history (polls demo_retry_env demo_impl_port demo_service 20 demo_impl_state)) = 20"
proof -
  have db: "ips_db demo_impl_state = demo_publication_db" "ips_ticks demo_impl_state = 0" "ips_history demo_impl_state = []"
    by (simp_all add: demo_impl_state_def)
  have intents: "idb_intents (ips_db demo_impl_state) = [demo_publication_row]"
    by (simp add: db demo_publication_db_def)
  have fields: "ipi_status demo_publication_row = PubPending" "ipi_kind demo_publication_row = ImplAutomaticPublication"
      "ipi_last_error_json demo_publication_row = None" "ipi_retry_count demo_publication_row = 0"
    by (simp_all add: demo_publication_row_def)
  have records: "publication_records demo_retry_env demo_publication_row (ips_db demo_impl_state)
      = Inr (demo_implementation, demo_bundle, ''1'')"
    by (simp add: db publication_records_def demo_publication_row_def demo_publication_db_def get_implementation_artifact_def
        demo_implementation_def get_implementation_state_def read_optional_def implementation_state_from_row_def
        get_bundle_artifact_def demo_bundle_def get_run_by_id_def impl_base_def demo_impl_db_def spec_db_empty_def
        demo_store_def small_run_def)
  have "pen_routing demo_retry_env" by (simp add: demo_retry_env_def)
  from repeated_failure_charged_once [OF intents fields this records _ demo_failure_stored, of demo_impl_port demo_service 19]
  show ?thesis by (auto simp: demo_impl_port_def demo_failure_def db simp del: replicate_Suc)
qed

section \<open>Publications that are never taken up again\<close>

text \<open>The coordinator stores a diagnostic of a blocked implementation with the artifact of its manifest;
  reconciling publishes a diagnostic again only without one. A pending diagnostic whose first comment
  failed is passed over by every poll: no call is made and nothing changes.\<close>

lemma diagnostic_with_artifact_passed_over:
  assumes "ipi_kind (ipi_row intent) = ImplDiagnosticPublication" "ipi_artifact_id (ipi_row intent) = Some a"
  shows "snd (reconcile_intent env po s intent \<sigma>) = \<sigma>"
  using assms
  by (simp add: reconcile_intent_def reconcile_comment_intent_def Let_def and_then_def from_impl_store_def give_def
      split: option.split sum.split)

text \<open>Which failures of a push are final is read off the text of the error: any text that contains the
  word conflict, such as Git's own message for a repository or branch with the word in its name, makes
  the publication a conflict, which no later poll takes up.\<close>

lemma contains_str_after: "contains_str p s \<Longrightarrow> contains_str p (t @ s)"
  by (induction t) auto

lemma conflict_in_a_name_is_final:
  assumes "contains_str ''conflict'' output"
  shows "branch_failure_code (error_to_string (TriageError (''git ls-remote failed: '' @ output))) \<noteq> None"
proof -
  have "contains_str ''conflict'' ((''triage error: '' @ ''git ls-remote failed: '') @ output)"
    using assms by (rule contains_str_after)
  then show ?thesis by (simp add: branch_failure_code_def)
qed

text \<open>A branch is pushed onto a commit known from before only when the publication has recorded it; but
  the commit is recorded with the step that ends the pushing, so an expectation never reaches it.\<close>

lemma fresh_row_no_remote: "ipi_expected_projection row = JObject [] \<Longrightarrow> no_remote_yet row"
  by (simp add: no_remote_yet_def expected_remote_def)

lemma fast_forward_never_chosen:
  assumes "no_remote_yet row" "branch_pushed_step \<notin> set (ipi_completed_steps row)"
  shows "decide_branch_projection remote desired (bpr_expected_remote_sha (branch_request_of request row)) ancestor
    \<noteq> FastForwardPush"
  using assms
  by (auto simp: no_remote_yet_def branch_request_of_def Let_def decide_branch_projection_def split: option.split)

section \<open>Where a publication goes\<close>

text \<open>Whatever remote was pinned, an accepted one is the HTTPS address of the configured repository.\<close>

lemma resolved_remote_is_canonical:
  assumes "resolve_publication_remote parse_url effects host owner name = Inr url"
  shows "url = canonical_remote (rev (dropWhile (\<lambda>c. c = CHR ''/'') (rev (trim host))))
    (trim_matches (CHR ''/'') (trim owner)) (strip_git_suffix (trim_matches (CHR ''/'') (trim name)))"
  using assms by (auto simp: resolve_publication_remote_def Let_def split: if_splits option.splits sum.splits)

lemma backoff_bounds: "0 < k \<Longrightarrow> 30 \<le> automatic_backoff_secs k \<and> automatic_backoff_secs k \<le> 1800"
proof -
  have "(1::int) \<le> 2 ^ min (k - 1) 16" by simp
  then show ?thesis by (simp add: automatic_backoff_secs_def)
qed

end
