(* ===== verification/Spec2Isabelle.thy ===== *)
theory Spec2Isabelle
  imports ComponentProperties AccountingFacts EscalationProtocol FactoryProperties PublisherProperties
    StageProperties ReviewProperties ImplementationPublisherProperties
begin

text \<open>
  A model of Symphony, the program under \<open>apps/symphony/src\<close> that takes issues from a tracker,
  runs coding agents on them and drives what comes of it through triage, specification, review
  and verification. Paths below are relative to that directory.

  \<^bold>\<open>The parts and how they interact.\<close> The orchestrator polls the tracker, dispatches issues to
  workers, ingests their events and retries failed ones; it uses the ssh host pool, the path checks
  of the workspaces, the shared context store, the escalation registry and the token accounting.
  The factory works on issues too: a durable store hands out attempts of a stage, keeps their
  artifacts and records the steps of a publication; the publisher carries a decision to GitHub and
  takes it up again after a crash; the verification gate decides whether a change may be merged.

  \<^bold>\<open>The theories.\<close>
    \<^item> \<open>Prelude\<close>: hash maps as association lists with the laws of a map (a locale), strings, Rust's
      text operations, generic lemmas. \<open>Json\<close>: JSON values.
    \<^item> \<open>Domain\<close> (\<open>domain.rs\<close>, \<open>error.rs\<close>), \<open>Ssh\<close> (\<open>ssh.rs\<close>), \<open>PathSafety\<close> (\<open>path_safety.rs\<close>),
      \<open>SharedContext\<close> (\<open>shared_context.rs\<close>), \<open>TokenAccounting\<close> (\<open>codex/token_accounting.rs\<close>): one
      component each, with its own lemmas.
    \<^item> \<open>Escalation\<close> and \<open>EscalationProtocol\<close>: the registry of questions workers wait on, and its two
      critical sections interleaved with everything else, as an inductive step relation.
    \<^item> \<open>WorkerEvents\<close>, \<open>Orchestrator\<close>, \<open>WorkerLifecycle\<close>, \<open>Dispatch\<close>, \<open>Retry\<close>, \<open>WorkerPrompt\<close>,
      \<open>RunLoop\<close>: \<open>orchestrator.rs\<close> in its own order. The state is the record with prefix \<open>o_\<close>, one
      field per field of \<open>Orchestrator\<close>; \<open>RunLoop.orchestrator_step\<close> is one turn of \<open>run\<close>.
    \<^item> \<open>Scheduling\<close>, \<open>SchedulingPreserved\<close>, \<open>IssueFacts\<close>, \<open>DispatchFacts\<close>, \<open>CompletionFacts\<close>,
      \<open>TickFacts\<close>, \<open>AccountingFacts\<close>: an abstract view of the orchestrator (which issue runs, waits
      or is claimed, under which token), the simulation of every operation in it, the invariant of
      the reachable states, the evidence the agent-review gate asks for, what an operation on one issue
      leaves of another (\<open>agrees_at\<close> for the tables, \<open>asks_as_before\<close> for open questions), and what
      dispatch, completion and accounting do exactly.
    \<^item> \<open>Gate\<close>, \<open>GateFacts\<close> (\<open>verification/gate.rs\<close>): validation of the verifier's manifest and the gate.
    \<^item> \<open>FactoryDomain\<close> (\<open>triage/domain.rs\<close>), \<open>SpecDecision\<close> (\<open>spec/decision.rs\<close>,
      \<open>triage/correction.rs\<close>), \<open>TriageComment\<close> (\<open>triage/comment.rs\<close>).
    \<^item> \<open>FactoryStore\<close>, \<open>FactoryStoreFacts\<close> (\<open>triage/store.rs\<close>): tables as lists of rows with their
      unique and foreign keys, one definition per method of \<open>SqliteFactoryStore\<close>; each call is one
      transaction. The facts are a step relation over all operations and its invariant.
    \<^item> \<open>Publisher\<close>, \<open>PublisherFacts\<close> (\<open>triage/publisher.rs\<close>): the publisher as actions over the store
      and the history of its calls; triples for those actions and the invariant of a publication
      that may fail anywhere and be begun again.
    \<^item> \<open>SpecStage\<close>, \<open>SpecStageFacts\<close> (\<open>spec/\<close>): artifacts, findings, the pipeline of draft, review and
      revision turns, the published comment. \<open>SpecStore\<close>, \<open>SpecStoreFacts\<close>: its part of the store.
    \<^item> \<open>ImplementationStage\<close>, \<open>ImplementationFacts\<close> (\<open>implementation/\<close>): the manifest, the path of the
      specification, comments, validation cycles, the publication of a branch as actions over a Git
      port. \<open>ImplementationStore\<close>, \<open>ImplementationStoreFacts\<close>: its part of the store, its operations
      as steps that never remove an artifact.
    \<^item> \<open>ImplementationPublisher\<close>, \<open>ImplementationPublisherFacts\<close> (\<open>implementation/publisher.rs\<close>,
      \<open>implementation/automatic.rs\<close>, in \<open>implementation/coordinator.rs\<close> the methods
      \<open>reconcile_pending_publications\<close> and \<open>reconcile_automatic_publication\<close>, \<open>repo_url.rs\<close>): comments,
      and the five steps of an automatic publication (pending comment, branch, verified draft pull
      request, hand-over in the tracker, final comment) with the retry budget of the coordinator, as
      actions over the store, the Git world and the history of calls.
    \<^item> \<open>ReviewManifest\<close> (\<open>review/manifest.rs\<close>, \<open>review/findings.rs\<close>): the worker's findings and their
      validation, the inventory of a diff, the texts of a review. \<open>ReviewStore\<close>, \<open>ReviewStoreFacts\<close>: its
      part of the store as a transition system, the life cycle of findings and the publication
      lease. \<open>ReviewPublisher\<close>, \<open>ReviewPublisherFacts\<close> (\<open>review/publisher.rs\<close>): formal reviews and preview
      comments as actions over the store and the history of calls.
    \<^item> \<open>VerificationStore\<close>, \<open>VerificationStoreFacts\<close>: the verification stage's part of the store.
    \<^item> \<open>Examples\<close>: a concrete world and run the witnesses use. \<open>ComponentProperties\<close>,
      \<open>FactoryProperties\<close>, \<open>PublisherProperties\<close>, \<open>StageProperties\<close>, \<open>ReviewProperties\<close>,
      \<open>ImplementationPublisherProperties\<close> and this theory: the properties.

  The stages' databases are nested records: each holds the tables of the stage before in one field
  and adds its own, so that an operation of an earlier stage is an operation of a later database
  through that field.

  \<^bold>\<open>What stands for code outside.\<close> The record \<open>env\<close> holds what the orchestrator asks of the world
  (tracker, clock, workspaces, subprocesses), \<open>factory_env\<close> what the store asks of SQLite and
  serde_json (the text of a JSON value and of an error, the reading of such a text, the wording of
  constraint errors), \<open>impl_env\<close> and \<open>review_env\<close> the same for the later stages (with the text of a
  floating point number), \<open>github_port\<close> the two GitHub traits, \<open>git_port\<close> the Git process,
  \<open>impl_port\<close> GitHub as an implementation's publication uses it, with the clock and new ids, and
  \<open>review_port\<close> GitHub's reviews together with everybody else who writes the store between two calls.
  A port's answer may depend on the whole history of calls, so other people's changes are covered.
  In \<open>publication_env\<close> are the
  parser of URLs and the SHA-256 digest of an issue, in \<open>publication_service\<close> the configured repository
  and the token. While an implementation is published nobody else writes its store.
  The turns of an agent are an executor argument of the pipeline. All fields are arbitrary
  functions; what a property needs of them is a hypothesis in its statement. New ids and clock
  readings are arguments.

  \<^bold>\<open>Representation.\<close> Strings are lists of 8-bit characters read as the code points below 256, and
  three characters of the texts the program writes stand for code points above it, so the UTF-8
  length of a character is one to three bytes; operations on other code points are not covered. Hash
  maps are association lists whose order is the iteration order, about which nothing is assumed.
  Machine integers: \<open>u32\<close> slots, attempts and line numbers and \<open>u64\<close> token totals are bounded or
  wrapped where the code's behaviour depends on it; other \<open>u64\<close> counters and \<open>i64\<close> times are
  unbounded. A finite \<open>f64\<close> is the rational number it stands for. Times are integers; the store's
  RFC 3339 texts sort as they do. Where the code bounds something, the model has the same bound: 40
  symbolic links on a path, 1024 remembered escalation answers, depth five in the search for rate
  limits, 200 criteria, 8000 bytes of error and 65536 bytes of JSON, 256 KiB of review manifest, a
  heartbeat of one minute, a publication lease of 900 seconds, three attempts at a project state, eight
  charged retries of a publication with 30 to 1800 seconds between them. No fuel is used: every loop is
  structural or has a proved measure.

  \<^bold>\<open>What the lemmas show.\<close> C1 to C9, C11, C12 and C15 (this theory): the orchestrator's invariant, its
  tick, retry, completion and stall handling and the escalation protocol. C18, C21,
  C23, C24 and C27 (\<open>ComponentProperties\<close>): the smaller components. C30, C33 to C37
  (\<open>FactoryProperties\<close>): the gate, comments, and the store. C38 and C39 (\<open>PublisherProperties\<close>): what
  publication guarantees when calls fail, and the case where it does not. C10, C14, C17, C22, C25,
  C26 and C40 (\<open>StageProperties\<close>): the specification and implementation stages. C16 and C29
  (\<open>ImplementationPublisherProperties\<close>): the publication of an implementation and its retries. C13, C19, C20,
  C28, C31 and C32 (\<open>ReviewProperties\<close>): the review and verification stages. Further properties of
  the same kind, without a number, are beside them.

  \<^bold>\<open>Not modelled.\<close> The worker task and agent bridges, the event hub, HTTP server, terminal, doctor
  and supervisor (asynchronous I/O and presentation); the tracker clients (HTTP); configuration
  parsing (YAML); the coordinators, runners and executors of the factory's stages (asynchronous glue
  over the store, GitHub, Git and agent processes), but for what is named above: of the implementation
  coordinator \<open>poll\<close> and \<open>process_candidate\<close> are left out; sleeps, the join error of a blocking task and
  the events it emits while it publishes; the metrics of the store, which only read.
\<close>

section \<open>The orchestrator\<close>

text \<open>C1. In every state the running program can reach, whatever the world answers and however
  polls, worker events, results and operators interleave, an issue is claimed exactly while it
  runs, it never runs and waits for a retry at once, every running issue has its session
  tables, and every waiting retry holds the one current token of its issue.\<close>

theorem reachable_scheduling:
  assumes "orchestrator_reachable env s"
  shows "o_claimed s = set (hkeys (o_running s))
    \<and> (\<forall>i a. hget (o_running s) i = Some a \<longrightarrow>
          ra_issue_id a = i \<and> hget (o_retry_attempts s) i = None
          \<and> hget (o_running_session_stats s) i \<noteq> None \<and> hget (o_worker_session_info s) i \<noteq> None)
    \<and> (\<forall>i r. hget (o_retry_attempts s) i = Some r \<longrightarrow>
          re_issue_id r = i
          \<and> (\<exists>token. re_timer_handle r = Some token \<and> hget (o_retry_tokens s) i = Some token))
    \<and> (\<forall>i j token. hget (o_retry_tokens s) i = Some token \<and> hget (o_retry_tokens s) j = Some token
          \<longrightarrow> i = j)"
proof -
  have inv: "orch_inv s" using assms by (rule reachable_inv)
  show ?thesis
    by (intro conjI allI impI)
      (simp_all add: inv_claimed [OF inv] inv_running [OF inv] inv_retry [OF inv],
        blast intro: inv_token_inj [OF inv])
qed

lemma reachable_scheduling_witness:
  "o_claimed (poll_cycle (example_env [example_issue ''1'' ''Todo'']) example_ready)
     = set (hkeys (o_running (poll_cycle (example_env [example_issue ''1'' ''Todo'']) example_ready)))"
  using reachable_scheduling [OF example_reachable_poll] by blast

text \<open>C2. A tick never dispatches an issue twice and never one that is already running: the issues
  it reports are distinct, none of them ran in the reconciled state, each satisfies the static
  conditions of a candidate (required fields, assigned, active and not terminal, no excluded label,
  no parent), each now runs as a fresh first attempt on the host that was chosen, and every other
  issue is as reconciliation left it.\<close>

theorem tick_dispatches:
  assumes "tick_with_refresh env refresh s = (Inr res, t)"
  shows "distinct (map (\<lambda>d. i_id (di_issue d)) (tr_dispatched_issues res))
    \<and> (\<forall>d \<in> set (tr_dispatched_issues res).
          hget (o_running (reconciled env refresh s)) (i_id (di_issue d)) = None
          \<and> is_candidate_for_blocked_check (reconciled env refresh s) (di_issue d)
          \<and> i_parent_identifier (di_issue d) = None \<and> di_attempt d = None
          \<and> (\<exists>a. hget (o_running t) (i_id (di_issue d)) = Some a
                \<and> issue_run (di_worker_host d) None (di_issue d) a))
    \<and> (\<forall>i. i \<notin> (\<lambda>d. i_id (di_issue d)) ` set (tr_dispatched_issues res) \<longrightarrow>
          hget (o_running t) i = hget (o_running (reconciled env refresh s)) i)"
proof -
  from tick_refine [OF assms] obtain ds t0 b where
    ds: "dispatches env (reconciled env refresh s) ds t0" "tr_dispatched_issues res = ds"
    and t: "t = t0 \<or> t = t0\<lparr> o_blocked_issues := b \<rparr>" by blast
  have "o_running t = o_running t0" using t by auto
  then show ?thesis
    using dispatches_running [OF ds(1)] dispatches_eligible [OF ds(1)] ds(2) by simp
qed

lemma tick_dispatches_witness:
  "\<exists>d t a. tick_with_refresh (example_env [example_issue ''1'' ''Todo'']) False example_start
       = (Inr \<lparr> tr_dispatched_issues = [d], tr_dispatch_skipped = False \<rparr>, t)
     \<and> hget (o_running t) ''1'' = Some a \<and> ra_worker_host a = Some ''a'' \<and> ra_attempt a = None"
proof -
  obtain d t where run: "tick_with_refresh (example_env [example_issue ''1'' ''Todo'']) False example_start
      = (Inr \<lparr> tr_dispatched_issues = [d], tr_dispatch_skipped = False \<rparr>, t)"
    and d: "di_issue d = example_issue ''1'' ''Todo''" "di_worker_host d = Some ''a''"
    using example_tick_dispatch by blast
  from tick_dispatches [OF run] d run show ?thesis
    by (auto simp: issue_run_def example_issue_def)
qed

text \<open>C3. A tick respects the slots: whether it ends well or with an error, the number of running
  issues after it is at most the larger of what reconciliation left and the configured maximum,
  and a tick that ends well dispatches no more issues than there were free slots.\<close>

theorem tick_slot_bound:
  assumes "tick_with_refresh env refresh s = (r, t)"
    and "hlen (o_running (reconciled env refresh s)) < 2 ^ 32"
    and "o_max_concurrent_agents (reconciled env refresh s) \<le> u32_max"
  shows "hlen (o_running t)
      \<le> max (hlen (o_running (reconciled env refresh s))) (o_max_concurrent_agents (reconciled env refresh s))
    \<and> (\<forall>res. r = Inr res \<longrightarrow> length (tr_dispatched_issues res)
          \<le> o_max_concurrent_agents (reconciled env refresh s) - hlen (o_running (reconciled env refresh s)))"
proof -
  from tick_refine [OF assms(1)] obtain ds t0 b where
    ds: "dispatches env (reconciled env refresh s) ds t0" "\<forall>res. r = Inr res \<longrightarrow> tr_dispatched_issues res = ds"
    and t: "t = t0 \<or> t = t0\<lparr> o_blocked_issues := b \<rparr>" by blast
  have "o_running t = o_running t0" using t by auto
  then show ?thesis
    using dispatches_length [OF ds(1) assms(2,3)] ds(2) assms(2) by (auto simp: available_slots_def)
qed

lemma tick_slot_bound_witness:
  "hlen (o_running (snd (tick_with_refresh (example_env [example_issue ''1'' ''Todo'']) False example_start))) \<le> 10"
  using tick_slot_bound [of "example_env [example_issue ''1'' ''Todo'']" False example_start
      "fst (tick_with_refresh (example_env [example_issue ''1'' ''Todo'']) False example_start)"]
  by (simp add: example_tick_start u32_max_def)

text \<open>C4. Reconciliation is exact. When the tracker answers, an issue runs afterwards if and only
  if it ran before, the tracker still shows it, and everything the tracker shows of it is active, not
  terminal and assigned to the worker; when the tracker fails, nothing changes but what the call itself
  did to the world outside.\<close>

theorem reconcile_exact:
  "case fst (e_reconcile_running_issues env (hkeys (o_running s)) (o_world s)) of
     Inl err \<Rightarrow> reconcile_running env s
       = s\<lparr> o_world := snd (e_reconcile_running_issues env (hkeys (o_running s)) (o_world s)) \<rparr>
   | Inr issues \<Rightarrow>
       (\<forall>i. hget (o_running (reconcile_running env s)) i \<noteq> None \<longleftrightarrow>
          hget (o_running s) i \<noteq> None \<and> i \<in> i_id ` set issues
          \<and> \<not> (\<exists>x \<in> set issues. i_id x = i
                \<and> \<not> keeps_running (terminal_state_set s) (active_state_set s) x))"
proof (cases "fst (e_reconcile_running_issues env (hkeys (o_running s)) (o_world s))")
  case (Inl err)
  then show ?thesis by (simp add: reconcile_running_def call_eq Let_def)
next
  case (Inr issues)
  have "terminal_state_set (s\<lparr> o_world := w \<rparr>) = terminal_state_set s"
    "active_state_set (s\<lparr> o_world := w \<rparr>) = active_state_set s" for w
    by (simp_all add: terminal_state_set_def active_state_set_def)
  then show ?thesis
    using Inr
    by (auto simp: reconcile_running_def call_eq Let_def invisible_fold_running reconcile_fold_running
        hkeys_iff)
qed

text \<open>C5. The end of a running worker frees the issue and its claim, and then: a failure puts it
  in the retry queue with the next attempt number, the failure delay and the place it ran at, and
  takes it from the completed issues; a turn that wants to continue queues attempt 1 after the
  continuation delay; a finished issue is recorded as completed, with its identifier, its title and the
  time, and waits for nothing. No other issue is recorded or forgotten as completed.\<close>

theorem completion_outcome:
  assumes "hget (o_running s) i = Some a"
  shows "let (r, t) = handle_worker_completion env i completion now s
     in hget (o_running t) = (hget (o_running s))(i := None) \<and> o_claimed t = o_claimed s - {i}
        \<and> (case completion of
             Failed err \<Rightarrow> hget (o_completed t) = (hget (o_completed s))(i := None)
               \<and> (\<exists>token. r = Some token \<and> hget (o_retry_tokens t) i = Some token
                    \<and> hget (o_retry_attempts t) i = Some (retry_entry_for i a (failure_attempt a)
                          (now + retry_delay_ms s Failure (failure_attempt a)) token (Some err)))
           | Completed True \<Rightarrow> o_completed t = o_completed s
               \<and> (\<exists>token. r = Some token \<and> hget (o_retry_tokens t) i = Some token
                    \<and> hget (o_retry_attempts t) i = Some (retry_entry_for i a 1
                          (now + CONTINUATION_RETRY_DELAY_MS) token None))
           | Completed False \<Rightarrow> r = None \<and> hget (o_retry_attempts t) i = None
               \<and> hget (o_completed t)
                   = (hget (o_completed s))(i := Some (completed_entry_for i a (completion_time env i a s))))"
proof -
  obtain r t where rt: "handle_worker_completion env i completion now s = (r, t)"
    by (cases "handle_worker_completion env i completion now s")
  show ?thesis
  proof (cases completion)
    case (Failed err)
    then show ?thesis using completion_failed [OF assms, of env err now r t] rt by auto
  next
    case (Completed c)
    then show ?thesis
      using completion_continued [OF assms, of env now r t] completion_done [OF assms, of env now r t] rt
      by (cases c) auto
  qed
qed

lemma completion_outcome_witness:
  "\<exists>token. fst (handle_worker_completion (example_env []) ''1'' (Failed ''boom'') 5 example_running) = Some token"
proof -
  obtain a where "hget (o_running example_running) ''1'' = Some a"
    using example_running_attempt by auto
  from completion_outcome [OF this, of "example_env []" "Failed ''boom''" 5] show ?thesis
    by (auto simp: case_prod_unfold Let_def)
qed

text \<open>C6. Stall detection is exact and isolated: an issue that is not stalled keeps its row in every
  table keyed by issues and the questions about it that wait for an answer, whatever happens to the
  others; the list of blocked issues, the notes, the configuration and the memory of answered questions
  stay. Every stalled worker stops running, its questions are withdrawn, and its issue waits for a retry
  with the failure delay and the measured silence as its error. The registry must file each question
  under its own id, as it does in every reachable state.\<close>

theorem stall_detection_exact:
  assumes "registry_ok (o_escalation_registry s)"
  shows "(stalled_for i now timeout s = None \<longrightarrow> agrees_at i s (detect_stalled_workers env now timeout s)
         \<and> asks_as_before i s (detect_stalled_workers env now timeout s))
    \<and> (\<forall>a elapsed. hget (o_running s) i = Some a \<and> stalled_for i now timeout s = Some elapsed \<longrightarrow>
         hget (o_running (detect_stalled_workers env now timeout s)) i = None
         \<and> (\<forall>q. questions_of i (detect_stalled_workers env now timeout s) q = None)
         \<and> (\<exists>token. hget (o_retry_attempts (detect_stalled_workers env now timeout s)) i =
               Some (retry_entry_for i a (failure_attempt a)
                  (now + retry_delay_ms s Failure (failure_attempt a)) token (Some (stall_error elapsed)))))"
  using detect_stalled_kept [of i now timeout s env] detect_stalled_removed [of s i _ now timeout _ env]
    detect_stalled_questions [OF assms, of i now timeout env]
  by auto

lemma stall_detection_exact_witness:
  "hget (o_running (detect_stalled_workers (example_env []) 400000 300000 example_running)) ''1'' = None
    \<and> hget (o_retry_attempts (detect_stalled_workers (example_env []) 400000 300000 example_running)) ''1'' \<noteq> None"
proof -
  obtain a where a: "hget (o_running example_running) ''1'' = Some a"
    using example_running_attempt by auto
  have "registry_ok (o_escalation_registry example_running)"
    using example_running_inv by (simp add: orch_inv_def)
  from stall_detection_exact [OF this, of "''1''" 400000 300000 "example_env []"] a example_stalled
  show ?thesis by auto
qed

text \<open>C7. A retry fires at most once and never late: scheduling an issue again draws a token that no
  issue holds, so the superseded token is refused without touching the queue, the new one is accepted,
  and a second attempt with it is refused.\<close>

theorem stale_token_never_fires:
  assumes "orch_inv s"
    and "schedule_retry_with_context i ident n kind now err ctx s = (token, t)"
  shows "hget (o_retry_tokens s) j \<noteq> Some token
    \<and> (old \<noteq> token \<longrightarrow> fire_retry i old t = (False, emit_runtime_event (EvRetryIgnoredStale i old) t))
    \<and> fst (fire_retry i token t) \<and> \<not> fst (fire_retry i token (snd (fire_retry i token t)))"
proof -
  note eff = schedule_retry_effect [OF assms(2)]
  have "hget (o_retry_tokens s) j \<noteq> Some token"
    using tokens_ok_fresh [of "o_retry_tokens s" "o_next_retry_token s" j] assms(1) eff
    by (simp add: orch_inv_def)
  then show ?thesis using eff by (simp add: fire_retry_def hmember_def)
qed

lemma stale_token_never_fires_witness:
  "\<not> fst (fire_retry ''1'' ''retry-''
       (snd (schedule_retry_with_context ''1'' ''KAT-1'' 1 Failure 0 None
               \<lparr> rx_worker_host = None, rx_workspace_path = None, rx_session_id = None \<rparr> example_start)))"
proof -
  let ?ctx = "\<lparr> rx_worker_host = None, rx_workspace_path = None, rx_session_id = None \<rparr>"
  obtain token t where sched:
    "schedule_retry_with_context ''1'' ''KAT-1'' 1 Failure 0 None ?ctx example_start = (token, t)"
    by (cases "schedule_retry_with_context ''1'' ''KAT-1'' 1 Failure 0 None ?ctx example_start")
  have "''retry-'' \<noteq> token"
    using schedule_retry_effect [OF sched] unfolding retry_token_def
    by (metis append_self_conv nat_digits_not_Nil)
  then show ?thesis
    using stale_token_never_fires [OF example_start_inv sched, of _ "''retry-''"] sched by simp
qed

text \<open>C8. The delays: a continuation waits one second; a failure waits longer the more attempts
  failed, never longer than the configured cap nor 10240 seconds, and doubles from ten seconds as long as
  neither bound is reached.\<close>

theorem retry_delays:
  assumes "1 \<le> m" "m \<le> n"
  shows "retry_delay_ms s Continuation n = 1000
    \<and> retry_delay_ms s Failure m \<le> retry_delay_ms s Failure n
    \<and> 0 \<le> retry_delay_ms s Failure n
    \<and> retry_delay_ms s Failure n \<le> min 10240000 (int (ag_max_retry_backoff_ms (sc_agent (o_config s))))
    \<and> (n \<le> 11 \<and> 10000 * 2 ^ (n - 1) \<le> ag_max_retry_backoff_ms (sc_agent (o_config s)) \<longrightarrow>
         retry_delay_ms s Failure n = 10000 * 2 ^ (n - 1))"
proof -
  have mono: "retry_delay_ms s Failure m \<le> retry_delay_ms s Failure n"
  proof -
    have "min (m - 1) 10 \<le> min (n - 1) 10" using assms by auto
    then have "(10000::int) * 2 ^ min (m - 1) 10 \<le> 10000 * 2 ^ min (n - 1) 10"
      by (simp add: power_increasing)
    then show ?thesis
      unfolding failure_delay [OF assms(1)] failure_delay [OF order_trans [OF assms]]
      by (rule min.mono) (rule order_refl)
  qed
  have exact: "retry_delay_ms s Failure n = 10000 * 2 ^ (n - 1)"
    if "n \<le> 11" "10000 * 2 ^ (n - 1) \<le> ag_max_retry_backoff_ms (sc_agent (o_config s))"
  proof -
    have "(10000::int) * 2 ^ (n - 1) \<le> int (ag_max_retry_backoff_ms (sc_agent (o_config s)))"
      using that(2) by (metis of_nat_le_iff of_nat_mult of_nat_numeral of_nat_power)
    moreover have "(10000::int) * 2 ^ (n - 1) \<le> i64_max"
      using small_power [of "n - 1"] that(1) by (simp add: i64_max_def min_absorb1)
    ultimately show ?thesis using assms that(1) by (simp add: failure_delay min_absorb1)
  qed
  have "0 \<le> retry_delay_ms s Failure n"
    "retry_delay_ms s Failure n \<le> min 10240000 (int (ag_max_retry_backoff_ms (sc_agent (o_config s))))"
    using assms small_power [of "n - 1"] by (auto simp: failure_delay i64_max_def min_le_iff_disj)
  then show ?thesis
    using mono exact by (simp add: retry_delay_ms_def [of s Continuation] CONTINUATION_RETRY_DELAY_MS_def)
qed

lemma retry_delays_witness:
  "retry_delay_ms example_start Failure 3 = 40000"
  using retry_delays [of 1 3 example_start]
  by (simp add: example_start_def new_orchestrator_def example_config_def default_agent_config_def)

text \<open>C9. Issues are isolated from each other: an event of another issue's worker, the end of that
  worker, its release, and its move to a terminal state leave an issue its row in every table keyed by
  issues, and leave the list of blocked issues, the notes and the memory of answered questions alone.
  The last three also leave the questions about the issue waiting. An event is different: one that says
  that a question was answered, timed out or was cancelled takes the question it names from the registry,
  whichever issue the question is about, and no other. The registry must file each question under its
  own id, as it does in every reachable state.\<close>

theorem other_issues_untouched:
  assumes "i \<noteq> j" "i_id x = j" "registry_ok (o_escalation_registry s)"
  shows "agrees_at i s (ingest_agent_event env j event s)
    \<and> agrees_at i s (snd (handle_worker_completion env j completion now s))
    \<and> agrees_at i s (release_issue env j s) \<and> agrees_at i s (mark_issue_terminal env x hint c s)
    \<and> asks_as_before i s (snd (handle_worker_completion env j completion now s))
    \<and> asks_as_before i s (release_issue env j s) \<and> asks_as_before i s (mark_issue_terminal env x hint c s)
    \<and> questions_of i (ingest_agent_event env j event s)
        = (case escalation_closed event of
             None \<Rightarrow> questions_of i s | Some request_id \<Rightarrow> (questions_of i s)(request_id := None))
    \<and> rg_resolved (o_escalation_registry (ingest_agent_event env j event s))
        = rg_resolved (o_escalation_registry s)"
  using assms withdrawn_asks [OF withdrawn_completion [OF assms(3)] assms(1)]
    withdrawn_asks [OF withdrawn_release [OF assms(3)] assms(1)]
    withdrawn_asks [OF withdrawn_terminal [OF assms(3), of x env hint c]]
  by (simp add: agrees_ingest agrees_completion agrees_release agrees_mark_terminal questions_ingest)

lemma other_issues_untouched_witness:
  "hget (o_running (release_issue (example_env []) ''2'' example_running)) ''1'' \<noteq> None"
proof -
  have "agrees_at ''1'' example_running (release_issue (example_env []) ''2'' example_running)"
    using other_issues_untouched [where i = "''1''" and j = "''2''" and x = "example_issue ''2'' ''Todo''"
        and s = example_running and env = "example_env []"] example_running_inv
    by (simp add: example_issue_def orch_inv_def)
  moreover obtain a where "hget (o_running example_running) ''1'' = Some a"
    using example_running_attempt by auto
  ultimately show ?thesis by (simp add: agrees_at_def)
qed

text \<open>The per-host cap holds across a tick: no SSH host runs more workers afterwards than the
  larger of what it ran after reconciliation and the configured cap.\<close>

theorem tick_host_cap:
  assumes "tick_with_refresh env refresh s = (r, t)"
    and "wk_max_concurrent_agents_per_host (sc_worker (o_config (reconciled env refresh s))) = Some cap"
  shows "host_count h (hvals (o_running t))
    \<le> max (host_count h (hvals (o_running (reconciled env refresh s)))) cap"
proof -
  from tick_refine [OF assms(1)] obtain ds t0 b where
    ds: "dispatches env (reconciled env refresh s) ds t0"
    and t: "t = t0 \<or> t = t0\<lparr> o_blocked_issues := b \<rparr>" by blast
  have "o_running t = o_running t0" using t by auto
  then show ?thesis using dispatches_host_cap [OF ds assms(2)] by simp
qed

lemma tick_host_cap_witness:
  "host_count ''a'' (hvals (o_running
     (snd (tick_with_refresh (example_env [example_issue ''1'' ''Todo'']) False example_start)))) \<le> 1"
proof -
  let ?env = "example_env [example_issue ''1'' ''Todo'']"
  have "hvals (hempty :: (string, run_attempt) hmap) = []"
    using hvals_iff [of _ "hempty :: (string, run_attempt) hmap"]
    by (cases "hvals (hempty :: (string, run_attempt) hmap)") auto
  then show ?thesis
    using tick_host_cap [of ?env False example_start "fst (tick_with_refresh ?env False example_start)" _ 1 "''a''"]
    by (simp add: example_tick_start example_config_def host_count_def)
qed

text \<open>C11. No issue in agent review starts without evidence. The gate lets it through if and only if
  three commands succeed in its workspace and show that the branch has a name, that the remote has it,
  and that an open pull request goes from it to the configured base branch where there is one; otherwise
  the issue is not handed on. Whatever a tick dispatches in that state runs in a workspace where the gate
  was passed, and the clock reading that dates the run directly follows the three commands; the same
  holds of every issue a retry dispatches.\<close>

theorem review_needs_open_pull_request:
  "(\<forall>i path s j. normalize_issue_state (i_state i) = ''agent review'' \<longrightarrow>
       (fst (enforce_agent_review_pr_gate env i path s) = Inr (Some j)
          \<longleftrightarrow> j = i \<and> open_pull_request env path (required_base s) (o_world s)))
    \<and> (\<forall>refresh s res t. tick_with_refresh env refresh s = (Inr res, t) \<longrightarrow>
         (\<forall>d \<in> set (tr_dispatched_issues res).
            normalize_issue_state (i_state (di_issue d)) = ''agent review'' \<longrightarrow>
              (\<exists>a. hget (o_running t) (i_id (di_issue d)) = Some a
                 \<and> started_on_evidence env (required_base (reconciled env refresh s)) a)))
    \<and> (\<forall>now r s d t. process_retry env now r s = (Some d, t)
         \<and> normalize_issue_state (i_state (di_issue d)) = ''agent review'' \<longrightarrow>
           (\<exists>a. hget (o_running t) (i_id (di_issue d)) = Some a \<and> started_on_evidence env (required_base s) a))
    \<and> (\<forall>now s. \<forall>d \<in> set (fst (process_due_retries env now s)).
         normalize_issue_state (i_state (di_issue d)) = ''agent review'' \<longrightarrow>
           (\<exists>a. issue_run (di_worker_host d) (di_attempt d) (di_issue d) a
              \<and> started_on_evidence env (required_base s) a))"
proof (intro conjI allI impI ballI)
  fix refresh s res t d
  assume run: "tick_with_refresh env refresh s = (Inr res, t)" and d: "d \<in> set (tr_dispatched_issues res)"
    and review: "normalize_issue_state (i_state (di_issue d)) = ''agent review''"
  from tick_refine [OF run] obtain ds t0 b where
    ds: "dispatches env (reconciled env refresh s) ds t0" "tr_dispatched_issues res = ds"
    and t: "t = t0 \<or> t = t0\<lparr> o_blocked_issues := b \<rparr>" by blast
  have "o_running t = o_running t0" using t by auto
  then show "\<exists>a. hget (o_running t) (i_id (di_issue d)) = Some a
      \<and> started_on_evidence env (required_base (reconciled env refresh s)) a"
    using dispatches_on_evidence [OF ds(1) _ review] d ds(2) by simp
next
  fix now r s d t
  assume "process_retry env now r s = (Some d, t)
    \<and> normalize_issue_state (i_state (di_issue d)) = ''agent review''"
  then show "\<exists>a. hget (o_running t) (i_id (di_issue d)) = Some a \<and> started_on_evidence env (required_base s) a"
    using process_retry_on_evidence [of env now r s d t] by blast
next
  fix now s d
  assume "d \<in> set (fst (process_due_retries env now s))"
    and "normalize_issue_state (i_state (di_issue d)) = ''agent review''"
  then show "\<exists>a. issue_run (di_worker_host d) (di_attempt d) (di_issue d) a
      \<and> started_on_evidence env (required_base s) a"
    unfolding process_due_retries_def by (rule process_retries_on_evidence)
qed (rule gate_passes_iff)

lemma review_needs_open_pull_request_witness:
  "\<exists>a. hget (o_running (snd (tick_with_refresh reviewing_env False reviewing_start))) ''1'' = Some a
    \<and> started_on_evidence reviewing_env (required_base (reconciled reviewing_env False reviewing_start)) a"
proof -
  obtain d t where run: "tick_with_refresh reviewing_env False reviewing_start
      = (Inr \<lparr> tr_dispatched_issues = [d], tr_dispatch_skipped = False \<rparr>, t)" and d: "di_issue d = reviewing_issue"
    using reviewing_tick_dispatch by blast
  have "i_id reviewing_issue = ''1''" by (simp add: reviewing_issue_def example_issue_def)
  with conjunct1 [OF conjunct2 [OF review_needs_open_pull_request [of reviewing_env]], rule_format, OF run, of d]
  show ?thesis using run d reviewing_state by simp
qed

text \<open>C12. Every answer to a question of a worker is delivered at most once, however HTTP handlers,
  registrations and cancellations interleave.\<close>

theorem escalation_delivered_once:
  assumes "escalation_reachable y"
  shows "distinct (ey_delivered y)
    \<and> (\<forall>request_id e. hget (rg_pending (ey_registry y)) request_id = Some e
          \<longrightarrow> ee_response_tx e \<notin> set (ey_delivered y))"
proof -
  have ok: "system_ok y" using assms by (rule reachable_system_ok)
  have "ee_response_tx e \<in> ran (pending_tx (ey_registry y))"
    if "hget (rg_pending (ey_registry y)) request_id = Some e" for request_id e
    using that by (auto simp: pending_tx_def ran_def intro!: exI [of _ request_id])
  then show ?thesis using ok by (fastforce simp: system_ok_def channels_ok_def)
qed

lemma escalation_delivered_once_witness:
  "\<exists>y. escalation_reachable y \<and> ey_delivered y = [7] \<and> distinct (ey_delivered y)"
proof -
  obtain y where "escalation_reachable y" "ey_delivered y = [7]"
    using example_delivery by blast
  with escalation_delivered_once [OF this(1)] show ?thesis by blast
qed

text \<open>The memories shared with HTTP handlers stay bounded and well formed in every reachable
  state: at most 1024 answered ids are remembered, each once; a pending question is filed under its own
  id; and the store of notes never exceeds its limit, nor a note its 500 characters.\<close>

theorem reachable_bounded_memory:
  assumes "orchestrator_reachable env s"
  shows "length (rc_order (rg_resolved (o_escalation_registry s))) \<le> 1024
    \<and> distinct (rc_order (rg_resolved (o_escalation_registry s)))
    \<and> rc_ids (rg_resolved (o_escalation_registry s)) = set (rc_order (rg_resolved (o_escalation_registry s)))
    \<and> (\<forall>k e. hget (rg_pending (o_escalation_registry s)) k = Some e \<longrightarrow> er_id (ee_request e) = k)
    \<and> length (ss_entries (o_shared_context_store s)) \<le> ss_max_entries (o_shared_context_store s)
    \<and> (\<forall>e \<in> set (ss_entries (o_shared_context_store s)). length (cx_content e) \<le> 500)"
proof -
  have "orch_inv s" using assms by (rule reachable_inv)
  then have "registry_ok (o_escalation_registry s)" "store_ok (o_shared_context_store s)"
    by (simp_all add: orch_inv_def)
  then show ?thesis
    by (auto simp: registry_ok_def cache_ok_def store_ok_def ESCALATION_RESOLVED_CACHE_CAPACITY_def
        MAX_SHARED_CONTEXT_CONTENT_CHARS_def)
qed

lemma reachable_bounded_memory_witness:
  "length (rc_order (rg_resolved (o_escalation_registry
     (poll_cycle (example_env [example_issue ''1'' ''Todo'']) example_ready)))) \<le> 1024"
  using reachable_bounded_memory [OF example_reachable_poll] by blast

text \<open>Answering a waiting question whose worker still listens succeeds once: the answer is
  reported as resolved, and every later answer to the same question is reported as already resolved
  and changes nothing, until the id is registered again.\<close>

theorem resolve_then_already_resolved:
  assumes "registry_ok reg" "hget (rg_pending reg) request_id = Some e" "send (ee_response_tx e) response"
  shows "fst (resolve send request_id response reg) = Resolved
    \<and> resolve send' request_id response' (snd (resolve send request_id response reg))
        = (AlreadyResolved, snd (resolve send request_id response reg))"
proof -
  let ?st = "reg\<lparr> rg_pending := hdel request_id (rg_pending reg) \<rparr>"
  have first: "resolve send request_id response reg = (Resolved, resolve_record request_id ?st)"
    using assms by (simp add: resolve_def resolve_take_def)
  have "cache_contains (rg_resolved (resolve_record request_id ?st)) request_id"
    using assms(1) by (simp add: resolve_record_def registry_ok_def cache_insert_contains)
  moreover have "hget (rg_pending (resolve_record request_id ?st)) request_id = None"
    by (simp add: resolve_record_def)
  ultimately show ?thesis unfolding first by (simp add: resolve_def resolve_take_def)
qed

lemma resolve_then_already_resolved_witness:
  "fst (resolve (\<lambda>_ _. True) ''q'' \<lparr> es_request_id = ''q'', es_response = JNull, es_responder_id = None, es_responded_at = 0 \<rparr>
     (register example_request 7 empty_registry)) = Resolved"
proof -
  have ok: "registry_ok (register example_request 7 empty_registry)"
    by (rule registry_ok_register [OF registry_ok_empty])
  have pending: "hget (rg_pending (register example_request 7 empty_registry)) ''q''
      = Some \<lparr> ee_request = example_request, ee_response_tx = 7 \<rparr>"
    by (simp add: register_def example_request_def)
  show ?thesis
    using resolve_then_already_resolved [OF ok pending, of "\<lambda>_ _. True"] by simp
qed

text \<open>C15. Where the tracker refreshes the issue it is asked for, no tick both dispatches an issue
  and reports it as blocked by an unfinished dependency, and every blocked entry names a blocker.\<close>

theorem blocked_never_dispatched:
  assumes "refresh_faithful env" "tick_with_refresh env refresh s = (Inr res, t)"
    and "\<not> tr_dispatch_skipped res"
  shows "(\<lambda>d. i_id (di_issue d)) ` set (tr_dispatched_issues res) \<inter> set (map bi_issue_id (o_blocked_issues t)) = {}
    \<and> (\<forall>b \<in> set (o_blocked_issues t). bi_blocker_identifiers b \<noteq> [])"
proof -
  obtain u where "dispatch_phase env u = (Inr res, t)"
    using tick_ok [OF assms(2)] assms(3) by (auto simp: skipped_tick_def)
  from dispatch_phase_ok [OF this] obtain s1 cs t0 where
    run: "dispatch_candidates env (set (map bi_issue_id (blocked_entries s1 cs))) cs s1
      = (Inr (tr_dispatched_issues res), t0)" and t: "o_blocked_issues t = blocked_entries s1 cs"
    by (auto simp: Let_def)
  have "bi_blocker_identifiers b \<noteq> []" if "b \<in> set (blocked_entries s1 cs)" for b
    using that by (auto simp: blocked_entries_def is_blocked_by_dependency_def Let_def List.map_filter_def
        split: if_splits prod.splits)
  then show ?thesis
    using dispatch_candidates_unblocked [OF assms(1) run] t by auto
qed

lemma blocked_never_dispatched_witness:
  "\<exists>res t. tick_with_refresh (example_env [example_issue ''1'' ''Todo'']) False example_start = (Inr res, t)
     \<and> (\<lambda>d. i_id (di_issue d)) ` set (tr_dispatched_issues res) = {''1''}
     \<and> ''1'' \<notin> set (map bi_issue_id (o_blocked_issues t))"
proof -
  obtain d t where run: "tick_with_refresh (example_env [example_issue ''1'' ''Todo'']) False example_start
      = (Inr \<lparr> tr_dispatched_issues = [d], tr_dispatch_skipped = False \<rparr>, t)"
    and d: "di_issue d = example_issue ''1'' ''Todo''"
    using example_tick_dispatch by blast
  have "refresh_faithful (example_env [example_issue ''1'' ''Todo''])"
    by (auto simp: refresh_faithful_def example_env_def)
  from blocked_never_dispatched [OF this run] run d show ?thesis
    by (auto simp: example_issue_def)
qed

text \<open>Tokens are counted once and never wrap: after any batch of worker events the total is the
  old one plus what the completed turns of running issues report, stuck at the largest 64-bit value;
  events of issues that do not run count for nothing.\<close>

theorem drained_tokens:
  assumes "totals_ok (o_codex_totals s)"
  shows "ct_total_tokens (o_codex_totals (drain_ready_worker_events env events s))
    = min (ct_total_tokens (o_codex_totals s)
        + sum_list (map (\<lambda>(i, ev). snd (snd (event_usage ev)))
            (filter (\<lambda>(i, ev). hmember (o_running s) i) events))) u64_max"
  using assms by (rule totals_drain)

lemma drained_tokens_witness:
  "ct_total_tokens (o_codex_totals (drain_ready_worker_events (example_env [])
      [(''1'', TurnCompleted 0 None ''s'' None 3 4 7 None), (''2'', TurnCompleted 0 None ''s'' None 3 4 9 None)]
      example_running)) = 7"
proof -
  obtain a where a: "o_running example_running = hput ''1'' a hempty"
    using example_running_attempt by blast
  show ?thesis
    using drained_tokens [of example_running] example_running_totals
    by (simp add: a hmember_def totals_ok_def u64_max_def)
qed

end
